(* ===== verification/GoBig.thy ===== *)
theory GoBig
  imports Prelude "HOL-Library.Signed_Division"
begin

text \<open>
  The part of Go's \<open>math/big\<close> and \<open>strconv\<close> that the sources call: truncated division,
  Euclidean remainder, bit length, decimal text and the scanner behind \<open>SetString\<close> and
  \<open>UnmarshalText\<close> (with its base prefixes and digit separators), and \<open>strconv.ParseUint\<close>.
  A \<open>*big.Int\<close> that is not nil is an \<open>int\<close>.
\<close>

section \<open>Arithmetic\<close>

definition big_Sign :: "int \<Rightarrow> int" where
  "big_Sign x = sgn x"

definition big_Cmp :: "int \<Rightarrow> int \<Rightarrow> int" where
  "big_Cmp x y = (if x < y then -1 else if x = y then 0 else 1)"

definition big_Quo :: "int \<Rightarrow> int \<Rightarrow> int res" where
  "big_Quo x y = (if y = 0 then Inl (Panic ''division by zero'') else Inr (x sdiv y))"

definition big_Mod :: "int \<Rightarrow> int \<Rightarrow> int res" where
  "big_Mod x y = (if y = 0 then Inl (Panic ''division by zero'') else Inr (x mod \<bar>y\<bar>))"

fun bitlen_nat :: "nat \<Rightarrow> nat" where
  "bitlen_nat n = (if n = 0 then 0 else Suc (bitlen_nat (n div 2)))"

declare bitlen_nat.simps [simp del]

definition BitLen :: "int \<Rightarrow> nat" where
  "BitLen x = bitlen_nat (nat \<bar>x\<bar>)"

definition IsInt64 :: "int \<Rightarrow> bool" where
  "IsInt64 x = (- (2 ^ 63) \<le> x \<and> x < 2 ^ 63)"

definition IsUint64 :: "int \<Rightarrow> bool" where
  "IsUint64 x = (0 \<le> x \<and> x < 2 ^ 64)"

section \<open>Decimal text\<close>

definition digit_char :: "nat \<Rightarrow> char" where
  "digit_char d = char_of (48 + d)"

fun show_nat :: "nat \<Rightarrow> string" where
  "show_nat n = (if n < 10 then [digit_char n] else show_nat (n div 10) @ [digit_char (n mod 10)])"

declare show_nat.simps [simp del]

definition show_int :: "int \<Rightarrow> string" where
  "show_int x = (if x < 0 then CHR ''-'' # show_nat (nat (- x)) else show_nat (nat x))"

text \<open>The value of a character as a digit; anything else is above every base.\<close>

definition digit_val :: "char \<Rightarrow> nat" where
  "digit_val c =
     (if is_digit c then of_char c - 48
      else if is_lower c then of_char c - 87
      else if is_upper c then of_char c - 55
      else 63)"

text \<open>
  The scanner of \<open>nat.scan\<close>: what the previous character was, whether a misplaced separator
  was seen, how many digits were read, their value, and the rest of the input.
\<close>

datatype prev_ch = PrevOther | PrevDigit | PrevSep

fun scan_loop :: "bool \<Rightarrow> nat \<Rightarrow> prev_ch \<Rightarrow> bool \<Rightarrow> nat \<Rightarrow> nat \<Rightarrow> string
    \<Rightarrow> prev_ch \<times> bool \<times> nat \<times> nat \<times> string" where
  "scan_loop seps b prev inval count acc [] = (prev, inval, count, acc, [])"
| "scan_loop seps b prev inval count acc (c # cs) =
     (if c = CHR ''_'' \<and> seps
      then scan_loop seps b PrevSep (inval \<or> prev \<noteq> PrevDigit) count acc cs
      else if b \<le> digit_val c then (prev, inval, count, acc, c # cs)
      else scan_loop seps b PrevDigit inval (Suc count) (acc * b + digit_val c) cs)"

definition scan_end :: "bool \<Rightarrow> prev_ch \<times> bool \<times> nat \<times> nat \<times> string \<Rightarrow> nat option" where
  "scan_end octal st =
     (case st of (prev, inval, count, acc, rest) \<Rightarrow>
        if inval \<or> prev = PrevSep then None
        else if count = 0 \<and> \<not> octal then None
        else if rest \<noteq> [] then None
        else Some acc)"

definition scan10 :: "string \<Rightarrow> nat option" where
  "scan10 s = scan_end False (scan_loop False 10 PrevOther False 0 0 s)"

definition scan0 :: "string \<Rightarrow> nat option" where
  "scan0 s =
     (case s of
        c0 # c # cs \<Rightarrow>
          if c0 = CHR ''0'' then
            (if c = CHR ''b'' \<or> c = CHR ''B'' then
               scan_end False (scan_loop True 2 PrevDigit False 0 0 cs)
             else if c = CHR ''o'' \<or> c = CHR ''O'' then
               scan_end False (scan_loop True 8 PrevDigit False 0 0 cs)
             else if c = CHR ''x'' \<or> c = CHR ''X'' then
               scan_end False (scan_loop True 16 PrevDigit False 0 0 cs)
             else scan_end True (scan_loop True 8 PrevDigit False 0 0 (c # cs)))
          else scan_end False (scan_loop True 10 PrevOther False 0 0 s)
      | _ \<Rightarrow> scan_end False (scan_loop True 10 PrevOther False 0 0 s))"

definition with_sign :: "(string \<Rightarrow> nat option) \<Rightarrow> string \<Rightarrow> int option" where
  "with_sign scan s =
     (case s of
        [] \<Rightarrow> None
      | c # cs \<Rightarrow>
          if c = CHR ''-'' then map_option (\<lambda>n. - int n) (scan cs)
          else if c = CHR ''+'' then map_option int (scan cs)
          else map_option int (scan s))"

definition SetString10 :: "string \<Rightarrow> int option" where
  "SetString10 s = with_sign scan10 s"

definition SetString0 :: "string \<Rightarrow> int option" where
  "SetString0 s = with_sign scan0 s"

text \<open>\<open>strconv.ParseUint(s, 10, 32)\<close>: decimal digits only, within 32 bits.\<close>

definition ParseUint32 :: "string \<Rightarrow> nat option" where
  "ParseUint32 s =
     (if s = [] \<or> \<not> list_all is_digit s then None
      else (case scan10 s of
              None \<Rightarrow> None
            | Some n \<Rightarrow> if n < 2 ^ 32 then Some n else None))"

section \<open>Division\<close>

lemma sdiv_nonneg: "0 \<le> x \<Longrightarrow> 0 < y \<Longrightarrow> (x::int) sdiv y = x div y"
  by (simp add: signed_divide_int_def sgn_if)

lemma sdiv_minus_left: "0 < y \<Longrightarrow> (- x::int) sdiv y = - (x sdiv y)"
  by (simp add: signed_divide_int_def)

lemma sdiv_sdiv_mult: "0 < (c::int) \<Longrightarrow> ((a * c) sdiv b) sdiv c = a sdiv b"
proof (cases "a = 0 \<or> b = 0")
  case False
  assume c: "0 < c"
  have d: "\<bar>a * c\<bar> div \<bar>b\<bar> div c = \<bar>a\<bar> div \<bar>b\<bar>"
    using c by (simp add: abs_mult zdiv_zmult2_eq [symmetric] mult.commute [of "\<bar>a\<bar>"])
  have "0 \<le> \<bar>a * c\<bar> div \<bar>b\<bar>" using False by (simp add: pos_imp_zdiv_nonneg_iff)
  then show ?thesis using c d False
    by (cases "\<bar>a * c\<bar> div \<bar>b\<bar> = 0")
      (auto simp: signed_divide_int_def sgn_mult abs_mult abs_sgn_eq)
qed (auto simp: signed_divide_int_def)

lemma sdiv_neg: "x < 0 \<Longrightarrow> 0 < y \<Longrightarrow> (x::int) sdiv y = - ((- x) div y)"
  by (simp add: signed_divide_int_def)

lemma sdiv_smod: "(x::int) smod y = x - (x sdiv y) * y"
  using sdiv_mult_smod_eq [of x y] by linarith

lemma big_Quo_pos [simp]: "0 < y \<Longrightarrow> big_Quo x y = Inr (x sdiv y)"
  by (simp add: big_Quo_def)

lemma abs_sdiv: "\<bar>(x::int) sdiv y\<bar> = \<bar>x\<bar> div \<bar>y\<bar>"
proof -
  have "0 \<le> \<bar>x\<bar> div \<bar>y\<bar>" by (cases "y = 0") (auto simp: pos_imp_zdiv_nonneg_iff)
  then show ?thesis
    by (cases "x = 0"; cases "y = 0") (auto simp: signed_divide_int_def abs_mult abs_sgn_eq)
qed

lemma abs_sdiv_le: "\<bar>(x::int) sdiv y\<bar> \<le> \<bar>x\<bar>"
proof (cases "y = 0")
  case False
  then have "\<bar>x\<bar> div \<bar>y\<bar> \<le> \<bar>x\<bar> div 1" by (intro zdiv_mono2) auto
  then show ?thesis by (simp add: abs_sdiv)
qed (simp add: abs_sdiv)

section \<open>Bit length\<close>

lemma bitlen_nat_le: "bitlen_nat n \<le> k \<longleftrightarrow> n < 2 ^ k"
proof (induction k arbitrary: n)
  case 0
  then show ?case by (simp add: bitlen_nat.simps [of n])
next
  case (Suc k)
  show ?case
  proof (cases "n = 0")
    case False
    then have "bitlen_nat n \<le> Suc k \<longleftrightarrow> n div 2 < 2 ^ k"
      by (simp add: bitlen_nat.simps [of n] Suc.IH)
    then show ?thesis by (simp add: div_less_iff_less_mult mult.commute)
  qed (simp add: bitlen_nat.simps)
qed

lemma BitLen_le_iff: "BitLen x \<le> k \<longleftrightarrow> \<bar>x\<bar> < 2 ^ k"
proof -
  have "BitLen x \<le> k \<longleftrightarrow> nat \<bar>x\<bar> < 2 ^ k" by (simp add: BitLen_def bitlen_nat_le)
  also have "\<dots> \<longleftrightarrow> \<bar>x\<bar> < 2 ^ k" by (simp add: nat_less_iff)
  finally show ?thesis .
qed

lemma BitLen_gt_iff: "k < BitLen x \<longleftrightarrow> 2 ^ k \<le> \<bar>x\<bar>"
  using BitLen_le_iff [of x k] by linarith

lemma BitLen_0 [simp]: "BitLen 0 = 0"
  by (simp add: BitLen_def bitlen_nat.simps)

lemma BitLen_minus [simp]: "BitLen (- x) = BitLen x"
  by (simp add: BitLen_def)

section \<open>Reading back what is printed\<close>

lemma of_char_digit_char: "d < 10 \<Longrightarrow> (of_char (digit_char d) :: nat) = 48 + d"
  by (simp add: digit_char_def)

lemma digit_char_is_digit: "d < 10 \<Longrightarrow> is_digit (digit_char d)"
  by (simp add: is_digit_def less_eq_char_def of_char_digit_char)

lemma digit_val_digit_char: "d < 10 \<Longrightarrow> digit_val (digit_char d) = d"
  by (simp add: digit_val_def digit_char_is_digit of_char_digit_char)

lemma is_digit_val: "is_digit c \<Longrightarrow> digit_val c < 10"
  by (auto simp: digit_val_def is_digit_def less_eq_char_def)

lemma digit_char_0: "digit_char 0 = CHR ''0''"
  by code_simp

lemma is_digit_not_special:
  assumes "is_digit c"
  shows "c \<noteq> CHR ''_''" "c \<noteq> CHR ''-''" "c \<noteq> CHR ''+''" "c \<noteq> CHR ''.''" "c \<noteq> CHR '',''"
    "c \<noteq> CHR ''/''" "c \<noteq> CHR 0x27" "\<not> is_space c" "\<not> is_upper c" "\<not> is_lower c"
  using assms by (auto simp: is_digit_def less_eq_char_def is_space_def is_upper_def is_lower_def)

lemma show_nat_digits: "\<forall>c\<in>set (show_nat n). is_digit c"
proof (induction n rule: show_nat.induct)
  case (1 n)
  then show ?case by (auto simp: show_nat.simps [of n] digit_char_is_digit)
qed

lemma show_nat_nonempty [simp]: "show_nat n \<noteq> []"
  by (subst show_nat.simps) simp

lemma show_nat_length_pos [simp]: "0 < length (show_nat n)"
  by (simp add: length_greater_0_conv)

text \<open>Reading a run of decimal digits accumulates their value, whatever the separator mode.\<close>

fun dec_value :: "nat \<Rightarrow> string \<Rightarrow> nat" where
  "dec_value acc [] = acc"
| "dec_value acc (c # cs) = dec_value (acc * 10 + digit_val c) cs"

lemma dec_value_append: "dec_value acc (s @ t) = dec_value (dec_value acc s) t"
  by (induction s arbitrary: acc) auto

lemma dec_value_acc: "dec_value acc s = acc * 10 ^ length s + dec_value 0 s"
proof (induction s arbitrary: acc)
  case (Cons c cs)
  from Cons.IH [of "acc * 10 + digit_val c"] Cons.IH [of "digit_val c"]
  show ?case by (simp add: algebra_simps)
qed simp

lemma dec_value_show_nat: "dec_value 0 (show_nat n) = n"
proof (induction n rule: show_nat.induct)
  case (1 n)
  then show ?case
    by (simp add: show_nat.simps [of n] dec_value_append digit_val_digit_char)
qed

lemma scan_loop_digits:
  "\<forall>c\<in>set s. is_digit c \<Longrightarrow> s \<noteq> [] \<Longrightarrow>
   scan_loop seps 10 prev inval count acc s = (PrevDigit, inval, count + length s, dec_value acc s, [])"
proof (induction s arbitrary: prev count acc)
  case (Cons c cs)
  then have c: "digit_val c < 10" "c \<noteq> CHR ''_''"
    using is_digit_val is_digit_not_special(1) by auto
  show ?case
  proof (cases "cs = []")
    case False
    with Cons c show ?thesis by (simp add: not_le)
  qed (use c in \<open>simp add: not_le\<close>)
qed simp

lemma scan10_digits: "\<forall>c\<in>set s. is_digit c \<Longrightarrow> s \<noteq> [] \<Longrightarrow> scan10 s = Some (dec_value 0 s)"
  by (simp add: scan10_def scan_loop_digits scan_end_def)

lemma scan10_show_nat [simp]: "scan10 (show_nat n) = Some n"
  by (simp add: scan10_digits show_nat_digits dec_value_show_nat)

lemma show_nat_hd: "hd (show_nat n) = CHR ''0'' \<longleftrightarrow> n = 0"
proof (induction n rule: show_nat.induct)
  case (1 n)
  show ?case
  proof (cases "n < 10")
    case True
    then have "hd (show_nat n) = digit_char n" by (simp add: show_nat.simps [of n])
    moreover have "digit_char n = CHR ''0'' \<longleftrightarrow> n = 0"
      using digit_val_digit_char [OF True] digit_val_digit_char [of 0] digit_char_0
      by fastforce
    ultimately show ?thesis by simp
  next
    case False
    with 1 show ?thesis by (simp add: show_nat.simps [of n])
  qed
qed

lemma scan0_plain:
  assumes "\<forall>c\<in>set s. is_digit c" and "s \<noteq> []" and "hd s \<noteq> CHR ''0'' \<or> s = ''0''"
  shows "scan0 s = Some (dec_value 0 s)"
proof (cases s)
  case (Cons c cs)
  show ?thesis
  proof (cases cs)
    case Nil
    with assms Cons show ?thesis by (simp add: scan0_def scan_loop_digits scan_end_def del: scan_loop.simps)
  next
    case (Cons d ds)
    with \<open>s = c # cs\<close> assms have "c \<noteq> CHR ''0''" by auto
    with Cons \<open>s = c # cs\<close> assms show ?thesis
      by (simp add: scan0_def scan_loop_digits scan_end_def del: scan_loop.simps)
  qed
qed (use assms in simp)

lemma scan0_show_nat [simp]: "scan0 (show_nat n) = Some n"
proof -
  have "hd (show_nat n) \<noteq> CHR ''0'' \<or> show_nat n = ''0''"
  proof (cases "n = 0")
    case True
    then show ?thesis by (simp add: show_nat.simps digit_char_0)
  qed (simp add: show_nat_hd)
  then show ?thesis
    using scan0_plain [OF show_nat_digits show_nat_nonempty] by (simp add: dec_value_show_nat)
qed

lemma with_sign_show_int:
  assumes "\<And>n. scan (show_nat n) = Some n"
  shows "with_sign scan (show_int x) = Some x"
proof (cases "x < 0")
  case True
  then show ?thesis by (simp add: with_sign_def show_int_def assms)
next
  case False
  obtain c cs where s: "show_nat (nat x) = c # cs"
    using show_nat_nonempty by (cases "show_nat (nat x)") auto
  have "is_digit c" using show_nat_digits [of "nat x"] s by auto
  then have "c \<noteq> CHR ''-''" "c \<noteq> CHR ''+''" using is_digit_not_special by auto
  with False show ?thesis
    by (simp add: with_sign_def show_int_def s assms [of "nat x", unfolded s])
qed

lemma SetString10_show_int [simp]: "SetString10 (show_int x) = Some x"
  by (simp add: SetString10_def with_sign_show_int)

lemma SetString0_show_int [simp]: "SetString0 (show_int x) = Some x"
  by (simp add: SetString0_def with_sign_show_int)

lemma with_sign_digits:
  assumes "s \<noteq> []" and "is_digit (hd s)"
  shows "with_sign scan s = map_option int (scan s)"
  using assms is_digit_not_special by (cases s) (auto simp: with_sign_def)

lemma SetString10_digits:
  "s \<noteq> [] \<Longrightarrow> \<forall>c\<in>set s. is_digit c \<Longrightarrow> SetString10 s = Some (int (dec_value 0 s))"
  by (simp add: SetString10_def with_sign_digits scan10_digits)

lemma ParseUint32_show_nat: "n < 2 ^ 32 \<Longrightarrow> ParseUint32 (show_nat n) = Some n"
  using show_nat_digits [of n] by (simp add: ParseUint32_def list_all_iff)

lemma ParseUint32_bound: "ParseUint32 s = Some n \<Longrightarrow> n < 2 ^ 32"
  by (auto simp: ParseUint32_def split: if_splits option.splits)

section \<open>Order of digit strings\<close>

lemma dec_value_zeros: "dec_value 0 (replicate n (CHR ''0'') @ s) = dec_value 0 s"
  by (induction n) (simp_all add: digit_val_digit_char [of 0, unfolded digit_char_0])

lemma is_digit_0: "is_digit (CHR ''0'')"
  using digit_char_is_digit [of 0] by (simp add: digit_char_0)

lemma show_nat_length: "n < 10 ^ k \<Longrightarrow> 0 < k \<Longrightarrow> length (show_nat n) \<le> k"
proof (induction n arbitrary: k rule: show_nat.induct)
  case (1 n)
  show ?case
  proof (cases "n < 10")
    case False
    with "1.prems" obtain j where j: "k = Suc j" "0 < j" by (cases k; cases "k - 1") auto
    with "1.prems" have "n div 10 < 10 ^ j" by (simp add: div_less_iff_less_mult mult.commute)
    with "1.IH" False j show ?thesis by (simp add: show_nat.simps [of n])
  qed (use "1.prems" in \<open>simp add: show_nat.simps [of n]\<close>)
qed

lemma digit_less: "is_digit c \<Longrightarrow> is_digit d \<Longrightarrow> c < d \<longleftrightarrow> digit_val c < digit_val d"
  by (auto simp: digit_val_def is_digit_def less_eq_char_def less_char_def)

lemma digit_eq: "is_digit c \<Longrightarrow> is_digit d \<Longrightarrow> digit_val c = digit_val d \<Longrightarrow> c = d"
  using digit_less [of c d] digit_less [of d c] by (metis less_irrefl neqE)

lemma dec_value_bound: "\<forall>c\<in>set s. is_digit c \<Longrightarrow> dec_value 0 s < 10 ^ length s"
proof (induction s)
  case (Cons c s)
  then have "digit_val c \<le> 9" using is_digit_val [of c] by auto
  then have "digit_val c * 10 ^ length s \<le> 9 * 10 ^ length s" by (intro mult_right_mono) auto
  moreover have "dec_value 0 (c # s) = digit_val c * 10 ^ length s + dec_value 0 s"
    using dec_value_acc [of "digit_val c" s] by simp
  moreover have "dec_value 0 s < 10 ^ length s" using Cons by simp
  moreover have "(10::nat) ^ length (c # s) = 9 * 10 ^ length s + 10 ^ length s" by simp
  ultimately show ?case by linarith
qed simp

text \<open>Digit strings of one length are ordered as the numbers they denote.\<close>

lemma digits_less_iff:
  assumes "length s = length t" and "\<forall>c\<in>set (s @ t). is_digit c"
  shows "s < t \<longleftrightarrow> dec_value 0 s < dec_value 0 t"
  using assms
proof (induction s t rule: list_induct2)
  case (Cons c s d t)
  let ?p = "10 ^ length t :: nat"
  have bs: "dec_value 0 s < ?p" "dec_value 0 t < ?p"
    using dec_value_bound [of s] dec_value_bound [of t] Cons by auto
  have vs: "dec_value 0 (c # s) = digit_val c * ?p + dec_value 0 s"
      "dec_value 0 (d # t) = digit_val d * ?p + dec_value 0 t"
    using dec_value_acc [of "digit_val c" s] dec_value_acc [of "digit_val d" t] Cons.hyps by simp_all
  have dg: "is_digit c" "is_digit d" using Cons.prems by auto
  consider "digit_val c < digit_val d" | "c = d" | "digit_val d < digit_val c"
    using digit_eq [OF dg] by linarith
  then show ?case
  proof cases
    case 1
    then have "(digit_val c + 1) * ?p \<le> digit_val d * ?p" by (intro mult_right_mono) auto
    with bs have "dec_value 0 (c # s) < dec_value 0 (d # t)" unfolding vs by simp
    with 1 show ?thesis using digit_less [OF dg] by (simp add: Cons_less_Cons)
  next
    case 2
    with Cons show ?thesis unfolding vs by simp
  next
    case 3
    then have "(digit_val d + 1) * ?p \<le> digit_val c * ?p" by (intro mult_right_mono) auto
    with bs have "dec_value 0 (d # t) < dec_value 0 (c # s)" unfolding vs by simp
    moreover have "\<not> c # s < d # t" using 3 digit_less [OF dg] by (auto simp: Cons_less_Cons)
    ultimately show ?thesis by simp
  qed
qed simp

lemma less_insert_same:
  "length w = length w' \<Longrightarrow> (w @ c # f) < (w' @ c # f') \<longleftrightarrow> (w @ f) < (w' @ f' :: string)"
proof (induction w w' rule: list_induct2)
  case (Cons x w y w')
  then show ?case by (simp add: Cons_less_Cons)
qed simp

end
