(* ===== verification/SdkInt.thy ===== *)
theory SdkInt
  imports GoBig
begin

text \<open>
  \<open>types/int.go\<close>: the 255-bit bounded integer \<open>Int\<close>. A non-nil \<open>Int\<close> is the integer it
  wraps; the functions that distinguish the nil pointer take an \<open>int option\<close>. Every panic of
  the source is an \<open>Inl (Panic _)\<close> result.
\<close>

section \<open>Constructors and conversions\<close>

definition maxBitLen :: nat where
  "maxBitLen = 255"

definition newIntegerFromString :: "string \<Rightarrow> int option" where
  "newIntegerFromString s = SetString0 s"

definition Int_BigInt :: "int option \<Rightarrow> int option" where
  "Int_BigInt i = (if i = None then None else i)"

definition Int_IsNil :: "int option \<Rightarrow> bool" where
  "Int_IsNil i = (i = None)"

definition NewInt :: "64 word \<Rightarrow> int" where
  "NewInt n = sint n"

definition NewIntFromUint64 :: "64 word \<Rightarrow> int" where
  "NewIntFromUint64 n = uint n"

definition NewIntFromBigInt :: "int \<Rightarrow> int res" where
  "NewIntFromBigInt i =
     (if maxBitLen < BitLen i then Inl (Panic ''NewIntFromBigInt() out of bound'') else Inr i)"

text \<open>The Go function returns \<open>(res, ok)\<close>; \<open>None\<close> is \<open>ok = false\<close>.\<close>

definition NewIntFromString :: "string \<Rightarrow> int option" where
  "NewIntFromString s =
     (case newIntegerFromString s of
        None \<Rightarrow> None
      | Some i \<Rightarrow> if maxBitLen < BitLen i then None else Some i)"

definition NewIntWithDecimal :: "64 word \<Rightarrow> int \<Rightarrow> int res" where
  "NewIntWithDecimal n dec =
     (if dec < 0 then Inl (Panic ''NewIntWithDecimal() decimal is negative'')
      else
        let i = sint n * 10 ^ nat dec
        in if maxBitLen < BitLen i then Inl (Panic ''NewIntWithDecimal() out of bound'') else Inr i)"

definition ZeroInt :: int where
  "ZeroInt = 0"

definition OneInt :: int where
  "OneInt = 1"

definition Int_IsInt64 :: "int \<Rightarrow> bool" where
  "Int_IsInt64 i = IsInt64 i"

definition Int_Int64 :: "int \<Rightarrow> (64 word) res" where
  "Int_Int64 i =
     (if \<not> IsInt64 i then Inl (Panic ''Int64() out of bound'') else Inr (word_of_int i))"

definition Int_IsUint64 :: "int \<Rightarrow> bool" where
  "Int_IsUint64 i = IsUint64 i"

definition Int_Uint64 :: "int \<Rightarrow> (64 word) res" where
  "Int_Uint64 i =
     (if \<not> IsUint64 i then Inl (Panic ''Uint64() out of bounds'') else Inr (word_of_int i))"

section \<open>Comparisons\<close>

definition Int_Sign :: "int \<Rightarrow> int" where
  "Int_Sign i = big_Sign i"

definition Int_IsZero :: "int \<Rightarrow> bool" where
  "Int_IsZero i = (big_Sign i = 0)"

definition Int_IsNegative :: "int \<Rightarrow> bool" where
  "Int_IsNegative i = (big_Sign i = -1)"

definition Int_IsPositive :: "int \<Rightarrow> bool" where
  "Int_IsPositive i = (big_Sign i = 1)"

definition Int_Equal :: "int \<Rightarrow> int \<Rightarrow> bool" where
  "Int_Equal i i2 = (big_Cmp i i2 = 0)"

definition Int_GT :: "int \<Rightarrow> int \<Rightarrow> bool" where
  "Int_GT i i2 = (big_Cmp i i2 = 1)"

definition Int_GTE :: "int \<Rightarrow> int \<Rightarrow> bool" where
  "Int_GTE i i2 = (0 \<le> big_Cmp i i2)"

definition Int_LT :: "int \<Rightarrow> int \<Rightarrow> bool" where
  "Int_LT i i2 = (big_Cmp i i2 = -1)"

definition Int_LTE :: "int \<Rightarrow> int \<Rightarrow> bool" where
  "Int_LTE i i2 = (big_Cmp i i2 \<le> 0)"

section \<open>Arithmetic\<close>

definition Int_Add :: "int \<Rightarrow> int \<Rightarrow> int res" where
  "Int_Add i i2 =
     (let r = i + i2 in if maxBitLen < BitLen r then Inl (Panic ''Int overflow'') else Inr r)"

definition Int_AddRaw :: "int \<Rightarrow> 64 word \<Rightarrow> int res" where
  "Int_AddRaw i i2 = Int_Add i (NewInt i2)"

definition Int_Sub :: "int \<Rightarrow> int \<Rightarrow> int res" where
  "Int_Sub i i2 =
     (let r = i - i2 in if maxBitLen < BitLen r then Inl (Panic ''Int overflow'') else Inr r)"

definition Int_SubRaw :: "int \<Rightarrow> 64 word \<Rightarrow> int res" where
  "Int_SubRaw i i2 = Int_Sub i (NewInt i2)"

text \<open>
  \<open>Mul\<close> first bounds the operands' bit lengths (signed arithmetic in the source, so the
  subtraction of one never wraps), then the product.
\<close>

definition Int_Mul :: "int \<Rightarrow> int \<Rightarrow> int res" where
  "Int_Mul i i2 =
     (if int maxBitLen < int (BitLen i) + int (BitLen i2) - 1 then Inl (Panic ''Int overflow'')
      else
        let r = i * i2 in if maxBitLen < BitLen r then Inl (Panic ''Int overflow'') else Inr r)"

definition Int_MulRaw :: "int \<Rightarrow> 64 word \<Rightarrow> int res" where
  "Int_MulRaw i i2 = Int_Mul i (NewInt i2)"

definition Int_Quo :: "int \<Rightarrow> int \<Rightarrow> int res" where
  "Int_Quo i i2 =
     (if big_Sign i2 = 0 then Inl (Panic ''Division by zero'') else big_Quo i i2)"

definition Int_QuoRaw :: "int \<Rightarrow> 64 word \<Rightarrow> int res" where
  "Int_QuoRaw i i2 = Int_Quo i (NewInt i2)"

definition Int_Mod :: "int \<Rightarrow> int \<Rightarrow> int res" where
  "Int_Mod i i2 =
     (if Int_Sign i2 = 0 then Inl (Panic ''division-by-zero'') else big_Mod i i2)"

definition Int_ModRaw :: "int \<Rightarrow> 64 word \<Rightarrow> int res" where
  "Int_ModRaw i i2 = Int_Mod i (NewInt i2)"

definition Int_Neg :: "int \<Rightarrow> int" where
  "Int_Neg i = - i"

definition MinInt :: "int \<Rightarrow> int \<Rightarrow> int" where
  "MinInt i1 i2 = (if big_Cmp i1 i2 = 1 then i2 else i1)"

definition MaxInt :: "int \<Rightarrow> int \<Rightarrow> int" where
  "MaxInt i i2 = (if big_Cmp i i2 = -1 then i2 else i)"

section \<open>Text and binary forms\<close>

definition Int_String :: "int \<Rightarrow> string" where
  "Int_String i = show_int i"

text \<open>Go's \<open>copy(dst, src)\<close> on the contents of \<open>dst\<close>.\<close>

definition copy_into :: "'a list \<Rightarrow> 'a list \<Rightarrow> 'a list" where
  "copy_into dst src = take (length dst) src @ drop (length src) dst"

definition unmarshalText :: "string \<Rightarrow> int res" where
  "unmarshalText text =
     (case SetString0 text of
        None \<Rightarrow> Inl (Err ''math/big: cannot unmarshal into a *big.Int'')
      | Some i \<Rightarrow>
          if maxBitLen < BitLen i then Inl (Err (''integer out of range: '' @ text)) else Inr i)"

definition Int_Marshal :: "int option \<Rightarrow> string" where
  "Int_Marshal i = show_int (case i of None \<Rightarrow> 0 | Some x \<Rightarrow> x)"

text \<open>
  \<open>MarshalTo\<close> writes into the caller's buffer and returns the number of bytes. A zero value
  (whose \<open>Bytes()\<close> is empty) writes the single byte \<open>0x30\<close>.
\<close>

definition Int_MarshalTo :: "int option \<Rightarrow> string \<Rightarrow> string \<times> nat" where
  "Int_MarshalTo i data =
     (let x = (case i of None \<Rightarrow> 0 | Some x \<Rightarrow> x)
      in if x = 0 then (copy_into data ''0'', 1)
         else (copy_into data (Int_Marshal (Some x)), length (Int_Marshal (Some x))))"

text \<open>Empty input leaves the receiver as it is: only the local pointer is set to nil.\<close>

definition Int_Unmarshal :: "int option \<Rightarrow> string \<Rightarrow> (int option) res" where
  "Int_Unmarshal i data =
     (if data = [] then Inr i
      else (case SetString0 data of
              None \<Rightarrow> Inl (Err ''math/big: cannot unmarshal into a *big.Int'')
            | Some x \<Rightarrow>
                if maxBitLen < BitLen x then Inl (Err ''integer out of range'')
                else Inr (Some x)))"

definition Int_Size :: "int option \<Rightarrow> nat" where
  "Int_Size i = length (Int_Marshal i)"

section \<open>The range invariant\<close>

text \<open>The documented range of \<open>Int\<close>: from \<open>-(2^255-1)\<close> to \<open>2^255-1\<close>.\<close>

definition valid_Int :: "int \<Rightarrow> bool" where
  "valid_Int i = (\<bar>i\<bar> < 2 ^ 255)"

lemma maxBitLen_check: "maxBitLen < BitLen x \<longleftrightarrow> \<not> valid_Int x"
  by (simp add: maxBitLen_def valid_Int_def BitLen_gt_iff not_less)

lemmas Int_pred_defs = Int_Sign_def Int_IsZero_def Int_IsNegative_def Int_IsPositive_def
  Int_Equal_def Int_GT_def Int_GTE_def Int_LT_def Int_LTE_def big_Sign_def big_Cmp_def

lemma Int_predicates [simp]:
  "Int_IsZero i \<longleftrightarrow> i = 0" "Int_IsNegative i \<longleftrightarrow> i < 0" "Int_IsPositive i \<longleftrightarrow> 0 < i"
  "Int_Equal i j \<longleftrightarrow> i = j" "Int_GT i j \<longleftrightarrow> j < i" "Int_GTE i j \<longleftrightarrow> j \<le> i"
  "Int_LT i j \<longleftrightarrow> i < j" "Int_LTE i j \<longleftrightarrow> i \<le> j"
  by (auto simp: Int_pred_defs sgn_if)

lemma valid_Int_0 [simp]: "valid_Int 0"
  by (simp add: valid_Int_def)

lemma Int_Add_eq: "Int_Add a b = (if valid_Int (a + b) then Inr (a + b) else Inl (Panic ''Int overflow''))"
  by (simp add: Int_Add_def Let_def maxBitLen_check)

lemma Int_Sub_eq: "Int_Sub a b = (if valid_Int (a - b) then Inr (a - b) else Inl (Panic ''Int overflow''))"
  by (simp add: Int_Sub_def Let_def maxBitLen_check)

lemma NewIntFromBigInt_eq:
  "NewIntFromBigInt x = (if valid_Int x then Inr x else Inl (Panic ''NewIntFromBigInt() out of bound''))"
  by (simp add: NewIntFromBigInt_def maxBitLen_check)

lemma NewIntFromString_show: "valid_Int x \<Longrightarrow> NewIntFromString (show_int x) = Some x"
  by (simp add: NewIntFromString_def newIntegerFromString_def maxBitLen_check)

lemma NewIntFromString_valid: "NewIntFromString s = Some x \<Longrightarrow> valid_Int x"
  by (auto simp: NewIntFromString_def maxBitLen_check split: option.splits if_splits)

text \<open>
  The early test of \<open>Mul\<close> never rejects a product that fits: two operands whose bit lengths
  add up to more than 256 have a product of at least \<open>2^255\<close>.
\<close>

lemma Int_Mul_early_test:
  assumes "int maxBitLen < int (BitLen a) + int (BitLen b) - 1" and "valid_Int a" "valid_Int b"
  shows "\<not> valid_Int (a * b)"
proof -
  have le: "BitLen a \<le> 255" "BitLen b \<le> 255"
    using assms(2,3) by (simp_all add: BitLen_le_iff valid_Int_def)
  with assms(1) obtain m n where mn: "BitLen a = Suc m" "BitLen b = Suc n" "255 \<le> m + n"
    by (cases "BitLen a"; cases "BitLen b") (auto simp: maxBitLen_def)
  have "2 ^ m \<le> \<bar>a\<bar>" "2 ^ n \<le> \<bar>b\<bar>"
    using mn by (simp_all add: BitLen_gt_iff [symmetric])
  then have "(2::int) ^ m * 2 ^ n \<le> \<bar>a\<bar> * \<bar>b\<bar>" by (intro mult_mono) auto
  moreover have "(2::int) ^ 255 \<le> 2 ^ m * 2 ^ n"
    using mn(3) by (metis power_add power_increasing one_le_numeral)
  ultimately show ?thesis by (simp add: valid_Int_def abs_mult)
qed

section \<open>Properties\<close>

text \<open>
  \<^bold>\<open>C34.\<close> On operands in the documented range, every arithmetic operation of \<open>Int\<close> returns the
  exact mathematical result when that result is in the range, and panics otherwise: the early
  bit-length test of \<open>Mul\<close> rejects no representable product, \<open>Quo\<close> truncates towards zero,
  \<open>Mod\<close> is Euclidean, and division by zero is a panic.
\<close>

theorem Int_arith_exact:
  assumes "valid_Int a" and "valid_Int b"
  shows "Int_Add a b = (if valid_Int (a + b) then Inr (a + b) else Inl (Panic ''Int overflow''))
    \<and> Int_Sub a b = (if valid_Int (a - b) then Inr (a - b) else Inl (Panic ''Int overflow''))
    \<and> Int_Mul a b = (if valid_Int (a * b) then Inr (a * b) else Inl (Panic ''Int overflow''))
    \<and> Int_Quo a b = (if b = 0 then Inl (Panic ''Division by zero'')
           else Inr (sgn a * sgn b * (\<bar>a\<bar> div \<bar>b\<bar>)))
    \<and> Int_Mod a b = (if b = 0 then Inl (Panic ''division-by-zero'') else Inr (a mod \<bar>b\<bar>))"
proof (intro conjI)
  show "Int_Mul a b = (if valid_Int (a * b) then Inr (a * b) else Inl (Panic ''Int overflow''))"
    using Int_Mul_early_test [OF _ assms] by (auto simp: Int_Mul_def Let_def maxBitLen_check)
qed (simp_all add: Int_Add_eq Int_Sub_eq Int_Quo_def Int_Mod_def big_Quo_def big_Mod_def
      Int_Sign_def big_Sign_def signed_divide_int_def sgn_eq_0_iff)

theorem Int_arith_exact_witness:
  "Int_Mul (2 ^ 200) (2 ^ 54) = Inr (2 ^ 254) \<and> Int_Mul (2 ^ 200) (2 ^ 55) = Inl (Panic ''Int overflow'')
   \<and> Int_Quo (-7) 2 = Inr (-3) \<and> Int_Mod (-7) 2 = Inr 1"
  using Int_arith_exact [of "2 ^ 200" "2 ^ 54"] Int_arith_exact [of "2 ^ 200" "2 ^ 55"]
    Int_arith_exact [of "-7" 2]
  by (simp add: valid_Int_def)

text \<open>
  The range is an invariant: whatever operation of \<open>Int\<close> succeeds on values in range
  returns a value in range; so do the constructors, which reject anything else.
\<close>

theorem Int_range_invariant:
  assumes "valid_Int a" and "valid_Int b"
    and "Inr r \<in> {Int_Add a b, Int_Sub a b, Int_Mul a b, Int_Quo a b, Int_Mod a b,
      Int_AddRaw a n, Int_SubRaw a n, Int_MulRaw a n, Int_QuoRaw a n, Int_ModRaw a n,
      Inr (Int_Neg a), Inr (MinInt a b), Inr (MaxInt a b),
      NewIntFromBigInt x, NewIntWithDecimal n d, Inr (NewInt n), Inr (NewIntFromUint64 n)}"
  shows "valid_Int r"
proof -
  have w: "valid_Int (sint n)" "valid_Int (uint n)"
    using sint_ge [of n] sint_lt [of n] uint_lt2p [of n] by (auto simp: valid_Int_def)
  have m: "valid_Int c \<Longrightarrow> c \<noteq> 0 \<Longrightarrow> valid_Int (x mod \<bar>c\<bar>)" for x c
    using less_trans [OF pos_mod_bound [of "\<bar>c\<bar>" x], of "2 ^ 255"] by (simp add: valid_Int_def)
  have q: "valid_Int x \<Longrightarrow> valid_Int (x sdiv y)" for x y
    using abs_sdiv_le [of x y] by (simp add: valid_Int_def)
  have mul: "Int_Mul x y = Inr r \<Longrightarrow> valid_Int r" for x y
    by (auto simp: Int_Mul_def Let_def maxBitLen_check split: if_splits)
  from assms(3) consider "Inr r \<in> {Int_Add a b, Int_Sub a b, Int_AddRaw a n, Int_SubRaw a n}"
    | "Inr r \<in> {Int_Mul a b, Int_MulRaw a n}"
    | "Inr r \<in> {Int_Quo a b, Int_Mod a b, Int_QuoRaw a n, Int_ModRaw a n}"
    | "Inr r \<in> {NewIntFromBigInt x, NewIntWithDecimal n d}"
    | "r \<in> {Int_Neg a, MinInt a b, MaxInt a b, NewInt n, NewIntFromUint64 n}" by auto
  then show ?thesis
  proof cases
    case 1
    then show ?thesis
      by (auto simp: Int_AddRaw_def Int_SubRaw_def Int_Add_eq Int_Sub_eq split: if_splits)
  next
    case 2
    then show ?thesis using mul by (auto simp: Int_MulRaw_def eq_commute [of "Inr r"])
  next
    case 3
    then show ?thesis using q m assms(1,2) w
      by (auto simp: Int_Quo_def Int_Mod_def Int_QuoRaw_def Int_ModRaw_def big_Quo_def big_Mod_def
          Int_Sign_def big_Sign_def NewInt_def sgn_eq_0_iff split: if_splits)
  next
    case 4
    then show ?thesis
      by (auto simp: NewIntFromBigInt_eq NewIntWithDecimal_def Let_def maxBitLen_check split: if_splits)
  next
    case 5
    then show ?thesis using assms(1,2) w
      by (auto simp: Int_Neg_def MinInt_def MaxInt_def NewInt_def NewIntFromUint64_def valid_Int_def)
  qed
qed

theorem Int_range_invariant_witness: "valid_Int 12"
  using Int_range_invariant [of 5 7 12 0 0 0] by (simp add: valid_Int_def Int_Add_eq)

text \<open>
  The binary form of an \<open>Int\<close> reads back: \<open>Unmarshal\<close> after \<open>Marshal\<close> restores every value
  in range (a nil \<open>Int\<close> comes back as zero), \<open>Size\<close> is the number of bytes written, and
  \<open>MarshalTo\<close> into a buffer of that size writes exactly those bytes.
\<close>

theorem Int_marshal_roundtrip:
  assumes "case i of None \<Rightarrow> True | Some x \<Rightarrow> valid_Int x" and "length data = Int_Size i"
  shows "Int_Unmarshal j (Int_Marshal i) = Inr (Some (case i of None \<Rightarrow> 0 | Some x \<Rightarrow> x))
    \<and> Int_MarshalTo i data = (Int_Marshal i, Int_Size i)"
proof
  have ne: "show_int x \<noteq> []" for x by (simp add: show_int_def)
  have z: "show_int 0 = ''0''" by (simp add: show_int_def show_nat.simps digit_char_0)
  show "Int_Unmarshal j (Int_Marshal i) = Inr (Some (case i of None \<Rightarrow> 0 | Some x \<Rightarrow> x))"
    using assms(1) by (cases i) (simp_all add: Int_Unmarshal_def Int_Marshal_def ne maxBitLen_check)
  show "Int_MarshalTo i data = (Int_Marshal i, Int_Size i)"
    using assms(2)
    by (cases i) (auto simp: Int_MarshalTo_def Int_Size_def Int_Marshal_def copy_into_def z Let_def)
qed

theorem Int_marshal_roundtrip_witness:
  "Int_Unmarshal None (Int_Marshal (Some (- 105))) = Inr (Some (- 105))
   \<and> Int_MarshalTo (Some (- 105)) ''????'' = (''-105'', 4)"
proof -
  have m: "Int_Marshal (Some (- 105)) = ''-105''" by code_simp
  have "Int_Size (Some (- 105)) = 4" by (simp add: Int_Size_def m)
  then show ?thesis
    using Int_marshal_roundtrip [of "Some (- 105)" "''????''" None] by (simp add: m valid_Int_def)
qed

end
