(* ===== verification/SdkDec.thy ===== *)
theory SdkDec
  imports SdkInt
begin

text \<open>
  \<open>types/dec.go\<close>: the fixed-point decimal \<open>Dec\<close> with 18 decimal places. A non-nil \<open>Dec\<close> is
  its scaled integer (the value times \<open>10^18\<close>); functions that look at the nil pointer take
  an \<open>int option\<close>. Results are bounded by 315 bits, and every panic is a value.
\<close>

section \<open>Constants\<close>

definition Precision :: nat where
  "Precision = 18"

definition DecimalPrecisionBits :: nat where
  "DecimalPrecisionBits = 60"

definition maxApproxRootIterations :: nat where
  "maxApproxRootIterations = 100"

definition precisionReuse :: int where
  "precisionReuse = 10 ^ Precision"

definition fivePrecision :: int where
  "fivePrecision = precisionReuse sdiv 2"

definition ZeroDec :: int where
  "ZeroDec = 0"

definition OneDec :: int where
  "OneDec = precisionReuse"

definition SmallestDec :: int where
  "SmallestDec = 1"

definition calcPrecisionMultiplier :: "int \<Rightarrow> int res" where
  "calcPrecisionMultiplier prec =
     (if int Precision < prec then Inl (Panic (''too much precision, maximum 18, provided '' @ show_int prec))
      else Inr (10 ^ nat (int Precision - prec)))"

text \<open>The table filled by \<open>init\<close>, entry \<open>i\<close> being \<open>calcPrecisionMultiplier i\<close>.\<close>

definition precisionMultipliers :: "int list" where
  "precisionMultipliers =
     map (\<lambda>i. case calcPrecisionMultiplier (int i) of Inl _ \<Rightarrow> 0 | Inr m \<Rightarrow> m) [0 ..< Precision + 1]"

definition precisionMultiplier :: "int \<Rightarrow> int res" where
  "precisionMultiplier prec =
     (if int Precision < prec then Inl (Panic (''too much precision, maximum 18, provided '' @ show_int prec))
      else if prec < 0 then Inl (Panic ''runtime error: index out of range'')
      else Inr (precisionMultipliers ! nat prec))"

section \<open>Constructors\<close>

definition NewDecFromBigIntWithPrec :: "int \<Rightarrow> int \<Rightarrow> int res" where
  "NewDecFromBigIntWithPrec i prec = bindR (precisionMultiplier prec) (\<lambda>m. Inr (i * m))"

definition NewDecFromBigInt :: "int \<Rightarrow> int res" where
  "NewDecFromBigInt i = NewDecFromBigIntWithPrec i 0"

definition NewDecWithPrec :: "64 word \<Rightarrow> int \<Rightarrow> int res" where
  "NewDecWithPrec i prec = bindR (precisionMultiplier prec) (\<lambda>m. Inr (sint i * m))"

definition NewDec :: "64 word \<Rightarrow> int res" where
  "NewDec i = NewDecWithPrec i 0"

definition NewDecFromIntWithPrec :: "int \<Rightarrow> int \<Rightarrow> int res" where
  "NewDecFromIntWithPrec i prec = bindR (precisionMultiplier prec) (\<lambda>m. Inr (i * m))"

definition NewDecFromInt :: "int \<Rightarrow> int res" where
  "NewDecFromInt i = NewDecFromIntWithPrec i 0"

definition Int_ToDec :: "int \<Rightarrow> int res" where
  "Int_ToDec i = NewDecFromInt i"

definition NewDecFromStr :: "string \<Rightarrow> int res" where
  "NewDecFromStr str0 =
     (if str0 = [] then Inl (Err ''decimal string cannot be empty'')
      else
        let neg = (hd str0 = CHR ''-'');
            str = (if neg then tl str0 else str0)
        in
        if str = [] then Inl (Err ''decimal string cannot be empty'')
        else
          let strs = splitOn (CHR ''.'') str;
              combined = strs ! 0
          in
          if length strs = 2 \<and> (length (strs ! 1) = 0 \<or> length combined = 0)
          then Inl (Err ''invalid decimal length'')
          else if 2 < length strs then Inl (Err ''invalid decimal string'')
          else
            let lenDecs = (if length strs = 2 then length (strs ! 1) else 0);
                combinedStr = (if length strs = 2 then combined @ strs ! 1 else combined)
            in
            if Precision < lenDecs
            then Inl (Err (''invalid precision; max: 18, got: '' @ show_nat lenDecs))
            else
              let full = combinedStr @ replicate (Precision - lenDecs) (CHR ''0'')
              in (case SetString10 full of
                    None \<Rightarrow> Inl (Err (''failed to set decimal string: '' @ full))
                  | Some c \<Rightarrow> Inr (if neg then - c else c)))"

definition MustNewDecFromStr :: "string \<Rightarrow> int res" where
  "MustNewDecFromStr s =
     (case NewDecFromStr s of
        Inl (Err m) \<Rightarrow> Inl (Panic m)
      | Inl (Panic m) \<Rightarrow> Inl (Panic m)
      | Inr d \<Rightarrow> Inr d)"

section \<open>Predicates\<close>

definition Dec_IsNil :: "int option \<Rightarrow> bool" where
  "Dec_IsNil d = (d = None)"

definition Dec_IsZero :: "int \<Rightarrow> bool" where
  "Dec_IsZero d = (big_Sign d = 0)"

definition Dec_IsNegative :: "int \<Rightarrow> bool" where
  "Dec_IsNegative d = (big_Sign d = -1)"

definition Dec_IsPositive :: "int \<Rightarrow> bool" where
  "Dec_IsPositive d = (big_Sign d = 1)"

definition Dec_Equal :: "int \<Rightarrow> int \<Rightarrow> bool" where
  "Dec_Equal d d2 = (big_Cmp d d2 = 0)"

definition Dec_GT :: "int \<Rightarrow> int \<Rightarrow> bool" where
  "Dec_GT d d2 = (0 < big_Cmp d d2)"

definition Dec_GTE :: "int \<Rightarrow> int \<Rightarrow> bool" where
  "Dec_GTE d d2 = (0 \<le> big_Cmp d d2)"

definition Dec_LT :: "int \<Rightarrow> int \<Rightarrow> bool" where
  "Dec_LT d d2 = (big_Cmp d d2 < 0)"

definition Dec_LTE :: "int \<Rightarrow> int \<Rightarrow> bool" where
  "Dec_LTE d d2 = (big_Cmp d d2 \<le> 0)"

definition Dec_Neg :: "int \<Rightarrow> int" where
  "Dec_Neg d = - d"

definition Dec_Abs :: "int \<Rightarrow> int" where
  "Dec_Abs d = \<bar>d\<bar>"

definition Dec_BigInt :: "int option \<Rightarrow> int option" where
  "Dec_BigInt d = (if Dec_IsNil d then None else d)"

section \<open>Chopping the extra precision\<close>

text \<open>
  Bankers' rounding of the 18 digits that are removed. The source negates, recurses once and
  negates back; the non-negative body is \<open>chop_round_nonneg\<close>.
\<close>

definition chop_round_nonneg :: "int \<Rightarrow> int" where
  "chop_round_nonneg d =
     (let quo = d sdiv precisionReuse;
          rem = d smod precisionReuse
      in if rem = 0 then quo
         else if big_Cmp rem fivePrecision = -1 then quo
         else if big_Cmp rem fivePrecision = 1 then quo + 1
         else if even quo then quo
         else quo + 1)"

definition chopPrecisionAndRound :: "int \<Rightarrow> int" where
  "chopPrecisionAndRound d =
     (if big_Sign d = -1 then - chop_round_nonneg (- d) else chop_round_nonneg d)"

definition chopPrecisionAndTruncate :: "int \<Rightarrow> int" where
  "chopPrecisionAndTruncate d = d sdiv precisionReuse"

definition chopPrecisionAndRoundUp :: "int \<Rightarrow> int" where
  "chopPrecisionAndRoundUp d =
     (if big_Sign d = -1 then - chopPrecisionAndTruncate (- d)
      else
        let quo = d sdiv precisionReuse;
            rem = d smod precisionReuse
        in if rem = 0 then quo else quo + 1)"

section \<open>Arithmetic\<close>

text \<open>The overflow test that ends the operations.\<close>

definition check_overflow :: "int \<Rightarrow> int res" where
  "check_overflow r =
     (if 255 + DecimalPrecisionBits < BitLen r then Inl (Panic ''Int overflow'') else Inr r)"

definition Dec_Add :: "int \<Rightarrow> int \<Rightarrow> int res" where
  "Dec_Add d d2 = check_overflow (d + d2)"

definition Dec_Sub :: "int \<Rightarrow> int \<Rightarrow> int res" where
  "Dec_Sub d d2 = check_overflow (d - d2)"

definition Dec_Mul :: "int \<Rightarrow> int \<Rightarrow> int res" where
  "Dec_Mul d d2 = check_overflow (chopPrecisionAndRound (d * d2))"

definition Dec_MulTruncate :: "int \<Rightarrow> int \<Rightarrow> int res" where
  "Dec_MulTruncate d d2 = check_overflow (chopPrecisionAndTruncate (d * d2))"

definition Dec_MulInt :: "int \<Rightarrow> int \<Rightarrow> int res" where
  "Dec_MulInt d i = check_overflow (d * i)"

definition Dec_MulInt64 :: "int \<Rightarrow> 64 word \<Rightarrow> int res" where
  "Dec_MulInt64 d i = check_overflow (d * sint i)"

definition Dec_Quo :: "int \<Rightarrow> int \<Rightarrow> int res" where
  "Dec_Quo d d2 =
     bindR (big_Quo (d * precisionReuse * precisionReuse) d2)
       (\<lambda>quo. check_overflow (chopPrecisionAndRound quo))"

definition Dec_QuoTruncate :: "int \<Rightarrow> int \<Rightarrow> int res" where
  "Dec_QuoTruncate d d2 =
     bindR (big_Quo (d * precisionReuse * precisionReuse) d2)
       (\<lambda>quo. check_overflow (chopPrecisionAndTruncate quo))"

definition Dec_QuoRoundUp :: "int \<Rightarrow> int \<Rightarrow> int res" where
  "Dec_QuoRoundUp d d2 =
     bindR (big_Quo (d * precisionReuse * precisionReuse) d2)
       (\<lambda>quo. check_overflow (chopPrecisionAndRoundUp quo))"

definition Dec_QuoInt :: "int \<Rightarrow> int \<Rightarrow> int res" where
  "Dec_QuoInt d i = big_Quo d i"

definition Dec_QuoInt64 :: "int \<Rightarrow> 64 word \<Rightarrow> int res" where
  "Dec_QuoInt64 d i = big_Quo d (sint i)"

text \<open>The square-and-multiply loop of \<open>Power\<close>.\<close>

function Power_loop :: "nat \<Rightarrow> int \<Rightarrow> int \<Rightarrow> int res" where
  "Power_loop i d tmp =
     (if 1 < i then
        (if i mod 2 = 0 then
           bindR (Dec_Mul d d) (\<lambda>d'. Power_loop (i div 2) d' tmp)
         else
           bindR (Dec_Mul tmp d) (\<lambda>tmp'.
           bindR (Dec_Mul d d) (\<lambda>d'. Power_loop ((i - 1) div 2) d' tmp')))
      else Dec_Mul d tmp)"
  by pat_completeness auto
termination
  by (relation "measure (\<lambda>(i, d, tmp). i)") auto

declare Power_loop.simps [simp del]

definition Dec_Power :: "int \<Rightarrow> 64 word \<Rightarrow> int res" where
  "Dec_Power d pw = (if pw = 0 then Inr OneDec else Power_loop (unat pw) d OneDec)"

text \<open>
  One turn of Newton's iteration in \<open>ApproxRoot\<close>: the new delta and the new guess.
\<close>

definition ApproxRoot_step :: "int \<Rightarrow> 64 word \<Rightarrow> int \<Rightarrow> (int \<times> int) res" where
  "ApproxRoot_step d root guess =
     bindR (Dec_Power guess (root - 1)) (\<lambda>p.
       let prev = (if Dec_IsZero p then SmallestDec else p) in
       bindR (Dec_Quo d prev) (\<lambda>q.
       bindR (Dec_Sub q guess) (\<lambda>s.
       bindR (Dec_QuoInt s (NewIntFromUint64 root)) (\<lambda>delta.
       bindR (Dec_Add guess delta) (\<lambda>guess'. Inr (delta, guess'))))))"

text \<open>
  The loop, counting down the iterations that are left. A panic in its body is caught by the
  deferred \<open>recover\<close>: the guess reached so far is returned with the error "out of bounds"
  (every panic value here is a string, so the type assertion to \<open>error\<close> fails).
\<close>

fun ApproxRoot_loop :: "nat \<Rightarrow> int \<Rightarrow> 64 word \<Rightarrow> int \<Rightarrow> int \<Rightarrow> int option \<times> string option" where
  "ApproxRoot_loop 0 d root guess delta = (Some guess, None)"
| "ApproxRoot_loop (Suc n) d root guess delta =
     (if Dec_GT (Dec_Abs delta) SmallestDec then
        (case ApproxRoot_step d root guess of
           Inl _ \<Rightarrow> (Some guess, Some ''out of bounds'')
         | Inr (delta', guess') \<Rightarrow> ApproxRoot_loop n d root guess' delta')
      else (Some guess, None))"

definition ApproxRoot_nonneg :: "int \<Rightarrow> 64 word \<Rightarrow> int option \<times> string option" where
  "ApproxRoot_nonneg d root =
     (if root = 1 \<or> Dec_IsZero d \<or> Dec_Equal d OneDec then (Some d, None)
      else if root = 0 then (Some OneDec, None)
      else ApproxRoot_loop maxApproxRootIterations d root OneDec OneDec)"

definition ApproxRoot :: "int \<Rightarrow> 64 word \<Rightarrow> int option \<times> string option" where
  "ApproxRoot d root =
     (if Dec_IsNegative d then
        (case Dec_MulInt64 d (- 1) of
           Inl _ \<Rightarrow> (None, Some ''out of bounds'')
         | Inr d' \<Rightarrow>
             (case ApproxRoot_nonneg d' root of
                (None, err) \<Rightarrow> (None, Some ''out of bounds'')
              | (Some absRoot, err) \<Rightarrow>
                  (case Dec_MulInt64 absRoot (- 1) of
                     Inl _ \<Rightarrow> (None, Some ''out of bounds'')
                   | Inr r \<Rightarrow> (Some r, err))))
      else ApproxRoot_nonneg d root)"

definition ApproxSqrt :: "int \<Rightarrow> int option \<times> string option" where
  "ApproxSqrt d = ApproxRoot d 2"

section \<open>Rounding to integers\<close>

definition Dec_IsInteger :: "int \<Rightarrow> bool" where
  "Dec_IsInteger d = (big_Sign (d smod precisionReuse) = 0)"

definition Dec_RoundInt64 :: "int \<Rightarrow> (64 word) res" where
  "Dec_RoundInt64 d =
     (let chopped = chopPrecisionAndRound d in
      if \<not> IsInt64 chopped then Inl (Panic ''Int64() out of bound'') else Inr (word_of_int chopped))"

definition Dec_RoundInt :: "int \<Rightarrow> int res" where
  "Dec_RoundInt d = NewIntFromBigInt (chopPrecisionAndRound d)"

definition Dec_TruncateInt64 :: "int \<Rightarrow> (64 word) res" where
  "Dec_TruncateInt64 d =
     (let chopped = chopPrecisionAndTruncate d in
      if \<not> IsInt64 chopped then Inl (Panic ''Int64() out of bound'') else Inr (word_of_int chopped))"

definition Dec_TruncateInt :: "int \<Rightarrow> int res" where
  "Dec_TruncateInt d = NewIntFromBigInt (chopPrecisionAndTruncate d)"

definition Dec_TruncateDec :: "int \<Rightarrow> int res" where
  "Dec_TruncateDec d = NewDecFromBigInt (chopPrecisionAndTruncate d)"

definition Dec_Ceil :: "int \<Rightarrow> int res" where
  "Dec_Ceil d =
     (let quo = d sdiv precisionReuse;
          rem = d smod precisionReuse
      in if big_Cmp rem 0 = 0 then NewDecFromBigInt quo
         else if big_Sign rem = -1 then NewDecFromBigInt quo
         else NewDecFromBigInt (quo + 1))"

section \<open>Text forms\<close>

definition Dec_String :: "int \<Rightarrow> string" where
  "Dec_String d0 =
     (let isNeg = Dec_IsNegative d0;
          d = (if isNeg then Dec_Neg d0 else d0);
          bzInt = show_int d;
          inputSize = length bzInt;
          bzStr =
            (if inputSize \<le> Precision
             then ''0.'' @ replicate (Precision - inputSize) (CHR ''0'') @ bzInt
             else take (inputSize - Precision) bzInt @ CHR ''.'' # drop (inputSize - Precision) bzInt)
      in if isNeg then CHR ''-'' # bzStr else bzStr)"

definition Dec_StringP :: "int option \<Rightarrow> string" where
  "Dec_StringP d = (case d of None \<Rightarrow> ''<nil>'' | Some x \<Rightarrow> Dec_String x)"

text \<open>\<open>MaxSortableDec\<close> is \<open>OneDec().Quo(SmallestDec())\<close>, that is \<open>10^18\<close> as a decimal.\<close>

definition MaxSortableDec :: int where
  "MaxSortableDec = (case Dec_Quo OneDec SmallestDec of Inl _ \<Rightarrow> 0 | Inr d \<Rightarrow> d)"

definition ValidSortableDec :: "int \<Rightarrow> bool" where
  "ValidSortableDec d = Dec_LTE (Dec_Abs d) MaxSortableDec"

text \<open>\<open>fmt.Sprintf("%037s", s)\<close>: padded on the left with zeros to 37 bytes.\<close>

definition pad_zeros :: "nat \<Rightarrow> string \<Rightarrow> string" where
  "pad_zeros n s = replicate (n - length s) (CHR ''0'') @ s"

definition SortableDecBytes :: "int \<Rightarrow> string res" where
  "SortableDecBytes d =
     (if \<not> ValidSortableDec d then Inl (Panic ''dec must be within bounds'')
      else if Dec_Equal d MaxSortableDec then Inr ''max''
      else if Dec_Equal d (Dec_Neg MaxSortableDec) then Inr ''--''
      else if Dec_IsNegative d
      then Inr (CHR ''-'' # pad_zeros (Precision * 2 + 1) (Dec_String (Dec_Abs d)))
      else Inr (pad_zeros (Precision * 2 + 1) (Dec_String d)))"

section \<open>Binary forms and helpers\<close>

definition Dec_Marshal :: "int option \<Rightarrow> string" where
  "Dec_Marshal d = show_int (case d of None \<Rightarrow> 0 | Some x \<Rightarrow> x)"

definition Dec_MarshalTo :: "int option \<Rightarrow> string \<Rightarrow> string \<times> nat" where
  "Dec_MarshalTo d data =
     (let x = (case d of None \<Rightarrow> 0 | Some x \<Rightarrow> x)
      in if big_Cmp x 0 = 0 then (copy_into data ''0'', 1)
         else (copy_into data (Dec_Marshal (Some x)), length (Dec_Marshal (Some x))))"

definition Dec_Unmarshal :: "int option \<Rightarrow> string \<Rightarrow> (int option) res" where
  "Dec_Unmarshal d data =
     (if data = [] then Inr d
      else (case SetString0 data of
              None \<Rightarrow> Inl (Err ''math/big: cannot unmarshal into a *big.Int'')
            | Some x \<Rightarrow>
                if maxBitLen < BitLen x
                then Inl (Err (''decimal out of range; got: '' @ show_nat (BitLen x) @ '', max: 255''))
                else Inr (Some x)))"

definition Dec_Size :: "int option \<Rightarrow> nat" where
  "Dec_Size d = length (Dec_Marshal d)"

fun DecsEqual :: "int list \<Rightarrow> int list \<Rightarrow> bool" where
  "DecsEqual d1s d2s =
     (if length d1s \<noteq> length d2s then False
      else list_all (\<lambda>i. Dec_Equal (d1s ! i) (d2s ! i)) [0 ..< length d1s])"

definition MinDec :: "int \<Rightarrow> int \<Rightarrow> int" where
  "MinDec d1 d2 = (if Dec_LT d1 d2 then d1 else d2)"

definition MaxDec :: "int \<Rightarrow> int \<Rightarrow> int" where
  "MaxDec d1 d2 = (if Dec_LT d1 d2 then d2 else d1)"

section \<open>Rounding\<close>

text \<open>The documented range of the results: 255 bits of integer part and 60 of fraction.\<close>

definition valid_Dec :: "int \<Rightarrow> bool" where
  "valid_Dec d = (\<bar>d\<bar> < 2 ^ 315)"

text \<open>
  \<open>r\<close> is the integer nearest to \<open>x / 10^18\<close>, the even one of two equally near.
\<close>

definition half_even :: "int \<Rightarrow> int \<Rightarrow> bool" where
  "half_even x r = (2 * \<bar>x - r * precisionReuse\<bar> \<le> precisionReuse \<and>
     (2 * \<bar>x - r * precisionReuse\<bar> = precisionReuse \<longrightarrow> even r))"

text \<open>The text of a non-negative decimal, as \<open>String\<close> assembles it.\<close>

definition dec_text :: "nat \<Rightarrow> string" where
  "dec_text n = (let s = show_nat n in
     if length s \<le> Precision then ''0.'' @ replicate (Precision - length s) (CHR ''0'') @ s
     else take (length s - Precision) s @ CHR ''.'' # drop (length s - Precision) s)"

lemma precisionReuse_num: "precisionReuse = 1000000000000000000"
  by (simp add: precisionReuse_def Precision_def)

lemma precisionReuse_pos [simp]: "0 < precisionReuse" "0 \<le> precisionReuse" "precisionReuse \<noteq> 0"
  by (simp_all add: precisionReuse_num)

lemma fivePrecision_num: "fivePrecision = 500000000000000000"
  by (simp add: fivePrecision_def precisionReuse_num sdiv_nonneg)

lemmas Dec_pred_defs = Dec_IsZero_def Dec_IsNegative_def Dec_IsPositive_def Dec_Equal_def
  Dec_GT_def Dec_GTE_def Dec_LT_def Dec_LTE_def big_Sign_def big_Cmp_def

lemma Dec_predicates [simp]:
  "Dec_IsZero d \<longleftrightarrow> d = 0" "Dec_IsNegative d \<longleftrightarrow> d < 0" "Dec_IsPositive d \<longleftrightarrow> 0 < d"
  "Dec_Equal d e \<longleftrightarrow> d = e" "Dec_GT d e \<longleftrightarrow> e < d" "Dec_GTE d e \<longleftrightarrow> e \<le> d"
  "Dec_LT d e \<longleftrightarrow> d < e" "Dec_LTE d e \<longleftrightarrow> d \<le> e"
  by (auto simp: Dec_pred_defs sgn_if)

lemma check_overflow_eq:
  "check_overflow r = (if valid_Dec r then Inr r else Inl (Panic ''Int overflow''))"
  by (simp add: check_overflow_def DecimalPrecisionBits_def valid_Dec_def BitLen_gt_iff not_less)

lemma precisionMultiplier_0 [simp]: "precisionMultiplier 0 = Inr precisionReuse"
  by (simp add: precisionMultiplier_def precisionMultipliers_def calcPrecisionMultiplier_def
      precisionReuse_def Precision_def nth_append upt_rec)

lemma NewDecFromInt_eq [simp]: "NewDecFromInt i = Inr (i * precisionReuse)"
  by (simp add: NewDecFromInt_def NewDecFromIntWithPrec_def)

lemma NewDecFromBigInt_eq [simp]: "NewDecFromBigInt i = Inr (i * precisionReuse)"
  by (simp add: NewDecFromBigInt_def NewDecFromBigIntWithPrec_def)

lemma NewDec_eq [simp]: "NewDec n = Inr (sint n * precisionReuse)"
  by (simp add: NewDec_def NewDecWithPrec_def)

lemma smod_nonneg: "0 \<le> x \<Longrightarrow> 0 < y \<Longrightarrow> (x::int) smod y = x mod y"
  by (simp add: sdiv_smod sdiv_nonneg minus_div_mult_eq_mod)

lemma half_even_le:
  assumes "half_even x r" and "half_even x r'"
  shows "r \<le> r'"
proof (rule ccontr)
  assume "\<not> r \<le> r'"
  then have "(r' + 1) * precisionReuse \<le> r * precisionReuse" by (intro mult_right_mono) auto
  then have gap: "r' * precisionReuse + precisionReuse \<le> r * precisionReuse" by (simp add: algebra_simps)
  have near: "2 * \<bar>x - r * precisionReuse\<bar> \<le> precisionReuse" "2 * \<bar>x - r' * precisionReuse\<bar> \<le> precisionReuse"
    and tie: "2 * \<bar>x - r * precisionReuse\<bar> = precisionReuse \<Longrightarrow> even r"
      "2 * \<bar>x - r' * precisionReuse\<bar> = precisionReuse \<Longrightarrow> even r'"
    using assms by (auto simp: half_even_def)
  from gap near precisionReuse_pos(1) have "2 * \<bar>x - r * precisionReuse\<bar> = precisionReuse" by arith
  moreover from gap near precisionReuse_pos(1) have "2 * \<bar>x - r' * precisionReuse\<bar> = precisionReuse" by arith
  ultimately have "even r" "even r'" using tie by auto
  moreover from gap near have "r * precisionReuse = r' * precisionReuse + precisionReuse" by arith
  then have "r * precisionReuse = (r' + 1) * precisionReuse" by (simp add: algebra_simps)
  then have "r = r' + 1" by simp
  ultimately show False by simp
qed

lemma half_even_unique: "half_even x r \<Longrightarrow> half_even x r' \<Longrightarrow> r = r'"
  using half_even_le by (blast intro: antisym)

lemma half_even_minus: "half_even (- x) (- r) \<longleftrightarrow> half_even x r"
proof -
  have "\<bar>- x - - r * precisionReuse\<bar> = \<bar>x - r * precisionReuse\<bar>" by linarith
  then show ?thesis by (simp add: half_even_def)
qed

lemma chop_round_nonneg_half_even: "0 \<le> d \<Longrightarrow> half_even d (chop_round_nonneg d)"
proof -
  assume d: "0 \<le> d"
  define q m where "q = d div precisionReuse" and "m = d mod precisionReuse"
  have dm: "d = q * precisionReuse + m" "0 \<le> m" "m < precisionReuse"
    by (simp_all add: q_def m_def)
  have five: "precisionReuse = 2 * fivePrecision" "0 < fivePrecision"
    by (simp_all add: fivePrecision_num precisionReuse_num)
  have quo: "d sdiv precisionReuse = q" "d smod precisionReuse = m"
    using d by (simp_all add: sdiv_nonneg smod_nonneg q_def m_def)
  have "chop_round_nonneg d =
      (if m < fivePrecision then q else if fivePrecision < m then q + 1
       else if even q then q else q + 1)"
    using five(2) by (simp add: chop_round_nonneg_def quo Let_def big_Cmp_def)
  then show ?thesis using dm(2,3) five
    unfolding half_even_def dm(1) by (auto simp: algebra_simps)
qed

lemma chop_half_even: "half_even d (chopPrecisionAndRound d)"
proof (cases "d < 0")
  case True
  then have "half_even (- d) (chop_round_nonneg (- d))"
    by (simp add: chop_round_nonneg_half_even)
  with True show ?thesis
    using half_even_minus [of d "- chop_round_nonneg (- d)"]
    by (simp add: chopPrecisionAndRound_def big_Sign_def)
qed (simp add: chop_round_nonneg_half_even chopPrecisionAndRound_def big_Sign_def sgn_if)

lemma chop_eq_iff: "chopPrecisionAndRound d = r \<longleftrightarrow> half_even d r"
  using chop_half_even half_even_unique by blast

lemma chop_multiple [simp]: "chopPrecisionAndRound (k * precisionReuse) = k"
  by (simp add: chop_eq_iff half_even_def)

lemma truncate_multiple [simp]: "chopPrecisionAndTruncate (k * precisionReuse) = k"
proof -
  have "\<bar>k * precisionReuse\<bar> div \<bar>precisionReuse\<bar> = \<bar>k\<bar>" by (simp add: abs_mult)
  then show ?thesis
    by (simp add: chopPrecisionAndTruncate_def signed_divide_int_def sgn_mult abs_mult sgn_mult_abs)
qed

lemma Dec_Ceil_eq: "Dec_Ceil d = Inr (- ((- d) div precisionReuse) * precisionReuse)"
proof (cases "d < 0")
  case True
  then have q: "d sdiv precisionReuse = - ((- d) div precisionReuse)" by (simp add: sdiv_neg)
  have "d smod precisionReuse = - ((- d) mod precisionReuse)"
    by (simp add: sdiv_smod q minus_div_mult_eq_mod [symmetric])
  moreover have "\<not> (- d) mod precisionReuse < 0" by (simp add: not_less)
  ultimately show ?thesis by (auto simp: Dec_Ceil_def q Let_def big_Cmp_def big_Sign_def sgn_if)
next
  case False
  then have q: "d sdiv precisionReuse = d div precisionReuse" "d smod precisionReuse = d mod precisionReuse"
    by (simp_all add: sdiv_nonneg smod_nonneg)
  have "- ((- d) div precisionReuse) = (if d mod precisionReuse = 0 then d div precisionReuse else d div precisionReuse + 1)"
    by (simp add: zdiv_zminus1_eq_if)
  moreover have "\<not> d mod precisionReuse < 0" by (simp add: not_less)
  ultimately show ?thesis by (auto simp: Dec_Ceil_def q Let_def big_Cmp_def big_Sign_def sgn_if)
qed

lemma chopPrecisionAndRoundUp_eq: "chopPrecisionAndRoundUp d = - ((- d) div precisionReuse)"
proof (cases "d < 0")
  case True
  then show ?thesis
    by (simp add: chopPrecisionAndRoundUp_def chopPrecisionAndTruncate_def big_Sign_def sdiv_neg)
next
  case False
  then have q: "d sdiv precisionReuse = d div precisionReuse" "d smod precisionReuse = d mod precisionReuse"
    by (simp_all add: sdiv_nonneg smod_nonneg)
  show ?thesis using False
    by (simp add: chopPrecisionAndRoundUp_def q big_Sign_def sgn_if zdiv_zminus1_eq_if)
qed

lemma dec_text_parts:
  "\<exists>w f. dec_text n = w @ CHR ''.'' # f \<and> length f = Precision \<and> w \<noteq> []
     \<and> (\<forall>c\<in>set (w @ f). is_digit c) \<and> dec_value 0 (w @ f) = n"
proof (cases "length (show_nat n) \<le> Precision")
  case True
  let ?f = "replicate (Precision - length (show_nat n)) (CHR ''0'') @ show_nat n"
  have "dec_text n = ''0'' @ CHR ''.'' # ?f" using True by (simp add: dec_text_def Let_def)
  moreover have "dec_value 0 (''0'' @ ?f) = n"
    using dec_value_zeros [of 1 ?f] dec_value_zeros [of _ "show_nat n"] by (simp add: dec_value_show_nat)
  moreover have "\<forall>c\<in>set (''0'' @ ?f). is_digit c" using show_nat_digits is_digit_0 by auto
  ultimately show ?thesis using True by (intro exI [of _ "''0''"] exI [of _ ?f]) simp
next
  case False
  let ?s = "show_nat n" let ?k = "length ?s - Precision"
  have "dec_text n = take ?k ?s @ CHR ''.'' # drop ?k ?s" using False by (simp add: dec_text_def Let_def)
  then show ?thesis using False show_nat_digits [of n]
    by (intro exI [of _ "take ?k ?s"] exI [of _ "drop ?k ?s"])
      (simp add: dec_value_show_nat)
qed

lemma Dec_String_text: "Dec_String d = (if d < 0 then CHR ''-'' # dec_text (nat (- d)) else dec_text (nat d))"
  by (simp add: Dec_String_def dec_text_def Dec_Neg_def show_int_def Let_def)

lemma NewDecFromStr_text:
  assumes "\<forall>c\<in>set (w @ f). is_digit c" and "w \<noteq> []" and "0 < length f" and "length f \<le> Precision"
  shows "NewDecFromStr (w @ CHR ''.'' # f) = Inr (int (dec_value 0 (w @ f) * 10 ^ (Precision - length f)))"
    and "NewDecFromStr (CHR ''-'' # w @ CHR ''.'' # f) = Inr (- int (dec_value 0 (w @ f) * 10 ^ (Precision - length f)))"
proof -
  have dot: "CHR ''.'' \<notin> set w" "CHR ''.'' \<notin> set f" using assms(1) is_digit_not_special(4) by auto
  have sp: "splitOn (CHR ''.'') (w @ CHR ''.'' # f) = [w, f]"
    using dot by (simp add: splitOn_append_sep splitOn_no_sep)
  have h: "hd (w @ CHR ''.'' # f) \<noteq> CHR ''-''" using assms(1,2) is_digit_not_special(2) by (cases w) auto
  let ?z = "replicate (Precision - length f) (CHR ''0'')"
  have z0: "dec_value 0 ?z = 0" using dec_value_zeros [of _ "[]"] by simp
  have dg: "\<forall>c\<in>set (w @ f @ ?z). is_digit c" using assms(1) is_digit_0 by auto
  have v: "SetString10 (w @ f @ ?z) = Some (int (dec_value 0 (w @ f) * 10 ^ (Precision - length f)))"
    using dg SetString10_digits [of "w @ f @ ?z"] assms(2) z0 dec_value_acc [of "dec_value 0 (w @ f)" ?z]
    by (simp add: dec_value_append)
  show "NewDecFromStr (w @ CHR ''.'' # f) = Inr (int (dec_value 0 (w @ f) * 10 ^ (Precision - length f)))"
    using assms(2-4) h by (simp add: NewDecFromStr_def Let_def sp v)
  show "NewDecFromStr (CHR ''-'' # w @ CHR ''.'' # f) = Inr (- int (dec_value 0 (w @ f) * 10 ^ (Precision - length f)))"
    using assms(2-4) by (simp add: NewDecFromStr_def Let_def sp v)
qed

lemma NewDecFromStr_String: "NewDecFromStr (Dec_String d) = Inr d"
proof -
  obtain w f where wf: "dec_text (nat \<bar>d\<bar>) = w @ CHR ''.'' # f" "length f = Precision" "w \<noteq> []"
      "\<forall>c\<in>set (w @ f). is_digit c" "dec_value 0 (w @ f) = nat \<bar>d\<bar>"
    using dec_text_parts by blast
  have p: "0 < length f" using wf(2) by (simp add: Precision_def)
  show ?thesis
    using NewDecFromStr_text [OF wf(4,3) p] wf(1,2,5) by (cases "d < 0") (simp_all add: Dec_String_text)
qed

lemma valid_Dec_mono: "valid_Dec y \<Longrightarrow> \<bar>x\<bar> \<le> \<bar>y\<bar> \<Longrightarrow> valid_Dec x"
  by (simp add: valid_Dec_def)

lemma Dec_Mul_integer: "Dec_Mul (a * precisionReuse) (b * precisionReuse) = check_overflow (a * b * precisionReuse)"
proof -
  have eq: "(a * precisionReuse) * (b * precisionReuse) = (a * b * precisionReuse) * precisionReuse"
    by (simp add: algebra_simps)
  show ?thesis by (simp only: Dec_Mul_def eq chop_multiple)
qed

lemma Power_loop_integer:
  assumes "k \<noteq> 0" and "t \<noteq> 0" and "1 \<le> i" and "valid_Dec (t * k ^ i * precisionReuse)"
  shows "Power_loop i (k * precisionReuse) (t * precisionReuse) = Inr (t * k ^ i * precisionReuse)"
  using assms
proof (induction i arbitrary: k t rule: less_induct)
  case (less i)
  have mono: "valid_Dec (a * precisionReuse)" if "\<bar>a\<bar> \<le> \<bar>t * k ^ i\<bar>" for a
    using less.prems(4) that by (elim valid_Dec_mono) (simp add: abs_mult mult_right_mono)
  have k1: "1 \<le> \<bar>k\<bar>" "1 \<le> \<bar>t\<bar>" using less.prems by auto
  have pw: "\<bar>k\<bar> ^ j \<le> \<bar>k\<bar> ^ i" if "j \<le> i" for j using k1 that by (simp add: power_increasing)
  show ?case
  proof (cases "1 < i")
    case False
    with less.prems(3) have "i = 1" by simp
    then show ?thesis using less.prems(4)
      by (simp add: Power_loop.simps [of "Suc 0"] Dec_Mul_integer check_overflow_eq mult.commute [of k t])
  next
    case True
    have sq: "Dec_Mul (k * precisionReuse) (k * precisionReuse) = Inr (k * k * precisionReuse)"
    proof -
      have "\<bar>k * k\<bar> \<le> 1 * \<bar>k\<bar> ^ i" using pw [of 2] True by (simp add: abs_mult power2_eq_square)
      also have "\<dots> \<le> \<bar>t * k ^ i\<bar>" using k1(2) unfolding abs_mult power_abs by (intro mult_right_mono) auto
      finally show ?thesis using mono [of "k * k"] by (simp add: Dec_Mul_integer check_overflow_eq)
    qed
    show ?thesis
    proof (cases "i mod 2 = 0")
      case even: True
      have i: "i = 2 * (i div 2)" using even by presburger
      have "k ^ i = (k * k) ^ (i div 2)"
        by (subst i) (simp only: power_mult power2_eq_square)
      then show ?thesis
        using less.IH [of "i div 2" "k * k" t] less.prems True even
        by (simp add: Power_loop.simps [of i] sq)
    next
      case odd: False
      have tk: "Dec_Mul (t * precisionReuse) (k * precisionReuse) = Inr (t * k * precisionReuse)"
      proof -
        have "\<bar>t * k\<bar> \<le> \<bar>t * k ^ i\<bar>" using pw [of 1] True unfolding abs_mult power_abs
          by (intro mult_left_mono) auto
        then show ?thesis using mono [of "t * k"] by (simp add: Dec_Mul_integer check_overflow_eq)
      qed
      have i: "i = 1 + 2 * ((i - 1) div 2)" using odd True by presburger
      have ki: "k ^ i = k * (k * k) ^ ((i - 1) div 2)"
        by (subst i) (simp add: power_mult power2_eq_square [symmetric])
      show ?thesis
        using less.IH [of "(i - 1) div 2" "k * k" "t * k"] less.prems True odd i
        by (simp add: Power_loop.simps [of i] sq tk ki mult.assoc)
    qed
  qed
qed

lemma MaxSortableDec_num: "MaxSortableDec = 10 ^ 36"
proof -
  have "Dec_Quo OneDec SmallestDec = Inr (10 ^ 36)"
    using chop_multiple [of "10 ^ 36"]
    by (simp add: Dec_Quo_def OneDec_def SmallestDec_def check_overflow_eq valid_Dec_def precisionReuse_num
       signed_divide_int_def)
  then show ?thesis by (simp add: MaxSortableDec_def)
qed

lemma padded_text:
  assumes "0 \<le> d" and "d < 10 ^ 36"
  shows "\<exists>w f. pad_zeros 37 (Dec_String d) = w @ CHR ''.'' # f \<and> length w = 18 \<and> length f = 18
    \<and> (\<forall>c\<in>set (w @ f). is_digit c) \<and> dec_value 0 (w @ f) = nat d"
proof -
  obtain w f where wf: "dec_text (nat d) = w @ CHR ''.'' # f" "length f = Precision" "w \<noteq> []"
      "\<forall>c\<in>set (w @ f). is_digit c" "dec_value 0 (w @ f) = nat d"
    using dec_text_parts by blast
  have "nat d < 10 ^ 36" using assms by (simp add: nat_less_iff)
  then have "length (show_nat (nat d)) \<le> 36" by (rule show_nat_length) simp
  moreover have "length (dec_text (nat d)) = (if length (show_nat (nat d)) \<le> 18 then 20 else length (show_nat (nat d)) + 1)"
    by (simp add: dec_text_def Precision_def Let_def)
  ultimately have "length (dec_text (nat d)) \<le> 37" by simp
  then have w: "length w \<le> 18" using wf(1,2) by (simp add: Precision_def)
  let ?z = "replicate (18 - length w) (CHR ''0'')"
  have "pad_zeros 37 (Dec_String d) = (?z @ w) @ CHR ''.'' # f"
    using assms(1) wf(1,2) by (simp add: pad_zeros_def Dec_String_text Precision_def)
  moreover have "dec_value 0 ((?z @ w) @ f) = nat d" using dec_value_zeros wf(5) by simp
  ultimately show ?thesis using w wf(2,4) is_digit_0
    by (intro exI [of _ "?z @ w"] exI [of _ f]) (auto simp: Precision_def)
qed

lemma padded_less_iff:
  assumes "0 \<le> a" "a < 10 ^ 36" "0 \<le> b" "b < 10 ^ 36"
  shows "pad_zeros 37 (Dec_String a) < pad_zeros 37 (Dec_String b) \<longleftrightarrow> a < b"
proof -
  obtain w f where a: "pad_zeros 37 (Dec_String a) = w @ CHR ''.'' # f" "length w = 18" "length f = 18"
      "\<forall>c\<in>set (w @ f). is_digit c" "dec_value 0 (w @ f) = nat a"
    using padded_text [OF assms(1,2)] by blast
  obtain v g where b: "pad_zeros 37 (Dec_String b) = v @ CHR ''.'' # g" "length v = 18" "length g = 18"
      "\<forall>c\<in>set (v @ g). is_digit c" "dec_value 0 (v @ g) = nat b"
    using padded_text [OF assms(3,4)] by blast
  have "w @ CHR ''.'' # f < v @ CHR ''.'' # g \<longleftrightarrow> w @ f < v @ g"
    using a(2) b(2) by (simp add: less_insert_same)
  also have "\<dots> \<longleftrightarrow> nat a < nat b"
    using digits_less_iff [of "w @ f" "v @ g"] a(2-5) b(2-5) by auto
  finally show ?thesis using a(1) b(1) assms(1,3) by auto
qed

lemma ApproxRoot_step_valid: "ApproxRoot_step d root guess = Inr (delta', guess') \<Longrightarrow> valid_Dec guess'"
  by (auto simp: ApproxRoot_step_def Dec_Add_def check_overflow_eq Let_def split: if_splits)

lemma ApproxRoot_loop_returns:
  "valid_Dec guess \<Longrightarrow> \<exists>g err. ApproxRoot_loop n d root guess delta = (Some g, err) \<and> valid_Dec g
     \<and> err \<in> {None, Some ''out of bounds''}"
proof (induction n arbitrary: guess delta)
  case (Suc n)
  show ?case
  proof (cases "ApproxRoot_step d root guess")
    case (Inr p)
    obtain delta' guess' where "p = (delta', guess')" by (cases p)
    with Inr have "valid_Dec guess'" using ApproxRoot_step_valid by blast
    with Suc Inr \<open>p = _\<close> show ?thesis by auto
  qed (use Suc.prems in auto)
qed simp

text \<open>
  \<^bold>\<open>C32.\<close> \<open>Mul\<close> is correctly rounded: it returns \<open>r\<close> exactly when \<open>r\<close> is the scaled product rounded
  half to even at the 18th decimal and \<open>r\<close> is in range; it panics otherwise.
\<close>

theorem Dec_Mul_correctly_rounded:
  "(Dec_Mul a b = Inr r \<longleftrightarrow> half_even (a * b) r \<and> valid_Dec r)
   \<and> (Dec_Mul a b = Inl e \<longrightarrow> e = Panic ''Int overflow'' \<and> \<not> (\<exists>r. half_even (a * b) r \<and> valid_Dec r))"
  by (auto simp: Dec_Mul_def check_overflow_eq chop_eq_iff [symmetric])

theorem Dec_Mul_correctly_rounded_witness:
  "Dec_Mul 1500000000000000000 1 = Inr 2 \<and> Dec_Mul 2500000000000000000 1 = Inr 2"
  using Dec_Mul_correctly_rounded [of "1500000000000000000" 1 2]
    Dec_Mul_correctly_rounded [of "2500000000000000000" 1 2]
  by (simp add: half_even_def valid_Dec_def precisionReuse_num)

text \<open>
  The three divisions differ only in the last rounding: for a non-zero divisor the
  quotient carried to 36 decimals is rounded half to even (\<open>Quo\<close>), truncated, which is the
  exact truncated quotient (\<open>QuoTruncate\<close>), or rounded up (\<open>QuoRoundUp\<close>); a result out of
  range and a zero divisor are panics.
\<close>

theorem Dec_division:
  "Dec_Quo x 0 = Inl (Panic ''division by zero'')
   \<and> Dec_QuoTruncate x 0 = Inl (Panic ''division by zero'')
   \<and> Dec_QuoRoundUp x 0 = Inl (Panic ''division by zero'')
   \<and> (y \<noteq> 0 \<longrightarrow>
       (\<exists>r. half_even ((x * precisionReuse * precisionReuse) sdiv y) r \<and>
          Dec_Quo x y = (if valid_Dec r then Inr r else Inl (Panic ''Int overflow'')))
     \<and> Dec_QuoTruncate x y =
         (if valid_Dec ((x * precisionReuse) sdiv y) then Inr ((x * precisionReuse) sdiv y)
          else Inl (Panic ''Int overflow''))
     \<and> Dec_QuoRoundUp x y =
         (let r = - ((- ((x * precisionReuse * precisionReuse) sdiv y)) div precisionReuse)
          in if valid_Dec r then Inr r else Inl (Panic ''Int overflow'')))"
  using sdiv_sdiv_mult [of precisionReuse "x * precisionReuse" y] chop_half_even
  by (auto simp: Dec_Quo_def Dec_QuoTruncate_def Dec_QuoRoundUp_def big_Quo_def check_overflow_eq
      chopPrecisionAndTruncate_def chopPrecisionAndRoundUp_eq Let_def)

theorem Dec_division_witness:
  "Dec_QuoTruncate 1000000000000000000 3000000000000000000 = Inr 333333333333333333
   \<and> Dec_QuoRoundUp 1000000000000000000 3000000000000000000 = Inr 333333333333333334"
  using Dec_division [of "1000000000000000000" "3000000000000000000"]
  by (simp add: valid_Dec_def precisionReuse_num sdiv_nonneg)

text \<open>
  Rounding to integers: \<open>Ceil\<close> is the least whole decimal not below its argument, \<open>RoundInt\<close>
  rounds half to even and \<open>TruncateInt\<close> towards zero, and the last two return a result exactly
  when it fits in 255 bits.
\<close>

theorem Dec_to_integer:
  "(\<exists>k. Dec_Ceil d = Inr (k * precisionReuse) \<and> d \<le> k * precisionReuse \<and> (k - 1) * precisionReuse < d)
   \<and> (Dec_RoundInt d = Inr r \<longleftrightarrow> half_even d r \<and> valid_Int r)
   \<and> (Dec_TruncateInt d = Inr t \<longleftrightarrow> t = sgn d * (\<bar>d\<bar> div precisionReuse) \<and> valid_Int t)"
proof (intro conjI)
  define q m where "q = (- d) div precisionReuse" and "m = (- d) mod precisionReuse"
  have "- d = q * precisionReuse + m" "0 \<le> m" "m < precisionReuse" by (simp_all add: q_def m_def)
  then have "d \<le> - (q * precisionReuse)" "- (q * precisionReuse) - precisionReuse < d" by linarith+
  then show "\<exists>k. Dec_Ceil d = Inr (k * precisionReuse) \<and> d \<le> k * precisionReuse
      \<and> (k - 1) * precisionReuse < d"
    by (intro exI [of _ "- q"]) (simp add: Dec_Ceil_eq q_def left_diff_distrib)
qed (auto simp: Dec_RoundInt_def Dec_TruncateInt_def NewIntFromBigInt_eq chop_eq_iff [symmetric]
      chopPrecisionAndTruncate_def signed_divide_int_def)

text \<open>
  Printing and parsing are inverse: \<open>NewDecFromStr\<close> reads back what \<open>String\<close> prints, for
  every decimal, negative ones and those below one included.
\<close>

theorem Dec_String_roundtrip: "NewDecFromStr (Dec_String d) = Inr d"
  by (rule NewDecFromStr_String)

text \<open>
  The binary form of a \<open>Dec\<close> reads back exactly when its scaled integer fits in 255 bits:
  \<open>Unmarshal\<close> applies the 255-bit limit of \<open>Int\<close>, so the larger values that the arithmetic
  allows (up to 315 bits) are marshalled and then rejected.
\<close>

theorem Dec_binary_roundtrip:
  "Dec_Unmarshal e (Dec_Marshal (Some d)) =
     (if valid_Int d then Inr (Some d)
      else Inl (Err (''decimal out of range; got: '' @ show_nat (BitLen d) @ '', max: 255'')))"
proof -
  have "show_int d \<noteq> []" by (simp add: show_int_def)
  then show ?thesis by (simp add: Dec_Unmarshal_def Dec_Marshal_def maxBitLen_check)
qed

text \<open>
  \<open>Power\<close> of a non-zero whole decimal is exact and returns whenever the power is in range:
  no intermediate square or product of the loop overflows before the result does.
\<close>

theorem Dec_Power_integer:
  assumes "k \<noteq> 0" and "valid_Dec (k ^ unat n * precisionReuse)"
  shows "Dec_Power (k * precisionReuse) n = Inr (k ^ unat n * precisionReuse)"
proof (cases "n = 0")
  case False
  then have "1 \<le> unat n" by (simp add: Suc_le_eq unat_gt_0)
  with False show ?thesis
    using Power_loop_integer [of k 1 "unat n"] assms by (simp add: Dec_Power_def OneDec_def)
qed (simp add: Dec_Power_def OneDec_def)

theorem Dec_Power_integer_witness:
  "Dec_Power (- 3 * precisionReuse) 5 = Inr (- 243 * precisionReuse)"
  using Dec_Power_integer [of "- 3" 5] by (simp add: valid_Dec_def precisionReuse_num)

text \<open>
  \<open>SortableDecBytes\<close> keeps the order of two decimals inside its bounds when the larger one
  is not negative, and reverses it when both are negative, because the magnitude follows the
  sign.
\<close>

theorem SortableDecBytes_order:
  assumes "\<bar>a\<bar> < MaxSortableDec" and "\<bar>b\<bar> < MaxSortableDec" and "a < b"
    and "SortableDecBytes a = Inr s" and "SortableDecBytes b = Inr t"
  shows "(0 \<le> b \<longrightarrow> s < t) \<and> (b < 0 \<longrightarrow> t < s)"
proof -
  have ab: "\<bar>a\<bar> < 10 ^ 36" "\<bar>b\<bar> < 10 ^ 36" using assms(1,2) by (simp_all add: MaxSortableDec_num)
  have eq: "SortableDecBytes x = Inr (if x < 0 then CHR ''-'' # pad_zeros 37 (Dec_String \<bar>x\<bar>)
      else pad_zeros 37 (Dec_String x))" if "\<bar>x\<bar> < 10 ^ 36" for x
    using that by (auto simp: SortableDecBytes_def ValidSortableDec_def MaxSortableDec_num Dec_Abs_def Dec_Neg_def Precision_def)
  have pad_digit: "\<exists>c cs. pad_zeros 37 (Dec_String x) = c # cs \<and> CHR ''-'' < c" if "0 \<le> x" "x < 10 ^ 36" for x
  proof -
    obtain w f where "pad_zeros 37 (Dec_String x) = w @ CHR ''.'' # f" "length w = 18" "\<forall>c\<in>set (w @ f). is_digit c"
      using padded_text [OF \<open>0 \<le> x\<close> \<open>x < 10 ^ 36\<close>] by blast
    then show ?thesis by (cases w) (auto simp: is_digit_def less_eq_char_def less_char_def)
  qed
  show ?thesis
  proof (cases "b < 0")
    case True
    then show ?thesis using assms(3-5) eq [OF ab(1)] eq [OF ab(2)] padded_less_iff [of "\<bar>b\<bar>" "\<bar>a\<bar>"] ab
      by (auto simp: Cons_less_Cons)
  next
    case False
    then show ?thesis using assms(3-5) eq [OF ab(1)] eq [OF ab(2)] padded_less_iff [of a b] ab pad_digit [of b]
      by (cases "a < 0") (auto simp: Cons_less_Cons)
  qed
qed

theorem SortableDecBytes_order_witness:
  "(\<exists>s t. SortableDecBytes (- 2) = Inr s \<and> SortableDecBytes (- 1) = Inr t \<and> t < s)
   \<and> (\<exists>s t. SortableDecBytes (- 2) = Inr s \<and> SortableDecBytes 5 = Inr t \<and> s < t)"
proof -
  have "SortableDecBytes x \<noteq> Inl e" if "x \<in> {- 2, - 1, 5}" for x e
    using that by (auto simp: SortableDecBytes_def ValidSortableDec_def MaxSortableDec_num Dec_Abs_def)
  then obtain s t u where "SortableDecBytes (- 2) = Inr s" "SortableDecBytes (- 1) = Inr t"
      "SortableDecBytes 5 = Inr u"
    by (metis insertI1 insertI2 sum.exhaust)
  then show ?thesis
    using SortableDecBytes_order [of "- 2" "- 1" s t] SortableDecBytes_order [of "- 2" 5 s u]
    by (simp add: MaxSortableDec_num)
qed



end
