(* ===== verification/SdkCoin.thy ===== *)
theory SdkCoin
  imports SdkDec "HOL-Library.Multiset"
begin

text \<open>
  \<open>types/coin.go\<close>: a coin is a denomination and an amount, and \<open>Coins\<close> a slice of coins that
  is meant to be sorted by denomination without repetition. Slices are lists; the one loop that
  writes into the caller's backing array (\<open>removeZeroCoins\<close>) is modelled on the array.
\<close>

section \<open>Denominations\<close>

definition is_letter :: "char \<Rightarrow> bool" where
  "is_letter c = (is_lower c \<or> is_upper c)"

text \<open>The class \<open>[a-zA-Z0-9/:-]\<close> of \<open>reDnmString\<close>.\<close>

definition is_denom_char :: "char \<Rightarrow> bool" where
  "is_denom_char c = (is_letter c \<or> is_digit c \<or> c = CHR ''/'' \<or> c = CHR '':'' \<or> c = CHR ''-'')"

text \<open>\<open>reDnm\<close>: a letter and then 2 to 127 characters of the class.\<close>

definition reDnm :: "string \<Rightarrow> bool" where
  "reDnm s =
     (case s of
        [] \<Rightarrow> False
      | c # cs \<Rightarrow> is_letter c \<and> 2 \<le> length cs \<and> length cs \<le> 127 \<and> list_all is_denom_char cs)"

text \<open>
  The submatches of \<open>reCoin\<close>: digits, optional white space, a denomination up to the end. A
  denomination starts with a letter, so the split is unique.
\<close>

definition reCoin :: "string \<Rightarrow> (string \<times> string) option" where
  "reCoin s =
     (let amt = takeWhile is_digit s;
          dnm = dropWhile is_space (dropWhile is_digit s)
      in if amt \<noteq> [] \<and> reDnm dnm then Some (amt, dnm) else None)"

definition ValidateDenom :: "string \<Rightarrow> unit res" where
  "ValidateDenom denom = (if \<not> reDnm denom then Inl (Err (''invalid denom: '' @ denom)) else Inr ())"

definition mustValidateDenom :: "string \<Rightarrow> unit res" where
  "mustValidateDenom denom =
     (case ValidateDenom denom of Inl (Err m) \<Rightarrow> Inl (Panic m) | r \<Rightarrow> r)"

section \<open>A coin\<close>

record Coin =
  Denom :: string
  Amount :: int

definition validate :: "string \<Rightarrow> int \<Rightarrow> unit res" where
  "validate denom amount =
     bindR (ValidateDenom denom) (\<lambda>_.
       if Int_IsNegative amount then Inl (Err (''negative coin amount: '' @ Int_String amount))
       else Inr ())"

definition NewCoin :: "string \<Rightarrow> int \<Rightarrow> Coin res" where
  "NewCoin denom amount =
     (case validate denom amount of
        Inl (Err m) \<Rightarrow> Inl (Panic m)
      | Inl (Panic m) \<Rightarrow> Inl (Panic m)
      | Inr _ \<Rightarrow> Inr \<lparr>Denom = denom, Amount = amount\<rparr>)"

definition Coin_IsValid :: "Coin \<Rightarrow> bool" where
  "Coin_IsValid coin = is_ok (validate (Denom coin) (Amount coin))"

definition Coin_IsZero :: "Coin \<Rightarrow> bool" where
  "Coin_IsZero coin = Int_IsZero (Amount coin)"

definition Coin_IsPositive :: "Coin \<Rightarrow> bool" where
  "Coin_IsPositive coin = (Int_Sign (Amount coin) = 1)"

definition Coin_IsNegative :: "Coin \<Rightarrow> bool" where
  "Coin_IsNegative coin = (Int_Sign (Amount coin) = -1)"

definition denom_panic :: "string \<Rightarrow> string \<Rightarrow> failure" where
  "denom_panic a b = Panic (''invalid coin denominations; '' @ a @ '', '' @ b)"

definition Coin_Add :: "Coin \<Rightarrow> Coin \<Rightarrow> Coin res" where
  "Coin_Add coin coinB =
     (if Denom coin \<noteq> Denom coinB then Inl (denom_panic (Denom coin) (Denom coinB))
      else bindR (Int_Add (Amount coin) (Amount coinB))
             (\<lambda>a. Inr \<lparr>Denom = Denom coin, Amount = a\<rparr>))"

definition Coin_Sub :: "Coin \<Rightarrow> Coin \<Rightarrow> Coin res" where
  "Coin_Sub coin coinB =
     (if Denom coin \<noteq> Denom coinB then Inl (denom_panic (Denom coin) (Denom coinB))
      else bindR (Int_Sub (Amount coin) (Amount coinB)) (\<lambda>a.
             let r = \<lparr>Denom = Denom coin, Amount = a\<rparr>
             in if Coin_IsNegative r then Inl (Panic ''negative coin amount'') else Inr r))"

definition Coin_String :: "Coin \<Rightarrow> string" where
  "Coin_String coin = Int_String (Amount coin) @ Denom coin"

definition Coin_IsEqual :: "Coin \<Rightarrow> Coin \<Rightarrow> bool res" where
  "Coin_IsEqual coin other =
     (if Denom coin \<noteq> Denom other then Inl (denom_panic (Denom coin) (Denom other))
      else Inr (Int_Equal (Amount coin) (Amount other)))"

section \<open>Loops shared by \<open>Coins\<close> and \<open>DecCoins\<close>\<close>

text \<open>
  The compaction loop of \<open>removeZeroCoins\<close> on the backing array: the slice is the first \<open>l\<close>
  cells. Removing the element at \<open>i\<close> copies the cells behind it one to the left; the last
  cell of the old slice keeps its value, outside the new slice.
\<close>

function compact_loop :: "('c \<Rightarrow> bool) \<Rightarrow> 'c list \<Rightarrow> nat \<Rightarrow> nat \<Rightarrow> 'c list \<times> nat" where
  "compact_loop isZero arr i l =
     (if i < l then
        (if isZero (arr ! i)
         then compact_loop isZero
                (take i arr @ take (l - 1 - i) (drop (i + 1) arr) @ drop (l - 1) arr) i (l - 1)
         else compact_loop isZero arr (i + 1) l)
      else (arr, i))"
  by pat_completeness auto
termination
  by (relation "measure (\<lambda>(isZero, arr, i, l). l - i)") auto

declare compact_loop.simps [simp del]

text \<open>\<open>findDup\<close> over the interface \<open>findDupDescriptor\<close> (a length and the denomination at an index).\<close>

fun findDup_loop :: "(nat \<Rightarrow> string) \<Rightarrow> string \<Rightarrow> nat list \<Rightarrow> int" where
  "findDup_loop denomAt prevDenom [] = -1"
| "findDup_loop denomAt prevDenom (i # is) =
     (if denomAt i = prevDenom then int i else findDup_loop denomAt (denomAt i) is)"

definition findDup :: "nat \<Rightarrow> (nat \<Rightarrow> string) \<Rightarrow> int" where
  "findDup len denomAt =
     (if len \<le> 1 then -1 else findDup_loop denomAt (denomAt 0) [1 ..< len])"

section \<open>Coins\<close>

type_synonym Coins = "Coin list"

definition Coins_Len :: "Coins \<Rightarrow> nat" where
  "Coins_Len coins = length coins"

definition Coins_GetDenomByIndex :: "Coins \<Rightarrow> nat \<Rightarrow> string" where
  "Coins_GetDenomByIndex coins i = Denom (coins ! i)"

definition Coins_IsAnyNegative :: "Coins \<Rightarrow> bool" where
  "Coins_IsAnyNegative coins = list_ex Coin_IsNegative coins"

definition Coins_Sort :: "Coins \<Rightarrow> Coins" where
  "Coins_Sort coins = sort_key Denom coins"

text \<open>The result slice, and the caller's array after the call.\<close>

definition removeZeroCoins_arr :: "Coins \<Rightarrow> Coins \<times> nat" where
  "removeZeroCoins_arr coins = compact_loop Coin_IsZero coins 0 (length coins)"

definition removeZeroCoins :: "Coins \<Rightarrow> Coins" where
  "removeZeroCoins coins = (case removeZeroCoins_arr coins of (arr, i) \<Rightarrow> take i arr)"

fun Coins_IsValid_rest :: "string \<Rightarrow> Coins \<Rightarrow> bool" where
  "Coins_IsValid_rest lowDenom [] = True"
| "Coins_IsValid_rest lowDenom (coin # cs) =
     (if ToLower (Denom coin) \<noteq> Denom coin then False
      else if Denom coin \<le> lowDenom then False
      else if \<not> Coin_IsPositive coin then False
      else Coins_IsValid_rest (Denom coin) cs)"

fun Coins_IsValid :: "Coins \<Rightarrow> bool" where
  "Coins_IsValid [] = True"
| "Coins_IsValid [coin] = (if \<not> is_ok (ValidateDenom (Denom coin)) then False else Coin_IsPositive coin)"
| "Coins_IsValid (coin # c # cs) =
     (if \<not> Coins_IsValid [coin] then False else Coins_IsValid_rest (Denom coin) (c # cs))"

definition Coins_IsZero :: "Coins \<Rightarrow> bool" where
  "Coins_IsZero coins = list_all Coin_IsZero coins"

definition Coins_IsAllPositive :: "Coins \<Rightarrow> bool" where
  "Coins_IsAllPositive coins = (coins \<noteq> [] \<and> list_all Coin_IsPositive coins)"

definition Coins_Empty :: "Coins \<Rightarrow> bool" where
  "Coins_Empty coins = (length coins = 0)"

text \<open>The binary search of \<open>AmountOf\<close>; every call validates the denomination again.\<close>

function Coins_AmountOf :: "Coins \<Rightarrow> string \<Rightarrow> int res" where
  "Coins_AmountOf coins denom =
     bindR (mustValidateDenom denom) (\<lambda>_.
       if length coins = 0 then Inr ZeroInt
       else if length coins = 1 then
         (if Denom (coins ! 0) = denom then Inr (Amount (coins ! 0)) else Inr ZeroInt)
       else
         let midIdx = length coins div 2;
             coin = coins ! midIdx
         in if denom < Denom coin then Coins_AmountOf (take midIdx coins) denom
            else if denom = Denom coin then Inr (Amount coin)
            else Coins_AmountOf (drop (midIdx + 1) coins) denom)"
  by pat_completeness auto
termination
  by (relation "measure (\<lambda>(coins, denom). length coins)") auto

declare Coins_AmountOf.simps [simp del]

definition Coins_String :: "Coins \<Rightarrow> string" where
  "Coins_String coins =
     (if length coins = 0 then []
      else butlast (concat (map (\<lambda>coin. Coin_String coin @ '','') coins)))"

text \<open>
  \<open>IsEqual\<close> compares the two sorted slices position by position. \<open>Coin.IsEqual\<close> panics on
  different denominations, and so does this.
\<close>

fun Coins_IsEqual_loop :: "Coins \<Rightarrow> Coins \<Rightarrow> bool res" where
  "Coins_IsEqual_loop (a # as) (b # bs) =
     bindR (Coin_IsEqual a b) (\<lambda>eq. if \<not> eq then Inr False else Coins_IsEqual_loop as bs)"
| "Coins_IsEqual_loop _ _ = Inr True"

definition Coins_IsEqual :: "Coins \<Rightarrow> Coins \<Rightarrow> bool res" where
  "Coins_IsEqual coins coinsB =
     (if length coins \<noteq> length coinsB then Inr False
      else Coins_IsEqual_loop (Coins_Sort coins) (Coins_Sort coinsB))"

fun Coins_Validate_rest :: "string \<Rightarrow> string set \<Rightarrow> Coins \<Rightarrow> unit res" where
  "Coins_Validate_rest lowDenom seenDenoms [] = Inr ()"
| "Coins_Validate_rest lowDenom seenDenoms (coin # cs) =
     (if Denom coin \<in> seenDenoms then Inl (Err (''duplicate denomination '' @ Denom coin))
      else bindR (ValidateDenom (Denom coin)) (\<lambda>_.
        if Denom coin \<le> lowDenom then Inl (Err (''denomination '' @ Denom coin @ '' is not sorted''))
        else if \<not> Coin_IsPositive coin then Inl (Err (''coin '' @ Denom coin @ '' amount is not positive''))
        else Coins_Validate_rest (Denom coin) (insert (Denom coin) seenDenoms) cs))"

fun Coins_Validate :: "Coins \<Rightarrow> unit res" where
  "Coins_Validate [] = Inr ()"
| "Coins_Validate [coin] =
     bindR (ValidateDenom (Denom coin)) (\<lambda>_.
       if \<not> Coin_IsPositive coin then Inl (Err (''coin '' @ Coin_String coin @ '' amount is not positive''))
       else Inr ())"
| "Coins_Validate (coin # c # cs) =
     bindR (Coins_Validate [coin]) (\<lambda>_. Coins_Validate_rest (Denom coin) {Denom coin} (c # cs))"

definition NewCoins :: "Coins \<Rightarrow> Coins res" where
  "NewCoins coins =
     (let newCoins = removeZeroCoins coins in
      if length newCoins = 0 then Inr []
      else
        let sorted = Coins_Sort newCoins;
            dupIndex = findDup (Coins_Len sorted) (Coins_GetDenomByIndex sorted)
        in if dupIndex \<noteq> -1
           then Inl (Panic (''find duplicate denom: '' @ Coin_String (sorted ! nat dupIndex)))
           else if \<not> Coins_IsValid sorted
           then Inl (Panic (''invalid coin set: '' @ Coins_String sorted))
           else Inr sorted)"

fun Coins_safeAdd :: "Coins \<Rightarrow> Coins \<Rightarrow> Coins res" where
  "Coins_safeAdd [] coinsB = Inr (removeZeroCoins coinsB)"
| "Coins_safeAdd (coinA # as) [] = Inr (removeZeroCoins (coinA # as))"
| "Coins_safeAdd (coinA # as) (coinB # bs) =
     (if Denom coinA < Denom coinB then
        bindR (Coins_safeAdd as (coinB # bs))
          (\<lambda>sum. Inr (if \<not> Coin_IsZero coinA then coinA # sum else sum))
      else if Denom coinA = Denom coinB then
        bindR (Coin_Add coinA coinB) (\<lambda>r.
        bindR (Coins_safeAdd as bs) (\<lambda>sum. Inr (if \<not> Coin_IsZero r then r # sum else sum)))
      else
        bindR (Coins_safeAdd (coinA # as) bs)
          (\<lambda>sum. Inr (if \<not> Coin_IsZero coinB then coinB # sum else sum)))"

definition Coins_Add :: "Coins \<Rightarrow> Coins \<Rightarrow> Coins res" where
  "Coins_Add coins coinsB = Coins_safeAdd coins coinsB"

section \<open>Parsing\<close>

definition ParseCoin :: "string \<Rightarrow> Coin res" where
  "ParseCoin coinStr0 =
     (let coinStr = TrimSpace coinStr0 in
      case reCoin coinStr of
        None \<Rightarrow> Inl (Err (''invalid coin expression: '' @ coinStr))
      | Some (amountStr, denomStr) \<Rightarrow>
          (case NewIntFromString amountStr of
             None \<Rightarrow> Inl (Err (''failed to parse coin amount: '' @ amountStr))
           | Some amount \<Rightarrow>
               (case ValidateDenom denomStr of
                  Inl _ \<Rightarrow> Inl (Err (''invalid denom cannot contain upper case characters or spaces: invalid denom: '' @ denomStr))
                | Inr _ \<Rightarrow> NewCoin denomStr amount)))"

definition ParseCoins :: "string \<Rightarrow> Coins res" where
  "ParseCoins coinsStr0 =
     (let coinsStr = TrimSpace coinsStr0 in
      if length coinsStr = 0 then Inr []
      else
        bindR (mapR ParseCoin (splitOn (CHR '','') coinsStr)) (\<lambda>coins0.
          let coins = Coins_Sort coins0 in
          if \<not> Coins_IsValid coins then Inl (Err ''parseCoins invalid'') else Inr coins))"

section \<open>The shared loops\<close>

lemma compact_loop_split:
  "compact_loop isZero (xs @ ys @ zs) (length xs) (length xs + length ys) =
     (let keep = filter (\<lambda>c. \<not> isZero c) ys
      in (xs @ keep @ replicate (length ys - length keep) (last ys) @ zs, length xs + length keep))"
proof (induction ys arbitrary: xs zs)
  case Nil
  show ?case by (simp add: compact_loop.simps)
next
  case (Cons y ys)
  show ?case
  proof (cases "isZero y")
    case True
    have drop: "drop (length ys) (y # ys @ zs) = last (y # ys) # zs"
      by (induction ys arbitrary: y) auto
    have "compact_loop isZero (xs @ (y # ys) @ zs) (length xs) (length xs + length (y # ys)) =
        compact_loop isZero (xs @ ys @ (last (y # ys) # zs)) (length xs) (length xs + length ys)"
      using True drop by (subst compact_loop.simps) (simp add: nth_append)
    also have "\<dots> = (let keep = filter (\<lambda>c. \<not> isZero c) ys
      in (xs @ keep @ replicate (length ys - length keep) (last ys) @ (last (y # ys) # zs), length xs + length keep))"
      by (rule Cons.IH)
    also have "\<dots> = (let keep = filter (\<lambda>c. \<not> isZero c) (y # ys)
      in (xs @ keep @ replicate (length (y # ys) - length keep) (last (y # ys)) @ zs, length xs + length keep))"
      using True length_filter_le [of "\<lambda>c. \<not> isZero c" ys]
      by (auto simp: Let_def Suc_diff_le replicate_app_Cons_same)
    finally show ?thesis .
  next
    case False
    have "compact_loop isZero (xs @ (y # ys) @ zs) (length xs) (length xs + length (y # ys)) =
        compact_loop isZero ((xs @ [y]) @ ys @ zs) (length (xs @ [y])) (length (xs @ [y]) + length ys)"
      using False by (subst compact_loop.simps) (simp add: nth_append)
    also have "\<dots> = (let keep = filter (\<lambda>c. \<not> isZero c) ys
      in ((xs @ [y]) @ keep @ replicate (length ys - length keep) (last ys) @ zs, length (xs @ [y]) + length keep))"
      by (rule Cons.IH)
    finally show ?thesis
      using False by (cases "ys = []") (simp_all add: Let_def)
  qed
qed

lemma compact_loop_eq:
  "compact_loop isZero cs 0 (length cs) =
     (let keep = filter (\<lambda>c. \<not> isZero c) cs
      in (keep @ replicate (length cs - length keep) (last cs), length keep))"
  using compact_loop_split [of isZero "[]" cs "[]"] by simp

text \<open>
  The interface \<open>findDupDescriptor\<close>: whoever gives a length and the denomination at each index
  gets from \<open>findDup\<close> the first index whose denomination repeats the one before it.
\<close>

locale findDupDescriptor =
  fixes Len :: "'s \<Rightarrow> nat" and GetDenomByIndex :: "'s \<Rightarrow> nat \<Rightarrow> string" and denoms :: "'s \<Rightarrow> string list"
  assumes Len_denoms: "Len s = length (denoms s)"
    and GetDenomByIndex_denoms: "i < length (denoms s) \<Longrightarrow> GetDenomByIndex s i = denoms s ! i"
begin

lemma findDup_loop_none:
  "0 < i \<Longrightarrow> i \<le> length (denoms s) \<Longrightarrow>
   findDup_loop (GetDenomByIndex s) (denoms s ! (i - 1)) [i ..< length (denoms s)] = -1 \<longleftrightarrow>
   (\<forall>j. i \<le> j \<and> j < length (denoms s) \<longrightarrow> denoms s ! (j - 1) \<noteq> denoms s ! j)"
proof (induction "length (denoms s) - i" arbitrary: i)
  case 0
  then show ?case by auto
next
  case (Suc n)
  then have less: "i < length (denoms s)" by simp
  have "(\<forall>j. i \<le> j \<and> j < length (denoms s) \<longrightarrow> denoms s ! (j - 1) \<noteq> denoms s ! j) \<longleftrightarrow>
      denoms s ! (i - 1) \<noteq> denoms s ! i \<and>
      (\<forall>j. Suc i \<le> j \<and> j < length (denoms s) \<longrightarrow> denoms s ! (j - 1) \<noteq> denoms s ! j)"
    using less by (metis Suc_leD Suc_leI le_neq_implies_less order_refl)
  with Suc.hyps(1) [of "Suc i"] Suc.hyps(2) less Suc.prems show ?case
    by (auto simp: upt_conv_Cons GetDenomByIndex_denoms)
qed

lemma findDup_none_iff: "findDup (Len s) (GetDenomByIndex s) = -1 \<longleftrightarrow> distinct_adj (denoms s)"
proof (cases "length (denoms s) \<le> 1")
  case True
  then show ?thesis
    by (cases "denoms s") (auto simp: findDup_def Len_denoms)
next
  case False
  then have "GetDenomByIndex s 0 = denoms s ! 0"
    by (intro GetDenomByIndex_denoms) linarith
  with False findDup_loop_none [of 1 s]
  have "findDup (Len s) (GetDenomByIndex s) = -1 \<longleftrightarrow>
      (\<forall>j. 1 \<le> j \<and> j < length (denoms s) \<longrightarrow> denoms s ! (j - 1) \<noteq> denoms s ! j)"
    by (simp add: findDup_def Len_denoms)
  also have "\<dots> \<longleftrightarrow> (\<forall>j<length (denoms s) - 1. denoms s ! j \<noteq> denoms s ! Suc j)"
  proof (intro iffI allI impI)
    fix j
    assume *: "\<forall>j. 1 \<le> j \<and> j < length (denoms s) \<longrightarrow> denoms s ! (j - 1) \<noteq> denoms s ! j"
      and "j < length (denoms s) - 1"
    then show "denoms s ! j \<noteq> denoms s ! Suc j"
      using * [rule_format, of "Suc j"] by simp
  next
    fix j
    assume *: "\<forall>j<length (denoms s) - 1. denoms s ! j \<noteq> denoms s ! Suc j"
      and "1 \<le> j \<and> j < length (denoms s)"
    then have "j - 1 < length (denoms s) - 1" "Suc (j - 1) = j" by linarith+
    with * show "denoms s ! (j - 1) \<noteq> denoms s ! j" by metis
  qed
  finally show ?thesis by (auto simp: distinct_adj_conv_nth less_diff_conv)
qed

lemma findDup_sorted_iff:
  assumes "sorted (denoms s)"
  shows "findDup (Len s) (GetDenomByIndex s) = -1 \<longleftrightarrow> sorted_wrt (<) (denoms s)"
proof -
  have "distinct_adj xs \<longleftrightarrow> sorted_wrt (<) xs" if "sorted xs" for xs :: "string list"
    using that
  proof (induction xs)
    case (Cons x xs)
    then show ?case
      by (cases xs) (auto simp: distinct_adj_Cons less_le_trans order.strict_iff_order)
  qed simp
  with assms findDup_none_iff show ?thesis by blast
qed

end

text \<open>
  A kind of coin with its set operations: what \<open>safeAdd\<close>, \<open>AmountOf\<close> and \<open>IsValid\<close> rely on is
  that coins are a denomination and an amount, that addition of two coins of one denomination
  adds the amounts as long as the sum \<open>fits\<close>, and how the three routines walk the slices.
\<close>

locale coin_kind =
  fixes denom :: "'c \<Rightarrow> string" and amount :: "'c \<Rightarrow> int" and fits :: "int \<Rightarrow> bool" and overflow :: failure
    and coinAdd :: "'c \<Rightarrow> 'c \<Rightarrow> 'c res" and isZero :: "'c \<Rightarrow> bool" and isPositive :: "'c \<Rightarrow> bool"
    and removeZero :: "'c list \<Rightarrow> 'c list"
    and safeAdd :: "'c list \<Rightarrow> 'c list \<Rightarrow> 'c list res"
    and amountOf :: "'c list \<Rightarrow> string \<Rightarrow> int res"
    and isValid :: "'c list \<Rightarrow> bool" and isValidRest :: "string \<Rightarrow> 'c list \<Rightarrow> bool"
  assumes coin_ext: "denom a = denom b \<Longrightarrow> amount a = amount b \<Longrightarrow> a = b"
    and coinAdd_ok: "coinAdd a b = Inr c \<Longrightarrow> denom c = denom a \<and> amount c = amount a + amount b"
    and coinAdd_fits: "denom a = denom b \<Longrightarrow> fits (amount a + amount b) \<Longrightarrow> \<exists>c. coinAdd a b = Inr c"
    and coinAdd_overflow: "denom a = denom b \<Longrightarrow> \<not> fits (amount a + amount b) \<Longrightarrow> coinAdd a b = Inl overflow"
    and isZero_amount: "isZero c \<longleftrightarrow> amount c = 0"
    and isPositive_amount: "isPositive c \<longleftrightarrow> 0 < amount c"
    and removeZero_filter: "removeZero cs = filter (\<lambda>c. \<not> isZero c) cs"
    and safeAdd_Nil: "safeAdd [] bs = Inr (removeZero bs)"
    and safeAdd_Nil2: "safeAdd as [] = Inr (removeZero as)"
    and safeAdd_Cons: "safeAdd (a # as) (b # bs) =
       (if denom a < denom b then
          bindR (safeAdd as (b # bs)) (\<lambda>sum. Inr (if \<not> isZero a then a # sum else sum))
        else if denom a = denom b then
          bindR (coinAdd a b) (\<lambda>r. bindR (safeAdd as bs) (\<lambda>sum. Inr (if \<not> isZero r then r # sum else sum)))
        else
          bindR (safeAdd (a # as) bs) (\<lambda>sum. Inr (if \<not> isZero b then b # sum else sum)))"
    and amountOf_eq: "amountOf cs d =
       bindR (mustValidateDenom d) (\<lambda>_.
         if length cs = 0 then Inr 0
         else if length cs = 1 then (if denom (cs ! 0) = d then Inr (amount (cs ! 0)) else Inr 0)
         else if d < denom (cs ! (length cs div 2)) then amountOf (take (length cs div 2) cs) d
         else if d = denom (cs ! (length cs div 2)) then Inr (amount (cs ! (length cs div 2)))
         else amountOf (drop (length cs div 2 + 1) cs) d)"
    and isValid_Nil: "isValid []"
    and isValid_single: "isValid [c] \<longleftrightarrow> reDnm (denom c) \<and> isPositive c"
    and isValid_Cons: "isValid (c # c' # cs) \<longleftrightarrow> isValid [c] \<and> isValidRest (denom c) (c' # cs)"
    and isValidRest_Nil: "isValidRest low []"
    and isValidRest_Cons: "isValidRest low (c # cs) \<longleftrightarrow>
       ToLower (denom c) = denom c \<and> low < denom c \<and> isPositive c \<and> isValidRest (denom c) cs"
begin

definition total :: "'c list \<Rightarrow> string \<Rightarrow> int" where
  "total cs d = sum_list (map amount (filter (\<lambda>c. denom c = d) cs))"

abbreviation strict :: "'c list \<Rightarrow> bool" where
  "strict cs \<equiv> sorted_wrt (\<lambda>a b. denom a < denom b) cs"

abbreviation nonzero :: "'c list \<Rightarrow> bool" where
  "nonzero cs \<equiv> \<forall>c\<in>set cs. amount c \<noteq> 0"

lemma total_simps [simp]:
  "total [] d = 0"
  "total (c # cs) d = (if denom c = d then amount c else 0) + total cs d"
  "total (as @ bs) d = total as d + total bs d"
  by (simp_all add: total_def)

lemma total_absent: "d \<notin> denom ` set cs \<Longrightarrow> total cs d = 0"
  by (induction cs) auto

lemma total_removeZero [simp]: "total (removeZero cs) d = total cs d"
  by (induction cs) (auto simp: removeZero_filter isZero_amount)

lemma safeAdd_induct [case_names Nil Nil2 less eq greater]:
  assumes "\<And>bs. P [] bs" and "\<And>a as. P (a # as) []"
    and "\<And>a as b bs. denom a < denom b \<Longrightarrow> P as (b # bs) \<Longrightarrow> P (a # as) (b # bs)"
    and "\<And>a as b bs. denom a = denom b \<Longrightarrow> P as bs \<Longrightarrow> P (a # as) (b # bs)"
    and "\<And>a as b bs. denom b < denom a \<Longrightarrow> P (a # as) bs \<Longrightarrow> P (a # as) (b # bs)"
  shows "P as bs"
proof (induction "length as + length bs" arbitrary: as bs rule: less_induct)
  case less
  show ?case
  proof (cases as; cases bs)
    fix a as' b bs'
    assume "as = a # as'" "bs = b # bs'"
    with less assms(3-5) show ?thesis
      by (cases "denom a" "denom b" rule: linorder_cases) auto
  qed (use assms(1,2) in auto)
qed

lemma safeAdd_less: "denom a < denom b \<Longrightarrow>
    safeAdd (a # as) (b # bs) = bindR (safeAdd as (b # bs)) (\<lambda>sum. Inr (if \<not> isZero a then a # sum else sum))"
  by (simp add: safeAdd_Cons)

lemma safeAdd_equal: "denom a = denom b \<Longrightarrow>
    safeAdd (a # as) (b # bs) =
      bindR (coinAdd a b) (\<lambda>r. bindR (safeAdd as bs) (\<lambda>sum. Inr (if \<not> isZero r then r # sum else sum)))"
  by (simp add: safeAdd_Cons)

lemma safeAdd_greater: "denom b < denom a \<Longrightarrow>
    safeAdd (a # as) (b # bs) = bindR (safeAdd (a # as) bs) (\<lambda>sum. Inr (if \<not> isZero b then b # sum else sum))"
  using less_not_sym [of "denom b" "denom a"] less_imp_neq [of "denom b" "denom a"]
  by (simp add: safeAdd_Cons)

lemmas safeAdd_simps = safeAdd_Nil safeAdd_Nil2 safeAdd_less safeAdd_equal safeAdd_greater

text \<open>What \<open>safeAdd\<close> keeps: the total of every denomination, for any two slices.\<close>

lemma safeAdd_total: "safeAdd as bs = Inr s \<Longrightarrow> total s d = total as d + total bs d"
proof (induction as bs arbitrary: s rule: safeAdd_induct)
  case (eq a as b bs)
  then obtain r s' where "coinAdd a b = Inr r" "safeAdd as bs = Inr s'" "s = (if \<not> isZero r then r # s' else s')"
    by (auto simp: safeAdd_equal)
  with coinAdd_ok [of a b r] eq.hyps eq.IH [of s'] show ?case by (simp add: isZero_amount)
next
  case (less a as b bs)
  then obtain s' where "safeAdd as (b # bs) = Inr s'" "s = (if \<not> isZero a then a # s' else s')"
    by (auto simp: safeAdd_less)
  with less.IH [of s'] show ?case by (simp add: isZero_amount)
next
  case (greater a as b bs)
  then obtain s' where "safeAdd (a # as) bs = Inr s'" "s = (if \<not> isZero b then b # s' else s')"
    by (auto simp: safeAdd_greater)
  with greater.IH [of s'] show ?case by (simp add: isZero_amount)
qed (simp_all add: safeAdd_Nil safeAdd_Nil2)

text \<open>Every coin of the result comes from a denomination of the operands and is not zero.\<close>

lemma safeAdd_elems:
  "safeAdd as bs = Inr s \<Longrightarrow> c \<in> set s \<Longrightarrow> amount c \<noteq> 0 \<and> denom c \<in> denom ` set as \<union> denom ` set bs"
proof (induction as bs arbitrary: s rule: safeAdd_induct)
  case (eq a as b bs)
  then obtain r s' where "coinAdd a b = Inr r" "safeAdd as bs = Inr s'" "s = (if \<not> isZero r then r # s' else s')"
    by (auto simp: safeAdd_equal)
  with coinAdd_ok [of a b r] eq show ?case by (auto simp: isZero_amount split: if_splits)
next
  case (less a as b bs)
  then obtain s' where "safeAdd as (b # bs) = Inr s'" "s = (if \<not> isZero a then a # s' else s')"
    by (auto simp: safeAdd_less)
  with less show ?case by (auto simp: isZero_amount split: if_splits)
next
  case (greater a as b bs)
  then obtain s' where "safeAdd (a # as) bs = Inr s'" "s = (if \<not> isZero b then b # s' else s')"
    by (auto simp: safeAdd_greater)
  with greater show ?case by (auto simp: isZero_amount split: if_splits)
qed (auto simp: safeAdd_Nil safeAdd_Nil2 removeZero_filter isZero_amount split: if_splits)

lemma safeAdd_strict: "safeAdd as bs = Inr s \<Longrightarrow> strict as \<Longrightarrow> strict bs \<Longrightarrow> strict s"
proof (induction as bs arbitrary: s rule: safeAdd_induct)
  case (less a as b bs)
  then obtain s' where s': "safeAdd as (b # bs) = Inr s'" "s = (if \<not> isZero a then a # s' else s')"
    by (auto simp: safeAdd_less)
  have "denom a < denom c" if "c \<in> set s'" for c
    using safeAdd_elems [OF s'(1) that] less.prems less.hyps by (auto intro: less_trans)
  with s' less show ?case by simp
next
  case (eq a as b bs)
  then obtain r s' where s': "coinAdd a b = Inr r" "safeAdd as bs = Inr s'" "s = (if \<not> isZero r then r # s' else s')"
    by (auto simp: safeAdd_equal)
  have "denom r < denom c" if "c \<in> set s'" for c
    using safeAdd_elems [OF s'(2) that] coinAdd_ok [OF s'(1)] eq.prems eq.hyps by auto
  with s' eq show ?case by simp
next
  case (greater a as b bs)
  then obtain s' where s': "safeAdd (a # as) bs = Inr s'" "s = (if \<not> isZero b then b # s' else s')"
    by (auto simp: safeAdd_greater)
  have "denom b < denom c" if "c \<in> set s'" for c
    using safeAdd_elems [OF s'(1) that] greater.prems greater.hyps by (auto intro: less_trans)
  with s' greater show ?case by simp
qed (auto simp: safeAdd_Nil safeAdd_Nil2 removeZero_filter sorted_wrt_filter)

text \<open>Adding one coin whose denomination is above all others appends it.\<close>

lemma safeAdd_snoc:
  "(\<And>x. x \<in> set s \<Longrightarrow> denom x < denom c) \<Longrightarrow> nonzero s \<Longrightarrow> amount c \<noteq> 0 \<Longrightarrow>
   safeAdd s [c] = Inr (s @ [c])"
proof (induction s)
  case (Cons x s)
  then have "safeAdd s [c] = Inr (s @ [c])" "denom x < denom c" by auto
  with Cons.prems show ?case by (simp add: safeAdd_less isZero_amount)
qed (simp add: safeAdd_Nil removeZero_filter isZero_amount)

lemma strict_total_mem: "strict cs \<Longrightarrow> c \<in> set cs \<Longrightarrow> total cs (denom c) = amount c"
proof (induction cs)
  case (Cons x cs)
  have "denom x \<notin> denom ` set cs" using Cons.prems by auto
  with Cons show ?case by (auto simp: total_absent)
qed simp

text \<open>The only failure is the overflow of a sum; on strict slices it happens exactly when a sum does not fit.\<close>

lemma safeAdd_outcome: "(\<exists>s. safeAdd as bs = Inr s) \<or> safeAdd as bs = Inl overflow"
proof (induction as bs rule: safeAdd_induct)
  case (eq a as b bs)
  show ?case
  proof (cases "fits (amount a + amount b)")
    case True
    then obtain r where "coinAdd a b = Inr r" using eq.hyps coinAdd_fits [of a b] by auto
    with eq.hyps eq.IH show ?thesis by (auto simp: safeAdd_equal)
  next
    case False
    with eq.hyps have "coinAdd a b = Inl overflow" by (rule coinAdd_overflow)
    with eq.hyps show ?thesis by (simp add: safeAdd_equal)
  qed
qed (auto simp: safeAdd_simps)

definition sums_fit :: "'c list \<Rightarrow> 'c list \<Rightarrow> bool" where
  "sums_fit as bs \<longleftrightarrow> (\<forall>a\<in>set as. \<forall>b\<in>set bs. denom a = denom b \<longrightarrow> fits (amount a + amount b))"

lemma safeAdd_ok_iff: "strict as \<Longrightarrow> strict bs \<Longrightarrow> (\<exists>s. safeAdd as bs = Inr s) \<longleftrightarrow> sums_fit as bs"
proof (induction as bs rule: safeAdd_induct)
  case (less a as b bs)
  have "denom a \<noteq> denom c" if "c \<in> set (b # bs)" for c
    using that less.hyps less.prems by (auto dest: less_trans)
  then have "sums_fit (a # as) (b # bs) \<longleftrightarrow> sums_fit as (b # bs)"
    by (auto simp: sums_fit_def)
  with less show ?case by (auto simp: safeAdd_less)
next
  case (eq a as b bs)
  have "denom a \<noteq> denom c" if "c \<in> set bs" for c
    using that eq.hyps eq.prems by auto
  moreover have "denom c \<noteq> denom b" if "c \<in> set as" for c
    using that eq.hyps eq.prems by auto
  ultimately have *: "sums_fit (a # as) (b # bs) \<longleftrightarrow> fits (amount a + amount b) \<and> sums_fit as bs"
    using eq.hyps by (auto simp: sums_fit_def)
  have "(\<exists>r. coinAdd a b = Inr r) \<longleftrightarrow> fits (amount a + amount b)"
    using eq.hyps coinAdd_fits [of a b] coinAdd_overflow [of a b] by (metis Inl_Inr_False)
  moreover have "(\<exists>s. safeAdd (a # as) (b # bs) = Inr s) \<longleftrightarrow>
      (\<exists>r. coinAdd a b = Inr r) \<and> (\<exists>s. safeAdd as bs = Inr s)"
    using eq.hyps by (cases "coinAdd a b"; cases "safeAdd as bs") (simp_all add: safeAdd_equal)
  ultimately show ?case using * eq by simp
next
  case (greater a as b bs)
  have "denom c \<noteq> denom b" if "c \<in> set (a # as)" for c
    using that greater.hyps greater.prems by (auto dest: less_trans)
  then have "sums_fit (a # as) (b # bs) \<longleftrightarrow> sums_fit (a # as) bs"
    by (auto simp: sums_fit_def)
  with greater show ?case by (auto simp: safeAdd_greater)
qed (auto simp: safeAdd_Nil safeAdd_Nil2 sums_fit_def)

text \<open>Strictly sorted slices without zero coins are determined by their totals.\<close>

lemma canonical:
  assumes "strict as" "strict bs" "nonzero as" "nonzero bs" "\<And>d. total as d = total bs d"
  shows "as = bs"
proof -
  have sub: "set xs \<subseteq> set ys"
    if "strict xs" "strict ys" "nonzero xs" "\<And>d. total xs d = total ys d" for xs ys
  proof
    fix c
    assume c: "c \<in> set xs"
    with that have "total ys (denom c) = amount c" "amount c \<noteq> 0"
      using strict_total_mem [of xs c] by auto
    then obtain c' where "c' \<in> set ys" "denom c' = denom c"
      using total_absent [of "denom c" ys] by force
    with that(2) \<open>total ys (denom c) = amount c\<close> have "c' = c"
      using strict_total_mem [of ys c'] by (intro coin_ext) auto
    with \<open>c' \<in> set ys\<close> show "c \<in> set ys" by simp
  qed
  have "set as = set bs"
    using sub [of as bs] sub [of bs as] assms by auto
  then have *: "set (map denom as) = set (map denom bs)" by simp
  have "map denom as = map denom bs"
    using assms(1,2) * by (intro strict_sorted_equal) (simp_all add: sorted_wrt_map)
  moreover have "inj_on denom (set as \<union> set bs)"
    using \<open>set as = set bs\<close> assms(1) strict_total_mem
    by (intro inj_onI coin_ext) (auto, metis)
  ultimately show ?thesis by (meson map_inj_on)
qed

lemma safeAdd_commute:
  assumes "strict as" "strict bs" "safeAdd as bs = Inr s" "safeAdd bs as = Inr t"
  shows "s = t"
  using assms by (intro canonical) (auto simp: safeAdd_total dest: safeAdd_strict safeAdd_elems)

lemma safeAdd_assoc:
  assumes "strict as" "strict bs" "strict cs" "safeAdd as bs = Inr x" "safeAdd x cs = Inr s"
    "safeAdd bs cs = Inr y" "safeAdd as y = Inr t"
  shows "s = t"
  using assms by (intro canonical) (auto simp: safeAdd_total dest: safeAdd_strict safeAdd_elems)

lemma amountOf_total: "reDnm d \<Longrightarrow> strict cs \<Longrightarrow> amountOf cs d = Inr (total cs d)"
proof (induction "length cs" arbitrary: cs rule: less_induct)
  case less
  have valid: "mustValidateDenom d = Inr ()"
    using less.prems by (simp add: mustValidateDenom_def ValidateDenom_def)
  consider "cs = []" | c where "cs = [c]" | "2 \<le> length cs"
    by (cases cs rule: list.exhaust; force simp: Suc_le_eq)
  then show ?case
  proof cases
    case 3
    define m where "m = length cs div 2"
    have m: "m < length cs" using 3 by (simp add: m_def)
    have split: "cs = take m cs @ cs ! m # drop (m + 1) cs"
      using m by (simp add: id_take_nth_drop)
    have strict: "strict (take m cs @ cs ! m # drop (m + 1) cs)"
      using less.prems split by metis
    then have parts: "strict (take m cs)" "strict (drop (m + 1) cs)"
      "\<And>c. c \<in> set (take m cs) \<Longrightarrow> denom c < denom (cs ! m)"
      "\<And>c. c \<in> set (drop (m + 1) cs) \<Longrightarrow> denom (cs ! m) < denom c"
      by (simp_all add: sorted_wrt_append)
    have tot: "total cs d = total (take m cs) d + (if denom (cs ! m) = d then amount (cs ! m) else 0) + total (drop (m + 1) cs) d"
      by (subst split) (simp del: append_take_drop_id)
    have IH: "amountOf (take m cs) d = Inr (total (take m cs) d)" 
      "amountOf (drop (m + 1) cs) d = Inr (total (drop (m + 1) cs) d)"
      using less m parts by auto
    have step: "amountOf cs d =
        (if d < denom (cs ! m) then amountOf (take m cs) d
         else if d = denom (cs ! m) then Inr (amount (cs ! m)) else amountOf (drop (m + 1) cs) d)"
      using 3 valid amountOf_eq [of cs d, folded m_def] by (simp only: bindR.simps) auto
    show ?thesis
    proof (cases d "denom (cs ! m)" rule: linorder_cases)
      case less
      then have "total (drop (m + 1) cs) d = 0"
        using parts(4) by (intro total_absent) (auto dest: less_trans)
      with less have "total cs d = total (take m cs) d"
        unfolding tot by auto
      with less show ?thesis unfolding step IH by simp
    next
      case equal
      then have "total (take m cs) d = 0" "total (drop (m + 1) cs) d = 0"
        using parts(3) [THEN less_imp_neq] parts(4) [THEN less_imp_neq] by (force intro!: total_absent)+
      with equal have "total cs d = amount (cs ! m)"
        unfolding tot by simp
      with equal show ?thesis unfolding step by simp
    next
      case greater
      then have "total (take m cs) d = 0"
        using parts(3) by (intro total_absent) (auto dest: less_trans)
      with greater have "total cs d = total (drop (m + 1) cs) d"
        unfolding tot by auto
      moreover have "\<not> d < denom (cs ! m)" "d \<noteq> denom (cs ! m)" using greater by auto
      ultimately show ?thesis unfolding step IH by simp
    qed
  qed (use valid in \<open>simp_all add: amountOf_eq\<close>)
qed

lemma isValidRest_iff:
  "isValidRest low cs \<longleftrightarrow>
     strict cs \<and> (\<forall>c\<in>set cs. low < denom c \<and> 0 < amount c \<and> ToLower (denom c) = denom c)"
  by (induction cs arbitrary: low)
    (auto simp: isValidRest_Nil isValidRest_Cons isPositive_amount intro: less_trans)

lemma isValid_iff:
  "isValid cs \<longleftrightarrow>
     strict cs \<and> (\<forall>c\<in>set cs. 0 < amount c) \<and> (cs \<noteq> [] \<longrightarrow> reDnm (denom (hd cs))) \<and>
     (\<forall>c\<in>set (tl cs). ToLower (denom c) = denom c)"
proof (cases cs)
  case (Cons c cs')
  then show ?thesis
    by (cases cs') (auto simp: isValid_single isValid_Cons isValidRest_iff isPositive_amount)
qed (simp add: isValid_Nil)

end

section \<open>The interfaces on \<open>Coins\<close>\<close>

lemma Coin_predicates [simp]:
  "Coin_IsZero c \<longleftrightarrow> Amount c = 0" "Coin_IsPositive c \<longleftrightarrow> 0 < Amount c" "Coin_IsNegative c \<longleftrightarrow> Amount c < 0"
  by (auto simp: Coin_IsZero_def Coin_IsPositive_def Coin_IsNegative_def Int_Sign_def big_Sign_def sgn_if)

lemma removeZeroCoins_filter: "removeZeroCoins cs = filter (\<lambda>c. \<not> Coin_IsZero c) cs"
  by (simp add: removeZeroCoins_def removeZeroCoins_arr_def compact_loop_eq Let_def)

lemma ValidateDenom_ok [simp]: "ValidateDenom d = Inr u \<longleftrightarrow> reDnm d" "is_ok (ValidateDenom d) \<longleftrightarrow> reDnm d"
  by (simp_all add: ValidateDenom_def)

interpretation coinsDup: findDupDescriptor Coins_Len Coins_GetDenomByIndex "map Denom"
  by unfold_locales (simp_all add: Coins_Len_def Coins_GetDenomByIndex_def)

interpretation coins: coin_kind Denom Amount valid_Int "Panic ''Int overflow''" Coin_Add Coin_IsZero Coin_IsPositive
  removeZeroCoins Coins_safeAdd Coins_AmountOf Coins_IsValid Coins_IsValid_rest
proof unfold_locales
  fix a b c :: Coin and cs as :: Coins and d :: string
  show "a = b" if "Denom a = Denom b" "Amount a = Amount b"
    using that by (cases a, cases b) simp
  show "Denom c = Denom a \<and> Amount c = Amount a + Amount b" if "Coin_Add a b = Inr c"
    using that by (auto simp: Coin_Add_def Int_Add_eq split: if_splits)
  show "\<exists>c. Coin_Add a b = Inr c" if "Denom a = Denom b" "valid_Int (Amount a + Amount b)"
    using that by (auto simp: Coin_Add_def Int_Add_eq)
  show "Coin_Add a b = Inl (Panic ''Int overflow'')" if "Denom a = Denom b" "\<not> valid_Int (Amount a + Amount b)"
    using that by (auto simp: Coin_Add_def Int_Add_eq)
  show "removeZeroCoins cs = filter (\<lambda>c. \<not> Coin_IsZero c) cs"
    by (rule removeZeroCoins_filter)
  show "Coins_safeAdd as [] = Inr (removeZeroCoins as)"
    by (cases as) simp_all
  show "Coins_AmountOf cs d =
       bindR (mustValidateDenom d) (\<lambda>_.
         if length cs = 0 then Inr 0
         else if length cs = 1 then (if Denom (cs ! 0) = d then Inr (Amount (cs ! 0)) else Inr 0)
         else if d < Denom (cs ! (length cs div 2)) then Coins_AmountOf (take (length cs div 2) cs) d
         else if d = Denom (cs ! (length cs div 2)) then Inr (Amount (cs ! (length cs div 2)))
         else Coins_AmountOf (drop (length cs div 2 + 1) cs) d)"
    by (subst Coins_AmountOf.simps) (simp add: ZeroInt_def Let_def cong: if_cong)
qed (auto simp: not_le linorder_not_le)

section \<open>Sets of coins\<close>

lemma strict_map: "sorted_wrt (<) (map f cs) \<longleftrightarrow> sorted_wrt (\<lambda>a b. f a < f b) cs"
  by (simp add: sorted_wrt_map)

text \<open>
  \<^bold>\<open>C6.\<close> Adding two coin sets. For strictly sorted operands the addition returns exactly when the
  sum of every shared denomination fits an \<open>Int\<close>, and panics with the overflow message
  otherwise. What it returns is strictly sorted, has no zero coin, and \<open>AmountOf\<close> of every valid
  denomination is the sum of the two amounts.
\<close>

theorem Coins_Add_correct:
  assumes "sorted_wrt (<) (map Denom A)" "sorted_wrt (<) (map Denom B)"
  shows "((\<exists>S. Coins_Add A B = Inr S) \<longleftrightarrow>
            (\<forall>a\<in>set A. \<forall>b\<in>set B. Denom a = Denom b \<longrightarrow> valid_Int (Amount a + Amount b)))
       \<and> ((\<exists>S. Coins_Add A B = Inr S) \<or> Coins_Add A B = Inl (Panic ''Int overflow''))
       \<and> (\<forall>S. Coins_Add A B = Inr S \<longrightarrow>
            sorted_wrt (<) (map Denom S) \<and> (\<forall>c\<in>set S. Amount c \<noteq> 0) \<and>
            (\<forall>d. reDnm d \<longrightarrow> (\<exists>x y. Coins_AmountOf A d = Inr x \<and> Coins_AmountOf B d = Inr y
                                  \<and> Coins_AmountOf S d = Inr (x + y))))"
proof (intro conjI allI impI)
  note strict = assms [unfolded strict_map]
  show "(\<exists>S. Coins_Add A B = Inr S) \<longleftrightarrow>
      (\<forall>a\<in>set A. \<forall>b\<in>set B. Denom a = Denom b \<longrightarrow> valid_Int (Amount a + Amount b))"
    using coins.safeAdd_ok_iff [OF strict] by (simp add: Coins_Add_def coins.sums_fit_def)
  show "(\<exists>S. Coins_Add A B = Inr S) \<or> Coins_Add A B = Inl (Panic ''Int overflow'')"
    unfolding Coins_Add_def by (rule coins.safeAdd_outcome)
  fix S
  assume S: "Coins_Add A B = Inr S"
  then have S': "Coins_safeAdd A B = Inr S" by (simp add: Coins_Add_def)
  note strictS = coins.safeAdd_strict [OF S' strict]
  then show "sorted_wrt (<) (map Denom S)" by (simp add: strict_map)
  show "\<forall>c\<in>set S. Amount c \<noteq> 0" using coins.safeAdd_elems [OF S'] by blast
  show "\<exists>x y. Coins_AmountOf A d = Inr x \<and> Coins_AmountOf B d = Inr y \<and> Coins_AmountOf S d = Inr (x + y)"
    if "reDnm d" for d
    using that strict strictS coins.safeAdd_total [OF S'] by (simp add: coins.amountOf_total)
qed

theorem Coins_Add_correct_witness:
  "sorted_wrt (<) (map Denom [\<lparr>Denom = ''atom'', Amount = 5\<rparr>, \<lparr>Denom = ''plug'', Amount = 7\<rparr>]) \<and>
   (\<exists>S. Coins_Add [\<lparr>Denom = ''atom'', Amount = 5\<rparr>, \<lparr>Denom = ''plug'', Amount = 7\<rparr>]
          [\<lparr>Denom = ''plug'', Amount = - 7\<rparr>] = Inr S)"
proof -
  let ?A = "[\<lparr>Denom = ''atom'', Amount = 5\<rparr>, \<lparr>Denom = ''plug'', Amount = 7\<rparr>]"
  let ?B = "[\<lparr>Denom = ''plug'', Amount = - 7\<rparr>]"
  have A: "sorted_wrt (<) (map Denom ?A)" by code_simp
  have B: "sorted_wrt (<) (map Denom ?B)" by code_simp
  have "\<forall>a\<in>set ?A. \<forall>b\<in>set ?B. Denom a = Denom b \<longrightarrow> valid_Int (Amount a + Amount b)"
    by (simp add: valid_Int_def)
  then show ?thesis
    using A Coins_Add_correct [OF A B] by blast
qed

text \<open>
  Addition of strictly sorted coin sets is commutative and associative whenever the sums
  are defined: the order in which balances are added up does not matter.
\<close>

theorem Coins_Add_comm_assoc:
  assumes "sorted_wrt (<) (map Denom A)" "sorted_wrt (<) (map Denom B)" "sorted_wrt (<) (map Denom C)"
  shows "Coins_Add A B = Coins_Add B A
       \<and> (\<forall>AB BC S T. Coins_Add A B = Inr AB \<and> Coins_Add AB C = Inr S \<and>
            Coins_Add B C = Inr BC \<and> Coins_Add A BC = Inr T \<longrightarrow> S = T)"
proof (intro conjI allI impI)
  note strict = assms [unfolded strict_map]
  have "coins.sums_fit A B \<longleftrightarrow> coins.sums_fit B A"
    by (auto simp: coins.sums_fit_def add.commute) (metis add.commute)+
  then show "Coins_Add A B = Coins_Add B A"
    using coins.safeAdd_ok_iff [OF strict(1,2)] coins.safeAdd_ok_iff [OF strict(2,1)]
      coins.safeAdd_outcome [of A B] coins.safeAdd_outcome [of B A]
      coins.safeAdd_commute [OF strict(1,2)]
    unfolding Coins_Add_def by (metis Inl_Inr_False)
next
  fix AB BC S T
  assume "Coins_Add A B = Inr AB \<and> Coins_Add AB C = Inr S \<and> Coins_Add B C = Inr BC \<and> Coins_Add A BC = Inr T"
  then show "S = T"
    using coins.safeAdd_assoc assms [unfolded strict_map] unfolding Coins_Add_def by blast
qed

theorem Coins_Add_comm_assoc_witness:
  "Coins_Add [\<lparr>Denom = ''atom'', Amount = 5\<rparr>] [\<lparr>Denom = ''plug'', Amount = 7\<rparr>] =
   Coins_Add [\<lparr>Denom = ''plug'', Amount = 7\<rparr>] [\<lparr>Denom = ''atom'', Amount = 5\<rparr>]"
  using Coins_Add_comm_assoc
    [of "[\<lparr>Denom = ''atom'', Amount = 5\<rparr>]" "[\<lparr>Denom = ''plug'', Amount = 7\<rparr>]" "[]"]
  by simp

text \<open>The sorted, zero-free rearrangement that \<open>NewCoins\<close> computes before it validates.\<close>

definition normal_form :: "Coins \<Rightarrow> Coins" where
  "normal_form cs = sort_key Denom (filter (\<lambda>c. Amount c \<noteq> 0) cs)"



text \<open>
  The slice that \<open>removeZeroCoins\<close> returns holds the non-zero coins in order, and it shares
  the caller's array: after the call that array starts with the non-zero coins and every
  cell behind them holds the coin that was last.
\<close>

theorem removeZeroCoins_in_place:
  "removeZeroCoins cs = filter (\<lambda>c. Amount c \<noteq> 0) cs
   \<and> removeZeroCoins_arr cs =
       (filter (\<lambda>c. Amount c \<noteq> 0) cs @
          replicate (length (filter (\<lambda>c. Amount c = 0) cs)) (last cs),
        length (filter (\<lambda>c. Amount c \<noteq> 0) cs))"
proof -
  have "length cs - length (filter (\<lambda>c. Amount c \<noteq> 0) cs) = length (filter (\<lambda>c. Amount c = 0) cs)"
    using sum_length_filter_compl [of "\<lambda>c. Amount c = 0" cs] by simp
  then show ?thesis
    by (simp add: removeZeroCoins_filter removeZeroCoins_arr_def compact_loop_eq Let_def)
qed

section \<open>Printing and parsing\<close>

lemma letter_not_special:
  assumes "is_letter c"
  shows "\<not> is_digit c" "\<not> is_space c" "c \<noteq> CHR '',''" "c \<noteq> CHR ''.''"
  using assms by (auto simp: is_letter_def is_upper_def is_lower_def is_digit_def is_space_def less_eq_char_def)

lemma denom_char_not_special:
  assumes "is_denom_char c"
  shows "\<not> is_space c" "c \<noteq> CHR '',''" "c \<noteq> CHR ''.''"
  using assms
  by (auto simp: is_denom_char_def is_letter_def is_upper_def is_lower_def is_digit_def is_space_def
      less_eq_char_def)

lemma reDnm_chars:
  assumes "reDnm d"
  shows "d \<noteq> []" "is_letter (hd d)" "\<forall>c\<in>set d. \<not> is_space c \<and> c \<noteq> CHR '',''"
  using assms letter_not_special denom_char_not_special
  by (auto simp: reDnm_def list_all_iff split: list.splits)

lemma takeWhile_digits_denom:
  assumes "reDnm d" "\<forall>c\<in>set s. P c" "\<And>c. is_letter c \<Longrightarrow> \<not> P c"
  shows "takeWhile P (s @ d) = s" "dropWhile P (s @ d) = d"
  using assms reDnm_chars [of d] by (cases d; simp add: takeWhile_append dropWhile_append)+

lemma dropWhile_space_denom: "reDnm d \<Longrightarrow> dropWhile is_space d = d"
  using reDnm_chars [of d] by (intro dropWhile_none) blast

lemma reCoin_digits:
  "s \<noteq> [] \<Longrightarrow> \<forall>c\<in>set s. is_digit c \<Longrightarrow> reDnm d \<Longrightarrow> reCoin (s @ d) = Some (s, d)"
  using takeWhile_digits_denom [of d s is_digit] letter_not_special(1)
  by (simp add: reCoin_def Let_def dropWhile_space_denom del: takeWhile_append dropWhile_append)

lemma TrimSpace_coin [simp]:
  assumes "\<forall>c\<in>set s. is_digit c" "reDnm d"
  shows "TrimSpace (s @ d) = s @ d"
proof (rule TrimSpace_id)
  show "\<forall>c\<in>set (s @ d). \<not> is_space c"
    using assms(1) reDnm_chars(3) [OF assms(2)] is_digit_not_special(8) unfolding set_append by blast
qed

lemma Coin_String_pos: "0 \<le> Amount c \<Longrightarrow> Coin_String c = show_nat (nat (Amount c)) @ Denom c"
  by (simp add: Coin_String_def Int_String_def show_int_def)

lemma NewCoin_ok: "reDnm d \<Longrightarrow> 0 \<le> n \<Longrightarrow> NewCoin d n = Inr \<lparr>Denom = d, Amount = n\<rparr>"
  by (simp add: NewCoin_def validate_def ValidateDenom_def)

lemma ParseCoin_String:
  assumes "reDnm (Denom c)" "0 \<le> Amount c" "valid_Int (Amount c)"
  shows "ParseCoin (Coin_String c) = Inr c"
proof -
  have "show_nat (nat (Amount c)) = show_int (Amount c)"
    using assms(2) by (simp add: show_int_def)
  then have "NewIntFromString (show_nat (nat (Amount c))) = Some (Amount c)"
    using NewIntFromString_show [OF assms(3)] by simp
  with assms show_nat_digits [of "nat (Amount c)"] show ?thesis
    by (simp add: ParseCoin_def Coin_String_pos reCoin_digits NewCoin_ok ValidateDenom_def)
qed

lemma butlast_joinWith: "butlast (concat (map (\<lambda>w. w @ '','') ws)) = joinWith '','' ws"
  by (induction "'',''" ws rule: joinWith.induct) (auto simp: butlast_append)

lemma Coins_String_join: "Coins_String cs = joinWith '','' (map Coin_String cs)"
  by (cases cs) (simp_all add: Coins_String_def butlast_joinWith [symmetric] comp_def)

lemma Coin_String_chars:
  "reDnm (Denom c) \<Longrightarrow> 0 \<le> Amount c \<Longrightarrow> x \<in> set (Coin_String c) \<Longrightarrow> \<not> is_space x \<and> x \<noteq> CHR '',''"
  using show_nat_digits reDnm_chars(3) is_digit_not_special(5,8) by (auto simp: Coin_String_pos)

lemma joinWith_set: "set (joinWith sep ws) \<subseteq> set sep \<union> \<Union> (set ` set ws)"
  by (induction sep ws rule: joinWith.induct) auto

lemma Coins_Validate_rest_iff:
  "Coins_Validate_rest low seen cs = Inr () \<longleftrightarrow>
     coins.strict cs \<and> (\<forall>c\<in>set cs. low < Denom c \<and> 0 < Amount c \<and> reDnm (Denom c) \<and> Denom c \<notin> seen)"
proof (induction cs arbitrary: low seen)
  case (Cons c cs)
  have "Coins_Validate_rest low seen (c # cs) = Inr () \<longleftrightarrow>
      Denom c \<notin> seen \<and> reDnm (Denom c) \<and> low < Denom c \<and> 0 < Amount c \<and>
      Coins_Validate_rest (Denom c) (insert (Denom c) seen) cs = Inr ()"
    by (auto simp: not_le ValidateDenom_def)
  also have "\<dots> \<longleftrightarrow> coins.strict (c # cs) \<and>
      (\<forall>c\<in>set (c # cs). low < Denom c \<and> 0 < Amount c \<and> reDnm (Denom c) \<and> Denom c \<notin> seen)"
    unfolding Cons.IH by (auto dest: less_trans)
  finally show ?case .
qed simp

lemma Coins_Validate_iff:
  "Coins_Validate cs = Inr () \<longleftrightarrow> coins.strict cs \<and> (\<forall>c\<in>set cs. 0 < Amount c \<and> reDnm (Denom c))"
proof (cases cs)
  case (Cons c cs')
  then show ?thesis
    by (cases cs') (auto simp: Coins_Validate_rest_iff ValidateDenom_def)
qed simp

lemma Coins_Sort_strict: "coins.strict cs \<Longrightarrow> Coins_Sort cs = cs"
  unfolding Coins_Sort_def
  by (rule sort_key_id_if_sorted) (simp add: sorted_map sorted_wrt_mono_rel [of _ "\<lambda>a b. Denom a < Denom b"])

text \<open>
  \<^bold>\<open>C38.\<close> Printing and parsing a coin set. A set that passes \<open>Validate\<close> and \<open>IsValid\<close> and whose
  amounts fit an \<open>Int\<close> is read back by \<open>ParseCoins\<close> from its \<open>String\<close>.
\<close>

theorem ParseCoins_String_roundtrip:
  assumes "Coins_Validate cs = Inr ()" "Coins_IsValid cs" "\<forall>c\<in>set cs. valid_Int (Amount c)"
  shows "ParseCoins (Coins_String cs) = Inr cs"
proof (cases "cs = []")
  case False
  have ok: "\<forall>c\<in>set cs. 0 < Amount c \<and> reDnm (Denom c)" and strict: "coins.strict cs"
    using assms(1) by (auto simp: Coins_Validate_iff)
  have chars: "\<not> is_space x \<and> x \<noteq> CHR '',''" if "c \<in> set cs" "x \<in> set (Coin_String c)" for c x
    using that ok Coin_String_chars [of c x] by force
  have nospace: "\<forall>x\<in>set (Coins_String cs). \<not> is_space x"
    using chars joinWith_set [of "'',''" "map Coin_String cs"]
    by (fastforce simp: Coins_String_join is_space_def)
  have nonempty: "Coins_String cs \<noteq> []"
  proof -
    obtain c cs' where cs: "cs = c # cs'" using False by (cases cs) auto
    then have "Coin_String c \<noteq> []" using ok by (simp add: Coin_String_pos)
    with cs show ?thesis by (cases cs') (simp_all add: Coins_String_join)
  qed
  have split: "splitOn (CHR '','') (Coins_String cs) = map Coin_String cs"
    unfolding Coins_String_join using False chars by (intro splitOn_joinWith) auto
  have "mapR ParseCoin (map Coin_String cs) = Inr cs"
    unfolding mapR_Inr_iff list_all2_map1
    using ok assms(3) by (auto simp: list_all2_same intro!: ParseCoin_String)
  with assms(2) nonempty show ?thesis
    by (simp add: ParseCoins_def TrimSpace_id [OF nospace] split Coins_Sort_strict [OF strict])
qed (simp add: Coins_String_def ParseCoins_def TrimSpace_def)

theorem ParseCoins_String_roundtrip_witness:
  "ParseCoins (Coins_String [\<lparr>Denom = ''atom'', Amount = 5\<rparr>, \<lparr>Denom = ''uplug'', Amount = 12\<rparr>]) =
   Inr [\<lparr>Denom = ''atom'', Amount = 5\<rparr>, \<lparr>Denom = ''uplug'', Amount = 12\<rparr>]"
proof (rule ParseCoins_String_roundtrip)
  show "Coins_Validate [\<lparr>Denom = ''atom'', Amount = 5\<rparr>, \<lparr>Denom = ''uplug'', Amount = 12\<rparr>] = Inr ()"
    by code_simp
  show "Coins_IsValid [\<lparr>Denom = ''atom'', Amount = 5\<rparr>, \<lparr>Denom = ''uplug'', Amount = 12\<rparr>]"
    by code_simp
qed (simp add: valid_Int_def)

lemma SetString0_digits_nonneg:
  "\<forall>c\<in>set s. is_digit c \<Longrightarrow> SetString0 s = Some n \<Longrightarrow> 0 \<le> n"
  using is_digit_not_special
  by (cases s) (auto simp: SetString0_def with_sign_def split: if_splits)

lemma ParseCoin_cases:
  "(\<exists>c. ParseCoin s = Inr c \<and> reDnm (Denom c) \<and> 0 \<le> Amount c \<and> valid_Int (Amount c)) \<or>
   (\<exists>m. ParseCoin s = Inl (Err m))"
proof (cases "reCoin (TrimSpace s)")
  case (Some p)
  then obtain a d where p: "reCoin (TrimSpace s) = Some (a, d)" by (cases p) auto
  then have ad: "\<forall>c\<in>set a. is_digit c" "reDnm d"
    by (auto simp: reCoin_def Let_def split: if_splits dest: set_takeWhileD)
  show ?thesis
  proof (cases "NewIntFromString a")
    case (Some n)
    then have "0 \<le> n" "valid_Int n"
      using SetString0_digits_nonneg [OF ad(1)] NewIntFromString_valid
      by (auto simp: NewIntFromString_def newIntegerFromString_def split: option.splits if_splits)
    with p ad Some show ?thesis
      by (simp add: ParseCoin_def NewCoin_ok ValidateDenom_def)
  qed (use p in \<open>simp add: ParseCoin_def\<close>)
qed (simp add: ParseCoin_def)

lemma mapR_cases:
  "(\<And>x. x \<in> set xs \<Longrightarrow> (\<exists>y. f x = Inr y \<and> P y) \<or> (\<exists>m. f x = Inl (Err m))) \<Longrightarrow>
   (\<exists>ys. mapR f xs = Inr ys \<and> (\<forall>y\<in>set ys. P y)) \<or> (\<exists>m. mapR f xs = Inl (Err m))"
  by (induction xs) fastforce+

text \<open>
  \<open>ParseCoins\<close> never panics: for every input it returns an error or a set that is
  strictly sorted, has only positive amounts that fit an \<open>Int\<close> and only valid denominations,
  and so passes both \<open>IsValid\<close> and \<open>Validate\<close>.
\<close>

theorem ParseCoins_safe:
  "(\<exists>cs. ParseCoins s = Inr cs \<and> Coins_IsValid cs \<and> Coins_Validate cs = Inr () \<and>
         list_all (\<lambda>c. valid_Int (Amount c)) cs)
   \<or> (\<exists>m. ParseCoins s = Inl (Err m))"
proof -
  let ?P = "\<lambda>c. reDnm (Denom c) \<and> 0 \<le> Amount c \<and> valid_Int (Amount c)"
  consider (ok) cs where "mapR ParseCoin (splitOn (CHR '','') (TrimSpace s)) = Inr cs" "\<forall>c\<in>set cs. ?P c"
    | (err) m where "mapR ParseCoin (splitOn (CHR '','') (TrimSpace s)) = Inl (Err m)"
    using mapR_cases [of _ ParseCoin ?P] ParseCoin_cases by metis
  then show ?thesis
  proof cases
    case ok
    have set: "set (Coins_Sort cs) = set cs" by (simp add: Coins_Sort_def)
    have "Coins_Validate (Coins_Sort cs) = Inr ()" if "Coins_IsValid (Coins_Sort cs)"
      using that ok(2) unfolding coins.isValid_iff Coins_Validate_iff set by blast
    with ok set show ?thesis by (simp add: ParseCoins_def Let_def list_all_iff)
  qed (simp add: ParseCoins_def Let_def)
qed

text \<open>
  Two behaviours of these routines that callers have to know: an amount with a leading zero is
  read in base 8 (so that \<open>08\<close> is an error), and comparing two sets of one length whose
  denominations differ panics instead of answering.
\<close>

lemma ParseCoin_leading_zero:
  "ParseCoin ''010plug'' = Inr \<lparr>Denom = ''plug'', Amount = 8\<rparr>"
  "ParseCoin ''08plug'' = Inl (Err ''failed to parse coin amount: 08'')"
  by code_simp+

lemma Coins_IsEqual_loop_self: "Coins_IsEqual_loop cs cs = Inr True"
  by (induction cs) (simp_all add: Coin_IsEqual_def Int_Equal_def)

lemma Coins_IsEqual_refl: "Coins_IsEqual cs cs = Inr True"
  by (simp add: Coins_IsEqual_def Coins_IsEqual_loop_self)

lemma Coins_IsEqual_panics:
  assumes "Denom a \<noteq> Denom b"
  shows "Coins_IsEqual [a] [b] = Inl (denom_panic (Denom a) (Denom b))"
  using assms by (simp add: Coins_IsEqual_def Coins_Sort_def Coin_IsEqual_def)

end
