(* ===== verification/SdkDecCoin.thy ===== *)
theory SdkDecCoin
  imports SdkCoin
begin

text \<open>
  \<open>types/dec_coin.go\<close>: coins with decimal amounts and slices of them. The amount of a \<open>DecCoin\<close>
  is the scaled integer of a \<open>Dec\<close>. The set operations share their contracts with \<open>Coins\<close>
  through the locales \<open>findDupDescriptor\<close> and \<open>coin_kind\<close>.
\<close>

section \<open>A decimal coin\<close>

record DecCoin =
  DecDenom :: string
  DecAmount :: int

definition panic_err :: "'a res \<Rightarrow> 'a res" where
  "panic_err r = (case r of Inl (Err m) \<Rightarrow> Inl (Panic m) | _ \<Rightarrow> r)"

definition NewDecCoin :: "string \<Rightarrow> int \<Rightarrow> DecCoin res" where
  "NewDecCoin denom amount =
     bindR (panic_err (validate denom amount)) (\<lambda>_.
     bindR (Int_ToDec amount) (\<lambda>d. Inr \<lparr>DecDenom = denom, DecAmount = d\<rparr>))"

definition NewDecCoinFromDec :: "string \<Rightarrow> int \<Rightarrow> DecCoin res" where
  "NewDecCoinFromDec denom amount =
     bindR (mustValidateDenom denom) (\<lambda>_.
       if Dec_IsNegative amount
       then Inl (Panic (''negative decimal coin amount: '' @ Dec_String amount @ [CHR 0x0A]))
       else Inr \<lparr>DecDenom = denom, DecAmount = amount\<rparr>)"

definition NewDecCoinFromCoin :: "Coin \<Rightarrow> DecCoin res" where
  "NewDecCoinFromCoin coin =
     bindR (panic_err (validate (Denom coin) (Amount coin))) (\<lambda>_.
     bindR (Int_ToDec (Amount coin)) (\<lambda>d. Inr \<lparr>DecDenom = Denom coin, DecAmount = d\<rparr>))"

definition NewInt64DecCoin :: "string \<Rightarrow> 64 word \<Rightarrow> DecCoin res" where
  "NewInt64DecCoin denom amount = NewDecCoin denom (NewInt amount)"

definition DecCoin_IsZero :: "DecCoin \<Rightarrow> bool" where
  "DecCoin_IsZero coin = Dec_IsZero (DecAmount coin)"

definition DecCoin_IsPositive :: "DecCoin \<Rightarrow> bool" where
  "DecCoin_IsPositive coin = Dec_IsPositive (DecAmount coin)"

definition DecCoin_IsNegative :: "DecCoin \<Rightarrow> bool" where
  "DecCoin_IsNegative coin = Dec_IsNegative (DecAmount coin)"

definition DecCoin_IsGTE :: "DecCoin \<Rightarrow> DecCoin \<Rightarrow> bool res" where
  "DecCoin_IsGTE coin other =
     (if DecDenom coin \<noteq> DecDenom other then Inl (denom_panic (DecDenom coin) (DecDenom other))
      else Inr (\<not> Dec_LT (DecAmount coin) (DecAmount other)))"

definition DecCoin_IsLT :: "DecCoin \<Rightarrow> DecCoin \<Rightarrow> bool res" where
  "DecCoin_IsLT coin other =
     (if DecDenom coin \<noteq> DecDenom other then Inl (denom_panic (DecDenom coin) (DecDenom other))
      else Inr (Dec_LT (DecAmount coin) (DecAmount other)))"

definition DecCoin_IsEqual :: "DecCoin \<Rightarrow> DecCoin \<Rightarrow> bool res" where
  "DecCoin_IsEqual coin other =
     (if DecDenom coin \<noteq> DecDenom other then Inl (denom_panic (DecDenom coin) (DecDenom other))
      else Inr (Dec_Equal (DecAmount coin) (DecAmount other)))"

definition dec_denom_panic :: "string \<Rightarrow> string \<Rightarrow> failure" where
  "dec_denom_panic a b = Panic (''coin denom different: '' @ a @ '' '' @ b @ [CHR 0x0A])"

definition DecCoin_Add :: "DecCoin \<Rightarrow> DecCoin \<Rightarrow> DecCoin res" where
  "DecCoin_Add coin coinB =
     (if DecDenom coin \<noteq> DecDenom coinB then Inl (dec_denom_panic (DecDenom coin) (DecDenom coinB))
      else bindR (Dec_Add (DecAmount coin) (DecAmount coinB))
             (\<lambda>a. Inr \<lparr>DecDenom = DecDenom coin, DecAmount = a\<rparr>))"

definition DecCoin_Sub :: "DecCoin \<Rightarrow> DecCoin \<Rightarrow> DecCoin res" where
  "DecCoin_Sub coin coinB =
     (if DecDenom coin \<noteq> DecDenom coinB then Inl (dec_denom_panic (DecDenom coin) (DecDenom coinB))
      else bindR (Dec_Sub (DecAmount coin) (DecAmount coinB)) (\<lambda>a.
             let res = \<lparr>DecDenom = DecDenom coin, DecAmount = a\<rparr>
             in if DecCoin_IsNegative res then Inl (Panic ''negative decimal coin amount'') else Inr res))"

definition DecCoin_TruncateDecimal :: "DecCoin \<Rightarrow> (Coin \<times> DecCoin) res" where
  "DecCoin_TruncateDecimal coin =
     bindR (Dec_TruncateInt (DecAmount coin)) (\<lambda>truncated.
     bindR (Int_ToDec truncated) (\<lambda>td.
     bindR (Dec_Sub (DecAmount coin) td) (\<lambda>change.
     bindR (NewCoin (DecDenom coin) truncated) (\<lambda>c.
     bindR (NewDecCoinFromDec (DecDenom coin) change) (\<lambda>dc. Inr (c, dc))))))"

definition DecCoin_String :: "DecCoin \<Rightarrow> string" where
  "DecCoin_String coin = Dec_String (DecAmount coin) @ DecDenom coin"

definition DecCoin_IsValid :: "DecCoin \<Rightarrow> bool" where
  "DecCoin_IsValid coin =
     (if \<not> is_ok (ValidateDenom (DecDenom coin)) then False else \<not> DecCoin_IsNegative coin)"

section \<open>Sets of decimal coins\<close>

type_synonym DecCoins = "DecCoin list"

definition DecCoins_Len :: "DecCoins \<Rightarrow> nat" where
  "DecCoins_Len coins = length coins"

definition DecCoins_GetDenomByIndex :: "DecCoins \<Rightarrow> nat \<Rightarrow> string" where
  "DecCoins_GetDenomByIndex coins i = DecDenom (coins ! i)"

definition DecCoins_Sort :: "DecCoins \<Rightarrow> DecCoins" where
  "DecCoins_Sort coins = sort_key DecDenom coins"

definition removeZeroDecCoins_arr :: "DecCoins \<Rightarrow> DecCoins \<times> nat" where
  "removeZeroDecCoins_arr coins = compact_loop DecCoin_IsZero coins 0 (length coins)"

definition removeZeroDecCoins :: "DecCoins \<Rightarrow> DecCoins" where
  "removeZeroDecCoins coins = (case removeZeroDecCoins_arr coins of (arr, i) \<Rightarrow> take i arr)"

fun DecCoins_IsValid_rest :: "string \<Rightarrow> DecCoins \<Rightarrow> bool" where
  "DecCoins_IsValid_rest lowDenom [] = True"
| "DecCoins_IsValid_rest lowDenom (coin # cs) =
     (if ToLower (DecDenom coin) \<noteq> DecDenom coin then False
      else if DecDenom coin \<le> lowDenom then False
      else if \<not> DecCoin_IsPositive coin then False
      else DecCoins_IsValid_rest (DecDenom coin) cs)"

fun DecCoins_IsValid :: "DecCoins \<Rightarrow> bool" where
  "DecCoins_IsValid [] = True"
| "DecCoins_IsValid [coin] =
     (if \<not> is_ok (ValidateDenom (DecDenom coin)) then False else DecCoin_IsPositive coin)"
| "DecCoins_IsValid (coin # c # cs) =
     (if \<not> DecCoins_IsValid [coin] then False else DecCoins_IsValid_rest (DecDenom coin) (c # cs))"

definition DecCoins_String :: "DecCoins \<Rightarrow> string" where
  "DecCoins_String coins =
     (if length coins = 0 then []
      else butlast (concat (map (\<lambda>coin. DecCoin_String coin @ '','') coins)))"

definition NewDecCoins :: "DecCoins \<Rightarrow> DecCoins res" where
  "NewDecCoins decCoins =
     (let newDecCoins = removeZeroDecCoins decCoins in
      if length newDecCoins = 0 then Inr []
      else
        let sorted = DecCoins_Sort newDecCoins;
            dupIndex = findDup (DecCoins_Len sorted) (DecCoins_GetDenomByIndex sorted)
        in if dupIndex \<noteq> -1
           then Inl (Panic (''find duplicate denom: '' @ DecCoin_String (sorted ! nat dupIndex)))
           else if \<not> DecCoins_IsValid sorted
           then Inl (Panic (''invalid coin set: '' @ DecCoins_String sorted))
           else Inr sorted)"

text \<open>
  \<open>NewDecCoinsFromCoins\<close> allocates one cell per argument and fills a prefix of them with the
  coins that \<open>NewCoins\<close> kept; \<open>None\<close> is a cell left at the zero value \<open>DecCoin{}\<close>, whose
  amount is a nil pointer.
\<close>

definition NewDecCoinsFromCoins :: "Coins \<Rightarrow> (DecCoin option list) res" where
  "NewDecCoinsFromCoins cs =
     bindR (NewCoins cs) (\<lambda>newCoins.
     bindR (mapR NewDecCoinFromCoin newCoins) (\<lambda>ds.
       Inr (map Some ds @ replicate (length cs - length newCoins) None)))"

fun DecCoins_safeAdd :: "DecCoins \<Rightarrow> DecCoins \<Rightarrow> DecCoins res" where
  "DecCoins_safeAdd [] coinsB = Inr (removeZeroDecCoins coinsB)"
| "DecCoins_safeAdd (coinA # as) [] = Inr (removeZeroDecCoins (coinA # as))"
| "DecCoins_safeAdd (coinA # as) (coinB # bs) =
     (if DecDenom coinA < DecDenom coinB then
        bindR (DecCoins_safeAdd as (coinB # bs))
          (\<lambda>sum. Inr (if \<not> DecCoin_IsZero coinA then coinA # sum else sum))
      else if DecDenom coinA = DecDenom coinB then
        bindR (DecCoin_Add coinA coinB) (\<lambda>r.
        bindR (DecCoins_safeAdd as bs) (\<lambda>sum. Inr (if \<not> DecCoin_IsZero r then r # sum else sum)))
      else
        bindR (DecCoins_safeAdd (coinA # as) bs)
          (\<lambda>sum. Inr (if \<not> DecCoin_IsZero coinB then coinB # sum else sum)))"

definition DecCoins_Add :: "DecCoins \<Rightarrow> DecCoins \<Rightarrow> DecCoins res" where
  "DecCoins_Add coins coinsB = DecCoins_safeAdd coins coinsB"

definition DecCoins_negative :: "DecCoins \<Rightarrow> DecCoins" where
  "DecCoins_negative coins =
     map (\<lambda>coin. \<lparr>DecDenom = DecDenom coin, DecAmount = Dec_Neg (DecAmount coin)\<rparr>) coins"

definition DecCoins_IsAnyNegative :: "DecCoins \<Rightarrow> bool" where
  "DecCoins_IsAnyNegative coins = list_ex DecCoin_IsNegative coins"

definition DecCoins_SafeSub :: "DecCoins \<Rightarrow> DecCoins \<Rightarrow> (DecCoins \<times> bool) res" where
  "DecCoins_SafeSub coins coinsB =
     bindR (DecCoins_safeAdd coins (DecCoins_negative coinsB))
       (\<lambda>diff. Inr (diff, DecCoins_IsAnyNegative diff))"

definition DecCoins_Sub :: "DecCoins \<Rightarrow> DecCoins \<Rightarrow> DecCoins res" where
  "DecCoins_Sub coins coinsB =
     bindR (DecCoins_SafeSub coins coinsB)
       (\<lambda>(diff, hasNeg). if hasNeg then Inl (Panic ''negative coin amount'') else Inr diff)"

text \<open>\<open>TruncateDecimal\<close> adds up the integer parts and the remainders in two sets.\<close>

definition TruncateDecimal_step :: "Coins \<times> DecCoins \<Rightarrow> DecCoin \<Rightarrow> (Coins \<times> DecCoins) res" where
  "TruncateDecimal_step st coin =
     (case st of (truncatedCoins, changeCoins) \<Rightarrow>
        bindR (DecCoin_TruncateDecimal coin) (\<lambda>(truncated, change).
        bindR (if \<not> Coin_IsZero truncated then Coins_Add truncatedCoins [truncated] else Inr truncatedCoins) (\<lambda>t.
        bindR (if \<not> DecCoin_IsZero change then DecCoins_Add changeCoins [change] else Inr changeCoins) (\<lambda>c.
          Inr (t, c)))))"

definition DecCoins_TruncateDecimal :: "DecCoins \<Rightarrow> (Coins \<times> DecCoins) res" where
  "DecCoins_TruncateDecimal coins = foldR TruncateDecimal_step ([], []) coins"

function DecCoins_AmountOf :: "DecCoins \<Rightarrow> string \<Rightarrow> int res" where
  "DecCoins_AmountOf coins denom =
     bindR (mustValidateDenom denom) (\<lambda>_.
       if length coins = 0 then Inr ZeroDec
       else if length coins = 1 then
         (if DecDenom (coins ! 0) = denom then Inr (DecAmount (coins ! 0)) else Inr ZeroDec)
       else
         let midIdx = length coins div 2;
             coin = coins ! midIdx
         in if denom < DecDenom coin then DecCoins_AmountOf (take midIdx coins) denom
            else if denom = DecDenom coin then Inr (DecAmount coin)
            else DecCoins_AmountOf (drop (midIdx + 1) coins) denom)"
  by pat_completeness auto
termination
  by (relation "measure (\<lambda>(coins, denom). length coins)") auto

declare DecCoins_AmountOf.simps [simp del]

definition DecCoins_Intersect :: "DecCoins \<Rightarrow> DecCoins \<Rightarrow> DecCoins res" where
  "DecCoins_Intersect coins coinsB =
     bindR (mapR (\<lambda>coin.
        bindR (DecCoins_AmountOf coinsB (DecDenom coin)) (\<lambda>b.
          Inr \<lparr>DecDenom = DecDenom coin, DecAmount = MinDec (DecAmount coin) b\<rparr>)) coins)
       (\<lambda>res. Inr (removeZeroDecCoins res))"

text \<open>
  The loop that the four scalings share: apply the operation to the amount and add the product
  to the result unless it is zero.
\<close>

definition scale_step :: "(int \<Rightarrow> int res) \<Rightarrow> DecCoins \<Rightarrow> DecCoin \<Rightarrow> DecCoins res" where
  "scale_step op res coin =
     bindR (op (DecAmount coin)) (\<lambda>a.
       let product = \<lparr>DecDenom = DecDenom coin, DecAmount = a\<rparr>
       in if \<not> DecCoin_IsZero product then DecCoins_Add res [product] else Inr res)"

definition DecCoins_MulDec :: "DecCoins \<Rightarrow> int \<Rightarrow> DecCoins res" where
  "DecCoins_MulDec coins d = foldR (scale_step (\<lambda>a. Dec_Mul a d)) [] coins"

definition DecCoins_MulDecTruncate :: "DecCoins \<Rightarrow> int \<Rightarrow> DecCoins res" where
  "DecCoins_MulDecTruncate coins d = foldR (scale_step (\<lambda>a. Dec_MulTruncate a d)) [] coins"

definition DecCoins_QuoDec :: "DecCoins \<Rightarrow> int \<Rightarrow> DecCoins res" where
  "DecCoins_QuoDec coins d =
     (if Dec_IsZero d then Inl (Panic ''invalid zero decimal'')
      else foldR (scale_step (\<lambda>a. Dec_Quo a d)) [] coins)"

definition DecCoins_QuoDecTruncate :: "DecCoins \<Rightarrow> int \<Rightarrow> DecCoins res" where
  "DecCoins_QuoDecTruncate coins d =
     (if Dec_IsZero d then Inl (Panic ''invalid zero decimal'')
      else foldR (scale_step (\<lambda>a. Dec_QuoTruncate a d)) [] coins)"

definition DecCoins_Empty :: "DecCoins \<Rightarrow> bool" where
  "DecCoins_Empty coins = (length coins = 0)"

definition DecCoins_IsZero :: "DecCoins \<Rightarrow> bool" where
  "DecCoins_IsZero coins = list_all (\<lambda>c. Dec_IsZero (DecAmount c)) coins"

definition DecCoins_IsAllPositive :: "DecCoins \<Rightarrow> bool" where
  "DecCoins_IsAllPositive coins = (coins \<noteq> [] \<and> list_all DecCoin_IsPositive coins)"

fun DecCoins_IsEqual_loop :: "DecCoins \<Rightarrow> DecCoins \<Rightarrow> bool res" where
  "DecCoins_IsEqual_loop (a # as) (b # bs) =
     bindR (DecCoin_IsEqual a b) (\<lambda>eq. if \<not> eq then Inr False else DecCoins_IsEqual_loop as bs)"
| "DecCoins_IsEqual_loop _ _ = Inr True"

definition DecCoins_IsEqual :: "DecCoins \<Rightarrow> DecCoins \<Rightarrow> bool res" where
  "DecCoins_IsEqual coins coinsB =
     (if length coins \<noteq> length coinsB then Inr False
      else DecCoins_IsEqual_loop (DecCoins_Sort coins) (DecCoins_Sort coinsB))"

section \<open>Parsing\<close>

text \<open>
  \<open>reDecAmt\<close>, \<open>[[:digit:]]*[.]*[[:digit:]]+\<close>, on the run of digits and points in front of the
  white space and the denomination.
\<close>

definition reDecAmt :: "string \<Rightarrow> bool" where
  "reDecAmt s =
     (let r = dropWhile is_digit s;
          f = dropWhile (\<lambda>c. c = CHR ''.'') r
      in if r = [] then s \<noteq> [] else f \<noteq> [] \<and> list_all is_digit f)"

definition reDecCoin :: "string \<Rightarrow> (string \<times> string) option" where
  "reDecCoin s =
     (let num = (\<lambda>c. is_digit c \<or> c = CHR ''.'');
          amt = takeWhile num s;
          dnm = dropWhile is_space (dropWhile num s)
      in if reDecAmt amt \<and> reDnm dnm then Some (amt, dnm) else None)"

definition ParseDecCoin :: "string \<Rightarrow> DecCoin res" where
  "ParseDecCoin coinStr0 =
     (let coinStr = TrimSpace coinStr0 in
      case reDecCoin coinStr of
        None \<Rightarrow> Inl (Err (''invalid decimal coin expression: '' @ coinStr))
      | Some (amountStr, denomStr) \<Rightarrow>
          (case NewDecFromStr amountStr of
             Inl (Err m) \<Rightarrow> Inl (Err (''failed to parse decimal coin amount: '' @ amountStr @ '': '' @ m))
           | Inl (Panic m) \<Rightarrow> Inl (Panic m)
           | Inr amount \<Rightarrow>
               (case ValidateDenom denomStr of
                  Inl _ \<Rightarrow> Inl (Err (''invalid denom cannot contain upper case characters or spaces: invalid denom: '' @ denomStr))
                | Inr _ \<Rightarrow> NewDecCoinFromDec denomStr amount)))"

definition ParseDecCoins :: "string \<Rightarrow> DecCoins res" where
  "ParseDecCoins coinsStr0 =
     (let coinsStr = TrimSpace coinsStr0 in
      if length coinsStr = 0 then Inr []
      else
        bindR (mapR ParseDecCoin (splitOn (CHR '','') coinsStr)) (\<lambda>coins0.
          let coins = DecCoins_Sort coins0 in
          if \<not> DecCoins_IsValid coins then Inl (Err ''parsed decimal coins are invalid'') else Inr coins))"

section \<open>The interfaces on \<open>DecCoins\<close>\<close>

lemma DecCoin_predicates [simp]:
  "DecCoin_IsZero c \<longleftrightarrow> DecAmount c = 0" "DecCoin_IsPositive c \<longleftrightarrow> 0 < DecAmount c"
  "DecCoin_IsNegative c \<longleftrightarrow> DecAmount c < 0"
  by (simp_all add: DecCoin_IsZero_def DecCoin_IsPositive_def DecCoin_IsNegative_def)

lemma removeZeroDecCoins_filter: "removeZeroDecCoins cs = filter (\<lambda>c. \<not> DecCoin_IsZero c) cs"
  by (simp add: removeZeroDecCoins_def removeZeroDecCoins_arr_def compact_loop_eq Let_def)

interpretation decCoinsDup: findDupDescriptor DecCoins_Len DecCoins_GetDenomByIndex "map DecDenom"
  by unfold_locales (simp_all add: DecCoins_Len_def DecCoins_GetDenomByIndex_def)

interpretation decCoins: coin_kind DecDenom DecAmount valid_Dec "Panic ''Int overflow''" DecCoin_Add
  DecCoin_IsZero DecCoin_IsPositive
  removeZeroDecCoins DecCoins_safeAdd DecCoins_AmountOf DecCoins_IsValid DecCoins_IsValid_rest
proof unfold_locales
  fix a b c :: DecCoin and cs as :: DecCoins and d :: string
  show "a = b" if "DecDenom a = DecDenom b" "DecAmount a = DecAmount b"
    using that by (cases a, cases b) simp
  show "DecDenom c = DecDenom a \<and> DecAmount c = DecAmount a + DecAmount b" if "DecCoin_Add a b = Inr c"
    using that by (auto simp: DecCoin_Add_def Dec_Add_def check_overflow_eq split: if_splits)
  show "\<exists>c. DecCoin_Add a b = Inr c" if "DecDenom a = DecDenom b" "valid_Dec (DecAmount a + DecAmount b)"
    using that by (auto simp: DecCoin_Add_def Dec_Add_def check_overflow_eq)
  show "DecCoin_Add a b = Inl (Panic ''Int overflow'')"
    if "DecDenom a = DecDenom b" "\<not> valid_Dec (DecAmount a + DecAmount b)"
    using that by (auto simp: DecCoin_Add_def Dec_Add_def check_overflow_eq)
  show "removeZeroDecCoins cs = filter (\<lambda>c. \<not> DecCoin_IsZero c) cs"
    by (rule removeZeroDecCoins_filter)
  show "DecCoins_safeAdd as [] = Inr (removeZeroDecCoins as)"
    by (cases as) simp_all
  show "DecCoins_AmountOf cs d =
       bindR (mustValidateDenom d) (\<lambda>_.
         if length cs = 0 then Inr 0
         else if length cs = 1 then (if DecDenom (cs ! 0) = d then Inr (DecAmount (cs ! 0)) else Inr 0)
         else if d < DecDenom (cs ! (length cs div 2)) then DecCoins_AmountOf (take (length cs div 2) cs) d
         else if d = DecDenom (cs ! (length cs div 2)) then Inr (DecAmount (cs ! (length cs div 2)))
         else DecCoins_AmountOf (drop (length cs div 2 + 1) cs) d)"
    by (subst DecCoins_AmountOf.simps) (simp add: ZeroDec_def Let_def cong: if_cong)
qed (auto simp: not_le linorder_not_le)

section \<open>Subtraction\<close>

lemma DecCoins_negative_facts:
  "decCoins.strict (DecCoins_negative cs) \<longleftrightarrow> decCoins.strict cs"
  "decCoins.total (DecCoins_negative cs) d = - decCoins.total cs d"
  "set (DecCoins_negative cs) = (\<lambda>c. \<lparr>DecDenom = DecDenom c, DecAmount = - DecAmount c\<rparr>) ` set cs"
  by (induction cs) (simp_all add: DecCoins_negative_def Dec_Neg_def)

text \<open>
  \<^bold>\<open>C7.\<close> Subtracting decimal coin sets. For strictly sorted operands the difference that
  \<open>SafeSub\<close> returns is strictly sorted without zero coins, its amounts are the differences, the
  flag tells whether some coin of it is negative, and \<open>Sub\<close> panics exactly when the flag is set
  (or the arithmetic overflowed).
\<close>

theorem DecCoins_Sub_correct:
  assumes "sorted_wrt (<) (map DecDenom A)" "sorted_wrt (<) (map DecDenom B)"
    and "DecCoins_SafeSub A B = Inr (D, hasNeg)"
  shows "sorted_wrt (<) (map DecDenom D) \<and> (\<forall>c\<in>set D. DecAmount c \<noteq> 0)
       \<and> (\<forall>d. reDnm d \<longrightarrow> (\<exists>x y. DecCoins_AmountOf A d = Inr x \<and> DecCoins_AmountOf B d = Inr y
                                 \<and> DecCoins_AmountOf D d = Inr (x - y)))
       \<and> (hasNeg \<longleftrightarrow> (\<exists>c\<in>set D. DecAmount c < 0))
       \<and> DecCoins_Sub A B = (if hasNeg then Inl (Panic ''negative coin amount'') else Inr D)"
proof -
  have strict: "decCoins.strict A" "decCoins.strict B" "decCoins.strict (DecCoins_negative B)"
    using assms(1,2) by (simp_all add: strict_map DecCoins_negative_facts)
  have D: "DecCoins_safeAdd A (DecCoins_negative B) = Inr D" "hasNeg = DecCoins_IsAnyNegative D"
    using assms(3) by (auto simp: DecCoins_SafeSub_def)
  note strictD = decCoins.safeAdd_strict [OF D(1) strict(1,3)]
  have "\<exists>x y. DecCoins_AmountOf A d = Inr x \<and> DecCoins_AmountOf B d = Inr y \<and> DecCoins_AmountOf D d = Inr (x - y)"
    if "reDnm d" for d
    using that strict strictD decCoins.safeAdd_total [OF D(1), of d]
    by (simp add: decCoins.amountOf_total DecCoins_negative_facts)
  then show ?thesis
    using strictD decCoins.safeAdd_elems [OF D(1)] assms(3) D(2)
    by (auto simp: strict_map DecCoins_IsAnyNegative_def list_ex_iff DecCoins_Sub_def)
qed

theorem DecCoins_Sub_correct_witness:
  "DecCoins_Sub [\<lparr>DecDenom = ''plug'', DecAmount = 3\<rparr>] [\<lparr>DecDenom = ''plug'', DecAmount = 5\<rparr>] =
   Inl (Panic ''negative coin amount'')"
proof -
  have "DecCoins_SafeSub [\<lparr>DecDenom = ''plug'', DecAmount = 3\<rparr>] [\<lparr>DecDenom = ''plug'', DecAmount = 5\<rparr>] =
      Inr ([\<lparr>DecDenom = ''plug'', DecAmount = - 2\<rparr>], True)"
    by code_simp
  from DecCoins_Sub_correct [OF _ _ this] show ?thesis by simp
qed

text \<open>
  Subtraction undoes addition: a strictly sorted set of positive amounts in range is what
  remains of a sum after the other summand is subtracted.
\<close>

theorem DecCoins_Add_Sub_roundtrip:
  assumes "sorted_wrt (<) (map DecDenom A)" "sorted_wrt (<) (map DecDenom B)"
    and pos: "\<forall>c\<in>set A. 0 < DecAmount c \<and> valid_Dec (DecAmount c)"
    and sum: "DecCoins_Add A B = Inr S"
  shows "DecCoins_Sub S B = Inr A"
proof -
  have strict: "decCoins.strict A" "decCoins.strict B" "decCoins.strict (DecCoins_negative B)"
    using assms(1,2) by (simp_all add: strict_map DecCoins_negative_facts)
  have S: "DecCoins_safeAdd A B = Inr S" using sum by (simp add: DecCoins_Add_def)
  note strictS = decCoins.safeAdd_strict [OF S strict(1,2)]
  note totS = decCoins.safeAdd_total [OF S]
  have valid: "valid_Dec (decCoins.total A d)" for d
  proof (cases "d \<in> DecDenom ` set A")
    case True
    then show ?thesis using pos decCoins.strict_total_mem [OF strict(1)] by auto
  qed (simp add: decCoins.total_absent valid_Dec_def)
  have fit: "decCoins.sums_fit S (DecCoins_negative B)"
    unfolding decCoins.sums_fit_def DecCoins_negative_facts
  proof (intro ballI impI)
    fix s b
    assume s: "s \<in> set S" and b: "b \<in> (\<lambda>c. \<lparr>DecDenom = DecDenom c, DecAmount = - DecAmount c\<rparr>) ` set B"
      and eq: "DecDenom s = DecDenom b"
    then obtain c where c: "c \<in> set B" "b = \<lparr>DecDenom = DecDenom c, DecAmount = - DecAmount c\<rparr>" by auto
    have "DecAmount s = decCoins.total A (DecDenom c) + DecAmount c"
      using decCoins.strict_total_mem [OF strictS s] decCoins.strict_total_mem [OF strict(2) c(1)] totS eq c(2)
      by simp
    with c(2) valid [of "DecDenom c"] show "valid_Dec (DecAmount s + DecAmount b)" by simp
  qed
  then obtain D where D: "DecCoins_safeAdd S (DecCoins_negative B) = Inr D"
    using decCoins.safeAdd_ok_iff [OF strictS strict(3)] by auto
  have "D = A"
    using decCoins.safeAdd_strict [OF D strictS strict(3)] strict(1) decCoins.safeAdd_elems [OF D]
      pos decCoins.safeAdd_total [OF D] totS
    by (intro decCoins.canonical) (auto simp: DecCoins_negative_facts)
  with D pos show ?thesis
    by (auto simp: DecCoins_Sub_def DecCoins_SafeSub_def DecCoins_IsAnyNegative_def list_ex_iff dest!: bspec)
qed

theorem DecCoins_Add_Sub_roundtrip_witness:
  "DecCoins_Sub [\<lparr>DecDenom = ''atom'', DecAmount = 3\<rparr>, \<lparr>DecDenom = ''plug'', DecAmount = 9\<rparr>]
     [\<lparr>DecDenom = ''atom'', DecAmount = 1\<rparr>, \<lparr>DecDenom = ''plug'', DecAmount = 9\<rparr>] =
   Inr [\<lparr>DecDenom = ''atom'', DecAmount = 2\<rparr>]"
proof -
  have "DecCoins_Add [\<lparr>DecDenom = ''atom'', DecAmount = 2\<rparr>]
     [\<lparr>DecDenom = ''atom'', DecAmount = 1\<rparr>, \<lparr>DecDenom = ''plug'', DecAmount = 9\<rparr>] =
     Inr [\<lparr>DecDenom = ''atom'', DecAmount = 3\<rparr>, \<lparr>DecDenom = ''plug'', DecAmount = 9\<rparr>]"
    by code_simp
  from DecCoins_Add_Sub_roundtrip [OF _ _ _ this] show ?thesis
    by (simp add: valid_Dec_def less_char_def)
qed

section \<open>Scaling\<close>

definition with_amount :: "DecCoin \<Rightarrow> int \<Rightarrow> DecCoin" where
  "with_amount c a = \<lparr>DecDenom = DecDenom c, DecAmount = a\<rparr>"

lemma with_amount_simps [simp]:
  "DecDenom (with_amount c a) = DecDenom c" "DecAmount (with_amount c a) = a"
  by (simp_all add: with_amount_def)

text \<open>What the scalings compute: scale each coin, then drop the zero coins.\<close>

definition scale_spec :: "(int \<Rightarrow> int res) \<Rightarrow> DecCoins \<Rightarrow> DecCoins res" where
  "scale_spec op cs =
     bindR (mapR (\<lambda>c. bindR (op (DecAmount c)) (\<lambda>a. Inr (with_amount c a))) cs)
       (\<lambda>ms. Inr (filter (\<lambda>c. DecAmount c \<noteq> 0) ms))"

lemma scale_fold:
  "decCoins.strict cs \<Longrightarrow> (\<And>x c. x \<in> set res \<Longrightarrow> c \<in> set cs \<Longrightarrow> DecDenom x < DecDenom c) \<Longrightarrow>
   decCoins.nonzero res \<Longrightarrow>
   foldR (scale_step op) res cs = bindR (scale_spec op cs) (\<lambda>ms. Inr (res @ ms))"
proof (induction cs arbitrary: res)
  case (Cons c cs)
  show ?case
  proof (cases "op (DecAmount c)")
    case (Inr a)
    define res' where "res' = (if a = 0 then res else res @ [with_amount c a])"
    have "DecCoins_Add res [with_amount c a] = Inr (res @ [with_amount c a])" if "a \<noteq> 0"
      unfolding DecCoins_Add_def using that Cons.prems by (intro decCoins.safeAdd_snoc) auto
    then have step: "scale_step op res c = Inr res'"
      using Inr by (simp add: scale_step_def res'_def with_amount_def)
    have "foldR (scale_step op) res' cs = bindR (scale_spec op cs) (\<lambda>ms. Inr (res' @ ms))"
      using Cons.prems by (intro Cons.IH) (auto simp: res'_def split: if_splits)
    then show ?thesis
      using step Inr by (auto simp: scale_spec_def bindR_assoc res'_def intro!: bindR_cong)
  qed (simp add: scale_step_def scale_spec_def)
qed (simp add: scale_spec_def)

text \<open>
  Scaling a strictly sorted set by a decimal is the same as scaling every amount (failing
  with the first amount that fails) and dropping the coins that became zero; dividing by zero
  panics before anything else.
\<close>

theorem DecCoins_scaling:
  assumes "sorted_wrt (<) (map DecDenom cs)"
  shows "DecCoins_MulDec cs d = scale_spec (\<lambda>a. Dec_Mul a d) cs
       \<and> DecCoins_MulDecTruncate cs d = scale_spec (\<lambda>a. Dec_MulTruncate a d) cs
       \<and> DecCoins_QuoDec cs d =
           (if d = 0 then Inl (Panic ''invalid zero decimal'') else scale_spec (\<lambda>a. Dec_Quo a d) cs)
       \<and> DecCoins_QuoDecTruncate cs d =
           (if d = 0 then Inl (Panic ''invalid zero decimal'') else scale_spec (\<lambda>a. Dec_QuoTruncate a d) cs)"
proof -
  have "foldR (scale_step op) [] cs = scale_spec op cs" for op
    using scale_fold [of cs "[]" op] assms by (simp add: strict_map)
  then show ?thesis
    by (simp add: DecCoins_MulDec_def DecCoins_MulDecTruncate_def DecCoins_QuoDec_def
        DecCoins_QuoDecTruncate_def)
qed

theorem DecCoins_scaling_witness:
  "DecCoins_MulDec [\<lparr>DecDenom = ''atom'', DecAmount = 2\<rparr>, \<lparr>DecDenom = ''plug'', DecAmount = 6\<rparr>] 0 =
   scale_spec (\<lambda>a. Dec_Mul a 0) [\<lparr>DecDenom = ''atom'', DecAmount = 2\<rparr>, \<lparr>DecDenom = ''plug'', DecAmount = 6\<rparr>]"
  using DecCoins_scaling [of "[\<lparr>DecDenom = ''atom'', DecAmount = 2\<rparr>, \<lparr>DecDenom = ''plug'', DecAmount = 6\<rparr>]" 0]
  by (simp add: less_char_def)

section \<open>Truncation\<close>

definition trunc_coin :: "DecCoin \<Rightarrow> Coin" where
  "trunc_coin c = \<lparr>Denom = DecDenom c, Amount = DecAmount c div precisionReuse\<rparr>"

definition change_coin :: "DecCoin \<Rightarrow> DecCoin" where
  "change_coin c = with_amount c (DecAmount c mod precisionReuse)"

lemma int_div_less:
  assumes "0 < (k::int)" "x < m * k"
  shows "x div k < m"
proof -
  have "x div k * k \<le> x"
    using assms(1) pos_mod_sign [of k x] div_mult_mod_eq [of x k] by linarith
  with assms show ?thesis by (meson le_less_trans mult_less_cancel_right_pos)
qed

lemma truncatable_TruncateDecimal:
  assumes "reDnm (DecDenom c)" "0 \<le> DecAmount c" "DecAmount c < 2 ^ 255 * precisionReuse"
  shows "DecCoin_TruncateDecimal c = Inr (trunc_coin c, change_coin c)"
proof -
  have q: "chopPrecisionAndTruncate (DecAmount c) = DecAmount c div precisionReuse"
    using assms(2) by (simp add: chopPrecisionAndTruncate_def sdiv_nonneg)
  have "DecAmount c div precisionReuse < 2 ^ 255"
    by (rule int_div_less [OF precisionReuse_pos(1) assms(3)])
  moreover have "0 \<le> DecAmount c div precisionReuse"
    using assms(2) precisionReuse_pos(1) by (simp add: pos_imp_zdiv_nonneg_iff)
  ultimately have int: "Dec_TruncateInt (DecAmount c) = Inr (DecAmount c div precisionReuse)"
    by (simp add: Dec_TruncateInt_def q NewIntFromBigInt_eq valid_Int_def)
  have ch: "DecAmount c - DecAmount c div precisionReuse * precisionReuse = DecAmount c mod precisionReuse"
    by (simp add: minus_div_mult_eq_mod)
  have "0 \<le> DecAmount c mod precisionReuse" "DecAmount c mod precisionReuse < precisionReuse"
    by (simp_all add: pos_mod_sign pos_mod_bound)
  then have "valid_Dec (DecAmount c mod precisionReuse)"
    by (simp add: valid_Dec_def precisionReuse_num)
  moreover have "\<not> DecAmount c mod precisionReuse < 0"
    using \<open>0 \<le> DecAmount c mod precisionReuse\<close> by linarith
  ultimately show ?thesis
    using assms(1) int ch \<open>0 \<le> DecAmount c div precisionReuse\<close>
    by (simp add: DecCoin_TruncateDecimal_def Int_ToDec_def Dec_Sub_def check_overflow_eq NewCoin_ok
        NewDecCoinFromDec_def mustValidateDenom_def ValidateDenom_def trunc_coin_def change_coin_def with_amount_def)
qed

lemma TruncateDecimal_fold:
  assumes "decCoins.strict (ps @ cs)"
    and "\<forall>c\<in>set cs. reDnm (DecDenom c) \<and> 0 \<le> DecAmount c \<and> DecAmount c < 2 ^ 255 * precisionReuse"
  shows "foldR TruncateDecimal_step
      (filter (\<lambda>c. Amount c \<noteq> 0) (map trunc_coin ps), filter (\<lambda>c. DecAmount c \<noteq> 0) (map change_coin ps)) cs =
    Inr (filter (\<lambda>c. Amount c \<noteq> 0) (map trunc_coin (ps @ cs)),
         filter (\<lambda>c. DecAmount c \<noteq> 0) (map change_coin (ps @ cs)))"
  using assms
proof (induction cs arbitrary: ps)
  case (Cons c cs)
  let ?T = "filter (\<lambda>c. Amount c \<noteq> 0) (map trunc_coin ps)"
  let ?C = "filter (\<lambda>c. DecAmount c \<noteq> 0) (map change_coin ps)"
  have below: "DecDenom x < DecDenom c" if "x \<in> set ps" for x
    using that Cons.prems(1) by (simp add: sorted_wrt_append)
  have t: "Coins_Add ?T [trunc_coin c] = Inr (?T @ [trunc_coin c])" if "Amount (trunc_coin c) \<noteq> 0"
    unfolding Coins_Add_def using that below by (intro coins.safeAdd_snoc) (auto simp: trunc_coin_def)
  have ch: "DecCoins_Add ?C [change_coin c] = Inr (?C @ [change_coin c])" if "DecAmount (change_coin c) \<noteq> 0"
    unfolding DecCoins_Add_def using that below by (intro decCoins.safeAdd_snoc) (auto simp: change_coin_def)
  have "TruncateDecimal_step (?T, ?C) c =
      Inr (filter (\<lambda>c. Amount c \<noteq> 0) (map trunc_coin (ps @ [c])),
           filter (\<lambda>c. DecAmount c \<noteq> 0) (map change_coin (ps @ [c])))"
    using Cons.prems(2) t ch by (simp add: TruncateDecimal_step_def truncatable_TruncateDecimal)
  with Cons.IH [of "ps @ [c]"] Cons.prems show ?case by simp
qed simp

text \<open>
  \<open>TruncateDecimal\<close> loses nothing. A strictly sorted set of valid, non-negative coins
  whose integer parts fit an \<open>Int\<close> is split into the set of integer parts and the set of
  remainders, both without zero coins; in every denomination the integer amount and the
  remainder, which is below one, add up to the original amount.
\<close>

theorem DecCoins_TruncateDecimal_conserves:
  assumes "sorted_wrt (<) (map DecDenom cs)"
    and "\<forall>c\<in>set cs. reDnm (DecDenom c) \<and> 0 \<le> DecAmount c \<and> DecAmount c < 2 ^ 255 * precisionReuse"
  shows "\<exists>T C. DecCoins_TruncateDecimal cs = Inr (T, C)
       \<and> (\<forall>c\<in>set T. Amount c \<noteq> 0) \<and> (\<forall>c\<in>set C. DecAmount c \<noteq> 0)
       \<and> (\<forall>d. reDnm d \<longrightarrow> (\<exists>t c. Coins_AmountOf T d = Inr t \<and> DecCoins_AmountOf C d = Inr c
            \<and> 0 \<le> c \<and> c < precisionReuse \<and> DecCoins_AmountOf cs d = Inr (t * precisionReuse + c)))"
proof -
  let ?T = "removeZeroCoins (map trunc_coin cs)" and ?C = "removeZeroDecCoins (map change_coin cs)"
  have strict: "decCoins.strict cs" using assms(1) by (simp add: strict_map)
  have TC: "DecCoins_TruncateDecimal cs = Inr (?T, ?C)"
    using TruncateDecimal_fold [of "[]" cs] strict assms(2)
    by (simp add: DecCoins_TruncateDecimal_def removeZeroCoins_filter removeZeroDecCoins_filter)
  have s: "coins.strict (map trunc_coin cs)" "decCoins.strict (map change_coin cs)"
    using strict by (simp_all add: sorted_wrt_map trunc_coin_def change_coin_def)
  then have sf: "coins.strict ?T" "decCoins.strict ?C"
    by (simp_all add: removeZeroCoins_filter removeZeroDecCoins_filter sorted_wrt_filter)
  have tot: "decCoins.total cs d =
      coins.total (map trunc_coin cs) d * precisionReuse + decCoins.total (map change_coin cs) d" for d
    by (induction cs) (simp_all add: trunc_coin_def change_coin_def distrib_right)
  have ch: "0 \<le> decCoins.total (map change_coin cs) d \<and> decCoins.total (map change_coin cs) d < precisionReuse" for d
  proof (cases "d \<in> DecDenom ` set (map change_coin cs)")
    case True
    then obtain c where "c \<in> set cs" "d = DecDenom (change_coin c)" by auto
    with decCoins.strict_total_mem [OF s(2), of "change_coin c"] show ?thesis
      by (simp add: change_coin_def pos_mod_sign pos_mod_bound)
  qed (simp add: decCoins.total_absent)
  have "\<exists>t c. Coins_AmountOf ?T d = Inr t \<and> DecCoins_AmountOf ?C d = Inr c
            \<and> 0 \<le> c \<and> c < precisionReuse \<and> DecCoins_AmountOf cs d = Inr (t * precisionReuse + c)"
    if "reDnm d" for d
    using that sf strict tot [of d] ch [of d] by (simp add: coins.amountOf_total decCoins.amountOf_total)
  then show ?thesis
    using TC by (auto simp: removeZeroCoins_filter removeZeroDecCoins_filter)
qed

theorem DecCoins_TruncateDecimal_conserves_witness:
  "\<exists>T C. DecCoins_TruncateDecimal [\<lparr>DecDenom = ''plug'', DecAmount = 2500000000000000000\<rparr>] = Inr (T, C)"
  using DecCoins_TruncateDecimal_conserves [of "[\<lparr>DecDenom = ''plug'', DecAmount = 2500000000000000000\<rparr>]"]
  by (fastforce simp: precisionReuse_num reDnm_def is_letter_def is_lower_def is_denom_char_def less_eq_char_def)

text \<open>
  \<open>Intersect\<close> of two strictly sorted sets with valid denominations has, for every
  denomination of the first operand, the smaller of the two amounts, and nothing else.
\<close>

theorem DecCoins_Intersect_minimum:
  assumes "sorted_wrt (<) (map DecDenom A)" "sorted_wrt (<) (map DecDenom B)"
    and valid: "\<forall>c\<in>set A. reDnm (DecDenom c)"
  shows "\<exists>I. DecCoins_Intersect A B = Inr I \<and> sorted_wrt (<) (map DecDenom I) \<and> (\<forall>c\<in>set I. DecAmount c \<noteq> 0)
       \<and> (\<forall>d. reDnm d \<longrightarrow> (\<exists>x y. DecCoins_AmountOf A d = Inr x \<and> DecCoins_AmountOf B d = Inr y
            \<and> DecCoins_AmountOf I d = Inr (if d \<in> DecDenom ` set A then min x y else 0)))"
proof -
  have strict: "decCoins.strict A" "decCoins.strict B" using assms(1,2) by (simp_all add: strict_map)
  define M where "M = map (\<lambda>c. with_amount c (min (DecAmount c) (decCoins.total B (DecDenom c)))) A"
  have "mapR (\<lambda>coin. bindR (DecCoins_AmountOf B (DecDenom coin)) (\<lambda>b.
          Inr \<lparr>DecDenom = DecDenom coin, DecAmount = MinDec (DecAmount coin) b\<rparr>)) A = Inr M"
    unfolding M_def using valid strict(2)
    by (intro mapR_all_ok) (auto simp: decCoins.amountOf_total MinDec_def with_amount_def)
  then have I: "DecCoins_Intersect A B = Inr (removeZeroDecCoins M)"
    by (simp add: DecCoins_Intersect_def)
  have M: "decCoins.strict M" "DecDenom ` set M = DecDenom ` set A"
    using strict(1) by (auto simp: M_def sorted_wrt_map image_image)
  then have strictI: "decCoins.strict (removeZeroDecCoins M)"
    by (simp add: removeZeroDecCoins_filter sorted_wrt_filter)
  have "decCoins.total M d = (if d \<in> DecDenom ` set A then min (decCoins.total A d) (decCoins.total B d) else 0)" for d
  proof (cases "d \<in> DecDenom ` set A")
    case True
    then obtain c where c: "c \<in> set A" "d = DecDenom c" by auto
    then have "with_amount c (min (DecAmount c) (decCoins.total B (DecDenom c))) \<in> set M"
      by (auto simp: M_def)
    from decCoins.strict_total_mem [OF M(1) this] decCoins.strict_total_mem [OF strict(1) c(1)] c True
    show ?thesis by simp
  qed (use M(2) in \<open>simp add: decCoins.total_absent\<close>)
  then have "DecCoins_AmountOf (removeZeroDecCoins M) d =
      Inr (if d \<in> DecDenom ` set A then min (decCoins.total A d) (decCoins.total B d) else 0)"
    if "reDnm d" for d
    using that strictI by (simp add: decCoins.amountOf_total)
  moreover have "\<forall>c\<in>set (removeZeroDecCoins M). DecAmount c \<noteq> 0"
    by (simp add: removeZeroDecCoins_filter)
  ultimately show ?thesis
    using I strict strictI decCoins.amountOf_total by (intro exI [of _ "removeZeroDecCoins M"]) (simp add: strict_map)
qed

theorem DecCoins_Intersect_minimum_witness:
  "\<exists>I. DecCoins_Intersect [\<lparr>DecDenom = ''plug'', DecAmount = 5\<rparr>] [\<lparr>DecDenom = ''plug'', DecAmount = 3\<rparr>] = Inr I"
  using DecCoins_Intersect_minimum [of "[\<lparr>DecDenom = ''plug'', DecAmount = 5\<rparr>]" "[\<lparr>DecDenom = ''plug'', DecAmount = 3\<rparr>]"]
  by (fastforce simp: reDnm_def is_letter_def is_lower_def is_denom_char_def less_eq_char_def)

section \<open>Printing and parsing\<close>

lemma splitOn_chars: "w \<in> set (splitOn sep s) \<Longrightarrow> c \<in> set w \<Longrightarrow> c \<in> set s \<and> c \<noteq> sep"
proof (induction s arbitrary: w)
  case (Cons x s)
  then show ?case by (cases "splitOn sep s") (fastforce split: if_splits)+
qed simp

lemma NewDecFromStr_nonneg:
  assumes chars: "\<forall>c\<in>set s. is_digit c \<or> c = CHR ''.''"
  shows "(\<exists>d. NewDecFromStr s = Inr d \<and> 0 \<le> d) \<or> (\<exists>m. NewDecFromStr s = Inl (Err m))"
proof -
  define strs where "strs = splitOn (CHR ''.'') s"
  have dig: "\<forall>c\<in>set w. is_digit c" if "w \<in> set strs" for w
    using that splitOn_chars [of w "CHR ''.''" s] chars by (auto simp: strs_def)
  have hd: "hd s \<noteq> CHR ''-''" if "s \<noteq> []"
    using that chars is_digit_not_special(2) by (cases s) auto
  have ne: "strs \<noteq> []" by (simp add: strs_def)
  have pos: "0 \<le> c" if "SetString10 t = Some c" "\<forall>c\<in>set t. is_digit c" for t c
    using that SetString10_digits [of t] by (cases "t = []") (auto simp: SetString10_def with_sign_def)
  have d0: "\<forall>c\<in>set (strs ! 0). is_digit c" using dig [of "strs ! 0"] ne by simp
  have d1: "\<forall>c\<in>set (strs ! 1). is_digit c" if "length strs = 2" using dig [of "strs ! 1"] that by simp
  have p0: "0 \<le> c" if "SetString10 (strs ! 0 @ replicate n (CHR ''0'')) = Some c" for n c
    using that d0 is_digit_0 by (intro pos [OF that]) auto
  have p1: "0 \<le> c"
    if "SetString10 (strs ! 0 @ strs ! 1 @ replicate n (CHR ''0'')) = Some c" "length strs = 2" for n c
    using d0 d1 [OF that(2)] is_digit_0 by (intro pos [OF that(1)]) auto
  show ?thesis
  proof (cases "s = []")
    case False
    with hd p0 p1 show ?thesis
      by (auto simp: NewDecFromStr_def Let_def strs_def [symmetric] split: option.splits)
  qed (simp add: NewDecFromStr_def)
qed

lemma ParseDecCoin_cases:
  "(\<exists>c. ParseDecCoin s = Inr c \<and> reDnm (DecDenom c) \<and> 0 \<le> DecAmount c) \<or> (\<exists>m. ParseDecCoin s = Inl (Err m))"
proof (cases "reDecCoin (TrimSpace s)")
  case (Some p)
  then obtain a d where p: "reDecCoin (TrimSpace s) = Some (a, d)" by (cases p) auto
  then have ad: "\<forall>c\<in>set a. is_digit c \<or> c = CHR ''.''" "reDnm d"
    by (auto simp: reDecCoin_def Let_def split: if_splits dest: set_takeWhileD)
  from NewDecFromStr_nonneg [OF ad(1)] p ad(2) show ?thesis
    by (auto simp: ParseDecCoin_def ValidateDenom_def NewDecCoinFromDec_def mustValidateDenom_def)
qed (simp add: ParseDecCoin_def)

lemma dec_text_chars:
  "\<exists>w f. dec_text n = w @ CHR ''.'' # f \<and> (\<forall>c\<in>set (w @ f). is_digit c) \<and> w \<noteq> [] \<and> f \<noteq> []"
  using dec_text_parts [of n] by (metis length_greater_0_conv Precision_def zero_less_numeral)

lemma reDecAmt_text: "\<forall>c\<in>set (w @ f). is_digit c \<Longrightarrow> f \<noteq> [] \<Longrightarrow> reDecAmt (w @ CHR ''.'' # f)"
  using is_digit_not_special(4)
  by (cases f) (auto simp: reDecAmt_def Let_def dropWhile_append list_all_iff)

lemma num_not_special: "is_digit c \<or> c = CHR ''.'' \<Longrightarrow> \<not> is_space c \<and> c \<noteq> CHR '',''"
  using is_digit_not_special(5,8) by (auto simp: is_space_def)

lemma ParseDecCoin_String:
  assumes "reDnm (DecDenom c)" "0 \<le> DecAmount c"
  shows "ParseDecCoin (DecCoin_String c) = Inr c \<and>
    (\<forall>x\<in>set (DecCoin_String c). \<not> is_space x \<and> x \<noteq> CHR '','')"
proof -
  let ?num = "\<lambda>c. is_digit c \<or> c = CHR ''.''" and ?t = "Dec_String (DecAmount c)"
  obtain w f where t: "?t = w @ CHR ''.'' # f" "\<forall>c\<in>set (w @ f). is_digit c" "f \<noteq> []"
    using dec_text_chars [of "nat (DecAmount c)"] assms(2) by (auto simp: Dec_String_text)
  then have num: "\<forall>c\<in>set ?t. ?num c" and amt: "reDecAmt ?t"
    using reDecAmt_text [of w f] by auto
  then have chars: "\<forall>x\<in>set (DecCoin_String c). \<not> is_space x \<and> x \<noteq> CHR '',''"
    using reDnm_chars(3) [OF assms(1)] num_not_special unfolding DecCoin_String_def set_append by blast
  have re: "reDecCoin (?t @ DecDenom c) = Some (?t, DecDenom c)"
    using takeWhile_digits_denom [OF assms(1) num] letter_not_special(1,4) amt assms(1)
    by (simp add: reDecCoin_def Let_def dropWhile_space_denom del: takeWhile_append dropWhile_append)
  have "TrimSpace (DecCoin_String c) = ?t @ DecDenom c"
    using chars TrimSpace_id by (simp add: DecCoin_String_def)
  with re assms chars show ?thesis
    by (simp add: ParseDecCoin_def NewDecFromStr_String ValidateDenom_def NewDecCoinFromDec_def
        mustValidateDenom_def)
qed

lemma DecCoins_String_join: "DecCoins_String cs = joinWith '','' (map DecCoin_String cs)"
  by (cases cs) (simp_all add: DecCoins_String_def butlast_joinWith [symmetric] comp_def)

lemma DecCoins_Sort_strict: "decCoins.strict cs \<Longrightarrow> DecCoins_Sort cs = cs"
  unfolding DecCoins_Sort_def
  by (rule sort_key_id_if_sorted) (simp add: sorted_map sorted_wrt_mono_rel [of _ "\<lambda>a b. DecDenom a < DecDenom b"])

text \<open>
  Printing and parsing decimal coin sets. \<open>ParseDecCoins\<close> never panics: every input gives
  an error or a set that passes \<open>IsValid\<close> and has only valid denominations. And every such set is
  read back from its \<open>String\<close>.
\<close>

theorem ParseDecCoins_String:
  "((\<exists>cs. ParseDecCoins s = Inr cs \<and> DecCoins_IsValid cs \<and> list_all (\<lambda>c. reDnm (DecDenom c)) cs)
     \<or> (\<exists>m. ParseDecCoins s = Inl (Err m)))
   \<and> (DecCoins_IsValid cs \<and> list_all (\<lambda>c. reDnm (DecDenom c)) cs \<longrightarrow> ParseDecCoins (DecCoins_String cs) = Inr cs)"
proof (intro conjI impI)
  let ?P = "\<lambda>c. reDnm (DecDenom c) \<and> 0 \<le> DecAmount c"
  consider (ok) cs where "mapR ParseDecCoin (splitOn (CHR '','') (TrimSpace s)) = Inr cs" "\<forall>c\<in>set cs. ?P c"
    | (err) m where "mapR ParseDecCoin (splitOn (CHR '','') (TrimSpace s)) = Inl (Err m)"
    using mapR_cases [of _ ParseDecCoin ?P] ParseDecCoin_cases by metis
  then show "(\<exists>cs. ParseDecCoins s = Inr cs \<and> DecCoins_IsValid cs \<and> list_all (\<lambda>c. reDnm (DecDenom c)) cs)
     \<or> (\<exists>m. ParseDecCoins s = Inl (Err m))"
  proof cases
    case ok
    have "set (DecCoins_Sort cs) = set cs" by (simp add: DecCoins_Sort_def)
    with ok show ?thesis by (simp add: ParseDecCoins_def Let_def list_all_iff)
  qed (simp add: ParseDecCoins_def Let_def)
next
  assume valid: "DecCoins_IsValid cs \<and> list_all (\<lambda>c. reDnm (DecDenom c)) cs"
  show "ParseDecCoins (DecCoins_String cs) = Inr cs"
  proof (cases "cs = []")
    case False
    have ok: "\<forall>c\<in>set cs. 0 < DecAmount c \<and> reDnm (DecDenom c)" and strict: "decCoins.strict cs"
      using valid by (auto simp: decCoins.isValid_iff list_all_iff)
    have parse: "ParseDecCoin (DecCoin_String c) = Inr c"
      and chars: "x \<in> set (DecCoin_String c) \<Longrightarrow> \<not> is_space x \<and> x \<noteq> CHR '',''" if "c \<in> set cs" for c x
      using that ok ParseDecCoin_String [of c] by force+
    have nospace: "\<forall>x\<in>set (DecCoins_String cs). \<not> is_space x"
      using chars joinWith_set [of "'',''" "map DecCoin_String cs"]
      by (fastforce simp: DecCoins_String_join is_space_def)
    have nonempty: "DecCoins_String cs \<noteq> []"
    proof -
      obtain c cs' where cs: "cs = c # cs'" using False by (cases cs) auto
      then have "DecCoin_String c \<noteq> []" using ok reDnm_chars(1) by (simp add: DecCoin_String_def)
      with cs show ?thesis by (cases cs') (simp_all add: DecCoins_String_join)
    qed
    have split: "splitOn (CHR '','') (DecCoins_String cs) = map DecCoin_String cs"
      unfolding DecCoins_String_join using False chars by (intro splitOn_joinWith) auto
    have "mapR ParseDecCoin (map DecCoin_String cs) = Inr cs"
      unfolding mapR_Inr_iff list_all2_map1 using parse by (auto simp: list_all2_same)
    with valid nonempty show ?thesis
      by (simp add: ParseDecCoins_def TrimSpace_id [OF nospace] split DecCoins_Sort_strict [OF strict])
  qed (simp add: DecCoins_String_def ParseDecCoins_def TrimSpace_def)
qed

theorem ParseDecCoins_String_witness:
  "ParseDecCoins (DecCoins_String [\<lparr>DecDenom = ''plug'', DecAmount = 1\<rparr>]) = Inr [\<lparr>DecDenom = ''plug'', DecAmount = 1\<rparr>]"
proof -
  have "DecCoins_IsValid [\<lparr>DecDenom = ''plug'', DecAmount = 1\<rparr>] \<and>
      list_all (\<lambda>c. reDnm (DecDenom c)) [\<lparr>DecDenom = ''plug'', DecAmount = 1\<rparr>]"
    by code_simp
  with ParseDecCoins_String [of _ "[\<lparr>DecDenom = ''plug'', DecAmount = 1\<rparr>]"] show ?thesis by blast
qed

text \<open>
  \<open>NewDecCoinsFromCoins\<close> returns one cell per argument: every zero coin among the arguments leaves
  a cell without amount at the end of the result.
\<close>

lemma NewDecCoinsFromCoins_nil_cells:
  assumes "NewDecCoinsFromCoins cs = Inr ds"
  shows "length ds = length cs \<and> length (filter (\<lambda>x. x = None) ds) = length (filter (\<lambda>c. Amount c = 0) cs)"
proof -
  obtain n ms where n: "NewCoins cs = Inr n" "mapR NewDecCoinFromCoin n = Inr ms"
      "ds = map Some ms @ replicate (length cs - length n) None"
    using assms by (auto simp: NewDecCoinsFromCoins_def)
  have "length n = length (filter (\<lambda>c. Amount c \<noteq> 0) cs)"
    using n(1) by (auto simp: NewCoins_def Let_def Coins_Sort_def removeZeroCoins_filter split: if_splits)
  with n(3) mapR_length [OF n(2)] sum_length_filter_compl [of "\<lambda>c. Amount c = 0" cs] show ?thesis
    by (simp add: filter_empty_conv)
qed

end
