(* ===== verification/CoinType.thy ===== *)
theory CoinType
  imports SdkDecCoin
begin

text \<open>
  \<open>types/coin_type.go\<close> and \<open>types/token.go\<close>: the units of a token and the conversion of coins
  between its main and its smallest unit.
\<close>

record Unit =
  UnitDenom :: string
  UnitScale :: "8 word"

definition NewUnit :: "string \<Rightarrow> 8 word \<Rightarrow> Unit" where
  "NewUnit denom scale = \<lparr>UnitDenom = denom, UnitScale = scale\<rparr>"

definition GetScaleFactor :: "Unit \<Rightarrow> int res" where
  "GetScaleFactor u = NewIntWithDecimal 1 (uint (UnitScale u))"

record CoinType =
  CTName :: string
  CTMinUnit :: Unit
  CTMainUnit :: Unit
  CTDesc :: string

record Token =
  TSymbol :: string
  TName :: string
  TScale :: "32 word"
  TMinUnit :: string
  TInitialSupply :: "64 word"
  TMaxSupply :: "64 word"
  TMintable :: bool
  TOwner :: string

text \<open>The conversion \<open>uint8(t.Scale)\<close> keeps the low eight bits.\<close>

definition GetCoinType :: "Token \<Rightarrow> CoinType" where
  "GetCoinType t =
     \<lparr>CTName = TName t,
      CTMinUnit = NewUnit (TMinUnit t) (ucast (TScale t)),
      CTMainUnit = NewUnit (TSymbol t) 0,
      CTDesc = TName t\<rparr>"

definition isMainUnit :: "CoinType \<Rightarrow> string \<Rightarrow> bool" where
  "isMainUnit ct name = (UnitDenom (CTMainUnit ct) = TrimSpace name)"

definition isMinUnit :: "CoinType \<Rightarrow> string \<Rightarrow> bool" where
  "isMinUnit ct name = (UnitDenom (CTMinUnit ct) = TrimSpace name)"

definition hasUnit :: "CoinType \<Rightarrow> string \<Rightarrow> bool" where
  "hasUnit ct name = (isMainUnit ct name \<or> isMinUnit ct name)"

text \<open>\<open>None\<close> is the zero value \<open>DecCoin{}\<close>, which carries no amount.\<close>

definition ConvertToMainCoin :: "CoinType \<Rightarrow> Coin \<Rightarrow> (DecCoin option) res" where
  "ConvertToMainCoin ct coin =
     (if \<not> hasUnit ct (Denom coin) then
        bindR (NewDecFromInt (Amount coin)) (\<lambda>a. Inr (Some \<lparr>DecDenom = Denom coin, DecAmount = a\<rparr>))
      else if isMainUnit ct (Denom coin) then Inr None
      else
        bindR (bindR (GetScaleFactor (CTMainUnit ct)) NewDecFromInt) (\<lambda>dstScale.
        bindR (bindR (GetScaleFactor (CTMinUnit ct)) NewDecFromInt) (\<lambda>srcScale.
        bindR (NewDecFromInt (Amount coin)) (\<lambda>amount.
        bindR (Dec_Mul amount dstScale) (\<lambda>m.
        bindR (Dec_Quo m srcScale) (\<lambda>amt.
        bindR (NewDecCoinFromDec (UnitDenom (CTMainUnit ct)) amt) (\<lambda>c. Inr (Some c))))))))"

definition ConvertToMinCoin :: "CoinType \<Rightarrow> DecCoin \<Rightarrow> Coin res" where
  "ConvertToMinCoin ct coin =
     (if \<not> hasUnit ct (DecDenom coin) then
        bindR (Dec_TruncateInt (DecAmount coin)) (\<lambda>a. Inr \<lparr>Denom = DecDenom coin, Amount = a\<rparr>)
      else if isMinUnit ct (DecDenom coin) then
        bindR (DecCoin_TruncateDecimal coin) (\<lambda>(newCoin, _). Inr newCoin)
      else
        bindR (bindR (GetScaleFactor (CTMainUnit ct)) NewDecFromInt) (\<lambda>srcScale.
        bindR (bindR (GetScaleFactor (CTMinUnit ct)) NewDecFromInt) (\<lambda>dstScale.
        bindR (Dec_Mul (DecAmount coin) dstScale) (\<lambda>m.
        bindR (Dec_Quo m srcScale) (\<lambda>amt.
        bindR (Dec_RoundInt amt) (\<lambda>i. NewCoin (UnitDenom (CTMinUnit ct)) i))))))"

section \<open>Conversion\<close>

lemma GetScaleFactor_small: "unat (UnitScale u) \<le> 18 \<Longrightarrow> GetScaleFactor u = Inr (10 ^ unat (UnitScale u))"
proof -
  assume s: "unat (UnitScale u) \<le> 18"
  have "(10::int) ^ unat (UnitScale u) \<le> 10 ^ 18"
    using s by (intro power_increasing) auto
  then have "valid_Int (10 ^ unat (UnitScale u))" by (simp add: valid_Int_def)
  then show ?thesis
    by (simp add: GetScaleFactor_def NewIntWithDecimal_def Let_def maxBitLen_check nat_uint_eq
        flip: unat_eq_nat_uint)
qed

lemma reDnm_TrimSpace [simp]: "reDnm d \<Longrightarrow> TrimSpace d = d"
  using reDnm_chars(3) by (intro TrimSpace_id) blast

lemma Dec_Quo_exact:
  assumes "0 < q" "valid_Dec r" "m * precisionReuse = r * q"
  shows "Dec_Quo m q = Inr r"
proof -
  have "m * precisionReuse * precisionReuse = (r * precisionReuse) * q" using assms(3) by (simp add: ac_simps)
  moreover have "((r * precisionReuse) * q) sdiv q = r * precisionReuse"
    using assms(1) by (simp add: signed_divide_int_def abs_mult sgn_mult mult_sgn_abs)
  ultimately have "(m * precisionReuse * precisionReuse) sdiv q = r * precisionReuse" by metis
  with assms(1,2) show ?thesis by (simp add: Dec_Quo_def check_overflow_eq)
qed

lemma valid_Int_Dec: "valid_Int n \<Longrightarrow> valid_Dec (n * precisionReuse)"
proof -
  assume "valid_Int n"
  then have "\<bar>n\<bar> * precisionReuse \<le> (2 ^ 255 - 1) * precisionReuse"
    by (intro mult_right_mono) (auto simp: valid_Int_def)
  then show ?thesis by (simp add: valid_Dec_def precisionReuse_num abs_mult)
qed

text \<open>
  Converting between the units of a token. For a token of scale \<open>s\<close> (at most 18) with two
  different valid unit names, \<open>n\<close> smallest units are exactly \<open>n / 10^s\<close> main units, and
  converting these back gives the \<open>n\<close> smallest units again, for every \<open>n\<close> that is an \<open>Int\<close>.
\<close>

theorem Convert_units_roundtrip:
  assumes "unat (TScale t) \<le> 18" "reDnm (TSymbol t)" "reDnm (TMinUnit t)" "TSymbol t \<noteq> TMinUnit t"
    and "0 \<le> n" "valid_Int n"
  shows "ConvertToMainCoin (GetCoinType t) \<lparr>Denom = TMinUnit t, Amount = n\<rparr> =
           Inr (Some \<lparr>DecDenom = TSymbol t, DecAmount = n * 10 ^ (18 - unat (TScale t))\<rparr>)
       \<and> ConvertToMinCoin (GetCoinType t) \<lparr>DecDenom = TSymbol t, DecAmount = n * 10 ^ (18 - unat (TScale t))\<rparr> =
           Inr \<lparr>Denom = TMinUnit t, Amount = n\<rparr>"
proof -
  define s where "s = unat (TScale t)"
  have scale: "unat (ucast (TScale t) :: 8 word) = s"
    using assms(1) by (simp add: unsigned_ucast_eq s_def take_bit_nat_eq_self)
  have s: "s \<le> 18" using assms(1) by (simp add: s_def)
  have sum: "(10::int) ^ (18 - s) * 10 ^ s = precisionReuse"
    using s by (simp add: precisionReuse_def Precision_def flip: power_add)
  have valid: "valid_Dec (n * precisionReuse)" using assms(6) by (rule valid_Int_Dec)
  have "\<bar>n * 10 ^ (18 - s)\<bar> \<le> \<bar>n * precisionReuse\<bar>"
    unfolding sum [symmetric] by (simp add: abs_mult mult_left_mono)
  with valid have valid': "valid_Dec (n * 10 ^ (18 - s))" by (rule valid_Dec_mono)
  have units: "GetScaleFactor (CTMainUnit (GetCoinType t)) = Inr 1"
    "GetScaleFactor (CTMinUnit (GetCoinType t)) = Inr (10 ^ s)"
    using GetScaleFactor_small [of "NewUnit (TSymbol t) 0"] s scale
      GetScaleFactor_small [of "NewUnit (TMinUnit t) (ucast (TScale t))"]
    by (simp_all add: GetCoinType_def NewUnit_def)
  have mul: "Dec_Mul (n * precisionReuse) precisionReuse = Inr (n * precisionReuse)"
    "Dec_Mul (n * 10 ^ (18 - s)) (10 ^ s * precisionReuse) = Inr (n * precisionReuse)"
    using valid sum chop_multiple [of "n * precisionReuse"]
    by (simp_all add: Dec_Mul_def check_overflow_eq mult.assoc flip: mult.assoc [of "10 ^ (18 - s)" "10 ^ s"])
  have quo: "Dec_Quo (n * precisionReuse) (10 ^ s * precisionReuse) = Inr (n * 10 ^ (18 - s))"
    "Dec_Quo (n * precisionReuse) precisionReuse = Inr (n * precisionReuse)"
    using valid valid' sum by (intro Dec_Quo_exact; simp add: mult.assoc)+
  have names: "UnitDenom (CTMainUnit (GetCoinType t)) = TSymbol t" "UnitDenom (CTMinUnit (GetCoinType t)) = TMinUnit t"
    by (simp_all add: GetCoinType_def NewUnit_def)
  have "\<not> n * 10 ^ (18 - s) < 0" using assms(5) by (simp add: not_less)
  moreover have "Dec_RoundInt (n * precisionReuse) = Inr n"
    using assms(6) by (simp add: Dec_RoundInt_def NewIntFromBigInt_eq)
  ultimately show ?thesis
    using assms(2-5) units mul quo names
    by (simp add: ConvertToMainCoin_def ConvertToMinCoin_def hasUnit_def isMainUnit_def isMinUnit_def
        NewDecCoinFromDec_def mustValidateDenom_def ValidateDenom_def NewCoin_ok flip: s_def)
qed

theorem Convert_units_roundtrip_witness:
  "ConvertToMinCoin (GetCoinType \<lparr>TSymbol = ''plug'', TName = ''Plug'', TScale = 6, TMinUnit = ''uplug'',
       TInitialSupply = 0, TMaxSupply = 0, TMintable = True, TOwner = []\<rparr>)
     \<lparr>DecDenom = ''plug'', DecAmount = 1500000 * 10 ^ 12\<rparr> = Inr \<lparr>Denom = ''uplug'', Amount = 1500000\<rparr>"
proof -
  have "reDnm ''plug''" "reDnm ''uplug''" by code_simp+
  with Convert_units_roundtrip [of "\<lparr>TSymbol = ''plug'', TName = ''Plug'', TScale = 6, TMinUnit = ''uplug'',
       TInitialSupply = 0, TMaxSupply = 0, TMintable = True, TOwner = []\<rparr>" 1500000]
  show ?thesis by (simp add: valid_Int_def)
qed

text \<open>A coin that already is in the main unit is converted to the zero value, without its amount.\<close>

lemma ConvertToMainCoin_main_unit:
  assumes "TrimSpace (Denom c) = UnitDenom (CTMainUnit ct)"
  shows "ConvertToMainCoin ct c = Inr None"
  using assms by (simp add: ConvertToMainCoin_def hasUnit_def isMainUnit_def)

end
