(* ===== verification/HdPath.thy ===== *)
theory HdPath
  imports GoBig
begin

unbundle bit_operations_syntax

text \<open>
  \<open>crypto/hd\<close>: BIP 44 paths and the derivation of private keys along them. HMAC-SHA512, the public
  key of a private key (btcec), the order of the curve (btcec) and the seed of a mnemonic (bip39)
  are parameters.
\<close>

section \<open>Paths (\<open>hdpath.go\<close>)\<close>

record BIP44Params =
  Purpose :: "32 word"
  CoinType :: "32 word"
  Account :: "32 word"
  Change :: bool
  AddressIndex :: "32 word"

definition NewParams :: "32 word \<Rightarrow> 32 word \<Rightarrow> 32 word \<Rightarrow> bool \<Rightarrow> 32 word \<Rightarrow> BIP44Params" where
  "NewParams purpose coinType account change addressIdx =
     \<lparr>Purpose = purpose, CoinType = coinType, Account = account, Change = change, AddressIndex = addressIdx\<rparr>"

definition isHardened :: "string \<Rightarrow> bool" where
  "isHardened field = (field \<noteq> [] \<and> last field = CHR 0x27)"

text \<open>\<open>strings.TrimSuffix(field, "'")\<close> removes at most one apostrophe.\<close>

definition trimApostrophe :: "string \<Rightarrow> string" where
  "trimApostrophe field = (if field \<noteq> [] \<and> last field = CHR 0x27 then butlast field else field)"

definition hardenedInt :: "string \<Rightarrow> (32 word) res" where
  "hardenedInt field =
     (case ParseUint32 (trimApostrophe field) of
        None \<Rightarrow> Inl (Err (''strconv.ParseUint: parsing '' @ trimApostrophe field))
      | Some i \<Rightarrow> Inr (of_nat i))"

definition NewParamsFromPath :: "string \<Rightarrow> BIP44Params res" where
  "NewParamsFromPath path =
     (let spl = splitOn (CHR ''/'') path in
      if length spl \<noteq> 5 then Inl (Err (''path length is wrong. Expected 5, got '' @ show_nat (length spl)))
      else
        bindR (hardenedInt (spl ! 0)) (\<lambda>purpose.
        bindR (hardenedInt (spl ! 1)) (\<lambda>coinType.
        bindR (hardenedInt (spl ! 2)) (\<lambda>account.
        bindR (hardenedInt (spl ! 3)) (\<lambda>change.
        bindR (hardenedInt (spl ! 4)) (\<lambda>addressIdx.
          if spl ! 0 \<noteq> ''44'' @ [CHR 0x27] then
            Inl (Err (''first field in path must be 44, got '' @ spl ! 0))
          else if \<not> isHardened (spl ! 1) \<or> \<not> isHardened (spl ! 2) then
            Inl (Err ''second and third field in path must be hardened'')
          else if isHardened (spl ! 3) \<or> isHardened (spl ! 4) then
            Inl (Err ''fourth and fifth field in path must not be hardened'')
          else if \<not> (change = 0 \<or> change = 1) then Inl (Err ''change field can only be 0 or 1'')
          else Inr \<lparr>Purpose = purpose, CoinType = coinType, Account = account, Change = (0 < change),
                    AddressIndex = addressIdx\<rparr>))))))"

definition NewFundraiserParams :: "32 word \<Rightarrow> 32 word \<Rightarrow> 32 word \<Rightarrow> BIP44Params" where
  "NewFundraiserParams account coinType addressIdx = NewParams 44 coinType account False addressIdx"

definition CreateHDPath :: "32 word \<Rightarrow> 32 word \<Rightarrow> 32 word \<Rightarrow> BIP44Params" where
  "CreateHDPath coinType account index = NewFundraiserParams account coinType index"

definition DerivationPath :: "BIP44Params \<Rightarrow> (32 word) list" where
  "DerivationPath p =
     (let change = (if Change p then 1 else 0)
      in [Purpose p, CoinType p, Account p, change, AddressIndex p])"

definition Params_String :: "BIP44Params \<Rightarrow> string" where
  "Params_String p =
     (let changeStr = (if Change p then ''1'' else ''0'')
      in show_nat (unat (Purpose p)) @ [CHR 0x27, CHR ''/''] @ show_nat (unat (CoinType p)) @ [CHR 0x27, CHR ''/''] @
         show_nat (unat (Account p)) @ [CHR 0x27, CHR ''/''] @ changeStr @ [CHR ''/''] @ show_nat (unat (AddressIndex p)))"

section \<open>Derivation\<close>

text \<open>\<open>big.Int.SetBytes\<close> and \<open>big.Int.Bytes\<close>: big endian, without leading zero bytes.\<close>

definition SetBytes :: "bytes \<Rightarrow> int" where
  "SetBytes bs = foldl (\<lambda>acc b. acc * 256 + uint b) 0 bs"

function nat_bytes :: "nat \<Rightarrow> bytes" where
  "nat_bytes n = (if n = 0 then [] else nat_bytes (n div 256) @ [of_nat (n mod 256)])"
  by pat_completeness auto
termination
  by (relation "measure id") auto

declare nat_bytes.simps [simp del]

definition big_Bytes :: "int \<Rightarrow> bytes" where
  "big_Bytes x = nat_bytes (nat \<bar>x\<bar>)"

definition addScalars :: "int \<Rightarrow> bytes \<Rightarrow> bytes \<Rightarrow> bytes res" where
  "addScalars curveN a b =
     (let x = big_Bytes ((SetBytes a + SetBytes b) mod curveN)
      in if 32 < length x then Inl (Panic ''slice bounds out of range'')
         else Inr (replicate (32 - length x) 0 @ x))"

definition uint32ToBytes :: "32 word \<Rightarrow> bytes" where
  "uint32ToBytes i = [ucast (drop_bit 24 i), ucast (drop_bit 16 i), ucast (drop_bit 8 i), ucast i]"

definition i64 :: "(bytes \<Rightarrow> bytes \<Rightarrow> bytes) \<Rightarrow> bytes \<Rightarrow> bytes \<Rightarrow> bytes \<times> bytes" where
  "i64 hmac key data = (let I = hmac key data in (take 32 I, take 32 (drop 32 I)))"

definition ComputeMastersFromSeed :: "(bytes \<Rightarrow> bytes \<Rightarrow> bytes) \<Rightarrow> bytes \<Rightarrow> bytes \<times> bytes" where
  "ComputeMastersFromSeed hmac seed = i64 hmac (map (\<lambda>c. of_nat (of_char c)) ''Bitcoin seed'') seed"

definition derivePrivateKey ::
    "(bytes \<Rightarrow> bytes \<Rightarrow> bytes) \<Rightarrow> (bytes \<Rightarrow> bytes) \<Rightarrow> int \<Rightarrow> bytes \<Rightarrow> bytes \<Rightarrow> 32 word \<Rightarrow> bool \<Rightarrow> (bytes \<times> bytes) res" where
  "derivePrivateKey hmac pub curveN privKeyBytes chainCode index harden =
     (let index' = (if harden then index OR 0x80000000 else index);
          data = (if harden then 0 # privKeyBytes else pub privKeyBytes) @ uint32ToBytes index'
      in case i64 hmac chainCode data of (data2, chainCode2) \<Rightarrow>
           bindR (addScalars curveN privKeyBytes data2) (\<lambda>x. Inr (x, chainCode2)))"

definition derive_part ::
    "(bytes \<Rightarrow> bytes \<Rightarrow> bytes) \<Rightarrow> (bytes \<Rightarrow> bytes) \<Rightarrow> int \<Rightarrow> bytes \<times> bytes \<Rightarrow> string \<Rightarrow> (bytes \<times> bytes) res" where
  "derive_part hmac pub curveN st part =
     (case st of (data, chainCode) \<Rightarrow>
        if part = [] then Inl (Panic ''slice bounds out of range'')
        else
          let harden = (last part = CHR 0x27);
              part' = (if harden then butlast part else part)
          in case ParseUint32 part' of
               None \<Rightarrow> Inl (Err (''invalid BIP 32 path: strconv.ParseUint: parsing '' @ part'))
             | Some idx \<Rightarrow> derivePrivateKey hmac pub curveN data chainCode (of_nat idx) harden)"

text \<open>The length test at the end of the source holds for every \<open>[32]byte\<close> value.\<close>

definition DerivePrivateKeyForPath ::
    "(bytes \<Rightarrow> bytes \<Rightarrow> bytes) \<Rightarrow> (bytes \<Rightarrow> bytes) \<Rightarrow> int \<Rightarrow> bytes \<Rightarrow> bytes \<Rightarrow> string \<Rightarrow> bytes res" where
  "DerivePrivateKeyForPath hmac pub curveN privKeyBytes chainCode path =
     bindR (foldR (derive_part hmac pub curveN) (privKeyBytes, chainCode) (splitOn (CHR ''/'') path))
       (\<lambda>(data, _). if length data \<noteq> 32 then Inl (Err ''expected a (secp256k1) key of length 32'') else Inr data)"

section \<open>The algorithm (\<open>algo.go\<close>)\<close>

definition NewSigningAlgoFromString :: "string \<Rightarrow> string res" where
  "NewSigningAlgoFromString str =
     (if str = ''secp256k1'' then Inr ''secp256k1''
      else Inl (Err (''provided algorithm '' @ str @ '' is not supported'')))"

definition Derive ::
    "(bytes \<Rightarrow> bytes \<Rightarrow> bytes) \<Rightarrow> (bytes \<Rightarrow> bytes) \<Rightarrow> int \<Rightarrow> (string \<Rightarrow> string \<Rightarrow> bytes res)
     \<Rightarrow> string \<Rightarrow> string \<Rightarrow> string \<Rightarrow> bytes res" where
  "Derive hmac pub curveN newSeed mnemonic passphrase hdPath =
     bindR (newSeed mnemonic passphrase) (\<lambda>seed.
       case ComputeMastersFromSeed hmac seed of (masterPriv, ch) \<Rightarrow>
         if length hdPath = 0 then Inr masterPriv
         else DerivePrivateKeyForPath hmac pub curveN masterPriv ch hdPath)"

text \<open>\<open>Generate\<close> copies into a new array of \<open>PrivKeySize\<close> bytes.\<close>

definition Generate :: "bytes \<Rightarrow> bytes" where
  "Generate bz = take 32 bz @ replicate (32 - length bz) 0"

section \<open>Properties of paths\<close>

lemma show_nat_no: "c \<in> set (show_nat n) \<Longrightarrow> c \<noteq> CHR ''/'' \<and> c \<noteq> CHR 0x27"
  using show_nat_digits [of n] is_digit_not_special(6,7) by auto

lemma hardenedInt_show:
  "hardenedInt (show_nat (unat (w::32 word)) @ [CHR 0x27]) = Inr w"
  "hardenedInt (show_nat (unat w)) = Inr w"
proof -
  have w: "ParseUint32 (show_nat (unat w)) = Some (unat w)"
    using unsigned_less [of w] by (intro ParseUint32_show_nat) simp
  then show "hardenedInt (show_nat (unat w) @ [CHR 0x27]) = Inr w"
    by (simp add: hardenedInt_def trimApostrophe_def)
  have "last (show_nat (unat w)) \<noteq> CHR 0x27"
    using show_nat_no last_in_set [OF show_nat_nonempty] by blast
  with w show "hardenedInt (show_nat (unat w)) = Inr w"
    by (simp add: hardenedInt_def trimApostrophe_def)
qed

lemma isHardened_show: "isHardened (s @ [CHR 0x27])" "\<not> isHardened (show_nat n)"
  using show_nat_no [OF last_in_set [OF show_nat_nonempty [of n]]] by (simp_all add: isHardened_def)

lemma Params_String_split:
  "splitOn (CHR ''/'') (Params_String p) =
     [show_nat (unat (Purpose p)) @ [CHR 0x27], show_nat (unat (CoinType p)) @ [CHR 0x27],
      show_nat (unat (Account p)) @ [CHR 0x27], show_nat (if Change p then 1 else 0), show_nat (unat (AddressIndex p))]"
proof -
  have "show_nat 1 = ''1''" "show_nat 0 = ''0''" by code_simp+
  then have c: "(if Change p then ''1'' else ''0'') = show_nat (if Change p then 1 else 0)" by simp
  have "Params_String p = joinWith [CHR ''/'']
     [show_nat (unat (Purpose p)) @ [CHR 0x27], show_nat (unat (CoinType p)) @ [CHR 0x27],
      show_nat (unat (Account p)) @ [CHR 0x27], show_nat (if Change p then 1 else 0), show_nat (unat (AddressIndex p))]"
    unfolding Params_String_def Let_def c by simp
  then show ?thesis by (simp only:) (rule splitOn_joinWith; auto dest: show_nat_no)
qed

text \<open>
  BIP 44 paths. Printing a parameter object and parsing the text gives it back when its
  purpose is 44, and an error otherwise; and whatever \<open>NewParamsFromPath\<close> accepts has purpose 44.
\<close>

theorem HDPath_roundtrip:
  "(if Purpose p = 44 then NewParamsFromPath (Params_String p) = Inr p
    else is_ok (NewParamsFromPath (Params_String p)) = False)
   \<and> (\<forall>s q. NewParamsFromPath s = Inr q \<longrightarrow> Purpose q = 44)
   \<and> NewParamsFromPath (Params_String (CreateHDPath coinType account index)) = Inr (CreateHDPath coinType account index)"
proof -
  have c: "show_nat (if Change q then 1 else 0) = show_nat (unat (if Change q then 1 else 0 :: 32 word))" for q
    by simp
  have s44: "show_nat 44 = ''44''" by code_simp
  have h44: "hardenedInt (''44'' @ [CHR 0x27]) = Inr 44"
    using hardenedInt_show(1) [of 44] s44 by simp
  have eq44: "show_nat (unat (w::32 word)) @ [CHR 0x27] = ''44'' @ [CHR 0x27] \<longleftrightarrow> w = 44" for w
  proof
    assume "show_nat (unat w) @ [CHR 0x27] = ''44'' @ [CHR 0x27]"
    then have "hardenedInt (''44'' @ [CHR 0x27]) = Inr w" using hardenedInt_show(1) [of w] by metis
    with h44 show "w = 44" by simp
  next
    assume "w = 44"
    with s44 show "show_nat (unat w) @ [CHR 0x27] = ''44'' @ [CHR 0x27]" by simp
  qed
  have rt: "NewParamsFromPath (Params_String q) =
      (if Purpose q = 44 then Inr q else Inl (Err (''first field in path must be 44, got '' @ show_nat (unat (Purpose q)) @ [CHR 0x27])))" for q
    unfolding NewParamsFromPath_def Params_String_split c
    by (cases q) (simp add: Let_def hardenedInt_show isHardened_show eq44 [unfolded append.simps])
  have "Purpose q = 44" if "NewParamsFromPath s = Inr q" for s q
    using that h44 by (auto simp: NewParamsFromPath_def Let_def split: if_splits)
  then show ?thesis using rt by (simp add: CreateHDPath_def NewFundraiserParams_def NewParams_def)
qed

theorem HDPath_roundtrip_witness:
  "\<exists>p. NewParamsFromPath (Params_String (CreateHDPath 118 0 7)) = Inr p \<and> Purpose p = 44"
  using HDPath_roundtrip [of "CreateHDPath 118 0 7" 118 0 7] by blast

section \<open>Properties of derivation\<close>

lemma foldl_bytes: "foldl (\<lambda>acc b. acc * 256 + uint b) acc bs = acc * 256 ^ length bs + SetBytes bs"
proof (induction bs arbitrary: acc)
  case (Cons b bs)
  have "SetBytes (b # bs) = uint b * 256 ^ length bs + SetBytes bs"
    using Cons.IH [of "uint b"] by (simp add: SetBytes_def)
  then show ?case using Cons.IH [of "acc * 256 + uint b"] by (simp add: algebra_simps)
qed (simp add: SetBytes_def)

lemma SetBytes_append: "SetBytes (as @ bs) = SetBytes as * 256 ^ length bs + SetBytes bs"
  using foldl_bytes [of "SetBytes as" bs] by (simp add: SetBytes_def)

lemma SetBytes_zeros: "SetBytes (replicate n 0 @ bs) = SetBytes bs"
proof -
  have "SetBytes (replicate n 0) = 0" by (induction n) (simp_all add: SetBytes_def)
  then show ?thesis by (simp add: SetBytes_append)
qed

lemma SetBytes_nat_bytes: "SetBytes (nat_bytes n) = int n"
proof (induction n rule: nat_bytes.induct)
  case (1 n)
  show ?case
  proof (cases "n = 0")
    case False
    define x :: "8 word" where "x = of_nat (n mod 256)"
    have "uint x = int n mod 256"
      unfolding x_def uint_nat unat_of_nat by (simp add: zmod_int)
    then have x: "SetBytes [x] = int n mod 256" by (simp add: SetBytes_def)
    have "nat_bytes n = nat_bytes (n div 256) @ [x]"
      unfolding x_def using False by (subst nat_bytes.simps) (rule if_not_P)
    then have "SetBytes (nat_bytes n) = int (n div 256) * 256 + int n mod 256"
      using SetBytes_append [of "nat_bytes (n div 256)" "[x]"] 1 [OF False] x by simp
    then show ?thesis by (simp add: zdiv_int div_mult_mod_eq)
  qed (simp add: nat_bytes.simps SetBytes_def)
qed

lemma length_nat_bytes: "length (nat_bytes n) \<le> k \<longleftrightarrow> n < 256 ^ k"
proof (induction k arbitrary: n)
  case 0
  show ?case by (simp add: nat_bytes.simps [of n])
next
  case (Suc k)
  show ?case
  proof (cases "n = 0")
    case False
    then have "length (nat_bytes n) \<le> Suc k \<longleftrightarrow> n div 256 < 256 ^ k"
      using Suc.IH [of "n div 256"] by (simp add: nat_bytes.simps [of n])
    then show ?thesis by (simp add: div_less_iff_less_mult mult.commute)
  qed (simp add: nat_bytes.simps)
qed

lemma addScalars_ok:
  assumes "0 < curveN" "curveN \<le> 2 ^ 256"
  shows "\<exists>r. addScalars curveN a b = Inr r \<and> length r = 32 \<and> SetBytes r = (SetBytes a + SetBytes b) mod curveN"
proof -
  let ?s = "(SetBytes a + SetBytes b) mod curveN"
  have s: "0 \<le> ?s" "?s < curveN" using assms(1) by simp_all
  then have "nat ?s < 256 ^ 32" using assms(2) by (simp add: nat_less_iff)
  then have len: "length (big_Bytes ?s) \<le> 32"
    using s(1) length_nat_bytes [of "nat ?s" 32] by (simp add: big_Bytes_def)
  have "SetBytes (big_Bytes ?s) = ?s" using s(1) by (simp add: big_Bytes_def SetBytes_nat_bytes)
  with len show ?thesis by (simp add: addScalars_def Let_def SetBytes_zeros)
qed

definition valid_part :: "string \<Rightarrow> bool" where
  "valid_part part = (part \<noteq> [] \<and> ParseUint32 (trimApostrophe part) \<noteq> None)"

lemma valid_part_show: "valid_part (show_nat (unat (w::32 word)) @ [CHR 0x27])" "valid_part (show_nat (unat w))"
  using hardenedInt_show [of w] by (auto simp: valid_part_def hardenedInt_def split: option.splits)

lemma derive_part_ok:
  assumes "0 < curveN" "curveN \<le> 2 ^ 256"
  shows "(\<exists>st'. derive_part hmac pub curveN st part = Inr st') \<longleftrightarrow> valid_part part"
    and "derive_part hmac pub curveN st part = Inr (k, c) \<Longrightarrow> length k = 32 \<and> 0 \<le> SetBytes k \<and> SetBytes k < curveN"
proof -
  obtain data chain where st: "st = (data, chain)" by (cases st)
  have key: "\<exists>x. derivePrivateKey hmac pub curveN data chain idx h = Inr (x, c') \<and> length x = 32 \<and> 0 \<le> SetBytes x \<and> SetBytes x < curveN"
    if "c' = snd (i64 hmac chain ((if h then 0 # data else pub data) @ uint32ToBytes (if h then idx OR 0x80000000 else idx)))"
    for idx h c'
  proof -
    let ?d2 = "fst (i64 hmac chain ((if h then 0 # data else pub data) @ uint32ToBytes (if h then idx OR 0x80000000 else idx)))"
    obtain r where r: "addScalars curveN data ?d2 = Inr r" "length r = 32" "SetBytes r = (SetBytes data + SetBytes ?d2) mod curveN"
      using addScalars_ok [OF assms] by blast
    then show ?thesis
      using that assms(1) by (intro exI [of _ r]) (simp add: derivePrivateKey_def Let_def case_prod_beta)
  qed
  show "(\<exists>st'. derive_part hmac pub curveN st part = Inr st') \<longleftrightarrow> valid_part part"
  proof (cases "part = [] \<or> ParseUint32 (trimApostrophe part) = None")
    case True
    then show ?thesis by (auto simp: derive_part_def st valid_part_def trimApostrophe_def Let_def)
  next
    case False
    then obtain idx where "ParseUint32 (trimApostrophe part) = Some idx" by auto
    with False have "derive_part hmac pub curveN st part =
        derivePrivateKey hmac pub curveN data chain (of_nat idx) (last part = CHR 0x27)"
      by (simp add: derive_part_def st trimApostrophe_def Let_def)
    then have "\<exists>st'. derive_part hmac pub curveN st part = Inr st'"
      using key [OF refl, of "of_nat idx" "last part = CHR 0x27"] by (metis (no_types))
    with False show ?thesis by (simp add: valid_part_def)
  qed
  show "length k = 32 \<and> 0 \<le> SetBytes k \<and> SetBytes k < curveN"
    if "derive_part hmac pub curveN st part = Inr (k, c)"
  proof -
    from that obtain idx h where "derivePrivateKey hmac pub curveN data chain idx h = Inr (k, c)"
      by (auto simp: derive_part_def st Let_def split: if_splits option.splits)
    with key [OF refl, of idx h] show ?thesis by auto
  qed
qed

lemma derive_fold_ok:
  assumes "0 < curveN" "curveN \<le> 2 ^ 256"
  shows "(\<exists>st'. foldR (derive_part hmac pub curveN) st parts = Inr st') \<longleftrightarrow> list_all valid_part parts"
    and "foldR (derive_part hmac pub curveN) st parts = Inr (k, c) \<Longrightarrow> parts \<noteq> [] \<Longrightarrow>
      length k = 32 \<and> 0 \<le> SetBytes k \<and> SetBytes k < curveN"
proof -
  show "(\<exists>st'. foldR (derive_part hmac pub curveN) st parts = Inr st') \<longleftrightarrow> list_all valid_part parts"
  proof (induction parts arbitrary: st)
    case (Cons p parts)
    show ?case
    proof (cases "derive_part hmac pub curveN st p")
      case (Inl e)
      then show ?thesis using derive_part_ok(1) [OF assms, of hmac pub st p] by simp
    next
      case (Inr st')
      then have "valid_part p" using derive_part_ok(1) [OF assms, of hmac pub st p] by blast
      then show ?thesis using Inr Cons.IH [of st'] by simp
    qed
  qed simp
  show "length k = 32 \<and> 0 \<le> SetBytes k \<and> SetBytes k < curveN"
    if "foldR (derive_part hmac pub curveN) st parts = Inr (k, c)" "parts \<noteq> []"
  proof -
    obtain qs p where "parts = qs @ [p]" using \<open>parts \<noteq> []\<close> by (metis append_butlast_last_id)
    with that(1) obtain st' where "derive_part hmac pub curveN st' p = Inr (k, c)"
      by (auto simp: foldR_append)
    then show ?thesis by (rule derive_part_ok(2) [OF assms])
  qed
qed

text \<open>
  \<^bold>\<open>C36.\<close> Key derivation. For a curve order of at most 256 bits, whatever the hash, the public key
  function, the parent key and the chain code are, deriving along a path returns a key exactly
  when every component of the path is a 32-bit decimal number with an optional apostrophe,
  and the key is then a 32-byte big-endian number below the curve order.
\<close>

theorem DerivePrivateKeyForPath_valid:
  assumes "0 < curveN" "curveN \<le> 2 ^ 256"
  shows "((\<exists>k. DerivePrivateKeyForPath hmac pub curveN key chain path = Inr k) \<longleftrightarrow>
            list_all valid_part (splitOn (CHR ''/'') path))
       \<and> (\<forall>k. DerivePrivateKeyForPath hmac pub curveN key chain path = Inr k \<longrightarrow>
            length k = 32 \<and> 0 \<le> SetBytes k \<and> SetBytes k < curveN)"
proof -
  let ?fold = "foldR (derive_part hmac pub curveN) (key, chain) (splitOn (CHR ''/'') path)"
  have len: "length k = 32 \<and> 0 \<le> SetBytes k \<and> SetBytes k < curveN" if "?fold = Inr (k, c)" for k c
    using derive_fold_ok(2) [OF assms that] by simp
  have "(\<exists>k. DerivePrivateKeyForPath hmac pub curveN key chain path = Inr k) \<longleftrightarrow> (\<exists>st. ?fold = Inr st)"
  proof
    assume "\<exists>st. ?fold = Inr st"
    then obtain k c where "?fold = Inr (k, c)" by auto
    with len show "\<exists>k. DerivePrivateKeyForPath hmac pub curveN key chain path = Inr k"
      by (auto simp: DerivePrivateKeyForPath_def)
  qed (auto simp: DerivePrivateKeyForPath_def)
  then show ?thesis
    using derive_fold_ok(1) [OF assms] len
    by (auto simp: DerivePrivateKeyForPath_def split: if_splits)
qed

theorem DerivePrivateKeyForPath_valid_witness:
  "\<exists>k. DerivePrivateKeyForPath (\<lambda>key data. replicate 64 1) (\<lambda>k. replicate 33 2) 97 (replicate 32 3) (replicate 32 4)
     (Params_String (CreateHDPath 118 0 0)) = Inr k \<and> SetBytes k < 97"
proof -
  have "list_all valid_part (splitOn (CHR ''/'') (Params_String (CreateHDPath 118 0 0)))"
    unfolding Params_String_split
    using valid_part_show(2) [of 0] valid_part_show(1) [of 0] valid_part_show(1) [of 44] valid_part_show(1) [of 118]
    by (simp add: CreateHDPath_def NewFundraiserParams_def NewParams_def)
  with DerivePrivateKeyForPath_valid [of 97 "\<lambda>key data. replicate 64 1" "\<lambda>k. replicate 33 2" "replicate 32 3" "replicate 32 4"
      "Params_String (CreateHDPath 118 0 0)"]
  show ?thesis by auto
qed

text \<open>An empty component, as in a path with a leading slash, is a panic and not an error.\<close>

lemma DerivePrivateKeyForPath_empty_part:
  "DerivePrivateKeyForPath hmac pub curveN key chain ''/0'' = Inl (Panic ''slice bounds out of range'')"
  by (simp add: DerivePrivateKeyForPath_def derive_part_def)

end
