(* ===== verification/BitArray.thy ===== *)
theory BitArray
  imports GoBig
begin

unbundle bit_operations_syntax

text \<open>
  \<open>crypto/types/compact_bit_array.go\<close>: a bit array packed in bytes, most significant bit first,
  with its text, JSON and length-prefixed binary forms. A Go pointer is an \<open>option\<close>; an index out
  of the byte slice is a panic. The abstraction of an array is the list of its bits.
\<close>

section \<open>Unsigned varints (\<open>encoding/binary\<close>)\<close>

function PutUvarint :: "64 word \<Rightarrow> bytes" where
  "PutUvarint x =
     (if 0x80 \<le> x then (ucast x OR 0x80) # PutUvarint (drop_bit 7 x) else [ucast x])"
  by pat_completeness auto
termination
proof (relation "measure unat")
  fix x :: "64 word"
  assume "0x80 \<le> x"
  then have "unat x div 128 < unat x" by (simp add: word_le_nat_alt)
  then show "(drop_bit 7 x, x) \<in> measure unat"
    by (simp add: drop_bit_eq_div unat_div)
qed simp

declare PutUvarint.simps [simp del]

text \<open>
  The value and the number of bytes read; no terminating byte gives \<open>(0, 0)\<close> and a value above
  64 bits a negative count.
\<close>

fun Uvarint_loop :: "nat \<Rightarrow> nat \<Rightarrow> 64 word \<Rightarrow> bytes \<Rightarrow> 64 word \<times> int" where
  "Uvarint_loop i s x [] = (0, 0)"
| "Uvarint_loop i s x (b # bs) =
     (if i = 10 then (0, - (int i + 1))
      else if b < 0x80 then
        (if i = 9 \<and> 1 < b then (0, - (int i + 1)) else (x OR push_bit s (ucast b), int i + 1))
      else Uvarint_loop (i + 1) (s + 7) (x OR push_bit s (ucast (b AND 0x7f))) bs)"

definition Uvarint :: "bytes \<Rightarrow> 64 word \<times> int" where
  "Uvarint buf = Uvarint_loop 0 0 0 buf"

section \<open>The array\<close>

record CompactBitArray =
  ExtraBitsStored :: "32 word"
  Elems :: bytes

definition NewCompactBitArray :: "int \<Rightarrow> CompactBitArray option" where
  "NewCompactBitArray bits =
     (if bits \<le> 0 then None
      else Some \<lparr>ExtraBitsStored = word_of_int (bits mod 8), Elems = replicate (nat ((bits + 7) div 8)) 0\<rparr>)"

definition Count :: "CompactBitArray option \<Rightarrow> int" where
  "Count bA =
     (case bA of
        None \<Rightarrow> 0
      | Some a \<Rightarrow>
          if ExtraBitsStored a = 0 then int (length (Elems a)) * 8
          else (int (length (Elems a)) - 1) * 8 + uint (ExtraBitsStored a))"

text \<open>The mask of bit \<open>i\<close> of its byte: \<open>uint8(1) << uint8(7-(i%8))\<close>.\<close>

definition bit_mask :: "int \<Rightarrow> 8 word" where
  "bit_mask i = push_bit (nat (7 - i mod 8)) 1"

definition in_elems :: "CompactBitArray \<Rightarrow> int \<Rightarrow> bool" where
  "in_elems a i = (0 \<le> i \<and> nat (i div 8) < length (Elems a))"

definition GetIndex :: "CompactBitArray option \<Rightarrow> int \<Rightarrow> bool res" where
  "GetIndex bA i =
     (case bA of
        None \<Rightarrow> Inr False
      | Some a \<Rightarrow>
          if Count bA \<le> i then Inr False
          else if \<not> in_elems a i then Inl (Panic ''index out of range'')
          else Inr (Elems a ! nat (i div 8) AND bit_mask i \<noteq> 0))"

definition SetIndex :: "CompactBitArray option \<Rightarrow> int \<Rightarrow> bool \<Rightarrow> (CompactBitArray option \<times> bool) res" where
  "SetIndex bA i v =
     (case bA of
        None \<Rightarrow> Inr (None, False)
      | Some a \<Rightarrow>
          if Count bA \<le> i then Inr (bA, False)
          else if \<not> in_elems a i then Inl (Panic ''index out of range'')
          else
            let k = nat (i div 8);
                e = Elems a ! k;
                e' = (if v then e OR bit_mask i else e AND NOT (bit_mask i))
            in Inr (Some (a\<lparr>Elems := (Elems a)[k := e']\<rparr>), True))"

definition NumTrueBitsBefore :: "CompactBitArray option \<Rightarrow> int \<Rightarrow> int res" where
  "NumTrueBitsBefore bA index =
     foldR (\<lambda>numTrueValues i. bindR (GetIndex bA i) (\<lambda>b. Inr (if b then numTrueValues + 1 else numTrueValues)))
       0 (map int [0 ..< nat index])"

definition Copy :: "CompactBitArray option \<Rightarrow> CompactBitArray option" where
  "Copy bA =
     (case bA of
        None \<Rightarrow> None
      | Some a \<Rightarrow> Some \<lparr>ExtraBitsStored = ExtraBitsStored a, Elems = Elems a\<rparr>)"

section \<open>Text and JSON\<close>

definition bit_char :: "bool \<Rightarrow> char" where
  "bit_char b = (if b then CHR ''x'' else CHR ''_'')"

definition StringIndented_step ::
    "CompactBitArray option \<Rightarrow> string \<Rightarrow> string list \<times> string \<Rightarrow> nat \<Rightarrow> (string list \<times> string) res" where
  "StringIndented_step bA indent st i =
     (case st of (lines, bits) \<Rightarrow>
        bindR (GetIndex bA (int i)) (\<lambda>b.
          let bits1 = bits @ [bit_char b];
              (lines1, bits2) = (if i mod 100 = 99 then (lines @ [bits1], []) else (lines, bits1));
              bits3 = (if i mod 10 = 9 then bits2 @ indent else bits2);
              bits4 = (if i mod 50 = 49 then bits3 @ indent else bits3)
          in Inr (lines1, bits4)))"

definition StringIndented :: "CompactBitArray option \<Rightarrow> string \<Rightarrow> string res" where
  "StringIndented bA indent =
     (case bA of
        None \<Rightarrow> Inr ''nil-BitArray''
      | Some _ \<Rightarrow>
          bindR (foldR (StringIndented_step bA indent) ([], []) [0 ..< nat (Count bA)]) (\<lambda>(lines, bits).
            let lines1 = (if 0 < length bits then lines @ [bits] else lines)
            in Inr (''BA{'' @ show_int (Count bA) @ '':'' @ joinWith indent lines1 @ ''}'')))"

definition BitArray_String :: "CompactBitArray option \<Rightarrow> string res" where
  "BitArray_String bA = StringIndented bA []"

definition MarshalJSON :: "CompactBitArray option \<Rightarrow> string res" where
  "MarshalJSON bA =
     (case bA of
        None \<Rightarrow> Inr ''null''
      | Some _ \<Rightarrow>
          bindR (mapR (\<lambda>i. bindR (GetIndex bA (int i)) (\<lambda>b. Inr (bit_char b))) [0 ..< nat (Count bA)])
            (\<lambda>bits. Inr (CHR 0x22 # bits @ [CHR 0x22])))"

text \<open>The submatch of the regular expression: a quoted string of \<open>_\<close> and \<open>x\<close>.\<close>

definition bitArrayJSON_match :: "string \<Rightarrow> string option" where
  "bitArrayJSON_match b =
     (if 2 \<le> length b \<and> hd b = CHR 0x22 \<and> last b = CHR 0x22 \<and>
         list_all (\<lambda>c. c = CHR ''_'' \<or> c = CHR ''x'') (butlast (tl b))
      then Some (butlast (tl b)) else None)"

text \<open>
  \<open>UnmarshalJSON\<close> returns the new contents of the receiver. The string without bits makes a nil
  array, and copying through the nil pointer panics.
\<close>

definition UnmarshalJSON :: "string \<Rightarrow> CompactBitArray res" where
  "UnmarshalJSON b =
     (if b = ''null'' then Inr \<lparr>ExtraBitsStored = 0, Elems = []\<rparr>
      else
        case bitArrayJSON_match b of
          None \<Rightarrow> Inl (Err (''bitArray in JSON should be a string but got '' @ b))
        | Some bits \<Rightarrow>
            bindR (foldR (\<lambda>bA2 i.
                if bits ! i = CHR ''x'' then bindR (SetIndex bA2 (int i) True) (\<lambda>(bA', _). Inr bA') else Inr bA2)
              (NewCompactBitArray (int (length bits))) [0 ..< length bits]) (\<lambda>bA2.
                case bA2 of
                  None \<Rightarrow> Inl (Panic ''invalid memory address or nil pointer dereference'')
                | Some a \<Rightarrow> Inr a))"

section \<open>The compact binary form\<close>

definition null_bytes :: bytes where
  "null_bytes = [0x6e, 0x75, 0x6c, 0x6c]"

definition CompactMarshal :: "CompactBitArray option \<Rightarrow> bytes" where
  "CompactMarshal bA =
     (if Count bA \<le> 0 then null_bytes
      else PutUvarint (word_of_int (Count bA)) @ (case bA of None \<Rightarrow> [] | Some a \<Rightarrow> Elems a))"

text \<open>The length test computes \<open>int(size+7)/8\<close>: the sum wraps at 64 bits and is then signed.\<close>

definition CompactUnmarshal :: "bytes \<Rightarrow> (CompactBitArray option) res" where
  "CompactUnmarshal bz =
     (if length bz < 2 then Inl (Err ''compact bit array: invalid compact unmarshal size'')
      else if bz = null_bytes then Inr (NewCompactBitArray 0)
      else
        case Uvarint bz of (sz, n) \<Rightarrow>
          if n < 0 then Inl (Panic ''slice bounds out of range'')
          else
            let rest = drop (nat n) bz
            in if int (length rest) \<noteq> sint (sz + 7) sdiv 8
               then Inl (Err ''compact bit array: invalid compact unmarshal size'')
               else Inr (Some \<lparr>ExtraBitsStored = ucast (sz mod 8), Elems = rest\<rparr>))"

section \<open>The array as a list of bits\<close>

definition wf_array :: "CompactBitArray \<Rightarrow> bool" where
  "wf_array a = (unat (ExtraBitsStored a) < 8 \<and> (ExtraBitsStored a \<noteq> 0 \<longrightarrow> Elems a \<noteq> []))"

definition wf_ptr :: "CompactBitArray option \<Rightarrow> bool" where
  "wf_ptr bA = (case bA of None \<Rightarrow> True | Some a \<Rightarrow> wf_array a)"

definition abs_bits :: "CompactBitArray option \<Rightarrow> bool list" where
  "abs_bits bA =
     (case bA of
        None \<Rightarrow> []
      | Some a \<Rightarrow> map (\<lambda>i. bit (Elems a ! (i div 8)) (7 - i mod 8)) [0 ..< nat (Count bA)])"

lemma length_abs_bits: "length (abs_bits bA) = nat (Count bA)"
  by (simp add: abs_bits_def Count_def split: option.split)

lemma Count_wf: "wf_ptr bA \<Longrightarrow> Count bA = int (length (abs_bits bA))"
proof (cases bA)
  case (Some a)
  assume "wf_ptr bA"
  then have "0 \<le> Count bA"
    using Some by (cases "Elems a") (auto simp: Count_def wf_ptr_def wf_array_def)
  then show ?thesis by (simp add: length_abs_bits)
qed (simp add: Count_def abs_bits_def)

lemma byte_in_range:
  assumes "wf_array a" "int i < Count (Some a)"
  shows "i div 8 < length (Elems a)"
proof -
  have "uint (ExtraBitsStored a) < 8"
    using assms(1) uint_nat [of "ExtraBitsStored a"] unfolding wf_array_def by linarith
  then have "int i < int (length (Elems a)) * 8"
    using assms(2) by (auto simp: Count_def split: if_splits)
  then show ?thesis by (intro less_mult_imp_div_less) linarith
qed

lemma nat_int_div_mod: "nat (int i div 8) = i div 8" "nat (7 - int i mod 8) = 7 - i mod 8"
proof -
  show "nat (int i div 8) = i div 8" by linarith
  have "int i mod 8 = int (i mod 8)" by (simp add: zmod_int)
  then show "nat (7 - int i mod 8) = 7 - i mod 8" by linarith
qed

lemma in_elems_iff: "in_elems a (int i) \<longleftrightarrow> i div 8 < length (Elems a)"
  by (simp add: in_elems_def nat_int_div_mod)

lemma bit_mask_nat: "bit_mask (int i) = push_bit (7 - i mod 8) 1"
  unfolding bit_mask_def nat_int_div_mod ..

lemma GetIndex_abs:
  assumes "wf_ptr bA"
  shows "GetIndex bA (int i) = Inr (i < length (abs_bits bA) \<and> abs_bits bA ! i)"
proof (cases bA)
  case (Some a)
  with assms have wf: "wf_array a" by (simp add: wf_ptr_def)
  show ?thesis
  proof (cases "int i < Count bA")
    case True
    then have "i div 8 < length (Elems a)" using byte_in_range wf Some by simp
    moreover have "i < length (abs_bits bA)" using True Count_wf [OF assms] by simp
    ultimately show ?thesis
      using True Some
      by (simp add: GetIndex_def in_elems_iff bit_mask_nat abs_bits_def bit_iff_and_push_bit_not_eq_0 nat_int_div_mod)
  next
    case False
    then show ?thesis using Some Count_wf [OF assms] by (simp add: GetIndex_def)
  qed
qed (simp add: GetIndex_def abs_bits_def)

lemma bit_set_byte:
  "n < 8 \<Longrightarrow> m < 8 \<Longrightarrow> bit ((e::8 word) OR 2 ^ n) m \<longleftrightarrow> bit e m \<or> m = n"
  "n < 8 \<Longrightarrow> m < 8 \<Longrightarrow> bit ((e::8 word) AND NOT (2 ^ n)) m \<longleftrightarrow> bit e m \<and> m \<noteq> n"
  by (auto simp: bit_simps)

lemma SetIndex_abs:
  assumes "wf_ptr bA" "i < length (abs_bits bA)"
  shows "\<exists>bA'. SetIndex bA (int i) v = Inr (bA', True) \<and> wf_ptr bA' \<and> abs_bits bA' = (abs_bits bA)[i := v]"
proof -
  obtain a where a: "bA = Some a" "wf_array a"
    using assms by (cases bA) (auto simp: wf_ptr_def abs_bits_def)
  have less: "int i < Count bA" using assms Count_wf by simp
  then have k: "i div 8 < length (Elems a)" using byte_in_range a by simp
  define e where "e = Elems a ! (i div 8)"
  define e' where "e' = (if v then e OR bit_mask (int i) else e AND NOT (bit_mask (int i)))"
  define a' where "a' = a\<lparr>Elems := (Elems a)[i div 8 := e']\<rparr>"
  have set: "SetIndex bA (int i) v = Inr (Some a', True)"
    using less k by (simp add: SetIndex_def a(1) in_elems_iff nat_int_div_mod a'_def e'_def e_def Let_def)
  have wf: "wf_array a'" using a(2) by (auto simp: wf_array_def a'_def)
  have cnt: "Count (Some a') = Count (Some a)" by (simp add: Count_def a'_def)
  have bit: "bit (Elems a' ! (j div 8)) (7 - j mod 8) = (if j = i then v else bit (Elems a ! (j div 8)) (7 - j mod 8))" for j
  proof (cases "j div 8 = i div 8")
    case True
    have "7 - j mod 8 = 7 - i mod 8 \<longleftrightarrow> j = i"
      using True div_mult_mod_eq [of j 8] div_mult_mod_eq [of i 8]
        mod_less_divisor [of 8 j] mod_less_divisor [of 8 i] by linarith
    then show ?thesis
      using True k by (simp add: a'_def e'_def e_def bit_mask_nat bit_set_byte)
  next
    case False
    then show ?thesis using k by (auto simp: a'_def)
  qed
  have "abs_bits (Some a') = (abs_bits (Some a))[i := v]"
    by (rule nth_equalityI) (auto simp: abs_bits_def cnt bit nth_list_update)
  with set wf a(1) show ?thesis by (auto simp: wf_ptr_def)
qed

lemma SetIndex_outside:
  "wf_ptr bA \<Longrightarrow> length (abs_bits bA) \<le> i \<Longrightarrow> SetIndex bA (int i) v = Inr (bA, False)"
  using Count_wf [of bA] by (auto simp: SetIndex_def split: option.split)

lemma NewCompactBitArray_Suc:
  assumes "0 < n"
  obtains w :: "32 word" where
    "NewCompactBitArray (int n) = Some \<lparr>ExtraBitsStored = w, Elems = replicate ((n + 7) div 8) 0\<rparr>"
    "uint w = int (n mod 8)" "w = 0 \<longleftrightarrow> n mod 8 = 0"
proof
  let ?w = "word_of_int (int n mod 8) :: 32 word"
  have len: "nat ((int n + 7) div 8) = (n + 7) div 8" by linarith
  show "NewCompactBitArray (int n) = Some \<lparr>ExtraBitsStored = ?w, Elems = replicate ((n + 7) div 8) 0\<rparr>"
    using assms unfolding NewCompactBitArray_def len by simp
  show w: "uint ?w = int (n mod 8)"
    unfolding of_nat_mod by (simp add: uint_word_of_int)
  show "?w = 0 \<longleftrightarrow> n mod 8 = 0"
    using w uint_0_iff [of ?w] by linarith
qed

lemma NewCompactBitArray_Count: "Count (NewCompactBitArray (int n)) = int n"
proof (cases "n = 0")
  case False
  then obtain w :: "32 word" where
    w: "NewCompactBitArray (int n) = Some \<lparr>ExtraBitsStored = w, Elems = replicate ((n + 7) div 8) 0\<rparr>"
      "uint w = int (n mod 8)" "w = 0 \<longleftrightarrow> n mod 8 = 0"
    using NewCompactBitArray_Suc by blast
  have "n mod 8 = 0 \<Longrightarrow> (n + 7) div 8 * 8 = n"
    and "n mod 8 \<noteq> 0 \<Longrightarrow> (n + 7) div 8 * 8 + n mod 8 = n + 8" by presburger+
  with w(2,3) show ?thesis
    by (cases "w = 0") (simp_all add: Count_def w(1) left_diff_distrib flip: of_nat_mult of_nat_add)
qed (simp add: Count_def NewCompactBitArray_def)

lemma NewCompactBitArray_abs:
  "wf_ptr (NewCompactBitArray (int n))" "abs_bits (NewCompactBitArray (int n)) = replicate n False"
proof -
  show "wf_ptr (NewCompactBitArray (int n))"
  proof (cases "n = 0")
    case False
    then obtain w :: "32 word" where
      w: "NewCompactBitArray (int n) = Some \<lparr>ExtraBitsStored = w, Elems = replicate ((n + 7) div 8) 0\<rparr>"
        "uint w = int (n mod 8)" using NewCompactBitArray_Suc by blast
    then have "unat w < 8" using uint_nat [of w] mod_less_divisor [of 8 n] by linarith
    moreover have "0 < (n + 7) div 8" using False by linarith
    ultimately show ?thesis using w(1) by (simp add: wf_ptr_def wf_array_def)
  qed (simp add: NewCompactBitArray_def wf_ptr_def)
  show "abs_bits (NewCompactBitArray (int n)) = replicate n False"
  proof (rule nth_equalityI)
    show "length (abs_bits (NewCompactBitArray (int n))) = length (replicate n False)"
      by (simp add: length_abs_bits NewCompactBitArray_Count)
    fix i
    assume "i < length (abs_bits (NewCompactBitArray (int n)))"
    then have i: "i < n" by (simp add: length_abs_bits NewCompactBitArray_Count)
    then obtain w :: "32 word" where
      w: "NewCompactBitArray (int n) = Some \<lparr>ExtraBitsStored = w, Elems = replicate ((n + 7) div 8) 0\<rparr>"
      using NewCompactBitArray_Suc [of n] by (metis gr_zeroI not_less_zero)
    have "i div 8 < (n + 7) div 8" using i by linarith
    with w i show "abs_bits (NewCompactBitArray (int n)) ! i = replicate n False ! i"
      using NewCompactBitArray_Count [of n] by (simp add: abs_bits_def)
  qed
qed

lemma NumTrueBitsBefore_abs:
  assumes "wf_ptr bA"
  shows "NumTrueBitsBefore bA (int n) = Inr (int (length (filter id (take n (abs_bits bA)))))"
proof -
  let ?f = "\<lambda>numTrueValues i. bindR (GetIndex bA i) (\<lambda>b. Inr (if b then numTrueValues + 1 else numTrueValues))"
  have "foldR ?f 0 (map int [0 ..< n]) = Inr (int (length (filter id (take n (abs_bits bA)))))"
  proof (induction n)
    case (Suc n)
    have "take (Suc n) (abs_bits bA) =
        (if n < length (abs_bits bA) then take n (abs_bits bA) @ [abs_bits bA ! n] else take n (abs_bits bA))"
      by (simp add: take_Suc_conv_app_nth)
    with Suc show ?case by (simp add: foldR_append GetIndex_abs [OF assms])
  qed simp
  then show ?thesis by (simp add: NumTrueBitsBefore_def)
qed

section \<open>Varints\<close>

lemma byte_const_bits: "bit (0x80::8 word) n \<longleftrightarrow> n = 7" "bit (0x7f::8 word) n \<longleftrightarrow> n < 7"
proof -
  have "bit (2 ^ 7 :: 8 word) n \<longleftrightarrow> n = 7"
    by (simp only: bit_exp_iff possible_bit_word) auto
  then show "bit (0x80::8 word) n \<longleftrightarrow> n = 7" by simp
  have "bit (mask 7 :: 8 word) n \<longleftrightarrow> n < 7"
    by (simp only: bit_mask_iff possible_bit_word) auto
  then show "bit (0x7f::8 word) n \<longleftrightarrow> n < 7" by (simp add: mask_eq_exp_minus_1)
qed

lemma byte_msb: "(b::8 word) < 0x80 \<longleftrightarrow> \<not> bit b 7"
proof -
  have lt: "unat b < 2 ^ 8" using unsigned_less [of b] by simp
  have "bit b 7 \<longleftrightarrow> bit (unat b) 7" by (simp add: bit_unsigned_iff)
  also have "\<dots> \<longleftrightarrow> odd (unat b div 128)" by (simp add: bit_iff_odd)
  also have "\<dots> \<longleftrightarrow> 128 \<le> unat b"
  proof -
    have "unat b div 128 = (if 128 \<le> unat b then 1 else 0)" using lt by (auto intro: div_nat_eqI)
    then show ?thesis by simp
  qed
  finally show ?thesis by (auto simp: word_less_nat_alt)
qed

lemma varint_byte_join:
  "push_bit s (ucast ((ucast (x::64 word) OR 0x80 :: 8 word) AND 0x7f) :: 64 word) OR push_bit (s + 7) (drop_bit 7 x) =
   push_bit s x"
proof -
  define y :: "8 word" where "y = (ucast x OR 0x80) AND 0x7f"
  have y: "bit y n \<longleftrightarrow> n < 7 \<and> bit x n" for n
    unfolding y_def bit_and_iff bit_or_iff byte_const_bits by (auto simp: bit_simps)
  have "push_bit s (ucast y) OR push_bit (s + 7) (drop_bit 7 x) = push_bit s x"
  proof (rule bit_eqI)
    fix n
    have "bit x (7 + (n - (s + 7))) \<longleftrightarrow> bit x (n - s)" if "s + 7 \<le> n" using that by simp
    then show "bit (push_bit s (ucast y) OR push_bit (s + 7) (drop_bit 7 x)) n \<longleftrightarrow> bit (push_bit s x) n"
      by (cases "s + 7 \<le> n") (auto simp: bit_simps y not_le)
  qed
  then show ?thesis by (simp only: y_def)
qed

lemma varint_drop:
  assumes "0x80 \<le> (x::64 word)" "unat x < 2 ^ (64 - 7 * i)"
  shows "unat (drop_bit 7 x) < 2 ^ (64 - 7 * Suc i)" "Suc i \<le> 9"
proof -
  have "2 ^ 7 \<le> unat x" using assms(1) by (simp add: word_le_nat_alt)
  with assms(2) have "(2::nat) ^ 7 < 2 ^ (64 - 7 * i)" by linarith
  then have "7 < 64 - 7 * i" by (simp only: power_strict_increasing_iff)
  then have i: "64 - 7 * i = (64 - 7 * Suc i) + 7" by simp
  have "unat (drop_bit 7 x) = unat x div 2 ^ 7"
    by (simp add: drop_bit_eq_div unat_div)
  also have "\<dots> < 2 ^ (64 - 7 * Suc i)"
    using assms(2) unfolding i by (simp add: power_add div_less_iff_less_mult del: mult_Suc_right)
  finally show "unat (drop_bit 7 x) < 2 ^ (64 - 7 * Suc i)" .
  show "Suc i \<le> 9" using \<open>7 < 64 - 7 * i\<close> by simp
qed

lemma varint_last:
  assumes "\<not> 0x80 \<le> (x::64 word)"
  shows "(ucast x :: 8 word) < 0x80" "ucast (ucast x :: 8 word) = x" "unat (ucast x :: 8 word) = unat x"
proof -
  have x: "unat x < 128" using assms by (simp add: word_le_nat_alt)
  show uc: "unat (ucast x :: 8 word) = unat x"
    using x by (simp add: unsigned_ucast_eq take_bit_nat_eq_self)
  then show "(ucast x :: 8 word) < 0x80" using x by (simp add: word_less_nat_alt)
  show "ucast (ucast x :: 8 word) = x"
    by (rule word_unat_eq_iff [THEN iffD2])
      (use uc x in \<open>simp add: unsigned_ucast_eq unsigned_take_bit_eq take_bit_nat_eq_self\<close>)
qed

lemma Uvarint_loop_PutUvarint:
  "unat x < 2 ^ (64 - 7 * i) \<Longrightarrow> i \<le> 9 \<Longrightarrow>
   Uvarint_loop i (7 * i) acc (PutUvarint x @ rest) = (acc OR push_bit (7 * i) x, int (i + length (PutUvarint x)))"
proof (induction x arbitrary: i acc rule: PutUvarint.induct)
  case (1 x)
  show ?case
  proof (cases "0x80 \<le> x")
    case True
    note less = varint_drop [OF True 1(2)]
    have "\<not> (ucast x OR 0x80 :: 8 word) < 0x80"
      by (simp add: byte_msb bit_simps byte_const_bits)
    then show ?thesis
      using True less(2) 1(1) [OF True less, of "acc OR push_bit (7 * i) (ucast ((ucast x OR 0x80 :: 8 word) AND 0x7f))"]
        varint_byte_join [of "7 * i" x]
      by (simp add: PutUvarint.simps [of x] add.commute [of 7] or.assoc)
  next
    case False
    note small = varint_last [OF False]
    have "\<not> 1 < (ucast x :: 8 word)" if "i = 9"
      using 1(2) that small(3) by (simp add: word_less_nat_alt)
    then show ?thesis
      using False 1(3) small by (simp add: PutUvarint.simps [of x])
  qed
qed

lemma Uvarint_PutUvarint: "Uvarint (PutUvarint x @ rest) = (x, int (length (PutUvarint x)))"
  using Uvarint_loop_PutUvarint [of x 0 0 rest] unsigned_less [of x] by (simp add: Uvarint_def)

section \<open>Properties of the array\<close>

text \<open>
  \<^bold>\<open>C35.\<close> The packed array behaves as a list of bits. A new array of \<open>n\<close> bits is all false;
  reading returns the bit (and false beyond the end); writing updates that bit and only that
  bit, and keeps the array well formed; beyond the end it changes nothing and says so;
  \<open>NumTrueBitsBefore\<close> counts the true bits of a prefix.
\<close>

theorem CompactBitArray_is_bit_list:
  "wf_ptr (NewCompactBitArray (int n)) \<and> abs_bits (NewCompactBitArray (int n)) = replicate n False
   \<and> (wf_ptr bA \<longrightarrow>
        Count bA = int (length (abs_bits bA))
      \<and> GetIndex bA (int i) = Inr (i < length (abs_bits bA) \<and> abs_bits bA ! i)
      \<and> NumTrueBitsBefore bA (int n) = Inr (int (length (filter id (take n (abs_bits bA)))))
      \<and> (\<exists>bA'. SetIndex bA (int i) v = Inr (bA', i < length (abs_bits bA)) \<and> wf_ptr bA'
              \<and> abs_bits bA' = (abs_bits bA)[i := v]))"
proof -
  have "\<exists>bA'. SetIndex bA (int i) v = Inr (bA', i < length (abs_bits bA)) \<and> wf_ptr bA' \<and>
      abs_bits bA' = (abs_bits bA)[i := v]" if "wf_ptr bA"
    using that SetIndex_abs [of bA i v] SetIndex_outside [of bA i v]
    by (cases "i < length (abs_bits bA)") (auto simp: not_less list_update_beyond)
  then show ?thesis
    using NewCompactBitArray_abs Count_wf GetIndex_abs NumTrueBitsBefore_abs by blast
qed

theorem CompactBitArray_is_bit_list_witness:
  "GetIndex (Some \<lparr>ExtraBitsStored = 2, Elems = [0x40]\<rparr>) (int 1) =
     Inr (1 < length (abs_bits (Some \<lparr>ExtraBitsStored = 2, Elems = [0x40]\<rparr>))
          \<and> abs_bits (Some \<lparr>ExtraBitsStored = 2, Elems = [0x40]\<rparr>) ! 1)"
proof -
  have "wf_ptr (Some \<lparr>ExtraBitsStored = 2, Elems = [0x40]\<rparr>)"
    by (simp add: wf_ptr_def wf_array_def)
  with CompactBitArray_is_bit_list [of _ "Some \<lparr>ExtraBitsStored = 2, Elems = [0x40]\<rparr>" 1] show ?thesis by blast
qed

lemma MarshalJSON_abs:
  "wf_ptr (Some a) \<Longrightarrow> MarshalJSON (Some a) = Inr (CHR 0x22 # map bit_char (abs_bits (Some a)) @ [CHR 0x22])"
proof -
  assume wf: "wf_ptr (Some a)"
  let ?bs = "abs_bits (Some a)"
  have "mapR (\<lambda>i. bindR (GetIndex (Some a) (int i)) (\<lambda>b. Inr (bit_char b))) [0 ..< length ?bs] =
      Inr (map (\<lambda>i. bit_char (?bs ! i)) [0 ..< length ?bs])"
    by (rule mapR_all_ok) (simp add: GetIndex_abs [OF wf])
  also have "map (\<lambda>i. bit_char (?bs ! i)) [0 ..< length ?bs] = map bit_char ?bs"
    by (rule nth_equalityI) simp_all
  finally show ?thesis by (simp add: MarshalJSON_def length_abs_bits)
qed

lemma set_bits_loop:
  "n \<le> length bits \<Longrightarrow>
   \<exists>bA. foldR (\<lambda>bA2 i.
          if bits ! i = CHR ''x'' then bindR (SetIndex bA2 (int i) True) (\<lambda>(bA', _). Inr bA') else Inr bA2)
        (NewCompactBitArray (int (length bits))) [0 ..< n] = Inr bA
      \<and> wf_ptr bA \<and> abs_bits bA = map (\<lambda>c. c = CHR ''x'') (take n bits) @ replicate (length bits - n) False"
proof (induction n)
  case 0
  then show ?case using NewCompactBitArray_abs by auto
next
  case (Suc n)
  then obtain bA where bA: "foldR (\<lambda>bA2 i.
          if bits ! i = CHR ''x'' then bindR (SetIndex bA2 (int i) True) (\<lambda>(bA', _). Inr bA') else Inr bA2)
        (NewCompactBitArray (int (length bits))) [0 ..< n] = Inr bA"
      "wf_ptr bA" "abs_bits bA = map (\<lambda>c. c = CHR ''x'') (take n bits) @ replicate (length bits - n) False"
    by auto
  have n: "n < length bits" using Suc.prems by simp
  have upd: "(map (\<lambda>c. c = CHR ''x'') (take n bits) @ replicate (length bits - n) False)[n := v] =
      map (\<lambda>c. c = CHR ''x'') (take n bits) @ v # replicate (length bits - Suc n) False" for v
    using n by (simp add: list_update_append Suc_diff_Suc [symmetric])
  have snoc: "map (\<lambda>c. c = CHR ''x'') (take (Suc n) bits) =
      map (\<lambda>c. c = CHR ''x'') (take n bits) @ [bits ! n = CHR ''x'']"
    using n by (simp add: take_Suc_conv_app_nth)
  show ?case
  proof (cases "bits ! n = CHR ''x''")
    case True
    obtain bA' where "SetIndex bA (int n) True = Inr (bA', True)" "wf_ptr bA'" "abs_bits bA' = (abs_bits bA)[n := True]"
      using SetIndex_abs [OF bA(2), of n True] bA(3) n by auto
    with True bA upd [of True] snoc show ?thesis by (auto simp: foldR_append)
  next
    case False
    have "replicate (length bits - n) False = False # replicate (length bits - Suc n) False"
      using n by (simp add: Suc_diff_Suc [symmetric])
    with False bA snoc show ?thesis by (auto simp: foldR_append)
  qed
qed

text \<open>
  The JSON form. For a well-formed array with at least one bit, reading back what
  \<open>MarshalJSON\<close> writes gives a well-formed array with the same bits. The text of an array
  without bits, the empty string, makes the reader dereference a nil pointer.
\<close>

theorem BitArray_JSON_roundtrip:
  "(wf_array a \<and> 0 < Count (Some a) \<longrightarrow>
     (\<exists>j a'. MarshalJSON (Some a) = Inr j \<and> UnmarshalJSON j = Inr a' \<and> wf_array a' \<and>
             abs_bits (Some a') = abs_bits (Some a)))
   \<and> MarshalJSON (Some \<lparr>ExtraBitsStored = 0, Elems = []\<rparr>) = Inr [CHR 0x22, CHR 0x22]
   \<and> UnmarshalJSON [CHR 0x22, CHR 0x22] = Inl (Panic ''invalid memory address or nil pointer dereference'')"
proof (intro conjI impI)
  assume a: "wf_array a \<and> 0 < Count (Some a)"
  then have wf: "wf_ptr (Some a)" by (simp add: wf_ptr_def)
  let ?bs = "abs_bits (Some a)"
  let ?t = "map bit_char ?bs"
  have x: "map (\<lambda>c. c = CHR ''x'') ?t = ?bs"
    by (rule nth_equalityI) (simp_all add: bit_char_def)
  obtain bA where bA: "foldR (\<lambda>bA2 i.
          if ?t ! i = CHR ''x'' then bindR (SetIndex bA2 (int i) True) (\<lambda>(bA', _). Inr bA') else Inr bA2)
        (NewCompactBitArray (int (length ?t))) [0 ..< length ?t] = Inr bA"
      "wf_ptr bA" "abs_bits bA = ?bs"
    using set_bits_loop [of "length ?t" ?t] x by auto
  have "?bs \<noteq> []" using a Count_wf [OF wf] by auto
  then obtain a' where a': "bA = Some a'" using bA(3) by (cases bA) (auto simp: abs_bits_def)
  have "bitArrayJSON_match (CHR 0x22 # ?t @ [CHR 0x22]) = Some ?t"
    by (auto simp: bitArrayJSON_match_def list_all_iff bit_char_def)
  with bA a' have "UnmarshalJSON (CHR 0x22 # ?t @ [CHR 0x22]) = Inr a'"
    by (simp add: UnmarshalJSON_def)
  with bA a' MarshalJSON_abs [OF wf] show "\<exists>j a'. MarshalJSON (Some a) = Inr j \<and> UnmarshalJSON j = Inr a' \<and>
      wf_array a' \<and> abs_bits (Some a') = abs_bits (Some a)"
    by (auto simp: wf_ptr_def)
qed (simp_all add: MarshalJSON_def Count_def UnmarshalJSON_def bitArrayJSON_match_def NewCompactBitArray_def)

theorem BitArray_JSON_roundtrip_witness:
  "\<exists>j a'. MarshalJSON (Some \<lparr>ExtraBitsStored = 3, Elems = [0xa0]\<rparr>) = Inr j \<and> UnmarshalJSON j = Inr a'"
proof -
  have "wf_array \<lparr>ExtraBitsStored = 3, Elems = [0xa0]\<rparr> \<and> 0 < Count (Some \<lparr>ExtraBitsStored = 3, Elems = [0xa0]\<rparr>)"
    by (simp add: wf_array_def Count_def)
  with BitArray_JSON_roundtrip [of "\<lparr>ExtraBitsStored = 3, Elems = [0xa0]\<rparr>"] show ?thesis by blast
qed

lemma Count_length:
  assumes "wf_array a" "Count (Some a) = int n" "0 < n"
  shows "length (Elems a) = (n + 7) div 8" "unat (ExtraBitsStored a) = n mod 8"
proof -
  define e where "e = unat (ExtraBitsStored a)"
  have e: "uint (ExtraBitsStored a) = int e" "e < 8" "ExtraBitsStored a = 0 \<longleftrightarrow> e = 0"
    using assms(1) uint_nat [of "ExtraBitsStored a"] unat_eq_zero [of "ExtraBitsStored a"]
    unfolding wf_array_def e_def by auto
  have "Elems a \<noteq> []" using assms by (auto simp: Count_def wf_array_def split: if_splits)
  then obtain l where l: "length (Elems a) = Suc l" by (cases "Elems a") auto
  have "n = (if e = 0 then Suc l * 8 else l * 8 + e)"
    using assms(2) e l by (auto simp: Count_def split: if_splits)
  with e(2) l show "length (Elems a) = (n + 7) div 8" "unat (ExtraBitsStored a) = n mod 8"
    unfolding e_def [symmetric] by (cases "e = 0"; simp; presburger)+
qed

lemma sint_plus_7:
  assumes "unat (w::64 word) \<le> 2 ^ 60"
  shows "sint (w + 7) = int (unat w + 7)"
proof -
  have "unat (w + 7) = unat w + 7"
    using assms by (subst unat_add_lem [THEN iffD1]) simp_all
  then have "uint (w + 7) = int (unat w + 7)" using uint_nat [of "w + 7"] by simp
  moreover have "signed_take_bit 63 (int (k + 7)) = int (k + 7)" if "k \<le> 2 ^ 60" for k
    using that by (intro signed_take_bit_int_eq_self) simp_all
  note this [OF assms]
  ultimately show ?thesis unfolding sint_uint by simp
qed

text \<open>
  The compact binary form. \<open>CompactUnmarshal\<close> inverts \<open>CompactMarshal\<close> on every
  well-formed array with at least one and at most \<open>2^60\<close> bits, byte for byte.
\<close>

theorem CompactMarshal_roundtrip:
  assumes "wf_array a" "0 < Count (Some a)" "Count (Some a) \<le> 2 ^ 60"
  shows "CompactUnmarshal (CompactMarshal (Some a)) = Inr (Some a)"
proof -
  define n where "n = nat (Count (Some a))"
  define w :: "64 word" where "w = of_nat n"
  have cnt: "Count (Some a) = int n" "0 < n" "n \<le> 2 ^ 60" using assms(2,3) by (simp_all add: n_def)
  have w: "unat w = n"
    using cnt(3) by (simp add: w_def unat_of_nat)
  have m: "CompactMarshal (Some a) = PutUvarint w @ Elems a"
    using cnt by (simp add: CompactMarshal_def w_def)
  note u = Uvarint_PutUvarint [of w "Elems a"]
  note len = Count_length [OF assms(1) cnt(1,2)]
  have nn: "PutUvarint w @ Elems a \<noteq> null_bytes"
  proof
    assume eq: "PutUvarint w @ Elems a = null_bytes"
    have "Uvarint null_bytes = (0x6e, 1)"
      by (simp add: Uvarint_def null_bytes_def)
    with u eq have p: "(w, int (length (PutUvarint w))) = (0x6e, 1)" by metis
    have "w = 0x6e" using p by (rule Pair_inject)
    have "int (length (PutUvarint w)) = 1" using p by (rule Pair_inject)
    with arg_cong [OF eq, of length] have "length (Elems a) = 3" by (simp add: null_bytes_def)
    with len(1) w \<open>w = 0x6e\<close> show False by simp
  qed
  have "length (PutUvarint w) \<noteq> 0" by (simp add: PutUvarint.simps [of w])
  moreover have "0 < length (Elems a)" using len cnt(2) by simp
  ultimately have two: "\<not> length (PutUvarint w @ Elems a) < 2" unfolding length_append by linarith
  have sum: "sint (w + 7) sdiv 8 = int (length (Elems a))"
    using sint_plus_7 [of w] w cnt(3) len by (simp add: sdiv_nonneg zdiv_int)
  have extra: "ucast (w mod 8) = ExtraBitsStored a"
  proof (rule word_unat_eq_iff [THEN iffD2])
    have "unat (w mod 8) = n mod 8" using w by (simp add: unat_mod)
    then show "unat (ucast (w mod 8) :: 32 word) = unat (ExtraBitsStored a)"
      using len by (simp add: unsigned_ucast_eq take_bit_nat_eq_self)
  qed
  show ?thesis
    using two nn u sum extra by (simp add: m CompactUnmarshal_def)
qed

theorem CompactMarshal_roundtrip_witness:
  "CompactUnmarshal (CompactMarshal (Some \<lparr>ExtraBitsStored = 3, Elems = [0xa0]\<rparr>)) =
   Inr (Some \<lparr>ExtraBitsStored = 3, Elems = [0xa0]\<rparr>)"
  using CompactMarshal_roundtrip [of "\<lparr>ExtraBitsStored = 3, Elems = [0xa0]\<rparr>"]
  by (simp add: wf_array_def Count_def)

end
