(* ===== verification/ProtoWire.thy ===== *)
theory ProtoWire
  imports BitArray
begin

text \<open>
  The protobuf wire format as the generated codecs implement it (\<open>crypto/types/multisig.pb.go\<close>,
  \<open>types/tx/tx.pb.go\<close>): varints, length-delimited fields, skipping of unknown fields, and the
  messages \<open>MultiSignature\<close>, \<open>CompactBitArray\<close>, \<open>TxRaw\<close> and \<open>SignDoc\<close>. The generated files
  repeat the same loops for every message; they are modelled once and each message gives its
  cases. Positions in the input are natural numbers; where the code tests a sum for being
  negative, the model tests that it left the 63 bits of an \<open>int\<close>.
\<close>

section \<open>Writing\<close>

definition sov :: "64 word \<Rightarrow> nat" where
  "sov x = (bitlen_nat (unat (x OR 1)) + 6) div 7"

function encodeVarint :: "64 word \<Rightarrow> bytes" where
  "encodeVarint v =
     (if 0x80 \<le> v then ucast (v AND 0x7f OR 0x80) # encodeVarint (drop_bit 7 v) else [ucast v])"
  by pat_completeness auto
termination
proof (relation "measure unat")
  fix x :: "64 word"
  assume "0x80 \<le> x"
  then have "unat x div 128 < unat x" by (simp add: word_le_nat_alt)
  then show "(drop_bit 7 x, x) \<in> measure unat"
    by (simp add: drop_bit_eq_div unat_div)
qed simp

declare encodeVarint.simps [simp del]

text \<open>
  A length-delimited field written in front of what the buffer already holds. The buffer is filled
  from its end, so the fields are written in the reverse of their order.
\<close>

definition put_bytes :: "8 word \<Rightarrow> bytes \<Rightarrow> bytes \<Rightarrow> bytes" where
  "put_bytes tag b buf = tag # encodeVarint (of_nat (length b)) @ b @ buf"

definition put_bytes_opt :: "8 word \<Rightarrow> bytes \<Rightarrow> bytes \<Rightarrow> bytes" where
  "put_bytes_opt tag b buf = (if 0 < length b then put_bytes tag b buf else buf)"

definition put_uint_opt :: "8 word \<Rightarrow> 64 word \<Rightarrow> bytes \<Rightarrow> bytes" where
  "put_uint_opt tag v buf = (if v \<noteq> 0 then tag # encodeVarint v @ buf else buf)"

definition put_repeated :: "8 word \<Rightarrow> bytes list \<Rightarrow> bytes \<Rightarrow> bytes" where
  "put_repeated tag bs buf = foldr (put_bytes tag) bs buf"

section \<open>Reading\<close>

definition ErrIntOverflow :: failure where
  "ErrIntOverflow = Err ''proto: integer overflow''"

definition ErrUnexpectedEOF :: failure where
  "ErrUnexpectedEOF = Err ''unexpected EOF''"

definition ErrInvalidLength :: failure where
  "ErrInvalidLength = Err ''proto: negative length found during unmarshaling''"

function readVarint :: "bytes \<Rightarrow> nat \<Rightarrow> nat \<Rightarrow> 64 word \<Rightarrow> (64 word \<times> nat) res" where
  "readVarint dAtA iNdEx shift acc =
     (if 64 \<le> shift then Inl ErrIntOverflow
      else if length dAtA \<le> iNdEx then Inl ErrUnexpectedEOF
      else
        let b = dAtA ! iNdEx;
            acc' = acc OR push_bit shift (ucast (b AND 0x7f))
        in if b < 0x80 then Inr (acc', iNdEx + 1)
           else readVarint dAtA (iNdEx + 1) (shift + 7) acc')"
  by pat_completeness auto
termination
  by (relation "measure (\<lambda>(dAtA, iNdEx, shift, acc). 64 - shift)") auto

declare readVarint.simps [simp del]

text \<open>The slice of a length-delimited field and the position behind it.\<close>

definition readBytes :: "bytes \<Rightarrow> nat \<Rightarrow> (bytes \<times> nat) res" where
  "readBytes dAtA iNdEx =
     bindR (readVarint dAtA iNdEx 0 0) (\<lambda>(byteLen, i).
       if sint byteLen < 0 then Inl ErrInvalidLength
       else
         let postIndex = i + nat (sint byteLen)
         in if 2 ^ 63 \<le> postIndex then Inl ErrInvalidLength
            else if length dAtA < postIndex then Inl ErrUnexpectedEOF
            else Inr (take (postIndex - i) (drop i dAtA), postIndex))"

lemma readVarint_progress: "readVarint dAtA i s acc = Inr (v, j) \<Longrightarrow> i < j \<and> j \<le> length dAtA"
proof (induction dAtA i s acc rule: readVarint.induct)
  case (1 dAtA i s acc)
  from "1.prems" show ?case
    by (subst (asm) readVarint.simps) (force simp: Let_def split: if_splits dest: "1.IH")
qed

text \<open>\<open>skipMultisig\<close>, \<open>skipTx\<close>: the length of the field at the start of the input, nested groups included.\<close>

definition skip_value :: "bytes \<Rightarrow> 64 word \<Rightarrow> nat \<Rightarrow> nat \<Rightarrow> (nat \<times> nat) res" where
  "skip_value dAtA wireType i depth =
     (if wireType = 0 then bindR (readVarint dAtA i 0 0) (\<lambda>(_, j). Inr (j, depth))
      else if wireType = 1 then Inr (i + 8, depth)
      else if wireType = 2 then
        bindR (readVarint dAtA i 0 0) (\<lambda>(len, j).
          if sint len < 0 then Inl ErrInvalidLength else Inr (j + nat (sint len), depth))
      else if wireType = 3 then Inr (i, depth + 1)
      else if wireType = 4 then
        (if depth = 0 then Inl (Err ''proto: unexpected end of group'') else Inr (i, depth - 1))
      else if wireType = 5 then Inr (i + 4, depth)
      else Inl (Err ''proto: illegal wireType''))"

lemma skip_value_progress: "skip_value dAtA w i d = Inr (j, d') \<Longrightarrow> i \<le> j"
  by (auto simp: skip_value_def split: if_splits dest!: readVarint_progress)

function skip_loop :: "bytes \<Rightarrow> nat \<Rightarrow> nat \<Rightarrow> nat res" where
  "skip_loop dAtA iNdEx depth =
     (if iNdEx < length dAtA then
        bindR (readVarint dAtA iNdEx 0 0) (\<lambda>(wire, i).
        bindR (skip_value dAtA (wire AND 7) i depth) (\<lambda>(j, depth').
          if 2 ^ 63 \<le> j then Inl ErrInvalidLength
          else if depth' = 0 then Inr j
          else skip_loop dAtA j depth'))
      else Inl ErrUnexpectedEOF)"
  by pat_completeness auto
termination
proof (relation "measure (\<lambda>(dAtA, iNdEx, depth). length dAtA - iNdEx)")
  fix dAtA :: bytes and iNdEx depth :: nat and x wire i and xa :: "nat \<times> nat" and j depth'
  assume "iNdEx < length dAtA" "readVarint dAtA iNdEx 0 0 = Inr x" "(wire, i) = x"
    "skip_value dAtA (wire AND 7) i depth = Inr xa" "(j, depth') = xa"
  then have "iNdEx < j"
    using readVarint_progress [of dAtA iNdEx 0 0 wire i] skip_value_progress [of dAtA "wire AND 7" i depth j depth']
    by auto
  then show "((dAtA, j, depth'), dAtA, iNdEx, depth) \<in> measure (\<lambda>(dAtA, iNdEx, depth). length dAtA - iNdEx)"
    using \<open>iNdEx < length dAtA\<close> by simp
qed simp

declare skip_loop.simps [simp del]

definition skip_field :: "bytes \<Rightarrow> nat res" where
  "skip_field dAtA = skip_loop dAtA 0 0"

text \<open>
  The loop of a generated \<open>Unmarshal\<close>. A message gives its \<open>field\<close> cases (the new message and the
  position behind the field, or \<open>None\<close> for the default case) and what it does with the bytes of an
  unknown field. Every round reads at least one byte, so \<open>length dAtA + 1\<close> rounds are enough.
\<close>

fun decode_loop ::
    "nat \<Rightarrow> string \<Rightarrow> ('m \<Rightarrow> int \<Rightarrow> 64 word \<Rightarrow> bytes \<Rightarrow> nat \<Rightarrow> ('m \<times> nat) res option) \<Rightarrow> ('m \<Rightarrow> bytes \<Rightarrow> 'm)
     \<Rightarrow> bytes \<Rightarrow> nat \<Rightarrow> 'm \<Rightarrow> 'm res" where
  "decode_loop 0 name field unknown dAtA iNdEx m = Inl (Err ''out of fuel'')"
| "decode_loop (Suc fuel) name field unknown dAtA iNdEx m =
     (if iNdEx < length dAtA then
        bindR (readVarint dAtA iNdEx 0 0) (\<lambda>(wire, i).
          let fieldNum = sint (ucast (drop_bit 3 wire) :: 32 word);
              wireType = wire AND 7
          in
          if wireType = 4 then Inl (Err (''proto: '' @ name @ '': wiretype end group for non-group''))
          else if fieldNum \<le> 0 then Inl (Err (''proto: '' @ name @ '': illegal tag''))
          else
            case field m fieldNum wireType dAtA i of
              Some r \<Rightarrow> bindR r (\<lambda>(m', j). decode_loop fuel name field unknown dAtA j m')
            | None \<Rightarrow>
                bindR (skip_field (drop iNdEx dAtA)) (\<lambda>skippy.
                  if 2 ^ 63 \<le> iNdEx + skippy then Inl ErrInvalidLength
                  else if length dAtA < iNdEx + skippy then Inl ErrUnexpectedEOF
                  else decode_loop fuel name field unknown dAtA (iNdEx + skippy)
                         (unknown m (take skippy (drop iNdEx dAtA)))))
      else Inr m)"

definition decode :: "string \<Rightarrow> ('m \<Rightarrow> int \<Rightarrow> 64 word \<Rightarrow> bytes \<Rightarrow> nat \<Rightarrow> ('m \<times> nat) res option)
    \<Rightarrow> ('m \<Rightarrow> bytes \<Rightarrow> 'm) \<Rightarrow> bytes \<Rightarrow> 'm \<Rightarrow> 'm res" where
  "decode name field unknown dAtA m = decode_loop (length dAtA + 1) name field unknown dAtA 0 m"

definition wrong_wireType :: "string \<Rightarrow> failure" where
  "wrong_wireType f = Err (''proto: wrong wireType for field '' @ f)"

text \<open>The case of a bytes field and of an unsigned field.\<close>

definition bytes_case :: "string \<Rightarrow> 64 word \<Rightarrow> bytes \<Rightarrow> nat \<Rightarrow> (bytes \<Rightarrow> 'm) \<Rightarrow> ('m \<times> nat) res option" where
  "bytes_case f wireType dAtA i upd =
     Some (if wireType \<noteq> 2 then Inl (wrong_wireType f)
           else bindR (readBytes dAtA i) (\<lambda>(b, j). Inr (upd b, j)))"

definition uint_case :: "string \<Rightarrow> 64 word \<Rightarrow> bytes \<Rightarrow> nat \<Rightarrow> (64 word \<Rightarrow> 'm) \<Rightarrow> ('m \<times> nat) res option" where
  "uint_case f wireType dAtA i upd =
     Some (if wireType \<noteq> 0 then Inl (wrong_wireType f)
           else bindR (readVarint dAtA i 0 0) (\<lambda>(v, j). Inr (upd v, j)))"

section \<open>The messages\<close>

record MultiSignature =
  MSignatures :: "bytes list"
  XXX_unrecognized :: bytes

definition MultiSignature_Marshal :: "MultiSignature \<Rightarrow> bytes" where
  "MultiSignature_Marshal m = put_repeated 0x0a (MSignatures m) (XXX_unrecognized m)"

definition MultiSignature_Size :: "MultiSignature \<Rightarrow> nat" where
  "MultiSignature_Size m =
     sum_list (map (\<lambda>b. 1 + length b + sov (of_nat (length b))) (MSignatures m)) + length (XXX_unrecognized m)"

definition MultiSignature_field ::
    "MultiSignature \<Rightarrow> int \<Rightarrow> 64 word \<Rightarrow> bytes \<Rightarrow> nat \<Rightarrow> (MultiSignature \<times> nat) res option" where
  "MultiSignature_field m fieldNum wireType dAtA i =
     (if fieldNum = 1 then
        bytes_case ''Signatures'' wireType dAtA i (\<lambda>b. m\<lparr>MSignatures := MSignatures m @ [b]\<rparr>)
      else None)"

definition MultiSignature_Unmarshal :: "bytes \<Rightarrow> MultiSignature res" where
  "MultiSignature_Unmarshal dAtA =
     decode ''MultiSignature'' MultiSignature_field
       (\<lambda>m bz. m\<lparr>XXX_unrecognized := XXX_unrecognized m @ bz\<rparr>) dAtA
       \<lparr>MSignatures = [], XXX_unrecognized = []\<rparr>"

definition CompactBitArray_Marshal :: "CompactBitArray \<Rightarrow> bytes" where
  "CompactBitArray_Marshal m =
     put_uint_opt 0x08 (ucast (ExtraBitsStored m)) (put_bytes_opt 0x12 (Elems m) [])"

definition CompactBitArray_field ::
    "CompactBitArray \<Rightarrow> int \<Rightarrow> 64 word \<Rightarrow> bytes \<Rightarrow> nat \<Rightarrow> (CompactBitArray \<times> nat) res option" where
  "CompactBitArray_field m fieldNum wireType dAtA i =
     (if fieldNum = 1 then
        uint_case ''ExtraBitsStored'' wireType dAtA i (\<lambda>v. m\<lparr>ExtraBitsStored := ucast v\<rparr>)
      else if fieldNum = 2 then
        bytes_case ''Elems'' wireType dAtA i (\<lambda>b. m\<lparr>Elems := b\<rparr>)
      else None)"

definition CompactBitArray_Unmarshal :: "bytes \<Rightarrow> CompactBitArray res" where
  "CompactBitArray_Unmarshal dAtA =
     decode ''CompactBitArray'' CompactBitArray_field (\<lambda>m bz. m) dAtA \<lparr>ExtraBitsStored = 0, Elems = []\<rparr>"

record TxRaw =
  BodyBytes :: bytes
  AuthInfoBytes :: bytes
  RawSignatures :: "bytes list"

definition TxRaw_Marshal :: "TxRaw \<Rightarrow> bytes" where
  "TxRaw_Marshal m =
     put_bytes_opt 0x0a (BodyBytes m) (put_bytes_opt 0x12 (AuthInfoBytes m) (put_repeated 0x1a (RawSignatures m) []))"

definition TxRaw_field :: "TxRaw \<Rightarrow> int \<Rightarrow> 64 word \<Rightarrow> bytes \<Rightarrow> nat \<Rightarrow> (TxRaw \<times> nat) res option" where
  "TxRaw_field m fieldNum wireType dAtA i =
     (if fieldNum = 1 then bytes_case ''BodyBytes'' wireType dAtA i (\<lambda>b. m\<lparr>BodyBytes := b\<rparr>)
      else if fieldNum = 2 then bytes_case ''AuthInfoBytes'' wireType dAtA i (\<lambda>b. m\<lparr>AuthInfoBytes := b\<rparr>)
      else if fieldNum = 3 then
        bytes_case ''Signatures'' wireType dAtA i (\<lambda>b. m\<lparr>RawSignatures := RawSignatures m @ [b]\<rparr>)
      else None)"

definition TxRaw_Unmarshal :: "bytes \<Rightarrow> TxRaw res" where
  "TxRaw_Unmarshal dAtA =
     decode ''TxRaw'' TxRaw_field (\<lambda>m bz. m) dAtA \<lparr>BodyBytes = [], AuthInfoBytes = [], RawSignatures = []\<rparr>"

record SignDoc =
  DocBody :: bytes
  DocAuthInfo :: bytes
  DocChainId :: bytes
  DocAccountNumber :: "64 word"

definition SignDoc_Marshal :: "SignDoc \<Rightarrow> bytes" where
  "SignDoc_Marshal m =
     put_bytes_opt 0x0a (DocBody m) (put_bytes_opt 0x12 (DocAuthInfo m)
       (put_bytes_opt 0x1a (DocChainId m) (put_uint_opt 0x20 (DocAccountNumber m) [])))"

definition SignDoc_field :: "SignDoc \<Rightarrow> int \<Rightarrow> 64 word \<Rightarrow> bytes \<Rightarrow> nat \<Rightarrow> (SignDoc \<times> nat) res option" where
  "SignDoc_field m fieldNum wireType dAtA i =
     (if fieldNum = 1 then bytes_case ''BodyBytes'' wireType dAtA i (\<lambda>b. m\<lparr>DocBody := b\<rparr>)
      else if fieldNum = 2 then bytes_case ''AuthInfoBytes'' wireType dAtA i (\<lambda>b. m\<lparr>DocAuthInfo := b\<rparr>)
      else if fieldNum = 3 then bytes_case ''ChainId'' wireType dAtA i (\<lambda>b. m\<lparr>DocChainId := b\<rparr>)
      else if fieldNum = 4 then uint_case ''AccountNumber'' wireType dAtA i (\<lambda>v. m\<lparr>DocAccountNumber := v\<rparr>)
      else None)"

definition SignDoc_Unmarshal :: "bytes \<Rightarrow> SignDoc res" where
  "SignDoc_Unmarshal dAtA =
     decode ''SignDoc'' SignDoc_field (\<lambda>m bz. m) dAtA
       \<lparr>DocBody = [], DocAuthInfo = [], DocChainId = [], DocAccountNumber = 0\<rparr>"

section \<open>Varints\<close>

lemma encodeVarint_byte: "ucast ((v::64 word) AND 0x7f OR 0x80) = (ucast v OR 0x80 :: 8 word)"
proof (rule bit_eqI)
  fix n
  have m: "bit (mask 7 :: 64 word) n \<longleftrightarrow> n < 7" by (simp only: bit_mask_iff possible_bit_word) auto
  then have m: "bit (0x7f::64 word) n \<longleftrightarrow> n < 7" by (simp add: mask_eq_exp_minus_1)
  have e: "bit (2 ^ 7 :: 64 word) n \<longleftrightarrow> n = 7" by (simp only: bit_exp_iff possible_bit_word) auto
  then have e: "bit (0x80::64 word) n \<longleftrightarrow> n = 7" by simp
  show "bit (ucast (v AND 0x7f OR 0x80) :: 8 word) n \<longleftrightarrow> bit (ucast v OR 0x80 :: 8 word) n"
    unfolding bit_or_iff bit_ucast_iff bit_and_iff byte_const_bits m e by auto
qed

lemma encodeVarint_eq: "encodeVarint x = PutUvarint x"
proof (induction x rule: PutUvarint.induct)
  case (1 x)
  then show ?case
    unfolding encodeVarint.simps [of x] PutUvarint.simps [of x] encodeVarint_byte by simp
qed

lemma byte_and_7f: "(b::8 word) < 0x80 \<Longrightarrow> b AND 0x7f = b"
proof (rule bit_eqI)
  fix n
  assume "b < 0x80" "possible_bit TYPE(8 word) n"
  then have "\<not> bit b 7" "n < 8" by (simp_all add: byte_msb)
  then show "bit (b AND 0x7f) n \<longleftrightarrow> bit b n"
    unfolding bit_and_iff byte_const_bits by (cases "n = 7") auto
qed

lemma readVarint_PutUvarint:
  "unat x < 2 ^ (64 - 7 * i) \<Longrightarrow> i \<le> 9 \<Longrightarrow>
   readVarint (pre @ PutUvarint x @ rest) (length pre) (7 * i) acc =
     Inr (acc OR push_bit (7 * i) x, length pre + length (PutUvarint x))"
proof (induction x arbitrary: i acc pre rule: PutUvarint.induct)
  case (1 x)
  have shift: "\<not> 64 \<le> 7 * i" using 1(3) by simp
  show ?case
  proof (cases "0x80 \<le> x")
    case True
    note less = varint_drop [OF True 1(2)]
    let ?b = "ucast x OR 0x80 :: 8 word"
    have "\<not> ?b < 0x80" by (simp add: byte_msb bit_simps byte_const_bits)
    then have "readVarint (pre @ PutUvarint x @ rest) (length pre) (7 * i) acc =
        readVarint ((pre @ [?b]) @ PutUvarint (drop_bit 7 x) @ rest) (length (pre @ [?b])) (7 * Suc i)
          (acc OR push_bit (7 * i) (ucast (?b AND 0x7f)))"
      using True shift by (subst readVarint.simps) (simp add: PutUvarint.simps [of x] nth_append Let_def add.commute)
    also have "\<dots> = Inr (acc OR push_bit (7 * i) (ucast (?b AND 0x7f)) OR push_bit (7 * Suc i) (drop_bit 7 x),
        length (pre @ [?b]) + length (PutUvarint (drop_bit 7 x)))"
      using 1(1) [OF True less, of "pre @ [?b]" "acc OR push_bit (7 * i) (ucast (?b AND 0x7f))"]
      by (simp only: or.assoc)
    also have "acc OR push_bit (7 * i) (ucast (?b AND 0x7f)) OR push_bit (7 * Suc i) (drop_bit 7 x) = acc OR push_bit (7 * i) x"
      using varint_byte_join [of "7 * i" x] by (simp only: or.assoc mult_Suc_right add.commute [of 7])
    finally show ?thesis using True by (simp add: PutUvarint.simps [of x])
  next
    case False
    note small = varint_last [OF False]
    then show ?thesis
      using shift False by (subst readVarint.simps) (simp add: PutUvarint.simps [of x] nth_append byte_and_7f)
  qed
qed

lemma readVarint_encode:
  "readVarint (pre @ encodeVarint x @ rest) (length pre) 0 0 = Inr (x, length pre + length (encodeVarint x))"
  using readVarint_PutUvarint [of x 0 pre rest 0] unsigned_less [of x] by (simp add: encodeVarint_eq)

lemma length_PutUvarint_le: "length (PutUvarint x) \<le> m \<longleftrightarrow> 0 < m \<and> unat x < 2 ^ (7 * m)"
proof (induction x arbitrary: m rule: PutUvarint.induct)
  case (1 x)
  show ?case
  proof (cases "0x80 \<le> x")
    case True
    then have big: "128 \<le> unat x" by (simp add: word_le_nat_alt)
    have drop: "unat (drop_bit 7 x) = unat x div 128" by (simp add: drop_bit_eq_div unat_div)
    show ?thesis
    proof (cases m)
      case (Suc k)
      have "unat x div 128 < 2 ^ (7 * k) \<longleftrightarrow> unat x < 2 ^ (7 * Suc k)"
        by (simp add: power_add div_less_iff_less_mult mult.commute)
      moreover have "\<not> unat x < 2 ^ (7 * Suc 0)" using big by simp
      ultimately show ?thesis
        using 1 [OF True, of k] True Suc drop by (cases k) (auto simp: PutUvarint.simps [of x])
    qed (use True in \<open>simp add: PutUvarint.simps [of x]\<close>)
  next
    case False
    then have small: "unat x < 2 ^ 7" by (simp add: word_le_nat_alt)
    have "unat x < 2 ^ (7 * m)" if "0 < m"
      using small power_increasing [of 7 "7 * m" "2::nat"] that by linarith
    then show ?thesis using False by (cases m) (auto simp: PutUvarint.simps [of x])
  qed
qed

text \<open>\<open>sov\<close> is the number of bytes that \<open>encodeVarint\<close> writes: the offset computed before the loop is right.\<close>

lemma sov_length: "sov x = length (encodeVarint x)"
proof -
  have or: "unat (x OR 1) = unat x + (if even (unat x) then 1 else 0)"
  proof -
    have "unat (x OR 1) = unat x OR 1" by (simp only: unsigned_or_eq unsigned_1)
    also have "unat x OR 1 = unat x + of_bool (even (unat x))" by (rule or_one_eq)
    finally show ?thesis by simp
  qed
  have bound: "unat (x OR 1) < 2 ^ (7 * m) \<longleftrightarrow> 0 < m \<and> unat x < 2 ^ (7 * m)" for m
  proof (cases m)
    case (Suc k)
    have "even ((2::nat) ^ (7 * m))" using Suc by simp
    then have "unat x + 1 \<noteq> 2 ^ (7 * m)" if "even (unat x)" using that by (metis even_add odd_one)
    then show ?thesis using or Suc by (auto split: if_splits)
  next
    case 0
    have "0 < unat (x OR 1)" using or by (cases "even (unat x)") (auto intro!: odd_pos)
    with 0 show ?thesis by simp
  qed
  have "sov x \<le> m \<longleftrightarrow> length (encodeVarint x) \<le> m" for m
  proof -
    have "sov x \<le> m \<longleftrightarrow> bitlen_nat (unat (x OR 1)) \<le> 7 * m"
      unfolding sov_def by linarith
    also have "\<dots> \<longleftrightarrow> length (encodeVarint x) \<le> m"
      by (simp add: bitlen_nat_le bound length_PutUvarint_le encodeVarint_eq)
    finally show ?thesis .
  qed
  then show ?thesis by (meson eq_iff order_refl)
qed

section \<open>Fields\<close>

lemma sint_of_nat_small: "n < 2 ^ 63 \<Longrightarrow> sint (of_nat n :: 64 word) = int n"
  by (simp add: sint_uint uint_nat unat_of_nat signed_take_bit_int_eq_self)

lemma readBytes_put:
  assumes "length (pre @ encodeVarint (of_nat (length b)) @ b @ rest) < 2 ^ 63"
  shows "readBytes (pre @ encodeVarint (of_nat (length b)) @ b @ rest) (length pre) =
    Inr (b, length pre + length (encodeVarint (of_nat (length b))) + length b)"
proof -
  have "length b < 2 ^ 63" using assms by simp
  then have "sint (of_nat (length b) :: 64 word) = int (length b)" by (rule sint_of_nat_small)
  with assms show ?thesis
    using readVarint_encode [of pre "of_nat (length b)" "b @ rest"]
    by (simp add: readBytes_def Let_def)
qed

lemma readVarint_tag: "t < 0x80 \<Longrightarrow> readVarint (pre @ t # rest) (length pre) 0 0 = Inr (ucast t, length pre + 1)"
  by (subst readVarint.simps) (simp add: nth_append byte_and_7f)

text \<open>What the loop makes of a tag byte: the field number and the wire type.\<close>

definition tag_of :: "8 word \<Rightarrow> int \<times> 64 word" where
  "tag_of t = (sint (ucast (drop_bit 3 (ucast t :: 64 word)) :: 32 word), ucast t AND 7)"

text \<open>
  The loop gets from position \<open>i\<close> with message \<open>m\<close> to position \<open>j\<close> with message \<open>m'\<close>, in at most
  one round per byte.
\<close>

definition reaches where
  "reaches name field unk dAtA i m j m' \<longleftrightarrow>
     i \<le> j \<and> (\<exists>n \<le> j - i. \<forall>k. decode_loop (n + k) name field unk dAtA i m = decode_loop k name field unk dAtA j m')"

lemma reaches_refl: "reaches name field unk dAtA i m i m"
  by (auto simp: reaches_def)

lemma reaches_trans:
  assumes "reaches name field unk dAtA i m j m'" "reaches name field unk dAtA j m' l m''"
  shows "reaches name field unk dAtA i m l m''"
proof -
  from assms obtain n1 n2 where n: "i \<le> j" "n1 \<le> j - i" "j \<le> l" "n2 \<le> l - j"
      "\<And>k. decode_loop (n1 + k) name field unk dAtA i m = decode_loop k name field unk dAtA j m'"
      "\<And>k. decode_loop (n2 + k) name field unk dAtA j m' = decode_loop k name field unk dAtA l m''"
    by (auto simp: reaches_def)
  then have "decode_loop ((n1 + n2) + k) name field unk dAtA i m = decode_loop k name field unk dAtA l m''" for k
    by (metis add.assoc)
  moreover have "i \<le> l" "n1 + n2 \<le> l - i" using n by linarith+
  ultimately show ?thesis unfolding reaches_def by blast
qed

lemma reaches_end:
  assumes "reaches name field unk dAtA 0 m (length dAtA) m'"
  shows "decode name field unk dAtA m = Inr m'"
proof -
  from assms obtain n where n: "n \<le> length dAtA"
      "\<And>k. decode_loop (n + k) name field unk dAtA 0 m = decode_loop k name field unk dAtA (length dAtA) m'"
    by (auto simp: reaches_def)
  then have "length dAtA + 1 = n + Suc (length dAtA - n)" by simp
  with n(2) [of "Suc (length dAtA - n)"] show ?thesis by (simp add: decode_def)
qed

lemma reaches_step:
  assumes "readVarint dAtA i 0 0 = Inr (ucast t, i + 1)" "tag_of t = (f, w)" "0 < f" "w \<noteq> 4" "i < j"
    and "field m f w dAtA (i + 1) = Some (Inr (m', j))"
  shows "reaches name field unk dAtA i m j m'"
proof -
  have "i < length dAtA" using readVarint_progress [OF assms(1)] by simp
  moreover have "ucast t AND 7 = w" "sint (ucast (drop_bit 3 (ucast t :: 64 word)) :: 32 word) = f"
    using assms(2) by (simp_all add: tag_of_def)
  ultimately have "decode_loop (1 + k) name field unk dAtA i m = decode_loop k name field unk dAtA j m'" for k
    using assms(1,3,4,6) by (simp add: Let_def)
  then show ?thesis using assms(5) unfolding reaches_def by (intro conjI exI [of _ 1]) simp_all
qed

lemma reaches_bytes:
  assumes "t < 0x80" "tag_of t = (f, 2)" "0 < f"
    and "dAtA = pre @ put_bytes t b rest" "length dAtA < 2 ^ 63"
    and "field m f 2 dAtA (length pre + 1) = bytes_case nm 2 dAtA (length pre + 1) upd"
  shows "reaches name field unk dAtA (length pre) m (length (pre @ put_bytes t b [])) (upd b)"
proof (rule reaches_step [OF _ assms(2,3)])
  show "readVarint dAtA (length pre) 0 0 = Inr (ucast t, length pre + 1)"
    using readVarint_tag [OF assms(1)] by (simp add: assms(4) put_bytes_def)
  have "readBytes dAtA (length (pre @ [t])) =
      Inr (b, length (pre @ [t]) + length (encodeVarint (of_nat (length b))) + length b)"
    using readBytes_put [of "pre @ [t]" b rest] assms(5) by (simp add: assms(4) put_bytes_def)
  then show "field m f 2 dAtA (length pre + 1) = Some (Inr (upd b, length (pre @ put_bytes t b [])))"
    using assms(6) by (simp add: bytes_case_def put_bytes_def ac_simps)
qed (simp_all add: put_bytes_def)

lemma put_bytes_append: "put_bytes t b rest = put_bytes t b [] @ rest"
  by (simp add: put_bytes_def)

lemma put_bytes_opt_append: "put_bytes_opt t b rest = put_bytes_opt t b [] @ rest"
  by (simp add: put_bytes_opt_def put_bytes_def)

lemma put_uint_opt_append: "put_uint_opt t v rest = put_uint_opt t v [] @ rest"
  by (simp add: put_uint_opt_def)

lemma put_repeated_Cons: "put_repeated t (b # bs) rest = put_bytes t b [] @ put_repeated t bs rest"
  using put_bytes_append [of t b "put_repeated t bs rest"] by (simp add: put_repeated_def)

lemma put_repeated_append: "put_repeated t bs rest = put_repeated t bs [] @ rest"
  by (induction bs) (simp_all add: put_repeated_Cons, simp add: put_repeated_def)

lemma reaches_bytes_opt:
  assumes "t < 0x80" "tag_of t = (f, 2)" "0 < f"
    and "dAtA = pre @ put_bytes_opt t b rest" "length dAtA < 2 ^ 63"
    and "field m f 2 dAtA (length pre + 1) = bytes_case nm 2 dAtA (length pre + 1) upd"
    and "b = [] \<Longrightarrow> upd b = m"
  shows "reaches name field unk dAtA (length pre) m (length (pre @ put_bytes_opt t b [])) (upd b)"
proof (cases "b = []")
  case True
  then show ?thesis using assms(7) by (simp add: put_bytes_opt_def reaches_refl)
next
  case False
  then have "dAtA = pre @ put_bytes t b rest" using assms(4) by (simp add: put_bytes_opt_def)
  from reaches_bytes [where field = field and upd = upd, OF assms(1-3) this assms(5,6)] False show ?thesis
    by (simp add: put_bytes_opt_def)
qed

lemma reaches_uint_opt:
  assumes "t < 0x80" "tag_of t = (f, 0)" "0 < f" "dAtA = pre @ put_uint_opt t v rest"
    and "field m f 0 dAtA (length pre + 1) = uint_case nm 0 dAtA (length pre + 1) upd"
    and "v = 0 \<Longrightarrow> upd v = m"
  shows "reaches name field unk dAtA (length pre) m (length (pre @ put_uint_opt t v [])) (upd v)"
proof (cases "v = 0")
  case True
  then show ?thesis using assms(6) by (simp add: put_uint_opt_def reaches_refl)
next
  case False
  show ?thesis
  proof (rule reaches_step [OF _ assms(2,3)])
    show "readVarint dAtA (length pre) 0 0 = Inr (ucast t, length pre + 1)"
      using readVarint_tag [OF assms(1)] False by (simp add: assms(4) put_uint_opt_def)
    have "readVarint dAtA (length (pre @ [t])) 0 0 = Inr (v, length (pre @ [t]) + length (encodeVarint v))"
      using readVarint_encode [of "pre @ [t]" v rest] False by (simp add: assms(4) put_uint_opt_def)
    then show "field m f 0 dAtA (length pre + 1) = Some (Inr (upd v, length (pre @ put_uint_opt t v [])))"
      using assms(5) False by (simp add: uint_case_def put_uint_opt_def)
  qed (use False in \<open>simp_all add: put_uint_opt_def\<close>)
qed

lemma reaches_repeated:
  assumes "t < 0x80" "tag_of t = (f, 2)" "0 < f"
    and "dAtA = pre @ put_repeated t bs rest" "length dAtA < 2 ^ 63"
    and "\<And>m i. field m f 2 dAtA i = bytes_case nm 2 dAtA i (add m)"
  shows "reaches name field unk dAtA (length pre) m (length (pre @ put_repeated t bs [])) (foldl add m bs)"
  using assms(4)
proof (induction bs arbitrary: pre m)
  case (Cons b bs)
  have "reaches name field unk dAtA (length pre) m (length (pre @ put_bytes t b [])) (add m b)"
  proof (rule reaches_bytes [where field = field and upd = "add m", OF assms(1-3) _ assms(5)])
    show "dAtA = pre @ put_bytes t b (put_repeated t bs rest)"
      using Cons.prems by (simp add: put_repeated_def)
  qed (rule assms(6))
  moreover have "reaches name field unk dAtA (length (pre @ put_bytes t b [])) (add m b)
      (length ((pre @ put_bytes t b []) @ put_repeated t bs [])) (foldl add (add m b) bs)"
    using Cons.prems by (intro Cons.IH) (simp add: put_repeated_Cons)
  ultimately show ?case
    by (simp add: put_repeated_Cons reaches_trans)
qed (simp add: put_repeated_def reaches_refl)

section \<open>Round trips\<close>

lemma tags:
  "(0x0a::8 word) < 0x80" "tag_of 0x0a = (1, 2)" "(0x12::8 word) < 0x80" "tag_of 0x12 = (2, 2)"
  "(0x1a::8 word) < 0x80" "tag_of 0x1a = (3, 2)" "(0x08::8 word) < 0x80" "tag_of 0x08 = (1, 0)"
  "(0x20::8 word) < 0x80" "tag_of 0x20 = (4, 0)"
  by (simp_all add: tag_of_def drop_bit_eq_div)

lemma foldl_append_sigs:
  "foldl (\<lambda>m b. m\<lparr>MSignatures := MSignatures m @ [b]\<rparr>) m bs = m\<lparr>MSignatures := MSignatures m @ bs\<rparr>"
  "foldl (\<lambda>r b. r\<lparr>RawSignatures := RawSignatures r @ [b]\<rparr>) r bs = r\<lparr>RawSignatures := RawSignatures r @ bs\<rparr>"
  by (induction bs arbitrary: m r) simp_all

lemma MultiSignature_Unmarshal_Marshal:
  assumes "length (put_repeated 0x0a sigs []) < 2 ^ 63"
  shows "MultiSignature_Unmarshal (MultiSignature_Marshal \<lparr>MSignatures = sigs, XXX_unrecognized = []\<rparr>) =
    Inr \<lparr>MSignatures = sigs, XXX_unrecognized = []\<rparr>"
  unfolding MultiSignature_Unmarshal_def MultiSignature_Marshal_def
  using reaches_repeated [OF tags(1,2), of _ "[]" sigs "[]" MultiSignature_field "''Signatures''"
      "\<lambda>m b. m\<lparr>MSignatures := MSignatures m @ [b]\<rparr>" _ _ "\<lparr>MSignatures = [], XXX_unrecognized = []\<rparr>"] assms
  by (intro reaches_end) (simp add: foldl_append_sigs MultiSignature_field_def)

lemma TxRaw_Unmarshal_Marshal:
  assumes len: "length (TxRaw_Marshal r) < 2 ^ 63"
  shows "TxRaw_Unmarshal (TxRaw_Marshal r) = Inr r"
proof -
  let ?R = "reaches ''TxRaw'' TxRaw_field (\<lambda>m bz. m) (TxRaw_Marshal r)"
  let ?b = "put_bytes_opt 0x0a (BodyBytes r) []" and ?a = "put_bytes_opt 0x12 (AuthInfoBytes r) []"
    and ?s = "put_repeated 0x1a (RawSignatures r) []"
  let ?m0 = "\<lparr>BodyBytes = [], AuthInfoBytes = [], RawSignatures = []\<rparr>"
  let ?m1 = "\<lparr>BodyBytes = BodyBytes r, AuthInfoBytes = [], RawSignatures = []\<rparr>"
  let ?m2 = "\<lparr>BodyBytes = BodyBytes r, AuthInfoBytes = AuthInfoBytes r, RawSignatures = []\<rparr>"
  have d: "TxRaw_Marshal r = ?b @ ?a @ ?s"
    unfolding TxRaw_Marshal_def
    by (subst put_bytes_opt_append [of "0x0a"], subst put_bytes_opt_append [of "0x12"]) (rule refl)
  have "?R 0 ?m0 (length ?b) ?m1"
    using reaches_bytes_opt [OF tags(1,2) _ _ len, of "[]" "BodyBytes r" "?a @ ?s" TxRaw_field ?m0 "''BodyBytes''"
      "\<lambda>b. ?m0\<lparr>BodyBytes := b\<rparr>"] d put_bytes_opt_append [of "0x0a" "BodyBytes r" "?a @ ?s"]
    by (simp add: TxRaw_field_def)
  moreover have "?R (length ?b) ?m1 (length (?b @ ?a)) ?m2"
    using reaches_bytes_opt [OF tags(3,4) _ _ len, of ?b "AuthInfoBytes r" ?s TxRaw_field ?m1 "''AuthInfoBytes''"
      "\<lambda>b. ?m1\<lparr>AuthInfoBytes := b\<rparr>"] d put_bytes_opt_append [of "0x12" "AuthInfoBytes r" ?s]
    by (simp add: TxRaw_field_def)
  moreover have r: "?m2\<lparr>RawSignatures := RawSignatures r\<rparr> = r" by (cases r) simp
  moreover have "?R (length (?b @ ?a)) ?m2 (length ((?b @ ?a) @ ?s)) (?m2\<lparr>RawSignatures := RawSignatures r\<rparr>)"
    using reaches_repeated [OF tags(5,6) _ _ len, of "?b @ ?a" "RawSignatures r" "[]" TxRaw_field "''Signatures''"
      "\<lambda>m b. m\<lparr>RawSignatures := RawSignatures m @ [b]\<rparr>" _ _ ?m2] d
    by (simp add: TxRaw_field_def foldl_append_sigs)
  ultimately have "?R 0 ?m0 (length (TxRaw_Marshal r)) r"
    unfolding r d append_assoc by (blast intro: reaches_trans)
  then show ?thesis unfolding TxRaw_Unmarshal_def by (rule reaches_end)
qed

lemma SignDoc_Unmarshal_Marshal:
  assumes len: "length (SignDoc_Marshal r) < 2 ^ 63"
  shows "SignDoc_Unmarshal (SignDoc_Marshal r) = Inr r"
proof -
  let ?R = "reaches ''SignDoc'' SignDoc_field (\<lambda>m bz. m) (SignDoc_Marshal r)"
  let ?b = "put_bytes_opt 0x0a (DocBody r) []" and ?a = "put_bytes_opt 0x12 (DocAuthInfo r) []"
    and ?c = "put_bytes_opt 0x1a (DocChainId r) []" and ?n = "put_uint_opt 0x20 (DocAccountNumber r) []"
  let ?m0 = "\<lparr>DocBody = [], DocAuthInfo = [], DocChainId = [], DocAccountNumber = 0\<rparr>"
  let ?m1 = "?m0\<lparr>DocBody := DocBody r\<rparr>"
  let ?m2 = "?m1\<lparr>DocAuthInfo := DocAuthInfo r\<rparr>"
  let ?m3 = "?m2\<lparr>DocChainId := DocChainId r\<rparr>"
  have d: "SignDoc_Marshal r = ?b @ ?a @ ?c @ ?n"
    unfolding SignDoc_Marshal_def
    by (subst put_bytes_opt_append [of "0x0a"], subst put_bytes_opt_append [of "0x12"],
        subst put_bytes_opt_append [of "0x1a"]) (rule refl)
  have "?R 0 ?m0 (length ?b) ?m1"
    using reaches_bytes_opt [OF tags(1,2) _ _ len, of "[]" "DocBody r" "?a @ ?c @ ?n" SignDoc_field ?m0 "''BodyBytes''"
      "\<lambda>b. ?m0\<lparr>DocBody := b\<rparr>"] d put_bytes_opt_append [of "0x0a" "DocBody r" "?a @ ?c @ ?n"]
    by (simp add: SignDoc_field_def)
  moreover have "?R (length ?b) ?m1 (length (?b @ ?a)) ?m2"
    using reaches_bytes_opt [OF tags(3,4) _ _ len, of ?b "DocAuthInfo r" "?c @ ?n" SignDoc_field ?m1 "''AuthInfoBytes''"
      "\<lambda>b. ?m1\<lparr>DocAuthInfo := b\<rparr>"] d put_bytes_opt_append [of "0x12" "DocAuthInfo r" "?c @ ?n"]
    by (simp add: SignDoc_field_def)
  moreover have "?R (length (?b @ ?a)) ?m2 (length ((?b @ ?a) @ ?c)) ?m3"
    using reaches_bytes_opt [OF tags(5,6) _ _ len, of "?b @ ?a" "DocChainId r" ?n SignDoc_field ?m2 "''ChainId''"
      "\<lambda>b. ?m2\<lparr>DocChainId := b\<rparr>"] d put_bytes_opt_append [of "0x1a" "DocChainId r" ?n]
    by (simp add: SignDoc_field_def)
  moreover have r: "?m3\<lparr>DocAccountNumber := DocAccountNumber r\<rparr> = r" by (cases r) simp
  moreover have "?R (length ((?b @ ?a) @ ?c)) ?m3 (length (((?b @ ?a) @ ?c) @ ?n)) (?m3\<lparr>DocAccountNumber := DocAccountNumber r\<rparr>)"
    using reaches_uint_opt [OF tags(9,10), of "SignDoc_Marshal r" "(?b @ ?a) @ ?c" "DocAccountNumber r" "[]" SignDoc_field ?m3
      "''AccountNumber''" "\<lambda>v. ?m3\<lparr>DocAccountNumber := v\<rparr>"] d
    by (simp add: SignDoc_field_def)
  ultimately have "?R 0 ?m0 (length (SignDoc_Marshal r)) r"
    unfolding r d append_assoc by (blast intro: reaches_trans)
  then show ?thesis unfolding SignDoc_Unmarshal_def by (rule reaches_end)
qed

text \<open>
  The wire format of transactions. A raw transaction and a sign document that fit an
  \<open>int\<close>-sized buffer are read back from the bytes that \<open>Marshal\<close> writes; in particular two
  different sign documents never have the same sign bytes.
\<close>

theorem TxRaw_SignDoc_roundtrip:
  "(length (TxRaw_Marshal r) < 2 ^ 63 \<longrightarrow> TxRaw_Unmarshal (TxRaw_Marshal r) = Inr r)
   \<and> (length (SignDoc_Marshal d) < 2 ^ 63 \<longrightarrow> SignDoc_Unmarshal (SignDoc_Marshal d) = Inr d
        \<and> (\<forall>d'. SignDoc_Marshal d' = SignDoc_Marshal d \<longrightarrow> d' = d))"
  using TxRaw_Unmarshal_Marshal SignDoc_Unmarshal_Marshal by (metis Inr_inject)

theorem TxRaw_SignDoc_roundtrip_witness:
  "TxRaw_Unmarshal (TxRaw_Marshal \<lparr>BodyBytes = [1, 2], AuthInfoBytes = [3], RawSignatures = [[4], []]\<rparr>) =
     Inr \<lparr>BodyBytes = [1, 2], AuthInfoBytes = [3], RawSignatures = [[4], []]\<rparr>"
proof -
  have "length (TxRaw_Marshal \<lparr>BodyBytes = [1, 2], AuthInfoBytes = [3], RawSignatures = [[4], []]\<rparr>) < 2 ^ 63"
    by (simp add: TxRaw_Marshal_def put_bytes_opt_def put_repeated_def put_bytes_def encodeVarint.simps)
  with TxRaw_SignDoc_roundtrip show ?thesis by blast
qed

lemma CompactBitArray_Unmarshal_Marshal:
  assumes len: "length (CompactBitArray_Marshal a) < 2 ^ 63"
  shows "CompactBitArray_Unmarshal (CompactBitArray_Marshal a) = Inr a"
proof -
  let ?R = "reaches ''CompactBitArray'' CompactBitArray_field (\<lambda>m bz. m) (CompactBitArray_Marshal a)"
  let ?x = "put_uint_opt 0x08 (ucast (ExtraBitsStored a)) []" and ?e = "put_bytes_opt 0x12 (Elems a) []"
  let ?m0 = "\<lparr>ExtraBitsStored = 0, Elems = []\<rparr>"
  let ?m1 = "?m0\<lparr>ExtraBitsStored := ucast (ucast (ExtraBitsStored a) :: 64 word)\<rparr>"
  have u: "ucast (ucast (ExtraBitsStored a) :: 64 word) = ExtraBitsStored a"
    by (rule bit_eqI) (auto simp: bit_simps)
  have d: "CompactBitArray_Marshal a = ?x @ ?e"
    unfolding CompactBitArray_Marshal_def by (rule put_uint_opt_append)
  have "?R 0 ?m0 (length ?x) ?m1"
    using reaches_uint_opt [OF tags(7,8), of "CompactBitArray_Marshal a" "[]" "ucast (ExtraBitsStored a)" ?e
      CompactBitArray_field ?m0 "''ExtraBitsStored''" "\<lambda>v. ?m0\<lparr>ExtraBitsStored := ucast v\<rparr>"]
      put_uint_opt_append [of "0x08" "ucast (ExtraBitsStored a)" ?e] d
    by (simp add: CompactBitArray_field_def)
  moreover have "?R (length ?x) ?m1 (length (?x @ ?e)) (?m1\<lparr>Elems := Elems a\<rparr>)"
    using reaches_bytes_opt [OF tags(3,4) _ _ len, of ?x "Elems a" "[]" CompactBitArray_field ?m1 "''Elems''"
      "\<lambda>b. ?m1\<lparr>Elems := b\<rparr>"] d
    by (simp add: CompactBitArray_field_def)
  moreover have r: "?m1\<lparr>Elems := Elems a\<rparr> = a" using u by (cases a) simp
  ultimately have "?R 0 ?m0 (length (CompactBitArray_Marshal a)) a"
    unfolding r d by (blast intro: reaches_trans)
  then show ?thesis unfolding CompactBitArray_Unmarshal_def by (rule reaches_end)
qed

lemma MultiSignature_Size_length: "MultiSignature_Size m = length (MultiSignature_Marshal m)"
proof -
  have "length (put_repeated t bs buf) =
      sum_list (map (\<lambda>b. 1 + length b + sov (of_nat (length b))) bs) + length buf" for t bs buf
    by (induction bs) (simp_all add: put_repeated_Cons put_bytes_def sov_length, simp add: put_repeated_def)
  then show ?thesis by (simp add: MultiSignature_Size_def MultiSignature_Marshal_def)
qed

section \<open>The fuel is enough\<close>

definition out_of_fuel :: failure where
  "out_of_fuel = Err ''out of fuel''"

lemma readVarint_errors: "readVarint d i s acc = Inl e \<Longrightarrow> e \<noteq> out_of_fuel"
proof (induction d i s acc rule: readVarint.induct)
  case (1 d i s acc)
  from "1.prems" show ?case
    by (subst (asm) readVarint.simps)
      (auto simp: Let_def ErrIntOverflow_def ErrUnexpectedEOF_def out_of_fuel_def split: if_splits dest: "1.IH")
qed

lemmas wire_errors = ErrIntOverflow_def ErrUnexpectedEOF_def ErrInvalidLength_def out_of_fuel_def wrong_wireType_def

lemma skip_loop_result:
  "(skip_loop d i n = Inl e \<longrightarrow> e \<noteq> out_of_fuel) \<and> (skip_loop d i n = Inr j \<longrightarrow> i < j)"
proof (induction d i n rule: skip_loop.induct)
  case (1 d i n)
  have err: "e \<noteq> out_of_fuel" if "skip_value d w k n = Inl e" for w k e
    using that by (auto simp: skip_value_def bindR_eq_Inl wire_errors split: if_splits
        dest!: readVarint_errors)
  show ?case
  proof (cases "readVarint d i 0 0")
    case (Inl e)
    with readVarint_errors [OF Inl] show ?thesis by (auto simp: skip_loop.simps [of d i n] wire_errors)
  next
    case (Inr p)
    then obtain w k where wk: "readVarint d i 0 0 = Inr (w, k)" by (cases p) auto
    then have ik: "i < k" by (auto dest: readVarint_progress)
    show ?thesis
    proof (cases "skip_value d (w AND 7) k n")
      case (Inl e)
      with err [OF Inl] wk show ?thesis by (auto simp: skip_loop.simps [of d i n] wire_errors)
    next
      case (Inr q)
      then obtain l n' where q: "skip_value d (w AND 7) k n = Inr (l, n')" by (cases q) auto
      then have "k \<le> l" by (rule skip_value_progress)
      with ik wk q 1 [OF _ wk refl q refl] show ?thesis
        by (auto simp: skip_loop.simps [of d i n] wire_errors)
    qed
  qed
qed

lemma decode_loop_fuel:
  assumes prog: "\<And>m f w i m' j. field m f w d i = Some (Inr (m', j)) \<Longrightarrow> i < j"
    and err: "\<And>m f w i e. field m f w d i = Some (Inl e) \<Longrightarrow> e \<noteq> out_of_fuel"
  shows "length d - i < fuel \<Longrightarrow> decode_loop fuel name field unk d i m = Inl e \<Longrightarrow> e \<noteq> out_of_fuel"
proof (induction fuel arbitrary: i m)
  case (Suc fuel)
  show ?case
  proof (cases "i < length d")
    case True
    have IH: "decode_loop fuel name field unk d j m' = Inl e \<Longrightarrow> e \<noteq> out_of_fuel" if "i < j" for j m'
      using Suc.IH [of j m'] Suc.prems(1) that True by linarith
    show ?thesis
    proof (cases "readVarint d i 0 0")
      case (Inl e')
      with readVarint_errors [OF Inl] Suc.prems(2) True show ?thesis by simp
    next
      case (Inr p)
      then obtain w k where wk: "readVarint d i 0 0 = Inr (w, k)" by (cases p) auto
      then have ik: "i < k" by (auto dest: readVarint_progress)
      define f where "f = sint (ucast (drop_bit 3 w) :: 32 word)"
      consider (bad) "w AND 7 = 4 \<or> f \<le> 0"
        | (known) r where "w AND 7 \<noteq> 4" "0 < f" "field m f (w AND 7) d k = Some r"
        | (unknown) "w AND 7 \<noteq> 4" "0 < f" "field m f (w AND 7) d k = None"
        by (cases "field m f (w AND 7) d k") force+
      then show ?thesis
      proof cases
        case bad
        with Suc.prems(2) True wk show ?thesis
          by (auto simp: Let_def f_def [symmetric] wire_errors split: if_splits)
      next
        case known
        show ?thesis
        proof (cases r)
          case (Inl e')
          with known err [of m f "w AND 7" k e'] Suc.prems(2) True wk show ?thesis
            by (simp add: Let_def f_def [symmetric])
        next
          case (Inr q)
          obtain m' j where q: "q = (m', j)" by (cases q)
          with Inr known prog [of m f "w AND 7" k m' j] have "i < j" using ik by simp
          with IH Inr q known Suc.prems(2) True wk show ?thesis
            by (simp add: Let_def f_def [symmetric])
        qed
      next
        case unknown
        show ?thesis
        proof (cases "skip_field (drop i d)")
          case (Inl e')
          then have "e' \<noteq> out_of_fuel" using skip_loop_result [of "drop i d" 0 0 e'] by (simp add: skip_field_def)
          with Inl unknown Suc.prems(2) True wk show ?thesis by (simp add: Let_def f_def [symmetric])
        next
          case (Inr s)
          then have "0 < s" using skip_loop_result [of "drop i d" 0 0 _ s] by (simp add: skip_field_def)
          with IH [of "i + s"] Inr unknown Suc.prems(2) True wk show ?thesis
            by (auto simp: Let_def f_def [symmetric] wire_errors split: if_splits)
        qed
      qed
    qed
  qed (use Suc.prems in simp)
qed simp

lemma field_case_progress:
  "bytes_case nm w d i upd = Some (Inr (m', j)) \<Longrightarrow> i < j"
  "uint_case nm w d i upd' = Some (Inr (m', j)) \<Longrightarrow> i < j"
  "bytes_case nm w d i upd = Some (Inl e) \<Longrightarrow> e \<noteq> out_of_fuel"
  "uint_case nm w d i upd' = Some (Inl e) \<Longrightarrow> e \<noteq> out_of_fuel"
  by (auto simp: bytes_case_def uint_case_def readBytes_def Let_def bindR_eq_Inl wire_errors split: if_splits
      dest!: readVarint_progress readVarint_errors)

lemma Unmarshal_fuel:
  "MultiSignature_Unmarshal d \<noteq> Inl out_of_fuel" "CompactBitArray_Unmarshal d \<noteq> Inl out_of_fuel"
  "TxRaw_Unmarshal d \<noteq> Inl out_of_fuel" "SignDoc_Unmarshal d \<noteq> Inl out_of_fuel"
  unfolding MultiSignature_Unmarshal_def CompactBitArray_Unmarshal_def TxRaw_Unmarshal_def SignDoc_Unmarshal_def decode_def
  by (rule notI, drule decode_loop_fuel [rotated -1];
      auto simp: MultiSignature_field_def CompactBitArray_field_def TxRaw_field_def SignDoc_field_def
        dest: field_case_progress split: if_splits)+

end
