(* ===== verification/Multisig.thy ===== *)
theory Multisig
  imports ProtoWire
begin

text \<open>
  Signature data and multi-signatures: \<open>types/tx/signing\<close> (the data types and their descriptors),
  \<open>types/tx/sigs.go\<close> (mode infos), \<open>crypto/types/multisig/multisignature.go\<close> (collecting
  signatures) and \<open>crypto/keys/multisig/multisig.go\<close> (threshold keys and their verification).
  The verification of a single key and the sign bytes of a mode are parameters.
\<close>

section \<open>Signature data\<close>

text \<open>\<open>NilSignatureData\<close> is the nil interface; a sign mode is an \<open>int32\<close> enumeration.\<close>

datatype SignatureData =
    NilSignatureData
  | SingleSignatureData "32 word" bytes
  | MultiSignatureData "CompactBitArray option" "SignatureData list"

text \<open>\<open>ModeInfo\<close> as a pointer: nil, without a \<open>Sum\<close>, or one of the two cases.\<close>

datatype ModeInfo =
    NilModeInfo
  | ModeInfo_Unset
  | ModeInfo_Single "32 word"
  | ModeInfo_Multi "CompactBitArray option" "ModeInfo list"

fun SignatureDataToModeInfoAndSig :: "SignatureData \<Rightarrow> ModeInfo \<times> bytes" where
  "SignatureDataToModeInfoAndSig NilSignatureData = (NilModeInfo, [])"
| "SignatureDataToModeInfoAndSig (SingleSignatureData mode sig) = (ModeInfo_Single mode, sig)"
| "SignatureDataToModeInfoAndSig (MultiSignatureData bitArray datas) =
     (let ps = map SignatureDataToModeInfoAndSig datas
      in (ModeInfo_Multi bitArray (map fst ps),
          MultiSignature_Marshal \<lparr>MSignatures = map snd ps, XXX_unrecognized = []\<rparr>))"

definition decodeMultisignatures :: "bytes \<Rightarrow> (bytes list) res" where
  "decodeMultisignatures bz =
     bindR (MultiSignature_Unmarshal bz) (\<lambda>m.
       if 0 < length (XXX_unrecognized m)
       then Inl (Err ''rejecting unrecognized fields found in MultiSignature'')
       else Inr (MSignatures m))"

definition nil_deref :: failure where
  "nil_deref = Panic ''invalid memory address or nil pointer dereference''"

definition index_panic :: failure where
  "index_panic = Panic ''index out of range''"

text \<open>
  The loop over the mode infos fills a slice of \<open>len(sigs)\<close> entries: a mode info without a
  signature is out of range, an entry without a mode info stays nil.
\<close>

fun ModeInfoAndSigToSignatureData :: "ModeInfo \<Rightarrow> bytes \<Rightarrow> SignatureData res"
  and modeInfos_loop :: "ModeInfo list \<Rightarrow> bytes list \<Rightarrow> (SignatureData list) res" where
  "ModeInfoAndSigToSignatureData NilModeInfo sig = Inl nil_deref"
| "ModeInfoAndSigToSignatureData ModeInfo_Unset sig = Inl (Panic ''unexpected ModeInfo data type'')"
| "ModeInfoAndSigToSignatureData (ModeInfo_Single mode) sig = Inr (SingleSignatureData mode sig)"
| "ModeInfoAndSigToSignatureData (ModeInfo_Multi bitArray mis) sig =
     bindR (decodeMultisignatures sig) (\<lambda>sigs.
     bindR (modeInfos_loop mis sigs) (\<lambda>datas. Inr (MultiSignatureData bitArray datas)))"
| "modeInfos_loop [] sigs = Inr (replicate (length sigs) NilSignatureData)"
| "modeInfos_loop (mi # mis) [] = Inl index_panic"
| "modeInfos_loop (mi # mis) (s # sigs) =
     bindR (ModeInfoAndSigToSignatureData mi s) (\<lambda>d.
     bindR (modeInfos_loop mis sigs) (\<lambda>ds. Inr (d # ds)))"

section \<open>Descriptors (\<open>types/tx/signing/signature.go\<close>)\<close>

datatype DescriptorData =
    NilDescriptor
  | Descriptor_Unset
  | Descriptor_Single "32 word" bytes
  | Descriptor_Multi "CompactBitArray option" "DescriptorData list"

fun SignatureDataToProto :: "SignatureData \<Rightarrow> DescriptorData res"
  and toProto_loop :: "SignatureData list \<Rightarrow> (DescriptorData list) res" where
  "SignatureDataToProto (SingleSignatureData mode sig) = Inr (Descriptor_Single mode sig)"
| "SignatureDataToProto (MultiSignatureData bitArray datas) =
     bindR (toProto_loop datas) (\<lambda>ds. Inr (Descriptor_Multi bitArray ds))"
| "SignatureDataToProto NilSignatureData = Inl (Panic ''unexpected case <nil>'')"
| "toProto_loop [] = Inr []"
| "toProto_loop (d # ds) = bindR (SignatureDataToProto d) (\<lambda>x. bindR (toProto_loop ds) (\<lambda>xs. Inr (x # xs)))"

fun SignatureDataFromProto :: "DescriptorData \<Rightarrow> SignatureData res"
  and fromProto_loop :: "DescriptorData list \<Rightarrow> (SignatureData list) res" where
  "SignatureDataFromProto (Descriptor_Single mode sig) = Inr (SingleSignatureData mode sig)"
| "SignatureDataFromProto (Descriptor_Multi bitArray ds) =
     bindR (fromProto_loop ds) (\<lambda>datas. Inr (MultiSignatureData bitArray datas))"
| "SignatureDataFromProto NilDescriptor = Inl nil_deref"
| "SignatureDataFromProto Descriptor_Unset = Inl (Panic ''unexpected case <nil>'')"
| "fromProto_loop [] = Inr []"
| "fromProto_loop (d # ds) = bindR (SignatureDataFromProto d) (\<lambda>x. bindR (fromProto_loop ds) (\<lambda>xs. Inr (x # xs)))"

section \<open>Threshold keys (\<open>crypto/keys/multisig/multisig.go\<close>)\<close>

text \<open>A key is a single key of type \<open>'k\<close> or a \<open>LegacyAminoPubKey\<close> with its threshold and keys.\<close>

datatype 'k PubKey = SinglePubKey 'k | LegacyAminoPubKey "32 word" "'k PubKey list"

definition NewLegacyAminoPubKey :: "int \<Rightarrow> 'k PubKey list \<Rightarrow> 'k PubKey res" where
  "NewLegacyAminoPubKey k pubKeys =
     (if k \<le> 0 then Inl (Panic ''threshold k of n multisignature: k <= 0'')
      else if int (length pubKeys) < k then Inl (Panic ''threshold k of n multisignature: len(pubKeys) < k'')
      else Inr (LegacyAminoPubKey (word_of_int k) pubKeys))"

fun PubKey_Equals :: "('k \<Rightarrow> 'k \<Rightarrow> bool) \<Rightarrow> 'k PubKey \<Rightarrow> 'k PubKey \<Rightarrow> bool"
  and equals_loop :: "('k \<Rightarrow> 'k \<Rightarrow> bool) \<Rightarrow> 'k PubKey list \<Rightarrow> 'k PubKey list \<Rightarrow> bool" where
  "PubKey_Equals eqk (SinglePubKey a) (SinglePubKey b) = eqk a b"
| "PubKey_Equals eqk (LegacyAminoPubKey t ks) (LegacyAminoPubKey t' ks') =
     (if t \<noteq> t' \<or> length ks \<noteq> length ks' then False else equals_loop eqk ks ks')"
| "PubKey_Equals eqk (SinglePubKey a) (LegacyAminoPubKey t' ks') = False"
| "PubKey_Equals eqk (LegacyAminoPubKey t ks) (SinglePubKey b) = False"
| "equals_loop eqk (a # as) (b # bs) = (if \<not> PubKey_Equals eqk a b then False else equals_loop eqk as bs)"
| "equals_loop eqk [] bs = True"
| "equals_loop eqk (a # as) [] = True"

text \<open>\<open>verify\<close> is the signature check of a single key; a threshold key cannot check a single signature.\<close>

fun VerifySignature :: "('k \<Rightarrow> bytes \<Rightarrow> bytes \<Rightarrow> bool) \<Rightarrow> 'k PubKey \<Rightarrow> bytes \<Rightarrow> bytes \<Rightarrow> bool res" where
  "VerifySignature verify (SinglePubKey k) msg sig = Inr (verify k msg sig)"
| "VerifySignature verify (LegacyAminoPubKey t ks) msg sig = Inl (Panic ''not implemented'')"

text \<open>
  \<open>verify_loop\<close> is the loop over the indices; its last argument holds the signatures from
  \<open>sigIndex\<close> on.
\<close>

function VerifyMultisignature ::
    "('k \<Rightarrow> bytes \<Rightarrow> bytes \<Rightarrow> bool) \<Rightarrow> (32 word \<Rightarrow> bytes res) \<Rightarrow> 32 word \<Rightarrow> 'k PubKey list
     \<Rightarrow> CompactBitArray option \<Rightarrow> SignatureData list \<Rightarrow> unit res"
  and verify_loop ::
    "('k \<Rightarrow> bytes \<Rightarrow> bytes \<Rightarrow> bool) \<Rightarrow> (32 word \<Rightarrow> bytes res) \<Rightarrow> 'k PubKey list
     \<Rightarrow> CompactBitArray option \<Rightarrow> nat list \<Rightarrow> SignatureData list \<Rightarrow> unit res" where
  "VerifyMultisignature verify getSignBytes threshold pubKeys bitarray sigs =
     (let sz = Count bitarray in
      if int (length pubKeys) \<noteq> sz then Inl (Err ''bit array size is incorrect'')
      else if length sigs < unat threshold \<or> sz < int (length sigs)
      then Inl (Err ''signature size is incorrect'')
      else bindR (NumTrueBitsBefore bitarray sz) (\<lambda>n.
        if n < int (unat threshold) then Inl (Err ''minimum number of signatures not set'')
        else verify_loop verify getSignBytes pubKeys bitarray [0 ..< nat sz] sigs))"
| "verify_loop verify getSignBytes pubKeys bitarray [] sigs = Inr ()"
| "verify_loop verify getSignBytes pubKeys bitarray (i # is) sigs =
     bindR (GetIndex bitarray (int i)) (\<lambda>b.
       if b then
         (case sigs of
            [] \<Rightarrow> Inl index_panic
          | si # rest \<Rightarrow>
              (case si of
                 SingleSignatureData mode sig \<Rightarrow>
                   bindR (getSignBytes mode) (\<lambda>msg.
                   bindR (VerifySignature verify (pubKeys ! i) msg sig) (\<lambda>ok.
                     if \<not> ok then Inl (Err (''unable to verify signature at index '' @ show_nat i))
                     else verify_loop verify getSignBytes pubKeys bitarray is rest))
               | MultiSignatureData ba ss \<Rightarrow>
                   (case pubKeys ! i of
                      SinglePubKey k \<Rightarrow> Inl (Err (''unable to parse pubkey of index '' @ show_nat i))
                    | LegacyAminoPubKey t ks \<Rightarrow>
                        bindR (VerifyMultisignature verify getSignBytes t ks ba ss) (\<lambda>_.
                          verify_loop verify getSignBytes pubKeys bitarray is rest))
               | NilSignatureData \<Rightarrow> Inl (Err ''improper signature data type'')))
       else verify_loop verify getSignBytes pubKeys bitarray is sigs)"
  by pat_completeness auto
termination
  by (relation "inv_image (less_than <*lex*> less_than <*lex*> less_than)
        (case_sum (\<lambda>(v, g, t, ks, ba, ss). (size_list size ss, 1::nat, 0))
                  (\<lambda>(v, g, ks, ba, is, ss). (size_list size ss, 0, length is)))")
    auto

declare VerifyMultisignature.simps [simp del]

section \<open>Collecting signatures (\<open>crypto/types/multisig/multisignature.go\<close>)\<close>

text \<open>The fields of a \<open>MultiSignatureData\<close> that the functions update through the pointer.\<close>

record MultiSig =
  MBitArray :: "CompactBitArray option"
  MSigs :: "SignatureData list"

definition NewMultisig :: "int \<Rightarrow> MultiSig" where
  "NewMultisig n = \<lparr>MBitArray = NewCompactBitArray n, MSigs = []\<rparr>"

fun getIndex_loop :: "('k \<Rightarrow> 'k \<Rightarrow> bool) \<Rightarrow> 'k PubKey \<Rightarrow> nat \<Rightarrow> 'k PubKey list \<Rightarrow> int" where
  "getIndex_loop eqk pk i [] = -1"
| "getIndex_loop eqk pk i (k # ks) = (if PubKey_Equals eqk pk k then int i else getIndex_loop eqk pk (i + 1) ks)"

definition getIndex :: "('k \<Rightarrow> 'k \<Rightarrow> bool) \<Rightarrow> 'k PubKey \<Rightarrow> 'k PubKey list \<Rightarrow> int" where
  "getIndex eqk pk keys = getIndex_loop eqk pk 0 keys"

text \<open>
  \<open>AddSignature\<close>: replace the signature of an index whose bit is set; otherwise set the bit and
  insert the signature, by the shift of the source, behind those of the smaller indices.
\<close>

definition AddSignature :: "MultiSig \<Rightarrow> SignatureData \<Rightarrow> int \<Rightarrow> MultiSig res" where
  "AddSignature mSig sig index =
     bindR (NumTrueBitsBefore (MBitArray mSig) index) (\<lambda>newSigIndex.
     bindR (GetIndex (MBitArray mSig) index) (\<lambda>present.
       if present then
         (if length (MSigs mSig) \<le> nat newSigIndex then Inl index_panic
          else Inr (mSig\<lparr>MSigs := (MSigs mSig)[nat newSigIndex := sig]\<rparr>))
       else
         bindR (SetIndex (MBitArray mSig) index True) (\<lambda>(bA, _).
           if nat newSigIndex = length (MSigs mSig) then
             Inr \<lparr>MBitArray = bA, MSigs = MSigs mSig @ [sig]\<rparr>
           else
             let grown = MSigs mSig @ [SingleSignatureData 0 []];
                 k = nat newSigIndex
             in if length grown < k + 1 then Inl (Panic ''slice bounds out of range'')
                else
                  let shifted = take (k + 1) grown @ take (length grown - (k + 1)) (drop k grown)
                  in Inr \<lparr>MBitArray = bA, MSigs = shifted[k := sig]\<rparr>)))"

text \<open>\<open>None\<close> stands for a nil key or a nil slice of keys.\<close>

definition AddSignatureFromPubKey ::
    "('k \<Rightarrow> 'k \<Rightarrow> bool) \<Rightarrow> MultiSig option \<Rightarrow> SignatureData \<Rightarrow> 'k PubKey option \<Rightarrow> 'k PubKey list option
     \<Rightarrow> MultiSig res" where
  "AddSignatureFromPubKey eqk mSig sig pubkey keys =
     (case mSig of
        None \<Rightarrow> Inl (Err ''value of mSig is nil'')
      | Some m \<Rightarrow>
          if sig = NilSignatureData then Inl (Err ''value of sig is nil'')
          else
            case (pubkey, keys) of
              (Some pk, Some ks) \<Rightarrow>
                let index = getIndex eqk pk ks
                in if index = -1 then Inl (Err ''provided key does not exist in pubkeys'')
                   else AddSignature m sig index
            | _ \<Rightarrow> Inl (Err ''pubkey or keys can't be nil''))"

text \<open>\<open>SignatureV2\<close> of \<open>types/tx/signing/signature.go\<close>.\<close>

record 'k SignatureV2 =
  SPubKey :: "'k PubKey option"
  SData :: SignatureData
  SSequence :: "64 word"
  SSkipSequenceCheck :: bool

definition AddSignatureV2 ::
    "('k \<Rightarrow> 'k \<Rightarrow> bool) \<Rightarrow> MultiSig option \<Rightarrow> 'k SignatureV2 \<Rightarrow> 'k PubKey list option \<Rightarrow> MultiSig res" where
  "AddSignatureV2 eqk mSig sig keys = AddSignatureFromPubKey eqk mSig (SData sig) (SPubKey sig) keys"

section \<open>Conversions\<close>

fun proper :: "SignatureData \<Rightarrow> bool" where
  "proper NilSignatureData = False"
| "proper (SingleSignatureData mode sig) = True"
| "proper (MultiSignatureData ba ds) = list_all proper ds"

lemma decode_Marshal:
  "length (put_repeated 0x0a sigs []) < 2 ^ 63 \<Longrightarrow>
   decodeMultisignatures (MultiSignature_Marshal \<lparr>MSignatures = sigs, XXX_unrecognized = []\<rparr>) = Inr sigs"
  by (simp add: decodeMultisignatures_def MultiSignature_Unmarshal_Marshal)

lemma put_repeated_elem: "b \<in> set bs \<Longrightarrow> length b \<le> length (put_repeated t bs rest)"
  by (induction bs) (auto simp: put_repeated_def put_bytes_def)

lemma modeInfos_loop_map:
  "(\<And>d. d \<in> set ds \<Longrightarrow> ModeInfoAndSigToSignatureData (fst (f d)) (snd (f d)) = Inr d) \<Longrightarrow>
   modeInfos_loop (map (\<lambda>d. fst (f d)) ds) (map (\<lambda>d. snd (f d)) ds) = Inr ds"
  by (induction ds) simp_all

lemma ModeInfo_inverse:
  "proper d \<Longrightarrow> length (snd (SignatureDataToModeInfoAndSig d)) < 2 ^ 63 \<Longrightarrow>
   ModeInfoAndSigToSignatureData (fst (SignatureDataToModeInfoAndSig d)) (snd (SignatureDataToModeInfoAndSig d)) = Inr d"
proof (induction d rule: SignatureDataToModeInfoAndSig.induct)
  case (3 ba ds)
  let ?sigs = "map (\<lambda>d. snd (SignatureDataToModeInfoAndSig d)) ds"
  have len: "length (put_repeated 0x0a ?sigs []) < 2 ^ 63"
    using "3.prems"(2) by (simp add: MultiSignature_Marshal_def Let_def comp_def)
  have "ModeInfoAndSigToSignatureData (fst (SignatureDataToModeInfoAndSig d)) (snd (SignatureDataToModeInfoAndSig d)) = Inr d"
    if "d \<in> set ds" for d
  proof (rule "3.IH" [OF that])
    show "proper d" using "3.prems"(1) that by (simp add: list_all_iff)
    show "length (snd (SignatureDataToModeInfoAndSig d)) < 2 ^ 63"
      using put_repeated_elem [of "snd (SignatureDataToModeInfoAndSig d)" ?sigs "0x0a" "[]"] that len by auto
  qed
  then have "modeInfos_loop (map (\<lambda>d. fst (SignatureDataToModeInfoAndSig d)) ds) ?sigs = Inr ds"
    by (rule modeInfos_loop_map)
  with decode_Marshal [OF len] show ?case by (simp add: Let_def comp_def)
qed simp_all

lemma Proto_inverse:
  "proper d \<Longrightarrow> \<exists>p. SignatureDataToProto d = Inr p \<and> SignatureDataFromProto p = Inr d"
  "list_all proper ds \<Longrightarrow> \<exists>ps. toProto_loop ds = Inr ps \<and> fromProto_loop ps = Inr ds"
  by (induction d and ds rule: SignatureDataToProto_toProto_loop.induct) auto

text \<open>
  Signature data survive both encodings. Data without nil entries whose raw bytes fit an
  \<open>int\<close>-sized buffer are recovered from their mode info and raw signature (nested
  multi-signatures included, through the wire format of \<open>MultiSignature\<close>), and from their
  descriptor.
\<close>

theorem SignatureData_roundtrip:
  assumes "proper d"
  shows "(length (snd (SignatureDataToModeInfoAndSig d)) < 2 ^ 63 \<longrightarrow>
            ModeInfoAndSigToSignatureData (fst (SignatureDataToModeInfoAndSig d))
              (snd (SignatureDataToModeInfoAndSig d)) = Inr d)
       \<and> (\<exists>p. SignatureDataToProto d = Inr p \<and> SignatureDataFromProto p = Inr d)"
  using assms ModeInfo_inverse Proto_inverse(1) by blast

theorem SignatureData_roundtrip_witness:
  "let d = MultiSignatureData (NewCompactBitArray 2) [SingleSignatureData 1 [7], MultiSignatureData None []] in
   ModeInfoAndSigToSignatureData (fst (SignatureDataToModeInfoAndSig d)) (snd (SignatureDataToModeInfoAndSig d)) = Inr d"
proof -
  define d where "d = MultiSignatureData (NewCompactBitArray 2) [SingleSignatureData 1 [7], MultiSignatureData None []]"
  have "length (snd (SignatureDataToModeInfoAndSig d)) < 2 ^ 63"
    by (simp add: d_def Let_def MultiSignature_Marshal_def put_repeated_def put_bytes_def encodeVarint.simps)
  moreover have "proper d" by (simp add: d_def)
  ultimately show ?thesis unfolding d_def [symmetric] Let_def using SignatureData_roundtrip by blast
qed

section \<open>Collecting signatures\<close>

text \<open>What the client of a bit array relies on.\<close>

locale bit_vector =
  fixes wf :: "'b \<Rightarrow> bool" and bits :: "'b \<Rightarrow> bool list"
    and get :: "'b \<Rightarrow> int \<Rightarrow> bool res" and set_bit :: "'b \<Rightarrow> int \<Rightarrow> bool \<Rightarrow> ('b \<times> bool) res"
    and before :: "'b \<Rightarrow> int \<Rightarrow> int res"
  assumes get_bits: "wf b \<Longrightarrow> get b (int i) = Inr (i < length (bits b) \<and> bits b ! i)"
    and set_bits: "wf b \<Longrightarrow> i < length (bits b) \<Longrightarrow>
      \<exists>b'. set_bit b (int i) v = Inr (b', True) \<and> wf b' \<and> bits b' = (bits b)[i := v]"
    and before_bits: "wf b \<Longrightarrow> before b (int n) = Inr (int (length (filter id (take n (bits b)))))"

text \<open>The entry of every index: a list of values spread over the true bits.\<close>

fun spread :: "bool list \<Rightarrow> 'a list \<Rightarrow> 'a option list" where
  "spread [] vs = []"
| "spread (False # bs) vs = None # spread bs vs"
| "spread (True # bs) (v # vs) = Some v # spread bs vs"
| "spread (True # bs) [] = None # spread bs []"

lemma length_spread [simp]: "length (spread bs vs) = length bs"
  by (induction bs vs rule: spread.induct) auto

lemma spread_append:
  "length us = length (filter id as) \<Longrightarrow> spread (as @ bs) (us @ vs) = spread as us @ spread bs vs"
proof (induction as arbitrary: us)
  case (Cons a as)
  show ?case
  proof (cases a)
    case True
    then show ?thesis using Cons by (cases us) auto
  next
    case False
    then show ?thesis using Cons.IH [of us] Cons.prems by simp
  qed
qed simp

text \<open>
  A store that keeps the values of the set indices in the order of the indices: replacing and
  inserting a value at the rank of its index is an update of that index.
\<close>

locale sparse_store = bit_vector wf bits get set_bit before
  for wf :: "'b \<Rightarrow> bool" and bits :: "'b \<Rightarrow> bool list" and get set_bit before +
  fixes arr :: "'m \<Rightarrow> 'b" and vals :: "'m \<Rightarrow> 'a list" and mk :: "'b \<Rightarrow> 'a list \<Rightarrow> 'm"
    and add :: "'m \<Rightarrow> 'a \<Rightarrow> int \<Rightarrow> 'm res"
  assumes arr_mk [simp]: "arr (mk b vs) = b" and vals_mk [simp]: "vals (mk b vs) = vs"
    and add_present: "get (arr m) i = Inr True \<Longrightarrow> before (arr m) i = Inr (int k) \<Longrightarrow> k < length (vals m) \<Longrightarrow>
      add m s i = Inr (mk (arr m) ((vals m)[k := s]))"
    and add_absent: "get (arr m) i = Inr False \<Longrightarrow> before (arr m) i = Inr (int k) \<Longrightarrow> k \<le> length (vals m) \<Longrightarrow>
      set_bit (arr m) i True = Inr (b, x) \<Longrightarrow> add m s i = Inr (mk b (take k (vals m) @ s # drop k (vals m)))"
begin

definition inv :: "'m \<Rightarrow> bool" where
  "inv m \<longleftrightarrow> wf (arr m) \<and> length (vals m) = length (filter id (bits (arr m)))"

definition slots :: "'m \<Rightarrow> 'a option list" where
  "slots m = spread (bits (arr m)) (vals m)"

lemma add_slots:
  assumes "inv m" "i < length (bits (arr m))"
  shows "\<exists>m'. add m s (int i) = Inr m' \<and> inv m' \<and> length (bits (arr m')) = length (bits (arr m))
    \<and> slots m' = (slots m)[i := Some s]"
proof -
  define as where "as = take i (bits (arr m))"
  define cs where "cs = drop (Suc i) (bits (arr m))"
  define c where "c = bits (arr m) ! i"
  define k where "k = length (filter id as)"
  define us where "us = take k (vals m)"
  define vs where "vs = drop k (vals m)"
  have wf: "wf (arr m)" and len: "length (vals m) = length (filter id (bits (arr m)))"
    using assms(1) by (auto simp: inv_def)
  have bits: "bits (arr m) = as @ c # cs"
    using assms(2) by (simp add: as_def cs_def c_def id_take_nth_drop)
  have la: "length as = i" using assms(2) by (simp add: as_def)
  have lv: "length (vals m) = k + (if c then 1 else 0) + length (filter id cs)"
    unfolding len k_def bits by simp
  have vals: "vals m = us @ vs" "length us = k" using lv by (simp_all add: us_def vs_def)
  have bf: "before (arr m) (int i) = Inr (int k)"
    using before_bits [OF wf] by (simp add: k_def as_def)
  have gt: "get (arr m) (int i) = Inr c"
    using get_bits [OF wf] assms(2) by (simp add: c_def)
  show ?thesis
  proof (cases c)
    case True
    then obtain v vs' where vs: "vs = v # vs'" using lv vals by (cases vs) auto
    let ?m = "mk (arr m) (us @ s # vs')"
    have "add m s (int i) = Inr ?m"
      using add_present [of m "int i" k s] gt bf True lv vals vs by (simp add: list_update_append)
    moreover have "inv ?m" using wf len vals vs by (simp add: inv_def)
    moreover have "slots ?m = (slots m)[i := Some s]"
      using vals(2) la True unfolding slots_def arr_mk vals_mk vals(1) vs bits
      by (simp add: spread_append k_def list_update_append)
    ultimately show ?thesis by auto
  next
    case False
    obtain b where b: "set_bit (arr m) (int i) True = Inr (b, True)" "wf b" "bits b = (bits (arr m))[i := True]"
      using set_bits [OF wf assms(2), of True] by auto
    have bb: "bits b = as @ True # cs"
      unfolding b(3) bits using la by (simp add: list_update_append)
    let ?m = "mk b (us @ s # vs)"
    have "add m s (int i) = Inr ?m"
      using add_absent [of m "int i" k b True s] gt bf False lv b(1) by (simp add: us_def vs_def)
    moreover have "inv ?m" using b(2) bb lv vals False by (simp add: inv_def k_def)
    moreover have "slots ?m = (slots m)[i := Some s]"
      using vals(2) la False unfolding slots_def arr_mk vals_mk vals(1) bb bits
      by (simp add: spread_append k_def list_update_append)
    moreover have "length (bits b) = length (bits (arr m))" using b(3) by simp
    ultimately show ?thesis by auto
  qed
qed

end

interpretation compactBits: bit_vector wf_ptr abs_bits GetIndex SetIndex NumTrueBitsBefore
  by unfold_locales (rule GetIndex_abs, assumption, rule SetIndex_abs, assumption+, rule NumTrueBitsBefore_abs, assumption)

definition mkMultiSig :: "CompactBitArray option \<Rightarrow> SignatureData list \<Rightarrow> MultiSig" where
  "mkMultiSig b ss = \<lparr>MBitArray = b, MSigs = ss\<rparr>"

text \<open>The expansion by a dummy element, the shift and the write are an insertion.\<close>

lemma shift_insert:
  assumes "k < length ss"
  shows "(take (k + 1) (ss @ [x]) @ take (length (ss @ [x]) - (k + 1)) (drop k (ss @ [x])))[k := s] =
    take k ss @ s # drop k ss"
proof -
  have "ss = take k ss @ ss ! k # drop (Suc k) ss" using assms by (simp add: id_take_nth_drop)
  then obtain us v vs where ss: "ss = us @ v # vs" "length us = k" using assms by (metis length_take min.absorb4)
  then show ?thesis by (simp add: list_update_append)
qed

interpretation multisig: sparse_store wf_ptr abs_bits GetIndex SetIndex NumTrueBitsBefore
  MBitArray MSigs mkMultiSig AddSignature
proof unfold_locales
  fix m :: MultiSig and i :: int and k and s b x
  show "AddSignature m s i = Inr (mkMultiSig (MBitArray m) ((MSigs m)[k := s]))"
    if "GetIndex (MBitArray m) i = Inr True" "NumTrueBitsBefore (MBitArray m) i = Inr (int k)" "k < length (MSigs m)"
    using that by (cases m) (simp add: AddSignature_def mkMultiSig_def)
  show "AddSignature m s i = Inr (mkMultiSig b (take k (MSigs m) @ s # drop k (MSigs m)))"
    if "GetIndex (MBitArray m) i = Inr False" "NumTrueBitsBefore (MBitArray m) i = Inr (int k)"
      "k \<le> length (MSigs m)" "SetIndex (MBitArray m) i True = Inr (b, x)"
  proof (cases "k = length (MSigs m)")
    case True
    then show ?thesis using that by (simp add: AddSignature_def mkMultiSig_def)
  next
    case False
    then have "k < length (MSigs m)" using that(3) by simp
    from shift_insert [OF this, of "SingleSignatureData 0 []" s] False that show ?thesis
      by (simp add: AddSignature_def mkMultiSig_def Let_def)
  qed
qed (simp_all add: mkMultiSig_def)

text \<open>
  Collecting signatures. A multi-signature whose signature list has one entry per set bit
  stands for a table from key indices to signatures; \<open>AddSignature\<close> at an index of the table
  returns, keeps that shape, and updates exactly that entry, whether it was empty or not.
\<close>

theorem AddSignature_updates_slot:
  assumes "wf_ptr (MBitArray m)" "length (MSigs m) = length (filter id (abs_bits (MBitArray m)))"
    and "i < length (abs_bits (MBitArray m))"
  shows "\<exists>m'. AddSignature m sig (int i) = Inr m' \<and> wf_ptr (MBitArray m')
       \<and> length (MSigs m') = length (filter id (abs_bits (MBitArray m')))
       \<and> spread (abs_bits (MBitArray m')) (MSigs m') = (spread (abs_bits (MBitArray m)) (MSigs m))[i := Some sig]"
  using multisig.add_slots [of m i sig] assms unfolding multisig.inv_def multisig.slots_def by blast

theorem AddSignature_updates_slot_witness:
  "\<exists>m'. AddSignature (NewMultisig (int 3)) (SingleSignatureData 1 [9]) (int 1) = Inr m'
     \<and> spread (abs_bits (MBitArray m')) (MSigs m') = [None, Some (SingleSignatureData 1 [9]), None]"
proof -
  have "abs_bits (MBitArray (NewMultisig (int 3))) = [False, False, False]"
    using NewCompactBitArray_abs(2) [of 3] by (simp add: NewMultisig_def numeral_eq_Suc)
  moreover have "wf_ptr (MBitArray (NewMultisig (int 3)))" "MSigs (NewMultisig (int 3)) = []"
    using NewCompactBitArray_abs(1) [of 3] by (simp_all add: NewMultisig_def)
  ultimately show ?thesis
    using AddSignature_updates_slot [of "NewMultisig (int 3)" 1 "SingleSignatureData 1 [9]"] by auto
qed

section \<open>Verification\<close>

text \<open>
  What it means that a key attests a message: a single key verifies a signature of the sign bytes
  of its mode; a threshold key has at least \<open>t\<close> different key indices, each with a signature of
  the list that its key attests.
\<close>

inductive attests ::
    "('k \<Rightarrow> bytes \<Rightarrow> bytes \<Rightarrow> bool) \<Rightarrow> (32 word \<Rightarrow> bytes res) \<Rightarrow> 'k PubKey \<Rightarrow> SignatureData \<Rightarrow> bool"
  for verify getSignBytes where
  single: "getSignBytes mode = Inr msg \<Longrightarrow> verify k msg sig \<Longrightarrow>
     attests verify getSignBytes (SinglePubKey k) (SingleSignatureData mode sig)"
| multi: "I \<subseteq> {..<length ks} \<Longrightarrow> unat t \<le> card I \<Longrightarrow>
     (\<And>i. i \<in> I \<Longrightarrow> \<exists>s\<in>set ss. attests verify getSignBytes (ks ! i) s) \<Longrightarrow>
     attests verify getSignBytes (LegacyAminoPubKey t ks) (MultiSignatureData ba ss)"

inductive_cases attests_singleE [elim]:
  "attests verify getSignBytes (SinglePubKey k) (SingleSignatureData mode sig)"
inductive_cases attests_multiE [elim]:
  "attests verify getSignBytes (LegacyAminoPubKey t ks) (MultiSignatureData ba ss)"

lemma NumTrueBits_card:
  "NumTrueBitsBefore bA (int n) = Inr c \<Longrightarrow> c = int (card {i. i < n \<and> GetIndex bA (int i) = Inr True})"
proof -
  let ?f = "\<lambda>c i. bindR (GetIndex bA i) (\<lambda>b. Inr (if b then c + 1 else c))"
  have "foldR ?f (0::int) (map int [0 ..< n]) = Inr c \<Longrightarrow>
      c = int (card {i. i < n \<and> GetIndex bA (int i) = Inr True})" for c
  proof (induction n arbitrary: c)
    case (Suc n)
    then obtain c' b where c': "foldR ?f 0 (map int [0 ..< n]) = Inr c'" "GetIndex bA (int n) = Inr b"
        "c = (if b then c' + 1 else c')"
      by (auto simp: foldR_append)
    have "{i. i < Suc n \<and> GetIndex bA (int i) = Inr True} =
        (if b then insert n {i. i < n \<and> GetIndex bA (int i) = Inr True}
         else {i. i < n \<and> GetIndex bA (int i) = Inr True})"
      using c'(2) by (auto simp: less_Suc_eq)
    with Suc.IH [OF c'(1)] c'(3) show ?case by simp
  qed simp
  then show "NumTrueBitsBefore bA (int n) = Inr c \<Longrightarrow> ?thesis" by (simp add: NumTrueBitsBefore_def)
qed

lemma verify_sound:
  "VerifyMultisignature verify g t ks ba ss = Inr () \<Longrightarrow>
     attests verify g (LegacyAminoPubKey t ks) (MultiSignatureData ba ss)"
  "verify_loop verify g ks ba is ss = Inr () \<Longrightarrow>
     i \<in> set is \<Longrightarrow> GetIndex ba (int i) = Inr True \<Longrightarrow> \<exists>s\<in>set ss. attests verify g (ks ! i) s"
proof (induction verify g t ks ba ss and verify g ks ba "is" ss arbitrary: and i
    rule: VerifyMultisignature_verify_loop.induct)
  case (1 verify g t ks ba ss)
  from "1.prems" obtain n where n: "int (length ks) = Count ba" "NumTrueBitsBefore ba (Count ba) = Inr n"
      "int (unat t) \<le> n" "verify_loop verify g ks ba [0 ..< nat (Count ba)] ss = Inr ()"
    by (auto simp: VerifyMultisignature.simps [of verify g t ks ba ss] Let_def not_less split: if_splits)
  let ?I = "{i. i < length ks \<and> GetIndex ba (int i) = Inr True}"
  have "n = int (card ?I)" using NumTrueBits_card [of ba "length ks" n] n(1,2) by simp
  then have "unat t \<le> card ?I" using n(3) by linarith
  moreover have "\<exists>s\<in>set ss. attests verify g (ks ! i) s" if "i \<in> ?I" for i
    using "1.IH" [OF refl _ _ n(2) _ n(4), of i] that n(1,3) "1.prems"
    by (auto simp: VerifyMultisignature.simps [of verify g t ks ba ss] Let_def split: if_splits)
  ultimately show ?case by (intro attests.multi [of ?I]) auto
next
  case (2 verify g ks ba sigs)
  then show ?case by simp
next
  case (3 verify g ks ba j js sigs)
  from "3.prems"(1) obtain b where b: "GetIndex ba (int j) = Inr b" by auto
  show ?case
  proof (cases b)
    case False
    with b "3.prems" have "verify_loop verify g ks ba js sigs = Inr ()" "i \<in> set js" by auto
    then show ?thesis using "3.IH"(4) [OF b] False "3.prems"(3) by blast
  next
    case True
    with b "3.prems"(1) obtain si rest where sigs: "sigs = si # rest" by (cases sigs) auto
    show ?thesis
    proof (cases si)
      case NilSignatureData
      with b True "3.prems"(1) sigs show ?thesis by simp
    next
      case (SingleSignatureData mode sig)
      with b True "3.prems"(1) sigs obtain msg where
        msg: "g mode = Inr msg" "VerifySignature verify (ks ! j) msg sig = Inr True" "verify_loop verify g ks ba js rest = Inr ()"
        by (auto split: if_splits)
      from msg(2) obtain k where "ks ! j = SinglePubKey k" "verify k msg sig"
        by (cases "ks ! j") auto
      then have "attests verify g (ks ! j) si"
        using msg(1) SingleSignatureData attests.single by metis
      moreover have "\<exists>s\<in>set rest. attests verify g (ks ! i) s" if "i \<in> set js"
        using "3.IH"(1) [OF b True sigs SingleSignatureData msg(1,2)] msg(3) that "3.prems"(3) by simp
      ultimately show ?thesis using "3.prems"(2) sigs by auto
    next
      case (MultiSignatureData ba' ss')
      with b True "3.prems"(1) sigs obtain t' ks' where
        m: "ks ! j = LegacyAminoPubKey t' ks'" "VerifyMultisignature verify g t' ks' ba' ss' = Inr ()"
          "verify_loop verify g ks ba js rest = Inr ()"
        by (auto split: PubKey.splits)
      have "attests verify g (ks ! j) si"
        using "3.IH"(2) [OF b True sigs MultiSignatureData m(1,2)] m(1) MultiSignatureData by simp
      moreover have "\<exists>s\<in>set rest. attests verify g (ks ! i) s" if "i \<in> set js"
        using "3.IH"(3) [OF b True sigs MultiSignatureData m(1,2)] m(3) that "3.prems"(3) by simp
      ultimately show ?thesis using "3.prems"(2) sigs by auto
    qed
  qed
qed


text \<open>
  The entries of a table are checked one by one: for an accepting list of indices, the loop
  consumes exactly the signatures of the set bits.
\<close>

definition accepted :: "('k \<Rightarrow> bytes \<Rightarrow> bytes \<Rightarrow> bool) \<Rightarrow> (32 word \<Rightarrow> bytes res) \<Rightarrow> 'k PubKey \<Rightarrow> SignatureData \<Rightarrow> bool" where
  "accepted verify g pk s =
     (case (pk, s) of
        (SinglePubKey k, SingleSignatureData mode sig) \<Rightarrow>
          (case g mode of Inr msg \<Rightarrow> verify k msg sig | Inl _ \<Rightarrow> False)
      | _ \<Rightarrow> False)"

lemma verify_loop_complete:
  assumes wf: "wf_ptr ba"
  shows "n + m = length (abs_bits ba) \<Longrightarrow> length ss = length (filter id (drop n (abs_bits ba))) \<Longrightarrow>
    (\<And>i s. i < m \<Longrightarrow> spread (drop n (abs_bits ba)) ss ! i = Some s \<Longrightarrow> accepted verify g (ks ! (n + i)) s) \<Longrightarrow>
    verify_loop verify g ks ba [n ..< n + m] ss = Inr ()"
proof (induction m arbitrary: n ss)
  case (Suc m)
  let ?bs = "abs_bits ba"
  have n: "n < length ?bs" using Suc.prems(1) by simp
  have drop: "drop n ?bs = ?bs ! n # drop (Suc n) ?bs" using n by (simp add: Cons_nth_drop_Suc)
  have get: "GetIndex ba (int n) = Inr (?bs ! n)" using GetIndex_abs [OF wf, of n] n by simp
  have upt: "[n ..< n + Suc m] = n # [Suc n ..< Suc n + m]" by (simp add: upt_conv_Cons)
  show ?case
  proof (cases "?bs ! n")
    case True
    with Suc.prems(2) drop obtain s rest where ss: "ss = s # rest" by (cases ss) auto
    have "accepted verify g (ks ! n) s" using Suc.prems(3) [of 0 s] True drop ss by simp
    then obtain k mode sig msg where s: "ks ! n = SinglePubKey k" "s = SingleSignatureData mode sig"
        "g mode = Inr msg" "verify k msg sig"
      by (auto simp: accepted_def split: PubKey.splits SignatureData.splits sum.splits)
    have "verify_loop verify g ks ba [Suc n ..< Suc n + m] rest = Inr ()"
      using Suc.prems True drop ss Suc.prems(3) [of "Suc _"] by (intro Suc.IH) auto
    with s True get ss show ?thesis unfolding upt by simp
  next
    case False
    have "verify_loop verify g ks ba [Suc n ..< Suc n + m] ss = Inr ()"
      using Suc.prems False drop Suc.prems(3) [of "Suc _"] by (intro Suc.IH) auto
    with False get show ?thesis unfolding upt by simp
  qed
qed simp

text \<open>Adding a list of signatures, each at the index of its key.\<close>

definition collect :: "nat \<Rightarrow> (nat \<times> SignatureData) list \<Rightarrow> MultiSig res" where
  "collect n entries = foldR (\<lambda>m (i, s). AddSignature m s (int i)) (NewMultisig (int n)) entries"

lemma spread_none [simp]: "spread (replicate n False) vs = replicate n None"
  by (induction n) auto

lemma spread_Some_iff:
  "length vs = length (filter id bs) \<Longrightarrow> i < length bs \<Longrightarrow> spread bs vs ! i \<noteq> None \<longleftrightarrow> bs ! i"
proof (induction bs vs arbitrary: i rule: spread.induct)
  case (2 bs vs)
  then show ?case by (cases i) auto
next
  case (3 bs v vs)
  then show ?case by (cases i) auto
qed auto

lemma collect_slots:
  "\<forall>(i, s)\<in>set entries. i < n \<Longrightarrow>
   \<exists>m. collect n entries = Inr m \<and> multisig.inv m \<and> length (abs_bits (MBitArray m)) = n
     \<and> multisig.slots m = foldl (\<lambda>L (i, s). L[i := Some s]) (replicate n None) entries"
proof (induction entries rule: rev_induct)
  case Nil
  then show ?case
    using NewCompactBitArray_abs [of n]
    by (simp add: collect_def NewMultisig_def multisig.inv_def multisig.slots_def)
next
  case (snoc e entries)
  obtain i s where e: "e = (i, s)" by (cases e)
  from snoc obtain m where m: "collect n entries = Inr m" "multisig.inv m" "length (abs_bits (MBitArray m)) = n"
      "multisig.slots m = foldl (\<lambda>L (i, s). L[i := Some s]) (replicate n None) entries"
    by auto
  from multisig.add_slots [OF m(2), of i s] snoc.prems e m(1,3,4) show ?case
    by (auto simp: collect_def foldR_append)
qed

lemma slots_entries:
  fixes entries :: "(nat \<times> 'a) list"
  assumes "L = foldl (\<lambda>L (i, s). L[i := Some s]) (replicate n None) entries" "\<forall>(i, s)\<in>set entries. i < n"
  shows "length L = n \<and> (\<forall>i s. i < n \<longrightarrow> L ! i = Some s \<longrightarrow> (i, s) \<in> set entries)
    \<and> (\<forall>i<n. L ! i \<noteq> None \<longleftrightarrow> i \<in> fst ` set entries)"
  using assms
proof (induction entries arbitrary: L rule: rev_induct)
  case (snoc e entries)
  obtain i s where e: "e = (i, s)" by (cases e)
  let ?L = "foldl (\<lambda>L (i, s). L[i := Some s]) (replicate n None) entries"
  have IH: "length ?L = n \<and> (\<forall>i s. i < n \<longrightarrow> ?L ! i = Some s \<longrightarrow> (i, s) \<in> set entries)
    \<and> (\<forall>i<n. ?L ! i \<noteq> None \<longleftrightarrow> i \<in> fst ` set entries)"
    using snoc.prems(2) by (intro snoc.IH) auto
  have L: "L = ?L[i := Some s]" using snoc.prems(1) e by simp
  have "i < length ?L" using IH snoc.prems(2) e by simp
  then have nth: "L ! j = (if i = j then Some s else ?L ! j)" for j
    unfolding L by (rule nth_list_update)
  have "length L = n" using IH L by simp
  moreover have "\<forall>j x. j < n \<longrightarrow> L ! j = Some x \<longrightarrow> (j, x) \<in> set (entries @ [e])"
    using IH e by (auto simp: nth split: if_splits)
  moreover have "\<forall>j<n. L ! j \<noteq> None \<longleftrightarrow> j \<in> fst ` set (entries @ [e])"
    using IH e by (auto simp: nth split: if_splits)
  ultimately show ?case by blast
qed simp

lemma length_filter_card: "length (filter id bs) = card {i. i < length bs \<and> bs ! i}"
  by (simp add: length_filter_conv_card)

text \<open>
  \<^bold>\<open>C5.\<close> What is collected is accepted. Take the keys of a threshold key, and add, in any order and
  with repetitions, signatures that the single keys at their indices verify. If signatures
  of at least the threshold's number of different indices were added, then collecting them
  succeeds and \<open>VerifyMultisignature\<close> accepts the result.
\<close>

theorem collected_signatures_verify:
  assumes "\<forall>(i, s)\<in>set entries. i < length ks \<and> accepted verify g (ks ! i) s"
    and "unat t \<le> card (fst ` set entries)"
  shows "\<exists>m. collect (length ks) entries = Inr m
       \<and> VerifyMultisignature verify g t ks (MBitArray m) (MSigs m) = Inr ()"
proof -
  let ?n = "length ks"
  have less: "\<forall>(i, s)\<in>set entries. i < ?n" using assms(1) by auto
  obtain m where m: "collect ?n entries = Inr m" "multisig.inv m" "length (abs_bits (MBitArray m)) = ?n"
      "multisig.slots m = foldl (\<lambda>L (i, s). L[i := Some s]) (replicate ?n None) entries"
    using collect_slots [OF less] by auto
  note slots = slots_entries [OF m(4) less]
  let ?bs = "abs_bits (MBitArray m)"
  have wf: "wf_ptr (MBitArray m)" and len: "length (MSigs m) = length (filter id ?bs)"
    using m(2) by (simp_all add: multisig.inv_def)
  have "{i. i < ?n \<and> ?bs ! i} = fst ` set entries"
  proof -
    have "i < ?n \<and> ?bs ! i \<longleftrightarrow> i < ?n \<and> i \<in> fst ` set entries" for i
      using slots spread_Some_iff [OF len, of i] m(3) by (auto simp: multisig.slots_def)
    moreover have "i < ?n" if "i \<in> fst ` set entries" for i using that less by auto
    ultimately show ?thesis by blast
  qed
  then have cnt: "unat t \<le> length (MSigs m)"
    using assms(2) m(3) by (simp add: len length_filter_card)
  have "verify_loop verify g ks (MBitArray m) [0 ..< 0 + ?n] (MSigs m) = Inr ()"
  proof (rule verify_loop_complete [OF wf])
    show "accepted verify g (ks ! (0 + i)) s"
      if "i < ?n" "spread (drop 0 ?bs) (MSigs m) ! i = Some s" for i s
      using that slots assms(1) by (auto simp: multisig.slots_def)
  qed (use m(3) len in simp_all)
  moreover have "Count (MBitArray m) = int ?n" using Count_wf [OF wf] m(3) by simp
  moreover have "NumTrueBitsBefore (MBitArray m) (int ?n) = Inr (int (length (MSigs m)))"
    using NumTrueBitsBefore_abs [OF wf, of ?n] m(3) len by simp
  moreover have "length (MSigs m) \<le> ?n" using len m(3) length_filter_le [of id ?bs] by simp
  ultimately have "VerifyMultisignature verify g t ks (MBitArray m) (MSigs m) = Inr ()"
    using cnt by (subst VerifyMultisignature.simps) (simp add: Let_def not_less del: of_nat_unat)
  with m(1) show ?thesis by blast
qed

theorem collected_signatures_verify_witness:
  "\<exists>m. collect 2 [(1, SingleSignatureData 1 [5])] = Inr m
     \<and> VerifyMultisignature (\<lambda>k msg sig. sig = k) (\<lambda>mode. Inr []) 1
         [SinglePubKey [4], SinglePubKey [5]] (MBitArray m) (MSigs m) = Inr ()"
  using collected_signatures_verify
    [of "[(1, SingleSignatureData 1 [5])]" "[SinglePubKey [4], SinglePubKey [5]]" "\<lambda>k msg sig. sig = k" "\<lambda>mode. Inr []" 1]
  by (simp add: accepted_def numeral_2_eq_2)


text \<open>
  The list may be shorter than the number of set bits, as long as it reaches the threshold: the
  loop then reads behind its end.
\<close>

lemma VerifyMultisignature_out_of_range:
  "VerifyMultisignature (\<lambda>k msg sig. sig = k) (\<lambda>mode. Inr []) 1 [SinglePubKey [4], SinglePubKey [5]]
     (Some \<lparr>ExtraBitsStored = 2, Elems = [0xc0]\<rparr>) [SingleSignatureData 1 [4]] = Inl index_panic"
  by (simp add: VerifyMultisignature.simps Count_def NumTrueBitsBefore_def GetIndex_def in_elems_def
      bit_mask_def upt_rec Let_def)

end
