(* ===== verification/TxBuilder.thy ===== *)
theory TxBuilder
  imports Multisig SdkDecCoin
begin

text \<open>
  Transactions: \<open>types/tx/types.go\<close>, \<open>types/tx/builder.go\<close> (the wrapper and its cached bytes),
  \<open>types/tx/direct.go\<close>, \<open>types/tx/mode_handler.go\<close>, \<open>types/handler_map.go\<close> (sign modes),
  \<open>types/tx/encoder.go\<close>, \<open>types/tx/decoder.go\<close> and \<open>client/tx/factory.go\<close>. The codecs of messages,
  keys, bodies and auth infos (generated code and gogo/protobuf), the Bech32 text of addresses and
  the key manager are parameters, collected in records.
\<close>

section \<open>Data\<close>

text \<open>\<open>Any\<close> of \<open>codec/types/any.go\<close>, with the cached value of type \<open>'v\<close>.\<close>

record 'v Any =
  TypeUrl :: string
  AnyValue :: bytes
  cachedValue :: "'v option"

record 'm TxBody =
  Messages :: "'m Any list"
  Memo :: string
  TimeoutHeight :: "64 word"
  ExtensionOptions :: "'m Any list"
  NonCriticalExtensionOptions :: "'m Any list"

record 'k SignerInfo =
  PublicKey :: "'k PubKey Any option"
  SModeInfo :: ModeInfo
  SISequence :: "64 word"

record Fee =
  FeeAmount :: Coins
  GasLimit :: "64 word"
  Payer :: string
  Granter :: string

record 'k AuthInfo =
  SignerInfos :: "'k SignerInfo list"
  AFee :: "Fee option"

record ('m, 'k) Tx =
  TBody :: "'m TxBody option"
  TAuthInfo :: "'k AuthInfo option"
  TSignatures :: "bytes list"

text \<open>The wrapper; an empty byte list is the unset cache.\<close>

record ('m, 'k) wrapper =
  wtx :: "('m, 'k) Tx"
  bodyBz :: bytes
  authInfoBz :: bytes
  txBodyHasUnknownNonCriticals :: bool

text \<open>The codecs and address functions that the wrapper calls.\<close>

record ('m, 'k) Codec =
  msgName :: "'m \<Rightarrow> string"
  msgMarshal :: "'m \<Rightarrow> bytes res"
  msgSigners :: "'m \<Rightarrow> bytes list"
  keyName :: "'k PubKey \<Rightarrow> string"
  keyMarshal :: "'k PubKey \<Rightarrow> bytes res"
  bodyMarshal :: "'m TxBody \<Rightarrow> bytes res"
  authMarshal :: "'k AuthInfo \<Rightarrow> bytes res"
  accString :: "bytes \<Rightarrow> string"
  accFromBech32 :: "string \<Rightarrow> bytes res"
  txJSON :: "('m, 'k) Tx \<Rightarrow> bytes res"

section \<open>\<open>Any\<close>\<close>

definition NewAnyWithValue :: "('v \<Rightarrow> string) \<Rightarrow> ('v \<Rightarrow> bytes res) \<Rightarrow> 'v \<Rightarrow> 'v Any res" where
  "NewAnyWithValue name marshal x =
     bindR (marshal x) (\<lambda>bz. Inr \<lparr>TypeUrl = CHR ''/'' # name x, AnyValue = bz, cachedValue = Some x\<rparr>)"

definition PubKeyToAny :: "('m, 'k) Codec \<Rightarrow> 'k PubKey option \<Rightarrow> 'k PubKey Any res" where
  "PubKeyToAny cdc key =
     (case key of
        None \<Rightarrow> Inl (Err ''err invalid key, can't proto encode <nil>'')
      | Some pk \<Rightarrow> NewAnyWithValue (keyName cdc) (keyMarshal cdc) pk)"

section \<open>\<open>Tx\<close> (\<open>types/tx/types.go\<close>)\<close>

definition MaxGasWanted :: "64 word" where
  "MaxGasWanted = of_nat (2 ^ 63 - 1)"

text \<open>The type assertion on the cached value panics when nothing is cached.\<close>

definition cached_msg :: "'m Any \<Rightarrow> 'm res" where
  "cached_msg any = (case cachedValue any of None \<Rightarrow> Inl (Panic ''interface conversion: interface is nil'') | Some m \<Rightarrow> Inr m)"

definition Tx_GetMsgs :: "('m, 'k) Tx \<Rightarrow> ('m list) res" where
  "Tx_GetMsgs t = (case TBody t of None \<Rightarrow> Inr [] | Some body \<Rightarrow> mapR cached_msg (Messages body))"

definition add_signer :: "('m, 'k) Codec \<Rightarrow> bytes list \<times> string set \<Rightarrow> bytes \<Rightarrow> bytes list \<times> string set" where
  "add_signer cdc st addr =
     (case st of (signers, seen) \<Rightarrow>
        if accString cdc addr \<in> seen then (signers, seen)
        else (signers @ [addr], insert (accString cdc addr) seen))"

definition Tx_GetSigners :: "('m, 'k) Codec \<Rightarrow> ('m, 'k) Tx \<Rightarrow> (bytes list) res" where
  "Tx_GetSigners cdc t =
     bindR (Tx_GetMsgs t) (\<lambda>msgs. Inr (fst (foldl (add_signer cdc) ([], {}) (concat (map (msgSigners cdc) msgs)))))"

definition Tx_ValidateBasic :: "('m, 'k) Codec \<Rightarrow> ('m, 'k) Tx option \<Rightarrow> unit res" where
  "Tx_ValidateBasic cdc tx =
     (case tx of
        None \<Rightarrow> Inl (Err ''bad Tx'')
      | Some t \<Rightarrow>
          (case TBody t of
             None \<Rightarrow> Inl (Err ''missing TxBody'')
           | Some body \<Rightarrow>
               (case TAuthInfo t of
                  None \<Rightarrow> Inl (Err ''missing AuthInfo'')
                | Some authInfo \<Rightarrow>
                    (case AFee authInfo of
                       None \<Rightarrow> Inl (Err ''missing fee'')
                     | Some fee \<Rightarrow>
                         if MaxGasWanted < GasLimit fee then Inl (Err ''invalid gas supplied'')
                         else if Coins_IsAnyNegative (FeeAmount fee)
                         then Inl (Err (''invalid fee provided: '' @ Coins_String (FeeAmount fee)))
                         else if length (TSignatures t) = 0 then Inl (Err ''no signatures supplied'')
                         else bindR (Tx_GetSigners cdc t) (\<lambda>signers.
                           if length (TSignatures t) \<noteq> length signers then Inl (Err ''wrong number of signers'')
                           else Inr ())))))"

section \<open>The wrapper (\<open>types/tx/builder.go\<close>)\<close>

definition newBuilder :: "('m, 'k) wrapper" where
  "newBuilder =
     \<lparr>wtx = \<lparr>TBody = Some \<lparr>Messages = [], Memo = [], TimeoutHeight = 0, ExtensionOptions = [], NonCriticalExtensionOptions = []\<rparr>,
             TAuthInfo = Some \<lparr>SignerInfos = [], AFee = Some \<lparr>FeeAmount = [], GasLimit = 0, Payer = [], Granter = []\<rparr>\<rparr>,
             TSignatures = []\<rparr>,
      bodyBz = [], authInfoBz = [], txBodyHasUnknownNonCriticals = False\<rparr>"

definition WrapTx :: "('m, 'k) Tx \<Rightarrow> ('m, 'k) wrapper" where
  "WrapTx protoTx = \<lparr>wtx = protoTx, bodyBz = [], authInfoBz = [], txBodyHasUnknownNonCriticals = False\<rparr>"

definition body_of :: "('m, 'k) wrapper \<Rightarrow> 'm TxBody res" where
  "body_of w = (case TBody (wtx w) of None \<Rightarrow> Inl nil_deref | Some b \<Rightarrow> Inr b)"

definition auth_of :: "('m, 'k) wrapper \<Rightarrow> 'k AuthInfo res" where
  "auth_of w = (case TAuthInfo (wtx w) of None \<Rightarrow> Inl nil_deref | Some a \<Rightarrow> Inr a)"

definition fee_of :: "('m, 'k) wrapper \<Rightarrow> Fee res" where
  "fee_of w = bindR (auth_of w) (\<lambda>a. case AFee a of None \<Rightarrow> Inl nil_deref | Some f \<Rightarrow> Inr f)"

text \<open>The generated marshaller of a nil body or auth info dereferences it.\<close>

definition getBodyBytes :: "('m, 'k) Codec \<Rightarrow> ('m, 'k) wrapper \<Rightarrow> (('m, 'k) wrapper \<times> bytes) res" where
  "getBodyBytes cdc w =
     (if length (bodyBz w) = 0 then
        bindR (bindR (body_of w) (\<lambda>b. panic_err (bodyMarshal cdc b)))
          (\<lambda>bz. Inr (w\<lparr>bodyBz := bz\<rparr>, bz))
      else Inr (w, bodyBz w))"

definition getAuthInfoBytes :: "('m, 'k) Codec \<Rightarrow> ('m, 'k) wrapper \<Rightarrow> (('m, 'k) wrapper \<times> bytes) res" where
  "getAuthInfoBytes cdc w =
     (if length (authInfoBz w) = 0 then
        bindR (bindR (auth_of w) (\<lambda>a. panic_err (authMarshal cdc a)))
          (\<lambda>bz. Inr (w\<lparr>authInfoBz := bz\<rparr>, bz))
      else Inr (w, authInfoBz w))"

definition GetPubKeys :: "('m, 'k) wrapper \<Rightarrow> ('k PubKey option list) res" where
  "GetPubKeys w =
     bindR (auth_of w) (\<lambda>a.
       Inr (map (\<lambda>si. case PublicKey si of None \<Rightarrow> None | Some any \<Rightarrow> cachedValue any) (SignerInfos a)))"

definition GetGas :: "('m, 'k) wrapper \<Rightarrow> (64 word) res" where
  "GetGas w = bindR (fee_of w) (\<lambda>f. Inr (GasLimit f))"

definition GetFee :: "('m, 'k) wrapper \<Rightarrow> Coins res" where
  "GetFee w = bindR (fee_of w) (\<lambda>f. Inr (FeeAmount f))"

definition FeePayer :: "('m, 'k) Codec \<Rightarrow> ('m, 'k) wrapper \<Rightarrow> bytes res" where
  "FeePayer cdc w =
     bindR (fee_of w) (\<lambda>f.
       if Payer f \<noteq> [] then panic_err (accFromBech32 cdc (Payer f))
       else bindR (Tx_GetSigners cdc (wtx w)) (\<lambda>signers.
         case signers of [] \<Rightarrow> Inl index_panic | s # _ \<Rightarrow> Inr s))"

definition FeeGranter :: "('m, 'k) Codec \<Rightarrow> ('m, 'k) wrapper \<Rightarrow> bytes res" where
  "FeeGranter cdc w =
     bindR (fee_of w) (\<lambda>f. if Granter f \<noteq> [] then panic_err (accFromBech32 cdc (Granter f)) else Inr [])"

definition GetMemo :: "('m, 'k) wrapper \<Rightarrow> string res" where
  "GetMemo w = bindR (body_of w) (\<lambda>b. Inr (Memo b))"

definition GetTimeoutHeight :: "('m, 'k) wrapper \<Rightarrow> (64 word) res" where
  "GetTimeoutHeight w = bindR (body_of w) (\<lambda>b. Inr (TimeoutHeight b))"

text \<open>The loop over the signer infos takes the raw signature at the same index.\<close>

fun GetSignaturesV2_loop :: "'k SignerInfo list \<Rightarrow> bytes list \<Rightarrow> 'k PubKey option list \<Rightarrow> ('k SignatureV2 list) res" where
  "GetSignaturesV2_loop [] sigs pks = Inr []"
| "GetSignaturesV2_loop (si # sis) sigs pks =
     bindR (if SModeInfo si = NilModeInfo
            then Inr \<lparr>SPubKey = hd pks, SData = NilSignatureData, SSequence = 0, SSkipSequenceCheck = False\<rparr>
            else case sigs of
                   [] \<Rightarrow> Inl index_panic
                 | s # _ \<Rightarrow>
                     bindR (ModeInfoAndSigToSignatureData (SModeInfo si) s) (\<lambda>d.
                       Inr \<lparr>SPubKey = hd pks, SData = d, SSequence = SISequence si, SSkipSequenceCheck = False\<rparr>))
       (\<lambda>r. bindR (GetSignaturesV2_loop sis (tl sigs) (tl pks)) (\<lambda>rs. Inr (r # rs)))"

definition GetSignaturesV2 :: "('m, 'k) wrapper \<Rightarrow> ('k SignatureV2 list) res" where
  "GetSignaturesV2 w =
     bindR (auth_of w) (\<lambda>a.
     bindR (GetPubKeys w) (\<lambda>pubKeys. GetSignaturesV2_loop (SignerInfos a) (TSignatures (wtx w)) pubKeys))"

text \<open>The setters: each one resets the cache of the part it changes.\<close>

definition upd_body :: "('m TxBody \<Rightarrow> 'm TxBody) \<Rightarrow> ('m, 'k) wrapper \<Rightarrow> ('m, 'k) wrapper res" where
  "upd_body f w = bindR (body_of w) (\<lambda>b. Inr (w\<lparr>wtx := (wtx w)\<lparr>TBody := Some (f b)\<rparr>, bodyBz := []\<rparr>))"

definition upd_auth :: "('k AuthInfo \<Rightarrow> 'k AuthInfo) \<Rightarrow> ('m, 'k) wrapper \<Rightarrow> ('m, 'k) wrapper res" where
  "upd_auth f w = bindR (auth_of w) (\<lambda>a. Inr (w\<lparr>wtx := (wtx w)\<lparr>TAuthInfo := Some (f a)\<rparr>, authInfoBz := []\<rparr>))"

definition upd_fee :: "(Fee \<Rightarrow> Fee) \<Rightarrow> ('m, 'k) wrapper \<Rightarrow> ('m, 'k) wrapper res" where
  "upd_fee f w =
     upd_auth (\<lambda>a. a\<lparr>AFee := Some (f (case AFee a of
        None \<Rightarrow> \<lparr>FeeAmount = [], GasLimit = 0, Payer = [], Granter = []\<rparr> | Some fee \<Rightarrow> fee))\<rparr>) w"

definition SetMsgs :: "('m, 'k) Codec \<Rightarrow> 'm list \<Rightarrow> ('m, 'k) wrapper \<Rightarrow> ('m, 'k) wrapper res" where
  "SetMsgs cdc msgs w =
     bindR (mapR (NewAnyWithValue (msgName cdc) (msgMarshal cdc)) msgs) (\<lambda>anys.
       upd_body (\<lambda>b. b\<lparr>Messages := anys\<rparr>) w)"

definition SetTimeoutHeight :: "64 word \<Rightarrow> ('m, 'k) wrapper \<Rightarrow> ('m, 'k) wrapper res" where
  "SetTimeoutHeight height w = upd_body (\<lambda>b. b\<lparr>TimeoutHeight := height\<rparr>) w"

definition SetMemo :: "string \<Rightarrow> ('m, 'k) wrapper \<Rightarrow> ('m, 'k) wrapper res" where
  "SetMemo memo w = upd_body (\<lambda>b. b\<lparr>Memo := memo\<rparr>) w"

definition SetExtensionOptions :: "'m Any list \<Rightarrow> ('m, 'k) wrapper \<Rightarrow> ('m, 'k) wrapper res" where
  "SetExtensionOptions opts w = upd_body (\<lambda>b. b\<lparr>ExtensionOptions := opts\<rparr>) w"

definition SetNonCriticalExtensionOptions :: "'m Any list \<Rightarrow> ('m, 'k) wrapper \<Rightarrow> ('m, 'k) wrapper res" where
  "SetNonCriticalExtensionOptions opts w = upd_body (\<lambda>b. b\<lparr>NonCriticalExtensionOptions := opts\<rparr>) w"

definition SetGasLimit :: "64 word \<Rightarrow> ('m, 'k) wrapper \<Rightarrow> ('m, 'k) wrapper res" where
  "SetGasLimit limit w = upd_fee (\<lambda>f. f\<lparr>GasLimit := limit\<rparr>) w"

definition SetFeeAmount :: "Coins \<Rightarrow> ('m, 'k) wrapper \<Rightarrow> ('m, 'k) wrapper res" where
  "SetFeeAmount cs w = upd_fee (\<lambda>f. f\<lparr>FeeAmount := cs\<rparr>) w"

definition SetFeePayer :: "('m, 'k) Codec \<Rightarrow> bytes \<Rightarrow> ('m, 'k) wrapper \<Rightarrow> ('m, 'k) wrapper res" where
  "SetFeePayer cdc addr w = upd_fee (\<lambda>f. f\<lparr>Payer := accString cdc addr\<rparr>) w"

definition SetFeeGranter :: "('m, 'k) Codec \<Rightarrow> bytes \<Rightarrow> ('m, 'k) wrapper \<Rightarrow> ('m, 'k) wrapper res" where
  "SetFeeGranter cdc addr w = upd_fee (\<lambda>f. f\<lparr>Granter := accString cdc addr\<rparr>) w"

definition setSignerInfos :: "'k SignerInfo list \<Rightarrow> ('m, 'k) wrapper \<Rightarrow> ('m, 'k) wrapper res" where
  "setSignerInfos infos w = upd_auth (\<lambda>a. a\<lparr>SignerInfos := infos\<rparr>) w"

definition setSignatures :: "bytes list \<Rightarrow> ('m, 'k) wrapper \<Rightarrow> ('m, 'k) wrapper" where
  "setSignatures sigs w = w\<lparr>wtx := (wtx w)\<lparr>TSignatures := sigs\<rparr>\<rparr>"

definition signer_info :: "('m, 'k) Codec \<Rightarrow> 'k SignatureV2 \<Rightarrow> ('k SignerInfo \<times> bytes) res" where
  "signer_info cdc sig =
     (case SignatureDataToModeInfoAndSig (SData sig) of (modeInfo, raw) \<Rightarrow>
        bindR (PubKeyToAny cdc (SPubKey sig)) (\<lambda>any.
          Inr (\<lparr>PublicKey = Some any, SModeInfo = modeInfo, SISequence = SSequence sig\<rparr>, raw)))"

definition SetSignatures :: "('m, 'k) Codec \<Rightarrow> 'k SignatureV2 list \<Rightarrow> ('m, 'k) wrapper \<Rightarrow> ('m, 'k) wrapper res" where
  "SetSignatures cdc signatures w =
     bindR (mapR (signer_info cdc) signatures) (\<lambda>ps.
     bindR (setSignerInfos (map fst ps) w) (\<lambda>w1. Inr (setSignatures (map snd ps) w1)))"

section \<open>Sign modes\<close>

definition SIGN_MODE_UNSPECIFIED :: "32 word" where "SIGN_MODE_UNSPECIFIED = 0"
definition SIGN_MODE_DIRECT :: "32 word" where "SIGN_MODE_DIRECT = 1"
definition SIGN_MODE_LEGACY_AMINO_JSON :: "32 word" where "SIGN_MODE_LEGACY_AMINO_JSON = 127"

record SignerData =
  SDChainID :: string
  SDAccountNumber :: "64 word"
  SDSequence :: "64 word"

definition str_bytes :: "string \<Rightarrow> bytes" where
  "str_bytes s = map (\<lambda>c. of_nat (of_char c)) s"

definition DirectSignBytes :: "bytes \<Rightarrow> bytes \<Rightarrow> string \<Rightarrow> 64 word \<Rightarrow> bytes" where
  "DirectSignBytes bodyBytes authInfoBytes chainID accnum =
     SignDoc_Marshal \<lparr>DocBody = bodyBytes, DocAuthInfo = authInfoBytes, DocChainId = str_bytes chainID, DocAccountNumber = accnum\<rparr>"

text \<open>\<open>signModeDirectHandler.GetSignBytes\<close>; it fills the caches of the wrapper it is given.\<close>

definition Direct_GetSignBytes ::
    "('m, 'k) Codec \<Rightarrow> 32 word \<Rightarrow> SignerData \<Rightarrow> ('m, 'k) wrapper \<Rightarrow> (('m, 'k) wrapper \<times> bytes) res" where
  "Direct_GetSignBytes cdc mode data w =
     (if mode \<noteq> SIGN_MODE_DIRECT then Inl (Err ''expected SIGN_MODE_DIRECT'')
      else
        bindR (getBodyBytes cdc w) (\<lambda>(w1, bodyBz).
        bindR (getAuthInfoBytes cdc w1) (\<lambda>(w2, authInfoBz).
          Inr (w2, DirectSignBytes bodyBz authInfoBz (SDChainID data) (SDAccountNumber data)))))"

text \<open>\<open>SignModeHandlerMap\<close>; the only handler there is is the direct one, \<open>None\<close> is a nil handler.\<close>

record SignModeHandlerMap =
  defaultMode :: "32 word"
  hmodes :: "32 word list"

fun handler_loop :: "32 word list \<Rightarrow> unit option list \<Rightarrow> (32 word list) res" where
  "handler_loop modes [] = Inr modes"
| "handler_loop modes (None # hs) = Inl nil_deref"
| "handler_loop modes (Some h # hs) =
     (if SIGN_MODE_DIRECT \<in> set modes then Inl (Panic ''duplicate sign mode handler for mode SIGN_MODE_DIRECT'')
      else handler_loop (modes @ [SIGN_MODE_DIRECT]) hs)"

definition NewSignModeHandlerMap :: "32 word \<Rightarrow> unit option list \<Rightarrow> SignModeHandlerMap res" where
  "NewSignModeHandlerMap mode handlers =
     bindR (handler_loop [] handlers) (\<lambda>ms. Inr \<lparr>defaultMode = mode, hmodes = ms\<rparr>)"

definition MakeSignModeHandler :: "32 word list \<Rightarrow> SignModeHandlerMap res" where
  "MakeSignModeHandler modes =
     (if length modes < 1 then Inl (Panic ''no sign modes enabled'')
      else
        bindR (mapR (\<lambda>mode.
            if mode = SIGN_MODE_DIRECT then Inr (Some ())
            else if mode = SIGN_MODE_LEGACY_AMINO_JSON then Inr None
            else Inl (Panic ''unsupported sign mode'')) modes)
          (\<lambda>handlers. NewSignModeHandlerMap (modes ! 0) handlers))"

definition Map_GetSignBytes ::
    "('m, 'k) Codec \<Rightarrow> SignModeHandlerMap \<Rightarrow> 32 word \<Rightarrow> SignerData \<Rightarrow> ('m, 'k) wrapper \<Rightarrow> (('m, 'k) wrapper \<times> bytes) res" where
  "Map_GetSignBytes cdc h mode data w =
     (if mode \<notin> set (hmodes h) then Inl (Err ''can't verify sign mode'')
      else Direct_GetSignBytes cdc mode data w)"

section \<open>Encoding and decoding\<close>

definition TxEncoder :: "('m, 'k) Codec \<Rightarrow> ('m, 'k) wrapper \<Rightarrow> (('m, 'k) wrapper \<times> bytes) res" where
  "TxEncoder cdc w =
     bindR (getBodyBytes cdc w) (\<lambda>(w1, body).
     bindR (getAuthInfoBytes cdc w1) (\<lambda>(w2, auth).
       Inr (w2, TxRaw_Marshal \<lparr>BodyBytes = body, AuthInfoBytes = auth, RawSignatures = TSignatures (wtx w2)\<rparr>)))"

definition JSONTxEncoder :: "('m, 'k) Codec \<Rightarrow> ('m, 'k) wrapper \<Rightarrow> bytes res" where
  "JSONTxEncoder cdc w = txJSON cdc (wtx w)"

text \<open>The decoding half of the codec, with the two checks of \<open>codec/unknownproto\<close>.\<close>

record ('m, 'k) Decoder =
  rejectStrict :: "bytes \<Rightarrow> unit res"
  rejectBody :: "bytes \<Rightarrow> bool res"
  bodyUnmarshal :: "bytes \<Rightarrow> 'm TxBody res"
  authUnmarshal :: "bytes \<Rightarrow> 'k AuthInfo res"

definition TxDecoder :: "('m, 'k) Decoder \<Rightarrow> bytes \<Rightarrow> ('m, 'k) wrapper res" where
  "TxDecoder dec txBytes =
     bindR (rejectStrict dec txBytes) (\<lambda>_.
     bindR (TxRaw_Unmarshal txBytes) (\<lambda>raw.
     bindR (rejectBody dec (BodyBytes raw)) (\<lambda>hasUnknown.
     bindR (bodyUnmarshal dec (BodyBytes raw)) (\<lambda>body.
     bindR (authUnmarshal dec (AuthInfoBytes raw)) (\<lambda>authInfo.
       Inr \<lparr>wtx = \<lparr>TBody = Some body, TAuthInfo = Some authInfo, TSignatures = RawSignatures raw\<rparr>,
            bodyBz = BodyBytes raw, authInfoBz = AuthInfoBytes raw,
            txBodyHasUnknownNonCriticals = hasUnknown\<rparr>)))))"

section \<open>The factory (\<open>client/tx/factory.go\<close>)\<close>

text \<open>
  \<open>fhandler\<close> is the sign mode handler of the factory, \<open>ftxHandler\<close> that of its \<open>TxConfig\<close>; the mode, the
  address, the gas adjustment and the query function play no part in building and signing.
\<close>

text \<open>The key manager: the public key of a name and password, and a signature with its key.\<close>

record ('k) KeyManager =
  kmFind :: "string \<Rightarrow> string \<Rightarrow> ('k PubKey) res"
  kmSign :: "string \<Rightarrow> string \<Rightarrow> bytes \<Rightarrow> bytes res"

record 'k Factory =
  fchainID :: string
  fmemo :: string
  fpassword :: string
  faccountNumber :: "64 word"
  fsequence :: "64 word"
  fgas :: "64 word"
  ffees :: Coins
  fgasPrices :: DecCoins
  fsignMode :: "32 word"
  fhandler :: SignModeHandlerMap
  ftxHandler :: SignModeHandlerMap
  fkeys :: "'k KeyManager"

text \<open>The fee for one gas price: \<open>ceil(gasPrice * gasLimit)\<close>.\<close>

definition gas_fee :: "int \<Rightarrow> DecCoin \<Rightarrow> Coin res" where
  "gas_fee glDec gp =
     bindR (Dec_Mul (DecAmount gp) glDec) (\<lambda>fee.
     bindR (Dec_Ceil fee) (\<lambda>c.
     bindR (Dec_RoundInt c) (\<lambda>i. NewCoin (DecDenom gp) i)))"

definition factory_fees :: "'k Factory \<Rightarrow> Coins res" where
  "factory_fees f =
     (if \<not> DecCoins_IsZero (fgasPrices f) then
        if \<not> Coins_IsZero (ffees f) then Inl (Err ''cannot provide both fees and gas prices'')
        else bindR (NewDec (fgas f)) (\<lambda>glDec. mapR (gas_fee glDec) (fgasPrices f))
      else Inr (ffees f))"

definition BuildUnsignedTx :: "('m, 'k) Codec \<Rightarrow> 'k Factory \<Rightarrow> 'm list \<Rightarrow> ('m, 'k) wrapper res" where
  "BuildUnsignedTx cdc f msgs =
     (if fchainID f = [] then Inl (Err ''chain ID required but not specified'')
      else
        bindR (factory_fees f) (\<lambda>fees.
        bindR (SetMsgs cdc msgs newBuilder) (\<lambda>w1.
        bindR (SetMemo (fmemo f) w1) (\<lambda>w2.
        bindR (SetFeeAmount fees w2) (\<lambda>w3. SetGasLimit (fgas f) w3)))))"

definition factory_sig :: "'k Factory \<Rightarrow> 'k PubKey \<Rightarrow> 32 word \<Rightarrow> bytes \<Rightarrow> 'k SignatureV2" where
  "factory_sig f pubkey mode sig =
     \<lparr>SPubKey = Some pubkey, SData = SingleSignatureData mode sig, SSequence = fsequence f, SSkipSequenceCheck = False\<rparr>"

definition Sign :: "('m, 'k) Codec \<Rightarrow> 'k Factory \<Rightarrow> string \<Rightarrow> ('m, 'k) wrapper \<Rightarrow> ('m, 'k) wrapper res" where
  "Sign cdc f name w =
     (let signMode = (if fsignMode f = SIGN_MODE_UNSPECIFIED then defaultMode (ftxHandler f) else fsignMode f);
          signerData = \<lparr>SDChainID = fchainID f, SDAccountNumber = faccountNumber f, SDSequence = fsequence f\<rparr>
      in
      bindR (kmFind (fkeys f) name (fpassword f)) (\<lambda>pubkey.
      bindR (SetSignatures cdc [factory_sig f pubkey signMode []] w) (\<lambda>w1.
      bindR (Map_GetSignBytes cdc (fhandler f) signMode signerData w1) (\<lambda>(w2, signBytes).
      bindR (kmSign (fkeys f) name (fpassword f) signBytes) (\<lambda>sigBytes.
        SetSignatures cdc [factory_sig f pubkey signMode sigBytes] w2)))))"

definition BuildAndSign :: "('m, 'k) Codec \<Rightarrow> 'k Factory \<Rightarrow> string \<Rightarrow> 'm list \<Rightarrow> bool \<Rightarrow> bytes res" where
  "BuildAndSign cdc f name msgs json =
     bindR (BuildUnsignedTx cdc f msgs) (\<lambda>tx.
     bindR (Sign cdc f name tx) (\<lambda>w.
       if json then JSONTxEncoder cdc w
       else bindR (TxEncoder cdc w) (\<lambda>(_, txBytes). Inr txBytes)))"

section \<open>The caches\<close>

text \<open>
  A part of the wrapper that is marshalled on demand: \<open>fresh\<close> marshals it, \<open>get\<close> returns the cached
  bytes or fills the cache. A cache is in order when it is empty or holds the bytes of the part.
\<close>

definition cache_ok :: "bytes \<Rightarrow> bytes res \<Rightarrow> bool" where
  "cache_ok cached fresh = (cached = [] \<or> fresh = Inr cached)"

locale lazy_bytes =
  fixes cache :: "'w \<Rightarrow> bytes" and put :: "bytes \<Rightarrow> 'w \<Rightarrow> 'w" and fresh :: "'w \<Rightarrow> bytes res"
    and get :: "'w \<Rightarrow> ('w \<times> bytes) res"
  assumes get_eq: "get w = (if length (cache w) = 0 then bindR (fresh w) (\<lambda>bz. Inr (put bz w, bz)) else Inr (w, cache w))"
    and cache_put: "cache (put bz w) = bz"
    and fresh_put: "fresh (put bz w) = fresh w"
    and put_same: "put (cache w) w = w"
begin

lemma get_fresh: "cache_ok (cache w) (fresh w) \<Longrightarrow> get w = bindR (fresh w) (\<lambda>bz. Inr (put bz w, bz))"
  by (auto simp: cache_ok_def get_eq put_same)

lemma put_ok: "fresh w = Inr bz \<Longrightarrow> cache_ok (cache (put bz w)) (fresh (put bz w))"
  by (simp add: cache_ok_def cache_put fresh_put)

lemma get_twice: "cache_ok (cache w) (fresh w) \<Longrightarrow> get w = Inr (w', bz) \<Longrightarrow> get w' = Inr (w', bz)"
  using get_fresh [of w'] put_ok [of w bz]
  by (auto simp: get_fresh fresh_put put_same) (metis cache_put put_same)

end

definition fresh_body :: "('m, 'k) Codec \<Rightarrow> ('m, 'k) wrapper \<Rightarrow> bytes res" where
  "fresh_body cdc w = bindR (body_of w) (\<lambda>b. panic_err (bodyMarshal cdc b))"

definition fresh_auth :: "('m, 'k) Codec \<Rightarrow> ('m, 'k) wrapper \<Rightarrow> bytes res" where
  "fresh_auth cdc w = bindR (auth_of w) (\<lambda>a. panic_err (authMarshal cdc a))"

lemmas part_defs = body_of_def auth_of_def fresh_body_def fresh_auth_def

interpretation bodyCache: lazy_bytes bodyBz "\<lambda>bz w. w\<lparr>bodyBz := bz\<rparr>" "fresh_body cdc" "getBodyBytes cdc" for cdc
  by unfold_locales (simp_all add: getBodyBytes_def part_defs)

interpretation authCache: lazy_bytes authInfoBz "\<lambda>bz w. w\<lparr>authInfoBz := bz\<rparr>" "fresh_auth cdc" "getAuthInfoBytes cdc" for cdc
  by unfold_locales (simp_all add: getAuthInfoBytes_def part_defs)

definition caches_ok :: "('m, 'k) Codec \<Rightarrow> ('m, 'k) wrapper \<Rightarrow> bool" where
  "caches_ok cdc w = (cache_ok (bodyBz w) (fresh_body cdc w) \<and> cache_ok (authInfoBz w) (fresh_auth cdc w))"

lemma fresh_frame [simp]:
  "fresh_body cdc (w\<lparr>authInfoBz := x\<rparr>) = fresh_body cdc w"
  "fresh_auth cdc (w\<lparr>bodyBz := x\<rparr>) = fresh_auth cdc w"
  "fresh_body cdc (w\<lparr>bodyBz := x\<rparr>) = fresh_body cdc w"
  "fresh_auth cdc (w\<lparr>authInfoBz := x\<rparr>) = fresh_auth cdc w"
  "fresh_body cdc (setSignatures s w) = fresh_body cdc w"
  "fresh_auth cdc (setSignatures s w) = fresh_auth cdc w"
  by (simp_all add: part_defs setSignatures_def)

lemma caches_ok_fill:
  "caches_ok cdc w \<Longrightarrow> fresh_body cdc w = Inr bb \<Longrightarrow> caches_ok cdc (w\<lparr>bodyBz := bb\<rparr>)"
  "caches_ok cdc w \<Longrightarrow> fresh_auth cdc w = Inr ab \<Longrightarrow> caches_ok cdc (w\<lparr>authInfoBz := ab\<rparr>)"
  by (auto simp: caches_ok_def cache_ok_def)

lemma getBodyBytes_ok: "caches_ok cdc w \<Longrightarrow> getBodyBytes cdc w = bindR (fresh_body cdc w) (\<lambda>bz. Inr (w\<lparr>bodyBz := bz\<rparr>, bz))"
  using bodyCache.get_fresh by (auto simp: caches_ok_def)

lemma getAuthInfoBytes_ok:
  "caches_ok cdc w \<Longrightarrow> getAuthInfoBytes cdc w = bindR (fresh_auth cdc w) (\<lambda>bz. Inr (w\<lparr>authInfoBz := bz\<rparr>, bz))"
  using authCache.get_fresh by (auto simp: caches_ok_def)

text \<open>With the caches in order, both readers of the bytes marshal the current contents.\<close>

lemma TxEncoder_ok:
  assumes "caches_ok cdc w"
  shows "TxEncoder cdc w =
    bindR (fresh_body cdc w) (\<lambda>bb. bindR (fresh_auth cdc w) (\<lambda>ab.
      Inr (w\<lparr>bodyBz := bb, authInfoBz := ab\<rparr>,
           TxRaw_Marshal \<lparr>BodyBytes = bb, AuthInfoBytes = ab, RawSignatures = TSignatures (wtx w)\<rparr>)))"
  using assms
  by (cases "fresh_body cdc w"; cases "fresh_auth cdc w")
     (simp_all add: TxEncoder_def getBodyBytes_ok getAuthInfoBytes_ok caches_ok_fill)

lemma Direct_GetSignBytes_ok:
  assumes "caches_ok cdc w"
  shows "Direct_GetSignBytes cdc SIGN_MODE_DIRECT data w =
    bindR (fresh_body cdc w) (\<lambda>bb. bindR (fresh_auth cdc w) (\<lambda>ab.
      Inr (w\<lparr>bodyBz := bb, authInfoBz := ab\<rparr>, DirectSignBytes bb ab (SDChainID data) (SDAccountNumber data))))"
  using assms
  by (cases "fresh_body cdc w"; cases "fresh_auth cdc w")
     (simp_all add: Direct_GetSignBytes_def getBodyBytes_ok getAuthInfoBytes_ok caches_ok_fill)

section \<open>The life of a builder\<close>

text \<open>One step of a client of the builder: a setter, or a reader that fills the caches.\<close>

inductive builder_step :: "('m, 'k) Codec \<Rightarrow> ('m, 'k) wrapper \<Rightarrow> ('m, 'k) wrapper \<Rightarrow> bool" for cdc where
  step_SetMsgs: "SetMsgs cdc msgs w = Inr w' \<Longrightarrow> builder_step cdc w w'"
| step_SetTimeoutHeight: "SetTimeoutHeight height w = Inr w' \<Longrightarrow> builder_step cdc w w'"
| step_SetMemo: "SetMemo memo w = Inr w' \<Longrightarrow> builder_step cdc w w'"
| step_SetExtensionOptions: "SetExtensionOptions opts w = Inr w' \<Longrightarrow> builder_step cdc w w'"
| step_SetNonCritical: "SetNonCriticalExtensionOptions opts w = Inr w' \<Longrightarrow> builder_step cdc w w'"
| step_SetGasLimit: "SetGasLimit limit w = Inr w' \<Longrightarrow> builder_step cdc w w'"
| step_SetFeeAmount: "SetFeeAmount cs w = Inr w' \<Longrightarrow> builder_step cdc w w'"
| step_SetFeePayer: "SetFeePayer cdc addr w = Inr w' \<Longrightarrow> builder_step cdc w w'"
| step_SetFeeGranter: "SetFeeGranter cdc addr w = Inr w' \<Longrightarrow> builder_step cdc w w'"
| step_SetSignatures: "SetSignatures cdc sigs w = Inr w' \<Longrightarrow> builder_step cdc w w'"
| step_SignBytes: "Map_GetSignBytes cdc h mode data w = Inr (w', bz) \<Longrightarrow> builder_step cdc w w'"
| step_Encode: "TxEncoder cdc w = Inr (w', bz) \<Longrightarrow> builder_step cdc w w'"

inductive_simps builder_step_iff: "builder_step cdc w w'"

inductive built :: "('m, 'k) Codec \<Rightarrow> ('m, 'k) wrapper \<Rightarrow> bool" for cdc where
  built_new: "built cdc newBuilder"
| built_wrap: "TBody t \<noteq> None \<Longrightarrow> TAuthInfo t \<noteq> None \<Longrightarrow> built cdc (WrapTx t)"
| built_step: "built cdc w \<Longrightarrow> builder_step cdc w w' \<Longrightarrow> built cdc w'"

definition builder_inv :: "('m, 'k) Codec \<Rightarrow> ('m, 'k) wrapper \<Rightarrow> bool" where
  "builder_inv cdc w = (TBody (wtx w) \<noteq> None \<and> TAuthInfo (wtx w) \<noteq> None \<and> caches_ok cdc w)"

lemma upd_body_inv: "upd_body f w = Inr w' \<Longrightarrow> builder_inv cdc w \<Longrightarrow> builder_inv cdc w'"
  by (auto simp: upd_body_def builder_inv_def caches_ok_def cache_ok_def part_defs split: option.splits)

lemma upd_auth_inv: "upd_auth f w = Inr w' \<Longrightarrow> builder_inv cdc w \<Longrightarrow> builder_inv cdc w'"
  by (auto simp: upd_auth_def builder_inv_def caches_ok_def cache_ok_def part_defs split: option.splits)

lemma upd_fee_inv: "upd_fee f w = Inr w' \<Longrightarrow> builder_inv cdc w \<Longrightarrow> builder_inv cdc w'"
  unfolding upd_fee_def by (rule upd_auth_inv)

lemma SetSignatures_inv: "SetSignatures cdc sigs w = Inr w' \<Longrightarrow> builder_inv cdc w \<Longrightarrow> builder_inv cdc w'"
  using upd_auth_inv [of _ w _ cdc]
  by (fastforce simp: SetSignatures_def setSignerInfos_def builder_inv_def caches_ok_def setSignatures_def part_defs)

lemma TxEncoder_inv: "TxEncoder cdc w = Inr (w', bz) \<Longrightarrow> builder_inv cdc w \<Longrightarrow> builder_inv cdc w'"
  by (auto simp: builder_inv_def TxEncoder_ok) (auto simp: caches_ok_def cache_ok_def)

lemma GetSignBytes_inv: "Map_GetSignBytes cdc h mode data w = Inr (w', bz) \<Longrightarrow> builder_inv cdc w \<Longrightarrow> builder_inv cdc w'"
proof -
  assume g: "Map_GetSignBytes cdc h mode data w = Inr (w', bz)" and i: "builder_inv cdc w"
  then have "Direct_GetSignBytes cdc mode data w = Inr (w', bz)" by (auto simp: Map_GetSignBytes_def split: if_splits)
  moreover from this have "mode = SIGN_MODE_DIRECT" by (auto simp: Direct_GetSignBytes_def split: if_splits)
  ultimately show ?thesis using i by (auto simp: builder_inv_def Direct_GetSignBytes_ok) (auto simp: caches_ok_def cache_ok_def)
qed

lemmas setter_defs = SetMsgs_def SetTimeoutHeight_def SetMemo_def SetExtensionOptions_def
  SetNonCriticalExtensionOptions_def SetGasLimit_def SetFeeAmount_def SetFeePayer_def SetFeeGranter_def

lemma builder_step_inv: "builder_step cdc w w' \<Longrightarrow> builder_inv cdc w \<Longrightarrow> builder_inv cdc w'"
  by (cases rule: builder_step.cases)
     (auto simp: setter_defs intro: upd_body_inv upd_fee_inv SetSignatures_inv TxEncoder_inv GetSignBytes_inv)

lemma built_inv: "built cdc w \<Longrightarrow> builder_inv cdc w"
proof (induction rule: built.induct)
  case built_new
  show ?case by (simp add: newBuilder_def builder_inv_def caches_ok_def cache_ok_def)
next
  case (built_wrap t)
  then show ?case by (simp add: WrapTx_def builder_inv_def caches_ok_def cache_ok_def)
next
  case (built_step w w')
  then show ?case by (blast intro: builder_step_inv)
qed

section \<open>Signing\<close>

text \<open>The signer info that the factory writes for a key.\<close>

definition factory_info :: "'k Factory \<Rightarrow> 'k PubKey Any \<Rightarrow> 32 word \<Rightarrow> 'k SignerInfo" where
  "factory_info f any mode = \<lparr>PublicKey = Some any, SModeInfo = ModeInfo_Single mode, SISequence = fsequence f\<rparr>"

lemma SetSignatures_single:
  "SetSignatures cdc [factory_sig f pk mode sig] w = Inr w' \<longleftrightarrow>
   (\<exists>any a. PubKeyToAny cdc (Some pk) = Inr any \<and> TAuthInfo (wtx w) = Some a \<and>
      w' = w\<lparr>wtx := (wtx w)\<lparr>TAuthInfo := Some (a\<lparr>SignerInfos := [factory_info f any mode]\<rparr>), TSignatures := [sig]\<rparr>,
             authInfoBz := []\<rparr>)"
  by (auto simp: SetSignatures_def signer_info_def factory_sig_def factory_info_def setSignerInfos_def upd_auth_def
      auth_of_def setSignatures_def split: option.splits)

lemma Sign_correct:
  assumes s: "Sign cdc f name w = Inr w'" and inv: "builder_inv cdc w"
  shows "\<exists>pk any a bb ab sig.
     kmFind (fkeys f) name (fpassword f) = Inr pk \<and> PubKeyToAny cdc (Some pk) = Inr any \<and> TAuthInfo (wtx w) = Some a
   \<and> fresh_body cdc w' = Inr bb \<and> fresh_auth cdc w' = Inr ab
   \<and> kmSign (fkeys f) name (fpassword f) (DirectSignBytes bb ab (fchainID f) (faccountNumber f)) = Inr sig
   \<and> wtx w' = \<lparr>TBody = TBody (wtx w),
       TAuthInfo = Some (a\<lparr>SignerInfos := [factory_info f any SIGN_MODE_DIRECT]\<rparr>), TSignatures = [sig]\<rparr>
   \<and> builder_inv cdc w'"
proof -
  define mode where "mode = (if fsignMode f = SIGN_MODE_UNSPECIFIED then defaultMode (ftxHandler f) else fsignMode f)"
  let ?sd = "\<lparr>SDChainID = fchainID f, SDAccountNumber = faccountNumber f, SDSequence = fsequence f\<rparr>"
  from s obtain pk w1 w2 sb sig where pk: "kmFind (fkeys f) name (fpassword f) = Inr pk"
    and s1: "SetSignatures cdc [factory_sig f pk mode []] w = Inr w1"
    and gb: "Map_GetSignBytes cdc (fhandler f) mode ?sd w1 = Inr (w2, sb)"
    and sg: "kmSign (fkeys f) name (fpassword f) sb = Inr sig"
    and s2: "SetSignatures cdc [factory_sig f pk mode sig] w2 = Inr w'"
    unfolding Sign_def Let_def mode_def [symmetric] by auto
  have i1: "builder_inv cdc w1" using s1 inv by (rule SetSignatures_inv)
  have i2: "builder_inv cdc w2" using gb i1 by (rule GetSignBytes_inv)
  have i': "builder_inv cdc w'" using s2 i2 by (rule SetSignatures_inv)
  have d: "Direct_GetSignBytes cdc mode ?sd w1 = Inr (w2, sb)"
    using gb by (auto simp: Map_GetSignBytes_def split: if_splits)
  then have m: "mode = SIGN_MODE_DIRECT" by (auto simp: Direct_GetSignBytes_def split: if_splits)
  with d i1 obtain bb ab where b: "fresh_body cdc w1 = Inr bb" "fresh_auth cdc w1 = Inr ab"
    and w2: "w2 = w1\<lparr>bodyBz := bb, authInfoBz := ab\<rparr>"
    and sb: "sb = DirectSignBytes bb ab (fchainID f) (faccountNumber f)"
    by (auto simp: builder_inv_def Direct_GetSignBytes_ok)
  from s1 obtain any a where any: "PubKeyToAny cdc (Some pk) = Inr any" and a: "TAuthInfo (wtx w) = Some a"
    and w1: "w1 = w\<lparr>wtx := (wtx w)\<lparr>TAuthInfo := Some (a\<lparr>SignerInfos := [factory_info f any mode]\<rparr>), TSignatures := [[]]\<rparr>,
             authInfoBz := []\<rparr>"
    by (auto simp: SetSignatures_single)
  from s2 any have w': "w' = w2\<lparr>wtx := (wtx w1)\<lparr>TSignatures := [sig]\<rparr>, authInfoBz := []\<rparr>"
    by (auto simp: SetSignatures_single w2 w1)
  have "fresh_body cdc w' = Inr bb" "fresh_auth cdc w' = Inr ab" using b by (simp_all add: w' w2 part_defs)
  moreover have "wtx w' = \<lparr>TBody = TBody (wtx w),
       TAuthInfo = Some (a\<lparr>SignerInfos := [factory_info f any SIGN_MODE_DIRECT]\<rparr>), TSignatures = [sig]\<rparr>"
    by (simp add: w' w1 m)
  ultimately show ?thesis using pk any a sg i' unfolding sb by blast
qed

text \<open>The contents of an unsigned transaction.\<close>

lemma BuildUnsignedTx_contents:
  "BuildUnsignedTx cdc f msgs = Inr w \<longleftrightarrow>
   (\<exists>fees anys. fchainID f \<noteq> [] \<and> factory_fees f = Inr fees
      \<and> mapR (NewAnyWithValue (msgName cdc) (msgMarshal cdc)) msgs = Inr anys
      \<and> w = \<lparr>wtx = \<lparr>TBody = Some \<lparr>Messages = anys, Memo = fmemo f, TimeoutHeight = 0, ExtensionOptions = [],
                                NonCriticalExtensionOptions = []\<rparr>,
                    TAuthInfo = Some \<lparr>SignerInfos = [], AFee = Some \<lparr>FeeAmount = fees, GasLimit = fgas f, Payer = [], Granter = []\<rparr>\<rparr>,
                    TSignatures = []\<rparr>,
             bodyBz = [], authInfoBz = [], txBodyHasUnknownNonCriticals = False\<rparr>)"
  by (auto simp: BuildUnsignedTx_def setter_defs upd_body_def upd_fee_def upd_auth_def newBuilder_def part_defs
      split: if_splits)

lemma BuildUnsignedTx_inv: "BuildUnsignedTx cdc f msgs = Inr w \<Longrightarrow> builder_inv cdc w"
  by (auto simp: BuildUnsignedTx_contents builder_inv_def caches_ok_def cache_ok_def)

lemma panic_err_Inr [simp]: "panic_err r = Inr x \<longleftrightarrow> r = Inr x"
  by (auto simp: panic_err_def split: sum.splits failure.splits)

text \<open>
  \<^bold>\<open>C2.\<close> The cached bytes never go stale. However a builder has been used since \<open>newBuilder\<close> or
  \<open>WrapTx\<close>, setters and readers interleaved at will, the encoder and the direct sign bytes are those
  obtained by marshalling the current body and auth info afresh, failures included.
\<close>

theorem builder_bytes_current:
  assumes "built cdc w"
  shows "\<exists>b a. TBody (wtx w) = Some b \<and> TAuthInfo (wtx w) = Some a
   \<and> TxEncoder cdc w = bindR (panic_err (bodyMarshal cdc b)) (\<lambda>bb. bindR (panic_err (authMarshal cdc a)) (\<lambda>ab.
       Inr (w\<lparr>bodyBz := bb, authInfoBz := ab\<rparr>,
            TxRaw_Marshal \<lparr>BodyBytes = bb, AuthInfoBytes = ab, RawSignatures = TSignatures (wtx w)\<rparr>)))
   \<and> Direct_GetSignBytes cdc SIGN_MODE_DIRECT data w =
       bindR (panic_err (bodyMarshal cdc b)) (\<lambda>bb. bindR (panic_err (authMarshal cdc a)) (\<lambda>ab.
       Inr (w\<lparr>bodyBz := bb, authInfoBz := ab\<rparr>, DirectSignBytes bb ab (SDChainID data) (SDAccountNumber data))))"
proof -
  have i: "builder_inv cdc w" using assms by (rule built_inv)
  then obtain b a where "TBody (wtx w) = Some b" "TAuthInfo (wtx w) = Some a" by (auto simp: builder_inv_def)
  with i show ?thesis
    using TxEncoder_ok [of cdc w] Direct_GetSignBytes_ok [of cdc w data] by (simp add: builder_inv_def part_defs)
qed

text \<open>
  A codec for the examples: a message is its bytes, a body is its memo followed by its messages, an
  auth info is the list of its sequence numbers.
\<close>

definition demo_codec :: "(bytes, bytes) Codec" where
  "demo_codec =
     \<lparr>msgName = (\<lambda>m. ''Demo''), msgMarshal = Inr, msgSigners = (\<lambda>m. [m]),
      keyName = (\<lambda>k. ''Key''), keyMarshal = (\<lambda>k. case k of SinglePubKey bz \<Rightarrow> Inr bz | _ \<Rightarrow> Inl (Err ''multi'')),
      bodyMarshal = (\<lambda>b. Inr (str_bytes (Memo b) @ concat (map AnyValue (Messages b)))),
      authMarshal = (\<lambda>a. Inr (map (\<lambda>si. ucast (SISequence si)) (SignerInfos a))),
      accString = map (\<lambda>w. char_of (unat w)), accFromBech32 = (\<lambda>s. Inr (str_bytes s)), txJSON = (\<lambda>t. Inr [])\<rparr>"

text \<open>The definitions that evaluate a builder on concrete inputs.\<close>

lemmas build_simps = setter_defs upd_body_def upd_fee_def upd_auth_def newBuilder_def part_defs SetSignatures_def
  signer_info_def PubKeyToAny_def NewAnyWithValue_def setSignerInfos_def setSignatures_def Map_GetSignBytes_def
  Direct_GetSignBytes_def TxEncoder_def getBodyBytes_def getAuthInfoBytes_def panic_err_def str_bytes_def demo_codec_def

theorem builder_bytes_current_witness:
  "\<exists>w1 w2 w3 bz. SetMemo ''a'' newBuilder = Inr w1 \<and> TxEncoder demo_codec w1 = Inr (w2, bz) \<and> bodyBz w2 = [97]
     \<and> SetMemo ''b'' w2 = Inr w3
     \<and> map_sum id snd (TxEncoder demo_codec w3) = Inr (TxRaw_Marshal \<lparr>BodyBytes = [98], AuthInfoBytes = [], RawSignatures = []\<rparr>)"
proof -
  obtain w1 :: "(bytes, bytes) wrapper" where w1: "SetMemo ''a'' newBuilder = Inr w1" by (simp add: build_simps)
  obtain w2 bz where w2: "TxEncoder demo_codec w1 = Inr (w2, bz)" "bodyBz w2 = [97]" 
    using w1 by (auto simp: build_simps)
  obtain w3 where w3: "SetMemo ''b'' w2 = Inr w3" 
    using w1 w2 by (auto simp: build_simps)
  have "built demo_codec w3"
    using w1 w2(1) w3 by (meson built_new built_step step_SetMemo step_Encode)
  note c = builder_bytes_current [OF this]
  have "TBody (wtx w3) = Some \<lparr>Messages = [], Memo = ''b'', TimeoutHeight = 0, ExtensionOptions = [], NonCriticalExtensionOptions = []\<rparr>
     \<and> TAuthInfo (wtx w3) = TAuthInfo (wtx newBuilder) \<and> TSignatures (wtx w3) = []"
    using w1 w2 w3 by (auto simp: build_simps)
  with c have "map_sum id snd (TxEncoder demo_codec w3) = Inr (TxRaw_Marshal \<lparr>BodyBytes = [98], AuthInfoBytes = [], RawSignatures = []\<rparr>)"
    by (auto simp: build_simps)
  with w1 w2 w3 show ?thesis by blast
qed

text \<open>
  \<^bold>\<open>C1.\<close> \<open>BuildAndSign\<close>: the bytes it returns decode to a raw transaction whose body bytes marshal
  the given messages and the memo of the factory, whose auth info bytes marshal the signer's key,
  mode and sequence with the fee and gas of the factory, and whose only signature is the one the key
  manager gives for the direct sign bytes of these very bytes, chain id and account number.
\<close>

theorem BuildAndSign_signs_what_it_sends:
  assumes ok: "BuildAndSign cdc f name msgs False = Inr txBytes" and len: "length txBytes < 2 ^ 63"
  shows "\<exists>raw sig pk any anys fees.
     TxRaw_Unmarshal txBytes = Inr raw \<and> RawSignatures raw = [sig]
   \<and> kmFind (fkeys f) name (fpassword f) = Inr pk \<and> PubKeyToAny cdc (Some pk) = Inr any
   \<and> mapR (NewAnyWithValue (msgName cdc) (msgMarshal cdc)) msgs = Inr anys \<and> factory_fees f = Inr fees
   \<and> bodyMarshal cdc \<lparr>Messages = anys, Memo = fmemo f, TimeoutHeight = 0, ExtensionOptions = [],
                      NonCriticalExtensionOptions = []\<rparr> = Inr (BodyBytes raw)
   \<and> authMarshal cdc \<lparr>SignerInfos = [\<lparr>PublicKey = Some any, SModeInfo = ModeInfo_Single SIGN_MODE_DIRECT, SISequence = fsequence f\<rparr>],
                      AFee = Some \<lparr>FeeAmount = fees, GasLimit = fgas f, Payer = [], Granter = []\<rparr>\<rparr> = Inr (AuthInfoBytes raw)
   \<and> kmSign (fkeys f) name (fpassword f)
       (DirectSignBytes (BodyBytes raw) (AuthInfoBytes raw) (fchainID f) (faccountNumber f)) = Inr sig"
proof -
  from ok obtain w w' w'' where u: "BuildUnsignedTx cdc f msgs = Inr w" and s: "Sign cdc f name w = Inr w'"
    and e: "TxEncoder cdc w' = Inr (w'', txBytes)" by (auto simp: BuildAndSign_def)
  from Sign_correct [OF s BuildUnsignedTx_inv [OF u]] obtain pk any a bb ab sig where
    k: "kmFind (fkeys f) name (fpassword f) = Inr pk" "PubKeyToAny cdc (Some pk) = Inr any" and a: "TAuthInfo (wtx w) = Some a"
    and b: "fresh_body cdc w' = Inr bb" "fresh_auth cdc w' = Inr ab"
    and sg: "kmSign (fkeys f) name (fpassword f) (DirectSignBytes bb ab (fchainID f) (faccountNumber f)) = Inr sig"
    and t: "wtx w' = \<lparr>TBody = TBody (wtx w), TAuthInfo = Some (a\<lparr>SignerInfos := [factory_info f any SIGN_MODE_DIRECT]\<rparr>),
                      TSignatures = [sig]\<rparr>" and i: "builder_inv cdc w'"
    by blast
  let ?raw = "\<lparr>BodyBytes = bb, AuthInfoBytes = ab, RawSignatures = [sig]\<rparr>"
  have tb: "txBytes = TxRaw_Marshal ?raw" using e i b t by (auto simp: builder_inv_def TxEncoder_ok)
  have "TxRaw_Unmarshal txBytes = Inr ?raw" unfolding tb by (rule TxRaw_Unmarshal_Marshal) (use len tb in simp)
  moreover from u a b t obtain anys fees where
    "mapR (NewAnyWithValue (msgName cdc) (msgMarshal cdc)) msgs = Inr anys" "factory_fees f = Inr fees"
    "bodyMarshal cdc \<lparr>Messages = anys, Memo = fmemo f, TimeoutHeight = 0, ExtensionOptions = [],
                      NonCriticalExtensionOptions = []\<rparr> = Inr (BodyBytes ?raw)"
    "authMarshal cdc \<lparr>SignerInfos = [factory_info f any SIGN_MODE_DIRECT],
                      AFee = Some \<lparr>FeeAmount = fees, GasLimit = fgas f, Payer = [], Granter = []\<rparr>\<rparr> = Inr (AuthInfoBytes ?raw)"
    by (auto simp: BuildUnsignedTx_contents part_defs)
  ultimately show ?thesis using k sg unfolding factory_info_def by fastforce
qed

definition demo_factory :: "bytes Factory" where
  "demo_factory =
     \<lparr>fchainID = ''test'', fmemo = ''hi'', fpassword = ''pw'', faccountNumber = 3, fsequence = 5, fgas = 100, ffees = [],
      fgasPrices = [\<lparr>DecDenom = ''atom'', DecAmount = 25000000000000000\<rparr>],
      fsignMode = SIGN_MODE_UNSPECIFIED,
      fhandler = \<lparr>defaultMode = SIGN_MODE_DIRECT, hmodes = [SIGN_MODE_DIRECT]\<rparr>,
      ftxHandler = \<lparr>defaultMode = SIGN_MODE_DIRECT, hmodes = [SIGN_MODE_DIRECT]\<rparr>,
      fkeys = \<lparr>kmFind = (\<lambda>n p. Inr (SinglePubKey [9])), kmSign = (\<lambda>n p m. Inr [of_nat (length m)])\<rparr>\<rparr>"

lemma sint_small: "unat (w :: 64 word) < 2 ^ 63 \<Longrightarrow> sint w = uint w"
proof -
  assume "unat w < 2 ^ 63"
  then have "int (unat w) < int (2 ^ 63)" by (rule of_nat_less_iff [THEN iffD2])
  then have "uint w < 2 ^ 63" by simp
  then have "signed_take_bit 63 (uint w) = uint w"
    by (intro signed_take_bit_int_eq_self) (auto intro: order_trans [OF _ uint_ge_0])
  then show ?thesis by (simp add: sint_uint)
qed

text \<open>The exact fee of one gas price.\<close>

definition ceil_fee :: "int \<Rightarrow> DecCoin \<Rightarrow> Coin" where
  "ceil_fee gas gp = \<lparr>Denom = DecDenom gp, Amount = - ((- (DecAmount gp * gas)) div 10 ^ 18)\<rparr>"

lemma gas_fee_ceil:
  assumes "valid_Dec (DecAmount gp * g)" "valid_Int (Amount (ceil_fee g gp))" "0 \<le> Amount (ceil_fee g gp)"
    "is_ok (ValidateDenom (DecDenom gp))"
  shows "gas_fee (g * precisionReuse) gp = Inr (ceil_fee g gp)"
proof -
  have m: "Dec_Mul (DecAmount gp) (g * precisionReuse) = Inr (DecAmount gp * g)"
    using assms(1) chop_multiple [of "DecAmount gp * g"] by (simp add: Dec_Mul_def check_overflow_eq mult.assoc)
  have r: "Dec_RoundInt (Amount (ceil_fee g gp) * precisionReuse) = Inr (Amount (ceil_fee g gp))"
    using assms(2) by (simp add: Dec_RoundInt_def NewIntFromBigInt_eq)
  have "Dec_Ceil (DecAmount gp * g) = Inr (Amount (ceil_fee g gp) * precisionReuse)"
    by (simp add: Dec_Ceil_eq ceil_fee_def precisionReuse_num)
  with m r assms(3,4) show ?thesis
    by (auto simp: gas_fee_def NewCoin_def validate_def ValidateDenom_def is_ok_iff Int_IsNegative_def Int_pred_defs ceil_fee_def split: if_splits)
qed

text \<open>
  Fees from gas prices: with gas below \<open>2^63\<close>, the fee of every gas price is exactly
  \<open>ceil(gasPrice * gas)\<close>, with no rounding of the product, when the prices are non-negative, their
  denominations valid and the results within the bounds of the two number types. Gas prices together
  with fees are refused; without gas prices the fees are taken as they are.
\<close>

theorem factory_fees_ceil:
  "(\<not> DecCoins_IsZero (fgasPrices f) \<and> Coins_IsZero (ffees f) \<and> unat (fgas f) < 2 ^ 63
      \<and> (\<forall>gp\<in>set (fgasPrices f). is_ok (ValidateDenom (DecDenom gp)) \<and> 0 \<le> DecAmount gp
         \<and> valid_Dec (DecAmount gp * uint (fgas f)) \<and> valid_Int (Amount (ceil_fee (uint (fgas f)) gp))) \<longrightarrow>
      factory_fees f = Inr (map (ceil_fee (uint (fgas f))) (fgasPrices f)))
   \<and> (\<not> DecCoins_IsZero (fgasPrices f) \<and> \<not> Coins_IsZero (ffees f) \<longrightarrow>
        factory_fees f = Inl (Err ''cannot provide both fees and gas prices''))
   \<and> (DecCoins_IsZero (fgasPrices f) \<longrightarrow> factory_fees f = Inr (ffees f))"
proof -
  have nn: "0 \<le> Amount (ceil_fee (uint (fgas f)) gp)" if "0 \<le> DecAmount gp" for gp
  proof -
    have "- (DecAmount gp * uint (fgas f)) \<le> 0" using that by simp
    then have "(- (DecAmount gp * uint (fgas f))) div 10 ^ 18 \<le> 0 div 10 ^ 18" by (rule zdiv_mono1) simp
    then show ?thesis by (simp add: ceil_fee_def)
  qed
  have "mapR (gas_fee (uint (fgas f) * precisionReuse)) (fgasPrices f) = Inr (map (ceil_fee (uint (fgas f))) (fgasPrices f))"
    if "\<forall>gp\<in>set (fgasPrices f). is_ok (ValidateDenom (DecDenom gp)) \<and> 0 \<le> DecAmount gp
         \<and> valid_Dec (DecAmount gp * uint (fgas f)) \<and> valid_Int (Amount (ceil_fee (uint (fgas f)) gp))"
    by (rule mapR_all_ok) (use that nn in \<open>auto intro: gas_fee_ceil\<close>)
  then show ?thesis by (auto simp: factory_fees_def sint_small)
qed

lemma demo_fees_ok:
  "\<not> DecCoins_IsZero (fgasPrices demo_factory) \<and> Coins_IsZero (ffees demo_factory) \<and> unat (fgas demo_factory) < 2 ^ 63
    \<and> (\<forall>gp\<in>set (fgasPrices demo_factory). is_ok (ValidateDenom (DecDenom gp)) \<and> 0 \<le> DecAmount gp
        \<and> valid_Dec (DecAmount gp * uint (fgas demo_factory)) \<and> valid_Int (Amount (ceil_fee (uint (fgas demo_factory)) gp)))"
  by (simp add: demo_factory_def) code_simp

theorem factory_fees_ceil_witness: "factory_fees demo_factory = Inr [\<lparr>Denom = ''atom'', Amount = 3\<rparr>]"
  using factory_fees_ceil [of demo_factory] demo_fees_ok by (auto simp: demo_factory_def ceil_fee_def)

text \<open>The conversion of the gas to a signed number wraps: half a unit per gas costs nothing then.\<close>

lemma factory_fees_gas_wraps:
  "factory_fees (demo_factory\<lparr>fgas := - 1, fgasPrices := [\<lparr>DecDenom = ''atom'', DecAmount = 500000000000000000\<rparr>]\<rparr>)
   = Inr [\<lparr>Denom = ''atom'', Amount = 0\<rparr>]"
proof -
  have "is_ok (ValidateDenom ''atom'')" by code_simp
  then have "gas_fee ((- 1) * precisionReuse) \<lparr>DecDenom = ''atom'', DecAmount = 500000000000000000\<rparr> = Inr \<lparr>Denom = ''atom'', Amount = 0\<rparr>"
    using gas_fee_ceil [of "\<lparr>DecDenom = ''atom'', DecAmount = 500000000000000000\<rparr>" "- 1"]
    by (simp add: ceil_fee_def valid_Dec_def valid_Int_def)
  moreover have "\<not> DecCoins_IsZero [\<lparr>DecDenom = ''atom'', DecAmount = 500000000000000000\<rparr>]" "Coins_IsZero []" by code_simp+
  ultimately show ?thesis by (simp add: factory_fees_def demo_factory_def)
qed

theorem BuildAndSign_signs_what_it_sends_witness:
  "\<exists>txBytes raw. BuildAndSign demo_codec demo_factory ''k'' [[1, 2]] False = Inr txBytes \<and> TxRaw_Unmarshal txBytes = Inr raw
     \<and> BodyBytes raw = [104, 105, 1, 2] \<and> AuthInfoBytes raw = [5]
     \<and> RawSignatures raw = [[of_nat (length (DirectSignBytes (BodyBytes raw) (AuthInfoBytes raw) ''test'' 3))]]"
proof -
  have atom: "is_ok (ValidateDenom ''atom'')" by code_simp
  have nz: "\<not> DecCoins_IsZero [\<lparr>DecDenom = ''atom'', DecAmount = 25000000000000000\<rparr>]" "Coins_IsZero []" by code_simp+
  have "gas_fee (100 * precisionReuse) \<lparr>DecDenom = ''atom'', DecAmount = 25000000000000000\<rparr> = Inr \<lparr>Denom = ''atom'', Amount = 3\<rparr>"
    using gas_fee_ceil [of "\<lparr>DecDenom = ''atom'', DecAmount = 25000000000000000\<rparr>" 100] atom
    by (simp add: ceil_fee_def valid_Dec_def valid_Int_def)
  with nz have fees: "factory_fees demo_factory = Inr [\<lparr>Denom = ''atom'', Amount = 3\<rparr>]"
    by (simp add: factory_fees_def demo_factory_def)
  define txBytes where "txBytes = TxRaw_Marshal \<lparr>BodyBytes = [104, 105, 1, 2], AuthInfoBytes = [5],
    RawSignatures = [[of_nat (length (DirectSignBytes [104, 105, 1, 2] [5] ''test'' 3))]]\<rparr>"
  have ok: "BuildAndSign demo_codec demo_factory ''k'' [[1, 2]] False = Inr txBytes"
    using fees
    by (simp add: build_simps BuildAndSign_def BuildUnsignedTx_def Sign_def factory_sig_def demo_factory_def txBytes_def)
  have len: "length txBytes < 2 ^ 63"
    by (simp add: txBytes_def TxRaw_Marshal_def put_repeated_def put_bytes_opt_def put_bytes_def encodeVarint.simps)
  from BuildAndSign_signs_what_it_sends [OF ok len] fees
  show ?thesis using ok
    by (force simp: build_simps demo_factory_def)
qed

section \<open>Decoding\<close>

text \<open>Signatures that the builder can give back: with a key and with data the mode info describes.\<close>

definition storable :: "'k SignatureV2 \<Rightarrow> bool" where
  "storable s = (SPubKey s \<noteq> None \<and> proper (SData s) \<and> \<not> SSkipSequenceCheck s
     \<and> length (snd (SignatureDataToModeInfoAndSig (SData s))) < 2 ^ 63)"

lemma GetSignaturesV2_loop_signer_info:
  "list_all2 (\<lambda>s p. signer_info cdc s = Inr p) sigs ps \<Longrightarrow> \<forall>s\<in>set sigs. storable s \<Longrightarrow>
   GetSignaturesV2_loop (map fst ps) (map snd ps)
     (map (\<lambda>si. case PublicKey si of None \<Rightarrow> None | Some any \<Rightarrow> cachedValue any) (map fst ps)) = Inr sigs"
proof (induction rule: list_all2_induct)
  case (Cons s sigs p ps)
  obtain mi raw where mr: "SignatureDataToModeInfoAndSig (SData s) = (mi, raw)" by (cases "SignatureDataToModeInfoAndSig (SData s)")
  from Cons.prems have st: "proper (SData s)" "length raw < 2 ^ 63" "SPubKey s \<noteq> None" "\<not> SSkipSequenceCheck s"
    by (auto simp: storable_def mr)
  have inv: "ModeInfoAndSigToSignatureData mi raw = Inr (SData s)" using ModeInfo_inverse [OF st(1)] st(2) mr by simp
  then have nn: "mi \<noteq> NilModeInfo" by (cases mi) auto
  from Cons.hyps(1) st(3) obtain any where p: "p = (\<lparr>PublicKey = Some any, SModeInfo = mi, SISequence = SSequence s\<rparr>, raw)"
    and c: "cachedValue any = SPubKey s"
    by (auto simp: signer_info_def mr PubKeyToAny_def NewAnyWithValue_def)
  have "s = \<lparr>SPubKey = SPubKey s, SData = SData s, SSequence = SSequence s, SSkipSequenceCheck = False\<rparr>"
    using st(4) by (cases s) simp
  with Cons.IH Cons.prems inv nn show ?case by (simp add: p c comp_def)
qed simp

lemma GetSignaturesV2_SetSignatures:
  assumes "SetSignatures cdc sigs w = Inr w'" and "\<forall>s\<in>set sigs. storable s"
  shows "GetSignaturesV2 w' = Inr sigs"
  using assms GetSignaturesV2_loop_signer_info [of cdc sigs]
  by (auto simp: SetSignatures_def mapR_Inr_iff setSignerInfos_def upd_auth_def setSignatures_def GetSignaturesV2_def GetPubKeys_def
      auth_of_def comp_def split: option.splits)

lemma GetSignaturesV2_wtx: "wtx w = wtx w' \<Longrightarrow> GetSignaturesV2 w = GetSignaturesV2 w'"
  by (simp add: GetSignaturesV2_def GetPubKeys_def auth_of_def)

text \<open>A decoder that undoes the codec on the body and the auth info of a transaction.\<close>

definition decodes :: "('m, 'k) Codec \<Rightarrow> ('m, 'k) Decoder \<Rightarrow> ('m, 'k) Tx \<Rightarrow> bool" where
  "decodes cdc dec t \<longleftrightarrow>
     (\<forall>b bz. TBody t = Some b \<longrightarrow> bodyMarshal cdc b = Inr bz \<longrightarrow> bodyUnmarshal dec bz = Inr b \<and> rejectBody dec bz = Inr False)
   \<and> (\<forall>a bz. TAuthInfo t = Some a \<longrightarrow> authMarshal cdc a = Inr bz \<longrightarrow> authUnmarshal dec bz = Inr a)"

lemma TxDecoder_TxEncoder:
  assumes i: "builder_inv cdc w" and e: "TxEncoder cdc w = Inr (w', bz)" and len: "length bz < 2 ^ 63"
    and d: "decodes cdc dec (wtx w)" and r: "rejectStrict dec bz = Inr ()"
  shows "\<exists>w''. TxDecoder dec bz = Inr w'' \<and> wtx w'' = wtx w \<and> builder_inv cdc w''"
proof -
  from e i obtain bb ab where b: "fresh_body cdc w = Inr bb" "fresh_auth cdc w = Inr ab"
    and bz: "bz = TxRaw_Marshal \<lparr>BodyBytes = bb, AuthInfoBytes = ab, RawSignatures = TSignatures (wtx w)\<rparr>"
    by (auto simp: builder_inv_def TxEncoder_ok)
  from b obtain body a where p: "TBody (wtx w) = Some body" "TAuthInfo (wtx w) = Some a"
    and m: "bodyMarshal cdc body = Inr bb" "authMarshal cdc a = Inr ab" by (auto simp: part_defs split: option.splits)
  have u: "TxRaw_Unmarshal bz = Inr \<lparr>BodyBytes = bb, AuthInfoBytes = ab, RawSignatures = TSignatures (wtx w)\<rparr>"
    unfolding bz by (rule TxRaw_Unmarshal_Marshal) (use len bz in simp)
  have "wtx w = \<lparr>TBody = Some body, TAuthInfo = Some a, TSignatures = TSignatures (wtx w)\<rparr>" using p by (cases "wtx w") simp
  then show ?thesis using d p m r u
    by (auto simp: decodes_def TxDecoder_def builder_inv_def caches_ok_def cache_ok_def part_defs)
qed


definition demo_decoder :: "(bytes, bytes) Decoder" where
  "demo_decoder =
     \<lparr>rejectStrict = (\<lambda>bz. Inr ()), rejectBody = (\<lambda>bz. Inr False),
      bodyUnmarshal = (\<lambda>bz. Inr \<lparr>Messages = [], Memo = map (\<lambda>w. char_of (unat w)) bz, TimeoutHeight = 0, ExtensionOptions = [],
         NonCriticalExtensionOptions = []\<rparr>),
      authUnmarshal = (\<lambda>bz. Inr \<lparr>SignerInfos = map (\<lambda>s.
         \<lparr>PublicKey = Some \<lparr>TypeUrl = ''/Key'', AnyValue = [9], cachedValue = Some (SinglePubKey [9])\<rparr>,
          SModeInfo = ModeInfo_Single 1, SISequence = ucast s\<rparr>) bz, AFee = Some \<lparr>FeeAmount = [], GasLimit = 0, Payer = [], Granter = []\<rparr>\<rparr>)\<rparr>"


section \<open>Signers and validation\<close>

text \<open>The elements whose key does not occur before them.\<close>

definition firsts :: "('a \<Rightarrow> 'b) \<Rightarrow> 'a list \<Rightarrow> 'a list" where
  "firsts key xs = map (nth xs) (filter (\<lambda>i. \<forall>j<i. key (xs ! j) \<noteq> key (xs ! i)) [0 ..< length xs])"

lemma firsts_snoc: "firsts key (xs @ [x]) = (if key x \<in> key ` set xs then firsts key xs else firsts key xs @ [x])"
proof -
  let ?P = "\<lambda>xs i. \<forall>j<i. key (xs ! j) \<noteq> key (xs ! i)"
  have "filter (?P (xs @ [x])) [0 ..< length xs] = filter (?P xs) [0 ..< length xs]"
    by (rule filter_cong) (auto simp: nth_append)
  moreover have "?P (xs @ [x]) (length xs) \<longleftrightarrow> key x \<notin> key ` set xs"
    by (auto simp: nth_append in_set_conv_nth) (metis image_eqI nth_mem)
  moreover have "map (nth (xs @ [x])) (filter (?P xs) [0 ..< length xs]) = map (nth xs) (filter (?P xs) [0 ..< length xs])"
    by (simp add: nth_append)
  ultimately show ?thesis by (simp add: firsts_def nth_append)
qed

lemma add_signer_foldl:
  "foldl (add_signer cdc) ([], {}) xs = (firsts (accString cdc) xs, accString cdc ` set xs)"
  by (induction xs rule: rev_induct) (simp add: firsts_def, auto simp: firsts_snoc add_signer_def)

lemma firsts_keys: "distinct (map key (firsts key xs)) \<and> key ` set (firsts key xs) = key ` set xs"
  by (induction xs rule: rev_induct) (simp add: firsts_def, auto simp: firsts_snoc)

text \<open>
  The signers of a transaction are the signers of its messages, each at its first occurrence,
  without repetition of an address text and with none left out; a transaction passes \<open>ValidateBasic\<close>
  exactly when it has a body and a fee, its gas is at most \<open>2^63 - 1\<close>, no fee is negative, and it
  has one signature for every signer, of which there is at least one.
\<close>

theorem GetSigners_ValidateBasic:
  assumes "Tx_GetMsgs t = Inr msgs"
  shows "(let all = concat (map (msgSigners cdc) msgs); ss = firsts (accString cdc) all in
      Tx_GetSigners cdc t = Inr ss \<and> distinct (map (accString cdc) ss) \<and> accString cdc ` set ss = accString cdc ` set all
    \<and> (Tx_ValidateBasic cdc (Some t) = Inr () \<longleftrightarrow>
        (\<exists>b a fee. TBody t = Some b \<and> TAuthInfo t = Some a \<and> AFee a = Some fee \<and> unat (GasLimit fee) < 2 ^ 63
          \<and> (\<forall>c\<in>set (FeeAmount fee). 0 \<le> Amount c) \<and> length (TSignatures t) = length ss \<and> ss \<noteq> [])))"
proof -
  define ss where "ss = firsts (accString cdc) (concat (map (msgSigners cdc) msgs))"
  have g: "Tx_GetSigners cdc t = Inr ss" using assms by (simp add: Tx_GetSigners_def add_signer_foldl ss_def)
  have neg: "Coins_IsAnyNegative cs \<longleftrightarrow> \<not> (\<forall>c\<in>set cs. 0 \<le> Amount c)" for cs
    by (auto simp: Coins_IsAnyNegative_def list_ex_iff Coin_IsNegative_def Int_pred_defs not_le)
  have gas: "MaxGasWanted < w \<longleftrightarrow> \<not> unat w < 2 ^ 63" for w
    by (simp add: MaxGasWanted_def word_less_nat_alt unat_of_nat not_less) linarith
  have "Tx_ValidateBasic cdc (Some t) = Inr () \<longleftrightarrow>
        (\<exists>b a fee. TBody t = Some b \<and> TAuthInfo t = Some a \<and> AFee a = Some fee \<and> unat (GasLimit fee) < 2 ^ 63
          \<and> (\<forall>c\<in>set (FeeAmount fee). 0 \<le> Amount c) \<and> length (TSignatures t) = length ss \<and> ss \<noteq> [])"
    by (auto simp: Tx_ValidateBasic_def g neg gas split: option.splits if_splits)
  with g firsts_keys [of "accString cdc" "concat (map (msgSigners cdc) msgs)"] show ?thesis by (simp add: Let_def ss_def)
qed

theorem GetSigners_ValidateBasic_witness:
  "\<exists>w. SetMsgs demo_codec [[2], [1], [2]] newBuilder = Inr w \<and> Tx_GetSigners demo_codec (wtx w) = Inr [[2], [1]]"
proof -
  obtain w where w: "SetMsgs demo_codec [[2], [1], [2]] newBuilder = Inr w"
    and m: "Tx_GetMsgs (wtx w) = Inr [[2], [1], [2]]"
    by (simp add: build_simps Tx_GetMsgs_def cached_msg_def)
  have "firsts (accString demo_codec) (concat (map (msgSigners demo_codec) [[2], [1], [2]])) = [[2], [1]]"
    by code_simp
  with w GetSigners_ValidateBasic [OF m, of demo_codec] show ?thesis by (auto simp: Let_def)
qed

text \<open>A mode handler for the legacy Amino mode, which the documentation offers, is a nil dereference.\<close>

lemma MakeSignModeHandler_amino:
  "MakeSignModeHandler [SIGN_MODE_DIRECT, SIGN_MODE_LEGACY_AMINO_JSON] = Inl nil_deref"
  by (simp add: MakeSignModeHandler_def NewSignModeHandlerMap_def SIGN_MODE_DIRECT_def SIGN_MODE_LEGACY_AMINO_JSON_def)

end
