(* ===== verification/KeyStore.thy ===== *)
theory KeyStore
  imports HdPath
begin

unbundle bit_operations_syntax

text \<open>
  Keys: \<open>types/store\<close> (the key stores), \<open>crypto/armor.go\<close> (encrypted private keys as text),
  \<open>crypto/key_manager.go\<close> (one key) and \<open>modules/keys.go\<close> (named keys in a store). The libraries that
  these files call, Amino, the signature scheme, bcrypt, xsalsa20, the armor format, bip39 and the
  data base, are fields of records that the definitions take; random bytes are arguments.
\<close>

section \<open>Hexadecimal text (\<open>encoding/hex\<close>, \<open>%X\<close>)\<close>

definition hex_digit :: "nat \<Rightarrow> char" where
  "hex_digit n = (if n < 10 then char_of (48 + n) else char_of (55 + n))"

definition hexUpper :: "bytes \<Rightarrow> string" where
  "hexUpper bs = concat (map (\<lambda>b. [hex_digit (unat b div 16), hex_digit (unat b mod 16)]) bs)"

definition fromHexChar :: "char \<Rightarrow> nat option" where
  "fromHexChar c =
     (if CHR ''0'' \<le> c \<and> c \<le> CHR ''9'' then Some (of_char c - 48)
      else if CHR ''a'' \<le> c \<and> c \<le> CHR ''f'' then Some (of_char c - 87)
      else if CHR ''A'' \<le> c \<and> c \<le> CHR ''F'' then Some (of_char c - 55)
      else None)"

fun hexDecode :: "string \<Rightarrow> bytes option" where
  "hexDecode [] = Some []"
| "hexDecode [c] = None"
| "hexDecode (c # d # cs) =
     (case (fromHexChar c, fromHexChar d) of
        (Some a, Some b) \<Rightarrow> map_option (\<lambda>bs. of_nat (16 * a + b) # bs) (hexDecode cs)
      | _ \<Rightarrow> None)"

text \<open>A Go string is the sequence of its bytes.\<close>

definition bytes_str :: "bytes \<Rightarrow> string" where
  "bytes_str bs = map (\<lambda>b. char_of (unat b)) bs"

definition str_to_bytes :: "string \<Rightarrow> bytes" where
  "str_to_bytes s = map (\<lambda>c. of_nat (of_char c)) s"

section \<open>The libraries\<close>

record ('p, 'k) KeyLib =
  privFromBytes :: "bytes \<Rightarrow> 'p res"
  pubFromBytes :: "bytes \<Rightarrow> 'k res"
  marshalPriv :: "'p \<Rightarrow> bytes"
  marshalPub :: "'k \<Rightarrow> bytes"
  privOfRaw :: "bytes \<Rightarrow> 'p"
  privSign :: "'p \<Rightarrow> bytes \<Rightarrow> bytes res"
  pubOf :: "'p \<Rightarrow> 'k"
  pubAddress :: "'k \<Rightarrow> bytes"
  addrString :: "bytes \<Rightarrow> string"
  derive :: "string \<Rightarrow> string \<Rightarrow> string \<Rightarrow> bytes res"
  bcrypt :: "bytes \<Rightarrow> string \<Rightarrow> bytes res"
  sha256 :: "bytes \<Rightarrow> bytes"
  sealSym :: "bytes \<Rightarrow> bytes \<Rightarrow> bytes \<Rightarrow> bytes"
  openSym :: "bytes \<Rightarrow> bytes \<Rightarrow> bytes res"
  encodeArmor :: "string \<Rightarrow> (string \<times> string) list \<Rightarrow> bytes \<Rightarrow> string"
  decodeArmor :: "string \<Rightarrow> (string \<times> (string \<rightharpoonup> string) \<times> bytes) res"

text \<open>Wrapping an error keeps it an error and a panic a panic.\<close>

definition wrap_err :: "string \<Rightarrow> 'a res \<Rightarrow> 'a res" where
  "wrap_err msg r = (case r of Inl (Err e) \<Rightarrow> Inl (Err (msg @ '': '' @ e)) | _ \<Rightarrow> r)"

definition replace_err :: "string \<Rightarrow> 'a res \<Rightarrow> 'a res" where
  "replace_err msg r = (case r of Inl (Err e) \<Rightarrow> Inl (Err msg) | _ \<Rightarrow> r)"

definition panic_on_err :: "'a res \<Rightarrow> 'a res" where
  "panic_on_err r = (case r of Inl (Err m) \<Rightarrow> Inl (Panic m) | _ \<Rightarrow> r)"

section \<open>Armored private keys (\<open>crypto/armor.go\<close>)\<close>

definition blockTypePrivKey :: string where "blockTypePrivKey = ''TENDERMINT PRIVATE KEY''"
definition blockTypeKeyInfo :: string where "blockTypeKeyInfo = ''TENDERMINT KEY INFO''"
definition blockTypePubKey :: string where "blockTypePubKey = ''TENDERMINT PUBLIC KEY''"
definition armorAlgo :: string where "armorAlgo = ''secp256k1''"

text \<open>The header map that is encoded is given by its entries; reading a missing entry gives the empty string.\<close>

definition header_get :: "(string \<rightharpoonup> string) \<Rightarrow> string \<Rightarrow> string" where
  "header_get h k = (case h k of None \<Rightarrow> [] | Some v \<Rightarrow> v)"

definition ArmorInfoBytes :: "('p, 'k) KeyLib \<Rightarrow> bytes \<Rightarrow> string" where
  "ArmorInfoBytes lib bz = encodeArmor lib blockTypeKeyInfo [(''type'', ''Info''), (''version'', ''0.0.0'')] bz"

definition ArmorPubKeyBytes :: "('p, 'k) KeyLib \<Rightarrow> bytes \<Rightarrow> string \<Rightarrow> string" where
  "ArmorPubKeyBytes lib bz algo =
     (let header = [(''version'', ''0.0.1'')];
          header' = (if algo \<noteq> [] then header @ [(''type'', algo)] else header)
      in encodeArmor lib blockTypePubKey header' bz)"

definition unarmorBytes :: "('p, 'k) KeyLib \<Rightarrow> string \<Rightarrow> string \<Rightarrow> (bytes \<times> (string \<rightharpoonup> string)) res" where
  "unarmorBytes lib armorStr blockType =
     bindR (decodeArmor lib armorStr) (\<lambda>(bType, header, bz).
       if bType \<noteq> blockType then Inl (Err (''unrecognized armor type '' @ bType @ '', expected: '' @ blockType))
       else Inr (bz, header))"

definition UnarmorInfoBytes :: "('p, 'k) KeyLib \<Rightarrow> string \<Rightarrow> bytes res" where
  "UnarmorInfoBytes lib armorStr =
     bindR (unarmorBytes lib armorStr blockTypeKeyInfo) (\<lambda>(bz, header).
       if header_get header ''version'' \<noteq> ''0.0.0''
       then Inl (Err (''unrecognized version: '' @ header_get header ''version''))
       else Inr bz)"

definition UnarmorPubKeyBytes :: "('p, 'k) KeyLib \<Rightarrow> string \<Rightarrow> (bytes \<times> string) res" where
  "UnarmorPubKeyBytes lib armorStr =
     bindR (wrap_err ''couldn't unarmor bytes'' (unarmorBytes lib armorStr blockTypePubKey)) (\<lambda>(bz, header).
       let version = header_get header ''version'' in
       if version = ''0.0.0'' then Inr (bz, armorAlgo)
       else if version = ''0.0.1'' then
         Inr (bz, if header_get header ''type'' = [] then armorAlgo else header_get header ''type'')
       else if version = [] then Inl (Err ''header's version field is empty'')
       else Inl (Err (''unrecognized version: '' @ version)))"

definition encryptPrivKey :: "('p, 'k) KeyLib \<Rightarrow> bytes \<Rightarrow> bytes \<Rightarrow> 'p \<Rightarrow> string \<Rightarrow> (bytes \<times> bytes) res" where
  "encryptPrivKey lib saltBytes nonce privKey passphrase =
     bindR (panic_on_err (bcrypt lib saltBytes passphrase)) (\<lambda>key.
       Inr (saltBytes, sealSym lib nonce (marshalPriv lib privKey) (sha256 lib key)))"

definition EncryptArmorPrivKey :: "('p, 'k) KeyLib \<Rightarrow> bytes \<Rightarrow> bytes \<Rightarrow> 'p \<Rightarrow> string \<Rightarrow> string \<Rightarrow> string res" where
  "EncryptArmorPrivKey lib salt nonce privKey passphrase algo =
     bindR (encryptPrivKey lib salt nonce privKey passphrase) (\<lambda>(saltBytes, encBytes).
       let header = [(''kdf'', ''bcrypt''), (''salt'', hexUpper saltBytes)];
           header' = (if algo \<noteq> [] then header @ [(''type'', algo)] else header)
       in Inr (encodeArmor lib blockTypePrivKey header' encBytes))"

definition decryptPrivKey :: "('p, 'k) KeyLib \<Rightarrow> bytes \<Rightarrow> bytes \<Rightarrow> string \<Rightarrow> 'p res" where
  "decryptPrivKey lib saltBytes encBytes passphrase =
     bindR (wrap_err ''error generating bcrypt key from passphrase'' (bcrypt lib saltBytes passphrase)) (\<lambda>key.
       case openSym lib encBytes (sha256 lib key) of
         Inl (Err e) \<Rightarrow> Inl (Err (if e = ''Ciphertext decryption failed'' then ''wrong password'' else e))
       | Inl (Panic p) \<Rightarrow> Inl (Panic p)
       | Inr privKeyBytes \<Rightarrow> privFromBytes lib privKeyBytes)"

definition UnarmorDecryptPrivKey :: "('p, 'k) KeyLib \<Rightarrow> string \<Rightarrow> string \<Rightarrow> ('p \<times> string) res" where
  "UnarmorDecryptPrivKey lib armorStr passphrase =
     bindR (decodeArmor lib armorStr) (\<lambda>(blockType, header, encBytes).
       if blockType \<noteq> blockTypePrivKey then Inl (Err (''unrecognized armor type: '' @ blockType))
       else if header_get header ''kdf'' \<noteq> ''bcrypt'' then Inl (Err (''unrecognized KDF type: '' @ header_get header ''kdf''))
       else if header_get header ''salt'' = [] then Inl (Err ''missing salt bytes'')
       else
         case hexDecode (header_get header ''salt'') of
           None \<Rightarrow> Inl (Err ''error decoding salt'')
         | Some saltBytes \<Rightarrow>
             bindR (decryptPrivKey lib saltBytes encBytes passphrase) (\<lambda>privKey.
               Inr (privKey, if header_get header ''type'' = [] then armorAlgo else header_get header ''type'')))"

section \<open>One key (\<open>crypto/key_manager.go\<close>)\<close>

text \<open>\<open>None\<close> is a nil private key.\<close>

record 'p keyManager =
  privKey :: "'p option"
  mnemonic :: string
  kmAlgo :: string

definition NewKeyManager :: "'p keyManager" where
  "NewKeyManager = \<lparr>privKey = None, mnemonic = [], kmAlgo = []\<rparr>"

definition FullPath :: string where
  "FullPath = ''44'' @ [CHR 0x27] @ ''/118'' @ [CHR 0x27] @ ''/0'' @ [CHR 0x27] @ ''/0/0''"

definition recoveryFromMnemonic ::
    "('p, 'k) KeyLib \<Rightarrow> 'p keyManager \<Rightarrow> string \<Rightarrow> string \<Rightarrow> string \<Rightarrow> 'p keyManager res" where
  "recoveryFromMnemonic lib m mnemo hdPath algoStr =
     (let words = splitOn (CHR '' '') mnemo in
      if length words \<noteq> 12 \<and> length words \<noteq> 24 then Inl (Err ''mnemonic length should either be 12 or 24'')
      else
        bindR (NewSigningAlgoFromString algoStr) (\<lambda>algo.
        bindR (derive lib mnemo [] hdPath) (\<lambda>derivedPriv.
          Inr (m\<lparr>privKey := Some (privOfRaw lib (Generate derivedPriv)), kmAlgo := algoStr\<rparr>))))"

definition NewMnemonicKeyManagerWithHDPath ::
    "('p, 'k) KeyLib \<Rightarrow> string \<Rightarrow> string \<Rightarrow> string \<Rightarrow> 'p keyManager res" where
  "NewMnemonicKeyManagerWithHDPath lib mnemo algo hdPath =
     recoveryFromMnemonic lib \<lparr>privKey = None, mnemonic = mnemo, kmAlgo = algo\<rparr> mnemo hdPath algo"

definition NewMnemonicKeyManager :: "('p, 'k) KeyLib \<Rightarrow> string \<Rightarrow> string \<Rightarrow> 'p keyManager res" where
  "NewMnemonicKeyManager lib mnemo algo =
     recoveryFromMnemonic lib \<lparr>privKey = None, mnemonic = mnemo, kmAlgo = algo\<rparr> mnemo FullPath algo"

text \<open>The mnemonic, or the failure of the random source or of bip39, is an argument.\<close>

definition NewAlgoKeyManager :: "('p, 'k) KeyLib \<Rightarrow> string res \<Rightarrow> string \<Rightarrow> 'p keyManager res" where
  "NewAlgoKeyManager lib newMnemonic algo = bindR newMnemonic (\<lambda>mnemo. NewMnemonicKeyManager lib mnemo algo)"

definition NewPrivateKeyManager :: "('p, 'k) KeyLib \<Rightarrow> bytes \<Rightarrow> string \<Rightarrow> 'p keyManager res" where
  "NewPrivateKeyManager lib priv algo =
     bindR (wrap_err ''failed to decrypt private key'' (privFromBytes lib priv)) (\<lambda>p.
       Inr \<lparr>privKey = Some p, mnemonic = [], kmAlgo = algo\<rparr>)"

definition the_key :: "'p keyManager \<Rightarrow> 'p res" where
  "the_key m = (case privKey m of None \<Rightarrow> Inl (Panic ''nil pointer dereference'') | Some p \<Rightarrow> Inr p)"

definition km_Sign :: "('p, 'k) KeyLib \<Rightarrow> 'p keyManager \<Rightarrow> bytes \<Rightarrow> bytes res" where
  "km_Sign lib m data = bindR (the_key m) (\<lambda>p. privSign lib p data)"

definition ExportPubKey :: "('p, 'k) KeyLib \<Rightarrow> 'p keyManager \<Rightarrow> 'k res" where
  "ExportPubKey lib m = bindR (the_key m) (\<lambda>p. Inr (pubOf lib p))"

definition ExportPrivKey :: "('p, 'k) KeyLib \<Rightarrow> bytes \<Rightarrow> bytes \<Rightarrow> 'p keyManager \<Rightarrow> string \<Rightarrow> string res" where
  "ExportPrivKey lib salt nonce m password =
     bindR (the_key m) (\<lambda>p. EncryptArmorPrivKey lib salt nonce p password (kmAlgo m))"

definition ImportPrivKey :: "('p, 'k) KeyLib \<Rightarrow> 'p keyManager \<Rightarrow> string \<Rightarrow> string \<Rightarrow> ('p keyManager \<times> 'p \<times> string) res" where
  "ImportPrivKey lib m armorStr passphrase =
     bindR (wrap_err ''failed to decrypt private key'' (UnarmorDecryptPrivKey lib armorStr passphrase)) (\<lambda>(p, algo).
       Inr (m\<lparr>privKey := Some p, kmAlgo := algo\<rparr>, p, algo))"

section \<open>Key stores (\<open>types/store\<close>)\<close>

record KeyInfo =
  KName :: string
  KPubKey :: bytes
  KPrivKeyArmor :: string
  KAlgo :: string

definition zeroKeyInfo :: KeyInfo where
  "zeroKeyInfo = \<lparr>KName = [], KPubKey = [], KPrivKeyArmor = [], KAlgo = []\<rparr>"

text \<open>The interface \<open>KeyDAO\<close>, over a store of type \<open>'s\<close>.\<close>

record 's KeyDAO =
  daoWrite :: "'s \<Rightarrow> string \<Rightarrow> string \<Rightarrow> KeyInfo \<Rightarrow> 's res"
  daoRead :: "'s \<Rightarrow> string \<Rightarrow> string \<Rightarrow> KeyInfo res"
  daoDelete :: "'s \<Rightarrow> string \<Rightarrow> string \<Rightarrow> 's res"
  daoHas :: "'s \<Rightarrow> string \<Rightarrow> bool"

text \<open>\<open>memory.go\<close>: a map; the password plays no part.\<close>

definition Memory_Write :: "(string \<rightharpoonup> KeyInfo) \<Rightarrow> string \<Rightarrow> string \<Rightarrow> KeyInfo \<Rightarrow> (string \<rightharpoonup> KeyInfo) res" where
  "Memory_Write m name password info = Inr (m(name \<mapsto> info))"

definition Memory_Read :: "(string \<rightharpoonup> KeyInfo) \<Rightarrow> string \<Rightarrow> string \<Rightarrow> KeyInfo res" where
  "Memory_Read m name password = Inr (case m name of None \<Rightarrow> zeroKeyInfo | Some i \<Rightarrow> i)"

definition Memory_Delete :: "(string \<rightharpoonup> KeyInfo) \<Rightarrow> string \<Rightarrow> string \<Rightarrow> (string \<rightharpoonup> KeyInfo) res" where
  "Memory_Delete m name password = Inr (m(name := None))"

definition Memory_Has :: "(string \<rightharpoonup> KeyInfo) \<Rightarrow> string \<Rightarrow> bool" where
  "Memory_Has m name = (m name \<noteq> None)"

definition MemoryDAO :: "(string \<rightharpoonup> KeyInfo) KeyDAO" where
  "MemoryDAO = \<lparr>daoWrite = Memory_Write, daoRead = Memory_Read, daoDelete = Memory_Delete, daoHas = Memory_Has\<rparr>"

text \<open>The interface \<open>Crypto\<close>, and its default \<open>AES\<close> (\<open>aes.go\<close>).\<close>

record Crypto =
  Encrypt :: "string \<Rightarrow> string \<Rightarrow> string res"
  Decrypt :: "string \<Rightarrow> string \<Rightarrow> string res"

definition AES :: Crypto where
  "AES = \<lparr>Encrypt = (\<lambda>text key. Inr []), Decrypt = (\<lambda>cryptoText key. Inr [])\<rparr>"

text \<open>The data base (tm-db) and the JSON form of a \<open>KeyInfo\<close>.\<close>

record 'd DB =
  dbGet :: "'d \<Rightarrow> bytes \<Rightarrow> (bytes option) res"
  dbSet :: "'d \<Rightarrow> bytes \<Rightarrow> bytes \<Rightarrow> 'd res"
  dbDelete :: "'d \<Rightarrow> bytes \<Rightarrow> 'd res"
  dbHas :: "'d \<Rightarrow> bytes \<Rightarrow> bool res"

record InfoJSON =
  infoMarshal :: "KeyInfo \<Rightarrow> bytes res"
  infoUnmarshal :: "bytes \<Rightarrow> KeyInfo res"

definition infoKey :: "string \<Rightarrow> bytes" where
  "infoKey name = str_to_bytes (name @ ''.info'')"

definition Level_Has :: "'d DB \<Rightarrow> 'd \<Rightarrow> string \<Rightarrow> bool" where
  "Level_Has db d name = (case dbHas db d (infoKey name) of Inl _ \<Rightarrow> False | Inr existed \<Rightarrow> existed)"

definition Level_Write :: "'d DB \<Rightarrow> InfoJSON \<Rightarrow> Crypto \<Rightarrow> 'd \<Rightarrow> string \<Rightarrow> string \<Rightarrow> KeyInfo \<Rightarrow> 'd res" where
  "Level_Write db js cr d name password info =
     (if Level_Has db d name then Inl (Err (''name '' @ name @ '' has exist''))
      else
        bindR (Encrypt cr (KPrivKeyArmor info) password) (\<lambda>privStr.
        bindR (infoMarshal js (info\<lparr>KPrivKeyArmor := privStr\<rparr>)) (\<lambda>bz. dbSet db d (infoKey name) bz)))"

definition Level_Read :: "'d DB \<Rightarrow> InfoJSON \<Rightarrow> Crypto \<Rightarrow> 'd \<Rightarrow> string \<Rightarrow> string \<Rightarrow> KeyInfo res" where
  "Level_Read db js cr d name password =
     bindR (dbGet db d (infoKey name)) (\<lambda>r.
       case r of
         None \<Rightarrow> Inr zeroKeyInfo
       | Some bz \<Rightarrow>
           bindR (infoUnmarshal js bz) (\<lambda>info.
             if 0 < length password
             then bindR (Decrypt cr (KPrivKeyArmor info) password) (\<lambda>privStr. Inr (info\<lparr>KPrivKeyArmor := privStr\<rparr>))
             else Inr info))"

definition Level_Delete :: "'d DB \<Rightarrow> InfoJSON \<Rightarrow> Crypto \<Rightarrow> 'd \<Rightarrow> string \<Rightarrow> string \<Rightarrow> 'd res" where
  "Level_Delete db js cr d name password =
     bindR (Level_Read db js cr d name password) (\<lambda>_. dbDelete db d (infoKey name))"

definition LevelDBDAO :: "'d DB \<Rightarrow> InfoJSON \<Rightarrow> Crypto \<Rightarrow> 'd KeyDAO" where
  "LevelDBDAO db js cr =
     \<lparr>daoWrite = Level_Write db js cr, daoRead = Level_Read db js cr, daoDelete = Level_Delete db js cr, daoHas = Level_Has db\<rparr>"

text \<open>\<open>NewLevelDB\<close> falls back to \<open>AES\<close>.\<close>

definition NewLevelDB :: "'d DB \<Rightarrow> InfoJSON \<Rightarrow> Crypto option \<Rightarrow> 'd KeyDAO" where
  "NewLevelDB db js cr = LevelDBDAO db js (case cr of None \<Rightarrow> AES | Some c \<Rightarrow> c)"

section \<open>Named keys (\<open>modules/keys.go\<close>)\<close>

definition key_info :: "('p, 'k) KeyLib \<Rightarrow> string \<Rightarrow> string \<Rightarrow> 'p \<Rightarrow> KeyInfo" where
  "key_info lib algo name p =
     \<lparr>KName = name, KPubKey = marshalPub lib (pubOf lib p), KPrivKeyArmor = bytes_str (marshalPriv lib p), KAlgo = algo\<rparr>"

definition key_address :: "('p, 'k) KeyLib \<Rightarrow> 'p \<Rightarrow> string" where
  "key_address lib p = addrString lib (pubAddress lib (pubOf lib p))"

definition Keys_Sign :: "('p, 'k) KeyLib \<Rightarrow> 's KeyDAO \<Rightarrow> 's \<Rightarrow> string \<Rightarrow> string \<Rightarrow> bytes \<Rightarrow> (bytes \<times> 'k) res" where
  "Keys_Sign lib dao s name password data =
     bindR (replace_err (''name '' @ name @ '' not exist'') (daoRead dao s name password)) (\<lambda>info.
     bindR (replace_err (''name '' @ name @ '' not exist'')
             (NewPrivateKeyManager lib (str_to_bytes (KPrivKeyArmor info)) (KAlgo info))) (\<lambda>km.
     bindR (km_Sign lib km data) (\<lambda>signByte.
     bindR (ExportPubKey lib km) (\<lambda>pub. Inr (signByte, pub)))))"

definition Keys_Insert ::
    "('p, 'k) KeyLib \<Rightarrow> 's KeyDAO \<Rightarrow> string \<Rightarrow> string res \<Rightarrow> 's \<Rightarrow> string \<Rightarrow> string \<Rightarrow> ('s \<times> string \<times> string) res" where
  "Keys_Insert lib dao algo newMnemonic s name password =
     (if daoHas dao s name then Inl (Err (''name '' @ name @ '' has existed''))
      else
        bindR (NewAlgoKeyManager lib newMnemonic algo) (\<lambda>km.
        bindR (the_key km) (\<lambda>priv.
        bindR (daoWrite dao s name password (key_info lib algo name priv)) (\<lambda>s'.
          Inr (s', key_address lib priv, mnemonic km)))))"

definition Keys_Recover ::
    "('p, 'k) KeyLib \<Rightarrow> 's KeyDAO \<Rightarrow> string \<Rightarrow> 's \<Rightarrow> string \<Rightarrow> string \<Rightarrow> string \<Rightarrow> string \<Rightarrow> ('s \<times> string) res" where
  "Keys_Recover lib dao algo s name password mnemo hdPath =
     (if daoHas dao s name then Inl (Err (''name '' @ name @ '' has existed''))
      else
        bindR (if hdPath = [] then NewMnemonicKeyManager lib mnemo algo
               else NewMnemonicKeyManagerWithHDPath lib mnemo algo hdPath) (\<lambda>km.
        bindR (the_key km) (\<lambda>priv.
        bindR (daoWrite dao s name password (key_info lib algo name priv)) (\<lambda>s'.
          Inr (s', key_address lib priv)))))"

definition Keys_Import ::
    "('p, 'k) KeyLib \<Rightarrow> 's KeyDAO \<Rightarrow> string \<Rightarrow> 's \<Rightarrow> string \<Rightarrow> string \<Rightarrow> string \<Rightarrow> ('s \<times> string) res" where
  "Keys_Import lib dao algo s name password armorStr =
     (if daoHas dao s name then Inl (Err (name @ '' has existed''))
      else
        bindR (ImportPrivKey lib NewKeyManager armorStr password) (\<lambda>(km, priv, _).
        bindR (daoWrite dao s name password (key_info lib algo name priv)) (\<lambda>s'.
          Inr (s', key_address lib priv))))"

definition Keys_Export ::
    "('p, 'k) KeyLib \<Rightarrow> 's KeyDAO \<Rightarrow> bytes \<Rightarrow> bytes \<Rightarrow> 's \<Rightarrow> string \<Rightarrow> string \<Rightarrow> string res" where
  "Keys_Export lib dao salt nonce s name password =
     bindR (replace_err (''name '' @ name @ '' not exist'') (daoRead dao s name password)) (\<lambda>info.
     bindR (NewPrivateKeyManager lib (str_to_bytes (KPrivKeyArmor info)) (KAlgo info)) (\<lambda>km.
       ExportPrivKey lib salt nonce km password))"

definition Keys_Delete :: "'s KeyDAO \<Rightarrow> 's \<Rightarrow> string \<Rightarrow> string \<Rightarrow> 's res" where
  "Keys_Delete dao s name password = daoDelete dao s name password"

definition Keys_Find :: "('p, 'k) KeyLib \<Rightarrow> 's KeyDAO \<Rightarrow> 's \<Rightarrow> string \<Rightarrow> string \<Rightarrow> ('k \<times> bytes) res" where
  "Keys_Find lib dao s name password =
     bindR (wrap_err (''name '' @ name @ '' not exist'') (daoRead dao s name password)) (\<lambda>info.
     bindR (wrap_err (''name '' @ name @ '' not exist'') (pubFromBytes lib (KPubKey info))) (\<lambda>pub.
       Inr (pub, pubAddress lib pub)))"

section \<open>Texts\<close>

lemma str_to_bytes_bytes_str [simp]: "str_to_bytes (bytes_str bs) = bs"
proof -
  have "of_nat (of_char (char_of (unat b) :: char)) = b" for b :: "8 word"
    using unsigned_less [of b, where 'a = nat] by simp
  then show ?thesis by (simp add: str_to_bytes_def bytes_str_def comp_def map_idI)
qed

lemma bytes_str_str_to_bytes [simp]: "bytes_str (str_to_bytes s) = s"
  by (simp add: str_to_bytes_def bytes_str_def comp_def unat_of_nat map_idI)

lemma str_to_bytes_inj: "str_to_bytes s = str_to_bytes t \<Longrightarrow> s = t"
  by (metis bytes_str_str_to_bytes)

lemma infoKey_inj [simp]: "infoKey m = infoKey n \<longleftrightarrow> m = n"
  by (auto simp: infoKey_def dest: str_to_bytes_inj)

lemma fromHexChar_hex_digit: "n < 16 \<Longrightarrow> fromHexChar (hex_digit n) = Some n"
proof -
  have "\<forall>n < 16. fromHexChar (hex_digit n) = Some n" by code_simp
  then show "n < 16 \<Longrightarrow> fromHexChar (hex_digit n) = Some n" by blast
qed

lemma hexDecode_hexUpper [simp]: "hexDecode (hexUpper bs) = Some bs"
proof (induction bs)
  case (Cons b bs)
  have "unat b div 16 < 16" "unat b mod 16 < 16" using unsigned_less [of b, where 'a = nat] by (auto simp: less_mult_imp_div_less)
  then show ?case using Cons by (simp add: hexUpper_def fromHexChar_hex_digit)
qed (simp add: hexUpper_def)

section \<open>What the libraries promise\<close>

definition printable :: "string \<Rightarrow> bool" where
  "printable s = list_all (\<lambda>c. CHR 0x21 \<le> c \<and> c \<le> CHR 0x7E) s"

text \<open>
  Amino decodes what it encodes; decryption with the same key undoes encryption, with another key it
  fails; the armor of printable headers decodes to what was encoded.
\<close>

definition lib_laws :: "('p, 'k) KeyLib \<Rightarrow> bool" where
  "lib_laws lib \<longleftrightarrow>
     (\<forall>p. privFromBytes lib (marshalPriv lib p) = Inr p) \<and> (\<forall>k. pubFromBytes lib (marshalPub lib k) = Inr k)
   \<and> (\<forall>nonce m k. openSym lib (sealSym lib nonce m k) k = Inr m)
   \<and> (\<forall>nonce m k k'. k' \<noteq> k \<longrightarrow> openSym lib (sealSym lib nonce m k) k' = Inl (Err ''Ciphertext decryption failed''))
   \<and> (\<forall>t h d. distinct (map fst h) \<longrightarrow> (\<forall>(k, v) \<in> set h. printable k \<and> printable v) \<longrightarrow>
        decodeArmor lib (encodeArmor lib t h d) = Inr (t, map_of h, d))"

lemma printable_hexUpper: "printable (hexUpper bs)"
proof -
  have h: "\<forall>n < 16. CHR 0x21 \<le> hex_digit n \<and> hex_digit n \<le> CHR 0x7E" by code_simp
  have "unat b div 16 < 16" "unat b mod 16 < 16" for b :: "8 word"
    using unsigned_less [of b, where 'a = nat] by (auto simp: less_mult_imp_div_less)
  with h have "list_all (\<lambda>c. CHR 0x21 \<le> c \<and> c \<le> CHR 0x7E) (hexUpper bs)"
    by (induction bs) (simp_all add: hexUpper_def)
  then show ?thesis by (simp add: printable_def)
qed

lemma hexUpper_Nil [simp]: "hexUpper bs = [] \<longleftrightarrow> bs = []"
  by (cases bs) (simp_all add: hexUpper_def)

lemma wrap_err_simps [simp]:
  "wrap_err m (Inr x) = Inr x" "wrap_err m (Inl (Err e)) = Inl (Err (m @ '': '' @ e))" "wrap_err m (Inl (Panic e)) = Inl (Panic e)"
  by (simp_all add: wrap_err_def)

lemma replace_err_simps [simp]:
  "replace_err m (Inr x) = Inr x" "replace_err m (Inl (Err e)) = Inl (Err m)" "replace_err m (Inl (Panic e)) = Inl (Panic e)"
  by (simp_all add: replace_err_def)

lemma panic_on_err_Inr [simp]: "panic_on_err r = Inr x \<longleftrightarrow> r = Inr x"
  by (auto simp: panic_on_err_def split: sum.splits failure.splits)

lemma Unarmor_Encrypt:
  assumes lib: "lib_laws lib" and e: "EncryptArmorPrivKey lib salt nonce p pw algo = Inr arm"
    and s: "salt \<noteq> []" and a: "printable algo"
  shows "UnarmorDecryptPrivKey lib arm pw' =
    bindR (decryptPrivKey lib salt (sealSym lib nonce (marshalPriv lib p) (sha256 lib (projr (bcrypt lib salt pw)))) pw')
      (\<lambda>q. Inr (q, if algo = [] then armorAlgo else algo))"
proof -
  from e obtain key where k: "bcrypt lib salt pw = Inr key"
    and arm: "arm = encodeArmor lib blockTypePrivKey
       ([(''kdf'', ''bcrypt''), (''salt'', hexUpper salt)] @ (if algo \<noteq> [] then [(''type'', algo)] else []))
       (sealSym lib nonce (marshalPriv lib p) (sha256 lib key))" (is "_ = encodeArmor lib _ ?h _")
    by (auto simp: EncryptArmorPrivKey_def encryptPrivKey_def Let_def split: if_splits)
  have "printable ''bcrypt''" "printable ''kdf''" "printable ''salt''" "printable ''type''" by code_simp+
  then have "\<forall>(k, v) \<in> set ?h. printable k \<and> printable v" "distinct (map fst ?h)"
    using a printable_hexUpper by auto
  then have "decodeArmor lib arm = Inr (blockTypePrivKey, map_of ?h, sealSym lib nonce (marshalPriv lib p) (sha256 lib key))"
    using lib by (simp add: lib_laws_def arm)
  then show ?thesis using s k by (auto simp: UnarmorDecryptPrivKey_def header_get_def)
qed

section \<open>The contract of a key store\<close>

text \<open>
  What \<open>modules/keys.go\<close> relies on: an entry written under a fresh name is read back with its password,
  and writing and deleting leave the other names alone.
\<close>

locale key_dao =
  fixes dao :: "'s KeyDAO" and good :: "'s \<Rightarrow> bool" and storable :: "string \<Rightarrow> KeyInfo \<Rightarrow> bool"
  assumes write_fresh: "good s \<Longrightarrow> \<not> daoHas dao s n \<Longrightarrow> storable pw i \<Longrightarrow> daoWrite dao s n pw i = Inr s' \<Longrightarrow>
      good s' \<and> daoHas dao s' n \<and> daoRead dao s' n pw = Inr i"
    and write_other: "good s \<Longrightarrow> daoWrite dao s n pw i = Inr s' \<Longrightarrow> m \<noteq> n \<Longrightarrow>
      daoHas dao s' m = daoHas dao s m \<and> daoRead dao s' m pw' = daoRead dao s m pw'"
    and delete: "good s \<Longrightarrow> daoDelete dao s n pw = Inr s' \<Longrightarrow> good s' \<and> \<not> daoHas dao s' n"
    and delete_other: "good s \<Longrightarrow> daoDelete dao s n pw = Inr s' \<Longrightarrow> m \<noteq> n \<Longrightarrow>
      daoHas dao s' m = daoHas dao s m \<and> daoRead dao s' m pw' = daoRead dao s m pw'"
begin

text \<open>A key that was stored is the key that is found, signed with and exported.\<close>

lemma stored_key:
  assumes "lib_laws lib" "good s" "\<not> daoHas dao s n" "storable pw (key_info lib algo n p)"
    "daoWrite dao s n pw (key_info lib algo n p) = Inr s'"
  shows "Keys_Find lib dao s' n pw = Inr (pubOf lib p, pubAddress lib (pubOf lib p))"
    "Keys_Sign lib dao s' n pw data = bindR (privSign lib p data) (\<lambda>sg. Inr (sg, pubOf lib p))"
    "Keys_Export lib dao salt nonce s' n pw = EncryptArmorPrivKey lib salt nonce p pw algo"
    "good s'" "daoHas dao s' n"
  using write_fresh [OF assms(2-5)] assms(1)
  by (simp_all add: Keys_Find_def Keys_Sign_def Keys_Export_def key_info_def lib_laws_def NewPrivateKeyManager_def km_Sign_def
      ExportPubKey_def ExportPrivKey_def the_key_def)

lemma other_names:
  assumes "good s" "daoWrite dao s n pw i = Inr s'" "m \<noteq> n"
  shows "Keys_Find lib dao s' m pw' = Keys_Find lib dao s m pw'"
    "Keys_Sign lib dao s' m pw' data = Keys_Sign lib dao s m pw' data"
  using write_other [OF assms] by (simp_all add: Keys_Find_def Keys_Sign_def)

lemma deleted:
  assumes "good s" "Keys_Delete dao s n pw = Inr s'"
  shows "\<not> daoHas dao s' n" "m \<noteq> n \<Longrightarrow> Keys_Find lib dao s' m pw' = Keys_Find lib dao s m pw'"
  using delete [OF assms(1)] delete_other [OF assms(1)] assms(2) by (simp_all add: Keys_Delete_def Keys_Find_def)

end

text \<open>A taken name is refused by every operation that creates a key.\<close>

lemma taken_name:
  assumes "daoHas dao s n"
  shows "Keys_Insert lib dao algo nm s n pw = Inl (Err (''name '' @ n @ '' has existed''))"
    "Keys_Recover lib dao algo s n pw mnemo path = Inl (Err (''name '' @ n @ '' has existed''))"
    "Keys_Import lib dao algo s n pw arm = Inl (Err (n @ '' has existed''))"
  using assms by (simp_all add: Keys_Insert_def Keys_Recover_def Keys_Import_def)

text \<open>A successful recovery wrote the key derived from the mnemonic.\<close>

lemma Keys_Recover_writes:
  "Keys_Recover lib dao algo s n pw mnemo path = Inr (s', addr) \<Longrightarrow>
   \<exists>raw. derive lib mnemo [] (if path = [] then FullPath else path) = Inr raw \<and> \<not> daoHas dao s n
     \<and> addr = key_address lib (privOfRaw lib (Generate raw))
     \<and> daoWrite dao s n pw (key_info lib algo n (privOfRaw lib (Generate raw))) = Inr s'"
  by (auto simp: Keys_Recover_def NewMnemonicKeyManager_def NewMnemonicKeyManagerWithHDPath_def recoveryFromMnemonic_def
      Let_def the_key_def split: if_splits)

interpretation memory: key_dao MemoryDAO "\<lambda>_. True" "\<lambda>pw i. True"
  by unfold_locales (auto simp: MemoryDAO_def Memory_Write_def Memory_Read_def Memory_Delete_def Memory_Has_def)

section \<open>The data base store\<close>

definition db_laws :: "'d DB \<Rightarrow> ('d \<Rightarrow> bool) \<Rightarrow> bool" where
  "db_laws db good \<longleftrightarrow>
     (\<forall>d k. good d \<longrightarrow> (\<exists>r. dbGet db d k = Inr r \<and> dbHas db d k = Inr (r \<noteq> None)))
   \<and> (\<forall>d k v d'. good d \<longrightarrow> dbSet db d k v = Inr d' \<longrightarrow>
        good d' \<and> dbGet db d' k = Inr (Some v) \<and> (\<forall>k'. k' \<noteq> k \<longrightarrow> dbGet db d' k' = dbGet db d k'))
   \<and> (\<forall>d k d'. good d \<longrightarrow> dbDelete db d k = Inr d' \<longrightarrow>
        good d' \<and> dbGet db d' k = Inr None \<and> (\<forall>k'. k' \<noteq> k \<longrightarrow> dbGet db d' k' = dbGet db d k'))"

definition json_laws :: "InfoJSON \<Rightarrow> bool" where
  "json_laws js \<longleftrightarrow>
     (\<forall>i bz. printable (KName i) \<longrightarrow> printable (KPrivKeyArmor i) \<longrightarrow> printable (KAlgo i) \<longrightarrow>
        infoMarshal js i = Inr bz \<longrightarrow> infoUnmarshal js bz = Inr i)"

definition crypto_laws :: "Crypto \<Rightarrow> bool" where
  "crypto_laws cr \<longleftrightarrow> (\<forall>x pw e. Encrypt cr x pw = Inr e \<longrightarrow> printable e \<and> Decrypt cr e pw = Inr x)"

lemma level_db_contract:
  assumes db: "db_laws db good" and js: "json_laws js" and cr: "crypto_laws cr"
  shows "key_dao (LevelDBDAO db js cr) good (\<lambda>pw i. pw \<noteq> [] \<and> printable (KName i) \<and> printable (KAlgo i))"
proof -
  have has: "Level_Has db d n \<longleftrightarrow> dbGet db d (infoKey n) \<noteq> Inr None" if "good d" for d n
  proof -
    from db that obtain r where "dbGet db d (infoKey n) = Inr r" "dbHas db d (infoKey n) = Inr (r \<noteq> None)"
      unfolding db_laws_def by metis
    then show ?thesis by (simp add: Level_Has_def)
  qed
  have set: "good d' \<and> dbGet db d' (infoKey n) = Inr (Some v) \<and> (\<forall>m. m \<noteq> n \<longrightarrow> dbGet db d' (infoKey m) = dbGet db d (infoKey m))"
    if "good d" "dbSet db d (infoKey n) v = Inr d'" for d n v d'
    using db that unfolding db_laws_def by (metis infoKey_inj)
  have del: "good d' \<and> dbGet db d' (infoKey n) = Inr None \<and> (\<forall>m. m \<noteq> n \<longrightarrow> dbGet db d' (infoKey m) = dbGet db d (infoKey m))"
    if "good d" "dbDelete db d (infoKey n) = Inr d'" for d n d'
    using db that unfolding db_laws_def by (metis infoKey_inj)
  have jsc: "infoUnmarshal js bz = Inr (i\<lparr>KPrivKeyArmor := e\<rparr>)" "Decrypt cr e pw = Inr (KPrivKeyArmor i)"
    if "printable (KName i)" "printable (KAlgo i)" "Encrypt cr (KPrivKeyArmor i) pw = Inr e"
      "infoMarshal js (i\<lparr>KPrivKeyArmor := e\<rparr>) = Inr bz" for i pw e bz
    using js cr that by (simp_all add: json_laws_def crypto_laws_def)
  show ?thesis
  proof
    fix s n pw i s' assume a: "good s" "\<not> daoHas (LevelDBDAO db js cr) s n"
      "pw \<noteq> [] \<and> printable (KName i) \<and> printable (KAlgo i)" "daoWrite (LevelDBDAO db js cr) s n pw i = Inr s'"
    then obtain e bz where e: "Encrypt cr (KPrivKeyArmor i) pw = Inr e" "infoMarshal js (i\<lparr>KPrivKeyArmor := e\<rparr>) = Inr bz"
      "dbSet db s (infoKey n) bz = Inr s'" by (auto simp: LevelDBDAO_def Level_Write_def split: if_splits)
    have "i\<lparr>KPrivKeyArmor := KPrivKeyArmor i\<rparr> = i" by simp
    with a e set [OF a(1) e(3)] has [of s' n] jsc [of i pw e bz]
    show "good s' \<and> daoHas (LevelDBDAO db js cr) s' n \<and> daoRead (LevelDBDAO db js cr) s' n pw = Inr i"
      by (simp add: LevelDBDAO_def Level_Read_def)
  next
    fix s n pw i s' m pw' assume a: "good s" "daoWrite (LevelDBDAO db js cr) s n pw i = Inr s'" "m \<noteq> n"
    then obtain bz where "dbSet db s (infoKey n) bz = Inr s'" by (auto simp: LevelDBDAO_def Level_Write_def split: if_splits)
    from set [OF a(1) this] a(1,3) has [of s m] has [of s' m]
    show "daoHas (LevelDBDAO db js cr) s' m = daoHas (LevelDBDAO db js cr) s m \<and>
      daoRead (LevelDBDAO db js cr) s' m pw' = daoRead (LevelDBDAO db js cr) s m pw'"
      by (simp add: LevelDBDAO_def Level_Read_def)
  next
    fix s n pw s' assume a: "good s" "daoDelete (LevelDBDAO db js cr) s n pw = Inr s'"
    then have "dbDelete db s (infoKey n) = Inr s'" by (auto simp: LevelDBDAO_def Level_Delete_def)
    from del [OF a(1) this] has [of s' n] show "good s' \<and> \<not> daoHas (LevelDBDAO db js cr) s' n" by (simp add: LevelDBDAO_def)
  next
    fix s n pw s' m pw' assume a: "good s" "daoDelete (LevelDBDAO db js cr) s n pw = Inr s'" "m \<noteq> n"
    then have "dbDelete db s (infoKey n) = Inr s'" by (auto simp: LevelDBDAO_def Level_Delete_def)
    from del [OF a(1) this] a(1,3) has [of s m] has [of s' m]
    show "daoHas (LevelDBDAO db js cr) s' m = daoHas (LevelDBDAO db js cr) s m \<and>
      daoRead (LevelDBDAO db js cr) s' m pw' = daoRead (LevelDBDAO db js cr) s m pw'"
      by (simp add: LevelDBDAO_def Level_Read_def)
  qed
qed

section \<open>A concrete set of libraries\<close>

text \<open>
  Lists of strings as one string: every character is escaped and every string ended. With it, a set
  of libraries whose keys are byte lists, a data base that is a map, and a hexadecimal \<open>Crypto\<close>.
\<close>

definition enc_str :: "string \<Rightarrow> string" where
  "enc_str s = concat (map (\<lambda>c. [CHR ''x'', c]) s) @ ''y''"

fun dec_strs :: "string \<Rightarrow> string \<Rightarrow> string list" where
  "dec_strs acc (CHR ''x'' # c # r) = dec_strs (acc @ [c]) r"
| "dec_strs acc (CHR ''y'' # r) = acc # dec_strs [] r"
| "dec_strs acc r = []"

fun pairs_of :: "string list \<Rightarrow> (string \<times> string) list" where
  "pairs_of (k # v # r) = (k, v) # pairs_of r"
| "pairs_of r = []"

lemma dec_enc_str: "dec_strs acc (enc_str s @ r) = (acc @ s) # dec_strs [] r"
  by (induction s arbitrary: acc) (auto simp: enc_str_def)

lemma dec_enc_strs [simp]: "dec_strs [] (concat (map enc_str ss)) = ss"
  by (induction ss) (simp_all add: dec_enc_str)

lemma pairs_of_concat [simp]: "pairs_of (concat (map (\<lambda>(k, v). [k, v]) h)) = h"
  by (induction h) auto

definition demo_seal :: "bytes \<Rightarrow> bytes \<Rightarrow> bytes" where
  "demo_seal m k = str_to_bytes (concat (map enc_str [bytes_str k, bytes_str m]))"

definition demo_lib :: "(bytes, bytes) KeyLib" where
  "demo_lib =
     \<lparr>privFromBytes = Inr, pubFromBytes = Inr, marshalPriv = id, marshalPub = id, privOfRaw = id,
      privSign = (\<lambda>p data. Inr (p @ data)), pubOf = id, pubAddress = id, addrString = bytes_str,
      derive = (\<lambda>m pw path. Inr (str_to_bytes (m @ path))), bcrypt = (\<lambda>salt pw. Inr (str_to_bytes pw)), sha256 = id,
      sealSym = (\<lambda>nonce m k. demo_seal m k),
      openSym = (\<lambda>c k. case dec_strs [] (bytes_str c) of
         [k', m] \<Rightarrow> if k' = bytes_str k then Inr (str_to_bytes m) else Inl (Err ''Ciphertext decryption failed'')
       | _ \<Rightarrow> Inl (Err ''malformed'')),
      encodeArmor = (\<lambda>t h d. concat (map enc_str ([t, bytes_str d] @ concat (map (\<lambda>(k, v). [k, v]) h)))),
      decodeArmor = (\<lambda>s. case dec_strs [] s of
         t # d # r \<Rightarrow> Inr (t, map_of (pairs_of r), str_to_bytes d) | _ \<Rightarrow> Inl (Err ''malformed''))\<rparr>"

lemma bytes_str_inj [simp]: "bytes_str a = bytes_str b \<longleftrightarrow> a = b"
  by (metis str_to_bytes_bytes_str)

lemma demo_lib_laws: "lib_laws demo_lib"
proof -
  have d: "dec_strs [] (bytes_str (demo_seal m k)) = [bytes_str k, bytes_str m]" for m k
    unfolding demo_seal_def bytes_str_str_to_bytes by (rule dec_enc_strs)
  have a: "dec_strs [] (concat (map enc_str ([t, bytes_str d] @ concat (map (\<lambda>(k, v). [k, v]) h)))) =
      [t, bytes_str d] @ concat (map (\<lambda>(k, v). [k, v]) h)" for t d and h :: "(string \<times> string) list"
    by (rule dec_enc_strs)
  show ?thesis unfolding lib_laws_def demo_lib_def using d a by auto
qed

definition demo_db :: "(bytes \<rightharpoonup> bytes) DB" where
  "demo_db = \<lparr>dbGet = (\<lambda>d k. Inr (d k)), dbSet = (\<lambda>d k v. Inr (d(k \<mapsto> v))), dbDelete = (\<lambda>d k. Inr (d(k := None))),
              dbHas = (\<lambda>d k. Inr (d k \<noteq> None))\<rparr>"

definition demo_json :: InfoJSON where
  "demo_json =
     \<lparr>infoMarshal = (\<lambda>i. Inr (str_to_bytes (concat (map enc_str [KName i, bytes_str (KPubKey i), KPrivKeyArmor i, KAlgo i])))),
      infoUnmarshal = (\<lambda>bz. case dec_strs [] (bytes_str bz) of
         [n, k, p, a] \<Rightarrow> Inr \<lparr>KName = n, KPubKey = str_to_bytes k, KPrivKeyArmor = p, KAlgo = a\<rparr> | _ \<Rightarrow> Inl (Err ''malformed''))\<rparr>"

definition demo_crypto :: Crypto where
  "demo_crypto = \<lparr>Encrypt = (\<lambda>x pw. Inr (hexUpper (str_to_bytes x))),
     Decrypt = (\<lambda>e pw. case hexDecode e of None \<Rightarrow> Inl (Err ''malformed'') | Some b \<Rightarrow> Inr (bytes_str b))\<rparr>"

lemma demo_store_laws: "db_laws demo_db (\<lambda>_. True)" "json_laws demo_json" "crypto_laws demo_crypto"
proof -
  show "db_laws demo_db (\<lambda>_. True)" by (auto simp: db_laws_def demo_db_def)
  have "dec_strs [] (concat (map enc_str [n, k, p, a])) = [n, k, p, a]" for n k p a by (rule dec_enc_strs)
  then show "json_laws demo_json" by (auto simp: json_laws_def demo_json_def)
  show "crypto_laws demo_crypto" by (auto simp: crypto_laws_def demo_crypto_def printable_hexUpper)
qed

section \<open>Properties\<close>


definition demo_mnemonic :: string where
  "demo_mnemonic = ''a b c d e f g h i j k l''"

lemma demo_recover:
  "\<exists>d addr. Keys_Recover demo_lib (LevelDBDAO demo_db demo_json demo_crypto) ''secp256k1'' Map.empty ''bob'' ''pw'' demo_mnemonic []
     = Inr (d, addr)"
proof -
  have "length (splitOn (CHR '' '') demo_mnemonic) = 12" by code_simp
  then show ?thesis
    by (simp add: Keys_Recover_def LevelDBDAO_def Level_Has_def Level_Write_def demo_db_def demo_json_def demo_crypto_def
        demo_lib_def NewMnemonicKeyManager_def recoveryFromMnemonic_def NewSigningAlgoFromString_def the_key_def)
qed




text \<open>The armors of public keys and of key infos are undone by their readers.\<close>

lemma Armor_PubKey_Info_roundtrip:
  assumes "lib_laws lib" "printable algo"
  shows "UnarmorPubKeyBytes lib (ArmorPubKeyBytes lib bz algo) = Inr (bz, if algo = [] then armorAlgo else algo)"
    "UnarmorInfoBytes lib (ArmorInfoBytes lib bz) = Inr bz"
proof -
  have p: "printable ''version''" "printable ''0.0.1''" "printable ''0.0.0''" "printable ''type''" "printable ''Info''"
    by code_simp+
  have "(\<forall>(k, v) \<in> set h. printable k \<and> printable v) \<Longrightarrow> distinct (map fst h) \<Longrightarrow>
      decodeArmor lib (encodeArmor lib t h d) = Inr (t, map_of h, d)" for t h d
    using assms(1) by (simp add: lib_laws_def)
  with p assms(2)
  show "UnarmorPubKeyBytes lib (ArmorPubKeyBytes lib bz algo) = Inr (bz, if algo = [] then armorAlgo else algo)"
    "UnarmorInfoBytes lib (ArmorInfoBytes lib bz) = Inr bz"
    by (auto simp: UnarmorPubKeyBytes_def ArmorPubKeyBytes_def UnarmorInfoBytes_def ArmorInfoBytes_def unarmorBytes_def header_get_def)
qed

text \<open>
  With \<open>AES\<close>, the default of \<open>NewLevelDB\<close>, nothing of the private key is kept: whatever key is written,
  what is read back with a password is the empty text.
\<close>

lemma AES_loses_private_keys:
  assumes "db_laws db good" "json_laws js" "good d" "Level_Write db js AES d name pw info = Inr d'"
    "printable (KName info)" "printable (KAlgo info)" "pw \<noteq> []"
  shows "Level_Read db js AES d' name pw = Inr (info\<lparr>KPrivKeyArmor := []\<rparr>)"
proof -
  obtain bz where bz: "infoMarshal js (info\<lparr>KPrivKeyArmor := []\<rparr>) = Inr bz" "dbSet db d (infoKey name) bz = Inr d'"
    using assms(4) by (auto simp: Level_Write_def AES_def split: if_splits)
  have "dbGet db d' (infoKey name) = Inr (Some bz)" using assms(1,3) bz(2) unfolding db_laws_def by metis
  moreover have "infoUnmarshal js bz = Inr (info\<lparr>KPrivKeyArmor := []\<rparr>)"
    using assms(2,5,6) bz(1) by (simp add: json_laws_def printable_def)
  ultimately show ?thesis using assms(7) by (simp add: Level_Read_def AES_def)
qed

end
