(* ===== verification/Client.thy ===== *)
theory Client
  imports TxBuilder CoinType KeyStore
begin

text \<open>
  The base client: \<open>utils/cache/cache.go\<close>, \<open>utils/commom.go\<close>, \<open>modules/account.go\<close> (account and address
  queries through the cache), \<open>modules/token.go\<close> (tokens and fees), \<open>modules/tx.go\<close> (building and
  broadcasting) and \<open>modules/base_client.go\<close> (preparing a factory, sending batches, the account locks).
  The gcache library and the node behind RPC and gRPC are fields of records; the state of the node is
  threaded through every call, and what a failing call did to cache and node stays.
\<close>

section \<open>Stateful calls\<close>

type_synonym ('s, 'a) act = "'s \<Rightarrow> 'a res \<times> 's"

definition retS :: "'a res \<Rightarrow> ('s, 'a) act" where
  "retS r s = (r, s)"

definition bindS :: "('s, 'a) act \<Rightarrow> ('a \<Rightarrow> ('s, 'b) act) \<Rightarrow> ('s, 'b) act" where
  "bindS m f s = (case m s of (Inl e, s') \<Rightarrow> (Inl e, s') | (Inr x, s') \<Rightarrow> f x s')"

fun mapS :: "('a \<Rightarrow> ('s, 'b) act) \<Rightarrow> 'a list \<Rightarrow> ('s, 'b list) act" where
  "mapS f [] = retS (Inr [])"
| "mapS f (x # xs) = bindS (f x) (\<lambda>y. bindS (mapS f xs) (\<lambda>ys. retS (Inr (y # ys))))"

section \<open>Batches and pages (\<open>utils/commom.go\<close>)\<close>

definition SubArray :: "nat \<Rightarrow> 'a list \<Rightarrow> ('a list list) res" where
  "SubArray subLen array =
     (let maxLen = length array in
      if maxLen \<le> subLen then Inr [array]
      else if subLen = 0 then Inl (Panic ''integer divide by zero'')
      else
        let batch = maxLen div subLen + (if 0 < maxLen mod subLen then 1 else 0)
        in Inr (map (\<lambda>i. if i \<noteq> batch then take subLen (drop ((i - 1) * subLen) array) else drop ((i - 1) * subLen) array)
                  [1 ..< batch + 1]))"

definition ParsePage :: "64 word \<Rightarrow> 64 word \<Rightarrow> 64 word \<times> 64 word" where
  "ParsePage page sz =
     (let page' = (if page = 0 then 1 else page);
          sz' = (if sz = 0 then 10 else sz)
      in ((page' - 1) * sz', sz'))"

section \<open>The cache (\<open>utils/cache/cache.go\<close>)\<close>

text \<open>The gcache library over its state \<open>'c\<close>; reading may change the state.\<close>

record ('c, 'v) GCache =
  gcSet :: "'c \<Rightarrow> string \<Rightarrow> 'v \<Rightarrow> 'c res"
  gcSetWithExpire :: "'c \<Rightarrow> string \<Rightarrow> 'v \<Rightarrow> nat \<Rightarrow> 'c res"
  gcGet :: "'c \<Rightarrow> string \<Rightarrow> 'c \<times> 'v res"
  gcRemove :: "'c \<Rightarrow> string \<Rightarrow> 'c \<times> bool"

record 'c LRU =
  cache :: 'c
  enabled :: bool

definition NewCache :: "'c \<Rightarrow> bool \<Rightarrow> 'c LRU" where
  "NewCache fresh enable = \<lparr>cache = fresh, enabled = enable\<rparr>"

definition LRU_Set :: "('c, 'v) GCache \<Rightarrow> 'c LRU \<Rightarrow> string \<Rightarrow> 'v \<Rightarrow> 'c LRU res" where
  "LRU_Set gc l key v =
     (if \<not> enabled l then Inr l else bindR (gcSet gc (cache l) key v) (\<lambda>c. Inr (l\<lparr>cache := c\<rparr>)))"

definition LRU_SetWithExpire :: "('c, 'v) GCache \<Rightarrow> 'c LRU \<Rightarrow> string \<Rightarrow> 'v \<Rightarrow> nat \<Rightarrow> 'c LRU res" where
  "LRU_SetWithExpire gc l key v expiration =
     (if \<not> enabled l then Inr l else bindR (gcSetWithExpire gc (cache l) key v expiration) (\<lambda>c. Inr (l\<lparr>cache := c\<rparr>)))"

definition LRU_Get :: "('c, 'v) GCache \<Rightarrow> 'c LRU \<Rightarrow> string \<Rightarrow> 'c LRU \<times> 'v res" where
  "LRU_Get gc l key =
     (if \<not> enabled l then (l, Inl (Err ''cache not enabled''))
      else case gcGet gc (cache l) key of (c, r) \<Rightarrow> (l\<lparr>cache := c\<rparr>, r))"

definition LRU_Remove :: "('c, 'v) GCache \<Rightarrow> 'c LRU \<Rightarrow> string \<Rightarrow> 'c LRU \<times> bool" where
  "LRU_Remove gc l key =
     (if \<not> enabled l then (l, False)
      else case gcRemove gc (cache l) key of (c, b) \<Rightarrow> (l\<lparr>cache := c\<rparr>, b))"

definition LRU_Expire :: "('c, 'v) GCache \<Rightarrow> 'c LRU \<Rightarrow> string \<Rightarrow> 'c LRU \<times> bool" where
  "LRU_Expire gc l key = (if \<not> enabled l then (l, True) else LRU_Remove gc l key)"

definition LRU_Enable :: "'c LRU \<Rightarrow> 'c LRU" where
  "LRU_Enable l = l\<lparr>enabled := True\<rparr>"

definition LRU_Disable :: "'c LRU \<Rightarrow> 'c LRU" where
  "LRU_Disable l = l\<lparr>enabled := False\<rparr>"

section \<open>Data\<close>

record BaseAccount =
  BAddress :: string
  BCoins :: Coins
  BAccountNumber :: "64 word"
  BSequence :: "64 word"

record accountInfo =
  accN :: "64 word"
  accS :: "64 word"

text \<open>The cache holds values of any type under string keys; a failed type assertion panics.\<close>

datatype CacheValue = CAccount accountInfo | CAddress string | CToken Token

record BaseTx =
  From :: string
  Password :: string
  Gas :: "64 word"
  BFee :: DecCoins
  BMemo :: string
  Mode :: string
  Simulate :: bool
  TxAccountNumber :: "64 word"
  TxSequence :: "64 word"

record ResultTx =
  GasWanted :: "64 word"
  GasUsed :: "64 word"
  Hash :: string
  Height :: "64 word"

text \<open>The answers of a node to the three broadcast calls (without events).\<close>

record CommitRes =
  checkCode :: "32 word"
  checkLog :: string
  deliverCode :: "32 word"
  deliverLog :: string
  deliverGasWanted :: "64 word"
  deliverGasUsed :: "64 word"
  commitHash :: string
  commitHeight :: "64 word"

record SyncRes =
  syncCode :: "32 word"
  syncLog :: string
  syncHash :: string

text \<open>
  The node: an account query with its decoding, the balances, a token query (a refused query is
  \<open>None\<close>, a failed connection or decoding a failure), the simulation and the broadcasts.
\<close>

record 'w Node =
  nodeAccount :: "'w \<Rightarrow> string \<Rightarrow> BaseAccount res \<times> 'w"
  nodeBalances :: "'w \<Rightarrow> string \<Rightarrow> Coins res \<times> 'w"
  nodeToken :: "'w \<Rightarrow> string \<Rightarrow> (Token option) res \<times> 'w"
  nodeSimulate :: "'w \<Rightarrow> bytes \<Rightarrow> (64 word) res \<times> 'w"
  nodeCommit :: "'w \<Rightarrow> bytes \<Rightarrow> CommitRes res \<times> 'w"
  nodeSync :: "'w \<Rightarrow> bytes \<Rightarrow> SyncRes res \<times> 'w"
  nodeAsync :: "'w \<Rightarrow> bytes \<Rightarrow> SyncRes res \<times> 'w"

text \<open>What changes while the client runs: the shared cache and the node.\<close>

record ('c, 'w) cstate =
  lru :: "'c LRU"
  node :: 'w

text \<open>What does not: the libraries and the configuration. \<open>validate_msg\<close> is \<open>ValidateBasic\<close> of a message.\<close>

record ('m, 'k, 'c, 'w) Base =
  bcodec :: "('m, 'k) Codec"
  bgc :: "('c, CacheValue) GCache"
  bnode :: "'w Node"
  bkeys :: "string \<Rightarrow> string \<Rightarrow> ('k PubKey \<times> bytes) res"
  bsign :: "string \<Rightarrow> string \<Rightarrow> bytes \<Rightarrow> bytes res"
  btxHandler :: SignModeHandlerMap
  validate_msg :: "'m \<Rightarrow> unit res"
  adjustGas :: "64 word \<Rightarrow> 64 word"
  cfgChainId :: string
  cfgGas :: "64 word"
  cfgFee :: DecCoins
  cfgMode :: string
  cfgCached :: bool

definition cacheExpirePeriod :: nat where "cacheExpirePeriod = 60"
definition tryThreshold :: nat where "tryThreshold = 3"
definition maxBatch :: nat where "maxBatch = 100"

definition lift_node :: "('w \<Rightarrow> 'a res \<times> 'w) \<Rightarrow> (('c, 'w) cstate, 'a) act" where
  "lift_node f s = (case f (node s) of (r, w) \<Rightarrow> (r, s\<lparr>node := w\<rparr>))"

definition cache_get :: "('m, 'k, 'c, 'w) Base \<Rightarrow> string \<Rightarrow> ('c, 'w) cstate \<Rightarrow> CacheValue option \<times> ('c, 'w) cstate" where
  "cache_get base key s =
     (case LRU_Get (bgc base) (lru s) key of (l, r) \<Rightarrow> (case r of Inl _ \<Rightarrow> None | Inr v \<Rightarrow> Some v, s\<lparr>lru := l\<rparr>))"

text \<open>A failed write to the cache is only logged.\<close>

definition cache_put :: "('m, 'k, 'c, 'w) Base \<Rightarrow> string \<Rightarrow> CacheValue \<Rightarrow> nat option \<Rightarrow> ('c, 'w) cstate \<Rightarrow> ('c, 'w) cstate" where
  "cache_put base key v expire s =
     (case (case expire of None \<Rightarrow> LRU_Set (bgc base) (lru s) key v | Some t \<Rightarrow> LRU_SetWithExpire (bgc base) (lru s) key v t) of
        Inl _ \<Rightarrow> s | Inr l \<Rightarrow> s\<lparr>lru := l\<rparr>)"

definition cache_remove :: "('m, 'k, 'c, 'w) Base \<Rightarrow> string \<Rightarrow> ('c, 'w) cstate \<Rightarrow> ('c, 'w) cstate" where
  "cache_remove base key s = s\<lparr>lru := fst (LRU_Remove (bgc base) (lru s) key)\<rparr>"

section \<open>Accounts (\<open>modules/account.go\<close>)\<close>

definition account_key :: "string \<Rightarrow> string" where
  "account_key address = ''account:'' @ address"

definition saveAccount :: "('m, 'k, 'c, 'w) Base \<Rightarrow> BaseAccount \<Rightarrow> ('c, 'w) cstate \<Rightarrow> ('c, 'w) cstate" where
  "saveAccount base account s =
     cache_put base (account_key (BAddress account)) (CAccount \<lparr>accN = BAccountNumber account, accS = BSequence account\<rparr>)
       (Some cacheExpirePeriod) s"

definition QueryAccount :: "('m, 'k, 'c, 'w) Base \<Rightarrow> string \<Rightarrow> (('c, 'w) cstate, BaseAccount) act" where
  "QueryAccount base address =
     bindS (lift_node (\<lambda>w. nodeAccount (bnode base) w address)) (\<lambda>account.
     bindS (lift_node (\<lambda>w. nodeBalances (bnode base) w address)) (\<lambda>balances. retS (Inr (account\<lparr>BCoins := balances\<rparr>))))"

definition refresh :: "('m, 'k, 'c, 'w) Base \<Rightarrow> string \<Rightarrow> (('c, 'w) cstate, BaseAccount) act" where
  "refresh base address = bindS (QueryAccount base address) (\<lambda>account s. (Inr account, saveAccount base account s))"

definition QueryAndRefreshAccount :: "('m, 'k, 'c, 'w) Base \<Rightarrow> string \<Rightarrow> (('c, 'w) cstate, BaseAccount) act" where
  "QueryAndRefreshAccount base address s =
     (case cache_get base (account_key address) s of
        (None, s') \<Rightarrow> refresh base address s'
      | (Some (CAccount acc), s') \<Rightarrow>
          let baseAcc = \<lparr>BAddress = address, BCoins = [], BAccountNumber = accN acc, BSequence = accS acc + 1\<rparr>
          in (Inr baseAcc, saveAccount base baseAcc s')
      | (Some _, s') \<Rightarrow> (Inl (Panic ''interface conversion: interface is not accountInfo''), s'))"

definition QueryAddress :: "('m, 'k, 'c, 'w) Base \<Rightarrow> string \<Rightarrow> string \<Rightarrow> (('c, 'w) cstate, bytes) act" where
  "QueryAddress base name password s =
     (let find = (\<lambda>s. case bkeys base name password of
            Inl e \<Rightarrow> (Inl e, s)
          | Inr (_, address) \<Rightarrow>
              (Inr address, cache_put base (account_key name) (CAddress (accString (bcodec base) address)) (Some cacheExpirePeriod) s))
      in case cache_get base (account_key name) s of
           (None, s') \<Rightarrow> find s'
         | (Some (CAddress addr), s') \<Rightarrow>
             (case accFromBech32 (bcodec base) addr of
                Inl (Err _) \<Rightarrow> find (cache_remove base (account_key name) s')
              | Inl (Panic p) \<Rightarrow> (Inl (Panic p), s')
              | Inr address \<Rightarrow> (Inr address, s'))
         | (Some _, s') \<Rightarrow> (Inl (Panic ''interface conversion: interface is not string''), s'))"

definition removeCache :: "('m, 'k, 'c, 'w) Base \<Rightarrow> string \<Rightarrow> ('c, 'w) cstate \<Rightarrow> ('c, 'w) cstate" where
  "removeCache base address = cache_remove base (account_key address)"

section \<open>Tokens (\<open>modules/token.go\<close>)\<close>

definition zeroToken :: Token where
  "zeroToken = \<lparr>TSymbol = [], TName = [], TScale = 0, TMinUnit = [], TInitialSupply = 0, TMaxSupply = 0, TMintable = False, TOwner = []\<rparr>"

definition token_key :: "string \<Rightarrow> string" where
  "token_key symbol = ''token:'' @ symbol"

definition SaveTokens :: "('m, 'k, 'c, 'w) Base \<Rightarrow> Token list \<Rightarrow> ('c, 'w) cstate \<Rightarrow> ('c, 'w) cstate" where
  "SaveTokens base ts s =
     foldl (\<lambda>s t. cache_put base (token_key (TMinUnit t)) (CToken t) None
                    (cache_put base (token_key (TSymbol t)) (CToken t) None s)) s ts"

text \<open>A query that the node refuses gives the zero token, without an error.\<close>

definition QueryToken :: "('m, 'k, 'c, 'w) Base \<Rightarrow> string \<Rightarrow> (('c, 'w) cstate, Token) act" where
  "QueryToken base denom s =
     (let denom' = ToLower denom in
      case cache_get base (token_key denom') s of
        (Some (CToken t), s') \<Rightarrow> (Inr t, s')
      | (Some _, s') \<Rightarrow> (Inl (Panic ''interface conversion: interface is not Token''), s')
      | (None, s') \<Rightarrow>
          (case lift_node (\<lambda>w. nodeToken (bnode base) w denom') s' of
             (Inl e, s'') \<Rightarrow> (Inl e, s'')
           | (Inr None, s'') \<Rightarrow> (Inr zeroToken, s'')
           | (Inr (Some t), s'') \<Rightarrow> (Inr t, SaveTokens base [t] s'')))"

definition ToMinCoin :: "('m, 'k, 'c, 'w) Base \<Rightarrow> DecCoins \<Rightarrow> (('c, 'w) cstate, Coins) act" where
  "ToMinCoin base coins =
     bindS (mapS (\<lambda>coin. bindS (QueryToken base (DecDenom coin)) (\<lambda>t. retS (ConvertToMinCoin (GetCoinType t) coin))) coins)
       (\<lambda>dst. retS (Inr (Coins_Sort dst)))"

definition ToMainCoin :: "('m, 'k, 'c, 'w) Base \<Rightarrow> Coins \<Rightarrow> (('c, 'w) cstate, DecCoin option list) act" where
  "ToMainCoin base coins =
     bindS (mapS (\<lambda>coin. bindS (QueryToken base (Denom coin)) (\<lambda>t. retS (ConvertToMainCoin (GetCoinType t) coin))) coins)
       (\<lambda>dst. retS (Inr (sort_key (\<lambda>c. case c of None \<Rightarrow> [] | Some d \<Rightarrow> DecDenom d) dst)))"

section \<open>Preparing and building (\<open>modules/base_client.go\<close>, \<open>modules/tx.go\<close>)\<close>

text \<open>A factory with the fields that building does not read.\<close>

record 'k BuildCtx =
  bfactory :: "'k Factory"
  baddress :: string
  bmode :: string
  bsimulate :: bool

definition DefaultSignModes :: "32 word list" where
  "DefaultSignModes = [SIGN_MODE_DIRECT]"

text \<open>The fields common to \<open>prepare\<close> and \<open>prepareTemp\<close>.\<close>

definition start_factory :: "('m, 'k, 'c, 'w) Base \<Rightarrow> BaseTx \<Rightarrow> ('k BuildCtx) res" where
  "start_factory base baseTx =
     bindR (MakeSignModeHandler DefaultSignModes) (\<lambda>h.
       Inr \<lparr>bfactory = \<lparr>fchainID = cfgChainId base, fmemo = [], fpassword = [], faccountNumber = 0, fsequence = 0,
              fgas = cfgGas base, ffees = [], fgasPrices = [], fsignMode = SIGN_MODE_UNSPECIFIED,
              fhandler = h, ftxHandler = btxHandler base,
              fkeys = \<lparr>kmFind = (\<lambda>n p. bindR (bkeys base n p) (\<lambda>(k, _). Inr k)), kmSign = bsign base\<rparr>\<rparr>,
            baddress = [], bmode = cfgMode base, bsimulate = Simulate baseTx\<rparr>)"

definition with_account :: "string \<Rightarrow> 64 word \<Rightarrow> 64 word \<Rightarrow> string \<Rightarrow> 'k BuildCtx \<Rightarrow> 'k BuildCtx" where
  "with_account addr num seq pw b =
     b\<lparr>baddress := addr, bfactory := (bfactory b)\<lparr>faccountNumber := num, fsequence := seq, fpassword := pw\<rparr>\<rparr>"

definition prepare_fee :: "('m, 'k, 'c, 'w) Base \<Rightarrow> BaseTx \<Rightarrow> (('c, 'w) cstate, Coins) act" where
  "prepare_fee base baseTx s =
     (if \<not> DecCoins_Empty (BFee baseTx) \<and> DecCoins_IsValid (BFee baseTx) then ToMinCoin base (BFee baseTx) s
      else case ToMinCoin base (cfgFee base) s of (r, s') \<Rightarrow> (panic_err r, s'))"

definition finish_factory :: "BaseTx \<Rightarrow> Coins \<Rightarrow> 'k BuildCtx \<Rightarrow> 'k BuildCtx" where
  "finish_factory baseTx fees b =
     (let b1 = b\<lparr>bfactory := (bfactory b)\<lparr>ffees := fees\<rparr>\<rparr>;
          b2 = (if 0 < length (Mode baseTx) then b1\<lparr>bmode := Mode baseTx\<rparr> else b1);
          b3 = (if 0 < Gas baseTx then b2\<lparr>bfactory := (bfactory b2)\<lparr>fgas := Gas baseTx\<rparr>\<rparr> else b2)
      in if 0 < length (BMemo baseTx) then b3\<lparr>bfactory := (bfactory b3)\<lparr>fmemo := BMemo baseTx\<rparr>\<rparr> else b3)"

definition prepare :: "('m, 'k, 'c, 'w) Base \<Rightarrow> BaseTx \<Rightarrow> (('c, 'w) cstate, 'k BuildCtx) act" where
  "prepare base baseTx =
     bindS (retS (start_factory base baseTx)) (\<lambda>b0.
     bindS (QueryAddress base (From baseTx) (Password baseTx)) (\<lambda>addr.
     let address = accString (bcodec base) addr in
     bindS (if TxAccountNumber baseTx \<noteq> 0 \<and> TxSequence baseTx \<noteq> 0
            then retS (Inr (with_account address (TxAccountNumber baseTx) (TxSequence baseTx) (Password baseTx) b0))
            else bindS (QueryAndRefreshAccount base address) (\<lambda>account.
                   retS (Inr (with_account address (BAccountNumber account) (BSequence account) (Password baseTx) b0)))) (\<lambda>b1.
     bindS (prepare_fee base baseTx) (\<lambda>fees. retS (Inr (finish_factory baseTx fees b1))))))"

definition prepareTemp ::
    "('m, 'k, 'c, 'w) Base \<Rightarrow> string \<Rightarrow> 64 word \<Rightarrow> 64 word \<Rightarrow> BaseTx \<Rightarrow> (('c, 'w) cstate, 'k BuildCtx) act" where
  "prepareTemp base addr accountNumber sequence baseTx =
     bindS (retS (start_factory base baseTx)) (\<lambda>b0.
     bindS (prepare_fee base baseTx) (\<lambda>fees.
       retS (Inr (finish_factory baseTx fees (with_account addr accountNumber sequence (Password baseTx) b0)))))"

definition buildTx :: "('m, 'k, 'c, 'w) Base \<Rightarrow> 'm list \<Rightarrow> BaseTx \<Rightarrow> (('c, 'w) cstate, bytes \<times> 'k BuildCtx) act" where
  "buildTx base msgs baseTx =
     bindS (prepare base baseTx) (\<lambda>b.
       retS (bindR (BuildAndSign (bcodec base) (bfactory b) (From baseTx) msgs False) (\<lambda>txByte. Inr (txByte, b))))"

definition buildTxWithAccount ::
    "('m, 'k, 'c, 'w) Base \<Rightarrow> string \<Rightarrow> 64 word \<Rightarrow> 64 word \<Rightarrow> 'm list \<Rightarrow> BaseTx \<Rightarrow> (('c, 'w) cstate, bytes \<times> 'k BuildCtx) act" where
  "buildTxWithAccount base addr accountNumber sequence msgs baseTx =
     bindS (prepareTemp base addr accountNumber sequence baseTx) (\<lambda>b.
       retS (bindR (BuildAndSign (bcodec base) (bfactory b) (From baseTx) msgs False) (\<lambda>txByte. Inr (txByte, b))))"

text \<open>The hash of the bytes, \<open>tmhash.Sum\<close>, is an argument; the signed transaction is given as JSON.\<close>

definition BuildTxHash :: "(bytes \<Rightarrow> bytes) \<Rightarrow> ('m, 'k, 'c, 'w) Base \<Rightarrow> 'm list \<Rightarrow> BaseTx \<Rightarrow> (('c, 'w) cstate, string) act" where
  "BuildTxHash tmhash base msgs baseTx = bindS (buildTx base msgs baseTx) (\<lambda>(txByte, _). retS (Inr (hexUpper (tmhash txByte))))"

definition Client_BuildAndSign :: "('m, 'k, 'c, 'w) Base \<Rightarrow> 'm list \<Rightarrow> BaseTx \<Rightarrow> (('c, 'w) cstate, bytes) act" where
  "Client_BuildAndSign base msgs baseTx =
     bindS (prepare base baseTx) (\<lambda>b. retS (BuildAndSign (bcodec base) (bfactory b) (From baseTx) msgs True))"

text \<open>Queries through ABCI: \<open>abci\<close> answers with a code, a log and a value; \<open>json\<close> encodes the request.\<close>

record ABCIResponse =
  abciCode :: "32 word"
  abciLog :: string
  abciValue :: bytes

definition Query :: "(string \<Rightarrow> bytes \<Rightarrow> ABCIResponse res) \<Rightarrow> ('q \<Rightarrow> bytes res) \<Rightarrow> string \<Rightarrow> 'q option \<Rightarrow> bytes res" where
  "Query abci json path data =
     bindR (case data of None \<Rightarrow> Inr [] | Some q \<Rightarrow> json q) (\<lambda>bz.
     bindR (abci path bz) (\<lambda>resp. if abciCode resp \<noteq> 0 then Inl (Err (abciLog resp)) else Inr (abciValue resp)))"

definition QueryWithResponse ::
    "(string \<Rightarrow> bytes \<Rightarrow> ABCIResponse res) \<Rightarrow> ('q \<Rightarrow> bytes res) \<Rightarrow> (bytes \<Rightarrow> 'r res) \<Rightarrow> string \<Rightarrow> 'q option \<Rightarrow> 'r res" where
  "QueryWithResponse abci json unjson path data = bindR (Query abci json path data) unjson"

definition QueryStore ::
    "(string \<Rightarrow> bytes \<Rightarrow> 64 word \<Rightarrow> bool \<Rightarrow> ABCIResponse res) \<Rightarrow> bytes \<Rightarrow> string \<Rightarrow> 64 word \<Rightarrow> bool \<Rightarrow> ABCIResponse res" where
  "QueryStore abci key storeName height prove =
     bindR (abci (''/store/'' @ storeName @ ''/key'') key height prove) (\<lambda>resp.
       if abciCode resp \<noteq> 0 then Inl (Err (abciLog resp)) else Inr resp)"

section \<open>Broadcasting (\<open>modules/tx.go\<close>)\<close>

definition EstimateTxGas :: "('m, 'k, 'c, 'w) Base \<Rightarrow> bytes \<Rightarrow> (('c, 'w) cstate, 64 word) act" where
  "EstimateTxGas base txBytes =
     bindS (lift_node (\<lambda>w. nodeSimulate (bnode base) w txBytes)) (\<lambda>gasUsed. retS (Inr (adjustGas base gasUsed)))"

definition broadcastTxCommit :: "('m, 'k, 'c, 'w) Base \<Rightarrow> bytes \<Rightarrow> (('c, 'w) cstate, ResultTx) act" where
  "broadcastTxCommit base tx =
     bindS (lift_node (\<lambda>w. nodeCommit (bnode base) w tx)) (\<lambda>r. retS (
       if checkCode r \<noteq> 0 then Inl (Err (checkLog r))
       else if deliverCode r \<noteq> 0 then Inl (Err (deliverLog r))
       else Inr \<lparr>GasWanted = deliverGasWanted r, GasUsed = deliverGasUsed r, Hash = commitHash r, Height = commitHeight r\<rparr>))"

definition broadcastTxSync :: "('m, 'k, 'c, 'w) Base \<Rightarrow> bytes \<Rightarrow> (('c, 'w) cstate, ResultTx) act" where
  "broadcastTxSync base tx =
     bindS (lift_node (\<lambda>w. nodeSync (bnode base) w tx)) (\<lambda>r. retS (
       if syncCode r \<noteq> 0 then Inl (Err (syncLog r))
       else Inr \<lparr>GasWanted = 0, GasUsed = 0, Hash = syncHash r, Height = 0\<rparr>))"

definition broadcastTxAsync :: "('m, 'k, 'c, 'w) Base \<Rightarrow> bytes \<Rightarrow> (('c, 'w) cstate, ResultTx) act" where
  "broadcastTxAsync base tx =
     bindS (lift_node (\<lambda>w. nodeAsync (bnode base) w tx)) (\<lambda>r. retS (
       Inr \<lparr>GasWanted = 0, GasUsed = 0, Hash = syncHash r, Height = 0\<rparr>))"

definition broadcastTx :: "('m, 'k, 'c, 'w) Base \<Rightarrow> bytes \<Rightarrow> string \<Rightarrow> bool \<Rightarrow> (('c, 'w) cstate, ResultTx) act" where
  "broadcastTx base txBytes mode simulate =
     (if simulate then
        bindS (EstimateTxGas base txBytes) (\<lambda>gas. retS (Inr \<lparr>GasWanted = gas, GasUsed = 0, Hash = [], Height = 0\<rparr>))
      else if mode = ''commit'' then broadcastTxCommit base txBytes
      else if mode = ''async'' then broadcastTxAsync base txBytes
      else if mode = ''sync'' then broadcastTxSync base txBytes
      else retS (Inl (Err (''commit mode('' @ mode @ '') not supported''))))"

text \<open>The size check is not implemented yet.\<close>

definition ValidateTxSize :: "nat \<Rightarrow> 'm list \<Rightarrow> unit res" where
  "ValidateTxSize txSize msgs = Inr ()"

definition BuildAndSend :: "('m, 'k, 'c, 'w) Base \<Rightarrow> 'm list \<Rightarrow> BaseTx \<Rightarrow> (('c, 'w) cstate, ResultTx) act" where
  "BuildAndSend base msgs baseTx =
     bindS (buildTx base msgs baseTx) (\<lambda>(txByte, ctx).
     bindS (retS (ValidateTxSize (length txByte) msgs)) (\<lambda>_ s.
       case broadcastTx base txByte (bmode ctx) (Simulate baseTx) s of
         (Inl (Err e), s') \<Rightarrow> (Inl (Err e), if cfgCached base then removeCache base (baddress ctx) s' else s')
       | rs \<Rightarrow> rs))"

definition BuildAndSendWithAccount ::
    "('m, 'k, 'c, 'w) Base \<Rightarrow> string \<Rightarrow> 64 word \<Rightarrow> 64 word \<Rightarrow> 'm list \<Rightarrow> BaseTx \<Rightarrow> (('c, 'w) cstate, ResultTx) act" where
  "BuildAndSendWithAccount base addr accountNumber sequence msgs baseTx =
     bindS (buildTxWithAccount base addr accountNumber sequence msgs baseTx) (\<lambda>(txByte, ctx).
     bindS (retS (ValidateTxSize (length txByte) msgs)) (\<lambda>_.
       broadcastTx base txByte (bmode ctx) (Simulate baseTx)))"

section \<open>Sending a batch\<close>

text \<open>
  The loop over the segments, with the \<open>retry\<close> and \<open>resize\<close> jumps as calls. It gives the results so far
  and the failure that ended it, if one did.
\<close>

function send_loop ::
    "('m, 'k, 'c, 'w) Base \<Rightarrow> BaseTx \<Rightarrow> nat \<Rightarrow> 'm list \<Rightarrow> nat \<Rightarrow> 'm list list \<Rightarrow> nat \<Rightarrow> ResultTx list \<Rightarrow> ('c, 'w) cstate
     \<Rightarrow> (ResultTx list \<times> failure option) \<times> ('c, 'w) cstate" where
  "send_loop base baseTx batch msgs i [] tryCnt rs s = ((rs, None), s)"
| "send_loop base baseTx batch msgs i (mss # segs) tryCnt rs s =
     (case buildTx base mss baseTx s of
        (Inl e, s1) \<Rightarrow> ((rs, Some e), s1)
      | (Inr (txByte, ctx), s1) \<Rightarrow>
          (case ValidateTxSize (length txByte) mss of
             Inl e \<Rightarrow>
               let msgs' = drop (i * batch) msgs; batch' = batch div 2; s2 = removeCache base (baddress ctx) s1 in
               (case SubArray batch' msgs' of
                  Inl p \<Rightarrow> ((rs, Some p), s2)
                | Inr segs' \<Rightarrow> send_loop base baseTx batch' msgs' 0 segs' tryCnt rs s2)
           | Inr _ \<Rightarrow>
               (case broadcastTx base txByte (bmode ctx) (Simulate baseTx) s1 of
                  (Inr res, s2) \<Rightarrow> send_loop base baseTx batch msgs (i + 1) segs tryCnt (rs @ [res]) s2
                | (Inl (Panic p), s2) \<Rightarrow> ((rs, Some (Panic p)), s2)
                | (Inl (Err e), s2) \<Rightarrow>
                    if cfgCached base then
                      let s3 = removeCache base (baddress ctx) s2 in
                      if tryThreshold \<le> tryCnt + 1 then ((rs, Some (Err e)), s3)
                      else send_loop base baseTx batch msgs i (mss # segs) (tryCnt + 1) rs s3
                    else ((rs, Some (Err e)), s2))))"
  by pat_completeness auto
termination
  by (relation "inv_image (less_than <*lex*> less_than)
        (\<lambda>(base, baseTx, batch, msgs, i, segs, tryCnt, rs, s). (length segs, tryThreshold - tryCnt))")
     (auto simp: ValidateTxSize_def)

declare send_loop.simps [simp del]

text \<open>\<open>CatchPanic\<close> recovers from every panic: the results so far are returned, without an error.\<close>

definition CatchPanic :: "('r \<times> failure option) \<times> 's \<Rightarrow> ('r \<times> failure option) \<times> 's" where
  "CatchPanic out = (case out of ((rs, Some (Panic _)), s) \<Rightarrow> ((rs, None), s) | _ \<Rightarrow> out)"

definition SendBatch ::
    "('m, 'k, 'c, 'w) Base \<Rightarrow> 'm list \<Rightarrow> BaseTx \<Rightarrow> ('c, 'w) cstate \<Rightarrow> (ResultTx list \<times> failure option) \<times> ('c, 'w) cstate" where
  "SendBatch base msgs baseTx s =
     (if msgs = [] then (([], Some (Err ''must have at least one message in list'')), s)
      else CatchPanic (
        case mapR (validate_msg base) msgs of
          Inl e \<Rightarrow> (([], Some e), s)
        | Inr _ \<Rightarrow>
            (case SubArray maxBatch msgs of
               Inl p \<Rightarrow> (([], Some p), s)
             | Inr segs \<Rightarrow> send_loop base baseTx maxBatch msgs 0 segs 0 [] s)))"

section \<open>The account locks\<close>

definition indexFor :: "string \<Rightarrow> 32 word" where
  "indexFor key = foldl (\<lambda>hash c. (hash * 16777619) XOR of_nat (of_char c)) 2166136261 key"

definition getShard :: "nat \<Rightarrow> string \<Rightarrow> nat" where
  "getShard sz key = unat (indexFor key) mod sz"

text \<open>
  The shards are channels of capacity one; \<open>chans\<close> counts their elements. A thread that has locked a
  key is in its critical section until it unlocks the same key.
\<close>

record locker =
  chans :: "nat list"
  inside :: "nat \<rightharpoonup> string"

definition NewLocker :: "nat \<Rightarrow> locker" where
  "NewLocker sz = \<lparr>chans = replicate sz 0, inside = Map.empty\<rparr>"

definition Lock :: "nat \<Rightarrow> string \<Rightarrow> locker \<Rightarrow> locker option" where
  "Lock tid key l =
     (let i = getShard (length (chans l)) key in
      if chans l ! i < 1 then Some (l\<lparr>chans := (chans l)[i := chans l ! i + 1], inside := (inside l)(tid \<mapsto> key)\<rparr>) else None)"

definition Unlock :: "nat \<Rightarrow> string \<Rightarrow> locker \<Rightarrow> locker option" where
  "Unlock tid key l =
     (let i = getShard (length (chans l)) key in
      if 0 < chans l ! i then Some (l\<lparr>chans := (chans l)[i := chans l ! i - 1], inside := (inside l)(tid := None)\<rparr>) else None)"

section \<open>Splitting into batches\<close>

text \<open>The segments of \<open>n > 0\<close> elements that cover a list.\<close>

fun chunks :: "nat \<Rightarrow> 'a list \<Rightarrow> 'a list list" where
  "chunks 0 xs = [xs]"
| "chunks (Suc n) xs = (if length xs \<le> Suc n then [xs] else take (Suc n) xs # chunks (Suc n) (drop (Suc n) xs))"

declare chunks.simps [simp del]

lemma chunks_unfold: "0 < n \<Longrightarrow> chunks n xs = (if length xs \<le> n then [xs] else take n xs # chunks n (drop n xs))"
  by (cases n) (simp_all add: chunks.simps)

lemma chunks_props:
  "0 < n \<Longrightarrow> concat (chunks n xs) = xs \<and> (\<forall>ys\<in>set (chunks n xs). length ys \<le> n) \<and> (xs \<noteq> [] \<longrightarrow> [] \<notin> set (chunks n xs))"
proof (induction n xs rule: chunks.induct)
  case (2 n xs)
  show ?case
  proof (cases "length xs \<le> Suc n")
    case True
    then have "chunks (Suc n) xs = [xs]" by (simp add: chunks_unfold)
    with True show ?thesis by simp
  next
    case False
    then have c: "chunks (Suc n) xs = take (Suc n) xs # chunks (Suc n) (drop (Suc n) xs)" by (subst chunks_unfold) simp_all
    have "drop (Suc n) xs \<noteq> []" using False by simp
    then show ?thesis unfolding c using "2.IH" [OF False] by auto
  qed
qed simp

definition segment :: "nat \<Rightarrow> nat \<Rightarrow> 'a list \<Rightarrow> nat \<Rightarrow> 'a list" where
  "segment n batch xs i = (if i \<noteq> batch then take n (drop ((i - 1) * n) xs) else drop ((i - 1) * n) xs)"

lemma segments_chunks:
  "0 < n \<Longrightarrow> n * b < length xs \<Longrightarrow> length xs \<le> n * Suc b \<Longrightarrow> map (segment n (Suc b) xs) [1 ..< Suc b + 1] = chunks n xs"
proof (induction b arbitrary: xs)
  case 0
  then show ?case using chunks_unfold [OF 0(1), of xs] by (simp add: segment_def upt_rec)
next
  case (Suc b)
  then have "n < length xs" by simp
  have u: "[1 ..< Suc (Suc b) + 1] = 1 # map Suc [1 ..< Suc b + 1]"
    by (subst upt_conv_Cons) (simp_all add: map_Suc_upt del: upt_Suc)
  have "segment n (Suc (Suc b)) xs (Suc i) = segment n (Suc b) (drop n xs) i" if "i \<in> set [1 ..< Suc b + 1]" for i
  proof -
    have "1 \<le> i" using that by (simp del: upt_Suc)
    then obtain j where "i = Suc j" using Suc_le_D by auto
    then show ?thesis by (simp add: segment_def add.commute)
  qed
  then have "map (segment n (Suc (Suc b)) xs) (map Suc [1 ..< Suc b + 1]) = map (segment n (Suc b) (drop n xs)) [1 ..< Suc b + 1]"
    by (simp add: comp_def del: upt_Suc)
  also have "\<dots> = chunks n (drop n xs)" using Suc.prems by (intro Suc.IH) auto
  finally have r: "map (segment n (Suc (Suc b)) xs) (map Suc [1 ..< Suc b + 1]) = chunks n (drop n xs)" .
  have "segment n (Suc (Suc b)) xs 1 = take n xs" by (simp add: segment_def)
  then show ?case unfolding u list.map(2) r using \<open>n < length xs\<close> chunks_unfold [OF Suc.prems(1), of xs] by simp
qed

lemma SubArray_chunks: "0 < n \<Longrightarrow> SubArray n xs = Inr (chunks n xs)"
proof (cases "length xs \<le> n")
  case False
  assume n: "0 < n"
  let ?L = "length xs"
  define b where "b = ?L div n + (if 0 < ?L mod n then 1 else 0) - 1"
  have "1 \<le> ?L div n" using False n by (simp add: div_greater_zero_iff Suc_le_eq)
  then have b: "?L div n + (if 0 < ?L mod n then 1 else 0) = Suc b" by (simp add: b_def)
  have L: "?L = n * (?L div n) + ?L mod n" by simp
  have "n * b < ?L \<and> ?L \<le> n * Suc b"
  proof (cases "0 < ?L mod n")
    case True
    then have "b = ?L div n" using b by simp
    with True L mod_less_divisor [OF n, of ?L] show ?thesis by (metis add_less_cancel_left less_add_same_cancel1 less_imp_le mult_Suc_right add.commute)
  next
    case False
    then have "?L div n = Suc b" "?L = n * (?L div n)" using b L by simp_all
    with n show ?thesis by (metis less_add_same_cancel2 mult_Suc_right order_refl)
  qed
  then have "map (segment n (Suc b) xs) [1 ..< Suc b + 1] = chunks n xs" using n by (intro segments_chunks) auto
  then show ?thesis using False n by (simp add: SubArray_def Let_def b segment_def [abs_def] del: upt_Suc)
qed (simp add: SubArray_def chunks_unfold)

section \<open>Mutual exclusion\<close>

text \<open>
  The threads that share a locker: one that is outside may lock a key, one that is inside unlocks
  the key it has locked.
\<close>

inductive locker_step :: "locker \<Rightarrow> locker \<Rightarrow> bool" where
  step_lock: "inside l tid = None \<Longrightarrow> Lock tid key l = Some l' \<Longrightarrow> locker_step l l'"
| step_unlock: "inside l tid = Some key \<Longrightarrow> Unlock tid key l = Some l' \<Longrightarrow> locker_step l l'"

inductive_cases locker_stepE: "locker_step l l'"

inductive locker_run :: "nat \<Rightarrow> locker \<Rightarrow> bool" for sz where
  run_new: "locker_run sz (NewLocker sz)"
| run_step: "locker_run sz l \<Longrightarrow> locker_step l l' \<Longrightarrow> locker_run sz l'"

text \<open>Every shard counts the threads inside it, of which there is at most one.\<close>

definition shard_of :: "locker \<Rightarrow> nat \<Rightarrow> nat option" where
  "shard_of l tid = map_option (getShard (length (chans l))) (inside l tid)"

definition shard_ok :: "nat \<Rightarrow> (nat \<Rightarrow> bool) \<Rightarrow> bool" where
  "shard_ok n P \<longleftrightarrow> (n = 0 \<and> (\<forall>t. \<not> P t)) \<or> (n = 1 \<and> (\<exists>t. \<forall>t'. P t' \<longleftrightarrow> t' = t))"

definition locker_inv :: "nat \<Rightarrow> locker \<Rightarrow> bool" where
  "locker_inv sz l \<longleftrightarrow> length (chans l) = sz \<and> (\<forall>i < sz. shard_ok (chans l ! i) (\<lambda>t. shard_of l t = Some i))"

lemma getShard_less: "0 < sz \<Longrightarrow> getShard sz key < sz"
  by (simp add: getShard_def)

lemma Lock_inv:
  assumes inv: "locker_inv sz l" and sz: "0 < sz" and out: "inside l tid = None" and l': "Lock tid key l = Some l'"
  shows "locker_inv sz l'"
proof -
  define i where "i = getShard sz key"
  have len: "length (chans l) = sz" and i: "i < sz" using inv sz by (simp_all add: locker_inv_def i_def getShard_less)
  have free: "chans l ! i = 0" and new: "l' = l\<lparr>chans := (chans l)[i := 1], inside := (inside l)(tid \<mapsto> key)\<rparr>"
    using l' len by (auto simp: Lock_def i_def Let_def split: if_splits)
  have sh: "shard_of l' t = (if t = tid then Some i else shard_of l t)" for t
    by (simp add: new shard_of_def len i_def)
  have none: "shard_of l t \<noteq> Some i" for t using inv i free by (auto simp: locker_inv_def shard_ok_def)
  have out': "shard_of l tid = None" using out by (simp add: shard_of_def)
  have "shard_ok (chans l' ! j) (\<lambda>t. shard_of l' t = Some j)" if "j < sz" for j
  proof (cases "j = i")
    case True
    then have "(\<lambda>t. shard_of l' t = Some j) = (\<lambda>t. t = tid)" using none by (auto simp: sh fun_eq_iff)
    then show ?thesis using True i len by (auto simp: new shard_ok_def)
  next
    case False
    then have "(\<lambda>t. shard_of l' t = Some j) = (\<lambda>t. shard_of l t = Some j)" using out' by (auto simp: sh fun_eq_iff)
    then show ?thesis using False that inv by (simp add: new locker_inv_def)
  qed
  then show ?thesis by (simp add: locker_inv_def new len)
qed

lemma Unlock_inv:
  assumes inv: "locker_inv sz l" and sz: "0 < sz" and inn: "inside l tid = Some key" and l': "Unlock tid key l = Some l'"
  shows "locker_inv sz l'"
proof -
  define i where "i = getShard sz key"
  have len: "length (chans l) = sz" and i: "i < sz" using inv sz by (simp_all add: locker_inv_def i_def getShard_less)
  have s: "shard_of l tid = Some i" using inn len by (simp add: shard_of_def i_def)
  have ok: "shard_ok (chans l ! i) (\<lambda>t. shard_of l t = Some i)" using inv i by (simp add: locker_inv_def)
  then have one: "chans l ! i = 1" and only: "\<forall>t. shard_of l t = Some i \<longleftrightarrow> t = tid"
    using s unfolding shard_ok_def by (metis, metis)
  have new: "l' = l\<lparr>chans := (chans l)[i := 0], inside := (inside l)(tid := None)\<rparr>"
    using l' len one by (auto simp: Unlock_def i_def Let_def split: if_splits)
  have sh: "shard_of l' t = (if t = tid then None else shard_of l t)" for t
    by (simp add: new shard_of_def len)
  have "shard_ok (chans l' ! j) (\<lambda>t. shard_of l' t = Some j)" if "j < sz" for j
  proof (cases "j = i")
    case True
    then show ?thesis using only i len by (simp add: sh) (simp add: new shard_ok_def)
  next
    case False
    then have "(\<lambda>t. shard_of l' t = Some j) = (\<lambda>t. shard_of l t = Some j)" using s by (auto simp: sh fun_eq_iff)
    then show ?thesis using False that inv by (simp add: new locker_inv_def)
  qed
  then show ?thesis by (simp add: locker_inv_def new len)
qed

lemma locker_run_inv: "locker_run sz l \<Longrightarrow> 0 < sz \<Longrightarrow> locker_inv sz l"
proof (induction rule: locker_run.induct)
  case run_new
  then show ?case by (simp add: locker_inv_def NewLocker_def shard_of_def shard_ok_def)
next
  case (run_step l l')
  then show ?case by (auto elim!: locker_stepE intro: Lock_inv Unlock_inv)
qed

text \<open>
  \<^bold>\<open>C10.\<close> The account locks. However the threads interleave, two threads are never inside for the same
  account at once; a thread that is inside can always unlock; and when nobody is inside, every
  thread can lock every account.
\<close>

theorem account_locks_exclusive:
  assumes "locker_run sz l" and "0 < sz"
  shows "(\<forall>t t' key. inside l t = Some key \<and> inside l t' = Some key \<longrightarrow> t = t')
     \<and> (\<forall>t key. inside l t = Some key \<longrightarrow> Unlock t key l \<noteq> None)
     \<and> (inside l = Map.empty \<longrightarrow> (\<forall>t key. Lock t key l \<noteq> None))"
proof -
  have inv: "locker_inv sz l" using assms by (rule locker_run_inv)
  then have len: "length (chans l) = sz" by (simp add: locker_inv_def)
  have sh: "shard_of l t = Some (getShard sz key)" if "inside l t = Some key" for t key
    using that len by (simp add: shard_of_def)
  have ok: "shard_ok (chans l ! getShard sz key) (\<lambda>t. shard_of l t = Some (getShard sz key))" for key
    using inv getShard_less [OF assms(2)] by (simp add: locker_inv_def)
  have "t = t'" if "inside l t = Some key" "inside l t' = Some key" for t t' key
    using sh [OF that(1)] sh [OF that(2)] ok [of key] unfolding shard_ok_def by metis
  moreover have "Unlock t key l \<noteq> None" if "inside l t = Some key" for t key
    using sh [OF that] ok [of key] by (auto simp: shard_ok_def Unlock_def Let_def len)
  moreover have "Lock t key l \<noteq> None" if "inside l = Map.empty" for t key
    using that ok [of key] by (auto simp: shard_ok_def Lock_def Let_def shard_of_def len)
  ultimately show ?thesis by blast
qed

theorem account_locks_exclusive_witness:
  "\<exists>l. Lock 1 ''bob'' (NewLocker 16) = Some l \<and> Lock 2 ''bob'' l = None \<and> Unlock 1 ''bob'' l \<noteq> None"
proof -
  obtain l where l: "Lock 1 ''bob'' (NewLocker 16) = Some l" and b: "Lock 2 ''bob'' l = None" and i: "inside l 1 = Some ''bob''"
    using getShard_less [of 16 "''bob''"] by (auto simp: Lock_def NewLocker_def Let_def)
  have "locker_step (NewLocker 16) l" using l by (intro step_lock [of _ 1 "''bob''"]) (simp_all add: NewLocker_def)
  then have "locker_run 16 l" by (blast intro: run_new run_step)
  from account_locks_exclusive [OF this] i have "Unlock 1 ''bob'' l \<noteq> None" by simp
  with l b show ?thesis by blast
qed

section \<open>What the cache shows\<close>

definition gc_look :: "('c, 'v) GCache \<Rightarrow> 'c \<Rightarrow> string \<Rightarrow> 'v option" where
  "gc_look gc c key = (case snd (gcGet gc c key) of Inl _ \<Rightarrow> None | Inr v \<Rightarrow> Some v)"

text \<open>An entry may be lost at any time, by expiry or eviction, but it never changes by itself.\<close>

definition less_def :: "'v option \<Rightarrow> 'v option \<Rightarrow> bool" where
  "less_def a b = (a = None \<or> a = b)"

definition gcache_laws :: "('c, 'v) GCache \<Rightarrow> bool" where
  "gcache_laws gc \<longleftrightarrow>
     (\<forall>c k k'. less_def (gc_look gc (fst (gcGet gc c k)) k') (gc_look gc c k'))
   \<and> (\<forall>c k v. \<exists>c'. gcSet gc c k v = Inr c' \<and> (\<forall>k'. less_def (gc_look gc c' k') (if k' = k then Some v else gc_look gc c k')))
   \<and> (\<forall>c k v t. \<exists>c'. gcSetWithExpire gc c k v t = Inr c' \<and>
        (\<forall>k'. less_def (gc_look gc c' k') (if k' = k then Some v else gc_look gc c k')))
   \<and> (\<forall>c k k'. less_def (gc_look gc (fst (gcRemove gc c k)) k') (if k' = k then None else gc_look gc c k'))"

definition view :: "('m, 'k, 'c, 'w) Base \<Rightarrow> ('c, 'w) cstate \<Rightarrow> string \<Rightarrow> CacheValue option" where
  "view base s key = (if enabled (lru s) then gc_look (bgc base) (cache (lru s)) key else None)"

lemma less_def_simps [simp]: "less_def None b" "less_def a a" "less_def a None \<longleftrightarrow> a = None"
  by (auto simp: less_def_def)

lemma less_def_trans: "less_def a b \<Longrightarrow> less_def b c \<Longrightarrow> less_def a c"
  by (auto simp: less_def_def)

text \<open>What one cache operation does to the state.\<close>

definition cache_rel :: "('m, 'k, 'c, 'w) Base \<Rightarrow> (string \<Rightarrow> CacheValue option) \<Rightarrow> ('c, 'w) cstate \<Rightarrow> ('c, 'w) cstate \<Rightarrow> bool" where
  "cache_rel base m s s' \<longleftrightarrow> node s' = node s \<and> enabled (lru s') = enabled (lru s) \<and> (\<forall>k. less_def (view base s' k) (m k))"

lemma cache_get_rel:
  assumes "gcache_laws (bgc base)"
  shows "fst (cache_get base key s) = view base s key \<and> cache_rel base (view base s) s (snd (cache_get base key s))"
  using assms
  by (auto simp: cache_get_def LRU_Get_def view_def cache_rel_def gc_look_def gcache_laws_def split: prod.splits sum.splits)
     (metis fst_conv)+

lemma cache_put_rel:
  assumes "gcache_laws (bgc base)"
  shows "cache_rel base ((view base s)(key \<mapsto> v)) s (cache_put base key v e s)"
proof (cases "enabled (lru s)")
  case False
  then show ?thesis by (auto simp: cache_put_def LRU_Set_def LRU_SetWithExpire_def cache_rel_def view_def split: option.splits)
next
  case True
  let ?r = "case e of None \<Rightarrow> gcSet (bgc base) (cache (lru s)) key v | Some t \<Rightarrow> gcSetWithExpire (bgc base) (cache (lru s)) key v t"
  obtain c' where c': "?r = Inr c'"
    "\<forall>k'. less_def (gc_look (bgc base) c' k') (if k' = key then Some v else gc_look (bgc base) (cache (lru s)) k')"
    using assms unfolding gcache_laws_def by (cases e) (simp_all, metis+)
  then have "cache_put base key v e s = s\<lparr>lru := (lru s)\<lparr>cache := c'\<rparr>\<rparr>"
    using True by (cases e) (simp_all add: cache_put_def LRU_Set_def LRU_SetWithExpire_def)
  then show ?thesis using True c'(2) by (simp add: cache_rel_def view_def fun_upd_def) metis
qed

lemma cache_remove_rel:
  assumes "gcache_laws (bgc base)"
  shows "cache_rel base ((view base s)(key := None)) s (cache_remove base key s)"
proof -
  have "\<forall>k'. less_def (gc_look (bgc base) (fst (gcRemove (bgc base) (cache (lru s)) key)) k')
      (if k' = key then None else gc_look (bgc base) (cache (lru s)) k')"
    using assms unfolding gcache_laws_def by blast
  then show ?thesis
    by (cases "gcRemove (bgc base) (cache (lru s)) key")
       (simp add: cache_remove_def LRU_Remove_def cache_rel_def view_def fun_upd_def, metis less_def_simps(3))
qed

section \<open>Tokens through the cache\<close>

lemma bindS_Inr: "m s = (Inr x, s') \<Longrightarrow> bindS m f s = f x s'"
  by (simp add: bindS_def)

lemma bindS_Inl: "m s = (Inl e, s') \<Longrightarrow> bindS m f s = (Inl e, s')"
  by (simp add: bindS_def)

lemma retS_apply: "retS r s = (r, s)"
  by (simp add: retS_def)

definition token_of :: "(string \<rightharpoonup> Token) \<Rightarrow> string \<Rightarrow> Token" where
  "token_of tok denom = (case tok (ToLower denom) of None \<Rightarrow> zeroToken | Some t \<Rightarrow> t)"

text \<open>The conversion of fees without a cache, from the tokens of the chain.\<close>

definition min_coins :: "(string \<rightharpoonup> Token) \<Rightarrow> DecCoins \<Rightarrow> Coins res" where
  "min_coins tok coins =
     bindR (mapR (\<lambda>c. ConvertToMinCoin (GetCoinType (token_of tok (DecDenom c))) c) coins) (\<lambda>dst. Inr (Coins_Sort dst))"

text \<open>The node answers token queries from a table in which a token is found under both of its names.\<close>

definition tokens_served :: "('m, 'k, 'c, 'w) Base \<Rightarrow> (string \<rightharpoonup> Token) \<Rightarrow> bool" where
  "tokens_served base tok \<longleftrightarrow>
     (\<forall>w d. nodeToken (bnode base) w d = (Inr (tok d), w))
   \<and> (\<forall>d t. tok d = Some t \<longrightarrow> tok (TSymbol t) = Some t \<and> tok (TMinUnit t) = Some t)"

definition token_inv :: "('m, 'k, 'c, 'w) Base \<Rightarrow> (string \<rightharpoonup> Token) \<Rightarrow> ('c, 'w) cstate \<Rightarrow> bool" where
  "token_inv base tok s \<longleftrightarrow> (\<forall>d v. view base s (token_key d) = Some v \<longrightarrow> (\<exists>t. v = CToken t \<and> tok d = Some t))"

text \<open>A state after calls that concern tokens only: the node and the account entries are kept or lost.\<close>

definition acc_rel :: "('m, 'k, 'c, 'w) Base \<Rightarrow> ('c, 'w) cstate \<Rightarrow> ('c, 'w) cstate \<Rightarrow> bool" where
  "acc_rel base s s' \<longleftrightarrow> node s' = node s \<and> enabled (lru s') = enabled (lru s)
     \<and> (\<forall>a. less_def (view base s' (account_key a)) (view base s (account_key a)))"

lemma keys_differ [simp]:
  "account_key a \<noteq> token_key d" "token_key d \<noteq> account_key a"
  "account_key a = account_key b \<longleftrightarrow> a = b" "token_key c = token_key d \<longleftrightarrow> c = d"
  by (auto simp: account_key_def token_key_def)

lemma acc_rel_refl [simp]: "acc_rel base s s"
  by (simp add: acc_rel_def)

lemma acc_rel_trans: "acc_rel base s s' \<Longrightarrow> acc_rel base s' s'' \<Longrightarrow> acc_rel base s s''"
  by (auto simp: acc_rel_def intro: less_def_trans)

lemma cache_rel_token_inv:
  assumes "cache_rel base m s s'" "\<And>d. m (token_key d) = view base s (token_key d) \<or> (\<exists>t. m (token_key d) = Some (CToken t) \<and> tok d = Some t)"
    "token_inv base tok s"
  shows "token_inv base tok s'"
  using assms unfolding token_inv_def cache_rel_def less_def_def by (metis option.distinct(1) option.inject)

lemma cache_rel_acc_rel: "cache_rel base m s s' \<Longrightarrow> (\<And>a. m (account_key a) = view base s (account_key a)) \<Longrightarrow> acc_rel base s s'"
  unfolding cache_rel_def acc_rel_def by metis

lemma cache_put_token:
  assumes "gcache_laws (bgc base)" "token_inv base tok s" "tok d = Some t"
  shows "token_inv base tok (cache_put base (token_key d) (CToken t) e s)" "acc_rel base s (cache_put base (token_key d) (CToken t) e s)"
proof -
  note r = cache_put_rel [OF assms(1), of s "token_key d" "CToken t" e]
  show "token_inv base tok (cache_put base (token_key d) (CToken t) e s)"
    using assms(3) by (intro cache_rel_token_inv [OF r _ assms(2)]) auto
  show "acc_rel base s (cache_put base (token_key d) (CToken t) e s)"
    by (rule cache_rel_acc_rel [OF r]) simp
qed

lemma QueryToken_served:
  assumes laws: "gcache_laws (bgc base)" and srv: "tokens_served base tok" and inv: "token_inv base tok s"
  shows "\<exists>s'. QueryToken base d s = (Inr (token_of tok d), s') \<and> token_inv base tok s' \<and> acc_rel base s s'"
proof -
  let ?k = "token_key (ToLower d)"
  obtain r s1 where g: "cache_get base ?k s = (r, s1)" by fastforce
  with cache_get_rel [OF laws, of ?k s] have r: "r = view base s ?k" and rel: "cache_rel base (view base s) s s1" by auto
  have inv1: "token_inv base tok s1" using rel inv by (intro cache_rel_token_inv [OF rel]) auto
  have acc1: "acc_rel base s s1" using rel by (rule cache_rel_acc_rel) simp
  show ?thesis
  proof (cases r)
    case (Some v)
    then obtain t where "v = CToken t" "tok (ToLower d) = Some t" using inv r by (auto simp: token_inv_def)
    then show ?thesis using g Some inv1 acc1 by (auto simp: QueryToken_def token_of_def)
  next
    case None
    have n: "nodeToken (bnode base) w x = (Inr (tok x), w)" for w x using srv by (simp add: tokens_served_def)
    show ?thesis
    proof (cases "tok (ToLower d)")
      case None
      then show ?thesis using g \<open>r = None\<close> n inv1 acc1 by (auto simp: QueryToken_def token_of_def lift_node_def)
    next
      case (Some t)
      then have sm: "tok (TSymbol t) = Some t" "tok (TMinUnit t) = Some t" using srv unfolding tokens_served_def by blast+
      let ?s2 = "cache_put base (token_key (TSymbol t)) (CToken t) None s1"
      note p1 = cache_put_token [OF laws inv1 sm(1), of None]
      note p2 = cache_put_token [OF laws p1(1) sm(2), of None]
      have "QueryToken base d s = (Inr t, cache_put base (token_key (TMinUnit t)) (CToken t) None ?s2)"
        using g \<open>r = None\<close> n Some by (simp add: QueryToken_def lift_node_def SaveTokens_def)
      moreover have "acc_rel base s (cache_put base (token_key (TMinUnit t)) (CToken t) None ?s2)"
        using acc1 p1(2) p2(2) by (meson acc_rel_trans)
      ultimately show ?thesis using p2(1) Some by (simp add: token_of_def)
    qed
  qed
qed

lemma min_coins_loop:
  assumes laws: "gcache_laws (bgc base)" and srv: "tokens_served base tok"
  shows "token_inv base tok s \<Longrightarrow>
    \<exists>s'. mapS (\<lambda>coin. bindS (QueryToken base (DecDenom coin)) (\<lambda>t. retS (ConvertToMinCoin (GetCoinType t) coin))) coins s =
      (mapR (\<lambda>c. ConvertToMinCoin (GetCoinType (token_of tok (DecDenom c))) c) coins, s')
     \<and> token_inv base tok s' \<and> acc_rel base s s'"
proof (induction coins arbitrary: s)
  case (Cons c coins)
  obtain s1 where q: "QueryToken base (DecDenom c) s = (Inr (token_of tok (DecDenom c)), s1)" and i1: "token_inv base tok s1" "acc_rel base s s1"
    using QueryToken_served [OF laws srv Cons.prems] by blast
  obtain s2 where m: "mapS (\<lambda>coin. bindS (QueryToken base (DecDenom coin)) (\<lambda>t. retS (ConvertToMinCoin (GetCoinType t) coin))) coins s1 =
      (mapR (\<lambda>c. ConvertToMinCoin (GetCoinType (token_of tok (DecDenom c))) c) coins, s2)"
    and i2: "token_inv base tok s2" "acc_rel base s1 s2" using Cons.IH [OF i1(1)] by blast
  have acc: "acc_rel base s s2" using i1(2) i2(2) by (rule acc_rel_trans)
  let ?f = "\<lambda>coin. bindS (QueryToken base (DecDenom coin)) (\<lambda>t. retS (ConvertToMinCoin (GetCoinType t) coin))"
  have f: "?f c s = (ConvertToMinCoin (GetCoinType (token_of tok (DecDenom c))) c, s1)" using q by (simp add: bindS_Inr retS_apply)
  show ?case
  proof (cases "ConvertToMinCoin (GetCoinType (token_of tok (DecDenom c))) c")
    case (Inl e)
    then have u: "mapS ?f (c # coins) s = (Inl e, s1)" using f by (simp add: bindS_Inl)
    show ?thesis unfolding u using Inl i1 by simp
  next
    case (Inr d)
    then have u: "mapS ?f (c # coins) s = bindS (mapS ?f coins) (\<lambda>ys. retS (Inr (d # ys))) s1" using f by (simp add: bindS_Inr)
    show ?thesis unfolding u using Inr acc i2(1)
      by (cases "mapR (\<lambda>c. ConvertToMinCoin (GetCoinType (token_of tok (DecDenom c))) c) coins")
         (use m in \<open>auto simp: bindS_Inr bindS_Inl retS_apply\<close>)
  qed
qed (simp add: retS_apply)

lemma ToMinCoin_served:
  assumes "gcache_laws (bgc base)" and "tokens_served base tok" and "token_inv base tok s"
  shows "\<exists>s'. ToMinCoin base coins s = (min_coins tok coins, s') \<and> token_inv base tok s' \<and> acc_rel base s s'"
proof -
  obtain s' where m: "mapS (\<lambda>coin. bindS (QueryToken base (DecDenom coin)) (\<lambda>t. retS (ConvertToMinCoin (GetCoinType t) coin))) coins s =
      (mapR (\<lambda>c. ConvertToMinCoin (GetCoinType (token_of tok (DecDenom c))) c) coins, s')"
    and i: "token_inv base tok s'" "acc_rel base s s'" using min_coins_loop [OF assms] by blast
  have "ToMinCoin base coins s = (min_coins tok coins, s')"
    using m by (cases "mapR (\<lambda>c. ConvertToMinCoin (GetCoinType (token_of tok (DecDenom c))) c) coins")
      (simp_all add: ToMinCoin_def min_coins_def bindS_Inr bindS_Inl retS_apply)
  with i show ?thesis by blast
qed



section \<open>One sender and an honest node\<close>

definition start_ctx :: "('m, 'k, 'c, 'w) Base \<Rightarrow> BaseTx \<Rightarrow> 'k BuildCtx" where
  "start_ctx base baseTx =
     \<lparr>bfactory = \<lparr>fchainID = cfgChainId base, fmemo = [], fpassword = [], faccountNumber = 0, fsequence = 0,
        fgas = cfgGas base, ffees = [], fgasPrices = [], fsignMode = SIGN_MODE_UNSPECIFIED,
        fhandler = \<lparr>defaultMode = SIGN_MODE_DIRECT, hmodes = [SIGN_MODE_DIRECT]\<rparr>, ftxHandler = btxHandler base,
        fkeys = \<lparr>kmFind = (\<lambda>n p. bindR (bkeys base n p) (\<lambda>(k, _). Inr k)), kmSign = bsign base\<rparr>\<rparr>,
      baddress = [], bmode = cfgMode base, bsimulate = Simulate baseTx\<rparr>"

lemma start_factory_ok: "start_factory base baseTx = Inr (start_ctx base baseTx)"
  by (simp add: start_factory_def start_ctx_def DefaultSignModes_def MakeSignModeHandler_def NewSignModeHandlerMap_def)

text \<open>The factory that \<open>prepare\<close> gives for a sequence number.\<close>

definition session_ctx :: "('m, 'k, 'c, 'w) Base \<Rightarrow> BaseTx \<Rightarrow> string \<Rightarrow> 64 word \<Rightarrow> Coins \<Rightarrow> 64 word \<Rightarrow> 'k BuildCtx" where
  "session_ctx base baseTx addr num fees q =
     finish_factory baseTx fees (with_account addr num q (Password baseTx) (start_ctx base baseTx))"

lemma session_ctx_fields:
  "baddress (session_ctx base baseTx addr num fees q) = addr"
  "bmode (session_ctx base baseTx addr num fees q) = (if Mode baseTx = [] then cfgMode base else Mode baseTx)"
  "fsequence (bfactory (session_ctx base baseTx addr num fees q)) = q"
  by (simp_all add: session_ctx_def finish_factory_def with_account_def start_ctx_def Let_def)

text \<open>
  The sender: its key is known, its address reads back, its name is not its own address, and account
  number and sequence are left to the client; the transaction is sent in mode \<open>sync\<close>.
\<close>

definition sender_ok :: "('m, 'k, 'c, 'w) Base \<Rightarrow> BaseTx \<Rightarrow> string \<Rightarrow> bool" where
  "sender_ok base baseTx addr \<longleftrightarrow>
     (\<exists>pk ab. bkeys base (From baseTx) (Password baseTx) = Inr (pk, ab) \<and> accString (bcodec base) ab = addr
        \<and> accFromBech32 (bcodec base) addr = Inr ab)
   \<and> From baseTx \<noteq> addr \<and> (TxAccountNumber baseTx = 0 \<or> TxSequence baseTx = 0) \<and> \<not> Simulate baseTx
   \<and> (if Mode baseTx = [] then cfgMode base else Mode baseTx) = ''sync''"

text \<open>
  The node: it serves the tokens and the account of the sender, accepts a transaction exactly when its
  sequence number is the one of the account, and counts and records what it accepts.
\<close>

definition honest_node ::
    "('m, 'k, 'c, 'w) Base \<Rightarrow> string \<Rightarrow> 64 word \<Rightarrow> (string \<rightharpoonup> Token) \<Rightarrow> ('w \<Rightarrow> 64 word) \<Rightarrow> (bytes \<Rightarrow> 64 word) \<Rightarrow> ('w \<Rightarrow> bytes list) \<Rightarrow> bool" where
  "honest_node base addr num tok chainSeq seqOf sent \<longleftrightarrow>
     tokens_served base tok
   \<and> (\<forall>w. \<exists>cs. nodeBalances (bnode base) w addr = (Inr cs, w))
   \<and> (\<forall>w. \<exists>cs. nodeAccount (bnode base) w addr =
        (Inr \<lparr>BAddress = addr, BCoins = cs, BAccountNumber = num, BSequence = chainSeq w\<rparr>, w))
   \<and> (\<forall>w bz. seqOf bz = chainSeq w \<longrightarrow>
        (\<exists>r w'. nodeSync (bnode base) w bz = (Inr r, w') \<and> syncCode r = 0 \<and> chainSeq w' = chainSeq w + 1 \<and> sent w' = sent w @ [bz]))
   \<and> (\<forall>w bz. seqOf bz \<noteq> chainSeq w \<longrightarrow> (\<exists>r. nodeSync (bnode base) w bz = (Inr r, w) \<and> syncCode r \<noteq> 0))"

text \<open>The cached entries of the sender: right in kind, but the sequence number may be stale.\<close>

definition client_inv :: "('m, 'k, 'c, 'w) Base \<Rightarrow> BaseTx \<Rightarrow> string \<Rightarrow> 64 word \<Rightarrow> (string \<rightharpoonup> Token) \<Rightarrow> ('c, 'w) cstate \<Rightarrow> bool" where
  "client_inv base baseTx addr num tok s \<longleftrightarrow>
     token_inv base tok s \<and> less_def (view base s (account_key (From baseTx))) (Some (CAddress addr))
   \<and> (\<forall>v. view base s (account_key addr) = Some v \<longrightarrow> (\<exists>x. v = CAccount \<lparr>accN = num, accS = x\<rparr>))
   \<and> enabled (lru s) = cfgCached base"

definition synced :: "('m, 'k, 'c, 'w) Base \<Rightarrow> string \<Rightarrow> ('w \<Rightarrow> 64 word) \<Rightarrow> ('c, 'w) cstate \<Rightarrow> bool" where
  "synced base addr chainSeq s \<longleftrightarrow>
     (\<forall>n x. view base s (account_key addr) = Some (CAccount \<lparr>accN = n, accS = x\<rparr>) \<longrightarrow> x + 1 = chainSeq (node s))"

lemma client_inv_shrink:
  assumes "client_inv base baseTx addr num tok s" "token_inv base tok s'" "acc_rel base s s'"
  shows "client_inv base baseTx addr num tok s'"
  using assms unfolding client_inv_def acc_rel_def less_def_def by (metis option.distinct(1))

lemma cache_get_inv:
  assumes laws: "gcache_laws (bgc base)" and inv: "client_inv base baseTx addr num tok s" and g: "cache_get base k s = (r, s')"
  shows "r = view base s k" "client_inv base baseTx addr num tok s'" "acc_rel base s s'"
proof -
  have rel: "cache_rel base (view base s) s s'" and r: "r = view base s k" using cache_get_rel [OF laws, of k s] g by auto
  show "r = view base s k" by (fact r)
  show acc: "acc_rel base s s'" using rel by (rule cache_rel_acc_rel) simp
  have "token_inv base tok s'" using rel inv by (intro cache_rel_token_inv [OF rel]) (auto simp: client_inv_def)
  then show "client_inv base baseTx addr num tok s'" by (rule client_inv_shrink [OF inv _ acc])
qed

text \<open>Writing the address of the name, or account information, keeps the entries right in kind.\<close>

lemma cache_put_inv:
  assumes laws: "gcache_laws (bgc base)" and inv: "client_inv base baseTx addr num tok s" and ne: "From baseTx \<noteq> addr"
  shows "client_inv base baseTx addr num tok (cache_put base (account_key (From baseTx)) (CAddress addr) e s)"
    "client_inv base baseTx addr num tok (cache_put base (account_key addr) (CAccount \<lparr>accN = num, accS = x\<rparr>) e s)"
    "less_def (view base (cache_put base (account_key (From baseTx)) (CAddress addr) e s) (account_key addr)) (view base s (account_key addr))"
    "less_def (view base (cache_put base (account_key addr) (CAccount \<lparr>accN = num, accS = x\<rparr>) e s) (account_key addr))
       (Some (CAccount \<lparr>accN = num, accS = x\<rparr>))"
    "node (cache_put base k v e s) = node s"
proof -
  let ?s1 = "cache_put base (account_key (From baseTx)) (CAddress addr) e s"
  let ?s2 = "cache_put base (account_key addr) (CAccount \<lparr>accN = num, accS = x\<rparr>) e s"
  have r: "cache_rel base ((view base s)(k \<mapsto> v)) s (cache_put base k v e s)" for k v by (rule cache_put_rel [OF laws])
  have t: "token_inv base tok (cache_put base (account_key a) v e s)" for a v
    using inv by (intro cache_rel_token_inv [OF r]) (auto simp: client_inv_def)
  have w1: "less_def (view base ?s1 k) (((view base s)(account_key (From baseTx) \<mapsto> CAddress addr)) k)" for k
    using r by (simp add: cache_rel_def)
  have w2: "less_def (view base ?s2 k) (((view base s)(account_key addr \<mapsto> CAccount \<lparr>accN = num, accS = x\<rparr>)) k)" for k
    using r by (simp add: cache_rel_def)
  show l1: "less_def (view base ?s1 (account_key addr)) (view base s (account_key addr))" using w1 [of "account_key addr"] ne by simp
  show l2: "less_def (view base ?s2 (account_key addr)) (Some (CAccount \<lparr>accN = num, accS = x\<rparr>))" using w2 [of "account_key addr"] by simp
  show "node (cache_put base k v e s) = node s" using r by (simp add: cache_rel_def)
  have en: "enabled (lru (cache_put base k v e s)) = cfgCached base" for k v using r inv by (simp add: cache_rel_def client_inv_def)
  have "less_def (view base ?s1 (account_key (From baseTx))) (Some (CAddress addr))"
    using w1 [of "account_key (From baseTx)"] by simp
  moreover have "\<exists>y. v = CAccount \<lparr>accN = num, accS = y\<rparr>" if "view base ?s1 (account_key addr) = Some v" for v
    using that l1 inv by (simp add: client_inv_def less_def_def)
  ultimately show "client_inv base baseTx addr num tok ?s1" using t en by (simp add: client_inv_def)
  have "less_def (view base ?s2 (account_key (From baseTx))) (view base s (account_key (From baseTx)))"
    using w2 [of "account_key (From baseTx)"] ne by simp
  then have "less_def (view base ?s2 (account_key (From baseTx))) (Some (CAddress addr))"
    using inv less_def_trans unfolding client_inv_def by blast
  moreover have "\<exists>y. v = CAccount \<lparr>accN = num, accS = y\<rparr>" if "view base ?s2 (account_key addr) = Some v" for v
    using that l2 by (simp add: less_def_def)
  ultimately show "client_inv base baseTx addr num tok ?s2" using t en by (simp add: client_inv_def)
qed

text \<open>\<open>prepare\<close> uses the sequence number of the chain, or the one that follows the cached one.\<close>

lemma QueryAddress_session:
  assumes laws: "gcache_laws (bgc base)" and ok: "sender_ok base baseTx addr" and inv: "client_inv base baseTx addr num tok s"
  shows "\<exists>ab s'. QueryAddress base (From baseTx) (Password baseTx) s = (Inr ab, s') \<and> accString (bcodec base) ab = addr
     \<and> client_inv base baseTx addr num tok s' \<and> node s' = node s
     \<and> less_def (view base s' (account_key addr)) (view base s (account_key addr))"
proof -
  from ok obtain pk ab where k: "bkeys base (From baseTx) (Password baseTx) = Inr (pk, ab)" "accString (bcodec base) ab = addr"
    "accFromBech32 (bcodec base) addr = Inr ab" and ne: "From baseTx \<noteq> addr" by (auto simp: sender_ok_def)
  obtain r s1 where g: "cache_get base (account_key (From baseTx)) s = (r, s1)" by fastforce
  note i1 = cache_get_inv [OF laws inv g]
  have acc: "node s1 = node s" "less_def (view base s1 (account_key addr)) (view base s (account_key addr))"
    using i1(3) by (simp_all add: acc_rel_def)
  show ?thesis
  proof (cases r)
    case None
    let ?s2 = "cache_put base (account_key (From baseTx)) (CAddress addr) (Some cacheExpirePeriod) s1"
    have "QueryAddress base (From baseTx) (Password baseTx) s = (Inr ab, ?s2)"
      using g None k by (simp add: QueryAddress_def)
    moreover have "client_inv base baseTx addr num tok ?s2" by (rule cache_put_inv(1) [OF laws i1(2) ne])
    moreover have "node ?s2 = node s" using cache_put_inv(5) [OF laws i1(2) ne] acc(1) by simp
    moreover have "less_def (view base ?s2 (account_key addr)) (view base s (account_key addr))"
      using cache_put_inv(3) [OF laws i1(2) ne] acc(2) by (rule less_def_trans)
    ultimately show ?thesis using k(2) by blast
  next
    case (Some v)
    then have "v = CAddress addr" using inv i1(1) by (auto simp: client_inv_def less_def_def)
    then have "QueryAddress base (From baseTx) (Password baseTx) s = (Inr ab, s1)"
      using g Some k by (simp add: QueryAddress_def)
    then show ?thesis using i1(2) acc k(2) by blast
  qed
qed

lemma QueryAndRefreshAccount_session:
  assumes laws: "gcache_laws (bgc base)" and ok: "sender_ok base baseTx addr" and inv: "client_inv base baseTx addr num tok s"
    and hon: "honest_node base addr num tok chainSeq seqOf sent"
  shows "\<exists>q cs s'. QueryAndRefreshAccount base addr s =
       (Inr \<lparr>BAddress = addr, BCoins = cs, BAccountNumber = num, BSequence = q\<rparr>, s')
     \<and> client_inv base baseTx addr num tok s' \<and> node s' = node s
     \<and> less_def (view base s' (account_key addr)) (Some (CAccount \<lparr>accN = num, accS = q\<rparr>))
     \<and> (q = chainSeq (node s) \<or> view base s (account_key addr) = Some (CAccount \<lparr>accN = num, accS = q - 1\<rparr>))"
proof -
  have ne: "From baseTx \<noteq> addr" using ok by (simp add: sender_ok_def)
  obtain r s1 where g: "cache_get base (account_key addr) s = (r, s1)" by fastforce
  note i1 = cache_get_inv [OF laws inv g]
  have nd: "node s1 = node s" using i1(3) by (simp add: acc_rel_def)
  let ?s2 = "\<lambda>q. cache_put base (account_key addr) (CAccount \<lparr>accN = num, accS = q\<rparr>) (Some cacheExpirePeriod) s1"
  have p: "client_inv base baseTx addr num tok (?s2 q) \<and> node (?s2 q) = node s
      \<and> less_def (view base (?s2 q) (account_key addr)) (Some (CAccount \<lparr>accN = num, accS = q\<rparr>))" for q
    using cache_put_inv(2,4,5) [OF laws i1(2) ne] nd by simp
  show ?thesis
  proof (cases r)
    case None
    obtain cs where b: "nodeBalances (bnode base) (node s1) addr = (Inr cs, node s1)" using hon unfolding honest_node_def by blast
    obtain cs' where a: "nodeAccount (bnode base) (node s1) addr =
        (Inr \<lparr>BAddress = addr, BCoins = cs', BAccountNumber = num, BSequence = chainSeq (node s1)\<rparr>, node s1)"
      using hon unfolding honest_node_def by blast
    have "QueryAccount base addr s1 = (Inr \<lparr>BAddress = addr, BCoins = cs, BAccountNumber = num, BSequence = chainSeq (node s1)\<rparr>, s1)"
      using a b by (simp add: QueryAccount_def bindS_def lift_node_def retS_apply)
    then have "QueryAndRefreshAccount base addr s =
       (Inr \<lparr>BAddress = addr, BCoins = cs, BAccountNumber = num, BSequence = chainSeq (node s)\<rparr>,
        ?s2 (chainSeq (node s)))"
      using g None nd by (simp add: QueryAndRefreshAccount_def refresh_def bindS_def saveAccount_def)
    then show ?thesis using p by blast
  next
    case (Some v)
    then obtain x where x: "v = CAccount \<lparr>accN = num, accS = x\<rparr>" using inv i1(1) by (auto simp: client_inv_def)
    then have "QueryAndRefreshAccount base addr s =
       (Inr \<lparr>BAddress = addr, BCoins = [], BAccountNumber = num, BSequence = x + 1\<rparr>,
        ?s2 (x + 1))"
      using g Some by (simp add: QueryAndRefreshAccount_def saveAccount_def)
    moreover have "view base s (account_key addr) = Some (CAccount \<lparr>accN = num, accS = (x + 1) - 1\<rparr>)"
      using Some i1(1) x by simp
    ultimately show ?thesis using p by blast
  qed
qed

definition session_fee :: "('m, 'k, 'c, 'w) Base \<Rightarrow> BaseTx \<Rightarrow> (string \<rightharpoonup> Token) \<Rightarrow> Coins res" where
  "session_fee base baseTx tok =
     (if \<not> DecCoins_Empty (BFee baseTx) \<and> DecCoins_IsValid (BFee baseTx) then min_coins tok (BFee baseTx)
      else panic_err (min_coins tok (cfgFee base)))"

lemma prepare_session:
  assumes laws: "gcache_laws (bgc base)" and ok: "sender_ok base baseTx addr" and inv: "client_inv base baseTx addr num tok s"
    and hon: "honest_node base addr num tok chainSeq seqOf sent" and fee: "session_fee base baseTx tok = Inr fees"
  shows "\<exists>q s'. prepare base baseTx s = (Inr (session_ctx base baseTx addr num fees q), s')
     \<and> client_inv base baseTx addr num tok s' \<and> node s' = node s
     \<and> less_def (view base s' (account_key addr)) (Some (CAccount \<lparr>accN = num, accS = q\<rparr>))
     \<and> (q = chainSeq (node s) \<or> view base s (account_key addr) = Some (CAccount \<lparr>accN = num, accS = q - 1\<rparr>))"
proof -
  obtain ab s1 where a: "QueryAddress base (From baseTx) (Password baseTx) s = (Inr ab, s1)" "accString (bcodec base) ab = addr"
    and i1: "client_inv base baseTx addr num tok s1" "node s1 = node s"
    and l1: "less_def (view base s1 (account_key addr)) (view base s (account_key addr))"
    using QueryAddress_session [OF laws ok inv] by blast
  obtain q cs s2 where b: "QueryAndRefreshAccount base addr s1 =
       (Inr \<lparr>BAddress = addr, BCoins = cs, BAccountNumber = num, BSequence = q\<rparr>, s2)"
    and i2: "client_inv base baseTx addr num tok s2" "node s2 = node s1"
      "less_def (view base s2 (account_key addr)) (Some (CAccount \<lparr>accN = num, accS = q\<rparr>))"
    and q: "q = chainSeq (node s1) \<or> view base s1 (account_key addr) = Some (CAccount \<lparr>accN = num, accS = q - 1\<rparr>)"
    using QueryAndRefreshAccount_session [OF laws ok i1(1) hon] by blast
  have srv: "tokens_served base tok" using hon by (simp add: honest_node_def)
  have t2: "token_inv base tok s2" using i2(1) by (simp add: client_inv_def)
  have "\<exists>s3. prepare_fee base baseTx s2 = (Inr fees, s3) \<and> token_inv base tok s3 \<and> acc_rel base s2 s3"
    using ToMinCoin_served [OF laws srv t2, of "BFee baseTx"] ToMinCoin_served [OF laws srv t2, of "cfgFee base"] fee
    by (auto simp: prepare_fee_def session_fee_def split: if_splits)
  then obtain s3 where f: "prepare_fee base baseTx s2 = (Inr fees, s3)" and i3: "token_inv base tok s3" "acc_rel base s2 s3" by blast
  have "prepare base baseTx s = (Inr (session_ctx base baseTx addr num fees q), s3)"
    using a b f ok by (auto simp: prepare_def bindS_def retS_apply start_factory_ok sender_ok_def session_ctx_def Let_def)
  moreover have "client_inv base baseTx addr num tok s3" by (rule client_inv_shrink [OF i2(1) i3])
  moreover have "node s3 = node s" using i1(2) i2(2) i3(2) by (simp add: acc_rel_def)
  moreover have "less_def (view base s3 (account_key addr)) (Some (CAccount \<lparr>accN = num, accS = q\<rparr>))"
    using i2(3) i3(2) less_def_trans unfolding acc_rel_def by blast
  moreover have "q = chainSeq (node s) \<or> view base s (account_key addr) = Some (CAccount \<lparr>accN = num, accS = q - 1\<rparr>)"
    using q i1(2) l1 by (auto simp: less_def_def)
  ultimately show ?thesis by blast
qed

text \<open>The transaction of a segment with a sequence number.\<close>

definition tx_of :: "('m, 'k, 'c, 'w) Base \<Rightarrow> BaseTx \<Rightarrow> string \<Rightarrow> 64 word \<Rightarrow> Coins \<Rightarrow> 64 word \<Rightarrow> 'm list \<Rightarrow> bytes \<Rightarrow> bool" where
  "tx_of base baseTx addr num fees q seg bz \<longleftrightarrow>
     BuildAndSign (bcodec base) (bfactory (session_ctx base baseTx addr num fees q)) (From baseTx) seg False = Inr bz"

definition buildable :: "('m, 'k, 'c, 'w) Base \<Rightarrow> BaseTx \<Rightarrow> string \<Rightarrow> 64 word \<Rightarrow> Coins \<Rightarrow> (bytes \<Rightarrow> 64 word) \<Rightarrow> 'm list \<Rightarrow> bool" where
  "buildable base baseTx addr num fees seqOf seg \<longleftrightarrow> (\<forall>q. \<exists>bz. tx_of base baseTx addr num fees q seg bz \<and> seqOf bz = q)"

lemma buildTx_session:
  assumes "gcache_laws (bgc base)" "sender_ok base baseTx addr" "client_inv base baseTx addr num tok s"
    "honest_node base addr num tok chainSeq seqOf sent" "session_fee base baseTx tok = Inr fees"
    "buildable base baseTx addr num fees seqOf seg"
  shows "\<exists>q bz s'. buildTx base seg baseTx s = (Inr (bz, session_ctx base baseTx addr num fees q), s')
     \<and> tx_of base baseTx addr num fees q seg bz \<and> seqOf bz = q
     \<and> client_inv base baseTx addr num tok s' \<and> node s' = node s
     \<and> less_def (view base s' (account_key addr)) (Some (CAccount \<lparr>accN = num, accS = q\<rparr>))
     \<and> (q = chainSeq (node s) \<or> view base s (account_key addr) = Some (CAccount \<lparr>accN = num, accS = q - 1\<rparr>))"
proof -
  obtain q s' where p: "prepare base baseTx s = (Inr (session_ctx base baseTx addr num fees q), s')"
    and r: "client_inv base baseTx addr num tok s'" "node s' = node s"
     "less_def (view base s' (account_key addr)) (Some (CAccount \<lparr>accN = num, accS = q\<rparr>))"
     "q = chainSeq (node s) \<or> view base s (account_key addr) = Some (CAccount \<lparr>accN = num, accS = q - 1\<rparr>)"
    using prepare_session [OF assms(1-5)] by blast
  obtain bz where bz: "tx_of base baseTx addr num fees q seg bz" "seqOf bz = q" using assms(6) unfolding buildable_def by blast
  have "buildTx base seg baseTx s = (Inr (bz, session_ctx base baseTx addr num fees q), s')"
    using p bz(1) by (simp add: buildTx_def bindS_def retS_apply tx_of_def)
  with r bz show ?thesis by blast
qed

lemma view_node [simp]: "view base (s\<lparr>node := w\<rparr>) k = view base s k"
  by (simp add: view_def)

lemma client_inv_node [simp]: "client_inv base baseTx addr num tok (s\<lparr>node := w\<rparr>) = client_inv base baseTx addr num tok s"
  by (simp add: client_inv_def token_inv_def)

text \<open>The node accepts the right sequence number, and the state is in step with it afterwards.\<close>

lemma broadcast_accepted:
  assumes ok: "sender_ok base baseTx addr" and hon: "honest_node base addr num tok chainSeq seqOf sent"
    and q: "seqOf bz = chainSeq (node s)"
    and l: "less_def (view base s (account_key addr)) (Some (CAccount \<lparr>accN = num, accS = chainSeq (node s)\<rparr>))"
  shows "\<exists>res w'. broadcastTx base bz (bmode (session_ctx base baseTx addr num fees x)) (Simulate baseTx) s = (Inr res, s\<lparr>node := w'\<rparr>)
     \<and> chainSeq w' = chainSeq (node s) + 1 \<and> sent w' = sent (node s) @ [bz] \<and> synced base addr chainSeq (s\<lparr>node := w'\<rparr>)"
proof -
  obtain r w' where r: "nodeSync (bnode base) (node s) bz = (Inr r, w')" "syncCode r = 0"
    and w': "chainSeq w' = chainSeq (node s) + 1" "sent w' = sent (node s) @ [bz]"
    using hon q unfolding honest_node_def by blast
  have "broadcastTx base bz (bmode (session_ctx base baseTx addr num fees x)) (Simulate baseTx) s =
      (Inr \<lparr>GasWanted = 0, GasUsed = 0, Hash = syncHash r, Height = 0\<rparr>, s\<lparr>node := w'\<rparr>)"
    using ok r by (simp add: sender_ok_def session_ctx_fields broadcastTx_def broadcastTxSync_def bindS_def lift_node_def retS_apply)
  moreover have "synced base addr chainSeq (s\<lparr>node := w'\<rparr>)" using l w'(1) by (auto simp: synced_def less_def_def)
  ultimately show ?thesis using w' by blast
qed

lemma broadcast_rejected:
  assumes ok: "sender_ok base baseTx addr" and hon: "honest_node base addr num tok chainSeq seqOf sent"
    and q: "seqOf bz \<noteq> chainSeq (node s)"
  shows "\<exists>e. broadcastTx base bz (bmode (session_ctx base baseTx addr num fees x)) (Simulate baseTx) s = (Inl (Err e), s)"
proof -
  obtain r where r: "nodeSync (bnode base) (node s) bz = (Inr r, node s)" "syncCode r \<noteq> 0"
    using hon q unfolding honest_node_def by blast
  then show ?thesis
    using ok by (simp add: sender_ok_def session_ctx_fields broadcastTx_def broadcastTxSync_def bindS_def lift_node_def retS_apply)
qed

lemma removeCache_inv:
  assumes laws: "gcache_laws (bgc base)" and inv: "client_inv base baseTx addr num tok s" and ne: "From baseTx \<noteq> addr"
  shows "client_inv base baseTx addr num tok (removeCache base addr s)" "synced base addr chainSeq (removeCache base addr s)"
    "node (removeCache base addr s) = node s"
proof -
  note r = cache_remove_rel [OF laws, of s "account_key addr"]
  let ?s = "cache_remove base (account_key addr) s"
  have v: "view base ?s (account_key addr) = None" using r unfolding cache_rel_def by (metis fun_upd_same less_def_simps(3))
  have t: "token_inv base tok ?s" using inv by (intro cache_rel_token_inv [OF r]) (auto simp: client_inv_def)
  have "less_def (view base ?s (account_key (From baseTx))) (view base s (account_key (From baseTx)))"
    using r ne unfolding cache_rel_def by (metis fun_upd_other keys_differ(3))
  then have "less_def (view base ?s (account_key (From baseTx))) (Some (CAddress addr))"
    using inv less_def_trans unfolding client_inv_def by blast
  moreover have "enabled (lru ?s) = cfgCached base" using r inv by (simp add: cache_rel_def client_inv_def)
  ultimately show "client_inv base baseTx addr num tok (removeCache base addr s)"
    using t v by (simp add: client_inv_def removeCache_def)
  show "synced base addr chainSeq (removeCache base addr s)" using v by (simp add: synced_def removeCache_def)
  show "node (removeCache base addr s) = node s" using r by (simp add: cache_rel_def removeCache_def)
qed

text \<open>The transactions of the segments, with consecutive sequence numbers.\<close>

definition numbered :: "('m, 'k, 'c, 'w) Base \<Rightarrow> BaseTx \<Rightarrow> string \<Rightarrow> 64 word \<Rightarrow> Coins \<Rightarrow> 64 word \<Rightarrow> 'm list list \<Rightarrow> bytes list \<Rightarrow> bool" where
  "numbered base baseTx addr num fees q segs bzs \<longleftrightarrow> length bzs = length segs
     \<and> (\<forall>j < length segs. tx_of base baseTx addr num fees (q + of_nat j) (segs ! j) (bzs ! j))"

lemma numbered_Cons:
  "tx_of base baseTx addr num fees q seg bz \<Longrightarrow> numbered base baseTx addr num fees (q + 1) segs bzs \<Longrightarrow>
   numbered base baseTx addr num fees q (seg # segs) (bz # bzs)"
  by (auto simp: numbered_def less_Suc_eq_0_disj add.assoc)

lemma send_loop_synced:
  assumes laws: "gcache_laws (bgc base)" and ok: "sender_ok base baseTx addr"
    and hon: "honest_node base addr num tok chainSeq seqOf sent" and fee: "session_fee base baseTx tok = Inr fees"
  shows "client_inv base baseTx addr num tok s \<Longrightarrow> synced base addr chainSeq s \<Longrightarrow>
    \<forall>seg\<in>set segs. buildable base baseTx addr num fees seqOf seg \<Longrightarrow>
    \<exists>rs' bzs s'. send_loop base baseTx batch msgs i segs tryCnt rs s = ((rs @ rs', None), s') \<and> length rs' = length segs
      \<and> sent (node s') = sent (node s) @ bzs \<and> numbered base baseTx addr num fees (chainSeq (node s)) segs bzs"
proof (induction segs arbitrary: s i rs)
  case Nil
  then show ?case by (simp add: send_loop.simps numbered_def)
next
  case (Cons seg segs)
  then have bd: "buildable base baseTx addr num fees seqOf seg" by simp
  obtain q bz s1 where b: "buildTx base seg baseTx s = (Inr (bz, session_ctx base baseTx addr num fees q), s1)"
    and tx: "tx_of base baseTx addr num fees q seg bz" "seqOf bz = q" and i1: "client_inv base baseTx addr num tok s1" "node s1 = node s"
     "less_def (view base s1 (account_key addr)) (Some (CAccount \<lparr>accN = num, accS = q\<rparr>))"
    and q: "q = chainSeq (node s) \<or> view base s (account_key addr) = Some (CAccount \<lparr>accN = num, accS = q - 1\<rparr>)"
    using buildTx_session [OF laws ok Cons.prems(1) hon fee bd] by blast
  have qc: "q = chainSeq (node s)" using q Cons.prems(2) by (auto simp: synced_def)
  obtain res w' where br: "broadcastTx base bz (bmode (session_ctx base baseTx addr num fees q)) (Simulate baseTx) s1 = (Inr res, s1\<lparr>node := w'\<rparr>)"
    and w': "chainSeq w' = chainSeq (node s) + 1" "sent w' = sent (node s) @ [bz]" "synced base addr chainSeq (s1\<lparr>node := w'\<rparr>)"
    using broadcast_accepted [OF ok hon, of bz s1 fees q] tx(2) qc i1(2,3) by auto
  obtain rs' bzs s' where ih: "send_loop base baseTx batch msgs (i + 1) segs tryCnt (rs @ [res]) (s1\<lparr>node := w'\<rparr>) = (((rs @ [res]) @ rs', None), s')"
    "length rs' = length segs" "sent (node s') = sent w' @ bzs" "numbered base baseTx addr num fees (chainSeq w') segs bzs"
    using Cons.IH [of "s1\<lparr>node := w'\<rparr>" "i + 1" "rs @ [res]"] i1(1) w'(3) Cons.prems(3) by auto
  have "send_loop base baseTx batch msgs i (seg # segs) tryCnt rs s = ((rs @ res # rs', None), s')"
    using b br ih(1) by (simp add: send_loop.simps ValidateTxSize_def)
  moreover have "numbered base baseTx addr num fees (chainSeq (node s)) (seg # segs) (bz # bzs)"
    using numbered_Cons [OF tx(1)] ih(4) w'(1) qc by simp
  ultimately show ?case using ih(2,3) w'(2) by (metis append.assoc append_Cons append_Nil length_Cons)
qed

text \<open>A stale sequence number costs one rejected attempt.\<close>

lemma send_loop_any:
  assumes laws: "gcache_laws (bgc base)" and ok: "sender_ok base baseTx addr"
    and hon: "honest_node base addr num tok chainSeq seqOf sent" and fee: "session_fee base baseTx tok = Inr fees"
    and inv: "client_inv base baseTx addr num tok s" and bd: "\<forall>seg\<in>set segs. buildable base baseTx addr num fees seqOf seg"
  shows "\<exists>rs' bzs s'. send_loop base baseTx batch msgs i segs 0 rs s = ((rs @ rs', None), s') \<and> length rs' = length segs
      \<and> sent (node s') = sent (node s) @ bzs \<and> numbered base baseTx addr num fees (chainSeq (node s)) segs bzs"
proof (cases segs)
  case Nil
  then show ?thesis by (simp add: send_loop.simps numbered_def)
next
  case (Cons seg segs')
  have ne: "From baseTx \<noteq> addr" using ok by (simp add: sender_ok_def)
  obtain q bz s1 where b: "buildTx base seg baseTx s = (Inr (bz, session_ctx base baseTx addr num fees q), s1)"
    and tx: "seqOf bz = q" and i1: "client_inv base baseTx addr num tok s1" "node s1 = node s"
    and q: "q = chainSeq (node s) \<or> view base s (account_key addr) = Some (CAccount \<lparr>accN = num, accS = q - 1\<rparr>)"
    using buildTx_session [OF laws ok inv hon fee, of seg] bd Cons by auto
  show ?thesis
  proof (cases "synced base addr chainSeq s")
    case True
    then show ?thesis by (rule send_loop_synced [OF laws ok hon fee inv _ bd])
  next
    case False
    then have "view base s (account_key addr) \<noteq> None" by (auto simp: synced_def)
    then have cached: "cfgCached base" using inv by (auto simp: view_def client_inv_def)
    show ?thesis
    proof (cases "q = chainSeq (node s)")
      case True
      text \<open>The stale entry was lost on the way: as if it had not been there.\<close>
      obtain q' bz' s1' where b': "buildTx base seg baseTx s = (Inr (bz', session_ctx base baseTx addr num fees q'), s1')"
        and tx': "tx_of base baseTx addr num fees q' seg bz'" "seqOf bz' = q'" and l: "node s1' = node s"
          "less_def (view base s1' (account_key addr)) (Some (CAccount \<lparr>accN = num, accS = q'\<rparr>))"
        using buildTx_session [OF laws ok inv hon fee, of seg] bd Cons by auto
      have same: "bz' = bz" "q' = q" "s1' = s1" using b b' tx tx'(2) by auto
      obtain res w' where br: "broadcastTx base bz (bmode (session_ctx base baseTx addr num fees q)) (Simulate baseTx) s1 = (Inr res, s1\<lparr>node := w'\<rparr>)"
        and w': "chainSeq w' = chainSeq (node s) + 1" "sent w' = sent (node s) @ [bz]" "synced base addr chainSeq (s1\<lparr>node := w'\<rparr>)"
        using broadcast_accepted [OF ok hon, of bz s1 fees q] tx True l same i1(2) by auto
      obtain rs' bzs s' where ih: "send_loop base baseTx batch msgs (i + 1) segs' 0 (rs @ [res]) (s1\<lparr>node := w'\<rparr>) = (((rs @ [res]) @ rs', None), s')"
        "length rs' = length segs'" "sent (node s') = sent w' @ bzs" "numbered base baseTx addr num fees (chainSeq w') segs' bzs"
        using send_loop_synced [OF laws ok hon fee, of "s1\<lparr>node := w'\<rparr>" segs' batch msgs "i + 1" 0 "rs @ [res]"] i1(1) w'(3) bd Cons by auto
      have "send_loop base baseTx batch msgs i segs 0 rs s = ((rs @ res # rs', None), s')"
        using b br ih(1) Cons by (simp add: send_loop.simps ValidateTxSize_def)
      moreover have "numbered base baseTx addr num fees (chainSeq (node s)) segs (bz # bzs)"
        using numbered_Cons [of base baseTx addr num fees q seg bz segs' bzs] tx'(1) same ih(4) w'(1) True Cons by simp
      ultimately show ?thesis using ih(2,3) w'(2) Cons by (metis append.assoc append_Cons append_Nil length_Cons)
    next
      case False
      obtain e where br: "broadcastTx base bz (bmode (session_ctx base baseTx addr num fees q)) (Simulate baseTx) s1 = (Inl (Err e), s1)"
        using broadcast_rejected [OF ok hon, of bz s1 fees q] False tx i1(2) by auto
      note r = removeCache_inv [OF laws i1(1) ne]
      have "send_loop base baseTx batch msgs i segs 0 rs s = send_loop base baseTx batch msgs i segs 1 rs (removeCache base addr s1)"
        using b br Cons cached by (simp add: send_loop.simps(2) [of base baseTx batch msgs i seg segs' 0]
            ValidateTxSize_def session_ctx_fields tryThreshold_def Let_def)
      then show ?thesis using send_loop_synced [OF laws ok hon fee r(1,2) bd, of batch msgs i 1 rs] r(3) i1(2) by simp
    qed
  qed
qed



section \<open>An example session\<close>

text \<open>
  A cache that loses nothing, and a node whose state is the sequence number of the only account and the
  transactions it has accepted; it reads the sequence number from the bytes of a transaction.
\<close>

definition map_gcache :: "(string \<rightharpoonup> 'v, 'v) GCache" where
  "map_gcache =
     \<lparr>gcSet = (\<lambda>c k v. Inr (c(k \<mapsto> v))), gcSetWithExpire = (\<lambda>c k v t. Inr (c(k \<mapsto> v))),
      gcGet = (\<lambda>c k. (c, case c k of None \<Rightarrow> Inl (Err ''Key not found.'') | Some v \<Rightarrow> Inr v)),
      gcRemove = (\<lambda>c k. (c(k := None), c k \<noteq> None))\<rparr>"

definition demo_seq :: "bytes \<Rightarrow> 64 word" where
  "demo_seq bz =
     (case TxRaw_Unmarshal bz of
        Inl _ \<Rightarrow> 0
      | Inr raw \<Rightarrow> (case readVarint (AuthInfoBytes raw) 0 0 0 of Inl _ \<Rightarrow> 0 | Inr (x, _) \<Rightarrow> x))"

definition demo_token :: Token where
  "demo_token = zeroToken\<lparr>TSymbol := ''plug'', TMinUnit := ''uplug'', TScale := 6\<rparr>"

definition demo_tokens :: "string \<rightharpoonup> Token" where
  "demo_tokens = [''plug'' \<mapsto> demo_token, ''uplug'' \<mapsto> demo_token]"

definition demo_node :: "(64 word \<times> bytes list) Node" where
  "demo_node =
     \<lparr>nodeAccount = (\<lambda>w a. (Inr \<lparr>BAddress = a, BCoins = [], BAccountNumber = 3, BSequence = fst w\<rparr>, w)),
      nodeBalances = (\<lambda>w a. (Inr [], w)), nodeToken = (\<lambda>w d. (Inr (demo_tokens d), w)),
      nodeSimulate = (\<lambda>w bz. (Inr 1, w)), nodeCommit = (\<lambda>w bz. (Inl (Err ''timeout''), w)),
      nodeSync = (\<lambda>w bz. if demo_seq bz = fst w
        then (Inr \<lparr>syncCode = 0, syncLog = [], syncHash = []\<rparr>, (fst w + 1, snd w @ [bz]))
        else (Inr \<lparr>syncCode = 32, syncLog = ''account sequence mismatch'', syncHash = []\<rparr>, w)),
      nodeAsync = (\<lambda>w bz. (Inl (Err ''timeout''), w))\<rparr>"

definition demo_base :: "(bytes, bytes, string \<rightharpoonup> CacheValue, 64 word \<times> bytes list) Base" where
  "demo_base =
     \<lparr>bcodec = demo_codec\<lparr>bodyMarshal := (\<lambda>b. Inr []), authMarshal := (\<lambda>a. Inr (concat (map (encodeVarint \<circ> SISequence) (SignerInfos a))))\<rparr>,
      bgc = map_gcache, bnode = demo_node, bkeys = (\<lambda>n p. Inr (SinglePubKey [9], [65, 66])), bsign = (\<lambda>n p m. Inr [7]),
      btxHandler = \<lparr>defaultMode = SIGN_MODE_DIRECT, hmodes = [SIGN_MODE_DIRECT]\<rparr>,
      validate_msg = (\<lambda>m. Inr ()), adjustGas = id, cfgChainId = ''test'', cfgGas = 100, cfgFee = [],
      cfgMode = ''sync'', cfgCached = True\<rparr>"

definition demo_baseTx :: BaseTx where
  "demo_baseTx = \<lparr>From = ''bob'', Password = ''pw'', Gas = 0, BFee = [\<lparr>DecDenom = ''uplug'', DecAmount = 5 * 10 ^ 18\<rparr>], BMemo = [], Mode = [],
     Simulate = False, TxAccountNumber = 0, TxSequence = 0\<rparr>"

text \<open>The cached sequence number is stale: the account is at 7 already.\<close>

definition demo_state :: "(string \<rightharpoonup> CacheValue, 64 word \<times> bytes list) cstate" where
  "demo_state = \<lparr>lru = NewCache [account_key ''AB'' \<mapsto> CAccount \<lparr>accN = 3, accS = 2\<rparr>] True, node = (7, [])\<rparr>"

lemma map_gcache_laws: "gcache_laws map_gcache"
  by (auto simp: gcache_laws_def map_gcache_def gc_look_def less_def_def)

lemma demo_served: "tokens_served demo_base demo_tokens"
  by (auto simp: tokens_served_def demo_base_def demo_node_def demo_tokens_def demo_token_def split: if_splits)

lemma demo_view: "view demo_base demo_state = [account_key ''AB'' \<mapsto> CAccount \<lparr>accN = 3, accS = 2\<rparr>]"
  by (auto simp: view_def demo_state_def NewCache_def gc_look_def demo_base_def map_gcache_def fun_eq_iff)

lemma demo_min_coins: "min_coins demo_tokens (BFee demo_baseTx) = Inr [\<lparr>Denom = ''uplug'', Amount = 5\<rparr>]"
proof -
  have d: "reDnm ''uplug''" "ToLower ''uplug'' = ''uplug''" by code_simp+
  have "DecCoin_TruncateDecimal \<lparr>DecDenom = ''uplug'', DecAmount = 5 * 10 ^ 18\<rparr> =
      Inr (\<lparr>Denom = ''uplug'', Amount = 5\<rparr>, \<lparr>DecDenom = ''uplug'', DecAmount = 0\<rparr>)"
    using truncatable_TruncateDecimal [of "\<lparr>DecDenom = ''uplug'', DecAmount = 5 * 10 ^ 18\<rparr>"] d(1)
    by (simp add: trunc_coin_def change_coin_def with_amount_def precisionReuse_num)
  moreover have "Coins_Sort [c] = [c]" for c by (simp add: Coins_Sort_def)
  ultimately show ?thesis
    using d reDnm_TrimSpace [OF d(1)]
    by (simp add: demo_baseTx_def min_coins_def token_of_def demo_tokens_def demo_token_def ConvertToMinCoin_def hasUnit_def
        isMinUnit_def isMainUnit_def GetCoinType_def NewUnit_def)
qed


lemma len_varint: "length (encodeVarint x) \<le> 10"
  using length_PutUvarint_le [of x 10] unsigned_less [of x, where 'a = nat] by (simp add: encodeVarint_eq)

lemma demo_seq_reads:
  "demo_seq (TxRaw_Marshal \<lparr>BodyBytes = [], AuthInfoBytes = encodeVarint q, RawSignatures = [[7]]\<rparr>) = q"
proof -
  have "length (TxRaw_Marshal \<lparr>BodyBytes = [], AuthInfoBytes = encodeVarint q, RawSignatures = [[7]]\<rparr>) < 2 ^ 63"
    using len_varint [of q] len_varint [of "of_nat (length (encodeVarint q))"] len_varint [of 1]
    by (simp add: TxRaw_Marshal_def put_bytes_opt_def put_repeated_def put_bytes_def)
  then show ?thesis
    using readVarint_encode [of "[]" q "[]"] by (simp add: demo_seq_def TxRaw_Unmarshal_Marshal)
qed

lemma demo_honest: "honest_node demo_base ''AB'' 3 demo_tokens fst demo_seq snd"
  using demo_served by (auto simp: honest_node_def demo_base_def demo_node_def)

lemma demo_sender: "sender_ok demo_base demo_baseTx ''AB''"
proof -
  have "char_of (65::nat) = CHR ''A'' \<and> char_of (66::nat) = CHR ''B''" by code_simp
  then show ?thesis by (simp add: sender_ok_def demo_base_def demo_baseTx_def demo_codec_def str_bytes_def)
qed

lemma demo_buildable: "buildable demo_base demo_baseTx ''AB'' 3 [\<lparr>Denom = ''uplug'', Amount = 5\<rparr>] demo_seq seg"
proof -
  have z: "DecCoins_IsZero []" by code_simp
  obtain as where a: "mapR (NewAnyWithValue (\<lambda>m. ''Demo'') Inr) seg = Inr as"
    using mapR_all_ok [of seg "NewAnyWithValue (\<lambda>m. ''Demo'') Inr"] by (fastforce simp: NewAnyWithValue_def)
  have "tx_of demo_base demo_baseTx ''AB'' 3 [\<lparr>Denom = ''uplug'', Amount = 5\<rparr>] q seg
      (TxRaw_Marshal \<lparr>BodyBytes = [], AuthInfoBytes = encodeVarint q, RawSignatures = [[7]]\<rparr>)" for q
    unfolding tx_of_def session_ctx_def finish_factory_def with_account_def start_ctx_def
    using z a by (simp add: build_simps BuildAndSign_def BuildUnsignedTx_def Sign_def factory_sig_def factory_fees_def demo_base_def demo_baseTx_def)
  then show ?thesis using demo_seq_reads unfolding buildable_def by blast
qed

lemma demo_fee: "session_fee demo_base demo_baseTx demo_tokens = Inr [\<lparr>Denom = ''uplug'', Amount = 5\<rparr>]"
proof -
  have "\<not> DecCoins_Empty (BFee demo_baseTx) \<and> DecCoins_IsValid (BFee demo_baseTx)" by code_simp
  then show ?thesis by (simp add: session_fee_def demo_min_coins)
qed

lemma demo_inv: "client_inv demo_base demo_baseTx ''AB'' 3 demo_tokens demo_state"
proof -
  have "account_key ''bob'' \<noteq> account_key ''AB''" by simp
  then show ?thesis
    by (simp add: client_inv_def token_inv_def demo_view demo_baseTx_def) (simp add: demo_state_def NewCache_def demo_base_def)
qed


section \<open>Where \<open>SendBatch\<close> falls short\<close>

text \<open>A panic while the first transaction is built, as for a configured fee that does not convert, is not reported.\<close>

lemma SendBatch_hides_panic:
  assumes "msgs \<noteq> []" "length msgs \<le> 100" "\<forall>m\<in>set msgs. validate_msg base m = Inr ()" "buildTx base msgs baseTx s = (Inl (Panic p), s')"
  shows "SendBatch base msgs baseTx s = (([], None), s')"
proof -
  have "mapR (validate_msg base) msgs = Inr (map (\<lambda>_. ()) msgs)" using assms(3) by (intro mapR_all_ok) simp
  with assms show ?thesis by (simp add: SendBatch_def SubArray_def maxBatch_def send_loop.simps CatchPanic_def)
qed

text \<open>With an explicit account number and sequence every transaction of a batch gets the same sequence number.\<close>

lemma prepare_explicit_sequence:
  assumes "TxAccountNumber baseTx \<noteq> 0" "TxSequence baseTx \<noteq> 0" "prepare base baseTx s = (Inr b, s')"
  shows "fsequence (bfactory b) = TxSequence baseTx"
  using assms
  by (auto simp: prepare_def bindS_def retS_apply Let_def finish_factory_def with_account_def split: prod.splits sum.splits)

text \<open>A name that equals the address of an account collides with it in the cache: the type assertion panics.\<close>

lemma QueryAddress_collision:
  assumes "gcache_laws (bgc base)" "view base s (account_key name) = Some (CAccount i)"
  shows "\<exists>p s'. QueryAddress base name password s = (Inl (Panic p), s')"
  using assms cache_get_rel [OF assms(1), of "account_key name" s]
  by (cases "cache_get base (account_key name) s") (auto simp: QueryAddress_def)

end
