(* ===== verification/Address.thy ===== *)
theory Address
  imports KeyStore SdkDecCoin
begin

text \<open>
  Addresses: \<open>types/address.go\<close>, \<open>types/env.go\<close> and \<open>utils/bech32/bech32.go\<close>. The bech32 library of
  btcutil is a record of its three functions; a nil address and an empty one are the empty byte list.
\<close>

section \<open>Bech32 (\<open>utils/bech32/bech32.go\<close>)\<close>

record Bech32 =
  b32ConvertBits :: "bytes \<Rightarrow> nat \<Rightarrow> nat \<Rightarrow> bool \<Rightarrow> bytes res"
  b32Encode :: "string \<Rightarrow> bytes \<Rightarrow> string res"
  b32Decode :: "string \<Rightarrow> (string \<times> bytes) res"

definition ConvertAndEncode :: "Bech32 \<Rightarrow> string \<Rightarrow> bytes \<Rightarrow> string res" where
  "ConvertAndEncode lib hrp data = bindR (b32ConvertBits lib data 8 5 True) (b32Encode lib hrp)"

definition DecodeAndConvert :: "Bech32 \<Rightarrow> string \<Rightarrow> (string \<times> bytes) res" where
  "DecodeAndConvert lib bech =
     bindR (b32Decode lib bech) (\<lambda>(hrp, data).
     bindR (b32ConvertBits lib data 5 8 False) (\<lambda>converted. Inr (hrp, converted)))"

definition GetFromBech32 :: "Bech32 \<Rightarrow> string \<Rightarrow> string \<Rightarrow> bytes res" where
  "GetFromBech32 lib bech32str pfx =
     (if length bech32str = 0 then Inl (Err ''decoding Bech32 address failed: must provide an address'')
      else
        bindR (DecodeAndConvert lib bech32str) (\<lambda>(hrp, bz).
          if hrp \<noteq> pfx then Inl (Err (''invalid Bech32 prefix; expected '' @ pfx @ '', got '' @ hrp)) else Inr bz))"

section \<open>Prefixes (\<open>types/env.go\<close>)\<close>

definition prefixChain :: string where "prefixChain = ''''"
definition prefixAccount :: string where "prefixAccount = ''g''"
definition prefixValidator :: string where "prefixValidator = ''gxval''"
definition prefixConsensus :: string where "prefixConsensus = ''e''"
definition prefixPublic :: string where "prefixPublic = ''conspub''"
definition prefixAddress :: string where "prefixAddress = ''x''"

definition prefixCfg :: "string \<rightharpoonup> string" where
  "prefixCfg =
     [''account_addr'' \<mapsto> prefixChain @ prefixAccount @ prefixAddress,
      ''validator_addr'' \<mapsto> prefixChain @ prefixAccount @ prefixAddress,
      ''consensus_addr'' \<mapsto> prefixChain @ prefixConsensus @ prefixAddress,
      ''account_pub'' \<mapsto> prefixChain @ prefixAccount @ prefixPublic,
      ''validator_pub'' \<mapsto> prefixChain @ prefixValidator @ prefixPublic,
      ''consensus_pub'' \<mapsto> prefixChain @ prefixValidator @ prefixPublic]"

text \<open>Reading a missing key of a Go map gives the empty string.\<close>

definition cfg_prefix :: "string \<Rightarrow> string" where
  "cfg_prefix k = (case prefixCfg k of None \<Rightarrow> [] | Some p \<Rightarrow> p)"

definition GetBech32AccountAddrPrefix :: string where "GetBech32AccountAddrPrefix = cfg_prefix ''account_addr''"
definition GetBech32ValidatorAddrPrefix :: string where "GetBech32ValidatorAddrPrefix = cfg_prefix ''validator_addr''"
definition GetBech32ConsensusAddrPrefix :: string where "GetBech32ConsensusAddrPrefix = cfg_prefix ''consensus_addr''"
definition GetBech32AccountPubPrefix :: string where "GetBech32AccountPubPrefix = cfg_prefix ''account_pub''"
definition GetBech32ValidatorPubPrefix :: string where "GetBech32ValidatorPubPrefix = cfg_prefix ''validator_pub''"
definition GetBech32ConsensusPubPrefix :: string where "GetBech32ConsensusPubPrefix = cfg_prefix ''consensus_pub''"

lemmas prefix_defs = GetBech32AccountAddrPrefix_def GetBech32ValidatorAddrPrefix_def GetBech32ConsensusAddrPrefix_def
  GetBech32AccountPubPrefix_def GetBech32ValidatorPubPrefix_def GetBech32ConsensusPubPrefix_def cfg_prefix_def prefixCfg_def
  prefixChain_def prefixAccount_def prefixValidator_def prefixConsensus_def prefixPublic_def prefixAddress_def

section \<open>Account, validator and consensus addresses (\<open>types/address.go\<close>)\<close>

definition AccAddressFromBech32 :: "Bech32 \<Rightarrow> string \<Rightarrow> bytes res" where
  "AccAddressFromBech32 lib address = GetFromBech32 lib address GetBech32AccountAddrPrefix"

definition ValidateAccAddress :: "Bech32 \<Rightarrow> string \<Rightarrow> unit res" where
  "ValidateAccAddress lib address = bindR (GetFromBech32 lib address GetBech32AccountAddrPrefix) (\<lambda>_. Inr ())"

definition MustAccAddressFromBech32 :: "Bech32 \<Rightarrow> string \<Rightarrow> bytes res" where
  "MustAccAddressFromBech32 lib address = panic_err (AccAddressFromBech32 lib address)"

definition Addr_Empty :: "bytes \<Rightarrow> bool" where
  "Addr_Empty aa = (aa = [])"

definition Addr_Equals :: "bytes \<Rightarrow> bytes \<Rightarrow> bool" where
  "Addr_Equals aa aa2 = (if Addr_Empty aa \<and> Addr_Empty aa2 then True else aa = aa2)"

definition AccAddress_String :: "Bech32 \<Rightarrow> bytes \<Rightarrow> string res" where
  "AccAddress_String lib aa =
     (if Addr_Empty aa then Inr [] else panic_err (ConvertAndEncode lib GetBech32AccountAddrPrefix aa))"

definition ValAddressFromBech32 :: "Bech32 \<Rightarrow> string \<Rightarrow> bytes res" where
  "ValAddressFromBech32 lib address = GetFromBech32 lib address GetBech32ValidatorAddrPrefix"

definition ValAddress_String :: "Bech32 \<Rightarrow> bytes \<Rightarrow> string res" where
  "ValAddress_String lib va = panic_err (ConvertAndEncode lib GetBech32ValidatorAddrPrefix va)"

definition ConsAddress_String :: "Bech32 \<Rightarrow> bytes \<Rightarrow> string res" where
  "ConsAddress_String lib ca = panic_err (ConvertAndEncode lib GetBech32ConsensusAddrPrefix ca)"

definition ConsAddressFromHex :: "string \<Rightarrow> bytes res" where
  "ConsAddressFromHex address =
     (if length address = 0 then Inl (Err ''decoding Bech32 address failed: must provide an address'')
      else case hexDecode address of None \<Rightarrow> Inl (Err ''encoding/hex: invalid'') | Some bz \<Rightarrow> Inr bz)"

text \<open>
  The JSON forms: \<open>json\<close> and \<open>unjson\<close> are the encoding of a string. \<open>UnmarshalJSON\<close> gives the new value of
  the receiver \<open>old\<close>; that of a validator address drops a decoding error.
\<close>

definition AccAddress_MarshalJSON :: "Bech32 \<Rightarrow> (string \<Rightarrow> bytes) \<Rightarrow> bytes \<Rightarrow> bytes res" where
  "AccAddress_MarshalJSON lib json aa = bindR (AccAddress_String lib aa) (\<lambda>s. Inr (json s))"

definition AccAddress_UnmarshalJSON :: "Bech32 \<Rightarrow> (bytes \<Rightarrow> string res) \<Rightarrow> bytes \<Rightarrow> bytes \<Rightarrow> bytes res" where
  "AccAddress_UnmarshalJSON lib unjson old data = bindR (unjson data) (AccAddressFromBech32 lib)"

definition ValAddress_MarshalJSON :: "Bech32 \<Rightarrow> (string \<Rightarrow> bytes) \<Rightarrow> bytes \<Rightarrow> bytes res" where
  "ValAddress_MarshalJSON lib json va = bindR (ValAddress_String lib va) (\<lambda>s. Inr (json s))"

definition ValAddress_UnmarshalJSON :: "Bech32 \<Rightarrow> (bytes \<Rightarrow> string res) \<Rightarrow> bytes \<Rightarrow> bytes \<Rightarrow> bytes res" where
  "ValAddress_UnmarshalJSON lib unjson old data =
     (case unjson data of Inl (Err e) \<Rightarrow> Inr old | Inl (Panic p) \<Rightarrow> Inl (Panic p) | Inr s \<Rightarrow> ValAddressFromBech32 lib s)"

datatype Bech32PubKeyType = Bech32PubKeyTypeAccPub | Bech32PubKeyTypeValPub | Bech32PubKeyTypeConsPub | OtherPubKeyType

fun pub_prefix :: "Bech32PubKeyType \<Rightarrow> string" where
  "pub_prefix Bech32PubKeyTypeAccPub = GetBech32AccountPubPrefix"
| "pub_prefix Bech32PubKeyTypeValPub = GetBech32ValidatorPubPrefix"
| "pub_prefix Bech32PubKeyTypeConsPub = GetBech32ConsensusPubPrefix"
| "pub_prefix OtherPubKeyType = []"

text \<open>\<open>marshal\<close> is \<open>Bytes\<close> of a public key and \<open>unmarshal\<close> the library's \<open>PubKeyFromBytes\<close>.\<close>

definition Bech32ifyPubKey :: "Bech32 \<Rightarrow> ('k \<Rightarrow> bytes) \<Rightarrow> Bech32PubKeyType \<Rightarrow> 'k \<Rightarrow> string res" where
  "Bech32ifyPubKey lib marshal pkt pubkey = ConvertAndEncode lib (pub_prefix pkt) (marshal pubkey)"

definition GetPubKeyFromBech32 :: "Bech32 \<Rightarrow> (bytes \<Rightarrow> 'k res) \<Rightarrow> Bech32PubKeyType \<Rightarrow> string \<Rightarrow> 'k res" where
  "GetPubKeyFromBech32 lib unmarshal pkt pubkeyStr = bindR (GetFromBech32 lib pubkeyStr (pub_prefix pkt)) unmarshal"

section \<open>Reading back\<close>

text \<open>
  What the code relies on. Regrouping bytes into groups of five bits gives values below 32, at most two
  for a byte, and can be undone; a text with a human readable part of lower case letters and at
  most 90 characters is not empty and decodes to what was encoded.
\<close>

definition regroup_law :: "Bech32 \<Rightarrow> bool" where
  "regroup_law lib \<longleftrightarrow> (\<forall>bz. \<exists>c. b32ConvertBits lib bz 8 5 True = Inr c \<and> (\<forall>x\<in>set c. x < 32) \<and> length c \<le> 2 * length bz
     \<and> b32ConvertBits lib c 5 8 False = Inr bz)"

definition encode_law :: "Bech32 \<Rightarrow> bool" where
  "encode_law lib \<longleftrightarrow> (\<forall>hrp c. hrp \<noteq> [] \<and> (\<forall>x\<in>set hrp. is_lower x) \<and> (\<forall>x\<in>set c. x < 32) \<and> length hrp + 7 + length c \<le> 90
     \<longrightarrow> (\<exists>s. b32Encode lib hrp c = Inr s \<and> s \<noteq> [] \<and> b32Decode lib s = Inr (hrp, c)))"

text \<open>A kind of address: a prefix with the printing and the parsing of it.\<close>

locale address_kind =
  fixes lib :: Bech32 and hrp :: string and toText :: "bytes \<Rightarrow> string res" and fromText :: "string \<Rightarrow> bytes res"
  assumes prefix_ok: "hrp \<noteq> []" "\<forall>x\<in>set hrp. is_lower x" "length hrp \<le> 19"
    and toText_def: "bz \<noteq> [] \<Longrightarrow> toText bz = panic_err (ConvertAndEncode lib hrp bz)"
    and fromText_def: "fromText s = GetFromBech32 lib s hrp"
begin

lemma toText_ok:
  assumes laws: "regroup_law lib" "encode_law lib" and len: "bz \<noteq> []" "length bz \<le> 32"
  shows "\<exists>s. toText bz = Inr s \<and> DecodeAndConvert lib s = Inr (hrp, bz) \<and> s \<noteq> []"
proof -
  obtain c where c: "b32ConvertBits lib bz 8 5 True = Inr c" "\<forall>x\<in>set c. x < 32" "length c \<le> 2 * length bz"
    "b32ConvertBits lib c 5 8 False = Inr bz" using laws(1) unfolding regroup_law_def by blast
  moreover have "length hrp + 7 + length c \<le> 90" using c(3) len(2) prefix_ok(3) by linarith
  ultimately obtain s where "b32Encode lib hrp c = Inr s" "s \<noteq> []" "b32Decode lib s = Inr (hrp, c)"
    using laws(2) prefix_ok(1,2) unfolding encode_law_def by blast
  then show ?thesis using c len(1) by (simp add: toText_def ConvertAndEncode_def DecodeAndConvert_def panic_err_def)
qed

lemma fromText_toText:
  "regroup_law lib \<Longrightarrow> encode_law lib \<Longrightarrow> bz \<noteq> [] \<Longrightarrow> length bz \<le> 32 \<Longrightarrow> toText bz = Inr s \<Longrightarrow> fromText s = Inr bz"
  using toText_ok [of bz] by (auto simp: fromText_def GetFromBech32_def)

lemma fromText_prefix: "fromText s = Inr bz \<Longrightarrow> \<exists>d. b32Decode lib s = Inr (hrp, d) \<and> b32ConvertBits lib d 5 8 False = Inr bz"
  by (auto simp: fromText_def GetFromBech32_def DecodeAndConvert_def split: if_splits)

end

lemma prefix_values:
  "GetBech32AccountAddrPrefix = ''gx''" "GetBech32ValidatorAddrPrefix = ''gx''" "GetBech32ConsensusAddrPrefix = ''ex''"
  "GetBech32AccountPubPrefix = ''gconspub''" "GetBech32ValidatorPubPrefix = ''gxvalconspub''" "GetBech32ConsensusPubPrefix = ''gxvalconspub''"
  by (simp_all add: prefix_defs)

interpretation account: address_kind lib GetBech32AccountAddrPrefix "AccAddress_String lib" "AccAddressFromBech32 lib" for lib
  by unfold_locales (auto simp: prefix_values AccAddress_String_def AccAddressFromBech32_def Addr_Empty_def is_lower_def less_eq_char_def)

interpretation validator: address_kind lib GetBech32ValidatorAddrPrefix "ValAddress_String lib" "ValAddressFromBech32 lib" for lib
  by unfold_locales (auto simp: prefix_values ValAddress_String_def ValAddressFromBech32_def is_lower_def less_eq_char_def)

interpretation consensus: address_kind lib GetBech32ConsensusAddrPrefix "ConsAddress_String lib" "\<lambda>s. GetFromBech32 lib s GetBech32ConsensusAddrPrefix" for lib
  by unfold_locales (auto simp: prefix_values ConsAddress_String_def is_lower_def less_eq_char_def)


text \<open>A bech32 library for the examples: two values for a byte, the separator and the values as letters.\<close>

fun pair_up :: "bytes \<Rightarrow> bytes" where
  "pair_up (a # b # bs) = (a * 16 + b) # pair_up bs"
| "pair_up _ = []"

definition demo_b32 :: Bech32 where
  "demo_b32 =
     \<lparr>b32ConvertBits = (\<lambda>bz from to pad. Inr (if from = 8 then concat (map (\<lambda>b. [b div 16, b mod 16]) bz) else pair_up bz)),
      b32Encode = (\<lambda>hrp c. Inr (hrp @ CHR ''1'' # map (\<lambda>x. char_of (unat x + 65)) c)),
      b32Decode = (\<lambda>s. Inr (takeWhile (\<lambda>x. x \<noteq> CHR ''1'') s,
        map (\<lambda>x. of_nat (of_char x - 65)) (tl (dropWhile (\<lambda>x. x \<noteq> CHR ''1'') s))))\<rparr>"

lemma demo_b32_laws: "regroup_law demo_b32" "encode_law demo_b32"
proof -
  have p: "pair_up (concat (map (\<lambda>b. [b div 16, b mod 16]) bz)) = bz" for bz
    by (induction bz) (simp_all add: div_mult_mod_eq)
  have l: "length (concat (map (\<lambda>b::8 word. [b div 16, b mod 16]) bz)) = 2 * length bz" for bz
    by (induction bz) simp_all
  have "unat (b div 16) < 32" "unat (b mod 16) < 32" for b :: "8 word"
    using unsigned_less [of b, where 'a = nat] by (simp_all add: unat_div unat_mod less_mult_imp_div_less)
  then have "b div 16 < 32" "b mod 16 < 32" for b :: "8 word" by (simp_all add: word_less_nat_alt)
  then have "\<forall>x\<in>set (concat (map (\<lambda>b. [b div 16, b mod 16]) bz)). x < 32" for bz :: bytes by auto
  with p l show "regroup_law demo_b32" by (auto simp: regroup_law_def demo_b32_def)
  have sep: "takeWhile (\<lambda>x. x \<noteq> CHR ''1'') (hrp @ CHR ''1'' # r) = hrp \<and> dropWhile (\<lambda>x. x \<noteq> CHR ''1'') (hrp @ CHR ''1'' # r) = CHR ''1'' # r"
    if "\<forall>x\<in>set hrp. is_lower x" for hrp r
    using that by (induction hrp) (auto simp: is_lower_def less_eq_char_def)
  have val: "map (\<lambda>x. of_nat (of_char x - 65)) (map (\<lambda>x. char_of (unat x + 65)) c) = c" if "\<forall>x\<in>set c. x < 32" for c :: bytes
    using that by (induction c) (auto simp: word_less_nat_alt)
  show "encode_law demo_b32" unfolding encode_law_def demo_b32_def using sep val by (simp del: map_map)
qed


text \<open>A JSON text that is not a string leaves the validator address as it was, without an error.\<close>

lemma ValAddress_UnmarshalJSON_silent:
  "unjson data = Inl (Err e) \<Longrightarrow> ValAddress_UnmarshalJSON lib unjson old data = Inr old"
  by (simp add: ValAddress_UnmarshalJSON_def)

text \<open>Consensus addresses in hexadecimal, as the nodes print them.\<close>

lemma ConsAddressFromHex_hexUpper: "bz \<noteq> [] \<Longrightarrow> ConsAddressFromHex (hexUpper bz) = Inr bz"
  by (simp add: ConsAddressFromHex_def)

end
