(* ===== verification/Messages.thy ===== *)
theory Messages
  imports Address SdkCoin SdkDec
begin

text \<open>
  The messages of the bank, token, nft, gov, staking and coinswap modules: their data, \<open>ValidateBasic\<close>
  and \<open>GetSigners\<close> (\<open>modules/*/types.go\<close>). Addresses are texts that \<open>ValidateBasic\<close> parses with the
  functions of the theory \<open>Address\<close>.
\<close>

section \<open>The message interface\<close>

text \<open>
  What a caller of \<open>sdk.Msg\<close> needs: the signers of a message that passed \<open>ValidateBasic\<close> can be computed,
  and there is one.
\<close>

locale sdk_msg =
  fixes validate :: "'a \<Rightarrow> unit res" and signers :: "'a \<Rightarrow> (bytes list) res"
  assumes signed: "validate m = Inr () \<Longrightarrow> \<exists>as. signers m = Inr as \<and> as \<noteq> []"
begin

lemma batch_signed:
  "mapR validate ms = Inr us \<Longrightarrow> \<exists>ass. mapR signers ms = Inr ass \<and> length ass = length ms \<and> [] \<notin> set ass"
proof (induction ms arbitrary: us)
  case (Cons m ms)
  then have "validate m = Inr ()" by auto
  then obtain as where "signers m = Inr as" "as \<noteq> []" using signed by blast
  with Cons show ?case by fastforce
qed simp

end

text \<open>An address that does not parse is nil where the error is ignored.\<close>

definition addr_or_nil :: "bytes res \<Rightarrow> bytes res" where
  "addr_or_nil r = (case r of Inl (Err _) \<Rightarrow> Inr [] | _ \<Rightarrow> r)"

definition check :: "bool \<Rightarrow> string \<Rightarrow> unit res" where
  "check b msg = (if b then Inr () else Inl (Err msg))"

text \<open>\<open>seqR\<close> runs tests in order; the first that fails ends the sequence.\<close>

fun seqR :: "unit res list \<Rightarrow> unit res" where
  "seqR [] = Inr ()"
| "seqR (r # rs) = bindR r (\<lambda>_. seqR rs)"

lemma seqR_ok [simp]: "seqR rs = Inr u \<longleftrightarrow> (\<forall>r\<in>set rs. r = Inr ())"
  by (induction rs) auto

lemma check_ok [simp]: "check b msg = Inr u \<longleftrightarrow> b"
  by (simp add: check_def)

definition ignore :: "'a res \<Rightarrow> unit res" where
  "ignore r = bindR r (\<lambda>_. Inr ())"

lemma ignore_ok [simp]: "ignore r = Inr u \<longleftrightarrow> (\<exists>x. r = Inr x)"
  by (cases r) (auto simp: ignore_def)

lemma replace_err_ok [simp]: "replace_err msg r = Inr x \<longleftrightarrow> r = Inr x"
  by (auto simp: replace_err_def split: sum.splits failure.splits)

definition paren_err :: "string \<Rightarrow> 'a res \<Rightarrow> 'a res" where
  "paren_err msg r = (case r of Inl (Err e) \<Rightarrow> Inl (Err (msg @ '' ('' @ e @ '')'')) | _ \<Rightarrow> r)"

lemma paren_err_ok [simp]: "paren_err msg r = Inr x \<longleftrightarrow> r = Inr x"
  by (auto simp: paren_err_def split: sum.splits failure.splits)

lemma panic_err_ok [simp]: "panic_err r = Inr x \<longleftrightarrow> r = Inr x"
  by (auto simp: panic_err_def split: sum.splits failure.splits)

section \<open>Bank (\<open>modules/bank/types.go\<close>)\<close>

record MsgSend =
  FromAddress :: string
  ToAddress :: string
  SendAmount :: Coins

record Input =
  InAddress :: string
  InCoins :: Coins

record Output =
  OutAddress :: string
  OutCoins :: Coins

record MsgMultiSend =
  Inputs :: "Input list"
  Outputs :: "Output list"

definition NewMsgSend :: "Bech32 \<Rightarrow> bytes \<Rightarrow> bytes \<Rightarrow> Coins \<Rightarrow> MsgSend res" where
  "NewMsgSend lib fromAddr toAddr amount =
     bindR (AccAddress_String lib fromAddr) (\<lambda>f. bindR (AccAddress_String lib toAddr) (\<lambda>t.
       Inr \<lparr>FromAddress = f, ToAddress = t, SendAmount = amount\<rparr>))"

definition MsgSend_ValidateBasic :: "Bech32 \<Rightarrow> MsgSend \<Rightarrow> unit res" where
  "MsgSend_ValidateBasic lib msg = seqR [
     ignore (replace_err ''invalid sender address'' (AccAddressFromBech32 lib (FromAddress msg))),
     ignore (replace_err ''invalid recipient address'' (AccAddressFromBech32 lib (ToAddress msg))),
     check (Coins_IsValid (SendAmount msg)) ''invalid coins'',
     check (Coins_IsAllPositive (SendAmount msg)) ''invalid coins'']"

definition MsgSend_GetSigners :: "Bech32 \<Rightarrow> MsgSend \<Rightarrow> (bytes list) res" where
  "MsgSend_GetSigners lib msg = bindR (panic_err (AccAddressFromBech32 lib (FromAddress msg))) (\<lambda>f. Inr [f])"

definition NewInput :: "Bech32 \<Rightarrow> bytes \<Rightarrow> Coins \<Rightarrow> Input res" where
  "NewInput lib addr coins = bindR (AccAddress_String lib addr) (\<lambda>a. Inr \<lparr>InAddress = a, InCoins = coins\<rparr>)"

definition NewOutput :: "Bech32 \<Rightarrow> bytes \<Rightarrow> Coins \<Rightarrow> Output res" where
  "NewOutput lib addr coins = bindR (AccAddress_String lib addr) (\<lambda>a. Inr \<lparr>OutAddress = a, OutCoins = coins\<rparr>)"

definition Input_ValidateBasic :: "Bech32 \<Rightarrow> Input \<Rightarrow> unit res" where
  "Input_ValidateBasic lib i = seqR [
     ignore (AccAddressFromBech32 lib (InAddress i)),
     check (\<not> Coins_Empty (InCoins i)) ''empty input coins'',
     check (Coins_IsValid (InCoins i)) (''invalid input coins ['' @ Coins_String (InCoins i) @ '']''),
     check (Coins_IsAllPositive (InCoins i)) (''invalid input coins ['' @ Coins_String (InCoins i) @ '']'')]"

definition Output_ValidateBasic :: "Bech32 \<Rightarrow> Output \<Rightarrow> unit res" where
  "Output_ValidateBasic lib out = seqR [
     ignore (paren_err ''invalid output address'' (AccAddressFromBech32 lib (OutAddress out))),
     check (\<not> Coins_Empty (OutCoins out)) ''empty input coins'',
     check (Coins_IsValid (OutCoins out)) (''invalid input coins ['' @ Coins_String (OutCoins out) @ '']''),
     check (Coins_IsAllPositive (OutCoins out)) (''invalid input coins ['' @ Coins_String (OutCoins out) @ '']'')]"

definition total_in :: "Bech32 \<Rightarrow> Input list \<Rightarrow> Coins res" where
  "total_in lib ins = foldR (\<lambda>t i. bindR (Input_ValidateBasic lib i) (\<lambda>_. Coins_Add t (InCoins i))) [] ins"

definition total_out :: "Bech32 \<Rightarrow> Output list \<Rightarrow> Coins res" where
  "total_out lib outs = foldR (\<lambda>t out. bindR (Output_ValidateBasic lib out) (\<lambda>_. Coins_Add t (OutCoins out))) [] outs"

definition ValidateInputsOutputs :: "Bech32 \<Rightarrow> Input list \<Rightarrow> Output list \<Rightarrow> unit res" where
  "ValidateInputsOutputs lib inputs outputs =
     bindR (total_in lib inputs) (\<lambda>totalIn.
     bindR (total_out lib outputs) (\<lambda>totalOut.
     bindR (Coins_IsEqual totalIn totalOut) (\<lambda>eq. check eq ''sum inputs != sum outputs'')))"

definition MsgMultiSend_ValidateBasic :: "Bech32 \<Rightarrow> MsgMultiSend \<Rightarrow> unit res" where
  "MsgMultiSend_ValidateBasic lib msg =
     (if length (Inputs msg) = 0 then Inl (Err ''invalid input coins'')
      else if length (Outputs msg) = 0 then Inl (Err ''invalid output coins'')
      else
        bindR (total_in lib (Inputs msg)) (\<lambda>totalIn.
        bindR (total_out lib (Outputs msg)) (\<lambda>totalOut.
        bindR (Coins_IsEqual totalIn totalOut) (\<lambda>eq. check eq ''inputs and outputs don't match''))))"

definition MsgMultiSend_GetSigners :: "Bech32 \<Rightarrow> MsgMultiSend \<Rightarrow> (bytes list) res" where
  "MsgMultiSend_GetSigners lib msg = mapR (\<lambda>i. addr_or_nil (AccAddressFromBech32 lib (InAddress i))) (Inputs msg)"

section \<open>Token (\<open>modules/token/types.go\<close>)\<close>

record MsgIssueToken =
  itSymbol :: string
  itName :: string
  itScale :: "32 word"
  itMinUnit :: string
  itInitialSupply :: "64 word"
  itMaxSupply :: "64 word"
  itMintable :: bool
  itOwner :: string

record MsgTransferOwnerToken =
  ttSymbol :: string
  ttOwner :: string
  ttTo :: string

record MsgEditToken =
  etSymbol :: string
  etName :: string
  etMaxSupply :: "64 word"
  etOwner :: string

record MsgMintToken =
  mtSymbol :: string
  mtTo :: string
  mtAmount :: "64 word"
  mtOwner :: string

text \<open>The signer that most messages have: their owner, whose address must parse.\<close>

definition owner_signs :: "Bech32 \<Rightarrow> string \<Rightarrow> (bytes list) res" where
  "owner_signs lib owner = bindR (MustAccAddressFromBech32 lib owner) (\<lambda>a. Inr [a])"

definition MsgIssueToken_ValidateBasic :: "Bech32 \<Rightarrow> MsgIssueToken \<Rightarrow> unit res" where
  "MsgIssueToken_ValidateBasic lib msg = seqR [
     check (length (itOwner msg) \<noteq> 0) ''owner must be not empty'',
     ValidateAccAddress lib (itOwner msg),
     check (length (itSymbol msg) \<noteq> 0) ''symbol must be not empty'',
     check (length (itName msg) \<noteq> 0) ''name must be not empty'',
     check (length (itMinUnit msg) \<noteq> 0) ''minUnit must be not empty'']"

definition MsgIssueToken_GetSigners :: "Bech32 \<Rightarrow> MsgIssueToken \<Rightarrow> (bytes list) res" where
  "MsgIssueToken_GetSigners lib msg = owner_signs lib (itOwner msg)"

definition MsgTransferOwnerToken_ValidateBasic :: "Bech32 \<Rightarrow> MsgTransferOwnerToken \<Rightarrow> unit res" where
  "MsgTransferOwnerToken_ValidateBasic lib msg = seqR [
     check (length (ttOwner msg) \<noteq> 0) ''srcOwner must be not empty'',
     ValidateAccAddress lib (ttOwner msg),
     check (length (ttTo msg) \<noteq> 0) ''dstOwner must be not empty'',
     ValidateAccAddress lib (ttTo msg),
     check (length (ttSymbol msg) \<noteq> 0) ''symbol must be not empty'']"

definition MsgTransferOwnerToken_GetSigners :: "Bech32 \<Rightarrow> MsgTransferOwnerToken \<Rightarrow> (bytes list) res" where
  "MsgTransferOwnerToken_GetSigners lib msg = owner_signs lib (ttOwner msg)"

definition MsgEditToken_ValidateBasic :: "Bech32 \<Rightarrow> MsgEditToken \<Rightarrow> unit res" where
  "MsgEditToken_ValidateBasic lib msg = seqR [
     check (length (etOwner msg) \<noteq> 0) ''owner must be not empty'',
     ValidateAccAddress lib (etOwner msg),
     check (length (etSymbol msg) \<noteq> 0) ''symbol must be not empty'']"

definition MsgEditToken_GetSigners :: "Bech32 \<Rightarrow> MsgEditToken \<Rightarrow> (bytes list) res" where
  "MsgEditToken_GetSigners lib msg = owner_signs lib (etOwner msg)"

definition MsgMintToken_ValidateBasic :: "Bech32 \<Rightarrow> MsgMintToken \<Rightarrow> unit res" where
  "MsgMintToken_ValidateBasic lib msg = seqR [
     check (length (mtOwner msg) \<noteq> 0) ''owner must be not empty'',
     ValidateAccAddress lib (mtOwner msg),
     check (length (mtSymbol msg) \<noteq> 0) ''symbol must be not empty'']"

definition MsgMintToken_GetSigners :: "Bech32 \<Rightarrow> MsgMintToken \<Rightarrow> (bytes list) res" where
  "MsgMintToken_GetSigners lib msg = owner_signs lib (mtOwner msg)"

text \<open>\<open>strconv.ParseBool\<close> accepts six spellings of true; every other text is false here.\<close>

definition Bool_ToBool :: "string \<Rightarrow> bool" where
  "Bool_ToBool v = (if length v = 0 then False else v \<in> {''1'', ''t'', ''T'', ''TRUE'', ''true'', ''True''})"

section \<open>NFT (\<open>modules/nft/types.go\<close>)\<close>

record MsgIssueClass =
  icID :: string
  icName :: string
  icSchema :: string
  icOwner :: string
  icSymbol :: string
  icMintRestricted :: bool
  icEditRestricted :: bool

record MsgTransferNFT =
  tnID :: string
  tnClassID :: string
  tnRecipient :: string
  tnOwner :: string

record MsgTransferClass =
  tcID :: string
  tcOwner :: string
  tcRecipient :: string

record MsgEditNFT =
  enID :: string
  enClassID :: string
  enName :: string
  enURI :: string
  enData :: string
  enOwner :: string

record MsgIssueNFT =
  inID :: string
  inClassID :: string
  inName :: string
  inURI :: string
  inData :: string
  inOwner :: string
  inRecipient :: string

record MsgBurnNFT =
  bnID :: string
  bnClassID :: string
  bnOwner :: string

definition MinClassLen :: nat where "MinClassLen = 3"
definition MaxClassLen :: nat where "MaxClassLen = 64"
definition MaxNFTURILen :: nat where "MaxNFTURILen = 256"

definition RegexAlphaNumeric :: "string \<Rightarrow> bool" where
  "RegexAlphaNumeric s = (s \<noteq> [] \<and> list_all (\<lambda>c. is_lower c \<or> is_digit c) s)"

definition RegexAlphaTop :: "string \<Rightarrow> bool" where
  "RegexAlphaTop s = (case s of [] \<Rightarrow> False | c # _ \<Rightarrow> is_lower c)"

definition regexpKeyword :: "string \<Rightarrow> bool" where
  "regexpKeyword s = (prefix ''ibc'' s \<or> prefix ''plug'' s)"

definition regexpURI :: "string \<Rightarrow> bool" where
  "regexpURI s = (prefix ''http://'' s \<or> prefix ''https://'' s)"

text \<open>The surplus arguments of these messages are left out: \<open>Wrapf\<close> formats the first one only.\<close>

definition ValidateNFTID :: "string \<Rightarrow> unit res" where
  "ValidateNFTID nftID =
     (if length nftID < MinClassLen \<or> MaxClassLen < length nftID then Inl (Err ''invalid nft ID'')
      else if \<not> RegexAlphaNumeric nftID \<or> \<not> RegexAlphaTop nftID then Inl (Err ''invalid nft ID'')
      else Inr ())"

definition ValidateKeywords :: "string \<Rightarrow> unit res" where
  "ValidateKeywords classID = (if regexpKeyword classID then Inl (Err ''invalid denom'') else Inr ())"

definition ValidateClassID :: "string \<Rightarrow> unit res" where
  "ValidateClassID classID =
     (if length classID < MinClassLen \<or> MaxClassLen < length classID then Inl (Err ''invalid denom'')
      else if \<not> RegexAlphaNumeric classID \<or> \<not> RegexAlphaTop classID then Inl (Err ''invalid denom'')
      else ValidateKeywords classID)"

definition ValidateNFTURI :: "string \<Rightarrow> unit res" where
  "ValidateNFTURI uri =
     (if MaxNFTURILen < length uri then Inl (Err ''invalid nft uri'')
      else if \<not> regexpURI uri then Inl (Err ''invalid nft uri'')
      else Inr ())"

definition MsgIssueClass_ValidateBasic :: "Bech32 \<Rightarrow> MsgIssueClass \<Rightarrow> unit res" where
  "MsgIssueClass_ValidateBasic lib m = seqR [
     check (length (icOwner m) \<noteq> 0) ''missing sender address'',
     ValidateAccAddress lib (icOwner m),
     check (length (TrimSpace (icID m)) \<noteq> 0) ''missing id'']"

definition MsgIssueClass_GetSigners :: "Bech32 \<Rightarrow> MsgIssueClass \<Rightarrow> (bytes list) res" where
  "MsgIssueClass_GetSigners lib m = owner_signs lib (icOwner m)"

definition MsgTransferNFT_ValidateBasic :: "Bech32 \<Rightarrow> MsgTransferNFT \<Rightarrow> unit res" where
  "MsgTransferNFT_ValidateBasic lib m = seqR [
     check (length (tnOwner m) \<noteq> 0) ''missing sender address'',
     ValidateAccAddress lib (tnOwner m),
     ignore (paren_err ''invalid recipient address'' (AccAddressFromBech32 lib (tnRecipient m))),
     ignore (paren_err ''invalid sender address'' (AccAddressFromBech32 lib (tnOwner m))),
     ValidateNFTID (tnID m)]"

definition MsgTransferNFT_GetSigners :: "Bech32 \<Rightarrow> MsgTransferNFT \<Rightarrow> (bytes list) res" where
  "MsgTransferNFT_GetSigners lib m = owner_signs lib (tnOwner m)"

definition MsgTransferClass_ValidateBasic :: "Bech32 \<Rightarrow> MsgTransferClass \<Rightarrow> unit res" where
  "MsgTransferClass_ValidateBasic lib m = seqR [
     check (length (tcOwner m) \<noteq> 0) ''missing sender address'',
     ValidateAccAddress lib (tcOwner m),
     ignore (paren_err ''invalid sender address'' (AccAddressFromBech32 lib (tcOwner m))),
     ValidateNFTID (tcID m)]"

definition MsgTransferClass_GetSigners :: "Bech32 \<Rightarrow> MsgTransferClass \<Rightarrow> (bytes list) res" where
  "MsgTransferClass_GetSigners lib m = owner_signs lib (tcOwner m)"

definition MsgEditNFT_ValidateBasic :: "Bech32 \<Rightarrow> MsgEditNFT \<Rightarrow> unit res" where
  "MsgEditNFT_ValidateBasic lib m = seqR [
     check (length (enOwner m) \<noteq> 0) ''missing sender address'',
     ValidateAccAddress lib (enOwner m),
     ValidateClassID (enClassID m),
     ValidateNFTID (enID m),
     ValidateNFTURI (enURI m)]"

definition MsgEditNFT_GetSigners :: "Bech32 \<Rightarrow> MsgEditNFT \<Rightarrow> (bytes list) res" where
  "MsgEditNFT_GetSigners lib m = owner_signs lib (enOwner m)"

definition MsgIssueNFT_ValidateBasic :: "Bech32 \<Rightarrow> MsgIssueNFT \<Rightarrow> unit res" where
  "MsgIssueNFT_ValidateBasic lib m = seqR [
     check (length (inOwner m) \<noteq> 0) ''missing sender address'',
     ValidateAccAddress lib (inOwner m),
     ValidateAccAddress lib (inRecipient m),
     ValidateClassID (inClassID m),
     ValidateNFTID (inID m),
     ValidateNFTURI (inURI m)]"

definition MsgIssueNFT_GetSigners :: "Bech32 \<Rightarrow> MsgIssueNFT \<Rightarrow> (bytes list) res" where
  "MsgIssueNFT_GetSigners lib m = owner_signs lib (inOwner m)"

definition MsgBurnNFT_ValidateBasic :: "Bech32 \<Rightarrow> MsgBurnNFT \<Rightarrow> unit res" where
  "MsgBurnNFT_ValidateBasic lib m = seqR [
     check (length (bnOwner m) \<noteq> 0) ''missing sender address'',
     ValidateAccAddress lib (bnOwner m),
     ValidateClassID (bnClassID m),
     ValidateNFTID (bnID m)]"

definition MsgBurnNFT_GetSigners :: "Bech32 \<Rightarrow> MsgBurnNFT \<Rightarrow> (bytes list) res" where
  "MsgBurnNFT_GetSigners lib m = owner_signs lib (bnOwner m)"

section \<open>Gov (\<open>modules/gov/types.go\<close>, \<open>modules/gov/proposal.go\<close>)\<close>

record TextProposal =
  tpTitle :: string
  tpDescription :: string

text \<open>The content is a pointer to an \<open>Any\<close> (nil is \<open>None\<close>) whose cached value may be a content or not.\<close>

record MsgSubmitProposal =
  spContent :: "TextProposal option option"
  spInitialDeposit :: Coins
  spProposer :: string

record MsgDeposit =
  mdProposalId :: "64 word"
  mdDepositor :: string
  mdAmount :: Coins

record MsgVote =
  mvProposalId :: "64 word"
  mvVoter :: string
  mvOption :: "32 word"

definition MaxDescriptionLength :: nat where "MaxDescriptionLength = 5000"
definition MaxTitleLength :: nat where "MaxTitleLength = 140"

definition TextProposal_ValidateBasic :: "TextProposal \<Rightarrow> unit res" where
  "TextProposal_ValidateBasic tp = seqR [
     check (length (TrimSpace (tpTitle tp)) \<noteq> 0) ''proposal title cannot be blank'',
     check (length (tpTitle tp) \<le> MaxTitleLength) ''proposal title is longer than max length of 140'',
     check (length (tpDescription tp) \<noteq> 0) ''proposal description cannot be blank'',
     check (length (tpDescription tp) \<le> MaxDescriptionLength) ''proposal description is longer than max length of 5000'']"

definition ContentFromProposalType :: "string \<Rightarrow> string \<Rightarrow> string \<Rightarrow> TextProposal option" where
  "ContentFromProposalType title desc ty = (if ty = ''Text'' then Some \<lparr>tpTitle = title, tpDescription = desc\<rparr> else None)"

text \<open>\<open>pack\<close> is \<open>NewAnyWithValue\<close>, which marshals the content.\<close>

definition NewMsgSubmitProposal ::
    "Bech32 \<Rightarrow> (TextProposal \<Rightarrow> unit res) \<Rightarrow> TextProposal option \<Rightarrow> Coins \<Rightarrow> bytes \<Rightarrow> MsgSubmitProposal res" where
  "NewMsgSubmitProposal lib pack content initialDeposit proposer =
     bindR (AccAddress_String lib proposer) (\<lambda>p.
       case content of
         None \<Rightarrow> Inl (Err ''can't proto marshal <nil>'')
       | Some c \<Rightarrow> bindR (pack c) (\<lambda>_. Inr \<lparr>spContent = Some (Some c), spInitialDeposit = initialDeposit, spProposer = p\<rparr>))"

definition GetContent :: "TextProposal option option \<Rightarrow> (TextProposal option) res" where
  "GetContent any = (case any of None \<Rightarrow> Inl (Panic ''nil pointer dereference'') | Some c \<Rightarrow> Inr c)"

definition MsgSubmitProposal_ValidateBasic :: "MsgSubmitProposal \<Rightarrow> unit res" where
  "MsgSubmitProposal_ValidateBasic m = seqR [
     check (spProposer m \<noteq> []) ''missing Proposer'',
     check (Coins_IsValid (spInitialDeposit m)) (''invalidCoins coins, '' @ Coins_String (spInitialDeposit m)),
     check (\<not> Coins_IsAnyNegative (spInitialDeposit m)) (''invalidCoins coins, '' @ Coins_String (spInitialDeposit m)),
     bindR (GetContent (spContent m)) (\<lambda>content.
       case content of None \<Rightarrow> Inl (Err ''missing content'') | Some c \<Rightarrow> TextProposal_ValidateBasic c)]"

text \<open>An address that does not parse gives a nil signer.\<close>

definition lax_signer :: "Bech32 \<Rightarrow> string \<Rightarrow> (bytes list) res" where
  "lax_signer lib a = bindR (addr_or_nil (AccAddressFromBech32 lib a)) (\<lambda>x. Inr [x])"

definition MsgSubmitProposal_GetSigners :: "Bech32 \<Rightarrow> MsgSubmitProposal \<Rightarrow> (bytes list) res" where
  "MsgSubmitProposal_GetSigners lib m = lax_signer lib (spProposer m)"

definition MsgDeposit_ValidateBasic :: "MsgDeposit \<Rightarrow> unit res" where
  "MsgDeposit_ValidateBasic msg = seqR [
     check (mdDepositor msg \<noteq> []) ''missing Proposer'',
     check (Coins_IsValid (mdAmount msg)) (''invalidCoins coins, '' @ Coins_String (mdAmount msg)),
     check (\<not> Coins_IsAnyNegative (mdAmount msg)) (''invalidCoins coins, '' @ Coins_String (mdAmount msg))]"

definition MsgDeposit_GetSigners :: "Bech32 \<Rightarrow> MsgDeposit \<Rightarrow> (bytes list) res" where
  "MsgDeposit_GetSigners lib msg = lax_signer lib (mdDepositor msg)"

definition ValidVoteOption :: "32 word \<Rightarrow> bool" where
  "ValidVoteOption option = (option = 1 \<or> option = 2 \<or> option = 3 \<or> option = 4)"

definition MsgVote_ValidateBasic :: "MsgVote \<Rightarrow> unit res" where
  "MsgVote_ValidateBasic msg = seqR [
     check (mvVoter msg \<noteq> []) ''missing Proposer'',
     check (ValidVoteOption (mvOption msg)) ''invalid vote option'']"

definition MsgVote_GetSigners :: "Bech32 \<Rightarrow> MsgVote \<Rightarrow> (bytes list) res" where
  "MsgVote_GetSigners lib msg = lax_signer lib (mvVoter msg)"

text \<open>The tables of the generated code, and the functions that read them.\<close>

definition ProposalStatus_value :: "string \<rightharpoonup> 32 word" where
  "ProposalStatus_value =
     [''PROPOSAL_STATUS_UNSPECIFIED'' \<mapsto> 0, ''PROPOSAL_STATUS_DEPOSIT_PERIOD'' \<mapsto> 1, ''PROPOSAL_STATUS_VOTING_PERIOD'' \<mapsto> 2,
      ''PROPOSAL_STATUS_PASSED'' \<mapsto> 3, ''PROPOSAL_STATUS_REJECTED'' \<mapsto> 4, ''PROPOSAL_STATUS_FAILED'' \<mapsto> 5]"

definition VoteOption_value :: "string \<rightharpoonup> 32 word" where
  "VoteOption_value =
     [''VOTE_OPTION_UNSPECIFIED'' \<mapsto> 0, ''VOTE_OPTION_YES'' \<mapsto> 1, ''VOTE_OPTION_ABSTAIN'' \<mapsto> 2,
      ''VOTE_OPTION_NO'' \<mapsto> 3, ''VOTE_OPTION_NO_WITH_VETO'' \<mapsto> 4]"

definition ProposalStatusFromString :: "string \<Rightarrow> (32 word) res" where
  "ProposalStatusFromString str =
     (case ProposalStatus_value str of
        None \<Rightarrow> Inl (Err ([CHR 0x27] @ str @ [CHR 0x27] @ '' is not a valid proposal status''))
      | Some num \<Rightarrow> Inr num)"

definition ValidProposalStatus :: "32 word \<Rightarrow> bool" where
  "ValidProposalStatus status = (status = 1 \<or> status = 2 \<or> status = 3 \<or> status = 4 \<or> status = 5)"

definition ProposalStatus_Marshal :: "32 word \<Rightarrow> bytes res" where
  "ProposalStatus_Marshal status = Inr [ucast status]"

definition ProposalStatus_Unmarshal :: "bytes \<Rightarrow> (32 word) res" where
  "ProposalStatus_Unmarshal data = (case data of [] \<Rightarrow> Inl (Panic ''index out of range'') | b # _ \<Rightarrow> Inr (ucast b))"

text \<open>The registered proposal types are a set, with \<open>Text\<close> in it from the start.\<close>

definition validProposalTypes :: "string set" where
  "validProposalTypes = {''Text''}"

definition RegisterProposalType :: "string set \<Rightarrow> string \<Rightarrow> (string set) res" where
  "RegisterProposalType types ty =
     (if ty \<in> types then Inl (Panic (''already registered proposal type: '' @ ty)) else Inr (insert ty types))"

definition IsValidProposalType :: "string set \<Rightarrow> string \<Rightarrow> bool" where
  "IsValidProposalType types ty = (ty \<in> types)"

section \<open>Staking (\<open>modules/staking/types.go\<close>)\<close>

record Description =
  deMoniker :: string
  deIdentity :: string
  deWebsite :: string
  deSecurityContact :: string
  deDetails :: string

text \<open>A decimal of a struct may be the zero value, without a number.\<close>

record CommissionRates =
  crRate :: "int option"
  crMaxRate :: "int option"
  crMaxChangeRate :: "int option"

record MsgCreateValidator =
  cvDescription :: Description
  cvCommission :: CommissionRates
  cvMinSelfDelegation :: "int option"
  cvDelegatorAddress :: string
  cvValidatorAddress :: string
  cvPubkey :: "bytes option"
  cvValue :: Coin

record MsgEditValidator =
  evDescription :: Description
  evValidatorAddress :: string
  evCommissionRate :: "int option"
  evMinSelfDelegation :: "int option"

record MsgDelegate =
  dgDelegatorAddress :: string
  dgValidatorAddress :: string
  dgAmount :: Coin

record MsgBeginRedelegate =
  brDelegatorAddress :: string
  brValidatorSrcAddress :: string
  brValidatorDstAddress :: string
  brAmount :: Coin

record MsgUndelegate =
  udDelegatorAddress :: string
  udValidatorAddress :: string
  udAmount :: Coin

definition zeroDescription :: Description where
  "zeroDescription = \<lparr>deMoniker = [], deIdentity = [], deWebsite = [], deSecurityContact = [], deDetails = []\<rparr>"

definition MsgCreateValidator_GetSigners :: "Bech32 \<Rightarrow> MsgCreateValidator \<Rightarrow> (bytes list) res" where
  "MsgCreateValidator_GetSigners lib msg =
     bindR (panic_err (AccAddressFromBech32 lib (cvDelegatorAddress msg))) (\<lambda>delAddr.
     bindR (panic_err (ValAddressFromBech32 lib (cvValidatorAddress msg))) (\<lambda>addr.
       Inr (if delAddr \<noteq> addr then [delAddr, addr] else [delAddr])))"

definition MsgCreateValidator_ValidateBasic :: "Bech32 \<Rightarrow> MsgCreateValidator \<Rightarrow> unit res" where
  "MsgCreateValidator_ValidateBasic lib msg =
     bindR (AccAddressFromBech32 lib (cvDelegatorAddress msg)) (\<lambda>delAddr.
       if Addr_Empty delAddr then Inl (Err ''missing delegatorAddr'')
       else if cvValidatorAddress msg = [] then Inl (Err ''missing validatorAddr'')
       else
         bindR (ValAddressFromBech32 lib (cvValidatorAddress msg)) (\<lambda>valAddr.
           if \<not> Addr_Equals valAddr delAddr then Inl (Err ''validatorAddr must equal delegatorAddr'')
           else if cvPubkey msg = None then Inl (Err ''missing validatorPubKey'')
           else if cvDescription msg = zeroDescription then Inl (Err ''missing description'')
           else if cvCommission msg = \<lparr>crRate = None, crMaxRate = None, crMaxChangeRate = None\<rparr> then Inl (Err ''missing commission'')
           else case cvMinSelfDelegation msg of
                  None \<Rightarrow> Inl (Panic ''nil pointer dereference'')
                | Some i \<Rightarrow> check (Int_IsPositive i) ''minSelfDelegation isn't positive''))"

definition MsgEditValidator_GetSigners :: "Bech32 \<Rightarrow> MsgEditValidator \<Rightarrow> (bytes list) res" where
  "MsgEditValidator_GetSigners lib msg = bindR (panic_err (ValAddressFromBech32 lib (evValidatorAddress msg))) (\<lambda>a. Inr [a])"

definition MsgEditValidator_ValidateBasic :: "MsgEditValidator \<Rightarrow> unit res" where
  "MsgEditValidator_ValidateBasic msg = seqR [
     check (evValidatorAddress msg \<noteq> []) ''missing validatorAddress'',
     check (evDescription msg \<noteq> zeroDescription) ''missing description'',
     check (case evMinSelfDelegation msg of None \<Rightarrow> True | Some i \<Rightarrow> Int_IsPositive i) ''minSelfDelegation isn't positive'']"

definition delegator_signs :: "Bech32 \<Rightarrow> string \<Rightarrow> (bytes list) res" where
  "delegator_signs lib a = bindR (panic_err (AccAddressFromBech32 lib a)) (\<lambda>x. Inr [x])"

definition MsgDelegate_GetSigners :: "Bech32 \<Rightarrow> MsgDelegate \<Rightarrow> (bytes list) res" where
  "MsgDelegate_GetSigners lib msg = delegator_signs lib (dgDelegatorAddress msg)"

definition MsgDelegate_ValidateBasic :: "MsgDelegate \<Rightarrow> unit res" where
  "MsgDelegate_ValidateBasic msg = seqR [
     check (dgDelegatorAddress msg \<noteq> []) ''missing delegatorAddress'',
     check (dgValidatorAddress msg \<noteq> []) ''missing errEmptyValidatorAddr'',
     check (Coin_IsValid (dgAmount msg) \<and> Int_IsPositive (Amount (dgAmount msg))) ''amount isn't positive or valid'']"

definition MsgBeginRedelegate_GetSigners :: "Bech32 \<Rightarrow> MsgBeginRedelegate \<Rightarrow> (bytes list) res" where
  "MsgBeginRedelegate_GetSigners lib msg = delegator_signs lib (brDelegatorAddress msg)"

definition MsgBeginRedelegate_ValidateBasic :: "MsgBeginRedelegate \<Rightarrow> unit res" where
  "MsgBeginRedelegate_ValidateBasic msg = seqR [
     check (brDelegatorAddress msg \<noteq> []) ''missing delegatorAddress'',
     check (brValidatorSrcAddress msg \<noteq> []) ''missing validatorSrcAddress'',
     check (brValidatorDstAddress msg \<noteq> []) ''missing validatorDstAddress'',
     check (Coin_IsValid (brAmount msg) \<and> Int_IsPositive (Amount (brAmount msg))) ''amount isn't positive or valid'']"

definition MsgUndelegate_GetSigners :: "Bech32 \<Rightarrow> MsgUndelegate \<Rightarrow> (bytes list) res" where
  "MsgUndelegate_GetSigners lib msg = delegator_signs lib (udDelegatorAddress msg)"

definition MsgUndelegate_ValidateBasic :: "MsgUndelegate \<Rightarrow> unit res" where
  "MsgUndelegate_ValidateBasic msg = seqR [
     check (udDelegatorAddress msg \<noteq> []) ''missing delegatorAddr'',
     check (udValidatorAddress msg \<noteq> []) ''missing validatorAddress'',
     check (Coin_IsValid (udAmount msg) \<and> Int_IsPositive (Amount (udAmount msg))) ''amount isn't positive or valid'']"

section \<open>Coinswap (\<open>modules/coinswap/types.go\<close>)\<close>

record MsgCreatePool =
  cpPoolCreatorAddress :: string
  cpPoolTypeId :: "32 word"
  cpDepositCoins :: Coins

record MsgDepositWithinBatch =
  dwDepositorAddress :: string
  dwPoolId :: "64 word"
  dwDepositCoins :: Coins

record MsgWithdrawWithinBatch =
  wwWithdrawerAddress :: string
  wwPoolId :: "64 word"
  wwPoolCoin :: Coin

record MsgSwapWithinBatch =
  swSwapRequesterAddress :: string
  swPoolId :: "64 word"
  swSwapTypeId :: "32 word"
  swOfferCoin :: Coin
  swDemandCoinDenom :: string
  swOfferCoinFee :: Coin
  swOrderPrice :: int

definition Coin_Validate :: "Coin \<Rightarrow> unit res" where
  "Coin_Validate coin =
     bindR (ValidateDenom (Denom coin)) (\<lambda>_.
       if Int_IsNegative (Amount coin) then Inl (Err (''negative coin amount: '' @ Int_String (Amount coin))) else Inr ())"

text \<open>
  The comparison of the first two coins; the amounts are pointers, and whether the two coins share one
  is the argument \<open>shared\<close>. Fewer than two coins are out of range.
\<close>

definition same_coins :: "bool \<Rightarrow> Coins \<Rightarrow> bool res" where
  "same_coins shared coins =
     (case coins of a # b # _ \<Rightarrow> Inr (Denom a = Denom b \<and> shared) | _ \<Rightarrow> Inl (Panic ''index out of range''))"

definition MsgCreatePool_ValidateBasic :: "Bech32 \<Rightarrow> bool \<Rightarrow> MsgCreatePool \<Rightarrow> unit res" where
  "MsgCreatePool_ValidateBasic lib shared msg = seqR [
     replace_err (''invalid DepositCoins: '' @ Coins_String (cpDepositCoins msg)) (Coins_Validate (cpDepositCoins msg)),
     bindR (same_coins shared (cpDepositCoins msg)) (\<lambda>eq. check (\<not> eq) (''identical MaxToken: '' @ Coins_String (cpDepositCoins msg))),
     ignore (AccAddressFromBech32 lib (cpPoolCreatorAddress msg))]"

definition MsgCreatePool_GetSigners :: "Bech32 \<Rightarrow> MsgCreatePool \<Rightarrow> (bytes list) res" where
  "MsgCreatePool_GetSigners lib msg = owner_signs lib (cpPoolCreatorAddress msg)"

definition MsgDepositWithinBatch_ValidateBasic :: "Bech32 \<Rightarrow> bool \<Rightarrow> MsgDepositWithinBatch \<Rightarrow> unit res" where
  "MsgDepositWithinBatch_ValidateBasic lib shared msg = seqR [
     replace_err (''invalid DepositCoins: '' @ Coins_String (dwDepositCoins msg)) (Coins_Validate (dwDepositCoins msg)),
     bindR (same_coins shared (dwDepositCoins msg)) (\<lambda>eq. check (\<not> eq) (''identical MaxToken: '' @ Coins_String (dwDepositCoins msg))),
     check (Coins_IsAllPositive (dwDepositCoins msg)) (''IsNotPositive DepositCoins: '' @ Coins_String (dwDepositCoins msg)),
     ignore (AccAddressFromBech32 lib (dwDepositorAddress msg))]"

definition MsgDepositWithinBatch_GetSigners :: "Bech32 \<Rightarrow> MsgDepositWithinBatch \<Rightarrow> (bytes list) res" where
  "MsgDepositWithinBatch_GetSigners lib msg = owner_signs lib (dwDepositorAddress msg)"

definition MsgSwapWithinBatch_ValidateBasic :: "Bech32 \<Rightarrow> MsgSwapWithinBatch \<Rightarrow> unit res" where
  "MsgSwapWithinBatch_ValidateBasic lib msg = seqR [
     ignore (replace_err ''invalid pool swap requester address'' (AccAddressFromBech32 lib (swSwapRequesterAddress msg))),
     Coin_Validate (swOfferCoin msg),
     check (Coin_IsPositive (swOfferCoin msg)) ''invalid offer coin amount'',
     check (Dec_IsPositive (swOrderPrice msg)) ''invalid order price'',
     check (Int_GTE (Amount (swOfferCoin msg)) (NewInt 100)) ''offer amount should be over 100 micro'']"

definition MsgSwapWithinBatch_GetSigners :: "Bech32 \<Rightarrow> MsgSwapWithinBatch \<Rightarrow> (bytes list) res" where
  "MsgSwapWithinBatch_GetSigners lib msg = bindR (panic_err (AccAddressFromBech32 lib (swSwapRequesterAddress msg))) (\<lambda>a. Inr [a])"

definition MsgWithdrawWithinBatch_ValidateBasic :: "Bech32 \<Rightarrow> MsgWithdrawWithinBatch \<Rightarrow> unit res" where
  "MsgWithdrawWithinBatch_ValidateBasic lib msg = seqR [
     ignore (replace_err ''invalid pool withdrawer address'' (AccAddressFromBech32 lib (wwWithdrawerAddress msg))),
     Coin_Validate (wwPoolCoin msg),
     check (Coin_IsPositive (wwPoolCoin msg)) ''invalid pool coin amount'']"

definition MsgWithdrawWithinBatch_GetSigners :: "Bech32 \<Rightarrow> MsgWithdrawWithinBatch \<Rightarrow> (bytes list) res" where
  "MsgWithdrawWithinBatch_GetSigners lib msg = bindR (panic_err (AccAddressFromBech32 lib (wwWithdrawerAddress msg))) (\<lambda>a. Inr [a])"

section \<open>All messages\<close>

datatype Msg =
    BankSend MsgSend | BankMultiSend MsgMultiSend
  | TokenIssue MsgIssueToken | TokenTransfer MsgTransferOwnerToken | TokenEdit MsgEditToken | TokenMint MsgMintToken
  | NftIssueClass MsgIssueClass | NftTransfer MsgTransferNFT | NftTransferClass MsgTransferClass | NftEdit MsgEditNFT
  | NftIssue MsgIssueNFT | NftBurn MsgBurnNFT
  | GovSubmit MsgSubmitProposal | GovDeposit MsgDeposit | GovVote MsgVote
  | StakingCreate MsgCreateValidator | StakingEdit MsgEditValidator | StakingDelegate MsgDelegate
  | StakingRedelegate MsgBeginRedelegate | StakingUndelegate MsgUndelegate
  | SwapCreatePool bool MsgCreatePool | SwapDeposit bool MsgDepositWithinBatch | SwapOrder MsgSwapWithinBatch
  | SwapWithdraw MsgWithdrawWithinBatch

fun Msg_ValidateBasic :: "Bech32 \<Rightarrow> Msg \<Rightarrow> unit res" where
  "Msg_ValidateBasic lib (BankSend m) = MsgSend_ValidateBasic lib m"
| "Msg_ValidateBasic lib (BankMultiSend m) = MsgMultiSend_ValidateBasic lib m"
| "Msg_ValidateBasic lib (TokenIssue m) = MsgIssueToken_ValidateBasic lib m"
| "Msg_ValidateBasic lib (TokenTransfer m) = MsgTransferOwnerToken_ValidateBasic lib m"
| "Msg_ValidateBasic lib (TokenEdit m) = MsgEditToken_ValidateBasic lib m"
| "Msg_ValidateBasic lib (TokenMint m) = MsgMintToken_ValidateBasic lib m"
| "Msg_ValidateBasic lib (NftIssueClass m) = MsgIssueClass_ValidateBasic lib m"
| "Msg_ValidateBasic lib (NftTransfer m) = MsgTransferNFT_ValidateBasic lib m"
| "Msg_ValidateBasic lib (NftTransferClass m) = MsgTransferClass_ValidateBasic lib m"
| "Msg_ValidateBasic lib (NftEdit m) = MsgEditNFT_ValidateBasic lib m"
| "Msg_ValidateBasic lib (NftIssue m) = MsgIssueNFT_ValidateBasic lib m"
| "Msg_ValidateBasic lib (NftBurn m) = MsgBurnNFT_ValidateBasic lib m"
| "Msg_ValidateBasic lib (GovSubmit m) = MsgSubmitProposal_ValidateBasic m"
| "Msg_ValidateBasic lib (GovDeposit m) = MsgDeposit_ValidateBasic m"
| "Msg_ValidateBasic lib (GovVote m) = MsgVote_ValidateBasic m"
| "Msg_ValidateBasic lib (StakingCreate m) = MsgCreateValidator_ValidateBasic lib m"
| "Msg_ValidateBasic lib (StakingEdit m) = MsgEditValidator_ValidateBasic m"
| "Msg_ValidateBasic lib (StakingDelegate m) = MsgDelegate_ValidateBasic m"
| "Msg_ValidateBasic lib (StakingRedelegate m) = MsgBeginRedelegate_ValidateBasic m"
| "Msg_ValidateBasic lib (StakingUndelegate m) = MsgUndelegate_ValidateBasic m"
| "Msg_ValidateBasic lib (SwapCreatePool shared m) = MsgCreatePool_ValidateBasic lib shared m"
| "Msg_ValidateBasic lib (SwapDeposit shared m) = MsgDepositWithinBatch_ValidateBasic lib shared m"
| "Msg_ValidateBasic lib (SwapOrder m) = MsgSwapWithinBatch_ValidateBasic lib m"
| "Msg_ValidateBasic lib (SwapWithdraw m) = MsgWithdrawWithinBatch_ValidateBasic lib m"

fun Msg_GetSigners :: "Bech32 \<Rightarrow> Msg \<Rightarrow> (bytes list) res" where
  "Msg_GetSigners lib (BankSend m) = MsgSend_GetSigners lib m"
| "Msg_GetSigners lib (BankMultiSend m) = MsgMultiSend_GetSigners lib m"
| "Msg_GetSigners lib (TokenIssue m) = MsgIssueToken_GetSigners lib m"
| "Msg_GetSigners lib (TokenTransfer m) = MsgTransferOwnerToken_GetSigners lib m"
| "Msg_GetSigners lib (TokenEdit m) = MsgEditToken_GetSigners lib m"
| "Msg_GetSigners lib (TokenMint m) = MsgMintToken_GetSigners lib m"
| "Msg_GetSigners lib (NftIssueClass m) = MsgIssueClass_GetSigners lib m"
| "Msg_GetSigners lib (NftTransfer m) = MsgTransferNFT_GetSigners lib m"
| "Msg_GetSigners lib (NftTransferClass m) = MsgTransferClass_GetSigners lib m"
| "Msg_GetSigners lib (NftEdit m) = MsgEditNFT_GetSigners lib m"
| "Msg_GetSigners lib (NftIssue m) = MsgIssueNFT_GetSigners lib m"
| "Msg_GetSigners lib (NftBurn m) = MsgBurnNFT_GetSigners lib m"
| "Msg_GetSigners lib (GovSubmit m) = MsgSubmitProposal_GetSigners lib m"
| "Msg_GetSigners lib (GovDeposit m) = MsgDeposit_GetSigners lib m"
| "Msg_GetSigners lib (GovVote m) = MsgVote_GetSigners lib m"
| "Msg_GetSigners lib (StakingCreate m) = MsgCreateValidator_GetSigners lib m"
| "Msg_GetSigners lib (StakingEdit m) = MsgEditValidator_GetSigners lib m"
| "Msg_GetSigners lib (StakingDelegate m) = MsgDelegate_GetSigners lib m"
| "Msg_GetSigners lib (StakingRedelegate m) = MsgBeginRedelegate_GetSigners lib m"
| "Msg_GetSigners lib (StakingUndelegate m) = MsgUndelegate_GetSigners lib m"
| "Msg_GetSigners lib (SwapCreatePool shared m) = MsgCreatePool_GetSigners lib m"
| "Msg_GetSigners lib (SwapDeposit shared m) = MsgDepositWithinBatch_GetSigners lib m"
| "Msg_GetSigners lib (SwapOrder m) = MsgSwapWithinBatch_GetSigners lib m"
| "Msg_GetSigners lib (SwapWithdraw m) = MsgWithdrawWithinBatch_GetSigners lib m"

section \<open>Signers of validated messages\<close>

lemmas msg_defs = MsgSend_ValidateBasic_def MsgSend_GetSigners_def MsgMultiSend_ValidateBasic_def MsgMultiSend_GetSigners_def
  MsgIssueToken_ValidateBasic_def MsgIssueToken_GetSigners_def MsgTransferOwnerToken_ValidateBasic_def MsgTransferOwnerToken_GetSigners_def
  MsgEditToken_ValidateBasic_def MsgEditToken_GetSigners_def MsgMintToken_ValidateBasic_def MsgMintToken_GetSigners_def
  MsgIssueClass_ValidateBasic_def MsgIssueClass_GetSigners_def MsgTransferNFT_ValidateBasic_def MsgTransferNFT_GetSigners_def
  MsgTransferClass_ValidateBasic_def MsgTransferClass_GetSigners_def MsgEditNFT_ValidateBasic_def MsgEditNFT_GetSigners_def
  MsgIssueNFT_ValidateBasic_def MsgIssueNFT_GetSigners_def MsgBurnNFT_ValidateBasic_def MsgBurnNFT_GetSigners_def
  MsgCreateValidator_ValidateBasic_def MsgCreateValidator_GetSigners_def
  MsgCreatePool_ValidateBasic_def MsgCreatePool_GetSigners_def MsgDepositWithinBatch_ValidateBasic_def MsgDepositWithinBatch_GetSigners_def
  MsgSwapWithinBatch_ValidateBasic_def MsgSwapWithinBatch_GetSigners_def
  MsgWithdrawWithinBatch_ValidateBasic_def MsgWithdrawWithinBatch_GetSigners_def

lemma owner_signs_ok: "ValidateAccAddress lib a = Inr () \<or> (\<exists>x. AccAddressFromBech32 lib a = Inr x) \<Longrightarrow> \<exists>as. owner_signs lib a = Inr as \<and> as \<noteq> []"
  by (auto simp: owner_signs_def MustAccAddressFromBech32_def ValidateAccAddress_def AccAddressFromBech32_def)

lemma addr_or_nil_ok: "r = Inr x \<Longrightarrow> addr_or_nil r = Inr x"
  by (simp add: addr_or_nil_def)

lemma total_fold_checks:
  "foldR (\<lambda>t x. bindR (v x) (\<lambda>_. f t x)) t0 xs = Inr t \<Longrightarrow> \<forall>x\<in>set xs. v x = Inr (u :: unit)"
  by (induction xs arbitrary: t0) auto

lemma Input_ok: "Input_ValidateBasic lib i = Inr () \<longleftrightarrow>
    (\<exists>a. AccAddressFromBech32 lib (InAddress i) = Inr a) \<and> InCoins i \<noteq> [] \<and> Coins_IsValid (InCoins i)"
  by (auto simp: Input_ValidateBasic_def Coins_Empty_def Coins_IsAllPositive_def coins.isValid_iff list_all_iff)

lemma Output_ok: "Output_ValidateBasic lib out = Inr () \<longleftrightarrow>
    (\<exists>a. AccAddressFromBech32 lib (OutAddress out) = Inr a) \<and> OutCoins out \<noteq> [] \<and> Coins_IsValid (OutCoins out)"
  by (auto simp: Output_ValidateBasic_def Coins_Empty_def Coins_IsAllPositive_def coins.isValid_iff list_all_iff)

lemma MultiSend_inputs_parse:
  assumes "MsgMultiSend_ValidateBasic lib m = Inr ()" "i \<in> set (Inputs m)"
  shows "\<exists>a. AccAddressFromBech32 lib (InAddress i) = Inr a"
proof -
  obtain t where "total_in lib (Inputs m) = Inr t" using assms(1) by (auto simp: MsgMultiSend_ValidateBasic_def split: if_splits)
  then have "Input_ValidateBasic lib i = Inr ()" 
    using assms(2) total_fold_checks [of "Input_ValidateBasic lib" "\<lambda>t i. Coins_Add t (InCoins i)" "[]" "Inputs m" t] by (simp add: total_in_def)
  then show ?thesis by (simp add: Input_ok)
qed

interpretation bank_send: sdk_msg "MsgSend_ValidateBasic lib" "MsgSend_GetSigners lib" for lib
  by unfold_locales (auto simp: msg_defs)

interpretation bank_multisend: sdk_msg "MsgMultiSend_ValidateBasic lib" "MsgMultiSend_GetSigners lib" for lib
proof
  fix m assume v: "MsgMultiSend_ValidateBasic lib m = Inr ()"
  define g where "g (i::Input) = (case AccAddressFromBech32 lib (InAddress i) of Inr a \<Rightarrow> a | Inl _ \<Rightarrow> [])" for i
  have "MsgMultiSend_GetSigners lib m = Inr (map g (Inputs m))" unfolding MsgMultiSend_GetSigners_def
    by (rule mapR_all_ok) (use MultiSend_inputs_parse [OF v] in \<open>fastforce simp: g_def addr_or_nil_def\<close>)
  moreover have "Inputs m \<noteq> []" using v by (auto simp: MsgMultiSend_ValidateBasic_def)
  ultimately show "\<exists>as. MsgMultiSend_GetSigners lib m = Inr as \<and> as \<noteq> []" by simp
qed

interpretation token_issue: sdk_msg "MsgIssueToken_ValidateBasic lib" "MsgIssueToken_GetSigners lib" for lib
  by unfold_locales (simp add: msg_defs owner_signs_ok)

interpretation token_transfer: sdk_msg "MsgTransferOwnerToken_ValidateBasic lib" "MsgTransferOwnerToken_GetSigners lib" for lib
  by unfold_locales (simp add: msg_defs owner_signs_ok)

interpretation token_edit: sdk_msg "MsgEditToken_ValidateBasic lib" "MsgEditToken_GetSigners lib" for lib
  by unfold_locales (simp add: msg_defs owner_signs_ok)

interpretation token_mint: sdk_msg "MsgMintToken_ValidateBasic lib" "MsgMintToken_GetSigners lib" for lib
  by unfold_locales (simp add: msg_defs owner_signs_ok)

interpretation nft_issue_class: sdk_msg "MsgIssueClass_ValidateBasic lib" "MsgIssueClass_GetSigners lib" for lib
  by unfold_locales (simp add: msg_defs owner_signs_ok)

interpretation nft_transfer: sdk_msg "MsgTransferNFT_ValidateBasic lib" "MsgTransferNFT_GetSigners lib" for lib
  by unfold_locales (simp add: msg_defs owner_signs_ok)

interpretation nft_transfer_class: sdk_msg "MsgTransferClass_ValidateBasic lib" "MsgTransferClass_GetSigners lib" for lib
  by unfold_locales (simp add: msg_defs owner_signs_ok)

interpretation nft_edit: sdk_msg "MsgEditNFT_ValidateBasic lib" "MsgEditNFT_GetSigners lib" for lib
  by unfold_locales (simp add: msg_defs owner_signs_ok)

interpretation nft_issue: sdk_msg "MsgIssueNFT_ValidateBasic lib" "MsgIssueNFT_GetSigners lib" for lib
  by unfold_locales (simp add: msg_defs owner_signs_ok)

interpretation nft_burn: sdk_msg "MsgBurnNFT_ValidateBasic lib" "MsgBurnNFT_GetSigners lib" for lib
  by unfold_locales (simp add: msg_defs owner_signs_ok)

interpretation staking_create: sdk_msg "MsgCreateValidator_ValidateBasic lib" "MsgCreateValidator_GetSigners lib" for lib
  by unfold_locales (auto simp: msg_defs split: if_splits)

interpretation swap_create: sdk_msg "MsgCreatePool_ValidateBasic lib shared" "MsgCreatePool_GetSigners lib" for lib shared
  by unfold_locales (simp add: msg_defs owner_signs_ok)

interpretation swap_deposit: sdk_msg "MsgDepositWithinBatch_ValidateBasic lib shared" "MsgDepositWithinBatch_GetSigners lib" for lib shared
  by unfold_locales (simp add: msg_defs owner_signs_ok)

interpretation swap_order: sdk_msg "MsgSwapWithinBatch_ValidateBasic lib" "MsgSwapWithinBatch_GetSigners lib" for lib
  by unfold_locales (auto simp: msg_defs)

interpretation swap_withdraw: sdk_msg "MsgWithdrawWithinBatch_ValidateBasic lib" "MsgWithdrawWithinBatch_GetSigners lib" for lib
  by unfold_locales (auto simp: msg_defs)

text \<open>The address that \<open>ValidateBasic\<close> of four staking messages does not parse although it signs.\<close>

fun unparsed :: "Msg \<Rightarrow> string option" where
  "unparsed (StakingEdit m) = Some (evValidatorAddress m)"
| "unparsed (StakingDelegate m) = Some (dgDelegatorAddress m)"
| "unparsed (StakingRedelegate m) = Some (brDelegatorAddress m)"
| "unparsed (StakingUndelegate m) = Some (udDelegatorAddress m)"
| "unparsed _ = None"

text \<open>The bech32 library returns errors and does not panic.\<close>

definition no_panic_law :: "Bech32 \<Rightarrow> bool" where
  "no_panic_law lib \<longleftrightarrow> (\<forall>s p. b32Decode lib s \<noteq> Inl (Panic p)) \<and> (\<forall>c f t pad p. b32ConvertBits lib c f t pad \<noteq> Inl (Panic p))"

lemma AccAddressFromBech32_no_panic: "no_panic_law lib \<Longrightarrow> AccAddressFromBech32 lib s \<noteq> Inl (Panic p)"
  by (auto simp: AccAddressFromBech32_def GetFromBech32_def DecodeAndConvert_def no_panic_law_def bindR_eq_Inl split: if_splits)

lemma lax_signer_ok:
  assumes "no_panic_law lib"
  shows "\<exists>as. lax_signer lib a = Inr as \<and> as \<noteq> []"
  using AccAddressFromBech32_no_panic [OF assms, of a]
  by (cases "AccAddressFromBech32 lib a") (auto simp: lax_signer_def addr_or_nil_def split: failure.splits)

lemma delegator_signs_iff: "(\<exists>as. delegator_signs lib a = Inr as \<and> as \<noteq> []) \<longleftrightarrow> is_ok (AccAddressFromBech32 lib a)"
  by (auto simp: delegator_signs_def is_ok_iff)

lemma ValAddress_is_AccAddress: "ValAddressFromBech32 lib = AccAddressFromBech32 lib"
  by (simp add: fun_eq_iff ValAddressFromBech32_def AccAddressFromBech32_def prefix_values)

text \<open>
  \<^bold>\<open>C15.\<close> Signers. For a message of any module that passed \<open>ValidateBasic\<close>, \<open>GetSigners\<close> returns at least
  one signer and does not panic, except for the four staking messages whose signing address
  \<open>ValidateBasic\<close> does not parse: there it returns exactly when that address parses.
\<close>

theorem valid_message_has_signers:
  assumes np: "no_panic_law lib" and v: "Msg_ValidateBasic lib m = Inr ()"
  shows "(\<exists>as. Msg_GetSigners lib m = Inr as \<and> as \<noteq> []) \<longleftrightarrow>
     (case unparsed m of None \<Rightarrow> True | Some a \<Rightarrow> is_ok (AccAddressFromBech32 lib a))"
proof (cases m)
  case (StakingEdit x)
  then show ?thesis by (auto simp: MsgEditValidator_GetSigners_def ValAddress_is_AccAddress is_ok_iff)
qed (use v lax_signer_ok [OF np] bank_send.signed bank_multisend.signed token_issue.signed token_transfer.signed token_edit.signed
      token_mint.signed nft_issue_class.signed nft_transfer.signed nft_transfer_class.signed nft_edit.signed nft_issue.signed
      nft_burn.signed staking_create.signed swap_create.signed swap_deposit.signed swap_order.signed swap_withdraw.signed
    in \<open>simp_all add: MsgSubmitProposal_GetSigners_def MsgDeposit_GetSigners_def MsgVote_GetSigners_def
      MsgDelegate_GetSigners_def MsgBeginRedelegate_GetSigners_def MsgUndelegate_GetSigners_def delegator_signs_iff\<close>)

theorem valid_message_has_signers_witness:
  "Msg_GetSigners demo_b32 (GovVote \<lparr>mvProposalId = 1, mvVoter = ''x'', mvOption = 1\<rparr>) \<noteq> Inl (Panic ''p'')
   \<and> \<not> (\<exists>as. Msg_GetSigners demo_b32 (StakingDelegate \<lparr>dgDelegatorAddress = ''x'', dgValidatorAddress = ''y'',
         dgAmount = \<lparr>Denom = ''plug'', Amount = 5\<rparr>\<rparr>) = Inr as \<and> as \<noteq> [])"
proof -
  have np: "no_panic_law demo_b32" by (simp add: no_panic_law_def demo_b32_def)
  have "Msg_ValidateBasic demo_b32 (GovVote \<lparr>mvProposalId = 1, mvVoter = ''x'', mvOption = 1\<rparr>) = Inr ()"
    by (simp add: MsgVote_ValidateBasic_def ValidVoteOption_def)
  from valid_message_has_signers [OF np this] have a: "Msg_GetSigners demo_b32 (GovVote \<lparr>mvProposalId = 1, mvVoter = ''x'', mvOption = 1\<rparr>) \<noteq> Inl (Panic ''p'')"
    by auto
  have "Coin_IsValid \<lparr>Denom = ''plug'', Amount = 5\<rparr>" by code_simp
  then have "Msg_ValidateBasic demo_b32 (StakingDelegate \<lparr>dgDelegatorAddress = ''x'', dgValidatorAddress = ''y'',
         dgAmount = \<lparr>Denom = ''plug'', Amount = 5\<rparr>\<rparr>) = Inr ()"
    by (simp add: MsgDelegate_ValidateBasic_def Int_IsPositive_def big_Sign_def)
  moreover have "\<not> is_ok (AccAddressFromBech32 demo_b32 ''x'')"
    by (simp add: AccAddressFromBech32_def GetFromBech32_def DecodeAndConvert_def demo_b32_def prefix_values)
  ultimately show ?thesis using valid_message_has_signers [OF np] a by fastforce
qed

section \<open>Balance of a multi-send\<close>

lemma total_fold:
  assumes "foldR (\<lambda>t x. bindR (v x) (\<lambda>_. Coins_Add t (g x))) t0 xs = Inr t" and "coins.strict t0" "coins.nonzero t0"
    and ok: "\<And>x u. v x = Inr (u :: unit) \<Longrightarrow> Coins_IsValid (g x)"
  shows "coins.strict t \<and> coins.nonzero t \<and> (\<forall>d. coins.total t d = coins.total t0 d + sum_list (map (\<lambda>x. coins.total (g x) d) xs))"
  using assms(1-3)
proof (induction xs arbitrary: t0)
  case (Cons x xs)
  obtain t1 where t1: "v x = Inr ()" "Coins_safeAdd t0 (g x) = Inr t1"
    and r: "foldR (\<lambda>t x. bindR (v x) (\<lambda>_. Coins_Add t (g x))) t1 xs = Inr t"
    using Cons.prems(1) by (auto simp: Coins_Add_def)
  have "coins.strict (g x)" using ok [OF t1(1)] by (simp add: coins.isValid_iff)
  then have "coins.strict t1" by (rule coins.safeAdd_strict [OF t1(2) Cons.prems(2)])
  moreover have "coins.nonzero t1" using coins.safeAdd_elems [OF t1(2)] by blast
  ultimately show ?case using Cons.IH [OF r] coins.safeAdd_total [OF t1(2)] by (simp add: add.assoc)
qed simp

lemma Coins_IsEqual_loop_True: "length as = length bs \<Longrightarrow> Coins_IsEqual_loop as bs = Inr True \<longleftrightarrow> as = bs"
proof (induction as bs rule: list_induct2)
  case (Cons a as b bs)
  have "a = b \<longleftrightarrow> Denom a = Denom b \<and> Amount a = Amount b" by (cases a; cases b) auto
  with Cons show ?case by (auto simp: Coin_IsEqual_def Int_Equal_def)
qed simp

lemma Coins_IsEqual_True: "coins.strict as \<Longrightarrow> coins.strict bs \<Longrightarrow> Coins_IsEqual as bs = Inr True \<longleftrightarrow> as = bs"
  by (auto simp: Coins_IsEqual_def Coins_Sort_strict Coins_IsEqual_loop_True)

text \<open>
  A multi-send is balanced. When every input and output is valid on its own and the totals do not
  overflow, \<open>ValidateBasic\<close> accepts a message with inputs and outputs exactly when for every
  denomination the amounts of the inputs and those of the outputs have the same sum.
\<close>

theorem MsgMultiSend_balanced:
  assumes "Inputs msg \<noteq> []" "Outputs msg \<noteq> []" and ti: "total_in lib (Inputs msg) = Inr tin" and to: "total_out lib (Outputs msg) = Inr tout"
  shows "MsgMultiSend_ValidateBasic lib msg = Inr () \<longleftrightarrow>
     (\<forall>d. sum_list (map (\<lambda>i. coins.total (InCoins i) d) (Inputs msg)) = sum_list (map (\<lambda>out. coins.total (OutCoins out) d) (Outputs msg)))"
proof -
  have i: "coins.strict tin" "coins.nonzero tin" "\<And>d. coins.total tin d = sum_list (map (\<lambda>i. coins.total (InCoins i) d) (Inputs msg))"
    using total_fold [of "Input_ValidateBasic lib" InCoins "[]" "Inputs msg" tin] ti by (simp_all add: total_in_def Input_ok)
  have out: "coins.strict tout" "coins.nonzero tout" "\<And>d. coins.total tout d = sum_list (map (\<lambda>out. coins.total (OutCoins out) d) (Outputs msg))"
    using total_fold [of "Output_ValidateBasic lib" OutCoins "[]" "Outputs msg" tout] to by (simp_all add: total_out_def Output_ok)
  have "MsgMultiSend_ValidateBasic lib msg = Inr () \<longleftrightarrow> tin = tout"
    using assms Coins_IsEqual_True [OF i(1) out(1)] by (auto simp: MsgMultiSend_ValidateBasic_def)
  also have "\<dots> \<longleftrightarrow> (\<forall>d. coins.total tin d = coins.total tout d)"
    using coins.canonical [OF i(1) out(1) i(2) out(2)] by blast
  finally show ?thesis by (simp add: i(3) out(3))
qed

theorem MsgMultiSend_balanced_witness:
  "MsgMultiSend_ValidateBasic demo_b32
     \<lparr>Inputs = [\<lparr>InAddress = ''gx1AB'', InCoins = [\<lparr>Denom = ''plug'', Amount = 5\<rparr>]\<rparr>, \<lparr>InAddress = ''gx1AB'', InCoins = [\<lparr>Denom = ''plug'', Amount = 7\<rparr>]\<rparr>],
      Outputs = [\<lparr>OutAddress = ''gx1AC'', OutCoins = [\<lparr>Denom = ''plug'', Amount = 12\<rparr>]\<rparr>]\<rparr> = Inr ()"
  (is "MsgMultiSend_ValidateBasic _ ?msg = _")
proof -
  have a: "AccAddressFromBech32 demo_b32 ''gx1AB'' = Inr [1]" "AccAddressFromBech32 demo_b32 ''gx1AC'' = Inr [2]"
    by (simp_all add: AccAddressFromBech32_def GetFromBech32_def DecodeAndConvert_def demo_b32_def prefix_values)
  have c: "Coins_IsValid [\<lparr>Denom = ''plug'', Amount = 5\<rparr>]" "Coins_IsValid [\<lparr>Denom = ''plug'', Amount = 7\<rparr>]"
    "Coins_IsValid [\<lparr>Denom = ''plug'', Amount = 12\<rparr>]" by code_simp+
  have v: "Input_ValidateBasic demo_b32 \<lparr>InAddress = ''gx1AB'', InCoins = [\<lparr>Denom = ''plug'', Amount = 5\<rparr>]\<rparr> = Inr ()"
    "Input_ValidateBasic demo_b32 \<lparr>InAddress = ''gx1AB'', InCoins = [\<lparr>Denom = ''plug'', Amount = 7\<rparr>]\<rparr> = Inr ()"
    "Output_ValidateBasic demo_b32 \<lparr>OutAddress = ''gx1AC'', OutCoins = [\<lparr>Denom = ''plug'', Amount = 12\<rparr>]\<rparr> = Inr ()"
    using a c by (simp_all add: Input_ok Output_ok)
  have s: "Coins_Add [] [\<lparr>Denom = ''plug'', Amount = 5\<rparr>] = Inr [\<lparr>Denom = ''plug'', Amount = 5\<rparr>]"
    "Coins_Add [\<lparr>Denom = ''plug'', Amount = 5\<rparr>] [\<lparr>Denom = ''plug'', Amount = 7\<rparr>] = Inr [\<lparr>Denom = ''plug'', Amount = 12\<rparr>]"
    "Coins_Add [] [\<lparr>Denom = ''plug'', Amount = 12\<rparr>] = Inr [\<lparr>Denom = ''plug'', Amount = 12\<rparr>]" by code_simp+
  have "total_in demo_b32 (Inputs ?msg) = Inr [\<lparr>Denom = ''plug'', Amount = 12\<rparr>]"
    "total_out demo_b32 (Outputs ?msg) = Inr [\<lparr>Denom = ''plug'', Amount = 12\<rparr>]"
    using v s by (simp_all add: total_in_def total_out_def)
  from MsgMultiSend_balanced [OF _ _ this] show ?thesis by simp
qed

text \<open>Totals of different denominations make \<open>ValidateBasic\<close> panic instead of returning its error.\<close>

lemma MsgMultiSend_mismatch_panics:
  assumes "Inputs msg \<noteq> []" "Outputs msg \<noteq> []" "total_in lib (Inputs msg) = Inr [a]" "total_out lib (Outputs msg) = Inr [b]" "Denom a \<noteq> Denom b"
  shows "MsgMultiSend_ValidateBasic lib msg = Inl (denom_panic (Denom a) (Denom b))"
  using assms Coins_IsEqual_panics [of a b] by (simp add: MsgMultiSend_ValidateBasic_def)

text \<open>A pool message with a single deposited coin makes \<open>ValidateBasic\<close> index out of range.\<close>

lemma MsgCreatePool_one_coin_panics:
  assumes "Coins_Validate [c] = Inr ()" "cpDepositCoins msg = [c]"
  shows "MsgCreatePool_ValidateBasic lib shared msg = Inl (Panic ''index out of range'')"
  using assms by (simp add: MsgCreatePool_ValidateBasic_def same_coins_def replace_err_def del: Coins_Validate.simps)

end
