(* ===== verification/Coinswap.thy ===== *)
theory Coinswap
  imports SdkCoin SdkDec
begin

text \<open>
  Swap prices and pool denominations: \<open>modules/coinswap/coinswap.go\<close> and the fee of an offer
  (\<open>types/utils.go\<close>). A pool holds two reserves; the price functions follow the constant product rule. A decimal that is not nil is its integer.
\<close>

definition BaseDenom :: string where "BaseDenom = ''plug''"

definition GetLiquidityDenomFrom :: "string \<Rightarrow> string res" where
  "GetLiquidityDenomFrom denom =
     (if denom = BaseDenom then Inl (Err (''should not be base denom : '' @ denom)) else Inr (''swap'' @ denom))"

definition GetTokenDenomFrom :: "string \<Rightarrow> string res" where
  "GetTokenDenomFrom liquidityDenom =
     (if \<not> prefix ''swap'' liquidityDenom then Inl (Err (''wrong liquidity denom : '' @ liquidityDenom))
      else Inr (drop 4 liquidityDenom))"

definition getInputPrice :: "int \<Rightarrow> int \<Rightarrow> int \<Rightarrow> int \<Rightarrow> int res" where
  "getInputPrice inputAmt inputReserve outputReserve fee =
     bindR (Dec_Sub OneDec fee) (\<lambda>deltaFee.
     bindR (NewIntFromBigInt deltaFee) (\<lambda>df.
     bindR (Int_Mul inputAmt df) (\<lambda>inputAmtWithFee.
     bindR (Int_Mul inputAmtWithFee outputReserve) (\<lambda>numerator.
     bindR (NewIntWithDecimal 1 (int Precision)) (\<lambda>p.
     bindR (Int_Mul inputReserve p) (\<lambda>scaled.
     bindR (Int_Add scaled inputAmtWithFee) (\<lambda>denominator.
       Int_Quo numerator denominator)))))))"

definition getOutputPrice :: "int \<Rightarrow> int \<Rightarrow> int \<Rightarrow> int \<Rightarrow> int res" where
  "getOutputPrice outputAmt inputReserve outputReserve fee =
     bindR (Dec_Sub OneDec fee) (\<lambda>deltaFee.
     bindR (Int_Mul inputReserve outputAmt) (\<lambda>prod.
     bindR (NewIntWithDecimal 1 (int Precision)) (\<lambda>p.
     bindR (Int_Mul prod p) (\<lambda>numerator.
     bindR (Int_Sub outputReserve outputAmt) (\<lambda>left.
     bindR (NewIntFromBigInt deltaFee) (\<lambda>df.
     bindR (Int_Mul left df) (\<lambda>denominator.
     bindR (Int_Quo numerator denominator) (\<lambda>q. Int_Add q OneInt))))))))"

definition GetOfferCoinFee :: "Coin \<Rightarrow> int \<Rightarrow> Coin res" where
  "GetOfferCoinFee offerCoin swapFeeRate =
     bindR (Int_ToDec (Amount offerCoin)) (\<lambda>amt.
     bindR (Dec_QuoInt64 swapFeeRate 2) (\<lambda>half.
     bindR (Dec_Mul amt half) (\<lambda>fee.
     bindR (Dec_TruncateInt fee) (\<lambda>i. NewCoin (Denom offerCoin) i))))"

section \<open>Arithmetic without overflow\<close>

lemma Int_Mul_ok: "valid_Int a \<Longrightarrow> valid_Int b \<Longrightarrow> valid_Int (a * b) \<Longrightarrow> Int_Mul a b = Inr (a * b)"
  using Int_Mul_early_test [of a b] by (auto simp: Int_Mul_def Let_def maxBitLen_check)

lemma valid_Int_nonneg: "0 \<le> x \<Longrightarrow> x < 2 ^ 255 \<Longrightarrow> valid_Int x"
  by (simp add: valid_Int_def)

lemma mult_bound: "0 \<le> (a::int) \<Longrightarrow> a \<le> 2 ^ m \<Longrightarrow> 0 \<le> b \<Longrightarrow> b \<le> 2 ^ n \<Longrightarrow> a * b \<le> 2 ^ (m + n)"
  by (simp add: power_add mult_mono)

lemma valid_Int_bound: "0 \<le> x \<Longrightarrow> x \<le> 2 ^ k \<Longrightarrow> k < 255 \<Longrightarrow> valid_Int x"
proof -
  assume a: "0 \<le> x" "x \<le> 2 ^ k" "k < 255"
  have "(2::int) ^ k < 2 ^ 255" using a(3) by (rule power_strict_increasing) simp
  with a show "valid_Int x" by (auto intro: valid_Int_nonneg order.strict_trans1)
qed

lemma le_div_iff: "0 < d \<Longrightarrow> w \<le> x div d \<longleftrightarrow> w * d \<le> (x::int)"
proof
  assume d: "0 < d"
  show "w * d \<le> x" if "w \<le> x div d"
    using mult_right_mono [OF that less_imp_le [OF d]] pos_mod_sign [OF d, of x] div_mult_mod_eq [of x d] by linarith
  show "w \<le> x div d" if "w * d \<le> x" using zdiv_mono1 [OF that d] d by simp
qed

text \<open>Amounts and reserves up to \<open>2 ^ 90\<close>, and a fee between zero and one.\<close>

definition swap_range :: "int \<Rightarrow> int \<Rightarrow> int \<Rightarrow> int \<Rightarrow> bool" where
  "swap_range amt inRes outRes fee \<longleftrightarrow>
     0 \<le> amt \<and> amt \<le> 2 ^ 90 \<and> 0 < inRes \<and> inRes \<le> 2 ^ 90 \<and> 0 \<le> outRes \<and> outRes \<le> 2 ^ 90 \<and> 0 \<le> fee \<and> fee \<le> precisionReuse"

lemma Int_Quo_nonneg: "0 \<le> a \<Longrightarrow> 0 < b \<Longrightarrow> Int_Quo a b = Inr (a div b)"
  by (simp add: Int_Quo_def big_Quo_def big_Sign_def sdiv_nonneg)

lemma precision_Int: "NewIntWithDecimal 1 (int Precision) = Inr precisionReuse" "precisionReuse \<le> 2 ^ 60"
  by (simp_all add: NewIntWithDecimal_def Let_def maxBitLen_check valid_Int_def precisionReuse_def Precision_def)

lemma delta_fee: "0 \<le> f \<Longrightarrow> f \<le> precisionReuse \<Longrightarrow> Dec_Sub OneDec f = Inr (precisionReuse - f)"
  by (simp add: Dec_Sub_def OneDec_def check_overflow_eq valid_Dec_def precisionReuse_num)

lemma getInputPrice_exact:
  assumes "swap_range a I R f"
  shows "getInputPrice a I R f = Inr ((a * (precisionReuse - f) * R) div (I * precisionReuse + a * (precisionReuse - f)))"
proof -
  define D where "D = precisionReuse - f"
  have r: "0 \<le> a" "a \<le> 2 ^ 90" "0 < I" "I \<le> 2 ^ 90" "0 \<le> R" "R \<le> 2 ^ 90" and d: "0 \<le> D" "D \<le> 2 ^ 60"
    and f: "0 \<le> f" "f \<le> precisionReuse"
    using assms precision_Int(2) by (auto simp: swap_range_def D_def)
  have aD0: "0 \<le> a * D" and aDR0: "0 \<le> a * D * R" and IP0: "0 < I * precisionReuse"
    using r d precisionReuse_pos by simp_all
  note aD = aD0 mult_bound [OF r(1,2) d]
  note aDR = aDR0 mult_bound [OF aD r(5,6)]
  note IP = IP0 mult_bound [OF less_imp_le [OF r(3)] r(4) less_imp_le [OF precisionReuse_pos(1)] precision_Int(2)]
  have v: "valid_Int a" "valid_Int D" "valid_Int (a * D)" "valid_Int R" "valid_Int (a * D * R)" "valid_Int I" "valid_Int precisionReuse"
    "valid_Int (I * precisionReuse)"
    using valid_Int_bound [OF r(1,2)] valid_Int_bound [OF d] valid_Int_bound [OF aD] valid_Int_bound [OF r(5,6)]
      valid_Int_bound [OF aDR] valid_Int_bound [OF less_imp_le [OF r(3)] r(4)]
      valid_Int_bound [OF less_imp_le [OF precisionReuse_pos(1)] precision_Int(2)] valid_Int_bound [OF less_imp_le [OF IP(1)] IP(2)]
    by simp_all
  have "I * precisionReuse + a * D \<le> 2 ^ 151" using aD(2) IP(2) by simp
  then have "valid_Int (I * precisionReuse + a * D)" using aD(1) IP(1) by (intro valid_Int_bound [of _ 151]) auto
  moreover have "0 < I * precisionReuse + a * D" using IP(1) aD(1) by linarith
  ultimately show ?thesis
    using f v aDR(1) unfolding D_def [symmetric]
    by (simp add: getInputPrice_def delta_fee NewIntFromBigInt_eq precision_Int(1) Int_Mul_ok Int_Add_eq Int_Quo_nonneg D_def [symmetric])
qed

lemma getOutputPrice_exact:
  assumes "swap_range x I R f" "0 < x" "x < R" "f < precisionReuse"
  shows "getOutputPrice x I R f = Inr ((I * x * precisionReuse) div ((R - x) * (precisionReuse - f)) + 1)"
proof -
  define D where "D = precisionReuse - f"
  have r: "0 \<le> x" "x \<le> 2 ^ 90" "0 < I" "I \<le> 2 ^ 90" "0 \<le> R" "R \<le> 2 ^ 90" and d: "0 < D" "D \<le> 2 ^ 60"
    and f: "0 \<le> f" "f \<le> precisionReuse" and p: "0 < precisionReuse" "precisionReuse \<le> 2 ^ 60"
    using assms precision_Int(2) precisionReuse_pos by (auto simp: swap_range_def D_def)
  have Ix0: "0 \<le> I * x" and IxP0: "0 \<le> I * x * precisionReuse" using r p by simp_all
  note Ix = Ix0 mult_bound [OF less_imp_le [OF r(3)] r(4) r(1,2)]
  note IxP = IxP0 mult_bound [OF Ix less_imp_le [OF p(1)] p(2)]
  have l: "0 < R - x" "R - x \<le> 2 ^ 90" using assms(3) r by auto
  have dn0: "0 < (R - x) * D" using l(1) d(1) by simp
  note dn = dn0 mult_bound [OF less_imp_le [OF l(1)] l(2) less_imp_le [OF d(1)] d(2)]
  have "I * x * precisionReuse div ((R - x) * D) \<le> I * x * precisionReuse"
    using int_div_le_self [of "I * x * precisionReuse"] IxP(1) by (cases "I * x * precisionReuse = 0") auto
  moreover have "0 \<le> I * x * precisionReuse div ((R - x) * D)" using IxP(1) dn(1) by (simp add: pos_imp_zdiv_nonneg_iff)
  ultimately have q: "valid_Int (I * x * precisionReuse div ((R - x) * D) + 1)" using IxP(2) by (simp add: valid_Int_def)
  have v: "valid_Int x" "valid_Int I" "valid_Int (I * x)" "valid_Int precisionReuse" "valid_Int (I * x * precisionReuse)"
    "valid_Int (R - x)" "valid_Int D" "valid_Int ((R - x) * D)"
    using valid_Int_bound [OF r(1,2)] valid_Int_bound [OF less_imp_le [OF r(3)] r(4)] valid_Int_bound [OF Ix]
      valid_Int_bound [OF less_imp_le [OF p(1)] p(2)] valid_Int_bound [OF IxP] valid_Int_bound [OF less_imp_le [OF l(1)] l(2)]
      valid_Int_bound [OF less_imp_le [OF d(1)] d(2)] valid_Int_bound [OF less_imp_le [OF dn(1)] dn(2)]
    by simp_all
  show ?thesis
    using f v q IxP(1) dn(1) unfolding D_def [symmetric]
    by (simp add: getOutputPrice_def delta_fee NewIntFromBigInt_eq precision_Int(1) Int_Mul_ok Int_Add_eq Int_Sub_eq Int_Quo_nonneg
        OneInt_def D_def [symmetric])
qed

section \<open>Prices keep the pool whole\<close>

text \<open>
  \<^bold>\<open>C13.\<close> Selling. For amounts and reserves in range and a fee between zero and one, the price is computed
  without overflow, it is less than the output reserve unless that is empty, and the product of the
  reserves does not shrink when the amount sold is added and the price taken out.
\<close>

theorem getInputPrice_keeps_product:
  assumes "swap_range amt inRes outRes fee"
  shows "\<exists>out. getInputPrice amt inRes outRes fee = Inr out \<and> 0 \<le> out \<and> (0 < outRes \<longrightarrow> out < outRes)
     \<and> inRes * outRes \<le> (inRes + amt) * (outRes - out)"
proof -
  define D where "D = precisionReuse - fee"
  define d where "d = inRes * precisionReuse + amt * D"
  define out where "out = (amt * D * outRes) div d"
  have r: "0 \<le> amt" "0 < inRes" "0 \<le> outRes" and D: "0 \<le> D" "D \<le> precisionReuse"
    using assms by (auto simp: swap_range_def D_def)
  have IP: "0 < inRes * precisionReuse" using r precisionReuse_pos by simp
  then have d: "0 < d" using r D by (simp add: d_def add_pos_nonneg)
  have le: "out * d \<le> amt * D * outRes" 
    unfolding out_def using pos_mod_sign [OF d, of "amt * D * outRes"] div_mult_mod_eq [of "amt * D * outRes" d] by linarith
  have nonneg: "0 \<le> out" unfolding out_def using d r D by (simp add: pos_imp_zdiv_nonneg_iff)
  have "out < outRes" if "0 < outRes"
  proof -
    have "amt * D * outRes < d * outRes" using that IP by (simp add: d_def)
    then have "out * d < outRes * d" using le by (simp add: mult.commute)
    then show ?thesis using d by simp
  qed
  moreover have "inRes * outRes \<le> (inRes + amt) * (outRes - out)"
  proof (cases "D = 0")
    case True
    then have "out = 0" by (simp add: out_def)
    then show ?thesis using r by (simp add: distrib_right)
  next
    case False
    have "out * ((inRes + amt) * D) \<le> out * d"
      unfolding d_def using nonneg r D by (intro mult_left_mono) (simp_all add: distrib_right mult_left_mono)
    also have "\<dots> \<le> amt * outRes * D" using le by (simp add: ac_simps)
    finally have "(out * (inRes + amt)) * D \<le> (amt * outRes) * D" by (simp add: ac_simps)
    then have "out * (inRes + amt) \<le> amt * outRes" using False D by simp
    then show ?thesis by (simp add: algebra_simps)
  qed
  moreover have "getInputPrice amt inRes outRes fee = Inr out"
    using getInputPrice_exact [OF assms] by (simp add: out_def d_def D_def)
  ultimately show ?thesis using nonneg by blast
qed

theorem getInputPrice_keeps_product_witness:
  "\<exists>out. getInputPrice 1000 (10 ^ 6) (2 * 10 ^ 6) (3 * 10 ^ 15) = Inr out \<and> out < 2 * 10 ^ 6 \<and> 0 \<le> out"
  using getInputPrice_keeps_product [of 1000 "10 ^ 6" "2 * 10 ^ 6" "3 * 10 ^ 15"] by (fastforce simp: swap_range_def precisionReuse_num)



text \<open>The denomination of the shares of a pool names its token.\<close>

lemma liquidity_denom_roundtrip: "GetLiquidityDenomFrom d = Inr l \<Longrightarrow> GetTokenDenomFrom l = Inr d"
  by (auto simp: GetLiquidityDenomFrom_def GetTokenDenomFrom_def split: if_splits)

end
