(* ===== verification/SdkModules.thy ===== *)
theory SdkModules
  imports Client Messages Coinswap
begin

text \<open>
  The operations of the module clients that send transactions: \<open>modules/bank/bank.go\<close>,
  \<open>modules/token/token.go\<close>, \<open>modules/nft/nft.go\<close>, \<open>modules/gov/gov.go\<close>, \<open>modules/staking/staking.go\<close> and
  \<open>modules/coinswap/coinswap.go\<close>. Each looks up the sender, builds messages and hands them to the base
  client of the theory \<open>Client\<close>, here with the messages of \<open>Messages\<close>. The fields of a request are arguments.
\<close>

type_synonym ('k, 'c, 'w) mbase = "(Msg, 'k, 'c, 'w) Base"
type_synonym ('c, 'w, 'a) cact = "(('c, 'w) cstate, 'a) act"

definition mapErrS :: "('a res \<Rightarrow> 'b res) \<Rightarrow> ('s, 'a) act \<Rightarrow> ('s, 'b) act" where
  "mapErrS f m s = (case m s of (r, s') \<Rightarrow> (f r, s'))"

definition sender_of :: "('k, 'c, 'w) mbase \<Rightarrow> BaseTx \<Rightarrow> ('c, 'w, bytes) cact" where
  "sender_of base baseTx = QueryAddress base (From baseTx) (Password baseTx)"

section \<open>Bank\<close>

definition maxMsgLen :: nat where "maxMsgLen = 5"

record Receipt =
  RAddress :: string
  RAmount :: DecCoins

definition bank_sender :: "('k, 'c, 'w) mbase \<Rightarrow> BaseTx \<Rightarrow> ('c, 'w, bytes) cact" where
  "bank_sender base baseTx = mapErrS (replace_err (From baseTx @ '' not found'')) (sender_of base baseTx)"

definition send_msg :: "Bech32 \<Rightarrow> ('k, 'c, 'w) mbase \<Rightarrow> bytes \<Rightarrow> string \<Rightarrow> DecCoins \<Rightarrow> ('c, 'w, Msg) cact" where
  "send_msg lib base sender to amount =
     bindS (ToMinCoin base amount) (\<lambda>amt.
     bindS (retS (replace_err (to @ '' invalid address'') (AccAddressFromBech32 lib to))) (\<lambda>outAddr.
     retS (bindR (NewMsgSend lib sender outAddr amt) (\<lambda>m. Inr (BankSend m)))))"

definition bank_Send :: "Bech32 \<Rightarrow> ('k, 'c, 'w) mbase \<Rightarrow> string \<Rightarrow> DecCoins \<Rightarrow> BaseTx \<Rightarrow> ('c, 'w, ResultTx) cact" where
  "bank_Send lib base to amount baseTx =
     bindS (bank_sender base baseTx) (\<lambda>sender.
     bindS (send_msg lib base sender to amount) (\<lambda>msg. BuildAndSend base [msg] baseTx))"

definition SendWitchSpecAccountInfo ::
    "Bech32 \<Rightarrow> ('k, 'c, 'w) mbase \<Rightarrow> string \<Rightarrow> 64 word \<Rightarrow> 64 word \<Rightarrow> DecCoins \<Rightarrow> BaseTx \<Rightarrow> ('c, 'w, ResultTx) cact" where
  "SendWitchSpecAccountInfo lib base to sequence accountNumber amount baseTx =
     bindS (bank_sender base baseTx) (\<lambda>sender.
     bindS (send_msg lib base sender to amount) (\<lambda>msg.
     bindS (retS (AccAddress_String lib sender)) (\<lambda>addr. BuildAndSendWithAccount base addr accountNumber sequence [msg] baseTx)))"

text \<open>The loop over the receipts of one message.\<close>

definition input_output :: "Bech32 \<Rightarrow> ('k, 'c, 'w) mbase \<Rightarrow> bytes \<Rightarrow> Receipt \<Rightarrow> ('c, 'w, Input \<times> Output) cact" where
  "input_output lib base sender receipt =
     bindS (ToMinCoin base (RAmount receipt)) (\<lambda>amt.
     bindS (retS (replace_err (RAddress receipt @ '' invalid address'') (AccAddressFromBech32 lib (RAddress receipt)))) (\<lambda>outAddr.
     retS (bindR (NewInput lib sender amt) (\<lambda>i. bindR (NewOutput lib outAddr amt) (\<lambda>out. Inr (i, out))))))"

definition multi_msg :: "Bech32 \<Rightarrow> ('k, 'c, 'w) mbase \<Rightarrow> bytes \<Rightarrow> Receipt list \<Rightarrow> ('c, 'w, Msg) cact" where
  "multi_msg lib base sender receipts =
     bindS (mapS (input_output lib base sender) receipts) (\<lambda>ios.
       retS (Inr (BankMultiSend \<lparr>Inputs = map fst ios, Outputs = map snd ios\<rparr>)))"

definition multi_msgs :: "Bech32 \<Rightarrow> ('k, 'c, 'w) mbase \<Rightarrow> bytes \<Rightarrow> Receipt list \<Rightarrow> ('c, 'w, Msg list) cact" where
  "multi_msgs lib base sender receipts =
     bindS (retS (SubArray maxMsgLen receipts)) (mapS (multi_msg lib base sender))"

text \<open>
  \<open>MultiSend\<close> gives the results and the error that ended it, if one did, as \<open>SendBatch\<close> of the base client does.
\<close>

definition bank_SendBatch ::
    "Bech32 \<Rightarrow> ('k, 'c, 'w) mbase \<Rightarrow> bytes \<Rightarrow> Receipt list \<Rightarrow> BaseTx \<Rightarrow> ('c, 'w) cstate \<Rightarrow> (ResultTx list \<times> failure option) \<times> ('c, 'w) cstate" where
  "bank_SendBatch lib base sender receipts baseTx s =
     (case multi_msgs lib base sender receipts s of
        (Inl e, s') \<Rightarrow> (([], Some e), s')
      | (Inr msgs, s') \<Rightarrow> SendBatch base msgs baseTx s')"

definition MultiSend ::
    "Bech32 \<Rightarrow> ('k, 'c, 'w) mbase \<Rightarrow> Receipt list \<Rightarrow> BaseTx \<Rightarrow> ('c, 'w) cstate \<Rightarrow> (ResultTx list \<times> failure option) \<times> ('c, 'w) cstate" where
  "MultiSend lib base receipts baseTx s =
     (case bank_sender base baseTx s of
        (Inl e, s1) \<Rightarrow> (([], Some e), s1)
      | (Inr sender, s1) \<Rightarrow>
          if maxMsgLen < length receipts then bank_SendBatch lib base sender receipts baseTx s1
          else
            (case bindS (multi_msg lib base sender receipts) (\<lambda>msg. BuildAndSend base [msg] baseTx) s1 of
               (Inl e, s2) \<Rightarrow> (([], Some e), s2)
             | (Inr res, s2) \<Rightarrow> (([res], None), s2)))"

section \<open>One message of the sender\<close>

text \<open>The other operations build one message from the address of the sender.\<close>

definition send_one :: "('k, 'c, 'w) mbase \<Rightarrow> (bytes \<Rightarrow> ('c, 'w, Msg) cact) \<Rightarrow> BaseTx \<Rightarrow> ('c, 'w, ResultTx) cact" where
  "send_one base mk baseTx =
     bindS (sender_of base baseTx) (\<lambda>sender.
     bindS (mk sender) (\<lambda>msg. BuildAndSend base [msg] baseTx))"

definition with_owner :: "Bech32 \<Rightarrow> (string \<Rightarrow> Msg) \<Rightarrow> bytes \<Rightarrow> Msg res" where
  "with_owner lib f sender = bindR (AccAddress_String lib sender) (\<lambda>owner. Inr (f owner))"

definition first_coin :: "Coins \<Rightarrow> Coin res" where
  "first_coin cs = (case cs of [] \<Rightarrow> Inl (Panic ''index out of range'') | c # _ \<Rightarrow> Inr c)"

section \<open>Token\<close>

definition IssueToken ::
    "Bech32 \<Rightarrow> ('k, 'c, 'w) mbase \<Rightarrow> string \<Rightarrow> string \<Rightarrow> 32 word \<Rightarrow> string \<Rightarrow> 64 word \<Rightarrow> 64 word \<Rightarrow> bool \<Rightarrow> BaseTx \<Rightarrow> ('c, 'w, ResultTx) cact" where
  "IssueToken lib base symbol name scale minUnit initialSupply maxSupply mintable =
     send_one base (\<lambda>sender. retS (with_owner lib (\<lambda>owner. TokenIssue
       \<lparr>itSymbol = symbol, itName = name, itScale = scale, itMinUnit = minUnit, itInitialSupply = initialSupply,
        itMaxSupply = maxSupply, itMintable = mintable, itOwner = owner\<rparr>) sender))"

definition EditToken :: "Bech32 \<Rightarrow> ('k, 'c, 'w) mbase \<Rightarrow> string \<Rightarrow> string \<Rightarrow> 64 word \<Rightarrow> BaseTx \<Rightarrow> ('c, 'w, ResultTx) cact" where
  "EditToken lib base symbol name maxSupply =
     send_one base (\<lambda>sender. retS (with_owner lib (\<lambda>owner. TokenEdit \<lparr>etSymbol = symbol, etName = name, etMaxSupply = maxSupply, etOwner = owner\<rparr>) sender))"

definition TransferToken :: "Bech32 \<Rightarrow> ('k, 'c, 'w) mbase \<Rightarrow> string \<Rightarrow> string \<Rightarrow> BaseTx \<Rightarrow> ('c, 'w, ResultTx) cact" where
  "TransferToken lib base to symbol =
     send_one base (\<lambda>sender. retS (bindR (ValidateAccAddress lib to) (\<lambda>_.
       with_owner lib (\<lambda>owner. TokenTransfer \<lparr>ttSymbol = symbol, ttOwner = owner, ttTo = to\<rparr>) sender)))"

definition MintToken :: "Bech32 \<Rightarrow> ('k, 'c, 'w) mbase \<Rightarrow> string \<Rightarrow> 64 word \<Rightarrow> string \<Rightarrow> BaseTx \<Rightarrow> ('c, 'w, ResultTx) cact" where
  "MintToken lib base symbol amount to =
     send_one base (\<lambda>sender. retS (
       bindR (AccAddress_String lib sender) (\<lambda>owner.
       bindR (if length to \<noteq> 0 then bindR (ValidateAccAddress lib to) (\<lambda>_. Inr to) else Inr owner) (\<lambda>receipt.
         Inr (TokenMint \<lparr>mtSymbol = symbol, mtTo = receipt, mtAmount = amount, mtOwner = owner\<rparr>)))))"

text \<open>The owner of a token is parsed and printed again.\<close>

definition Token_GetOwner :: "Bech32 \<Rightarrow> Token \<Rightarrow> bytes res" where
  "Token_GetOwner lib t = MustAccAddressFromBech32 lib (TOwner t)"

definition Tokens_Convert :: "Bech32 \<Rightarrow> Token list \<Rightarrow> (Token list) res" where
  "Tokens_Convert lib ts = mapR (\<lambda>t. bindR (Token_GetOwner lib t) (\<lambda>a. bindR (AccAddress_String lib a) (\<lambda>owner. Inr (t\<lparr>TOwner := owner\<rparr>)))) ts"

text \<open>\<open>fetch\<close> asks the node for the tokens of an owner, or for all tokens, and unpacks them.\<close>

definition QueryTokens :: "Bech32 \<Rightarrow> ('k, 'c, 'w) mbase \<Rightarrow> ('w \<Rightarrow> string \<Rightarrow> (Token list) res \<times> 'w) \<Rightarrow> string \<Rightarrow> ('c, 'w, Token list) cact" where
  "QueryTokens lib base fetch owner =
     bindS (retS (if 0 < length owner then ValidateAccAddress lib owner else Inr ())) (\<lambda>_.
     bindS (lift_node (\<lambda>w. fetch w owner)) (\<lambda>tokens.
     bindS (retS (Tokens_Convert lib tokens)) (\<lambda>ts s. (Inr ts, SaveTokens base ts s))))"

section \<open>NFT\<close>

definition IssueDenom ::
    "Bech32 \<Rightarrow> ('k, 'c, 'w) mbase \<Rightarrow> string \<Rightarrow> string \<Rightarrow> string \<Rightarrow> string \<Rightarrow> bool \<Rightarrow> bool \<Rightarrow> BaseTx \<Rightarrow> ('c, 'w, ResultTx) cact" where
  "IssueDenom lib base ident name schema symbol mintRestricted editRestricted =
     send_one base (\<lambda>sender. retS (with_owner lib (\<lambda>owner. NftIssueClass
       \<lparr>icID = ident, icName = name, icSchema = schema, icOwner = owner, icSymbol = symbol,
        icMintRestricted = mintRestricted, icEditRestricted = editRestricted\<rparr>) sender))"

definition MintNFT ::
    "Bech32 \<Rightarrow> ('k, 'c, 'w) mbase \<Rightarrow> string \<Rightarrow> string \<Rightarrow> string \<Rightarrow> string \<Rightarrow> string \<Rightarrow> string \<Rightarrow> BaseTx \<Rightarrow> ('c, 'w, ResultTx) cact" where
  "MintNFT lib base ident classID name uri data recipient =
     send_one base (\<lambda>sender. retS (
       bindR (AccAddress_String lib sender) (\<lambda>owner.
       bindR (if 0 < length recipient then bindR (ValidateAccAddress lib recipient) (\<lambda>_. Inr recipient) else Inr owner) (\<lambda>rcpt.
         Inr (NftIssue \<lparr>inID = ident, inClassID = classID, inName = name, inURI = uri, inData = data, inOwner = owner, inRecipient = rcpt\<rparr>)))))"

definition EditNFT ::
    "Bech32 \<Rightarrow> ('k, 'c, 'w) mbase \<Rightarrow> string \<Rightarrow> string \<Rightarrow> string \<Rightarrow> string \<Rightarrow> string \<Rightarrow> BaseTx \<Rightarrow> ('c, 'w, ResultTx) cact" where
  "EditNFT lib base ident name classID uri data =
     send_one base (\<lambda>sender. retS (with_owner lib (\<lambda>owner. NftEdit
       \<lparr>enID = ident, enClassID = classID, enName = name, enURI = uri, enData = data, enOwner = owner\<rparr>) sender))"

definition TransferNFT :: "Bech32 \<Rightarrow> ('k, 'c, 'w) mbase \<Rightarrow> string \<Rightarrow> string \<Rightarrow> string \<Rightarrow> BaseTx \<Rightarrow> ('c, 'w, ResultTx) cact" where
  "TransferNFT lib base ident classID recipient =
     send_one base (\<lambda>sender. retS (bindR (ValidateAccAddress lib recipient) (\<lambda>_.
       with_owner lib (\<lambda>owner. NftTransfer \<lparr>tnID = ident, tnClassID = classID, tnRecipient = recipient, tnOwner = owner\<rparr>) sender)))"

definition TransferClass :: "Bech32 \<Rightarrow> ('k, 'c, 'w) mbase \<Rightarrow> string \<Rightarrow> string \<Rightarrow> BaseTx \<Rightarrow> ('c, 'w, ResultTx) cact" where
  "TransferClass lib base ident recipient =
     send_one base (\<lambda>sender. retS (bindR (ValidateAccAddress lib recipient) (\<lambda>_.
       with_owner lib (\<lambda>owner. NftTransferClass \<lparr>tcID = ident, tcOwner = owner, tcRecipient = recipient\<rparr>) sender)))"

definition BurnNFT :: "Bech32 \<Rightarrow> ('k, 'c, 'w) mbase \<Rightarrow> string \<Rightarrow> string \<Rightarrow> BaseTx \<Rightarrow> ('c, 'w, ResultTx) cact" where
  "BurnNFT lib base ident classID =
     send_one base (\<lambda>sender. retS (with_owner lib (\<lambda>owner. NftBurn \<lparr>bnID = ident, bnClassID = classID, bnOwner = owner\<rparr>) sender))"

section \<open>Gov\<close>

text \<open>\<open>idOf\<close> reads the id of the proposal from the events of the result.\<close>

definition SubmitProposal ::
    "Bech32 \<Rightarrow> (TextProposal \<Rightarrow> unit res) \<Rightarrow> (ResultTx \<Rightarrow> (64 word) res) \<Rightarrow> ('k, 'c, 'w) mbase \<Rightarrow> string \<Rightarrow> string \<Rightarrow> string \<Rightarrow> DecCoins
     \<Rightarrow> BaseTx \<Rightarrow> ('c, 'w, 64 word \<times> ResultTx) cact" where
  "SubmitProposal lib pack idOf base title description ty initialDeposit baseTx =
     bindS (send_one base (\<lambda>proposer.
       bindS (ToMinCoin base initialDeposit) (\<lambda>deposit.
         retS (bindR (NewMsgSubmitProposal lib pack (ContentFromProposalType title description ty) deposit proposer) (\<lambda>m. Inr (GovSubmit m))))) baseTx)
       (\<lambda>result. retS (bindR (idOf result) (\<lambda>proposalId. Inr (proposalId, result))))"

definition gov_Deposit :: "Bech32 \<Rightarrow> ('k, 'c, 'w) mbase \<Rightarrow> 64 word \<Rightarrow> DecCoins \<Rightarrow> BaseTx \<Rightarrow> ('c, 'w, ResultTx) cact" where
  "gov_Deposit lib base proposalId amount =
     send_one base (\<lambda>depositor. bindS (ToMinCoin base amount) (\<lambda>amt.
       retS (with_owner lib (\<lambda>d. GovDeposit \<lparr>mdProposalId = proposalId, mdDepositor = d, mdAmount = amt\<rparr>) depositor)))"

text \<open>An option that is not in the table is option 0, which \<open>ValidateBasic\<close> refuses.\<close>

definition gov_Vote :: "Bech32 \<Rightarrow> ('k, 'c, 'w) mbase \<Rightarrow> 64 word \<Rightarrow> string \<Rightarrow> BaseTx \<Rightarrow> ('c, 'w, ResultTx) cact" where
  "gov_Vote lib base proposalId option =
     send_one base (\<lambda>voter. retS (with_owner lib (\<lambda>v. GovVote
       \<lparr>mvProposalId = proposalId, mvVoter = v, mvOption = (case VoteOption_value option of None \<Rightarrow> 0 | Some n \<Rightarrow> n)\<rparr>) voter))"

text \<open>The status that \<open>QueryProposals\<close> asks for is looked up in the table of the vote options.\<close>

definition QueryProposals_status :: "string \<Rightarrow> 32 word" where
  "QueryProposals_status proposalStatus = (case VoteOption_value proposalStatus of None \<Rightarrow> 0 | Some n \<Rightarrow> n)"

section \<open>Staking\<close>

text \<open>\<open>keyOf\<close> and \<open>pack\<close> are the library's parsing and packing of a consensus key.\<close>

definition CreateValidator ::
    "Bech32 \<Rightarrow> (bytes \<Rightarrow> 'p res) \<Rightarrow> ('p \<Rightarrow> bytes res) \<Rightarrow> ('k, 'c, 'w) mbase \<Rightarrow> string \<Rightarrow> int \<Rightarrow> int \<Rightarrow> int \<Rightarrow> int \<Rightarrow> string \<Rightarrow> DecCoin
     \<Rightarrow> BaseTx \<Rightarrow> ('c, 'w, ResultTx) cact" where
  "CreateValidator lib keyOf pack base moniker rate maxRate maxChangeRate minSelfDelegation pubkey val =
     send_one base (\<lambda>delegatorAddr.
       bindS (retS (bindR (AccAddress_String lib delegatorAddr) (ValAddressFromBech32 lib))) (\<lambda>valAddr.
       bindS (ToMinCoin base [val]) (\<lambda>values.
       retS (
         bindR (GetPubKeyFromBech32 lib keyOf Bech32PubKeyTypeConsPub pubkey) (\<lambda>pk.
         bindR (pack pk) (\<lambda>pkAny.
         bindR (AccAddress_String lib delegatorAddr) (\<lambda>d.
         bindR (ValAddress_String lib valAddr) (\<lambda>v.
         bindR (first_coin values) (\<lambda>c.
           Inr (StakingCreate
             \<lparr>cvDescription = zeroDescription\<lparr>deMoniker := moniker\<rparr>,
              cvCommission = \<lparr>crRate = Some rate, crMaxRate = Some maxRate, crMaxChangeRate = Some maxChangeRate\<rparr>,
              cvMinSelfDelegation = Some minSelfDelegation, cvDelegatorAddress = d, cvValidatorAddress = v,
              cvPubkey = Some pkAny, cvValue = c\<rparr>)))))))))) "

definition EditValidator ::
    "Bech32 \<Rightarrow> ('k, 'c, 'w) mbase \<Rightarrow> Description \<Rightarrow> int \<Rightarrow> int \<Rightarrow> BaseTx \<Rightarrow> ('c, 'w, ResultTx) cact" where
  "EditValidator lib base description commissionRate minSelfDelegation =
     send_one base (\<lambda>delegatorAddr. retS (
       bindR (bindR (AccAddress_String lib delegatorAddr) (ValAddressFromBech32 lib)) (\<lambda>valAddr.
       bindR (ValAddress_String lib valAddr) (\<lambda>v.
         Inr (StakingEdit \<lparr>evDescription = description, evValidatorAddress = v,
           evCommissionRate = Some commissionRate, evMinSelfDelegation = Some minSelfDelegation\<rparr>)))))"

text \<open>The delegation messages carry the first coin of the converted amount.\<close>

definition delegation_msg ::
    "Bech32 \<Rightarrow> ('k, 'c, 'w) mbase \<Rightarrow> DecCoin \<Rightarrow> (string \<Rightarrow> Coin \<Rightarrow> Msg) \<Rightarrow> bytes \<Rightarrow> ('c, 'w, Msg) cact" where
  "delegation_msg lib base amount f delegatorAddr =
     bindS (ToMinCoin base [amount]) (\<lambda>coins.
       retS (bindR (AccAddress_String lib delegatorAddr) (\<lambda>d. bindR (first_coin coins) (\<lambda>c. Inr (f d c)))))"

definition Delegate :: "Bech32 \<Rightarrow> ('k, 'c, 'w) mbase \<Rightarrow> string \<Rightarrow> DecCoin \<Rightarrow> BaseTx \<Rightarrow> ('c, 'w, ResultTx) cact" where
  "Delegate lib base validatorAddr amount =
     send_one base (delegation_msg lib base amount (\<lambda>d c.
       StakingDelegate \<lparr>dgDelegatorAddress = d, dgValidatorAddress = validatorAddr, dgAmount = c\<rparr>))"

definition Undelegate :: "Bech32 \<Rightarrow> ('k, 'c, 'w) mbase \<Rightarrow> string \<Rightarrow> DecCoin \<Rightarrow> BaseTx \<Rightarrow> ('c, 'w, ResultTx) cact" where
  "Undelegate lib base validatorAddr amount =
     send_one base (delegation_msg lib base amount (\<lambda>d c.
       StakingUndelegate \<lparr>udDelegatorAddress = d, udValidatorAddress = validatorAddr, udAmount = c\<rparr>))"

definition BeginRedelegate :: "Bech32 \<Rightarrow> ('k, 'c, 'w) mbase \<Rightarrow> string \<Rightarrow> string \<Rightarrow> DecCoin \<Rightarrow> BaseTx \<Rightarrow> ('c, 'w, ResultTx) cact" where
  "BeginRedelegate lib base src dst amount =
     send_one base (delegation_msg lib base amount (\<lambda>d c.
       StakingRedelegate \<lparr>brDelegatorAddress = d, brValidatorSrcAddress = src, brValidatorDstAddress = dst, brAmount = c\<rparr>))"

section \<open>Coinswap\<close>

definition AddLiquidity :: "Bech32 \<Rightarrow> ('k, 'c, 'w) mbase \<Rightarrow> bool \<Rightarrow> Coin \<Rightarrow> Coin \<Rightarrow> BaseTx \<Rightarrow> ('c, 'w, ResultTx) cact" where
  "AddLiquidity lib base shared baseToken token =
     send_one base (\<lambda>creator. retS (with_owner lib (\<lambda>c. SwapCreatePool shared
       \<lparr>cpPoolCreatorAddress = c, cpPoolTypeId = 1, cpDepositCoins = [baseToken, token]\<rparr>) creator))"

definition DepositWithinBatch :: "Bech32 \<Rightarrow> ('k, 'c, 'w) mbase \<Rightarrow> bool \<Rightarrow> 64 word \<Rightarrow> Coin \<Rightarrow> Coin \<Rightarrow> BaseTx \<Rightarrow> ('c, 'w, ResultTx) cact" where
  "DepositWithinBatch lib base shared poolId baseToken token =
     send_one base (\<lambda>creator. retS (with_owner lib (\<lambda>c. SwapDeposit shared
       \<lparr>dwDepositorAddress = c, dwPoolId = poolId, dwDepositCoins = [baseToken, token]\<rparr>) creator))"

definition SwapCoin ::
    "Bech32 \<Rightarrow> ('k, 'c, 'w) mbase \<Rightarrow> 64 word \<Rightarrow> Coin \<Rightarrow> string \<Rightarrow> string \<Rightarrow> string \<Rightarrow> BaseTx \<Rightarrow> ('c, 'w, ResultTx) cact" where
  "SwapCoin lib base poolId offerCoin demandCoinDenom swapFeeRate orderPrice =
     send_one base (\<lambda>creator. retS (
       bindR (NewDecFromStr orderPrice) (\<lambda>price.
       bindR (NewDecFromStr swapFeeRate) (\<lambda>rate.
       bindR (AccAddress_String lib creator) (\<lambda>c.
       bindR (GetOfferCoinFee offerCoin rate) (\<lambda>fee.
         Inr (SwapOrder \<lparr>swSwapRequesterAddress = c, swPoolId = poolId, swSwapTypeId = 1, swOfferCoin = offerCoin,
           swDemandCoinDenom = demandCoinDenom, swOfferCoinFee = fee, swOrderPrice = price\<rparr>)))))))"

definition WithdrawWithin :: "Bech32 \<Rightarrow> ('k, 'c, 'w) mbase \<Rightarrow> 64 word \<Rightarrow> Coin \<Rightarrow> BaseTx \<Rightarrow> ('c, 'w, ResultTx) cact" where
  "WithdrawWithin lib base poolId poolCoin =
     send_one base (\<lambda>creator. retS (with_owner lib (\<lambda>c. SwapWithdraw
       \<lparr>wwWithdrawerAddress = c, wwPoolId = poolId, wwPoolCoin = poolCoin\<rparr>) creator))"

section \<open>The messages of a multi-send\<close>

lemma mapS_all:
  assumes "\<And>x s. x \<in> set xs \<Longrightarrow> I s \<Longrightarrow> \<exists>y s'. f x s = (Inr y, s') \<and> I s' \<and> R x y"
  shows "I s \<Longrightarrow> \<exists>ys s'. mapS f xs s = (Inr ys, s') \<and> I s' \<and> list_all2 R xs ys"
  using assms
proof (induction xs arbitrary: s)
  case (Cons x xs)
  obtain y s1 where y: "f x s = (Inr y, s1)" "I s1" "R x y" using Cons.prems(1) Cons.prems(2) [of x s] by auto
  obtain ys s2 where ys: "mapS f xs s1 = (Inr ys, s2)" "I s2" "list_all2 R xs ys"
    using Cons.IH [OF y(2)] Cons.prems(2) by force
  have "mapS f (x # xs) s = (Inr (y # ys), s2)" using y(1) ys(1) by (simp add: bindS_Inr retS_apply)
  with y ys show ?case by blast
qed (simp add: retS_apply)

text \<open>A receipt that can be paid: its address parses and its amount converts to valid coins of moderate size.\<close>

definition receipt_ok :: "Bech32 \<Rightarrow> (string \<rightharpoonup> Token) \<Rightarrow> Receipt \<Rightarrow> bool" where
  "receipt_ok lib tok r \<longleftrightarrow>
     (\<exists>a. AccAddressFromBech32 lib (RAddress r) = Inr a \<and> a \<noteq> [] \<and> length a \<le> 32)
   \<and> (\<exists>cs. min_coins tok (RAmount r) = Inr cs \<and> cs \<noteq> [] \<and> Coins_IsValid cs \<and> (\<forall>c\<in>set cs. Amount c \<le> 2 ^ 250))"

text \<open>What the loop makes of a receipt.\<close>

definition pays :: "Bech32 \<Rightarrow> (string \<rightharpoonup> Token) \<Rightarrow> bytes \<Rightarrow> Receipt \<Rightarrow> Input \<times> Output \<Rightarrow> bool" where
  "pays lib tok sender r io \<longleftrightarrow>
     Input_ValidateBasic lib (fst io) = Inr () \<and> Output_ValidateBasic lib (snd io) = Inr ()
   \<and> AccAddressFromBech32 lib (InAddress (fst io)) = Inr sender
   \<and> AccAddressFromBech32 lib (OutAddress (snd io)) = AccAddressFromBech32 lib (RAddress r)
   \<and> InCoins (fst io) = OutCoins (snd io) \<and> min_coins tok (RAmount r) = Inr (OutCoins (snd io))
   \<and> (\<forall>c\<in>set (OutCoins (snd io)). Amount c \<le> 2 ^ 250)"

lemma input_output_pays:
  assumes laws: "regroup_law lib" "encode_law lib" "gcache_laws (bgc base)" "tokens_served base tok"
    and s: "sender \<noteq> []" "length sender \<le> 32" and r: "receipt_ok lib tok r" and inv: "token_inv base tok s"
  shows "\<exists>io s'. input_output lib base sender r s = (Inr io, s') \<and> token_inv base tok s' \<and> pays lib tok sender r io"
proof -
  obtain a cs where a: "AccAddressFromBech32 lib (RAddress r) = Inr a" "a \<noteq> []" "length a \<le> 32"
    and cs: "min_coins tok (RAmount r) = Inr cs" "cs \<noteq> []" "Coins_IsValid cs" "\<forall>c\<in>set cs. Amount c \<le> 2 ^ 250"
    using r by (auto simp: receipt_ok_def)
  obtain st where st: "AccAddress_String lib sender = Inr st" using account.toText_ok [OF laws(1,2) s] by blast
  obtain at where at: "AccAddress_String lib a = Inr at" using account.toText_ok [OF laws(1,2) a(2,3)] by blast
  note rt = account.fromText_toText [OF laws(1,2) s st] account.fromText_toText [OF laws(1,2) a(2,3) at]
  obtain s1 where m: "ToMinCoin base (RAmount r) s = (Inr cs, s1)" "token_inv base tok s1"
    using ToMinCoin_served [OF laws(3,4) inv, of "RAmount r"] cs(1) by auto
  have "input_output lib base sender r s = (Inr (\<lparr>InAddress = st, InCoins = cs\<rparr>, \<lparr>OutAddress = at, OutCoins = cs\<rparr>), s1)"
    using m(1) a(1) st at by (simp add: input_output_def bindS_Inr retS_apply replace_err_def NewInput_def NewOutput_def)
  moreover have "pays lib tok sender r (\<lparr>InAddress = st, InCoins = cs\<rparr>, \<lparr>OutAddress = at, OutCoins = cs\<rparr>)"
    using rt a(1) cs by (simp add: pays_def Input_ok Output_ok)
  ultimately show ?thesis using m(2) by blast
qed

lemma total_fold_ok:
  assumes "\<forall>x\<in>set xs. v x = Inr () \<and> Coins_IsValid (g x) \<and> (\<forall>c\<in>set (g x). Amount c \<le> B)" "0 \<le> B"
    "coins.strict t0" "\<forall>c\<in>set t0. 0 \<le> Amount c \<and> Amount c \<le> int m * B" "int (m + length xs) * B < 2 ^ 255"
  shows "\<exists>t. foldR (\<lambda>t x. bindR (v x) (\<lambda>_. Coins_Add t (g x))) t0 xs = Inr t"
  using assms
proof (induction xs arbitrary: t0 m)
  case (Cons x xs)
  have x: "v x = Inr ()" "Coins_IsValid (g x)" "\<forall>c\<in>set (g x). 0 < Amount c \<and> Amount c \<le> B" "coins.strict (g x)"
    using Cons.prems(1) by (auto simp: coins.isValid_iff)
  have tot: "0 \<le> coins.total t0 d \<and> coins.total t0 d \<le> int m * B \<and> 0 \<le> coins.total (g x) d \<and> coins.total (g x) d \<le> B" for d
  proof -
    have "coins.total t0 d = 0 \<or> (\<exists>c\<in>set t0. coins.total t0 d = Amount c)"
      using coins.strict_total_mem [OF Cons.prems(3)] coins.total_absent [of d t0] by blast
    moreover have "coins.total (g x) d = 0 \<or> (\<exists>c\<in>set (g x). coins.total (g x) d = Amount c)"
      using coins.strict_total_mem [OF x(4)] coins.total_absent [of d "g x"] by blast
    ultimately show ?thesis using Cons.prems(2,4) x(3) by (auto simp: less_imp_le)
  qed
  have B1: "int (m + 1) * B < 2 ^ 255"
  proof -
    have "int (m + 1) * B \<le> int (m + length (x # xs)) * B" using Cons.prems(2) by (intro mult_right_mono) auto
    then show ?thesis using Cons.prems(5) by linarith
  qed
  have "coins.sums_fit t0 (g x)"
    unfolding coins.sums_fit_def
  proof (intro ballI impI)
    fix a b assume ab: "a \<in> set t0" "b \<in> set (g x)"
    have "0 \<le> Amount a + Amount b" "Amount a + Amount b \<le> int m * B + B" using ab Cons.prems(4) x(3) by force+
    then show "valid_Int (Amount a + Amount b)" using B1 by (simp add: valid_Int_def distrib_right)
  qed
  then obtain t1 where t1: "Coins_safeAdd t0 (g x) = Inr t1" using coins.safeAdd_ok_iff [OF Cons.prems(3) x(4)] by blast
  have st: "coins.strict t1" by (rule coins.safeAdd_strict [OF t1 Cons.prems(3) x(4)])
  have "0 \<le> Amount c \<and> Amount c \<le> int (m + 1) * B" if "c \<in> set t1" for c
    using coins.strict_total_mem [OF st that] coins.safeAdd_total [OF t1, of "Denom c"] tot [of "Denom c"] by (simp add: distrib_right)
  then have "\<exists>t. foldR (\<lambda>t x. bindR (v x) (\<lambda>_. Coins_Add t (g x))) t1 xs = Inr t"
    using Cons.IH [of t1 "m + 1"] Cons.prems(1,2,5) st by simp
  then show ?case using x(1) t1 by (simp add: Coins_Add_def)
qed simp

lemma totals_agree:
  assumes "list_all (\<lambda>io. Input_ValidateBasic lib (fst io) = Inr () \<and> Output_ValidateBasic lib (snd io) = Inr () \<and> InCoins (fst io) = OutCoins (snd io)) ios"
  shows "foldR (\<lambda>t i. bindR (Input_ValidateBasic lib i) (\<lambda>_. Coins_Add t (InCoins i))) t0 (map fst ios) =
    foldR (\<lambda>t out. bindR (Output_ValidateBasic lib out) (\<lambda>_. Coins_Add t (OutCoins out))) t0 (map snd ios)"
  using assms
proof (induction ios arbitrary: t0)
  case (Cons io ios)
  then show ?case by (cases "Coins_Add t0 (OutCoins (snd io))") simp_all
qed simp

lemma paid_message_valid:
  assumes "list_all2 (pays lib tok sender) rs ios" "rs \<noteq> []" "length rs \<le> 5"
  shows "MsgMultiSend_ValidateBasic lib \<lparr>Inputs = map fst ios, Outputs = map snd ios\<rparr> = Inr ()"
proof -
  have len: "length ios = length rs" using assms(1) by (auto dest: list_all2_lengthD)
  have p: "\<forall>io\<in>set ios. \<exists>r. pays lib tok sender r io" using assms(1) by (induction rule: list_all2_induct) auto
  have "\<forall>i\<in>set (map fst ios). Input_ValidateBasic lib i = Inr () \<and> Coins_IsValid (InCoins i) \<and> (\<forall>c\<in>set (InCoins i). Amount c \<le> 2 ^ 250)"
    using p by (fastforce simp: pays_def Input_ok)
  moreover have "int (0 + length (map fst ios)) * 2 ^ 250 < 2 ^ 255" using len assms(3) by simp
  ultimately obtain t where t: "total_in lib (map fst ios) = Inr t"
    using total_fold_ok [of "map fst ios" "Input_ValidateBasic lib" InCoins "2 ^ 250" "[]" 0] by (auto simp: total_in_def)
  have "total_out lib (map snd ios) = Inr t"
    using t totals_agree [of lib ios "[]"] p by (simp add: total_in_def total_out_def list_all_iff pays_def) metis
  moreover have "ios \<noteq> []" using len assms(2) by auto
  ultimately show ?thesis using t by (simp add: MsgMultiSend_ValidateBasic_def Coins_IsEqual_refl)
qed

text \<open>What \<open>multi_msg\<close> makes of the receipts of one segment.\<close>

definition pays_all :: "Bech32 \<Rightarrow> (string \<rightharpoonup> Token) \<Rightarrow> bytes \<Rightarrow> Receipt list \<Rightarrow> Msg \<Rightarrow> bool" where
  "pays_all lib tok sender rs msg \<longleftrightarrow> (\<exists>m. msg = BankMultiSend m \<and> MsgMultiSend_ValidateBasic lib m = Inr ()
     \<and> (\<forall>i\<in>set (Inputs m). AccAddressFromBech32 lib (InAddress i) = Inr sender)
     \<and> list_all2 (\<lambda>r out. AccAddressFromBech32 lib (OutAddress out) = AccAddressFromBech32 lib (RAddress r)
          \<and> min_coins tok (RAmount r) = Inr (OutCoins out)) rs (Outputs m))"

lemma multi_msg_pays:
  assumes laws: "regroup_law lib" "encode_law lib" "gcache_laws (bgc base)" "tokens_served base tok"
    and s: "sender \<noteq> []" "length sender \<le> 32" and r: "\<forall>r\<in>set rs. receipt_ok lib tok r" "rs \<noteq> []" "length rs \<le> 5"
    and inv: "token_inv base tok s"
  shows "\<exists>msg s'. multi_msg lib base sender rs s = (Inr msg, s') \<and> token_inv base tok s' \<and> pays_all lib tok sender rs msg"
proof -
  have "\<exists>ios s'. mapS (input_output lib base sender) rs s = (Inr ios, s') \<and> token_inv base tok s' \<and> list_all2 (pays lib tok sender) rs ios"
  proof (rule mapS_all [where I = "token_inv base tok"])
    fix x s assume "x \<in> set rs" "token_inv base tok s"
    then show "\<exists>y s'. input_output lib base sender x s = (Inr y, s') \<and> token_inv base tok s' \<and> pays lib tok sender x y"
      using input_output_pays [OF laws s] r(1) by blast
  qed (rule inv)
  then obtain ios s' where ios: "mapS (input_output lib base sender) rs s = (Inr ios, s')" "token_inv base tok s'"
    "list_all2 (pays lib tok sender) rs ios" by blast
  have "multi_msg lib base sender rs s = (Inr (BankMultiSend \<lparr>Inputs = map fst ios, Outputs = map snd ios\<rparr>), s')"
    using ios(1) by (simp add: multi_msg_def bindS_Inr retS_apply)
  moreover have "\<forall>io\<in>set ios. AccAddressFromBech32 lib (InAddress (fst io)) = Inr sender"
    using ios(3) by (induction rule: list_all2_induct) (auto simp: pays_def)
  moreover have "list_all2 (\<lambda>r out. AccAddressFromBech32 lib (OutAddress out) = AccAddressFromBech32 lib (RAddress r)
      \<and> min_coins tok (RAmount r) = Inr (OutCoins out)) rs (map snd ios)"
    using ios(3) by (induction rule: list_all2_induct) (auto simp: pays_def)
  ultimately show ?thesis using paid_message_valid [OF ios(3) r(2,3)] ios(2) by (auto simp: pays_all_def)
qed

text \<open>
  \<^bold>\<open>C12.\<close> Paying many receivers. For receipts whose addresses parse and whose amounts convert to valid coins of
  at most \<open>2 ^ 250\<close>, the messages of a batch can be built, one for each segment of at most five consecutive
  receipts; every message passes \<open>ValidateBasic\<close>, all its inputs are of the sender, and its outputs
  pay exactly the receipts of its segment, in order, with the converted amounts.
\<close>

theorem MultiSend_messages_valid:
  assumes "regroup_law lib" "encode_law lib" "gcache_laws (bgc base)" "tokens_served base tok" "token_inv base tok s"
    and "sender \<noteq> []" "length sender \<le> 32" "receipts \<noteq> []" "\<forall>r\<in>set receipts. receipt_ok lib tok r"
  shows "\<exists>segs msgs s'. multi_msgs lib base sender receipts s = (Inr msgs, s') \<and> concat segs = receipts
     \<and> (\<forall>seg\<in>set segs. length seg \<le> 5) \<and> list_all2 (pays_all lib tok sender) segs msgs"
proof -
  let ?segs = "chunks 5 receipts"
  have c: "concat ?segs = receipts" "\<forall>seg\<in>set ?segs. length seg \<le> 5" "[] \<notin> set ?segs"
    using chunks_props [of 5 receipts] assms(8) by auto
  have "\<exists>msgs s'. mapS (multi_msg lib base sender) ?segs s = (Inr msgs, s') \<and> token_inv base tok s' \<and> list_all2 (pays_all lib tok sender) ?segs msgs"
  proof (rule mapS_all [where I = "token_inv base tok"])
    fix seg s assume seg: "seg \<in> set ?segs" and inv: "token_inv base tok s"
    have "set seg \<subseteq> set receipts" using seg c(1) by (metis UN_upper set_concat)
    then have "\<forall>r\<in>set seg. receipt_ok lib tok r" using assms(9) by blast
    moreover have "seg \<noteq> []" "length seg \<le> 5" using seg c by auto
    ultimately show "\<exists>msg s'. multi_msg lib base sender seg s = (Inr msg, s') \<and> token_inv base tok s' \<and> pays_all lib tok sender seg msg"
      using multi_msg_pays [OF assms(1-4,6,7)] inv by blast
  qed (rule assms(5))
  moreover have "SubArray maxMsgLen receipts = Inr ?segs" by (simp add: maxMsgLen_def SubArray_chunks)
  ultimately show ?thesis using c(1,2) by (fastforce simp: multi_msgs_def bindS_Inr retS_apply)
qed

definition demo_mbase :: "(bytes, string \<rightharpoonup> CacheValue, 64 word \<times> bytes list) mbase" where
  "demo_mbase =
     \<lparr>bcodec = \<lparr>msgName = (\<lambda>m. ''Msg''), msgMarshal = (\<lambda>m. Inr []), msgSigners = (\<lambda>m. []), keyName = keyName demo_codec,
        keyMarshal = keyMarshal demo_codec, bodyMarshal = (\<lambda>b. Inr []), authMarshal = authMarshal demo_codec,
        accString = accString demo_codec, accFromBech32 = accFromBech32 demo_codec, txJSON = (\<lambda>t. Inr [])\<rparr>,
      bgc = map_gcache, bnode = demo_node, bkeys = bkeys demo_base, bsign = bsign demo_base, btxHandler = btxHandler demo_base,
      validate_msg = Msg_ValidateBasic demo_b32, adjustGas = id, cfgChainId = ''test'', cfgGas = 100, cfgFee = [],
      cfgMode = ''sync'', cfgCached = True\<rparr>"

theorem MultiSend_messages_valid_witness:
  "\<exists>segs msgs s'. multi_msgs demo_b32 demo_mbase [1] (replicate 6 \<lparr>RAddress = ''gx1AC'', RAmount = BFee demo_baseTx\<rparr>) demo_state = (Inr msgs, s')
     \<and> concat segs = replicate 6 \<lparr>RAddress = ''gx1AC'', RAmount = BFee demo_baseTx\<rparr> \<and> list_all2 (pays_all demo_b32 demo_tokens [1]) segs msgs"
proof -
  have "gcache_laws (bgc demo_mbase)" using map_gcache_laws by (simp add: demo_mbase_def)
  moreover have "tokens_served demo_mbase demo_tokens" using demo_served by (simp add: tokens_served_def demo_mbase_def demo_base_def)
  moreover have "view demo_mbase demo_state = view demo_base demo_state"
    by (simp add: fun_eq_iff view_def demo_mbase_def demo_base_def)
  then have "token_inv demo_mbase demo_tokens demo_state" by (simp add: token_inv_def demo_view)
  moreover have "AccAddressFromBech32 demo_b32 ''gx1AC'' = Inr [2]"
    by (simp add: AccAddressFromBech32_def GetFromBech32_def DecodeAndConvert_def demo_b32_def prefix_values)
  moreover have "Coins_IsValid [\<lparr>Denom = ''uplug'', Amount = 5\<rparr>]" by code_simp
  ultimately show ?thesis
    using MultiSend_messages_valid [OF demo_b32_laws, of demo_mbase demo_tokens demo_state "[1]"
        "replicate 6 \<lparr>RAddress = ''gx1AC'', RAmount = BFee demo_baseTx\<rparr>"] demo_min_coins
    by (fastforce simp: receipt_ok_def)
qed

section \<open>Where the module clients fall short\<close>

text \<open>Every proposal status is looked up in the wrong table, so the filter is always the unspecified status.\<close>

lemma QueryProposals_ignores_status: "ProposalStatus_value st = Some n \<Longrightarrow> QueryProposals_status st = 0"
  by (auto simp: ProposalStatus_value_def QueryProposals_status_def VoteOption_value_def split: if_splits)

text \<open>A pool whose tokens are not given in the order of their denominations is refused, although the caller names them separately.\<close>

lemma unsorted_pool_refused:
  assumes "Denom b \<le> Denom a"
  shows "MsgCreatePool_ValidateBasic lib shared \<lparr>cpPoolCreatorAddress = c, cpPoolTypeId = 1, cpDepositCoins = [a, b]\<rparr> \<noteq> Inr ()"
  using assms by (auto simp: MsgCreatePool_ValidateBasic_def Coins_Validate_iff simp del: Coins_Validate.simps)

end
