(* ===== verification/Curve.thy ===== *)
theory Curve
  imports HdPath
begin

text \<open>
  The elliptic curve arithmetic in Jacobian coordinates
  (\<open>crypto/keys/secp256k1/internal/secp256k1/curve.go\<close>): addition and doubling agree with the chord and
  tangent rules on the affine curve. Go's big integers are \<open>int\<close>; the field order is positive, where
  \<open>big.Int.Mod\<close> is \<open>mod\<close>.
\<close>

section \<open>The curve\<close>

record BitCurve =
  cP :: int
  cN :: int
  cB :: int
  cGx :: int
  cGy :: int
  cBitSize :: nat

definition IsOnCurve :: "BitCurve \<Rightarrow> int \<Rightarrow> int \<Rightarrow> bool" where
  "IsOnCurve c x y =
     (let y2 = (y * y) mod cP c;
          x3 = (x * x * x + cB c) mod cP c
      in x3 = y2)"

text \<open>\<open>big.Int.ModInverse\<close>: nil when there is no inverse, otherwise the inverse between zero and the modulus.\<close>

definition ModInverse :: "int \<Rightarrow> int \<Rightarrow> int option" where
  "ModInverse g n =
     (if gcd (g mod n) n \<noteq> 1 then None else Some (fst (bezw (nat (g mod n)) (nat n)) mod n))"

text \<open>Multiplying by a nil inverse panics.\<close>

definition affineFromJacobian :: "BitCurve \<Rightarrow> int \<times> int \<times> int \<Rightarrow> (int \<times> int) res" where
  "affineFromJacobian c p =
     (case p of (x, y, z) \<Rightarrow>
        (case ModInverse z (cP c) of
           None \<Rightarrow> Inl (Panic ''invalid memory address or nil pointer dereference'')
         | Some zinv \<Rightarrow>
             let zinvsq = zinv * zinv;
                 xOut = (x * zinvsq) mod cP c;
                 zinvcu = zinvsq * zinv;
                 yOut = (y * zinvcu) mod cP c
             in Inr (xOut, yOut)))"

definition fix_sign :: "BitCurve \<Rightarrow> int \<Rightarrow> int" where
  "fix_sign c h = (if big_Sign h = -1 then h + cP c else h)"

definition addJacobian :: "BitCurve \<Rightarrow> int \<times> int \<times> int \<Rightarrow> int \<times> int \<times> int \<Rightarrow> int \<times> int \<times> int" where
  "addJacobian c p q =
     (case (p, q) of ((x1, y1, z1), (x2, y2, z2)) \<Rightarrow>
        let z1z1 = (z1 * z1) mod cP c;
            z2z2 = (z2 * z2) mod cP c;
            u1 = (x1 * z2z2) mod cP c;
            u2 = (x2 * z1z1) mod cP c;
            h = fix_sign c (u2 - u1);
            i = (h * 2) * (h * 2);
            j = h * i;
            s1 = (y1 * z2 * z2z2) mod cP c;
            s2 = (y2 * z1 * z1z1) mod cP c;
            r = fix_sign c (s2 - s1) * 2;
            v = u1 * i;
            x3 = (r * r - j - v - v) mod cP c;
            y3 = (r * (v - x3) - s1 * j * 2) mod cP c;
            z3 = (fix_sign c (fix_sign c ((z1 + z2) * (z1 + z2) - z1z1) - z2z2) * h) mod cP c
        in (x3, y3, z3))"

definition doubleJacobian :: "BitCurve \<Rightarrow> int \<times> int \<times> int \<Rightarrow> int \<times> int \<times> int" where
  "doubleJacobian c p =
     (case p of (x, y, z) \<Rightarrow>
        let a = x * x;
            b = y * y;
            cc = b * b;
            d = ((x + b) * (x + b) - a - cc) * 2;
            e = 3 * a;
            f = e * e;
            x3 = (f - 2 * d) mod cP c;
            y3 = (e * (d - x3) - 8 * cc) mod cP c;
            z3 = (2 * (y * z)) mod cP c
        in (x3, y3, z3))"

definition BitCurve_Add :: "BitCurve \<Rightarrow> int \<Rightarrow> int \<Rightarrow> int \<Rightarrow> int \<Rightarrow> (int \<times> int) res" where
  "BitCurve_Add c x1 y1 x2 y2 = affineFromJacobian c (addJacobian c (x1, y1, 1) (x2, y2, 1))"

definition BitCurve_Double :: "BitCurve \<Rightarrow> int \<Rightarrow> int \<Rightarrow> (int \<times> int) res" where
  "BitCurve_Double c x1 y1 = affineFromJacobian c (doubleJacobian c (x1, y1, 1))"

definition theCurve :: BitCurve where
  "theCurve =
     \<lparr>cP = 0xFFFFFFFFFFFFFFFFFFFFFFFFFFFFFFFFFFFFFFFFFFFFFFFFFFFFFFFEFFFFFC2F,
      cN = 0xFFFFFFFFFFFFFFFFFFFFFFFFFFFFFFFEBAAEDCE6AF48A03BBFD25E8CD0364141,
      cB = 7,
      cGx = 0x79BE667EF9DCBBAC55A06295CE870B07029BFCDB2DCE28D959F2815B16F81798,
      cGy = 0x483ADA7726A3C4655DA4FBFC0E1108A8FD17B448A68554199C47D08FFB10D4B8,
      cBitSize = 256\<rparr>"

section \<open>Congruences\<close>

definition cg :: "int \<Rightarrow> int \<Rightarrow> int \<Rightarrow> bool" where
  "cg n a b \<longleftrightarrow> n dvd (a - b)"

lemma cg_refl [simp]: "cg n a a"
  by (simp add: cg_def)

lemma cg_sym: "cg n a b \<Longrightarrow> cg n b a"
  unfolding cg_def by (metis dvd_minus_iff minus_diff_eq)

lemma cg_trans [trans]: "cg n a b \<Longrightarrow> cg n b c \<Longrightarrow> cg n a c"
  unfolding cg_def by (metis diff_add_cancel dvd_add_right_iff add_diff_eq diff_add_eq)

lemma cg_add: "cg n a b \<Longrightarrow> cg n c d \<Longrightarrow> cg n (a + c) (b + d)"
proof -
  assume "cg n a b" "cg n c d"
  then have "n dvd (a - b) + (c - d)" by (simp add: cg_def)
  then show ?thesis by (simp add: cg_def algebra_simps)
qed

lemma cg_diff: "cg n a b \<Longrightarrow> cg n c d \<Longrightarrow> cg n (a - c) (b - d)"
proof -
  assume "cg n a b" "cg n c d"
  then have "n dvd (a - b) - (c - d)" by (simp add: cg_def)
  then show ?thesis by (simp add: cg_def algebra_simps)
qed

lemma cg_mult: "cg n a b \<Longrightarrow> cg n c d \<Longrightarrow> cg n (a * c) (b * d)"
proof -
  assume "cg n a b" "cg n c d"
  then have "n dvd (a - b) * c + b * (c - d)" by (simp add: cg_def)
  then show ?thesis by (simp add: cg_def algebra_simps)
qed

lemma cg_zero: "cg n (a - b) 0 \<longleftrightarrow> cg n a b"
  by (simp add: cg_def)

lemma cg_mod [simp]: "cg n (a mod n) a"
  by (simp add: cg_def mod_eq_dvd_iff [symmetric])

lemma cg_iff_mod: "cg n a b \<longleftrightarrow> a mod n = b mod n"
  by (simp add: cg_def mod_eq_dvd_iff)

text \<open>The same with the right-hand side up to an equation, so that a chain of congruences carries a normal form.\<close>

lemma cg_eq: "cg n a b \<Longrightarrow> b = c \<Longrightarrow> cg n a c"
  by simp

lemmas cg_add_eq = cg_eq [OF cg_add] and cg_diff_eq = cg_eq [OF cg_diff] and cg_mult_eq = cg_eq [OF cg_mult]

lemma cg_cancel: "cg n (k * a) (k * b) \<Longrightarrow> coprime k n \<Longrightarrow> cg n a b"
  unfolding cg_def by (metis coprime_commute coprime_dvd_mult_right_iff right_diff_distrib)

lemma cg_fix_sign: "cg (cP c) (fix_sign c h) h"
  by (simp add: fix_sign_def cg_def)

lemma IsOnCurve_cg: "IsOnCurve c x y \<longleftrightarrow> cg (cP c) (y * y) (x * x * x + cB c)"
  by (auto simp: IsOnCurve_def cg_iff_mod)

lemma ModInverse_Some:
  assumes "0 < n" "ModInverse g n = Some i"
  shows "cg n (g * i) 1"
proof -
  let ?b = "bezw (nat (g mod n)) (nat n)"
  have g: "gcd (g mod n) n = 1" and i: "i = fst ?b mod n" using assms(2) by (auto simp: ModInverse_def split: if_splits)
  have nn: "int (nat (g mod n)) = g mod n" "int (nat n) = n" using assms(1) by simp_all
  have "int (gcd (nat (g mod n)) (nat n)) = 1" using g nn by (metis gcd_int_int_eq)
  then have e: "fst ?b * (g mod n) + snd ?b * n = 1" using bezw_aux [of "nat (g mod n)" "nat n"] nn by simp
  have "cg n (g * i) (g mod n * fst ?b)" unfolding i by (intro cg_mult cg_mod cg_sym [OF cg_mod])
  also have "cg n (g mod n * fst ?b) 1"
  proof -
    have "g mod n * fst ?b - 1 = n * (- snd ?b)" using e by (simp add: algebra_simps)
    then show ?thesis unfolding cg_def by (metis dvd_triv_left)
  qed
  finally show ?thesis .
qed

lemma ModInverse_None: "ModInverse g n = None \<longleftrightarrow> \<not> coprime g n"
  by (simp add: ModInverse_def coprime_iff_gcd_eq_1 gcd.commute gcd_red_int [symmetric])

lemma ModInverse_ex: "0 < n \<Longrightarrow> coprime g n \<Longrightarrow> \<exists>i. ModInverse g n = Some i \<and> cg n (g * i) 1"
  using ModInverse_None [of g n] ModInverse_Some [of n g] by (cases "ModInverse g n") auto

section \<open>Jacobian coordinates\<close>

text \<open>The Jacobian triple \<open>(X, Y, Z)\<close> stands for the point \<open>(X / Z\<^sup>2, Y / Z\<^sup>3)\<close>.\<close>

definition jac :: "int \<Rightarrow> int \<times> int \<times> int \<Rightarrow> int \<Rightarrow> int \<Rightarrow> bool" where
  "jac n p x y = (case p of (X, Y, Z) \<Rightarrow> cg n X (x * Z ^ 2) \<and> cg n Y (y * Z ^ 3))"

lemma jac_one [simp]: "jac n (x, y, 1) x y"
  by (simp add: jac_def)

lemma affineFromJacobian_jac:
  assumes P: "0 < cP c" and j: "jac (cP c) (X, Y, Z) x y" and z: "coprime Z (cP c)"
  shows "affineFromJacobian c (X, Y, Z) = Inr (x mod cP c, y mod cP c)"
proof -
  obtain i where i: "ModInverse Z (cP c) = Some i" and zi: "cg (cP c) (Z * i) 1" using ModInverse_ex [OF P z] by blast
  have p2: "cg (cP c) ((Z * i) * (Z * i)) 1" by (rule cg_mult_eq [OF zi zi]) simp
  have p3: "cg (cP c) ((Z * i) * ((Z * i) * (Z * i))) 1" by (rule cg_mult_eq [OF zi p2]) simp
  have X: "cg (cP c) X (x * Z ^ 2)" and Y: "cg (cP c) Y (y * Z ^ 3)" using j by (auto simp: jac_def)
  have "cg (cP c) (X * (i * i)) (x * ((Z * i) * (Z * i)))"
    by (rule cg_mult_eq [OF X cg_refl]) (simp add: power2_eq_square algebra_simps)
  also have "cg (cP c) \<dots> x" by (rule cg_mult_eq [OF cg_refl p2]) simp
  finally have x: "(X * (i * i)) mod cP c = x mod cP c" by (simp add: cg_iff_mod)
  have "cg (cP c) (Y * (i * i * i)) (y * ((Z * i) * ((Z * i) * (Z * i))))"
    by (rule cg_mult_eq [OF Y cg_refl]) (simp add: power3_eq_cube algebra_simps)
  also have "cg (cP c) \<dots> y" by (rule cg_mult_eq [OF cg_refl p3]) simp
  finally have y: "(Y * (i * i * i)) mod cP c = y mod cP c" by (simp add: cg_iff_mod)
  show ?thesis using i x y by (simp add: affineFromJacobian_def Let_def)
qed

lemma cg_modL: "cg n a b \<Longrightarrow> cg n (a mod n) b"
  by (simp add: cg_iff_mod)

lemma cg_fix: "cg (cP c) h k \<Longrightarrow> cg (cP c) (fix_sign c h) k"
  using cg_trans [OF cg_fix_sign] .

lemma jacI:
  assumes X: "cg n X (x * K ^ 2)" and Y: "cg n Y (y * K ^ 3)" and Z: "cg n Z K"
  shows "jac n (X, Y, Z) x y"
proof -
  have "cg n (x * K ^ 2) (x * Z ^ 2)" "cg n (y * K ^ 3) (y * Z ^ 3)"
    unfolding power2_eq_square power3_eq_cube by (intro cg_mult cg_refl cg_sym [OF Z])+
  with X Y show ?thesis by (simp add: jac_def cg_trans [OF X] cg_trans [OF Y])
qed

text \<open>The sum, on the chord with slope \<open>l\<close> through the two points.\<close>

lemma addJacobian_jac:
  assumes p: "jac (cP c) (X1, Y1, Z1) x1 y1" and q: "jac (cP c) (X2, Y2, Z2) x2 y2"
    and l: "cg (cP c) (y2 - y1) (l * (x2 - x1))"
  defines "x3 \<equiv> l ^ 2 - x1 - x2"
  defines "y3 \<equiv> l * (x1 - x3) - y1"
  shows "\<exists>X Y Z. addJacobian c (X1, Y1, Z1) (X2, Y2, Z2) = (X, Y, Z) \<and> jac (cP c) (X, Y, Z) x3 y3
     \<and> cg (cP c) Z (2 * (x2 - x1) * (Z1 * Z2) ^ 3)"
proof -
  let ?n = "cP c" and ?d = "x2 - x1" and ?W = "Z1 * Z2"
  have X1: "cg ?n X1 (x1 * Z1 ^ 2)" and Y1: "cg ?n Y1 (y1 * Z1 ^ 3)" using p by (auto simp: jac_def)
  have X2: "cg ?n X2 (x2 * Z2 ^ 2)" and Y2: "cg ?n Y2 (y2 * Z2 ^ 3)" using q by (auto simp: jac_def)
  define z1z1 where "z1z1 = (Z1 * Z1) mod ?n"
  define z2z2 where "z2z2 = (Z2 * Z2) mod ?n"
  define u1 where "u1 = (X1 * z2z2) mod ?n"
  define u2 where "u2 = (X2 * z1z1) mod ?n"
  define h where "h = fix_sign c (u2 - u1)"
  define i where "i = (h * 2) * (h * 2)"
  define j where "j = h * i"
  define s1 where "s1 = (Y1 * Z2 * z2z2) mod ?n"
  define s2 where "s2 = (Y2 * Z1 * z1z1) mod ?n"
  define r where "r = fix_sign c (s2 - s1) * 2"
  define v where "v = u1 * i"
  define X where "X = (r * r - j - v - v) mod ?n"
  define Y where "Y = (r * (v - X) - s1 * j * 2) mod ?n"
  define Z where "Z = (fix_sign c (fix_sign c ((Z1 + Z2) * (Z1 + Z2) - z1z1) - z2z2) * h) mod ?n"
  have a: "addJacobian c (X1, Y1, Z1) (X2, Y2, Z2) = (X, Y, Z)"
    by (simp only: addJacobian_def prod.case Let_def z1z1_def z2z2_def u1_def u2_def h_def i_def j_def s1_def s2_def r_def v_def X_def Y_def Z_def)
  have zz1: "cg ?n z1z1 (Z1 ^ 2)" and zz2: "cg ?n z2z2 (Z2 ^ 2)" by (simp_all add: z1z1_def z2z2_def power2_eq_square)
  have u1: "cg ?n u1 (x1 * ?W ^ 2)" unfolding u1_def by (rule cg_modL, rule cg_mult_eq [OF X1 zz2]) (simp add: power_mult_distrib)
  have u2: "cg ?n u2 (x2 * ?W ^ 2)" unfolding u2_def by (rule cg_modL, rule cg_mult_eq [OF X2 zz1]) (simp add: power_mult_distrib)
  have h: "cg ?n h (?d * ?W ^ 2)" unfolding h_def by (rule cg_fix, rule cg_diff_eq [OF u2 u1]) (simp add: algebra_simps)
  have i: "cg ?n i (4 * ?d ^ 2 * ?W ^ 4)" unfolding i_def
    by (rule cg_mult_eq [OF cg_mult [OF h cg_refl] cg_mult [OF h cg_refl]]) algebra
  have j: "cg ?n j (4 * ?d ^ 3 * ?W ^ 6)" unfolding j_def by (rule cg_mult_eq [OF h i]) algebra
  have s1: "cg ?n s1 (y1 * ?W ^ 3)" unfolding s1_def
    by (rule cg_modL, rule cg_mult_eq [OF cg_mult [OF Y1 cg_refl] zz2]) algebra
  have s2: "cg ?n s2 (y2 * ?W ^ 3)" unfolding s2_def
    by (rule cg_modL, rule cg_mult_eq [OF cg_mult [OF Y2 cg_refl] zz1]) algebra
  have "cg ?n (s2 - s1) ((y2 - y1) * ?W ^ 3)" by (rule cg_diff_eq [OF s2 s1]) (simp add: algebra_simps)
  also have "cg ?n \<dots> (l * ?d * ?W ^ 3)" by (rule cg_mult [OF l cg_refl])
  finally have s: "cg ?n (s2 - s1) (l * ?d * ?W ^ 3)" .
  have r: "cg ?n r (2 * l * ?d * ?W ^ 3)" unfolding r_def by (rule cg_mult_eq [OF cg_fix [OF s] cg_refl]) simp
  have v: "cg ?n v (4 * x1 * ?d ^ 2 * ?W ^ 6)" unfolding v_def by (rule cg_mult_eq [OF u1 i]) algebra
  have Z: "cg ?n Z (2 * ?d * ?W ^ 3)" unfolding Z_def
    by (rule cg_modL, rule cg_mult_eq [OF cg_fix [OF cg_diff [OF cg_fix [OF cg_diff [OF cg_refl zz1]] zz2]] h]) algebra
  have X: "cg ?n X (x3 * (2 * ?d * ?W ^ 3) ^ 2)" unfolding X_def x3_def
    by (rule cg_modL, rule cg_diff_eq [OF cg_diff [OF cg_diff [OF cg_mult [OF r r] j] v] v]) algebra
  have Y: "cg ?n Y (y3 * (2 * ?d * ?W ^ 3) ^ 3)" unfolding Y_def y3_def
    by (rule cg_modL, rule cg_diff_eq [OF cg_mult [OF r cg_diff [OF v X]] cg_mult [OF cg_mult [OF s1 j] cg_refl]]) algebra
  have "jac ?n (X, Y, Z) x3 y3" by (rule jacI [OF X Y Z])
  with a Z show ?thesis by blast
qed

text \<open>The double, on the tangent with slope \<open>l\<close>.\<close>

lemma doubleJacobian_jac:
  assumes p: "jac (cP c) (X1, Y1, Z1) x1 y1" and l: "cg (cP c) (3 * x1 ^ 2) (l * (2 * y1))"
  defines "x3 \<equiv> l ^ 2 - x1 - x1"
  defines "y3 \<equiv> l * (x1 - x3) - y1"
  shows "\<exists>X Y Z. doubleJacobian c (X1, Y1, Z1) = (X, Y, Z) \<and> jac (cP c) (X, Y, Z) x3 y3 \<and> cg (cP c) Z (2 * y1 * Z1 ^ 4)"
proof -
  let ?n = "cP c"
  have x: "cg ?n X1 (x1 * Z1 ^ 2)" and y: "cg ?n Y1 (y1 * Z1 ^ 3)" using p by (auto simp: jac_def)
  define a where "a = X1 * X1"
  define b where "b = Y1 * Y1"
  define cc where "cc = b * b"
  define d where "d = ((X1 + b) * (X1 + b) - a - cc) * 2"
  define e where "e = 3 * a"
  define X where "X = (e * e - 2 * d) mod ?n"
  define Y where "Y = (e * (d - X) - 8 * cc) mod ?n"
  define Z where "Z = (2 * (Y1 * Z1)) mod ?n"
  have r: "doubleJacobian c (X1, Y1, Z1) = (X, Y, Z)"
    by (simp only: doubleJacobian_def prod.case Let_def a_def b_def cc_def d_def e_def X_def Y_def Z_def)
  have a: "cg ?n a (x1 ^ 2 * Z1 ^ 4)" unfolding a_def by (rule cg_mult_eq [OF x x]) algebra
  have b: "cg ?n b (y1 ^ 2 * Z1 ^ 6)" unfolding b_def by (rule cg_mult_eq [OF y y]) algebra
  have cc: "cg ?n cc (y1 ^ 4 * Z1 ^ 12)" unfolding cc_def by (rule cg_mult_eq [OF b b]) algebra
  have d: "cg ?n d (4 * x1 * y1 ^ 2 * Z1 ^ 8)" unfolding d_def
    by (rule cg_mult_eq [OF cg_diff [OF cg_diff [OF cg_mult [OF cg_add [OF x b] cg_add [OF x b]] a] cc] cg_refl]) algebra
  have "cg ?n e (3 * x1 ^ 2 * Z1 ^ 4)" unfolding e_def by (rule cg_mult_eq [OF cg_refl a]) simp
  also have "cg ?n \<dots> (l * (2 * y1) * Z1 ^ 4)" by (rule cg_mult [OF l cg_refl])
  finally have e: "cg ?n e (2 * l * y1 * Z1 ^ 4)" by (simp add: algebra_simps)
  have X: "cg ?n X (x3 * (2 * y1 * Z1 ^ 4) ^ 2)" unfolding X_def x3_def
    by (rule cg_modL, rule cg_diff_eq [OF cg_mult [OF e e] cg_mult [OF cg_refl d]]) algebra
  have Y: "cg ?n Y (y3 * (2 * y1 * Z1 ^ 4) ^ 3)" unfolding Y_def y3_def
    by (rule cg_modL, rule cg_diff_eq [OF cg_mult [OF e cg_diff [OF d X]] cg_mult [OF cg_refl cc]]) algebra
  have Z: "cg ?n Z (2 * y1 * Z1 ^ 4)" unfolding Z_def by (rule cg_modL, rule cg_mult_eq [OF cg_refl cg_mult [OF y cg_refl]]) algebra
  have "jac ?n (X, Y, Z) x3 y3" by (rule jacI [OF X Y Z])
  with r Z show ?thesis by blast
qed

section \<open>The group law in affine coordinates\<close>

lemma cg_coprime: "cg n a b \<Longrightarrow> coprime b n \<Longrightarrow> coprime a n"
  unfolding cg_iff_mod by (metis coprime_mod_left_iff coprime_commute mod_by_0 coprime_0_right_iff)

lemma slope_ex:
  assumes "0 < n" "coprime k n"
  shows "\<exists>l. cg n a (l * k)"
proof -
  obtain i where "cg n (k * i) 1" using ModInverse_ex [OF assms] by blast
  then have "cg n (a * (k * i)) a" by (rule cg_mult_eq [OF cg_refl]) simp
  then have "cg n a (a * (k * i))" by (rule cg_sym)
  then have "cg n a ((a * i) * k)" by (simp only: mult_ac)
  then show ?thesis by blast
qed

text \<open>A line through two points of the curve meets it again in the third point.\<close>

lemma chord_on_curve:
  assumes p: "cg n (y1 * y1) (x1 * x1 * x1 + b)" and q: "cg n (y2 * y2) (x2 * x2 * x2 + b)"
    and l: "cg n (y2 - y1) (l * (x2 - x1))" and cop: "coprime (x2 - x1) n"
  defines "x3 \<equiv> l ^ 2 - x1 - x2"
  defines "y3 \<equiv> l * (x1 - x3) - y1"
  shows "cg n (y3 * y3) (x3 * x3 * x3 + b)"
proof -
  let ?f = "\<lambda>t. (l * (t - x1) + y1) * (l * (t - x1) + y1) - (t * t * t + b)"
  have f1: "cg n (?f x1) 0" using cg_diff [OF p cg_refl [of n "x1 * x1 * x1 + b"]] by simp
  have "cg n (l * (x2 - x1) + y1) y2" using cg_add [OF cg_sym [OF l] cg_refl [of n y1]] by simp
  note e = this
  have "cg n (?f x2) (y2 * y2 - (x2 * x2 * x2 + b))" by (rule cg_diff [OF cg_mult [OF e e] cg_refl])
  also have "cg n \<dots> 0" using cg_diff [OF q cg_refl [of n "x2 * x2 * x2 + b"]] by simp
  finally have f2: "cg n (?f x2) 0" .
  have "(x2 - x1) * ?f x3 = (x2 - x3) * ?f x1 + (x3 - x1) * ?f x2 + (x2 - x1) * (x3 - x1) * (x3 - x2) * (l * l - x1 - x2 - x3)"
    by (simp add: algebra_simps)
  then have "(x2 - x1) * ?f x3 = (x2 - x3) * ?f x1 + (x3 - x1) * ?f x2" by (simp add: x3_def power2_eq_square)
  moreover have "cg n ((x2 - x3) * ?f x1 + (x3 - x1) * ?f x2) 0"
    by (rule cg_add_eq [OF cg_mult [OF cg_refl f1] cg_mult [OF cg_refl f2]]) simp
  ultimately have "cg n ((x2 - x1) * ?f x3) ((x2 - x1) * 0)" by simp
  then have "cg n (?f x3) 0" using cop by (rule cg_cancel)
  moreover have "l * (x3 - x1) + y1 = - y3" unfolding y3_def by (simp add: algebra_simps)
  ultimately show ?thesis by (simp add: cg_zero)
qed

lemma tangent_on_curve:
  assumes p: "cg n (y1 * y1) (x1 * x1 * x1 + b)" and l: "cg n (3 * x1 ^ 2) (l * (2 * y1))"
  defines "x3 \<equiv> l ^ 2 - x1 - x1"
  defines "y3 \<equiv> l * (x1 - x3) - y1"
  shows "cg n (y3 * y3) (x3 * x3 * x3 + b)"
proof -
  have "y3 * y3 - (x3 * x3 * x3 + b) = (y1 * y1 - (x1 * x1 * x1 + b)) + (x3 - x1) * (l * (2 * y1) - 3 * x1 ^ 2)"
    unfolding y3_def x3_def by algebra
  moreover have "cg n \<dots> 0"
  proof (rule cg_add_eq)
    show "cg n (y1 * y1 - (x1 * x1 * x1 + b)) 0" using cg_diff [OF p cg_refl [of n "x1 * x1 * x1 + b"]] by simp
    show "cg n ((x3 - x1) * (l * (2 * y1) - 3 * x1 ^ 2)) ((x3 - x1) * 0)"
      using cg_diff [OF cg_sym [OF l] cg_refl [of n "3 * x1 ^ 2"]] by (intro cg_mult) simp_all
  qed simp
  ultimately have "cg n (y3 * y3 - (x3 * x3 * x3 + b)) 0" by (simp only:)
  then show ?thesis by (simp only: cg_zero)
qed

lemma IsOnCurve_mod [simp]: "IsOnCurve c (x mod cP c) (y mod cP c) = IsOnCurve c x y"
proof -
  have x: "cg (cP c) (x mod cP c * (x mod cP c) * (x mod cP c) + cB c) (x * x * x + cB c)"
    by (intro cg_add cg_mult cg_mod cg_refl)
  have y: "cg (cP c) (y mod cP c * (y mod cP c)) (y * y)" by (intro cg_mult cg_mod)
  show ?thesis using x y by (simp only: IsOnCurve_cg cg_iff_mod)
qed

lemma line_mod: "(l * (x1 - x3) - y1) mod n = (l * (x1 - x3 mod n) - (y1::int)) mod n"
  unfolding cg_iff_mod [symmetric] by (intro cg_diff cg_mult cg_refl cg_sym [OF cg_mod])

text \<open>
  \<^bold>\<open>C22.\<close> Adding two points of the curve with different first coordinates (so that twice the difference is
  invertible in the field) follows the chord law: \<open>BitCurve.Add\<close> returns the reduced coordinates of the
  third intersection of the line through the points, reflected, and the result is again on the curve.
\<close>

theorem BitCurve_Add_chord:
  assumes P: "1 < cP c" and cop: "coprime (2 * (x2 - x1)) (cP c)"
    and on: "IsOnCurve c x1 y1" "IsOnCurve c x2 y2"
  shows "\<exists>l x3 y3. BitCurve_Add c x1 y1 x2 y2 = Inr (x3, y3)
     \<and> (l * (x2 - x1)) mod cP c = (y2 - y1) mod cP c
     \<and> x3 = (l ^ 2 - x1 - x2) mod cP c \<and> y3 = (l * (x1 - x3) - y1) mod cP c
     \<and> x3 \<in> {0..<cP c} \<and> y3 \<in> {0..<cP c} \<and> IsOnCurve c x3 y3"
proof -
  let ?n = "cP c"
  have n: "0 < ?n" using P by simp
  have cd: "coprime (x2 - x1) ?n" using cop by (simp only: coprime_mult_left_iff)
  obtain l where l: "cg ?n (y2 - y1) (l * (x2 - x1))" using slope_ex [OF n cd] by blast
  define x3 where "x3 = l ^ 2 - x1 - x2"
  define y3 where "y3 = l * (x1 - x3) - y1"
  obtain X Y Z where a: "addJacobian c (x1, y1, 1) (x2, y2, 1) = (X, Y, Z)" and j: "jac ?n (X, Y, Z) x3 y3"
    and Z: "cg ?n Z (2 * (x2 - x1) * (1 * 1) ^ 3)"
    using addJacobian_jac [OF jac_one jac_one l] unfolding x3_def y3_def by blast
  have "coprime Z ?n" using cg_coprime [OF Z] cop by simp
  then have r: "BitCurve_Add c x1 y1 x2 y2 = Inr (x3 mod ?n, y3 mod ?n)"
    using affineFromJacobian_jac [OF n j] a by (simp add: BitCurve_Add_def)
  have "IsOnCurve c x3 y3" using chord_on_curve [OF _ _ l cd] on unfolding IsOnCurve_cg x3_def y3_def by blast
  then have o3: "IsOnCurve c (x3 mod ?n) (y3 mod ?n)" by simp
  have xe: "x3 mod ?n = (l ^ 2 - x1 - x2) mod ?n" by (simp only: x3_def)
  have ye: "y3 mod ?n = (l * (x1 - x3 mod ?n) - y1) mod ?n" unfolding y3_def by (rule line_mod)
  have le: "(l * (x2 - x1)) mod ?n = (y2 - y1) mod ?n" using l by (simp only: cg_iff_mod)
  show ?thesis
    by (intro exI [of _ l] exI [of _ "x3 mod ?n"] exI [of _ "y3 mod ?n"] conjI r le xe ye o3) (use n in simp_all)
qed

text \<open>
  Doubling a point of the curve whose second coordinate is not zero follows the tangent law, and the
  result is again on the curve.
\<close>

theorem BitCurve_Double_tangent:
  assumes P: "1 < cP c" and cop: "coprime (2 * y1) (cP c)" and on: "IsOnCurve c x1 y1"
  shows "\<exists>l x3 y3. BitCurve_Double c x1 y1 = Inr (x3, y3)
     \<and> (l * (2 * y1)) mod cP c = (3 * x1 ^ 2) mod cP c
     \<and> x3 = (l ^ 2 - 2 * x1) mod cP c \<and> y3 = (l * (x1 - x3) - y1) mod cP c
     \<and> x3 \<in> {0..<cP c} \<and> y3 \<in> {0..<cP c} \<and> IsOnCurve c x3 y3"
proof -
  let ?n = "cP c"
  have n: "0 < ?n" using P by simp
  obtain l where l: "cg ?n (3 * x1 ^ 2) (l * (2 * y1))" using slope_ex [OF n cop] by blast
  define x3 where "x3 = l ^ 2 - x1 - x1"
  define y3 where "y3 = l * (x1 - x3) - y1"
  obtain X Y Z where a: "doubleJacobian c (x1, y1, 1) = (X, Y, Z)" and j: "jac ?n (X, Y, Z) x3 y3"
    and Z: "cg ?n Z (2 * y1 * 1 ^ 4)"
    using doubleJacobian_jac [OF jac_one l] unfolding x3_def y3_def by blast
  have "coprime Z ?n" using cg_coprime [OF Z] cop by simp
  then have r: "BitCurve_Double c x1 y1 = Inr (x3 mod ?n, y3 mod ?n)"
    using affineFromJacobian_jac [OF n j] a by (simp add: BitCurve_Double_def)
  have "IsOnCurve c x3 y3" using tangent_on_curve [OF _ l] on unfolding IsOnCurve_cg x3_def y3_def by blast
  then have o3: "IsOnCurve c (x3 mod ?n) (y3 mod ?n)" by simp
  have "x3 = l ^ 2 - 2 * x1" by (simp add: x3_def)
  then have xe: "x3 mod ?n = (l ^ 2 - 2 * x1) mod ?n" by (simp only:)
  have ye: "y3 mod ?n = (l * (x1 - x3 mod ?n) - y1) mod ?n" unfolding y3_def by (rule line_mod)
  have le: "(l * (2 * y1)) mod ?n = (3 * x1 ^ 2) mod ?n" using l by (simp only: cg_iff_mod)
  show ?thesis
    by (intro exI [of _ l] exI [of _ "x3 mod ?n"] exI [of _ "y3 mod ?n"] conjI r le xe ye o3) (use n in simp_all)
qed

definition small_curve :: BitCurve where
  "small_curve = \<lparr>cP = 17, cN = 18, cB = 7, cGx = 15, cGy = 13, cBitSize = 5\<rparr>"

theorem BitCurve_Add_chord_witness:
  "IsOnCurve small_curve 1 5 \<and> IsOnCurve small_curve 2 7 \<and>
   (\<exists>x3 y3. BitCurve_Add small_curve 1 5 2 7 = Inr (x3, y3) \<and> IsOnCurve small_curve x3 y3)"
proof -
  have on: "IsOnCurve small_curve 1 5" "IsOnCurve small_curve 2 7" "1 < cP small_curve" by code_simp+
  have "coprime (2 * (2 - 1)) (cP small_curve)" by code_simp
  then show ?thesis using BitCurve_Add_chord [of small_curve 2 1 5 7] on by blast
qed

theorem BitCurve_Double_tangent_witness:
  "IsOnCurve small_curve 1 5 \<and> (\<exists>x3 y3. BitCurve_Double small_curve 1 5 = Inr (x3, y3) \<and> IsOnCurve small_curve x3 y3)"
proof -
  have on: "IsOnCurve small_curve 1 5" "1 < cP small_curve" by code_simp+
  have "coprime (2 * 5) (cP small_curve)" by code_simp
  then show ?thesis using BitCurve_Double_tangent [of small_curve 5 1] on by blast
qed

text \<open>Adding a point to itself, or to a point with the same first coordinate, dereferences a nil inverse.\<close>

lemma BitCurve_Add_same_x_panics:
  assumes "1 < cP c"
  shows "BitCurve_Add c x y1 x y2 = Inl (Panic ''invalid memory address or nil pointer dereference'')"
proof -
  have z: "fix_sign c 0 = 0" by (simp add: fix_sign_def big_Sign_def)
  have "\<exists>X Y. addJacobian c (x, y1, 1) (x, y2, 1) = (X, Y, 0)"
    unfolding addJacobian_def prod.case Let_def diff_self z by (simp only: mult_zero_right mod_0) blast
  then obtain X Y where a: "addJacobian c (x, y1, 1) (x, y2, 1) = (X, Y, 0)" by blast
  have "ModInverse 0 (cP c) = None" using assms by (simp add: ModInverse_None)
  then show ?thesis using a by (simp add: BitCurve_Add_def affineFromJacobian_def)
qed

end
