(* ===== verification/Secp.thy ===== *)
theory Secp
  imports HdPath Curve
begin

text \<open>
  Points, keys and signatures of secp256k1: the encodings of \<open>internal/secp256k1/curve.go\<close>, the wrappers of the C library in
  \<open>internal/secp256k1/secp256.go\<close>, the keys of \<open>crypto/keys/secp256k1/secp256k1.go\<close> and the signatures of
  \<open>secp256k1_nocgo.go\<close>. The C library, btcec and the hash functions are parameters. A nil pair of coordinates is \<open>None\<close>.
\<close>

section \<open>Points as bytes\<close>

text \<open>\<open>big.Int.Bits\<close>: the words of the absolute value, the lowest first, on a machine with 64 bit words.\<close>

definition wordBytes :: nat where "wordBytes = 8"

function nat_words :: "nat \<Rightarrow> (64 word) list" where
  "nat_words n = (if n = 0 then [] else of_nat n # nat_words (n div 2 ^ 64))"
  by pat_completeness auto
termination
  by (relation "measure id") auto

declare nat_words.simps [simp del]

definition big_Bits :: "int \<Rightarrow> (64 word) list" where
  "big_Bits x = nat_words (nat \<bar>x\<bar>)"

text \<open>The inner loop writes at most \<open>k\<close> bytes of a word, towards the front of the buffer.\<close>

fun readBits_word :: "nat \<Rightarrow> 64 word \<Rightarrow> bytes \<Rightarrow> nat \<Rightarrow> bytes \<times> nat" where
  "readBits_word 0 d buf i = (buf, i)"
| "readBits_word (Suc k) d buf 0 = (buf, 0)"
| "readBits_word (Suc k) d buf (Suc i) = readBits_word k (drop_bit 8 d) (buf[i := ucast d]) i"

definition readBits :: "int \<Rightarrow> bytes \<Rightarrow> bytes" where
  "readBits bigint buf = fst (foldl (\<lambda>(b, i) d. readBits_word wordBytes d b i) (buf, length buf) (big_Bits bigint))"

definition byteLen :: "BitCurve \<Rightarrow> nat" where
  "byteLen c = drop_bit 3 (cBitSize c + 7)"

definition BitCurve_Marshal :: "BitCurve \<Rightarrow> int \<Rightarrow> int \<Rightarrow> bytes" where
  "BitCurve_Marshal c x y =
     4 # readBits x (replicate (byteLen c) 0) @ readBits y (replicate (byteLen c) 0)"

definition BitCurve_Unmarshal :: "BitCurve \<Rightarrow> bytes \<Rightarrow> (int \<times> int) option" where
  "BitCurve_Unmarshal c data =
     (if length data \<noteq> 1 + 2 * byteLen c then None
      else if data ! 0 \<noteq> 4 then None
      else Some (SetBytes (take (byteLen c) (drop 1 data)), SetBytes (drop (1 + byteLen c) data)))"

text \<open>The C functions: a status of one is success; buffers the C code fills are results.\<close>

record Libsecp =
  ext_scalar_mul :: "bytes \<Rightarrow> bytes \<Rightarrow> bytes \<times> int"
  ec_seckey_verify :: "bytes \<Rightarrow> int"
  ecdsa_sign_recoverable :: "bytes \<Rightarrow> bytes \<Rightarrow> (bytes \<times> 8 word) option"
  ext_ecdsa_recover :: "bytes \<Rightarrow> bytes \<Rightarrow> bytes option"
  ext_ecdsa_verify :: "bytes \<Rightarrow> bytes \<Rightarrow> bytes \<Rightarrow> bool"
  ext_reencode_pubkey :: "nat \<Rightarrow> bytes \<Rightarrow> bytes option"

definition ScalarMult :: "Libsecp \<Rightarrow> int \<Rightarrow> int \<Rightarrow> bytes \<Rightarrow> (int \<times> int) option res" where
  "ScalarMult C Bx By scalar =
     (if 32 < length scalar then Inl (Panic ''can't handle scalars > 256 bits'')
      else
        let padded = replicate (32 - length scalar) 0 @ scalar;
            point = readBits Bx (replicate 32 0) @ readBits By (replicate 32 0);
            (pt, res) = ext_scalar_mul C point padded;
            x = SetBytes (take 32 pt);
            y = SetBytes (drop 32 pt)
        in if res \<noteq> 1 then Inr None else Inr (Some (x, y)))"

definition ScalarBaseMult :: "Libsecp \<Rightarrow> BitCurve \<Rightarrow> bytes \<Rightarrow> (int \<times> int) option res" where
  "ScalarBaseMult C c k = ScalarMult C (cGx c) (cGy c) k"

definition S256 :: BitCurve where
  "S256 = theCurve"

section \<open>The wrappers of the C library (\<open>secp256.go\<close>)\<close>

definition checkSignature :: "bytes \<Rightarrow> unit res" where
  "checkSignature sig =
     (if length sig \<noteq> 65 then Inl (Err ''invalid signature length'')
      else if 4 \<le> sig ! 64 then Inl (Err ''invalid signature recovery id'')
      else Inr ())"

definition secp_Sign :: "Libsecp \<Rightarrow> bytes \<Rightarrow> bytes \<Rightarrow> bytes res" where
  "secp_Sign C msg seckey =
     (if length msg \<noteq> 32 then Inl (Err ''invalid message length, need 32 bytes'')
      else if length seckey \<noteq> 32 then Inl (Err ''invalid private key'')
      else if ec_seckey_verify C seckey \<noteq> 1 then Inl (Err ''invalid private key'')
      else case ecdsa_sign_recoverable C msg seckey of
             None \<Rightarrow> Inl (Err ''signing failed'')
           | Some (sig, recid) \<Rightarrow> Inr (take 64 sig @ [recid]))"

definition RecoverPubkey :: "Libsecp \<Rightarrow> bytes \<Rightarrow> bytes \<Rightarrow> bytes res" where
  "RecoverPubkey C msg sig =
     (if length msg \<noteq> 32 then Inl (Err ''invalid message length, need 32 bytes'')
      else bindR (checkSignature sig) (\<lambda>_.
        case ext_ecdsa_recover C sig msg of None \<Rightarrow> Inl (Err ''recovery failed'') | Some pubkey \<Rightarrow> Inr pubkey))"

definition secp_VerifySignature :: "Libsecp \<Rightarrow> bytes \<Rightarrow> bytes \<Rightarrow> bytes \<Rightarrow> bool" where
  "secp_VerifySignature C pubkey msg signature =
     (if length msg \<noteq> 32 \<or> length signature \<noteq> 64 \<or> length pubkey = 0 then False
      else ext_ecdsa_verify C signature msg pubkey)"

definition DecompressPubkey :: "Libsecp \<Rightarrow> bytes \<Rightarrow> (int \<times> int) option" where
  "DecompressPubkey C pubkey =
     (if length pubkey \<noteq> 33 then None
      else case ext_reencode_pubkey C 65 pubkey of
             None \<Rightarrow> None
           | Some out \<Rightarrow> Some (SetBytes (take 32 (drop 1 out)), SetBytes (drop 33 out)))"

definition CompressPubkey :: "Libsecp \<Rightarrow> int \<Rightarrow> int \<Rightarrow> bytes res" where
  "CompressPubkey C x y =
     (case ext_reencode_pubkey C 33 (BitCurve_Marshal S256 x y) of
        None \<Rightarrow> Inl (Panic ''libsecp256k1 error'')
      | Some out \<Rightarrow> Inr out)"

section \<open>Keys (\<open>secp256k1.go\<close>)\<close>

definition PrivKeySize :: nat where "PrivKeySize = 32"
definition PubKeySize :: nat where "PubKeySize = 33"

definition PrivKey_UnmarshalAmino :: "bytes \<Rightarrow> bytes res" where
  "PrivKey_UnmarshalAmino bz = (if length bz \<noteq> PrivKeySize then Inl (Err ''invalid privkey size'') else Inr bz)"

definition PubKey_UnmarshalAmino :: "bytes \<Rightarrow> bytes res" where
  "PubKey_UnmarshalAmino bz = (if length bz \<noteq> PubKeySize then Inl (Err ''invalid pubkey size'') else Inr bz)"

definition PubKey_Address :: "(bytes \<Rightarrow> bytes) \<Rightarrow> (bytes \<Rightarrow> bytes) \<Rightarrow> bytes \<Rightarrow> bytes res" where
  "PubKey_Address sha256 ripemd160 key =
     (if length key \<noteq> PubKeySize then Inl (Panic ''length of pubkey is incorrect'') else Inr (ripemd160 (sha256 key)))"

text \<open>The reader is the list of the bytes it still has; \<open>io.ReadFull\<close> fails on a shorter list.\<close>

function genPrivKey :: "int \<Rightarrow> bytes \<Rightarrow> (bytes \<times> bytes) res" where
  "genPrivKey N rand =
     (if length rand < PrivKeySize then Inl (Panic ''unexpected EOF'')
      else
        let privKeyBytes = take PrivKeySize rand;
            d = SetBytes privKeyBytes;
            isValidFieldElement = (0 < big_Sign d \<and> big_Cmp d N < 0)
        in if isValidFieldElement then Inr (privKeyBytes, drop PrivKeySize rand)
           else genPrivKey N (drop PrivKeySize rand))"
  by pat_completeness auto
termination
  by (relation "measure (\<lambda>(N, rand). length rand)") (auto simp: PrivKeySize_def)

declare genPrivKey.simps [simp del]

definition pad32 :: "bytes \<Rightarrow> bytes res" where
  "pad32 b = (if 32 < length b then Inl (Panic ''slice bounds out of range'') else Inr (replicate (32 - length b) 0 @ b))"

definition GenPrivKeyFromSecret :: "(bytes \<Rightarrow> bytes) \<Rightarrow> int \<Rightarrow> bytes \<Rightarrow> bytes res" where
  "GenPrivKeyFromSecret sha256 N secret =
     (let secHash = sha256 secret;
          fe = SetBytes secHash mod (N - 1) + 1
      in pad32 (big_Bytes fe))"

section \<open>Signatures (\<open>secp256k1_nocgo.go\<close>)\<close>

record Signature =
  sigR :: int
  sigS :: int

record Btcec =
  bSign :: "bytes \<Rightarrow> bytes \<Rightarrow> Signature res"
  bParsePubKey :: "bytes \<Rightarrow> (int \<times> int) res"
  bVerify :: "Signature \<Rightarrow> bytes \<Rightarrow> int \<times> int \<Rightarrow> bool"
  bN :: int

definition secp256k1halfN :: "Btcec \<Rightarrow> int" where
  "secp256k1halfN B = drop_bit 1 (bN B)"

text \<open>Bytes of \<open>S\<close> beyond 32 would be written over those of \<open>R\<close>.\<close>

definition serializeSig :: "Signature \<Rightarrow> bytes res" where
  "serializeSig sig =
     (let rBytes = big_Bytes (sigR sig);
          sBytes = big_Bytes (sigS sig)
      in if 32 < length rBytes \<or> 64 < length sBytes then Inl (Panic ''slice bounds out of range'')
         else
           let b1 = replicate (32 - length rBytes) 0 @ rBytes @ replicate 32 0
           in Inr (take (64 - length sBytes) b1 @ sBytes))"

definition signatureFromBytes :: "bytes \<Rightarrow> Signature" where
  "signatureFromBytes sigStr = \<lparr>sigR = SetBytes (take 32 sigStr), sigS = SetBytes (take 32 (drop 32 sigStr))\<rparr>"

definition PrivKey_Sign :: "Btcec \<Rightarrow> (bytes \<Rightarrow> bytes) \<Rightarrow> bytes \<Rightarrow> bytes \<Rightarrow> bytes res" where
  "PrivKey_Sign B sha256 key msg = bindR (bSign B key (sha256 msg)) serializeSig"

definition PubKey_VerifySignature :: "Btcec \<Rightarrow> (bytes \<Rightarrow> bytes) \<Rightarrow> bytes \<Rightarrow> bytes \<Rightarrow> bytes \<Rightarrow> bool" where
  "PubKey_VerifySignature B sha256 key msg sigStr =
     (if length sigStr \<noteq> 64 then False
      else case bParsePubKey B key of
             Inl e \<Rightarrow> False
           | Inr pub \<Rightarrow>
               let signature = signatureFromBytes sigStr
               in if 0 < big_Cmp (sigS signature) (secp256k1halfN B) then False
                  else bVerify B signature (sha256 msg) pub)"

section \<open>Big endian bytes\<close>

fun le_bytes :: "nat \<Rightarrow> nat \<Rightarrow> bytes" where
  "le_bytes 0 n = []"
| "le_bytes (Suc k) n = of_nat n # le_bytes k (n div 256)"

lemma length_le_bytes [simp]: "length (le_bytes k n) = k"
  by (induction k arbitrary: n) simp_all

lemma le_bytes_add: "le_bytes (a + b) n = le_bytes a n @ le_bytes b (n div 256 ^ a)"
  by (induction a arbitrary: n) (simp_all add: div_mult2_eq)

lemma of_nat_byte_mod: "(of_nat (n mod (256 * k)) :: 8 word) = of_nat n"
  by (rule word_unat_eq_iff [THEN iffD2]) (simp add: unat_of_nat mod_mod_cancel)

lemma le_bytes_mod: "k \<le> m \<Longrightarrow> le_bytes k (n mod 256 ^ m) = le_bytes k n"
proof (induction k arbitrary: n m)
  case (Suc k)
  then obtain m' where m: "m = Suc m'" by (cases m) auto
  have "n mod 256 ^ m div 256 = (n div 256) mod 256 ^ m'" unfolding m by (simp add: mod_mult2_eq)
  then show ?case using Suc.IH [of m' "n div 256"] Suc.prems by (simp add: m of_nat_byte_mod)
qed simp

lemma uint_of_nat_byte: "uint (of_nat n :: 8 word) = int (n mod 256)"
  by (simp add: uint_nat unat_of_nat)

lemma byte_bound: "unat (b :: 8 word) < 256"
  using unsigned_less [of b, where ?'a = nat] by simp

lemma word64_bound: "unat (d :: 64 word) < 18446744073709551616"
  using unsigned_less [of d, where ?'a = nat] by simp

lemma SetBytes_single: "SetBytes [b] = uint b"
  by (simp add: SetBytes_def)

lemma SetBytes_nonneg [simp]: "0 \<le> SetBytes bs"
  by (induction bs rule: rev_induct) (simp_all add: SetBytes_def)

lemma SetBytes_le_bytes: "SetBytes (rev (le_bytes k n)) = int (n mod 256 ^ k)"
proof (induction k arbitrary: n)
  case (Suc k)
  have "n mod 256 ^ Suc k = 256 * (n div 256 mod 256 ^ k) + n mod 256" by (simp add: mod_mult2_eq)
  then show ?case using Suc.IH [of "n div 256"] by (simp add: SetBytes_append SetBytes_single uint_of_nat_byte)
qed (simp add: SetBytes_def)

lemma le_bytes_SetBytes: "rev (le_bytes (length bs) (nat (SetBytes bs))) = bs"
proof (induction bs rule: rev_induct)
  case (snoc b bs)
  have nn: "0 \<le> SetBytes bs" by (rule SetBytes_nonneg)
  have "unat b < 256" by (rule byte_bound)
  have v: "nat (SetBytes (bs @ [b])) = nat (SetBytes bs) * 256 + unat b"
    using nn by (simp add: SetBytes_append SetBytes_single nat_add_distrib nat_mult_distrib)
  have "unat (of_nat (nat (SetBytes bs) * 256 + unat b) :: 8 word) = unat b"
    unfolding unat_of_nat using \<open>unat b < 256\<close> by simp
  then have "(of_nat (nat (SetBytes bs) * 256 + unat b) :: 8 word) = b" by (simp only: word_unat_eq_iff)
  then show ?case using snoc.IH \<open>unat b < 256\<close> unfolding v by simp
qed (simp add: SetBytes_def)

lemma SetBytes_bound: "SetBytes bs < 256 ^ length bs"
proof -
  let ?n = "nat (SetBytes bs)"
  have "SetBytes bs = int (?n mod 256 ^ length bs)" using SetBytes_le_bytes [of "length bs" ?n] by (simp add: le_bytes_SetBytes)
  also have "\<dots> < int (256 ^ length bs)" by (simp only: of_nat_less_iff) simp
  finally show ?thesis by simp
qed

lemma readBits_word_spec:
  assumes "i \<le> length buf"
  shows "readBits_word k d buf i =
     (take (i - min k i) buf @ rev (le_bytes (min k i) (unat d)) @ drop i buf, i - min k i)"
  using assms
proof (induction k d buf i rule: readBits_word.induct)
  case (3 k d buf i)
  have u: "(ucast d :: 8 word) = of_nat (unat d)" by simp
  have dr: "drop i (buf[i := x]) = x # drop (Suc i) buf" for x
    using 3(2) Cons_nth_drop_Suc [of i "buf[i := x]"] by simp
  have "readBits_word (Suc k) d buf (Suc i) =
      (take (i - min k i) (buf[i := ucast d]) @ rev (le_bytes (min k i) (unat (drop_bit 8 d))) @ drop i (buf[i := ucast d]), i - min k i)"
    using 3 by simp
  then show ?case unfolding dr u unat_drop_bit_eq by (simp add: drop_bit_eq_div)
qed simp_all

fun words_val :: "(64 word) list \<Rightarrow> nat" where
  "words_val [] = 0"
| "words_val (d # ds) = unat d + 2 ^ 64 * words_val ds"

lemma words_val_nat_words: "words_val (nat_words n) = n"
proof (induction n rule: nat_words.induct)
  case (1 n)
  show ?case
  proof (cases "n = 0")
    case False
    then have "words_val (nat_words n) = n mod 2 ^ 64 + 2 ^ 64 * (n div 2 ^ 64)"
      using 1 by (subst nat_words.simps) (simp add: unat_of_nat)
    then show ?thesis by simp
  qed (simp add: nat_words.simps)
qed

text \<open>The loop fills the buffer from its end with the low bytes of the number.\<close>

lemma readBits_loop:
  assumes "i \<le> length buf"
  shows "foldl (\<lambda>(b, i) d. readBits_word wordBytes d b i) (buf, i) ds =
     (let m = min (8 * length ds) i in (take (i - m) buf @ rev (le_bytes m (words_val ds)) @ drop i buf, i - m))"
  using assms
proof (induction ds arbitrary: buf i)
  case (Cons d ds)
  let ?m = "min 8 i" and ?n = "words_val (d # ds)"
  let ?b = "take (i - ?m) buf @ rev (le_bytes ?m (unat d)) @ drop i buf"
  let ?q = "min (8 * length ds) (i - ?m)"
  have lb: "i - ?m \<le> length ?b" using Cons.prems by simp
  have w: "le_bytes ?m (unat d) = le_bytes ?m ?n"
  proof -
    have "?n mod 256 ^ 8 = unat d" using word64_bound [of d] by simp
    then show ?thesis using le_bytes_mod [of ?m 8 ?n] by simp
  qed
  have q: "le_bytes ?q (words_val ds) = le_bytes ?q (?n div 256 ^ ?m)"
  proof (cases "i \<le> 8")
    case False
    have "?n div 256 ^ 8 = words_val ds" using word64_bound [of d] by simp
    then show ?thesis using False by simp
  qed simp
  have m: "min (8 * length (d # ds)) i = ?m + ?q" by auto
  have "foldl (\<lambda>(b, i) d. readBits_word wordBytes d b i) (buf, i) (d # ds) =
     (take (i - ?m - ?q) ?b @ rev (le_bytes ?q (words_val ds)) @ drop (i - ?m) ?b, i - ?m - ?q)"
    using Cons.IH [OF lb] readBits_word_spec [OF Cons.prems, of 8 d] by (simp add: wordBytes_def Let_def)
  then show ?case using Cons.prems unfolding m Let_def le_bytes_add w q by (simp add: diff_diff_eq)
qed (simp add: readBits_word_spec)

lemma nat_words_bound: "n < 256 ^ (8 * length (nat_words n))"
proof (induction n rule: nat_words.induct)
  case (1 n)
  show ?case
  proof (cases "n = 0")
    case False
    then have "n div 2 ^ 64 < 256 ^ (8 * length (nat_words (n div 2 ^ 64)))" using 1 by blast
    then have "n < 256 ^ (8 * length (nat_words (n div 2 ^ 64))) * 2 ^ 64" by (simp add: div_less_iff_less_mult)
    then show ?thesis using False by (subst nat_words.simps) (simp add: power_add mult.commute)
  qed (simp add: nat_words.simps)
qed

lemma readBits_zeros:
  assumes "0 \<le> x"
  shows "readBits x (replicate k 0) = rev (le_bytes k (nat x))"
proof -
  let ?n = "nat x" and ?l = "8 * length (nat_words (nat x))"
  have r: "readBits x (replicate k 0) = replicate (k - min ?l k) 0 @ rev (le_bytes (min ?l k) ?n)"
    using readBits_loop [of k "replicate k 0" "big_Bits x"] assms
    by (simp add: readBits_def big_Bits_def words_val_nat_words Let_def)
  show ?thesis
  proof (cases "k \<le> ?l")
    case False
    have z: "le_bytes j 0 = replicate j 0" for j by (induction j) simp_all
    have "le_bytes k ?n = le_bytes ?l ?n @ le_bytes (k - ?l) (?n div 256 ^ ?l)" using le_bytes_add [of ?l "k - ?l" ?n] False by simp
    also have "?n div 256 ^ ?l = 0" using nat_words_bound by simp
    finally show ?thesis using r False by (simp add: z)
  qed (simp add: r)
qed

lemma SetBytes_readBits:
  assumes "0 \<le> x" "x < 256 ^ k"
  shows "SetBytes (readBits x (replicate k 0)) = x"
proof -
  have "nat x < 256 ^ k" using assms by (simp add: nat_less_iff)
  then show ?thesis using assms(1) by (simp add: readBits_zeros SetBytes_le_bytes)
qed

lemma length_readBits [simp]: "0 \<le> x \<Longrightarrow> length (readBits x (replicate k 0)) = k"
  by (simp add: readBits_zeros)

lemma readBits_SetBytes: "readBits (SetBytes bs) (replicate (length bs) 0) = bs"
  by (simp add: readBits_zeros le_bytes_SetBytes)

section \<open>Points\<close>

text \<open>
  \<open>Unmarshal\<close> accepts exactly what \<open>Marshal\<close> writes: it gives the point \<open>(x, y)\<close> for a byte string if
  and only if both coordinates are natural numbers that fit the size of the curve and \<open>Marshal\<close> of them
  is that byte string. In particular the encoding is one to one, and no other byte string is a point.
\<close>

theorem BitCurve_Marshal_bijective:
  "BitCurve_Unmarshal c data = Some (x, y) \<longleftrightarrow>
     x \<in> {0..<256 ^ byteLen c} \<and> y \<in> {0..<256 ^ byteLen c} \<and> data = BitCurve_Marshal c x y"
proof
  assume u: "BitCurve_Unmarshal c data = Some (x, y)"
  let ?k = "byteLen c"
  have len: "length data = 1 + 2 * ?k" and h: "data ! 0 = 4"
    and x: "x = SetBytes (take ?k (drop 1 data))" and y: "y = SetBytes (drop (1 + ?k) data)"
    using u by (auto simp: BitCurve_Unmarshal_def split: if_splits)
  obtain rest where d: "data = 4 # rest" using len h by (cases data) auto
  have lx: "length (take ?k rest) = ?k" and ly: "length (drop ?k rest) = ?k" using len d by simp_all
  have "readBits x (replicate ?k 0) = take ?k rest" using readBits_SetBytes [of "take ?k rest"] x d lx by simp
  moreover have "readBits y (replicate ?k 0) = drop ?k rest" using readBits_SetBytes [of "drop ?k rest"] y d ly by simp
  moreover have "x < 256 ^ ?k" "y < 256 ^ ?k"
    using SetBytes_bound [of "take ?k rest"] SetBytes_bound [of "drop ?k rest"] x y d lx ly by simp_all
  ultimately show "x \<in> {0..<256 ^ ?k} \<and> y \<in> {0..<256 ^ ?k} \<and> data = BitCurve_Marshal c x y"
    using x y d by (simp add: BitCurve_Marshal_def)
qed (auto simp: BitCurve_Unmarshal_def BitCurve_Marshal_def SetBytes_readBits)

section \<open>Keys\<close>

definition valid_key :: "int \<Rightarrow> bytes \<Rightarrow> bool" where
  "valid_key N key = (length key = PrivKeySize \<and> 0 < SetBytes key \<and> SetBytes key < N)"

lemma pad32_big_Bytes:
  assumes "0 \<le> x" "x < 256 ^ 32"
  shows "\<exists>b. pad32 (big_Bytes x) = Inr b \<and> length b = 32 \<and> SetBytes b = x"
proof -
  have "nat x < 256 ^ 32" using assms by (simp add: nat_less_iff)
  then have len: "length (big_Bytes x) \<le> 32" using assms(1) length_nat_bytes [of "nat x" 32] by (simp add: big_Bytes_def)
  have "SetBytes (big_Bytes x) = x" using assms(1) by (simp add: big_Bytes_def SetBytes_nat_bytes)
  with len show ?thesis by (simp add: pad32_def SetBytes_zeros)
qed

lemma genPrivKey_valid:
  "genPrivKey N rand = Inr (key, rest) \<Longrightarrow> valid_key N key \<and> (\<exists>n. rand = concat n @ key @ rest \<and> (\<forall>b\<in>set n. \<not> valid_key N b))"
proof (induction N rand rule: genPrivKey.induct)
  case (1 N rand)
  let ?k = "take PrivKeySize rand" and ?r = "drop PrivKeySize rand"
  have len: "PrivKeySize \<le> length rand" using "1.prems" by (subst (asm) genPrivKey.simps) (simp split: if_splits)
  have v: "valid_key N ?k \<longleftrightarrow> 0 < big_Sign (SetBytes ?k) \<and> big_Cmp (SetBytes ?k) N < 0"
    using len by (auto simp: valid_key_def big_Sign_def big_Cmp_def)
  show ?case
  proof (cases "valid_key N ?k")
    case True
    then have "key = ?k" "rest = ?r" using "1.prems" len v by (simp_all add: genPrivKey.simps [of N rand] Let_def)
    then show ?thesis using True by (auto intro: exI [of _ "[]"])
  next
    case False
    have ih: "genPrivKey N ?r = Inr (key, rest) \<Longrightarrow> valid_key N key \<and>
        (\<exists>n. ?r = concat n @ key @ rest \<and> (\<forall>b\<in>set n. \<not> valid_key N b))"
      using "1.IH" [OF _ refl refl refl] len False v by simp
    have "genPrivKey N ?r = Inr (key, rest)" using False "1.prems" len v by (auto simp: genPrivKey.simps [of N rand] Let_def split: if_splits)
    then obtain n where "valid_key N key" "?r = concat n @ key @ rest" "\<forall>b\<in>set n. \<not> valid_key N b"
      using ih by blast
    moreover from this have "rand = concat (?k # n) @ key @ rest" using append_take_drop_id [of PrivKeySize rand] by simp
    ultimately show ?thesis using False by (intro conjI exI [of _ "?k # n"]) simp_all
  qed
qed

lemma GenPrivKeyFromSecret_valid:
  assumes "1 < N" "N \<le> 256 ^ 32"
  shows "\<exists>key. GenPrivKeyFromSecret sha256 N secret = Inr key \<and> valid_key N key"
proof -
  let ?f = "SetBytes (sha256 secret) mod (N - 1)"
  have "0 \<le> ?f" "?f < N - 1" using assms(1) by simp_all
  then have f: "0 \<le> ?f + 1" "?f + 1 < 256 ^ 32" "0 < ?f + 1" "?f + 1 < N" using assms by linarith+
  from pad32_big_Bytes [OF f(1,2)] f(3,4) show ?thesis
    by (auto simp: GenPrivKeyFromSecret_def Let_def valid_key_def PrivKeySize_def)
qed

section \<open>Signatures\<close>

lemma serializeSig_ok:
  assumes r: "0 \<le> sigR \<sigma>" "sigR \<sigma> < 256 ^ 32" and s: "0 \<le> sigS \<sigma>" "sigS \<sigma> < 256 ^ 32"
  shows "\<exists>b. serializeSig \<sigma> = Inr b \<and> length b = 64 \<and> signatureFromBytes b = \<sigma>"
proof -
  let ?r = "big_Bytes (sigR \<sigma>)" and ?s = "big_Bytes (sigS \<sigma>)"
  have lr: "length ?r \<le> 32" and rv: "SetBytes (replicate (32 - length ?r) 0 @ ?r) = sigR \<sigma>"
    using pad32_big_Bytes [OF r] by (auto simp: pad32_def split: if_splits)
  have ls: "length ?s \<le> 32" and sv: "SetBytes (replicate (32 - length ?s) 0 @ ?s) = sigS \<sigma>"
    using pad32_big_Bytes [OF s] by (auto simp: pad32_def split: if_splits)
  let ?b = "(replicate (32 - length ?r) 0 @ ?r) @ (replicate (32 - length ?s) 0 @ ?s)"
  have "serializeSig \<sigma> = Inr ?b" using lr ls by (simp add: serializeSig_def Let_def min_def) arith
  moreover have "signatureFromBytes ?b = \<sigma>" using lr ls rv sv by (simp add: signatureFromBytes_def)
  ultimately show ?thesis using lr ls by (intro exI [of _ ?b]) simp
qed

text \<open>
  What the code relies on in btcec: the order of the curve is odd and has 256 bits; signing with a key
  gives numbers below the order, with the smaller of the two possible values of \<open>S\<close>, which its
  verification accepts for the public key of the key.
\<close>

definition btcec_law :: "Btcec \<Rightarrow> bytes \<Rightarrow> bytes \<Rightarrow> bool" where
  "btcec_law B key pubkey \<longleftrightarrow>
     odd (bN B) \<and> bN B < 256 ^ 32 \<and>
     (\<forall>h. \<exists>\<sigma> pub. bSign B key h = Inr \<sigma> \<and> 0 < sigR \<sigma> \<and> sigR \<sigma> < bN B \<and> 0 < sigS \<sigma> \<and> sigS \<sigma> \<le> bN B div 2 \<and>
        bParsePubKey B pubkey = Inr pub \<and> bVerify B \<sigma> h pub)"

text \<open>
  \<^bold>\<open>C23.\<close> Signing and verifying agree and signatures are not malleable. A key that follows the rules of
  btcec signs every message: the result has 64 bytes and the public key accepts it. The other signature
  for the same message, in which \<open>S\<close> is replaced by its negative modulo the order, also has 64 bytes, is
  different, and is rejected for every key and message.
\<close>

theorem Sign_VerifySignature:
  assumes law: "btcec_law B key pubkey"
  shows "\<exists>sig \<sigma> sig'. PrivKey_Sign B sha256 key msg = Inr sig \<and> length sig = 64
     \<and> PubKey_VerifySignature B sha256 pubkey msg sig \<and> signatureFromBytes sig = \<sigma>
     \<and> serializeSig (\<sigma>\<lparr>sigS := bN B - sigS \<sigma>\<rparr>) = Inr sig' \<and> length sig' = 64 \<and> sig' \<noteq> sig
     \<and> (\<forall>sha key msg. \<not> PubKey_VerifySignature B sha key msg sig')"
proof -
  obtain \<sigma> pub where sg: "bSign B key (sha256 msg) = Inr \<sigma>" and r: "0 < sigR \<sigma>" "sigR \<sigma> < bN B"
    and s: "0 < sigS \<sigma>" "sigS \<sigma> \<le> bN B div 2" and v: "bParsePubKey B pubkey = Inr pub" "bVerify B \<sigma> (sha256 msg) pub"
    and n: "odd (bN B)" "bN B < 256 ^ 32" using law unfolding btcec_law_def by blast
  have half: "secp256k1halfN B = bN B div 2" by (simp add: secp256k1halfN_def drop_bit_eq_div)
  have R: "0 \<le> sigR \<sigma>" "sigR \<sigma> < 256 ^ 32" and S: "0 \<le> sigS \<sigma>" "sigS \<sigma> < 256 ^ 32" using r s n by linarith+
  obtain sig where sig: "serializeSig \<sigma> = Inr sig" "length sig = 64" "signatureFromBytes sig = \<sigma>"
    using serializeSig_ok [OF R S] by blast
  let ?t = "\<sigma>\<lparr>sigS := bN B - sigS \<sigma>\<rparr>"
  have big: "bN B div 2 < bN B - sigS \<sigma>" using n(1) s(2) by (auto elim!: oddE)
  have T: "0 \<le> sigS ?t" "sigS ?t < 256 ^ 32" using s n by simp_all
  have TR: "0 \<le> sigR ?t" "sigR ?t < 256 ^ 32" using R by simp_all
  obtain sig' where t: "serializeSig ?t = Inr sig'" "length sig' = 64" "signatureFromBytes sig' = ?t"
    using serializeSig_ok [OF TR T] by blast
  have rej: "\<not> PubKey_VerifySignature B sha k m sig'" for sha k m
    using t big by (auto simp: PubKey_VerifySignature_def half big_Cmp_def split: sum.split)
  have acc: "PubKey_VerifySignature B sha256 pubkey msg sig"
    using sig v s by (simp add: PubKey_VerifySignature_def half big_Cmp_def)
  have "PrivKey_Sign B sha256 key msg = Inr sig" using sg sig by (simp add: PrivKey_Sign_def)
  then show ?thesis using sig t acc rej by blast
qed

definition demo_btcec :: Btcec where
  "demo_btcec = \<lparr>bSign = (\<lambda>k h. Inr \<lparr>sigR = 3, sigS = 5\<rparr>), bParsePubKey = (\<lambda>p. Inr (1, 2)),
     bVerify = (\<lambda>\<sigma> h p. sigR \<sigma> = 3 \<and> (sigS \<sigma> = 5 \<or> sigS \<sigma> = 14)), bN = 19\<rparr>"

theorem Sign_VerifySignature_witness:
  "\<exists>sig. PrivKey_Sign demo_btcec id [1] [2] = Inr sig \<and> PubKey_VerifySignature demo_btcec id [4] [2] sig"
proof -
  have "btcec_law demo_btcec [1] [4]" by (simp add: btcec_law_def demo_btcec_def)
  from Sign_VerifySignature [OF this, of id "[2]"] show ?thesis by blast
qed

end
