(* ===== verification/UnknownProto.thy ===== *)
theory UnknownProto
  imports ProtoWire
begin

text \<open>
  The rejection of unknown fields (\<open>codec/unknownproto/unknown_fields.go\<close>). The functions of protowire, the generated
  descriptors, the gzip reader and the message registry of the protobuf library are the record \<open>ProtoEnv\<close>;
  \<open>'m\<close> stands for the Go types of messages, each with its prototype value. The three package level caches are
  the state \<open>ucache\<close>.
\<close>

unbundle bit_operations_syntax

section \<open>Descriptors\<close>

datatype FieldType =
    TYPE_DOUBLE | TYPE_FLOAT | TYPE_INT64 | TYPE_UINT64 | TYPE_INT32 | TYPE_FIXED64 | TYPE_FIXED32 | TYPE_BOOL
  | TYPE_STRING | TYPE_GROUP | TYPE_MESSAGE | TYPE_BYTES | TYPE_UINT32 | TYPE_ENUM | TYPE_SFIXED32 | TYPE_SFIXED64
  | TYPE_SINT32 | TYPE_SINT64

record FieldDesc =
  FNumber :: "32 word"
  FType :: FieldType
  FTypeName :: string

datatype MsgDesc = MsgDesc (DField: "FieldDesc list") (DNestedType: "MsgDesc list")

record 'm ProtoEnv =
  ConsumeTag :: "bytes \<Rightarrow> 32 word \<times> int \<times> int"
  ConsumeFieldValue :: "32 word \<Rightarrow> int \<Rightarrow> bytes \<Rightarrow> int"
  ConsumeVarint :: "bytes \<Rightarrow> 64 word \<times> int"
  IsScalar :: "FieldType \<Rightarrow> bool"
  FieldWireType :: "FieldType \<Rightarrow> int"
  Descriptor :: "'m \<Rightarrow> (bytes \<times> nat list) option"
  TypeString :: "'m \<Rightarrow> string"
  MessageType :: "string \<Rightarrow> 'm option"
  IsProtoMessage :: "'m \<Rightarrow> bool"
  AnyPrototype :: 'm
  UnmarshalAny :: "bytes \<Rightarrow> (string \<times> bytes) res"
  Gunzip :: "bytes \<Rightarrow> bytes res"
  UnmarshalFile :: "bytes \<Rightarrow> (MsgDesc list) res"

record 'm ucache =
  protoMessageForTypeNameCache :: "string \<rightharpoonup> 'm"
  protoFileToDesc :: "bytes \<rightharpoonup> MsgDesc list"
  descprotoCache :: "'m \<rightharpoonup> (32 word \<rightharpoonup> FieldDesc)"

definition bit11NonCritical :: "32 word" where
  "bit11NonCritical = push_bit 10 1"

section \<open>Wire types\<close>

definition checks :: "nat \<Rightarrow> FieldType list" where
  "checks wt = [
     [TYPE_INT32, TYPE_INT64, TYPE_UINT32, TYPE_UINT64, TYPE_SINT32, TYPE_SINT64, TYPE_BOOL, TYPE_ENUM],
     [TYPE_FIXED64, TYPE_SFIXED64, TYPE_DOUBLE],
     [TYPE_STRING, TYPE_BYTES, TYPE_MESSAGE, TYPE_INT32, TYPE_INT64, TYPE_UINT32, TYPE_UINT64, TYPE_SINT32, TYPE_SINT64,
      TYPE_BOOL, TYPE_ENUM, TYPE_FIXED64, TYPE_SFIXED64, TYPE_DOUBLE],
     [TYPE_GROUP],
     [TYPE_GROUP],
     [TYPE_FIXED32, TYPE_SFIXED32, TYPE_FLOAT]] ! wt"

definition canEncodeType :: "int \<Rightarrow> FieldType \<Rightarrow> bool" where
  "canEncodeType wireType descType =
     (if wireType < 0 \<or> 6 \<le> wireType then False else descType \<in> set (checks (nat wireType)))"

definition wireTypeToString :: "int \<Rightarrow> string" where
  "wireTypeToString wt =
     (if wt = 0 then ''varint'' else if wt = 1 then ''fixed64'' else if wt = 2 then ''bytes''
      else if wt = 3 then ''start_group'' else if wt = 4 then ''end_group'' else if wt = 5 then ''fixed32''
      else ''unknown type: '' @ show_int wt)"

datatype UErr =
    errInvalidLength
  | errMismatchedWireType (mwType: string) (mwTagNum: "32 word") (mwGot: int) (mwWant: int)
  | errUnknownField (ufType: string) (ufTagNum: "32 word") (ufWireType: int)
  | errOther string

section \<open>Looking up descriptors\<close>

text \<open>Indices out of range panic.\<close>

fun unnest_loop :: "MsgDesc \<Rightarrow> nat list \<Rightarrow> MsgDesc res" where
  "unnest_loop mdesc [] = Inr mdesc"
| "unnest_loop mdesc (i # is) =
     (if i < length (DNestedType mdesc) then unnest_loop (DNestedType mdesc ! i) is else Inl (Panic ''index out of range''))"

definition unnestDesc :: "MsgDesc list \<Rightarrow> nat list \<Rightarrow> MsgDesc res" where
  "unnestDesc mdescs indices =
     (case indices of
        [] \<Rightarrow> Inl (Panic ''index out of range'')
      | i # is \<Rightarrow> if i < length mdescs then unnest_loop (mdescs ! i) is else Inl (Panic ''index out of range''))"

definition protoMessageForTypeName :: "'m ProtoEnv \<Rightarrow> string \<Rightarrow> 'm ucache \<Rightarrow> 'm res \<times> 'm ucache" where
  "protoMessageForTypeName E name st =
     (case protoMessageForTypeNameCache st name of
        Some msg \<Rightarrow> (Inr msg, st)
      | None \<Rightarrow>
          (case MessageType E name of
             None \<Rightarrow> (Inl (Err (''failed to retrieve the message of type '' @ name)), st)
           | Some msg \<Rightarrow>
               if \<not> IsProtoMessage E msg then (Inl (Err (name @ '' does not implement proto.Message'')), st)
               else (Inr msg, st\<lparr>protoMessageForTypeNameCache := (protoMessageForTypeNameCache st)(name \<mapsto> msg)\<rparr>)))"

definition extractFileDescMessageDesc :: "'m ProtoEnv \<Rightarrow> bytes \<times> nat list \<Rightarrow> 'm ucache \<Rightarrow> MsgDesc res \<times> 'm ucache" where
  "extractFileDescMessageDesc E desc st =
     (case desc of (gzippedPb, indices) \<Rightarrow>
        (case protoFileToDesc st gzippedPb of
           Some cached \<Rightarrow> (unnestDesc cached indices, st)
         | None \<Rightarrow>
             (case bindR (Gunzip E gzippedPb) (UnmarshalFile E) of
                Inl e \<Rightarrow> (Inl e, st)
              | Inr fdesc \<Rightarrow> (unnestDesc fdesc indices, st\<lparr>protoFileToDesc := (protoFileToDesc st)(gzippedPb \<mapsto> fdesc)\<rparr>))))"

definition field_index :: "FieldDesc list \<Rightarrow> (32 word \<rightharpoonup> FieldDesc)" where
  "field_index fs = foldl (\<lambda>m f. m(FNumber f \<mapsto> f)) Map.empty fs"

definition getDescriptorInfo ::
  "'m ProtoEnv \<Rightarrow> bytes \<times> nat list \<Rightarrow> 'm \<Rightarrow> 'm ucache \<Rightarrow> (32 word \<rightharpoonup> FieldDesc) res \<times> 'm ucache" where
  "getDescriptorInfo E desc msg st =
     (case descprotoCache st msg of
        Some got \<Rightarrow> (Inr got, st)
      | None \<Rightarrow>
          (case extractFileDescMessageDesc E desc st of
             (Inl e, st1) \<Rightarrow> (Inl e, st1)
           | (Inr md, st1) \<Rightarrow>
               let tagNumToTypeIndex = field_index (DField md)
               in (Inr tagNumToTypeIndex, st1\<lparr>descprotoCache := (descprotoCache st1)(msg \<mapsto> tagNumToTypeIndex)\<rparr>)))"

section \<open>The traversal\<close>

text \<open>
  A Go result is the pair of the flag and an optional error; a panic is \<open>Inl\<close>. Every loop iteration and every nested
  call takes one unit of fuel; \<open>None\<close> is running out of it.
\<close>

type_synonym 'm uresult = "((bool \<times> UErr option) res \<times> 'm ucache) option"

text \<open>The slice \<open>bz[n:]\<close> panics outside the bounds.\<close>

definition slice_from :: "bytes \<Rightarrow> int \<Rightarrow> bytes res" where
  "slice_from bz n = (if 0 \<le> n \<and> n \<le> int (length bz) then Inr (drop (nat n) bz) else Inl (Panic ''slice bounds out of range''))"

definition split_at :: "bytes \<Rightarrow> int \<Rightarrow> (bytes \<times> bytes) res" where
  "split_at bz n =
     (if 0 \<le> n \<and> n \<le> int (length bz) then Inr (take (nat n) bz, drop (nat n) bz)
      else Inl (Panic ''slice bounds out of range''))"

definition fail_with :: "bool \<Rightarrow> failure \<Rightarrow> (bool \<times> UErr option) res" where
  "fail_with has e = (case e of Err m \<Rightarrow> Inr (has, Some (errOther m)) | Panic p \<Rightarrow> Inl (Panic p))"

text \<open>The test of one tag: the field descriptor (if the tag is known) and the new flag, or the error.\<close>

definition check_tag ::
  "'m ProtoEnv \<Rightarrow> (32 word \<rightharpoonup> FieldDesc) \<Rightarrow> 'm \<Rightarrow> bool \<Rightarrow> bool \<Rightarrow> 32 word \<Rightarrow> int \<Rightarrow> (bool \<times> UErr) + (FieldDesc option \<times> bool)" where
  "check_tag E fdescs msg allow has tagNum wireType =
     (case fdescs tagNum of
        Some fd \<Rightarrow>
          if \<not> canEncodeType wireType (FType fd)
          then Inl (has, errMismatchedWireType (TypeString E msg) tagNum wireType (FieldWireType E (FType fd)))
          else Inr (Some fd, has)
      | None \<Rightarrow>
          let isCriticalField = (tagNum AND bit11NonCritical = 0);
              has = (if \<not> isCriticalField then True else has)
          in if isCriticalField \<or> \<not> allow then Inl (has, errUnknownField (TypeString E msg) tagNum wireType)
             else Inr (None, has))"

text \<open>What is to be done with the value of a field: nothing, or a nested message to traverse.\<close>

datatype Nested = Skip | Sub string bytes | SubAny bytes

definition nested_value :: "'m ProtoEnv \<Rightarrow> FieldDesc option \<Rightarrow> bytes \<Rightarrow> Nested res" where
  "nested_value E fdo fieldBytes =
     (case fdo of
        None \<Rightarrow> Inr Skip
      | Some fd \<Rightarrow>
          if IsScalar E (FType fd) then Inr Skip
          else if FTypeName fd = '''' then
            (if FType fd = TYPE_STRING \<or> FType fd = TYPE_BYTES then Inr Skip
             else Inl (Err ''failed to get typename for message of type, can only be TYPE_STRING or TYPE_BYTES''))
          else
            bindR (slice_from fieldBytes (snd (ConsumeVarint E fieldBytes))) (\<lambda>fieldBytes.
              if FTypeName fd = ''.google.protobuf.Any'' then Inr (SubAny fieldBytes) else Inr (Sub (FTypeName fd) fieldBytes)))"

text \<open>\<open>protoMessageName[1:]\<close> panics on the empty name.\<close>

definition message_named :: "'m ProtoEnv \<Rightarrow> string \<Rightarrow> 'm ucache \<Rightarrow> 'm res \<times> 'm ucache" where
  "message_named E name st =
     (if name = '''' then (Inl (Panic ''slice bounds out of range''), st) else protoMessageForTypeName E (tl name) st)"

definition or_child :: "bool \<Rightarrow> 'm uresult \<Rightarrow> 'm uresult" where
  "or_child has r = (case r of Some (Inr (child, e), st) \<Rightarrow> Some (Inr (has \<or> child, e), st) | x \<Rightarrow> x)"

definition reject_named ::
  "'m ProtoEnv \<Rightarrow> string \<Rightarrow> bool \<Rightarrow> ('m \<Rightarrow> 'm ucache \<Rightarrow> 'm uresult) \<Rightarrow> 'm ucache \<Rightarrow> 'm uresult" where
  "reject_named E name has rec st =
     (case message_named E name st of
        (Inl e, st) \<Rightarrow> Some (fail_with has e, st)
      | (Inr msg, st) \<Rightarrow>
or_child has (rec msg st))"

text \<open>A result with an error or a panic ends the loop.\<close>

definition and_then :: "'m uresult \<Rightarrow> (bool \<Rightarrow> 'm ucache \<Rightarrow> 'm uresult) \<Rightarrow> 'm uresult" where
  "and_then r k = (case r of Some (Inr (has, None), st) \<Rightarrow> k has st | _ \<Rightarrow> r)"

fun reject :: "'m ProtoEnv \<Rightarrow> nat \<Rightarrow> bytes \<Rightarrow> 'm \<Rightarrow> bool \<Rightarrow> 'm ucache \<Rightarrow> 'm uresult"
  and reject_loop :: "'m ProtoEnv \<Rightarrow> nat \<Rightarrow> (32 word \<rightharpoonup> FieldDesc) \<Rightarrow> 'm \<Rightarrow> bool \<Rightarrow> bool \<Rightarrow> bytes \<Rightarrow> 'm ucache \<Rightarrow> 'm uresult" where
  "reject E 0 bz msg allow st = None"
| "reject E (Suc n) bz msg allow st =
     (if bz = [] then Some (Inr (False, None), st)
      else case Descriptor E msg of
             None \<Rightarrow> Some (Inr (False, Some (errOther (TypeString E msg @ '' does not have a Descriptor() method''))), st)
           | Some desc \<Rightarrow>
               (case getDescriptorInfo E desc msg st of
                  (Inl e, st) \<Rightarrow> Some (fail_with False e, st)
                | (Inr fdescs, st) \<Rightarrow> reject_loop E n fdescs msg allow False bz st))"
| "reject_loop E 0 fdescs msg allow has bz st = None"
| "reject_loop E (Suc n) fdescs msg allow has bz st =
     (if bz = [] then Some (Inr (has, None), st)
      else case ConsumeTag E bz of (tagNum, wireType, m) \<Rightarrow>
        if m < 0 then Some (Inr (has, Some errInvalidLength), st)
        else case check_tag E fdescs msg allow has tagNum wireType of
          Inl (has, e) \<Rightarrow> Some (Inr (has, Some e), st)
        | Inr (fdo, has) \<Rightarrow>
            (case bindR (slice_from bz m) (\<lambda>bz. split_at bz (ConsumeFieldValue E tagNum wireType bz)) of
               Inl e \<Rightarrow> Some (fail_with has e, st)
             | Inr (fieldBytes, bz) \<Rightarrow>
                 (case nested_value E fdo fieldBytes of
                    Inl e \<Rightarrow> Some (fail_with has e, st)
                  | Inr Skip \<Rightarrow> reject_loop E n fdescs msg allow has bz st
                  | Inr (Sub name sub) \<Rightarrow>
                      and_then (reject_named E name has (\<lambda>msg st. reject E n sub msg allow st) st)
                        (\<lambda>has st. reject_loop E n fdescs msg allow has bz st)
                  | Inr (SubAny sub) \<Rightarrow>
                      and_then
                        (or_child has (reject E n sub (AnyPrototype E) allow st))
                        (\<lambda>has st.
                           case UnmarshalAny E sub of
                             Inl e \<Rightarrow> Some (fail_with has e, st)
                           | Inr (typeUrl, val) \<Rightarrow>
                               and_then (reject_named E typeUrl has (\<lambda>msg st. reject E n val msg allow st) st)
                                 (\<lambda>has st. reject_loop E n fdescs msg allow has bz st)))))"

definition RejectUnknownFields :: "'m ProtoEnv \<Rightarrow> bytes \<Rightarrow> 'm \<Rightarrow> bool \<Rightarrow> 'm ucache \<Rightarrow> 'm uresult" where
  "RejectUnknownFields E bz msg allowUnknownNonCriticals st = reject E (2 * length bz + 2) bz msg allowUnknownNonCriticals st"

definition RejectUnknownFieldsStrict :: "'m ProtoEnv \<Rightarrow> bytes \<Rightarrow> 'm \<Rightarrow> 'm ucache \<Rightarrow> ((UErr option) res \<times> 'm ucache) option" where
  "RejectUnknownFieldsStrict E bz msg st =
     map_option (\<lambda>(r, st). (case r of Inl e \<Rightarrow> Inl e | Inr (_, e) \<Rightarrow> Inr e, st)) (RejectUnknownFields E bz msg False st)"

section \<open>What the caches hold\<close>

text \<open>The lookups without caches.\<close>

definition file_of :: "'m ProtoEnv \<Rightarrow> bytes \<Rightarrow> (MsgDesc list) res" where
  "file_of E gz = bindR (Gunzip E gz) (UnmarshalFile E)"

definition fields_of :: "'m ProtoEnv \<Rightarrow> 'm \<Rightarrow> (32 word \<rightharpoonup> FieldDesc) res" where
  "fields_of E msg =
     (case Descriptor E msg of
        None \<Rightarrow> Inl (Err ''no Descriptor() method'')
      | Some (gz, indices) \<Rightarrow>
          bindR (file_of E gz) (\<lambda>file. bindR (unnestDesc file indices) (\<lambda>md. Inr (field_index (DField md)))))"

definition message_of :: "'m ProtoEnv \<Rightarrow> string \<Rightarrow> 'm res" where
  "message_of E name =
     (if name = '''' then Inl (Panic ''slice bounds out of range'')
      else case MessageType E (tl name) of
             None \<Rightarrow> Inl (Err (''failed to retrieve the message of type '' @ tl name))
           | Some msg \<Rightarrow> if IsProtoMessage E msg then Inr msg else Inl (Err (tl name @ '' does not implement proto.Message'')))"

definition ucache_ok :: "'m ProtoEnv \<Rightarrow> 'm ucache \<Rightarrow> bool" where
  "ucache_ok E st \<longleftrightarrow>
     (\<forall>n m. protoMessageForTypeNameCache st n = Some m \<longrightarrow> MessageType E n = Some m \<and> IsProtoMessage E m) \<and>
     (\<forall>gz f. protoFileToDesc st gz = Some f \<longrightarrow> file_of E gz = Inr f) \<and>
     (\<forall>m fs. descprotoCache st m = Some fs \<longrightarrow> fields_of E m = Inr fs)"

lemma ucache_ok_empty: "ucache_ok E \<lparr>protoMessageForTypeNameCache = Map.empty, protoFileToDesc = Map.empty, descprotoCache = Map.empty\<rparr>"
  by (simp add: ucache_ok_def)

lemma message_named_ok:
  assumes "ucache_ok E st"
  shows "\<exists>st'. message_named E name st = (message_of E name, st') \<and> ucache_ok E st'"
  using assms
  by (auto simp: message_named_def message_of_def protoMessageForTypeName_def ucache_ok_def split: option.splits)

lemma extract_ok:
  assumes "ucache_ok E st"
  shows "\<exists>st'. extractFileDescMessageDesc E (gz, indices) st = (bindR (file_of E gz) (\<lambda>f. unnestDesc f indices), st')
     \<and> ucache_ok E st' \<and> descprotoCache st' = descprotoCache st"
  using assms
  by (cases "file_of E gz"; cases "protoFileToDesc st gz") (auto simp: extractFileDescMessageDesc_def ucache_ok_def simp flip: file_of_def)

lemma getDescriptorInfo_ok:
  assumes c: "ucache_ok E st" and d: "Descriptor E msg = Some desc"
  shows "\<exists>st'. getDescriptorInfo E desc msg st = (fields_of E msg, st') \<and> ucache_ok E st'"
proof (cases "descprotoCache st msg")
  case None
  obtain gz indices where desc: "desc = (gz, indices)" by (cases desc)
  obtain st1 where e: "extractFileDescMessageDesc E desc st = (bindR (file_of E gz) (\<lambda>f. unnestDesc f indices), st1)"
    "ucache_ok E st1" using extract_ok [OF c] desc by blast
  show ?thesis
  proof (cases "bindR (file_of E gz) (\<lambda>f. unnestDesc f indices)")
    case (Inl x)
    then have "fields_of E msg = Inl x" using d desc by (cases "file_of E gz") (simp_all add: fields_of_def)
    then show ?thesis using e Inl None by (simp add: getDescriptorInfo_def)
  next
    case (Inr md)
    then have "fields_of E msg = Inr (field_index (DField md))" using d desc by (cases "file_of E gz") (simp_all add: fields_of_def)
    then show ?thesis using e Inr None by (auto simp: getDescriptorInfo_def Let_def ucache_ok_def)
  qed
next
  case (Some got)
  then show ?thesis using c by (auto simp: getDescriptorInfo_def ucache_ok_def)
qed

section \<open>The reference\<close>

text \<open>
  \<open>typed E a msg bz h\<close>: the bytes are a sequence of fields of the message type \<open>msg\<close>, each with a wire type of its
  descriptor, at every level of nesting and inside every \<open>Any\<close>; if \<open>a\<close> holds, unknown fields whose number has bit
  11 set may occur. \<open>h\<close> tells whether there is one. It uses no cache and no fuel.
\<close>

definition cut :: "'m ProtoEnv \<Rightarrow> bytes \<Rightarrow> 32 word \<Rightarrow> int \<Rightarrow> int \<Rightarrow> bytes \<Rightarrow> bytes \<Rightarrow> bool" where
  "cut E bz t w k val rest \<longleftrightarrow>
     0 \<le> k \<and> k \<le> int (length bz) \<and>
     (let body = drop (nat k) bz; n = ConsumeFieldValue E t w body
      in 0 \<le> n \<and> n \<le> int (length body) \<and> val = take (nat n) body \<and> rest = drop (nat n) body)"

inductive typed :: "'m ProtoEnv \<Rightarrow> bool \<Rightarrow> 'm \<Rightarrow> bytes \<Rightarrow> bool \<Rightarrow> bool"
  and typed_fields :: "'m ProtoEnv \<Rightarrow> bool \<Rightarrow> (32 word \<rightharpoonup> FieldDesc) \<Rightarrow> bytes \<Rightarrow> bool \<Rightarrow> bool"
  and typed_value :: "'m ProtoEnv \<Rightarrow> bool \<Rightarrow> FieldDesc \<Rightarrow> bytes \<Rightarrow> bool \<Rightarrow> bool"
  for E a where
  typed_empty: "typed E a msg [] False"
| typed_msg: "\<lbrakk>bz \<noteq> []; fields_of E msg = Inr fs; typed_fields E a fs bz h\<rbrakk> \<Longrightarrow> typed E a msg bz h"
| fields_empty: "typed_fields E a fs [] False"
| fields_unknown:
    "\<lbrakk>bz \<noteq> []; ConsumeTag E bz = (t, w, k); fs t = None; a; t AND bit11NonCritical \<noteq> 0; cut E bz t w k val rest;
      typed_fields E a fs rest h\<rbrakk> \<Longrightarrow> typed_fields E a fs bz True"
| fields_known:
    "\<lbrakk>bz \<noteq> []; ConsumeTag E bz = (t, w, k); fs t = Some fd; canEncodeType w (FType fd); cut E bz t w k val rest;
      typed_value E a fd val h; typed_fields E a fs rest h'\<rbrakk> \<Longrightarrow> typed_fields E a fs bz (h \<or> h')"
| value_scalar: "nested_value E (Some fd) val = Inr Skip \<Longrightarrow> typed_value E a fd val False"
| value_msg:
    "\<lbrakk>nested_value E (Some fd) val = Inr (Sub name sub); message_of E name = Inr m; typed E a m sub h\<rbrakk>
      \<Longrightarrow> typed_value E a fd val h"
| value_any:
    "\<lbrakk>nested_value E (Some fd) val = Inr (SubAny sub); typed E a (AnyPrototype E) sub h; UnmarshalAny E sub = Inr (url, v);
      message_of E url = Inr m; typed E a m v h'\<rbrakk> \<Longrightarrow> typed_value E a fd val (h \<or> h')"

text \<open>
  What the code relies on in protowire and the decoder of \<open>Any\<close>: a tag takes at least one byte, and the value inside
  an \<open>Any\<close> is not longer than its encoding.
\<close>

definition wire_law :: "'m ProtoEnv \<Rightarrow> bool" where
  "wire_law E \<longleftrightarrow>
     (\<forall>bz t w k. ConsumeTag E bz = (t, w, k) \<longrightarrow> k < 0 \<or> 0 < k) \<and>
     (\<forall>bz url v. UnmarshalAny E bz = Inr (url, v) \<longrightarrow> length v \<le> length bz)"

section \<open>The traversal implements the reference\<close>

lemma cut_iff: "0 \<le> k \<Longrightarrow>
  bindR (slice_from bz k) (\<lambda>bz. split_at bz (ConsumeFieldValue E t w bz)) = Inr (val, rest) \<longleftrightarrow> cut E bz t w k val rest"
  by (auto simp: cut_def slice_from_def split_at_def Let_def)

lemma cut_length: "cut E bz t w k val rest \<Longrightarrow> 0 < k \<Longrightarrow> length val < length bz \<and> length rest < length bz"
  by (auto simp: cut_def Let_def)

lemma nested_length: "nested_value E fdo val = Inr (Sub name sub) \<or> nested_value E fdo val = Inr (SubAny sub) \<Longrightarrow> length sub \<le> length val"
  by (auto simp: nested_value_def slice_from_def split: option.splits if_splits)

lemma fail_with_None [simp]: "fail_with has e \<noteq> Inr (h, None)"
  by (cases e) (simp_all add: fail_with_def)

lemma and_then_ok:
  "and_then r k = Some (Inr (h, None), st') \<longleftrightarrow> (\<exists>has st. r = Some (Inr (has, None), st) \<and> k has st = Some (Inr (h, None), st'))"
  by (cases r) (auto simp: and_then_def split: sum.splits option.splits prod.splits)

lemma and_then_some: "and_then (Some (Inr (has, None), st)) k = k has st"
  by (simp add: and_then_def)

lemma and_then_total: "(\<And>has st. r = Some (Inr (has, None), st) \<Longrightarrow> k has st \<noteq> None) \<Longrightarrow> r \<noteq> None \<Longrightarrow> and_then r k \<noteq> None"
  by (cases r) (auto simp: and_then_def split: sum.splits option.splits prod.splits)

lemma or_child_ok: "or_child has r = Some (Inr (h, None), st') \<longleftrightarrow> (\<exists>c. r = Some (Inr (c, None), st') \<and> h = (has \<or> c))"
  by (cases r) (auto simp: or_child_def split: sum.splits prod.splits)

lemma or_child_None [simp]: "or_child has r = None \<longleftrightarrow> r = None"
  by (cases r) (auto simp: or_child_def split: sum.splits prod.splits)

lemma reject_named_ok:
  assumes c: "ucache_ok E st"
  shows "reject_named E name has rec st = Some (Inr (h, None), st') \<longleftrightarrow>
     (\<exists>m st1 child. message_of E name = Inr m \<and> message_named E name st = (Inr m, st1) \<and> ucache_ok E st1 \<and>
        rec m st1 = Some (Inr (child, None), st') \<and> h = (has \<or> child))"
proof -
  obtain st1 where m: "message_named E name st = (message_of E name, st1)" "ucache_ok E st1" using message_named_ok [OF c] by blast
  show ?thesis
  proof (cases "message_of E name")
    case (Inr x)
    then show ?thesis using m by (auto simp: reject_named_def or_child_ok)
  qed (use m in \<open>simp add: reject_named_def\<close>)
qed

lemmas reject_simps = reject.simps reject_loop.simps

lemma check_tag_ok:
  "check_tag E fs msg a has t w = Inr (fdo, has') \<longleftrightarrow>
     (case fs t of
        Some fd \<Rightarrow> canEncodeType w (FType fd) \<and> fdo = Some fd \<and> has' = has
      | None \<Rightarrow> a \<and> t AND bit11NonCritical \<noteq> 0 \<and> fdo = None \<and> has')"
  by (auto simp: check_tag_def Let_def split: option.splits)

text \<open>The value of a field is traversed without an error, with a new flag and new caches.\<close>

definition value_step :: "'m ProtoEnv \<Rightarrow> nat \<Rightarrow> bool \<Rightarrow> FieldDesc option \<Rightarrow> bytes \<Rightarrow> bool \<Rightarrow> 'm ucache \<Rightarrow> bool \<Rightarrow> 'm ucache \<Rightarrow> bool" where
  "value_step E n a fdo val has st has' st' \<longleftrightarrow>
     (case nested_value E fdo val of
        Inl e \<Rightarrow> False
      | Inr Skip \<Rightarrow> has' = has \<and> st' = st
      | Inr (Sub name sub) \<Rightarrow> reject_named E name has (\<lambda>msg st. reject E n sub msg a st) st = Some (Inr (has', None), st')
      | Inr (SubAny sub) \<Rightarrow>
          (\<exists>c st2 url v. reject E n sub (AnyPrototype E) a st = Some (Inr (c, None), st2) \<and> UnmarshalAny E sub = Inr (url, v) \<and>
             reject_named E url (has \<or> c) (\<lambda>msg st. reject E n v msg a st) st2 = Some (Inr (has', None), st')))"

text \<open>One turn of the loop that goes on.\<close>

lemma reject_loop_Suc_ok:
  assumes "bz \<noteq> []"
  shows "reject_loop E (Suc n) fs msg a has bz st = Some (Inr (h, None), st') \<longleftrightarrow>
    (\<exists>t w k fdo has1 val rest has2 st2. ConsumeTag E bz = (t, w, k) \<and> check_tag E fs msg a has t w = Inr (fdo, has1) \<and>
       cut E bz t w k val rest \<and> value_step E n a fdo val has1 st has2 st2 \<and>
       reject_loop E n fs msg a has2 rest st2 = Some (Inr (h, None), st'))"
proof -
  obtain t w k where tag: "ConsumeTag E bz = (t, w, k)" by (metis prod_cases3)
  show ?thesis
  proof (cases "k < 0")
    case True
    then show ?thesis using assms tag by (simp add: cut_def)
  next
    case False
    then have k: "0 \<le> k" by simp
    show ?thesis
    proof (cases "check_tag E fs msg a has t w")
      case (Inl e)
      then show ?thesis using assms tag by (simp add: split: prod.splits)
    next
      case (Inr x)
      obtain fdo has1 where x: "x = (fdo, has1)" by (cases x)
      show ?thesis
      proof (cases "bindR (slice_from bz k) (\<lambda>bz. split_at bz (ConsumeFieldValue E t w bz))")
        case (Inl e)
        then have "\<not> cut E bz t w k val rest" for val rest using cut_iff [OF k] by (metis Inr_not_Inl)
        then show ?thesis using assms tag k Inr x Inl by simp
      next
        case Inr2: (Inr vr)
        obtain val rest where vr: "vr = (val, rest)" by (cases vr)
        have cut: "cut E bz t w k v r \<longleftrightarrow> v = val \<and> r = rest" for v r using cut_iff [OF k] Inr2 vr by (metis prod.inject sum.inject(2))
        obtain body where b: "slice_from bz k = Inr body" "split_at body (ConsumeFieldValue E t w body) = Inr (val, rest)"
          using Inr2 vr by auto
        show ?thesis
        proof (cases "nested_value E fdo val")
          case (Inl e)
          then show ?thesis using assms tag k Inr x b cut by (simp add: value_step_def)
        next
          case Inr3: (Inr nv)
          show ?thesis using assms tag k Inr x b cut Inr3
            by (cases nv; cases "UnmarshalAny E (case nv of SubAny s \<Rightarrow> s)") (auto simp: and_then_ok or_child_ok value_step_def)
        qed
      qed
    qed
  qed
qed

lemma reject_Suc_ok:
  assumes c: "ucache_ok E st" and "bz \<noteq> []"
  shows "reject E (Suc n) bz msg a st = Some (Inr (h, None), st') \<longleftrightarrow>
    (\<exists>fs desc st1. fields_of E msg = Inr fs \<and> Descriptor E msg = Some desc \<and> getDescriptorInfo E desc msg st = (Inr fs, st1) \<and>
       ucache_ok E st1 \<and> reject_loop E n fs msg a False bz st1 = Some (Inr (h, None), st'))"
proof (cases "Descriptor E msg")
  case (Some desc)
  obtain st1 where g: "getDescriptorInfo E desc msg st = (fields_of E msg, st1)" "ucache_ok E st1"
    using getDescriptorInfo_ok [OF c Some] by blast
  then show ?thesis using Some assms(2) by (cases "fields_of E msg") auto
qed (use assms(2) in simp)

definition sound_at :: "'m ProtoEnv \<Rightarrow> bool \<Rightarrow> nat \<Rightarrow> bool" where
  "sound_at E a n \<longleftrightarrow>
     (\<forall>bz msg st h st'. ucache_ok E st \<longrightarrow> reject E n bz msg a st = Some (Inr (h, None), st') \<longrightarrow> typed E a msg bz h \<and> ucache_ok E st')"

lemma sound_named:
  assumes n: "sound_at E a n" and c: "ucache_ok E st"
    and r: "reject_named E name has (\<lambda>msg st. reject E n sub msg a st) st = Some (Inr (h, None), st')"
  shows "\<exists>m hv. message_of E name = Inr m \<and> typed E a m sub hv \<and> h = (has \<or> hv) \<and> ucache_ok E st'"
  using r n unfolding reject_named_ok [OF c] sound_at_def by blast

lemma value_step_sound:
  assumes n: "sound_at E a n" and c: "ucache_ok E st" and v: "value_step E n a (Some fd) val has st has' st'"
  shows "\<exists>hv. typed_value E a fd val hv \<and> has' = (has \<or> hv) \<and> ucache_ok E st'"
proof -
  obtain nv where nv: "nested_value E (Some fd) val = Inr nv" using v by (auto simp: value_step_def split: sum.splits)
  show ?thesis
  proof (cases nv)
    case Skip
    then show ?thesis using v nv c value_scalar [of E fd val a] by (auto simp: value_step_def)
  next
    case (Sub name sub)
    then have "reject_named E name has (\<lambda>msg st. reject E n sub msg a st) st = Some (Inr (has', None), st')"
      using v nv by (simp add: value_step_def)
    then show ?thesis using sound_named [OF n c] value_msg [of E fd val name sub] nv Sub by blast
  next
    case (SubAny sub)
    then obtain c1 st2 url v where a1: "reject E n sub (AnyPrototype E) a st = Some (Inr (c1, None), st2)" and u: "UnmarshalAny E sub = Inr (url, v)"
      and a2: "reject_named E url (has \<or> c1) (\<lambda>msg st. reject E n v msg a st) st2 = Some (Inr (has', None), st')"
      using v nv by (auto simp: value_step_def)
    have t1: "typed E a (AnyPrototype E) sub c1" and c2: "ucache_ok E st2" using n c a1 by (auto simp: sound_at_def)
    then show ?thesis using sound_named [OF n c2 a2] value_any [OF _ t1 u] nv SubAny by blast
  qed
qed

lemma value_step_None: "value_step E n a None val has st has' st' \<longleftrightarrow> has' = has \<and> st' = st"
  by (simp add: value_step_def nested_value_def)

lemma reject_sound:
  "sound_at E a n \<and>
   (\<forall>fs msg has bz st h st'. ucache_ok E st \<longrightarrow> reject_loop E n fs msg a has bz st = Some (Inr (h, None), st') \<longrightarrow>
      (\<exists>h'. typed_fields E a fs bz h' \<and> h = (has \<or> h') \<and> ucache_ok E st'))"
proof (induction n)
  case (Suc n)
  note snd = Suc.IH [THEN conjunct1]
  note loop = Suc.IH [THEN conjunct2, rule_format]
  have "typed E a m bz h \<and> ucache_ok E st'"
    if c: "ucache_ok E st" and r: "reject E (Suc n) bz m a st = Some (Inr (h, None), st')" for bz m st h st'
  proof (cases "bz = []")
    case False
    then obtain fs st1 where f: "fields_of E m = Inr fs" "ucache_ok E st1" "reject_loop E n fs m a False bz st1 = Some (Inr (h, None), st')"
      using r reject_Suc_ok [OF c False] by blast
    then show ?thesis using loop [OF f(2,3)] False by (auto intro: typed_msg)
  qed (use that in \<open>auto intro: typed_empty\<close>)
  moreover have "\<exists>h'. typed_fields E a fs bz h' \<and> h = (has \<or> h') \<and> ucache_ok E st'"
    if c: "ucache_ok E st" and r: "reject_loop E (Suc n) fs m a has bz st = Some (Inr (h, None), st')" for fs m has bz st h st'
  proof (cases "bz = []")
    case False
    obtain t w k fdo has1 val rest has2 st2 where tag: "ConsumeTag E bz = (t, w, k)"
      and ct: "check_tag E fs m a has t w = Inr (fdo, has1)" and cut: "cut E bz t w k val rest"
      and v: "value_step E n a fdo val has1 st has2 st2"
      and nx: "reject_loop E n fs m a has2 rest st2 = Some (Inr (h, None), st')"
      using r unfolding reject_loop_Suc_ok [OF False] by blast
    show ?thesis
    proof (cases "fs t")
      case None
      then have a: "a" "t AND bit11NonCritical \<noteq> 0" and "fdo = None" "has1" using ct by (auto simp: check_tag_ok)
      then have "has2" "st2 = st" using v by (simp_all add: value_step_None)
      then obtain h' where "typed_fields E a fs rest h'" "h" "ucache_ok E st'" using loop [OF c] nx by blast
      then show ?thesis using fields_unknown [of bz E t w k fs a, OF False tag None a cut] by blast
    next
      case (Some fd)
      then have ce: "canEncodeType w (FType fd)" and fd: "fdo = Some fd" "has1 = has" using ct by (auto simp: check_tag_ok)
      then obtain hv where hv: "typed_value E a fd val hv" "has2 = (has \<or> hv)" and c2: "ucache_ok E st2"
        using value_step_sound [OF snd c] v by blast
      obtain h' where "typed_fields E a fs rest h'" "h = (has2 \<or> h')" "ucache_ok E st'" using loop [OF c2 nx] by blast
      then show ?thesis using fields_known [of bz E t w k fs fd val rest a hv, OF False tag Some ce cut hv(1)] hv(2) by blast
    qed
  qed (use that in \<open>auto intro: fields_empty\<close>)
  ultimately show ?case unfolding sound_at_def by blast
qed (simp add: sound_at_def)

lemma named_complete:
  assumes c: "ucache_ok E st" and m: "message_of E name = Inr m"
    and r: "\<And>st. ucache_ok E st \<Longrightarrow> \<exists>st'. reject E n sub m a st = Some (Inr (h, None), st') \<and> ucache_ok E st'"
  shows "\<exists>st'. reject_named E name has (\<lambda>msg st. reject E n sub msg a st) st = Some (Inr (has \<or> h, None), st') \<and> ucache_ok E st'"
proof -
  obtain st1 where "message_named E name st = (Inr m, st1)" "ucache_ok E st1" using message_named_ok [OF c] m by metis
  then show ?thesis using r m unfolding reject_named_ok [OF c] by blast
qed

lemma reject_complete:
  assumes law: "wire_law E"
  shows "typed E a msg bz h \<Longrightarrow> (\<And>n st. 2 * length bz + 2 \<le> n \<Longrightarrow> ucache_ok E st \<Longrightarrow>
      \<exists>st'. reject E n bz msg a st = Some (Inr (h, None), st') \<and> ucache_ok E st')"
    and "typed_fields E a fs bz h \<Longrightarrow> (\<And>n st m has. 2 * length bz + 1 \<le> n \<Longrightarrow> ucache_ok E st \<Longrightarrow>
      \<exists>st'. reject_loop E n fs m a has bz st = Some (Inr (has \<or> h, None), st') \<and> ucache_ok E st')"
    and "typed_value E a fd val h \<Longrightarrow> (\<And>n st has. 2 * length val + 2 \<le> n \<Longrightarrow> ucache_ok E st \<Longrightarrow>
      \<exists>st'. value_step E n a (Some fd) val has st (has \<or> h) st' \<and> ucache_ok E st')"
proof (induction rule: typed_typed_fields_typed_value.inducts)
  case (typed_empty msg)
  then show ?case by (cases n) auto
next
  case (typed_msg bz msg fs h)
  then obtain k where n: "n = Suc k" "2 * length bz + 1 \<le> k" by (cases n) auto
  obtain desc where d: "Descriptor E msg = Some desc" using typed_msg(2) by (auto simp: fields_of_def split: option.splits)
  obtain st1 where "getDescriptorInfo E desc msg st = (Inr fs, st1)" "ucache_ok E st1"
    using getDescriptorInfo_ok [OF typed_msg(6) d] typed_msg(2) by metis
  then show ?case using typed_msg(4) [OF n(2), of st1 msg False] typed_msg(1) d by (simp add: n(1))
next
  case (fields_empty fs)
  then show ?case by (cases n) auto
next
  case (fields_unknown bz t w k fs val rest h)
  have hyps: "bz \<noteq> []" "ConsumeTag E bz = (t, w, k)" "fs t = None" "a" "t AND bit11NonCritical \<noteq> 0" "cut E bz t w k val rest" by fact+
  obtain j where n: "n = Suc j" "2 * length bz \<le> j" using \<open>2 * length bz + 1 \<le> n\<close> by (cases n) auto
  have "0 < k" using law hyps(2,6) unfolding wire_law_def cut_def by fastforce
  then have "2 * length rest + 1 \<le> j" using cut_length [OF hyps(6)] n(2) by simp
  then obtain st' where "reject_loop E j fs m a True rest st = Some (Inr (True \<or> h, None), st')" "ucache_ok E st'"
    using fields_unknown.IH \<open>ucache_ok E st\<close> by blast
  moreover have "check_tag E fs m a has t w = Inr (None, True)" using hyps by (simp add: check_tag_ok)
  moreover have "value_step E j a None val True st True st" by (simp add: value_step_None)
  ultimately show ?case unfolding n(1) reject_loop_Suc_ok [OF hyps(1)] simp_thms using hyps(2,6) by blast
next
  case (fields_known bz t w k fs fd val rest h h')
  have hyps: "bz \<noteq> []" "ConsumeTag E bz = (t, w, k)" "fs t = Some fd" "canEncodeType w (FType fd)" "cut E bz t w k val rest" by fact+
  obtain j where n: "n = Suc j" "2 * length bz \<le> j" using \<open>2 * length bz + 1 \<le> n\<close> by (cases n) auto
  have "0 < k" using law hyps(2,5) unfolding wire_law_def cut_def by fastforce
  then have len: "2 * length val + 2 \<le> j" "2 * length rest + 1 \<le> j" using cut_length [OF hyps(5)] n(2) by simp_all
  obtain st1 where v: "value_step E j a (Some fd) val has st (has \<or> h) st1" "ucache_ok E st1"
    using fields_known.IH len(1) \<open>ucache_ok E st\<close> by blast
  obtain st' where r: "reject_loop E j fs m a (has \<or> h) rest st1 = Some (Inr ((has \<or> h) \<or> h', None), st')" "ucache_ok E st'"
    using fields_known.IH len(2) v(2) by blast
  have "check_tag E fs m a has t w = Inr (Some fd, has)" using hyps by (simp add: check_tag_ok)
  then show ?case unfolding n(1) reject_loop_Suc_ok [OF hyps(1)] disj_assoc [symmetric]
    using hyps(2,5) v(1) r by blast
next
  case (value_scalar fd val)
  then show ?case by (auto simp: value_step_def)
next
  case (value_msg fd val name sub m h)
  have nv: "nested_value E (Some fd) val = Inr (Sub name sub)" and mo: "message_of E name = Inr m" by fact+
  have "2 * length sub + 2 \<le> n" using nested_length [of E "Some fd" val name sub] nv \<open>2 * length val + 2 \<le> n\<close> by simp
  then have "\<And>st. ucache_ok E st \<Longrightarrow> \<exists>st'. reject E n sub m a st = Some (Inr (h, None), st') \<and> ucache_ok E st'"
    using value_msg.IH by blast
  then show ?case using named_complete [OF \<open>ucache_ok E st\<close> mo] nv by (simp add: value_step_def)
next
  case (value_any fd val sub h url v m h')
  have nv: "nested_value E (Some fd) val = Inr (SubAny sub)" and u: "UnmarshalAny E sub = Inr (url, v)" and mo: "message_of E url = Inr m"
    by fact+
  have s: "2 * length sub + 2 \<le> n" using nested_length [of E "Some fd" val _ sub] nv \<open>2 * length val + 2 \<le> n\<close> by simp
  have v: "2 * length v + 2 \<le> n" using s law u unfolding wire_law_def by fastforce
  obtain st1 where r: "reject E n sub (AnyPrototype E) a st = Some (Inr (h, None), st1)" "ucache_ok E st1"
    using value_any.IH s \<open>ucache_ok E st\<close> by blast
  have "\<And>st. ucache_ok E st \<Longrightarrow> \<exists>st'. reject E n v m a st = Some (Inr (h', None), st') \<and> ucache_ok E st'"
    using value_any.IH v by blast
  from named_complete [OF r(2) mo this, of "has \<or> h"] show ?case using r(1) nv u
    by (auto simp: value_step_def disj_assoc)
qed

lemma reject_named_total:
  assumes "\<And>m st. rec m st \<noteq> None"
  shows "reject_named E name has rec st \<noteq> None"
proof -
  obtain r st1 where "message_named E name st = (r, st1)" by (cases "message_named E name st")
  moreover have "or_child has (rec m st1) \<noteq> None" for m using assms by simp
  ultimately show ?thesis by (cases r) (simp_all add: reject_named_def)
qed

lemma reject_loop_step_total:
  assumes loop: "\<And>h rest s val k. ConsumeTag E bz = (t, w, k) \<Longrightarrow> \<not> k < 0 \<Longrightarrow> cut E bz t w k val rest \<Longrightarrow> reject_loop E n fs m a h rest s \<noteq> None"
    and msg: "\<And>k val rest fdo nm x y m' s. ConsumeTag E bz = (t, w, k) \<Longrightarrow> \<not> k < 0 \<Longrightarrow> cut E bz t w k val rest \<Longrightarrow>
        nested_value E fdo val = Inr (Sub nm x) \<or> nested_value E fdo val = Inr (SubAny x) \<Longrightarrow> length y \<le> length x \<Longrightarrow> reject E n y m' a s \<noteq> None"
    and any: "\<And>x u v. UnmarshalAny E x = Inr (u, v) \<Longrightarrow> length v \<le> length x"
    and tag: "ConsumeTag E bz = (t, w, k)"
  shows "reject_loop E (Suc n) fs m a has bz st \<noteq> None"
proof (cases "bz = [] \<or> k < 0")
  case False
  show ?thesis
  proof (cases "check_tag E fs m a has t w")
    case (Inr x)
    obtain fdo has1 where x: "x = (fdo, has1)" by (cases x)
    show ?thesis
    proof (cases "bindR (slice_from bz k) (\<lambda>bz. split_at bz (ConsumeFieldValue E t w bz))")
      case Inr2: (Inr vr)
      obtain val rest where vr: "vr = (val, rest)" by (cases vr)
      have cut: "cut E bz t w k val rest" using cut_iff [of k bz E t w val rest] Inr2 vr False by simp
      obtain body where b: "slice_from bz k = Inr body" "split_at body (ConsumeFieldValue E t w body) = Inr (val, rest)" using Inr2 vr by auto
      note go = loop [OF tag _ cut] and down = msg [OF tag _ cut] and f = False Inr x b tag
      show ?thesis
      proof (cases "nested_value E fdo val")
        case Inr3: (Inr nv)
        show ?thesis
        proof (cases nv)
          case Skip
          then show ?thesis using f Inr3 go by simp
        next
          case (Sub nm sub)
          have "reject_loop E (Suc n) fs m a has bz st =
              and_then (reject_named E nm has1 (\<lambda>msg st. reject E n sub msg a st) st) (\<lambda>has st. reject_loop E n fs m a has rest st)"
            using f Inr3 Sub by simp
          moreover have "\<dots> \<noteq> None" using go down [OF _ _ order_refl] False Inr3 Sub by (intro and_then_total reject_named_total) blast+
          ultimately show ?thesis by simp
        next
          case (SubAny sub)
          let ?k = "\<lambda>has st. case UnmarshalAny E sub of Inl e \<Rightarrow> Some (fail_with has e, st)
             | Inr (url, v) \<Rightarrow> and_then (reject_named E url has (\<lambda>msg st. reject E n v msg a st) st) (\<lambda>has st. reject_loop E n fs m a has rest st)"
          have eq: "reject_loop E (Suc n) fs m a has bz st = and_then (or_child has1 (reject E n sub (AnyPrototype E) a st)) ?k"
            using f Inr3 SubAny by simp
          have k: "?k h s \<noteq> None" for h s
          proof (cases "UnmarshalAny E sub")
            case (Inr uv)
            obtain url v where uv: "uv = (url, v)" by (cases uv)
            have "and_then (reject_named E url h (\<lambda>msg st. reject E n v msg a st) s) (\<lambda>has st. reject_loop E n fs m a has rest st) \<noteq> None"
              using go down [OF _ _ any] False Inr3 SubAny Inr uv by (intro and_then_total reject_named_total) blast+
            then show ?thesis using Inr uv by simp
          qed simp
          have r: "or_child has1 (reject E n sub (AnyPrototype E) a st) \<noteq> None"
            unfolding or_child_None using down [OF _ _ order_refl] False Inr3 SubAny by blast
          show ?thesis unfolding eq by (rule and_then_total [OF k r])
        qed
      qed (use f in simp)
    qed (use False Inr x tag in simp)
  qed (use False tag in \<open>simp split: prod.splits\<close>)
qed (use tag in auto)

lemma reject_total:
  assumes law: "wire_law E"
  shows "(\<forall>bz msg st. 2 * length bz + 2 \<le> n \<longrightarrow> reject E n bz msg a st \<noteq> None) \<and>
    (\<forall>fs msg has bz st. 2 * length bz + 1 \<le> n \<longrightarrow> reject_loop E n fs msg a has bz st \<noteq> None)"
proof (induction n)
  case (Suc n)
  note msg = Suc.IH [THEN conjunct1, rule_format]
  note loop = Suc.IH [THEN conjunct2, rule_format]
  have "reject E (Suc n) bz m a st \<noteq> None" if "2 * length bz + 2 \<le> Suc n" for bz m st
    using that loop by (simp split: option.splits prod.splits sum.splits)
  moreover have "reject_loop E (Suc n) fs m a has bz st \<noteq> None" if len: "2 * length bz + 1 \<le> Suc n" for fs m has bz st
  proof -
    obtain t w k where tag: "ConsumeTag E bz = (t, w, k)" by (metis prod_cases3)
    have pos: "0 < k'" if "ConsumeTag E bz = (t, w, k')" "\<not> k' < 0" for k' using law that unfolding wire_law_def by blast
    show ?thesis
    proof (rule reject_loop_step_total [OF _ _ _ tag])
      show "reject_loop E n fs m a h rest s \<noteq> None" if "ConsumeTag E bz = (t, w, k')" "\<not> k' < 0" "cut E bz t w k' val rest" for h rest s val k'
        using loop len cut_length [OF that(3) pos [OF that(1,2)]] by simp
      show "reject E n y m' a s \<noteq> None"
        if "ConsumeTag E bz = (t, w, k')" "\<not> k' < 0" "cut E bz t w k' val rest"
          "nested_value E fdo val = Inr (Sub nm x) \<or> nested_value E fdo val = Inr (SubAny x)" "length y \<le> length x" for k' val rest fdo nm x y m' s
        using msg len cut_length [OF that(3) pos [OF that(1,2)]] nested_length [OF that(4)] that(5) by simp
      show "length v \<le> length x" if "UnmarshalAny E x = Inr (u, v)" for x u v using law that unfolding wire_law_def by blast
    qed
  qed
  ultimately show ?case by blast
qed simp

section \<open>Properties\<close>


lemma typed_strict:
  "typed E a msg bz h \<Longrightarrow> \<not> a \<Longrightarrow> \<not> h" "typed_fields E a fs bz h \<Longrightarrow> \<not> a \<Longrightarrow> \<not> h" "typed_value E a fd val h \<Longrightarrow> \<not> a \<Longrightarrow> \<not> h"
  by (induction rule: typed_typed_fields_typed_value.inducts) auto

text \<open>A message type with the field 1 of type \<open>uint64\<close>; tags and small values take one byte.\<close>

definition demo_env :: "nat ProtoEnv" where
  "demo_env = \<lparr>
     ConsumeTag = (\<lambda>bz. case bz of [] \<Rightarrow> (0, 0, -1) | b # _ \<Rightarrow> (ucast (drop_bit 3 b), uint (b AND 7), 1)),
     ConsumeFieldValue = (\<lambda>t w bz. if bz = [] then -1 else 1),
     ConsumeVarint = (\<lambda>bz. case bz of [] \<Rightarrow> (0, -1) | b # _ \<Rightarrow> (ucast b, 1)),
     IsScalar = (\<lambda>ft. ft \<notin> {TYPE_STRING, TYPE_BYTES, TYPE_MESSAGE, TYPE_GROUP}),
     FieldWireType = (\<lambda>ft. 0),
     Descriptor = (\<lambda>m. Some ([], [m])),
     TypeString = (\<lambda>m. ''Demo''),
     MessageType = (\<lambda>n. if n = ''Demo'' then Some 1 else None),
     IsProtoMessage = (\<lambda>m. True),
     AnyPrototype = 0,
     UnmarshalAny = (\<lambda>bz. Inr (''/Demo'', [])),
     Gunzip = Inr,
     UnmarshalFile = (\<lambda>bz. Inr [MsgDesc [] [], MsgDesc [\<lparr>FNumber = 1, FType = TYPE_UINT64, FTypeName = ''''\<rparr>] []])\<rparr>"

definition empty_ucache :: "'m ucache" where
  "empty_ucache = \<lparr>protoMessageForTypeNameCache = Map.empty, protoFileToDesc = Map.empty, descprotoCache = Map.empty\<rparr>"

definition outcome :: "'m uresult \<Rightarrow> (bool \<times> UErr option) res option" where
  "outcome r = map_option fst r"


text \<open>A field value that protowire cannot read, and an \<open>Any\<close> without a type URL, are answered with a panic.\<close>

lemma truncated_value_panics:
  "outcome (RejectUnknownFields demo_env [8] 1 False empty_ucache) = Some (Inl (Panic ''slice bounds out of range''))"
  by code_simp

lemma empty_type_url_panics:
  "fst (message_named E '''' st) = Inl (Panic ''slice bounds out of range'')"
  by (simp add: message_named_def)

end
