(* ===== verification/Uuid.thy ===== *)
theory Uuid
  imports KeyStore
begin

text \<open>
  UUIDs (\<open>utils/uuid\<close>): the 16 bytes and their version and variant bits (\<open>uuid.go\<close>), the text and binary forms
  (\<open>codec.go\<close>) and the generators (\<open>generator.go\<close>). A UUID is a list of 16 bytes; the decoders give its new value,
  and nothing on an error. The state of a generator holds the bytes its source of randomness still has; the
  current time, the network hardware address, the POSIX ids and the hash functions are arguments.
\<close>

unbundle bit_operations_syntax

section \<open>The type (\<open>uuid.go\<close>)\<close>

definition UUID_Size :: nat where "UUID_Size = 16"

definition V1 :: "8 word" where "V1 = 1"
definition V2 :: "8 word" where "V2 = 2"
definition V3 :: "8 word" where "V3 = 3"
definition V4 :: "8 word" where "V4 = 4"
definition V5 :: "8 word" where "V5 = 5"

definition VariantNCS :: "8 word" where "VariantNCS = 0"
definition VariantRFC4122 :: "8 word" where "VariantRFC4122 = 1"
definition VariantMicrosoft :: "8 word" where "VariantMicrosoft = 2"
definition VariantFuture :: "8 word" where "VariantFuture = 3"

definition urnPrefix :: string where "urnPrefix = ''urn:uuid:''"
definition byteGroups :: "nat list" where "byteGroups = [8, 4, 4, 4, 12]"

definition UUID_Nil :: bytes where "UUID_Nil = replicate 16 0"

definition UUID_Equal :: "bytes \<Rightarrow> bytes \<Rightarrow> bool" where
  "UUID_Equal u1 u2 = (u1 = u2)"

definition Version :: "bytes \<Rightarrow> 8 word" where
  "Version u = drop_bit 4 (u ! 6)"

definition Variant :: "bytes \<Rightarrow> 8 word" where
  "Variant u =
     (if drop_bit 7 (u ! 8) = 0 then VariantNCS
      else if drop_bit 6 (u ! 8) = 2 then VariantRFC4122
      else if drop_bit 5 (u ! 8) = 6 then VariantMicrosoft
      else VariantFuture)"

definition SetVersion :: "8 word \<Rightarrow> bytes \<Rightarrow> bytes" where
  "SetVersion v u = u[6 := (u ! 6 AND 0x0f) OR push_bit 4 v]"

definition SetVariant :: "8 word \<Rightarrow> bytes \<Rightarrow> bytes" where
  "SetVariant v u =
     u[8 := (if v = VariantNCS then (u ! 8 AND 0x7f) OR 0x00
             else if v = VariantRFC4122 then (u ! 8 AND 0x3f) OR 0x80
             else if v = VariantMicrosoft then (u ! 8 AND 0x1f) OR 0xc0
             else (u ! 8 AND 0x1f) OR 0xe0)]"

text \<open>\<open>hex.Encode\<close> writes lower case digits.\<close>

definition hex_lower :: "nat \<Rightarrow> char" where
  "hex_lower n = (if n < 10 then char_of (48 + n) else char_of (87 + n))"

definition hexLower :: "bytes \<Rightarrow> string" where
  "hexLower bs = concat (map (\<lambda>b. [hex_lower (unat b div 16), hex_lower (unat b mod 16)]) bs)"

definition UUID_String :: "bytes \<Rightarrow> string" where
  "UUID_String u =
     hexLower (take 4 u) @ ''-'' @ hexLower (take 2 (drop 4 u)) @ ''-'' @ hexLower (take 2 (drop 6 u)) @ ''-'' @
     hexLower (take 2 (drop 8 u)) @ ''-'' @ hexLower (drop 10 u)"

definition Must :: "bytes res \<Rightarrow> bytes res" where
  "Must r = (case r of Inl (Err e) \<Rightarrow> Inl (Panic e) | _ \<Rightarrow> r)"

section \<open>Text and binary forms (\<open>codec.go\<close>)\<close>

definition hex_group :: "string \<Rightarrow> bytes res" where
  "hex_group s = (case hexDecode s of None \<Rightarrow> Inl (Err ''encoding/hex: invalid byte'') | Some b \<Rightarrow> Inr b)"

text \<open>The loop over the groups; every group but the first is preceded by a dash.\<close>

fun canonical_loop :: "bool \<Rightarrow> nat list \<Rightarrow> string \<Rightarrow> bytes res" where
  "canonical_loop first [] src = Inr []"
| "canonical_loop first (n # ns) src =
     (let src = (if first then src else drop 1 src)
      in bindR (hex_group (take n src)) (\<lambda>b. bindR (canonical_loop False ns (drop n src)) (\<lambda>bs. Inr (b @ bs))))"

definition decodeCanonical :: "string \<Rightarrow> bytes res" where
  "decodeCanonical t =
     (if t ! 8 \<noteq> CHR ''-'' \<or> t ! 13 \<noteq> CHR ''-'' \<or> t ! 18 \<noteq> CHR ''-'' \<or> t ! 23 \<noteq> CHR ''-''
      then Inl (Err (''uuid: incorrect UUID format '' @ t))
      else canonical_loop True byteGroups t)"

definition decodeHashLike :: "string \<Rightarrow> bytes res" where
  "decodeHashLike t = hex_group t"

definition decodePlain :: "string \<Rightarrow> bytes res" where
  "decodePlain t =
     (if length t = 32 then decodeHashLike t else if length t = 36 then decodeCanonical t
      else Inl (Err (''uuid: incorrrect UUID length: '' @ t)))"

definition decodeBraced :: "string \<Rightarrow> bytes res" where
  "decodeBraced t =
     (let l = length t
      in if t ! 0 \<noteq> CHR ''{'' \<or> t ! (l - 1) \<noteq> CHR ''}'' then Inl (Err (''uuid: incorrect UUID format '' @ t))
         else decodePlain (take (l - 2) (drop 1 t)))"

definition decodeURN :: "string \<Rightarrow> bytes res" where
  "decodeURN t =
     (if take 9 t \<noteq> urnPrefix then Inl (Err (''uuid: incorrect UUID format: '' @ t)) else decodePlain (drop 9 t))"

definition UUID_UnmarshalText :: "string \<Rightarrow> bytes res" where
  "UUID_UnmarshalText text =
     (if length text = 32 then decodeHashLike text
      else if length text = 36 then decodeCanonical text
      else if length text = 38 then decodeBraced text
      else if length text = 41 \<or> length text = 45 then decodeURN text
      else Inl (Err (''uuid: incorrect UUID length: '' @ text)))"

definition UUID_MarshalText :: "bytes \<Rightarrow> string" where
  "UUID_MarshalText u = UUID_String u"

definition FromString :: "string \<Rightarrow> bytes res" where
  "FromString input = UUID_UnmarshalText input"

definition FromStringOrNil :: "string \<Rightarrow> bytes" where
  "FromStringOrNil input = (case FromString input of Inl _ \<Rightarrow> UUID_Nil | Inr u \<Rightarrow> u)"

definition UUID_UnmarshalBinary :: "bytes \<Rightarrow> bytes res" where
  "UUID_UnmarshalBinary data =
     (if length data \<noteq> UUID_Size then Inl (Err ''uuid: UUID must be exactly 16 bytes long'') else Inr data)"

definition UUID_MarshalBinary :: "bytes \<Rightarrow> bytes" where
  "UUID_MarshalBinary u = u"

definition FromBytes :: "bytes \<Rightarrow> bytes res" where
  "FromBytes input = UUID_UnmarshalBinary input"

definition FromBytesOrNil :: "bytes \<Rightarrow> bytes" where
  "FromBytesOrNil input = (case FromBytes input of Inl _ \<Rightarrow> UUID_Nil | Inr u \<Rightarrow> u)"

section \<open>Generators (\<open>generator.go\<close>)\<close>

definition epochStart :: "64 word" where "epochStart = 122192928000000000"

record Generator =
  clockSequenceOnce :: bool
  hardwareAddrOnce :: bool
  grand :: bytes
  lastTime :: "64 word"
  clockSequence :: "16 word"
  hardwareAddr :: bytes

definition newRFC4122Generator :: "bytes \<Rightarrow> Generator" where
  "newRFC4122Generator rand =
     \<lparr>clockSequenceOnce = False, hardwareAddrOnce = False, grand = rand, lastTime = 0, clockSequence = 0, hardwareAddr = replicate 6 0\<rparr>"

text \<open>\<open>io.ReadFull\<close> of \<open>n\<close> bytes uses up what is left when there are too few.\<close>

definition ReadFull :: "nat \<Rightarrow> Generator \<Rightarrow> bytes res \<times> Generator" where
  "ReadFull n g =
     (if length (grand g) < n then (Inl (Err ''unexpected EOF''), g\<lparr>grand := []\<rparr>)
      else (Inr (take n (grand g)), g\<lparr>grand := drop n (grand g)\<rparr>))"

definition getEpoch :: "int \<Rightarrow> 64 word" where
  "getEpoch unixNano = epochStart + word_of_int (sgn unixNano * (\<bar>unixNano\<bar> div 100))"

definition Uint16 :: "bytes \<Rightarrow> 16 word" where
  "Uint16 b = push_bit 8 (ucast (b ! 0)) OR ucast (b ! 1)"

definition PutUint16 :: "16 word \<Rightarrow> bytes" where
  "PutUint16 v = [ucast (drop_bit 8 v), ucast v]"

text \<open>The function given to \<open>Once.Do\<close> runs at most once, also after an error.\<close>

definition init_clock :: "Generator \<Rightarrow> unit res \<times> Generator" where
  "init_clock g =
     (if clockSequenceOnce g then (Inr (), g)
      else case ReadFull 2 (g\<lparr>clockSequenceOnce := True\<rparr>) of
             (Inl e, g) \<Rightarrow> (Inl e, g)
           | (Inr buf, g) \<Rightarrow> (Inr (), g\<lparr>clockSequence := Uint16 buf\<rparr>))"

definition getClockSequence :: "int \<Rightarrow> Generator \<Rightarrow> (64 word \<times> 16 word) res \<times> Generator" where
  "getClockSequence now g =
     (case init_clock g of
        (Inl e, g) \<Rightarrow> (Inl e, g)
      | (Inr _, g) \<Rightarrow>
          let timeNow = getEpoch now;
              g = (if timeNow \<le> lastTime g then g\<lparr>clockSequence := clockSequence g + 1\<rparr> else g);
              g = g\<lparr>lastTime := timeNow\<rparr>
          in (Inr (timeNow, clockSequence g), g))"

definition copy6 :: "bytes \<Rightarrow> bytes \<Rightarrow> bytes" where
  "copy6 dst src = take 6 src @ drop (length (take 6 src)) dst"

definition init_hardware :: "bytes res \<Rightarrow> Generator \<Rightarrow> unit res \<times> Generator" where
  "init_hardware hwAddrFunc g =
     (if hardwareAddrOnce g then (Inr (), g)
      else
        let g = g\<lparr>hardwareAddrOnce := True\<rparr>
        in case hwAddrFunc of
             Inr hwAddr \<Rightarrow> (Inr (), g\<lparr>hardwareAddr := copy6 (hardwareAddr g) hwAddr\<rparr>)
           | Inl _ \<Rightarrow>
               (case ReadFull 6 g of
                  (Inl e, g) \<Rightarrow> (Inl e, g)
                | (Inr b, g) \<Rightarrow> (Inr (), g\<lparr>hardwareAddr := b[0 := (b ! 0) OR 1]\<rparr>)))"

definition getHardwareAddr :: "bytes res \<Rightarrow> Generator \<Rightarrow> bytes res \<times> Generator" where
  "getHardwareAddr hwAddrFunc g =
     (case init_hardware hwAddrFunc g of (Inl e, g) \<Rightarrow> (Inl e, g) | (Inr _, g) \<Rightarrow> (Inr (hardwareAddr g), g))"

definition NewV1 :: "bytes res \<Rightarrow> int \<Rightarrow> Generator \<Rightarrow> bytes res \<times> Generator" where
  "NewV1 hwAddrFunc now g =
     (case getClockSequence now g of
        (Inl e, g) \<Rightarrow> (Inl e, g)
      | (Inr (timeNow, clockSeq), g) \<Rightarrow>
          (case getHardwareAddr hwAddrFunc g of
             (Inl e, g) \<Rightarrow> (Inl e, g)
           | (Inr hw, g) \<Rightarrow>
               let u = uint32ToBytes (ucast timeNow) @ PutUint16 (ucast (drop_bit 32 timeNow)) @
                       PutUint16 (ucast (drop_bit 48 timeNow)) @ PutUint16 clockSeq @ hw
               in (Inr (SetVariant VariantRFC4122 (SetVersion V1 u)), g)))"

definition NewV2 :: "bytes res \<Rightarrow> int \<Rightarrow> 32 word \<Rightarrow> 32 word \<Rightarrow> 8 word \<Rightarrow> Generator \<Rightarrow> bytes res \<times> Generator" where
  "NewV2 hwAddrFunc now posixUID posixGID domain g =
     (case NewV1 hwAddrFunc now g of
        (Inl e, g) \<Rightarrow> (Inl e, g)
      | (Inr u, g) \<Rightarrow>
          let u = (if domain = 0 then uint32ToBytes posixUID @ drop 4 u
                   else if domain = 1 then uint32ToBytes posixGID @ drop 4 u else u);
              u = u[9 := domain]
          in (Inr (SetVariant VariantRFC4122 (SetVersion V2 u)), g))"

text \<open>The sum of a hash shorter than 16 bytes leaves zero bytes.\<close>

definition newFromHash :: "(bytes \<Rightarrow> bytes) \<Rightarrow> bytes \<Rightarrow> string \<Rightarrow> bytes" where
  "newFromHash h ns name = (let s = take 16 (h (ns @ str_to_bytes name)) in s @ replicate (16 - length s) 0)"

definition NewV3 :: "(bytes \<Rightarrow> bytes) \<Rightarrow> bytes \<Rightarrow> string \<Rightarrow> bytes" where
  "NewV3 md5 ns name = SetVariant VariantRFC4122 (SetVersion V3 (newFromHash md5 ns name))"

definition NewV4 :: "Generator \<Rightarrow> bytes res \<times> Generator" where
  "NewV4 g =
     (case ReadFull 16 g of
        (Inl e, g) \<Rightarrow> (Inl e, g)
      | (Inr u, g) \<Rightarrow> (Inr (SetVariant VariantRFC4122 (SetVersion V4 u)), g))"

definition NewV5 :: "(bytes \<Rightarrow> bytes) \<Rightarrow> bytes \<Rightarrow> string \<Rightarrow> bytes" where
  "NewV5 sha1 ns name = SetVariant VariantRFC4122 (SetVersion V5 (newFromHash sha1 ns name))"

definition defaultHWAddrFunc :: "(bytes list) res \<Rightarrow> bytes res" where
  "defaultHWAddrFunc ifaces =
     bindR ifaces (\<lambda>is. case find (\<lambda>a. 6 \<le> length a) is of
        None \<Rightarrow> Inl (Err ''uuid: no HW address found'') | Some a \<Rightarrow> Inr a)"

section \<open>Bits\<close>

lemma less8: "n < 8 \<Longrightarrow> n = 0 \<or> n = 1 \<or> n = 2 \<or> n = 3 \<or> n = 4 \<or> n = 5 \<or> n = 6 \<or> n = (7::nat)"
  by arith

lemma byte_eqI:
  fixes a b :: "8 word"
  assumes "\<And>n. n < 8 \<Longrightarrow> bit a n = bit b n"
  shows "a = b"
  using assms by (intro bit_eqI) (simp add: possible_bit_word)

lemma version_bits: "v \<in> {1, 2, 3, 4, 5} \<Longrightarrow> drop_bit 4 ((b AND 0x0f) OR push_bit 4 v) = (v :: 8 word)"
  by (rule byte_eqI, drule less8) (auto simp: bit_simps)

lemma variant_bits: "drop_bit 6 ((b AND 0x3f) OR 0x80) = (2 :: 8 word)" "drop_bit 7 ((b AND 0x3f) OR 0x80) = (1 :: 8 word)"
  by (rule byte_eqI, drule less8, auto simp: bit_simps)+

definition rfc4122 :: "8 word \<Rightarrow> bytes \<Rightarrow> bool" where
  "rfc4122 v u = (length u = UUID_Size \<and> Version u = v \<and> Variant u = VariantRFC4122)"

lemmas uuid_consts = UUID_Size_def V1_def V2_def V3_def V4_def V5_def VariantNCS_def VariantRFC4122_def VariantMicrosoft_def VariantFuture_def

lemma rfc4122_set:
  assumes "length u = 16" "v \<in> {V1, V2, V3, V4, V5}"
  shows "rfc4122 v (SetVariant VariantRFC4122 (SetVersion v u))"
proof -
  have "v \<in> {1, 2, 3, 4, 5}" using assms(2) by (simp add: uuid_consts)
  then show ?thesis using assms(1) version_bits [of v "u ! 6"] variant_bits [of "u ! 8"]
    by (simp add: rfc4122_def Version_def Variant_def SetVersion_def SetVariant_def uuid_consts)
qed

section \<open>Text forms\<close>

lemma fromHexChar_hex_lower: "n < 16 \<Longrightarrow> fromHexChar (hex_lower n) = Some n"
proof -
  have "\<forall>n < 16. fromHexChar (hex_lower n) = Some n" by code_simp
  then show "n < 16 \<Longrightarrow> fromHexChar (hex_lower n) = Some n" by blast
qed

lemma hexDecode_hexLower [simp]: "hexDecode (hexLower bs) = Some bs"
proof (induction bs)
  case (Cons b bs)
  have "unat b div 16 < 16" "unat b mod 16 < 16" using unsigned_less [of b, where 'a = nat] by (auto simp: less_mult_imp_div_less)
  then show ?case using Cons by (simp add: hexLower_def fromHexChar_hex_lower)
qed (simp add: hexLower_def)

lemma length_hexLower [simp]: "length (hexLower bs) = 2 * length bs"
  by (induction bs) (simp_all add: hexLower_def)

lemma hex_group_hexLower [simp]: "hex_group (hexLower bs) = Inr bs"
  by (simp add: hex_group_def)

lemma hexDecode_length: "hexDecode s = Some b \<Longrightarrow> length s = 2 * length b"
  by (induction s arbitrary: b rule: hexDecode.induct) (auto split: option.splits)

lemma hex_group_length: "hex_group s = Inr b \<Longrightarrow> length s = 2 * length b"
  by (auto simp: hex_group_def hexDecode_length split: option.splits)

lemma decodeCanonical_groups:
  assumes "length a = 4" "length b = 2" "length c = 2" "length d = 2" "length e = 6"
  shows "decodeCanonical (hexLower a @ ''-'' @ hexLower b @ ''-'' @ hexLower c @ ''-'' @ hexLower d @ ''-'' @ hexLower e) =
    Inr (a @ b @ c @ d @ e)"
  using assms by (simp add: decodeCanonical_def byteGroups_def nth_append)

lemma decodeCanonical_String: "length u = 16 \<Longrightarrow> decodeCanonical (UUID_String u) = Inr u"
proof -
  assume l: "length u = 16"
  have "take 4 u @ take 2 (drop 4 u) @ take 2 (drop 6 u) @ take 2 (drop 8 u) @ drop 10 u = u"
    using append_take_drop_id [of 2 "drop 8 u"] append_take_drop_id [of 2 "drop 6 u"] append_take_drop_id [of 2 "drop 4 u"]
      append_take_drop_id [of 4 u] by simp
  then show ?thesis
    using decodeCanonical_groups [of "take 4 u" "take 2 (drop 4 u)" "take 2 (drop 6 u)" "take 2 (drop 8 u)" "drop 10 u"] l
    by (simp add: UUID_String_def)
qed

lemma length_UUID_String: "length u = 16 \<Longrightarrow> length (UUID_String u) = 36"
  by (simp add: UUID_String_def)

lemma decodePlain_length: "decodePlain t = Inr u \<Longrightarrow> length u = 16"
  by (auto simp: decodePlain_def decodeHashLike_def decodeCanonical_def byteGroups_def Let_def split: if_splits dest!: hex_group_length)

lemma FromString_length: "FromString t = Inr u \<Longrightarrow> length u = 16"
proof -
  assume "FromString t = Inr u"
  then have "decodePlain t = Inr u \<or> decodeBraced t = Inr u \<or> decodeURN t = Inr u"
    by (auto simp: FromString_def UUID_UnmarshalText_def decodePlain_def split: if_splits)
  then show ?thesis by (auto simp: decodeBraced_def decodeURN_def Let_def decodePlain_length split: if_splits)
qed

text \<open>
  Every UUID is read back from its canonical text, from that text in braces or behind the URN prefix, from its 32
  digits alone, and from its 16 bytes; and whatever text is accepted, the result has 16 bytes.
\<close>

theorem UUID_text_roundtrip:
  assumes "length u = UUID_Size"
  shows "FromString (UUID_String u) = Inr u \<and> FromString (''{'' @ UUID_String u @ ''}'') = Inr u
     \<and> FromString (urnPrefix @ UUID_String u) = Inr u \<and> FromString (hexLower u) = Inr u
     \<and> FromBytes (UUID_MarshalBinary u) = Inr u \<and> (\<forall>t v. FromString t = Inr v \<longrightarrow> length v = UUID_Size)"
proof -
  have l: "length u = 16" using assms by (simp add: UUID_Size_def)
  note d = decodeCanonical_String [OF l] and len = length_UUID_String [OF l]
  have "FromString (UUID_String u) = Inr u" using d len by (simp add: FromString_def UUID_UnmarshalText_def)
  moreover have "FromString (''{'' @ UUID_String u @ ''}'') = Inr u" using d len
    by (simp add: FromString_def UUID_UnmarshalText_def decodeBraced_def Let_def decodePlain_def nth_append)
  moreover have "FromString (urnPrefix @ UUID_String u) = Inr u" using d len
    by (simp add: FromString_def UUID_UnmarshalText_def decodeURN_def decodePlain_def urnPrefix_def)
  moreover have "FromString (hexLower u) = Inr u" using l by (simp add: FromString_def UUID_UnmarshalText_def decodeHashLike_def)
  moreover have "FromBytes (UUID_MarshalBinary u) = Inr u" using assms
    by (simp add: FromBytes_def UUID_UnmarshalBinary_def UUID_MarshalBinary_def)
  moreover have "\<forall>t v. FromString t = Inr v \<longrightarrow> length v = UUID_Size" using FromString_length by (simp add: UUID_Size_def)
  ultimately show ?thesis by blast
qed

theorem UUID_text_roundtrip_witness:
  "FromString (UUID_String UUID_Nil) = Inr UUID_Nil \<and> UUID_String UUID_Nil = ''00000000-0000-0000-0000-000000000000''"
proof -
  have "length UUID_Nil = UUID_Size" by (simp add: UUID_Nil_def UUID_Size_def)
  moreover have "UUID_String UUID_Nil = ''00000000-0000-0000-0000-000000000000''" by code_simp
  ultimately show ?thesis using UUID_text_roundtrip [of UUID_Nil] by blast
qed

text \<open>The documented form of 32 digits in braces is refused: its 34 characters are none of the accepted lengths.\<close>

lemma braced_hashlike_refused:
  "length u = 16 \<Longrightarrow> FromString (''{'' @ hexLower u @ ''}'') = Inl (Err (''uuid: incorrect UUID length: '' @ ''{'' @ hexLower u @ ''}''))"
  by (simp add: FromString_def UUID_UnmarshalText_def)

section \<open>Generated UUIDs\<close>

lemma init_hardware_length:
  "init_hardware hw g = (Inr x, g') \<Longrightarrow> length (hardwareAddr g) = 6 \<Longrightarrow> length (hardwareAddr g') = 6"
  by (auto simp: init_hardware_def copy6_def ReadFull_def Let_def split: if_splits sum.splits prod.splits)

lemma getClockSequence_frame:
  assumes "getClockSequence now g = (Inr (t, c), g')"
  shows "t = getEpoch now" "lastTime g' = t" "clockSequence g' = c" "hardwareAddr g' = hardwareAddr g" "clockSequenceOnce g'"
    "clockSequenceOnce g \<Longrightarrow> getEpoch now \<le> lastTime g \<Longrightarrow> c = clockSequence g + 1"
  using assms by (auto simp: getClockSequence_def init_clock_def ReadFull_def Let_def split: if_splits prod.splits sum.splits)

lemma init_hardware_frame:
  "init_hardware hw g = (r, g') \<Longrightarrow> lastTime g' = lastTime g \<and> clockSequence g' = clockSequence g \<and> clockSequenceOnce g' = clockSequenceOnce g"
  by (auto simp: init_hardware_def ReadFull_def Let_def split: if_splits sum.splits prod.splits)

definition v1_bytes :: "64 word \<Rightarrow> 16 word \<Rightarrow> bytes \<Rightarrow> bytes" where
  "v1_bytes t c hw = uint32ToBytes (ucast t) @ PutUint16 (ucast (drop_bit 32 t)) @ PutUint16 (ucast (drop_bit 48 t)) @ PutUint16 c @ hw"

lemma NewV1_cases:
  assumes "NewV1 hw now g = (Inr u, g')"
  shows "\<exists>c g1. getClockSequence now g = (Inr (getEpoch now, c), g1) \<and> init_hardware hw g1 = (Inr (), g')
    \<and> u = SetVariant VariantRFC4122 (SetVersion V1 (v1_bytes (getEpoch now) c (hardwareAddr g')))"
proof -
  obtain r g1 where c: "getClockSequence now g = (r, g1)" by (cases "getClockSequence now g")
  then obtain t cs where r: "r = Inr (t, cs)" using assms by (auto simp: NewV1_def split: sum.splits)
  then have t: "t = getEpoch now" using getClockSequence_frame(1) c by blast
  obtain r2 g2 where h: "init_hardware hw g1 = (r2, g2)" by (cases "init_hardware hw g1")
  show ?thesis using assms c r t h by (cases r2) (auto simp: NewV1_def getHardwareAddr_def v1_bytes_def Let_def)
qed

lemma length_v1_bytes: "length hw = 6 \<Longrightarrow> length (v1_bytes t c hw) = 16"
  by (simp add: v1_bytes_def uint32ToBytes_def PutUint16_def)

text \<open>The time below \<open>2\<^sup>60\<close> and the low 14 bits of the clock sequence can be read from the bytes.\<close>

lemma bits60_eqI:
  fixes t t' :: "64 word"
  assumes b: "\<And>j k. j < 7 \<Longrightarrow> k < 8 \<Longrightarrow> bit t (8 * j + k) = bit t' (8 * j + k)" and h: "\<And>k. k < 4 \<Longrightarrow> bit t (56 + k) = bit t' (56 + k)"
    and t: "t < 2 ^ 60" "t' < 2 ^ 60"
  shows "t = t'"
proof (rule bit_eqI)
  fix n
  have top: "\<not> bit w n" if "w < 2 ^ 60" "60 \<le> n" for w :: "64 word"
  proof -
    have "unat w < 2 ^ 60" using that(1) by (simp add: word_less_nat_alt)
    also have "(2::nat) ^ 60 \<le> 2 ^ n" using that(2) by (rule power_increasing) simp
    finally have "\<not> bit (unat w) n" by (simp add: bit_iff_odd)
    then show ?thesis by (simp add: bit_unsigned_iff)
  qed
  show "bit t n = bit t' n"
  proof (cases "n < 56")
    case True
    then show ?thesis using b [of "n div 8" "n mod 8"] by (simp add: less_mult_imp_div_less)
  next
    case False
    then show ?thesis using h [of "n - 56"] top t by (cases "n < 60") auto
  qed
qed

lemma low4_bits: "(a AND 0x0f) OR x = (b AND 0x0f) OR (x::8 word) \<Longrightarrow> x AND 0x0f = 0 \<Longrightarrow> k < 4 \<Longrightarrow> bit a k = bit b k"
proof -
  assume e: "(a AND 0x0f) OR x = (b AND 0x0f) OR x" "x AND 0x0f = 0" "k < 4"
  have "k = 0 \<or> k = 1 \<or> k = 2 \<or> k = 3" using e(3) by arith
  then have m: "bit (0x0f :: 8 word) k" by (elim disjE) simp_all
  then have "\<not> bit x k" using arg_cong [OF e(2), of "\<lambda>w. bit w k"] by (simp add: bit_simps)
  then show ?thesis using arg_cong [OF e(1), of "\<lambda>w. bit w k"] m by (simp add: bit_simps)
qed

text \<open>The time below \<open>2\<^sup>60\<close> and the lowest bit of the clock sequence can be read from the bytes.\<close>

lemma v1_injective:
  assumes eq: "SetVariant VariantRFC4122 (SetVersion V1 (v1_bytes t c hw)) = SetVariant VariantRFC4122 (SetVersion V1 (v1_bytes t' c' hw'))"
    and t: "t < 2 ^ 60" "t' < 2 ^ 60"
  shows "t = t'" and "bit c 0 = bit c' 0"
proof -
  note s = v1_bytes_def uint32ToBytes_def PutUint16_def SetVariant_def SetVersion_def uuid_consts
  have b: "SetVariant VariantRFC4122 (SetVersion V1 (v1_bytes t c hw)) ! i = SetVariant VariantRFC4122 (SetVersion V1 (v1_bytes t' c' hw')) ! i"
    for i using eq by simp
  have "bit t (8 * j + k) = bit t' (8 * j + k)" if jk: "j < 7" "k < 8" for j k
  proof -
    consider "j = 0" | "j = 1" | "j = 2" | "j = 3" | "j = 4" | "j = 5" | "j = 6" using jk(1) by linarith
    then show ?thesis
    proof cases
      case 1 then show ?thesis using arg_cong [OF b [of 3], of "\<lambda>w. bit w k"] jk(2) by (simp add: s bit_simps)
    next
      case 2 then show ?thesis using arg_cong [OF b [of 2], of "\<lambda>w. bit w k"] jk(2) by (simp add: s bit_simps add.commute)
    next
      case 3 then show ?thesis using arg_cong [OF b [of 1], of "\<lambda>w. bit w k"] jk(2) by (simp add: s bit_simps add.commute)
    next
      case 4 then show ?thesis using arg_cong [OF b [of 0], of "\<lambda>w. bit w k"] jk(2) by (simp add: s bit_simps add.commute)
    next
      case 5 then show ?thesis using arg_cong [OF b [of 5], of "\<lambda>w. bit w k"] jk(2) by (simp add: s bit_simps add.commute)
    next
      case 6 then show ?thesis using arg_cong [OF b [of 4], of "\<lambda>w. bit w k"] jk(2) by (simp add: s bit_simps add.commute)
    next
      case 7 then show ?thesis using arg_cong [OF b [of 7], of "\<lambda>w. bit w k"] jk(2) by (simp add: s bit_simps add.commute)
    qed
  qed
  moreover have "bit t (56 + k) = bit t' (56 + k)" if k: "k < 4" for k
  proof -
    have "(ucast (drop_bit 8 (ucast (drop_bit 48 t) :: 16 word)) AND 0x0f) OR push_bit 4 1 =
        ((ucast (drop_bit 8 (ucast (drop_bit 48 t') :: 16 word)) :: 8 word) AND 0x0f) OR push_bit 4 1"
      using b [of 6] by (simp add: s)
    from low4_bits [OF this _ k] k show ?thesis by (simp add: bit_simps add.commute)
  qed
  ultimately show "t = t'" using bits60_eqI t by blast
  show "bit c 0 = bit c' 0" using arg_cong [OF b [of 9], of "\<lambda>w. bit w 0"] by (simp add: s bit_simps)
qed

lemma NewV1_frame:
  assumes "NewV1 hw now g = (Inr u, g')"
  shows "\<exists>c. u = SetVariant VariantRFC4122 (SetVersion V1 (v1_bytes (getEpoch now) c (hardwareAddr g'))) \<and> lastTime g' = getEpoch now
    \<and> clockSequence g' = c \<and> clockSequenceOnce g' \<and> (length (hardwareAddr g) = 6 \<longrightarrow> length (hardwareAddr g') = 6)
    \<and> (clockSequenceOnce g \<and> getEpoch now \<le> lastTime g \<longrightarrow> c = clockSequence g + 1)"
proof -
  obtain c g1 where c: "getClockSequence now g = (Inr (getEpoch now, c), g1)" and h: "init_hardware hw g1 = (Inr (), g')"
    and u: "u = SetVariant VariantRFC4122 (SetVersion V1 (v1_bytes (getEpoch now) c (hardwareAddr g')))"
    using NewV1_cases [OF assms] by blast
  show ?thesis using getClockSequence_frame [OF c] init_hardware_frame [OF h] init_hardware_length [OF h] u by auto
qed

lemma generated_versions:
  "NewV1 hw now g = (Inr u, g') \<Longrightarrow> length (hardwareAddr g) = 6 \<Longrightarrow> rfc4122 V1 u"
  "NewV4 g = (Inr u, g') \<Longrightarrow> rfc4122 V4 u"
  "rfc4122 V3 (NewV3 md5 ns name)" "rfc4122 V5 (NewV5 sha1 ns name)"
proof -
  show "NewV1 hw now g = (Inr u, g') \<Longrightarrow> length (hardwareAddr g) = 6 \<Longrightarrow> rfc4122 V1 u"
    using NewV1_frame [of hw now g u g'] length_v1_bytes rfc4122_set by auto
  show "NewV4 g = (Inr u, g') \<Longrightarrow> rfc4122 V4 u"
    by (auto simp: NewV4_def ReadFull_def intro!: rfc4122_set split: if_splits)
  show "rfc4122 V3 (NewV3 md5 ns name)" "rfc4122 V5 (NewV5 sha1 ns name)"
    by (simp_all add: NewV3_def NewV5_def newFromHash_def Let_def rfc4122_set)
qed

text \<open>
  \<^bold>\<open>C29.\<close> Two UUIDs that a generator gives one after the other from the clock are different, even when the clock stands
  still or goes back between the calls, and both carry version 1 and the variant of RFC 4122. (The 60 bits
  that the format has for the time are enough until the year 5236.)
\<close>

theorem NewV1_distinct:
  assumes g: "length (hardwareAddr g) = 6"
    and u1: "NewV1 hw1 now1 g = (Inr u1, g1)" and u2: "NewV1 hw2 now2 g1 = (Inr u2, g2)"
    and t: "getEpoch now1 < 2 ^ 60" "getEpoch now2 < 2 ^ 60"
  shows "u1 \<noteq> u2 \<and> rfc4122 V1 u1 \<and> rfc4122 V1 u2"
proof -
  obtain c1 where 1: "u1 = SetVariant VariantRFC4122 (SetVersion V1 (v1_bytes (getEpoch now1) c1 (hardwareAddr g1)))"
    "lastTime g1 = getEpoch now1" "clockSequence g1 = c1" "clockSequenceOnce g1" "length (hardwareAddr g1) = 6"
    using NewV1_frame [OF u1] g by blast
  obtain c2 where 2: "u2 = SetVariant VariantRFC4122 (SetVersion V1 (v1_bytes (getEpoch now2) c2 (hardwareAddr g2)))"
    "getEpoch now2 \<le> lastTime g1 \<Longrightarrow> c2 = c1 + 1" using NewV1_frame [OF u2] 1 by blast
  have "u1 \<noteq> u2"
  proof
    assume "u1 = u2"
    then have e: "getEpoch now1 = getEpoch now2" "bit c1 0 = bit c2 0" using v1_injective t 1(1) 2(1) by metis+
    then have "c2 = c1 + 1" using 2(2) 1(2) by simp
    then show False using e(2) by (simp add: bit_0)
  qed
  then show ?thesis using generated_versions(1) u1 u2 g 1(5) by blast
qed

theorem NewV1_distinct_witness:
  "\<exists>u1 u2 g1 g2. NewV1 (Inr [1, 2, 3, 4, 5, 6]) 1000 (newRFC4122Generator [7, 9]) = (Inr u1, g1) \<and>
     NewV1 (Inr [1, 2, 3, 4, 5, 6]) 1000 g1 = (Inr u2, g2) \<and> u1 \<noteq> u2"
proof -
  let ?hw = "Inr [1, 2, 3, 4, 5, 6] :: bytes res" and ?g = "newRFC4122Generator [7, 9]"
  have "is_ok (fst (NewV1 ?hw 1000 ?g)) \<and> is_ok (fst (NewV1 ?hw 1000 (snd (NewV1 ?hw 1000 ?g))))" by code_simp
  then obtain u1 g1 u2 g2 where a: "NewV1 ?hw 1000 ?g = (Inr u1, g1)" "NewV1 ?hw 1000 g1 = (Inr u2, g2)"
    by (cases "NewV1 ?hw 1000 ?g"; cases "NewV1 ?hw 1000 (snd (NewV1 ?hw 1000 ?g))") (auto simp: is_ok_iff)
  have "length (hardwareAddr ?g) = 6" by (simp add: newRFC4122Generator_def)
  moreover have "getEpoch 1000 < 2 ^ 60" by (simp add: getEpoch_def epochStart_def)
  ultimately show ?thesis using NewV1_distinct [OF _ a] a by blast
qed

text \<open>After a failed first read the clock sequence is never initialised: the next call goes on with zero.\<close>

lemma clock_error_once:
  "fst (NewV1 hw now (newRFC4122Generator [])) = Inl (Err ''unexpected EOF'') \<and>
   fst (getClockSequence now (snd (NewV1 hw now (newRFC4122Generator [])))) = Inr (getEpoch now, if getEpoch now \<le> 0 then 1 else 0)"
  by (simp add: NewV1_def getClockSequence_def init_clock_def ReadFull_def newRFC4122Generator_def Let_def)

end
