(* ===== verification/Registry.thy ===== *)
theory Registry
  imports TxBuilder KeyStore
begin

text \<open>
  The interface registry (\<open>codec/types/interface_registry.go\<close>), packing into \<open>Any\<close> (\<open>codec/types/any.go\<close>) and the protobuf
  codec (\<open>codec/proto_codec.go\<close>). \<open>'i\<close> stands for Go interface types, \<open>'t\<close> for concrete message types, \<open>'v\<close> for
  message values. Reflection and the protobuf library are the record \<open>TypeEnv\<close>; the method \<open>UnpackInterfaces\<close> of
  a message, which unpacks the \<open>Any\<close> fields inside it, is one of its fields. A target of \<open>UnpackAny\<close> is a pointer
  to an interface variable, named by its interface type.
\<close>

section \<open>Types and state\<close>

record ('i, 't) interfaceRegistry =
  interfaceNames :: "string \<rightharpoonup> 'i"
  interfaceImpls :: "'i \<rightharpoonup> (string \<rightharpoonup> 't)"
  typeURLMap :: "string \<rightharpoonup> 't"

record ('i, 't, 'v) TypeEnv =
  IsInterface :: "'i \<Rightarrow> bool"
  AssignableTo :: "'t \<Rightarrow> 'i \<Rightarrow> bool"
  MessageName :: "'t \<Rightarrow> string"
  IsMessage :: "'t \<Rightarrow> bool"
  TypeOf :: "'v \<Rightarrow> 't"
  ProtoMarshal :: "'v \<Rightarrow> bytes res"
  ProtoUnmarshal :: "'t \<Rightarrow> bytes \<Rightarrow> 'v res"
  ValueUnpackInterfaces :: "('i, 't) interfaceRegistry \<Rightarrow> 'v \<Rightarrow> 'v res"

definition NewInterfaceRegistry :: "('i, 't) interfaceRegistry" where
  "NewInterfaceRegistry = \<lparr>interfaceNames = Map.empty, interfaceImpls = Map.empty, typeURLMap = Map.empty\<rparr>"

section \<open>Registering\<close>

text \<open>The operations give the registry behind a panic, too: what was registered before it stays.\<close>

definition registerImpl ::
  "('i, 't, 'v) TypeEnv \<Rightarrow> 'i \<Rightarrow> string \<Rightarrow> 't \<Rightarrow> ('i, 't) interfaceRegistry \<Rightarrow> unit res \<times> ('i, 't) interfaceRegistry" where
  "registerImpl E ityp typeURL implType registry =
     (let imap = (case interfaceImpls registry ityp of None \<Rightarrow> Map.empty | Some m \<Rightarrow> m)
      in if \<not> AssignableTo E implType ityp then (Inl (Panic ''type doesn't actually implement interface''), registry)
         else
           let conflict = (case imap typeURL of Some foundImplType \<Rightarrow> foundImplType \<noteq> implType | None \<Rightarrow> False)
           in if conflict then (Inl (Panic ''concrete type has already been registered under typeURL''), registry)
              else (Inr (), registry\<lparr>typeURLMap := (typeURLMap registry)(typeURL \<mapsto> implType),
                                     interfaceImpls := (interfaceImpls registry)(ityp \<mapsto> imap(typeURL \<mapsto> implType))\<rparr>))"

definition RegisterCustomTypeURL ::
  "('i, 't, 'v) TypeEnv \<Rightarrow> 'i \<Rightarrow> string \<Rightarrow> 't \<Rightarrow> ('i, 't) interfaceRegistry \<Rightarrow> unit res \<times> ('i, 't) interfaceRegistry" where
  "RegisterCustomTypeURL E ityp typeURL impl registry = registerImpl E ityp typeURL impl registry"

fun RegisterImplementations ::
  "('i, 't, 'v) TypeEnv \<Rightarrow> 'i \<Rightarrow> 't list \<Rightarrow> ('i, 't) interfaceRegistry \<Rightarrow> unit res \<times> ('i, 't) interfaceRegistry" where
  "RegisterImplementations E ityp [] registry = (Inr (), registry)"
| "RegisterImplementations E ityp (impl # impls) registry =
     (case registerImpl E ityp (CHR ''/'' # MessageName E impl) impl registry of
        (Inl e, registry) \<Rightarrow> (Inl e, registry)
      | (Inr _, registry) \<Rightarrow> RegisterImplementations E ityp impls registry)"

definition RegisterInterface ::
  "('i, 't, 'v) TypeEnv \<Rightarrow> string \<Rightarrow> 'i \<Rightarrow> 't list \<Rightarrow> ('i, 't) interfaceRegistry \<Rightarrow> unit res \<times> ('i, 't) interfaceRegistry" where
  "RegisterInterface E protoName ityp impls registry =
     (if \<not> IsInterface E ityp then (Inl (Panic ''not an interface type''), registry)
      else RegisterImplementations E ityp impls (registry\<lparr>interfaceNames := (interfaceNames registry)(protoName \<mapsto> ityp)\<rparr>))"

text \<open>The order of the keys of a Go map is not specified; the listings are sets.\<close>

definition ListAllInterfaces :: "('i, 't) interfaceRegistry \<Rightarrow> string set" where
  "ListAllInterfaces registry = dom (interfaceNames registry)"

definition ListImplementations :: "string \<Rightarrow> ('i, 't) interfaceRegistry \<Rightarrow> string set" where
  "ListImplementations ifaceName registry =
     (case interfaceNames registry ifaceName of
        None \<Rightarrow> {}
      | Some typ \<Rightarrow> (case interfaceImpls registry typ of None \<Rightarrow> {} | Some impls \<Rightarrow> dom impls))"

section \<open>Packing and unpacking\<close>

definition Any_Pack :: "('i, 't, 'v) TypeEnv \<Rightarrow> 'v \<Rightarrow> 'v Any res" where
  "Any_Pack E x =
     bindR (ProtoMarshal E x) (\<lambda>bz. Inr \<lparr>TypeUrl = CHR ''/'' # MessageName E (TypeOf E x), AnyValue = bz, cachedValue = Some x\<rparr>)"

text \<open>A value that does not marshal keeps only its cached value.\<close>

definition UnsafePackAny :: "('i, 't, 'v) TypeEnv \<Rightarrow> 'v \<Rightarrow> 'v Any" where
  "UnsafePackAny E x =
     (case (if IsMessage E (TypeOf E x) then Any_Pack E x else Inl (Err '''')) of
        Inr any \<Rightarrow> any
      | Inl _ \<Rightarrow> \<lparr>TypeUrl = '''', AnyValue = [], cachedValue = Some x\<rparr>)"

definition PackAny :: "('i, 't, 'v) TypeEnv \<Rightarrow> ('v \<Rightarrow> 'v Any option) \<Rightarrow> 'v option \<Rightarrow> 'v Any option res" where
  "PackAny E intoAny x =
     (case x of
        None \<Rightarrow> Inr None
      | Some v \<Rightarrow>
          (case intoAny v of
             Some any \<Rightarrow> Inr (Some any)
           | None \<Rightarrow>
               if \<not> IsMessage E (TypeOf E v) then Inl (Err ''Expecting to implement proto.Message'')
               else bindR (Any_Pack E v) (\<lambda>any. Inr (Some any))))"

definition GetCachedValue :: "'v Any \<Rightarrow> 'v option" where
  "GetCachedValue any = cachedValue any"

definition ClearCachedValue :: "'v Any \<Rightarrow> 'v Any" where
  "ClearCachedValue any = any\<lparr>cachedValue := None\<rparr>"

text \<open>The value to store in the target, \<open>None\<close> when it is left alone, and the \<open>Any\<close> with its new cached value.\<close>

definition UnpackAny ::
  "('i, 't, 'v) TypeEnv \<Rightarrow> ('i, 't) interfaceRegistry \<Rightarrow> 'v Any option \<Rightarrow> 'i \<Rightarrow> ('v option \<times> 'v Any option) res" where
  "UnpackAny E registry anyo rt =
     (case anyo of
        None \<Rightarrow> Inr (None, None)
      | Some any \<Rightarrow>
          if TypeUrl any = '''' then Inr (None, Some any)
          else
            let decode =
              (case interfaceImpls registry rt of
                 None \<Rightarrow> Inl (Err ''no registered implementations of type'')
               | Some imap \<Rightarrow>
                   (case imap (TypeUrl any) of
                      None \<Rightarrow> Inl (Err (''no concrete type registered for type URL '' @ TypeUrl any))
                    | Some typ \<Rightarrow>
                        if \<not> IsMessage E typ then Inl (Err ''can't proto unmarshal'')
                        else
                          bindR (ProtoUnmarshal E typ (AnyValue any)) (\<lambda>msg.
                          bindR (ValueUnpackInterfaces E registry msg) (\<lambda>msg.
                          Inr (Some msg, Some (any\<lparr>cachedValue := Some msg\<rparr>))))))
            in case cachedValue any of
                 Some cv \<Rightarrow> if AssignableTo E (TypeOf E cv) rt then Inr (Some cv, Some any) else decode
               | None \<Rightarrow> decode)"

definition Resolve :: "('i, 't, 'v) TypeEnv \<Rightarrow> ('i, 't) interfaceRegistry \<Rightarrow> string \<Rightarrow> 't res" where
  "Resolve E registry typeURL =
     (case typeURLMap registry typeURL of
        None \<Rightarrow> Inl (Err (''unable to resolve type URL '' @ typeURL))
      | Some typ \<Rightarrow> if \<not> IsMessage E typ then Inl (Err (''can't resolve type URL '' @ typeURL)) else Inr typ)"

section \<open>The protobuf codec (\<open>proto_codec.go\<close>)\<close>

text \<open>\<open>msgSize\<close> is the method \<open>Size\<close> of the message, \<open>typ\<close> the type of the pointer to fill.\<close>

definition MarshalBinaryBare :: "('i, 't, 'v) TypeEnv \<Rightarrow> 'v \<Rightarrow> bytes res" where
  "MarshalBinaryBare E x = ProtoMarshal E x"

definition MustMarshalBinaryBare :: "('i, 't, 'v) TypeEnv \<Rightarrow> 'v \<Rightarrow> bytes res" where
  "MustMarshalBinaryBare E x = panic_on_err (MarshalBinaryBare E x)"

definition MarshalBinaryLengthPrefixed :: "('i, 't, 'v) TypeEnv \<Rightarrow> ('v \<Rightarrow> nat) \<Rightarrow> 'v \<Rightarrow> bytes res" where
  "MarshalBinaryLengthPrefixed E msgSize x = bindR (MarshalBinaryBare E x) (\<lambda>bz. Inr (PutUvarint (of_nat (msgSize x)) @ bz))"

definition UnmarshalBinaryBare :: "('i, 't, 'v) TypeEnv \<Rightarrow> ('i, 't) interfaceRegistry \<Rightarrow> 't \<Rightarrow> bytes \<Rightarrow> 'v res" where
  "UnmarshalBinaryBare E registry typ bz = bindR (ProtoUnmarshal E typ bz) (ValueUnpackInterfaces E registry)"

definition UnmarshalBinaryLengthPrefixed :: "('i, 't, 'v) TypeEnv \<Rightarrow> ('i, 't) interfaceRegistry \<Rightarrow> 't \<Rightarrow> bytes \<Rightarrow> 'v res" where
  "UnmarshalBinaryLengthPrefixed E registry typ bz =
     (case Uvarint bz of (sz, n) \<Rightarrow>
        if n < 0 then Inl (Err ''invalid number of bytes read from length-prefixed encoding'')
        else
          let rest = word_of_int (int (length bz) - n) :: 64 word
          in if rest < sz then Inl (Err ''not enough bytes to read'')
             else if sz < rest then Inl (Err ''too many bytes to read'')
             else UnmarshalBinaryBare E registry typ (drop (nat n) bz))"

section \<open>Registrations stay\<close>

datatype ('i, 't) reg_op = OpInterface string 'i "'t list" | OpImplementations 'i "'t list" | OpCustom 'i string 't

fun run_op :: "('i, 't, 'v) TypeEnv \<Rightarrow> ('i, 't) reg_op \<Rightarrow> ('i, 't) interfaceRegistry \<Rightarrow> unit res \<times> ('i, 't) interfaceRegistry" where
  "run_op E (OpInterface name i ts) reg = RegisterInterface E name i ts reg"
| "run_op E (OpImplementations i ts) reg = RegisterImplementations E i ts reg"
| "run_op E (OpCustom i url t) reg = RegisterCustomTypeURL E i url t reg"

text \<open>The registries a program can reach, whether or not it recovers from a panic of a registration.\<close>

inductive reg_steps :: "('i, 't, 'v) TypeEnv \<Rightarrow> ('i, 't) interfaceRegistry \<Rightarrow> ('i, 't) interfaceRegistry \<Rightarrow> bool" for E where
  reg_refl: "reg_steps E reg reg"
| reg_step: "reg_steps E reg reg1 \<Longrightarrow> run_op E op reg1 = (r, reg2) \<Longrightarrow> reg_steps E reg reg2"

definition impl_of :: "('i, 't) interfaceRegistry \<Rightarrow> 'i \<Rightarrow> string \<Rightarrow> 't option" where
  "impl_of reg i url = (case interfaceImpls reg i of None \<Rightarrow> None | Some m \<Rightarrow> m url)"

definition reg_inv :: "('i, 't, 'v) TypeEnv \<Rightarrow> ('i, 't) interfaceRegistry \<Rightarrow> bool" where
  "reg_inv E reg \<longleftrightarrow> (\<forall>i url t. impl_of reg i url = Some t \<longrightarrow> AssignableTo E t i \<and> typeURLMap reg url \<noteq> None)"

text \<open>The contract of every registration: entries are kept and the invariant holds.\<close>

locale registration =
  fixes E :: "('i, 't, 'v) TypeEnv" and f :: "('i, 't) interfaceRegistry \<Rightarrow> unit res \<times> ('i, 't) interfaceRegistry"
  assumes keeps: "f reg = (r, reg') \<Longrightarrow> impl_of reg i url = Some t \<Longrightarrow> impl_of reg' i url = Some t"
    and preserves: "f reg = (r, reg') \<Longrightarrow> reg_inv E reg \<Longrightarrow> reg_inv E reg'"
begin

lemma keeps_inv: "f reg = (r, reg') \<Longrightarrow> reg_inv E reg \<Longrightarrow> impl_of reg i url = Some t \<Longrightarrow> reg_inv E reg' \<and> impl_of reg' i url = Some t"
  using keeps preserves by blast

end

lemma registerImpl_cases:
  assumes "registerImpl E i url t reg = (r, reg')"
  shows "reg' = reg \<and> (\<exists>p. r = Inl (Panic p)) \<or>
    r = Inr () \<and> AssignableTo E t i \<and> (impl_of reg i url = None \<or> impl_of reg i url = Some t) \<and>
    (\<forall>j u. impl_of reg' j u = (if j = i \<and> u = url then Some t else impl_of reg j u)) \<and> typeURLMap reg' = (typeURLMap reg)(url \<mapsto> t)"
  using assms by (auto simp: registerImpl_def impl_of_def Let_def split: if_splits option.splits)

interpretation single: registration E "registerImpl E i url t" for E i url t
proof
  fix reg r reg' j u t'
  assume "registerImpl E i url t reg = (r, reg')" "impl_of reg j u = Some t'"
  then show "impl_of reg' j u = Some t'" using registerImpl_cases [of E i url t reg r reg'] by auto
next
  fix reg r reg'
  assume r: "registerImpl E i url t reg = (r, reg')" and inv: "reg_inv E reg"
  have "AssignableTo E s j \<and> typeURLMap reg' u \<noteq> None" if s: "impl_of reg' j u = Some s" for j u s
    using registerImpl_cases [OF r] s inv by (cases "j = i \<and> u = url") (auto simp: reg_inv_def)
  then show "reg_inv E reg'" by (simp add: reg_inv_def)
qed

interpretation impls: registration E "RegisterImplementations E i ts" for E i ts
proof
  show "RegisterImplementations E i ts reg = (r, reg') \<Longrightarrow> impl_of reg j u = Some t' \<Longrightarrow> impl_of reg' j u = Some t'" for reg r reg' j u t'
    by (induction E i ts reg rule: RegisterImplementations.induct) (auto split: prod.splits sum.splits dest: single.keeps)
  show "RegisterImplementations E i ts reg = (r, reg') \<Longrightarrow> reg_inv E reg \<Longrightarrow> reg_inv E reg'" for reg r reg'
    by (induction E i ts reg rule: RegisterImplementations.induct) (auto split: prod.splits sum.splits dest: single.preserves)
qed

lemma names_irrelevant [simp]: "impl_of (reg\<lparr>interfaceNames := x\<rparr>) = impl_of reg" "reg_inv E (reg\<lparr>interfaceNames := x\<rparr>) = reg_inv E reg"
  by (auto simp: impl_of_def reg_inv_def fun_eq_iff)

interpretation any_op: registration E "run_op E op" for E op
proof
  show "run_op E op reg = (r, reg') \<Longrightarrow> impl_of reg j u = Some t' \<Longrightarrow> impl_of reg' j u = Some t'" for reg r reg' j u t'
    by (cases op) (auto simp: RegisterInterface_def RegisterCustomTypeURL_def split: if_splits dest: impls.keeps single.keeps)
  show "run_op E op reg = (r, reg') \<Longrightarrow> reg_inv E reg \<Longrightarrow> reg_inv E reg'" for reg r reg'
    by (cases op) (auto simp: RegisterInterface_def RegisterCustomTypeURL_def split: if_splits dest: impls.preserves single.preserves)
qed

lemma reg_steps_keeps: "reg_steps E reg reg' \<Longrightarrow> impl_of reg i url = Some t \<Longrightarrow> impl_of reg' i url = Some t"
  by (induction rule: reg_steps.induct) (auto dest: any_op.keeps)

lemma reg_steps_inv: "reg_steps E reg reg' \<Longrightarrow> reg_inv E reg \<Longrightarrow> reg_inv E reg'"
  by (induction rule: reg_steps.induct) (auto dest: any_op.preserves)

lemma reg_inv_new: "reg_inv E NewInterfaceRegistry"
  by (simp add: reg_inv_def impl_of_def NewInterfaceRegistry_def)

lemma RegisterImplementations_registers:
  "RegisterImplementations E i ts reg = (Inr (), reg') \<Longrightarrow> t \<in> set ts \<Longrightarrow> impl_of reg' i (CHR ''/'' # MessageName E t) = Some t"
proof (induction E i ts reg rule: RegisterImplementations.induct)
  case (2 E i impl ts reg)
  obtain r reg1 where r: "registerImpl E i (CHR ''/'' # MessageName E impl) impl reg = (r, reg1)" by fastforce
  then have ok: "r = Inr ()" "RegisterImplementations E i ts reg1 = (Inr (), reg')" using 2(2) by (auto split: sum.splits)
  then have "impl_of reg1 i (CHR ''/'' # MessageName E impl) = Some impl" using registerImpl_cases [OF r] by auto
  then show ?case using 2 r ok impls.keeps by (cases "t = impl") auto
qed simp

section \<open>What is packed is unpacked\<close>

definition codec_law :: "('i, 't, 'v) TypeEnv \<Rightarrow> bool" where
  "codec_law E \<longleftrightarrow>
     (\<forall>t bz v. ProtoUnmarshal E t bz = Inr v \<longrightarrow> TypeOf E v = t) \<and>
     (\<forall>v bz. ProtoMarshal E v = Inr bz \<longrightarrow> ProtoUnmarshal E (TypeOf E v) bz = Inr v) \<and>
     (\<forall>reg v w. ValueUnpackInterfaces E reg v = Inr w \<longrightarrow> TypeOf E w = TypeOf E v)"


text \<open>Two message types, one interface; a value is a number with its type.\<close>

definition demo_types :: "(nat, nat, nat \<times> 8 word) TypeEnv" where
  "demo_types = \<lparr>IsInterface = (\<lambda>i. True), AssignableTo = (\<lambda>t i. i = 0), MessageName = (\<lambda>t. if t = 0 then ''A'' else ''B''),
     IsMessage = (\<lambda>t. True), TypeOf = fst, ProtoMarshal = (\<lambda>v. Inr [snd v]),
     ProtoUnmarshal = (\<lambda>t bz. case bz of [b] \<Rightarrow> Inr (t, b) | _ \<Rightarrow> Inl (Err ''proto'')), ValueUnpackInterfaces = (\<lambda>reg v. Inr v)\<rparr>"


text \<open>
  The check for conflicts looks at one interface only: under a second interface another concrete type takes over the
  type URL, and \<open>Resolve\<close> gives the new type for both.
\<close>

lemma custom_url_overwritten:
  assumes "AssignableTo E t1 i" "AssignableTo E t2 j" "i \<noteq> j" "IsMessage E t2"
  shows "\<exists>reg1 reg2. RegisterCustomTypeURL E i url t1 NewInterfaceRegistry = (Inr (), reg1) \<and>
     RegisterCustomTypeURL E j url t2 reg1 = (Inr (), reg2) \<and> impl_of reg2 i url = Some t1 \<and> Resolve E reg2 url = Inr t2"
  using assms by (simp add: RegisterCustomTypeURL_def registerImpl_def NewInterfaceRegistry_def impl_of_def Resolve_def Let_def)

text \<open>A length prefixed message is read back.\<close>

lemma length_prefixed_roundtrip:
  assumes law: "codec_law E" and m: "MarshalBinaryBare E v = Inr bz" and sz: "msgSize v = length bz" "length bz < 2 ^ 64"
    and leaf: "ValueUnpackInterfaces E reg v = Inr v"
  shows "\<exists>b. MarshalBinaryLengthPrefixed E msgSize v = Inr b \<and> UnmarshalBinaryLengthPrefixed E reg (TypeOf E v) b = Inr v"
proof -
  let ?b = "PutUvarint (of_nat (length bz)) @ bz"
  have "MarshalBinaryLengthPrefixed E msgSize v = Inr ?b" using m sz(1) by (simp add: MarshalBinaryLengthPrefixed_def)
  moreover have "ProtoUnmarshal E (TypeOf E v) bz = Inr v" using law m by (simp add: codec_law_def MarshalBinaryBare_def)
  then have "UnmarshalBinaryLengthPrefixed E reg (TypeOf E v) ?b = Inr v"
    using leaf by (simp add: UnmarshalBinaryLengthPrefixed_def Uvarint_PutUvarint UnmarshalBinaryBare_def)
  ultimately show ?thesis by blast
qed

end
