(* ===== verification/Events.thy ===== *)
theory Events
  imports KeyStore
begin

text \<open>
  Events (\<open>types/events.go\<close>), the conditions of subscriptions (\<open>types/event.go\<close>) and the responses to broadcasts
  (\<open>types/result.go\<close>). A key and a value of an ABCI attribute are byte strings. A Go map that is only read through
  its sorted keys is a function with the empty list as its default, together with the list of its keys.
\<close>

section \<open>Events\<close>

record EventAttribute =
  aKey :: bytes
  aValue :: bytes
  aIndex :: bool

record Event =
  eType :: string
  eAttributes :: "EventAttribute list"

record Attribute =
  attrKey :: string
  attrValue :: string

record StringEvent =
  seType :: string
  seAttributes :: "Attribute list"

definition NewAttribute :: "string \<Rightarrow> string \<Rightarrow> Attribute" where
  "NewAttribute k v = \<lparr>attrKey = k, attrValue = v\<rparr>"

definition Attribute_String :: "Attribute \<Rightarrow> string" where
  "Attribute_String a = attrKey a @ '': '' @ attrValue a"

definition ToKVPair :: "Attribute \<Rightarrow> EventAttribute" where
  "ToKVPair a = \<lparr>aKey = str_to_bytes (attrKey a), aValue = str_to_bytes (attrValue a), aIndex = False\<rparr>"

definition AppendAttributes :: "Attribute list \<Rightarrow> Event \<Rightarrow> Event" where
  "AppendAttributes attrs e = foldl (\<lambda>e attr. e\<lparr>eAttributes := eAttributes e @ [ToKVPair attr]\<rparr>) e attrs"

definition NewEvent :: "string \<Rightarrow> Attribute list \<Rightarrow> Event" where
  "NewEvent ty attrs = foldl (\<lambda>e attr. e\<lparr>eAttributes := eAttributes e @ [ToKVPair attr]\<rparr>) \<lparr>eType = ty, eAttributes = []\<rparr> attrs"

definition EmptyEvents :: "Event list" where
  "EmptyEvents = []"

definition AppendEvent :: "Event \<Rightarrow> Event list \<Rightarrow> Event list" where
  "AppendEvent event e = e @ [event]"

definition AppendEvents :: "Event list \<Rightarrow> Event list \<Rightarrow> Event list" where
  "AppendEvents events e = e @ events"

definition ToABCIEvents :: "Event list \<Rightarrow> Event list" where
  "ToABCIEvents e = map (\<lambda>ev. \<lparr>eType = eType ev, eAttributes = eAttributes ev\<rparr>) e"

record EventManager =
  events :: "Event list"

definition NewEventManager :: EventManager where
  "NewEventManager = \<lparr>events = EmptyEvents\<rparr>"

definition EmitEvent :: "Event \<Rightarrow> EventManager \<Rightarrow> EventManager" where
  "EmitEvent event em = em\<lparr>events := AppendEvent event (events em)\<rparr>"

definition EmitEvents :: "Event list \<Rightarrow> EventManager \<Rightarrow> EventManager" where
  "EmitEvents evs em = em\<lparr>events := AppendEvents evs (events em)\<rparr>"

definition ABCIEvents :: "EventManager \<Rightarrow> Event list" where
  "ABCIEvents em = ToABCIEvents (events em)"

definition flatEvents :: "StringEvent list \<Rightarrow> string \<Rightarrow> Attribute list" where
  "flatEvents se = foldl (\<lambda>m e. m(seType e := m (seType e) @ seAttributes e)) (\<lambda>_. []) se"

definition Flatten :: "StringEvent list \<Rightarrow> StringEvent list" where
  "Flatten se =
     (let keys = remdups (map seType se)
      in map (\<lambda>ty. \<lparr>seType = ty, seAttributes = flatEvents se ty\<rparr>) (sort keys))"

definition StringifyEvent :: "Event \<Rightarrow> StringEvent" where
  "StringifyEvent e =
     \<lparr>seType = eType e, seAttributes = map (\<lambda>a. \<lparr>attrKey = bytes_str (aKey a), attrValue = bytes_str (aValue a)\<rparr>) (eAttributes e)\<rparr>"

definition StringifyEvents :: "Event list \<Rightarrow> StringEvent list" where
  "StringifyEvents evs = Flatten (map StringifyEvent evs)"

definition StringEvents_String :: "StringEvent list \<Rightarrow> string" where
  "StringEvents_String se =
     rev (dropWhile (\<lambda>c. c = CHR 0x0A)
       (rev (concat (map (\<lambda>e. [CHR 0x09, CHR 0x09] @ ''- '' @ seType e @ [CHR 0x0A] @
          concat (map (\<lambda>a. [CHR 0x09, CHR 0x09, CHR 0x09] @ ''- '' @ Attribute_String a @ [CHR 0x0A]) (seAttributes e))) se))))"

definition MarkEventsToIndex :: "string list \<Rightarrow> Event list \<Rightarrow> Event list" where
  "MarkEventsToIndex indexSet evs =
     (let indexAll = (length indexSet = 0)
      in map (\<lambda>e. e\<lparr>eAttributes :=
           map (\<lambda>attr. attr\<lparr>aIndex := (eType e @ ''.'' @ bytes_str (aKey attr) \<in> set indexSet \<or> indexAll)\<rparr>) (eAttributes e)\<rparr>) evs)"

text \<open>The search of the first attribute in one event and in all events.\<close>

fun find_attr :: "string \<Rightarrow> Attribute list \<Rightarrow> string option" where
  "find_attr key [] = None"
| "find_attr key (attr # attrs) = (if attrKey attr = key then Some (attrValue attr) else find_attr key attrs)"

fun StringEvents_GetValue :: "string \<Rightarrow> string \<Rightarrow> StringEvent list \<Rightarrow> string res" where
  "StringEvents_GetValue ty key [] = Inl (Err (''not found type:'' @ ty @ '' key:'' @ key))"
| "StringEvents_GetValue ty key (e # es) =
     (if seType e = ty
      then (case find_attr key (seAttributes e) of Some v \<Rightarrow> Inr v | None \<Rightarrow> StringEvents_GetValue ty key es)
      else StringEvents_GetValue ty key es)"

fun attr_values :: "string \<Rightarrow> Attribute list \<Rightarrow> string list" where
  "attr_values key [] = []"
| "attr_values key (attr # attrs) = (if attrKey attr = key then attrValue attr # attr_values key attrs else attr_values key attrs)"

fun StringEvents_GetValues :: "string \<Rightarrow> string \<Rightarrow> StringEvent list \<Rightarrow> string list" where
  "StringEvents_GetValues ty key [] = []"
| "StringEvents_GetValues ty key (e # es) =
     (if seType e = ty then attr_values key (seAttributes e) @ StringEvents_GetValues ty key es
      else StringEvents_GetValues ty key es)"

definition Attributes_GetValues :: "string \<Rightarrow> Attribute list \<Rightarrow> string list" where
  "Attributes_GetValues key a = attr_values key a"

definition Attributes_GetValue :: "string \<Rightarrow> Attribute list \<Rightarrow> string" where
  "Attributes_GetValue key a = (case find_attr key a of Some v \<Rightarrow> v | None \<Rightarrow> '''')"

definition Attributes_String :: "Attribute list \<Rightarrow> string" where
  "Attributes_String a = joinWith '','' (map (\<lambda>attr. attrKey attr @ ''='' @ attrValue attr) a)"

section \<open>Conditions (\<open>types/event.go\<close>)\<close>

datatype EventValue = VInt int | VStr string

record condition =
  ckey :: string
  cvalue :: "EventValue option"
  cop :: string

definition Cond :: "string \<Rightarrow> condition" where
  "Cond key = \<lparr>ckey = key, cvalue = None, cop = ''''\<rparr>"

definition NewCond :: "string \<Rightarrow> string \<Rightarrow> condition" where
  "NewCond ty ak = \<lparr>ckey = ty @ ''.'' @ ak, cvalue = None, cop = ''''\<rparr>"

definition fill :: "EventValue \<Rightarrow> string \<Rightarrow> condition \<Rightarrow> condition" where
  "fill v op c = c\<lparr>cvalue := Some v, cop := op\<rparr>"

definition cond_LTE :: "EventValue \<Rightarrow> condition \<Rightarrow> condition" where "cond_LTE v c = fill v ''<='' c"
definition cond_GTE :: "EventValue \<Rightarrow> condition \<Rightarrow> condition" where "cond_GTE v c = fill v ''>='' c"
definition cond_LE :: "EventValue \<Rightarrow> condition \<Rightarrow> condition" where "cond_LE v c = fill v ''<'' c"
definition cond_GE :: "EventValue \<Rightarrow> condition \<Rightarrow> condition" where "cond_GE v c = fill v ''>'' c"
definition cond_EQ :: "EventValue \<Rightarrow> condition \<Rightarrow> condition" where "cond_EQ v c = fill v ''='' c"

definition condition_String :: "condition \<Rightarrow> string" where
  "condition_String c =
     (if length (ckey c) = 0 \<or> length (cop c) = 0 then ''''
      else case cvalue c of
             Some (VInt n) \<Rightarrow> ckey c @ cop c @ show_int n
           | Some (VStr s) \<Rightarrow> ckey c @ cop c @ [CHR 0x27] @ s @ [CHR 0x27]
           | None \<Rightarrow> ckey c @ cop c @ [CHR 0x27] @ ''%!s(<nil>)'' @ [CHR 0x27])"

record EventQueryBuilder =
  conditions :: "string list"

definition NewEventQueryBuilder :: EventQueryBuilder where
  "NewEventQueryBuilder = \<lparr>conditions = []\<rparr>"

text \<open>A nil condition gives a nil builder.\<close>

definition AddCondition :: "condition option \<Rightarrow> EventQueryBuilder \<Rightarrow> EventQueryBuilder option" where
  "AddCondition co eqb = (case co of None \<Rightarrow> None | Some c \<Rightarrow> Some (eqb\<lparr>conditions := conditions eqb @ [condition_String c]\<rparr>))"

definition Build :: "EventQueryBuilder \<Rightarrow> string" where
  "Build eqb = foldl (\<lambda>buf c. (if 0 < length buf then buf @ '' AND '' else buf) @ c) '''' (conditions eqb)"

section \<open>Responses to broadcasts (\<open>types/result.go\<close>)\<close>

text \<open>The results of the node; \<open>'l\<close> are parsed logs, and \<open>parse\<close> is \<open>json.Unmarshal\<close> of a log.\<close>

record TxResultInfo =
  rCode :: "32 word"
  rData :: bytes
  rLog :: string
  rInfo :: string
  rGasWanted :: int
  rGasUsed :: int
  rCodespace :: string

record ResultBroadcastTxCommit =
  bCheckTx :: TxResultInfo
  bDeliverTx :: TxResultInfo
  bHash :: "bytes option"
  bHeight :: int

record 'l TxResponse =
  Height :: int
  TxHash :: string
  Codespace :: string
  Code :: "32 word"
  RespData :: string
  RawLog :: string
  Logs :: "'l option"
  Info :: string
  RespGasWanted :: int
  RespGasUsed :: int

definition IsOK :: "TxResultInfo \<Rightarrow> bool" where
  "IsOK r = (rCode r = 0)"

definition response_of :: "(string \<Rightarrow> 'l option) \<Rightarrow> TxResultInfo \<Rightarrow> ResultBroadcastTxCommit \<Rightarrow> 'l TxResponse" where
  "response_of parse r res =
     \<lparr>Height = bHeight res,
      TxHash = (case bHash res of None \<Rightarrow> '''' | Some h \<Rightarrow> hexUpper h),
      Codespace = rCodespace r, Code = rCode r, RespData = hexUpper (rData r), RawLog = rLog r, Logs = parse (rLog r),
      Info = rInfo r, RespGasWanted = rGasWanted r, RespGasUsed = rGasUsed r\<rparr>"

definition newTxResponseCheckTx :: "(string \<Rightarrow> 'l option) \<Rightarrow> ResultBroadcastTxCommit option \<Rightarrow> 'l TxResponse option" where
  "newTxResponseCheckTx parse ro = (case ro of None \<Rightarrow> None | Some res \<Rightarrow> Some (response_of parse (bCheckTx res) res))"

definition newTxResponseDeliverTx :: "(string \<Rightarrow> 'l option) \<Rightarrow> ResultBroadcastTxCommit option \<Rightarrow> 'l TxResponse option" where
  "newTxResponseDeliverTx parse ro = (case ro of None \<Rightarrow> None | Some res \<Rightarrow> Some (response_of parse (bDeliverTx res) res))"

definition NewResponseFormatBroadcastTxCommit :: "(string \<Rightarrow> 'l option) \<Rightarrow> ResultBroadcastTxCommit option \<Rightarrow> 'l TxResponse option" where
  "NewResponseFormatBroadcastTxCommit parse ro =
     (case ro of
        None \<Rightarrow> None
      | Some res \<Rightarrow> if \<not> IsOK (bCheckTx res) then newTxResponseCheckTx parse ro else newTxResponseDeliverTx parse ro)"

definition TxResponse_Empty :: "'l TxResponse \<Rightarrow> bool" where
  "TxResponse_Empty r = (TxHash r = '''' \<and> Logs r = None)"

section \<open>Properties\<close>

lemma flatEvents_eq: "flatEvents se ty = concat (map seAttributes (filter (\<lambda>e. seType e = ty) se))"
proof -
  have "foldl (\<lambda>m e. m(seType e := m (seType e) @ seAttributes e)) m se ty = m ty @ concat (map seAttributes (filter (\<lambda>e. seType e = ty) se))" for m
    by (induction se arbitrary: m) auto
  then show ?thesis by (simp add: flatEvents_def)
qed

lemma attr_values_append: "attr_values key (xs @ ys) = attr_values key xs @ attr_values key ys"
  by (induction xs) auto

lemma GetValues_concat: "StringEvents_GetValues ty key se = attr_values key (concat (map seAttributes (filter (\<lambda>e. seType e = ty) se)))"
  by (induction se) (auto simp: attr_values_append)

lemma find_attr_values: "find_attr key xs = (case attr_values key xs of [] \<Rightarrow> None | v # _ \<Rightarrow> Some v)"
  by (induction xs) auto

text \<open>The first value is the head of all values.\<close>

lemma GetValue_head:
  "StringEvents_GetValue ty key se =
     (case StringEvents_GetValues ty key se of [] \<Rightarrow> Inl (Err (''not found type:'' @ ty @ '' key:'' @ key)) | v # _ \<Rightarrow> Inr v)"
  by (induction se) (auto simp: find_attr_values split: list.splits)

lemma filter_key: "distinct ks \<Longrightarrow> filter (\<lambda>k. k = ty) ks = (if ty \<in> set ks then [ty] else [])"
  by (induction ks) auto

lemma Flatten_types: "map seType (Flatten se) = sort (remdups (map seType se))"
  by (simp add: Flatten_def Let_def comp_def)

lemma Flatten_attrs: "concat (map seAttributes (filter (\<lambda>e. seType e = ty) (Flatten se))) = flatEvents se ty"
proof -
  let ?ks = "sort (remdups (map seType se))"
  have "filter (\<lambda>e. seType e = ty) (Flatten se) = map (\<lambda>ty. \<lparr>seType = ty, seAttributes = flatEvents se ty\<rparr>) (filter (\<lambda>k. k = ty) ?ks)"
    by (simp add: Flatten_def Let_def filter_map comp_def)
  also have "filter (\<lambda>k. k = ty) ?ks = (if ty \<in> seType ` set se then [ty] else [])" using filter_key [of ?ks ty] by simp
  finally show ?thesis by (auto simp: flatEvents_eq filter_empty_conv)
qed

text \<open>
  Flattening the events of a transaction groups them without losing anything: the types come out sorted and each
  once, exactly those that went in; the attributes of a type are all its attributes in their order; and looking up
  a value, or all values, of a type and a key gives the same before and after. Flattening twice is flattening once.
\<close>

theorem Flatten_groups:
  "sorted (map seType (Flatten se)) \<and> distinct (map seType (Flatten se)) \<and> set (map seType (Flatten se)) = set (map seType se)
   \<and> (\<forall>e \<in> set (Flatten se). seAttributes e = concat (map seAttributes (filter (\<lambda>x. seType x = seType e) se)))
   \<and> StringEvents_GetValues ty key (Flatten se) = StringEvents_GetValues ty key se
   \<and> StringEvents_GetValue ty key (Flatten se) = StringEvents_GetValue ty key se
   \<and> Flatten (Flatten se) = Flatten se"
proof -
  have t: "sorted (map seType (Flatten se))" "distinct (map seType (Flatten se))" "set (map seType (Flatten se)) = set (map seType se)"
    unfolding Flatten_types by simp_all
  have g: "StringEvents_GetValues ty key (Flatten se) = StringEvents_GetValues ty key se" for ty key
    unfolding GetValues_concat Flatten_attrs flatEvents_eq ..
  have a: "\<forall>e \<in> set (Flatten se). seAttributes e = concat (map seAttributes (filter (\<lambda>x. seType x = seType e) se))"
    by (auto simp: Flatten_def Let_def flatEvents_eq)
  have "sort (remdups (map seType (Flatten se))) = map seType (Flatten se)" using t(1,2) by (simp add: distinct_remdups_id sorted_sort_id)
  moreover have "flatEvents (Flatten se) = flatEvents se" using Flatten_attrs by (simp add: fun_eq_iff flatEvents_eq)
  ultimately have "Flatten (Flatten se) = map (\<lambda>ty. \<lparr>seType = ty, seAttributes = flatEvents se ty\<rparr>) (map seType (Flatten se))"
    by (simp add: Flatten_def [of "Flatten se"] Let_def)
  also have "\<dots> = Flatten se" by (simp add: Flatten_types) (simp add: Flatten_def Let_def)
  finally have "Flatten (Flatten se) = Flatten se" .
  then show ?thesis using t g a by (simp add: GetValue_head)
qed

theorem Flatten_groups_witness:
  "map seType (Flatten [\<lparr>seType = ''b'', seAttributes = [NewAttribute ''k'' ''1'']\<rparr>, \<lparr>seType = ''a'', seAttributes = []\<rparr>,
     \<lparr>seType = ''b'', seAttributes = [NewAttribute ''k'' ''2'']\<rparr>]) = [''a'', ''b''] \<and>
   StringEvents_GetValues ''b'' ''k'' (Flatten [\<lparr>seType = ''b'', seAttributes = [NewAttribute ''k'' ''1'']\<rparr>, \<lparr>seType = ''a'', seAttributes = []\<rparr>,
     \<lparr>seType = ''b'', seAttributes = [NewAttribute ''k'' ''2'']\<rparr>]) = [''1'', ''2'']"
  (is "map seType (Flatten ?se) = _ \<and> _")
proof -
  have "StringEvents_GetValues ''b'' ''k'' ?se = [''1'', ''2'']" by code_simp
  moreover have "map seType (Flatten ?se) = [''a'', ''b'']" by code_simp
  ultimately show ?thesis using Flatten_groups [of ?se "''b''" "''k''"] by simp
qed

text \<open>A builder whose conditions are complete gives them joined by \<open>AND\<close>; an empty condition leaves a dangling \<open>AND\<close>.\<close>

lemma Build_join:
  assumes "\<And>c. c \<in> set cs \<Longrightarrow> c \<noteq> ''''"
  shows "Build \<lparr>conditions = cs\<rparr> = joinWith '' AND '' cs"
proof -
  let ?f = "\<lambda>buf c. (if 0 < length buf then buf @ '' AND '' else buf) @ c"
  have pre: "buf \<noteq> '''' \<Longrightarrow> foldl ?f buf cs = buf @ concat (map (\<lambda>c. '' AND '' @ c) cs)" for buf cs
    by (induction cs arbitrary: buf) auto
  have join: "joinWith '' AND '' (c # cs) = c @ concat (map (\<lambda>c. '' AND '' @ c) cs)" for c cs
    by (induction cs arbitrary: c) auto
  show ?thesis using assms pre by (cases cs) (auto simp: Build_def join)
qed

lemma Build_dangling: "Build \<lparr>conditions = [''a=1'', condition_String (Cond ''k'')]\<rparr> = ''a=1 AND ''"
  by (simp add: Build_def condition_String_def Cond_def)

lemma emitted_events: "ABCIEvents (EmitEvents es (EmitEvent e em)) = ABCIEvents em @ ToABCIEvents (e # es)"
  by (simp add: ABCIEvents_def EmitEvents_def EmitEvent_def AppendEvent_def AppendEvents_def ToABCIEvents_def)

lemma NewEvent_Append: "NewEvent ty (as @ bs) = AppendAttributes bs (NewEvent ty as)"
  by (simp add: NewEvent_def AppendAttributes_def)

text \<open>The response to a commit carries a failure of the check, else the outcome of the delivery.\<close>

lemma commit_response_code:
  "\<exists>r. NewResponseFormatBroadcastTxCommit parse (Some res) = Some r \<and>
     Code r = (if rCode (bCheckTx res) \<noteq> 0 then rCode (bCheckTx res) else rCode (bDeliverTx res)) \<and>
     (Code r = 0 \<longleftrightarrow> IsOK (bCheckTx res) \<and> IsOK (bDeliverTx res))"
  by (simp add: NewResponseFormatBroadcastTxCommit_def newTxResponseCheckTx_def newTxResponseDeliverTx_def response_of_def IsOK_def)

end
