(* ===== verification/WireCodec.thy ===== *)
theory WireCodec
  imports ProtoWire KeyStore SdkDec
begin

text \<open>
  More of the wire format of the generated codecs: booleans, texts, nested messages and numbers with a codec of their own,
  and a calculus for round trips. \<open>readsTo\<close> states that the decoding loop reads a whole buffer; it has one rule
  per kind of field, so that the proof for a message follows the definition of its \<open>Marshal\<close>.
\<close>

section \<open>Writing and reading\<close>

text \<open>A field that is a pointer to a message is written when the pointer is not nil.\<close>

definition put_msg_opt :: "8 word \<Rightarrow> ('n \<Rightarrow> bytes) \<Rightarrow> 'n option \<Rightarrow> bytes \<Rightarrow> bytes" where
  "put_msg_opt tag enc p buf = (case p of None \<Rightarrow> buf | Some n \<Rightarrow> put_bytes tag (enc n) buf)"

definition put_bool_opt :: "8 word \<Rightarrow> bool \<Rightarrow> bytes \<Rightarrow> bytes" where
  "put_bool_opt tag v buf = (if v then tag # 1 # buf else buf)"

definition msg_case :: "string \<Rightarrow> 64 word \<Rightarrow> bytes \<Rightarrow> nat \<Rightarrow> (bytes \<Rightarrow> 'n res) \<Rightarrow> ('n \<Rightarrow> 'm) \<Rightarrow> ('m \<times> nat) res option" where
  "msg_case f wireType dAtA i dec upd =
     Some (if wireType \<noteq> 2 then Inl (wrong_wireType f)
           else bindR (readBytes dAtA i) (\<lambda>(b, j). bindR (dec b) (\<lambda>n. Inr (upd n, j))))"

definition bool_case :: "string \<Rightarrow> 64 word \<Rightarrow> bytes \<Rightarrow> nat \<Rightarrow> (bool \<Rightarrow> 'm) \<Rightarrow> ('m \<times> nat) res option" where
  "bool_case f wireType dAtA i upd = uint_case f wireType dAtA i (\<lambda>v. upd (v \<noteq> 0))"

definition string_case :: "string \<Rightarrow> 64 word \<Rightarrow> bytes \<Rightarrow> nat \<Rightarrow> (string \<Rightarrow> 'm) \<Rightarrow> ('m \<times> nat) res option" where
  "string_case f wireType dAtA i upd = bytes_case f wireType dAtA i (\<lambda>b. upd (bytes_str b))"

text \<open>A pointer field is allocated when it is nil; its message is merged into what is there.\<close>

definition ptr_case ::
  "string \<Rightarrow> 64 word \<Rightarrow> bytes \<Rightarrow> nat \<Rightarrow> (bytes \<Rightarrow> 'n \<Rightarrow> 'n res) \<Rightarrow> 'n \<Rightarrow> 'n option \<Rightarrow> ('n option \<Rightarrow> 'm) \<Rightarrow> ('m \<times> nat) res option" where
  "ptr_case f wireType dAtA i dec zero p upd =
     msg_case f wireType dAtA i (\<lambda>b. dec b (case p of None \<Rightarrow> zero | Some n \<Rightarrow> n)) (\<lambda>n. upd (Some n))"

text \<open>What a field adds to the size of a message.\<close>

definition size_uint_opt :: "64 word \<Rightarrow> nat" where
  "size_uint_opt v = (if v \<noteq> 0 then 1 + sov v else 0)"

definition size_len :: "nat \<Rightarrow> nat" where
  "size_len l = 1 + l + sov (of_nat l)"

definition size_len_opt :: "nat \<Rightarrow> nat" where
  "size_len_opt l = (if 0 < l then size_len l else 0)"

definition size_bool_opt :: "bool \<Rightarrow> nat" where
  "size_bool_opt v = (if v then 2 else 0)"

definition size_msg_opt :: "('n \<Rightarrow> nat) \<Rightarrow> 'n option \<Rightarrow> nat" where
  "size_msg_opt sz p = (case p of None \<Rightarrow> 0 | Some n \<Rightarrow> size_len (sz n))"

named_theorems wire_length and wire_size and wire_msg

lemma length_put_bytes [wire_length]: "length (put_bytes t b buf) = size_len (length b) + length buf"
  by (simp add: put_bytes_def size_len_def sov_length)

lemma length_put_bytes_opt [wire_length]: "length (put_bytes_opt t b buf) = size_len_opt (length b) + length buf"
  by (simp add: put_bytes_opt_def length_put_bytes size_len_opt_def)

lemma length_put_uint_opt [wire_length]: "length (put_uint_opt t v buf) = size_uint_opt v + length buf"
  by (simp add: put_uint_opt_def size_uint_opt_def sov_length)

lemma length_put_bool_opt [wire_length]: "length (put_bool_opt t v buf) = size_bool_opt v + length buf"
  by (simp add: put_bool_opt_def size_bool_opt_def)

lemma length_put_repeated [wire_length]:
  "length (put_repeated t bs buf) = sum_list (map (\<lambda>b. size_len (length b)) bs) + length buf"
  by (induction bs) (simp_all add: put_repeated_def length_put_bytes)

lemma length_put_msg_opt [wire_length]:
  "length (put_msg_opt t enc p buf) = size_msg_opt (\<lambda>n. length (enc n)) p + length buf"
  by (cases p) (simp_all add: put_msg_opt_def size_msg_opt_def length_put_bytes)

lemma length_str_to_bytes [wire_length]: "length (str_to_bytes s) = length s"
  by (simp add: str_to_bytes_def)

lemma str_to_bytes_Nil [simp]: "str_to_bytes s = [] \<longleftrightarrow> s = ''''" "bytes_str [] = ''''"
  by (simp_all add: str_to_bytes_def bytes_str_def)

section \<open>Reading a whole buffer\<close>

text \<open>A tag of one byte with its field number and its wire type.\<close>

definition wire_tag :: "8 word \<Rightarrow> int \<Rightarrow> 64 word \<Rightarrow> bool" where
  "wire_tag t f w \<longleftrightarrow> t < 0x80 \<and> tag_of t = (f, w) \<and> 0 < f"

lemma wire_tags:
  "wire_tag 0x08 1 0" "wire_tag 0x10 2 0" "wire_tag 0x18 3 0" "wire_tag 0x20 4 0" "wire_tag 0x28 5 0"
  "wire_tag 0x30 6 0" "wire_tag 0x38 7 0" "wire_tag 0x48 9 0" "wire_tag 0x50 10 0"
  "wire_tag 0x0a 1 2" "wire_tag 0x12 2 2" "wire_tag 0x1a 3 2" "wire_tag 0x22 4 2" "wire_tag 0x2a 5 2"
  "wire_tag 0x32 6 2" "wire_tag 0x3a 7 2" "wire_tag 0x42 8 2" "wire_tag 0x4a 9 2" "wire_tag 0x52 10 2"
  by (simp_all add: wire_tag_def tag_of_def drop_bit_eq_div)

lemma wire_tagD: "wire_tag t f w \<Longrightarrow> t < 0x80" "wire_tag t f w \<Longrightarrow> tag_of t = (f, w)" "wire_tag t f w \<Longrightarrow> 0 < f"
  by (simp_all add: wire_tag_def)

definition readsTo where
  "readsTo name field unk buf m m' \<longleftrightarrow>
     (\<forall>pre. length (pre @ buf) < 2 ^ 63 \<longrightarrow> reaches name field unk (pre @ buf) (length pre) m (length (pre @ buf)) m')"

lemma readsTo_decode:
  assumes "length buf < 2 ^ 63" "readsTo name field unk buf m m'"
  shows "decode name field unk buf m = Inr m'"
  using assms reaches_end [of name field unk buf m m'] unfolding readsTo_def by (metis append_Nil list.size(3))

lemma readsTo_Nil: "m = m' \<Longrightarrow> readsTo name field unk [] m m'"
  by (simp add: readsTo_def reaches_refl)

text \<open>One step of the calculus: a segment in front of the buffer takes the loop to the rest.\<close>

lemma readsTo_step:
  assumes "\<And>pre. length (pre @ seg @ buf) < 2 ^ 63 \<Longrightarrow>
      reaches name field unk (pre @ seg @ buf) (length pre) m (length (pre @ seg)) m1"
    and "readsTo name field unk buf m1 m'"
  shows "readsTo name field unk (seg @ buf) m m'"
  unfolding readsTo_def
proof (intro allI impI)
  fix pre assume len: "length (pre @ seg @ buf) < 2 ^ 63"
  have "reaches name field unk ((pre @ seg) @ buf) (length (pre @ seg)) m1 (length ((pre @ seg) @ buf)) m'"
    using assms(2) len unfolding readsTo_def by (metis append.assoc)
  then show "reaches name field unk (pre @ seg @ buf) (length pre) m (length (pre @ seg @ buf)) m'"
    using assms(1) [OF len] reaches_trans by (metis append.assoc)
qed

lemma readsTo_uint:
  assumes t: "wire_tag t f 0"
    and "\<And>d i. field m f 0 d i = uint_case nm 0 d i upd" "v = 0 \<Longrightarrow> upd v = m" "readsTo name field unk buf (upd v) m'"
  shows "readsTo name field unk (put_uint_opt t v buf) m m'"
  unfolding put_uint_opt_append [of t v buf]
proof (rule readsTo_step [OF _ assms(4)])
  fix pre
  show "reaches name field unk (pre @ put_uint_opt t v [] @ buf) (length pre) m (length (pre @ put_uint_opt t v [])) (upd v)"
    by (rule reaches_uint_opt [OF wire_tagD [OF t], of _ pre v buf field m nm upd, OF _ assms(2,3)])
      (simp add: put_uint_opt_append [of t v buf])
qed

lemma readsTo_uint32:
  fixes v :: "32 word"
  assumes t: "wire_tag t f 0"
    and "\<And>d i. field m f 0 d i = uint_case nm 0 d i (\<lambda>x. upd (ucast x))" "v = 0 \<Longrightarrow> upd v = m" "readsTo name field unk buf (upd v) m'"
  shows "readsTo name field unk (put_uint_opt t (ucast v) buf) m m'"
proof -
  have u: "ucast (ucast v :: 64 word) = v" by (simp add: unsigned_ucast_eq take_bit_word_eq_self)
  have "v = 0" if "(ucast v :: 64 word) = 0" using that u by (metis unsigned_0)
  with assms u show ?thesis by (intro readsTo_uint [OF t, where upd = "\<lambda>x. upd (ucast x)" and nm = nm]) simp_all
qed

lemma readsTo_bytes:
  assumes t: "wire_tag t f 2"
    and "\<And>d i. field m f 2 d i = bytes_case nm 2 d i upd" "readsTo name field unk buf (upd b) m'"
  shows "readsTo name field unk (put_bytes t b buf) m m'"
  unfolding put_bytes_append [of t b buf]
proof (rule readsTo_step [OF _ assms(3)])
  fix pre assume "length (pre @ put_bytes t b [] @ buf) < 2 ^ 63"
  then show "reaches name field unk (pre @ put_bytes t b [] @ buf) (length pre) m (length (pre @ put_bytes t b [])) (upd b)"
    by (intro reaches_bytes [OF wire_tagD [OF t], of _ pre b buf field m nm upd, OF _ _ assms(2)])
      (simp_all add: put_bytes_append [of t b buf])
qed

lemma readsTo_bytes_opt:
  assumes t: "wire_tag t f 2"
    and "\<And>d i. field m f 2 d i = bytes_case nm 2 d i upd" "b = [] \<Longrightarrow> upd b = m" "readsTo name field unk buf (upd b) m'"
  shows "readsTo name field unk (put_bytes_opt t b buf) m m'"
  using assms by (cases "b = []") (auto simp: put_bytes_opt_def intro: readsTo_bytes)

lemma readsTo_string:
  assumes t: "wire_tag t f 2"
    and "\<And>d i. field m f 2 d i = string_case nm 2 d i upd" "s = '''' \<Longrightarrow> upd s = m" "readsTo name field unk buf (upd s) m'"
  shows "readsTo name field unk (put_bytes_opt t (str_to_bytes s) buf) m m'"
  using assms by (intro readsTo_bytes_opt [where upd = "\<lambda>b. upd (bytes_str b)" and nm = nm and f = f])
    (simp_all add: string_case_def)

lemma encodeVarint_1: "encodeVarint 1 = [1]"
  by (subst encodeVarint.simps) (simp add: word_le_nat_alt)

lemma readsTo_bool:
  assumes t: "wire_tag t f 0"
    and "\<And>d i. field m f 0 d i = bool_case nm 0 d i upd" "\<not> v \<Longrightarrow> upd v = m" "readsTo name field unk buf (upd v) m'"
  shows "readsTo name field unk (put_bool_opt t v buf) m m'"
proof -
  have "put_bool_opt t v buf = put_uint_opt t (if v then 1 else 0) buf"
    by (simp add: put_bool_opt_def put_uint_opt_def encodeVarint_1)
  then show ?thesis
    using readsTo_uint [where v = "if v then 1 else 0" and upd = "\<lambda>x. upd (x \<noteq> 0)", OF t] assms(2-4)
    by (simp add: bool_case_def split: if_splits)
qed

text \<open>A nested message: its bytes are shorter than the buffer, so its own round trip applies.\<close>

lemma readsTo_msg:
  assumes t: "wire_tag t f 2"
    and field: "\<And>d i. field m f 2 d i = msg_case nm 2 d i dec upd"
    and dec: "length b < 2 ^ 63 \<Longrightarrow> dec b = Inr n" and rest: "readsTo name field unk buf (upd n) m'"
  shows "readsTo name field unk (put_bytes t b buf) m m'"
  unfolding put_bytes_append [of t b buf]
proof (rule readsTo_step [OF _ rest])
  fix pre assume len: "length (pre @ put_bytes t b [] @ buf) < 2 ^ 63"
  let ?d = "pre @ put_bytes t b [] @ buf"
  have "dec b = Inr n" using dec len by (simp add: put_bytes_def)
  moreover have "readBytes ?d (length (pre @ [t])) = Inr (b, length (pre @ [t]) + length (encodeVarint (of_nat (length b))) + length b)"
    using readBytes_put [of "pre @ [t]" b buf] len by (simp add: put_bytes_def)
  ultimately have "field m f 2 ?d (length pre + 1) = Some (Inr (upd n, length (pre @ put_bytes t b [])))"
    by (simp add: field msg_case_def put_bytes_def ac_simps)
  then show "reaches name field unk ?d (length pre) m (length (pre @ put_bytes t b [])) (upd n)"
    by (intro reaches_step [OF _ wire_tagD(2,3) [OF t]]) (use readVarint_tag [OF wire_tagD(1) [OF t]] in \<open>simp_all add: put_bytes_def\<close>)
qed

lemma readsTo_ptr:
  assumes t: "wire_tag t f 2"
    and field: "\<And>d i. field m f 2 d i = ptr_case nm 2 d i dec zero None upd"
    and dec: "case p of None \<Rightarrow> upd None = m | Some n \<Rightarrow> length (enc n) < 2 ^ 63 \<longrightarrow> dec (enc n) zero = Inr n" and rest: "readsTo name field unk buf (upd p) m'"
  shows "readsTo name field unk (put_msg_opt t enc p buf) m m'"
proof (cases p)
  case None
  then show ?thesis using dec rest by (simp add: put_msg_opt_def)
next
  case (Some n)
  then have "readsTo name field unk (put_bytes t (enc n) buf) m m'"
    using dec rest field
    by (intro readsTo_msg [OF t, where dec = "\<lambda>b. dec b zero" and upd = "\<lambda>n. upd (Some n)" and nm = nm and n = n])
      (simp_all add: ptr_case_def)
  then show ?thesis using Some by (simp add: put_msg_opt_def)
qed

lemma readsTo_msgs:
  assumes t: "wire_tag t f 2"
    and field: "\<And>m d i. field m f 2 d i = msg_case nm 2 d i dec (add m)"
    and dec: "\<And>n. n \<in> set ns \<Longrightarrow> length (enc n) < 2 ^ 63 \<Longrightarrow> dec (enc n) = Inr n"
    and rest: "readsTo name field unk buf (foldl add m ns) m'"
  shows "readsTo name field unk (put_repeated t (map enc ns) buf) m m'"
  using dec rest
proof (induction ns arbitrary: m)
  case (Cons n ns)
  then show ?case
    unfolding put_repeated_def list.map foldr.simps comp_def
    by (intro readsTo_msg [OF t, where dec = dec and upd = "add m" and nm = nm and n = n])
      (auto simp: field put_repeated_def comp_def)
qed (simp add: put_repeated_def)

lemma readsTo_strings:
  assumes t: "wire_tag t f 2"
    and field: "\<And>m d i. field m f 2 d i = string_case nm 2 d i (add m)"
    and rest: "readsTo name field unk buf (foldl add m ns) m'"
  shows "readsTo name field unk (put_repeated t (map str_to_bytes ns) buf) m m'"
  by (rule readsTo_msgs [OF t _ _ rest, where dec = "\<lambda>b. Inr (bytes_str b)" and nm = nm])
    (simp_all add: field string_case_def bytes_case_def msg_case_def)

text \<open>A number with its own codec, which writes its decimal text.\<close>

definition number_ok :: "int option \<Rightarrow> bool" where
  "number_ok x = (case x of None \<Rightarrow> False | Some i \<Rightarrow> valid_Int i)"

lemma number_roundtrip:
  "number_ok x \<Longrightarrow> Int_Unmarshal j (Int_Marshal x) = Inr x"
  "number_ok x \<Longrightarrow> Dec_Unmarshal j (Dec_Marshal x) = Inr x"
  using Int_marshal_roundtrip [of x "replicate (Int_Size x) CHR ''0''" j] Dec_binary_roundtrip [of j]
  by (auto simp: number_ok_def split: option.splits)

declare number_roundtrip [wire_msg] Int_Size_def [wire_size] Dec_Size_def [wire_size]

lemmas reads = readsTo_uint32 readsTo_uint readsTo_string readsTo_bytes_opt readsTo_bool readsTo_msg readsTo_ptr readsTo_strings readsTo_msgs

end
