(* ===== verification/QueryTypes.thy ===== *)
theory QueryTypes
  imports WireCodec
begin

text \<open>
  The messages that the answers of the liquidity module are made of, with their generated codecs: coins
  (\<open>types/coin.pb.go\<close>), pages (\<open>types/query/pagination.pb.go\<close>), pools, batches, parameters and message states
  (\<open>modules/coinswap/coinswap.pb.go\<close>, \<open>modules/coinswap/tx.pb.go\<close>). \<open>Unmarshal\<close> merges into its receiver, the second argument. A
  signed number is the word that is written; the pointer inside an \<open>Int\<close> or \<open>Dec\<close> may be nil. For every
  message \<open>Size\<close> is the number of bytes that \<open>Marshal\<close> writes, and reading them into the zero value gives
  the message back when its numbers are in range.
\<close>

section \<open>The messages\<close>

record CoinPB =
  CoinPB_Denom :: string
  CoinPB_Amount :: "int option"

definition CoinPB_zero :: CoinPB where
  "CoinPB_zero = \<lparr>CoinPB_Denom = '''', CoinPB_Amount = None\<rparr>"

definition CoinPB_Marshal :: "CoinPB \<Rightarrow> bytes" where
  "CoinPB_Marshal m =
     put_bytes_opt 0x0a (str_to_bytes (CoinPB_Denom m))
     (put_bytes 0x12 (str_to_bytes (Int_Marshal (CoinPB_Amount m))) [])"

definition CoinPB_Size :: "CoinPB \<Rightarrow> nat" where
  "CoinPB_Size m =
     size_len_opt (length (CoinPB_Denom m)) +
     size_len (Int_Size (CoinPB_Amount m))"

definition CoinPB_field :: "CoinPB \<Rightarrow> int \<Rightarrow> 64 word \<Rightarrow> bytes \<Rightarrow> nat \<Rightarrow> (CoinPB \<times> nat) res option" where
  "CoinPB_field m fieldNum wireType dAtA i =
     (if fieldNum = 1 then string_case ''Denom'' wireType dAtA i (\<lambda>s. m\<lparr>CoinPB_Denom := s\<rparr>)
      else if fieldNum = 2 then msg_case ''Amount'' wireType dAtA i (\<lambda>b. Int_Unmarshal (CoinPB_Amount m) (bytes_str b)) (\<lambda>v. m\<lparr>CoinPB_Amount := v\<rparr>)
      else None)"

definition CoinPB_Unmarshal :: "bytes \<Rightarrow> CoinPB \<Rightarrow> CoinPB res" where
  "CoinPB_Unmarshal dAtA m = decode ''Coin'' CoinPB_field (\<lambda>m bz. m) dAtA m"

definition CoinPB_ok :: "CoinPB \<Rightarrow> bool" where
  "CoinPB_ok m \<longleftrightarrow> number_ok (CoinPB_Amount m)"

record PageRequest =
  PageRequest_Key :: bytes
  PageRequest_Offset :: "64 word"
  PageRequest_Limit :: "64 word"
  PageRequest_CountTotal :: bool

definition PageRequest_zero :: PageRequest where
  "PageRequest_zero = \<lparr>PageRequest_Key = [], PageRequest_Offset = 0, PageRequest_Limit = 0, PageRequest_CountTotal = False\<rparr>"

definition PageRequest_Marshal :: "PageRequest \<Rightarrow> bytes" where
  "PageRequest_Marshal m =
     put_bytes_opt 0x0a (PageRequest_Key m)
     (put_uint_opt 0x10 (PageRequest_Offset m)
     (put_uint_opt 0x18 (PageRequest_Limit m)
     (put_bool_opt 0x20 (PageRequest_CountTotal m) [])))"

definition PageRequest_Size :: "PageRequest \<Rightarrow> nat" where
  "PageRequest_Size m =
     size_len_opt (length (PageRequest_Key m)) +
     size_uint_opt (PageRequest_Offset m) +
     size_uint_opt (PageRequest_Limit m) +
     size_bool_opt (PageRequest_CountTotal m)"

definition PageRequest_field :: "PageRequest \<Rightarrow> int \<Rightarrow> 64 word \<Rightarrow> bytes \<Rightarrow> nat \<Rightarrow> (PageRequest \<times> nat) res option" where
  "PageRequest_field m fieldNum wireType dAtA i =
     (if fieldNum = 1 then bytes_case ''Key'' wireType dAtA i (\<lambda>b. m\<lparr>PageRequest_Key := b\<rparr>)
      else if fieldNum = 2 then uint_case ''Offset'' wireType dAtA i (\<lambda>v. m\<lparr>PageRequest_Offset := v\<rparr>)
      else if fieldNum = 3 then uint_case ''Limit'' wireType dAtA i (\<lambda>v. m\<lparr>PageRequest_Limit := v\<rparr>)
      else if fieldNum = 4 then bool_case ''CountTotal'' wireType dAtA i (\<lambda>v. m\<lparr>PageRequest_CountTotal := v\<rparr>)
      else None)"

definition PageRequest_Unmarshal :: "bytes \<Rightarrow> PageRequest \<Rightarrow> PageRequest res" where
  "PageRequest_Unmarshal dAtA m = decode ''PageRequest'' PageRequest_field (\<lambda>m bz. m) dAtA m"

record PageResponse =
  PageResponse_NextKey :: bytes
  PageResponse_Total :: "64 word"

definition PageResponse_zero :: PageResponse where
  "PageResponse_zero = \<lparr>PageResponse_NextKey = [], PageResponse_Total = 0\<rparr>"

definition PageResponse_Marshal :: "PageResponse \<Rightarrow> bytes" where
  "PageResponse_Marshal m =
     put_bytes_opt 0x0a (PageResponse_NextKey m)
     (put_uint_opt 0x10 (PageResponse_Total m) [])"

definition PageResponse_Size :: "PageResponse \<Rightarrow> nat" where
  "PageResponse_Size m =
     size_len_opt (length (PageResponse_NextKey m)) +
     size_uint_opt (PageResponse_Total m)"

definition PageResponse_field :: "PageResponse \<Rightarrow> int \<Rightarrow> 64 word \<Rightarrow> bytes \<Rightarrow> nat \<Rightarrow> (PageResponse \<times> nat) res option" where
  "PageResponse_field m fieldNum wireType dAtA i =
     (if fieldNum = 1 then bytes_case ''NextKey'' wireType dAtA i (\<lambda>b. m\<lparr>PageResponse_NextKey := b\<rparr>)
      else if fieldNum = 2 then uint_case ''Total'' wireType dAtA i (\<lambda>v. m\<lparr>PageResponse_Total := v\<rparr>)
      else None)"

definition PageResponse_Unmarshal :: "bytes \<Rightarrow> PageResponse \<Rightarrow> PageResponse res" where
  "PageResponse_Unmarshal dAtA m = decode ''PageResponse'' PageResponse_field (\<lambda>m bz. m) dAtA m"

record MsgDepositWithinBatchPB =
  MsgDepositWithinBatchPB_DepositorAddress :: string
  MsgDepositWithinBatchPB_PoolId :: "64 word"
  MsgDepositWithinBatchPB_DepositCoins :: "CoinPB list"

definition MsgDepositWithinBatchPB_zero :: MsgDepositWithinBatchPB where
  "MsgDepositWithinBatchPB_zero = \<lparr>MsgDepositWithinBatchPB_DepositorAddress = '''', MsgDepositWithinBatchPB_PoolId = 0, MsgDepositWithinBatchPB_DepositCoins = []\<rparr>"

definition MsgDepositWithinBatchPB_Marshal :: "MsgDepositWithinBatchPB \<Rightarrow> bytes" where
  "MsgDepositWithinBatchPB_Marshal m =
     put_bytes_opt 0x0a (str_to_bytes (MsgDepositWithinBatchPB_DepositorAddress m))
     (put_uint_opt 0x10 (MsgDepositWithinBatchPB_PoolId m)
     (put_repeated 0x1a (map CoinPB_Marshal (MsgDepositWithinBatchPB_DepositCoins m)) []))"

definition MsgDepositWithinBatchPB_Size :: "MsgDepositWithinBatchPB \<Rightarrow> nat" where
  "MsgDepositWithinBatchPB_Size m =
     size_len_opt (length (MsgDepositWithinBatchPB_DepositorAddress m)) +
     size_uint_opt (MsgDepositWithinBatchPB_PoolId m) +
     sum_list (map (\<lambda>e. size_len (CoinPB_Size e)) (MsgDepositWithinBatchPB_DepositCoins m))"

definition MsgDepositWithinBatchPB_field :: "MsgDepositWithinBatchPB \<Rightarrow> int \<Rightarrow> 64 word \<Rightarrow> bytes \<Rightarrow> nat \<Rightarrow> (MsgDepositWithinBatchPB \<times> nat) res option" where
  "MsgDepositWithinBatchPB_field m fieldNum wireType dAtA i =
     (if fieldNum = 1 then string_case ''DepositorAddress'' wireType dAtA i (\<lambda>s. m\<lparr>MsgDepositWithinBatchPB_DepositorAddress := s\<rparr>)
      else if fieldNum = 2 then uint_case ''PoolId'' wireType dAtA i (\<lambda>v. m\<lparr>MsgDepositWithinBatchPB_PoolId := v\<rparr>)
      else if fieldNum = 3 then msg_case ''DepositCoins'' wireType dAtA i (\<lambda>b. CoinPB_Unmarshal b CoinPB_zero) (\<lambda>n. m\<lparr>MsgDepositWithinBatchPB_DepositCoins := MsgDepositWithinBatchPB_DepositCoins m @ [n]\<rparr>)
      else None)"

definition MsgDepositWithinBatchPB_Unmarshal :: "bytes \<Rightarrow> MsgDepositWithinBatchPB \<Rightarrow> MsgDepositWithinBatchPB res" where
  "MsgDepositWithinBatchPB_Unmarshal dAtA m = decode ''MsgDepositWithinBatch'' MsgDepositWithinBatchPB_field (\<lambda>m bz. m) dAtA m"

definition MsgDepositWithinBatchPB_ok :: "MsgDepositWithinBatchPB \<Rightarrow> bool" where
  "MsgDepositWithinBatchPB_ok m \<longleftrightarrow> list_all CoinPB_ok (MsgDepositWithinBatchPB_DepositCoins m)"

record MsgWithdrawWithinBatchPB =
  MsgWithdrawWithinBatchPB_WithdrawerAddress :: string
  MsgWithdrawWithinBatchPB_PoolId :: "64 word"
  MsgWithdrawWithinBatchPB_PoolCoin :: CoinPB

definition MsgWithdrawWithinBatchPB_zero :: MsgWithdrawWithinBatchPB where
  "MsgWithdrawWithinBatchPB_zero = \<lparr>MsgWithdrawWithinBatchPB_WithdrawerAddress = '''', MsgWithdrawWithinBatchPB_PoolId = 0, MsgWithdrawWithinBatchPB_PoolCoin = CoinPB_zero\<rparr>"

definition MsgWithdrawWithinBatchPB_Marshal :: "MsgWithdrawWithinBatchPB \<Rightarrow> bytes" where
  "MsgWithdrawWithinBatchPB_Marshal m =
     put_bytes_opt 0x0a (str_to_bytes (MsgWithdrawWithinBatchPB_WithdrawerAddress m))
     (put_uint_opt 0x10 (MsgWithdrawWithinBatchPB_PoolId m)
     (put_bytes 0x1a (CoinPB_Marshal (MsgWithdrawWithinBatchPB_PoolCoin m)) []))"

definition MsgWithdrawWithinBatchPB_Size :: "MsgWithdrawWithinBatchPB \<Rightarrow> nat" where
  "MsgWithdrawWithinBatchPB_Size m =
     size_len_opt (length (MsgWithdrawWithinBatchPB_WithdrawerAddress m)) +
     size_uint_opt (MsgWithdrawWithinBatchPB_PoolId m) +
     size_len (CoinPB_Size (MsgWithdrawWithinBatchPB_PoolCoin m))"

definition MsgWithdrawWithinBatchPB_field :: "MsgWithdrawWithinBatchPB \<Rightarrow> int \<Rightarrow> 64 word \<Rightarrow> bytes \<Rightarrow> nat \<Rightarrow> (MsgWithdrawWithinBatchPB \<times> nat) res option" where
  "MsgWithdrawWithinBatchPB_field m fieldNum wireType dAtA i =
     (if fieldNum = 1 then string_case ''WithdrawerAddress'' wireType dAtA i (\<lambda>s. m\<lparr>MsgWithdrawWithinBatchPB_WithdrawerAddress := s\<rparr>)
      else if fieldNum = 2 then uint_case ''PoolId'' wireType dAtA i (\<lambda>v. m\<lparr>MsgWithdrawWithinBatchPB_PoolId := v\<rparr>)
      else if fieldNum = 3 then msg_case ''PoolCoin'' wireType dAtA i (\<lambda>b. CoinPB_Unmarshal b (MsgWithdrawWithinBatchPB_PoolCoin m)) (\<lambda>n. m\<lparr>MsgWithdrawWithinBatchPB_PoolCoin := n\<rparr>)
      else None)"

definition MsgWithdrawWithinBatchPB_Unmarshal :: "bytes \<Rightarrow> MsgWithdrawWithinBatchPB \<Rightarrow> MsgWithdrawWithinBatchPB res" where
  "MsgWithdrawWithinBatchPB_Unmarshal dAtA m = decode ''MsgWithdrawWithinBatch'' MsgWithdrawWithinBatchPB_field (\<lambda>m bz. m) dAtA m"

definition MsgWithdrawWithinBatchPB_ok :: "MsgWithdrawWithinBatchPB \<Rightarrow> bool" where
  "MsgWithdrawWithinBatchPB_ok m \<longleftrightarrow> CoinPB_ok (MsgWithdrawWithinBatchPB_PoolCoin m)"

record MsgSwapWithinBatchPB =
  MsgSwapWithinBatchPB_SwapRequesterAddress :: string
  MsgSwapWithinBatchPB_PoolId :: "64 word"
  MsgSwapWithinBatchPB_SwapTypeId :: "32 word"
  MsgSwapWithinBatchPB_OfferCoin :: CoinPB
  MsgSwapWithinBatchPB_DemandCoinDenom :: string
  MsgSwapWithinBatchPB_OfferCoinFee :: CoinPB
  MsgSwapWithinBatchPB_OrderPrice :: "int option"

definition MsgSwapWithinBatchPB_zero :: MsgSwapWithinBatchPB where
  "MsgSwapWithinBatchPB_zero = \<lparr>MsgSwapWithinBatchPB_SwapRequesterAddress = '''', MsgSwapWithinBatchPB_PoolId = 0, MsgSwapWithinBatchPB_SwapTypeId = 0, MsgSwapWithinBatchPB_OfferCoin = CoinPB_zero, MsgSwapWithinBatchPB_DemandCoinDenom = '''', MsgSwapWithinBatchPB_OfferCoinFee = CoinPB_zero, MsgSwapWithinBatchPB_OrderPrice = None\<rparr>"

definition MsgSwapWithinBatchPB_Marshal :: "MsgSwapWithinBatchPB \<Rightarrow> bytes" where
  "MsgSwapWithinBatchPB_Marshal m =
     put_bytes_opt 0x0a (str_to_bytes (MsgSwapWithinBatchPB_SwapRequesterAddress m))
     (put_uint_opt 0x10 (MsgSwapWithinBatchPB_PoolId m)
     (put_uint_opt 0x18 (ucast (MsgSwapWithinBatchPB_SwapTypeId m))
     (put_bytes 0x22 (CoinPB_Marshal (MsgSwapWithinBatchPB_OfferCoin m))
     (put_bytes_opt 0x2a (str_to_bytes (MsgSwapWithinBatchPB_DemandCoinDenom m))
     (put_bytes 0x32 (CoinPB_Marshal (MsgSwapWithinBatchPB_OfferCoinFee m))
     (put_bytes 0x3a (str_to_bytes (Dec_Marshal (MsgSwapWithinBatchPB_OrderPrice m))) []))))))"

definition MsgSwapWithinBatchPB_Size :: "MsgSwapWithinBatchPB \<Rightarrow> nat" where
  "MsgSwapWithinBatchPB_Size m =
     size_len_opt (length (MsgSwapWithinBatchPB_SwapRequesterAddress m)) +
     size_uint_opt (MsgSwapWithinBatchPB_PoolId m) +
     size_uint_opt (ucast (MsgSwapWithinBatchPB_SwapTypeId m)) +
     size_len (CoinPB_Size (MsgSwapWithinBatchPB_OfferCoin m)) +
     size_len_opt (length (MsgSwapWithinBatchPB_DemandCoinDenom m)) +
     size_len (CoinPB_Size (MsgSwapWithinBatchPB_OfferCoinFee m)) +
     size_len (Dec_Size (MsgSwapWithinBatchPB_OrderPrice m))"

definition MsgSwapWithinBatchPB_field :: "MsgSwapWithinBatchPB \<Rightarrow> int \<Rightarrow> 64 word \<Rightarrow> bytes \<Rightarrow> nat \<Rightarrow> (MsgSwapWithinBatchPB \<times> nat) res option" where
  "MsgSwapWithinBatchPB_field m fieldNum wireType dAtA i =
     (if fieldNum = 1 then string_case ''SwapRequesterAddress'' wireType dAtA i (\<lambda>s. m\<lparr>MsgSwapWithinBatchPB_SwapRequesterAddress := s\<rparr>)
      else if fieldNum = 2 then uint_case ''PoolId'' wireType dAtA i (\<lambda>v. m\<lparr>MsgSwapWithinBatchPB_PoolId := v\<rparr>)
      else if fieldNum = 3 then uint_case ''SwapTypeId'' wireType dAtA i (\<lambda>v. m\<lparr>MsgSwapWithinBatchPB_SwapTypeId := ucast v\<rparr>)
      else if fieldNum = 4 then msg_case ''OfferCoin'' wireType dAtA i (\<lambda>b. CoinPB_Unmarshal b (MsgSwapWithinBatchPB_OfferCoin m)) (\<lambda>n. m\<lparr>MsgSwapWithinBatchPB_OfferCoin := n\<rparr>)
      else if fieldNum = 5 then string_case ''DemandCoinDenom'' wireType dAtA i (\<lambda>s. m\<lparr>MsgSwapWithinBatchPB_DemandCoinDenom := s\<rparr>)
      else if fieldNum = 6 then msg_case ''OfferCoinFee'' wireType dAtA i (\<lambda>b. CoinPB_Unmarshal b (MsgSwapWithinBatchPB_OfferCoinFee m)) (\<lambda>n. m\<lparr>MsgSwapWithinBatchPB_OfferCoinFee := n\<rparr>)
      else if fieldNum = 7 then msg_case ''OrderPrice'' wireType dAtA i (\<lambda>b. Dec_Unmarshal (MsgSwapWithinBatchPB_OrderPrice m) (bytes_str b)) (\<lambda>v. m\<lparr>MsgSwapWithinBatchPB_OrderPrice := v\<rparr>)
      else None)"

definition MsgSwapWithinBatchPB_Unmarshal :: "bytes \<Rightarrow> MsgSwapWithinBatchPB \<Rightarrow> MsgSwapWithinBatchPB res" where
  "MsgSwapWithinBatchPB_Unmarshal dAtA m = decode ''MsgSwapWithinBatch'' MsgSwapWithinBatchPB_field (\<lambda>m bz. m) dAtA m"

definition MsgSwapWithinBatchPB_ok :: "MsgSwapWithinBatchPB \<Rightarrow> bool" where
  "MsgSwapWithinBatchPB_ok m \<longleftrightarrow> CoinPB_ok (MsgSwapWithinBatchPB_OfferCoin m) \<and> CoinPB_ok (MsgSwapWithinBatchPB_OfferCoinFee m) \<and> number_ok (MsgSwapWithinBatchPB_OrderPrice m)"

record PoolType =
  PoolType_Id :: "32 word"
  PoolType_Name :: string
  PoolType_MinReserveCoinNum :: "32 word"
  PoolType_MaxReserveCoinNum :: "32 word"
  PoolType_Description :: string

definition PoolType_zero :: PoolType where
  "PoolType_zero = \<lparr>PoolType_Id = 0, PoolType_Name = '''', PoolType_MinReserveCoinNum = 0, PoolType_MaxReserveCoinNum = 0, PoolType_Description = ''''\<rparr>"

definition PoolType_Marshal :: "PoolType \<Rightarrow> bytes" where
  "PoolType_Marshal m =
     put_uint_opt 0x08 (ucast (PoolType_Id m))
     (put_bytes_opt 0x12 (str_to_bytes (PoolType_Name m))
     (put_uint_opt 0x18 (ucast (PoolType_MinReserveCoinNum m))
     (put_uint_opt 0x20 (ucast (PoolType_MaxReserveCoinNum m))
     (put_bytes_opt 0x2a (str_to_bytes (PoolType_Description m)) []))))"

definition PoolType_Size :: "PoolType \<Rightarrow> nat" where
  "PoolType_Size m =
     size_uint_opt (ucast (PoolType_Id m)) +
     size_len_opt (length (PoolType_Name m)) +
     size_uint_opt (ucast (PoolType_MinReserveCoinNum m)) +
     size_uint_opt (ucast (PoolType_MaxReserveCoinNum m)) +
     size_len_opt (length (PoolType_Description m))"

definition PoolType_field :: "PoolType \<Rightarrow> int \<Rightarrow> 64 word \<Rightarrow> bytes \<Rightarrow> nat \<Rightarrow> (PoolType \<times> nat) res option" where
  "PoolType_field m fieldNum wireType dAtA i =
     (if fieldNum = 1 then uint_case ''Id'' wireType dAtA i (\<lambda>v. m\<lparr>PoolType_Id := ucast v\<rparr>)
      else if fieldNum = 2 then string_case ''Name'' wireType dAtA i (\<lambda>s. m\<lparr>PoolType_Name := s\<rparr>)
      else if fieldNum = 3 then uint_case ''MinReserveCoinNum'' wireType dAtA i (\<lambda>v. m\<lparr>PoolType_MinReserveCoinNum := ucast v\<rparr>)
      else if fieldNum = 4 then uint_case ''MaxReserveCoinNum'' wireType dAtA i (\<lambda>v. m\<lparr>PoolType_MaxReserveCoinNum := ucast v\<rparr>)
      else if fieldNum = 5 then string_case ''Description'' wireType dAtA i (\<lambda>s. m\<lparr>PoolType_Description := s\<rparr>)
      else None)"

definition PoolType_Unmarshal :: "bytes \<Rightarrow> PoolType \<Rightarrow> PoolType res" where
  "PoolType_Unmarshal dAtA m = decode ''PoolType'' PoolType_field (\<lambda>m bz. m) dAtA m"

record SwapParams =
  SwapParams_PoolTypes :: "PoolType list"
  SwapParams_MinInitDepositAmount :: "int option"
  SwapParams_InitPoolCoinMintAmount :: "int option"
  SwapParams_MaxReserveCoinAmount :: "int option"
  SwapParams_PoolCreationFee :: "CoinPB list"
  SwapParams_SwapFeeRate :: "int option"
  SwapParams_WithdrawFeeRate :: "int option"
  SwapParams_MaxOrderAmountRatio :: "int option"
  SwapParams_UnitBatchHeight :: "32 word"
  SwapParams_CircuitBreakerEnabled :: bool

definition SwapParams_zero :: SwapParams where
  "SwapParams_zero = \<lparr>SwapParams_PoolTypes = [], SwapParams_MinInitDepositAmount = None, SwapParams_InitPoolCoinMintAmount = None, SwapParams_MaxReserveCoinAmount = None, SwapParams_PoolCreationFee = [], SwapParams_SwapFeeRate = None, SwapParams_WithdrawFeeRate = None, SwapParams_MaxOrderAmountRatio = None, SwapParams_UnitBatchHeight = 0, SwapParams_CircuitBreakerEnabled = False\<rparr>"

definition SwapParams_Marshal :: "SwapParams \<Rightarrow> bytes" where
  "SwapParams_Marshal m =
     put_repeated 0x0a (map PoolType_Marshal (SwapParams_PoolTypes m))
     (put_bytes 0x12 (str_to_bytes (Int_Marshal (SwapParams_MinInitDepositAmount m)))
     (put_bytes 0x1a (str_to_bytes (Int_Marshal (SwapParams_InitPoolCoinMintAmount m)))
     (put_bytes 0x22 (str_to_bytes (Int_Marshal (SwapParams_MaxReserveCoinAmount m)))
     (put_repeated 0x2a (map CoinPB_Marshal (SwapParams_PoolCreationFee m))
     (put_bytes 0x32 (str_to_bytes (Dec_Marshal (SwapParams_SwapFeeRate m)))
     (put_bytes 0x3a (str_to_bytes (Dec_Marshal (SwapParams_WithdrawFeeRate m)))
     (put_bytes 0x42 (str_to_bytes (Dec_Marshal (SwapParams_MaxOrderAmountRatio m)))
     (put_uint_opt 0x48 (ucast (SwapParams_UnitBatchHeight m))
     (put_bool_opt 0x50 (SwapParams_CircuitBreakerEnabled m) [])))))))))"

definition SwapParams_Size :: "SwapParams \<Rightarrow> nat" where
  "SwapParams_Size m =
     sum_list (map (\<lambda>e. size_len (PoolType_Size e)) (SwapParams_PoolTypes m)) +
     size_len (Int_Size (SwapParams_MinInitDepositAmount m)) +
     size_len (Int_Size (SwapParams_InitPoolCoinMintAmount m)) +
     size_len (Int_Size (SwapParams_MaxReserveCoinAmount m)) +
     sum_list (map (\<lambda>e. size_len (CoinPB_Size e)) (SwapParams_PoolCreationFee m)) +
     size_len (Dec_Size (SwapParams_SwapFeeRate m)) +
     size_len (Dec_Size (SwapParams_WithdrawFeeRate m)) +
     size_len (Dec_Size (SwapParams_MaxOrderAmountRatio m)) +
     size_uint_opt (ucast (SwapParams_UnitBatchHeight m)) +
     size_bool_opt (SwapParams_CircuitBreakerEnabled m)"

definition SwapParams_field :: "SwapParams \<Rightarrow> int \<Rightarrow> 64 word \<Rightarrow> bytes \<Rightarrow> nat \<Rightarrow> (SwapParams \<times> nat) res option" where
  "SwapParams_field m fieldNum wireType dAtA i =
     (if fieldNum = 1 then msg_case ''PoolTypes'' wireType dAtA i (\<lambda>b. PoolType_Unmarshal b PoolType_zero) (\<lambda>n. m\<lparr>SwapParams_PoolTypes := SwapParams_PoolTypes m @ [n]\<rparr>)
      else if fieldNum = 2 then msg_case ''MinInitDepositAmount'' wireType dAtA i (\<lambda>b. Int_Unmarshal (SwapParams_MinInitDepositAmount m) (bytes_str b)) (\<lambda>v. m\<lparr>SwapParams_MinInitDepositAmount := v\<rparr>)
      else if fieldNum = 3 then msg_case ''InitPoolCoinMintAmount'' wireType dAtA i (\<lambda>b. Int_Unmarshal (SwapParams_InitPoolCoinMintAmount m) (bytes_str b)) (\<lambda>v. m\<lparr>SwapParams_InitPoolCoinMintAmount := v\<rparr>)
      else if fieldNum = 4 then msg_case ''MaxReserveCoinAmount'' wireType dAtA i (\<lambda>b. Int_Unmarshal (SwapParams_MaxReserveCoinAmount m) (bytes_str b)) (\<lambda>v. m\<lparr>SwapParams_MaxReserveCoinAmount := v\<rparr>)
      else if fieldNum = 5 then msg_case ''PoolCreationFee'' wireType dAtA i (\<lambda>b. CoinPB_Unmarshal b CoinPB_zero) (\<lambda>n. m\<lparr>SwapParams_PoolCreationFee := SwapParams_PoolCreationFee m @ [n]\<rparr>)
      else if fieldNum = 6 then msg_case ''SwapFeeRate'' wireType dAtA i (\<lambda>b. Dec_Unmarshal (SwapParams_SwapFeeRate m) (bytes_str b)) (\<lambda>v. m\<lparr>SwapParams_SwapFeeRate := v\<rparr>)
      else if fieldNum = 7 then msg_case ''WithdrawFeeRate'' wireType dAtA i (\<lambda>b. Dec_Unmarshal (SwapParams_WithdrawFeeRate m) (bytes_str b)) (\<lambda>v. m\<lparr>SwapParams_WithdrawFeeRate := v\<rparr>)
      else if fieldNum = 8 then msg_case ''MaxOrderAmountRatio'' wireType dAtA i (\<lambda>b. Dec_Unmarshal (SwapParams_MaxOrderAmountRatio m) (bytes_str b)) (\<lambda>v. m\<lparr>SwapParams_MaxOrderAmountRatio := v\<rparr>)
      else if fieldNum = 9 then uint_case ''UnitBatchHeight'' wireType dAtA i (\<lambda>v. m\<lparr>SwapParams_UnitBatchHeight := ucast v\<rparr>)
      else if fieldNum = 10 then bool_case ''CircuitBreakerEnabled'' wireType dAtA i (\<lambda>v. m\<lparr>SwapParams_CircuitBreakerEnabled := v\<rparr>)
      else None)"

definition SwapParams_Unmarshal :: "bytes \<Rightarrow> SwapParams \<Rightarrow> SwapParams res" where
  "SwapParams_Unmarshal dAtA m = decode ''Params'' SwapParams_field (\<lambda>m bz. m) dAtA m"

definition SwapParams_ok :: "SwapParams \<Rightarrow> bool" where
  "SwapParams_ok m \<longleftrightarrow> number_ok (SwapParams_MinInitDepositAmount m) \<and> number_ok (SwapParams_InitPoolCoinMintAmount m) \<and> number_ok (SwapParams_MaxReserveCoinAmount m) \<and> list_all CoinPB_ok (SwapParams_PoolCreationFee m) \<and> number_ok (SwapParams_SwapFeeRate m) \<and> number_ok (SwapParams_WithdrawFeeRate m) \<and> number_ok (SwapParams_MaxOrderAmountRatio m)"

record SwapPool =
  SwapPool_Id :: "64 word"
  SwapPool_TypeId :: "32 word"
  SwapPool_ReserveCoinDenoms :: "string list"
  SwapPool_ReserveAccountAddress :: string
  SwapPool_PoolCoinDenom :: string

definition SwapPool_zero :: SwapPool where
  "SwapPool_zero = \<lparr>SwapPool_Id = 0, SwapPool_TypeId = 0, SwapPool_ReserveCoinDenoms = [], SwapPool_ReserveAccountAddress = '''', SwapPool_PoolCoinDenom = ''''\<rparr>"

definition SwapPool_Marshal :: "SwapPool \<Rightarrow> bytes" where
  "SwapPool_Marshal m =
     put_uint_opt 0x08 (SwapPool_Id m)
     (put_uint_opt 0x10 (ucast (SwapPool_TypeId m))
     (put_repeated 0x1a (map str_to_bytes (SwapPool_ReserveCoinDenoms m))
     (put_bytes_opt 0x22 (str_to_bytes (SwapPool_ReserveAccountAddress m))
     (put_bytes_opt 0x2a (str_to_bytes (SwapPool_PoolCoinDenom m)) []))))"

definition SwapPool_Size :: "SwapPool \<Rightarrow> nat" where
  "SwapPool_Size m =
     size_uint_opt (SwapPool_Id m) +
     size_uint_opt (ucast (SwapPool_TypeId m)) +
     sum_list (map (\<lambda>s. size_len (length s)) (SwapPool_ReserveCoinDenoms m)) +
     size_len_opt (length (SwapPool_ReserveAccountAddress m)) +
     size_len_opt (length (SwapPool_PoolCoinDenom m))"

definition SwapPool_field :: "SwapPool \<Rightarrow> int \<Rightarrow> 64 word \<Rightarrow> bytes \<Rightarrow> nat \<Rightarrow> (SwapPool \<times> nat) res option" where
  "SwapPool_field m fieldNum wireType dAtA i =
     (if fieldNum = 1 then uint_case ''Id'' wireType dAtA i (\<lambda>v. m\<lparr>SwapPool_Id := v\<rparr>)
      else if fieldNum = 2 then uint_case ''TypeId'' wireType dAtA i (\<lambda>v. m\<lparr>SwapPool_TypeId := ucast v\<rparr>)
      else if fieldNum = 3 then string_case ''ReserveCoinDenoms'' wireType dAtA i (\<lambda>s. m\<lparr>SwapPool_ReserveCoinDenoms := SwapPool_ReserveCoinDenoms m @ [s]\<rparr>)
      else if fieldNum = 4 then string_case ''ReserveAccountAddress'' wireType dAtA i (\<lambda>s. m\<lparr>SwapPool_ReserveAccountAddress := s\<rparr>)
      else if fieldNum = 5 then string_case ''PoolCoinDenom'' wireType dAtA i (\<lambda>s. m\<lparr>SwapPool_PoolCoinDenom := s\<rparr>)
      else None)"

definition SwapPool_Unmarshal :: "bytes \<Rightarrow> SwapPool \<Rightarrow> SwapPool res" where
  "SwapPool_Unmarshal dAtA m = decode ''Pool'' SwapPool_field (\<lambda>m bz. m) dAtA m"

record PoolBatch =
  PoolBatch_PoolId :: "64 word"
  PoolBatch_Index :: "64 word"
  PoolBatch_BeginHeight :: "64 word"
  PoolBatch_DepositMsgIndex :: "64 word"
  PoolBatch_WithdrawMsgIndex :: "64 word"
  PoolBatch_SwapMsgIndex :: "64 word"
  PoolBatch_Executed :: bool

definition PoolBatch_zero :: PoolBatch where
  "PoolBatch_zero = \<lparr>PoolBatch_PoolId = 0, PoolBatch_Index = 0, PoolBatch_BeginHeight = 0, PoolBatch_DepositMsgIndex = 0, PoolBatch_WithdrawMsgIndex = 0, PoolBatch_SwapMsgIndex = 0, PoolBatch_Executed = False\<rparr>"

definition PoolBatch_Marshal :: "PoolBatch \<Rightarrow> bytes" where
  "PoolBatch_Marshal m =
     put_uint_opt 0x08 (PoolBatch_PoolId m)
     (put_uint_opt 0x10 (PoolBatch_Index m)
     (put_uint_opt 0x18 (PoolBatch_BeginHeight m)
     (put_uint_opt 0x20 (PoolBatch_DepositMsgIndex m)
     (put_uint_opt 0x28 (PoolBatch_WithdrawMsgIndex m)
     (put_uint_opt 0x30 (PoolBatch_SwapMsgIndex m)
     (put_bool_opt 0x38 (PoolBatch_Executed m) []))))))"

definition PoolBatch_Size :: "PoolBatch \<Rightarrow> nat" where
  "PoolBatch_Size m =
     size_uint_opt (PoolBatch_PoolId m) +
     size_uint_opt (PoolBatch_Index m) +
     size_uint_opt (PoolBatch_BeginHeight m) +
     size_uint_opt (PoolBatch_DepositMsgIndex m) +
     size_uint_opt (PoolBatch_WithdrawMsgIndex m) +
     size_uint_opt (PoolBatch_SwapMsgIndex m) +
     size_bool_opt (PoolBatch_Executed m)"

definition PoolBatch_field :: "PoolBatch \<Rightarrow> int \<Rightarrow> 64 word \<Rightarrow> bytes \<Rightarrow> nat \<Rightarrow> (PoolBatch \<times> nat) res option" where
  "PoolBatch_field m fieldNum wireType dAtA i =
     (if fieldNum = 1 then uint_case ''PoolId'' wireType dAtA i (\<lambda>v. m\<lparr>PoolBatch_PoolId := v\<rparr>)
      else if fieldNum = 2 then uint_case ''Index'' wireType dAtA i (\<lambda>v. m\<lparr>PoolBatch_Index := v\<rparr>)
      else if fieldNum = 3 then uint_case ''BeginHeight'' wireType dAtA i (\<lambda>v. m\<lparr>PoolBatch_BeginHeight := v\<rparr>)
      else if fieldNum = 4 then uint_case ''DepositMsgIndex'' wireType dAtA i (\<lambda>v. m\<lparr>PoolBatch_DepositMsgIndex := v\<rparr>)
      else if fieldNum = 5 then uint_case ''WithdrawMsgIndex'' wireType dAtA i (\<lambda>v. m\<lparr>PoolBatch_WithdrawMsgIndex := v\<rparr>)
      else if fieldNum = 6 then uint_case ''SwapMsgIndex'' wireType dAtA i (\<lambda>v. m\<lparr>PoolBatch_SwapMsgIndex := v\<rparr>)
      else if fieldNum = 7 then bool_case ''Executed'' wireType dAtA i (\<lambda>v. m\<lparr>PoolBatch_Executed := v\<rparr>)
      else None)"

definition PoolBatch_Unmarshal :: "bytes \<Rightarrow> PoolBatch \<Rightarrow> PoolBatch res" where
  "PoolBatch_Unmarshal dAtA m = decode ''PoolBatch'' PoolBatch_field (\<lambda>m bz. m) dAtA m"

record DepositMsgState =
  DepositMsgState_MsgHeight :: "64 word"
  DepositMsgState_MsgIndex :: "64 word"
  DepositMsgState_Executed :: bool
  DepositMsgState_Succeeded :: bool
  DepositMsgState_ToBeDeleted :: bool
  DepositMsgState_Msg :: "MsgDepositWithinBatchPB option"

definition DepositMsgState_zero :: DepositMsgState where
  "DepositMsgState_zero = \<lparr>DepositMsgState_MsgHeight = 0, DepositMsgState_MsgIndex = 0, DepositMsgState_Executed = False, DepositMsgState_Succeeded = False, DepositMsgState_ToBeDeleted = False, DepositMsgState_Msg = None\<rparr>"

definition DepositMsgState_Marshal :: "DepositMsgState \<Rightarrow> bytes" where
  "DepositMsgState_Marshal m =
     put_uint_opt 0x08 (DepositMsgState_MsgHeight m)
     (put_uint_opt 0x10 (DepositMsgState_MsgIndex m)
     (put_bool_opt 0x18 (DepositMsgState_Executed m)
     (put_bool_opt 0x20 (DepositMsgState_Succeeded m)
     (put_bool_opt 0x28 (DepositMsgState_ToBeDeleted m)
     (put_msg_opt 0x32 MsgDepositWithinBatchPB_Marshal (DepositMsgState_Msg m) [])))))"

definition DepositMsgState_Size :: "DepositMsgState \<Rightarrow> nat" where
  "DepositMsgState_Size m =
     size_uint_opt (DepositMsgState_MsgHeight m) +
     size_uint_opt (DepositMsgState_MsgIndex m) +
     size_bool_opt (DepositMsgState_Executed m) +
     size_bool_opt (DepositMsgState_Succeeded m) +
     size_bool_opt (DepositMsgState_ToBeDeleted m) +
     size_msg_opt MsgDepositWithinBatchPB_Size (DepositMsgState_Msg m)"

definition DepositMsgState_field :: "DepositMsgState \<Rightarrow> int \<Rightarrow> 64 word \<Rightarrow> bytes \<Rightarrow> nat \<Rightarrow> (DepositMsgState \<times> nat) res option" where
  "DepositMsgState_field m fieldNum wireType dAtA i =
     (if fieldNum = 1 then uint_case ''MsgHeight'' wireType dAtA i (\<lambda>v. m\<lparr>DepositMsgState_MsgHeight := v\<rparr>)
      else if fieldNum = 2 then uint_case ''MsgIndex'' wireType dAtA i (\<lambda>v. m\<lparr>DepositMsgState_MsgIndex := v\<rparr>)
      else if fieldNum = 3 then bool_case ''Executed'' wireType dAtA i (\<lambda>v. m\<lparr>DepositMsgState_Executed := v\<rparr>)
      else if fieldNum = 4 then bool_case ''Succeeded'' wireType dAtA i (\<lambda>v. m\<lparr>DepositMsgState_Succeeded := v\<rparr>)
      else if fieldNum = 5 then bool_case ''ToBeDeleted'' wireType dAtA i (\<lambda>v. m\<lparr>DepositMsgState_ToBeDeleted := v\<rparr>)
      else if fieldNum = 6 then ptr_case ''Msg'' wireType dAtA i MsgDepositWithinBatchPB_Unmarshal MsgDepositWithinBatchPB_zero (DepositMsgState_Msg m) (\<lambda>p. m\<lparr>DepositMsgState_Msg := p\<rparr>)
      else None)"

definition DepositMsgState_Unmarshal :: "bytes \<Rightarrow> DepositMsgState \<Rightarrow> DepositMsgState res" where
  "DepositMsgState_Unmarshal dAtA m = decode ''DepositMsgState'' DepositMsgState_field (\<lambda>m bz. m) dAtA m"

definition DepositMsgState_ok :: "DepositMsgState \<Rightarrow> bool" where
  "DepositMsgState_ok m \<longleftrightarrow> (case (DepositMsgState_Msg m) of None \<Rightarrow> True | Some n \<Rightarrow> MsgDepositWithinBatchPB_ok n)"

record WithdrawMsgState =
  WithdrawMsgState_MsgHeight :: "64 word"
  WithdrawMsgState_MsgIndex :: "64 word"
  WithdrawMsgState_Executed :: bool
  WithdrawMsgState_Succeeded :: bool
  WithdrawMsgState_ToBeDeleted :: bool
  WithdrawMsgState_Msg :: "MsgWithdrawWithinBatchPB option"

definition WithdrawMsgState_zero :: WithdrawMsgState where
  "WithdrawMsgState_zero = \<lparr>WithdrawMsgState_MsgHeight = 0, WithdrawMsgState_MsgIndex = 0, WithdrawMsgState_Executed = False, WithdrawMsgState_Succeeded = False, WithdrawMsgState_ToBeDeleted = False, WithdrawMsgState_Msg = None\<rparr>"

definition WithdrawMsgState_Marshal :: "WithdrawMsgState \<Rightarrow> bytes" where
  "WithdrawMsgState_Marshal m =
     put_uint_opt 0x08 (WithdrawMsgState_MsgHeight m)
     (put_uint_opt 0x10 (WithdrawMsgState_MsgIndex m)
     (put_bool_opt 0x18 (WithdrawMsgState_Executed m)
     (put_bool_opt 0x20 (WithdrawMsgState_Succeeded m)
     (put_bool_opt 0x28 (WithdrawMsgState_ToBeDeleted m)
     (put_msg_opt 0x32 MsgWithdrawWithinBatchPB_Marshal (WithdrawMsgState_Msg m) [])))))"

definition WithdrawMsgState_Size :: "WithdrawMsgState \<Rightarrow> nat" where
  "WithdrawMsgState_Size m =
     size_uint_opt (WithdrawMsgState_MsgHeight m) +
     size_uint_opt (WithdrawMsgState_MsgIndex m) +
     size_bool_opt (WithdrawMsgState_Executed m) +
     size_bool_opt (WithdrawMsgState_Succeeded m) +
     size_bool_opt (WithdrawMsgState_ToBeDeleted m) +
     size_msg_opt MsgWithdrawWithinBatchPB_Size (WithdrawMsgState_Msg m)"

definition WithdrawMsgState_field :: "WithdrawMsgState \<Rightarrow> int \<Rightarrow> 64 word \<Rightarrow> bytes \<Rightarrow> nat \<Rightarrow> (WithdrawMsgState \<times> nat) res option" where
  "WithdrawMsgState_field m fieldNum wireType dAtA i =
     (if fieldNum = 1 then uint_case ''MsgHeight'' wireType dAtA i (\<lambda>v. m\<lparr>WithdrawMsgState_MsgHeight := v\<rparr>)
      else if fieldNum = 2 then uint_case ''MsgIndex'' wireType dAtA i (\<lambda>v. m\<lparr>WithdrawMsgState_MsgIndex := v\<rparr>)
      else if fieldNum = 3 then bool_case ''Executed'' wireType dAtA i (\<lambda>v. m\<lparr>WithdrawMsgState_Executed := v\<rparr>)
      else if fieldNum = 4 then bool_case ''Succeeded'' wireType dAtA i (\<lambda>v. m\<lparr>WithdrawMsgState_Succeeded := v\<rparr>)
      else if fieldNum = 5 then bool_case ''ToBeDeleted'' wireType dAtA i (\<lambda>v. m\<lparr>WithdrawMsgState_ToBeDeleted := v\<rparr>)
      else if fieldNum = 6 then ptr_case ''Msg'' wireType dAtA i MsgWithdrawWithinBatchPB_Unmarshal MsgWithdrawWithinBatchPB_zero (WithdrawMsgState_Msg m) (\<lambda>p. m\<lparr>WithdrawMsgState_Msg := p\<rparr>)
      else None)"

definition WithdrawMsgState_Unmarshal :: "bytes \<Rightarrow> WithdrawMsgState \<Rightarrow> WithdrawMsgState res" where
  "WithdrawMsgState_Unmarshal dAtA m = decode ''WithdrawMsgState'' WithdrawMsgState_field (\<lambda>m bz. m) dAtA m"

definition WithdrawMsgState_ok :: "WithdrawMsgState \<Rightarrow> bool" where
  "WithdrawMsgState_ok m \<longleftrightarrow> (case (WithdrawMsgState_Msg m) of None \<Rightarrow> True | Some n \<Rightarrow> MsgWithdrawWithinBatchPB_ok n)"

record SwapMsgState =
  SwapMsgState_MsgHeight :: "64 word"
  SwapMsgState_MsgIndex :: "64 word"
  SwapMsgState_Executed :: bool
  SwapMsgState_Succeeded :: bool
  SwapMsgState_ToBeDeleted :: bool
  SwapMsgState_OrderExpiryHeight :: "64 word"
  SwapMsgState_ExchangedOfferCoin :: CoinPB
  SwapMsgState_RemainingOfferCoin :: CoinPB
  SwapMsgState_ReservedOfferCoinFee :: CoinPB
  SwapMsgState_Msg :: "MsgSwapWithinBatchPB option"

definition SwapMsgState_zero :: SwapMsgState where
  "SwapMsgState_zero = \<lparr>SwapMsgState_MsgHeight = 0, SwapMsgState_MsgIndex = 0, SwapMsgState_Executed = False, SwapMsgState_Succeeded = False, SwapMsgState_ToBeDeleted = False, SwapMsgState_OrderExpiryHeight = 0, SwapMsgState_ExchangedOfferCoin = CoinPB_zero, SwapMsgState_RemainingOfferCoin = CoinPB_zero, SwapMsgState_ReservedOfferCoinFee = CoinPB_zero, SwapMsgState_Msg = None\<rparr>"

definition SwapMsgState_Marshal :: "SwapMsgState \<Rightarrow> bytes" where
  "SwapMsgState_Marshal m =
     put_uint_opt 0x08 (SwapMsgState_MsgHeight m)
     (put_uint_opt 0x10 (SwapMsgState_MsgIndex m)
     (put_bool_opt 0x18 (SwapMsgState_Executed m)
     (put_bool_opt 0x20 (SwapMsgState_Succeeded m)
     (put_bool_opt 0x28 (SwapMsgState_ToBeDeleted m)
     (put_uint_opt 0x30 (SwapMsgState_OrderExpiryHeight m)
     (put_bytes 0x3a (CoinPB_Marshal (SwapMsgState_ExchangedOfferCoin m))
     (put_bytes 0x42 (CoinPB_Marshal (SwapMsgState_RemainingOfferCoin m))
     (put_bytes 0x4a (CoinPB_Marshal (SwapMsgState_ReservedOfferCoinFee m))
     (put_msg_opt 0x52 MsgSwapWithinBatchPB_Marshal (SwapMsgState_Msg m) [])))))))))"

definition SwapMsgState_Size :: "SwapMsgState \<Rightarrow> nat" where
  "SwapMsgState_Size m =
     size_uint_opt (SwapMsgState_MsgHeight m) +
     size_uint_opt (SwapMsgState_MsgIndex m) +
     size_bool_opt (SwapMsgState_Executed m) +
     size_bool_opt (SwapMsgState_Succeeded m) +
     size_bool_opt (SwapMsgState_ToBeDeleted m) +
     size_uint_opt (SwapMsgState_OrderExpiryHeight m) +
     size_len (CoinPB_Size (SwapMsgState_ExchangedOfferCoin m)) +
     size_len (CoinPB_Size (SwapMsgState_RemainingOfferCoin m)) +
     size_len (CoinPB_Size (SwapMsgState_ReservedOfferCoinFee m)) +
     size_msg_opt MsgSwapWithinBatchPB_Size (SwapMsgState_Msg m)"

definition SwapMsgState_field :: "SwapMsgState \<Rightarrow> int \<Rightarrow> 64 word \<Rightarrow> bytes \<Rightarrow> nat \<Rightarrow> (SwapMsgState \<times> nat) res option" where
  "SwapMsgState_field m fieldNum wireType dAtA i =
     (if fieldNum = 1 then uint_case ''MsgHeight'' wireType dAtA i (\<lambda>v. m\<lparr>SwapMsgState_MsgHeight := v\<rparr>)
      else if fieldNum = 2 then uint_case ''MsgIndex'' wireType dAtA i (\<lambda>v. m\<lparr>SwapMsgState_MsgIndex := v\<rparr>)
      else if fieldNum = 3 then bool_case ''Executed'' wireType dAtA i (\<lambda>v. m\<lparr>SwapMsgState_Executed := v\<rparr>)
      else if fieldNum = 4 then bool_case ''Succeeded'' wireType dAtA i (\<lambda>v. m\<lparr>SwapMsgState_Succeeded := v\<rparr>)
      else if fieldNum = 5 then bool_case ''ToBeDeleted'' wireType dAtA i (\<lambda>v. m\<lparr>SwapMsgState_ToBeDeleted := v\<rparr>)
      else if fieldNum = 6 then uint_case ''OrderExpiryHeight'' wireType dAtA i (\<lambda>v. m\<lparr>SwapMsgState_OrderExpiryHeight := v\<rparr>)
      else if fieldNum = 7 then msg_case ''ExchangedOfferCoin'' wireType dAtA i (\<lambda>b. CoinPB_Unmarshal b (SwapMsgState_ExchangedOfferCoin m)) (\<lambda>n. m\<lparr>SwapMsgState_ExchangedOfferCoin := n\<rparr>)
      else if fieldNum = 8 then msg_case ''RemainingOfferCoin'' wireType dAtA i (\<lambda>b. CoinPB_Unmarshal b (SwapMsgState_RemainingOfferCoin m)) (\<lambda>n. m\<lparr>SwapMsgState_RemainingOfferCoin := n\<rparr>)
      else if fieldNum = 9 then msg_case ''ReservedOfferCoinFee'' wireType dAtA i (\<lambda>b. CoinPB_Unmarshal b (SwapMsgState_ReservedOfferCoinFee m)) (\<lambda>n. m\<lparr>SwapMsgState_ReservedOfferCoinFee := n\<rparr>)
      else if fieldNum = 10 then ptr_case ''Msg'' wireType dAtA i MsgSwapWithinBatchPB_Unmarshal MsgSwapWithinBatchPB_zero (SwapMsgState_Msg m) (\<lambda>p. m\<lparr>SwapMsgState_Msg := p\<rparr>)
      else None)"

definition SwapMsgState_Unmarshal :: "bytes \<Rightarrow> SwapMsgState \<Rightarrow> SwapMsgState res" where
  "SwapMsgState_Unmarshal dAtA m = decode ''SwapMsgState'' SwapMsgState_field (\<lambda>m bz. m) dAtA m"

definition SwapMsgState_ok :: "SwapMsgState \<Rightarrow> bool" where
  "SwapMsgState_ok m \<longleftrightarrow> CoinPB_ok (SwapMsgState_ExchangedOfferCoin m) \<and> CoinPB_ok (SwapMsgState_RemainingOfferCoin m) \<and> CoinPB_ok (SwapMsgState_ReservedOfferCoinFee m) \<and> (case (SwapMsgState_Msg m) of None \<Rightarrow> True | Some n \<Rightarrow> MsgSwapWithinBatchPB_ok n)"

record SwapSuccessMsg =
  SwapSuccessMsg_MsgHeight :: "64 word"
  SwapSuccessMsg_MsgIndex :: "64 word"
  SwapSuccessMsg_ExchangedOfferCoin :: CoinPB
  SwapSuccessMsg_RemainingOfferCoin :: CoinPB
  SwapSuccessMsg_ReservedOfferCoinFee :: CoinPB
  SwapSuccessMsg_SwapPrice :: "int option"
  SwapSuccessMsg_GetCoin :: CoinPB
  SwapSuccessMsg_Msg :: "MsgSwapWithinBatchPB option"

definition SwapSuccessMsg_zero :: SwapSuccessMsg where
  "SwapSuccessMsg_zero = \<lparr>SwapSuccessMsg_MsgHeight = 0, SwapSuccessMsg_MsgIndex = 0, SwapSuccessMsg_ExchangedOfferCoin = CoinPB_zero, SwapSuccessMsg_RemainingOfferCoin = CoinPB_zero, SwapSuccessMsg_ReservedOfferCoinFee = CoinPB_zero, SwapSuccessMsg_SwapPrice = None, SwapSuccessMsg_GetCoin = CoinPB_zero, SwapSuccessMsg_Msg = None\<rparr>"

definition SwapSuccessMsg_Marshal :: "SwapSuccessMsg \<Rightarrow> bytes" where
  "SwapSuccessMsg_Marshal m =
     put_uint_opt 0x08 (SwapSuccessMsg_MsgHeight m)
     (put_uint_opt 0x10 (SwapSuccessMsg_MsgIndex m)
     (put_bytes 0x1a (CoinPB_Marshal (SwapSuccessMsg_ExchangedOfferCoin m))
     (put_bytes 0x22 (CoinPB_Marshal (SwapSuccessMsg_RemainingOfferCoin m))
     (put_bytes 0x2a (CoinPB_Marshal (SwapSuccessMsg_ReservedOfferCoinFee m))
     (put_bytes 0x32 (str_to_bytes (Dec_Marshal (SwapSuccessMsg_SwapPrice m)))
     (put_bytes 0x3a (CoinPB_Marshal (SwapSuccessMsg_GetCoin m))
     (put_msg_opt 0x42 MsgSwapWithinBatchPB_Marshal (SwapSuccessMsg_Msg m) [])))))))"

definition SwapSuccessMsg_Size :: "SwapSuccessMsg \<Rightarrow> nat" where
  "SwapSuccessMsg_Size m =
     size_uint_opt (SwapSuccessMsg_MsgHeight m) +
     size_uint_opt (SwapSuccessMsg_MsgIndex m) +
     size_len (CoinPB_Size (SwapSuccessMsg_ExchangedOfferCoin m)) +
     size_len (CoinPB_Size (SwapSuccessMsg_RemainingOfferCoin m)) +
     size_len (CoinPB_Size (SwapSuccessMsg_ReservedOfferCoinFee m)) +
     size_len (Dec_Size (SwapSuccessMsg_SwapPrice m)) +
     size_len (CoinPB_Size (SwapSuccessMsg_GetCoin m)) +
     size_msg_opt MsgSwapWithinBatchPB_Size (SwapSuccessMsg_Msg m)"

definition SwapSuccessMsg_field :: "SwapSuccessMsg \<Rightarrow> int \<Rightarrow> 64 word \<Rightarrow> bytes \<Rightarrow> nat \<Rightarrow> (SwapSuccessMsg \<times> nat) res option" where
  "SwapSuccessMsg_field m fieldNum wireType dAtA i =
     (if fieldNum = 1 then uint_case ''MsgHeight'' wireType dAtA i (\<lambda>v. m\<lparr>SwapSuccessMsg_MsgHeight := v\<rparr>)
      else if fieldNum = 2 then uint_case ''MsgIndex'' wireType dAtA i (\<lambda>v. m\<lparr>SwapSuccessMsg_MsgIndex := v\<rparr>)
      else if fieldNum = 3 then msg_case ''ExchangedOfferCoin'' wireType dAtA i (\<lambda>b. CoinPB_Unmarshal b (SwapSuccessMsg_ExchangedOfferCoin m)) (\<lambda>n. m\<lparr>SwapSuccessMsg_ExchangedOfferCoin := n\<rparr>)
      else if fieldNum = 4 then msg_case ''RemainingOfferCoin'' wireType dAtA i (\<lambda>b. CoinPB_Unmarshal b (SwapSuccessMsg_RemainingOfferCoin m)) (\<lambda>n. m\<lparr>SwapSuccessMsg_RemainingOfferCoin := n\<rparr>)
      else if fieldNum = 5 then msg_case ''ReservedOfferCoinFee'' wireType dAtA i (\<lambda>b. CoinPB_Unmarshal b (SwapSuccessMsg_ReservedOfferCoinFee m)) (\<lambda>n. m\<lparr>SwapSuccessMsg_ReservedOfferCoinFee := n\<rparr>)
      else if fieldNum = 6 then msg_case ''SwapPrice'' wireType dAtA i (\<lambda>b. Dec_Unmarshal (SwapSuccessMsg_SwapPrice m) (bytes_str b)) (\<lambda>v. m\<lparr>SwapSuccessMsg_SwapPrice := v\<rparr>)
      else if fieldNum = 7 then msg_case ''GetCoin'' wireType dAtA i (\<lambda>b. CoinPB_Unmarshal b (SwapSuccessMsg_GetCoin m)) (\<lambda>n. m\<lparr>SwapSuccessMsg_GetCoin := n\<rparr>)
      else if fieldNum = 8 then ptr_case ''Msg'' wireType dAtA i MsgSwapWithinBatchPB_Unmarshal MsgSwapWithinBatchPB_zero (SwapSuccessMsg_Msg m) (\<lambda>p. m\<lparr>SwapSuccessMsg_Msg := p\<rparr>)
      else None)"

definition SwapSuccessMsg_Unmarshal :: "bytes \<Rightarrow> SwapSuccessMsg \<Rightarrow> SwapSuccessMsg res" where
  "SwapSuccessMsg_Unmarshal dAtA m = decode ''SwapSuccessMsg'' SwapSuccessMsg_field (\<lambda>m bz. m) dAtA m"

definition SwapSuccessMsg_ok :: "SwapSuccessMsg \<Rightarrow> bool" where
  "SwapSuccessMsg_ok m \<longleftrightarrow> CoinPB_ok (SwapSuccessMsg_ExchangedOfferCoin m) \<and> CoinPB_ok (SwapSuccessMsg_RemainingOfferCoin m) \<and> CoinPB_ok (SwapSuccessMsg_ReservedOfferCoinFee m) \<and> number_ok (SwapSuccessMsg_SwapPrice m) \<and> CoinPB_ok (SwapSuccessMsg_GetCoin m) \<and> (case (SwapSuccessMsg_Msg m) of None \<Rightarrow> True | Some n \<Rightarrow> MsgSwapWithinBatchPB_ok n)"

record DepositSuccessMsg =
  DepositSuccessMsg_MsgHeight :: "64 word"
  DepositSuccessMsg_DepositorAddress :: string
  DepositSuccessMsg_PoolId :: "64 word"
  DepositSuccessMsg_MsgIndex :: "64 word"
  DepositSuccessMsg_DepositCoins :: "CoinPB list"
  DepositSuccessMsg_InputCoins :: "CoinPB list"
  DepositSuccessMsg_OutputCoins :: "CoinPB list"

definition DepositSuccessMsg_zero :: DepositSuccessMsg where
  "DepositSuccessMsg_zero = \<lparr>DepositSuccessMsg_MsgHeight = 0, DepositSuccessMsg_DepositorAddress = '''', DepositSuccessMsg_PoolId = 0, DepositSuccessMsg_MsgIndex = 0, DepositSuccessMsg_DepositCoins = [], DepositSuccessMsg_InputCoins = [], DepositSuccessMsg_OutputCoins = []\<rparr>"

definition DepositSuccessMsg_Marshal :: "DepositSuccessMsg \<Rightarrow> bytes" where
  "DepositSuccessMsg_Marshal m =
     put_uint_opt 0x08 (DepositSuccessMsg_MsgHeight m)
     (put_bytes_opt 0x12 (str_to_bytes (DepositSuccessMsg_DepositorAddress m))
     (put_uint_opt 0x18 (DepositSuccessMsg_PoolId m)
     (put_uint_opt 0x20 (DepositSuccessMsg_MsgIndex m)
     (put_repeated 0x2a (map CoinPB_Marshal (DepositSuccessMsg_DepositCoins m))
     (put_repeated 0x32 (map CoinPB_Marshal (DepositSuccessMsg_InputCoins m))
     (put_repeated 0x3a (map CoinPB_Marshal (DepositSuccessMsg_OutputCoins m)) []))))))"

definition DepositSuccessMsg_Size :: "DepositSuccessMsg \<Rightarrow> nat" where
  "DepositSuccessMsg_Size m =
     size_uint_opt (DepositSuccessMsg_MsgHeight m) +
     size_len_opt (length (DepositSuccessMsg_DepositorAddress m)) +
     size_uint_opt (DepositSuccessMsg_PoolId m) +
     size_uint_opt (DepositSuccessMsg_MsgIndex m) +
     sum_list (map (\<lambda>e. size_len (CoinPB_Size e)) (DepositSuccessMsg_DepositCoins m)) +
     sum_list (map (\<lambda>e. size_len (CoinPB_Size e)) (DepositSuccessMsg_InputCoins m)) +
     sum_list (map (\<lambda>e. size_len (CoinPB_Size e)) (DepositSuccessMsg_OutputCoins m))"

definition DepositSuccessMsg_field :: "DepositSuccessMsg \<Rightarrow> int \<Rightarrow> 64 word \<Rightarrow> bytes \<Rightarrow> nat \<Rightarrow> (DepositSuccessMsg \<times> nat) res option" where
  "DepositSuccessMsg_field m fieldNum wireType dAtA i =
     (if fieldNum = 1 then uint_case ''MsgHeight'' wireType dAtA i (\<lambda>v. m\<lparr>DepositSuccessMsg_MsgHeight := v\<rparr>)
      else if fieldNum = 2 then string_case ''DepositorAddress'' wireType dAtA i (\<lambda>s. m\<lparr>DepositSuccessMsg_DepositorAddress := s\<rparr>)
      else if fieldNum = 3 then uint_case ''PoolId'' wireType dAtA i (\<lambda>v. m\<lparr>DepositSuccessMsg_PoolId := v\<rparr>)
      else if fieldNum = 4 then uint_case ''MsgIndex'' wireType dAtA i (\<lambda>v. m\<lparr>DepositSuccessMsg_MsgIndex := v\<rparr>)
      else if fieldNum = 5 then msg_case ''DepositCoins'' wireType dAtA i (\<lambda>b. CoinPB_Unmarshal b CoinPB_zero) (\<lambda>n. m\<lparr>DepositSuccessMsg_DepositCoins := DepositSuccessMsg_DepositCoins m @ [n]\<rparr>)
      else if fieldNum = 6 then msg_case ''InputCoins'' wireType dAtA i (\<lambda>b. CoinPB_Unmarshal b CoinPB_zero) (\<lambda>n. m\<lparr>DepositSuccessMsg_InputCoins := DepositSuccessMsg_InputCoins m @ [n]\<rparr>)
      else if fieldNum = 7 then msg_case ''OutputCoins'' wireType dAtA i (\<lambda>b. CoinPB_Unmarshal b CoinPB_zero) (\<lambda>n. m\<lparr>DepositSuccessMsg_OutputCoins := DepositSuccessMsg_OutputCoins m @ [n]\<rparr>)
      else None)"

definition DepositSuccessMsg_Unmarshal :: "bytes \<Rightarrow> DepositSuccessMsg \<Rightarrow> DepositSuccessMsg res" where
  "DepositSuccessMsg_Unmarshal dAtA m = decode ''DepositSuccessMsg'' DepositSuccessMsg_field (\<lambda>m bz. m) dAtA m"

definition DepositSuccessMsg_ok :: "DepositSuccessMsg \<Rightarrow> bool" where
  "DepositSuccessMsg_ok m \<longleftrightarrow> list_all CoinPB_ok (DepositSuccessMsg_DepositCoins m) \<and> list_all CoinPB_ok (DepositSuccessMsg_InputCoins m) \<and> list_all CoinPB_ok (DepositSuccessMsg_OutputCoins m)"

record WithdrawSuccessMsg =
  WithdrawSuccessMsg_MsgHeight :: "64 word"
  WithdrawSuccessMsg_MsgIndex :: "64 word"
  WithdrawSuccessMsg_WithdrawCoins :: "CoinPB list"
  WithdrawSuccessMsg_WithdrawFeeCoins :: "CoinPB list"
  WithdrawSuccessMsg_Msg :: "MsgWithdrawWithinBatchPB option"

definition WithdrawSuccessMsg_zero :: WithdrawSuccessMsg where
  "WithdrawSuccessMsg_zero = \<lparr>WithdrawSuccessMsg_MsgHeight = 0, WithdrawSuccessMsg_MsgIndex = 0, WithdrawSuccessMsg_WithdrawCoins = [], WithdrawSuccessMsg_WithdrawFeeCoins = [], WithdrawSuccessMsg_Msg = None\<rparr>"

definition WithdrawSuccessMsg_Marshal :: "WithdrawSuccessMsg \<Rightarrow> bytes" where
  "WithdrawSuccessMsg_Marshal m =
     put_uint_opt 0x08 (WithdrawSuccessMsg_MsgHeight m)
     (put_uint_opt 0x10 (WithdrawSuccessMsg_MsgIndex m)
     (put_repeated 0x1a (map CoinPB_Marshal (WithdrawSuccessMsg_WithdrawCoins m))
     (put_repeated 0x22 (map CoinPB_Marshal (WithdrawSuccessMsg_WithdrawFeeCoins m))
     (put_msg_opt 0x2a MsgWithdrawWithinBatchPB_Marshal (WithdrawSuccessMsg_Msg m) []))))"

definition WithdrawSuccessMsg_Size :: "WithdrawSuccessMsg \<Rightarrow> nat" where
  "WithdrawSuccessMsg_Size m =
     size_uint_opt (WithdrawSuccessMsg_MsgHeight m) +
     size_uint_opt (WithdrawSuccessMsg_MsgIndex m) +
     sum_list (map (\<lambda>e. size_len (CoinPB_Size e)) (WithdrawSuccessMsg_WithdrawCoins m)) +
     sum_list (map (\<lambda>e. size_len (CoinPB_Size e)) (WithdrawSuccessMsg_WithdrawFeeCoins m)) +
     size_msg_opt MsgWithdrawWithinBatchPB_Size (WithdrawSuccessMsg_Msg m)"

definition WithdrawSuccessMsg_field :: "WithdrawSuccessMsg \<Rightarrow> int \<Rightarrow> 64 word \<Rightarrow> bytes \<Rightarrow> nat \<Rightarrow> (WithdrawSuccessMsg \<times> nat) res option" where
  "WithdrawSuccessMsg_field m fieldNum wireType dAtA i =
     (if fieldNum = 1 then uint_case ''MsgHeight'' wireType dAtA i (\<lambda>v. m\<lparr>WithdrawSuccessMsg_MsgHeight := v\<rparr>)
      else if fieldNum = 2 then uint_case ''MsgIndex'' wireType dAtA i (\<lambda>v. m\<lparr>WithdrawSuccessMsg_MsgIndex := v\<rparr>)
      else if fieldNum = 3 then msg_case ''WithdrawCoins'' wireType dAtA i (\<lambda>b. CoinPB_Unmarshal b CoinPB_zero) (\<lambda>n. m\<lparr>WithdrawSuccessMsg_WithdrawCoins := WithdrawSuccessMsg_WithdrawCoins m @ [n]\<rparr>)
      else if fieldNum = 4 then msg_case ''WithdrawFeeCoins'' wireType dAtA i (\<lambda>b. CoinPB_Unmarshal b CoinPB_zero) (\<lambda>n. m\<lparr>WithdrawSuccessMsg_WithdrawFeeCoins := WithdrawSuccessMsg_WithdrawFeeCoins m @ [n]\<rparr>)
      else if fieldNum = 5 then ptr_case ''Msg'' wireType dAtA i MsgWithdrawWithinBatchPB_Unmarshal MsgWithdrawWithinBatchPB_zero (WithdrawSuccessMsg_Msg m) (\<lambda>p. m\<lparr>WithdrawSuccessMsg_Msg := p\<rparr>)
      else None)"

definition WithdrawSuccessMsg_Unmarshal :: "bytes \<Rightarrow> WithdrawSuccessMsg \<Rightarrow> WithdrawSuccessMsg res" where
  "WithdrawSuccessMsg_Unmarshal dAtA m = decode ''WithdrawSuccessMsg'' WithdrawSuccessMsg_field (\<lambda>m bz. m) dAtA m"

definition WithdrawSuccessMsg_ok :: "WithdrawSuccessMsg \<Rightarrow> bool" where
  "WithdrawSuccessMsg_ok m \<longleftrightarrow> list_all CoinPB_ok (WithdrawSuccessMsg_WithdrawCoins m) \<and> list_all CoinPB_ok (WithdrawSuccessMsg_WithdrawFeeCoins m) \<and> (case (WithdrawSuccessMsg_Msg m) of None \<Rightarrow> True | Some n \<Rightarrow> MsgWithdrawWithinBatchPB_ok n)"

section \<open>Sizes and round trips\<close>

lemma CoinPB_Size_length [wire_size]: "CoinPB_Size = (\<lambda>m. length (CoinPB_Marshal m))"
  by (rule ext) (simp add: CoinPB_Size_def CoinPB_Marshal_def wire_length wire_size comp_def)

lemma CoinPB_roundtrip [wire_msg]:
  assumes "CoinPB_ok m" "length (CoinPB_Marshal m) < 2 ^ 63"
  shows "CoinPB_Unmarshal (CoinPB_Marshal m) CoinPB_zero = Inr m"
  unfolding CoinPB_Unmarshal_def
  by (rule readsTo_decode [OF assms(2)], unfold CoinPB_Marshal_def CoinPB_zero_def)
    ((rule reads, rule wire_tags, simp add: CoinPB_field_def, use assms in \<open>simp add: wire_msg CoinPB_ok_def list_all_iff split: option.splits\<close>)+, rule readsTo_Nil, simp)

lemma PageRequest_Size_length [wire_size]: "PageRequest_Size = (\<lambda>m. length (PageRequest_Marshal m))"
  by (rule ext) (simp add: PageRequest_Size_def PageRequest_Marshal_def wire_length wire_size comp_def)

lemma PageRequest_roundtrip [wire_msg]:
  assumes "length (PageRequest_Marshal m) < 2 ^ 63"
  shows "PageRequest_Unmarshal (PageRequest_Marshal m) PageRequest_zero = Inr m"
  unfolding PageRequest_Unmarshal_def
  by (rule readsTo_decode [OF assms], unfold PageRequest_Marshal_def PageRequest_zero_def)
    ((rule reads, rule wire_tags, simp add: PageRequest_field_def, simp add: wire_msg split: option.split)+, rule readsTo_Nil, simp)

lemma PageResponse_Size_length [wire_size]: "PageResponse_Size = (\<lambda>m. length (PageResponse_Marshal m))"
  by (rule ext) (simp add: PageResponse_Size_def PageResponse_Marshal_def wire_length wire_size comp_def)

lemma PageResponse_roundtrip [wire_msg]:
  assumes "length (PageResponse_Marshal m) < 2 ^ 63"
  shows "PageResponse_Unmarshal (PageResponse_Marshal m) PageResponse_zero = Inr m"
  unfolding PageResponse_Unmarshal_def
  by (rule readsTo_decode [OF assms], unfold PageResponse_Marshal_def PageResponse_zero_def)
    ((rule reads, rule wire_tags, simp add: PageResponse_field_def, simp add: wire_msg split: option.split)+, rule readsTo_Nil, simp)

lemma foldl_MsgDepositWithinBatchPB_DepositCoins [simp]: "foldl (\<lambda>m n. m\<lparr>MsgDepositWithinBatchPB_DepositCoins := MsgDepositWithinBatchPB_DepositCoins m @ [n]\<rparr>) m ns = m\<lparr>MsgDepositWithinBatchPB_DepositCoins := MsgDepositWithinBatchPB_DepositCoins m @ ns\<rparr>"
  by (induction ns arbitrary: m) simp_all

lemma MsgDepositWithinBatchPB_Size_length [wire_size]: "MsgDepositWithinBatchPB_Size = (\<lambda>m. length (MsgDepositWithinBatchPB_Marshal m))"
  by (rule ext) (simp add: MsgDepositWithinBatchPB_Size_def MsgDepositWithinBatchPB_Marshal_def wire_length wire_size comp_def)

lemma MsgDepositWithinBatchPB_roundtrip [wire_msg]:
  assumes "MsgDepositWithinBatchPB_ok m" "length (MsgDepositWithinBatchPB_Marshal m) < 2 ^ 63"
  shows "MsgDepositWithinBatchPB_Unmarshal (MsgDepositWithinBatchPB_Marshal m) MsgDepositWithinBatchPB_zero = Inr m"
  unfolding MsgDepositWithinBatchPB_Unmarshal_def
  by (rule readsTo_decode [OF assms(2)], unfold MsgDepositWithinBatchPB_Marshal_def MsgDepositWithinBatchPB_zero_def)
    ((rule reads, rule wire_tags, simp add: MsgDepositWithinBatchPB_field_def, use assms in \<open>simp add: wire_msg MsgDepositWithinBatchPB_ok_def list_all_iff split: option.splits\<close>)+, rule readsTo_Nil, simp)

lemma MsgWithdrawWithinBatchPB_Size_length [wire_size]: "MsgWithdrawWithinBatchPB_Size = (\<lambda>m. length (MsgWithdrawWithinBatchPB_Marshal m))"
  by (rule ext) (simp add: MsgWithdrawWithinBatchPB_Size_def MsgWithdrawWithinBatchPB_Marshal_def wire_length wire_size comp_def)

lemma MsgWithdrawWithinBatchPB_roundtrip [wire_msg]:
  assumes "MsgWithdrawWithinBatchPB_ok m" "length (MsgWithdrawWithinBatchPB_Marshal m) < 2 ^ 63"
  shows "MsgWithdrawWithinBatchPB_Unmarshal (MsgWithdrawWithinBatchPB_Marshal m) MsgWithdrawWithinBatchPB_zero = Inr m"
  unfolding MsgWithdrawWithinBatchPB_Unmarshal_def
  by (rule readsTo_decode [OF assms(2)], unfold MsgWithdrawWithinBatchPB_Marshal_def MsgWithdrawWithinBatchPB_zero_def)
    ((rule reads, rule wire_tags, simp add: MsgWithdrawWithinBatchPB_field_def, use assms in \<open>simp add: wire_msg MsgWithdrawWithinBatchPB_ok_def list_all_iff split: option.splits\<close>)+, rule readsTo_Nil, simp)

lemma MsgSwapWithinBatchPB_Size_length [wire_size]: "MsgSwapWithinBatchPB_Size = (\<lambda>m. length (MsgSwapWithinBatchPB_Marshal m))"
  by (rule ext) (simp add: MsgSwapWithinBatchPB_Size_def MsgSwapWithinBatchPB_Marshal_def wire_length wire_size comp_def)

lemma MsgSwapWithinBatchPB_roundtrip [wire_msg]:
  assumes "MsgSwapWithinBatchPB_ok m" "length (MsgSwapWithinBatchPB_Marshal m) < 2 ^ 63"
  shows "MsgSwapWithinBatchPB_Unmarshal (MsgSwapWithinBatchPB_Marshal m) MsgSwapWithinBatchPB_zero = Inr m"
  unfolding MsgSwapWithinBatchPB_Unmarshal_def
  by (rule readsTo_decode [OF assms(2)], unfold MsgSwapWithinBatchPB_Marshal_def MsgSwapWithinBatchPB_zero_def)
    ((rule reads, rule wire_tags, simp add: MsgSwapWithinBatchPB_field_def, use assms in \<open>simp add: wire_msg MsgSwapWithinBatchPB_ok_def list_all_iff split: option.splits\<close>)+, rule readsTo_Nil, simp)

lemma PoolType_Size_length [wire_size]: "PoolType_Size = (\<lambda>m. length (PoolType_Marshal m))"
  by (rule ext) (simp add: PoolType_Size_def PoolType_Marshal_def wire_length wire_size comp_def)

lemma PoolType_roundtrip [wire_msg]:
  assumes "length (PoolType_Marshal m) < 2 ^ 63"
  shows "PoolType_Unmarshal (PoolType_Marshal m) PoolType_zero = Inr m"
  unfolding PoolType_Unmarshal_def
  by (rule readsTo_decode [OF assms], unfold PoolType_Marshal_def PoolType_zero_def)
    ((rule reads, rule wire_tags, simp add: PoolType_field_def, simp add: wire_msg split: option.split)+, rule readsTo_Nil, simp)

lemma foldl_SwapParams_PoolTypes [simp]: "foldl (\<lambda>m n. m\<lparr>SwapParams_PoolTypes := SwapParams_PoolTypes m @ [n]\<rparr>) m ns = m\<lparr>SwapParams_PoolTypes := SwapParams_PoolTypes m @ ns\<rparr>"
  by (induction ns arbitrary: m) simp_all

lemma foldl_SwapParams_PoolCreationFee [simp]: "foldl (\<lambda>m n. m\<lparr>SwapParams_PoolCreationFee := SwapParams_PoolCreationFee m @ [n]\<rparr>) m ns = m\<lparr>SwapParams_PoolCreationFee := SwapParams_PoolCreationFee m @ ns\<rparr>"
  by (induction ns arbitrary: m) simp_all

lemma SwapParams_Size_length [wire_size]: "SwapParams_Size = (\<lambda>m. length (SwapParams_Marshal m))"
  by (rule ext) (simp add: SwapParams_Size_def SwapParams_Marshal_def wire_length wire_size comp_def)

lemma SwapParams_roundtrip [wire_msg]:
  assumes "SwapParams_ok m" "length (SwapParams_Marshal m) < 2 ^ 63"
  shows "SwapParams_Unmarshal (SwapParams_Marshal m) SwapParams_zero = Inr m"
  unfolding SwapParams_Unmarshal_def
  by (rule readsTo_decode [OF assms(2)], unfold SwapParams_Marshal_def SwapParams_zero_def)
    ((rule reads, rule wire_tags, simp add: SwapParams_field_def, use assms in \<open>simp add: wire_msg SwapParams_ok_def list_all_iff split: option.splits\<close>)+, rule readsTo_Nil, simp)

lemma foldl_SwapPool_ReserveCoinDenoms [simp]: "foldl (\<lambda>m n. m\<lparr>SwapPool_ReserveCoinDenoms := SwapPool_ReserveCoinDenoms m @ [n]\<rparr>) m ns = m\<lparr>SwapPool_ReserveCoinDenoms := SwapPool_ReserveCoinDenoms m @ ns\<rparr>"
  by (induction ns arbitrary: m) simp_all

lemma SwapPool_Size_length [wire_size]: "SwapPool_Size = (\<lambda>m. length (SwapPool_Marshal m))"
  by (rule ext) (simp add: SwapPool_Size_def SwapPool_Marshal_def wire_length wire_size comp_def)

lemma SwapPool_roundtrip [wire_msg]:
  assumes "length (SwapPool_Marshal m) < 2 ^ 63"
  shows "SwapPool_Unmarshal (SwapPool_Marshal m) SwapPool_zero = Inr m"
  unfolding SwapPool_Unmarshal_def
  by (rule readsTo_decode [OF assms], unfold SwapPool_Marshal_def SwapPool_zero_def)
    ((rule reads, rule wire_tags, simp add: SwapPool_field_def, simp add: wire_msg split: option.split)+, rule readsTo_Nil, simp)

lemma PoolBatch_Size_length [wire_size]: "PoolBatch_Size = (\<lambda>m. length (PoolBatch_Marshal m))"
  by (rule ext) (simp add: PoolBatch_Size_def PoolBatch_Marshal_def wire_length wire_size comp_def)

lemma PoolBatch_roundtrip [wire_msg]:
  assumes "length (PoolBatch_Marshal m) < 2 ^ 63"
  shows "PoolBatch_Unmarshal (PoolBatch_Marshal m) PoolBatch_zero = Inr m"
  unfolding PoolBatch_Unmarshal_def
  by (rule readsTo_decode [OF assms], unfold PoolBatch_Marshal_def PoolBatch_zero_def)
    ((rule reads, rule wire_tags, simp add: PoolBatch_field_def, simp add: wire_msg split: option.split)+, rule readsTo_Nil, simp)

lemma DepositMsgState_Size_length [wire_size]: "DepositMsgState_Size = (\<lambda>m. length (DepositMsgState_Marshal m))"
  by (rule ext) (simp add: DepositMsgState_Size_def DepositMsgState_Marshal_def wire_length wire_size comp_def)

lemma DepositMsgState_roundtrip [wire_msg]:
  assumes "DepositMsgState_ok m" "length (DepositMsgState_Marshal m) < 2 ^ 63"
  shows "DepositMsgState_Unmarshal (DepositMsgState_Marshal m) DepositMsgState_zero = Inr m"
  unfolding DepositMsgState_Unmarshal_def
  by (rule readsTo_decode [OF assms(2)], unfold DepositMsgState_Marshal_def DepositMsgState_zero_def)
    ((rule reads, rule wire_tags, simp add: DepositMsgState_field_def, use assms in \<open>simp add: wire_msg DepositMsgState_ok_def list_all_iff split: option.splits\<close>)+, rule readsTo_Nil, simp)

lemma WithdrawMsgState_Size_length [wire_size]: "WithdrawMsgState_Size = (\<lambda>m. length (WithdrawMsgState_Marshal m))"
  by (rule ext) (simp add: WithdrawMsgState_Size_def WithdrawMsgState_Marshal_def wire_length wire_size comp_def)

lemma WithdrawMsgState_roundtrip [wire_msg]:
  assumes "WithdrawMsgState_ok m" "length (WithdrawMsgState_Marshal m) < 2 ^ 63"
  shows "WithdrawMsgState_Unmarshal (WithdrawMsgState_Marshal m) WithdrawMsgState_zero = Inr m"
  unfolding WithdrawMsgState_Unmarshal_def
  by (rule readsTo_decode [OF assms(2)], unfold WithdrawMsgState_Marshal_def WithdrawMsgState_zero_def)
    ((rule reads, rule wire_tags, simp add: WithdrawMsgState_field_def, use assms in \<open>simp add: wire_msg WithdrawMsgState_ok_def list_all_iff split: option.splits\<close>)+, rule readsTo_Nil, simp)

lemma SwapMsgState_Size_length [wire_size]: "SwapMsgState_Size = (\<lambda>m. length (SwapMsgState_Marshal m))"
  by (rule ext) (simp add: SwapMsgState_Size_def SwapMsgState_Marshal_def wire_length wire_size comp_def)

lemma SwapMsgState_roundtrip [wire_msg]:
  assumes "SwapMsgState_ok m" "length (SwapMsgState_Marshal m) < 2 ^ 63"
  shows "SwapMsgState_Unmarshal (SwapMsgState_Marshal m) SwapMsgState_zero = Inr m"
  unfolding SwapMsgState_Unmarshal_def
  by (rule readsTo_decode [OF assms(2)], unfold SwapMsgState_Marshal_def SwapMsgState_zero_def)
    ((rule reads, rule wire_tags, simp add: SwapMsgState_field_def, use assms in \<open>simp add: wire_msg SwapMsgState_ok_def list_all_iff split: option.splits\<close>)+, rule readsTo_Nil, simp)

lemma SwapSuccessMsg_Size_length [wire_size]: "SwapSuccessMsg_Size = (\<lambda>m. length (SwapSuccessMsg_Marshal m))"
  by (rule ext) (simp add: SwapSuccessMsg_Size_def SwapSuccessMsg_Marshal_def wire_length wire_size comp_def)

lemma SwapSuccessMsg_roundtrip [wire_msg]:
  assumes "SwapSuccessMsg_ok m" "length (SwapSuccessMsg_Marshal m) < 2 ^ 63"
  shows "SwapSuccessMsg_Unmarshal (SwapSuccessMsg_Marshal m) SwapSuccessMsg_zero = Inr m"
  unfolding SwapSuccessMsg_Unmarshal_def
  by (rule readsTo_decode [OF assms(2)], unfold SwapSuccessMsg_Marshal_def SwapSuccessMsg_zero_def)
    ((rule reads, rule wire_tags, simp add: SwapSuccessMsg_field_def, use assms in \<open>simp add: wire_msg SwapSuccessMsg_ok_def list_all_iff split: option.splits\<close>)+, rule readsTo_Nil, simp)

lemma foldl_DepositSuccessMsg_DepositCoins [simp]: "foldl (\<lambda>m n. m\<lparr>DepositSuccessMsg_DepositCoins := DepositSuccessMsg_DepositCoins m @ [n]\<rparr>) m ns = m\<lparr>DepositSuccessMsg_DepositCoins := DepositSuccessMsg_DepositCoins m @ ns\<rparr>"
  by (induction ns arbitrary: m) simp_all

lemma foldl_DepositSuccessMsg_InputCoins [simp]: "foldl (\<lambda>m n. m\<lparr>DepositSuccessMsg_InputCoins := DepositSuccessMsg_InputCoins m @ [n]\<rparr>) m ns = m\<lparr>DepositSuccessMsg_InputCoins := DepositSuccessMsg_InputCoins m @ ns\<rparr>"
  by (induction ns arbitrary: m) simp_all

lemma foldl_DepositSuccessMsg_OutputCoins [simp]: "foldl (\<lambda>m n. m\<lparr>DepositSuccessMsg_OutputCoins := DepositSuccessMsg_OutputCoins m @ [n]\<rparr>) m ns = m\<lparr>DepositSuccessMsg_OutputCoins := DepositSuccessMsg_OutputCoins m @ ns\<rparr>"
  by (induction ns arbitrary: m) simp_all

lemma DepositSuccessMsg_Size_length [wire_size]: "DepositSuccessMsg_Size = (\<lambda>m. length (DepositSuccessMsg_Marshal m))"
  by (rule ext) (simp add: DepositSuccessMsg_Size_def DepositSuccessMsg_Marshal_def wire_length wire_size comp_def)

lemma DepositSuccessMsg_roundtrip [wire_msg]:
  assumes "DepositSuccessMsg_ok m" "length (DepositSuccessMsg_Marshal m) < 2 ^ 63"
  shows "DepositSuccessMsg_Unmarshal (DepositSuccessMsg_Marshal m) DepositSuccessMsg_zero = Inr m"
  unfolding DepositSuccessMsg_Unmarshal_def
  by (rule readsTo_decode [OF assms(2)], unfold DepositSuccessMsg_Marshal_def DepositSuccessMsg_zero_def)
    ((rule reads, rule wire_tags, simp add: DepositSuccessMsg_field_def, use assms in \<open>simp add: wire_msg DepositSuccessMsg_ok_def list_all_iff split: option.splits\<close>)+, rule readsTo_Nil, simp)

lemma foldl_WithdrawSuccessMsg_WithdrawCoins [simp]: "foldl (\<lambda>m n. m\<lparr>WithdrawSuccessMsg_WithdrawCoins := WithdrawSuccessMsg_WithdrawCoins m @ [n]\<rparr>) m ns = m\<lparr>WithdrawSuccessMsg_WithdrawCoins := WithdrawSuccessMsg_WithdrawCoins m @ ns\<rparr>"
  by (induction ns arbitrary: m) simp_all

lemma foldl_WithdrawSuccessMsg_WithdrawFeeCoins [simp]: "foldl (\<lambda>m n. m\<lparr>WithdrawSuccessMsg_WithdrawFeeCoins := WithdrawSuccessMsg_WithdrawFeeCoins m @ [n]\<rparr>) m ns = m\<lparr>WithdrawSuccessMsg_WithdrawFeeCoins := WithdrawSuccessMsg_WithdrawFeeCoins m @ ns\<rparr>"
  by (induction ns arbitrary: m) simp_all

lemma WithdrawSuccessMsg_Size_length [wire_size]: "WithdrawSuccessMsg_Size = (\<lambda>m. length (WithdrawSuccessMsg_Marshal m))"
  by (rule ext) (simp add: WithdrawSuccessMsg_Size_def WithdrawSuccessMsg_Marshal_def wire_length wire_size comp_def)

lemma WithdrawSuccessMsg_roundtrip [wire_msg]:
  assumes "WithdrawSuccessMsg_ok m" "length (WithdrawSuccessMsg_Marshal m) < 2 ^ 63"
  shows "WithdrawSuccessMsg_Unmarshal (WithdrawSuccessMsg_Marshal m) WithdrawSuccessMsg_zero = Inr m"
  unfolding WithdrawSuccessMsg_Unmarshal_def
  by (rule readsTo_decode [OF assms(2)], unfold WithdrawSuccessMsg_Marshal_def WithdrawSuccessMsg_zero_def)
    ((rule reads, rule wire_tags, simp add: WithdrawSuccessMsg_field_def, use assms in \<open>simp add: wire_msg WithdrawSuccessMsg_ok_def list_all_iff split: option.splits\<close>)+, rule readsTo_Nil, simp)

end
