(* ===== verification/CoinswapQuery.thy ===== *)
theory CoinswapQuery
  imports QueryTypes
begin

text \<open>
  The requests and responses of the liquidity queries (\<open>modules/coinswap/query.pd.go\<close>): data, \<open>Marshal\<close>, \<open>Size\<close> and
  \<open>Unmarshal\<close> of each, with the correctness of the sizes and the round trips.
\<close>

section \<open>The messages\<close>

record QueryPoolWithdrawSuccessMsgsRequest =
  QueryPoolWithdrawSuccessMsgsRequest_PoolId :: "64 word"
  QueryPoolWithdrawSuccessMsgsRequest_WithdrawAddress :: string
  QueryPoolWithdrawSuccessMsgsRequest_Pagination :: "PageRequest option"

definition QueryPoolWithdrawSuccessMsgsRequest_zero :: QueryPoolWithdrawSuccessMsgsRequest where
  "QueryPoolWithdrawSuccessMsgsRequest_zero = \<lparr>QueryPoolWithdrawSuccessMsgsRequest_PoolId = 0, QueryPoolWithdrawSuccessMsgsRequest_WithdrawAddress = '''', QueryPoolWithdrawSuccessMsgsRequest_Pagination = None\<rparr>"

definition QueryPoolWithdrawSuccessMsgsRequest_Marshal :: "QueryPoolWithdrawSuccessMsgsRequest \<Rightarrow> bytes" where
  "QueryPoolWithdrawSuccessMsgsRequest_Marshal m =
     put_uint_opt 0x08 (QueryPoolWithdrawSuccessMsgsRequest_PoolId m)
     (put_bytes_opt 0x12 (str_to_bytes (QueryPoolWithdrawSuccessMsgsRequest_WithdrawAddress m))
     (put_msg_opt 0x1a PageRequest_Marshal (QueryPoolWithdrawSuccessMsgsRequest_Pagination m) []))"

definition QueryPoolWithdrawSuccessMsgsRequest_Size :: "QueryPoolWithdrawSuccessMsgsRequest \<Rightarrow> nat" where
  "QueryPoolWithdrawSuccessMsgsRequest_Size m =
     size_uint_opt (QueryPoolWithdrawSuccessMsgsRequest_PoolId m) +
     size_len_opt (length (QueryPoolWithdrawSuccessMsgsRequest_WithdrawAddress m)) +
     size_msg_opt PageRequest_Size (QueryPoolWithdrawSuccessMsgsRequest_Pagination m)"

definition QueryPoolWithdrawSuccessMsgsRequest_field :: "QueryPoolWithdrawSuccessMsgsRequest \<Rightarrow> int \<Rightarrow> 64 word \<Rightarrow> bytes \<Rightarrow> nat \<Rightarrow> (QueryPoolWithdrawSuccessMsgsRequest \<times> nat) res option" where
  "QueryPoolWithdrawSuccessMsgsRequest_field m fieldNum wireType dAtA i =
     (if fieldNum = 1 then uint_case ''PoolId'' wireType dAtA i (\<lambda>v. m\<lparr>QueryPoolWithdrawSuccessMsgsRequest_PoolId := v\<rparr>)
      else if fieldNum = 2 then string_case ''WithdrawAddress'' wireType dAtA i (\<lambda>s. m\<lparr>QueryPoolWithdrawSuccessMsgsRequest_WithdrawAddress := s\<rparr>)
      else if fieldNum = 3 then ptr_case ''Pagination'' wireType dAtA i PageRequest_Unmarshal PageRequest_zero (QueryPoolWithdrawSuccessMsgsRequest_Pagination m) (\<lambda>p. m\<lparr>QueryPoolWithdrawSuccessMsgsRequest_Pagination := p\<rparr>)
      else None)"

definition QueryPoolWithdrawSuccessMsgsRequest_Unmarshal :: "bytes \<Rightarrow> QueryPoolWithdrawSuccessMsgsRequest \<Rightarrow> QueryPoolWithdrawSuccessMsgsRequest res" where
  "QueryPoolWithdrawSuccessMsgsRequest_Unmarshal dAtA m = decode ''QueryPoolWithdrawSuccessMsgsRequest'' QueryPoolWithdrawSuccessMsgsRequest_field (\<lambda>m bz. m) dAtA m"

record QueryPoolWithdrawSuccessMsgRequest =
  QueryPoolWithdrawSuccessMsgRequest_PoolId :: "64 word"
  QueryPoolWithdrawSuccessMsgRequest_MsgIndex :: "64 word"

definition QueryPoolWithdrawSuccessMsgRequest_zero :: QueryPoolWithdrawSuccessMsgRequest where
  "QueryPoolWithdrawSuccessMsgRequest_zero = \<lparr>QueryPoolWithdrawSuccessMsgRequest_PoolId = 0, QueryPoolWithdrawSuccessMsgRequest_MsgIndex = 0\<rparr>"

definition QueryPoolWithdrawSuccessMsgRequest_Marshal :: "QueryPoolWithdrawSuccessMsgRequest \<Rightarrow> bytes" where
  "QueryPoolWithdrawSuccessMsgRequest_Marshal m =
     put_uint_opt 0x08 (QueryPoolWithdrawSuccessMsgRequest_PoolId m)
     (put_uint_opt 0x10 (QueryPoolWithdrawSuccessMsgRequest_MsgIndex m) [])"

definition QueryPoolWithdrawSuccessMsgRequest_Size :: "QueryPoolWithdrawSuccessMsgRequest \<Rightarrow> nat" where
  "QueryPoolWithdrawSuccessMsgRequest_Size m =
     size_uint_opt (QueryPoolWithdrawSuccessMsgRequest_PoolId m) +
     size_uint_opt (QueryPoolWithdrawSuccessMsgRequest_MsgIndex m)"

definition QueryPoolWithdrawSuccessMsgRequest_field :: "QueryPoolWithdrawSuccessMsgRequest \<Rightarrow> int \<Rightarrow> 64 word \<Rightarrow> bytes \<Rightarrow> nat \<Rightarrow> (QueryPoolWithdrawSuccessMsgRequest \<times> nat) res option" where
  "QueryPoolWithdrawSuccessMsgRequest_field m fieldNum wireType dAtA i =
     (if fieldNum = 1 then uint_case ''PoolId'' wireType dAtA i (\<lambda>v. m\<lparr>QueryPoolWithdrawSuccessMsgRequest_PoolId := v\<rparr>)
      else if fieldNum = 2 then uint_case ''MsgIndex'' wireType dAtA i (\<lambda>v. m\<lparr>QueryPoolWithdrawSuccessMsgRequest_MsgIndex := v\<rparr>)
      else None)"

definition QueryPoolWithdrawSuccessMsgRequest_Unmarshal :: "bytes \<Rightarrow> QueryPoolWithdrawSuccessMsgRequest \<Rightarrow> QueryPoolWithdrawSuccessMsgRequest res" where
  "QueryPoolWithdrawSuccessMsgRequest_Unmarshal dAtA m = decode ''QueryPoolWithdrawSuccessMsgRequest'' QueryPoolWithdrawSuccessMsgRequest_field (\<lambda>m bz. m) dAtA m"

record QueryPoolWithdrawSuccessMsgsResponse =
  QueryPoolWithdrawSuccessMsgsResponse_Withdraws :: "WithdrawSuccessMsg list"
  QueryPoolWithdrawSuccessMsgsResponse_Pagination :: "PageResponse option"

definition QueryPoolWithdrawSuccessMsgsResponse_zero :: QueryPoolWithdrawSuccessMsgsResponse where
  "QueryPoolWithdrawSuccessMsgsResponse_zero = \<lparr>QueryPoolWithdrawSuccessMsgsResponse_Withdraws = [], QueryPoolWithdrawSuccessMsgsResponse_Pagination = None\<rparr>"

definition QueryPoolWithdrawSuccessMsgsResponse_Marshal :: "QueryPoolWithdrawSuccessMsgsResponse \<Rightarrow> bytes" where
  "QueryPoolWithdrawSuccessMsgsResponse_Marshal m =
     put_repeated 0x0a (map WithdrawSuccessMsg_Marshal (QueryPoolWithdrawSuccessMsgsResponse_Withdraws m))
     (put_msg_opt 0x12 PageResponse_Marshal (QueryPoolWithdrawSuccessMsgsResponse_Pagination m) [])"

definition QueryPoolWithdrawSuccessMsgsResponse_Size :: "QueryPoolWithdrawSuccessMsgsResponse \<Rightarrow> nat" where
  "QueryPoolWithdrawSuccessMsgsResponse_Size m =
     sum_list (map (\<lambda>e. size_len (WithdrawSuccessMsg_Size e)) (QueryPoolWithdrawSuccessMsgsResponse_Withdraws m)) +
     size_msg_opt PageResponse_Size (QueryPoolWithdrawSuccessMsgsResponse_Pagination m)"

definition QueryPoolWithdrawSuccessMsgsResponse_field :: "QueryPoolWithdrawSuccessMsgsResponse \<Rightarrow> int \<Rightarrow> 64 word \<Rightarrow> bytes \<Rightarrow> nat \<Rightarrow> (QueryPoolWithdrawSuccessMsgsResponse \<times> nat) res option" where
  "QueryPoolWithdrawSuccessMsgsResponse_field m fieldNum wireType dAtA i =
     (if fieldNum = 1 then msg_case ''Withdraws'' wireType dAtA i (\<lambda>b. WithdrawSuccessMsg_Unmarshal b WithdrawSuccessMsg_zero) (\<lambda>n. m\<lparr>QueryPoolWithdrawSuccessMsgsResponse_Withdraws := QueryPoolWithdrawSuccessMsgsResponse_Withdraws m @ [n]\<rparr>)
      else if fieldNum = 2 then ptr_case ''Pagination'' wireType dAtA i PageResponse_Unmarshal PageResponse_zero (QueryPoolWithdrawSuccessMsgsResponse_Pagination m) (\<lambda>p. m\<lparr>QueryPoolWithdrawSuccessMsgsResponse_Pagination := p\<rparr>)
      else None)"

definition QueryPoolWithdrawSuccessMsgsResponse_Unmarshal :: "bytes \<Rightarrow> QueryPoolWithdrawSuccessMsgsResponse \<Rightarrow> QueryPoolWithdrawSuccessMsgsResponse res" where
  "QueryPoolWithdrawSuccessMsgsResponse_Unmarshal dAtA m = decode ''QueryPoolWithdrawSuccessMsgsResponse'' QueryPoolWithdrawSuccessMsgsResponse_field (\<lambda>m bz. m) dAtA m"

definition QueryPoolWithdrawSuccessMsgsResponse_ok :: "QueryPoolWithdrawSuccessMsgsResponse \<Rightarrow> bool" where
  "QueryPoolWithdrawSuccessMsgsResponse_ok m \<longleftrightarrow> list_all WithdrawSuccessMsg_ok (QueryPoolWithdrawSuccessMsgsResponse_Withdraws m)"

record QueryPoolWithdrawSuccessMsgResponse =
  QueryPoolWithdrawSuccessMsgResponse_Withdraw :: WithdrawSuccessMsg

definition QueryPoolWithdrawSuccessMsgResponse_zero :: QueryPoolWithdrawSuccessMsgResponse where
  "QueryPoolWithdrawSuccessMsgResponse_zero = \<lparr>QueryPoolWithdrawSuccessMsgResponse_Withdraw = WithdrawSuccessMsg_zero\<rparr>"

definition QueryPoolWithdrawSuccessMsgResponse_Marshal :: "QueryPoolWithdrawSuccessMsgResponse \<Rightarrow> bytes" where
  "QueryPoolWithdrawSuccessMsgResponse_Marshal m =
     put_bytes 0x0a (WithdrawSuccessMsg_Marshal (QueryPoolWithdrawSuccessMsgResponse_Withdraw m)) []"

definition QueryPoolWithdrawSuccessMsgResponse_Size :: "QueryPoolWithdrawSuccessMsgResponse \<Rightarrow> nat" where
  "QueryPoolWithdrawSuccessMsgResponse_Size m =
     size_len (WithdrawSuccessMsg_Size (QueryPoolWithdrawSuccessMsgResponse_Withdraw m))"

definition QueryPoolWithdrawSuccessMsgResponse_field :: "QueryPoolWithdrawSuccessMsgResponse \<Rightarrow> int \<Rightarrow> 64 word \<Rightarrow> bytes \<Rightarrow> nat \<Rightarrow> (QueryPoolWithdrawSuccessMsgResponse \<times> nat) res option" where
  "QueryPoolWithdrawSuccessMsgResponse_field m fieldNum wireType dAtA i =
     (if fieldNum = 1 then msg_case ''Withdraw'' wireType dAtA i (\<lambda>b. WithdrawSuccessMsg_Unmarshal b (QueryPoolWithdrawSuccessMsgResponse_Withdraw m)) (\<lambda>n. m\<lparr>QueryPoolWithdrawSuccessMsgResponse_Withdraw := n\<rparr>)
      else None)"

definition QueryPoolWithdrawSuccessMsgResponse_Unmarshal :: "bytes \<Rightarrow> QueryPoolWithdrawSuccessMsgResponse \<Rightarrow> QueryPoolWithdrawSuccessMsgResponse res" where
  "QueryPoolWithdrawSuccessMsgResponse_Unmarshal dAtA m = decode ''QueryPoolWithdrawSuccessMsgResponse'' QueryPoolWithdrawSuccessMsgResponse_field (\<lambda>m bz. m) dAtA m"

definition QueryPoolWithdrawSuccessMsgResponse_ok :: "QueryPoolWithdrawSuccessMsgResponse \<Rightarrow> bool" where
  "QueryPoolWithdrawSuccessMsgResponse_ok m \<longleftrightarrow> WithdrawSuccessMsg_ok (QueryPoolWithdrawSuccessMsgResponse_Withdraw m)"

record QueryPoolSwapSuccessMsgsRequest =
  QueryPoolSwapSuccessMsgsRequest_PoolId :: "64 word"
  QueryPoolSwapSuccessMsgsRequest_SwapAddress :: string
  QueryPoolSwapSuccessMsgsRequest_Pagination :: "PageRequest option"

definition QueryPoolSwapSuccessMsgsRequest_zero :: QueryPoolSwapSuccessMsgsRequest where
  "QueryPoolSwapSuccessMsgsRequest_zero = \<lparr>QueryPoolSwapSuccessMsgsRequest_PoolId = 0, QueryPoolSwapSuccessMsgsRequest_SwapAddress = '''', QueryPoolSwapSuccessMsgsRequest_Pagination = None\<rparr>"

definition QueryPoolSwapSuccessMsgsRequest_Marshal :: "QueryPoolSwapSuccessMsgsRequest \<Rightarrow> bytes" where
  "QueryPoolSwapSuccessMsgsRequest_Marshal m =
     put_uint_opt 0x08 (QueryPoolSwapSuccessMsgsRequest_PoolId m)
     (put_bytes_opt 0x12 (str_to_bytes (QueryPoolSwapSuccessMsgsRequest_SwapAddress m))
     (put_msg_opt 0x1a PageRequest_Marshal (QueryPoolSwapSuccessMsgsRequest_Pagination m) []))"

definition QueryPoolSwapSuccessMsgsRequest_Size :: "QueryPoolSwapSuccessMsgsRequest \<Rightarrow> nat" where
  "QueryPoolSwapSuccessMsgsRequest_Size m =
     size_uint_opt (QueryPoolSwapSuccessMsgsRequest_PoolId m) +
     size_len_opt (length (QueryPoolSwapSuccessMsgsRequest_SwapAddress m)) +
     size_msg_opt PageRequest_Size (QueryPoolSwapSuccessMsgsRequest_Pagination m)"

definition QueryPoolSwapSuccessMsgsRequest_field :: "QueryPoolSwapSuccessMsgsRequest \<Rightarrow> int \<Rightarrow> 64 word \<Rightarrow> bytes \<Rightarrow> nat \<Rightarrow> (QueryPoolSwapSuccessMsgsRequest \<times> nat) res option" where
  "QueryPoolSwapSuccessMsgsRequest_field m fieldNum wireType dAtA i =
     (if fieldNum = 1 then uint_case ''PoolId'' wireType dAtA i (\<lambda>v. m\<lparr>QueryPoolSwapSuccessMsgsRequest_PoolId := v\<rparr>)
      else if fieldNum = 2 then string_case ''SwapAddress'' wireType dAtA i (\<lambda>s. m\<lparr>QueryPoolSwapSuccessMsgsRequest_SwapAddress := s\<rparr>)
      else if fieldNum = 3 then ptr_case ''Pagination'' wireType dAtA i PageRequest_Unmarshal PageRequest_zero (QueryPoolSwapSuccessMsgsRequest_Pagination m) (\<lambda>p. m\<lparr>QueryPoolSwapSuccessMsgsRequest_Pagination := p\<rparr>)
      else None)"

definition QueryPoolSwapSuccessMsgsRequest_Unmarshal :: "bytes \<Rightarrow> QueryPoolSwapSuccessMsgsRequest \<Rightarrow> QueryPoolSwapSuccessMsgsRequest res" where
  "QueryPoolSwapSuccessMsgsRequest_Unmarshal dAtA m = decode ''QueryPoolSwapSuccessMsgsRequest'' QueryPoolSwapSuccessMsgsRequest_field (\<lambda>m bz. m) dAtA m"

record QueryPoolSwapSuccessMsgRequest =
  QueryPoolSwapSuccessMsgRequest_PoolId :: "64 word"
  QueryPoolSwapSuccessMsgRequest_MsgIndex :: "64 word"

definition QueryPoolSwapSuccessMsgRequest_zero :: QueryPoolSwapSuccessMsgRequest where
  "QueryPoolSwapSuccessMsgRequest_zero = \<lparr>QueryPoolSwapSuccessMsgRequest_PoolId = 0, QueryPoolSwapSuccessMsgRequest_MsgIndex = 0\<rparr>"

definition QueryPoolSwapSuccessMsgRequest_Marshal :: "QueryPoolSwapSuccessMsgRequest \<Rightarrow> bytes" where
  "QueryPoolSwapSuccessMsgRequest_Marshal m =
     put_uint_opt 0x08 (QueryPoolSwapSuccessMsgRequest_PoolId m)
     (put_uint_opt 0x10 (QueryPoolSwapSuccessMsgRequest_MsgIndex m) [])"

definition QueryPoolSwapSuccessMsgRequest_Size :: "QueryPoolSwapSuccessMsgRequest \<Rightarrow> nat" where
  "QueryPoolSwapSuccessMsgRequest_Size m =
     size_uint_opt (QueryPoolSwapSuccessMsgRequest_PoolId m) +
     size_uint_opt (QueryPoolSwapSuccessMsgRequest_MsgIndex m)"

definition QueryPoolSwapSuccessMsgRequest_field :: "QueryPoolSwapSuccessMsgRequest \<Rightarrow> int \<Rightarrow> 64 word \<Rightarrow> bytes \<Rightarrow> nat \<Rightarrow> (QueryPoolSwapSuccessMsgRequest \<times> nat) res option" where
  "QueryPoolSwapSuccessMsgRequest_field m fieldNum wireType dAtA i =
     (if fieldNum = 1 then uint_case ''PoolId'' wireType dAtA i (\<lambda>v. m\<lparr>QueryPoolSwapSuccessMsgRequest_PoolId := v\<rparr>)
      else if fieldNum = 2 then uint_case ''MsgIndex'' wireType dAtA i (\<lambda>v. m\<lparr>QueryPoolSwapSuccessMsgRequest_MsgIndex := v\<rparr>)
      else None)"

definition QueryPoolSwapSuccessMsgRequest_Unmarshal :: "bytes \<Rightarrow> QueryPoolSwapSuccessMsgRequest \<Rightarrow> QueryPoolSwapSuccessMsgRequest res" where
  "QueryPoolSwapSuccessMsgRequest_Unmarshal dAtA m = decode ''QueryPoolSwapSuccessMsgRequest'' QueryPoolSwapSuccessMsgRequest_field (\<lambda>m bz. m) dAtA m"

record QueryPoolSwapSuccessMsgsResponse =
  QueryPoolSwapSuccessMsgsResponse_Swaps :: "SwapSuccessMsg list"
  QueryPoolSwapSuccessMsgsResponse_Pagination :: "PageResponse option"

definition QueryPoolSwapSuccessMsgsResponse_zero :: QueryPoolSwapSuccessMsgsResponse where
  "QueryPoolSwapSuccessMsgsResponse_zero = \<lparr>QueryPoolSwapSuccessMsgsResponse_Swaps = [], QueryPoolSwapSuccessMsgsResponse_Pagination = None\<rparr>"

definition QueryPoolSwapSuccessMsgsResponse_Marshal :: "QueryPoolSwapSuccessMsgsResponse \<Rightarrow> bytes" where
  "QueryPoolSwapSuccessMsgsResponse_Marshal m =
     put_repeated 0x0a (map SwapSuccessMsg_Marshal (QueryPoolSwapSuccessMsgsResponse_Swaps m))
     (put_msg_opt 0x12 PageResponse_Marshal (QueryPoolSwapSuccessMsgsResponse_Pagination m) [])"

definition QueryPoolSwapSuccessMsgsResponse_Size :: "QueryPoolSwapSuccessMsgsResponse \<Rightarrow> nat" where
  "QueryPoolSwapSuccessMsgsResponse_Size m =
     sum_list (map (\<lambda>e. size_len (SwapSuccessMsg_Size e)) (QueryPoolSwapSuccessMsgsResponse_Swaps m)) +
     size_msg_opt PageResponse_Size (QueryPoolSwapSuccessMsgsResponse_Pagination m)"

definition QueryPoolSwapSuccessMsgsResponse_field :: "QueryPoolSwapSuccessMsgsResponse \<Rightarrow> int \<Rightarrow> 64 word \<Rightarrow> bytes \<Rightarrow> nat \<Rightarrow> (QueryPoolSwapSuccessMsgsResponse \<times> nat) res option" where
  "QueryPoolSwapSuccessMsgsResponse_field m fieldNum wireType dAtA i =
     (if fieldNum = 1 then msg_case ''Swaps'' wireType dAtA i (\<lambda>b. SwapSuccessMsg_Unmarshal b SwapSuccessMsg_zero) (\<lambda>n. m\<lparr>QueryPoolSwapSuccessMsgsResponse_Swaps := QueryPoolSwapSuccessMsgsResponse_Swaps m @ [n]\<rparr>)
      else if fieldNum = 2 then ptr_case ''Pagination'' wireType dAtA i PageResponse_Unmarshal PageResponse_zero (QueryPoolSwapSuccessMsgsResponse_Pagination m) (\<lambda>p. m\<lparr>QueryPoolSwapSuccessMsgsResponse_Pagination := p\<rparr>)
      else None)"

definition QueryPoolSwapSuccessMsgsResponse_Unmarshal :: "bytes \<Rightarrow> QueryPoolSwapSuccessMsgsResponse \<Rightarrow> QueryPoolSwapSuccessMsgsResponse res" where
  "QueryPoolSwapSuccessMsgsResponse_Unmarshal dAtA m = decode ''QueryPoolSwapSuccessMsgsResponse'' QueryPoolSwapSuccessMsgsResponse_field (\<lambda>m bz. m) dAtA m"

definition QueryPoolSwapSuccessMsgsResponse_ok :: "QueryPoolSwapSuccessMsgsResponse \<Rightarrow> bool" where
  "QueryPoolSwapSuccessMsgsResponse_ok m \<longleftrightarrow> list_all SwapSuccessMsg_ok (QueryPoolSwapSuccessMsgsResponse_Swaps m)"

record QueryPoolSwapSuccessMsgResponse =
  QueryPoolSwapSuccessMsgResponse_Swap :: SwapSuccessMsg

definition QueryPoolSwapSuccessMsgResponse_zero :: QueryPoolSwapSuccessMsgResponse where
  "QueryPoolSwapSuccessMsgResponse_zero = \<lparr>QueryPoolSwapSuccessMsgResponse_Swap = SwapSuccessMsg_zero\<rparr>"

definition QueryPoolSwapSuccessMsgResponse_Marshal :: "QueryPoolSwapSuccessMsgResponse \<Rightarrow> bytes" where
  "QueryPoolSwapSuccessMsgResponse_Marshal m =
     put_bytes 0x0a (SwapSuccessMsg_Marshal (QueryPoolSwapSuccessMsgResponse_Swap m)) []"

definition QueryPoolSwapSuccessMsgResponse_Size :: "QueryPoolSwapSuccessMsgResponse \<Rightarrow> nat" where
  "QueryPoolSwapSuccessMsgResponse_Size m =
     size_len (SwapSuccessMsg_Size (QueryPoolSwapSuccessMsgResponse_Swap m))"

definition QueryPoolSwapSuccessMsgResponse_field :: "QueryPoolSwapSuccessMsgResponse \<Rightarrow> int \<Rightarrow> 64 word \<Rightarrow> bytes \<Rightarrow> nat \<Rightarrow> (QueryPoolSwapSuccessMsgResponse \<times> nat) res option" where
  "QueryPoolSwapSuccessMsgResponse_field m fieldNum wireType dAtA i =
     (if fieldNum = 1 then msg_case ''Swap'' wireType dAtA i (\<lambda>b. SwapSuccessMsg_Unmarshal b (QueryPoolSwapSuccessMsgResponse_Swap m)) (\<lambda>n. m\<lparr>QueryPoolSwapSuccessMsgResponse_Swap := n\<rparr>)
      else None)"

definition QueryPoolSwapSuccessMsgResponse_Unmarshal :: "bytes \<Rightarrow> QueryPoolSwapSuccessMsgResponse \<Rightarrow> QueryPoolSwapSuccessMsgResponse res" where
  "QueryPoolSwapSuccessMsgResponse_Unmarshal dAtA m = decode ''QueryPoolSwapSuccessMsgResponse'' QueryPoolSwapSuccessMsgResponse_field (\<lambda>m bz. m) dAtA m"

definition QueryPoolSwapSuccessMsgResponse_ok :: "QueryPoolSwapSuccessMsgResponse \<Rightarrow> bool" where
  "QueryPoolSwapSuccessMsgResponse_ok m \<longleftrightarrow> SwapSuccessMsg_ok (QueryPoolSwapSuccessMsgResponse_Swap m)"

record QueryPoolDepositSuccessMsgsRequest =
  QueryPoolDepositSuccessMsgsRequest_PoolId :: "64 word"
  QueryPoolDepositSuccessMsgsRequest_DepositorAddress :: string
  QueryPoolDepositSuccessMsgsRequest_Pagination :: "PageRequest option"

definition QueryPoolDepositSuccessMsgsRequest_zero :: QueryPoolDepositSuccessMsgsRequest where
  "QueryPoolDepositSuccessMsgsRequest_zero = \<lparr>QueryPoolDepositSuccessMsgsRequest_PoolId = 0, QueryPoolDepositSuccessMsgsRequest_DepositorAddress = '''', QueryPoolDepositSuccessMsgsRequest_Pagination = None\<rparr>"

definition QueryPoolDepositSuccessMsgsRequest_Marshal :: "QueryPoolDepositSuccessMsgsRequest \<Rightarrow> bytes" where
  "QueryPoolDepositSuccessMsgsRequest_Marshal m =
     put_uint_opt 0x08 (QueryPoolDepositSuccessMsgsRequest_PoolId m)
     (put_bytes_opt 0x12 (str_to_bytes (QueryPoolDepositSuccessMsgsRequest_DepositorAddress m))
     (put_msg_opt 0x1a PageRequest_Marshal (QueryPoolDepositSuccessMsgsRequest_Pagination m) []))"

definition QueryPoolDepositSuccessMsgsRequest_Size :: "QueryPoolDepositSuccessMsgsRequest \<Rightarrow> nat" where
  "QueryPoolDepositSuccessMsgsRequest_Size m =
     size_uint_opt (QueryPoolDepositSuccessMsgsRequest_PoolId m) +
     size_len_opt (length (QueryPoolDepositSuccessMsgsRequest_DepositorAddress m)) +
     size_msg_opt PageRequest_Size (QueryPoolDepositSuccessMsgsRequest_Pagination m)"

definition QueryPoolDepositSuccessMsgsRequest_field :: "QueryPoolDepositSuccessMsgsRequest \<Rightarrow> int \<Rightarrow> 64 word \<Rightarrow> bytes \<Rightarrow> nat \<Rightarrow> (QueryPoolDepositSuccessMsgsRequest \<times> nat) res option" where
  "QueryPoolDepositSuccessMsgsRequest_field m fieldNum wireType dAtA i =
     (if fieldNum = 1 then uint_case ''PoolId'' wireType dAtA i (\<lambda>v. m\<lparr>QueryPoolDepositSuccessMsgsRequest_PoolId := v\<rparr>)
      else if fieldNum = 2 then string_case ''DepositorAddress'' wireType dAtA i (\<lambda>s. m\<lparr>QueryPoolDepositSuccessMsgsRequest_DepositorAddress := s\<rparr>)
      else if fieldNum = 3 then ptr_case ''Pagination'' wireType dAtA i PageRequest_Unmarshal PageRequest_zero (QueryPoolDepositSuccessMsgsRequest_Pagination m) (\<lambda>p. m\<lparr>QueryPoolDepositSuccessMsgsRequest_Pagination := p\<rparr>)
      else None)"

definition QueryPoolDepositSuccessMsgsRequest_Unmarshal :: "bytes \<Rightarrow> QueryPoolDepositSuccessMsgsRequest \<Rightarrow> QueryPoolDepositSuccessMsgsRequest res" where
  "QueryPoolDepositSuccessMsgsRequest_Unmarshal dAtA m = decode ''QueryPoolDepositSuccessMsgsRequest'' QueryPoolDepositSuccessMsgsRequest_field (\<lambda>m bz. m) dAtA m"

record QueryPoolDepositSuccessMsgRequest =
  QueryPoolDepositSuccessMsgRequest_PoolId :: "64 word"
  QueryPoolDepositSuccessMsgRequest_MsgIndex :: "64 word"

definition QueryPoolDepositSuccessMsgRequest_zero :: QueryPoolDepositSuccessMsgRequest where
  "QueryPoolDepositSuccessMsgRequest_zero = \<lparr>QueryPoolDepositSuccessMsgRequest_PoolId = 0, QueryPoolDepositSuccessMsgRequest_MsgIndex = 0\<rparr>"

definition QueryPoolDepositSuccessMsgRequest_Marshal :: "QueryPoolDepositSuccessMsgRequest \<Rightarrow> bytes" where
  "QueryPoolDepositSuccessMsgRequest_Marshal m =
     put_uint_opt 0x08 (QueryPoolDepositSuccessMsgRequest_PoolId m)
     (put_uint_opt 0x10 (QueryPoolDepositSuccessMsgRequest_MsgIndex m) [])"

definition QueryPoolDepositSuccessMsgRequest_Size :: "QueryPoolDepositSuccessMsgRequest \<Rightarrow> nat" where
  "QueryPoolDepositSuccessMsgRequest_Size m =
     size_uint_opt (QueryPoolDepositSuccessMsgRequest_PoolId m) +
     size_uint_opt (QueryPoolDepositSuccessMsgRequest_MsgIndex m)"

definition QueryPoolDepositSuccessMsgRequest_field :: "QueryPoolDepositSuccessMsgRequest \<Rightarrow> int \<Rightarrow> 64 word \<Rightarrow> bytes \<Rightarrow> nat \<Rightarrow> (QueryPoolDepositSuccessMsgRequest \<times> nat) res option" where
  "QueryPoolDepositSuccessMsgRequest_field m fieldNum wireType dAtA i =
     (if fieldNum = 1 then uint_case ''PoolId'' wireType dAtA i (\<lambda>v. m\<lparr>QueryPoolDepositSuccessMsgRequest_PoolId := v\<rparr>)
      else if fieldNum = 2 then uint_case ''MsgIndex'' wireType dAtA i (\<lambda>v. m\<lparr>QueryPoolDepositSuccessMsgRequest_MsgIndex := v\<rparr>)
      else None)"

definition QueryPoolDepositSuccessMsgRequest_Unmarshal :: "bytes \<Rightarrow> QueryPoolDepositSuccessMsgRequest \<Rightarrow> QueryPoolDepositSuccessMsgRequest res" where
  "QueryPoolDepositSuccessMsgRequest_Unmarshal dAtA m = decode ''QueryPoolDepositSuccessMsgRequest'' QueryPoolDepositSuccessMsgRequest_field (\<lambda>m bz. m) dAtA m"

record QueryPoolDepositSuccessMsgsResponse =
  QueryPoolDepositSuccessMsgsResponse_Deposits :: "DepositSuccessMsg list"
  QueryPoolDepositSuccessMsgsResponse_Pagination :: "PageResponse option"

definition QueryPoolDepositSuccessMsgsResponse_zero :: QueryPoolDepositSuccessMsgsResponse where
  "QueryPoolDepositSuccessMsgsResponse_zero = \<lparr>QueryPoolDepositSuccessMsgsResponse_Deposits = [], QueryPoolDepositSuccessMsgsResponse_Pagination = None\<rparr>"

definition QueryPoolDepositSuccessMsgsResponse_Marshal :: "QueryPoolDepositSuccessMsgsResponse \<Rightarrow> bytes" where
  "QueryPoolDepositSuccessMsgsResponse_Marshal m =
     put_repeated 0x0a (map DepositSuccessMsg_Marshal (QueryPoolDepositSuccessMsgsResponse_Deposits m))
     (put_msg_opt 0x12 PageResponse_Marshal (QueryPoolDepositSuccessMsgsResponse_Pagination m) [])"

definition QueryPoolDepositSuccessMsgsResponse_Size :: "QueryPoolDepositSuccessMsgsResponse \<Rightarrow> nat" where
  "QueryPoolDepositSuccessMsgsResponse_Size m =
     sum_list (map (\<lambda>e. size_len (DepositSuccessMsg_Size e)) (QueryPoolDepositSuccessMsgsResponse_Deposits m)) +
     size_msg_opt PageResponse_Size (QueryPoolDepositSuccessMsgsResponse_Pagination m)"

definition QueryPoolDepositSuccessMsgsResponse_field :: "QueryPoolDepositSuccessMsgsResponse \<Rightarrow> int \<Rightarrow> 64 word \<Rightarrow> bytes \<Rightarrow> nat \<Rightarrow> (QueryPoolDepositSuccessMsgsResponse \<times> nat) res option" where
  "QueryPoolDepositSuccessMsgsResponse_field m fieldNum wireType dAtA i =
     (if fieldNum = 1 then msg_case ''Deposits'' wireType dAtA i (\<lambda>b. DepositSuccessMsg_Unmarshal b DepositSuccessMsg_zero) (\<lambda>n. m\<lparr>QueryPoolDepositSuccessMsgsResponse_Deposits := QueryPoolDepositSuccessMsgsResponse_Deposits m @ [n]\<rparr>)
      else if fieldNum = 2 then ptr_case ''Pagination'' wireType dAtA i PageResponse_Unmarshal PageResponse_zero (QueryPoolDepositSuccessMsgsResponse_Pagination m) (\<lambda>p. m\<lparr>QueryPoolDepositSuccessMsgsResponse_Pagination := p\<rparr>)
      else None)"

definition QueryPoolDepositSuccessMsgsResponse_Unmarshal :: "bytes \<Rightarrow> QueryPoolDepositSuccessMsgsResponse \<Rightarrow> QueryPoolDepositSuccessMsgsResponse res" where
  "QueryPoolDepositSuccessMsgsResponse_Unmarshal dAtA m = decode ''QueryPoolDepositSuccessMsgsResponse'' QueryPoolDepositSuccessMsgsResponse_field (\<lambda>m bz. m) dAtA m"

definition QueryPoolDepositSuccessMsgsResponse_ok :: "QueryPoolDepositSuccessMsgsResponse \<Rightarrow> bool" where
  "QueryPoolDepositSuccessMsgsResponse_ok m \<longleftrightarrow> list_all DepositSuccessMsg_ok (QueryPoolDepositSuccessMsgsResponse_Deposits m)"

record QueryPoolDepositSuccessMsgResponse =
  QueryPoolDepositSuccessMsgResponse_Deposit :: DepositSuccessMsg

definition QueryPoolDepositSuccessMsgResponse_zero :: QueryPoolDepositSuccessMsgResponse where
  "QueryPoolDepositSuccessMsgResponse_zero = \<lparr>QueryPoolDepositSuccessMsgResponse_Deposit = DepositSuccessMsg_zero\<rparr>"

definition QueryPoolDepositSuccessMsgResponse_Marshal :: "QueryPoolDepositSuccessMsgResponse \<Rightarrow> bytes" where
  "QueryPoolDepositSuccessMsgResponse_Marshal m =
     put_bytes 0x0a (DepositSuccessMsg_Marshal (QueryPoolDepositSuccessMsgResponse_Deposit m)) []"

definition QueryPoolDepositSuccessMsgResponse_Size :: "QueryPoolDepositSuccessMsgResponse \<Rightarrow> nat" where
  "QueryPoolDepositSuccessMsgResponse_Size m =
     size_len (DepositSuccessMsg_Size (QueryPoolDepositSuccessMsgResponse_Deposit m))"

definition QueryPoolDepositSuccessMsgResponse_field :: "QueryPoolDepositSuccessMsgResponse \<Rightarrow> int \<Rightarrow> 64 word \<Rightarrow> bytes \<Rightarrow> nat \<Rightarrow> (QueryPoolDepositSuccessMsgResponse \<times> nat) res option" where
  "QueryPoolDepositSuccessMsgResponse_field m fieldNum wireType dAtA i =
     (if fieldNum = 1 then msg_case ''Deposit'' wireType dAtA i (\<lambda>b. DepositSuccessMsg_Unmarshal b (QueryPoolDepositSuccessMsgResponse_Deposit m)) (\<lambda>n. m\<lparr>QueryPoolDepositSuccessMsgResponse_Deposit := n\<rparr>)
      else None)"

definition QueryPoolDepositSuccessMsgResponse_Unmarshal :: "bytes \<Rightarrow> QueryPoolDepositSuccessMsgResponse \<Rightarrow> QueryPoolDepositSuccessMsgResponse res" where
  "QueryPoolDepositSuccessMsgResponse_Unmarshal dAtA m = decode ''QueryPoolDepositSuccessMsgResponse'' QueryPoolDepositSuccessMsgResponse_field (\<lambda>m bz. m) dAtA m"

definition QueryPoolDepositSuccessMsgResponse_ok :: "QueryPoolDepositSuccessMsgResponse \<Rightarrow> bool" where
  "QueryPoolDepositSuccessMsgResponse_ok m \<longleftrightarrow> DepositSuccessMsg_ok (QueryPoolDepositSuccessMsgResponse_Deposit m)"

record QueryLiquidityPoolRequest =
  QueryLiquidityPoolRequest_PoolId :: "64 word"

definition QueryLiquidityPoolRequest_zero :: QueryLiquidityPoolRequest where
  "QueryLiquidityPoolRequest_zero = \<lparr>QueryLiquidityPoolRequest_PoolId = 0\<rparr>"

definition QueryLiquidityPoolRequest_Marshal :: "QueryLiquidityPoolRequest \<Rightarrow> bytes" where
  "QueryLiquidityPoolRequest_Marshal m =
     put_uint_opt 0x08 (QueryLiquidityPoolRequest_PoolId m) []"

definition QueryLiquidityPoolRequest_Size :: "QueryLiquidityPoolRequest \<Rightarrow> nat" where
  "QueryLiquidityPoolRequest_Size m =
     size_uint_opt (QueryLiquidityPoolRequest_PoolId m)"

definition QueryLiquidityPoolRequest_field :: "QueryLiquidityPoolRequest \<Rightarrow> int \<Rightarrow> 64 word \<Rightarrow> bytes \<Rightarrow> nat \<Rightarrow> (QueryLiquidityPoolRequest \<times> nat) res option" where
  "QueryLiquidityPoolRequest_field m fieldNum wireType dAtA i =
     (if fieldNum = 1 then uint_case ''PoolId'' wireType dAtA i (\<lambda>v. m\<lparr>QueryLiquidityPoolRequest_PoolId := v\<rparr>)
      else None)"

definition QueryLiquidityPoolRequest_Unmarshal :: "bytes \<Rightarrow> QueryLiquidityPoolRequest \<Rightarrow> QueryLiquidityPoolRequest res" where
  "QueryLiquidityPoolRequest_Unmarshal dAtA m = decode ''QueryLiquidityPoolRequest'' QueryLiquidityPoolRequest_field (\<lambda>m bz. m) dAtA m"

record QueryLiquidityPoolResponse =
  QueryLiquidityPoolResponse_Pool :: SwapPool

definition QueryLiquidityPoolResponse_zero :: QueryLiquidityPoolResponse where
  "QueryLiquidityPoolResponse_zero = \<lparr>QueryLiquidityPoolResponse_Pool = SwapPool_zero\<rparr>"

definition QueryLiquidityPoolResponse_Marshal :: "QueryLiquidityPoolResponse \<Rightarrow> bytes" where
  "QueryLiquidityPoolResponse_Marshal m =
     put_bytes 0x0a (SwapPool_Marshal (QueryLiquidityPoolResponse_Pool m)) []"

definition QueryLiquidityPoolResponse_Size :: "QueryLiquidityPoolResponse \<Rightarrow> nat" where
  "QueryLiquidityPoolResponse_Size m =
     size_len (SwapPool_Size (QueryLiquidityPoolResponse_Pool m))"

definition QueryLiquidityPoolResponse_field :: "QueryLiquidityPoolResponse \<Rightarrow> int \<Rightarrow> 64 word \<Rightarrow> bytes \<Rightarrow> nat \<Rightarrow> (QueryLiquidityPoolResponse \<times> nat) res option" where
  "QueryLiquidityPoolResponse_field m fieldNum wireType dAtA i =
     (if fieldNum = 1 then msg_case ''Pool'' wireType dAtA i (\<lambda>b. SwapPool_Unmarshal b (QueryLiquidityPoolResponse_Pool m)) (\<lambda>n. m\<lparr>QueryLiquidityPoolResponse_Pool := n\<rparr>)
      else None)"

definition QueryLiquidityPoolResponse_Unmarshal :: "bytes \<Rightarrow> QueryLiquidityPoolResponse \<Rightarrow> QueryLiquidityPoolResponse res" where
  "QueryLiquidityPoolResponse_Unmarshal dAtA m = decode ''QueryLiquidityPoolResponse'' QueryLiquidityPoolResponse_field (\<lambda>m bz. m) dAtA m"

record QueryLiquidityPoolByPoolCoinDenomRequest =
  QueryLiquidityPoolByPoolCoinDenomRequest_PoolCoinDenom :: string

definition QueryLiquidityPoolByPoolCoinDenomRequest_zero :: QueryLiquidityPoolByPoolCoinDenomRequest where
  "QueryLiquidityPoolByPoolCoinDenomRequest_zero = \<lparr>QueryLiquidityPoolByPoolCoinDenomRequest_PoolCoinDenom = ''''\<rparr>"

definition QueryLiquidityPoolByPoolCoinDenomRequest_Marshal :: "QueryLiquidityPoolByPoolCoinDenomRequest \<Rightarrow> bytes" where
  "QueryLiquidityPoolByPoolCoinDenomRequest_Marshal m =
     put_bytes_opt 0x0a (str_to_bytes (QueryLiquidityPoolByPoolCoinDenomRequest_PoolCoinDenom m)) []"

definition QueryLiquidityPoolByPoolCoinDenomRequest_Size :: "QueryLiquidityPoolByPoolCoinDenomRequest \<Rightarrow> nat" where
  "QueryLiquidityPoolByPoolCoinDenomRequest_Size m =
     size_len_opt (length (QueryLiquidityPoolByPoolCoinDenomRequest_PoolCoinDenom m))"

definition QueryLiquidityPoolByPoolCoinDenomRequest_field :: "QueryLiquidityPoolByPoolCoinDenomRequest \<Rightarrow> int \<Rightarrow> 64 word \<Rightarrow> bytes \<Rightarrow> nat \<Rightarrow> (QueryLiquidityPoolByPoolCoinDenomRequest \<times> nat) res option" where
  "QueryLiquidityPoolByPoolCoinDenomRequest_field m fieldNum wireType dAtA i =
     (if fieldNum = 1 then string_case ''PoolCoinDenom'' wireType dAtA i (\<lambda>s. m\<lparr>QueryLiquidityPoolByPoolCoinDenomRequest_PoolCoinDenom := s\<rparr>)
      else None)"

definition QueryLiquidityPoolByPoolCoinDenomRequest_Unmarshal :: "bytes \<Rightarrow> QueryLiquidityPoolByPoolCoinDenomRequest \<Rightarrow> QueryLiquidityPoolByPoolCoinDenomRequest res" where
  "QueryLiquidityPoolByPoolCoinDenomRequest_Unmarshal dAtA m = decode ''QueryLiquidityPoolByPoolCoinDenomRequest'' QueryLiquidityPoolByPoolCoinDenomRequest_field (\<lambda>m bz. m) dAtA m"

record QueryLiquidityPoolByReserveAccRequest =
  QueryLiquidityPoolByReserveAccRequest_ReserveAcc :: string

definition QueryLiquidityPoolByReserveAccRequest_zero :: QueryLiquidityPoolByReserveAccRequest where
  "QueryLiquidityPoolByReserveAccRequest_zero = \<lparr>QueryLiquidityPoolByReserveAccRequest_ReserveAcc = ''''\<rparr>"

definition QueryLiquidityPoolByReserveAccRequest_Marshal :: "QueryLiquidityPoolByReserveAccRequest \<Rightarrow> bytes" where
  "QueryLiquidityPoolByReserveAccRequest_Marshal m =
     put_bytes_opt 0x0a (str_to_bytes (QueryLiquidityPoolByReserveAccRequest_ReserveAcc m)) []"

definition QueryLiquidityPoolByReserveAccRequest_Size :: "QueryLiquidityPoolByReserveAccRequest \<Rightarrow> nat" where
  "QueryLiquidityPoolByReserveAccRequest_Size m =
     size_len_opt (length (QueryLiquidityPoolByReserveAccRequest_ReserveAcc m))"

definition QueryLiquidityPoolByReserveAccRequest_field :: "QueryLiquidityPoolByReserveAccRequest \<Rightarrow> int \<Rightarrow> 64 word \<Rightarrow> bytes \<Rightarrow> nat \<Rightarrow> (QueryLiquidityPoolByReserveAccRequest \<times> nat) res option" where
  "QueryLiquidityPoolByReserveAccRequest_field m fieldNum wireType dAtA i =
     (if fieldNum = 1 then string_case ''ReserveAcc'' wireType dAtA i (\<lambda>s. m\<lparr>QueryLiquidityPoolByReserveAccRequest_ReserveAcc := s\<rparr>)
      else None)"

definition QueryLiquidityPoolByReserveAccRequest_Unmarshal :: "bytes \<Rightarrow> QueryLiquidityPoolByReserveAccRequest \<Rightarrow> QueryLiquidityPoolByReserveAccRequest res" where
  "QueryLiquidityPoolByReserveAccRequest_Unmarshal dAtA m = decode ''QueryLiquidityPoolByReserveAccRequest'' QueryLiquidityPoolByReserveAccRequest_field (\<lambda>m bz. m) dAtA m"

record QueryLiquidityPoolBatchRequest =
  QueryLiquidityPoolBatchRequest_PoolId :: "64 word"

definition QueryLiquidityPoolBatchRequest_zero :: QueryLiquidityPoolBatchRequest where
  "QueryLiquidityPoolBatchRequest_zero = \<lparr>QueryLiquidityPoolBatchRequest_PoolId = 0\<rparr>"

definition QueryLiquidityPoolBatchRequest_Marshal :: "QueryLiquidityPoolBatchRequest \<Rightarrow> bytes" where
  "QueryLiquidityPoolBatchRequest_Marshal m =
     put_uint_opt 0x08 (QueryLiquidityPoolBatchRequest_PoolId m) []"

definition QueryLiquidityPoolBatchRequest_Size :: "QueryLiquidityPoolBatchRequest \<Rightarrow> nat" where
  "QueryLiquidityPoolBatchRequest_Size m =
     size_uint_opt (QueryLiquidityPoolBatchRequest_PoolId m)"

definition QueryLiquidityPoolBatchRequest_field :: "QueryLiquidityPoolBatchRequest \<Rightarrow> int \<Rightarrow> 64 word \<Rightarrow> bytes \<Rightarrow> nat \<Rightarrow> (QueryLiquidityPoolBatchRequest \<times> nat) res option" where
  "QueryLiquidityPoolBatchRequest_field m fieldNum wireType dAtA i =
     (if fieldNum = 1 then uint_case ''PoolId'' wireType dAtA i (\<lambda>v. m\<lparr>QueryLiquidityPoolBatchRequest_PoolId := v\<rparr>)
      else None)"

definition QueryLiquidityPoolBatchRequest_Unmarshal :: "bytes \<Rightarrow> QueryLiquidityPoolBatchRequest \<Rightarrow> QueryLiquidityPoolBatchRequest res" where
  "QueryLiquidityPoolBatchRequest_Unmarshal dAtA m = decode ''QueryLiquidityPoolBatchRequest'' QueryLiquidityPoolBatchRequest_field (\<lambda>m bz. m) dAtA m"

record QueryLiquidityPoolBatchResponse =
  QueryLiquidityPoolBatchResponse_Batch :: PoolBatch

definition QueryLiquidityPoolBatchResponse_zero :: QueryLiquidityPoolBatchResponse where
  "QueryLiquidityPoolBatchResponse_zero = \<lparr>QueryLiquidityPoolBatchResponse_Batch = PoolBatch_zero\<rparr>"

definition QueryLiquidityPoolBatchResponse_Marshal :: "QueryLiquidityPoolBatchResponse \<Rightarrow> bytes" where
  "QueryLiquidityPoolBatchResponse_Marshal m =
     put_bytes 0x0a (PoolBatch_Marshal (QueryLiquidityPoolBatchResponse_Batch m)) []"

definition QueryLiquidityPoolBatchResponse_Size :: "QueryLiquidityPoolBatchResponse \<Rightarrow> nat" where
  "QueryLiquidityPoolBatchResponse_Size m =
     size_len (PoolBatch_Size (QueryLiquidityPoolBatchResponse_Batch m))"

definition QueryLiquidityPoolBatchResponse_field :: "QueryLiquidityPoolBatchResponse \<Rightarrow> int \<Rightarrow> 64 word \<Rightarrow> bytes \<Rightarrow> nat \<Rightarrow> (QueryLiquidityPoolBatchResponse \<times> nat) res option" where
  "QueryLiquidityPoolBatchResponse_field m fieldNum wireType dAtA i =
     (if fieldNum = 1 then msg_case ''Batch'' wireType dAtA i (\<lambda>b. PoolBatch_Unmarshal b (QueryLiquidityPoolBatchResponse_Batch m)) (\<lambda>n. m\<lparr>QueryLiquidityPoolBatchResponse_Batch := n\<rparr>)
      else None)"

definition QueryLiquidityPoolBatchResponse_Unmarshal :: "bytes \<Rightarrow> QueryLiquidityPoolBatchResponse \<Rightarrow> QueryLiquidityPoolBatchResponse res" where
  "QueryLiquidityPoolBatchResponse_Unmarshal dAtA m = decode ''QueryLiquidityPoolBatchResponse'' QueryLiquidityPoolBatchResponse_field (\<lambda>m bz. m) dAtA m"

record QueryLiquidityPoolsRequest =
  QueryLiquidityPoolsRequest_Pagination :: "PageRequest option"

definition QueryLiquidityPoolsRequest_zero :: QueryLiquidityPoolsRequest where
  "QueryLiquidityPoolsRequest_zero = \<lparr>QueryLiquidityPoolsRequest_Pagination = None\<rparr>"

definition QueryLiquidityPoolsRequest_Marshal :: "QueryLiquidityPoolsRequest \<Rightarrow> bytes" where
  "QueryLiquidityPoolsRequest_Marshal m =
     put_msg_opt 0x0a PageRequest_Marshal (QueryLiquidityPoolsRequest_Pagination m) []"

definition QueryLiquidityPoolsRequest_Size :: "QueryLiquidityPoolsRequest \<Rightarrow> nat" where
  "QueryLiquidityPoolsRequest_Size m =
     size_msg_opt PageRequest_Size (QueryLiquidityPoolsRequest_Pagination m)"

definition QueryLiquidityPoolsRequest_field :: "QueryLiquidityPoolsRequest \<Rightarrow> int \<Rightarrow> 64 word \<Rightarrow> bytes \<Rightarrow> nat \<Rightarrow> (QueryLiquidityPoolsRequest \<times> nat) res option" where
  "QueryLiquidityPoolsRequest_field m fieldNum wireType dAtA i =
     (if fieldNum = 1 then ptr_case ''Pagination'' wireType dAtA i PageRequest_Unmarshal PageRequest_zero (QueryLiquidityPoolsRequest_Pagination m) (\<lambda>p. m\<lparr>QueryLiquidityPoolsRequest_Pagination := p\<rparr>)
      else None)"

definition QueryLiquidityPoolsRequest_Unmarshal :: "bytes \<Rightarrow> QueryLiquidityPoolsRequest \<Rightarrow> QueryLiquidityPoolsRequest res" where
  "QueryLiquidityPoolsRequest_Unmarshal dAtA m = decode ''QueryLiquidityPoolsRequest'' QueryLiquidityPoolsRequest_field (\<lambda>m bz. m) dAtA m"

record QueryLiquidityPoolsResponse =
  QueryLiquidityPoolsResponse_Pools :: "SwapPool list"
  QueryLiquidityPoolsResponse_Pagination :: "PageResponse option"

definition QueryLiquidityPoolsResponse_zero :: QueryLiquidityPoolsResponse where
  "QueryLiquidityPoolsResponse_zero = \<lparr>QueryLiquidityPoolsResponse_Pools = [], QueryLiquidityPoolsResponse_Pagination = None\<rparr>"

definition QueryLiquidityPoolsResponse_Marshal :: "QueryLiquidityPoolsResponse \<Rightarrow> bytes" where
  "QueryLiquidityPoolsResponse_Marshal m =
     put_repeated 0x0a (map SwapPool_Marshal (QueryLiquidityPoolsResponse_Pools m))
     (put_msg_opt 0x12 PageResponse_Marshal (QueryLiquidityPoolsResponse_Pagination m) [])"

definition QueryLiquidityPoolsResponse_Size :: "QueryLiquidityPoolsResponse \<Rightarrow> nat" where
  "QueryLiquidityPoolsResponse_Size m =
     sum_list (map (\<lambda>e. size_len (SwapPool_Size e)) (QueryLiquidityPoolsResponse_Pools m)) +
     size_msg_opt PageResponse_Size (QueryLiquidityPoolsResponse_Pagination m)"

definition QueryLiquidityPoolsResponse_field :: "QueryLiquidityPoolsResponse \<Rightarrow> int \<Rightarrow> 64 word \<Rightarrow> bytes \<Rightarrow> nat \<Rightarrow> (QueryLiquidityPoolsResponse \<times> nat) res option" where
  "QueryLiquidityPoolsResponse_field m fieldNum wireType dAtA i =
     (if fieldNum = 1 then msg_case ''Pools'' wireType dAtA i (\<lambda>b. SwapPool_Unmarshal b SwapPool_zero) (\<lambda>n. m\<lparr>QueryLiquidityPoolsResponse_Pools := QueryLiquidityPoolsResponse_Pools m @ [n]\<rparr>)
      else if fieldNum = 2 then ptr_case ''Pagination'' wireType dAtA i PageResponse_Unmarshal PageResponse_zero (QueryLiquidityPoolsResponse_Pagination m) (\<lambda>p. m\<lparr>QueryLiquidityPoolsResponse_Pagination := p\<rparr>)
      else None)"

definition QueryLiquidityPoolsResponse_Unmarshal :: "bytes \<Rightarrow> QueryLiquidityPoolsResponse \<Rightarrow> QueryLiquidityPoolsResponse res" where
  "QueryLiquidityPoolsResponse_Unmarshal dAtA m = decode ''QueryLiquidityPoolsResponse'' QueryLiquidityPoolsResponse_field (\<lambda>m bz. m) dAtA m"

datatype QueryParamsRequest = QueryParamsRequest

definition QueryParamsRequest_zero :: QueryParamsRequest where
  "QueryParamsRequest_zero = QueryParamsRequest"

definition QueryParamsRequest_Marshal :: "QueryParamsRequest \<Rightarrow> bytes" where
  "QueryParamsRequest_Marshal m =
     []"

definition QueryParamsRequest_Size :: "QueryParamsRequest \<Rightarrow> nat" where
  "QueryParamsRequest_Size m =
     0"

definition QueryParamsRequest_field :: "QueryParamsRequest \<Rightarrow> int \<Rightarrow> 64 word \<Rightarrow> bytes \<Rightarrow> nat \<Rightarrow> (QueryParamsRequest \<times> nat) res option" where
  "QueryParamsRequest_field m fieldNum wireType dAtA i =
     None"

definition QueryParamsRequest_Unmarshal :: "bytes \<Rightarrow> QueryParamsRequest \<Rightarrow> QueryParamsRequest res" where
  "QueryParamsRequest_Unmarshal dAtA m = decode ''QueryParamsRequest'' QueryParamsRequest_field (\<lambda>m bz. m) dAtA m"

record QueryParamsResponse =
  QueryParamsResponse_Params :: SwapParams

definition QueryParamsResponse_zero :: QueryParamsResponse where
  "QueryParamsResponse_zero = \<lparr>QueryParamsResponse_Params = SwapParams_zero\<rparr>"

definition QueryParamsResponse_Marshal :: "QueryParamsResponse \<Rightarrow> bytes" where
  "QueryParamsResponse_Marshal m =
     put_bytes 0x0a (SwapParams_Marshal (QueryParamsResponse_Params m)) []"

definition QueryParamsResponse_Size :: "QueryParamsResponse \<Rightarrow> nat" where
  "QueryParamsResponse_Size m =
     size_len (SwapParams_Size (QueryParamsResponse_Params m))"

definition QueryParamsResponse_field :: "QueryParamsResponse \<Rightarrow> int \<Rightarrow> 64 word \<Rightarrow> bytes \<Rightarrow> nat \<Rightarrow> (QueryParamsResponse \<times> nat) res option" where
  "QueryParamsResponse_field m fieldNum wireType dAtA i =
     (if fieldNum = 1 then msg_case ''Params'' wireType dAtA i (\<lambda>b. SwapParams_Unmarshal b (QueryParamsResponse_Params m)) (\<lambda>n. m\<lparr>QueryParamsResponse_Params := n\<rparr>)
      else None)"

definition QueryParamsResponse_Unmarshal :: "bytes \<Rightarrow> QueryParamsResponse \<Rightarrow> QueryParamsResponse res" where
  "QueryParamsResponse_Unmarshal dAtA m = decode ''QueryParamsResponse'' QueryParamsResponse_field (\<lambda>m bz. m) dAtA m"

definition QueryParamsResponse_ok :: "QueryParamsResponse \<Rightarrow> bool" where
  "QueryParamsResponse_ok m \<longleftrightarrow> SwapParams_ok (QueryParamsResponse_Params m)"

record QueryPoolBatchSwapMsgsRequest =
  QueryPoolBatchSwapMsgsRequest_PoolId :: "64 word"
  QueryPoolBatchSwapMsgsRequest_Pagination :: "PageRequest option"

definition QueryPoolBatchSwapMsgsRequest_zero :: QueryPoolBatchSwapMsgsRequest where
  "QueryPoolBatchSwapMsgsRequest_zero = \<lparr>QueryPoolBatchSwapMsgsRequest_PoolId = 0, QueryPoolBatchSwapMsgsRequest_Pagination = None\<rparr>"

definition QueryPoolBatchSwapMsgsRequest_Marshal :: "QueryPoolBatchSwapMsgsRequest \<Rightarrow> bytes" where
  "QueryPoolBatchSwapMsgsRequest_Marshal m =
     put_uint_opt 0x08 (QueryPoolBatchSwapMsgsRequest_PoolId m)
     (put_msg_opt 0x12 PageRequest_Marshal (QueryPoolBatchSwapMsgsRequest_Pagination m) [])"

definition QueryPoolBatchSwapMsgsRequest_Size :: "QueryPoolBatchSwapMsgsRequest \<Rightarrow> nat" where
  "QueryPoolBatchSwapMsgsRequest_Size m =
     size_uint_opt (QueryPoolBatchSwapMsgsRequest_PoolId m) +
     size_msg_opt PageRequest_Size (QueryPoolBatchSwapMsgsRequest_Pagination m)"

definition QueryPoolBatchSwapMsgsRequest_field :: "QueryPoolBatchSwapMsgsRequest \<Rightarrow> int \<Rightarrow> 64 word \<Rightarrow> bytes \<Rightarrow> nat \<Rightarrow> (QueryPoolBatchSwapMsgsRequest \<times> nat) res option" where
  "QueryPoolBatchSwapMsgsRequest_field m fieldNum wireType dAtA i =
     (if fieldNum = 1 then uint_case ''PoolId'' wireType dAtA i (\<lambda>v. m\<lparr>QueryPoolBatchSwapMsgsRequest_PoolId := v\<rparr>)
      else if fieldNum = 2 then ptr_case ''Pagination'' wireType dAtA i PageRequest_Unmarshal PageRequest_zero (QueryPoolBatchSwapMsgsRequest_Pagination m) (\<lambda>p. m\<lparr>QueryPoolBatchSwapMsgsRequest_Pagination := p\<rparr>)
      else None)"

definition QueryPoolBatchSwapMsgsRequest_Unmarshal :: "bytes \<Rightarrow> QueryPoolBatchSwapMsgsRequest \<Rightarrow> QueryPoolBatchSwapMsgsRequest res" where
  "QueryPoolBatchSwapMsgsRequest_Unmarshal dAtA m = decode ''QueryPoolBatchSwapMsgsRequest'' QueryPoolBatchSwapMsgsRequest_field (\<lambda>m bz. m) dAtA m"

record QueryPoolBatchSwapMsgRequest =
  QueryPoolBatchSwapMsgRequest_PoolId :: "64 word"
  QueryPoolBatchSwapMsgRequest_MsgIndex :: "64 word"

definition QueryPoolBatchSwapMsgRequest_zero :: QueryPoolBatchSwapMsgRequest where
  "QueryPoolBatchSwapMsgRequest_zero = \<lparr>QueryPoolBatchSwapMsgRequest_PoolId = 0, QueryPoolBatchSwapMsgRequest_MsgIndex = 0\<rparr>"

definition QueryPoolBatchSwapMsgRequest_Marshal :: "QueryPoolBatchSwapMsgRequest \<Rightarrow> bytes" where
  "QueryPoolBatchSwapMsgRequest_Marshal m =
     put_uint_opt 0x08 (QueryPoolBatchSwapMsgRequest_PoolId m)
     (put_uint_opt 0x10 (QueryPoolBatchSwapMsgRequest_MsgIndex m) [])"

definition QueryPoolBatchSwapMsgRequest_Size :: "QueryPoolBatchSwapMsgRequest \<Rightarrow> nat" where
  "QueryPoolBatchSwapMsgRequest_Size m =
     size_uint_opt (QueryPoolBatchSwapMsgRequest_PoolId m) +
     size_uint_opt (QueryPoolBatchSwapMsgRequest_MsgIndex m)"

definition QueryPoolBatchSwapMsgRequest_field :: "QueryPoolBatchSwapMsgRequest \<Rightarrow> int \<Rightarrow> 64 word \<Rightarrow> bytes \<Rightarrow> nat \<Rightarrow> (QueryPoolBatchSwapMsgRequest \<times> nat) res option" where
  "QueryPoolBatchSwapMsgRequest_field m fieldNum wireType dAtA i =
     (if fieldNum = 1 then uint_case ''PoolId'' wireType dAtA i (\<lambda>v. m\<lparr>QueryPoolBatchSwapMsgRequest_PoolId := v\<rparr>)
      else if fieldNum = 2 then uint_case ''MsgIndex'' wireType dAtA i (\<lambda>v. m\<lparr>QueryPoolBatchSwapMsgRequest_MsgIndex := v\<rparr>)
      else None)"

definition QueryPoolBatchSwapMsgRequest_Unmarshal :: "bytes \<Rightarrow> QueryPoolBatchSwapMsgRequest \<Rightarrow> QueryPoolBatchSwapMsgRequest res" where
  "QueryPoolBatchSwapMsgRequest_Unmarshal dAtA m = decode ''QueryPoolBatchSwapMsgRequest'' QueryPoolBatchSwapMsgRequest_field (\<lambda>m bz. m) dAtA m"

record QueryPoolBatchSwapMsgsResponse =
  QueryPoolBatchSwapMsgsResponse_Swaps :: "SwapMsgState list"
  QueryPoolBatchSwapMsgsResponse_Pagination :: "PageResponse option"

definition QueryPoolBatchSwapMsgsResponse_zero :: QueryPoolBatchSwapMsgsResponse where
  "QueryPoolBatchSwapMsgsResponse_zero = \<lparr>QueryPoolBatchSwapMsgsResponse_Swaps = [], QueryPoolBatchSwapMsgsResponse_Pagination = None\<rparr>"

definition QueryPoolBatchSwapMsgsResponse_Marshal :: "QueryPoolBatchSwapMsgsResponse \<Rightarrow> bytes" where
  "QueryPoolBatchSwapMsgsResponse_Marshal m =
     put_repeated 0x0a (map SwapMsgState_Marshal (QueryPoolBatchSwapMsgsResponse_Swaps m))
     (put_msg_opt 0x12 PageResponse_Marshal (QueryPoolBatchSwapMsgsResponse_Pagination m) [])"

definition QueryPoolBatchSwapMsgsResponse_Size :: "QueryPoolBatchSwapMsgsResponse \<Rightarrow> nat" where
  "QueryPoolBatchSwapMsgsResponse_Size m =
     sum_list (map (\<lambda>e. size_len (SwapMsgState_Size e)) (QueryPoolBatchSwapMsgsResponse_Swaps m)) +
     size_msg_opt PageResponse_Size (QueryPoolBatchSwapMsgsResponse_Pagination m)"

definition QueryPoolBatchSwapMsgsResponse_field :: "QueryPoolBatchSwapMsgsResponse \<Rightarrow> int \<Rightarrow> 64 word \<Rightarrow> bytes \<Rightarrow> nat \<Rightarrow> (QueryPoolBatchSwapMsgsResponse \<times> nat) res option" where
  "QueryPoolBatchSwapMsgsResponse_field m fieldNum wireType dAtA i =
     (if fieldNum = 1 then msg_case ''Swaps'' wireType dAtA i (\<lambda>b. SwapMsgState_Unmarshal b SwapMsgState_zero) (\<lambda>n. m\<lparr>QueryPoolBatchSwapMsgsResponse_Swaps := QueryPoolBatchSwapMsgsResponse_Swaps m @ [n]\<rparr>)
      else if fieldNum = 2 then ptr_case ''Pagination'' wireType dAtA i PageResponse_Unmarshal PageResponse_zero (QueryPoolBatchSwapMsgsResponse_Pagination m) (\<lambda>p. m\<lparr>QueryPoolBatchSwapMsgsResponse_Pagination := p\<rparr>)
      else None)"

definition QueryPoolBatchSwapMsgsResponse_Unmarshal :: "bytes \<Rightarrow> QueryPoolBatchSwapMsgsResponse \<Rightarrow> QueryPoolBatchSwapMsgsResponse res" where
  "QueryPoolBatchSwapMsgsResponse_Unmarshal dAtA m = decode ''QueryPoolBatchSwapMsgsResponse'' QueryPoolBatchSwapMsgsResponse_field (\<lambda>m bz. m) dAtA m"

definition QueryPoolBatchSwapMsgsResponse_ok :: "QueryPoolBatchSwapMsgsResponse \<Rightarrow> bool" where
  "QueryPoolBatchSwapMsgsResponse_ok m \<longleftrightarrow> list_all SwapMsgState_ok (QueryPoolBatchSwapMsgsResponse_Swaps m)"

record QueryPoolBatchSwapMsgResponse =
  QueryPoolBatchSwapMsgResponse_Swap :: SwapMsgState

definition QueryPoolBatchSwapMsgResponse_zero :: QueryPoolBatchSwapMsgResponse where
  "QueryPoolBatchSwapMsgResponse_zero = \<lparr>QueryPoolBatchSwapMsgResponse_Swap = SwapMsgState_zero\<rparr>"

definition QueryPoolBatchSwapMsgResponse_Marshal :: "QueryPoolBatchSwapMsgResponse \<Rightarrow> bytes" where
  "QueryPoolBatchSwapMsgResponse_Marshal m =
     put_bytes 0x0a (SwapMsgState_Marshal (QueryPoolBatchSwapMsgResponse_Swap m)) []"

definition QueryPoolBatchSwapMsgResponse_Size :: "QueryPoolBatchSwapMsgResponse \<Rightarrow> nat" where
  "QueryPoolBatchSwapMsgResponse_Size m =
     size_len (SwapMsgState_Size (QueryPoolBatchSwapMsgResponse_Swap m))"

definition QueryPoolBatchSwapMsgResponse_field :: "QueryPoolBatchSwapMsgResponse \<Rightarrow> int \<Rightarrow> 64 word \<Rightarrow> bytes \<Rightarrow> nat \<Rightarrow> (QueryPoolBatchSwapMsgResponse \<times> nat) res option" where
  "QueryPoolBatchSwapMsgResponse_field m fieldNum wireType dAtA i =
     (if fieldNum = 1 then msg_case ''Swap'' wireType dAtA i (\<lambda>b. SwapMsgState_Unmarshal b (QueryPoolBatchSwapMsgResponse_Swap m)) (\<lambda>n. m\<lparr>QueryPoolBatchSwapMsgResponse_Swap := n\<rparr>)
      else None)"

definition QueryPoolBatchSwapMsgResponse_Unmarshal :: "bytes \<Rightarrow> QueryPoolBatchSwapMsgResponse \<Rightarrow> QueryPoolBatchSwapMsgResponse res" where
  "QueryPoolBatchSwapMsgResponse_Unmarshal dAtA m = decode ''QueryPoolBatchSwapMsgResponse'' QueryPoolBatchSwapMsgResponse_field (\<lambda>m bz. m) dAtA m"

definition QueryPoolBatchSwapMsgResponse_ok :: "QueryPoolBatchSwapMsgResponse \<Rightarrow> bool" where
  "QueryPoolBatchSwapMsgResponse_ok m \<longleftrightarrow> SwapMsgState_ok (QueryPoolBatchSwapMsgResponse_Swap m)"

record QueryPoolBatchDepositMsgsRequest =
  QueryPoolBatchDepositMsgsRequest_PoolId :: "64 word"
  QueryPoolBatchDepositMsgsRequest_Pagination :: "PageRequest option"

definition QueryPoolBatchDepositMsgsRequest_zero :: QueryPoolBatchDepositMsgsRequest where
  "QueryPoolBatchDepositMsgsRequest_zero = \<lparr>QueryPoolBatchDepositMsgsRequest_PoolId = 0, QueryPoolBatchDepositMsgsRequest_Pagination = None\<rparr>"

definition QueryPoolBatchDepositMsgsRequest_Marshal :: "QueryPoolBatchDepositMsgsRequest \<Rightarrow> bytes" where
  "QueryPoolBatchDepositMsgsRequest_Marshal m =
     put_uint_opt 0x08 (QueryPoolBatchDepositMsgsRequest_PoolId m)
     (put_msg_opt 0x12 PageRequest_Marshal (QueryPoolBatchDepositMsgsRequest_Pagination m) [])"

definition QueryPoolBatchDepositMsgsRequest_Size :: "QueryPoolBatchDepositMsgsRequest \<Rightarrow> nat" where
  "QueryPoolBatchDepositMsgsRequest_Size m =
     size_uint_opt (QueryPoolBatchDepositMsgsRequest_PoolId m) +
     size_msg_opt PageRequest_Size (QueryPoolBatchDepositMsgsRequest_Pagination m)"

definition QueryPoolBatchDepositMsgsRequest_field :: "QueryPoolBatchDepositMsgsRequest \<Rightarrow> int \<Rightarrow> 64 word \<Rightarrow> bytes \<Rightarrow> nat \<Rightarrow> (QueryPoolBatchDepositMsgsRequest \<times> nat) res option" where
  "QueryPoolBatchDepositMsgsRequest_field m fieldNum wireType dAtA i =
     (if fieldNum = 1 then uint_case ''PoolId'' wireType dAtA i (\<lambda>v. m\<lparr>QueryPoolBatchDepositMsgsRequest_PoolId := v\<rparr>)
      else if fieldNum = 2 then ptr_case ''Pagination'' wireType dAtA i PageRequest_Unmarshal PageRequest_zero (QueryPoolBatchDepositMsgsRequest_Pagination m) (\<lambda>p. m\<lparr>QueryPoolBatchDepositMsgsRequest_Pagination := p\<rparr>)
      else None)"

definition QueryPoolBatchDepositMsgsRequest_Unmarshal :: "bytes \<Rightarrow> QueryPoolBatchDepositMsgsRequest \<Rightarrow> QueryPoolBatchDepositMsgsRequest res" where
  "QueryPoolBatchDepositMsgsRequest_Unmarshal dAtA m = decode ''QueryPoolBatchDepositMsgsRequest'' QueryPoolBatchDepositMsgsRequest_field (\<lambda>m bz. m) dAtA m"

record QueryPoolBatchDepositMsgRequest =
  QueryPoolBatchDepositMsgRequest_PoolId :: "64 word"
  QueryPoolBatchDepositMsgRequest_MsgIndex :: "64 word"

definition QueryPoolBatchDepositMsgRequest_zero :: QueryPoolBatchDepositMsgRequest where
  "QueryPoolBatchDepositMsgRequest_zero = \<lparr>QueryPoolBatchDepositMsgRequest_PoolId = 0, QueryPoolBatchDepositMsgRequest_MsgIndex = 0\<rparr>"

definition QueryPoolBatchDepositMsgRequest_Marshal :: "QueryPoolBatchDepositMsgRequest \<Rightarrow> bytes" where
  "QueryPoolBatchDepositMsgRequest_Marshal m =
     put_uint_opt 0x08 (QueryPoolBatchDepositMsgRequest_PoolId m)
     (put_uint_opt 0x10 (QueryPoolBatchDepositMsgRequest_MsgIndex m) [])"

definition QueryPoolBatchDepositMsgRequest_Size :: "QueryPoolBatchDepositMsgRequest \<Rightarrow> nat" where
  "QueryPoolBatchDepositMsgRequest_Size m =
     size_uint_opt (QueryPoolBatchDepositMsgRequest_PoolId m) +
     size_uint_opt (QueryPoolBatchDepositMsgRequest_MsgIndex m)"

definition QueryPoolBatchDepositMsgRequest_field :: "QueryPoolBatchDepositMsgRequest \<Rightarrow> int \<Rightarrow> 64 word \<Rightarrow> bytes \<Rightarrow> nat \<Rightarrow> (QueryPoolBatchDepositMsgRequest \<times> nat) res option" where
  "QueryPoolBatchDepositMsgRequest_field m fieldNum wireType dAtA i =
     (if fieldNum = 1 then uint_case ''PoolId'' wireType dAtA i (\<lambda>v. m\<lparr>QueryPoolBatchDepositMsgRequest_PoolId := v\<rparr>)
      else if fieldNum = 2 then uint_case ''MsgIndex'' wireType dAtA i (\<lambda>v. m\<lparr>QueryPoolBatchDepositMsgRequest_MsgIndex := v\<rparr>)
      else None)"

definition QueryPoolBatchDepositMsgRequest_Unmarshal :: "bytes \<Rightarrow> QueryPoolBatchDepositMsgRequest \<Rightarrow> QueryPoolBatchDepositMsgRequest res" where
  "QueryPoolBatchDepositMsgRequest_Unmarshal dAtA m = decode ''QueryPoolBatchDepositMsgRequest'' QueryPoolBatchDepositMsgRequest_field (\<lambda>m bz. m) dAtA m"

record QueryPoolBatchDepositMsgsResponse =
  QueryPoolBatchDepositMsgsResponse_Deposits :: "DepositMsgState list"
  QueryPoolBatchDepositMsgsResponse_Pagination :: "PageResponse option"

definition QueryPoolBatchDepositMsgsResponse_zero :: QueryPoolBatchDepositMsgsResponse where
  "QueryPoolBatchDepositMsgsResponse_zero = \<lparr>QueryPoolBatchDepositMsgsResponse_Deposits = [], QueryPoolBatchDepositMsgsResponse_Pagination = None\<rparr>"

definition QueryPoolBatchDepositMsgsResponse_Marshal :: "QueryPoolBatchDepositMsgsResponse \<Rightarrow> bytes" where
  "QueryPoolBatchDepositMsgsResponse_Marshal m =
     put_repeated 0x0a (map DepositMsgState_Marshal (QueryPoolBatchDepositMsgsResponse_Deposits m))
     (put_msg_opt 0x12 PageResponse_Marshal (QueryPoolBatchDepositMsgsResponse_Pagination m) [])"

definition QueryPoolBatchDepositMsgsResponse_Size :: "QueryPoolBatchDepositMsgsResponse \<Rightarrow> nat" where
  "QueryPoolBatchDepositMsgsResponse_Size m =
     sum_list (map (\<lambda>e. size_len (DepositMsgState_Size e)) (QueryPoolBatchDepositMsgsResponse_Deposits m)) +
     size_msg_opt PageResponse_Size (QueryPoolBatchDepositMsgsResponse_Pagination m)"

definition QueryPoolBatchDepositMsgsResponse_field :: "QueryPoolBatchDepositMsgsResponse \<Rightarrow> int \<Rightarrow> 64 word \<Rightarrow> bytes \<Rightarrow> nat \<Rightarrow> (QueryPoolBatchDepositMsgsResponse \<times> nat) res option" where
  "QueryPoolBatchDepositMsgsResponse_field m fieldNum wireType dAtA i =
     (if fieldNum = 1 then msg_case ''Deposits'' wireType dAtA i (\<lambda>b. DepositMsgState_Unmarshal b DepositMsgState_zero) (\<lambda>n. m\<lparr>QueryPoolBatchDepositMsgsResponse_Deposits := QueryPoolBatchDepositMsgsResponse_Deposits m @ [n]\<rparr>)
      else if fieldNum = 2 then ptr_case ''Pagination'' wireType dAtA i PageResponse_Unmarshal PageResponse_zero (QueryPoolBatchDepositMsgsResponse_Pagination m) (\<lambda>p. m\<lparr>QueryPoolBatchDepositMsgsResponse_Pagination := p\<rparr>)
      else None)"

definition QueryPoolBatchDepositMsgsResponse_Unmarshal :: "bytes \<Rightarrow> QueryPoolBatchDepositMsgsResponse \<Rightarrow> QueryPoolBatchDepositMsgsResponse res" where
  "QueryPoolBatchDepositMsgsResponse_Unmarshal dAtA m = decode ''QueryPoolBatchDepositMsgsResponse'' QueryPoolBatchDepositMsgsResponse_field (\<lambda>m bz. m) dAtA m"

definition QueryPoolBatchDepositMsgsResponse_ok :: "QueryPoolBatchDepositMsgsResponse \<Rightarrow> bool" where
  "QueryPoolBatchDepositMsgsResponse_ok m \<longleftrightarrow> list_all DepositMsgState_ok (QueryPoolBatchDepositMsgsResponse_Deposits m)"

record QueryPoolBatchDepositMsgResponse =
  QueryPoolBatchDepositMsgResponse_Deposit :: DepositMsgState

definition QueryPoolBatchDepositMsgResponse_zero :: QueryPoolBatchDepositMsgResponse where
  "QueryPoolBatchDepositMsgResponse_zero = \<lparr>QueryPoolBatchDepositMsgResponse_Deposit = DepositMsgState_zero\<rparr>"

definition QueryPoolBatchDepositMsgResponse_Marshal :: "QueryPoolBatchDepositMsgResponse \<Rightarrow> bytes" where
  "QueryPoolBatchDepositMsgResponse_Marshal m =
     put_bytes 0x0a (DepositMsgState_Marshal (QueryPoolBatchDepositMsgResponse_Deposit m)) []"

definition QueryPoolBatchDepositMsgResponse_Size :: "QueryPoolBatchDepositMsgResponse \<Rightarrow> nat" where
  "QueryPoolBatchDepositMsgResponse_Size m =
     size_len (DepositMsgState_Size (QueryPoolBatchDepositMsgResponse_Deposit m))"

definition QueryPoolBatchDepositMsgResponse_field :: "QueryPoolBatchDepositMsgResponse \<Rightarrow> int \<Rightarrow> 64 word \<Rightarrow> bytes \<Rightarrow> nat \<Rightarrow> (QueryPoolBatchDepositMsgResponse \<times> nat) res option" where
  "QueryPoolBatchDepositMsgResponse_field m fieldNum wireType dAtA i =
     (if fieldNum = 1 then msg_case ''Deposit'' wireType dAtA i (\<lambda>b. DepositMsgState_Unmarshal b (QueryPoolBatchDepositMsgResponse_Deposit m)) (\<lambda>n. m\<lparr>QueryPoolBatchDepositMsgResponse_Deposit := n\<rparr>)
      else None)"

definition QueryPoolBatchDepositMsgResponse_Unmarshal :: "bytes \<Rightarrow> QueryPoolBatchDepositMsgResponse \<Rightarrow> QueryPoolBatchDepositMsgResponse res" where
  "QueryPoolBatchDepositMsgResponse_Unmarshal dAtA m = decode ''QueryPoolBatchDepositMsgResponse'' QueryPoolBatchDepositMsgResponse_field (\<lambda>m bz. m) dAtA m"

definition QueryPoolBatchDepositMsgResponse_ok :: "QueryPoolBatchDepositMsgResponse \<Rightarrow> bool" where
  "QueryPoolBatchDepositMsgResponse_ok m \<longleftrightarrow> DepositMsgState_ok (QueryPoolBatchDepositMsgResponse_Deposit m)"

record QueryPoolBatchWithdrawMsgsRequest =
  QueryPoolBatchWithdrawMsgsRequest_PoolId :: "64 word"
  QueryPoolBatchWithdrawMsgsRequest_Pagination :: "PageRequest option"

definition QueryPoolBatchWithdrawMsgsRequest_zero :: QueryPoolBatchWithdrawMsgsRequest where
  "QueryPoolBatchWithdrawMsgsRequest_zero = \<lparr>QueryPoolBatchWithdrawMsgsRequest_PoolId = 0, QueryPoolBatchWithdrawMsgsRequest_Pagination = None\<rparr>"

definition QueryPoolBatchWithdrawMsgsRequest_Marshal :: "QueryPoolBatchWithdrawMsgsRequest \<Rightarrow> bytes" where
  "QueryPoolBatchWithdrawMsgsRequest_Marshal m =
     put_uint_opt 0x08 (QueryPoolBatchWithdrawMsgsRequest_PoolId m)
     (put_msg_opt 0x12 PageRequest_Marshal (QueryPoolBatchWithdrawMsgsRequest_Pagination m) [])"

definition QueryPoolBatchWithdrawMsgsRequest_Size :: "QueryPoolBatchWithdrawMsgsRequest \<Rightarrow> nat" where
  "QueryPoolBatchWithdrawMsgsRequest_Size m =
     size_uint_opt (QueryPoolBatchWithdrawMsgsRequest_PoolId m) +
     size_msg_opt PageRequest_Size (QueryPoolBatchWithdrawMsgsRequest_Pagination m)"

definition QueryPoolBatchWithdrawMsgsRequest_field :: "QueryPoolBatchWithdrawMsgsRequest \<Rightarrow> int \<Rightarrow> 64 word \<Rightarrow> bytes \<Rightarrow> nat \<Rightarrow> (QueryPoolBatchWithdrawMsgsRequest \<times> nat) res option" where
  "QueryPoolBatchWithdrawMsgsRequest_field m fieldNum wireType dAtA i =
     (if fieldNum = 1 then uint_case ''PoolId'' wireType dAtA i (\<lambda>v. m\<lparr>QueryPoolBatchWithdrawMsgsRequest_PoolId := v\<rparr>)
      else if fieldNum = 2 then ptr_case ''Pagination'' wireType dAtA i PageRequest_Unmarshal PageRequest_zero (QueryPoolBatchWithdrawMsgsRequest_Pagination m) (\<lambda>p. m\<lparr>QueryPoolBatchWithdrawMsgsRequest_Pagination := p\<rparr>)
      else None)"

definition QueryPoolBatchWithdrawMsgsRequest_Unmarshal :: "bytes \<Rightarrow> QueryPoolBatchWithdrawMsgsRequest \<Rightarrow> QueryPoolBatchWithdrawMsgsRequest res" where
  "QueryPoolBatchWithdrawMsgsRequest_Unmarshal dAtA m = decode ''QueryPoolBatchWithdrawMsgsRequest'' QueryPoolBatchWithdrawMsgsRequest_field (\<lambda>m bz. m) dAtA m"

record QueryPoolBatchWithdrawMsgRequest =
  QueryPoolBatchWithdrawMsgRequest_PoolId :: "64 word"
  QueryPoolBatchWithdrawMsgRequest_MsgIndex :: "64 word"

definition QueryPoolBatchWithdrawMsgRequest_zero :: QueryPoolBatchWithdrawMsgRequest where
  "QueryPoolBatchWithdrawMsgRequest_zero = \<lparr>QueryPoolBatchWithdrawMsgRequest_PoolId = 0, QueryPoolBatchWithdrawMsgRequest_MsgIndex = 0\<rparr>"

definition QueryPoolBatchWithdrawMsgRequest_Marshal :: "QueryPoolBatchWithdrawMsgRequest \<Rightarrow> bytes" where
  "QueryPoolBatchWithdrawMsgRequest_Marshal m =
     put_uint_opt 0x08 (QueryPoolBatchWithdrawMsgRequest_PoolId m)
     (put_uint_opt 0x10 (QueryPoolBatchWithdrawMsgRequest_MsgIndex m) [])"

definition QueryPoolBatchWithdrawMsgRequest_Size :: "QueryPoolBatchWithdrawMsgRequest \<Rightarrow> nat" where
  "QueryPoolBatchWithdrawMsgRequest_Size m =
     size_uint_opt (QueryPoolBatchWithdrawMsgRequest_PoolId m) +
     size_uint_opt (QueryPoolBatchWithdrawMsgRequest_MsgIndex m)"

definition QueryPoolBatchWithdrawMsgRequest_field :: "QueryPoolBatchWithdrawMsgRequest \<Rightarrow> int \<Rightarrow> 64 word \<Rightarrow> bytes \<Rightarrow> nat \<Rightarrow> (QueryPoolBatchWithdrawMsgRequest \<times> nat) res option" where
  "QueryPoolBatchWithdrawMsgRequest_field m fieldNum wireType dAtA i =
     (if fieldNum = 1 then uint_case ''PoolId'' wireType dAtA i (\<lambda>v. m\<lparr>QueryPoolBatchWithdrawMsgRequest_PoolId := v\<rparr>)
      else if fieldNum = 2 then uint_case ''MsgIndex'' wireType dAtA i (\<lambda>v. m\<lparr>QueryPoolBatchWithdrawMsgRequest_MsgIndex := v\<rparr>)
      else None)"

definition QueryPoolBatchWithdrawMsgRequest_Unmarshal :: "bytes \<Rightarrow> QueryPoolBatchWithdrawMsgRequest \<Rightarrow> QueryPoolBatchWithdrawMsgRequest res" where
  "QueryPoolBatchWithdrawMsgRequest_Unmarshal dAtA m = decode ''QueryPoolBatchWithdrawMsgRequest'' QueryPoolBatchWithdrawMsgRequest_field (\<lambda>m bz. m) dAtA m"

record QueryPoolBatchWithdrawMsgsResponse =
  QueryPoolBatchWithdrawMsgsResponse_Withdraws :: "WithdrawMsgState list"
  QueryPoolBatchWithdrawMsgsResponse_Pagination :: "PageResponse option"

definition QueryPoolBatchWithdrawMsgsResponse_zero :: QueryPoolBatchWithdrawMsgsResponse where
  "QueryPoolBatchWithdrawMsgsResponse_zero = \<lparr>QueryPoolBatchWithdrawMsgsResponse_Withdraws = [], QueryPoolBatchWithdrawMsgsResponse_Pagination = None\<rparr>"

definition QueryPoolBatchWithdrawMsgsResponse_Marshal :: "QueryPoolBatchWithdrawMsgsResponse \<Rightarrow> bytes" where
  "QueryPoolBatchWithdrawMsgsResponse_Marshal m =
     put_repeated 0x0a (map WithdrawMsgState_Marshal (QueryPoolBatchWithdrawMsgsResponse_Withdraws m))
     (put_msg_opt 0x12 PageResponse_Marshal (QueryPoolBatchWithdrawMsgsResponse_Pagination m) [])"

definition QueryPoolBatchWithdrawMsgsResponse_Size :: "QueryPoolBatchWithdrawMsgsResponse \<Rightarrow> nat" where
  "QueryPoolBatchWithdrawMsgsResponse_Size m =
     sum_list (map (\<lambda>e. size_len (WithdrawMsgState_Size e)) (QueryPoolBatchWithdrawMsgsResponse_Withdraws m)) +
     size_msg_opt PageResponse_Size (QueryPoolBatchWithdrawMsgsResponse_Pagination m)"

definition QueryPoolBatchWithdrawMsgsResponse_field :: "QueryPoolBatchWithdrawMsgsResponse \<Rightarrow> int \<Rightarrow> 64 word \<Rightarrow> bytes \<Rightarrow> nat \<Rightarrow> (QueryPoolBatchWithdrawMsgsResponse \<times> nat) res option" where
  "QueryPoolBatchWithdrawMsgsResponse_field m fieldNum wireType dAtA i =
     (if fieldNum = 1 then msg_case ''Withdraws'' wireType dAtA i (\<lambda>b. WithdrawMsgState_Unmarshal b WithdrawMsgState_zero) (\<lambda>n. m\<lparr>QueryPoolBatchWithdrawMsgsResponse_Withdraws := QueryPoolBatchWithdrawMsgsResponse_Withdraws m @ [n]\<rparr>)
      else if fieldNum = 2 then ptr_case ''Pagination'' wireType dAtA i PageResponse_Unmarshal PageResponse_zero (QueryPoolBatchWithdrawMsgsResponse_Pagination m) (\<lambda>p. m\<lparr>QueryPoolBatchWithdrawMsgsResponse_Pagination := p\<rparr>)
      else None)"

definition QueryPoolBatchWithdrawMsgsResponse_Unmarshal :: "bytes \<Rightarrow> QueryPoolBatchWithdrawMsgsResponse \<Rightarrow> QueryPoolBatchWithdrawMsgsResponse res" where
  "QueryPoolBatchWithdrawMsgsResponse_Unmarshal dAtA m = decode ''QueryPoolBatchWithdrawMsgsResponse'' QueryPoolBatchWithdrawMsgsResponse_field (\<lambda>m bz. m) dAtA m"

definition QueryPoolBatchWithdrawMsgsResponse_ok :: "QueryPoolBatchWithdrawMsgsResponse \<Rightarrow> bool" where
  "QueryPoolBatchWithdrawMsgsResponse_ok m \<longleftrightarrow> list_all WithdrawMsgState_ok (QueryPoolBatchWithdrawMsgsResponse_Withdraws m)"

record QueryPoolBatchWithdrawMsgResponse =
  QueryPoolBatchWithdrawMsgResponse_Withdraw :: WithdrawMsgState

definition QueryPoolBatchWithdrawMsgResponse_zero :: QueryPoolBatchWithdrawMsgResponse where
  "QueryPoolBatchWithdrawMsgResponse_zero = \<lparr>QueryPoolBatchWithdrawMsgResponse_Withdraw = WithdrawMsgState_zero\<rparr>"

definition QueryPoolBatchWithdrawMsgResponse_Marshal :: "QueryPoolBatchWithdrawMsgResponse \<Rightarrow> bytes" where
  "QueryPoolBatchWithdrawMsgResponse_Marshal m =
     put_bytes 0x0a (WithdrawMsgState_Marshal (QueryPoolBatchWithdrawMsgResponse_Withdraw m)) []"

definition QueryPoolBatchWithdrawMsgResponse_Size :: "QueryPoolBatchWithdrawMsgResponse \<Rightarrow> nat" where
  "QueryPoolBatchWithdrawMsgResponse_Size m =
     size_len (WithdrawMsgState_Size (QueryPoolBatchWithdrawMsgResponse_Withdraw m))"

definition QueryPoolBatchWithdrawMsgResponse_field :: "QueryPoolBatchWithdrawMsgResponse \<Rightarrow> int \<Rightarrow> 64 word \<Rightarrow> bytes \<Rightarrow> nat \<Rightarrow> (QueryPoolBatchWithdrawMsgResponse \<times> nat) res option" where
  "QueryPoolBatchWithdrawMsgResponse_field m fieldNum wireType dAtA i =
     (if fieldNum = 1 then msg_case ''Withdraw'' wireType dAtA i (\<lambda>b. WithdrawMsgState_Unmarshal b (QueryPoolBatchWithdrawMsgResponse_Withdraw m)) (\<lambda>n. m\<lparr>QueryPoolBatchWithdrawMsgResponse_Withdraw := n\<rparr>)
      else None)"

definition QueryPoolBatchWithdrawMsgResponse_Unmarshal :: "bytes \<Rightarrow> QueryPoolBatchWithdrawMsgResponse \<Rightarrow> QueryPoolBatchWithdrawMsgResponse res" where
  "QueryPoolBatchWithdrawMsgResponse_Unmarshal dAtA m = decode ''QueryPoolBatchWithdrawMsgResponse'' QueryPoolBatchWithdrawMsgResponse_field (\<lambda>m bz. m) dAtA m"

definition QueryPoolBatchWithdrawMsgResponse_ok :: "QueryPoolBatchWithdrawMsgResponse \<Rightarrow> bool" where
  "QueryPoolBatchWithdrawMsgResponse_ok m \<longleftrightarrow> WithdrawMsgState_ok (QueryPoolBatchWithdrawMsgResponse_Withdraw m)"

section \<open>Sizes and round trips\<close>

lemma QueryPoolWithdrawSuccessMsgsRequest_Size_length [wire_size]: "QueryPoolWithdrawSuccessMsgsRequest_Size = (\<lambda>m. length (QueryPoolWithdrawSuccessMsgsRequest_Marshal m))"
  by (rule ext) (simp add: QueryPoolWithdrawSuccessMsgsRequest_Size_def QueryPoolWithdrawSuccessMsgsRequest_Marshal_def wire_length wire_size comp_def)

lemma QueryPoolWithdrawSuccessMsgsRequest_roundtrip [wire_msg]:
  assumes "length (QueryPoolWithdrawSuccessMsgsRequest_Marshal m) < 2 ^ 63"
  shows "QueryPoolWithdrawSuccessMsgsRequest_Unmarshal (QueryPoolWithdrawSuccessMsgsRequest_Marshal m) QueryPoolWithdrawSuccessMsgsRequest_zero = Inr m"
  unfolding QueryPoolWithdrawSuccessMsgsRequest_Unmarshal_def
  by (rule readsTo_decode [OF assms], unfold QueryPoolWithdrawSuccessMsgsRequest_Marshal_def QueryPoolWithdrawSuccessMsgsRequest_zero_def)
    ((rule reads, rule wire_tags, simp add: QueryPoolWithdrawSuccessMsgsRequest_field_def, simp add: wire_msg split: option.split)+, rule readsTo_Nil, simp)

lemma QueryPoolWithdrawSuccessMsgRequest_Size_length [wire_size]: "QueryPoolWithdrawSuccessMsgRequest_Size = (\<lambda>m. length (QueryPoolWithdrawSuccessMsgRequest_Marshal m))"
  by (rule ext) (simp add: QueryPoolWithdrawSuccessMsgRequest_Size_def QueryPoolWithdrawSuccessMsgRequest_Marshal_def wire_length wire_size comp_def)

lemma QueryPoolWithdrawSuccessMsgRequest_roundtrip [wire_msg]:
  assumes "length (QueryPoolWithdrawSuccessMsgRequest_Marshal m) < 2 ^ 63"
  shows "QueryPoolWithdrawSuccessMsgRequest_Unmarshal (QueryPoolWithdrawSuccessMsgRequest_Marshal m) QueryPoolWithdrawSuccessMsgRequest_zero = Inr m"
  unfolding QueryPoolWithdrawSuccessMsgRequest_Unmarshal_def
  by (rule readsTo_decode [OF assms], unfold QueryPoolWithdrawSuccessMsgRequest_Marshal_def QueryPoolWithdrawSuccessMsgRequest_zero_def)
    ((rule reads, rule wire_tags, simp add: QueryPoolWithdrawSuccessMsgRequest_field_def, simp add: wire_msg split: option.split)+, rule readsTo_Nil, simp)

lemma foldl_QueryPoolWithdrawSuccessMsgsResponse_Withdraws [simp]: "foldl (\<lambda>m n. m\<lparr>QueryPoolWithdrawSuccessMsgsResponse_Withdraws := QueryPoolWithdrawSuccessMsgsResponse_Withdraws m @ [n]\<rparr>) m ns = m\<lparr>QueryPoolWithdrawSuccessMsgsResponse_Withdraws := QueryPoolWithdrawSuccessMsgsResponse_Withdraws m @ ns\<rparr>"
  by (induction ns arbitrary: m) simp_all

lemma QueryPoolWithdrawSuccessMsgsResponse_Size_length [wire_size]: "QueryPoolWithdrawSuccessMsgsResponse_Size = (\<lambda>m. length (QueryPoolWithdrawSuccessMsgsResponse_Marshal m))"
  by (rule ext) (simp add: QueryPoolWithdrawSuccessMsgsResponse_Size_def QueryPoolWithdrawSuccessMsgsResponse_Marshal_def wire_length wire_size comp_def)

lemma QueryPoolWithdrawSuccessMsgsResponse_roundtrip [wire_msg]:
  assumes "QueryPoolWithdrawSuccessMsgsResponse_ok m" "length (QueryPoolWithdrawSuccessMsgsResponse_Marshal m) < 2 ^ 63"
  shows "QueryPoolWithdrawSuccessMsgsResponse_Unmarshal (QueryPoolWithdrawSuccessMsgsResponse_Marshal m) QueryPoolWithdrawSuccessMsgsResponse_zero = Inr m"
  unfolding QueryPoolWithdrawSuccessMsgsResponse_Unmarshal_def
  by (rule readsTo_decode [OF assms(2)], unfold QueryPoolWithdrawSuccessMsgsResponse_Marshal_def QueryPoolWithdrawSuccessMsgsResponse_zero_def)
    ((rule reads, rule wire_tags, simp add: QueryPoolWithdrawSuccessMsgsResponse_field_def, use assms in \<open>simp add: wire_msg QueryPoolWithdrawSuccessMsgsResponse_ok_def list_all_iff split: option.splits\<close>)+, rule readsTo_Nil, simp)

lemma QueryPoolWithdrawSuccessMsgResponse_Size_length [wire_size]: "QueryPoolWithdrawSuccessMsgResponse_Size = (\<lambda>m. length (QueryPoolWithdrawSuccessMsgResponse_Marshal m))"
  by (rule ext) (simp add: QueryPoolWithdrawSuccessMsgResponse_Size_def QueryPoolWithdrawSuccessMsgResponse_Marshal_def wire_length wire_size comp_def)

lemma QueryPoolWithdrawSuccessMsgResponse_roundtrip [wire_msg]:
  assumes "QueryPoolWithdrawSuccessMsgResponse_ok m" "length (QueryPoolWithdrawSuccessMsgResponse_Marshal m) < 2 ^ 63"
  shows "QueryPoolWithdrawSuccessMsgResponse_Unmarshal (QueryPoolWithdrawSuccessMsgResponse_Marshal m) QueryPoolWithdrawSuccessMsgResponse_zero = Inr m"
  unfolding QueryPoolWithdrawSuccessMsgResponse_Unmarshal_def
  by (rule readsTo_decode [OF assms(2)], unfold QueryPoolWithdrawSuccessMsgResponse_Marshal_def QueryPoolWithdrawSuccessMsgResponse_zero_def)
    ((rule reads, rule wire_tags, simp add: QueryPoolWithdrawSuccessMsgResponse_field_def, use assms in \<open>simp add: wire_msg QueryPoolWithdrawSuccessMsgResponse_ok_def list_all_iff split: option.splits\<close>)+, rule readsTo_Nil, simp)

lemma QueryPoolSwapSuccessMsgsRequest_Size_length [wire_size]: "QueryPoolSwapSuccessMsgsRequest_Size = (\<lambda>m. length (QueryPoolSwapSuccessMsgsRequest_Marshal m))"
  by (rule ext) (simp add: QueryPoolSwapSuccessMsgsRequest_Size_def QueryPoolSwapSuccessMsgsRequest_Marshal_def wire_length wire_size comp_def)

lemma QueryPoolSwapSuccessMsgsRequest_roundtrip [wire_msg]:
  assumes "length (QueryPoolSwapSuccessMsgsRequest_Marshal m) < 2 ^ 63"
  shows "QueryPoolSwapSuccessMsgsRequest_Unmarshal (QueryPoolSwapSuccessMsgsRequest_Marshal m) QueryPoolSwapSuccessMsgsRequest_zero = Inr m"
  unfolding QueryPoolSwapSuccessMsgsRequest_Unmarshal_def
  by (rule readsTo_decode [OF assms], unfold QueryPoolSwapSuccessMsgsRequest_Marshal_def QueryPoolSwapSuccessMsgsRequest_zero_def)
    ((rule reads, rule wire_tags, simp add: QueryPoolSwapSuccessMsgsRequest_field_def, simp add: wire_msg split: option.split)+, rule readsTo_Nil, simp)

lemma QueryPoolSwapSuccessMsgRequest_Size_length [wire_size]: "QueryPoolSwapSuccessMsgRequest_Size = (\<lambda>m. length (QueryPoolSwapSuccessMsgRequest_Marshal m))"
  by (rule ext) (simp add: QueryPoolSwapSuccessMsgRequest_Size_def QueryPoolSwapSuccessMsgRequest_Marshal_def wire_length wire_size comp_def)

lemma QueryPoolSwapSuccessMsgRequest_roundtrip [wire_msg]:
  assumes "length (QueryPoolSwapSuccessMsgRequest_Marshal m) < 2 ^ 63"
  shows "QueryPoolSwapSuccessMsgRequest_Unmarshal (QueryPoolSwapSuccessMsgRequest_Marshal m) QueryPoolSwapSuccessMsgRequest_zero = Inr m"
  unfolding QueryPoolSwapSuccessMsgRequest_Unmarshal_def
  by (rule readsTo_decode [OF assms], unfold QueryPoolSwapSuccessMsgRequest_Marshal_def QueryPoolSwapSuccessMsgRequest_zero_def)
    ((rule reads, rule wire_tags, simp add: QueryPoolSwapSuccessMsgRequest_field_def, simp add: wire_msg split: option.split)+, rule readsTo_Nil, simp)

lemma foldl_QueryPoolSwapSuccessMsgsResponse_Swaps [simp]: "foldl (\<lambda>m n. m\<lparr>QueryPoolSwapSuccessMsgsResponse_Swaps := QueryPoolSwapSuccessMsgsResponse_Swaps m @ [n]\<rparr>) m ns = m\<lparr>QueryPoolSwapSuccessMsgsResponse_Swaps := QueryPoolSwapSuccessMsgsResponse_Swaps m @ ns\<rparr>"
  by (induction ns arbitrary: m) simp_all

lemma QueryPoolSwapSuccessMsgsResponse_Size_length [wire_size]: "QueryPoolSwapSuccessMsgsResponse_Size = (\<lambda>m. length (QueryPoolSwapSuccessMsgsResponse_Marshal m))"
  by (rule ext) (simp add: QueryPoolSwapSuccessMsgsResponse_Size_def QueryPoolSwapSuccessMsgsResponse_Marshal_def wire_length wire_size comp_def)

lemma QueryPoolSwapSuccessMsgsResponse_roundtrip [wire_msg]:
  assumes "QueryPoolSwapSuccessMsgsResponse_ok m" "length (QueryPoolSwapSuccessMsgsResponse_Marshal m) < 2 ^ 63"
  shows "QueryPoolSwapSuccessMsgsResponse_Unmarshal (QueryPoolSwapSuccessMsgsResponse_Marshal m) QueryPoolSwapSuccessMsgsResponse_zero = Inr m"
  unfolding QueryPoolSwapSuccessMsgsResponse_Unmarshal_def
  by (rule readsTo_decode [OF assms(2)], unfold QueryPoolSwapSuccessMsgsResponse_Marshal_def QueryPoolSwapSuccessMsgsResponse_zero_def)
    ((rule reads, rule wire_tags, simp add: QueryPoolSwapSuccessMsgsResponse_field_def, use assms in \<open>simp add: wire_msg QueryPoolSwapSuccessMsgsResponse_ok_def list_all_iff split: option.splits\<close>)+, rule readsTo_Nil, simp)

lemma QueryPoolSwapSuccessMsgResponse_Size_length [wire_size]: "QueryPoolSwapSuccessMsgResponse_Size = (\<lambda>m. length (QueryPoolSwapSuccessMsgResponse_Marshal m))"
  by (rule ext) (simp add: QueryPoolSwapSuccessMsgResponse_Size_def QueryPoolSwapSuccessMsgResponse_Marshal_def wire_length wire_size comp_def)

lemma QueryPoolSwapSuccessMsgResponse_roundtrip [wire_msg]:
  assumes "QueryPoolSwapSuccessMsgResponse_ok m" "length (QueryPoolSwapSuccessMsgResponse_Marshal m) < 2 ^ 63"
  shows "QueryPoolSwapSuccessMsgResponse_Unmarshal (QueryPoolSwapSuccessMsgResponse_Marshal m) QueryPoolSwapSuccessMsgResponse_zero = Inr m"
  unfolding QueryPoolSwapSuccessMsgResponse_Unmarshal_def
  by (rule readsTo_decode [OF assms(2)], unfold QueryPoolSwapSuccessMsgResponse_Marshal_def QueryPoolSwapSuccessMsgResponse_zero_def)
    ((rule reads, rule wire_tags, simp add: QueryPoolSwapSuccessMsgResponse_field_def, use assms in \<open>simp add: wire_msg QueryPoolSwapSuccessMsgResponse_ok_def list_all_iff split: option.splits\<close>)+, rule readsTo_Nil, simp)

lemma QueryPoolDepositSuccessMsgsRequest_Size_length [wire_size]: "QueryPoolDepositSuccessMsgsRequest_Size = (\<lambda>m. length (QueryPoolDepositSuccessMsgsRequest_Marshal m))"
  by (rule ext) (simp add: QueryPoolDepositSuccessMsgsRequest_Size_def QueryPoolDepositSuccessMsgsRequest_Marshal_def wire_length wire_size comp_def)

lemma QueryPoolDepositSuccessMsgsRequest_roundtrip [wire_msg]:
  assumes "length (QueryPoolDepositSuccessMsgsRequest_Marshal m) < 2 ^ 63"
  shows "QueryPoolDepositSuccessMsgsRequest_Unmarshal (QueryPoolDepositSuccessMsgsRequest_Marshal m) QueryPoolDepositSuccessMsgsRequest_zero = Inr m"
  unfolding QueryPoolDepositSuccessMsgsRequest_Unmarshal_def
  by (rule readsTo_decode [OF assms], unfold QueryPoolDepositSuccessMsgsRequest_Marshal_def QueryPoolDepositSuccessMsgsRequest_zero_def)
    ((rule reads, rule wire_tags, simp add: QueryPoolDepositSuccessMsgsRequest_field_def, simp add: wire_msg split: option.split)+, rule readsTo_Nil, simp)

lemma QueryPoolDepositSuccessMsgRequest_Size_length [wire_size]: "QueryPoolDepositSuccessMsgRequest_Size = (\<lambda>m. length (QueryPoolDepositSuccessMsgRequest_Marshal m))"
  by (rule ext) (simp add: QueryPoolDepositSuccessMsgRequest_Size_def QueryPoolDepositSuccessMsgRequest_Marshal_def wire_length wire_size comp_def)

lemma QueryPoolDepositSuccessMsgRequest_roundtrip [wire_msg]:
  assumes "length (QueryPoolDepositSuccessMsgRequest_Marshal m) < 2 ^ 63"
  shows "QueryPoolDepositSuccessMsgRequest_Unmarshal (QueryPoolDepositSuccessMsgRequest_Marshal m) QueryPoolDepositSuccessMsgRequest_zero = Inr m"
  unfolding QueryPoolDepositSuccessMsgRequest_Unmarshal_def
  by (rule readsTo_decode [OF assms], unfold QueryPoolDepositSuccessMsgRequest_Marshal_def QueryPoolDepositSuccessMsgRequest_zero_def)
    ((rule reads, rule wire_tags, simp add: QueryPoolDepositSuccessMsgRequest_field_def, simp add: wire_msg split: option.split)+, rule readsTo_Nil, simp)

lemma foldl_QueryPoolDepositSuccessMsgsResponse_Deposits [simp]: "foldl (\<lambda>m n. m\<lparr>QueryPoolDepositSuccessMsgsResponse_Deposits := QueryPoolDepositSuccessMsgsResponse_Deposits m @ [n]\<rparr>) m ns = m\<lparr>QueryPoolDepositSuccessMsgsResponse_Deposits := QueryPoolDepositSuccessMsgsResponse_Deposits m @ ns\<rparr>"
  by (induction ns arbitrary: m) simp_all

lemma QueryPoolDepositSuccessMsgsResponse_Size_length [wire_size]: "QueryPoolDepositSuccessMsgsResponse_Size = (\<lambda>m. length (QueryPoolDepositSuccessMsgsResponse_Marshal m))"
  by (rule ext) (simp add: QueryPoolDepositSuccessMsgsResponse_Size_def QueryPoolDepositSuccessMsgsResponse_Marshal_def wire_length wire_size comp_def)

lemma QueryPoolDepositSuccessMsgsResponse_roundtrip [wire_msg]:
  assumes "QueryPoolDepositSuccessMsgsResponse_ok m" "length (QueryPoolDepositSuccessMsgsResponse_Marshal m) < 2 ^ 63"
  shows "QueryPoolDepositSuccessMsgsResponse_Unmarshal (QueryPoolDepositSuccessMsgsResponse_Marshal m) QueryPoolDepositSuccessMsgsResponse_zero = Inr m"
  unfolding QueryPoolDepositSuccessMsgsResponse_Unmarshal_def
  by (rule readsTo_decode [OF assms(2)], unfold QueryPoolDepositSuccessMsgsResponse_Marshal_def QueryPoolDepositSuccessMsgsResponse_zero_def)
    ((rule reads, rule wire_tags, simp add: QueryPoolDepositSuccessMsgsResponse_field_def, use assms in \<open>simp add: wire_msg QueryPoolDepositSuccessMsgsResponse_ok_def list_all_iff split: option.splits\<close>)+, rule readsTo_Nil, simp)

lemma QueryPoolDepositSuccessMsgResponse_Size_length [wire_size]: "QueryPoolDepositSuccessMsgResponse_Size = (\<lambda>m. length (QueryPoolDepositSuccessMsgResponse_Marshal m))"
  by (rule ext) (simp add: QueryPoolDepositSuccessMsgResponse_Size_def QueryPoolDepositSuccessMsgResponse_Marshal_def wire_length wire_size comp_def)

lemma QueryPoolDepositSuccessMsgResponse_roundtrip [wire_msg]:
  assumes "QueryPoolDepositSuccessMsgResponse_ok m" "length (QueryPoolDepositSuccessMsgResponse_Marshal m) < 2 ^ 63"
  shows "QueryPoolDepositSuccessMsgResponse_Unmarshal (QueryPoolDepositSuccessMsgResponse_Marshal m) QueryPoolDepositSuccessMsgResponse_zero = Inr m"
  unfolding QueryPoolDepositSuccessMsgResponse_Unmarshal_def
  by (rule readsTo_decode [OF assms(2)], unfold QueryPoolDepositSuccessMsgResponse_Marshal_def QueryPoolDepositSuccessMsgResponse_zero_def)
    ((rule reads, rule wire_tags, simp add: QueryPoolDepositSuccessMsgResponse_field_def, use assms in \<open>simp add: wire_msg QueryPoolDepositSuccessMsgResponse_ok_def list_all_iff split: option.splits\<close>)+, rule readsTo_Nil, simp)

lemma QueryLiquidityPoolRequest_Size_length [wire_size]: "QueryLiquidityPoolRequest_Size = (\<lambda>m. length (QueryLiquidityPoolRequest_Marshal m))"
  by (rule ext) (simp add: QueryLiquidityPoolRequest_Size_def QueryLiquidityPoolRequest_Marshal_def wire_length wire_size comp_def)

lemma QueryLiquidityPoolRequest_roundtrip [wire_msg]:
  assumes "length (QueryLiquidityPoolRequest_Marshal m) < 2 ^ 63"
  shows "QueryLiquidityPoolRequest_Unmarshal (QueryLiquidityPoolRequest_Marshal m) QueryLiquidityPoolRequest_zero = Inr m"
  unfolding QueryLiquidityPoolRequest_Unmarshal_def
  by (rule readsTo_decode [OF assms], unfold QueryLiquidityPoolRequest_Marshal_def QueryLiquidityPoolRequest_zero_def)
    ((rule reads, rule wire_tags, simp add: QueryLiquidityPoolRequest_field_def, simp add: wire_msg split: option.split)+, rule readsTo_Nil, simp)

lemma QueryLiquidityPoolResponse_Size_length [wire_size]: "QueryLiquidityPoolResponse_Size = (\<lambda>m. length (QueryLiquidityPoolResponse_Marshal m))"
  by (rule ext) (simp add: QueryLiquidityPoolResponse_Size_def QueryLiquidityPoolResponse_Marshal_def wire_length wire_size comp_def)

lemma QueryLiquidityPoolResponse_roundtrip [wire_msg]:
  assumes "length (QueryLiquidityPoolResponse_Marshal m) < 2 ^ 63"
  shows "QueryLiquidityPoolResponse_Unmarshal (QueryLiquidityPoolResponse_Marshal m) QueryLiquidityPoolResponse_zero = Inr m"
  unfolding QueryLiquidityPoolResponse_Unmarshal_def
  by (rule readsTo_decode [OF assms], unfold QueryLiquidityPoolResponse_Marshal_def QueryLiquidityPoolResponse_zero_def)
    ((rule reads, rule wire_tags, simp add: QueryLiquidityPoolResponse_field_def, simp add: wire_msg split: option.split)+, rule readsTo_Nil, simp)

lemma QueryLiquidityPoolByPoolCoinDenomRequest_Size_length [wire_size]: "QueryLiquidityPoolByPoolCoinDenomRequest_Size = (\<lambda>m. length (QueryLiquidityPoolByPoolCoinDenomRequest_Marshal m))"
  by (rule ext) (simp add: QueryLiquidityPoolByPoolCoinDenomRequest_Size_def QueryLiquidityPoolByPoolCoinDenomRequest_Marshal_def wire_length wire_size comp_def)

lemma QueryLiquidityPoolByPoolCoinDenomRequest_roundtrip [wire_msg]:
  assumes "length (QueryLiquidityPoolByPoolCoinDenomRequest_Marshal m) < 2 ^ 63"
  shows "QueryLiquidityPoolByPoolCoinDenomRequest_Unmarshal (QueryLiquidityPoolByPoolCoinDenomRequest_Marshal m) QueryLiquidityPoolByPoolCoinDenomRequest_zero = Inr m"
  unfolding QueryLiquidityPoolByPoolCoinDenomRequest_Unmarshal_def
  by (rule readsTo_decode [OF assms], unfold QueryLiquidityPoolByPoolCoinDenomRequest_Marshal_def QueryLiquidityPoolByPoolCoinDenomRequest_zero_def)
    ((rule reads, rule wire_tags, simp add: QueryLiquidityPoolByPoolCoinDenomRequest_field_def, simp add: wire_msg split: option.split)+, rule readsTo_Nil, simp)

lemma QueryLiquidityPoolByReserveAccRequest_Size_length [wire_size]: "QueryLiquidityPoolByReserveAccRequest_Size = (\<lambda>m. length (QueryLiquidityPoolByReserveAccRequest_Marshal m))"
  by (rule ext) (simp add: QueryLiquidityPoolByReserveAccRequest_Size_def QueryLiquidityPoolByReserveAccRequest_Marshal_def wire_length wire_size comp_def)

lemma QueryLiquidityPoolByReserveAccRequest_roundtrip [wire_msg]:
  assumes "length (QueryLiquidityPoolByReserveAccRequest_Marshal m) < 2 ^ 63"
  shows "QueryLiquidityPoolByReserveAccRequest_Unmarshal (QueryLiquidityPoolByReserveAccRequest_Marshal m) QueryLiquidityPoolByReserveAccRequest_zero = Inr m"
  unfolding QueryLiquidityPoolByReserveAccRequest_Unmarshal_def
  by (rule readsTo_decode [OF assms], unfold QueryLiquidityPoolByReserveAccRequest_Marshal_def QueryLiquidityPoolByReserveAccRequest_zero_def)
    ((rule reads, rule wire_tags, simp add: QueryLiquidityPoolByReserveAccRequest_field_def, simp add: wire_msg split: option.split)+, rule readsTo_Nil, simp)

lemma QueryLiquidityPoolBatchRequest_Size_length [wire_size]: "QueryLiquidityPoolBatchRequest_Size = (\<lambda>m. length (QueryLiquidityPoolBatchRequest_Marshal m))"
  by (rule ext) (simp add: QueryLiquidityPoolBatchRequest_Size_def QueryLiquidityPoolBatchRequest_Marshal_def wire_length wire_size comp_def)

lemma QueryLiquidityPoolBatchRequest_roundtrip [wire_msg]:
  assumes "length (QueryLiquidityPoolBatchRequest_Marshal m) < 2 ^ 63"
  shows "QueryLiquidityPoolBatchRequest_Unmarshal (QueryLiquidityPoolBatchRequest_Marshal m) QueryLiquidityPoolBatchRequest_zero = Inr m"
  unfolding QueryLiquidityPoolBatchRequest_Unmarshal_def
  by (rule readsTo_decode [OF assms], unfold QueryLiquidityPoolBatchRequest_Marshal_def QueryLiquidityPoolBatchRequest_zero_def)
    ((rule reads, rule wire_tags, simp add: QueryLiquidityPoolBatchRequest_field_def, simp add: wire_msg split: option.split)+, rule readsTo_Nil, simp)

lemma QueryLiquidityPoolBatchResponse_Size_length [wire_size]: "QueryLiquidityPoolBatchResponse_Size = (\<lambda>m. length (QueryLiquidityPoolBatchResponse_Marshal m))"
  by (rule ext) (simp add: QueryLiquidityPoolBatchResponse_Size_def QueryLiquidityPoolBatchResponse_Marshal_def wire_length wire_size comp_def)

lemma QueryLiquidityPoolBatchResponse_roundtrip [wire_msg]:
  assumes "length (QueryLiquidityPoolBatchResponse_Marshal m) < 2 ^ 63"
  shows "QueryLiquidityPoolBatchResponse_Unmarshal (QueryLiquidityPoolBatchResponse_Marshal m) QueryLiquidityPoolBatchResponse_zero = Inr m"
  unfolding QueryLiquidityPoolBatchResponse_Unmarshal_def
  by (rule readsTo_decode [OF assms], unfold QueryLiquidityPoolBatchResponse_Marshal_def QueryLiquidityPoolBatchResponse_zero_def)
    ((rule reads, rule wire_tags, simp add: QueryLiquidityPoolBatchResponse_field_def, simp add: wire_msg split: option.split)+, rule readsTo_Nil, simp)

lemma QueryLiquidityPoolsRequest_Size_length [wire_size]: "QueryLiquidityPoolsRequest_Size = (\<lambda>m. length (QueryLiquidityPoolsRequest_Marshal m))"
  by (rule ext) (simp add: QueryLiquidityPoolsRequest_Size_def QueryLiquidityPoolsRequest_Marshal_def wire_length wire_size comp_def)

lemma QueryLiquidityPoolsRequest_roundtrip [wire_msg]:
  assumes "length (QueryLiquidityPoolsRequest_Marshal m) < 2 ^ 63"
  shows "QueryLiquidityPoolsRequest_Unmarshal (QueryLiquidityPoolsRequest_Marshal m) QueryLiquidityPoolsRequest_zero = Inr m"
  unfolding QueryLiquidityPoolsRequest_Unmarshal_def
  by (rule readsTo_decode [OF assms], unfold QueryLiquidityPoolsRequest_Marshal_def QueryLiquidityPoolsRequest_zero_def)
    ((rule reads, rule wire_tags, simp add: QueryLiquidityPoolsRequest_field_def, simp add: wire_msg split: option.split)+, rule readsTo_Nil, simp)

lemma foldl_QueryLiquidityPoolsResponse_Pools [simp]: "foldl (\<lambda>m n. m\<lparr>QueryLiquidityPoolsResponse_Pools := QueryLiquidityPoolsResponse_Pools m @ [n]\<rparr>) m ns = m\<lparr>QueryLiquidityPoolsResponse_Pools := QueryLiquidityPoolsResponse_Pools m @ ns\<rparr>"
  by (induction ns arbitrary: m) simp_all

lemma QueryLiquidityPoolsResponse_Size_length [wire_size]: "QueryLiquidityPoolsResponse_Size = (\<lambda>m. length (QueryLiquidityPoolsResponse_Marshal m))"
  by (rule ext) (simp add: QueryLiquidityPoolsResponse_Size_def QueryLiquidityPoolsResponse_Marshal_def wire_length wire_size comp_def)

lemma QueryLiquidityPoolsResponse_roundtrip [wire_msg]:
  assumes "length (QueryLiquidityPoolsResponse_Marshal m) < 2 ^ 63"
  shows "QueryLiquidityPoolsResponse_Unmarshal (QueryLiquidityPoolsResponse_Marshal m) QueryLiquidityPoolsResponse_zero = Inr m"
  unfolding QueryLiquidityPoolsResponse_Unmarshal_def
  by (rule readsTo_decode [OF assms], unfold QueryLiquidityPoolsResponse_Marshal_def QueryLiquidityPoolsResponse_zero_def)
    ((rule reads, rule wire_tags, simp add: QueryLiquidityPoolsResponse_field_def, simp add: wire_msg split: option.split)+, rule readsTo_Nil, simp)

lemma QueryParamsRequest_Size_length [wire_size]: "QueryParamsRequest_Size = (\<lambda>m. length (QueryParamsRequest_Marshal m))"
  by (rule ext) (simp add: QueryParamsRequest_Size_def QueryParamsRequest_Marshal_def wire_length wire_size comp_def)

lemma QueryParamsRequest_roundtrip [wire_msg]: "QueryParamsRequest_Unmarshal (QueryParamsRequest_Marshal m) QueryParamsRequest_zero = Inr m"
  by (cases m) (simp add: QueryParamsRequest_Unmarshal_def QueryParamsRequest_Marshal_def QueryParamsRequest_zero_def decode_def)

lemma QueryParamsResponse_Size_length [wire_size]: "QueryParamsResponse_Size = (\<lambda>m. length (QueryParamsResponse_Marshal m))"
  by (rule ext) (simp add: QueryParamsResponse_Size_def QueryParamsResponse_Marshal_def wire_length wire_size comp_def)

lemma QueryParamsResponse_roundtrip [wire_msg]:
  assumes "QueryParamsResponse_ok m" "length (QueryParamsResponse_Marshal m) < 2 ^ 63"
  shows "QueryParamsResponse_Unmarshal (QueryParamsResponse_Marshal m) QueryParamsResponse_zero = Inr m"
  unfolding QueryParamsResponse_Unmarshal_def
  by (rule readsTo_decode [OF assms(2)], unfold QueryParamsResponse_Marshal_def QueryParamsResponse_zero_def)
    ((rule reads, rule wire_tags, simp add: QueryParamsResponse_field_def, use assms in \<open>simp add: wire_msg QueryParamsResponse_ok_def list_all_iff split: option.splits\<close>)+, rule readsTo_Nil, simp)

lemma QueryPoolBatchSwapMsgsRequest_Size_length [wire_size]: "QueryPoolBatchSwapMsgsRequest_Size = (\<lambda>m. length (QueryPoolBatchSwapMsgsRequest_Marshal m))"
  by (rule ext) (simp add: QueryPoolBatchSwapMsgsRequest_Size_def QueryPoolBatchSwapMsgsRequest_Marshal_def wire_length wire_size comp_def)

lemma QueryPoolBatchSwapMsgsRequest_roundtrip [wire_msg]:
  assumes "length (QueryPoolBatchSwapMsgsRequest_Marshal m) < 2 ^ 63"
  shows "QueryPoolBatchSwapMsgsRequest_Unmarshal (QueryPoolBatchSwapMsgsRequest_Marshal m) QueryPoolBatchSwapMsgsRequest_zero = Inr m"
  unfolding QueryPoolBatchSwapMsgsRequest_Unmarshal_def
  by (rule readsTo_decode [OF assms], unfold QueryPoolBatchSwapMsgsRequest_Marshal_def QueryPoolBatchSwapMsgsRequest_zero_def)
    ((rule reads, rule wire_tags, simp add: QueryPoolBatchSwapMsgsRequest_field_def, simp add: wire_msg split: option.split)+, rule readsTo_Nil, simp)

lemma QueryPoolBatchSwapMsgRequest_Size_length [wire_size]: "QueryPoolBatchSwapMsgRequest_Size = (\<lambda>m. length (QueryPoolBatchSwapMsgRequest_Marshal m))"
  by (rule ext) (simp add: QueryPoolBatchSwapMsgRequest_Size_def QueryPoolBatchSwapMsgRequest_Marshal_def wire_length wire_size comp_def)

lemma QueryPoolBatchSwapMsgRequest_roundtrip [wire_msg]:
  assumes "length (QueryPoolBatchSwapMsgRequest_Marshal m) < 2 ^ 63"
  shows "QueryPoolBatchSwapMsgRequest_Unmarshal (QueryPoolBatchSwapMsgRequest_Marshal m) QueryPoolBatchSwapMsgRequest_zero = Inr m"
  unfolding QueryPoolBatchSwapMsgRequest_Unmarshal_def
  by (rule readsTo_decode [OF assms], unfold QueryPoolBatchSwapMsgRequest_Marshal_def QueryPoolBatchSwapMsgRequest_zero_def)
    ((rule reads, rule wire_tags, simp add: QueryPoolBatchSwapMsgRequest_field_def, simp add: wire_msg split: option.split)+, rule readsTo_Nil, simp)

lemma foldl_QueryPoolBatchSwapMsgsResponse_Swaps [simp]: "foldl (\<lambda>m n. m\<lparr>QueryPoolBatchSwapMsgsResponse_Swaps := QueryPoolBatchSwapMsgsResponse_Swaps m @ [n]\<rparr>) m ns = m\<lparr>QueryPoolBatchSwapMsgsResponse_Swaps := QueryPoolBatchSwapMsgsResponse_Swaps m @ ns\<rparr>"
  by (induction ns arbitrary: m) simp_all

lemma QueryPoolBatchSwapMsgsResponse_Size_length [wire_size]: "QueryPoolBatchSwapMsgsResponse_Size = (\<lambda>m. length (QueryPoolBatchSwapMsgsResponse_Marshal m))"
  by (rule ext) (simp add: QueryPoolBatchSwapMsgsResponse_Size_def QueryPoolBatchSwapMsgsResponse_Marshal_def wire_length wire_size comp_def)

lemma QueryPoolBatchSwapMsgsResponse_roundtrip [wire_msg]:
  assumes "QueryPoolBatchSwapMsgsResponse_ok m" "length (QueryPoolBatchSwapMsgsResponse_Marshal m) < 2 ^ 63"
  shows "QueryPoolBatchSwapMsgsResponse_Unmarshal (QueryPoolBatchSwapMsgsResponse_Marshal m) QueryPoolBatchSwapMsgsResponse_zero = Inr m"
  unfolding QueryPoolBatchSwapMsgsResponse_Unmarshal_def
  by (rule readsTo_decode [OF assms(2)], unfold QueryPoolBatchSwapMsgsResponse_Marshal_def QueryPoolBatchSwapMsgsResponse_zero_def)
    ((rule reads, rule wire_tags, simp add: QueryPoolBatchSwapMsgsResponse_field_def, use assms in \<open>simp add: wire_msg QueryPoolBatchSwapMsgsResponse_ok_def list_all_iff split: option.splits\<close>)+, rule readsTo_Nil, simp)

lemma QueryPoolBatchSwapMsgResponse_Size_length [wire_size]: "QueryPoolBatchSwapMsgResponse_Size = (\<lambda>m. length (QueryPoolBatchSwapMsgResponse_Marshal m))"
  by (rule ext) (simp add: QueryPoolBatchSwapMsgResponse_Size_def QueryPoolBatchSwapMsgResponse_Marshal_def wire_length wire_size comp_def)

lemma QueryPoolBatchSwapMsgResponse_roundtrip [wire_msg]:
  assumes "QueryPoolBatchSwapMsgResponse_ok m" "length (QueryPoolBatchSwapMsgResponse_Marshal m) < 2 ^ 63"
  shows "QueryPoolBatchSwapMsgResponse_Unmarshal (QueryPoolBatchSwapMsgResponse_Marshal m) QueryPoolBatchSwapMsgResponse_zero = Inr m"
  unfolding QueryPoolBatchSwapMsgResponse_Unmarshal_def
  by (rule readsTo_decode [OF assms(2)], unfold QueryPoolBatchSwapMsgResponse_Marshal_def QueryPoolBatchSwapMsgResponse_zero_def)
    ((rule reads, rule wire_tags, simp add: QueryPoolBatchSwapMsgResponse_field_def, use assms in \<open>simp add: wire_msg QueryPoolBatchSwapMsgResponse_ok_def list_all_iff split: option.splits\<close>)+, rule readsTo_Nil, simp)

lemma QueryPoolBatchDepositMsgsRequest_Size_length [wire_size]: "QueryPoolBatchDepositMsgsRequest_Size = (\<lambda>m. length (QueryPoolBatchDepositMsgsRequest_Marshal m))"
  by (rule ext) (simp add: QueryPoolBatchDepositMsgsRequest_Size_def QueryPoolBatchDepositMsgsRequest_Marshal_def wire_length wire_size comp_def)

lemma QueryPoolBatchDepositMsgsRequest_roundtrip [wire_msg]:
  assumes "length (QueryPoolBatchDepositMsgsRequest_Marshal m) < 2 ^ 63"
  shows "QueryPoolBatchDepositMsgsRequest_Unmarshal (QueryPoolBatchDepositMsgsRequest_Marshal m) QueryPoolBatchDepositMsgsRequest_zero = Inr m"
  unfolding QueryPoolBatchDepositMsgsRequest_Unmarshal_def
  by (rule readsTo_decode [OF assms], unfold QueryPoolBatchDepositMsgsRequest_Marshal_def QueryPoolBatchDepositMsgsRequest_zero_def)
    ((rule reads, rule wire_tags, simp add: QueryPoolBatchDepositMsgsRequest_field_def, simp add: wire_msg split: option.split)+, rule readsTo_Nil, simp)

lemma QueryPoolBatchDepositMsgRequest_Size_length [wire_size]: "QueryPoolBatchDepositMsgRequest_Size = (\<lambda>m. length (QueryPoolBatchDepositMsgRequest_Marshal m))"
  by (rule ext) (simp add: QueryPoolBatchDepositMsgRequest_Size_def QueryPoolBatchDepositMsgRequest_Marshal_def wire_length wire_size comp_def)

lemma QueryPoolBatchDepositMsgRequest_roundtrip [wire_msg]:
  assumes "length (QueryPoolBatchDepositMsgRequest_Marshal m) < 2 ^ 63"
  shows "QueryPoolBatchDepositMsgRequest_Unmarshal (QueryPoolBatchDepositMsgRequest_Marshal m) QueryPoolBatchDepositMsgRequest_zero = Inr m"
  unfolding QueryPoolBatchDepositMsgRequest_Unmarshal_def
  by (rule readsTo_decode [OF assms], unfold QueryPoolBatchDepositMsgRequest_Marshal_def QueryPoolBatchDepositMsgRequest_zero_def)
    ((rule reads, rule wire_tags, simp add: QueryPoolBatchDepositMsgRequest_field_def, simp add: wire_msg split: option.split)+, rule readsTo_Nil, simp)

lemma foldl_QueryPoolBatchDepositMsgsResponse_Deposits [simp]: "foldl (\<lambda>m n. m\<lparr>QueryPoolBatchDepositMsgsResponse_Deposits := QueryPoolBatchDepositMsgsResponse_Deposits m @ [n]\<rparr>) m ns = m\<lparr>QueryPoolBatchDepositMsgsResponse_Deposits := QueryPoolBatchDepositMsgsResponse_Deposits m @ ns\<rparr>"
  by (induction ns arbitrary: m) simp_all

lemma QueryPoolBatchDepositMsgsResponse_Size_length [wire_size]: "QueryPoolBatchDepositMsgsResponse_Size = (\<lambda>m. length (QueryPoolBatchDepositMsgsResponse_Marshal m))"
  by (rule ext) (simp add: QueryPoolBatchDepositMsgsResponse_Size_def QueryPoolBatchDepositMsgsResponse_Marshal_def wire_length wire_size comp_def)

lemma QueryPoolBatchDepositMsgsResponse_roundtrip [wire_msg]:
  assumes "QueryPoolBatchDepositMsgsResponse_ok m" "length (QueryPoolBatchDepositMsgsResponse_Marshal m) < 2 ^ 63"
  shows "QueryPoolBatchDepositMsgsResponse_Unmarshal (QueryPoolBatchDepositMsgsResponse_Marshal m) QueryPoolBatchDepositMsgsResponse_zero = Inr m"
  unfolding QueryPoolBatchDepositMsgsResponse_Unmarshal_def
  by (rule readsTo_decode [OF assms(2)], unfold QueryPoolBatchDepositMsgsResponse_Marshal_def QueryPoolBatchDepositMsgsResponse_zero_def)
    ((rule reads, rule wire_tags, simp add: QueryPoolBatchDepositMsgsResponse_field_def, use assms in \<open>simp add: wire_msg QueryPoolBatchDepositMsgsResponse_ok_def list_all_iff split: option.splits\<close>)+, rule readsTo_Nil, simp)

lemma QueryPoolBatchDepositMsgResponse_Size_length [wire_size]: "QueryPoolBatchDepositMsgResponse_Size = (\<lambda>m. length (QueryPoolBatchDepositMsgResponse_Marshal m))"
  by (rule ext) (simp add: QueryPoolBatchDepositMsgResponse_Size_def QueryPoolBatchDepositMsgResponse_Marshal_def wire_length wire_size comp_def)

lemma QueryPoolBatchDepositMsgResponse_roundtrip [wire_msg]:
  assumes "QueryPoolBatchDepositMsgResponse_ok m" "length (QueryPoolBatchDepositMsgResponse_Marshal m) < 2 ^ 63"
  shows "QueryPoolBatchDepositMsgResponse_Unmarshal (QueryPoolBatchDepositMsgResponse_Marshal m) QueryPoolBatchDepositMsgResponse_zero = Inr m"
  unfolding QueryPoolBatchDepositMsgResponse_Unmarshal_def
  by (rule readsTo_decode [OF assms(2)], unfold QueryPoolBatchDepositMsgResponse_Marshal_def QueryPoolBatchDepositMsgResponse_zero_def)
    ((rule reads, rule wire_tags, simp add: QueryPoolBatchDepositMsgResponse_field_def, use assms in \<open>simp add: wire_msg QueryPoolBatchDepositMsgResponse_ok_def list_all_iff split: option.splits\<close>)+, rule readsTo_Nil, simp)

lemma QueryPoolBatchWithdrawMsgsRequest_Size_length [wire_size]: "QueryPoolBatchWithdrawMsgsRequest_Size = (\<lambda>m. length (QueryPoolBatchWithdrawMsgsRequest_Marshal m))"
  by (rule ext) (simp add: QueryPoolBatchWithdrawMsgsRequest_Size_def QueryPoolBatchWithdrawMsgsRequest_Marshal_def wire_length wire_size comp_def)

lemma QueryPoolBatchWithdrawMsgsRequest_roundtrip [wire_msg]:
  assumes "length (QueryPoolBatchWithdrawMsgsRequest_Marshal m) < 2 ^ 63"
  shows "QueryPoolBatchWithdrawMsgsRequest_Unmarshal (QueryPoolBatchWithdrawMsgsRequest_Marshal m) QueryPoolBatchWithdrawMsgsRequest_zero = Inr m"
  unfolding QueryPoolBatchWithdrawMsgsRequest_Unmarshal_def
  by (rule readsTo_decode [OF assms], unfold QueryPoolBatchWithdrawMsgsRequest_Marshal_def QueryPoolBatchWithdrawMsgsRequest_zero_def)
    ((rule reads, rule wire_tags, simp add: QueryPoolBatchWithdrawMsgsRequest_field_def, simp add: wire_msg split: option.split)+, rule readsTo_Nil, simp)

lemma QueryPoolBatchWithdrawMsgRequest_Size_length [wire_size]: "QueryPoolBatchWithdrawMsgRequest_Size = (\<lambda>m. length (QueryPoolBatchWithdrawMsgRequest_Marshal m))"
  by (rule ext) (simp add: QueryPoolBatchWithdrawMsgRequest_Size_def QueryPoolBatchWithdrawMsgRequest_Marshal_def wire_length wire_size comp_def)

lemma QueryPoolBatchWithdrawMsgRequest_roundtrip [wire_msg]:
  assumes "length (QueryPoolBatchWithdrawMsgRequest_Marshal m) < 2 ^ 63"
  shows "QueryPoolBatchWithdrawMsgRequest_Unmarshal (QueryPoolBatchWithdrawMsgRequest_Marshal m) QueryPoolBatchWithdrawMsgRequest_zero = Inr m"
  unfolding QueryPoolBatchWithdrawMsgRequest_Unmarshal_def
  by (rule readsTo_decode [OF assms], unfold QueryPoolBatchWithdrawMsgRequest_Marshal_def QueryPoolBatchWithdrawMsgRequest_zero_def)
    ((rule reads, rule wire_tags, simp add: QueryPoolBatchWithdrawMsgRequest_field_def, simp add: wire_msg split: option.split)+, rule readsTo_Nil, simp)

lemma foldl_QueryPoolBatchWithdrawMsgsResponse_Withdraws [simp]: "foldl (\<lambda>m n. m\<lparr>QueryPoolBatchWithdrawMsgsResponse_Withdraws := QueryPoolBatchWithdrawMsgsResponse_Withdraws m @ [n]\<rparr>) m ns = m\<lparr>QueryPoolBatchWithdrawMsgsResponse_Withdraws := QueryPoolBatchWithdrawMsgsResponse_Withdraws m @ ns\<rparr>"
  by (induction ns arbitrary: m) simp_all

lemma QueryPoolBatchWithdrawMsgsResponse_Size_length [wire_size]: "QueryPoolBatchWithdrawMsgsResponse_Size = (\<lambda>m. length (QueryPoolBatchWithdrawMsgsResponse_Marshal m))"
  by (rule ext) (simp add: QueryPoolBatchWithdrawMsgsResponse_Size_def QueryPoolBatchWithdrawMsgsResponse_Marshal_def wire_length wire_size comp_def)

lemma QueryPoolBatchWithdrawMsgsResponse_roundtrip [wire_msg]:
  assumes "QueryPoolBatchWithdrawMsgsResponse_ok m" "length (QueryPoolBatchWithdrawMsgsResponse_Marshal m) < 2 ^ 63"
  shows "QueryPoolBatchWithdrawMsgsResponse_Unmarshal (QueryPoolBatchWithdrawMsgsResponse_Marshal m) QueryPoolBatchWithdrawMsgsResponse_zero = Inr m"
  unfolding QueryPoolBatchWithdrawMsgsResponse_Unmarshal_def
  by (rule readsTo_decode [OF assms(2)], unfold QueryPoolBatchWithdrawMsgsResponse_Marshal_def QueryPoolBatchWithdrawMsgsResponse_zero_def)
    ((rule reads, rule wire_tags, simp add: QueryPoolBatchWithdrawMsgsResponse_field_def, use assms in \<open>simp add: wire_msg QueryPoolBatchWithdrawMsgsResponse_ok_def list_all_iff split: option.splits\<close>)+, rule readsTo_Nil, simp)

lemma QueryPoolBatchWithdrawMsgResponse_Size_length [wire_size]: "QueryPoolBatchWithdrawMsgResponse_Size = (\<lambda>m. length (QueryPoolBatchWithdrawMsgResponse_Marshal m))"
  by (rule ext) (simp add: QueryPoolBatchWithdrawMsgResponse_Size_def QueryPoolBatchWithdrawMsgResponse_Marshal_def wire_length wire_size comp_def)

lemma QueryPoolBatchWithdrawMsgResponse_roundtrip [wire_msg]:
  assumes "QueryPoolBatchWithdrawMsgResponse_ok m" "length (QueryPoolBatchWithdrawMsgResponse_Marshal m) < 2 ^ 63"
  shows "QueryPoolBatchWithdrawMsgResponse_Unmarshal (QueryPoolBatchWithdrawMsgResponse_Marshal m) QueryPoolBatchWithdrawMsgResponse_zero = Inr m"
  unfolding QueryPoolBatchWithdrawMsgResponse_Unmarshal_def
  by (rule readsTo_decode [OF assms(2)], unfold QueryPoolBatchWithdrawMsgResponse_Marshal_def QueryPoolBatchWithdrawMsgResponse_zero_def)
    ((rule reads, rule wire_tags, simp add: QueryPoolBatchWithdrawMsgResponse_field_def, use assms in \<open>simp add: wire_msg QueryPoolBatchWithdrawMsgResponse_ok_def list_all_iff split: option.splits\<close>)+, rule readsTo_Nil, simp)

text \<open>
  \<^bold>\<open>C25.\<close> The sizes of the queries are exact: for every request and response \<open>Size\<close> is the number of bytes that the encoder writes. \<open>Marshal\<close> allocates \<open>Size\<close>
  bytes, fills them from their end and returns as many bytes from their start as were written, so the result is the
  encoding, and no write leaves the buffer, because the two numbers agree.
\<close>

theorem query_sizes_exact:
  "QueryPoolWithdrawSuccessMsgsRequest_Size m1 = length (QueryPoolWithdrawSuccessMsgsRequest_Marshal m1)
   \<and> QueryPoolWithdrawSuccessMsgRequest_Size m2 = length (QueryPoolWithdrawSuccessMsgRequest_Marshal m2)
   \<and> QueryPoolWithdrawSuccessMsgsResponse_Size m3 = length (QueryPoolWithdrawSuccessMsgsResponse_Marshal m3)
   \<and> QueryPoolWithdrawSuccessMsgResponse_Size m4 = length (QueryPoolWithdrawSuccessMsgResponse_Marshal m4)
   \<and> QueryPoolSwapSuccessMsgsRequest_Size m5 = length (QueryPoolSwapSuccessMsgsRequest_Marshal m5)
   \<and> QueryPoolSwapSuccessMsgRequest_Size m6 = length (QueryPoolSwapSuccessMsgRequest_Marshal m6)
   \<and> QueryPoolSwapSuccessMsgsResponse_Size m7 = length (QueryPoolSwapSuccessMsgsResponse_Marshal m7)
   \<and> QueryPoolSwapSuccessMsgResponse_Size m8 = length (QueryPoolSwapSuccessMsgResponse_Marshal m8)
   \<and> QueryPoolDepositSuccessMsgsRequest_Size m9 = length (QueryPoolDepositSuccessMsgsRequest_Marshal m9)
   \<and> QueryPoolDepositSuccessMsgRequest_Size m10 = length (QueryPoolDepositSuccessMsgRequest_Marshal m10)
   \<and> QueryPoolDepositSuccessMsgsResponse_Size m11 = length (QueryPoolDepositSuccessMsgsResponse_Marshal m11)
   \<and> QueryPoolDepositSuccessMsgResponse_Size m12 = length (QueryPoolDepositSuccessMsgResponse_Marshal m12)
   \<and> QueryLiquidityPoolRequest_Size m13 = length (QueryLiquidityPoolRequest_Marshal m13)
   \<and> QueryLiquidityPoolResponse_Size m14 = length (QueryLiquidityPoolResponse_Marshal m14)
   \<and> QueryLiquidityPoolByPoolCoinDenomRequest_Size m15 = length (QueryLiquidityPoolByPoolCoinDenomRequest_Marshal m15)
   \<and> QueryLiquidityPoolByReserveAccRequest_Size m16 = length (QueryLiquidityPoolByReserveAccRequest_Marshal m16)
   \<and> QueryLiquidityPoolBatchRequest_Size m17 = length (QueryLiquidityPoolBatchRequest_Marshal m17)
   \<and> QueryLiquidityPoolBatchResponse_Size m18 = length (QueryLiquidityPoolBatchResponse_Marshal m18)
   \<and> QueryLiquidityPoolsRequest_Size m19 = length (QueryLiquidityPoolsRequest_Marshal m19)
   \<and> QueryLiquidityPoolsResponse_Size m20 = length (QueryLiquidityPoolsResponse_Marshal m20)
   \<and> QueryParamsRequest_Size m21 = length (QueryParamsRequest_Marshal m21)
   \<and> QueryParamsResponse_Size m22 = length (QueryParamsResponse_Marshal m22)
   \<and> QueryPoolBatchSwapMsgsRequest_Size m23 = length (QueryPoolBatchSwapMsgsRequest_Marshal m23)
   \<and> QueryPoolBatchSwapMsgRequest_Size m24 = length (QueryPoolBatchSwapMsgRequest_Marshal m24)
   \<and> QueryPoolBatchSwapMsgsResponse_Size m25 = length (QueryPoolBatchSwapMsgsResponse_Marshal m25)
   \<and> QueryPoolBatchSwapMsgResponse_Size m26 = length (QueryPoolBatchSwapMsgResponse_Marshal m26)
   \<and> QueryPoolBatchDepositMsgsRequest_Size m27 = length (QueryPoolBatchDepositMsgsRequest_Marshal m27)
   \<and> QueryPoolBatchDepositMsgRequest_Size m28 = length (QueryPoolBatchDepositMsgRequest_Marshal m28)
   \<and> QueryPoolBatchDepositMsgsResponse_Size m29 = length (QueryPoolBatchDepositMsgsResponse_Marshal m29)
   \<and> QueryPoolBatchDepositMsgResponse_Size m30 = length (QueryPoolBatchDepositMsgResponse_Marshal m30)
   \<and> QueryPoolBatchWithdrawMsgsRequest_Size m31 = length (QueryPoolBatchWithdrawMsgsRequest_Marshal m31)
   \<and> QueryPoolBatchWithdrawMsgRequest_Size m32 = length (QueryPoolBatchWithdrawMsgRequest_Marshal m32)
   \<and> QueryPoolBatchWithdrawMsgsResponse_Size m33 = length (QueryPoolBatchWithdrawMsgsResponse_Marshal m33)
   \<and> QueryPoolBatchWithdrawMsgResponse_Size m34 = length (QueryPoolBatchWithdrawMsgResponse_Marshal m34)"
  by (intro conjI) (simp_all add: wire_size)

end
