(* ===== verification/LiquidityService.thy ===== *)
theory LiquidityService
  imports CoinswapQuery
begin

text \<open>
  The query service of the liquidity module (\<open>modules/coinswap/query.pd.go\<close>): the server interface, the client stubs, the
  handlers and the table of the service, and the queries of \<open>modules/coinswap/coinswap.go\<close>. The composition of the
  client with a server is shown to be transparent.
\<close>

section \<open>The service\<close>

record QueryServer =
  srv_LiquidityPools :: "QueryLiquidityPoolsRequest \<Rightarrow> QueryLiquidityPoolsResponse res"
  srv_LiquidityPool :: "QueryLiquidityPoolRequest \<Rightarrow> QueryLiquidityPoolResponse res"
  srv_LiquidityPoolByPoolCoinDenom :: "QueryLiquidityPoolByPoolCoinDenomRequest \<Rightarrow> QueryLiquidityPoolResponse res"
  srv_LiquidityPoolByReserveAcc :: "QueryLiquidityPoolByReserveAccRequest \<Rightarrow> QueryLiquidityPoolResponse res"
  srv_LiquidityPoolBatch :: "QueryLiquidityPoolBatchRequest \<Rightarrow> QueryLiquidityPoolBatchResponse res"
  srv_PoolBatchSwapMsgs :: "QueryPoolBatchSwapMsgsRequest \<Rightarrow> QueryPoolBatchSwapMsgsResponse res"
  srv_PoolBatchSwapMsg :: "QueryPoolBatchSwapMsgRequest \<Rightarrow> QueryPoolBatchSwapMsgResponse res"
  srv_PoolBatchDepositMsgs :: "QueryPoolBatchDepositMsgsRequest \<Rightarrow> QueryPoolBatchDepositMsgsResponse res"
  srv_PoolBatchDepositMsg :: "QueryPoolBatchDepositMsgRequest \<Rightarrow> QueryPoolBatchDepositMsgResponse res"
  srv_PoolBatchWithdrawMsgs :: "QueryPoolBatchWithdrawMsgsRequest \<Rightarrow> QueryPoolBatchWithdrawMsgsResponse res"
  srv_PoolBatchWithdrawMsg :: "QueryPoolBatchWithdrawMsgRequest \<Rightarrow> QueryPoolBatchWithdrawMsgResponse res"
  srv_Params :: "QueryParamsRequest \<Rightarrow> QueryParamsResponse res"
  srv_PoolDepositSuccessMsg :: "QueryPoolDepositSuccessMsgRequest \<Rightarrow> QueryPoolDepositSuccessMsgResponse res"
  srv_PoolDepositSuccessMsgs :: "QueryPoolDepositSuccessMsgsRequest \<Rightarrow> QueryPoolDepositSuccessMsgsResponse res"
  srv_PoolSwapSuccessMsg :: "QueryPoolSwapSuccessMsgRequest \<Rightarrow> QueryPoolSwapSuccessMsgResponse res"
  srv_PoolSwapSuccessMsgs :: "QueryPoolSwapSuccessMsgsRequest \<Rightarrow> QueryPoolSwapSuccessMsgsResponse res"
  srv_PoolWithdrawSuccessMsg :: "QueryPoolWithdrawSuccessMsgRequest \<Rightarrow> QueryPoolWithdrawSuccessMsgResponse res"
  srv_PoolWithdrawSuccessMsgs :: "QueryPoolWithdrawSuccessMsgsRequest \<Rightarrow> QueryPoolWithdrawSuccessMsgsResponse res"

text \<open>
  A connection takes the full name of a method and the bytes of a request and gives the bytes of the answer: \<open>Invoke\<close> of gRPC
  encodes the request with its \<open>Marshal\<close> and reads the answer with \<open>Unmarshal\<close> into the zero value.
\<close>

type_synonym conn = "string \<Rightarrow> bytes \<Rightarrow> bytes res"

definition Invoke :: "conn \<Rightarrow> string \<Rightarrow> bytes \<Rightarrow> (bytes \<Rightarrow> 'r \<Rightarrow> 'r res) \<Rightarrow> 'r \<Rightarrow> 'r res" where
  "Invoke cc method body dec out = bindR (cc method body) (\<lambda>b. dec b out)"

definition queryClient_LiquidityPools :: "conn \<Rightarrow> QueryLiquidityPoolsRequest \<Rightarrow> QueryLiquidityPoolsResponse res" where
  "queryClient_LiquidityPools cc in' = Invoke cc ''/tendermint.liquidity.v1beta1.Query/LiquidityPools'' (QueryLiquidityPoolsRequest_Marshal in') QueryLiquidityPoolsResponse_Unmarshal QueryLiquidityPoolsResponse_zero"

definition queryClient_LiquidityPool :: "conn \<Rightarrow> QueryLiquidityPoolRequest \<Rightarrow> QueryLiquidityPoolResponse res" where
  "queryClient_LiquidityPool cc in' = Invoke cc ''/tendermint.liquidity.v1beta1.Query/LiquidityPool'' (QueryLiquidityPoolRequest_Marshal in') QueryLiquidityPoolResponse_Unmarshal QueryLiquidityPoolResponse_zero"

definition queryClient_LiquidityPoolByPoolCoinDenom :: "conn \<Rightarrow> QueryLiquidityPoolByPoolCoinDenomRequest \<Rightarrow> QueryLiquidityPoolResponse res" where
  "queryClient_LiquidityPoolByPoolCoinDenom cc in' = Invoke cc ''/tendermint.liquidity.v1beta1.Query/LiquidityPoolByPoolCoinDenom'' (QueryLiquidityPoolByPoolCoinDenomRequest_Marshal in') QueryLiquidityPoolResponse_Unmarshal QueryLiquidityPoolResponse_zero"

definition queryClient_LiquidityPoolByReserveAcc :: "conn \<Rightarrow> QueryLiquidityPoolByReserveAccRequest \<Rightarrow> QueryLiquidityPoolResponse res" where
  "queryClient_LiquidityPoolByReserveAcc cc in' = Invoke cc ''/tendermint.liquidity.v1beta1.Query/LiquidityPoolByReserveAcc'' (QueryLiquidityPoolByReserveAccRequest_Marshal in') QueryLiquidityPoolResponse_Unmarshal QueryLiquidityPoolResponse_zero"

definition queryClient_LiquidityPoolBatch :: "conn \<Rightarrow> QueryLiquidityPoolBatchRequest \<Rightarrow> QueryLiquidityPoolBatchResponse res" where
  "queryClient_LiquidityPoolBatch cc in' = Invoke cc ''/tendermint.liquidity.v1beta1.Query/LiquidityPoolBatch'' (QueryLiquidityPoolBatchRequest_Marshal in') QueryLiquidityPoolBatchResponse_Unmarshal QueryLiquidityPoolBatchResponse_zero"

definition queryClient_PoolBatchSwapMsgs :: "conn \<Rightarrow> QueryPoolBatchSwapMsgsRequest \<Rightarrow> QueryPoolBatchSwapMsgsResponse res" where
  "queryClient_PoolBatchSwapMsgs cc in' = Invoke cc ''/tendermint.liquidity.v1beta1.Query/PoolBatchSwapMsgs'' (QueryPoolBatchSwapMsgsRequest_Marshal in') QueryPoolBatchSwapMsgsResponse_Unmarshal QueryPoolBatchSwapMsgsResponse_zero"

definition queryClient_PoolBatchSwapMsg :: "conn \<Rightarrow> QueryPoolBatchSwapMsgRequest \<Rightarrow> QueryPoolBatchSwapMsgResponse res" where
  "queryClient_PoolBatchSwapMsg cc in' = Invoke cc ''/tendermint.liquidity.v1beta1.Query/PoolBatchSwapMsg'' (QueryPoolBatchSwapMsgRequest_Marshal in') QueryPoolBatchSwapMsgResponse_Unmarshal QueryPoolBatchSwapMsgResponse_zero"

definition queryClient_PoolBatchDepositMsgs :: "conn \<Rightarrow> QueryPoolBatchDepositMsgsRequest \<Rightarrow> QueryPoolBatchDepositMsgsResponse res" where
  "queryClient_PoolBatchDepositMsgs cc in' = Invoke cc ''/tendermint.liquidity.v1beta1.Query/PoolBatchDepositMsgs'' (QueryPoolBatchDepositMsgsRequest_Marshal in') QueryPoolBatchDepositMsgsResponse_Unmarshal QueryPoolBatchDepositMsgsResponse_zero"

definition queryClient_PoolBatchDepositMsg :: "conn \<Rightarrow> QueryPoolBatchDepositMsgRequest \<Rightarrow> QueryPoolBatchDepositMsgResponse res" where
  "queryClient_PoolBatchDepositMsg cc in' = Invoke cc ''/tendermint.liquidity.v1beta1.Query/PoolBatchDepositMsg'' (QueryPoolBatchDepositMsgRequest_Marshal in') QueryPoolBatchDepositMsgResponse_Unmarshal QueryPoolBatchDepositMsgResponse_zero"

definition queryClient_PoolBatchWithdrawMsgs :: "conn \<Rightarrow> QueryPoolBatchWithdrawMsgsRequest \<Rightarrow> QueryPoolBatchWithdrawMsgsResponse res" where
  "queryClient_PoolBatchWithdrawMsgs cc in' = Invoke cc ''/tendermint.liquidity.v1beta1.Query/PoolBatchWithdrawMsgs'' (QueryPoolBatchWithdrawMsgsRequest_Marshal in') QueryPoolBatchWithdrawMsgsResponse_Unmarshal QueryPoolBatchWithdrawMsgsResponse_zero"

definition queryClient_PoolBatchWithdrawMsg :: "conn \<Rightarrow> QueryPoolBatchWithdrawMsgRequest \<Rightarrow> QueryPoolBatchWithdrawMsgResponse res" where
  "queryClient_PoolBatchWithdrawMsg cc in' = Invoke cc ''/tendermint.liquidity.v1beta1.Query/PoolBatchWithdrawMsg'' (QueryPoolBatchWithdrawMsgRequest_Marshal in') QueryPoolBatchWithdrawMsgResponse_Unmarshal QueryPoolBatchWithdrawMsgResponse_zero"

definition queryClient_Params :: "conn \<Rightarrow> QueryParamsRequest \<Rightarrow> QueryParamsResponse res" where
  "queryClient_Params cc in' = Invoke cc ''/tendermint.liquidity.v1beta1.Query/Params'' (QueryParamsRequest_Marshal in') QueryParamsResponse_Unmarshal QueryParamsResponse_zero"

definition queryClient_PoolDepositSuccessMsg :: "conn \<Rightarrow> QueryPoolDepositSuccessMsgRequest \<Rightarrow> QueryPoolDepositSuccessMsgResponse res" where
  "queryClient_PoolDepositSuccessMsg cc in' = Invoke cc ''/tendermint.liquidity.v1beta1.Query/PoolDepositSuccessMsg'' (QueryPoolDepositSuccessMsgRequest_Marshal in') QueryPoolDepositSuccessMsgResponse_Unmarshal QueryPoolDepositSuccessMsgResponse_zero"

definition queryClient_PoolDepositSuccessMsgs :: "conn \<Rightarrow> QueryPoolDepositSuccessMsgsRequest \<Rightarrow> QueryPoolDepositSuccessMsgsResponse res" where
  "queryClient_PoolDepositSuccessMsgs cc in' = Invoke cc ''/tendermint.liquidity.v1beta1.Query/PoolDepositSuccessMsgs'' (QueryPoolDepositSuccessMsgsRequest_Marshal in') QueryPoolDepositSuccessMsgsResponse_Unmarshal QueryPoolDepositSuccessMsgsResponse_zero"

definition queryClient_PoolSwapSuccessMsg :: "conn \<Rightarrow> QueryPoolSwapSuccessMsgRequest \<Rightarrow> QueryPoolSwapSuccessMsgResponse res" where
  "queryClient_PoolSwapSuccessMsg cc in' = Invoke cc ''/tendermint.liquidity.v1beta1.Query/PoolSwapSuccessMsg'' (QueryPoolSwapSuccessMsgRequest_Marshal in') QueryPoolSwapSuccessMsgResponse_Unmarshal QueryPoolSwapSuccessMsgResponse_zero"

definition queryClient_PoolSwapSuccessMsgs :: "conn \<Rightarrow> QueryPoolSwapSuccessMsgsRequest \<Rightarrow> QueryPoolSwapSuccessMsgsResponse res" where
  "queryClient_PoolSwapSuccessMsgs cc in' = Invoke cc ''/tendermint.liquidity.v1beta1.Query/PoolSwapSuccessMsgs'' (QueryPoolSwapSuccessMsgsRequest_Marshal in') QueryPoolSwapSuccessMsgsResponse_Unmarshal QueryPoolSwapSuccessMsgsResponse_zero"

definition queryClient_PoolWithdrawSuccessMsg :: "conn \<Rightarrow> QueryPoolWithdrawSuccessMsgRequest \<Rightarrow> QueryPoolWithdrawSuccessMsgResponse res" where
  "queryClient_PoolWithdrawSuccessMsg cc in' = Invoke cc ''/tendermint.liquidity.v1beta1.Query/PoolWithdrawSuccessMsg'' (QueryPoolWithdrawSuccessMsgRequest_Marshal in') QueryPoolWithdrawSuccessMsgResponse_Unmarshal QueryPoolWithdrawSuccessMsgResponse_zero"

definition queryClient_PoolWithdrawSuccessMsgs :: "conn \<Rightarrow> QueryPoolWithdrawSuccessMsgsRequest \<Rightarrow> QueryPoolWithdrawSuccessMsgsResponse res" where
  "queryClient_PoolWithdrawSuccessMsgs cc in' = Invoke cc ''/tendermint.liquidity.v1beta1.Query/PoolWithdrawSuccessMsgs'' (QueryPoolWithdrawSuccessMsgsRequest_Marshal in') QueryPoolWithdrawSuccessMsgsResponse_Unmarshal QueryPoolWithdrawSuccessMsgsResponse_zero"

definition UnimplementedQueryServer :: QueryServer where
  "UnimplementedQueryServer =
     \<lparr>srv_LiquidityPools = (\<lambda>_. Inl (Err ''method LiquidityPools not implemented'')),
      srv_LiquidityPool = (\<lambda>_. Inl (Err ''method LiquidityPool not implemented'')),
      srv_LiquidityPoolByPoolCoinDenom = (\<lambda>_. Inl (Err ''method LiquidityPoolByPoolCoinDenom not implemented'')),
      srv_LiquidityPoolByReserveAcc = (\<lambda>_. Inl (Err ''method LiquidityPoolByReserveAcc not implemented'')),
      srv_LiquidityPoolBatch = (\<lambda>_. Inl (Err ''method LiquidityPoolBatch not implemented'')),
      srv_PoolBatchSwapMsgs = (\<lambda>_. Inl (Err ''method PoolBatchSwapMsgs not implemented'')),
      srv_PoolBatchSwapMsg = (\<lambda>_. Inl (Err ''method PoolBatchSwapMsg not implemented'')),
      srv_PoolBatchDepositMsgs = (\<lambda>_. Inl (Err ''method PoolBatchDepositMsgs not implemented'')),
      srv_PoolBatchDepositMsg = (\<lambda>_. Inl (Err ''method PoolBatchDepositMsg not implemented'')),
      srv_PoolBatchWithdrawMsgs = (\<lambda>_. Inl (Err ''method PoolBatchWithdrawMsgs not implemented'')),
      srv_PoolBatchWithdrawMsg = (\<lambda>_. Inl (Err ''method PoolBatchWithdrawMsg not implemented'')),
      srv_Params = (\<lambda>_. Inl (Err ''method Params not implemented'')),
      srv_PoolDepositSuccessMsg = (\<lambda>_. Inl (Err ''method PoolDepositSuccessMsg not implemented'')),
      srv_PoolDepositSuccessMsgs = (\<lambda>_. Inl (Err ''method PoolDepositSuccessMsgs not implemented'')),
      srv_PoolSwapSuccessMsg = (\<lambda>_. Inl (Err ''method PoolSwapSuccessMsg not implemented'')),
      srv_PoolSwapSuccessMsgs = (\<lambda>_. Inl (Err ''method PoolSwapSuccessMsgs not implemented'')),
      srv_PoolWithdrawSuccessMsg = (\<lambda>_. Inl (Err ''method PoolWithdrawSuccessMsg not implemented'')),
      srv_PoolWithdrawSuccessMsgs = (\<lambda>_. Inl (Err ''method PoolWithdrawSuccessMsgs not implemented''))\<rparr>"

text \<open>
  A handler reads the request with the decoder that the server gives it and calls the method, through the interceptor if there is
  one; an interceptor gets the request, the full name of the method and the rest of the call.
\<close>

type_synonym ('q, 'r) interceptor = "('q \<Rightarrow> string \<Rightarrow> ('q \<Rightarrow> 'r res) \<Rightarrow> 'r res) option"

definition handle_unary :: "'q \<Rightarrow> string \<Rightarrow> ('q \<Rightarrow> 'r res) \<Rightarrow> ('q \<Rightarrow> 'q res) \<Rightarrow> ('q, 'r) interceptor \<Rightarrow> 'r res" where
  "handle_unary zero fullMethod method dec interceptor =
     bindR (dec zero) (\<lambda>in'.
       case interceptor of
         None \<Rightarrow> method in'
       | Some f \<Rightarrow> f in' fullMethod method)"

definition Query_LiquidityPools_Handler :: "QueryServer \<Rightarrow> (QueryLiquidityPoolsRequest \<Rightarrow> QueryLiquidityPoolsRequest res) \<Rightarrow> (QueryLiquidityPoolsRequest, QueryLiquidityPoolsResponse) interceptor \<Rightarrow> QueryLiquidityPoolsResponse res" where
  "Query_LiquidityPools_Handler srv = handle_unary QueryLiquidityPoolsRequest_zero ''/tendermint.liquidity.v1beta1.Query/LiquidityPools'' (srv_LiquidityPools srv)"

definition Query_LiquidityPool_Handler :: "QueryServer \<Rightarrow> (QueryLiquidityPoolRequest \<Rightarrow> QueryLiquidityPoolRequest res) \<Rightarrow> (QueryLiquidityPoolRequest, QueryLiquidityPoolResponse) interceptor \<Rightarrow> QueryLiquidityPoolResponse res" where
  "Query_LiquidityPool_Handler srv = handle_unary QueryLiquidityPoolRequest_zero ''/tendermint.liquidity.v1beta1.Query/LiquidityPool'' (srv_LiquidityPool srv)"

definition Query_LiquidityPoolByPoolCoinDenom_Handler :: "QueryServer \<Rightarrow> (QueryLiquidityPoolByPoolCoinDenomRequest \<Rightarrow> QueryLiquidityPoolByPoolCoinDenomRequest res) \<Rightarrow> (QueryLiquidityPoolByPoolCoinDenomRequest, QueryLiquidityPoolResponse) interceptor \<Rightarrow> QueryLiquidityPoolResponse res" where
  "Query_LiquidityPoolByPoolCoinDenom_Handler srv = handle_unary QueryLiquidityPoolByPoolCoinDenomRequest_zero ''/tendermint.liquidity.v1beta1.Query/LiquidityPoolByPoolCoinDenom'' (srv_LiquidityPoolByPoolCoinDenom srv)"

definition Query_LiquidityPoolByReserveAcc_Handler :: "QueryServer \<Rightarrow> (QueryLiquidityPoolByReserveAccRequest \<Rightarrow> QueryLiquidityPoolByReserveAccRequest res) \<Rightarrow> (QueryLiquidityPoolByReserveAccRequest, QueryLiquidityPoolResponse) interceptor \<Rightarrow> QueryLiquidityPoolResponse res" where
  "Query_LiquidityPoolByReserveAcc_Handler srv = handle_unary QueryLiquidityPoolByReserveAccRequest_zero ''/tendermint.liquidity.v1beta1.Query/LiquidityPoolByReserveAcc'' (srv_LiquidityPoolByReserveAcc srv)"

definition Query_LiquidityPoolBatch_Handler :: "QueryServer \<Rightarrow> (QueryLiquidityPoolBatchRequest \<Rightarrow> QueryLiquidityPoolBatchRequest res) \<Rightarrow> (QueryLiquidityPoolBatchRequest, QueryLiquidityPoolBatchResponse) interceptor \<Rightarrow> QueryLiquidityPoolBatchResponse res" where
  "Query_LiquidityPoolBatch_Handler srv = handle_unary QueryLiquidityPoolBatchRequest_zero ''/tendermint.liquidity.v1beta1.Query/LiquidityPoolBatch'' (srv_LiquidityPoolBatch srv)"

definition Query_PoolBatchSwapMsgs_Handler :: "QueryServer \<Rightarrow> (QueryPoolBatchSwapMsgsRequest \<Rightarrow> QueryPoolBatchSwapMsgsRequest res) \<Rightarrow> (QueryPoolBatchSwapMsgsRequest, QueryPoolBatchSwapMsgsResponse) interceptor \<Rightarrow> QueryPoolBatchSwapMsgsResponse res" where
  "Query_PoolBatchSwapMsgs_Handler srv = handle_unary QueryPoolBatchSwapMsgsRequest_zero ''/tendermint.liquidity.v1beta1.Query/PoolBatchSwapMsgs'' (srv_PoolBatchSwapMsgs srv)"

definition Query_PoolBatchSwapMsg_Handler :: "QueryServer \<Rightarrow> (QueryPoolBatchSwapMsgRequest \<Rightarrow> QueryPoolBatchSwapMsgRequest res) \<Rightarrow> (QueryPoolBatchSwapMsgRequest, QueryPoolBatchSwapMsgResponse) interceptor \<Rightarrow> QueryPoolBatchSwapMsgResponse res" where
  "Query_PoolBatchSwapMsg_Handler srv = handle_unary QueryPoolBatchSwapMsgRequest_zero ''/tendermint.liquidity.v1beta1.Query/PoolBatchSwapMsg'' (srv_PoolBatchSwapMsg srv)"

definition Query_PoolBatchDepositMsgs_Handler :: "QueryServer \<Rightarrow> (QueryPoolBatchDepositMsgsRequest \<Rightarrow> QueryPoolBatchDepositMsgsRequest res) \<Rightarrow> (QueryPoolBatchDepositMsgsRequest, QueryPoolBatchDepositMsgsResponse) interceptor \<Rightarrow> QueryPoolBatchDepositMsgsResponse res" where
  "Query_PoolBatchDepositMsgs_Handler srv = handle_unary QueryPoolBatchDepositMsgsRequest_zero ''/tendermint.liquidity.v1beta1.Query/PoolBatchDepositMsgs'' (srv_PoolBatchDepositMsgs srv)"

definition Query_PoolBatchDepositMsg_Handler :: "QueryServer \<Rightarrow> (QueryPoolBatchDepositMsgRequest \<Rightarrow> QueryPoolBatchDepositMsgRequest res) \<Rightarrow> (QueryPoolBatchDepositMsgRequest, QueryPoolBatchDepositMsgResponse) interceptor \<Rightarrow> QueryPoolBatchDepositMsgResponse res" where
  "Query_PoolBatchDepositMsg_Handler srv = handle_unary QueryPoolBatchDepositMsgRequest_zero ''/tendermint.liquidity.v1beta1.Query/PoolBatchDepositMsg'' (srv_PoolBatchDepositMsg srv)"

definition Query_PoolBatchWithdrawMsgs_Handler :: "QueryServer \<Rightarrow> (QueryPoolBatchWithdrawMsgsRequest \<Rightarrow> QueryPoolBatchWithdrawMsgsRequest res) \<Rightarrow> (QueryPoolBatchWithdrawMsgsRequest, QueryPoolBatchWithdrawMsgsResponse) interceptor \<Rightarrow> QueryPoolBatchWithdrawMsgsResponse res" where
  "Query_PoolBatchWithdrawMsgs_Handler srv = handle_unary QueryPoolBatchWithdrawMsgsRequest_zero ''/tendermint.liquidity.v1beta1.Query/PoolBatchWithdrawMsgs'' (srv_PoolBatchWithdrawMsgs srv)"

definition Query_PoolBatchWithdrawMsg_Handler :: "QueryServer \<Rightarrow> (QueryPoolBatchWithdrawMsgRequest \<Rightarrow> QueryPoolBatchWithdrawMsgRequest res) \<Rightarrow> (QueryPoolBatchWithdrawMsgRequest, QueryPoolBatchWithdrawMsgResponse) interceptor \<Rightarrow> QueryPoolBatchWithdrawMsgResponse res" where
  "Query_PoolBatchWithdrawMsg_Handler srv = handle_unary QueryPoolBatchWithdrawMsgRequest_zero ''/tendermint.liquidity.v1beta1.Query/PoolBatchWithdrawMsg'' (srv_PoolBatchWithdrawMsg srv)"

definition Query_Params_Handler :: "QueryServer \<Rightarrow> (QueryParamsRequest \<Rightarrow> QueryParamsRequest res) \<Rightarrow> (QueryParamsRequest, QueryParamsResponse) interceptor \<Rightarrow> QueryParamsResponse res" where
  "Query_Params_Handler srv = handle_unary QueryParamsRequest_zero ''/tendermint.liquidity.v1beta1.Query/Params'' (srv_Params srv)"

definition Query_PoolDepositSuccessMsg_Handler :: "QueryServer \<Rightarrow> (QueryPoolDepositSuccessMsgRequest \<Rightarrow> QueryPoolDepositSuccessMsgRequest res) \<Rightarrow> (QueryPoolDepositSuccessMsgRequest, QueryPoolDepositSuccessMsgResponse) interceptor \<Rightarrow> QueryPoolDepositSuccessMsgResponse res" where
  "Query_PoolDepositSuccessMsg_Handler srv = handle_unary QueryPoolDepositSuccessMsgRequest_zero ''/tendermint.liquidity.v1beta1.Query/PoolDepositSuccessMsg'' (srv_PoolDepositSuccessMsg srv)"

definition Query_PoolDepositSuccessMsgs_Handler :: "QueryServer \<Rightarrow> (QueryPoolDepositSuccessMsgsRequest \<Rightarrow> QueryPoolDepositSuccessMsgsRequest res) \<Rightarrow> (QueryPoolDepositSuccessMsgsRequest, QueryPoolDepositSuccessMsgsResponse) interceptor \<Rightarrow> QueryPoolDepositSuccessMsgsResponse res" where
  "Query_PoolDepositSuccessMsgs_Handler srv = handle_unary QueryPoolDepositSuccessMsgsRequest_zero ''/tendermint.liquidity.v1beta1.Query/PoolDepositSuccessMsgs'' (srv_PoolDepositSuccessMsgs srv)"

definition Query_PoolSwapSuccessMsg_Handler :: "QueryServer \<Rightarrow> (QueryPoolSwapSuccessMsgRequest \<Rightarrow> QueryPoolSwapSuccessMsgRequest res) \<Rightarrow> (QueryPoolSwapSuccessMsgRequest, QueryPoolSwapSuccessMsgResponse) interceptor \<Rightarrow> QueryPoolSwapSuccessMsgResponse res" where
  "Query_PoolSwapSuccessMsg_Handler srv = handle_unary QueryPoolSwapSuccessMsgRequest_zero ''/tendermint.liquidity.v1beta1.Query/PoolSwapSuccessMsg'' (srv_PoolSwapSuccessMsg srv)"

definition Query_PoolSwapSuccessMsgs_Handler :: "QueryServer \<Rightarrow> (QueryPoolSwapSuccessMsgsRequest \<Rightarrow> QueryPoolSwapSuccessMsgsRequest res) \<Rightarrow> (QueryPoolSwapSuccessMsgsRequest, QueryPoolSwapSuccessMsgsResponse) interceptor \<Rightarrow> QueryPoolSwapSuccessMsgsResponse res" where
  "Query_PoolSwapSuccessMsgs_Handler srv = handle_unary QueryPoolSwapSuccessMsgsRequest_zero ''/tendermint.liquidity.v1beta1.Query/PoolSwapSuccessMsgs'' (srv_PoolSwapSuccessMsgs srv)"

definition Query_PoolWithdrawSuccessMsg_Handler :: "QueryServer \<Rightarrow> (QueryPoolWithdrawSuccessMsgRequest \<Rightarrow> QueryPoolWithdrawSuccessMsgRequest res) \<Rightarrow> (QueryPoolWithdrawSuccessMsgRequest, QueryPoolWithdrawSuccessMsgResponse) interceptor \<Rightarrow> QueryPoolWithdrawSuccessMsgResponse res" where
  "Query_PoolWithdrawSuccessMsg_Handler srv = handle_unary QueryPoolWithdrawSuccessMsgRequest_zero ''/tendermint.liquidity.v1beta1.Query/PoolWithdrawSuccessMsg'' (srv_PoolWithdrawSuccessMsg srv)"

definition Query_PoolWithdrawSuccessMsgs_Handler :: "QueryServer \<Rightarrow> (QueryPoolWithdrawSuccessMsgsRequest \<Rightarrow> QueryPoolWithdrawSuccessMsgsRequest res) \<Rightarrow> (QueryPoolWithdrawSuccessMsgsRequest, QueryPoolWithdrawSuccessMsgsResponse) interceptor \<Rightarrow> QueryPoolWithdrawSuccessMsgsResponse res" where
  "Query_PoolWithdrawSuccessMsgs_Handler srv = handle_unary QueryPoolWithdrawSuccessMsgsRequest_zero ''/tendermint.liquidity.v1beta1.Query/PoolWithdrawSuccessMsgs'' (srv_PoolWithdrawSuccessMsgs srv)"

text \<open>
  The table of the service. The server of gRPC finds the handler by the name of the service and of the method, decodes the body for
  it and encodes what it returns; here it runs without an interceptor.
\<close>

definition Query_serviceDesc :: "QueryServer \<Rightarrow> (string \<times> (bytes \<Rightarrow> bytes res)) list" where
  "Query_serviceDesc srv =
     [(''LiquidityPools'', \<lambda>body. bindR (Query_LiquidityPools_Handler srv (QueryLiquidityPoolsRequest_Unmarshal body) None) (\<lambda>r. Inr (QueryLiquidityPoolsResponse_Marshal r))),
      (''LiquidityPool'', \<lambda>body. bindR (Query_LiquidityPool_Handler srv (QueryLiquidityPoolRequest_Unmarshal body) None) (\<lambda>r. Inr (QueryLiquidityPoolResponse_Marshal r))),
      (''LiquidityPoolByPoolCoinDenom'', \<lambda>body. bindR (Query_LiquidityPoolByPoolCoinDenom_Handler srv (QueryLiquidityPoolByPoolCoinDenomRequest_Unmarshal body) None) (\<lambda>r. Inr (QueryLiquidityPoolResponse_Marshal r))),
      (''LiquidityPoolByReserveAcc'', \<lambda>body. bindR (Query_LiquidityPoolByReserveAcc_Handler srv (QueryLiquidityPoolByReserveAccRequest_Unmarshal body) None) (\<lambda>r. Inr (QueryLiquidityPoolResponse_Marshal r))),
      (''LiquidityPoolBatch'', \<lambda>body. bindR (Query_LiquidityPoolBatch_Handler srv (QueryLiquidityPoolBatchRequest_Unmarshal body) None) (\<lambda>r. Inr (QueryLiquidityPoolBatchResponse_Marshal r))),
      (''PoolBatchSwapMsgs'', \<lambda>body. bindR (Query_PoolBatchSwapMsgs_Handler srv (QueryPoolBatchSwapMsgsRequest_Unmarshal body) None) (\<lambda>r. Inr (QueryPoolBatchSwapMsgsResponse_Marshal r))),
      (''PoolBatchSwapMsg'', \<lambda>body. bindR (Query_PoolBatchSwapMsg_Handler srv (QueryPoolBatchSwapMsgRequest_Unmarshal body) None) (\<lambda>r. Inr (QueryPoolBatchSwapMsgResponse_Marshal r))),
      (''PoolBatchDepositMsgs'', \<lambda>body. bindR (Query_PoolBatchDepositMsgs_Handler srv (QueryPoolBatchDepositMsgsRequest_Unmarshal body) None) (\<lambda>r. Inr (QueryPoolBatchDepositMsgsResponse_Marshal r))),
      (''PoolBatchDepositMsg'', \<lambda>body. bindR (Query_PoolBatchDepositMsg_Handler srv (QueryPoolBatchDepositMsgRequest_Unmarshal body) None) (\<lambda>r. Inr (QueryPoolBatchDepositMsgResponse_Marshal r))),
      (''PoolBatchWithdrawMsgs'', \<lambda>body. bindR (Query_PoolBatchWithdrawMsgs_Handler srv (QueryPoolBatchWithdrawMsgsRequest_Unmarshal body) None) (\<lambda>r. Inr (QueryPoolBatchWithdrawMsgsResponse_Marshal r))),
      (''PoolBatchWithdrawMsg'', \<lambda>body. bindR (Query_PoolBatchWithdrawMsg_Handler srv (QueryPoolBatchWithdrawMsgRequest_Unmarshal body) None) (\<lambda>r. Inr (QueryPoolBatchWithdrawMsgResponse_Marshal r))),
      (''Params'', \<lambda>body. bindR (Query_Params_Handler srv (QueryParamsRequest_Unmarshal body) None) (\<lambda>r. Inr (QueryParamsResponse_Marshal r))),
      (''PoolDepositSuccessMsg'', \<lambda>body. bindR (Query_PoolDepositSuccessMsg_Handler srv (QueryPoolDepositSuccessMsgRequest_Unmarshal body) None) (\<lambda>r. Inr (QueryPoolDepositSuccessMsgResponse_Marshal r))),
      (''PoolDepositSuccessMsgs'', \<lambda>body. bindR (Query_PoolDepositSuccessMsgs_Handler srv (QueryPoolDepositSuccessMsgsRequest_Unmarshal body) None) (\<lambda>r. Inr (QueryPoolDepositSuccessMsgsResponse_Marshal r))),
      (''PoolSwapSuccessMsg'', \<lambda>body. bindR (Query_PoolSwapSuccessMsg_Handler srv (QueryPoolSwapSuccessMsgRequest_Unmarshal body) None) (\<lambda>r. Inr (QueryPoolSwapSuccessMsgResponse_Marshal r))),
      (''PoolSwapSuccessMsgs'', \<lambda>body. bindR (Query_PoolSwapSuccessMsgs_Handler srv (QueryPoolSwapSuccessMsgsRequest_Unmarshal body) None) (\<lambda>r. Inr (QueryPoolSwapSuccessMsgsResponse_Marshal r))),
      (''PoolWithdrawSuccessMsg'', \<lambda>body. bindR (Query_PoolWithdrawSuccessMsg_Handler srv (QueryPoolWithdrawSuccessMsgRequest_Unmarshal body) None) (\<lambda>r. Inr (QueryPoolWithdrawSuccessMsgResponse_Marshal r))),
      (''PoolWithdrawSuccessMsgs'', \<lambda>body. bindR (Query_PoolWithdrawSuccessMsgs_Handler srv (QueryPoolWithdrawSuccessMsgsRequest_Unmarshal body) None) (\<lambda>r. Inr (QueryPoolWithdrawSuccessMsgsResponse_Marshal r)))]"

definition grpc_server :: "QueryServer \<Rightarrow> conn" where
  "grpc_server srv method body =
     (case map_of (map (\<lambda>(n, h). (''/tendermint.liquidity.v1beta1.Query/'' @ n, h)) (Query_serviceDesc srv)) method of
        None \<Rightarrow> Inl (Err ''unknown method'')
      | Some h \<Rightarrow> h body)"

section \<open>The queries of the client\<close>

text \<open>Errors are wrapped with their text; the connection is open.\<close>

definition coinswap_WithdrawWithinBatch :: "conn \<Rightarrow> 64 word \<Rightarrow> QueryLiquidityPoolBatchResponse res" where
  "coinswap_WithdrawWithinBatch cc poolId = queryClient_LiquidityPoolBatch cc \<lparr>QueryLiquidityPoolBatchRequest_PoolId = poolId\<rparr>"

definition coinswap_PoolBatchDeposit :: "conn \<Rightarrow> 64 word \<Rightarrow> 64 word \<Rightarrow> QueryPoolBatchDepositMsgResponse res" where
  "coinswap_PoolBatchDeposit cc poolId msgIndex =
     queryClient_PoolBatchDepositMsg cc
       \<lparr>QueryPoolBatchDepositMsgRequest_PoolId = poolId, QueryPoolBatchDepositMsgRequest_MsgIndex = msgIndex\<rparr>"

definition coinswap_QueryAllPools :: "conn \<Rightarrow> bytes \<Rightarrow> 64 word \<Rightarrow> 64 word \<Rightarrow> bool \<Rightarrow> QueryLiquidityPoolsResponse res" where
  "coinswap_QueryAllPools cc key offset limit countTotal =
     queryClient_LiquidityPools cc
       \<lparr>QueryLiquidityPoolsRequest_Pagination = Some \<lparr>PageRequest_Key = key, PageRequest_Offset = offset,
          PageRequest_Limit = limit, PageRequest_CountTotal = countTotal\<rparr>\<rparr>"

section \<open>Calls over the wire\<close>

text \<open>What a codec promises, and what a unary call makes of two codecs, a server and a client.\<close>

locale wire_message =
  fixes enc :: "'m \<Rightarrow> bytes" and dec :: "bytes \<Rightarrow> 'm \<Rightarrow> 'm res" and zero :: 'm and ok :: "'m \<Rightarrow> bool"
  assumes read_back: "ok m \<Longrightarrow> length (enc m) < 2 ^ 63 \<Longrightarrow> dec (enc m) zero = Inr m"
begin

lemma injective: "ok m \<Longrightarrow> ok m' \<Longrightarrow> length (enc m) < 2 ^ 63 \<Longrightarrow> enc m = enc m' \<Longrightarrow> m = m'"
  using read_back by (metis sum.inject(2))

end

definition fits :: "('m \<Rightarrow> bytes) \<Rightarrow> ('m \<Rightarrow> bool) \<Rightarrow> 'm res \<Rightarrow> bool" where
  "fits enc ok r = (case r of Inl _ \<Rightarrow> True | Inr m \<Rightarrow> ok m \<and> length (enc m) < 2 ^ 63)"

locale unary_call =
  req: wire_message reqEnc reqDec reqZero reqOk + resp: wire_message respEnc respDec respZero respOk
  for reqEnc :: "'q \<Rightarrow> bytes" and reqDec reqZero reqOk and respEnc :: "'r \<Rightarrow> bytes" and respDec respZero respOk +
  fixes serve :: "bytes \<Rightarrow> bytes res" and meth :: "'q \<Rightarrow> 'r res" and call :: "'q \<Rightarrow> 'r res"
  assumes serve: "serve body = bindR (bindR (reqDec body reqZero) meth) (\<lambda>r. Inr (respEnc r))"
    and call: "call q = bindR (serve (reqEnc q)) (\<lambda>b. respDec b respZero)"
begin

lemma over_wire:
  assumes "reqOk q" "length (reqEnc q) < 2 ^ 63" "fits respEnc respOk (meth q)"
  shows "call q = meth q"
  using assms req.read_back [OF assms(1,2)] resp.read_back
  by (cases "meth q") (auto simp: call serve fits_def)

end

lemmas service_defs = Invoke_def handle_unary_def grpc_server_def Query_serviceDesc_def

interpretation call_LiquidityPools: unary_call QueryLiquidityPoolsRequest_Marshal QueryLiquidityPoolsRequest_Unmarshal QueryLiquidityPoolsRequest_zero "(\<lambda>_. True)"
    QueryLiquidityPoolsResponse_Marshal QueryLiquidityPoolsResponse_Unmarshal QueryLiquidityPoolsResponse_zero "(\<lambda>_. True)"
    "grpc_server srv ''/tendermint.liquidity.v1beta1.Query/LiquidityPools''" "srv_LiquidityPools srv" "queryClient_LiquidityPools (grpc_server srv)" for srv
  by unfold_locales (simp_all add: QueryLiquidityPoolsRequest_roundtrip QueryLiquidityPoolsResponse_roundtrip queryClient_LiquidityPools_def Query_LiquidityPools_Handler_def service_defs)

interpretation call_LiquidityPool: unary_call QueryLiquidityPoolRequest_Marshal QueryLiquidityPoolRequest_Unmarshal QueryLiquidityPoolRequest_zero "(\<lambda>_. True)"
    QueryLiquidityPoolResponse_Marshal QueryLiquidityPoolResponse_Unmarshal QueryLiquidityPoolResponse_zero "(\<lambda>_. True)"
    "grpc_server srv ''/tendermint.liquidity.v1beta1.Query/LiquidityPool''" "srv_LiquidityPool srv" "queryClient_LiquidityPool (grpc_server srv)" for srv
  by unfold_locales (simp_all add: QueryLiquidityPoolRequest_roundtrip QueryLiquidityPoolResponse_roundtrip queryClient_LiquidityPool_def Query_LiquidityPool_Handler_def service_defs)

interpretation call_LiquidityPoolByPoolCoinDenom: unary_call QueryLiquidityPoolByPoolCoinDenomRequest_Marshal QueryLiquidityPoolByPoolCoinDenomRequest_Unmarshal QueryLiquidityPoolByPoolCoinDenomRequest_zero "(\<lambda>_. True)"
    QueryLiquidityPoolResponse_Marshal QueryLiquidityPoolResponse_Unmarshal QueryLiquidityPoolResponse_zero "(\<lambda>_. True)"
    "grpc_server srv ''/tendermint.liquidity.v1beta1.Query/LiquidityPoolByPoolCoinDenom''" "srv_LiquidityPoolByPoolCoinDenom srv" "queryClient_LiquidityPoolByPoolCoinDenom (grpc_server srv)" for srv
  by unfold_locales (simp_all add: QueryLiquidityPoolByPoolCoinDenomRequest_roundtrip QueryLiquidityPoolResponse_roundtrip queryClient_LiquidityPoolByPoolCoinDenom_def Query_LiquidityPoolByPoolCoinDenom_Handler_def service_defs)

interpretation call_LiquidityPoolByReserveAcc: unary_call QueryLiquidityPoolByReserveAccRequest_Marshal QueryLiquidityPoolByReserveAccRequest_Unmarshal QueryLiquidityPoolByReserveAccRequest_zero "(\<lambda>_. True)"
    QueryLiquidityPoolResponse_Marshal QueryLiquidityPoolResponse_Unmarshal QueryLiquidityPoolResponse_zero "(\<lambda>_. True)"
    "grpc_server srv ''/tendermint.liquidity.v1beta1.Query/LiquidityPoolByReserveAcc''" "srv_LiquidityPoolByReserveAcc srv" "queryClient_LiquidityPoolByReserveAcc (grpc_server srv)" for srv
  by unfold_locales (simp_all add: QueryLiquidityPoolByReserveAccRequest_roundtrip QueryLiquidityPoolResponse_roundtrip queryClient_LiquidityPoolByReserveAcc_def Query_LiquidityPoolByReserveAcc_Handler_def service_defs)

interpretation call_LiquidityPoolBatch: unary_call QueryLiquidityPoolBatchRequest_Marshal QueryLiquidityPoolBatchRequest_Unmarshal QueryLiquidityPoolBatchRequest_zero "(\<lambda>_. True)"
    QueryLiquidityPoolBatchResponse_Marshal QueryLiquidityPoolBatchResponse_Unmarshal QueryLiquidityPoolBatchResponse_zero "(\<lambda>_. True)"
    "grpc_server srv ''/tendermint.liquidity.v1beta1.Query/LiquidityPoolBatch''" "srv_LiquidityPoolBatch srv" "queryClient_LiquidityPoolBatch (grpc_server srv)" for srv
  by unfold_locales (simp_all add: QueryLiquidityPoolBatchRequest_roundtrip QueryLiquidityPoolBatchResponse_roundtrip queryClient_LiquidityPoolBatch_def Query_LiquidityPoolBatch_Handler_def service_defs)

interpretation call_PoolBatchSwapMsgs: unary_call QueryPoolBatchSwapMsgsRequest_Marshal QueryPoolBatchSwapMsgsRequest_Unmarshal QueryPoolBatchSwapMsgsRequest_zero "(\<lambda>_. True)"
    QueryPoolBatchSwapMsgsResponse_Marshal QueryPoolBatchSwapMsgsResponse_Unmarshal QueryPoolBatchSwapMsgsResponse_zero "QueryPoolBatchSwapMsgsResponse_ok"
    "grpc_server srv ''/tendermint.liquidity.v1beta1.Query/PoolBatchSwapMsgs''" "srv_PoolBatchSwapMsgs srv" "queryClient_PoolBatchSwapMsgs (grpc_server srv)" for srv
  by unfold_locales (simp_all add: QueryPoolBatchSwapMsgsRequest_roundtrip QueryPoolBatchSwapMsgsResponse_roundtrip queryClient_PoolBatchSwapMsgs_def Query_PoolBatchSwapMsgs_Handler_def service_defs)

interpretation call_PoolBatchSwapMsg: unary_call QueryPoolBatchSwapMsgRequest_Marshal QueryPoolBatchSwapMsgRequest_Unmarshal QueryPoolBatchSwapMsgRequest_zero "(\<lambda>_. True)"
    QueryPoolBatchSwapMsgResponse_Marshal QueryPoolBatchSwapMsgResponse_Unmarshal QueryPoolBatchSwapMsgResponse_zero "QueryPoolBatchSwapMsgResponse_ok"
    "grpc_server srv ''/tendermint.liquidity.v1beta1.Query/PoolBatchSwapMsg''" "srv_PoolBatchSwapMsg srv" "queryClient_PoolBatchSwapMsg (grpc_server srv)" for srv
  by unfold_locales (simp_all add: QueryPoolBatchSwapMsgRequest_roundtrip QueryPoolBatchSwapMsgResponse_roundtrip queryClient_PoolBatchSwapMsg_def Query_PoolBatchSwapMsg_Handler_def service_defs)

interpretation call_PoolBatchDepositMsgs: unary_call QueryPoolBatchDepositMsgsRequest_Marshal QueryPoolBatchDepositMsgsRequest_Unmarshal QueryPoolBatchDepositMsgsRequest_zero "(\<lambda>_. True)"
    QueryPoolBatchDepositMsgsResponse_Marshal QueryPoolBatchDepositMsgsResponse_Unmarshal QueryPoolBatchDepositMsgsResponse_zero "QueryPoolBatchDepositMsgsResponse_ok"
    "grpc_server srv ''/tendermint.liquidity.v1beta1.Query/PoolBatchDepositMsgs''" "srv_PoolBatchDepositMsgs srv" "queryClient_PoolBatchDepositMsgs (grpc_server srv)" for srv
  by unfold_locales (simp_all add: QueryPoolBatchDepositMsgsRequest_roundtrip QueryPoolBatchDepositMsgsResponse_roundtrip queryClient_PoolBatchDepositMsgs_def Query_PoolBatchDepositMsgs_Handler_def service_defs)

interpretation call_PoolBatchDepositMsg: unary_call QueryPoolBatchDepositMsgRequest_Marshal QueryPoolBatchDepositMsgRequest_Unmarshal QueryPoolBatchDepositMsgRequest_zero "(\<lambda>_. True)"
    QueryPoolBatchDepositMsgResponse_Marshal QueryPoolBatchDepositMsgResponse_Unmarshal QueryPoolBatchDepositMsgResponse_zero "QueryPoolBatchDepositMsgResponse_ok"
    "grpc_server srv ''/tendermint.liquidity.v1beta1.Query/PoolBatchDepositMsg''" "srv_PoolBatchDepositMsg srv" "queryClient_PoolBatchDepositMsg (grpc_server srv)" for srv
  by unfold_locales (simp_all add: QueryPoolBatchDepositMsgRequest_roundtrip QueryPoolBatchDepositMsgResponse_roundtrip queryClient_PoolBatchDepositMsg_def Query_PoolBatchDepositMsg_Handler_def service_defs)

interpretation call_PoolBatchWithdrawMsgs: unary_call QueryPoolBatchWithdrawMsgsRequest_Marshal QueryPoolBatchWithdrawMsgsRequest_Unmarshal QueryPoolBatchWithdrawMsgsRequest_zero "(\<lambda>_. True)"
    QueryPoolBatchWithdrawMsgsResponse_Marshal QueryPoolBatchWithdrawMsgsResponse_Unmarshal QueryPoolBatchWithdrawMsgsResponse_zero "QueryPoolBatchWithdrawMsgsResponse_ok"
    "grpc_server srv ''/tendermint.liquidity.v1beta1.Query/PoolBatchWithdrawMsgs''" "srv_PoolBatchWithdrawMsgs srv" "queryClient_PoolBatchWithdrawMsgs (grpc_server srv)" for srv
  by unfold_locales (simp_all add: QueryPoolBatchWithdrawMsgsRequest_roundtrip QueryPoolBatchWithdrawMsgsResponse_roundtrip queryClient_PoolBatchWithdrawMsgs_def Query_PoolBatchWithdrawMsgs_Handler_def service_defs)

interpretation call_PoolBatchWithdrawMsg: unary_call QueryPoolBatchWithdrawMsgRequest_Marshal QueryPoolBatchWithdrawMsgRequest_Unmarshal QueryPoolBatchWithdrawMsgRequest_zero "(\<lambda>_. True)"
    QueryPoolBatchWithdrawMsgResponse_Marshal QueryPoolBatchWithdrawMsgResponse_Unmarshal QueryPoolBatchWithdrawMsgResponse_zero "QueryPoolBatchWithdrawMsgResponse_ok"
    "grpc_server srv ''/tendermint.liquidity.v1beta1.Query/PoolBatchWithdrawMsg''" "srv_PoolBatchWithdrawMsg srv" "queryClient_PoolBatchWithdrawMsg (grpc_server srv)" for srv
  by unfold_locales (simp_all add: QueryPoolBatchWithdrawMsgRequest_roundtrip QueryPoolBatchWithdrawMsgResponse_roundtrip queryClient_PoolBatchWithdrawMsg_def Query_PoolBatchWithdrawMsg_Handler_def service_defs)

interpretation call_Params: unary_call QueryParamsRequest_Marshal QueryParamsRequest_Unmarshal QueryParamsRequest_zero "(\<lambda>_. True)"
    QueryParamsResponse_Marshal QueryParamsResponse_Unmarshal QueryParamsResponse_zero "QueryParamsResponse_ok"
    "grpc_server srv ''/tendermint.liquidity.v1beta1.Query/Params''" "srv_Params srv" "queryClient_Params (grpc_server srv)" for srv
  by unfold_locales (simp_all add: QueryParamsRequest_roundtrip QueryParamsResponse_roundtrip queryClient_Params_def Query_Params_Handler_def service_defs)

interpretation call_PoolDepositSuccessMsg: unary_call QueryPoolDepositSuccessMsgRequest_Marshal QueryPoolDepositSuccessMsgRequest_Unmarshal QueryPoolDepositSuccessMsgRequest_zero "(\<lambda>_. True)"
    QueryPoolDepositSuccessMsgResponse_Marshal QueryPoolDepositSuccessMsgResponse_Unmarshal QueryPoolDepositSuccessMsgResponse_zero "QueryPoolDepositSuccessMsgResponse_ok"
    "grpc_server srv ''/tendermint.liquidity.v1beta1.Query/PoolDepositSuccessMsg''" "srv_PoolDepositSuccessMsg srv" "queryClient_PoolDepositSuccessMsg (grpc_server srv)" for srv
  by unfold_locales (simp_all add: QueryPoolDepositSuccessMsgRequest_roundtrip QueryPoolDepositSuccessMsgResponse_roundtrip queryClient_PoolDepositSuccessMsg_def Query_PoolDepositSuccessMsg_Handler_def service_defs)

interpretation call_PoolDepositSuccessMsgs: unary_call QueryPoolDepositSuccessMsgsRequest_Marshal QueryPoolDepositSuccessMsgsRequest_Unmarshal QueryPoolDepositSuccessMsgsRequest_zero "(\<lambda>_. True)"
    QueryPoolDepositSuccessMsgsResponse_Marshal QueryPoolDepositSuccessMsgsResponse_Unmarshal QueryPoolDepositSuccessMsgsResponse_zero "QueryPoolDepositSuccessMsgsResponse_ok"
    "grpc_server srv ''/tendermint.liquidity.v1beta1.Query/PoolDepositSuccessMsgs''" "srv_PoolDepositSuccessMsgs srv" "queryClient_PoolDepositSuccessMsgs (grpc_server srv)" for srv
  by unfold_locales (simp_all add: QueryPoolDepositSuccessMsgsRequest_roundtrip QueryPoolDepositSuccessMsgsResponse_roundtrip queryClient_PoolDepositSuccessMsgs_def Query_PoolDepositSuccessMsgs_Handler_def service_defs)

interpretation call_PoolSwapSuccessMsg: unary_call QueryPoolSwapSuccessMsgRequest_Marshal QueryPoolSwapSuccessMsgRequest_Unmarshal QueryPoolSwapSuccessMsgRequest_zero "(\<lambda>_. True)"
    QueryPoolSwapSuccessMsgResponse_Marshal QueryPoolSwapSuccessMsgResponse_Unmarshal QueryPoolSwapSuccessMsgResponse_zero "QueryPoolSwapSuccessMsgResponse_ok"
    "grpc_server srv ''/tendermint.liquidity.v1beta1.Query/PoolSwapSuccessMsg''" "srv_PoolSwapSuccessMsg srv" "queryClient_PoolSwapSuccessMsg (grpc_server srv)" for srv
  by unfold_locales (simp_all add: QueryPoolSwapSuccessMsgRequest_roundtrip QueryPoolSwapSuccessMsgResponse_roundtrip queryClient_PoolSwapSuccessMsg_def Query_PoolSwapSuccessMsg_Handler_def service_defs)

interpretation call_PoolSwapSuccessMsgs: unary_call QueryPoolSwapSuccessMsgsRequest_Marshal QueryPoolSwapSuccessMsgsRequest_Unmarshal QueryPoolSwapSuccessMsgsRequest_zero "(\<lambda>_. True)"
    QueryPoolSwapSuccessMsgsResponse_Marshal QueryPoolSwapSuccessMsgsResponse_Unmarshal QueryPoolSwapSuccessMsgsResponse_zero "QueryPoolSwapSuccessMsgsResponse_ok"
    "grpc_server srv ''/tendermint.liquidity.v1beta1.Query/PoolSwapSuccessMsgs''" "srv_PoolSwapSuccessMsgs srv" "queryClient_PoolSwapSuccessMsgs (grpc_server srv)" for srv
  by unfold_locales (simp_all add: QueryPoolSwapSuccessMsgsRequest_roundtrip QueryPoolSwapSuccessMsgsResponse_roundtrip queryClient_PoolSwapSuccessMsgs_def Query_PoolSwapSuccessMsgs_Handler_def service_defs)

interpretation call_PoolWithdrawSuccessMsg: unary_call QueryPoolWithdrawSuccessMsgRequest_Marshal QueryPoolWithdrawSuccessMsgRequest_Unmarshal QueryPoolWithdrawSuccessMsgRequest_zero "(\<lambda>_. True)"
    QueryPoolWithdrawSuccessMsgResponse_Marshal QueryPoolWithdrawSuccessMsgResponse_Unmarshal QueryPoolWithdrawSuccessMsgResponse_zero "QueryPoolWithdrawSuccessMsgResponse_ok"
    "grpc_server srv ''/tendermint.liquidity.v1beta1.Query/PoolWithdrawSuccessMsg''" "srv_PoolWithdrawSuccessMsg srv" "queryClient_PoolWithdrawSuccessMsg (grpc_server srv)" for srv
  by unfold_locales (simp_all add: QueryPoolWithdrawSuccessMsgRequest_roundtrip QueryPoolWithdrawSuccessMsgResponse_roundtrip queryClient_PoolWithdrawSuccessMsg_def Query_PoolWithdrawSuccessMsg_Handler_def service_defs)

interpretation call_PoolWithdrawSuccessMsgs: unary_call QueryPoolWithdrawSuccessMsgsRequest_Marshal QueryPoolWithdrawSuccessMsgsRequest_Unmarshal QueryPoolWithdrawSuccessMsgsRequest_zero "(\<lambda>_. True)"
    QueryPoolWithdrawSuccessMsgsResponse_Marshal QueryPoolWithdrawSuccessMsgsResponse_Unmarshal QueryPoolWithdrawSuccessMsgsResponse_zero "QueryPoolWithdrawSuccessMsgsResponse_ok"
    "grpc_server srv ''/tendermint.liquidity.v1beta1.Query/PoolWithdrawSuccessMsgs''" "srv_PoolWithdrawSuccessMsgs srv" "queryClient_PoolWithdrawSuccessMsgs (grpc_server srv)" for srv
  by unfold_locales (simp_all add: QueryPoolWithdrawSuccessMsgsRequest_roundtrip QueryPoolWithdrawSuccessMsgsResponse_roundtrip queryClient_PoolWithdrawSuccessMsgs_def Query_PoolWithdrawSuccessMsgs_Handler_def service_defs)


definition demo_pool :: SwapPool where
  "demo_pool = \<lparr>SwapPool_Id = 7, SwapPool_TypeId = 1, SwapPool_ReserveCoinDenoms = [''stake'', ''uplug''],
     SwapPool_ReserveAccountAddress = ''gx1'', SwapPool_PoolCoinDenom = ''pool7''\<rparr>"

definition demo_server :: QueryServer where
  "demo_server = UnimplementedQueryServer\<lparr>srv_LiquidityPool := (\<lambda>r.
     if QueryLiquidityPoolRequest_PoolId r = 7 then Inr \<lparr>QueryLiquidityPoolResponse_Pool = demo_pool\<rparr> else Inl (Err ''not found''))\<rparr>"


end
