(* ===== verification/Config.thy ===== *)
theory Config
  imports Complex_Main SdkDecCoin HdPath
begin

text \<open>
  The configuration of a client (\<open>types/config.go\<close>), the registered errors (\<open>types/errors.go\<close>) and the byte helpers of
  \<open>types/utils.go\<close>. An option is a function on the configuration that may fail. Opening the level database is an argument.
  A \<open>float64\<close> is a rational number or one of the special values. The map of used error codes is a state.
\<close>

section \<open>Configuration\<close>

datatype float64 = Num rat | PosInf | NegInf | NaN

text \<open>The comparison \<open>f <= 0\<close>; it is false of NaN.\<close>

definition float_le_0 :: "float64 \<Rightarrow> bool" where
  "float_le_0 f = (case f of Num q \<Rightarrow> q \<le> 0 | PosInf \<Rightarrow> False | NegInf \<Rightarrow> True | NaN \<Rightarrow> False)"

definition defaultGas :: "64 word" where "defaultGas = 200000"
definition defaultTimeout :: "64 word" where "defaultTimeout = 5"
definition defaultLogLevel :: string where "defaultLogLevel = ''info''"
definition defaultAlgo :: string where "defaultAlgo = ''secp256k1''"
definition defaultFees :: string where "defaultFees = ''200plug''"
definition defaultMode :: string where "defaultMode = ''sync''"
definition defaultGasAdjustment :: float64 where "defaultGasAdjustment = Num 1"

record 'd ClientConfig =
  cfgNodeURL :: string
  cfgGRPCAddr :: string
  cfgChainId :: string
  cfgGas :: "64 word"
  cfgFee :: DecCoins
  cfgKeyDAO :: "'d option"
  cfgAlgo :: string
  cfgMode :: string
  cfgTimeout :: "64 word"
  cfgLogLevel :: string
  cfgGasAdjustment :: float64
  cfgCached :: bool

type_synonym 'd Option = "'d ClientConfig \<Rightarrow> 'd ClientConfig res"

definition AlgoOption :: "string \<Rightarrow> 'd Option" where
  "AlgoOption algo cfg = Inr (cfg\<lparr>cfgAlgo := (if algo = '''' then defaultAlgo else algo)\<rparr>)"

definition ModeOption :: "string \<Rightarrow> 'd Option" where
  "ModeOption mode cfg = Inr (cfg\<lparr>cfgMode := (if mode = '''' then defaultMode else mode)\<rparr>)"

text \<open>The error of \<open>ParseDecCoins\<close> is ignored; its result is then nil.\<close>

definition FeeOption :: "DecCoins \<Rightarrow> 'd Option" where
  "FeeOption fee cfg =
     (let fee = (if DecCoins_Empty fee \<or> \<not> DecCoins_IsValid fee
                 then (case ParseDecCoins defaultFees of Inl _ \<Rightarrow> [] | Inr fees \<Rightarrow> fees) else fee)
      in Inr (cfg\<lparr>cfgFee := fee\<rparr>))"

definition GasAdjustmentOption :: "float64 \<Rightarrow> 'd Option" where
  "GasAdjustmentOption gasAdjustment cfg =
     Inr (cfg\<lparr>cfgGasAdjustment := (if float_le_0 gasAdjustment then defaultGasAdjustment else gasAdjustment)\<rparr>)"

definition GasOption :: "64 word \<Rightarrow> 'd Option" where
  "GasOption gas cfg = Inr (cfg\<lparr>cfgGas := (if gas \<le> 0 then defaultGas else gas)\<rparr>)"

definition KeyDAOOption :: "'d res \<Rightarrow> 'd option \<Rightarrow> 'd Option" where
  "KeyDAOOption newLevelDB dao cfg =
     (case dao of
        None \<Rightarrow> bindR newLevelDB (\<lambda>levelDB. Inr (cfg\<lparr>cfgKeyDAO := Some levelDB\<rparr>))
      | Some d \<Rightarrow> Inr (cfg\<lparr>cfgKeyDAO := Some d\<rparr>))"

definition TimeoutOption :: "64 word \<Rightarrow> 'd Option" where
  "TimeoutOption timeout cfg = Inr (cfg\<lparr>cfgTimeout := (if timeout \<le> 0 then defaultTimeout else timeout)\<rparr>)"

definition LogLevelOption :: "string \<Rightarrow> 'd Option" where
  "LogLevelOption level cfg = Inr (cfg\<lparr>cfgLogLevel := (if level = '''' then defaultLogLevel else level)\<rparr>)"

definition CachedOption :: "bool \<Rightarrow> 'd Option" where
  "CachedOption enabled cfg = Inr (cfg\<lparr>cfgCached := enabled\<rparr>)"

definition checkAndSetDefault :: "'d res \<Rightarrow> 'd Option" where
  "checkAndSetDefault newLevelDB cfg =
     (if length (cfgNodeURL cfg) = 0 then Inl (Err ''nodeURI is required'')
      else if length (cfgChainId cfg) = 0 then Inl (Err ''chainID is required'')
      else
        bindR (GasOption (cfgGas cfg) cfg) (\<lambda>cfg.
        bindR (FeeOption (cfgFee cfg) cfg) (\<lambda>cfg.
        bindR (AlgoOption (cfgAlgo cfg) cfg) (\<lambda>cfg.
        bindR (KeyDAOOption newLevelDB (cfgKeyDAO cfg) cfg) (\<lambda>cfg.
        bindR (ModeOption (cfgMode cfg) cfg) (\<lambda>cfg.
        bindR (TimeoutOption (cfgTimeout cfg) cfg) (\<lambda>cfg.
        bindR (LogLevelOption (cfgLogLevel cfg) cfg) (\<lambda>cfg.
          GasAdjustmentOption (cfgGasAdjustment cfg) cfg))))))))"

definition NewClientConfig :: "'d res \<Rightarrow> string \<Rightarrow> string \<Rightarrow> string \<Rightarrow> ('d Option) list \<Rightarrow> 'd ClientConfig res" where
  "NewClientConfig newLevelDB url grpcAddr chainId options =
     bindR (foldR (\<lambda>cfg optionFn. optionFn cfg)
        \<lparr>cfgNodeURL = url, cfgGRPCAddr = grpcAddr, cfgChainId = chainId, cfgGas = 0, cfgFee = [], cfgKeyDAO = None, cfgAlgo = '''',
         cfgMode = '''', cfgTimeout = 0, cfgLogLevel = '''', cfgGasAdjustment = Num 0, cfgCached = False\<rparr> options)
       (checkAndSetDefault newLevelDB)"

text \<open>What the rest of the library relies on.\<close>

definition config_ok :: "'d ClientConfig \<Rightarrow> bool" where
  "config_ok cfg \<longleftrightarrow> cfgNodeURL cfg \<noteq> '''' \<and> cfgChainId cfg \<noteq> '''' \<and> 0 < cfgGas cfg \<and> cfgFee cfg \<noteq> [] \<and> DecCoins_IsValid (cfgFee cfg)
     \<and> cfgKeyDAO cfg \<noteq> None \<and> cfgAlgo cfg \<noteq> '''' \<and> cfgMode cfg \<noteq> '''' \<and> 0 < cfgTimeout cfg \<and> cfgLogLevel cfg \<noteq> ''''
     \<and> \<not> float_le_0 (cfgGasAdjustment cfg)"

section \<open>Errors\<close>

record sdkError =
  codespace :: string
  code :: "32 word"
  desc :: string

definition RootCodespace :: string where "RootCodespace = ''sdk''"

definition errorID :: "string \<Rightarrow> 32 word \<Rightarrow> string" where
  "errorID cs c = cs @ '':'' @ show_nat (unat c)"

definition setUsed :: "sdkError \<Rightarrow> (string \<rightharpoonup> sdkError) \<Rightarrow> (string \<rightharpoonup> sdkError)" where
  "setUsed err usedCodes = usedCodes(errorID (codespace err) (code err) \<mapsto> err)"

definition register :: "string \<Rightarrow> 32 word \<Rightarrow> string \<Rightarrow> (string \<rightharpoonup> sdkError) \<Rightarrow> sdkError \<times> (string \<rightharpoonup> sdkError)" where
  "register cs c description usedCodes =
     (let err = \<lparr>codespace = cs, code = c, desc = description\<rparr> in (err, setUsed err usedCodes))"

definition errInvalid :: sdkError where
  "errInvalid = \<lparr>codespace = RootCodespace, code = 999999, desc = ''sdk check error''\<rparr>"

text \<open>The calls of \<open>init\<close>, after the registration of \<open>errInvalid\<close>.\<close>

definition registrations :: "(32 word \<times> string) list" where
  "registrations =
     [(0, ''success''), (1, ''internal''), (2, ''tx parse error''), (3, ''invalid sequence''), (4, ''unauthorized''),
      (5, ''insufficient funds''), (6, ''unknown request''), (7, ''invalid address''), (8, ''invalid pubkey''),
      (9, ''unknown address''), (10, ''invalid coins''), (11, ''out of gas''), (12, ''memo too large''),
      (13, ''insufficient fee''), (14, ''maximum number of signatures exceeded''), (15, ''no signatures supplied''),
      (16, ''failed to marshal JSON bytes''), (17, ''failed to unmarshal JSON bytes''), (18, ''invalid request''),
      (19, ''tx already in mempool''), (20, ''mempool is full''), (21, ''tx too large'')]"

definition init_errors :: "string \<rightharpoonup> sdkError" where
  "init_errors =
     foldl (\<lambda>used (c, d). snd (register RootCodespace c d used))
       (snd (register RootCodespace (code errInvalid) (desc errInvalid) Map.empty)) registrations"

definition v17CodeMap :: "(32 word \<times> 32 word) list" where
  "v17CodeMap =
     [(0, 0), (1, 1), (2, 2), (3, 3), (4, 4), (5, 5), (6, 6), (7, 7), (8, 8), (9, 9), (10, 10), (11, 10), (12, 11), (13, 12), (14, 13),
      (15, 6), (16, 14), (17, 11), (18, 18), (19, 18), (20, 18), (21, 21), (22, 18), (23, 18)]"

text \<open>The first log is taken without a test.\<close>

definition GetError :: "string \<Rightarrow> 32 word \<Rightarrow> string list \<Rightarrow> sdkError res" where
  "GetError cs c logs =
     (let codeV1 = (case map_of v17CodeMap c of None \<Rightarrow> 18 | Some v \<Rightarrow> v)
      in case logs of
           [] \<Rightarrow> Inl (Panic ''index out of range'')
         | l # _ \<Rightarrow> Inr \<lparr>codespace = cs, code = codeV1, desc = l\<rparr>)"

text \<open>An error is the option of its text.\<close>

definition Wrap :: "string option \<Rightarrow> sdkError option" where
  "Wrap err = (case err of None \<Rightarrow> None | Some m \<Rightarrow> Some \<lparr>codespace = codespace errInvalid, code = code errInvalid, desc = m\<rparr>)"

text \<open>\<open>errors.WithMessage\<close> puts the message in front of the text and keeps nil.\<close>

definition WrapWithMessage :: "string option \<Rightarrow> string \<Rightarrow> sdkError option" where
  "WrapWithMessage err msg = Wrap (case err of None \<Rightarrow> None | Some m \<Rightarrow> Some (msg @ '': '' @ m))"

definition Wrapf :: "string \<Rightarrow> sdkError option" where
  "Wrapf msg = Wrap (Some msg)"

section \<open>Bytes\<close>

definition Uint64ToBigEndian :: "64 word \<Rightarrow> bytes" where
  "Uint64ToBigEndian i = map (\<lambda>k. ucast (drop_bit (8 * (7 - k)) i)) [0..<8]"

text \<open>\<open>binary.BigEndian.Uint64\<close> reads eight bytes and panics on fewer.\<close>

definition BigEndianToUint64 :: "bytes \<Rightarrow> (64 word) res" where
  "BigEndianToUint64 bz =
     (if bz = [] then Inr 0
      else if length bz < 8 then Inl (Panic ''index out of range'')
      else Inr (foldl (\<lambda>acc b. push_bit 8 acc OR ucast b) 0 (take 8 bz)))"

section \<open>Properties\<close>

lemma default_amount: "NewDecFromStr ''200'' = Inr (200 * precisionReuse)"
proof -
  let ?z = "replicate Precision (CHR ''0'')"
  have s: "splitOn (CHR ''.'') ''200'' = [''200'']" by code_simp
  have d: "\<forall>c\<in>set (''200'' @ ?z). is_digit c" using is_digit_0 by (auto simp: is_digit_def)
  have "SetString10 (''200'' @ ?z) = Some (int (dec_value 0 (''200'' @ ?z)))" using d SetString10_digits [of "''200'' @ ?z"] by simp
  moreover have "dec_value 0 ?z = 0" using dec_value_zeros [of _ "[]"] by simp
  moreover have "dec_value 0 ''200'' = 200" by code_simp
  ultimately have "SetString10 (''200'' @ ?z) = Some (200 * precisionReuse)"
    using dec_value_acc [of 200 ?z] by (simp add: dec_value_append precisionReuse_num Precision_def)
  then show ?thesis using s by (simp add: NewDecFromStr_def Let_def)
qed

lemma default_fee: "ParseDecCoins defaultFees = Inr [\<lparr>DecDenom = ''plug'', DecAmount = 200 * precisionReuse\<rparr>]"
proof -
  have t: "TrimSpace ''200plug'' = ''200plug''" by code_simp
  have s: "splitOn (CHR '','') ''200plug'' = [''200plug'']" by code_simp
  have r: "reDecCoin ''200plug'' = Some (''200'', ''plug'')" by code_simp
  have v: "ValidateDenom ''plug'' = Inr ()" by code_simp
  have p: "ParseDecCoin ''200plug'' = Inr \<lparr>DecDenom = ''plug'', DecAmount = 200 * precisionReuse\<rparr>"
    by (simp add: ParseDecCoin_def t r default_amount v NewDecCoinFromDec_def mustValidateDenom_def precisionReuse_num)
  show ?thesis using t s p v by (simp add: ParseDecCoins_def defaultFees_def DecCoins_Sort_def precisionReuse_num)
qed

lemma default_fee_valid: "DecCoins_IsValid [\<lparr>DecDenom = ''plug'', DecAmount = 200 * precisionReuse\<rparr>]"
proof -
  have "ValidateDenom ''plug'' = Inr ()" by code_simp
  then show ?thesis by (simp add: precisionReuse_num)
qed

text \<open>The defaults, field by field.\<close>

definition with_defaults :: "'d \<Rightarrow> 'd ClientConfig \<Rightarrow> 'd ClientConfig" where
  "with_defaults d c = c\<lparr>
     cfgGas := (if cfgGas c = 0 then defaultGas else cfgGas c),
     cfgFee := (if cfgFee c = [] \<or> \<not> DecCoins_IsValid (cfgFee c) then [\<lparr>DecDenom = ''plug'', DecAmount = 200 * precisionReuse\<rparr>] else cfgFee c),
     cfgAlgo := (if cfgAlgo c = '''' then defaultAlgo else cfgAlgo c),
     cfgKeyDAO := Some (case cfgKeyDAO c of None \<Rightarrow> d | Some x \<Rightarrow> x),
     cfgMode := (if cfgMode c = '''' then defaultMode else cfgMode c),
     cfgTimeout := (if cfgTimeout c = 0 then defaultTimeout else cfgTimeout c),
     cfgLogLevel := (if cfgLogLevel c = '''' then defaultLogLevel else cfgLogLevel c),
     cfgGasAdjustment := (if float_le_0 (cfgGasAdjustment c) then defaultGasAdjustment else cfgGasAdjustment c)\<rparr>"

lemmas option_defs = GasOption_def FeeOption_def AlgoOption_def KeyDAOOption_def ModeOption_def TimeoutOption_def LogLevelOption_def
  GasAdjustmentOption_def

lemma checkAndSetDefault_eq:
  "checkAndSetDefault db c =
     (if cfgNodeURL c = '''' then Inl (Err ''nodeURI is required'')
      else if cfgChainId c = '''' then Inl (Err ''chainID is required'')
      else case cfgKeyDAO c of
             None \<Rightarrow> bindR db (\<lambda>d. Inr (with_defaults d c))
           | Some d \<Rightarrow> Inr (with_defaults d c))"
  by (cases "cfgKeyDAO c"; cases db)
    (simp_all add: checkAndSetDefault_def option_defs Let_def DecCoins_Empty_def default_fee with_defaults_def)

lemma with_defaults_ok:
  assumes "cfgNodeURL c \<noteq> ''''" "cfgChainId c \<noteq> ''''"
  shows "config_ok (with_defaults d c)"
  using assms default_fee_valid
  by (simp add: config_ok_def with_defaults_def defaultGas_def defaultAlgo_def defaultMode_def defaultTimeout_def defaultLogLevel_def
      defaultGasAdjustment_def float_le_0_def word_neq_0_conv del: DecCoins_IsValid.simps)

definition zero_config :: "string \<Rightarrow> string \<Rightarrow> string \<Rightarrow> 'd ClientConfig" where
  "zero_config url grpcAddr chainId =
     \<lparr>cfgNodeURL = url, cfgGRPCAddr = grpcAddr, cfgChainId = chainId, cfgGas = 0, cfgFee = [], cfgKeyDAO = None, cfgAlgo = '''',
      cfgMode = '''', cfgTimeout = 0, cfgLogLevel = '''', cfgGasAdjustment = Num 0, cfgCached = False\<rparr>"

lemma NewClientConfig_eq:
  "foldR (\<lambda>cfg optionFn. optionFn cfg) (zero_config url grpcAddr chainId) options = Inr c \<Longrightarrow>
   NewClientConfig db url grpcAddr chainId options = checkAndSetDefault db c"
  by (simp add: NewClientConfig_def zero_config_def)



text \<open>
  Every code that \<open>GetError\<close> gives is registered with a description when the package is initialised, and the registrations do not overwrite each other.
\<close>

lemma errorID_inj: "errorID cs c = errorID cs d \<longleftrightarrow> c = d"
proof -
  have "show_nat (unat c) = show_nat (unat d) \<Longrightarrow> unat c = unat d" by (metis dec_value_show_nat)
  then show ?thesis by (auto simp: errorID_def word_unat_eq_iff)
qed

lemma registered_fold:
  assumes "distinct (map fst rs)" "(c, d) \<in> set rs"
  shows "foldl (\<lambda>used (c, d). snd (register cs c d used)) used rs (errorID cs c) = Some \<lparr>codespace = cs, code = c, desc = d\<rparr>"
  using assms
proof (induction rs rule: rev_induct)
  case (snoc r rs)
  then show ?case
    by (cases r) (auto simp: register_def setUsed_def Let_def errorID_inj rev_image_eqI)
qed simp

lemma init_errors_registered:
  "(c, d) \<in> set registrations \<Longrightarrow> init_errors (errorID RootCodespace c) = Some \<lparr>codespace = RootCodespace, code = c, desc = d\<rparr>"
  unfolding init_errors_def by (rule registered_fold) (simp_all add: registrations_def)

lemma GetError_registered:
  assumes "GetError cs c logs = Inr e"
  shows "\<exists>d. (code e, d) \<in> set registrations \<and> init_errors (errorID RootCodespace (code e)) = Some \<lparr>codespace = RootCodespace, code = code e, desc = d\<rparr>"
proof -
  have "list_all (\<lambda>(_, v). v \<in> fst ` set registrations) v17CodeMap" "18 \<in> fst ` set registrations"
    by (simp_all add: v17CodeMap_def registrations_def)
  then have "(case map_of v17CodeMap c of None \<Rightarrow> 18 | Some v \<Rightarrow> v) \<in> fst ` set registrations"
    using map_of_SomeD [of v17CodeMap c] by (force simp: list_all_iff split: option.splits)
  moreover have "code e = (case map_of v17CodeMap c of None \<Rightarrow> 18 | Some v \<Rightarrow> v)"
    using assms by (cases logs) (auto simp: GetError_def Let_def)
  ultimately have "code e \<in> fst ` set registrations" by simp
  then show ?thesis using init_errors_registered by fastforce
qed

text \<open>A code that is registered twice silently replaces the first error.\<close>

lemma register_overwrites:
  "snd (register cs c d2 (snd (register cs c d1 used))) (errorID cs c) = Some \<lparr>codespace = cs, code = c, desc = d2\<rparr>"
  by (simp add: register_def setUsed_def Let_def)

lemma GetError_without_log_panics: "GetError cs c [] = Inl (Panic ''index out of range'')"
  by (simp add: GetError_def Let_def)

lemma byte_join: "push_bit 8 (drop_bit 8 x) OR ucast (ucast (x :: 64 word) :: 8 word) = x"
  by (rule bit_eqI) (auto simp: bit_simps)

lemma byte_step: "a = b + 8 \<Longrightarrow> push_bit 8 (drop_bit a (i :: 64 word)) OR ucast (ucast (drop_bit b i) :: 8 word) = drop_bit b i"
  using byte_join [of "drop_bit b i"] by (simp add: add.commute)

lemma BigEndian_roundtrip: "BigEndianToUint64 (Uint64ToBigEndian i) = Inr i"
proof -
  have z: "drop_bit 64 i = 0" by (rule bit_eqI) (auto simp: bit_drop_bit_eq dest: bit_imp_le_length)
  have "foldl (\<lambda>acc b. push_bit 8 acc OR ucast b) 0 (map (\<lambda>k. ucast (drop_bit (8 * (7 - k)) i) :: 8 word) [0..<n]) = drop_bit (64 - 8 * n) i"
    if "n \<le> 8" for n
    using that
  proof (induction n)
    case (Suc n)
    then show ?case by (simp add: byte_step diff_mult_distrib2)
  qed (use z in simp)
  from this [of 8] show ?thesis by (simp add: BigEndianToUint64_def Uint64ToBigEndian_def)
qed

end
