(* ===== verification/StakingQuery.thy ===== *)
theory StakingQuery
  imports QueryTypes Messages Client
begin

text \<open>
  Delegations and the queries of the staking module: \<open>modules/staking/delegation.go\<close> (delegations, unbonding delegations and
  redelegations with their entries), the conversions of the answers (\<open>modules/staking/types.go\<close> into the types of
  \<open>modules/staking/export.go\<close>) and the queries of the client (\<open>modules/staking/staking.go\<close>) on an open connection. The generated
  gRPC stub and the unpacking of public keys are parameters. A time is its number of nanoseconds, a signed height the word that is
  sent; an error is wrapped with its text.
\<close>

section \<open>Delegations (\<open>delegation.go\<close>)\<close>

record Delegation =
  dlDelegatorAddress :: string
  dlValidatorAddress :: string
  dlShares :: "int option"

record UnbondingDelegationEntry =
  ueCreationHeight :: "64 word"
  ueCompletionTime :: int
  ueInitialBalance :: "int option"
  ueBalance :: "int option"

record UnbondingDelegation =
  ubDelegatorAddress :: string
  ubValidatorAddress :: string
  ubEntries :: "UnbondingDelegationEntry list"

record RedelegationEntry =
  reCreationHeight :: "64 word"
  reCompletionTime :: int
  reInitialBalance :: "int option"
  reSharesDst :: "int option"

record Redelegation =
  rdDelegatorAddress :: string
  rdValidatorSrcAddress :: string
  rdValidatorDstAddress :: string
  rdEntries :: "RedelegationEntry list"

record DelegationResponse =
  drDelegation :: Delegation
  drBalance :: CoinPB

record RedelegationEntryResponse =
  rrEntry :: RedelegationEntry
  rrBalance :: "int option"

record RedelegationResponse =
  rsRedelegation :: Redelegation
  rsEntries :: "RedelegationEntryResponse list"

definition NewDelegation :: "Bech32 \<Rightarrow> bytes \<Rightarrow> bytes \<Rightarrow> int option \<Rightarrow> Delegation res" where
  "NewDelegation lib delegatorAddr validatorAddr shares =
     bindR (AccAddress_String lib delegatorAddr) (\<lambda>d. bindR (ValAddress_String lib validatorAddr) (\<lambda>v.
       Inr \<lparr>dlDelegatorAddress = d, dlValidatorAddress = v, dlShares = shares\<rparr>))"

definition GetDelegatorAddr :: "Bech32 \<Rightarrow> Delegation \<Rightarrow> bytes res" where
  "GetDelegatorAddr lib d = panic_err (AccAddressFromBech32 lib (dlDelegatorAddress d))"

definition GetValidatorAddr :: "Bech32 \<Rightarrow> Delegation \<Rightarrow> bytes res" where
  "GetValidatorAddr lib d = panic_err (ValAddressFromBech32 lib (dlValidatorAddress d))"

definition NewUnbondingDelegationEntry :: "64 word \<Rightarrow> int \<Rightarrow> int option \<Rightarrow> UnbondingDelegationEntry" where
  "NewUnbondingDelegationEntry creationHeight completionTime balance =
     \<lparr>ueCreationHeight = creationHeight, ueCompletionTime = completionTime, ueInitialBalance = balance, ueBalance = balance\<rparr>"

definition UnbondingEntry_IsMature :: "UnbondingDelegationEntry \<Rightarrow> int \<Rightarrow> bool" where
  "UnbondingEntry_IsMature e currentTime = (\<not> currentTime < ueCompletionTime e)"

definition NewUnbondingDelegation :: "Bech32 \<Rightarrow> bytes \<Rightarrow> bytes \<Rightarrow> 64 word \<Rightarrow> int \<Rightarrow> int option \<Rightarrow> UnbondingDelegation res" where
  "NewUnbondingDelegation lib delegatorAddr validatorAddr creationHeight minTime balance =
     bindR (AccAddress_String lib delegatorAddr) (\<lambda>d. bindR (ValAddress_String lib validatorAddr) (\<lambda>v.
       Inr \<lparr>ubDelegatorAddress = d, ubValidatorAddress = v, ubEntries = [NewUnbondingDelegationEntry creationHeight minTime balance]\<rparr>))"

definition UnbondingDelegation_AddEntry :: "64 word \<Rightarrow> int \<Rightarrow> int option \<Rightarrow> UnbondingDelegation \<Rightarrow> UnbondingDelegation" where
  "UnbondingDelegation_AddEntry creationHeight minTime balance ubd =
     ubd\<lparr>ubEntries := ubEntries ubd @ [NewUnbondingDelegationEntry creationHeight minTime balance]\<rparr>"

text \<open>\<open>append(s[:i], s[i+1:]...)\<close>: both slices must be within the bounds.\<close>

definition remove_at :: "int \<Rightarrow> 'a list \<Rightarrow> 'a list res" where
  "remove_at i s =
     (if i < 0 \<or> int (length s) < i + 1 then Inl (Panic ''slice bounds out of range'')
      else Inr (take (nat i) s @ drop (nat i + 1) s))"

definition UnbondingDelegation_RemoveEntry :: "int \<Rightarrow> UnbondingDelegation \<Rightarrow> UnbondingDelegation res" where
  "UnbondingDelegation_RemoveEntry i ubd = bindR (remove_at i (ubEntries ubd)) (\<lambda>es. Inr (ubd\<lparr>ubEntries := es\<rparr>))"

definition NewRedelegationEntry :: "64 word \<Rightarrow> int \<Rightarrow> int option \<Rightarrow> int option \<Rightarrow> RedelegationEntry" where
  "NewRedelegationEntry creationHeight completionTime balance sharesDst =
     \<lparr>reCreationHeight = creationHeight, reCompletionTime = completionTime, reInitialBalance = balance, reSharesDst = sharesDst\<rparr>"

definition RedelegationEntry_IsMature :: "RedelegationEntry \<Rightarrow> int \<Rightarrow> bool" where
  "RedelegationEntry_IsMature e currentTime = (\<not> currentTime < reCompletionTime e)"

definition NewRedelegation ::
  "Bech32 \<Rightarrow> bytes \<Rightarrow> bytes \<Rightarrow> bytes \<Rightarrow> 64 word \<Rightarrow> int \<Rightarrow> int option \<Rightarrow> int option \<Rightarrow> Redelegation res" where
  "NewRedelegation lib delegatorAddr validatorSrcAddr validatorDstAddr creationHeight minTime balance sharesDst =
     bindR (AccAddress_String lib delegatorAddr) (\<lambda>d. bindR (ValAddress_String lib validatorSrcAddr) (\<lambda>s.
     bindR (ValAddress_String lib validatorDstAddr) (\<lambda>t.
       Inr \<lparr>rdDelegatorAddress = d, rdValidatorSrcAddress = s, rdValidatorDstAddress = t,
            rdEntries = [NewRedelegationEntry creationHeight minTime balance sharesDst]\<rparr>)))"

definition Redelegation_AddEntry :: "64 word \<Rightarrow> int \<Rightarrow> int option \<Rightarrow> int option \<Rightarrow> Redelegation \<Rightarrow> Redelegation" where
  "Redelegation_AddEntry creationHeight minTime balance sharesDst red =
     red\<lparr>rdEntries := rdEntries red @ [NewRedelegationEntry creationHeight minTime balance sharesDst]\<rparr>"

definition Redelegation_RemoveEntry :: "int \<Rightarrow> Redelegation \<Rightarrow> Redelegation res" where
  "Redelegation_RemoveEntry i red = bindR (remove_at i (rdEntries red)) (\<lambda>es. Inr (red\<lparr>rdEntries := es\<rparr>))"

definition NewDelegationResp :: "Bech32 \<Rightarrow> bytes \<Rightarrow> bytes \<Rightarrow> int option \<Rightarrow> CoinPB \<Rightarrow> DelegationResponse res" where
  "NewDelegationResp lib delegatorAddr validatorAddr shares balance =
     bindR (NewDelegation lib delegatorAddr validatorAddr shares) (\<lambda>d. Inr \<lparr>drDelegation = d, drBalance = balance\<rparr>)"

definition NewRedelegationResponse :: "Bech32 \<Rightarrow> bytes \<Rightarrow> bytes \<Rightarrow> bytes \<Rightarrow> RedelegationEntryResponse list \<Rightarrow> RedelegationResponse res" where
  "NewRedelegationResponse lib delegatorAddr validatorSrc validatorDst entries =
     bindR (AccAddress_String lib delegatorAddr) (\<lambda>d. bindR (ValAddress_String lib validatorSrc) (\<lambda>s.
     bindR (ValAddress_String lib validatorDst) (\<lambda>t.
       Inr \<lparr>rsRedelegation = \<lparr>rdDelegatorAddress = d, rdValidatorSrcAddress = s, rdValidatorDstAddress = t, rdEntries = []\<rparr>,
            rsEntries = entries\<rparr>)))"

definition NewRedelegationEntryResponse :: "64 word \<Rightarrow> int \<Rightarrow> int option \<Rightarrow> int option \<Rightarrow> int option \<Rightarrow> RedelegationEntryResponse" where
  "NewRedelegationEntryResponse creationHeight completionTime sharesDst initialBalance balance =
     \<lparr>rrEntry = NewRedelegationEntry creationHeight completionTime initialBalance sharesDst, rrBalance = balance\<rparr>"

section \<open>Conversions (\<open>types.go\<close>)\<close>

record Commission =
  cmRates :: CommissionRates
  cmUpdateTime :: int

text \<open>\<open>'p\<close> is the type of packed public keys.\<close>

record 'p Validator =
  vOperatorAddress :: string
  vConsensusPubkey :: "'p option"
  vJailed :: bool
  vStatus :: "32 word"
  vTokens :: "int option"
  vDelegatorShares :: "int option"
  vDescription :: Description
  vUnbondingHeight :: "64 word"
  vUnbondingTime :: int
  vCommission :: Commission
  vMinSelfDelegation :: "int option"

record QueryValidatorResp =
  qvOperatorAddress :: string
  qvConsensusPubkey :: string
  qvJailed :: bool
  qvStatus :: string
  qvTokens :: "int option"
  qvDelegatorShares :: "int option"
  qvDescription :: Description
  qvUnbondingHeight :: "64 word"
  qvUnbondingTime :: int
  qvCommission :: Commission
  qvMinSelfDelegation :: "int option"

record delegation =
  qdDelegatorAddress :: string
  qdShares :: "int option"
  qdValidatorAddress :: string

record QueryDelegationResp =
  qrDelegation :: delegation
  qrBalance :: CoinPB

record unbondingDelegationEntry =
  quCreationHeight :: "64 word"
  quCompletionTime :: int
  quInitialBalance :: "int option"
  quBalance :: "int option"

record QueryUnbondingDelegationResp =
  qbDelegatorAddress :: string
  qbValidatorAddress :: string
  qbEntries :: "unbondingDelegationEntry list"

record redelegationEntry =
  qeCreationHeight :: "64 word"
  qeCompletionTime :: int
  qeInitialBalance :: "int option"
  qeSharesDst :: "int option"

record redelegationEntryResponse =
  qeEntry :: redelegationEntry
  qeBalance :: "int option"

record redelegation =
  qnDelegatorAddress :: string
  qnValidatorSrcAddress :: string
  qnValidatorDstAddress :: string
  qnEntries :: "redelegationEntry list"

record RedelegationResp =
  qpRedelegation :: redelegation
  qpEntries :: "redelegationEntryResponse list"

text \<open>An answer with a list and the optional page of the node, and the converted one with its total.\<close>

record 'a Paged =
  pgItems :: "'a list"
  pgPagination :: "PageResponse option"

record 'b PagedResp =
  prItems :: "'b list"
  prTotal :: "64 word"

text \<open>Reading \<open>q.Pagination.Total\<close> of a nil page panics.\<close>

definition page_total :: "'a Paged \<Rightarrow> (64 word) res" where
  "page_total q = (case pgPagination q of None \<Rightarrow> Inl (Panic ''nil pointer dereference'') | Some p \<Rightarrow> Inr (PageResponse_Total p))"

definition BondStatus_name :: "32 word \<Rightarrow> string" where
  "BondStatus_name s =
     (if s = 0 then ''BOND_STATUS_UNSPECIFIED'' else if s = 1 then ''BOND_STATUS_UNBONDED''
      else if s = 2 then ''BOND_STATUS_UNBONDING'' else if s = 3 then ''BOND_STATUS_BONDED'' else '''')"

record ('p, 'k) PubKeyLib =
  unpackPubKey :: "'p \<Rightarrow> 'k res"
  pubKeyString :: "'k \<Rightarrow> string"

text \<open>A nil key, without an error, when the validator has none.\<close>

definition GetPubKey :: "('p, 'k) PubKeyLib \<Rightarrow> 'p Validator \<Rightarrow> ('k option) res" where
  "GetPubKey lib v =
     (case vConsensusPubkey v of
        None \<Rightarrow> Inr None
      | Some a \<Rightarrow> bindR (unpackPubKey lib a) (\<lambda>k. Inr (Some k)))"

text \<open>The error of \<open>GetPubKey\<close> is ignored; calling \<open>String\<close> on the nil key panics.\<close>

definition Validator_Convert :: "('p, 'k) PubKeyLib \<Rightarrow> 'p Validator \<Rightarrow> QueryValidatorResp res" where
  "Validator_Convert lib v =
     bindR (case GetPubKey lib v of
              Inr (Some k) \<Rightarrow> Inr (pubKeyString lib k)
            | Inl (Panic m) \<Rightarrow> Inl (Panic m)
            | _ \<Rightarrow> Inl (Panic ''nil pointer dereference'')) (\<lambda>pk.
       Inr \<lparr>qvOperatorAddress = vOperatorAddress v, qvConsensusPubkey = pk, qvJailed = vJailed v,
            qvStatus = BondStatus_name (vStatus v), qvTokens = vTokens v, qvDelegatorShares = vDelegatorShares v,
            qvDescription = vDescription v, qvUnbondingHeight = vUnbondingHeight v, qvUnbondingTime = vUnbondingTime v,
            qvCommission = vCommission v, qvMinSelfDelegation = vMinSelfDelegation v\<rparr>)"

definition QueryValidatorsResponse_Convert :: "('p, 'k) PubKeyLib \<Rightarrow> 'p Validator Paged \<Rightarrow> QueryValidatorResp PagedResp res" where
  "QueryValidatorsResponse_Convert lib q =
     bindR (mapR (Validator_Convert lib) (pgItems q)) (\<lambda>vs. bindR (page_total q) (\<lambda>t. Inr \<lparr>prItems = vs, prTotal = t\<rparr>))"

definition DelegationResponse_Convert :: "DelegationResponse \<Rightarrow> QueryDelegationResp" where
  "DelegationResponse_Convert d =
     \<lparr>qrDelegation = \<lparr>qdDelegatorAddress = dlDelegatorAddress (drDelegation d), qdShares = dlShares (drDelegation d),
        qdValidatorAddress = dlValidatorAddress (drDelegation d)\<rparr>,
      qrBalance = \<lparr>CoinPB_Denom = CoinPB_Denom (drBalance d), CoinPB_Amount = CoinPB_Amount (drBalance d)\<rparr>\<rparr>"

definition QueryValidatorDelegationsResponse_Convert :: "DelegationResponse Paged \<Rightarrow> QueryDelegationResp PagedResp res" where
  "QueryValidatorDelegationsResponse_Convert q =
     bindR (page_total q) (\<lambda>t. Inr \<lparr>prItems = map DelegationResponse_Convert (pgItems q), prTotal = t\<rparr>)"

definition UnbondingDelegationEntry_Convert :: "UnbondingDelegationEntry \<Rightarrow> unbondingDelegationEntry" where
  "UnbondingDelegationEntry_Convert u =
     \<lparr>quCreationHeight = ueCreationHeight u, quCompletionTime = ueCompletionTime u, quInitialBalance = ueInitialBalance u, quBalance = ueBalance u\<rparr>"

definition UnbondingDelegation_Convert :: "UnbondingDelegation \<Rightarrow> QueryUnbondingDelegationResp" where
  "UnbondingDelegation_Convert u =
     \<lparr>qbDelegatorAddress = ubDelegatorAddress u, qbValidatorAddress = ubValidatorAddress u,
      qbEntries = map UnbondingDelegationEntry_Convert (ubEntries u)\<rparr>"

definition QueryValidatorUnbondingDelegationsResponse_Convert :: "UnbondingDelegation Paged \<Rightarrow> QueryUnbondingDelegationResp PagedResp res" where
  "QueryValidatorUnbondingDelegationsResponse_Convert q =
     bindR (page_total q) (\<lambda>t. Inr \<lparr>prItems = map UnbondingDelegation_Convert (pgItems q), prTotal = t\<rparr>)"

text \<open>The total of the node is not read.\<close>

definition QueryDelegatorDelegationsResponse_Convert :: "DelegationResponse Paged \<Rightarrow> QueryDelegationResp PagedResp" where
  "QueryDelegatorDelegationsResponse_Convert q = \<lparr>prItems = map DelegationResponse_Convert (pgItems q), prTotal = 0\<rparr>"

definition QueryDelegatorUnbondingDelegationsResponse_Convert :: "UnbondingDelegation Paged \<Rightarrow> QueryUnbondingDelegationResp PagedResp res" where
  "QueryDelegatorUnbondingDelegationsResponse_Convert q =
     bindR (page_total q) (\<lambda>t. Inr \<lparr>prItems = map UnbondingDelegation_Convert (pgItems q), prTotal = t\<rparr>)"

definition RedelegationEntry_Convert :: "RedelegationEntry \<Rightarrow> redelegationEntry" where
  "RedelegationEntry_Convert r =
     \<lparr>qeCreationHeight = reCreationHeight r, qeCompletionTime = reCompletionTime r, qeInitialBalance = reInitialBalance r, qeSharesDst = reSharesDst r\<rparr>"

definition RedelegationEntryResponse_Convert :: "RedelegationEntryResponse \<Rightarrow> redelegationEntryResponse" where
  "RedelegationEntryResponse_Convert r =
     \<lparr>qeEntry = \<lparr>qeCreationHeight = reCreationHeight (rrEntry r), qeCompletionTime = reCompletionTime (rrEntry r),
        qeInitialBalance = reInitialBalance (rrEntry r), qeSharesDst = reSharesDst (rrEntry r)\<rparr>,
      qeBalance = rrBalance r\<rparr>"

definition RedelegationResponse_Convert :: "RedelegationResponse \<Rightarrow> RedelegationResp" where
  "RedelegationResponse_Convert r =
     \<lparr>qpRedelegation = \<lparr>qnDelegatorAddress = rdDelegatorAddress (rsRedelegation r),
        qnValidatorSrcAddress = rdValidatorSrcAddress (rsRedelegation r), qnValidatorDstAddress = rdValidatorDstAddress (rsRedelegation r),
        qnEntries = map RedelegationEntry_Convert (rdEntries (rsRedelegation r))\<rparr>,
      qpEntries = map RedelegationEntryResponse_Convert (rsEntries r)\<rparr>"

definition QueryRedelegationsResponse_Convert :: "RedelegationResponse Paged \<Rightarrow> RedelegationResp PagedResp res" where
  "QueryRedelegationsResponse_Convert q =
     bindR (page_total q) (\<lambda>t. Inr \<lparr>prItems = map RedelegationResponse_Convert (pgItems q), prTotal = t\<rparr>)"

definition QueryDelegatorValidatorsResponse_Convert :: "('p, 'k) PubKeyLib \<Rightarrow> 'p Validator Paged \<Rightarrow> QueryValidatorResp PagedResp res" where
  "QueryDelegatorValidatorsResponse_Convert lib q =
     bindR (mapR (Validator_Convert lib) (pgItems q)) (\<lambda>vs. bindR (page_total q) (\<lambda>t. Inr \<lparr>prItems = vs, prTotal = t\<rparr>))"

text \<open>Blocks: \<open>'v\<close> is the version, the hashes are byte strings.\<close>

record PartSetHeader =
  psTotal :: "32 word"
  psHash :: bytes

record BlockID =
  biHash :: bytes
  biPartSetHeader :: PartSetHeader

record 'v Header =
  hdVersion :: 'v
  hdChainID :: string
  hdHeight :: "64 word"
  hdTime :: int
  hdLastBlockID :: BlockID
  hdLastCommitHash :: bytes
  hdDataHash :: bytes
  hdValidatorsHash :: bytes
  hdNextValidatorsHash :: bytes
  hdConsensusHash :: bytes
  hdAppHash :: bytes
  hdLastResultsHash :: bytes
  hdEvidenceHash :: bytes
  hdProposerAddress :: bytes

record ('p, 'v) HistoricalInfo =
  hiHeader :: "'v Header"
  hiValset :: "'p Validator list"

record 'v QueryHistoricalInfoResp =
  qhHeader :: "'v Header"
  qhValset :: "QueryValidatorResp list"

text \<open>The variable \<open>lastBlockId\<close> is the part set header, too, so its hash becomes the hash of the block.\<close>

definition QueryHistoricalInfoResponse_Convert ::
  "('p, 'k) PubKeyLib \<Rightarrow> (('p, 'v) HistoricalInfo) option \<Rightarrow> 'v QueryHistoricalInfoResp res" where
  "QueryHistoricalInfoResponse_Convert lib hist =
     (case hist of
        None \<Rightarrow> Inl (Panic ''nil pointer dereference'')
      | Some h \<Rightarrow>
          bindR (mapR (Validator_Convert lib) (hiValset h)) (\<lambda>valset.
            let header = hiHeader h;
                lastBlockId = biPartSetHeader (hdLastBlockID header);
                partSetHeader = biPartSetHeader (hdLastBlockID header)
            in Inr \<lparr>qhHeader = header\<lparr>hdLastBlockID :=
                      \<lparr>biHash = psHash lastBlockId,
                       biPartSetHeader = \<lparr>psTotal = psTotal partSetHeader, psHash = psHash partSetHeader\<rparr>\<rparr>\<rparr>,
                    qhValset = valset\<rparr>))"

record StakingParams =
  spUnbondingTime :: int
  spMaxValidators :: "32 word"
  spMaxEntries :: "32 word"
  spHistoricalEntries :: "32 word"
  spBondDenom :: string

record QueryParamsResp =
  qsUnbondingTime :: int
  qsMaxValidators :: "32 word"
  qsMaxEntries :: "32 word"
  qsHistoricalEntries :: "32 word"
  qsBondDenom :: string

definition QueryParamsResponse_Convert :: "StakingParams \<Rightarrow> QueryParamsResp" where
  "QueryParamsResponse_Convert p =
     \<lparr>qsUnbondingTime = spUnbondingTime p, qsMaxValidators = spMaxValidators p, qsMaxEntries = spMaxEntries p,
      qsHistoricalEntries = spHistoricalEntries p, qsBondDenom = spBondDenom p\<rparr>"

section \<open>Queries (\<open>staking.go\<close>)\<close>

record ('p, 'v) StakingStub =
  stValidators :: "string \<Rightarrow> PageRequest \<Rightarrow> 'p Validator Paged res"
  stValidator :: "string \<Rightarrow> 'p Validator res"
  stValidatorDelegations :: "string \<Rightarrow> PageRequest \<Rightarrow> DelegationResponse Paged res"
  stValidatorUnbondingDelegations :: "string \<Rightarrow> PageRequest \<Rightarrow> UnbondingDelegation Paged res"
  stDelegation :: "string \<Rightarrow> string \<Rightarrow> (DelegationResponse option) res"
  stUnbondingDelegation :: "string \<Rightarrow> string \<Rightarrow> UnbondingDelegation res"
  stDelegatorDelegations :: "string \<Rightarrow> PageRequest \<Rightarrow> DelegationResponse Paged res"
  stDelegatorUnbondingDelegations :: "string \<Rightarrow> PageRequest \<Rightarrow> UnbondingDelegation Paged res"
  stRedelegations :: "string \<Rightarrow> string \<Rightarrow> string \<Rightarrow> PageRequest \<Rightarrow> RedelegationResponse Paged res"
  stDelegatorValidators :: "string \<Rightarrow> PageRequest \<Rightarrow> 'p Validator Paged res"
  stDelegatorValidator :: "string \<Rightarrow> string \<Rightarrow> 'p Validator res"
  stHistoricalInfo :: "64 word \<Rightarrow> ((('p, 'v) HistoricalInfo) option) res"
  stPool :: "(int option \<times> int option) res"
  stParams :: "StakingParams res"

definition page_request :: "64 word \<Rightarrow> 64 word \<Rightarrow> PageRequest" where
  "page_request page sz =
     (case ParsePage page sz of (offset, limit) \<Rightarrow>
        \<lparr>PageRequest_Key = [], PageRequest_Offset = offset, PageRequest_Limit = limit, PageRequest_CountTotal = True\<rparr>)"

definition QueryValidators :: "('p, 'k) PubKeyLib \<Rightarrow> ('p, 'v) StakingStub \<Rightarrow> string \<Rightarrow> 64 word \<Rightarrow> 64 word \<Rightarrow> QueryValidatorResp PagedResp res" where
  "QueryValidators lib st status page sz = bindR (stValidators st status (page_request page sz)) (QueryValidatorsResponse_Convert lib)"

definition QueryValidator :: "('p, 'k) PubKeyLib \<Rightarrow> ('p, 'v) StakingStub \<Rightarrow> string \<Rightarrow> QueryValidatorResp res" where
  "QueryValidator lib st validatorAddr = bindR (stValidator st validatorAddr) (Validator_Convert lib)"

definition QueryValidatorDelegations :: "('p, 'v) StakingStub \<Rightarrow> string \<Rightarrow> 64 word \<Rightarrow> 64 word \<Rightarrow> QueryDelegationResp PagedResp res" where
  "QueryValidatorDelegations st validatorAddr page sz =
     bindR (stValidatorDelegations st validatorAddr (page_request page sz)) QueryValidatorDelegationsResponse_Convert"

definition QueryValidatorUnbondingDelegations ::
  "('p, 'v) StakingStub \<Rightarrow> string \<Rightarrow> 64 word \<Rightarrow> 64 word \<Rightarrow> QueryUnbondingDelegationResp PagedResp res" where
  "QueryValidatorUnbondingDelegations st validatorAddr page sz =
     bindR (stValidatorUnbondingDelegations st validatorAddr (page_request page sz)) QueryValidatorUnbondingDelegationsResponse_Convert"

definition QueryDelegation :: "('p, 'v) StakingStub \<Rightarrow> string \<Rightarrow> string \<Rightarrow> QueryDelegationResp res" where
  "QueryDelegation st delegatorAddr validatorAddr =
     bindR (stDelegation st delegatorAddr validatorAddr) (\<lambda>d.
       case d of None \<Rightarrow> Inl (Panic ''nil pointer dereference'') | Some r \<Rightarrow> Inr (DelegationResponse_Convert r))"

definition QueryUnbondingDelegation :: "('p, 'v) StakingStub \<Rightarrow> string \<Rightarrow> string \<Rightarrow> QueryUnbondingDelegationResp res" where
  "QueryUnbondingDelegation st delegatorAddr validatorAddr =
     bindR (stUnbondingDelegation st delegatorAddr validatorAddr) (\<lambda>u. Inr (UnbondingDelegation_Convert u))"

definition QueryDelegatorDelegations :: "('p, 'v) StakingStub \<Rightarrow> string \<Rightarrow> 64 word \<Rightarrow> 64 word \<Rightarrow> QueryDelegationResp PagedResp res" where
  "QueryDelegatorDelegations st delegatorAddr page sz =
     bindR (stDelegatorDelegations st delegatorAddr (page_request page sz)) (\<lambda>q. Inr (QueryDelegatorDelegationsResponse_Convert q))"

definition QueryDelegatorUnbondingDelegations ::
  "('p, 'v) StakingStub \<Rightarrow> string \<Rightarrow> 64 word \<Rightarrow> 64 word \<Rightarrow> QueryUnbondingDelegationResp PagedResp res" where
  "QueryDelegatorUnbondingDelegations st delegatorAddr page sz =
     bindR (stDelegatorUnbondingDelegations st delegatorAddr (page_request page sz)) QueryDelegatorUnbondingDelegationsResponse_Convert"

definition QueryRedelegations ::
  "('p, 'v) StakingStub \<Rightarrow> string \<Rightarrow> string \<Rightarrow> string \<Rightarrow> 64 word \<Rightarrow> 64 word \<Rightarrow> RedelegationResp PagedResp res" where
  "QueryRedelegations st delegatorAddr srcValidatorAddr dstValidatorAddr page sz =
     bindR (stRedelegations st delegatorAddr srcValidatorAddr dstValidatorAddr (page_request page sz)) QueryRedelegationsResponse_Convert"

definition QueryDelegatorValidators ::
  "('p, 'k) PubKeyLib \<Rightarrow> ('p, 'v) StakingStub \<Rightarrow> string \<Rightarrow> 64 word \<Rightarrow> 64 word \<Rightarrow> QueryValidatorResp PagedResp res" where
  "QueryDelegatorValidators lib st delegatorAddr page sz =
     bindR (stDelegatorValidators st delegatorAddr (page_request page sz)) (QueryDelegatorValidatorsResponse_Convert lib)"

definition QueryDelegatorValidator :: "('p, 'k) PubKeyLib \<Rightarrow> ('p, 'v) StakingStub \<Rightarrow> string \<Rightarrow> string \<Rightarrow> QueryValidatorResp res" where
  "QueryDelegatorValidator lib st delegatorAddr validatorAddr =
     bindR (stDelegatorValidator st delegatorAddr validatorAddr) (Validator_Convert lib)"

definition QueryHistoricalInfo :: "('p, 'k) PubKeyLib \<Rightarrow> ('p, 'v) StakingStub \<Rightarrow> 64 word \<Rightarrow> 'v QueryHistoricalInfoResp res" where
  "QueryHistoricalInfo lib st height = bindR (stHistoricalInfo st height) (QueryHistoricalInfoResponse_Convert lib)"

definition QueryPool :: "('p, 'v) StakingStub \<Rightarrow> (int option \<times> int option) res" where
  "QueryPool st = bindR (stPool st) (\<lambda>(notBonded, bonded). Inr (notBonded, bonded))"

definition QueryParams :: "('p, 'v) StakingStub \<Rightarrow> QueryParamsResp res" where
  "QueryParams st = bindR (stParams st) (\<lambda>p. Inr (QueryParamsResponse_Convert p))"

section \<open>Properties\<close>

text \<open>
  What a paged query of the client promises over a fixed list: page \<open>p\<close> of size \<open>s\<close> has the items from \<open>(p - 1) * s\<close> on.
\<close>

locale paged_query =
  fixes query :: "64 word \<Rightarrow> 64 word \<Rightarrow> 'b PagedResp res" and items :: "'b list" and total :: "64 word"
  assumes served: "query page sz =
    (case ParsePage page sz of (offset, limit) \<Rightarrow> Inr \<lparr>prItems = take (unat limit) (drop (unat offset) items), prTotal = total\<rparr>)"
begin

lemma page:
  assumes "0 < sz" "0 < p" "p * unat sz < 2 ^ 64"
  shows "query (of_nat p) sz = Inr \<lparr>prItems = take (unat sz) (drop ((p - 1) * unat sz) items), prTotal = total\<rparr>"
proof -
  have s: "0 < unat sz" using assms(1) by (simp add: word_less_nat_alt)
  have "p \<le> p * unat sz" using s by simp
  then have p: "p < 2 ^ 64" using assms(3) by linarith
  then have n0: "(of_nat p :: 64 word) \<noteq> 0" using assms(2) by (auto simp: word_unat_eq_iff unat_of_nat)
  have "(p - 1) * unat sz < 2 ^ 64"
    using assms(3) by (meson diff_le_self le_less_trans mult_le_mono1)
  moreover have "(of_nat p - 1 :: 64 word) = of_nat (p - 1)" using assms(2) by (simp add: of_nat_diff)
  ultimately have "unat ((of_nat p - 1) * sz) = (p - 1) * unat sz"
    using p by (simp add: unat_word_ariths unat_of_nat)
  then show ?thesis using n0 assms(1) by (simp add: served ParsePage_def Let_def)
qed

lemma concat_pages: "concat (map (\<lambda>p. take n (drop ((p - 1) * n) items)) [1..<k + 1]) = take (k * n) items"
proof (induction k)
  case (Suc k)
  have "take (k * n) items @ take n (drop (k * n) items) = take (k * n + n) items" by (simp add: take_add)
  then show ?case using Suc by (simp add: add.commute)
qed simp

lemma pages:
  assumes "0 < sz" "k * unat sz < 2 ^ 64"
  shows "\<exists>rs. mapR (\<lambda>p. query (of_nat p) sz) [1..<k + 1] = Inr rs \<and> concat (map prItems rs) = take (k * unat sz) items
    \<and> (\<forall>r \<in> set rs. prTotal r = total)"
proof -
  let ?r = "\<lambda>p. \<lparr>prItems = take (unat sz) (drop ((p - 1) * unat sz) items), prTotal = total\<rparr>"
  have "query (of_nat p) sz = Inr (?r p)" if "p \<in> set [1..<k + 1]" for p
  proof -
    from that have "p \<le> k" "0 < p" by auto
    then have "p * unat sz < 2 ^ 64" using assms(2) by (meson le_less_trans mult_le_mono1)
    with page [OF assms(1) \<open>0 < p\<close>] show ?thesis .
  qed
  then have "mapR (\<lambda>p. query (of_nat p) sz) [1..<k + 1] = Inr (map ?r [1..<k + 1])" by (rule mapR_all_ok)
  moreover have "concat (map prItems (map ?r [1..<k + 1])) = take (k * unat sz) items"
    using concat_pages [of "unat sz" k] by (simp add: comp_def)
  ultimately show ?thesis by auto
qed

end

text \<open>
  A node that serves a list: a request without a key gets the items from its offset up to its limit and, on demand, the length of the list.
\<close>

definition serves :: "(PageRequest \<Rightarrow> 'a Paged res) \<Rightarrow> 'a list \<Rightarrow> bool" where
  "serves f xs \<longleftrightarrow> (\<forall>req. PageRequest_Key req = [] \<and> PageRequest_CountTotal req \<longrightarrow>
     (\<exists>key. f req = Inr \<lparr>pgItems = take (unat (PageRequest_Limit req)) (drop (unat (PageRequest_Offset req)) xs),
       pgPagination = Some \<lparr>PageResponse_NextKey = key, PageResponse_Total = of_nat (length xs)\<rparr>\<rparr>))"

definition listed :: "'a list \<Rightarrow> PageRequest \<Rightarrow> 'a Paged res" where
  "listed xs req = Inr \<lparr>pgItems = take (unat (PageRequest_Limit req)) (drop (unat (PageRequest_Offset req)) xs),
     pgPagination = Some \<lparr>PageResponse_NextKey = [], PageResponse_Total = of_nat (length xs)\<rparr>\<rparr>"

lemma serves_page:
  assumes "serves f xs" "\<And>items key t. conv \<lparr>pgItems = items, pgPagination = Some \<lparr>PageResponse_NextKey = key, PageResponse_Total = t\<rparr>\<rparr> = Inr (g items t)"
  shows "bindR (f (page_request p s)) conv = bindR (listed xs (page_request p s)) conv"
proof -
  obtain offset limit where "ParsePage p s = (offset, limit)" by fastforce
  then have "PageRequest_Key (page_request p s) = []" "PageRequest_CountTotal (page_request p s)" by (simp_all add: page_request_def)
  then obtain key where "f (page_request p s) = Inr \<lparr>pgItems = take (unat (PageRequest_Limit (page_request p s)))
      (drop (unat (PageRequest_Offset (page_request p s))) xs),
      pgPagination = Some \<lparr>PageResponse_NextKey = key, PageResponse_Total = of_nat (length xs)\<rparr>\<rparr>"
    using assms(1) unfolding serves_def by blast
  then show ?thesis using assms(2) by (simp add: listed_def)
qed

lemmas convert_defs = page_total_def QueryValidatorDelegationsResponse_Convert_def QueryValidatorUnbondingDelegationsResponse_Convert_def
  QueryDelegatorDelegationsResponse_Convert_def QueryDelegatorUnbondingDelegationsResponse_Convert_def QueryRedelegationsResponse_Convert_def

interpretation validator_delegations: paged_query
    "\<lambda>p s. bindR (listed xs (page_request p s)) QueryValidatorDelegationsResponse_Convert"
    "map DelegationResponse_Convert xs" "of_nat (length xs)" for xs
  by unfold_locales (simp add: listed_def page_request_def convert_defs take_map drop_map split: prod.split)

interpretation validator_unbondings: paged_query
    "\<lambda>p s. bindR (listed xs (page_request p s)) QueryValidatorUnbondingDelegationsResponse_Convert"
    "map UnbondingDelegation_Convert xs" "of_nat (length xs)" for xs
  by unfold_locales (simp add: listed_def page_request_def convert_defs take_map drop_map split: prod.split)

interpretation delegator_unbondings: paged_query
    "\<lambda>p s. bindR (listed xs (page_request p s)) QueryDelegatorUnbondingDelegationsResponse_Convert"
    "map UnbondingDelegation_Convert xs" "of_nat (length xs)" for xs
  by unfold_locales (simp add: listed_def page_request_def convert_defs take_map drop_map split: prod.split)

interpretation redelegations: paged_query
    "\<lambda>p s. bindR (listed xs (page_request p s)) QueryRedelegationsResponse_Convert"
    "map RedelegationResponse_Convert xs" "of_nat (length xs)" for xs
  by unfold_locales (simp add: listed_def page_request_def convert_defs take_map drop_map split: prod.split)

interpretation delegator_delegations: paged_query
    "\<lambda>p s. bindR (listed xs (page_request p s)) (\<lambda>q. Inr (QueryDelegatorDelegationsResponse_Convert q))"
    "map DelegationResponse_Convert xs" 0 for xs
  by unfold_locales (simp add: listed_def page_request_def convert_defs take_map drop_map split: prod.split)

lemma served_queries:
  "serves (stValidatorDelegations st val) ds \<Longrightarrow> QueryValidatorDelegations st val p s =
     bindR (listed ds (page_request p s)) QueryValidatorDelegationsResponse_Convert"
  "serves (stValidatorUnbondingDelegations st val) us \<Longrightarrow> QueryValidatorUnbondingDelegations st val p s =
     bindR (listed us (page_request p s)) QueryValidatorUnbondingDelegationsResponse_Convert"
  "serves (stDelegatorUnbondingDelegations st del) us' \<Longrightarrow> QueryDelegatorUnbondingDelegations st del p s =
     bindR (listed us' (page_request p s)) QueryDelegatorUnbondingDelegationsResponse_Convert"
  "serves (stRedelegations st del src dst) rs \<Longrightarrow> QueryRedelegations st del src dst p s =
     bindR (listed rs (page_request p s)) QueryRedelegationsResponse_Convert"
  "serves (stDelegatorDelegations st del) ds \<Longrightarrow> QueryDelegatorDelegations st del p s =
     bindR (listed ds (page_request p s)) (\<lambda>q. Inr (QueryDelegatorDelegationsResponse_Convert q))"
  unfolding QueryValidatorDelegations_def QueryValidatorUnbondingDelegations_def QueryDelegatorUnbondingDelegations_def
    QueryRedelegations_def QueryDelegatorDelegations_def
  by (erule serves_page, simp add: convert_defs)+


definition demo_delegation :: "string \<Rightarrow> DelegationResponse" where
  "demo_delegation d = \<lparr>drDelegation = \<lparr>dlDelegatorAddress = d, dlValidatorAddress = ''v'', dlShares = Some 5\<rparr>,
     drBalance = \<lparr>CoinPB_Denom = ''plug'', CoinPB_Amount = Some 5\<rparr>\<rparr>"

definition demo_stub :: "(nat, nat) StakingStub" where
  "demo_stub = \<lparr>stValidators = (\<lambda>_. listed []), stValidator = (\<lambda>_. Inl (Err ''not found'')),
     stValidatorDelegations = (\<lambda>_. listed [demo_delegation ''a'', demo_delegation ''b'']), stValidatorUnbondingDelegations = (\<lambda>_. listed []),
     stDelegation = (\<lambda>_ _. Inr None), stUnbondingDelegation = (\<lambda>_ _. Inl (Err ''not found'')),
     stDelegatorDelegations = (\<lambda>_. listed []), stDelegatorUnbondingDelegations = (\<lambda>_. listed []),
     stRedelegations = (\<lambda>_ _ _. listed []), stDelegatorValidators = (\<lambda>_. listed []), stDelegatorValidator = (\<lambda>_ _. Inl (Err ''not found'')),
     stHistoricalInfo = (\<lambda>_. Inr None), stPool = Inr (Some 0, Some 0), stParams = Inl (Err ''not found'')\<rparr>"

lemma serves_listed: "serves (listed xs) xs"
  by (simp add: serves_def listed_def)


text \<open>The total of a delegator's delegations is always zero, whatever the node reports.\<close>

lemma QueryDelegatorDelegations_total:
  "QueryDelegatorDelegations st del p sz = Inr r \<Longrightarrow> prTotal r = 0"
  by (auto simp: QueryDelegatorDelegations_def QueryDelegatorDelegationsResponse_Convert_def)

text \<open>The converted header names the hash of the part set as the hash of the last block.\<close>

lemma QueryHistoricalInfo_block_hash:
  "QueryHistoricalInfoResponse_Convert lib (Some h) = Inr r \<Longrightarrow>
   biHash (hdLastBlockID (qhHeader r)) = psHash (biPartSetHeader (hdLastBlockID (hiHeader h)))"
  by (auto simp: QueryHistoricalInfoResponse_Convert_def Let_def)

text \<open>A validator whose key is missing or does not unpack makes the query panic.\<close>

lemma Validator_Convert_without_key:
  "vConsensusPubkey v = None \<Longrightarrow> Validator_Convert lib v = Inl (Panic ''nil pointer dereference'')"
  by (simp add: Validator_Convert_def GetPubKey_def)

lemma Validator_Convert_ok:
  "Validator_Convert lib v = Inr r \<longleftrightarrow> (\<exists>a k. vConsensusPubkey v = Some a \<and> unpackPubKey lib a = Inr k \<and>
     r = \<lparr>qvOperatorAddress = vOperatorAddress v, qvConsensusPubkey = pubKeyString lib k, qvJailed = vJailed v,
          qvStatus = BondStatus_name (vStatus v), qvTokens = vTokens v, qvDelegatorShares = vDelegatorShares v,
          qvDescription = vDescription v, qvUnbondingHeight = vUnbondingHeight v, qvUnbondingTime = vUnbondingTime v,
          qvCommission = vCommission v, qvMinSelfDelegation = vMinSelfDelegation v\<rparr>)"
  by (cases "vConsensusPubkey v") (auto simp: Validator_Convert_def GetPubKey_def split: sum.splits failure.splits)

text \<open>Adding an entry and removing the last one restores the delegation; an index out of range panics.\<close>

lemma AddEntry_RemoveEntry:
  "UnbondingDelegation_RemoveEntry (int (length (ubEntries ubd))) (UnbondingDelegation_AddEntry h t b ubd) = Inr ubd"
  "Redelegation_RemoveEntry (int (length (rdEntries red))) (Redelegation_AddEntry h t b s red) = Inr red"
  by (simp_all add: UnbondingDelegation_RemoveEntry_def UnbondingDelegation_AddEntry_def Redelegation_RemoveEntry_def
      Redelegation_AddEntry_def remove_at_def)

lemma RemoveEntry_iff:
  "(\<exists>ubd'. UnbondingDelegation_RemoveEntry i ubd = Inr ubd') \<longleftrightarrow> 0 \<le> i \<and> i < int (length (ubEntries ubd))"
  by (auto simp: UnbondingDelegation_RemoveEntry_def remove_at_def)

end
