(* ===== verification/GovQuery.thy ===== *)
theory GovQuery
  imports StakingQuery SdkModules
begin

text \<open>
  Proposals (\<open>modules/gov/proposal.go\<close>), the conversions of the answers of the gov and nft modules (\<open>modules/gov/types.go\<close>,
  \<open>modules/nft/types.go\<close>) and their queries on an open connection (\<open>modules/gov/gov.go\<close>, \<open>modules/nft/nft.go\<close>). The generated stubs are
  parameters. A time or a duration is its number of nanoseconds; an error is wrapped with its text.
\<close>

section \<open>Gov\<close>

record TallyResult =
  trYes :: "int option"
  trAbstain :: "int option"
  trNo :: "int option"
  trNoWithVeto :: "int option"

text \<open>The content is a pointer to an \<open>Any\<close> whose cached value may be a content or not.\<close>

record Proposal =
  ppProposalId :: "64 word"
  ppContent :: "TextProposal option option"
  ppStatus :: "32 word"
  ppFinalTallyResult :: TallyResult
  ppSubmitTime :: int
  ppDepositEndTime :: int
  ppTotalDeposit :: "CoinPB list"
  ppVotingStartTime :: int
  ppVotingEndTime :: int

record Vote =
  voProposalId :: "64 word"
  voVoter :: string
  voOption :: "32 word"

record Deposit =
  dpProposalId :: "64 word"
  dpDepositor :: string
  dpAmount :: "CoinPB list"

text \<open>\<open>NewCoins()\<close> is empty; \<open>zeroTime\<close> is the zero value of a time. \<open>pack\<close> is \<open>NewAnyWithValue\<close>, which marshals the content.\<close>

definition NewProposal :: "int \<Rightarrow> (TextProposal \<Rightarrow> unit res) \<Rightarrow> TextProposal option \<Rightarrow> 64 word \<Rightarrow> int \<Rightarrow> int \<Rightarrow> Proposal res" where
  "NewProposal zeroTime pack content pid submitTime depositEndTime =
     (case content of
        None \<Rightarrow> Inl (Err ''<nil> does not implement proto.Message'')
      | Some c \<Rightarrow> bindR (pack c) (\<lambda>_.
          Inr \<lparr>ppProposalId = pid, ppContent = Some (Some c), ppStatus = 1,
               ppFinalTallyResult = \<lparr>trYes = Some 0, trAbstain = Some 0, trNo = Some 0, trNoWithVeto = Some 0\<rparr>,
               ppSubmitTime = submitTime, ppDepositEndTime = depositEndTime, ppTotalDeposit = [],
               ppVotingStartTime = zeroTime, ppVotingEndTime = zeroTime\<rparr>))"

definition Proposal_GetContent :: "Proposal \<Rightarrow> (TextProposal option) res" where
  "Proposal_GetContent p = GetContent (ppContent p)"

definition ProposalType :: "Proposal \<Rightarrow> string res" where
  "ProposalType p = bindR (Proposal_GetContent p) (\<lambda>c. Inr (case c of None \<Rightarrow> '''' | Some _ \<Rightarrow> ''Text''))"

definition ProposalRoute :: "Proposal \<Rightarrow> string res" where
  "ProposalRoute p = bindR (Proposal_GetContent p) (\<lambda>c. Inr (case c of None \<Rightarrow> '''' | Some _ \<Rightarrow> ''gov''))"

definition Proposal_GetTitle :: "Proposal \<Rightarrow> string res" where
  "Proposal_GetTitle p = bindR (Proposal_GetContent p) (\<lambda>c. Inr (case c of None \<Rightarrow> '''' | Some tp \<Rightarrow> tpTitle tp))"

definition ProposalStatus_name :: "32 word \<Rightarrow> string" where
  "ProposalStatus_name s =
     (if s = 0 then ''PROPOSAL_STATUS_UNSPECIFIED'' else if s = 1 then ''PROPOSAL_STATUS_DEPOSIT_PERIOD''
      else if s = 2 then ''PROPOSAL_STATUS_VOTING_PERIOD'' else if s = 3 then ''PROPOSAL_STATUS_PASSED''
      else if s = 4 then ''PROPOSAL_STATUS_REJECTED'' else if s = 5 then ''PROPOSAL_STATUS_FAILED'' else '''')"

record QueryTallyResultResp =
  qtYes :: "int option"
  qtAbstain :: "int option"
  qtNo :: "int option"
  qtNoWithVeto :: "int option"

record QueryProposalResp =
  qqProposalId :: "64 word"
  qqContent :: "TextProposal option"
  qqStatus :: string
  qqFinalTallyResult :: QueryTallyResultResp
  qqSubmitTime :: int
  qqDepositEndTime :: int
  qqTotalDeposit :: "CoinPB list"
  qqVotingStartTime :: int
  qqVotingEndTime :: int

record QueryVoteResp =
  qoProposalId :: "64 word"
  qoVoter :: string
  qoOption :: "32 word"

record QueryDepositResp =
  qxProposalId :: "64 word"
  qxDepositor :: string
  qxAmount :: "CoinPB list"

definition TallyResult_Convert :: "TallyResult \<Rightarrow> QueryTallyResultResp" where
  "TallyResult_Convert t = \<lparr>qtYes = trYes t, qtAbstain = trAbstain t, qtNo = trNo t, qtNoWithVeto = trNoWithVeto t\<rparr>"

text \<open>The content of the answer is not set.\<close>

definition Proposal_Convert :: "Proposal \<Rightarrow> QueryProposalResp" where
  "Proposal_Convert q =
     \<lparr>qqProposalId = ppProposalId q, qqContent = None, qqStatus = ProposalStatus_name (ppStatus q),
      qqFinalTallyResult = \<lparr>qtYes = trYes (ppFinalTallyResult q), qtAbstain = trAbstain (ppFinalTallyResult q),
        qtNo = trNo (ppFinalTallyResult q), qtNoWithVeto = trNoWithVeto (ppFinalTallyResult q)\<rparr>,
      qqSubmitTime = ppSubmitTime q, qqDepositEndTime = ppDepositEndTime q, qqTotalDeposit = ppTotalDeposit q,
      qqVotingStartTime = ppVotingStartTime q, qqVotingEndTime = ppVotingEndTime q\<rparr>"

definition Proposals_Convert :: "Proposal list \<Rightarrow> QueryProposalResp list" where
  "Proposals_Convert qs = map Proposal_Convert qs"

definition Vote_Convert :: "Vote \<Rightarrow> QueryVoteResp" where
  "Vote_Convert v = \<lparr>qoProposalId = voProposalId v, qoVoter = voVoter v, qoOption = voOption v\<rparr>"

definition Votes_Convert :: "Vote list \<Rightarrow> QueryVoteResp list" where
  "Votes_Convert vs = map Vote_Convert vs"

definition Deposit_Convert :: "Deposit \<Rightarrow> QueryDepositResp" where
  "Deposit_Convert d = \<lparr>qxProposalId = dpProposalId d, qxDepositor = dpDepositor d, qxAmount = dpAmount d\<rparr>"

definition Deposits_Convert :: "Deposit list \<Rightarrow> QueryDepositResp list" where
  "Deposits_Convert ds = map Deposit_Convert ds"

text \<open>The structs of the parameters in the generated code and in the answer have the same fields; each pair is one record.\<close>

record votingParams =
  vpVotingPeriod :: int

record depositParams =
  dpMinDeposit :: "CoinPB list"
  dpMaxDepositPeriod :: int

record tallyParams =
  tpQuorum :: "int option"
  tpThreshold :: "int option"
  tpVetoThreshold :: "int option"

record GovParamsResponse =
  prVotingParams :: votingParams
  prDepositParams :: depositParams
  prTallyParams :: tallyParams

record GovParamsResp =
  qpVotingParams :: votingParams
  qpDepositParams :: depositParams
  qpTallyParams :: tallyParams

definition GovParamsResponse_Convert :: "GovParamsResponse \<Rightarrow> GovParamsResp" where
  "GovParamsResponse_Convert q =
     \<lparr>qpVotingParams = \<lparr>vpVotingPeriod = vpVotingPeriod (prVotingParams q)\<rparr>,
      qpDepositParams = \<lparr>dpMinDeposit = dpMinDeposit (prDepositParams q), dpMaxDepositPeriod = dpMaxDepositPeriod (prDepositParams q)\<rparr>,
      qpTallyParams = \<lparr>tpQuorum = tpQuorum (prTallyParams q), tpThreshold = tpThreshold (prTallyParams q),
        tpVetoThreshold = tpVetoThreshold (prTallyParams q)\<rparr>\<rparr>"

record GovStub =
  gsProposal :: "64 word \<Rightarrow> Proposal res"
  gsProposals :: "32 word \<Rightarrow> PageRequest \<Rightarrow> Proposal Paged res"
  gsVote :: "64 word \<Rightarrow> string \<Rightarrow> Vote res"
  gsVotes :: "64 word \<Rightarrow> PageRequest \<Rightarrow> Vote Paged res"
  gsParams :: "string \<Rightarrow> GovParamsResponse res"
  gsDeposit :: "64 word \<Rightarrow> string \<Rightarrow> Deposit res"
  gsDeposits :: "64 word \<Rightarrow> PageRequest \<Rightarrow> Deposit Paged res"
  gsTallyResult :: "64 word \<Rightarrow> TallyResult res"

text \<open>The one page that the list queries ask for.\<close>

definition first_hundred :: PageRequest where
  "first_hundred = \<lparr>PageRequest_Key = [], PageRequest_Offset = 0, PageRequest_Limit = 100, PageRequest_CountTotal = True\<rparr>"

definition gov_QueryProposal :: "GovStub \<Rightarrow> 64 word \<Rightarrow> QueryProposalResp res" where
  "gov_QueryProposal st proposalId = bindR (gsProposal st proposalId) (\<lambda>p. Inr (Proposal_Convert p))"

text \<open>The status is looked up in the table of vote options; a missing key is 0.\<close>

definition gov_QueryProposals :: "GovStub \<Rightarrow> string \<Rightarrow> QueryProposalResp list res" where
  "gov_QueryProposals st proposalStatus =
     bindR (gsProposals st (QueryProposals_status proposalStatus) first_hundred)
       (\<lambda>r. Inr (Proposals_Convert (pgItems r)))"

definition gov_QueryVote :: "GovStub \<Rightarrow> 64 word \<Rightarrow> string \<Rightarrow> QueryVoteResp res" where
  "gov_QueryVote st proposalId voter = bindR (gsVote st proposalId voter) (\<lambda>v. Inr (Vote_Convert v))"

definition gov_QueryVotes :: "GovStub \<Rightarrow> 64 word \<Rightarrow> QueryVoteResp list res" where
  "gov_QueryVotes st proposalId = bindR (gsVotes st proposalId first_hundred) (\<lambda>r. Inr (Votes_Convert (pgItems r)))"

definition gov_QueryParams :: "GovStub \<Rightarrow> string \<Rightarrow> GovParamsResp res" where
  "gov_QueryParams st paramsType = bindR (gsParams st paramsType) (\<lambda>q. Inr (GovParamsResponse_Convert q))"

definition gov_QueryDeposit :: "GovStub \<Rightarrow> 64 word \<Rightarrow> string \<Rightarrow> QueryDepositResp res" where
  "gov_QueryDeposit st proposalId depositor = bindR (gsDeposit st proposalId depositor) (\<lambda>d. Inr (Deposit_Convert d))"

definition gov_QueryDeposits :: "GovStub \<Rightarrow> 64 word \<Rightarrow> QueryDepositResp list res" where
  "gov_QueryDeposits st proposalId = bindR (gsDeposits st proposalId first_hundred) (\<lambda>r. Inr (Deposits_Convert (pgItems r)))"

definition gov_QueryTallyResult :: "GovStub \<Rightarrow> 64 word \<Rightarrow> QueryTallyResultResp res" where
  "gov_QueryTallyResult st proposalId = bindR (gsTallyResult st proposalId) (\<lambda>t. Inr (TallyResult_Convert t))"

section \<open>NFT\<close>

record NFT =
  nfID :: string
  nfName :: string
  nfURI :: string
  nfData :: string
  nfOwner :: string

record NftClass =
  clID :: string
  clName :: string
  clSchema :: string
  clSymbol :: string
  clOwner :: string
  clMintRestricted :: bool
  clEditRestricted :: bool

record Collection =
  coClass :: NftClass
  coNFTs :: "NFT list"

record CollectionID =
  ciClassID :: string
  ciNFTIDs :: "string list"

record NftOwner =
  owAddress :: string
  owCollectionIDs :: "CollectionID list"

record IDC =
  idDenom :: string
  idTokenIDs :: "string list"

record QueryOwnerResp =
  qwAddress :: string
  qwIDCs :: "IDC list"

record QueryNFTResp =
  qfID :: string
  qfName :: string
  qfURI :: string
  qfData :: string
  qfCreator :: string

record QueryDenomResp =
  qmID :: string
  qmName :: string
  qmSchema :: string
  qmSymbol :: string
  qmOwner :: string
  qmMintRestricted :: bool
  qmEditRestricted :: bool

record QueryCollectionResp =
  qcDenom :: QueryDenomResp
  qcNFTs :: "QueryNFTResp list"

definition Owner_Convert :: "NftOwner \<Rightarrow> QueryOwnerResp" where
  "Owner_Convert ow = \<lparr>qwAddress = owAddress ow, qwIDCs = map (\<lambda>idc. \<lparr>idDenom = ciClassID idc, idTokenIDs = ciNFTIDs idc\<rparr>) (owCollectionIDs ow)\<rparr>"

definition NFT_Convert :: "NFT \<Rightarrow> QueryNFTResp" where
  "NFT_Convert n = \<lparr>qfID = nfID n, qfName = nfName n, qfURI = nfURI n, qfData = nfData n, qfCreator = nfOwner n\<rparr>"

definition Class_Convert :: "NftClass \<Rightarrow> QueryDenomResp" where
  "Class_Convert c = \<lparr>qmID = clID c, qmName = clName c, qmSchema = clSchema c, qmSymbol = clSymbol c, qmOwner = clOwner c,
     qmMintRestricted = clMintRestricted c, qmEditRestricted = clEditRestricted c\<rparr>"

definition denoms_Convert :: "NftClass list \<Rightarrow> QueryDenomResp list" where
  "denoms_Convert cs = map Class_Convert cs"

definition Collection_Convert :: "Collection \<Rightarrow> QueryCollectionResp" where
  "Collection_Convert c =
     \<lparr>qcDenom = Class_Convert (coClass c),
      qcNFTs = map (\<lambda>nft. \<lparr>qfID = nfID nft, qfName = nfName nft, qfURI = nfURI nft, qfData = nfData nft, qfCreator = nfOwner nft\<rparr>) (coNFTs c)\<rparr>"

record NftStub =
  nsSupply :: "string \<Rightarrow> (64 word) res"
  nsOwner :: "string \<Rightarrow> string \<Rightarrow> PageRequest \<Rightarrow> (NftOwner option) res"
  nsCollection :: "string \<Rightarrow> PageRequest \<Rightarrow> (Collection option) res"
  nsClasses :: "PageRequest \<Rightarrow> NftClass Paged res"
  nsClass :: "string \<Rightarrow> (NftClass option) res"
  nsNFT :: "string \<Rightarrow> string \<Rightarrow> (NFT option) res"

text \<open>Calling a method with a value receiver through a nil pointer panics.\<close>

definition deref :: "('a \<Rightarrow> 'b) \<Rightarrow> 'a option \<Rightarrow> 'b res" where
  "deref f p = (case p of None \<Rightarrow> Inl (Panic ''nil pointer dereference'') | Some x \<Rightarrow> Inr (f x))"

definition nft_QuerySupply :: "NftStub \<Rightarrow> string \<Rightarrow> (64 word) res" where
  "nft_QuerySupply st denom = (if length denom = 0 then Inl (Err ''denom is required'') else nsSupply st denom)"

definition nft_QueryOwner :: "Bech32 \<Rightarrow> NftStub \<Rightarrow> string \<Rightarrow> string \<Rightarrow> PageRequest \<Rightarrow> QueryOwnerResp res" where
  "nft_QueryOwner lib st creator denom req =
     (if length denom = 0 then Inl (Err ''denom is required'')
      else bindR (ValidateAccAddress lib creator) (\<lambda>_. bindR (nsOwner st creator denom req) (deref Owner_Convert)))"

definition nft_QueryCollection :: "NftStub \<Rightarrow> string \<Rightarrow> PageRequest \<Rightarrow> QueryCollectionResp res" where
  "nft_QueryCollection st denom req =
     (if length denom = 0 then Inl (Err ''denom is required'') else bindR (nsCollection st denom req) (deref Collection_Convert))"

definition nft_QueryDenoms :: "NftStub \<Rightarrow> PageRequest \<Rightarrow> QueryDenomResp list res" where
  "nft_QueryDenoms st req = bindR (nsClasses st req) (\<lambda>r. Inr (denoms_Convert (pgItems r)))"

definition nft_QueryDenom :: "NftStub \<Rightarrow> string \<Rightarrow> QueryDenomResp res" where
  "nft_QueryDenom st denom = bindR (nsClass st denom) (deref Class_Convert)"

definition nft_QueryNFT :: "NftStub \<Rightarrow> string \<Rightarrow> string \<Rightarrow> QueryNFTResp res" where
  "nft_QueryNFT st denom ID =
     (if length denom = 0 then Inl (Err ''denom is required'')
      else if length ID = 0 then Inl (Err ''ID is required'')
      else bindR (nsNFT st denom ID) (deref NFT_Convert))"

section \<open>Properties\<close>

lemma serves_first_hundred:
  assumes "serves f xs"
  shows "\<exists>p. f first_hundred = Inr \<lparr>pgItems = take 100 xs, pgPagination = p\<rparr>"
  using assms [unfolded serves_def, rule_format, of first_hundred] by (auto simp: first_hundred_def)

lemma map_take_hundred: "map g (take 100 xs) = map g xs \<longleftrightarrow> length xs \<le> 100"
  using map_eq_imp_length_eq [of g "take 100 xs" g xs] by (cases "length xs \<le> 100") auto

text \<open>
  The list queries of the gov module give the first hundred items and no more: with a node that serves the votes and deposits of a
  proposal, the answer is the conversion of the first hundred in their order, so it is complete exactly when there are at most
  hundred; nothing in the answer tells the two cases apart.
\<close>

theorem gov_lists_first_hundred:
  assumes "serves (gsVotes st pid) vs" "serves (gsDeposits st pid) ds"
  shows "gov_QueryVotes st pid = Inr (map Vote_Convert (take 100 vs)) \<and> gov_QueryDeposits st pid = Inr (map Deposit_Convert (take 100 ds))
    \<and> (gov_QueryVotes st pid = Inr (map Vote_Convert vs) \<longleftrightarrow> length vs \<le> 100)
    \<and> (gov_QueryDeposits st pid = Inr (map Deposit_Convert ds) \<longleftrightarrow> length ds \<le> 100)"
proof -
  have v: "gov_QueryVotes st pid = Inr (map Vote_Convert (take 100 vs))"
    using serves_first_hundred [OF assms(1)] by (auto simp: gov_QueryVotes_def Votes_Convert_def)
  have d: "gov_QueryDeposits st pid = Inr (map Deposit_Convert (take 100 ds))"
    using serves_first_hundred [OF assms(2)] by (auto simp: gov_QueryDeposits_def Deposits_Convert_def)
  show ?thesis by (simp add: v d map_take_hundred)
qed

theorem gov_lists_first_hundred_witness:
  "\<exists>st. gov_QueryVotes st 1 = Inr (map Vote_Convert (replicate 100 \<lparr>voProposalId = 1, voVoter = ''a'', voOption = 1\<rparr>))
     \<and> gov_QueryVotes st 1 \<noteq> Inr (map Vote_Convert (replicate 101 \<lparr>voProposalId = 1, voVoter = ''a'', voOption = 1\<rparr>))"
proof -
  let ?v = "\<lparr>voProposalId = 1, voVoter = ''a'', voOption = 1\<rparr>"
  let ?st = "\<lparr>gsProposal = (\<lambda>_. Inl (Err ''not found'')), gsProposals = (\<lambda>_. listed []), gsVote = (\<lambda>_ _. Inl (Err ''not found'')),
    gsVotes = (\<lambda>_. listed (replicate 101 ?v)), gsParams = (\<lambda>_. Inl (Err ''not found'')), gsDeposit = (\<lambda>_ _. Inl (Err ''not found'')),
    gsDeposits = (\<lambda>_. listed []), gsTallyResult = (\<lambda>_. Inl (Err ''not found''))\<rparr>"
  have "serves (gsVotes ?st 1) (replicate 101 ?v)" "serves (gsDeposits ?st 1) []" by (simp_all add: serves_listed)
  note h = gov_lists_first_hundred [OF this]
  have "take 100 (replicate 101 ?v) = replicate 100 ?v" by (simp only: take_replicate) simp
  with h have "gov_QueryVotes ?st 1 = Inr (map Vote_Convert (replicate 100 ?v))" by (simp only: simp_thms)
  moreover have "\<not> length (replicate 101 ?v) \<le> 100" by (simp only: length_replicate)
  with h [THEN conjunct2, THEN conjunct2, THEN conjunct1] have "gov_QueryVotes ?st 1 \<noteq> Inr (map Vote_Convert (replicate 101 ?v))" by blast
  ultimately show ?thesis by blast
qed

text \<open>
  The filter by status does not filter by status: the name of a proposal status is not in the table of vote options, so it asks for
  the proposals of every status (0), and what selects the proposals in the deposit period is the name of the vote option yes.
\<close>

lemma gov_QueryProposals_status_name:
  "ProposalStatus_value s = Some n \<Longrightarrow> gov_QueryProposals st s = gov_QueryProposals st ''''"
  by (simp add: gov_QueryProposals_def QueryProposals_ignores_status) (simp add: QueryProposals_status_def VoteOption_value_def)

text \<open>The content of a proposal does not reach the caller.\<close>

lemma Proposal_Convert_drops_content: "qqContent (Proposal_Convert q) = None"
  by (simp add: Proposal_Convert_def)

text \<open>A status that has a name is sent by its name, and the name is read back.\<close>

lemma ProposalStatus_roundtrip:
  "ValidProposalStatus s \<Longrightarrow> ProposalStatusFromString (qqStatus (Proposal_Convert (p\<lparr>ppStatus := s\<rparr>))) = Inr s"
  by (auto simp: ValidProposalStatus_def ProposalStatusFromString_def Proposal_Convert_def ProposalStatus_name_def ProposalStatus_value_def)

lemma NewProposal_reads:
  "NewProposal z pack (Some tp) pid t1 t2 = Inr p \<Longrightarrow>
   Proposal_GetTitle p = Inr (tpTitle tp) \<and> ProposalType p = Inr ''Text'' \<and> ppProposalId p = pid \<and> ValidProposalStatus (ppStatus p)"
  by (auto simp: NewProposal_def Proposal_GetTitle_def ProposalType_def Proposal_GetContent_def GetContent_def ValidProposalStatus_def)

lemma gov_QueryParams_complete:
  "gov_QueryParams st t = Inr r \<longleftrightarrow> (\<exists>q. gsParams st t = Inr q
     \<and> qpVotingParams r = prVotingParams q \<and> qpDepositParams r = prDepositParams q \<and> qpTallyParams r = prTallyParams q)"
  by (cases "gsParams st t") (auto simp: gov_QueryParams_def GovParamsResponse_Convert_def)

lemma Collection_Convert_eq:
  "Collection_Convert c = \<lparr>qcDenom = Class_Convert (coClass c), qcNFTs = map NFT_Convert (coNFTs c)\<rparr>"
  by (simp add: Collection_Convert_def NFT_Convert_def)

end
