(* ===== verification/StdTx.thy ===== *)
theory StdTx
  imports Messages TxBuilder
begin

text \<open>
  Legacy standard transactions (\<open>types/stdtx.go\<close>, \<open>SortJSON\<close> of \<open>types/utils.go\<close>). The messages are those of the modules. JSON
  encoding and the sign bytes of a message are parameters; a raw JSON message is its bytes, \<open>None\<close> the nil one.
\<close>

section \<open>Data\<close>

definition Sync :: string where "Sync = ''sync''"
definition Async :: string where "Async = ''async''"
definition Commit :: string where "Commit = ''commit''"

definition std_maxGasWanted :: "64 word" where
  "std_maxGasWanted = of_nat (2 ^ 63 - 1)"

record StdFee =
  sfAmount :: Coins
  sfGas :: "64 word"

record StdSignature =
  ssPubKey :: bytes
  ssSignature :: bytes

record StdSignMsg =
  smChainID :: string
  smAccountNumber :: "64 word"
  smSequence :: "64 word"
  smFee :: StdFee
  smMsgs :: "Msg list"
  smMemo :: string

record StdSignDoc =
  sdAccountNumber :: "64 word"
  sdChainID :: string
  sdFee :: "bytes option"
  sdMemo :: string
  sdMsgs :: "bytes list"
  sdSequence :: "64 word"

record StdTx =
  sxMsgs :: "Msg list"
  sxFee :: StdFee
  sxSignatures :: "StdSignature list"
  sxMemo :: string

section \<open>Operations\<close>

definition Msgs_Len :: "Msg list \<Rightarrow> int" where
  "Msgs_Len m = int (length m)"

text \<open>The slice expression on a slice whose capacity is its length.\<close>

definition Msgs_Sub :: "Msg list \<Rightarrow> int \<Rightarrow> int \<Rightarrow> (Msg list) res" where
  "Msgs_Sub m b e =
     (if 0 \<le> b \<and> b \<le> e \<and> e \<le> int (length m) then Inr (take (nat (e - b)) (drop (nat b) m))
      else Inl (Panic ''slice bounds out of range''))"

definition NewStdFee :: "64 word \<Rightarrow> Coin list \<Rightarrow> StdFee" where
  "NewStdFee gas amount = \<lparr>sfAmount = amount, sfGas = gas\<rparr>"

text \<open>The bytes of a fee are nil (the source marks this as to be done).\<close>

definition StdFee_Bytes :: "StdFee \<Rightarrow> bytes option" where
  "StdFee_Bytes fee = None"

definition SortJSON :: "(bytes \<Rightarrow> 'j res) \<Rightarrow> ('j \<Rightarrow> bytes res) \<Rightarrow> bytes \<Rightarrow> bytes res" where
  "SortJSON unmarshal marshal toSortJSON = bindR (unmarshal toSortJSON) marshal"

definition MustSortJSON :: "(bytes \<Rightarrow> 'j res) \<Rightarrow> ('j \<Rightarrow> bytes res) \<Rightarrow> bytes \<Rightarrow> bytes res" where
  "MustSortJSON unmarshal marshal toSortJSON = panic_err (SortJSON unmarshal marshal toSortJSON)"

definition StdSignMsg_Bytes :: "(Msg \<Rightarrow> bytes) \<Rightarrow> (StdSignDoc \<Rightarrow> bytes res) \<Rightarrow> (bytes \<Rightarrow> bytes res) \<Rightarrow> StdSignMsg \<Rightarrow> bytes res" where
  "StdSignMsg_Bytes getSignBytes json mustSortJSON msg =
     bindR (panic_err (json \<lparr>sdAccountNumber = smAccountNumber msg, sdChainID = smChainID msg, sdFee = StdFee_Bytes (smFee msg),
       sdMemo = smMemo msg, sdMsgs = map getSignBytes (smMsgs msg), sdSequence = smSequence msg\<rparr>))
       mustSortJSON"

definition NewStdTx :: "Msg list \<Rightarrow> StdFee \<Rightarrow> StdSignature list \<Rightarrow> string \<Rightarrow> StdTx" where
  "NewStdTx msgs fee sigs memo = \<lparr>sxMsgs = msgs, sxFee = fee, sxSignatures = sigs, sxMemo = memo\<rparr>"

definition StdTx_GetSignBytes :: "(Msg \<Rightarrow> bytes) \<Rightarrow> StdTx \<Rightarrow> string list" where
  "StdTx_GetSignBytes getSignBytes tx = map (\<lambda>msg. bytes_str (getSignBytes msg)) (sxMsgs tx)"

definition std_add_signer :: "Bech32 \<Rightarrow> bytes list \<times> string set \<Rightarrow> bytes \<Rightarrow> (bytes list \<times> string set) res" where
  "std_add_signer lib st addr =
     (case st of (signers, seen) \<Rightarrow>
        bindR (AccAddress_String lib addr) (\<lambda>s.
          if s \<in> seen then Inr (signers, seen) else Inr (signers @ [addr], insert s seen)))"

definition StdTx_GetSigners :: "Bech32 \<Rightarrow> StdTx \<Rightarrow> (bytes list) res" where
  "StdTx_GetSigners lib tx =
     bindR (foldR (\<lambda>st msg. bindR (Msg_GetSigners lib msg) (foldR (std_add_signer lib) st)) ([], {}) (sxMsgs tx)) (\<lambda>(signers, _). Inr signers)"

definition StdTx_ValidateBasic :: "Bech32 \<Rightarrow> StdTx \<Rightarrow> unit res" where
  "StdTx_ValidateBasic lib tx =
     (let stdSigs = sxSignatures tx in
      if std_maxGasWanted < sfGas (sxFee tx) then Inl (Err ''invalid gas supplied'')
      else if Coins_IsAnyNegative (sfAmount (sxFee tx)) then Inl (Err (''invalid fee '' @ Coins_String (sfAmount (sxFee tx)) @ '' amount provided''))
      else if length stdSigs = 0 then Inl (Err ''no signers'')
      else bindR (StdTx_GetSigners lib tx) (\<lambda>signers.
        if length stdSigs \<noteq> length signers then Inl (Err ''wrong number of signers'')
        else bindR (StdTx_GetSigners lib tx) (\<lambda>signers2.
          if length stdSigs \<noteq> length signers2 then Inl (Err ''wrong number of signers; expected'') else Inr ())))"

section \<open>Signers\<close>

text \<open>The text of an address that can be printed.\<close>

definition addr_text :: "Bech32 \<Rightarrow> bytes \<Rightarrow> string" where
  "addr_text lib a = (case AccAddress_String lib a of Inl _ \<Rightarrow> [] | Inr s \<Rightarrow> s)"

lemma std_add_signer_fold:
  assumes "\<And>a. a \<in> set xs \<Longrightarrow> is_ok (AccAddress_String lib a)"
  shows "foldR (std_add_signer lib) (firsts (addr_text lib) ys, addr_text lib ` set ys) xs
    = Inr (firsts (addr_text lib) (ys @ xs), addr_text lib ` set (ys @ xs))"
  using assms
proof (induction xs arbitrary: ys)
  case (Cons x xs)
  obtain s where s: "AccAddress_String lib x = Inr s" using Cons.prems [of x] by (cases "AccAddress_String lib x") auto
  then have "std_add_signer lib (firsts (addr_text lib) ys, addr_text lib ` set ys) x
      = Inr (firsts (addr_text lib) (ys @ [x]), addr_text lib ` set (ys @ [x]))"
    by (auto simp: std_add_signer_def addr_text_def firsts_snoc)
  then show ?case using Cons.IH [of "ys @ [x]"] Cons.prems by simp
qed simp

lemma StdTx_GetSigners_firsts:
  assumes "mapR (Msg_GetSigners lib) (sxMsgs tx) = Inr sss" "\<forall>a\<in>set (concat sss). is_ok (AccAddress_String lib a)"
  shows "StdTx_GetSigners lib tx = Inr (firsts (addr_text lib) (concat sss))"
proof -
  have "foldR (\<lambda>st msg. bindR (Msg_GetSigners lib msg) (foldR (std_add_signer lib) st)) (firsts (addr_text lib) ys, addr_text lib ` set ys) ms
      = Inr (firsts (addr_text lib) (ys @ concat sss), addr_text lib ` set (ys @ concat sss))"
    if "mapR (Msg_GetSigners lib) ms = Inr sss" "\<forall>a\<in>set (concat sss). is_ok (AccAddress_String lib a)" for ms ys sss
    using that
  proof (induction ms arbitrary: ys sss)
    case (Cons m ms)
    then obtain ss sss' where s: "Msg_GetSigners lib m = Inr ss" "mapR (Msg_GetSigners lib) ms = Inr sss'" "sss = ss # sss'" by auto
    then show ?case using Cons.IH [OF s(2), of "ys @ ss"] Cons.prems(2) by (simp add: std_add_signer_fold)
  qed simp
  from this [OF assms, where ys = "[]"] show ?thesis by (simp add: StdTx_GetSigners_def firsts_def)
qed

section \<open>Properties\<close>

lemma std_gas: "std_maxGasWanted < w \<longleftrightarrow> \<not> unat w < 2 ^ 63"
  by (simp add: std_maxGasWanted_def word_less_nat_alt unat_of_nat not_less) linarith

text \<open>
  A legacy transaction whose messages name their signers passes exactly when its gas is below \<open>2^63\<close>, no fee is negative and it has one
  signature for every different signer, of which there is at least one; it panics on nothing.
\<close>

lemma StdTx_ValidateBasic_iff:
  assumes "mapR (Msg_GetSigners lib) (sxMsgs tx) = Inr sss" "\<forall>a\<in>set (concat sss). is_ok (AccAddress_String lib a)"
  shows "StdTx_ValidateBasic lib tx = Inr () \<longleftrightarrow> unat (sfGas (sxFee tx)) < 2 ^ 63 \<and> (\<forall>c\<in>set (sfAmount (sxFee tx)). 0 \<le> Amount c)
      \<and> sxSignatures tx \<noteq> [] \<and> length (sxSignatures tx) = length (firsts (addr_text lib) (concat sss))"
proof -
  have "Coins_IsAnyNegative cs \<longleftrightarrow> \<not> (\<forall>c\<in>set cs. 0 \<le> Amount c)" for cs
    by (auto simp: Coins_IsAnyNegative_def list_ex_iff Coin_IsNegative_def Int_pred_defs not_le)
  then show ?thesis by (auto simp: StdTx_ValidateBasic_def Let_def std_gas StdTx_GetSigners_firsts [OF assms])
qed

text \<open>
  \<^bold>\<open>C31.\<close> The legacy transaction and the protobuf transaction of the same messages, fee and number of signatures agree: they have the same
  signers in the same order, and one passes its check when the other does.
\<close>

theorem StdTx_agrees_with_Tx:
  assumes m: "mapR (Msg_GetSigners lib) (sxMsgs tx) = Inr sss" "\<forall>a\<in>set (concat sss). is_ok (AccAddress_String lib a)"
    and c: "map (msgSigners cdc) (sxMsgs tx) = sss" "accString cdc = addr_text lib"
    and t: "Tx_GetMsgs t = Inr (sxMsgs tx)" "TBody t = Some b" "TAuthInfo t = Some i" "AFee i = Some fee"
      "FeeAmount fee = sfAmount (sxFee tx)" "GasLimit fee = sfGas (sxFee tx)" "length (TSignatures t) = length (sxSignatures tx)"
  shows "StdTx_GetSigners lib tx = Tx_GetSigners cdc t \<and> (StdTx_ValidateBasic lib tx = Inr () \<longleftrightarrow> Tx_ValidateBasic cdc (Some t) = Inr ())"
proof -
  have g: "Tx_GetSigners cdc t = Inr (firsts (addr_text lib) (concat sss))" using t(1) c by (simp add: Tx_GetSigners_def add_signer_foldl)
  have neg: "Coins_IsAnyNegative cs \<longleftrightarrow> \<not> (\<forall>c\<in>set cs. 0 \<le> Amount c)" for cs
    by (auto simp: Coins_IsAnyNegative_def list_ex_iff Coin_IsNegative_def Int_pred_defs not_le)
  have gas: "MaxGasWanted < w \<longleftrightarrow> \<not> unat w < 2 ^ 63" for w
    using std_gas [of w] by (simp add: MaxGasWanted_def std_maxGasWanted_def)
  have "Tx_ValidateBasic cdc (Some t) = Inr () \<longleftrightarrow> StdTx_ValidateBasic lib tx = Inr ()"
    using t by (auto simp: Tx_ValidateBasic_def g neg gas StdTx_ValidateBasic_iff [OF m])
  then show ?thesis using g StdTx_GetSigners_firsts [OF m] by simp
qed

text \<open>The second comparison of the numbers of signers never fails.\<close>

lemma StdTx_second_check_dead:
  "StdTx_ValidateBasic lib tx =
     (if std_maxGasWanted < sfGas (sxFee tx) then Inl (Err ''invalid gas supplied'')
      else if Coins_IsAnyNegative (sfAmount (sxFee tx)) then Inl (Err (''invalid fee '' @ Coins_String (sfAmount (sxFee tx)) @ '' amount provided''))
      else if sxSignatures tx = [] then Inl (Err ''no signers'')
      else bindR (StdTx_GetSigners lib tx) (\<lambda>signers.
        if length (sxSignatures tx) \<noteq> length signers then Inl (Err ''wrong number of signers'') else Inr ()))"
  by (cases "StdTx_GetSigners lib tx") (simp_all add: StdTx_ValidateBasic_def Let_def)

text \<open>The fee and the gas are not part of what a legacy transaction signs.\<close>

lemma StdSignMsg_fee_not_signed:
  "StdSignMsg_Bytes g j s (m\<lparr>smFee := f\<rparr>) = StdSignMsg_Bytes g j s m"
  by (simp add: StdSignMsg_Bytes_def StdFee_Bytes_def)

text \<open>Adjacent parts of the messages are the whole.\<close>

lemma Msgs_Sub_parts:
  "Msgs_Sub m 0 i = Inr a \<Longrightarrow> Msgs_Sub m i (Msgs_Len m) = Inr b \<Longrightarrow> a @ b = m"
  by (auto simp: Msgs_Sub_def Msgs_Len_def split: if_splits)


definition demo_msg_codec :: "(Msg, bytes) Codec" where
  "demo_msg_codec =
     \<lparr>msgName = (\<lambda>m. ''Msg''), msgMarshal = (\<lambda>m. Inr []),
      msgSigners = (\<lambda>m. case Msg_GetSigners demo_b32 m of Inl _ \<Rightarrow> [] | Inr ss \<Rightarrow> ss),
      keyName = (\<lambda>k. ''Key''), keyMarshal = (\<lambda>k. Inr []), bodyMarshal = (\<lambda>b. Inr []), authMarshal = (\<lambda>a. Inr []),
      accString = addr_text demo_b32, accFromBech32 = AccAddressFromBech32 demo_b32, txJSON = (\<lambda>t. Inr [])\<rparr>"

definition demo_std :: "string \<Rightarrow> StdTx" where
  "demo_std s =
     NewStdTx (replicate 2 (BankSend \<lparr>FromAddress = s, ToAddress = s, SendAmount = []\<rparr>)) (NewStdFee 5 []) [\<lparr>ssPubKey = [], ssSignature = [7]\<rparr>] ''''"

theorem StdTx_agrees_with_Tx_witness:
  "\<exists>tx t. StdTx_GetSigners demo_b32 tx = Inr [[1, 2, 3]] \<and> length (sxMsgs tx) = 2
     \<and> StdTx_ValidateBasic demo_b32 tx = Inr () \<and> Tx_ValidateBasic demo_msg_codec (Some t) = Inr ()"
proof -
  obtain s where s: "AccAddress_String demo_b32 [1, 2, 3] = Inr s" "AccAddressFromBech32 demo_b32 s = Inr [1, 2, 3]"
    using account.toText_ok [OF demo_b32_laws, of "[1, 2, 3]"] account.fromText_toText [OF demo_b32_laws, of "[1, 2, 3]"] by auto
  let ?tx = "demo_std s"
  let ?t = "\<lparr>TBody = Some \<lparr>Messages = map (\<lambda>m. \<lparr>TypeUrl = '''', AnyValue = [], cachedValue = Some m\<rparr>) (sxMsgs ?tx), Memo = '''', TimeoutHeight = 0,
      ExtensionOptions = [], NonCriticalExtensionOptions = []\<rparr>,
    TAuthInfo = Some \<lparr>SignerInfos = [], AFee = Some \<lparr>FeeAmount = [], GasLimit = 5, Payer = '''', Granter = ''''\<rparr>\<rparr>, TSignatures = [[7]]\<rparr>"
  have g: "mapR (Msg_GetSigners demo_b32) (sxMsgs ?tx) = Inr [[[1, 2, 3]], [[1, 2, 3]]]"
    using s by (simp add: demo_std_def NewStdTx_def MsgSend_GetSigners_def panic_err_def numeral_2_eq_2)
  have ok: "\<forall>a\<in>set (concat [[[1, 2, 3]], [[1, 2, 3]]]). is_ok (AccAddress_String demo_b32 a)" using s by simp
  have f: "firsts (addr_text demo_b32) [[1, 2, 3], [1, 2, 3]] = [[1, 2, 3]]" by (simp add: firsts_def upt_rec numeral_2_eq_2)
  have v: "StdTx_ValidateBasic demo_b32 ?tx = Inr ()"
    using StdTx_ValidateBasic_iff [OF g ok] f by (simp add: demo_std_def NewStdTx_def NewStdFee_def)
  have "Tx_ValidateBasic demo_msg_codec (Some ?t) = Inr ()"
    using StdTx_agrees_with_Tx [OF g ok, of demo_msg_codec ?t] v s
    by (simp add: demo_msg_codec_def demo_std_def NewStdTx_def NewStdFee_def MsgSend_GetSigners_def panic_err_def numeral_2_eq_2 Tx_GetMsgs_def cached_msg_def)
  then show ?thesis using v f StdTx_GetSigners_firsts [OF g ok] by (intro exI [of _ ?tx] exI [of _ ?t]) (simp add: demo_std_def NewStdTx_def)
qed

end
