(* ===== verification/Ed25519.thy ===== *)
theory Ed25519
  imports KeyStore
begin

text \<open>
  Ed25519 keys (\<open>crypto/keys/ed25519/ed25519.go\<close>). The library of golang.org/x/crypto is a record of its three functions, of which
  \<open>Sign\<close> and \<open>Verify\<close> panic on a key of the wrong size. A key is its bytes; a key of any kind is compared by its type and bytes.
\<close>

section \<open>Model\<close>

record EdLib =
  edSign :: "bytes \<Rightarrow> bytes \<Rightarrow> bytes res"
  edVerify :: "bytes \<Rightarrow> bytes \<Rightarrow> bytes \<Rightarrow> bool res"
  edNewKeyFromSeed :: "bytes \<Rightarrow> bytes"

definition ed_PubKeySize :: nat where "ed_PubKeySize = 32"
definition ed_PrivKeySize :: nat where "ed_PrivKeySize = 64"
definition ed_SignatureSize :: nat where "ed_SignatureSize = 64"
definition ed_SeedSize :: nat where "ed_SeedSize = 32"
definition ed_keyType :: string where "ed_keyType = ''ed25519''"

definition ed_PrivKey_Sign :: "EdLib \<Rightarrow> bytes \<Rightarrow> bytes \<Rightarrow> bytes res" where
  "ed_PrivKey_Sign lib key msg = edSign lib key msg"

text \<open>\<open>copy\<close> into a slice of 32 zero bytes.\<close>

definition copy32 :: "bytes \<Rightarrow> bytes" where
  "copy32 src = take ed_PubKeySize src @ replicate (ed_PubKeySize - length src) 0"

definition ed_PrivKey_PubKey :: "bytes \<Rightarrow> bytes res" where
  "ed_PrivKey_PubKey key =
     (if length key < 32 then Inl (Panic ''slice bounds out of range'')
      else let initialized = list_ex (\<lambda>v. v \<noteq> 0) (drop 32 key) in
        if \<not> initialized then Inl (Panic ''Expected ed25519 PrivKey to include concatenated pubkey bytes'')
        else Inr (copy32 (drop 32 key)))"

text \<open>\<open>ConstantTimeCompare\<close> gives 1 for equal contents and 0 otherwise, also for different lengths.\<close>

definition ConstantTimeCompare :: "bytes \<Rightarrow> bytes \<Rightarrow> nat" where
  "ConstantTimeCompare x y =
     (if length x \<noteq> length y then 0 else if foldl (\<lambda>v (a, b). or v (xor a b)) 0 (zip x y) = 0 then 1 else 0)"

definition ed_PrivKey_Equals :: "bytes \<Rightarrow> string \<times> bytes \<Rightarrow> bool" where
  "ed_PrivKey_Equals key other =
     (if ed_keyType \<noteq> fst other then False else ConstantTimeCompare key (snd other) = 1)"

definition ed_PrivKey_MarshalAmino :: "bytes \<Rightarrow> bytes res" where
  "ed_PrivKey_MarshalAmino key = Inr key"

definition ed_PrivKey_UnmarshalAmino :: "bytes \<Rightarrow> bytes res" where
  "ed_PrivKey_UnmarshalAmino bz = (if length bz \<noteq> ed_PrivKeySize then Inl (Err ''invalid privkey size'') else Inr bz)"

definition ed_PrivKey_MarshalAminoJSON :: "bytes \<Rightarrow> bytes res" where
  "ed_PrivKey_MarshalAminoJSON key = ed_PrivKey_MarshalAmino key"

definition ed_PrivKey_UnmarshalAminoJSON :: "bytes \<Rightarrow> bytes res" where
  "ed_PrivKey_UnmarshalAminoJSON bz = ed_PrivKey_UnmarshalAmino bz"

text \<open>The reader is the bytes it holds; \<open>ReadFull\<close> fails when there are too few. The result is the key and the rest of the reader.\<close>

definition ed_genPrivKey :: "EdLib \<Rightarrow> bytes \<Rightarrow> (bytes \<times> bytes) res" where
  "ed_genPrivKey lib rand =
     (if length rand < ed_SeedSize then Inl (Panic ''unexpected EOF'')
      else Inr (edNewKeyFromSeed lib (take ed_SeedSize rand), drop ed_SeedSize rand))"

definition ed_GenPrivKeyFromSecret :: "EdLib \<Rightarrow> (bytes \<Rightarrow> bytes) \<Rightarrow> bytes \<Rightarrow> bytes" where
  "ed_GenPrivKeyFromSecret lib sha secret = edNewKeyFromSeed lib (sha secret)"

definition ed_PubKey_Address :: "(bytes \<Rightarrow> bytes) \<Rightarrow> bytes \<Rightarrow> bytes res" where
  "ed_PubKey_Address sumTruncated key =
     (if length key \<noteq> ed_PubKeySize then Inl (Panic ''pubkey is incorrect size'') else Inr (sumTruncated key))"

definition ed_PubKey_VerifySignature :: "EdLib \<Rightarrow> bytes \<Rightarrow> bytes \<Rightarrow> bytes \<Rightarrow> bool res" where
  "ed_PubKey_VerifySignature lib key msg sig =
     (if length sig \<noteq> ed_SignatureSize then Inr False else edVerify lib key msg sig)"

definition ed_PubKey_String :: "bytes \<Rightarrow> string" where
  "ed_PubKey_String key = ''PubKeyEd25519{'' @ hexUpper key @ ''}''"

definition ed_PubKey_Equals :: "bytes \<Rightarrow> string \<times> bytes \<Rightarrow> bool" where
  "ed_PubKey_Equals key other =
     (if ed_keyType \<noteq> fst other then False else ConstantTimeCompare key (snd other) = 1)"

definition ed_PubKey_MarshalAmino :: "bytes \<Rightarrow> bytes res" where
  "ed_PubKey_MarshalAmino key = Inr key"

definition ed_PubKey_UnmarshalAmino :: "bytes \<Rightarrow> bytes res" where
  "ed_PubKey_UnmarshalAmino bz = (if length bz \<noteq> ed_PubKeySize then Inl (Err ''invalid pubkey size'') else Inr bz)"

definition ed_PubKey_MarshalAminoJSON :: "bytes \<Rightarrow> bytes res" where
  "ed_PubKey_MarshalAminoJSON key = ed_PubKey_MarshalAmino key"

definition ed_PubKey_UnmarshalAminoJSON :: "bytes \<Rightarrow> bytes res" where
  "ed_PubKey_UnmarshalAminoJSON bz = ed_PubKey_UnmarshalAmino bz"

text \<open>A public key of Tendermint: its own Ed25519 type or another.\<close>

datatype TmPubKey = TmEd25519 bytes | TmOther string bytes

definition AsTmPubKey :: "bytes \<Rightarrow> TmPubKey" where
  "AsTmPubKey key = TmEd25519 key"

definition FromTmEd25519 :: "TmPubKey \<Rightarrow> bytes res" where
  "FromTmEd25519 pubKey = (case pubKey of TmEd25519 k \<Rightarrow> Inr k | TmOther _ _ \<Rightarrow> Inl (Err ''expected ed25519.PubKey''))"

section \<open>Properties\<close>

lemma or_xor_zero: "or v (xor a b) = 0 \<longleftrightarrow> v = 0 \<and> a = (b :: 8 word)"
  by (auto simp: bit_eq_iff bit_or_iff bit_xor_iff)

lemma compare_fold: "length x = length y \<Longrightarrow> foldl (\<lambda>v (a, b). or v (xor a b)) v (zip x y) = (0 :: 8 word) \<longleftrightarrow> v = 0 \<and> x = y"
  by (induction x y arbitrary: v rule: list_induct2) (auto simp: or_xor_zero)

lemma ConstantTimeCompare_eq: "ConstantTimeCompare x y = Suc 0 \<longleftrightarrow> x = y"
  by (auto simp: ConstantTimeCompare_def compare_fold)

text \<open>Keys are equal exactly when they have the same type and bytes.\<close>

lemma ed_Equals: "ed_PubKey_Equals k (t, b) \<longleftrightarrow> t = ''ed25519'' \<and> b = k" "ed_PrivKey_Equals k (t, b) \<longleftrightarrow> t = ''ed25519'' \<and> b = k"
  by (auto simp: ed_PubKey_Equals_def ed_PrivKey_Equals_def One_nat_def ConstantTimeCompare_eq ed_keyType_def)

text \<open>
  The documented contract of the library: a key of a 32-byte seed is the seed followed by 32 bytes of public key, a signature with it has 64
  bytes and verifies under that public key; a public key of another size panics.
\<close>

definition ed_law :: "EdLib \<Rightarrow> bool" where
  "ed_law lib \<longleftrightarrow>
     (\<forall>seed. length seed = 32 \<longrightarrow> (\<exists>pub. length pub = 32 \<and> edNewKeyFromSeed lib seed = seed @ pub
        \<and> (\<forall>msg. \<exists>sig. edSign lib (seed @ pub) msg = Inr sig \<and> length sig = 64 \<and> edVerify lib pub msg sig = Inr True)))
   \<and> (\<forall>key msg sig. length key \<noteq> 32 \<longrightarrow> edVerify lib key msg sig = Inl (Panic ''ed25519: bad public key length''))"

text \<open>
  A generated key works: its reader is advanced by 32 bytes, its Amino form reads back, and unless its public half is zero (then
  \<open>PubKey\<close> panics) it has a public key of 32 bytes that reads back, has an address and accepts every signature made with it.
\<close>

theorem ed_generated_key:
  assumes "ed_law lib" "32 \<le> length rand"
  shows "\<exists>key. ed_genPrivKey lib rand = Inr (key, drop 32 rand) \<and> ed_PrivKey_UnmarshalAmino key = Inr key
    \<and> (if \<forall>x\<in>set (drop 32 key). x = 0 then ed_PrivKey_PubKey key = Inl (Panic ''Expected ed25519 PrivKey to include concatenated pubkey bytes'')
       else \<exists>pub. ed_PrivKey_PubKey key = Inr pub \<and> ed_PubKey_UnmarshalAmino pub = Inr pub \<and> is_ok (ed_PubKey_Address h pub)
         \<and> (\<forall>msg. \<exists>sig. ed_PrivKey_Sign lib key msg = Inr sig \<and> ed_PubKey_VerifySignature lib pub msg sig = Inr True))"
proof -
  let ?seed = "take 32 rand"
  have "length ?seed = 32" using assms(2) by simp
  then obtain pub where p: "length pub = 32" "edNewKeyFromSeed lib ?seed = ?seed @ pub"
    "\<And>msg. \<exists>sig. edSign lib (?seed @ pub) msg = Inr sig \<and> length sig = 64 \<and> edVerify lib pub msg sig = Inr True"
    using assms(1) unfolding ed_law_def by blast
  have d: "drop 32 (?seed @ pub) = pub" using assms(2) by simp
  have "copy32 pub = pub" using p(1) by (simp add: copy32_def ed_PubKeySize_def)
  then show ?thesis using p assms(2) d
    by (intro exI [of _ "?seed @ pub"])
      (auto simp: ed_genPrivKey_def ed_SeedSize_def ed_PrivKey_UnmarshalAmino_def ed_PrivKeySize_def ed_PrivKey_PubKey_def Let_def list_ex_iff
        ed_PubKey_UnmarshalAmino_def ed_PubKeySize_def ed_PubKey_Address_def ed_PrivKey_Sign_def ed_PubKey_VerifySignature_def ed_SignatureSize_def)
qed

text \<open>A public key of the wrong size is not refused: verification panics on any signature of 64 bytes.\<close>

lemma ed_short_key_panics:
  "ed_law lib \<Longrightarrow> length key \<noteq> 32 \<Longrightarrow> length sig = 64 \<Longrightarrow>
   ed_PubKey_VerifySignature lib key msg sig = Inl (Panic ''ed25519: bad public key length'')"
  by (simp add: ed_law_def ed_PubKey_VerifySignature_def ed_SignatureSize_def)

lemma ed_Amino_roundtrip:
  "bindR (ed_PubKey_MarshalAminoJSON k) ed_PubKey_UnmarshalAminoJSON = (if length k = 32 then Inr k else Inl (Err ''invalid pubkey size''))"
  "bindR (ed_PrivKey_MarshalAminoJSON k) ed_PrivKey_UnmarshalAminoJSON = (if length k = 64 then Inr k else Inl (Err ''invalid privkey size''))"
  by (simp_all add: ed_PubKey_MarshalAminoJSON_def ed_PubKey_UnmarshalAminoJSON_def ed_PubKey_MarshalAmino_def ed_PubKey_UnmarshalAmino_def
      ed_PrivKey_MarshalAminoJSON_def ed_PrivKey_UnmarshalAminoJSON_def ed_PrivKey_MarshalAmino_def ed_PrivKey_UnmarshalAmino_def
      ed_PubKeySize_def ed_PrivKeySize_def)

lemma FromTm_AsTm: "FromTmEd25519 t = Inr k \<longleftrightarrow> t = AsTmPubKey k"
  by (cases t) (auto simp: FromTmEd25519_def AsTmPubKey_def)

text \<open>A library for the examples: the public key is the seed, a signature is the seed and zeros.\<close>

definition demo_ed :: EdLib where
  "demo_ed =
     \<lparr>edSign = (\<lambda>key msg. if length key \<noteq> 64 then Inl (Panic ''ed25519: bad private key length'') else Inr (drop 32 key @ replicate 32 0)),
      edVerify = (\<lambda>pub msg sig. if length pub \<noteq> 32 then Inl (Panic ''ed25519: bad public key length'') else Inr (sig = pub @ replicate 32 0)),
      edNewKeyFromSeed = (\<lambda>seed. seed @ seed)\<rparr>"

theorem ed_generated_key_witness:
  "ed_law demo_ed \<and> (\<exists>key pub sig. ed_genPrivKey demo_ed (replicate 40 3) = Inr (key, replicate 8 3) \<and> ed_PrivKey_PubKey key = Inr pub
     \<and> ed_PrivKey_Sign demo_ed key [1, 2] = Inr sig \<and> ed_PubKey_VerifySignature demo_ed pub [1, 2] sig = Inr True)"
proof -
  have law: "ed_law demo_ed" by (simp add: ed_law_def demo_ed_def)
  obtain key where k: "ed_genPrivKey demo_ed (replicate 40 3) = Inr (key, drop 32 (replicate 40 3))"
    "if \<forall>x\<in>set (drop 32 key). x = 0 then ed_PrivKey_PubKey key = Inl (Panic ''Expected ed25519 PrivKey to include concatenated pubkey bytes'')
       else \<exists>pub. ed_PrivKey_PubKey key = Inr pub \<and> ed_PubKey_UnmarshalAmino pub = Inr pub \<and> is_ok (ed_PubKey_Address id pub)
         \<and> (\<forall>msg. \<exists>sig. ed_PrivKey_Sign demo_ed key msg = Inr sig \<and> ed_PubKey_VerifySignature demo_ed pub msg sig = Inr True)"
    using ed_generated_key [OF law, of "replicate 40 3" id] by auto
  have key: "key = replicate 32 3 @ replicate 32 3"
    using k(1) by (simp add: ed_genPrivKey_def ed_SeedSize_def demo_ed_def take_replicate del: replicate.simps)
  have "\<not> (\<forall>x\<in>set (drop 32 key). x = 0)" by (simp add: key set_replicate_conv_if del: replicate.simps)
  with k(2) have "\<exists>pub sig. ed_PrivKey_PubKey key = Inr pub \<and> ed_PrivKey_Sign demo_ed key [1, 2] = Inr sig
      \<and> ed_PubKey_VerifySignature demo_ed pub [1, 2] sig = Inr True" by (auto split: if_splits)
  moreover have "drop 32 (replicate 40 (3 :: 8 word)) = replicate 8 3" by (simp only: drop_replicate) simp
  ultimately show ?thesis using law k(1) by (auto simp del: replicate.simps drop_replicate)
qed

end
