(* ===== verification/Subscriptions.thy ===== *)
theory Subscriptions
  imports StdTx Events Uuid Client
begin

text \<open>
  Queries of transactions and blocks (\<open>modules/tx.go\<close>), the parsing of blocks (\<open>types/block.go\<close>), subscriptions
  (\<open>modules/rpc_client.go\<close>, \<open>types/event.go\<close>) and the subscription to transfers of the bank module. The node is a parameter with
  a state of its own; headers, evidence and commits of blocks are passed through and are type parameters. A transaction is decoded by
  a parameter, the decoder of the client's configuration.
\<close>

section \<open>Results of transactions\<close>

record DeliverTx =
  dtCode :: "32 word"
  dtLog :: string
  dtGasWanted :: int
  dtGasUsed :: int
  dtEvents :: "Event list"

record TxResult =
  xrCode :: "32 word"
  xrLog :: string
  xrGasWanted :: int
  xrGasUsed :: int
  xrEvents :: "StringEvent list"

definition tx_result :: "DeliverTx \<Rightarrow> TxResult" where
  "tx_result r = \<lparr>xrCode = dtCode r, xrLog = dtLog r, xrGasWanted = dtGasWanted r, xrGasUsed = dtGasUsed r, xrEvents = StringifyEvents (dtEvents r)\<rparr>"

record TmResultTx =
  rtHash :: bytes
  rtHeight :: int
  rtResult :: DeliverTx
  rtTx :: bytes

record 't ResultQueryTx =
  rqHash :: string
  rqHeight :: int
  rqTx :: 't
  rqResult :: TxResult
  rqTimestamp :: string

record 't ResultSearchTxs =
  rsTotal :: int
  rsTxs :: "('t ResultQueryTx) list"

section \<open>Blocks (\<open>types/block.go\<close>)\<close>

record ('h, 'e, 'c) TmBlock =
  tbHeader :: 'h
  tbTxs :: "bytes list"
  tbEvidence :: 'e
  tbLastCommit :: 'c

record ('h, 'e, 'c) Block =
  blHeader :: 'h
  blTxs :: "StdTx list"
  blEvidence :: 'e
  blLastCommit :: 'c

text \<open>\<open>unmarshal\<close> is the Amino decoder; a transaction that does not unmarshal is left out.\<close>

definition ParseBlock :: "(bytes \<Rightarrow> StdTx option) \<Rightarrow> ('h, 'e, 'c) TmBlock \<Rightarrow> ('h, 'e, 'c) Block" where
  "ParseBlock unmarshal block =
     \<lparr>blHeader = tbHeader block, blTxs = List.map_filter unmarshal (tbTxs block), blEvidence = tbEvidence block, blLastCommit = tbLastCommit block\<rparr>"

record EventPubKey =
  epType :: string
  epValue :: string

record ValidatorUpdate =
  vuPubKey :: EventPubKey
  vuPower :: int

text \<open>\<open>keyOf\<close> is \<open>PubKeyFromProto\<close>, giving the type and the bytes of a key. Its error is dropped and the nil key is used.\<close>

definition ParseValidatorUpdate :: "('p \<Rightarrow> (string \<times> bytes) option) \<Rightarrow> (bytes \<Rightarrow> string) \<Rightarrow> ('p \<times> int) list \<Rightarrow> (ValidatorUpdate list) res" where
  "ParseValidatorUpdate keyOf base64 updates =
     mapR (\<lambda>(pk, power). case keyOf pk of
        None \<Rightarrow> Inl (Panic ''nil pointer dereference'')
      | Some (ty, bz) \<Rightarrow> Inr \<lparr>vuPubKey = \<lparr>epType = ty, epValue = base64 bz\<rparr>, vuPower = power\<rparr>) updates"

record ResultBeginBlock =
  rbEvents :: "StringEvent list"

record ResultEndBlock =
  reEvents :: "StringEvent list"
  reValidatorUpdates :: "ValidatorUpdate list"

record ABCIResponses =
  arDeliverTx :: "TxResult list"
  arEndBlock :: ResultEndBlock
  arBeginBlock :: ResultBeginBlock

record BlockResult =
  brHeight :: int
  brResults :: ABCIResponses

record 'p TmBlockResults =
  trHeight :: int
  trTxsResults :: "DeliverTx list"
  trBeginBlockEvents :: "Event list"
  trEndBlockEvents :: "Event list"
  trValidatorUpdates :: "('p \<times> int) list"

definition ParseBlockResult :: "('p \<Rightarrow> (string \<times> bytes) option) \<Rightarrow> (bytes \<Rightarrow> string) \<Rightarrow> 'p TmBlockResults \<Rightarrow> BlockResult res" where
  "ParseBlockResult keyOf base64 res =
     (let txResults = map tx_result (trTxsResults res) in
      bindR (ParseValidatorUpdate keyOf base64 (trValidatorUpdates res)) (\<lambda>updates.
        Inr \<lparr>brHeight = trHeight res,
          brResults = \<lparr>arDeliverTx = txResults,
            arEndBlock = \<lparr>reEvents = StringifyEvents (trEndBlockEvents res), reValidatorUpdates = updates\<rparr>,
            arBeginBlock = \<lparr>rbEvents = StringifyEvents (trBeginBlockEvents res)\<rparr>\<rparr>\<rparr>))"

record 'k TmValidator =
  tvAddress :: bytes
  tvPubKey :: 'k
  tvVotingPower :: int
  tvProposerPriority :: int

record EventValidator =
  evBech32Address :: string
  evBech32PubKey :: string
  evAddress :: string
  evPubKey :: EventPubKey
  evVotingPower :: int
  evProposerPriority :: int

text \<open>The errors of the address, of the bech32 text and of the JSON form of a key are dropped.\<close>

definition ParseValidators ::
    "Bech32 \<Rightarrow> ('k \<Rightarrow> bytes) \<Rightarrow> ('k \<Rightarrow> bytes option) \<Rightarrow> (bytes \<Rightarrow> EventPubKey option) \<Rightarrow> 'k TmValidator list \<Rightarrow> (EventValidator list) res" where
  "ParseValidators lib keyBytes marshalJSON unmarshalJSON vs =
     mapR (\<lambda>v.
       bindR (addr_or_nil (ConsAddressFromHex (hexUpper (tvAddress v)))) (\<lambda>bech32Addr.
       bindR (case Bech32ifyPubKey lib keyBytes Bech32PubKeyTypeConsPub (tvPubKey v) of Inl (Err _) \<Rightarrow> Inr '''' | r \<Rightarrow> r) (\<lambda>bech32PubKey.
       bindR (ConsAddress_String lib bech32Addr) (\<lambda>addr.
         let pubKey = (case Option.bind (marshalJSON (tvPubKey v)) unmarshalJSON of None \<Rightarrow> \<lparr>epType = '''', epValue = ''''\<rparr> | Some k \<Rightarrow> k) in
         Inr \<lparr>evBech32Address = addr, evBech32PubKey = bech32PubKey, evAddress = hexUpper (tvAddress v), evPubKey = pubKey,
           evVotingPower = tvVotingPower v, evProposerPriority = tvProposerPriority v\<rparr>)))) vs"

section \<open>Queries (\<open>modules/tx.go\<close>)\<close>

text \<open>The calls to the node; \<open>Block\<close> by height gives the block and its id, and \<open>timeText\<close> prints the time of a header.\<close>

record ('h, 'e, 'c, 'i, 'p, 'w) TmNode =
  nodeTx :: "bytes \<Rightarrow> ('w, TmResultTx) act"
  nodeTxSearch :: "string \<Rightarrow> int option \<Rightarrow> int option \<Rightarrow> ('w, TmResultTx list \<times> int) act"
  nodeBlock :: "int \<Rightarrow> ('w, 'i \<times> ('h, 'e, 'c) TmBlock) act"
  nodeBlockResults :: "int \<Rightarrow> ('w, 'p TmBlockResults) act"
  timeText :: "'h \<Rightarrow> string"

text \<open>The blocks of the heights of some transactions, each asked for once.\<close>

fun getResultBlocks ::
    "(int \<Rightarrow> ('w, 'b) act) \<Rightarrow> (int \<rightharpoonup> 'b) \<Rightarrow> TmResultTx list \<Rightarrow> ('w, int \<rightharpoonup> 'b) act" where
  "getResultBlocks block m [] = retS (Inr m)"
| "getResultBlocks block m (r # rs) =
     (case m (rtHeight r) of
        None \<Rightarrow> bindS (block (rtHeight r)) (\<lambda>b. getResultBlocks block (m(rtHeight r \<mapsto> b)) rs)
      | Some _ \<Rightarrow> getResultBlocks block m rs)"

definition parseTxResult ::
    "(bytes \<Rightarrow> 't res) \<Rightarrow> ('h \<Rightarrow> string) \<Rightarrow> TmResultTx \<Rightarrow> ('i \<times> ('h, 'e, 'c) TmBlock) option \<Rightarrow> 't ResultQueryTx res" where
  "parseTxResult txDecoder timeOf r resBlock =
     bindR (txDecoder (rtTx r)) (\<lambda>tx.
       case resBlock of
         None \<Rightarrow> Inl (Panic ''nil pointer dereference'')
       | Some (_, block) \<Rightarrow>
           Inr \<lparr>rqHash = hexUpper (rtHash r), rqHeight = rtHeight r, rqTx = tx, rqResult = tx_result (rtResult r), rqTimestamp = timeOf (tbHeader block)\<rparr>)"

definition QueryTx :: "('h, 'e, 'c, 'i, 'p, 'w) TmNode \<Rightarrow> (bytes \<Rightarrow> 't res) \<Rightarrow> string \<Rightarrow> ('w, 't ResultQueryTx) act" where
  "QueryTx nd txDecoder hash =
     bindS (retS (case hexDecode hash of None \<Rightarrow> Inl (Err ''encoding/hex: invalid'') | Some bz \<Rightarrow> Inr bz)) (\<lambda>tx.
     bindS (nodeTx nd tx) (\<lambda>r.
     bindS (getResultBlocks (nodeBlock nd) Map.empty [r]) (\<lambda>resBlocks.
       retS (parseTxResult txDecoder (timeText nd) r (resBlocks (rtHeight r))))))"

definition QueryTxs ::
    "('h, 'e, 'c, 'i, 'p, 'w) TmNode \<Rightarrow> (bytes \<Rightarrow> 't res) \<Rightarrow> EventQueryBuilder \<Rightarrow> int option \<Rightarrow> int option \<Rightarrow> ('w, 't ResultSearchTxs) act" where
  "QueryTxs nd txDecoder builder page sz =
     (let query = Build builder in
      if length query = 0 then retS (Inl (Err ''must declare at least one tag to search''))
      else
        bindS (nodeTxSearch nd query page sz) (\<lambda>(txs, total).
        bindS (getResultBlocks (nodeBlock nd) Map.empty txs) (\<lambda>resBlocks.
          retS (bindR (mapR (\<lambda>tx. parseTxResult txDecoder (timeText nd) tx (resBlocks (rtHeight tx))) txs) (\<lambda>infos.
            Inr \<lparr>rsTotal = total, rsTxs = infos\<rparr>)))))"

record ('h, 'e, 'c, 'i) BlockDetail =
  bdBlockID :: 'i
  bdBlock :: "('h, 'e, 'c) Block"
  bdBlockResult :: BlockResult

definition QueryBlock ::
    "('h, 'e, 'c, 'i, 'p, 'w) TmNode \<Rightarrow> (bytes \<Rightarrow> StdTx option) \<Rightarrow> ('p \<Rightarrow> (string \<times> bytes) option) \<Rightarrow> (bytes \<Rightarrow> string) \<Rightarrow> int
     \<Rightarrow> ('w, ('h, 'e, 'c, 'i) BlockDetail) act" where
  "QueryBlock nd unmarshal keyOf base64 height =
     bindS (nodeBlock nd height) (\<lambda>(bid, block).
     bindS (nodeBlockResults nd height) (\<lambda>blockResult.
       retS (bindR (ParseBlockResult keyOf base64 blockResult) (\<lambda>br.
         Inr \<lparr>bdBlockID = bid, bdBlock = ParseBlock unmarshal block, bdBlockResult = br\<rparr>))))"


section \<open>Subscriptions (\<open>modules/rpc_client.go\<close>)\<close>

definition TypeKey :: string where "TypeKey = ''tm.event''"
definition TxValue :: string where "TxValue = ''Tx''"
definition EventTypeMessage :: string where "EventTypeMessage = ''message''"
definition AttributeKeySender :: string where "AttributeKeySender = ''sender''"

record 't EventDataTx =
  etHash :: string
  etHeight :: int
  etIndex :: "32 word"
  etTx :: "'t option"
  etResult :: TxResult

record ('h, 'e, 'c) EventDataNewBlock =
  ebBlock :: "('h, 'e, 'c) Block"
  ebResultBeginBlock :: ResultBeginBlock
  ebResultEndBlock :: ResultEndBlock

record 'h EventDataNewBlockHeader =
  ehHeader :: 'h
  ehResultBeginBlock :: ResultBeginBlock
  ehResultEndBlock :: ResultEndBlock

text \<open>What the node sends; a block comes with the events at its begin and end and the updates of the validators.\<close>

datatype ('h, 'e, 'c, 'p, 'k, 'x) TmEvent =
    TmTx bytes int "32 word" DeliverTx
  | TmNewBlock "('h, 'e, 'c) TmBlock" "Event list" "Event list" "('p \<times> int) list"
  | TmNewBlockHeader 'h "Event list" "Event list" "('p \<times> int) list"
  | TmValidatorSetUpdates "'k TmValidator list"
  | TmAnything 'x

datatype ('t, 'h, 'e, 'c, 'x) EventData =
    EDTx "'t EventDataTx"
  | EDNewBlock "('h, 'e, 'c) EventDataNewBlock"
  | EDNewBlockHeader "'h EventDataNewBlockHeader"
  | EDValidatorSetUpdates "EventValidator list"
  | EDAnything 'x

text \<open>What the client passes to the parsers: decoders, hash function and key functions.\<close>

record ('t, 'p, 'k) RpcLib =
  txDecoder :: "bytes \<Rightarrow> 't res"
  tmhashSum :: "bytes \<Rightarrow> bytes"
  stdDecode :: "bytes \<Rightarrow> StdTx option"
  protoKey :: "'p \<Rightarrow> (string \<times> bytes) option"
  base64Std :: "bytes \<Rightarrow> string"
  rpcBech32 :: Bech32
  tmKeyBytes :: "'k \<Rightarrow> bytes"
  keyToJSON :: "'k \<Rightarrow> bytes option"
  keyFromJSON :: "bytes \<Rightarrow> EventPubKey option"

text \<open>A transaction that does not decode gives the zero value, whose transaction is nil.\<close>

definition parseTx :: "('t, 'p, 'k) RpcLib \<Rightarrow> bytes \<Rightarrow> int \<Rightarrow> 32 word \<Rightarrow> DeliverTx \<Rightarrow> 't EventDataTx res" where
  "parseTx r tx height index result =
     (case txDecoder r tx of
        Inl (Err _) \<Rightarrow> Inr \<lparr>etHash = '''', etHeight = 0, etIndex = 0, etTx = None,
          etResult = \<lparr>xrCode = 0, xrLog = '''', xrGasWanted = 0, xrGasUsed = 0, xrEvents = []\<rparr>\<rparr>
      | Inl (Panic p) \<Rightarrow> Inl (Panic p)
      | Inr t \<Rightarrow> Inr \<lparr>etHash = hexUpper (tmhashSum r tx), etHeight = height, etIndex = index, etTx = Some t, etResult = tx_result result\<rparr>)"

definition end_block :: "('t, 'p, 'k) RpcLib \<Rightarrow> Event list \<Rightarrow> ('p \<times> int) list \<Rightarrow> ResultEndBlock res" where
  "end_block r evs updates =
     bindR (ParseValidatorUpdate (protoKey r) (base64Std r) updates) (\<lambda>us. Inr \<lparr>reEvents = StringifyEvents evs, reValidatorUpdates = us\<rparr>)"

definition parseNewBlock ::
    "('t, 'p, 'k) RpcLib \<Rightarrow> ('h, 'e, 'c) TmBlock \<Rightarrow> Event list \<Rightarrow> Event list \<Rightarrow> ('p \<times> int) list \<Rightarrow> ('h, 'e, 'c) EventDataNewBlock res" where
  "parseNewBlock r block bs es us =
     bindR (end_block r es us) (\<lambda>e. Inr \<lparr>ebBlock = ParseBlock (stdDecode r) block, ebResultBeginBlock = \<lparr>rbEvents = StringifyEvents bs\<rparr>, ebResultEndBlock = e\<rparr>)"

definition parseNewBlockHeader ::
    "('t, 'p, 'k) RpcLib \<Rightarrow> 'h \<Rightarrow> Event list \<Rightarrow> Event list \<Rightarrow> ('p \<times> int) list \<Rightarrow> 'h EventDataNewBlockHeader res" where
  "parseNewBlockHeader r header bs es us =
     bindR (end_block r es us) (\<lambda>e. Inr \<lparr>ehHeader = header, ehResultBeginBlock = \<lparr>rbEvents = StringifyEvents bs\<rparr>, ehResultEndBlock = e\<rparr>)"

definition parseValidatorSetUpdates :: "('t, 'p, 'k) RpcLib \<Rightarrow> 'k TmValidator list \<Rightarrow> (EventValidator list) res" where
  "parseValidatorSetUpdates r vs = ParseValidators (rpcBech32 r) (tmKeyBytes r) (keyToJSON r) (keyFromJSON r) vs"

text \<open>
  The goroutine of one event. A handler gives what it does or panics. After a panic the recovering function prints
  \<open>err.Error()\<close> of the result \<open>err\<close> of \<open>SubscribeAny\<close>, which is nil then: it panics itself, with nobody left to recover.
\<close>

definition dispatch :: "('t, 'p, 'k) RpcLib \<Rightarrow> (('t, 'h, 'e, 'c, 'x) EventData \<Rightarrow> 'o res) \<Rightarrow> ('h, 'e, 'c, 'p, 'k, 'x) TmEvent \<Rightarrow> 'o res" where
  "dispatch r handler data =
     (case data of
        TmTx tx height index result \<Rightarrow> bindR (parseTx r tx height index result) (\<lambda>d. handler (EDTx d))
      | TmNewBlock block bs es us \<Rightarrow> bindR (parseNewBlock r block bs es us) (\<lambda>d. handler (EDNewBlock d))
      | TmNewBlockHeader header bs es us \<Rightarrow> bindR (parseNewBlockHeader r header bs es us) (\<lambda>d. handler (EDNewBlockHeader d))
      | TmValidatorSetUpdates vs \<Rightarrow> bindR (parseValidatorSetUpdates r vs) (\<lambda>d. handler (EDValidatorSetUpdates d))
      | TmAnything x \<Rightarrow> handler (EDAnything x))"

definition on_event :: "('t, 'p, 'k) RpcLib \<Rightarrow> (('t, 'h, 'e, 'c, 'x) EventData \<Rightarrow> 'o res) \<Rightarrow> ('h, 'e, 'c, 'p, 'k, 'x) TmEvent \<Rightarrow> 'o res" where
  "on_event r handler data = (case dispatch r handler data of Inl (Panic _) \<Rightarrow> Inl (Panic ''nil pointer dereference'') | out \<Rightarrow> out)"

text \<open>A subscriber is named after a fresh UUID, or plainly when there is none.\<close>

definition getSubscriber :: "bytes res \<Rightarrow> string" where
  "getSubscriber newV1 = (case newV1 of Inr u \<Rightarrow> ''plugchain-sdk-go'' @ ''-'' @ UUID_String u | Inl _ \<Rightarrow> ''plugchain-sdk-go'')"

record Subscription =
  suQuery :: string
  suID :: string

definition SubscribeAny :: "(string \<Rightarrow> string \<Rightarrow> unit res) \<Rightarrow> bytes res \<Rightarrow> string \<Rightarrow> Subscription res" where
  "SubscribeAny subscribe newV1 query =
     (let subscriber = getSubscriber newV1 in bindR (subscribe subscriber query) (\<lambda>_. Inr \<lparr>suQuery = query, suID = subscriber\<rparr>))"

definition type_assertion :: "'o res" where
  "type_assertion = Inl (Panic ''interface conversion'')"

text \<open>The typed subscriptions: the text of the query and the handler that is installed. A nil builder is replaced by an empty one;
  the builder of the caller is extended in place and becomes the value of \<open>with_condition\<close>.\<close>

definition with_condition :: "condition \<Rightarrow> EventQueryBuilder option \<Rightarrow> EventQueryBuilder" where
  "with_condition c builder =
     (let b = (case builder of None \<Rightarrow> NewEventQueryBuilder | Some b \<Rightarrow> b) in case AddCondition (Some c) b of None \<Rightarrow> b | Some b' \<Rightarrow> b')"

definition SubscribeNewBlock ::
    "EventQueryBuilder option \<Rightarrow> (('h, 'e, 'c) EventDataNewBlock \<Rightarrow> 'o res) \<Rightarrow> string \<times> (('t, 'h, 'e, 'c, 'x) EventData \<Rightarrow> 'o res)" where
  "SubscribeNewBlock builder handler =
     (Build (with_condition (cond_EQ (VStr ''NewBlock'') (Cond TypeKey)) builder), \<lambda>d. case d of EDNewBlock b \<Rightarrow> handler b | _ \<Rightarrow> type_assertion)"

definition SubscribeTx ::
    "EventQueryBuilder option \<Rightarrow> ('t EventDataTx \<Rightarrow> 'o res) \<Rightarrow> string \<times> (('t, 'h, 'e, 'c, 'x) EventData \<Rightarrow> 'o res)" where
  "SubscribeTx builder handler =
     (Build (with_condition (cond_EQ (VStr TxValue) (Cond TypeKey)) builder), \<lambda>d. case d of EDTx t \<Rightarrow> handler t | _ \<Rightarrow> type_assertion)"

definition SubscribeNewBlockHeader ::
    "(string \<Rightarrow> string) \<Rightarrow> ('h EventDataNewBlockHeader \<Rightarrow> 'o res) \<Rightarrow> string \<times> (('t, 'h, 'e, 'c, 'x) EventData \<Rightarrow> 'o res)" where
  "SubscribeNewBlockHeader queryForEvent handler =
     (queryForEvent ''NewBlockHeader'', \<lambda>d. case d of EDNewBlockHeader b \<Rightarrow> handler b | _ \<Rightarrow> type_assertion)"

definition SubscribeValidatorSetUpdates ::
    "(string \<Rightarrow> string) \<Rightarrow> (EventValidator list \<Rightarrow> 'o res) \<Rightarrow> string \<times> (('t, 'h, 'e, 'c, 'x) EventData \<Rightarrow> 'o res)" where
  "SubscribeValidatorSetUpdates queryForEvent handler =
     (queryForEvent ''ValidatorSetUpdates'', \<lambda>d. case d of EDValidatorSetUpdates b \<Rightarrow> handler b | _ \<Rightarrow> type_assertion)"

definition Resubscribe :: "(string \<Rightarrow> string \<Rightarrow> unit res) \<Rightarrow> bytes res \<Rightarrow> Subscription \<Rightarrow> unit res" where
  "Resubscribe subscribe newV1 subscription = bindR (SubscribeAny subscribe newV1 (suQuery subscription)) (\<lambda>_. Inr ())"

definition Unsubscribe :: "(string \<Rightarrow> string \<Rightarrow> unit res) \<Rightarrow> Subscription \<Rightarrow> unit res" where
  "Unsubscribe unsubscribe subscription = unsubscribe (suID subscription) (suQuery subscription)"

section \<open>Transfers (\<open>modules/bank/bank.go\<close>)\<close>

record EventDataMsgSend =
  emHeight :: int
  emHash :: string
  emFrom :: string
  emTo :: string
  emAmount :: Coins

definition add_if :: "bool \<Rightarrow> condition \<Rightarrow> EventQueryBuilder \<Rightarrow> EventQueryBuilder" where
  "add_if b c builder = (if b then with_condition c (Some builder) else builder)"

text \<open>The handler gives the list of the callbacks it makes. Calling a method of the nil transaction panics.\<close>

definition send_handler :: "((Msg, 'k) Tx) EventDataTx \<Rightarrow> (EventDataMsgSend list) res" where
  "send_handler data =
     (case etTx data of
        None \<Rightarrow> Inl (Panic ''nil pointer dereference'')
      | Some t \<Rightarrow> bindR (Tx_GetMsgs t) (\<lambda>msgs.
          Inr (List.map_filter (\<lambda>msg. case msg of
              BankSend value \<Rightarrow> Some \<lparr>emHeight = etHeight data, emHash = etHash data, emFrom = FromAddress value, emTo = ToAddress value, emAmount = SendAmount value\<rparr>
            | _ \<Rightarrow> None) msgs)))"

definition SubscribeSendTx :: "string \<Rightarrow> string \<Rightarrow> string \<times> (((Msg, 'k) Tx, 'h, 'e, 'c, 'x) EventData \<Rightarrow> (EventDataMsgSend list) res)" where
  "SubscribeSendTx from to =
     (let builder = NewEventQueryBuilder;
          from = TrimSpace from;
          builder = add_if (length from \<noteq> 0) (cond_EQ (VStr from) (NewCond EventTypeMessage AttributeKeySender)) builder;
          to = TrimSpace to;
          builder = add_if (length to \<noteq> 0) (cond_EQ (VStr to) (Cond ''transfer.recipient'')) builder
      in SubscribeTx (Some builder) send_handler)"


section \<open>Properties\<close>

text \<open>A node that answers every height with its block, and that keeps the list of the heights it was asked for.\<close>

definition serves_blocks :: "(int \<Rightarrow> ('w, 'b) act) \<Rightarrow> (int \<Rightarrow> 'b) \<Rightarrow> ('w \<Rightarrow> int list) \<Rightarrow> bool" where
  "serves_blocks block blk visits \<longleftrightarrow> (\<forall>h w. fst (block h w) = Inr (blk h) \<and> visits (snd (block h w)) = visits w @ [h])"

lemma getResultBlocks_spec:
  assumes "serves_blocks block blk visits"
  shows "\<exists>w' hs. getResultBlocks block m rs w = (Inr (\<lambda>h. if h \<in> dom m then m h else if h \<in> rtHeight ` set rs then Some (blk h) else None), w')
    \<and> visits w' = visits w @ hs \<and> distinct hs \<and> set hs = rtHeight ` set rs - dom m"
proof (induction rs arbitrary: m w)
  case Nil
  have "m = (\<lambda>h. if h \<in> dom m then m h else if h \<in> rtHeight ` set [] then Some (blk h) else None)" by (auto simp: dom_def)
  then show ?case by (simp add: retS_def)
next
  case (Cons r rs)
  show ?case
  proof (cases "m (rtHeight r)")
    case None
    let ?m = "m(rtHeight r \<mapsto> blk (rtHeight r))"
    obtain w1 where b: "block (rtHeight r) w = (Inr (blk (rtHeight r)), w1)" "visits w1 = visits w @ [rtHeight r]"
      using assms unfolding serves_blocks_def by (metis prod.collapse)
    obtain w' hs where ih: "getResultBlocks block ?m rs w1
        = (Inr (\<lambda>h. if h \<in> dom ?m then ?m h else if h \<in> rtHeight ` set rs then Some (blk h) else None), w')"
      "visits w' = visits w1 @ hs" "distinct hs" "set hs = rtHeight ` set rs - dom ?m" using Cons.IH [of ?m w1] by blast
    have "(\<lambda>h. if h \<in> dom ?m then ?m h else if h \<in> rtHeight ` set rs then Some (blk h) else None)
        = (\<lambda>h. if h \<in> dom m then m h else if h \<in> rtHeight ` set (r # rs) then Some (blk h) else None)" using None by auto
    then show ?thesis using None b ih by (intro exI [of _ w'] exI [of _ "rtHeight r # hs"]) (auto simp: bindS_def)
  next
    case (Some b)
    have "(\<lambda>h. if h \<in> dom m then m h else if h \<in> rtHeight ` set rs then Some (blk h) else None)
        = (\<lambda>h. if h \<in> dom m then m h else if h \<in> rtHeight ` set (r # rs) then Some (blk h) else None)" using Some by (intro ext) auto
    moreover have "rtHeight ` set rs - dom m = rtHeight ` set (r # rs) - dom m" using Some by auto
    ultimately show ?thesis using Some Cons.IH [of m w] by simp
  qed
qed


text \<open>
  \<^bold>\<open>C30.\<close> A subscription to transfers. Its query has the conditions for the sender and the recipient that are given and the one for transactions;
  a transaction that decodes calls back once for every transfer in it, in order; a transaction that does not decode takes the
  program down, since the handler panics and the function that recovers from it panics again.
\<close>

theorem SubscribeSendTx_delivers:
  assumes "txDecoder r tx = Inr t" "Tx_GetMsgs t = Inr msgs" "txDecoder r tx' = Inl (Err e)"
  shows "fst (SubscribeSendTx from to) =
      (if TrimSpace from = '''' then '''' else ''message.sender='' @ [CHR 0x27] @ TrimSpace from @ [CHR 0x27] @ '' AND '')
      @ (if TrimSpace to = '''' then '''' else ''transfer.recipient='' @ [CHR 0x27] @ TrimSpace to @ [CHR 0x27] @ '' AND '')
      @ ''tm.event='' @ [CHR 0x27] @ ''Tx'' @ [CHR 0x27]
    \<and> on_event r (snd (SubscribeSendTx from to)) (TmTx tx h i res) =
        Inr [\<lparr>emHeight = h, emHash = hexUpper (tmhashSum r tx), emFrom = FromAddress m, emTo = ToAddress m, emAmount = SendAmount m\<rparr>.
          BankSend m \<leftarrow> msgs]
    \<and> on_event r (snd (SubscribeSendTx from to)) (TmTx tx' h i res) = Inl (Panic ''nil pointer dereference'')"
proof (intro conjI)
  have mf: "List.map_filter (\<lambda>msg. case msg of BankSend v \<Rightarrow> Some (f v) | _ \<Rightarrow> None) ms = [f m. BankSend m \<leftarrow> ms]" for f :: "MsgSend \<Rightarrow> EventDataMsgSend" and ms
    by (induction ms) (auto simp: List.map_filter_def split: Msg.splits)
  show "fst (SubscribeSendTx from to) =
      (if TrimSpace from = '''' then '''' else ''message.sender='' @ [CHR 0x27] @ TrimSpace from @ [CHR 0x27] @ '' AND '')
      @ (if TrimSpace to = '''' then '''' else ''transfer.recipient='' @ [CHR 0x27] @ TrimSpace to @ [CHR 0x27] @ '' AND '')
      @ ''tm.event='' @ [CHR 0x27] @ ''Tx'' @ [CHR 0x27]"
    by (simp add: SubscribeSendTx_def SubscribeTx_def Let_def add_if_def with_condition_def AddCondition_def NewEventQueryBuilder_def Build_def
        condition_String_def cond_EQ_def fill_def Cond_def NewCond_def TypeKey_def TxValue_def EventTypeMessage_def AttributeKeySender_def)
  show "on_event r (snd (SubscribeSendTx from to)) (TmTx tx h i res) =
        Inr [\<lparr>emHeight = h, emHash = hexUpper (tmhashSum r tx), emFrom = FromAddress m, emTo = ToAddress m, emAmount = SendAmount m\<rparr>. BankSend m \<leftarrow> msgs]"
    using assms by (simp add: on_event_def dispatch_def parseTx_def SubscribeSendTx_def SubscribeTx_def Let_def send_handler_def mf)
  show "on_event r (snd (SubscribeSendTx from to)) (TmTx tx' h i res) = Inl (Panic ''nil pointer dereference'')"
    using assms by (simp add: on_event_def dispatch_def parseTx_def SubscribeSendTx_def SubscribeTx_def Let_def send_handler_def)
qed

text \<open>Any panic of a handler, and any event of another kind than the subscribed one, takes the program down in the same way.\<close>

lemma on_event_panics:
  "dispatch r handler d = Inl (Panic p) \<Longrightarrow> on_event r handler d = Inl (Panic ''nil pointer dereference'')"
  "on_event r (snd (SubscribeTx b f)) (TmValidatorSetUpdates []) = Inl (Panic ''nil pointer dereference'')"
  by (simp_all add: on_event_def dispatch_def SubscribeTx_def type_assertion_def parseValidatorSetUpdates_def ParseValidators_def)

text \<open>The transactions of a block are fewer than their results when one does not decode, and a key that does not decode panics.\<close>

lemma ParseBlock_drops:
  "length (blTxs (ParseBlock d b)) = length (tbTxs b) \<longleftrightarrow> (\<forall>tx\<in>set (tbTxs b). d tx \<noteq> None)"
proof -
  have "length (List.map_filter d xs) = length (filter (\<lambda>x. d x \<noteq> None) xs)" for xs by (induction xs) (auto simp: List.map_filter_def)
  then have "length (blTxs (ParseBlock d b)) = length (tbTxs b) \<longleftrightarrow> length (filter (\<lambda>x. d x \<noteq> None) (tbTxs b)) = length (tbTxs b)"
    by (simp add: ParseBlock_def)
  also have "\<dots> \<longleftrightarrow> (\<forall>tx\<in>set (tbTxs b). d tx \<noteq> None)"
    by (metis (mono_tags, lifting) filter_True length_filter_less less_irrefl)
  finally show ?thesis .
qed

lemma ParseValidatorUpdate_panics:
  "(pk, p) \<in> set us \<Longrightarrow> k pk = None \<Longrightarrow> \<not> is_ok (ParseValidatorUpdate k b us)"
proof (induction us)
  case (Cons u us)
  then show ?case
    by (cases "ParseValidatorUpdate k b us") (auto simp: ParseValidatorUpdate_def split: option.splits prod.splits)
qed simp

lemma ParseBlockResult_all:
  "ParseBlockResult k b res = Inr br \<Longrightarrow> arDeliverTx (brResults br) = map tx_result (trTxsResults res)"
  by (auto simp: ParseBlockResult_def Let_def)

text \<open>A node for the examples, which keeps the heights it was asked for; the header of a block is its height.\<close>

definition demo_deliver :: DeliverTx where
  "demo_deliver = \<lparr>dtCode = 0, dtLog = '''', dtGasWanted = 1, dtGasUsed = 1, dtEvents = []\<rparr>"

definition demo_rtx :: "int \<Rightarrow> 8 word \<Rightarrow> TmResultTx" where
  "demo_rtx h b = \<lparr>rtHash = [b], rtHeight = h, rtResult = demo_deliver, rtTx = [b]\<rparr>"

definition demo_block :: "int \<Rightarrow> unit \<times> (int, unit, unit) TmBlock" where
  "demo_block h = ((), \<lparr>tbHeader = h, tbTxs = [], tbEvidence = (), tbLastCommit = ()\<rparr>)"

definition demo_tm :: "(int, unit, unit, unit, unit, int list) TmNode" where
  "demo_tm =
     \<lparr>nodeTx = (\<lambda>_ w. (Inl (Err ''not found''), w)), nodeTxSearch = (\<lambda>_ _ _ w. (Inr ([demo_rtx 5 1, demo_rtx 7 2, demo_rtx 5 3], 9), w)),
      nodeBlock = (\<lambda>h w. (Inr (demo_block h), w @ [h])), nodeBlockResults = (\<lambda>_ w. (Inl (Err ''not found''), w)),
      timeText = (\<lambda>h. if h = 5 then ''five'' else ''seven'')\<rparr>"


definition demo_rpc :: "((Msg, bytes) Tx, unit, unit) RpcLib" where
  "demo_rpc =
     \<lparr>txDecoder = (\<lambda>bz. if bz = [] then Inl (Err ''empty'') else Inr \<lparr>TBody = Some \<lparr>Messages =
          [\<lparr>TypeUrl = '''', AnyValue = [], cachedValue = Some (BankSend \<lparr>FromAddress = ''a'', ToAddress = ''b'', SendAmount = []\<rparr>)\<rparr>],
          Memo = '''', TimeoutHeight = 0, ExtensionOptions = [], NonCriticalExtensionOptions = []\<rparr>, TAuthInfo = None, TSignatures = []\<rparr>),
      tmhashSum = id, stdDecode = (\<lambda>_. None), protoKey = (\<lambda>_. None), base64Std = (\<lambda>_. ''''), rpcBech32 = demo_b32, tmKeyBytes = (\<lambda>_. []),
      keyToJSON = (\<lambda>_. None), keyFromJSON = (\<lambda>_. None)\<rparr>"

theorem SubscribeSendTx_delivers_witness:
  "\<exists>d. on_event demo_rpc (snd (SubscribeSendTx ''a'' '''')) (TmTx [1] 3 0 demo_deliver :: (unit, unit, unit, unit, unit, unit) TmEvent) = Inr [d] \<and> emFrom d = ''a'' \<and> emTo d = ''b''"
proof -
  obtain t where t: "txDecoder demo_rpc [1] = Inr t" "Tx_GetMsgs t = Inr [BankSend \<lparr>FromAddress = ''a'', ToAddress = ''b'', SendAmount = []\<rparr>]"
    by (simp add: demo_rpc_def Tx_GetMsgs_def cached_msg_def)
  have e: "txDecoder demo_rpc [] = Inl (Err ''empty'')" by (simp add: demo_rpc_def)
  show ?thesis by (subst SubscribeSendTx_delivers [OF t e, THEN conjunct2, THEN conjunct1]) simp
qed

end
