(* ===== verification/Accounts.thy ===== *)
theory Accounts
  imports SdkModules
begin

text \<open>
  Accounts of the auth module (\<open>modules/auth/types.go\<close>), tokens as the node sends them with the text form of a Boolean and the remaining queries
  of the token and bank modules (\<open>modules/token\<close>, \<open>modules/bank/bank.go\<close>). Packing and unpacking of keys, JSON and the calls of the
  node are parameters. An account as the client uses it is extended by the text of its public key.
\<close>

section \<open>Accounts (\<open>modules/auth/types.go\<close>)\<close>

record 'k AuthAccount =
  aaAddress :: string
  aaPubKey :: "'k Any option"
  aaAccountNumber :: "64 word"
  aaSequence :: "64 word"

record FullAccount = BaseAccount +
  BPubKey :: string

definition auth_GetAddress :: "Bech32 \<Rightarrow> 'k AuthAccount \<Rightarrow> bytes res" where
  "auth_GetAddress lib acc = addr_or_nil (AccAddressFromBech32 lib (aaAddress acc))"

definition auth_SetAddress :: "Bech32 \<Rightarrow> bytes \<Rightarrow> 'k AuthAccount \<Rightarrow> 'k AuthAccount res" where
  "auth_SetAddress lib addr acc =
     (if length (aaAddress acc) \<noteq> 0 then Inl (Err ''cannot override BaseAccount address'')
      else bindR (AccAddress_String lib addr) (\<lambda>s. Inr (acc\<lparr>aaAddress := s\<rparr>)))"

definition auth_GetPubKey :: "'k AuthAccount \<Rightarrow> 'k option" where
  "auth_GetPubKey acc = (case aaPubKey acc of None \<Rightarrow> None | Some any \<Rightarrow> cachedValue any)"

text \<open>\<open>isProto\<close> tells the keys that are protobuf messages.\<close>

definition auth_SetPubKey :: "('k \<Rightarrow> bool) \<Rightarrow> ('k \<Rightarrow> string) \<Rightarrow> ('k \<Rightarrow> bytes res) \<Rightarrow> 'k option \<Rightarrow> 'k AuthAccount \<Rightarrow> 'k AuthAccount res" where
  "auth_SetPubKey isProto name marshal pubKey acc =
     (case pubKey of
        None \<Rightarrow> Inr (acc\<lparr>aaPubKey := None\<rparr>)
      | Some pk \<Rightarrow>
          if \<not> isProto pk then Inl (Err ''err invalid key, can't proto encode <nil>'')
          else bindR (NewAnyWithValue name marshal pk) (\<lambda>any. Inr (acc\<lparr>aaPubKey := Some any\<rparr>)))"

definition auth_SetAccountNumber :: "64 word \<Rightarrow> 'k AuthAccount \<Rightarrow> 'k AuthAccount res" where
  "auth_SetAccountNumber accNumber acc = Inr (acc\<lparr>aaAccountNumber := accNumber\<rparr>)"

definition auth_SetSequence :: "64 word \<Rightarrow> 'k AuthAccount \<Rightarrow> 'k AuthAccount res" where
  "auth_SetSequence s acc = Inr (acc\<lparr>aaSequence := s\<rparr>)"

definition zeroAccount :: FullAccount where
  "zeroAccount = \<lparr>BAddress = '''', BCoins = [], BAccountNumber = 0, BSequence = 0, BPubKey = ''''\<rparr>"

text \<open>A key that does not unpack gives the zero account; a key that has no text panics.\<close>

definition ConvertAccount :: "Bech32 \<Rightarrow> ('k Any \<Rightarrow> 'k res) \<Rightarrow> ('k \<Rightarrow> bytes) \<Rightarrow> 'k AuthAccount \<Rightarrow> FullAccount res" where
  "ConvertAccount lib unpack keyBytes acc =
     (let account = zeroAccount\<lparr>BAddress := aaAddress acc, BAccountNumber := aaAccountNumber acc, BSequence := aaSequence acc\<rparr> in
      case aaPubKey acc of
        None \<Rightarrow> Inr account
      | Some any \<Rightarrow>
          (case unpack any of
             Inl (Err _) \<Rightarrow> Inr zeroAccount
           | Inl (Panic p) \<Rightarrow> Inl (Panic p)
           | Inr pk \<Rightarrow> bindR (panic_err (Bech32ifyPubKey lib keyBytes Bech32PubKeyTypeAccPub pk)) (\<lambda>pkStr. Inr (account\<lparr>BPubKey := pkStr\<rparr>))))"

section \<open>Tokens (\<open>modules/token\<close>)\<close>

definition Bool_Marshal :: "string \<Rightarrow> bytes res" where
  "Bool_Marshal b = Inr (str_to_bytes b)"

definition Bool_Unmarshal :: "bytes \<Rightarrow> string res" where
  "Bool_Unmarshal data = Inr (bytes_str data)"

definition Bool_MarshalJSON :: "(string \<Rightarrow> bytes res) \<Rightarrow> string \<Rightarrow> bytes res" where
  "Bool_MarshalJSON json b = json b"

text \<open>An error of the JSON decoder is dropped and leaves the value as it was.\<close>

definition Bool_UnmarshalJSON :: "(bytes \<Rightarrow> string res) \<Rightarrow> string \<Rightarrow> bytes \<Rightarrow> string res" where
  "Bool_UnmarshalJSON unjson old data = (case unjson data of Inl (Err _) \<Rightarrow> Inr old | r \<Rightarrow> r)"

record QueryFeesResp =
  qfExist :: bool
  qfIssueFee :: Coin
  qfMintFee :: Coin

record TokenParams =
  tkIssueTokenBaseFee :: Coin
  tkOperateTokenFeeRatio :: "int option"

record TokenParamsResp =
  ptIssueTokenBaseFee :: string
  ptOperateTokenFeeRatio :: string

definition TokenParams_Convert :: "TokenParams \<Rightarrow> TokenParamsResp" where
  "TokenParams_Convert p =
     \<lparr>ptIssueTokenBaseFee = Coin_String (tkIssueTokenBaseFee p), ptOperateTokenFeeRatio = Dec_StringP (tkOperateTokenFeeRatio p)\<rparr>"

definition QueryFeesResponse_Convert :: "QueryFeesResp \<Rightarrow> QueryFeesResp" where
  "QueryFeesResponse_Convert t = t"

definition token_QueryFees :: "(string \<Rightarrow> QueryFeesResp res) \<Rightarrow> string \<Rightarrow> QueryFeesResp res" where
  "token_QueryFees fees symbol = bindR (fees symbol) (\<lambda>r. Inr (QueryFeesResponse_Convert r))"

definition token_QueryParams :: "TokenParams res \<Rightarrow> TokenParamsResp res" where
  "token_QueryParams params = bindR params (\<lambda>p. Inr (TokenParams_Convert p))"

definition token_QueryToken :: "('k, 'c, 'w) mbase \<Rightarrow> string \<Rightarrow> ('c, 'w, Token) cact" where
  "token_QueryToken base denom = QueryToken base denom"

section \<open>Bank (\<open>modules/bank/bank.go\<close>)\<close>

definition bank_QueryAccount :: "('k, 'c, 'w) mbase \<Rightarrow> string \<Rightarrow> ('c, 'w, BaseAccount) cact" where
  "bank_QueryAccount base address = bindS (QueryAccount base address) (\<lambda>account. retS (Inr account))"

definition bank_TotalSupply :: "Coins res \<Rightarrow> Coins res" where
  "bank_TotalSupply supply = bindR supply Inr"

section \<open>Properties\<close>

text \<open>
  The life of an account: an address of 1 to 32 bytes can be set once and is read back; a key that is set is read back; setting the numbers changes nothing
  else; and converting the account keeps address, numbers and the text of the key, whose bytes can be read back from it.
\<close>

theorem account_lifecycle:
  assumes lib: "regroup_law lib" "encode_law lib" and addr: "0 < length addr" "length addr \<le> 32" and new: "aaAddress acc = ''''"
    and key: "isProto pk" "marshal pk = Inr bz" "unpack \<lparr>TypeUrl = CHR ''/'' # name pk, AnyValue = bz, cachedValue = Some pk\<rparr> = Inr pk"
      "length (keyBytes pk) \<le> 33"
  shows "\<exists>a1 a2 a3 a4 full. auth_SetAddress lib addr acc = Inr a1 \<and> auth_SetPubKey isProto name marshal (Some pk) a1 = Inr a2
    \<and> auth_SetAccountNumber n a2 = Inr a3 \<and> auth_SetSequence s a3 = Inr a4
    \<and> auth_GetAddress lib a4 = Inr addr \<and> auth_GetPubKey a4 = Some pk \<and> (\<forall>addr'. \<not> is_ok (auth_SetAddress lib addr' a4))
    \<and> ConvertAccount lib unpack keyBytes a4 = Inr full \<and> AccAddressFromBech32 lib (BAddress full) = Inr addr
    \<and> BAccountNumber full = n \<and> BSequence full = s \<and> GetPubKeyFromBech32 lib Inr Bech32PubKeyTypeAccPub (BPubKey full) = Inr (keyBytes pk)"
proof -
  have ne: "addr \<noteq> []" using addr(1) by auto
  obtain t where t: "AccAddress_String lib addr = Inr t" "t \<noteq> ''''" using account.toText_ok [OF lib ne addr(2)] by auto
  have f: "AccAddressFromBech32 lib t = Inr addr" by (rule account.fromText_toText [OF lib ne addr(2) t(1)])
  obtain c where c: "b32ConvertBits lib (keyBytes pk) 8 5 True = Inr c" "\<forall>x\<in>set c. x < 32" "length c \<le> 2 * length (keyBytes pk)"
    "b32ConvertBits lib c 5 8 False = Inr (keyBytes pk)" using lib(1) unfolding regroup_law_def by blast
  have "length ''gconspub'' + 7 + length c \<le> 90" using c(3) key(4) by simp
  moreover have "\<forall>x\<in>set ''gconspub''. is_lower x" by (simp add: is_lower_def less_eq_char_def)
  ultimately obtain ks where ks: "b32Encode lib ''gconspub'' c = Inr ks" "ks \<noteq> []" "b32Decode lib ks = Inr (''gconspub'', c)"
    using lib(2) [unfolded encode_law_def, rule_format, of "''gconspub''" c] c(2) by blast
  have k: "Bech32ifyPubKey lib keyBytes Bech32PubKeyTypeAccPub pk = Inr ks"
    "GetPubKeyFromBech32 lib Inr Bech32PubKeyTypeAccPub ks = Inr (keyBytes pk)"
    using c ks by (simp_all add: Bech32ifyPubKey_def GetPubKeyFromBech32_def GetFromBech32_def DecodeAndConvert_def ConvertAndEncode_def prefix_values)
  show ?thesis using new t f k key
    by (simp add: auth_SetAddress_def auth_SetPubKey_def NewAnyWithValue_def auth_SetAccountNumber_def auth_SetSequence_def auth_GetAddress_def
        auth_GetPubKey_def ConvertAccount_def panic_err_def addr_or_nil_def zeroAccount_def Let_def)
qed

theorem account_lifecycle_witness:
  "\<exists>acc full. auth_GetAddress demo_b32 acc = Inr [1, 2] \<and> auth_GetPubKey acc = Some [9 :: 8 word]
     \<and> \<not> is_ok (auth_SetAddress demo_b32 [3] acc) \<and> ConvertAccount demo_b32 (\<lambda>any. Inr (AnyValue any)) id acc = Inr full
     \<and> BAccountNumber full = 3 \<and> BSequence full = 7"
proof -
  let ?acc = "\<lparr>aaAddress = '''', aaPubKey = None, aaAccountNumber = 0, aaSequence = 0\<rparr> :: bytes AuthAccount"
  have "\<exists>a1 a2 a3 a4 full. auth_SetAddress demo_b32 [1, 2] ?acc = Inr a1 \<and> auth_SetPubKey (\<lambda>_. True) (\<lambda>_. ''Key'') Inr (Some [9]) a1 = Inr a2
    \<and> auth_SetAccountNumber 3 a2 = Inr a3 \<and> auth_SetSequence 7 a3 = Inr a4
    \<and> auth_GetAddress demo_b32 a4 = Inr [1, 2] \<and> auth_GetPubKey a4 = Some [9] \<and> (\<forall>addr'. \<not> is_ok (auth_SetAddress demo_b32 addr' a4))
    \<and> ConvertAccount demo_b32 (\<lambda>any. Inr (AnyValue any)) id a4 = Inr full \<and> AccAddressFromBech32 demo_b32 (BAddress full) = Inr [1, 2]
    \<and> BAccountNumber full = 3 \<and> BSequence full = 7 \<and> GetPubKeyFromBech32 demo_b32 Inr Bech32PubKeyTypeAccPub (BPubKey full) = Inr (id [9])"
    by (rule account_lifecycle [OF demo_b32_laws, where bz = "[9]"]) simp_all
  then show ?thesis by blast
qed

text \<open>A key that does not unpack loses the whole account, address and sequence included, without an error.\<close>

lemma ConvertAccount_unknown_key:
  "aaPubKey acc = Some any \<Longrightarrow> unpack any = Inl (Err e) \<Longrightarrow> ConvertAccount lib unpack kb acc = Inr zeroAccount"
  by (simp add: ConvertAccount_def)

lemma Bool_UnmarshalJSON_silent: "unjson data = Inl (Err e) \<Longrightarrow> Bool_UnmarshalJSON unjson old data = Inr old"
  by (simp add: Bool_UnmarshalJSON_def)

lemma Bool_wire_roundtrip: "bindR (Bool_Marshal b) Bool_Unmarshal = Inr b"
  by (simp add: Bool_Marshal_def Bool_Unmarshal_def)


text \<open>
  Tokens whose owner is the text of an address come through the conversion unchanged; a token with any other owner, also one without an owner,
  makes the query panic.
\<close>

lemma Tokens_Convert_canonical:
  assumes "regroup_law lib" "encode_law lib"
    "\<forall>t\<in>set ts. \<exists>a. 0 < length a \<and> length a \<le> 32 \<and> AccAddress_String lib a = Inr (TOwner t)"
  shows "Tokens_Convert lib ts = Inr ts"
proof -
  have "bindR (Token_GetOwner lib t) (\<lambda>a. bindR (AccAddress_String lib a) (\<lambda>owner. Inr (t\<lparr>TOwner := owner\<rparr>))) = Inr t" if t: "t \<in> set ts" for t
  proof -
    obtain a where a: "0 < length a" "length a \<le> 32" "AccAddress_String lib a = Inr (TOwner t)" using assms(3) t by blast
    then have "AccAddressFromBech32 lib (TOwner t) = Inr a" using account.fromText_toText [OF assms(1,2)] by simp
    then show ?thesis using a(3) by (simp add: Token_GetOwner_def MustAccAddressFromBech32_def panic_err_def)
  qed
  from mapR_all_ok [of ts, OF this] show ?thesis by (simp add: Tokens_Convert_def)
qed

lemma Tokens_Convert_no_owner: "TOwner t = '''' \<Longrightarrow> \<exists>p. Tokens_Convert lib (t # ts) = Inl (Panic p)"
  by (simp add: Tokens_Convert_def Token_GetOwner_def MustAccAddressFromBech32_def AccAddressFromBech32_def GetFromBech32_def panic_err_def)

end
