(* ===== verification/AminoCompat.thy ===== *)
theory AminoCompat
  imports KeyStore
begin

text \<open>
  The Amino form of values with protobuf \<open>Any\<close>s inside (\<open>codec/types/compat.go\<close>, \<open>codec/amino.go\<close>, \<open>codec/amino_codec.go\<close>,
  \<open>codec/json.go\<close>). A value is a flat part of type \<open>'v\<close> and the list of its \<open>Any\<close> fields, in the order in which its method
  \<open>UnpackInterfaces\<close> visits them; \<open>None\<close> is a nil pointer. The Amino library encodes a flat part with the bytes that the
  \<open>Any\<close>s give for themselves, and is a record of functions. The operations change the \<open>Any\<close>s in place and give the changed
  value beside their error. The unpackers recurse on what the library decodes, so they carry the depth of the stack.
\<close>

section \<open>Values\<close>

record anyCompat =
  aminoBz :: bytes
  jsonBz :: bytes
  acErr :: "failure option"

datatype 'v anyv = AnyV (anyUrl: string) (anyVal: bytes) (anyCached: "'v obj option") (anyCompat: "anyCompat option")
  and 'v obj = Obj (objFlat: 'v) (objAnys: "'v anyv option list")

definition anyCompatError :: "string \<Rightarrow> failure" where
  "anyCompatError errType = Err (errType @ '' marshaling error'')"

definition Any_MarshalAmino :: "'v anyv \<Rightarrow> bytes res" where
  "Any_MarshalAmino any =
     (case anyCompat any of
        None \<Rightarrow> Inl (anyCompatError ''amino binary unmarshal'')
      | Some ac \<Rightarrow> (case acErr ac of None \<Rightarrow> Inr (aminoBz ac) | Some e \<Rightarrow> Inl e))"

definition Any_UnmarshalAmino :: "bytes \<Rightarrow> 'v anyv \<Rightarrow> 'v anyv" where
  "Any_UnmarshalAmino bz any = AnyV (anyUrl any) (anyVal any) (anyCached any) (Some \<lparr>aminoBz = bz, jsonBz = [], acErr = None\<rparr>)"

definition Any_MarshalJSON :: "'v anyv \<Rightarrow> bytes res" where
  "Any_MarshalJSON any =
     (case anyCompat any of
        None \<Rightarrow> Inl (anyCompatError ''JSON marshal'')
      | Some ac \<Rightarrow> (case acErr ac of None \<Rightarrow> Inr (jsonBz ac) | Some e \<Rightarrow> Inl e))"

definition Any_UnmarshalJSON :: "bytes \<Rightarrow> 'v anyv \<Rightarrow> 'v anyv" where
  "Any_UnmarshalJSON bz any = AnyV (anyUrl any) (anyVal any) (anyCached any) (Some \<lparr>aminoBz = [], jsonBz = bz, acErr = None\<rparr>)"

text \<open>
  A wire form: the two methods of an \<open>Any\<close> that the library calls, the field of the compatibility record that the packer sets and the
  unpacker reads, and the library on flat parts. \<open>wNil\<close> is what the library gives for a nil value.
\<close>

record 'v Wire =
  wMarshal :: "'v anyv \<Rightarrow> bytes res"
  wUnmarshal :: "bytes \<Rightarrow> 'v anyv \<Rightarrow> 'v anyv"
  wSet :: "bytes \<Rightarrow> failure option \<Rightarrow> anyCompat"
  wGet :: "anyCompat \<Rightarrow> bytes"
  wEncode :: "'v \<Rightarrow> bytes option list \<Rightarrow> bytes res"
  wDecode :: "bytes \<Rightarrow> ('v \<times> bytes option list) res"
  wNil :: "bytes res"

text \<open>The protobuf side: which values are messages, their names and their bytes.\<close>

record 'v ProtoSide =
  isProto :: "'v obj \<Rightarrow> bool"
  protoName :: "'v obj \<Rightarrow> string"
  protoBytes :: "'v obj \<Rightarrow> bytes res"

definition zeroAny :: "'v anyv" where
  "zeroAny = AnyV '''' [] None None"

text \<open>The library on a whole value: it asks each \<open>Any\<close> for its bytes, and fills new \<open>Any\<close>s with the bytes it reads.\<close>

definition lib_encode :: "'v Wire \<Rightarrow> 'v obj \<Rightarrow> bytes res" where
  "lib_encode W ob =
     bindR (mapR (\<lambda>a. case a of None \<Rightarrow> Inr None | Some any \<Rightarrow> bindR (wMarshal W any) (\<lambda>bz. Inr (Some bz))) (objAnys ob)) (wEncode W (objFlat ob))"

definition lib_decode :: "'v Wire \<Rightarrow> bytes \<Rightarrow> 'v obj res" where
  "lib_decode W bz = bindR (wDecode W bz) (\<lambda>(v, bs). Inr (Obj v (map (map_option (\<lambda>b. wUnmarshal W b zeroAny)) bs)))"

section \<open>Packers\<close>

text \<open>\<open>UnpackAny\<close> of a packer and \<open>UnpackInterfaces\<close> of a value with it. The method of a nil \<open>Any\<close> panics.\<close>

fun pack_any :: "'v Wire \<Rightarrow> 'v anyv \<Rightarrow> unit res \<times> 'v anyv"
  and pack_obj :: "'v Wire \<Rightarrow> 'v obj \<Rightarrow> unit res \<times> 'v obj"
  and pack_anys :: "'v Wire \<Rightarrow> 'v anyv option list \<Rightarrow> unit res \<times> 'v anyv option list" where
  "pack_any W (AnyV u b None k) =
     (case wNil W of
        Inr bz \<Rightarrow> (Inr (), AnyV u b None (Some (wSet W bz None)))
      | Inl (Err e) \<Rightarrow> (Inl (Err e), AnyV u b None (Some (wSet W [] (Some (Err e)))))
      | Inl (Panic p) \<Rightarrow> (Inl (Panic p), AnyV u b None k))"
| "pack_any W (AnyV u b (Some ob) k) =
     (case pack_obj W ob of
        (Inl e, ob) \<Rightarrow> (Inl e, AnyV u b (Some ob) k)
      | (Inr _, ob) \<Rightarrow>
          (case lib_encode W ob of
             Inr bz \<Rightarrow> (Inr (), AnyV u b (Some ob) (Some (wSet W bz None)))
           | Inl (Err e) \<Rightarrow> (Inl (Err e), AnyV u b (Some ob) (Some (wSet W [] (Some (Err e)))))
           | Inl (Panic p) \<Rightarrow> (Inl (Panic p), AnyV u b (Some ob) k)))"
| "pack_obj W (Obj v as) = (case pack_anys W as of (r, as) \<Rightarrow> (r, Obj v as))"
| "pack_anys W [] = (Inr (), [])"
| "pack_anys W (None # as) = (Inl (Panic ''nil pointer dereference''), None # as)"
| "pack_anys W (Some a # as) =
     (case pack_any W a of
        (Inl e, a) \<Rightarrow> (Inl e, Some a # as)
      | (Inr _, a) \<Rightarrow> (case pack_anys W as of (r, as) \<Rightarrow> (r, Some a # as)))"

section \<open>Unpackers\<close>

definition repack :: "'v ProtoSide \<Rightarrow> 'v obj \<Rightarrow> 'v anyv \<Rightarrow> unit res \<times> 'v anyv" where
  "repack P ob any =
     (if isProto P ob
      then case protoBytes P ob of
             Inl e \<Rightarrow> (Inl e, AnyV (CHR ''/'' # protoName P ob) (anyVal any) (anyCached any) (anyCompat any))
           | Inr bz \<Rightarrow> (Inr (), AnyV (CHR ''/'' # protoName P ob) bz (Some ob) None)
      else (Inr (), AnyV (anyUrl any) (anyVal any) (Some ob) None))"

fun unpack_any :: "'v Wire \<Rightarrow> 'v ProtoSide \<Rightarrow> string \<Rightarrow> nat \<Rightarrow> 'v anyv \<Rightarrow> unit res \<times> 'v anyv"
  and unpack_anys :: "'v Wire \<Rightarrow> 'v ProtoSide \<Rightarrow> string \<Rightarrow> nat \<Rightarrow> 'v anyv option list \<Rightarrow> unit res \<times> 'v anyv option list" where
  "unpack_any W P what 0 any = (Inl (Panic ''stack overflow''), any)"
| "unpack_any W P what (Suc n) any =
     (case anyCompat any of
        None \<Rightarrow> (Inl (anyCompatError what), any)
      | Some ac \<Rightarrow>
          (case lib_decode W (wGet W ac) of
             Inl e \<Rightarrow> (Inl e, any)
           | Inr ob \<Rightarrow>
               (case unpack_anys W P what n (objAnys ob) of
                  (Inl e, _) \<Rightarrow> (Inl e, any)
                | (Inr _, as) \<Rightarrow> repack P (Obj (objFlat ob) as) any)))"
| "unpack_anys W P what n [] = (Inr (), [])"
| "unpack_anys W P what n (None # as) = (Inl (Panic ''nil pointer dereference''), None # as)"
| "unpack_anys W P what n (Some a # as) =
     (case unpack_any W P what n a of
        (Inl e, a) \<Rightarrow> (Inl e, Some a # as)
      | (Inr _, a) \<Rightarrow> (case unpack_anys W P what n as of (r, as) \<Rightarrow> (r, Some a # as)))"

definition unpack_obj :: "'v Wire \<Rightarrow> 'v ProtoSide \<Rightarrow> string \<Rightarrow> nat \<Rightarrow> 'v obj \<Rightarrow> unit res \<times> 'v obj" where
  "unpack_obj W P what n ob = (case unpack_anys W P what n (objAnys ob) of (r, as) \<Rightarrow> (r, Obj (objFlat ob) as))"

section \<open>Amino and JSON (\<open>compat.go\<close>)\<close>

text \<open>The Amino library: binary, length-prefixed and JSON forms of a flat part with the bytes of its \<open>Any\<close>s.\<close>

record 'v AminoLib =
  amEncodeBare :: "'v \<Rightarrow> bytes option list \<Rightarrow> bytes res"
  amDecodeBare :: "bytes \<Rightarrow> ('v \<times> bytes option list) res"
  amEncodeLP :: "'v \<Rightarrow> bytes option list \<Rightarrow> bytes res"
  amDecodeLP :: "bytes \<Rightarrow> ('v \<times> bytes option list) res"
  amEncodeJSON :: "'v \<Rightarrow> bytes option list \<Rightarrow> bytes res"
  amDecodeJSON :: "bytes \<Rightarrow> ('v \<times> bytes option list) res"
  amEncodeIndent :: "string \<Rightarrow> string \<Rightarrow> 'v \<Rightarrow> bytes option list \<Rightarrow> bytes res"
  amNilBare :: "bytes res"
  amNilJSON :: "bytes res"

definition AminoWire :: "'v AminoLib \<Rightarrow> 'v Wire" where
  "AminoWire cdc =
     \<lparr>wMarshal = Any_MarshalAmino, wUnmarshal = Any_UnmarshalAmino, wSet = (\<lambda>bz e. \<lparr>aminoBz = bz, jsonBz = [], acErr = e\<rparr>), wGet = aminoBz,
      wEncode = amEncodeBare cdc, wDecode = amDecodeBare cdc, wNil = amNilBare cdc\<rparr>"

definition AminoJSONWire :: "'v AminoLib \<Rightarrow> 'v Wire" where
  "AminoJSONWire cdc =
     \<lparr>wMarshal = Any_MarshalJSON, wUnmarshal = Any_UnmarshalJSON, wSet = (\<lambda>bz e. \<lparr>aminoBz = [], jsonBz = bz, acErr = e\<rparr>), wGet = jsonBz,
      wEncode = amEncodeJSON cdc, wDecode = amDecodeJSON cdc, wNil = amNilJSON cdc\<rparr>"

definition AminoUnpacker_UnpackAny :: "'v AminoLib \<Rightarrow> 'v ProtoSide \<Rightarrow> nat \<Rightarrow> 'v anyv \<Rightarrow> unit res \<times> 'v anyv" where
  "AminoUnpacker_UnpackAny cdc P n any = unpack_any (AminoWire cdc) P ''amino binary unmarshal'' n any"

definition AminoPacker_UnpackAny :: "'v AminoLib \<Rightarrow> 'v anyv \<Rightarrow> unit res \<times> 'v anyv" where
  "AminoPacker_UnpackAny cdc any = pack_any (AminoWire cdc) any"

definition AminoJSONUnpacker_UnpackAny :: "'v AminoLib \<Rightarrow> 'v ProtoSide \<Rightarrow> nat \<Rightarrow> 'v anyv \<Rightarrow> unit res \<times> 'v anyv" where
  "AminoJSONUnpacker_UnpackAny cdc P n any = unpack_any (AminoJSONWire cdc) P ''JSON unmarshal'' n any"

definition AminoJSONPacker_UnpackAny :: "'v AminoLib \<Rightarrow> 'v anyv \<Rightarrow> unit res \<times> 'v anyv" where
  "AminoJSONPacker_UnpackAny cdc any = pack_any (AminoJSONWire cdc) any"

text \<open>The packer for protobuf JSON: \<open>toStr\<close> is \<open>MarshalToString\<close> of an \<open>Any\<close>; a nil \<open>Any\<close> is skipped.\<close>

fun pjson_any :: "('v anyv \<Rightarrow> bytes res) \<Rightarrow> 'v anyv \<Rightarrow> unit res \<times> 'v anyv"
  and pjson_obj :: "('v anyv \<Rightarrow> bytes res) \<Rightarrow> 'v obj \<Rightarrow> unit res \<times> 'v obj"
  and pjson_anys :: "('v anyv \<Rightarrow> bytes res) \<Rightarrow> 'v anyv option list \<Rightarrow> unit res \<times> 'v anyv option list" where
  "pjson_any toStr (AnyV u b c k) =
     (case (case c of None \<Rightarrow> (Inr (), None) | Some ob \<Rightarrow> (case pjson_obj toStr ob of (r, ob) \<Rightarrow> (r, Some ob))) of
        (Inl e, c) \<Rightarrow> (Inl e, AnyV u b c k)
      | (Inr _, c) \<Rightarrow>
          (case toStr (AnyV u b c k) of
             Inr bz \<Rightarrow> (Inr (), AnyV u b c (Some \<lparr>aminoBz = [], jsonBz = bz, acErr = None\<rparr>))
           | Inl (Err e) \<Rightarrow> (Inl (Err e), AnyV u b c (Some \<lparr>aminoBz = [], jsonBz = [], acErr = Some (Err e)\<rparr>))
           | Inl (Panic p) \<Rightarrow> (Inl (Panic p), AnyV u b c k)))"
| "pjson_obj toStr (Obj v as) = (case pjson_anys toStr as of (r, as) \<Rightarrow> (r, Obj v as))"
| "pjson_anys toStr [] = (Inr (), [])"
| "pjson_anys toStr (None # as) = (case pjson_anys toStr as of (r, as) \<Rightarrow> (r, None # as))"
| "pjson_anys toStr (Some a # as) =
     (case pjson_any toStr a of
        (Inl e, a) \<Rightarrow> (Inl e, Some a # as)
      | (Inr _, a) \<Rightarrow> (case pjson_anys toStr as of (r, as) \<Rightarrow> (r, Some a # as)))"

section \<open>The Amino codec (\<open>amino.go\<close>, \<open>amino_codec.go\<close>, \<open>json.go\<close>)\<close>

definition after :: "unit res \<times> 'o \<Rightarrow> ('o \<Rightarrow> 'a res) \<Rightarrow> 'a res \<times> 'o" where
  "after p f = (case p of (Inl e, ob) \<Rightarrow> (Inl e, ob) | (Inr _, ob) \<Rightarrow> (f ob, ob))"

definition marshalAnys :: "'v AminoLib \<Rightarrow> 'v obj \<Rightarrow> unit res \<times> 'v obj" where
  "marshalAnys cdc ob = pack_obj (AminoWire cdc) ob"

definition unmarshalAnys :: "'v AminoLib \<Rightarrow> 'v ProtoSide \<Rightarrow> nat \<Rightarrow> 'v obj \<Rightarrow> unit res \<times> 'v obj" where
  "unmarshalAnys cdc P n ob = unpack_obj (AminoWire cdc) P ''amino binary unmarshal'' n ob"

definition jsonMarshalAnys :: "'v AminoLib \<Rightarrow> 'v obj \<Rightarrow> unit res \<times> 'v obj" where
  "jsonMarshalAnys cdc ob = pack_obj (AminoJSONWire cdc) ob"

definition jsonUnmarshalAnys :: "'v AminoLib \<Rightarrow> 'v ProtoSide \<Rightarrow> nat \<Rightarrow> 'v obj \<Rightarrow> unit res \<times> 'v obj" where
  "jsonUnmarshalAnys cdc P n ob = unpack_obj (AminoJSONWire cdc) P ''JSON unmarshal'' n ob"

definition la_MarshalBinaryBare :: "'v AminoLib \<Rightarrow> 'v obj \<Rightarrow> bytes res \<times> 'v obj" where
  "la_MarshalBinaryBare cdc ob = after (marshalAnys cdc ob) (lib_encode (AminoWire cdc))"

definition la_MustMarshalBinaryBare :: "'v AminoLib \<Rightarrow> 'v obj \<Rightarrow> bytes res \<times> 'v obj" where
  "la_MustMarshalBinaryBare cdc ob = map_prod panic_on_err id (la_MarshalBinaryBare cdc ob)"

definition la_MarshalBinaryLengthPrefixed :: "'v AminoLib \<Rightarrow> 'v obj \<Rightarrow> bytes res \<times> 'v obj" where
  "la_MarshalBinaryLengthPrefixed cdc ob = after (marshalAnys cdc ob) (lib_encode ((AminoWire cdc)\<lparr>wEncode := amEncodeLP cdc\<rparr>))"

definition la_MustMarshalBinaryLengthPrefixed :: "'v AminoLib \<Rightarrow> 'v obj \<Rightarrow> bytes res \<times> 'v obj" where
  "la_MustMarshalBinaryLengthPrefixed cdc ob = map_prod panic_on_err id (la_MarshalBinaryLengthPrefixed cdc ob)"

definition la_UnmarshalBinaryBare :: "'v AminoLib \<Rightarrow> 'v ProtoSide \<Rightarrow> nat \<Rightarrow> bytes \<Rightarrow> 'v obj res" where
  "la_UnmarshalBinaryBare cdc P n bz =
     bindR (lib_decode (AminoWire cdc) bz) (\<lambda>ob. case unmarshalAnys cdc P n ob of (Inl e, _) \<Rightarrow> Inl e | (Inr _, ob) \<Rightarrow> Inr ob)"

definition la_MustUnmarshalBinaryBare :: "'v AminoLib \<Rightarrow> 'v ProtoSide \<Rightarrow> nat \<Rightarrow> bytes \<Rightarrow> 'v obj res" where
  "la_MustUnmarshalBinaryBare cdc P n bz = panic_on_err (la_UnmarshalBinaryBare cdc P n bz)"

definition la_UnmarshalBinaryLengthPrefixed :: "'v AminoLib \<Rightarrow> 'v ProtoSide \<Rightarrow> nat \<Rightarrow> bytes \<Rightarrow> 'v obj res" where
  "la_UnmarshalBinaryLengthPrefixed cdc P n bz =
     bindR (lib_decode ((AminoWire cdc)\<lparr>wDecode := amDecodeLP cdc\<rparr>) bz) (\<lambda>ob. case unmarshalAnys cdc P n ob of (Inl e, _) \<Rightarrow> Inl e | (Inr _, ob) \<Rightarrow> Inr ob)"

definition la_MustUnmarshalBinaryLengthPrefixed :: "'v AminoLib \<Rightarrow> 'v ProtoSide \<Rightarrow> nat \<Rightarrow> bytes \<Rightarrow> 'v obj res" where
  "la_MustUnmarshalBinaryLengthPrefixed cdc P n bz = panic_on_err (la_UnmarshalBinaryLengthPrefixed cdc P n bz)"

definition la_MarshalJSON :: "'v AminoLib \<Rightarrow> 'v obj \<Rightarrow> bytes res \<times> 'v obj" where
  "la_MarshalJSON cdc ob = after (jsonMarshalAnys cdc ob) (lib_encode (AminoJSONWire cdc))"

definition la_MustMarshalJSON :: "'v AminoLib \<Rightarrow> 'v obj \<Rightarrow> bytes res \<times> 'v obj" where
  "la_MustMarshalJSON cdc ob = map_prod panic_on_err id (la_MarshalJSON cdc ob)"

definition la_UnmarshalJSON :: "'v AminoLib \<Rightarrow> 'v ProtoSide \<Rightarrow> nat \<Rightarrow> bytes \<Rightarrow> 'v obj res" where
  "la_UnmarshalJSON cdc P n bz =
     bindR (lib_decode (AminoJSONWire cdc) bz) (\<lambda>ob. case jsonUnmarshalAnys cdc P n ob of (Inl e, _) \<Rightarrow> Inl e | (Inr _, ob) \<Rightarrow> Inr ob)"

definition la_MustUnmarshalJSON :: "'v AminoLib \<Rightarrow> 'v ProtoSide \<Rightarrow> nat \<Rightarrow> bytes \<Rightarrow> 'v obj res" where
  "la_MustUnmarshalJSON cdc P n bz = panic_on_err (la_UnmarshalJSON cdc P n bz)"

definition la_UnpackAny :: "'v anyv option \<Rightarrow> unit res" where
  "la_UnpackAny any = Inl (Err ''AminoCodec can't handle unpack protobuf Any's'')"

text \<open>An error of packing panics here, one of the encoding is returned.\<close>

definition la_MarshalJSONIndent :: "'v AminoLib \<Rightarrow> string \<Rightarrow> string \<Rightarrow> 'v obj \<Rightarrow> bytes res \<times> 'v obj" where
  "la_MarshalJSONIndent cdc pre indent ob =
     after (map_prod panic_on_err id (jsonMarshalAnys cdc ob)) (lib_encode ((AminoJSONWire cdc)\<lparr>wEncode := amEncodeIndent cdc pre indent\<rparr>))"

definition MarshalJSONIndent :: "(bytes \<Rightarrow> bytes res) \<Rightarrow> 'v AminoLib \<Rightarrow> 'v obj \<Rightarrow> bytes res \<times> 'v obj" where
  "MarshalJSONIndent jsonIndent cdc ob = map_prod (\<lambda>r. bindR r jsonIndent) id (la_MarshalJSON cdc ob)"

definition MustMarshalJSONIndent :: "(bytes \<Rightarrow> bytes res) \<Rightarrow> 'v AminoLib \<Rightarrow> 'v obj \<Rightarrow> bytes res \<times> 'v obj" where
  "MustMarshalJSONIndent jsonIndent cdc ob = map_prod panic_on_err id (MarshalJSONIndent jsonIndent cdc ob)"

definition ProtoMarshalJSON :: "('v anyv \<Rightarrow> bytes res) \<Rightarrow> ('v obj \<Rightarrow> bytes res) \<Rightarrow> 'v obj \<Rightarrow> bytes res \<times> 'v obj" where
  "ProtoMarshalJSON toStr jm msg = after (pjson_obj toStr msg) jm"

text \<open>The methods of \<open>AminoCodec\<close> call those of the \<open>LegacyAmino\<close> inside it.\<close>

record 'v AminoCodec =
  LegacyAmino :: "'v AminoLib"

definition NewAminoCodec :: "'v AminoLib \<Rightarrow> 'v AminoCodec" where
  "NewAminoCodec cdc = \<lparr>LegacyAmino = cdc\<rparr>"

definition ac_MarshalBinaryBare :: "'v AminoCodec \<Rightarrow> 'v obj \<Rightarrow> bytes res \<times> 'v obj" where
  "ac_MarshalBinaryBare ac ob = la_MarshalBinaryBare (LegacyAmino ac) ob"

definition ac_MustMarshalBinaryBare :: "'v AminoCodec \<Rightarrow> 'v obj \<Rightarrow> bytes res \<times> 'v obj" where
  "ac_MustMarshalBinaryBare ac ob = la_MustMarshalBinaryBare (LegacyAmino ac) ob"

definition ac_MarshalBinaryLengthPrefixed :: "'v AminoCodec \<Rightarrow> 'v obj \<Rightarrow> bytes res \<times> 'v obj" where
  "ac_MarshalBinaryLengthPrefixed ac ob = la_MarshalBinaryLengthPrefixed (LegacyAmino ac) ob"

definition ac_MustMarshalBinaryLengthPrefixed :: "'v AminoCodec \<Rightarrow> 'v obj \<Rightarrow> bytes res \<times> 'v obj" where
  "ac_MustMarshalBinaryLengthPrefixed ac ob = la_MustMarshalBinaryLengthPrefixed (LegacyAmino ac) ob"

definition ac_UnmarshalBinaryBare :: "'v AminoCodec \<Rightarrow> 'v ProtoSide \<Rightarrow> nat \<Rightarrow> bytes \<Rightarrow> 'v obj res" where
  "ac_UnmarshalBinaryBare ac P n bz = la_UnmarshalBinaryBare (LegacyAmino ac) P n bz"

definition ac_MustUnmarshalBinaryBare :: "'v AminoCodec \<Rightarrow> 'v ProtoSide \<Rightarrow> nat \<Rightarrow> bytes \<Rightarrow> 'v obj res" where
  "ac_MustUnmarshalBinaryBare ac P n bz = la_MustUnmarshalBinaryBare (LegacyAmino ac) P n bz"

definition ac_UnmarshalBinaryLengthPrefixed :: "'v AminoCodec \<Rightarrow> 'v ProtoSide \<Rightarrow> nat \<Rightarrow> bytes \<Rightarrow> 'v obj res" where
  "ac_UnmarshalBinaryLengthPrefixed ac P n bz = la_UnmarshalBinaryLengthPrefixed (LegacyAmino ac) P n bz"

definition ac_MustUnmarshalBinaryLengthPrefixed :: "'v AminoCodec \<Rightarrow> 'v ProtoSide \<Rightarrow> nat \<Rightarrow> bytes \<Rightarrow> 'v obj res" where
  "ac_MustUnmarshalBinaryLengthPrefixed ac P n bz = la_MustUnmarshalBinaryLengthPrefixed (LegacyAmino ac) P n bz"

definition ac_MarshalJSON :: "'v AminoCodec \<Rightarrow> 'v obj \<Rightarrow> bytes res \<times> 'v obj" where
  "ac_MarshalJSON ac ob = la_MarshalJSON (LegacyAmino ac) ob"

definition ac_MustMarshalJSON :: "'v AminoCodec \<Rightarrow> 'v obj \<Rightarrow> bytes res \<times> 'v obj" where
  "ac_MustMarshalJSON ac ob = la_MustMarshalJSON (LegacyAmino ac) ob"

definition ac_UnmarshalJSON :: "'v AminoCodec \<Rightarrow> 'v ProtoSide \<Rightarrow> nat \<Rightarrow> bytes \<Rightarrow> 'v obj res" where
  "ac_UnmarshalJSON ac P n bz = la_UnmarshalJSON (LegacyAmino ac) P n bz"

definition ac_MustUnmarshalJSON :: "'v AminoCodec \<Rightarrow> 'v ProtoSide \<Rightarrow> nat \<Rightarrow> bytes \<Rightarrow> 'v obj res" where
  "ac_MustUnmarshalJSON ac P n bz = la_MustUnmarshalJSON (LegacyAmino ac) P n bz"

section \<open>Values are read back\<close>

text \<open>A value as the program builds it: every \<open>Any\<close> holds its value, with the name and bytes of a message when it is one, all the way down.\<close>

fun packed_any :: "'v ProtoSide \<Rightarrow> 'v anyv \<Rightarrow> bool"
  and packed_obj :: "'v ProtoSide \<Rightarrow> 'v obj \<Rightarrow> bool"
  and packed_anys :: "'v ProtoSide \<Rightarrow> 'v anyv option list \<Rightarrow> bool" where
  "packed_any P (AnyV u b c k) =
     (k = None \<and> (case c of None \<Rightarrow> False
        | Some ob \<Rightarrow> packed_obj P ob \<and> (if isProto P ob then u = CHR ''/'' # protoName P ob \<and> protoBytes P ob = Inr b else u = '''' \<and> b = [])))"
| "packed_obj P (Obj v as) = packed_anys P as"
| "packed_anys P [] = True"
| "packed_anys P (None # as) = False"
| "packed_anys P (Some a # as) = (packed_any P a \<and> packed_anys P as)"

fun any_depth :: "'v anyv \<Rightarrow> nat"
  and obj_depth :: "'v obj \<Rightarrow> nat"
  and anys_depth :: "'v anyv option list \<Rightarrow> nat" where
  "any_depth (AnyV u b c k) = Suc (case c of None \<Rightarrow> 0 | Some ob \<Rightarrow> obj_depth ob)"
| "obj_depth (Obj v as) = anys_depth as"
| "anys_depth [] = 0"
| "anys_depth (None # as) = anys_depth as"
| "anys_depth (Some a # as) = max (any_depth a) (anys_depth as)"

fun strip_any :: "'v anyv \<Rightarrow> 'v anyv"
  and strip_obj :: "'v obj \<Rightarrow> 'v obj"
  and strip_anys :: "'v anyv option list \<Rightarrow> 'v anyv option list" where
  "strip_any (AnyV u b c k) = AnyV u b (case c of None \<Rightarrow> None | Some ob \<Rightarrow> Some (strip_obj ob)) None"
| "strip_obj (Obj v as) = Obj v (strip_anys as)"
| "strip_anys [] = []"
| "strip_anys (None # as) = None # strip_anys as"
| "strip_anys (Some a # as) = Some (strip_any a) # strip_anys as"

text \<open>The documented contract of the library: what it encodes with the bytes of all \<open>Any\<close>s it decodes to the same.\<close>

definition encode_pair :: "('v \<Rightarrow> bytes option list \<Rightarrow> bytes res) \<Rightarrow> (bytes \<Rightarrow> ('v \<times> bytes option list) res) \<Rightarrow> bool" where
  "encode_pair enc dec \<longleftrightarrow> (\<forall>v bs. \<exists>bz. enc v (map Some bs) = Inr bz \<and> dec bz = Inr (v, map Some bs))"

locale any_wire =
  fixes W :: "'v Wire"
  assumes marshal_set: "wMarshal W (AnyV u b c (Some (wSet W bz None))) = Inr bz"
    and unmarshal_zero: "wUnmarshal W bz zeroAny = AnyV '''' [] None (Some (wSet W bz None))"
    and get_set: "wGet W (wSet W bz e) = bz"
begin

abbreviation fresh :: "bytes \<Rightarrow> 'v anyv" where
  "fresh bz \<equiv> AnyV '''' [] None (Some (wSet W bz None))"

lemma lib_encode_bytes:
  "mapR (\<lambda>a. case a of None \<Rightarrow> Inr None | Some any \<Rightarrow> bindR (wMarshal W any) (\<lambda>bz. Inr (Some bz))) (objAnys ob) = Inr bs \<Longrightarrow>
   lib_encode W ob = wEncode W (objFlat ob) bs"
  by (simp add: lib_encode_def)

lemma lib_decode_fresh:
  "wDecode W bz = Inr (v, map Some bs) \<Longrightarrow> lib_decode W bz = Inr (Obj v (map (\<lambda>b. Some (fresh b)) bs))"
  by (simp add: lib_decode_def unmarshal_zero comp_def)

lemma pack_unpack:
  assumes law: "encode_pair (wEncode W) (wDecode W)"
  shows "packed_any P a \<Longrightarrow> \<exists>bz a'. pack_any W a = (Inr (), a') \<and> strip_any a' = a \<and> wMarshal W a' = Inr bz
      \<and> (\<forall>n\<ge>any_depth a. unpack_any W P what n (fresh bz) = (Inr (), a))"
    and "packed_obj P ob \<Longrightarrow> \<exists>bz ob'. pack_obj W ob = (Inr (), ob') \<and> strip_obj ob' = ob \<and> lib_encode W ob' = Inr bz
      \<and> (\<exists>bs. wDecode W bz = Inr (objFlat ob, map Some bs) \<and> mapR (\<lambda>a. case a of None \<Rightarrow> Inr None | Some any \<Rightarrow> bindR (wMarshal W any) (\<lambda>bz. Inr (Some bz))) (objAnys ob') = Inr (map Some bs)
        \<and> objFlat ob' = objFlat ob \<and> (\<forall>n\<ge>obj_depth ob. unpack_anys W P what n (map (\<lambda>b. Some (fresh b)) bs) = (Inr (), objAnys ob)))"
    and "packed_anys P as \<Longrightarrow> \<exists>bs as'. pack_anys W as = (Inr (), as') \<and> strip_anys as' = as
      \<and> mapR (\<lambda>a. case a of None \<Rightarrow> Inr None | Some any \<Rightarrow> bindR (wMarshal W any) (\<lambda>bz. Inr (Some bz))) as' = Inr (map Some bs)
      \<and> (\<forall>n\<ge>anys_depth as. unpack_anys W P what n (map (\<lambda>b. Some (fresh b)) bs) = (Inr (), as))"
proof (induction P a and P ob and P as rule: packed_any_packed_obj_packed_anys.induct)
  case (1 P u b c k)
  then obtain ob where c: "c = Some ob" "k = None" "packed_obj P ob" by (cases c) auto
  with 1 obtain bz ob' bs where o: "pack_obj W ob = (Inr (), ob')" "strip_obj ob' = ob" "lib_encode W ob' = Inr bz"
      "wDecode W bz = Inr (objFlat ob, map Some bs)"
      "\<And>n. obj_depth ob \<le> n \<Longrightarrow> unpack_anys W P what n (map (\<lambda>b. Some (fresh b)) bs) = (Inr (), objAnys ob)" by blast
  have "unpack_any W P what n (fresh bz) = (Inr (), AnyV u b c k)" if "any_depth (AnyV u b c k) \<le> n" for n
  proof (cases n)
    case (Suc m)
    then have "obj_depth ob \<le> m" using that c(1) by simp
    then show ?thesis using Suc 1(2) c o(5) by (simp add: get_set lib_decode_fresh [OF o(4)] repack_def split: if_splits)
  qed (use that in simp)
  then show ?case using c o(1-3) by (simp add: marshal_set)
next
  case (2 P v as)
  then obtain bs as' where a: "pack_anys W as = (Inr (), as')" "strip_anys as' = as"
      "mapR (\<lambda>a. case a of None \<Rightarrow> Inr None | Some any \<Rightarrow> bindR (wMarshal W any) (\<lambda>bz. Inr (Some bz))) as' = Inr (map Some bs)"
      "\<forall>n\<ge>anys_depth as. unpack_anys W P what n (map (\<lambda>b. Some (fresh b)) bs) = (Inr (), as)" by auto
  obtain bz where "wEncode W v (map Some bs) = Inr bz" "wDecode W bz = Inr (v, map Some bs)" using law unfolding encode_pair_def by blast
  then show ?case using a lib_encode_bytes [of "Obj v as'" "map Some bs"] by (intro exI [of _ bz] exI [of _ "Obj v as'"]) auto
next
  case (5 P a as)
  then obtain bz a' bs as' where "pack_any W a = (Inr (), a')" "strip_any a' = a" "wMarshal W a' = Inr bz"
      "\<forall>n\<ge>any_depth a. unpack_any W P what n (fresh bz) = (Inr (), a)" "pack_anys W as = (Inr (), as')" "strip_anys as' = as"
      "mapR (\<lambda>a. case a of None \<Rightarrow> Inr None | Some any \<Rightarrow> bindR (wMarshal W any) (\<lambda>bz. Inr (Some bz))) as' = Inr (map Some bs)"
      "\<forall>n\<ge>anys_depth as. unpack_anys W P what n (map (\<lambda>b. Some (fresh b)) bs) = (Inr (), as)" by auto
  then show ?case by (intro exI [of _ "bz # bs"] exI [of _ "Some a' # as'"]) simp
qed simp_all

end

interpretation amino_wire: any_wire "AminoWire cdc" for cdc
  by unfold_locales (simp_all add: AminoWire_def Any_MarshalAmino_def Any_UnmarshalAmino_def zeroAny_def)

interpretation amino_json: any_wire "AminoJSONWire cdc" for cdc
  by unfold_locales (simp_all add: AminoJSONWire_def Any_MarshalJSON_def Any_UnmarshalJSON_def zeroAny_def)

text \<open>The bytes of the \<open>Any\<close>s of a packed value, for any encoding of its flat part.\<close>

lemma pack_encode:
  assumes "packed_obj P ob" "obj_depth ob \<le> n" "encode_pair (wEncode W) (wDecode W)" "any_wire W"
    "encode_pair enc dec"
  shows "\<exists>ob' bz. pack_obj W ob = (Inr (), ob') \<and> strip_obj ob' = ob \<and> lib_encode (W\<lparr>wEncode := enc\<rparr>) ob' = Inr bz
    \<and> (\<exists>ob0. lib_decode (W\<lparr>wDecode := dec\<rparr>) bz = Inr ob0 \<and> unpack_obj W P what n ob0 = (Inr (), ob))"
proof -
  from any_wire.pack_unpack(2) [OF assms(4,3,1), of what] obtain ob' bs where
    o: "pack_obj W ob = (Inr (), ob')" "strip_obj ob' = ob" "objFlat ob' = objFlat ob"
      "mapR (\<lambda>a. case a of None \<Rightarrow> Inr None | Some any \<Rightarrow> bindR (wMarshal W any) (\<lambda>bz. Inr (Some bz))) (objAnys ob') = Inr (map Some bs)"
      "unpack_anys W P what n (map (\<lambda>b. Some (AnyV '''' [] None (Some (wSet W b None)))) bs) = (Inr (), objAnys ob)"
    using assms(2) by blast
  obtain bz where "enc (objFlat ob) (map Some bs) = Inr bz" "dec bz = Inr (objFlat ob, map Some bs)"
    using assms(5) unfolding encode_pair_def by blast
  note bz = this
  let ?ob0 = "Obj (objFlat ob) (map (\<lambda>b. Some (AnyV '''' [] None (Some (wSet W b None)))) bs)"
  have "(\<lambda>a. case a of None \<Rightarrow> Inr None | Some any \<Rightarrow> bindR (wMarshal (W\<lparr>wEncode := enc\<rparr>) any) (\<lambda>bz. Inr (Some bz)))
      = (\<lambda>a. case a of None \<Rightarrow> Inr None | Some any \<Rightarrow> bindR (wMarshal W any) (\<lambda>bz. Inr (Some bz)))"
    by (intro ext) (simp split: option.split)
  then have "lib_encode (W\<lparr>wEncode := enc\<rparr>) ob' = Inr bz" using o(3,4) bz(1) by (simp only: lib_encode_def) simp
  moreover have "lib_decode (W\<lparr>wDecode := dec\<rparr>) bz = Inr ?ob0"
    using bz(2) by (simp add: lib_decode_def any_wire.unmarshal_zero [OF assms(4)] comp_def)
  moreover have "unpack_obj W P what n ?ob0 = (Inr (), ob)" using o(5) by (cases ob) (simp add: unpack_obj_def)
  ultimately show ?thesis using o(1,2) by blast
qed

lemma amino_forms:
  assumes "packed_obj P ob" "obj_depth ob \<le> n" "encode_pair (amEncodeBare cdc) (amDecodeBare cdc)"
    "encode_pair (amEncodeLP cdc) (amDecodeLP cdc)" "encode_pair (amEncodeJSON cdc) (amDecodeJSON cdc)"
  shows "\<exists>bz1 bz2 bz3 ob1 ob3. la_MarshalBinaryBare cdc ob = (Inr bz1, ob1) \<and> strip_obj ob1 = ob \<and> la_UnmarshalBinaryBare cdc P n bz1 = Inr ob
    \<and> la_MarshalBinaryLengthPrefixed cdc ob = (Inr bz2, ob1) \<and> la_UnmarshalBinaryLengthPrefixed cdc P n bz2 = Inr ob
    \<and> la_MarshalJSON cdc ob = (Inr bz3, ob3) \<and> strip_obj ob3 = ob \<and> la_UnmarshalJSON cdc P n bz3 = Inr ob"
proof -
  have w: "wEncode (AminoWire cdc) = amEncodeBare cdc" "wDecode (AminoWire cdc) = amDecodeBare cdc"
    "wEncode (AminoJSONWire cdc) = amEncodeJSON cdc" "wDecode (AminoJSONWire cdc) = amDecodeJSON cdc"
    by (simp_all add: AminoWire_def AminoJSONWire_def)
  have e: "encode_pair (wEncode (AminoWire cdc)) (wDecode (AminoWire cdc))" "encode_pair (wEncode (AminoJSONWire cdc)) (wDecode (AminoJSONWire cdc))"
    using assms(3,5) w by simp_all
  note bare = pack_encode [OF assms(1,2) e(1) amino_wire.any_wire_axioms, where what = "''amino binary unmarshal''"]
  have id: "W\<lparr>wEncode := wEncode W\<rparr> = W" "W\<lparr>wDecode := wDecode W\<rparr> = W" for W :: "'a Wire" by simp_all
  show ?thesis
    using bare [OF assms(3)] bare [OF assms(4)] pack_encode [OF assms(1,2) e(2) amino_json.any_wire_axioms e(2), where what = "''JSON unmarshal''"]
    by (auto simp: la_MarshalBinaryBare_def la_MarshalBinaryLengthPrefixed_def la_MarshalJSON_def la_UnmarshalBinaryBare_def
        la_UnmarshalBinaryLengthPrefixed_def la_UnmarshalJSON_def marshalAnys_def unmarshalAnys_def jsonMarshalAnys_def jsonUnmarshalAnys_def
        after_def w(1,2) [symmetric] id)
qed


text \<open>A library for the examples: a flat part is a byte; the bytes of an \<open>Any\<close> are marked one by one and ended by a zero.\<close>

definition mark :: "bytes \<Rightarrow> bytes" where
  "mark b = concat (map (\<lambda>x. [1, x]) b) @ [0]"

fun unmark :: "bytes \<Rightarrow> bytes \<Rightarrow> bytes list" where
  "unmark acc [] = []"
| "unmark acc [c] = (if c = 0 then [acc] else [])"
| "unmark acc (c # x # xs) = (if c = 0 then acc # unmark [] (x # xs) else unmark (acc @ [x]) xs)"

lemma unmark_zero: "unmark acc (0 # r) = acc # unmark [] r"
  by (cases r) simp_all

lemma unmark_mark: "unmark acc (mark b @ r) = (acc @ b) # unmark [] r"
  by (induction b arbitrary: acc) (simp_all add: mark_def unmark_zero)

lemma unmark_marks: "unmark [] (concat (map mark bs)) = bs"
  by (induction bs) (simp_all add: unmark_mark)

definition demo_enc :: "8 word \<Rightarrow> bytes option list \<Rightarrow> bytes res" where
  "demo_enc v bs = Inr (v # concat (map (\<lambda>b. mark (case b of None \<Rightarrow> [] | Some b \<Rightarrow> b)) bs))"

definition demo_dec :: "bytes \<Rightarrow> (8 word \<times> bytes option list) res" where
  "demo_dec bz = (case bz of [] \<Rightarrow> Inl (Err ''EOF'') | v # r \<Rightarrow> Inr (v, map Some (unmark [] r)))"

lemma demo_encode_pair: "encode_pair demo_enc demo_dec"
  by (simp add: encode_pair_def demo_enc_def demo_dec_def comp_def unmark_marks)

definition demo_amino :: "8 word AminoLib" where
  "demo_amino = \<lparr>amEncodeBare = demo_enc, amDecodeBare = demo_dec, amEncodeLP = demo_enc, amDecodeLP = demo_dec, amEncodeJSON = demo_enc,
     amDecodeJSON = demo_dec, amEncodeIndent = (\<lambda>_ _. demo_enc), amNilBare = Inl (Err ''nil''), amNilJSON = Inr []\<rparr>"

definition demo_proto :: "8 word ProtoSide" where
  "demo_proto = \<lparr>isProto = (\<lambda>ob. objFlat ob \<noteq> 0), protoName = (\<lambda>_. ''Demo''), protoBytes = (\<lambda>ob. Inr [objFlat ob])\<rparr>"

definition demo_obj :: "8 word obj" where
  "demo_obj = Obj 1 [Some (AnyV ''/Demo'' [2] (Some (Obj 2 [Some (AnyV '''' [] (Some (Obj 0 [])) None)])) None), Some (AnyV ''/Demo'' [3] (Some (Obj 3 [])) None)]"


text \<open>
  The limits: a nil \<open>Any\<close> field makes the Amino codec panic, where the protobuf JSON form skips it; an \<open>Any\<close> that was packed for JSON gives no
  bytes at all, and no error, when it is encoded in binary without being packed again; and the indenting form panics where the plain one returns an error.
\<close>

lemma nil_any_panics:
  "fst (la_MarshalJSON cdc (Obj v (None # as))) = Inl (Panic ''nil pointer dereference'')"
  "fst (la_MarshalBinaryBare cdc (Obj v (None # as))) = Inl (Panic ''nil pointer dereference'')"
  "fst (ProtoMarshalJSON toStr jm (Obj v [None])) = jm (Obj v [None])"
  by (simp_all add: la_MarshalJSON_def la_MarshalBinaryBare_def ProtoMarshalJSON_def after_def jsonMarshalAnys_def marshalAnys_def)

lemma json_packed_no_amino_bytes:
  "AminoJSONPacker_UnpackAny cdc any = (Inr (), any') \<Longrightarrow> Any_MarshalAmino any' = Inr []"
proof -
  assume a: "AminoJSONPacker_UnpackAny cdc any = (Inr (), any')"
  obtain u b c k where any: "any = AnyV u b c k" by (cases any)
  from a show ?thesis
    by (cases c) (auto simp: AminoJSONPacker_UnpackAny_def any Any_MarshalAmino_def AminoJSONWire_def split: sum.splits failure.splits prod.splits)
qed

lemma MarshalJSONIndent_panics:
  "fst (la_MarshalJSON cdc ob) = Inl (Err e) \<Longrightarrow> fst (jsonMarshalAnys cdc ob) = Inl (Err e) \<Longrightarrow>
   fst (la_MarshalJSONIndent cdc p i ob) = Inl (Panic e)"
  by (cases "jsonMarshalAnys cdc ob") (simp add: la_MarshalJSONIndent_def after_def panic_on_err_def)

text \<open>A codec of a module never panics on a packed value, in either direction.\<close>

lemma AminoCodec_must:
  assumes "packed_obj P ob" "obj_depth ob \<le> n" "encode_pair (amEncodeBare cdc) (amDecodeBare cdc)"
    "encode_pair (amEncodeLP cdc) (amDecodeLP cdc)" "encode_pair (amEncodeJSON cdc) (amDecodeJSON cdc)"
  shows "\<exists>bz ob'. ac_MustMarshalJSON (NewAminoCodec cdc) ob = (Inr bz, ob') \<and> ac_MustUnmarshalJSON (NewAminoCodec cdc) P n bz = Inr ob"
    "\<exists>bz ob'. ac_MustMarshalBinaryBare (NewAminoCodec cdc) ob = (Inr bz, ob') \<and> ac_MustUnmarshalBinaryBare (NewAminoCodec cdc) P n bz = Inr ob"
  using amino_forms [OF assms]
  by (auto simp: ac_MustMarshalJSON_def ac_MustUnmarshalJSON_def ac_MustMarshalBinaryBare_def ac_MustUnmarshalBinaryBare_def NewAminoCodec_def
      la_MustMarshalJSON_def la_MustUnmarshalJSON_def la_MustMarshalBinaryBare_def la_MustUnmarshalBinaryBare_def panic_on_err_def)

end
