(* ===== verification/SignBytes.thy ===== *)
theory SignBytes
  imports Messages
begin

text \<open>
  The route, the type and the sign bytes of every message (\<open>modules/*/types.go\<close>). The codecs of the modules (\<open>codec.go\<close>) are Amino codecs that
  know the key types only, so a message is written as the JSON object of its fields, without the name of its type. A field is its
  JSON name, whether it is left out when empty, and its value. The two steps of the library are a record. A nil \<open>Any\<close> inside a
  message panics, see \<open>AminoCompat\<close>.
\<close>

section \<open>JSON objects\<close>

datatype JVal =
    JStr string | JU32 "32 word" | JU64 "64 word" | JBool bool | JCoin Coin | JCoins Coins | JInputs "Input list" | JOutputs "Output list"
  | JDescription Description | JCommission CommissionRates | JInt "int option" | JDec int | JKey "bytes option" | JContent "TextProposal option option"

type_synonym JField = "string \<times> bool \<times> JVal"

record SignLib =
  slMarshalJSON :: "JField list \<Rightarrow> bytes res"
  slSortJSON :: "bytes \<Rightarrow> bytes res"

definition sign_bytes :: "SignLib \<Rightarrow> JField list \<Rightarrow> bytes res" where
  "sign_bytes L fs = bindR (panic_err (slMarshalJSON L fs)) (\<lambda>b. panic_err (slSortJSON L b))"

section \<open>Messages\<close>

subsection \<open>\<open>modules/bank/types.go\<close>\<close>

definition MsgSend_Route :: string where "MsgSend_Route = ''bank''"

definition MsgSend_Type :: string where "MsgSend_Type = ''send''"

definition MsgSend_json :: "MsgSend \<Rightarrow> JField list" where
  "MsgSend_json m =
     [(''from_address'', True, JStr (FromAddress m)),
      (''to_address'', True, JStr (ToAddress m)),
      (''amount'', False, JCoins (SendAmount m))]"

definition MsgSend_GetSignBytes :: "SignLib \<Rightarrow> MsgSend \<Rightarrow> bytes res" where
  "MsgSend_GetSignBytes L m = sign_bytes L (MsgSend_json m)"

definition MsgMultiSend_Route :: string where "MsgMultiSend_Route = ''bank''"

definition MsgMultiSend_Type :: string where "MsgMultiSend_Type = ''multisend''"

definition MsgMultiSend_json :: "MsgMultiSend \<Rightarrow> JField list" where
  "MsgMultiSend_json m =
     [(''inputs'', False, JInputs (Inputs m)),
      (''outputs'', False, JOutputs (Outputs m))]"

definition MsgMultiSend_GetSignBytes :: "SignLib \<Rightarrow> MsgMultiSend \<Rightarrow> bytes res" where
  "MsgMultiSend_GetSignBytes L m = sign_bytes L (MsgMultiSend_json m)"

subsection \<open>\<open>modules/token/types.go\<close>\<close>

definition MsgIssueToken_Route :: string where "MsgIssueToken_Route = ''token''"

definition MsgIssueToken_Type :: string where "MsgIssueToken_Type = ''issue_token''"

definition MsgIssueToken_json :: "MsgIssueToken \<Rightarrow> JField list" where
  "MsgIssueToken_json m =
     [(''symbol'', True, JStr (itSymbol m)),
      (''name'', True, JStr (itName m)),
      (''scale'', True, JU32 (itScale m)),
      (''min_unit'', True, JStr (itMinUnit m)),
      (''initial_supply'', True, JU64 (itInitialSupply m)),
      (''max_supply'', True, JU64 (itMaxSupply m)),
      (''mintable'', True, JBool (itMintable m)),
      (''owner'', True, JStr (itOwner m))]"

definition MsgIssueToken_GetSignBytes :: "SignLib \<Rightarrow> MsgIssueToken \<Rightarrow> bytes res" where
  "MsgIssueToken_GetSignBytes L m = sign_bytes L (MsgIssueToken_json m)"

definition MsgTransferOwnerToken_Route :: string where "MsgTransferOwnerToken_Route = ''token''"

definition MsgTransferOwnerToken_Type :: string where "MsgTransferOwnerToken_Type = ''transfer_token_owner''"

definition MsgTransferOwnerToken_json :: "MsgTransferOwnerToken \<Rightarrow> JField list" where
  "MsgTransferOwnerToken_json m =
     [(''symbol'', True, JStr (ttSymbol m)),
      (''owner'', True, JStr (ttOwner m)),
      (''to'', True, JStr (ttTo m))]"

definition MsgTransferOwnerToken_GetSignBytes :: "SignLib \<Rightarrow> MsgTransferOwnerToken \<Rightarrow> bytes res" where
  "MsgTransferOwnerToken_GetSignBytes L m = sign_bytes L (MsgTransferOwnerToken_json m)"

definition MsgEditToken_Route :: string where "MsgEditToken_Route = ''token''"

definition MsgEditToken_Type :: string where "MsgEditToken_Type = ''edit_token''"

definition MsgEditToken_json :: "MsgEditToken \<Rightarrow> JField list" where
  "MsgEditToken_json m =
     [(''symbol'', True, JStr (etSymbol m)),
      (''name'', True, JStr (etName m)),
      (''max_supply'', True, JU64 (etMaxSupply m)),
      (''owner'', True, JStr (etOwner m))]"

definition MsgEditToken_GetSignBytes :: "SignLib \<Rightarrow> MsgEditToken \<Rightarrow> bytes res" where
  "MsgEditToken_GetSignBytes L m = sign_bytes L (MsgEditToken_json m)"

definition MsgMintToken_Route :: string where "MsgMintToken_Route = ''token''"

definition MsgMintToken_Type :: string where "MsgMintToken_Type = ''mint_token''"

definition MsgMintToken_json :: "MsgMintToken \<Rightarrow> JField list" where
  "MsgMintToken_json m =
     [(''symbol'', True, JStr (mtSymbol m)),
      (''to'', True, JStr (mtTo m)),
      (''amount'', True, JU64 (mtAmount m)),
      (''owner'', True, JStr (mtOwner m))]"

definition MsgMintToken_GetSignBytes :: "SignLib \<Rightarrow> MsgMintToken \<Rightarrow> bytes res" where
  "MsgMintToken_GetSignBytes L m = sign_bytes L (MsgMintToken_json m)"

subsection \<open>\<open>modules/nft/types.go\<close>\<close>

definition MsgIssueClass_Route :: string where "MsgIssueClass_Route = ''nft''"

definition MsgIssueClass_Type :: string where "MsgIssueClass_Type = ''issue_class''"

definition MsgIssueClass_json :: "MsgIssueClass \<Rightarrow> JField list" where
  "MsgIssueClass_json m =
     [(''id'', True, JStr (icID m)),
      (''name'', True, JStr (icName m)),
      (''schema'', True, JStr (icSchema m)),
      (''owner'', True, JStr (icOwner m)),
      (''symbol'', True, JStr (icSymbol m)),
      (''mint_restricted'', True, JBool (icMintRestricted m)),
      (''edit_restricted'', True, JBool (icEditRestricted m))]"

definition MsgIssueClass_GetSignBytes :: "SignLib \<Rightarrow> MsgIssueClass \<Rightarrow> bytes res" where
  "MsgIssueClass_GetSignBytes L m = sign_bytes L (MsgIssueClass_json m)"

definition MsgTransferNFT_Route :: string where "MsgTransferNFT_Route = ''nft''"

definition MsgTransferNFT_Type :: string where "MsgTransferNFT_Type = ''transfer_nft''"

definition MsgTransferNFT_json :: "MsgTransferNFT \<Rightarrow> JField list" where
  "MsgTransferNFT_json m =
     [(''id'', True, JStr (tnID m)),
      (''class_id'', True, JStr (tnClassID m)),
      (''recipient'', True, JStr (tnRecipient m)),
      (''owner'', True, JStr (tnOwner m))]"

definition MsgTransferNFT_GetSignBytes :: "SignLib \<Rightarrow> MsgTransferNFT \<Rightarrow> bytes res" where
  "MsgTransferNFT_GetSignBytes L m = sign_bytes L (MsgTransferNFT_json m)"

definition MsgTransferClass_Route :: string where "MsgTransferClass_Route = ''nft''"

definition MsgTransferClass_Type :: string where "MsgTransferClass_Type = ''transfer_class''"

definition MsgTransferClass_json :: "MsgTransferClass \<Rightarrow> JField list" where
  "MsgTransferClass_json m =
     [(''id'', True, JStr (tcID m)),
      (''owner'', True, JStr (tcOwner m)),
      (''recipient'', True, JStr (tcRecipient m))]"

definition MsgTransferClass_GetSignBytes :: "SignLib \<Rightarrow> MsgTransferClass \<Rightarrow> bytes res" where
  "MsgTransferClass_GetSignBytes L m = sign_bytes L (MsgTransferClass_json m)"

definition MsgEditNFT_Route :: string where "MsgEditNFT_Route = ''nft''"

definition MsgEditNFT_Type :: string where "MsgEditNFT_Type = ''edit_nft''"

definition MsgEditNFT_json :: "MsgEditNFT \<Rightarrow> JField list" where
  "MsgEditNFT_json m =
     [(''id'', True, JStr (enID m)),
      (''class_id'', True, JStr (enClassID m)),
      (''name'', True, JStr (enName m)),
      (''uri'', True, JStr (enURI m)),
      (''data'', True, JStr (enData m)),
      (''owner'', True, JStr (enOwner m))]"

definition MsgEditNFT_GetSignBytes :: "SignLib \<Rightarrow> MsgEditNFT \<Rightarrow> bytes res" where
  "MsgEditNFT_GetSignBytes L m = sign_bytes L (MsgEditNFT_json m)"

definition MsgIssueNFT_Route :: string where "MsgIssueNFT_Route = ''nft''"

definition MsgIssueNFT_Type :: string where "MsgIssueNFT_Type = ''issue_nft''"

definition MsgIssueNFT_json :: "MsgIssueNFT \<Rightarrow> JField list" where
  "MsgIssueNFT_json m =
     [(''id'', True, JStr (inID m)),
      (''class_id'', True, JStr (inClassID m)),
      (''name'', True, JStr (inName m)),
      (''uri'', True, JStr (inURI m)),
      (''data'', True, JStr (inData m)),
      (''owner'', True, JStr (inOwner m)),
      (''recipient'', True, JStr (inRecipient m))]"

definition MsgIssueNFT_GetSignBytes :: "SignLib \<Rightarrow> MsgIssueNFT \<Rightarrow> bytes res" where
  "MsgIssueNFT_GetSignBytes L m = sign_bytes L (MsgIssueNFT_json m)"

definition MsgBurnNFT_Route :: string where "MsgBurnNFT_Route = ''nft''"

definition MsgBurnNFT_Type :: string where "MsgBurnNFT_Type = ''burn_nft''"

definition MsgBurnNFT_json :: "MsgBurnNFT \<Rightarrow> JField list" where
  "MsgBurnNFT_json m =
     [(''id'', True, JStr (bnID m)),
      (''class_id'', True, JStr (bnClassID m)),
      (''owner'', True, JStr (bnOwner m))]"

definition MsgBurnNFT_GetSignBytes :: "SignLib \<Rightarrow> MsgBurnNFT \<Rightarrow> bytes res" where
  "MsgBurnNFT_GetSignBytes L m = sign_bytes L (MsgBurnNFT_json m)"

subsection \<open>\<open>modules/gov/types.go\<close>\<close>

definition MsgSubmitProposal_Route :: string where "MsgSubmitProposal_Route = ''gov''"

definition MsgSubmitProposal_Type :: string where "MsgSubmitProposal_Type = ''submit_proposal''"

definition MsgSubmitProposal_json :: "MsgSubmitProposal \<Rightarrow> JField list" where
  "MsgSubmitProposal_json m =
     [(''content'', True, JContent (spContent m)),
      (''initial_deposit'', False, JCoins (spInitialDeposit m)),
      (''proposer'', True, JStr (spProposer m))]"

definition MsgSubmitProposal_GetSignBytes :: "SignLib \<Rightarrow> MsgSubmitProposal \<Rightarrow> bytes res" where
  "MsgSubmitProposal_GetSignBytes L m = (case spContent m of None \<Rightarrow> Inl (Panic ''nil pointer dereference'') | Some _ \<Rightarrow> sign_bytes L (MsgSubmitProposal_json m))"

definition MsgDeposit_Route :: string where "MsgDeposit_Route = ''gov''"

definition MsgDeposit_Type :: string where "MsgDeposit_Type = ''deposit''"

definition MsgDeposit_json :: "MsgDeposit \<Rightarrow> JField list" where
  "MsgDeposit_json m =
     [(''proposal_id'', False, JU64 (mdProposalId m)),
      (''depositor'', True, JStr (mdDepositor m)),
      (''amount'', False, JCoins (mdAmount m))]"

definition MsgDeposit_GetSignBytes :: "SignLib \<Rightarrow> MsgDeposit \<Rightarrow> bytes res" where
  "MsgDeposit_GetSignBytes L m = sign_bytes L (MsgDeposit_json m)"

definition MsgVote_Route :: string where "MsgVote_Route = ''gov''"

definition MsgVote_Type :: string where "MsgVote_Type = ''vote''"

definition MsgVote_json :: "MsgVote \<Rightarrow> JField list" where
  "MsgVote_json m =
     [(''proposal_id'', False, JU64 (mvProposalId m)),
      (''voter'', True, JStr (mvVoter m)),
      (''option'', True, JU32 (mvOption m))]"

definition MsgVote_GetSignBytes :: "SignLib \<Rightarrow> MsgVote \<Rightarrow> bytes res" where
  "MsgVote_GetSignBytes L m = sign_bytes L (MsgVote_json m)"

subsection \<open>\<open>modules/staking/types.go\<close>\<close>

definition MsgCreateValidator_Route :: string where "MsgCreateValidator_Route = ''staking''"

definition MsgCreateValidator_Type :: string where "MsgCreateValidator_Type = ''create_validator''"

definition MsgCreateValidator_json :: "MsgCreateValidator \<Rightarrow> JField list" where
  "MsgCreateValidator_json m =
     [(''description'', False, JDescription (cvDescription m)),
      (''commission'', False, JCommission (cvCommission m)),
      (''min_self_delegation'', False, JInt (cvMinSelfDelegation m)),
      (''delegator_address'', True, JStr (cvDelegatorAddress m)),
      (''validator_address'', True, JStr (cvValidatorAddress m)),
      (''pubkey'', True, JKey (cvPubkey m)),
      (''value'', False, JCoin (cvValue m))]"

definition MsgCreateValidator_GetSignBytes :: "SignLib \<Rightarrow> MsgCreateValidator \<Rightarrow> bytes res" where
  "MsgCreateValidator_GetSignBytes L m = (case cvPubkey m of None \<Rightarrow> Inl (Panic ''nil pointer dereference'') | Some _ \<Rightarrow> sign_bytes L (MsgCreateValidator_json m))"

definition MsgEditValidator_Route :: string where "MsgEditValidator_Route = ''staking''"

definition MsgEditValidator_Type :: string where "MsgEditValidator_Type = ''edit_validator''"

definition MsgEditValidator_json :: "MsgEditValidator \<Rightarrow> JField list" where
  "MsgEditValidator_json m =
     [(''description'', False, JDescription (evDescription m)),
      (''validator_address'', True, JStr (evValidatorAddress m)),
      (''commission_rate'', True, JInt (evCommissionRate m)),
      (''min_self_delegation'', True, JInt (evMinSelfDelegation m))]"

definition MsgEditValidator_GetSignBytes :: "SignLib \<Rightarrow> MsgEditValidator \<Rightarrow> bytes res" where
  "MsgEditValidator_GetSignBytes L m = sign_bytes L (MsgEditValidator_json m)"

definition MsgDelegate_Route :: string where "MsgDelegate_Route = ''staking''"

definition MsgDelegate_Type :: string where "MsgDelegate_Type = ''delegate''"

definition MsgDelegate_json :: "MsgDelegate \<Rightarrow> JField list" where
  "MsgDelegate_json m =
     [(''delegator_address'', True, JStr (dgDelegatorAddress m)),
      (''validator_address'', True, JStr (dgValidatorAddress m)),
      (''amount'', False, JCoin (dgAmount m))]"

definition MsgDelegate_GetSignBytes :: "SignLib \<Rightarrow> MsgDelegate \<Rightarrow> bytes res" where
  "MsgDelegate_GetSignBytes L m = sign_bytes L (MsgDelegate_json m)"

definition MsgBeginRedelegate_Route :: string where "MsgBeginRedelegate_Route = ''staking''"

definition MsgBeginRedelegate_Type :: string where "MsgBeginRedelegate_Type = ''begin_redelegate''"

definition MsgBeginRedelegate_json :: "MsgBeginRedelegate \<Rightarrow> JField list" where
  "MsgBeginRedelegate_json m =
     [(''delegator_address'', True, JStr (brDelegatorAddress m)),
      (''validator_src_address'', True, JStr (brValidatorSrcAddress m)),
      (''validator_dst_address'', True, JStr (brValidatorDstAddress m)),
      (''amount'', False, JCoin (brAmount m))]"

definition MsgBeginRedelegate_GetSignBytes :: "SignLib \<Rightarrow> MsgBeginRedelegate \<Rightarrow> bytes res" where
  "MsgBeginRedelegate_GetSignBytes L m = sign_bytes L (MsgBeginRedelegate_json m)"

definition MsgUndelegate_Route :: string where "MsgUndelegate_Route = ''staking''"

definition MsgUndelegate_Type :: string where "MsgUndelegate_Type = ''begin_unbonding''"

definition MsgUndelegate_json :: "MsgUndelegate \<Rightarrow> JField list" where
  "MsgUndelegate_json m =
     [(''delegator_address'', True, JStr (udDelegatorAddress m)),
      (''validator_address'', True, JStr (udValidatorAddress m)),
      (''amount'', False, JCoin (udAmount m))]"

definition MsgUndelegate_GetSignBytes :: "SignLib \<Rightarrow> MsgUndelegate \<Rightarrow> bytes res" where
  "MsgUndelegate_GetSignBytes L m = sign_bytes L (MsgUndelegate_json m)"

subsection \<open>\<open>modules/coinswap/types.go\<close>\<close>

definition MsgCreatePool_Route :: string where "MsgCreatePool_Route = ''coinswap''"

definition MsgCreatePool_Type :: string where "MsgCreatePool_Type = ''add_liquidity''"

definition MsgCreatePool_json :: "MsgCreatePool \<Rightarrow> JField list" where
  "MsgCreatePool_json m =
     [(''pool_creator_address'', True, JStr (cpPoolCreatorAddress m)),
      (''pool_type_id'', True, JU32 (cpPoolTypeId m)),
      (''deposit_coins'', False, JCoins (cpDepositCoins m))]"

definition MsgCreatePool_GetSignBytes :: "SignLib \<Rightarrow> MsgCreatePool \<Rightarrow> bytes res" where
  "MsgCreatePool_GetSignBytes L m = sign_bytes L (MsgCreatePool_json m)"

definition MsgDepositWithinBatch_Route :: string where "MsgDepositWithinBatch_Route = ''coinswap''"

definition MsgDepositWithinBatch_Type :: string where "MsgDepositWithinBatch_Type = ''Within_liquidity''"

definition MsgDepositWithinBatch_json :: "MsgDepositWithinBatch \<Rightarrow> JField list" where
  "MsgDepositWithinBatch_json m =
     [(''depositor_address'', True, JStr (dwDepositorAddress m)),
      (''pool_id'', False, JU64 (dwPoolId m)),
      (''deposit_coins'', False, JCoins (dwDepositCoins m))]"

definition MsgDepositWithinBatch_GetSignBytes :: "SignLib \<Rightarrow> MsgDepositWithinBatch \<Rightarrow> bytes res" where
  "MsgDepositWithinBatch_GetSignBytes L m = sign_bytes L (MsgDepositWithinBatch_json m)"

definition MsgSwapWithinBatch_Route :: string where "MsgSwapWithinBatch_Route = ''coinswap''"

definition MsgSwapWithinBatch_Type :: string where "MsgSwapWithinBatch_Type = ''swap_order''"

definition MsgSwapWithinBatch_json :: "MsgSwapWithinBatch \<Rightarrow> JField list" where
  "MsgSwapWithinBatch_json m =
     [(''swap_requester_address'', True, JStr (swSwapRequesterAddress m)),
      (''pool_id'', False, JU64 (swPoolId m)),
      (''swap_type_id'', True, JU32 (swSwapTypeId m)),
      (''offer_coin'', False, JCoin (swOfferCoin m)),
      (''demand_coin_denom'', True, JStr (swDemandCoinDenom m)),
      (''offer_coin_fee'', False, JCoin (swOfferCoinFee m)),
      (''order_price'', False, JDec (swOrderPrice m))]"

definition MsgSwapWithinBatch_GetSignBytes :: "SignLib \<Rightarrow> MsgSwapWithinBatch \<Rightarrow> bytes res" where
  "MsgSwapWithinBatch_GetSignBytes L m = sign_bytes L (MsgSwapWithinBatch_json m)"

definition MsgWithdrawWithinBatch_Route :: string where "MsgWithdrawWithinBatch_Route = ''coinswap''"

definition MsgWithdrawWithinBatch_Type :: string where "MsgWithdrawWithinBatch_Type = ''withdraw_within''"

definition MsgWithdrawWithinBatch_json :: "MsgWithdrawWithinBatch \<Rightarrow> JField list" where
  "MsgWithdrawWithinBatch_json m =
     [(''withdrawer_address'', True, JStr (wwWithdrawerAddress m)),
      (''pool_id'', False, JU64 (wwPoolId m)),
      (''pool_coin'', False, JCoin (wwPoolCoin m))]"

definition MsgWithdrawWithinBatch_GetSignBytes :: "SignLib \<Rightarrow> MsgWithdrawWithinBatch \<Rightarrow> bytes res" where
  "MsgWithdrawWithinBatch_GetSignBytes L m = sign_bytes L (MsgWithdrawWithinBatch_json m)"

section \<open>All messages\<close>

fun Msg_Route :: "Msg \<Rightarrow> string" where
  "Msg_Route (BankSend m) = MsgSend_Route"
| "Msg_Route (BankMultiSend m) = MsgMultiSend_Route"
| "Msg_Route (TokenIssue m) = MsgIssueToken_Route"
| "Msg_Route (TokenTransfer m) = MsgTransferOwnerToken_Route"
| "Msg_Route (TokenEdit m) = MsgEditToken_Route"
| "Msg_Route (TokenMint m) = MsgMintToken_Route"
| "Msg_Route (NftIssueClass m) = MsgIssueClass_Route"
| "Msg_Route (NftTransfer m) = MsgTransferNFT_Route"
| "Msg_Route (NftTransferClass m) = MsgTransferClass_Route"
| "Msg_Route (NftEdit m) = MsgEditNFT_Route"
| "Msg_Route (NftIssue m) = MsgIssueNFT_Route"
| "Msg_Route (NftBurn m) = MsgBurnNFT_Route"
| "Msg_Route (GovSubmit m) = MsgSubmitProposal_Route"
| "Msg_Route (GovDeposit m) = MsgDeposit_Route"
| "Msg_Route (GovVote m) = MsgVote_Route"
| "Msg_Route (StakingCreate m) = MsgCreateValidator_Route"
| "Msg_Route (StakingEdit m) = MsgEditValidator_Route"
| "Msg_Route (StakingDelegate m) = MsgDelegate_Route"
| "Msg_Route (StakingRedelegate m) = MsgBeginRedelegate_Route"
| "Msg_Route (StakingUndelegate m) = MsgUndelegate_Route"
| "Msg_Route (SwapCreatePool s m) = MsgCreatePool_Route"
| "Msg_Route (SwapDeposit s m) = MsgDepositWithinBatch_Route"
| "Msg_Route (SwapOrder m) = MsgSwapWithinBatch_Route"
| "Msg_Route (SwapWithdraw m) = MsgWithdrawWithinBatch_Route"

fun Msg_Type :: "Msg \<Rightarrow> string" where
  "Msg_Type (BankSend m) = MsgSend_Type"
| "Msg_Type (BankMultiSend m) = MsgMultiSend_Type"
| "Msg_Type (TokenIssue m) = MsgIssueToken_Type"
| "Msg_Type (TokenTransfer m) = MsgTransferOwnerToken_Type"
| "Msg_Type (TokenEdit m) = MsgEditToken_Type"
| "Msg_Type (TokenMint m) = MsgMintToken_Type"
| "Msg_Type (NftIssueClass m) = MsgIssueClass_Type"
| "Msg_Type (NftTransfer m) = MsgTransferNFT_Type"
| "Msg_Type (NftTransferClass m) = MsgTransferClass_Type"
| "Msg_Type (NftEdit m) = MsgEditNFT_Type"
| "Msg_Type (NftIssue m) = MsgIssueNFT_Type"
| "Msg_Type (NftBurn m) = MsgBurnNFT_Type"
| "Msg_Type (GovSubmit m) = MsgSubmitProposal_Type"
| "Msg_Type (GovDeposit m) = MsgDeposit_Type"
| "Msg_Type (GovVote m) = MsgVote_Type"
| "Msg_Type (StakingCreate m) = MsgCreateValidator_Type"
| "Msg_Type (StakingEdit m) = MsgEditValidator_Type"
| "Msg_Type (StakingDelegate m) = MsgDelegate_Type"
| "Msg_Type (StakingRedelegate m) = MsgBeginRedelegate_Type"
| "Msg_Type (StakingUndelegate m) = MsgUndelegate_Type"
| "Msg_Type (SwapCreatePool s m) = MsgCreatePool_Type"
| "Msg_Type (SwapDeposit s m) = MsgDepositWithinBatch_Type"
| "Msg_Type (SwapOrder m) = MsgSwapWithinBatch_Type"
| "Msg_Type (SwapWithdraw m) = MsgWithdrawWithinBatch_Type"

fun Msg_json :: "Msg \<Rightarrow> JField list" where
  "Msg_json (BankSend m) = MsgSend_json m"
| "Msg_json (BankMultiSend m) = MsgMultiSend_json m"
| "Msg_json (TokenIssue m) = MsgIssueToken_json m"
| "Msg_json (TokenTransfer m) = MsgTransferOwnerToken_json m"
| "Msg_json (TokenEdit m) = MsgEditToken_json m"
| "Msg_json (TokenMint m) = MsgMintToken_json m"
| "Msg_json (NftIssueClass m) = MsgIssueClass_json m"
| "Msg_json (NftTransfer m) = MsgTransferNFT_json m"
| "Msg_json (NftTransferClass m) = MsgTransferClass_json m"
| "Msg_json (NftEdit m) = MsgEditNFT_json m"
| "Msg_json (NftIssue m) = MsgIssueNFT_json m"
| "Msg_json (NftBurn m) = MsgBurnNFT_json m"
| "Msg_json (GovSubmit m) = MsgSubmitProposal_json m"
| "Msg_json (GovDeposit m) = MsgDeposit_json m"
| "Msg_json (GovVote m) = MsgVote_json m"
| "Msg_json (StakingCreate m) = MsgCreateValidator_json m"
| "Msg_json (StakingEdit m) = MsgEditValidator_json m"
| "Msg_json (StakingDelegate m) = MsgDelegate_json m"
| "Msg_json (StakingRedelegate m) = MsgBeginRedelegate_json m"
| "Msg_json (StakingUndelegate m) = MsgUndelegate_json m"
| "Msg_json (SwapCreatePool s m) = MsgCreatePool_json m"
| "Msg_json (SwapDeposit s m) = MsgDepositWithinBatch_json m"
| "Msg_json (SwapOrder m) = MsgSwapWithinBatch_json m"
| "Msg_json (SwapWithdraw m) = MsgWithdrawWithinBatch_json m"

fun Msg_GetSignBytes :: "SignLib \<Rightarrow> Msg \<Rightarrow> bytes res" where
  "Msg_GetSignBytes L (BankSend m) = MsgSend_GetSignBytes L m"
| "Msg_GetSignBytes L (BankMultiSend m) = MsgMultiSend_GetSignBytes L m"
| "Msg_GetSignBytes L (TokenIssue m) = MsgIssueToken_GetSignBytes L m"
| "Msg_GetSignBytes L (TokenTransfer m) = MsgTransferOwnerToken_GetSignBytes L m"
| "Msg_GetSignBytes L (TokenEdit m) = MsgEditToken_GetSignBytes L m"
| "Msg_GetSignBytes L (TokenMint m) = MsgMintToken_GetSignBytes L m"
| "Msg_GetSignBytes L (NftIssueClass m) = MsgIssueClass_GetSignBytes L m"
| "Msg_GetSignBytes L (NftTransfer m) = MsgTransferNFT_GetSignBytes L m"
| "Msg_GetSignBytes L (NftTransferClass m) = MsgTransferClass_GetSignBytes L m"
| "Msg_GetSignBytes L (NftEdit m) = MsgEditNFT_GetSignBytes L m"
| "Msg_GetSignBytes L (NftIssue m) = MsgIssueNFT_GetSignBytes L m"
| "Msg_GetSignBytes L (NftBurn m) = MsgBurnNFT_GetSignBytes L m"
| "Msg_GetSignBytes L (GovSubmit m) = MsgSubmitProposal_GetSignBytes L m"
| "Msg_GetSignBytes L (GovDeposit m) = MsgDeposit_GetSignBytes L m"
| "Msg_GetSignBytes L (GovVote m) = MsgVote_GetSignBytes L m"
| "Msg_GetSignBytes L (StakingCreate m) = MsgCreateValidator_GetSignBytes L m"
| "Msg_GetSignBytes L (StakingEdit m) = MsgEditValidator_GetSignBytes L m"
| "Msg_GetSignBytes L (StakingDelegate m) = MsgDelegate_GetSignBytes L m"
| "Msg_GetSignBytes L (StakingRedelegate m) = MsgBeginRedelegate_GetSignBytes L m"
| "Msg_GetSignBytes L (StakingUndelegate m) = MsgUndelegate_GetSignBytes L m"
| "Msg_GetSignBytes L (SwapCreatePool s m) = MsgCreatePool_GetSignBytes L m"
| "Msg_GetSignBytes L (SwapDeposit s m) = MsgDepositWithinBatch_GetSignBytes L m"
| "Msg_GetSignBytes L (SwapOrder m) = MsgSwapWithinBatch_GetSignBytes L m"
| "Msg_GetSignBytes L (SwapWithdraw m) = MsgWithdrawWithinBatch_GetSignBytes L m"

fun Msg_kind :: "Msg \<Rightarrow> nat" where
  "Msg_kind (BankSend m) = 0"
| "Msg_kind (BankMultiSend m) = 1"
| "Msg_kind (TokenIssue m) = 2"
| "Msg_kind (TokenTransfer m) = 3"
| "Msg_kind (TokenEdit m) = 4"
| "Msg_kind (TokenMint m) = 5"
| "Msg_kind (NftIssueClass m) = 6"
| "Msg_kind (NftTransfer m) = 7"
| "Msg_kind (NftTransferClass m) = 8"
| "Msg_kind (NftEdit m) = 9"
| "Msg_kind (NftIssue m) = 10"
| "Msg_kind (NftBurn m) = 11"
| "Msg_kind (GovSubmit m) = 12"
| "Msg_kind (GovDeposit m) = 13"
| "Msg_kind (GovVote m) = 14"
| "Msg_kind (StakingCreate m) = 15"
| "Msg_kind (StakingEdit m) = 16"
| "Msg_kind (StakingDelegate m) = 17"
| "Msg_kind (StakingRedelegate m) = 18"
| "Msg_kind (StakingUndelegate m) = 19"
| "Msg_kind (SwapCreatePool s m) = 20"
| "Msg_kind (SwapDeposit s m) = 21"
| "Msg_kind (SwapOrder m) = 22"
| "Msg_kind (SwapWithdraw m) = 23"

lemmas route_type_defs = MsgSend_Route_def MsgSend_Type_def
  MsgMultiSend_Route_def MsgMultiSend_Type_def
  MsgIssueToken_Route_def MsgIssueToken_Type_def
  MsgTransferOwnerToken_Route_def MsgTransferOwnerToken_Type_def
  MsgEditToken_Route_def MsgEditToken_Type_def
  MsgMintToken_Route_def MsgMintToken_Type_def
  MsgIssueClass_Route_def MsgIssueClass_Type_def
  MsgTransferNFT_Route_def MsgTransferNFT_Type_def
  MsgTransferClass_Route_def MsgTransferClass_Type_def
  MsgEditNFT_Route_def MsgEditNFT_Type_def
  MsgIssueNFT_Route_def MsgIssueNFT_Type_def
  MsgBurnNFT_Route_def MsgBurnNFT_Type_def
  MsgSubmitProposal_Route_def MsgSubmitProposal_Type_def
  MsgDeposit_Route_def MsgDeposit_Type_def
  MsgVote_Route_def MsgVote_Type_def
  MsgCreateValidator_Route_def MsgCreateValidator_Type_def
  MsgEditValidator_Route_def MsgEditValidator_Type_def
  MsgDelegate_Route_def MsgDelegate_Type_def
  MsgBeginRedelegate_Route_def MsgBeginRedelegate_Type_def
  MsgUndelegate_Route_def MsgUndelegate_Type_def
  MsgCreatePool_Route_def MsgCreatePool_Type_def
  MsgDepositWithinBatch_Route_def MsgDepositWithinBatch_Type_def
  MsgSwapWithinBatch_Route_def MsgSwapWithinBatch_Type_def
  MsgWithdrawWithinBatch_Route_def MsgWithdrawWithinBatch_Type_def

lemmas msg_json_defs = MsgSend_json_def MsgSend_GetSignBytes_def
  MsgMultiSend_json_def MsgMultiSend_GetSignBytes_def
  MsgIssueToken_json_def MsgIssueToken_GetSignBytes_def
  MsgTransferOwnerToken_json_def MsgTransferOwnerToken_GetSignBytes_def
  MsgEditToken_json_def MsgEditToken_GetSignBytes_def
  MsgMintToken_json_def MsgMintToken_GetSignBytes_def
  MsgIssueClass_json_def MsgIssueClass_GetSignBytes_def
  MsgTransferNFT_json_def MsgTransferNFT_GetSignBytes_def
  MsgTransferClass_json_def MsgTransferClass_GetSignBytes_def
  MsgEditNFT_json_def MsgEditNFT_GetSignBytes_def
  MsgIssueNFT_json_def MsgIssueNFT_GetSignBytes_def
  MsgBurnNFT_json_def MsgBurnNFT_GetSignBytes_def
  MsgSubmitProposal_json_def MsgSubmitProposal_GetSignBytes_def
  MsgDeposit_json_def MsgDeposit_GetSignBytes_def
  MsgVote_json_def MsgVote_GetSignBytes_def
  MsgCreateValidator_json_def MsgCreateValidator_GetSignBytes_def
  MsgEditValidator_json_def MsgEditValidator_GetSignBytes_def
  MsgDelegate_json_def MsgDelegate_GetSignBytes_def
  MsgBeginRedelegate_json_def MsgBeginRedelegate_GetSignBytes_def
  MsgUndelegate_json_def MsgUndelegate_GetSignBytes_def
  MsgCreatePool_json_def MsgCreatePool_GetSignBytes_def
  MsgDepositWithinBatch_json_def MsgDepositWithinBatch_GetSignBytes_def
  MsgSwapWithinBatch_json_def MsgSwapWithinBatch_GetSignBytes_def
  MsgWithdrawWithinBatch_json_def MsgWithdrawWithinBatch_GetSignBytes_def

section \<open>Properties\<close>

text \<open>The route and the type of a message name its kind: no two kinds share both.\<close>

theorem message_kind_named:
  "Msg_Route m = Msg_Route m' \<and> Msg_Type m = Msg_Type m' \<longleftrightarrow> Msg_kind m = Msg_kind m'"
  by (cases m; cases m'; simp add: route_type_defs)

text \<open>
  The contract of the JSON library on objects of one shape: the same bytes come from the same fields. The object is sorted, but a field keeps
  its name. Texts are those that JSON can express, which is what the addresses, denominations and names of messages are.
\<close>

definition json_law :: "SignLib \<Rightarrow> bool" where
  "json_law L \<longleftrightarrow> (\<forall>fs gs b. map fst fs = map fst gs \<and> sign_bytes L fs = Inr b \<and> sign_bytes L gs = Inr b \<longrightarrow> fs = gs)"

text \<open>The flag that says whether two slices of a message share their memory is not part of the message.\<close>

fun unshared :: "Msg \<Rightarrow> Msg" where
  "unshared (SwapCreatePool s m) = SwapCreatePool False m"
| "unshared (SwapDeposit s m) = SwapDeposit False m"
| "unshared m = m"

lemma json_determines: "Msg_kind m = Msg_kind m' \<Longrightarrow> Msg_json m = Msg_json m' \<Longrightarrow> unshared m = unshared m'"
  by (cases m; cases m'; simp add: msg_json_defs)

lemma json_names: "Msg_kind m = Msg_kind m' \<Longrightarrow> map fst (Msg_json m) = map fst (Msg_json m')"
  by (cases m; cases m'; simp add: msg_json_defs)

lemma GetSignBytes_json: "Msg_GetSignBytes L m = Inr b \<Longrightarrow> sign_bytes L (Msg_json m) = Inr b"
  by (cases m) (auto simp: msg_json_defs split: option.splits)

text \<open>The sign bytes of a message cover every field of it: two messages of one kind with the same sign bytes are the same message.\<close>

theorem sign_bytes_cover_message:
  assumes "json_law L" "Msg_kind m = Msg_kind m'" "Msg_GetSignBytes L m = Inr b" "Msg_GetSignBytes L m' = Inr b"
  shows "unshared m = unshared m'"
proof -
  have "sign_bytes L (Msg_json m) = Inr b" "sign_bytes L (Msg_json m') = Inr b" using assms(3,4) GetSignBytes_json by blast+
  then have "Msg_json m = Msg_json m'" using assms(1) json_names [OF assms(2)] unfolding json_law_def by blast
  then show ?thesis using json_determines assms(2) by blast
qed

text \<open>They do not cover the kind: a delegation and an undelegation of the same coin have the same sign bytes.\<close>

lemma delegate_undelegate_sign_bytes:
  "Msg_GetSignBytes L (StakingDelegate \<lparr>dgDelegatorAddress = d, dgValidatorAddress = v, dgAmount = c\<rparr>)
   = Msg_GetSignBytes L (StakingUndelegate \<lparr>udDelegatorAddress = d, udValidatorAddress = v, udAmount = c\<rparr>)"
  by (simp add: msg_json_defs)

end
