(* ===== verification/Assembly.thy ===== *)
theory Assembly
  imports Registry
begin

text \<open>
  The assembly of a client (\<open>client.go\<close>): the interface registry that \<open>NewPLUGCHAINClient\<close> fills from the registrations of the transactions
  (\<open>types/tx/types.go\<close>), the keys (\<open>crypto/codec/proto.go\<close>) and the modules (\<open>modules/*/codec.go\<close>), and the map of its modules. The Go interfaces and
  message types that are registered, and the proposal content that is not, are two datatypes; their names are those that the generated code registers.
  The values of messages and their protobuf functions stay parameters.
\<close>

section \<open>Types\<close>

datatype GoInterface = IMsg | ITx | ITmPubKey | IPubKey | IAccount | ITokenInterface | IContent

datatype GoType =
    TMsgSend | TMsgMultiSend | TMsgIssueToken | TMsgTransferOwnerToken | TMsgEditToken | TMsgMintToken
  | TMsgIssueClass | TMsgIssueNFT | TMsgEditNFT | TMsgTransferNFT | TMsgBurnNFT | TMsgTransferClass
  | TMsgSubmitProposal | TMsgDeposit | TMsgVote
  | TMsgCreateValidator | TMsgEditValidator | TMsgDelegate | TMsgUndelegate | TMsgBeginRedelegate
  | TMsgCreatePool | TMsgDepositWithinBatch | TMsgSwapWithinBatch | TMsgWithdrawWithinBatch
  | TTx | TEd25519PubKey | TSecp256k1PubKey | TLegacyAminoPubKey | TBaseAccount | TToken | TTextProposal

fun proto_name :: "GoType \<Rightarrow> string" where
  "proto_name TMsgSend = ''cosmos.bank.v1beta1.MsgSend''"
| "proto_name TMsgMultiSend = ''cosmos.bank.v1beta1.MsgMultiSend''"
| "proto_name TMsgIssueToken = ''plugchain.token.MsgIssueToken''"
| "proto_name TMsgTransferOwnerToken = ''plugchain.token.MsgTransferOwnerToken''"
| "proto_name TMsgEditToken = ''plugchain.token.MsgEditToken''"
| "proto_name TMsgMintToken = ''plugchain.token.MsgMintToken''"
| "proto_name TMsgIssueClass = ''plugchain.nft.MsgIssueClass''"
| "proto_name TMsgIssueNFT = ''plugchain.nft.MsgIssueNFT''"
| "proto_name TMsgEditNFT = ''plugchain.nft.MsgEditNFT''"
| "proto_name TMsgTransferNFT = ''plugchain.nft.MsgTransferNFT''"
| "proto_name TMsgBurnNFT = ''plugchain.nft.MsgBurnNFT''"
| "proto_name TMsgTransferClass = ''plugchain.nft.MsgTransferClass''"
| "proto_name TMsgSubmitProposal = ''cosmos.gov.v1beta1.MsgSubmitProposal''"
| "proto_name TMsgDeposit = ''cosmos.gov.v1beta1.MsgDeposit''"
| "proto_name TMsgVote = ''cosmos.gov.v1beta1.MsgVote''"
| "proto_name TMsgCreateValidator = ''cosmos.staking.v1beta1.MsgCreateValidator''"
| "proto_name TMsgEditValidator = ''cosmos.staking.v1beta1.MsgEditValidator''"
| "proto_name TMsgDelegate = ''cosmos.staking.v1beta1.MsgDelegate''"
| "proto_name TMsgUndelegate = ''cosmos.staking.v1beta1.MsgUndelegate''"
| "proto_name TMsgBeginRedelegate = ''cosmos.staking.v1beta1.MsgBeginRedelegate''"
| "proto_name TMsgCreatePool = ''tendermint.liquidity.v1beta1.MsgCreatePool''"
| "proto_name TMsgDepositWithinBatch = ''tendermint.liquidity.v1beta1.MsgDepositWithinBatch''"
| "proto_name TMsgSwapWithinBatch = ''tendermint.liquidity.v1beta1.MsgSwapWithinBatch''"
| "proto_name TMsgWithdrawWithinBatch = ''tendermint.liquidity.v1beta1.MsgWithdrawWithinBatch''"
| "proto_name TTx = ''cosmos.tx.v1beta1.Tx''"
| "proto_name TEd25519PubKey = ''cosmos.crypto.ed25519.PubKey''"
| "proto_name TSecp256k1PubKey = ''cosmos.crypto.secp256k1.PubKey''"
| "proto_name TLegacyAminoPubKey = ''cosmos.crypto.multisig.LegacyAminoPubKey''"
| "proto_name TBaseAccount = ''cosmos.auth.v1beta1.BaseAccount''"
| "proto_name TToken = ''plugchain.token.Token''"
| "proto_name TTextProposal = ''cosmos.gov.v1beta1.TextProposal''"

text \<open>The method sets, as the compiler checks them at the registrations.\<close>

definition key_types :: "GoType set" where
  "key_types = {TEd25519PubKey, TSecp256k1PubKey, TLegacyAminoPubKey}"

fun implements :: "GoType \<Rightarrow> GoInterface \<Rightarrow> bool" where
  "implements t IMsg = (t \<notin> {TTx, TBaseAccount, TToken, TTextProposal} \<union> key_types)"
| "implements t ITx = (t = TTx)"
| "implements t ITmPubKey = (t \<in> key_types)"
| "implements t IPubKey = (t \<in> key_types)"
| "implements t IAccount = (t = TBaseAccount)"
| "implements t ITokenInterface = (t = TToken)"
| "implements t IContent = (t = TTextProposal)"

type_synonym 'v SdkEnv = "(GoInterface, GoType, 'v) TypeEnv"
type_synonym SdkRegistry = "(GoInterface, GoType) interfaceRegistry"

text \<open>An environment of this program: its names and method sets, with any protobuf library.\<close>

definition sdk_env :: "'v SdkEnv \<Rightarrow> bool" where
  "sdk_env E \<longleftrightarrow> IsInterface E = (\<lambda>_. True) \<and> AssignableTo E = implements \<and> MessageName E = proto_name \<and> IsMessage E = (\<lambda>_. True)"

section \<open>Registrations\<close>

fun seqReg :: "(SdkRegistry \<Rightarrow> unit res \<times> SdkRegistry) list \<Rightarrow> SdkRegistry \<Rightarrow> unit res \<times> SdkRegistry" where
  "seqReg [] reg = (Inr (), reg)"
| "seqReg (f # fs) reg = (case f reg of (Inl e, reg) \<Rightarrow> (Inl e, reg) | (Inr _, reg) \<Rightarrow> seqReg fs reg)"

definition tx_RegisterInterfaces :: "'v SdkEnv \<Rightarrow> SdkRegistry \<Rightarrow> unit res \<times> SdkRegistry" where
  "tx_RegisterInterfaces E = seqReg [RegisterInterface E ''cosmos.tx.v1beta1.Tx'' ITx [], RegisterImplementations E ITx [TTx]]"

definition crypto_RegisterInterfaces :: "'v SdkEnv \<Rightarrow> SdkRegistry \<Rightarrow> unit res \<times> SdkRegistry" where
  "crypto_RegisterInterfaces E = seqReg
     [RegisterInterface E ''tendermint.crypto.Pubkey'' ITmPubKey [],
      RegisterImplementations E ITmPubKey [TEd25519PubKey],
      RegisterImplementations E ITmPubKey [TSecp256k1PubKey],
      RegisterImplementations E ITmPubKey [TLegacyAminoPubKey],
      RegisterInterface E ''cosmos.crypto.Pubkey'' IPubKey [],
      RegisterImplementations E IPubKey [TEd25519PubKey],
      RegisterImplementations E IPubKey [TSecp256k1PubKey],
      RegisterImplementations E IPubKey [TLegacyAminoPubKey]]"

definition client_RegisterInterfaces :: "'v SdkEnv \<Rightarrow> SdkRegistry \<Rightarrow> unit res \<times> SdkRegistry" where
  "client_RegisterInterfaces E = seqReg
     [RegisterInterface E ''cosmos.v1beta1.Msg'' IMsg [], tx_RegisterInterfaces E, crypto_RegisterInterfaces E]"

definition bank_RegisterInterfaces :: "'v SdkEnv \<Rightarrow> SdkRegistry \<Rightarrow> unit res \<times> SdkRegistry" where
  "bank_RegisterInterfaces E = seqReg [RegisterImplementations E IMsg [TMsgSend, TMsgMultiSend], RegisterImplementations E IAccount [TBaseAccount]]"

definition token_RegisterInterfaces :: "'v SdkEnv \<Rightarrow> SdkRegistry \<Rightarrow> unit res \<times> SdkRegistry" where
  "token_RegisterInterfaces E = seqReg
     [RegisterImplementations E IMsg [TMsgIssueToken, TMsgEditToken, TMsgMintToken, TMsgTransferOwnerToken],
      RegisterInterface E ''plugchain.token.TokenI'' ITokenInterface [TToken]]"

definition staking_RegisterInterfaces :: "'v SdkEnv \<Rightarrow> SdkRegistry \<Rightarrow> unit res \<times> SdkRegistry" where
  "staking_RegisterInterfaces E = RegisterImplementations E IMsg [TMsgCreateValidator, TMsgEditValidator, TMsgDelegate, TMsgUndelegate, TMsgBeginRedelegate]"

definition gov_RegisterInterfaces :: "'v SdkEnv \<Rightarrow> SdkRegistry \<Rightarrow> unit res \<times> SdkRegistry" where
  "gov_RegisterInterfaces E = RegisterImplementations E IMsg [TMsgSubmitProposal, TMsgDeposit, TMsgVote]"

definition nft_RegisterInterfaces :: "'v SdkEnv \<Rightarrow> SdkRegistry \<Rightarrow> unit res \<times> SdkRegistry" where
  "nft_RegisterInterfaces E = RegisterImplementations E IMsg [TMsgIssueClass, TMsgIssueNFT, TMsgEditNFT, TMsgTransferNFT, TMsgBurnNFT, TMsgTransferClass]"

definition coinswap_RegisterInterfaces :: "'v SdkEnv \<Rightarrow> SdkRegistry \<Rightarrow> unit res \<times> SdkRegistry" where
  "coinswap_RegisterInterfaces E = RegisterImplementations E IMsg [TMsgCreatePool, TMsgDepositWithinBatch, TMsgSwapWithinBatch, TMsgWithdrawWithinBatch]"

section \<open>The client\<close>

record Module =
  modName :: string
  modRegister :: "SdkRegistry \<Rightarrow> unit res \<times> SdkRegistry"

record PLUGCHAINClient =
  moduleManager :: "string \<rightharpoonup> Module"
  clientRegistry :: SdkRegistry

fun RegisterModule :: "Module list \<Rightarrow> PLUGCHAINClient \<Rightarrow> unit res \<times> PLUGCHAINClient" where
  "RegisterModule [] client = (Inr (), client)"
| "RegisterModule (m # ms) client =
     (case moduleManager client (modName m) of
        Some _ \<Rightarrow> (Inl (Panic (modName m @ '' has register'')), client)
      | None \<Rightarrow>
          (case modRegister m (clientRegistry client) of
             (Inl e, reg) \<Rightarrow> (Inl e, client\<lparr>clientRegistry := reg\<rparr>)
           | (Inr _, reg) \<Rightarrow> RegisterModule ms (client\<lparr>clientRegistry := reg, moduleManager := (moduleManager client)(modName m \<mapsto> m)\<rparr>)))"

definition client_Module :: "PLUGCHAINClient \<Rightarrow> string \<Rightarrow> Module option" where
  "client_Module client name = moduleManager client name"

text \<open>The registry of \<open>makeEncodingConfig\<close>.\<close>

definition makeEncodingConfig :: "'v SdkEnv \<Rightarrow> unit res \<times> SdkRegistry" where
  "makeEncodingConfig E = client_RegisterInterfaces E NewInterfaceRegistry"

definition sdk_modules :: "'v SdkEnv \<Rightarrow> Module list" where
  "sdk_modules E =
     [\<lparr>modName = ''bank'', modRegister = bank_RegisterInterfaces E\<rparr>, \<lparr>modName = ''token'', modRegister = token_RegisterInterfaces E\<rparr>,
      \<lparr>modName = ''staking'', modRegister = staking_RegisterInterfaces E\<rparr>, \<lparr>modName = ''gov'', modRegister = gov_RegisterInterfaces E\<rparr>,
      \<lparr>modName = ''nft'', modRegister = nft_RegisterInterfaces E\<rparr>, \<lparr>modName = ''coinswap'', modRegister = coinswap_RegisterInterfaces E\<rparr>]"

definition NewPLUGCHAINClient :: "'v SdkEnv \<Rightarrow> unit res \<times> PLUGCHAINClient" where
  "NewPLUGCHAINClient E =
     (case makeEncodingConfig E of
        (Inl e, reg) \<Rightarrow> (Inl e, \<lparr>moduleManager = Map.empty, clientRegistry = reg\<rparr>)
      | (Inr _, reg) \<Rightarrow> RegisterModule (sdk_modules E) \<lparr>moduleManager = Map.empty, clientRegistry = reg\<rparr>)"

section \<open>Unpacking\<close>

text \<open>
  \<open>UnpackInterfaces\<close> of the messages with an \<open>Any\<close> inside; \<open>get\<close> and \<open>put\<close> read and write that field of the value. The bodies of transactions
  unpack their messages one after the other.
\<close>

definition MsgSubmitProposal_UnpackInterfaces ::
    "'v SdkEnv \<Rightarrow> ('v \<Rightarrow> 'v Any option) \<Rightarrow> ('v Any option \<Rightarrow> 'v \<Rightarrow> 'v) \<Rightarrow> SdkRegistry \<Rightarrow> 'v \<Rightarrow> 'v res" where
  "MsgSubmitProposal_UnpackInterfaces E get put reg m = bindR (UnpackAny E reg (get m) IContent) (\<lambda>(_, any). Inr (put any m))"

definition MsgCreateValidator_UnpackInterfaces ::
    "'v SdkEnv \<Rightarrow> ('v \<Rightarrow> 'v Any option) \<Rightarrow> ('v Any option \<Rightarrow> 'v \<Rightarrow> 'v) \<Rightarrow> SdkRegistry \<Rightarrow> 'v \<Rightarrow> 'v res" where
  "MsgCreateValidator_UnpackInterfaces E get put reg m = bindR (UnpackAny E reg (get m) ITmPubKey) (\<lambda>(_, any). Inr (put any m))"

fun TxBody_UnpackInterfaces :: "'v SdkEnv \<Rightarrow> SdkRegistry \<Rightarrow> 'v Any option list \<Rightarrow> ('v Any option list) res" where
  "TxBody_UnpackInterfaces E reg [] = Inr []"
| "TxBody_UnpackInterfaces E reg (any # anys) =
     bindR (UnpackAny E reg any IMsg) (\<lambda>(_, any). bindR (TxBody_UnpackInterfaces E reg anys) (\<lambda>anys. Inr (any # anys)))"

definition Tx_UnpackInterfaces :: "'v SdkEnv \<Rightarrow> SdkRegistry \<Rightarrow> 'v Any option list option \<Rightarrow> ('v Any option list option) res" where
  "Tx_UnpackInterfaces E reg body =
     (case body of None \<Rightarrow> Inr None | Some anys \<Rightarrow> bindR (TxBody_UnpackInterfaces E reg anys) (\<lambda>anys. Inr (Some anys)))"

section \<open>The registry as a set of registrations\<close>

lemma proto_name_inj: "proto_name s = proto_name t \<Longrightarrow> s = t"
  by (cases s; cases t; simp)

text \<open>The abstract registry is the set of pairs of an interface and an implementation; type URLs are those of the names.\<close>

definition registry_is :: "'v SdkEnv \<Rightarrow> SdkRegistry \<Rightarrow> (GoInterface \<times> GoType) set \<Rightarrow> bool" where
  "registry_is E reg R \<longleftrightarrow>
     (\<forall>i u t. impl_of reg i u = Some t \<longleftrightarrow> (i, t) \<in> R \<and> u = CHR ''/'' # proto_name t) \<and>
     (\<forall>u t. typeURLMap reg u = Some t \<longleftrightarrow> (\<exists>i. (i, t) \<in> R) \<and> u = CHR ''/'' # proto_name t)"

definition registers :: "'v SdkEnv \<Rightarrow> (SdkRegistry \<Rightarrow> unit res \<times> SdkRegistry) \<Rightarrow> (GoInterface \<times> GoType) set \<Rightarrow> bool" where
  "registers E f S \<longleftrightarrow> (\<forall>reg R. registry_is E reg R \<longrightarrow> (\<exists>reg'. f reg = (Inr (), reg') \<and> registry_is E reg' (R \<union> S)))"

lemma registersD: "registers E f S \<Longrightarrow> registry_is E reg R \<Longrightarrow> \<exists>reg'. f reg = (Inr (), reg') \<and> registry_is E reg' (R \<union> S)"
  by (simp add: registers_def)

lemma registry_is_new: "registry_is E NewInterfaceRegistry {}"
  by (simp add: registry_is_def impl_of_def NewInterfaceRegistry_def)

lemma registry_is_names [simp]: "registry_is E (reg\<lparr>interfaceNames := x\<rparr>) R = registry_is E reg R"
  by (simp add: registry_is_def)

lemma registerImpl_registers:
  assumes "sdk_env E" "implements t i"
  shows "registers E (registerImpl E i (CHR ''/'' # MessageName E t) t) {(i, t)}"
  unfolding registers_def
proof (intro allI impI)
  fix reg R
  assume R: "registry_is E reg R"
  let ?u = "CHR ''/'' # proto_name t"
  have E: "MessageName E = proto_name" "AssignableTo E = implements" using assms(1) by (auto simp: sdk_env_def)
  obtain r reg' where r: "registerImpl E i ?u t reg = (r, reg')" by fastforce
  have free: "impl_of reg i ?u = None \<or> impl_of reg i ?u = Some t"
    using R by (cases "impl_of reg i ?u") (auto simp: registry_is_def dest: proto_name_inj)
  then have ok: "r = Inr ()"
    using r assms(2) E by (auto simp: registerImpl_def impl_of_def Let_def split: if_splits option.splits)
  then have c: "impl_of reg' j u = (if j = i \<and> u = ?u then Some t else impl_of reg j u)" "typeURLMap reg' = (typeURLMap reg)(?u \<mapsto> t)" for j u
    using registerImpl_cases [OF r] by auto
  have "registry_is E reg' (R \<union> {(i, t)})"
    using R by (auto simp: registry_is_def c dest: proto_name_inj)
  then show "\<exists>reg'. registerImpl E i (CHR ''/'' # MessageName E t) t reg = (Inr (), reg') \<and> registry_is E reg' (R \<union> {(i, t)})"
    using r ok E(1) by auto
qed

lemma RegisterImplementations_sdk:
  assumes E: "sdk_env E" and "list_all (\<lambda>t. implements t i) ts"
  shows "registers E (RegisterImplementations E i ts) ({i} \<times> set ts)"
  using assms(2)
proof (induction ts)
  case (Cons t ts)
  then have s: "registers E (registerImpl E i (CHR ''/'' # MessageName E t) t) {(i, t)}" "registers E (RegisterImplementations E i ts) ({i} \<times> set ts)"
    using registerImpl_registers [OF E] by auto
  have "\<exists>reg'. RegisterImplementations E i (t # ts) reg = (Inr (), reg') \<and> registry_is E reg' (R \<union> {i} \<times> set (t # ts))" if R: "registry_is E reg R" for reg R
  proof -
    obtain reg1 where 1: "registerImpl E i (CHR ''/'' # MessageName E t) t reg = (Inr (), reg1)" "registry_is E reg1 (R \<union> {(i, t)})"
      using registersD [OF s(1) R] by blast
    obtain reg2 where 2: "RegisterImplementations E i ts reg1 = (Inr (), reg2)" "registry_is E reg2 (R \<union> {(i, t)} \<union> {i} \<times> set ts)"
      using registersD [OF s(2) 1(2)] by blast
    have "R \<union> {(i, t)} \<union> {i} \<times> set ts = R \<union> {i} \<times> set (t # ts)" by auto
    then show ?thesis using 1 2 by simp
  qed
  then show ?case by (simp add: registers_def)
qed (simp add: registers_def)

lemma RegisterInterface_sdk:
  assumes E: "sdk_env E" and "list_all (\<lambda>t. implements t i) ts"
  shows "registers E (RegisterInterface E name i ts) ({i} \<times> set ts)"
  using RegisterImplementations_sdk [OF assms] E by (simp add: registers_def RegisterInterface_def sdk_env_def)

lemma seqReg_nil: "registers E (seqReg []) {}"
  by (simp add: registers_def)

lemma seqReg_cons:
  assumes "registers E f S" "registers E (seqReg fs) T"
  shows "registers E (seqReg (f # fs)) (S \<union> T)"
  using assms unfolding registers_def by (fastforce simp: Un_assoc)

lemmas registration_rules = seqReg_nil seqReg_cons RegisterInterface_sdk RegisterImplementations_sdk

lemma registers_cong: "registers E f S \<Longrightarrow> S = T \<Longrightarrow> registers E f T"
  by simp

definition key_registrations :: "(GoInterface \<times> GoType) set" where
  "key_registrations = {ITmPubKey, IPubKey} \<times> key_types"

definition msg_types :: "GoType set" where
  "msg_types = {t. implements t IMsg}"

lemma msg_types_eq:
  "msg_types = {TMsgSend, TMsgMultiSend, TMsgIssueToken, TMsgEditToken, TMsgMintToken, TMsgTransferOwnerToken,
     TMsgCreateValidator, TMsgEditValidator, TMsgDelegate, TMsgUndelegate, TMsgBeginRedelegate, TMsgSubmitProposal, TMsgDeposit, TMsgVote,
     TMsgIssueClass, TMsgIssueNFT, TMsgEditNFT, TMsgTransferNFT, TMsgBurnNFT, TMsgTransferClass,
     TMsgCreatePool, TMsgDepositWithinBatch, TMsgSwapWithinBatch, TMsgWithdrawWithinBatch}" (is "_ = ?S")
proof -
  have "t \<in> msg_types \<longleftrightarrow> t \<in> ?S" for t by (cases t) (simp_all add: msg_types_def key_types_def)
  then show ?thesis by blast
qed

definition sdk_registrations :: "(GoInterface \<times> GoType) set" where
  "sdk_registrations = {IMsg} \<times> msg_types \<union> {(ITx, TTx), (IAccount, TBaseAccount), (ITokenInterface, TToken)} \<union> key_registrations"

section \<open>The client of the program\<close>

text \<open>What each of the registrations of the program adds.\<close>

lemma crypto_registers: "sdk_env E \<Longrightarrow> registers E (crypto_RegisterInterfaces E) key_registrations"
  unfolding crypto_RegisterInterfaces_def
  by (rule registers_cong, (rule registration_rules | assumption | simp add: key_types_def)+) (auto simp: key_registrations_def key_types_def)

lemma tx_registers: "sdk_env E \<Longrightarrow> registers E (tx_RegisterInterfaces E) {(ITx, TTx)}"
  unfolding tx_RegisterInterfaces_def
  by (rule registers_cong, (rule registration_rules | assumption | simp)+)

lemma client_registers: "sdk_env E \<Longrightarrow> registers E (client_RegisterInterfaces E) ({(ITx, TTx)} \<union> key_registrations)"
  unfolding client_RegisterInterfaces_def
  by (rule registers_cong, (rule registration_rules tx_registers crypto_registers | assumption | simp)+)

lemma bank_registers: "sdk_env E \<Longrightarrow> registers E (bank_RegisterInterfaces E) ({IMsg} \<times> {TMsgSend, TMsgMultiSend} \<union> {(IAccount, TBaseAccount)})"
  unfolding bank_RegisterInterfaces_def
  by (rule registers_cong, (rule registration_rules | assumption | simp add: key_types_def)+)

lemma token_registers:
  "sdk_env E \<Longrightarrow> registers E (token_RegisterInterfaces E)
     ({IMsg} \<times> {TMsgIssueToken, TMsgEditToken, TMsgMintToken, TMsgTransferOwnerToken} \<union> {(ITokenInterface, TToken)})"
  unfolding token_RegisterInterfaces_def
  by (rule registers_cong, (rule registration_rules | assumption | simp add: key_types_def)+)

lemma staking_registers:
  "sdk_env E \<Longrightarrow> registers E (staking_RegisterInterfaces E) ({IMsg} \<times> {TMsgCreateValidator, TMsgEditValidator, TMsgDelegate, TMsgUndelegate, TMsgBeginRedelegate})"
  unfolding staking_RegisterInterfaces_def
  by (rule registers_cong, (rule registration_rules | assumption | simp add: key_types_def)+)

lemma gov_registers: "sdk_env E \<Longrightarrow> registers E (gov_RegisterInterfaces E) ({IMsg} \<times> {TMsgSubmitProposal, TMsgDeposit, TMsgVote})"
  unfolding gov_RegisterInterfaces_def
  by (rule registers_cong, (rule registration_rules | assumption | simp add: key_types_def)+)

lemma nft_registers:
  "sdk_env E \<Longrightarrow> registers E (nft_RegisterInterfaces E) ({IMsg} \<times> {TMsgIssueClass, TMsgIssueNFT, TMsgEditNFT, TMsgTransferNFT, TMsgBurnNFT, TMsgTransferClass})"
  unfolding nft_RegisterInterfaces_def
  by (rule registers_cong, (rule registration_rules | assumption | simp add: key_types_def)+)

lemma coinswap_registers:
  "sdk_env E \<Longrightarrow> registers E (coinswap_RegisterInterfaces E) ({IMsg} \<times> {TMsgCreatePool, TMsgDepositWithinBatch, TMsgSwapWithinBatch, TMsgWithdrawWithinBatch})"
  unfolding coinswap_RegisterInterfaces_def
  by (rule registers_cong, (rule registration_rules | assumption | simp add: key_types_def)+)

lemmas module_registers = bank_registers token_registers staking_registers gov_registers nft_registers coinswap_registers

text \<open>Registering modules: what they register is added, and each is found under its name; a name that is taken stops the program.\<close>

lemma RegisterModule_ok:
  assumes "list_all2 (\<lambda>m S. registers E (modRegister m) S) ms Ss" "distinct (map modName ms)"
    "\<forall>m\<in>set ms. moduleManager c (modName m) = None" "registry_is E (clientRegistry c) R"
  shows "\<exists>c'. RegisterModule ms c = (Inr (), c') \<and> registry_is E (clientRegistry c') (R \<union> \<Union> (set Ss)) \<and>
     moduleManager c' = moduleManager c ++ map_of (map (\<lambda>m. (modName m, m)) ms)"
  using assms
proof (induction ms Ss arbitrary: c R rule: list_all2_induct)
  case (Cons m ms S Ss)
  obtain reg where r: "modRegister m (clientRegistry c) = (Inr (), reg)" "registry_is E reg (R \<union> S)"
    using registersD [OF Cons.hyps(1) Cons.prems(3)] by blast
  let ?c = "c\<lparr>clientRegistry := reg, moduleManager := (moduleManager c)(modName m \<mapsto> m)\<rparr>"
  have free: "\<forall>m'\<in>set ms. moduleManager ?c (modName m') = None"
  proof
    fix m' assume "m' \<in> set ms"
    then have "modName m' \<noteq> modName m" "moduleManager c (modName m') = None" using Cons.prems(1,2) by (simp_all add: image_iff eq_commute)
    then show "moduleManager ?c (modName m') = None" by simp
  qed
  obtain c' where c: "RegisterModule ms ?c = (Inr (), c')" "registry_is E (clientRegistry c') (R \<union> S \<union> \<Union> (set Ss))"
    "moduleManager c' = (moduleManager c)(modName m \<mapsto> m) ++ map_of (map (\<lambda>m. (modName m, m)) ms)"
    using Cons.IH [OF _ free, of "R \<union> S"] Cons.prems(1) r(2) by (auto simp: fun_upd_def)
  have "modName m \<notin> dom (map_of (map (\<lambda>m. (modName m, m)) ms))" using Cons.prems(1) by (simp add: dom_map_of_conv_image_fst image_image)
  then have "moduleManager c' = moduleManager c ++ map_of (map (\<lambda>m. (modName m, m)) (m # ms))"
    using c(3) by (auto simp: map_add_def fun_eq_iff split: option.splits)
  moreover have "RegisterModule (m # ms) c = (Inr (), c')" using c(1) r(1) Cons.prems(2) by simp
  moreover have "registry_is E (clientRegistry c') (R \<union> \<Union> (set (S # Ss)))" using c(2) by (simp add: Un_assoc)
  ultimately show ?case by blast
qed simp

lemma RegisterModule_taken:
  "moduleManager c (modName m) = Some m' \<Longrightarrow> RegisterModule (m # ms) c = (Inl (Panic (modName m @ '' has register'')), c)"
  by simp

lemma client_built:
  assumes E: "sdk_env E"
  shows "\<exists>c. NewPLUGCHAINClient E = (Inr (), c) \<and> registry_is E (clientRegistry c) sdk_registrations \<and>
     moduleManager c = map_of (map (\<lambda>m. (modName m, m)) (sdk_modules E))"
proof -
  obtain reg where reg: "makeEncodingConfig E = (Inr (), reg)" "registry_is E reg ({(ITx, TTx)} \<union> key_registrations)"
    using registersD [OF client_registers [OF E] registry_is_new] by (auto simp: makeEncodingConfig_def)
  let ?Ss = "[{IMsg} \<times> {TMsgSend, TMsgMultiSend} \<union> {(IAccount, TBaseAccount)},
    {IMsg} \<times> {TMsgIssueToken, TMsgEditToken, TMsgMintToken, TMsgTransferOwnerToken} \<union> {(ITokenInterface, TToken)},
    {IMsg} \<times> {TMsgCreateValidator, TMsgEditValidator, TMsgDelegate, TMsgUndelegate, TMsgBeginRedelegate},
    {IMsg} \<times> {TMsgSubmitProposal, TMsgDeposit, TMsgVote},
    {IMsg} \<times> {TMsgIssueClass, TMsgIssueNFT, TMsgEditNFT, TMsgTransferNFT, TMsgBurnNFT, TMsgTransferClass},
    {IMsg} \<times> {TMsgCreatePool, TMsgDepositWithinBatch, TMsgSwapWithinBatch, TMsgWithdrawWithinBatch}]"
  let ?c0 = "\<lparr>moduleManager = Map.empty, clientRegistry = reg\<rparr>"
  have mods: "list_all2 (\<lambda>m S. registers E (modRegister m) S) (sdk_modules E) ?Ss"
    unfolding sdk_modules_def by (intro list.rel_intros) (simp_all only: Module.simps module_registers [OF E])
  have names: "distinct (map modName (sdk_modules E))" by (simp add: sdk_modules_def)
  obtain c where c: "RegisterModule (sdk_modules E) ?c0 = (Inr (), c)"
    "registry_is E (clientRegistry c) ({(ITx, TTx)} \<union> key_registrations \<union> \<Union> (set ?Ss))"
    "moduleManager c = map_of (map (\<lambda>m. (modName m, m)) (sdk_modules E))"
    using RegisterModule_ok [OF mods names, of ?c0] reg(2) by auto
  have "{(ITx, TTx)} \<union> key_registrations \<union> \<Union> (set ?Ss) = sdk_registrations"
  proof (rule set_eqI, clarify)
    fix i t
    show "(i, t) \<in> {(ITx, TTx)} \<union> key_registrations \<union> \<Union> (set ?Ss) \<longleftrightarrow> (i, t) \<in> sdk_registrations"
      by (cases i) (simp_all add: sdk_registrations_def msg_types_eq key_registrations_def, blast)
  qed
  then show ?thesis using c reg(1) by (simp add: NewPLUGCHAINClient_def)
qed

lemma sdk_registrations_eq: "(i, t) \<in> sdk_registrations \<longleftrightarrow> implements t i \<and> i \<noteq> IContent"
  by (cases i) (auto simp: sdk_registrations_def key_registrations_def msg_types_def)


text \<open>An environment of the program: a value is a type with its bytes, and the content of a proposal is a text proposal with these bytes.\<close>

type_synonym demo_value = "GoType \<times> bytes"

definition demo_content :: "demo_value \<Rightarrow> demo_value Any option" where
  "demo_content v = (if snd v = [] then None else Some \<lparr>TypeUrl = CHR ''/'' # proto_name TTextProposal, AnyValue = snd v, cachedValue = None\<rparr>)"

definition demo_sdk_base :: "demo_value SdkEnv" where
  "demo_sdk_base = \<lparr>IsInterface = (\<lambda>_. True), AssignableTo = implements, MessageName = proto_name, IsMessage = (\<lambda>_. True), TypeOf = fst,
     ProtoMarshal = (\<lambda>v. Inr (snd v)), ProtoUnmarshal = (\<lambda>t bz. Inr (t, bz)), ValueUnpackInterfaces = (\<lambda>reg v. Inr v)\<rparr>"

definition demo_sdk :: "demo_value SdkEnv" where
  "demo_sdk = demo_sdk_base\<lparr>ValueUnpackInterfaces := (\<lambda>reg v.
     if fst v = TMsgSubmitProposal then MsgSubmitProposal_UnpackInterfaces demo_sdk_base demo_content (\<lambda>_ v. v) reg v else Inr v)\<rparr>"

lemma demo_sdk_env: "sdk_env demo_sdk" "sdk_env demo_sdk_base"
  by (simp_all add: demo_sdk_def demo_sdk_base_def sdk_env_def)


section \<open>Proposals are not decoded\<close>

lemma content_not_unpacked:
  assumes "\<And>u. impl_of reg IContent u = None" "TypeUrl any \<noteq> ''''" "cachedValue any = None"
  shows "\<exists>e. UnpackAny E reg (Some any) IContent = Inl (Err e)"
  using assms(1)[of "TypeUrl any"] assms(2,3) by (auto simp: UnpackAny_def Let_def impl_of_def split: option.splits)

text \<open>
  \<^bold>\<open>C17.\<close> A client cannot decode the proposals it submits. The module of governance registers \<open>MsgSubmitProposal\<close> as a message, but neither the
  interface of contents nor any of its implementations. The content of the message is unpacked against that interface, so a transaction body
  fetched from a node with a proposal in it, whose content has any type URL, is an error, whatever the rest of the transaction is.
\<close>

theorem proposals_not_decoded:
  assumes E: "sdk_env E" and c: "NewPLUGCHAINClient E = (Inr (), c)"
    and unpack: "ValueUnpackInterfaces E (clientRegistry c) m = MsgSubmitProposal_UnpackInterfaces E get put (clientRegistry c) m"
    and any: "TypeUrl any = CHR ''/'' # proto_name TMsgSubmitProposal" "cachedValue any = None" "ProtoUnmarshal E TMsgSubmitProposal (AnyValue any) = Inr m"
    and content: "get m = Some content" "TypeUrl content \<noteq> ''''" "cachedValue content = None"
    and before: "TxBody_UnpackInterfaces E (clientRegistry c) pre = Inr pre'"
  shows "\<exists>e. Tx_UnpackInterfaces E (clientRegistry c) (Some (pre @ Some any # post)) = Inl (Err e)"
proof -
  have reg: "registry_is E (clientRegistry c) sdk_registrations" using client_built [OF E] c by auto
  then have "impl_of (clientRegistry c) IContent u = None" for u
    by (cases "impl_of (clientRegistry c) IContent u") (auto simp: registry_is_def sdk_registrations_eq)
  then obtain e where e: "UnpackAny E (clientRegistry c) (Some content) IContent = Inl (Err e)" using content_not_unpacked content by blast
  have "impl_of (clientRegistry c) IMsg (TypeUrl any) = Some TMsgSubmitProposal"
    using reg any(1) by (simp add: registry_is_def sdk_registrations_eq key_types_def)
  then have un: "UnpackAny E (clientRegistry c) (Some any) IMsg = Inl (Err e)"
    using any(1) [symmetric] any(2,3) unpack E e content(1)
    by (auto simp: UnpackAny_def Let_def impl_of_def sdk_env_def MsgSubmitProposal_UnpackInterfaces_def split: option.splits)
  have "TxBody_UnpackInterfaces E (clientRegistry c) (pre @ Some any # post) = Inl (Err e)"
    using before by (induction pre arbitrary: pre') (auto simp: un split: sum.splits prod.splits)
  then show ?thesis by (simp add: Tx_UnpackInterfaces_def)
qed

theorem proposals_not_decoded_witness:
  "\<exists>c e. NewPLUGCHAINClient demo_sdk = (Inr (), c) \<and>
     Tx_UnpackInterfaces demo_sdk (clientRegistry c) (Some [Some \<lparr>TypeUrl = ''/cosmos.gov.v1beta1.MsgSubmitProposal'', AnyValue = [1], cachedValue = None\<rparr>]) = Inl (Err e)"
proof -
  obtain c where c: "NewPLUGCHAINClient demo_sdk = (Inr (), c)" "registry_is demo_sdk (clientRegistry c) sdk_registrations"
    using client_built [OF demo_sdk_env(1)] by blast
  let ?any = "\<lparr>TypeUrl = ''/cosmos.gov.v1beta1.MsgSubmitProposal'', AnyValue = [1], cachedValue = None\<rparr> :: demo_value Any"
  let ?m = "(TMsgSubmitProposal, [1]) :: demo_value"
  have none: "impl_of (clientRegistry c) IContent u = None" for u
    using c(2) by (cases "impl_of (clientRegistry c) IContent u") (auto simp: registry_is_def sdk_registrations_eq)
  have "UnpackAny demo_sdk_base (clientRegistry c) (demo_content ?m) IContent = UnpackAny demo_sdk (clientRegistry c) (demo_content ?m) IContent"
    using none [of "''/cosmos.gov.v1beta1.TextProposal''"] by (auto simp: UnpackAny_def demo_content_def impl_of_def split: option.splits)
  then have un: "ValueUnpackInterfaces demo_sdk (clientRegistry c) ?m = MsgSubmitProposal_UnpackInterfaces demo_sdk demo_content (\<lambda>_ v. v) (clientRegistry c) ?m"
    by (simp add: demo_sdk_def MsgSubmitProposal_UnpackInterfaces_def)
  have "\<exists>e. Tx_UnpackInterfaces demo_sdk (clientRegistry c) (Some ([] @ Some ?any # [])) = Inl (Err e)"
    by (rule proposals_not_decoded [OF demo_sdk_env(1) c(1) un, where pre' = "[]"
        and content = "\<lparr>TypeUrl = ''/cosmos.gov.v1beta1.TextProposal'', AnyValue = [1], cachedValue = None\<rparr>"])
      (simp_all add: demo_sdk_def demo_sdk_base_def demo_content_def)
  then show ?thesis using c(1) by auto
qed

end
