(* ===== verification/Logging.thy ===== *)
theory Logging
  imports Prelude
begin

text \<open>
  The logger (\<open>utils/log/logger.go\<close>, \<open>utils/log/type.go\<close>). Logrus is a record of the functions that the wrapper calls, on its loggers \<open>'l\<close> and its
  entries \<open>'e\<close>; \<open>'o\<close> is what a call writes. A value of a key/value list is any Go value; only strings are keys.
\<close>

section \<open>Model\<close>

datatype Formatter = TextFormatter bool | JSONFormatter
datatype Level = DebugLevel | InfoLevel | WarnLevel | ErrorLevel
datatype LogOutput = Stdout | Stderr | OtherWriter nat
datatype 'x LogValue = LString string | LOther 'x

type_synonym 'x Fields = "string \<rightharpoonup> 'x LogValue"

record ('l, 'e, 'x, 'o) Logrus =
  lrNew :: 'l
  lrSetFormatter :: "Formatter \<Rightarrow> 'l \<Rightarrow> 'l"
  lrSetOutput :: "LogOutput \<Rightarrow> 'l \<Rightarrow> 'l"
  lrSetLevel :: "Level \<Rightarrow> 'l \<Rightarrow> 'l"
  lrWithFields :: "'x Fields \<Rightarrow> 'l \<Rightarrow> 'e"
  lrEntryWithFields :: "'x Fields \<Rightarrow> 'e \<Rightarrow> 'e"
  lrPrint :: "Level \<Rightarrow> string \<Rightarrow> 'e \<Rightarrow> 'o"

record LogConfig =
  lcFormat :: string
  lcLevel :: string

text \<open>The loop over the list, two values at a time.\<close>

fun fields_loop :: "'x LogValue list \<Rightarrow> 'x Fields \<Rightarrow> 'x Fields res" where
  "fields_loop (LString k # v # kvs) fs = fields_loop kvs (fs(k \<mapsto> v))"
| "fields_loop (LOther _ # v # kvs) fs = Inl (Panic ''interface conversion: interface is not string'')"
| "fields_loop _ fs = Inr fs"

definition argsToFields :: "'x LogValue list \<Rightarrow> 'x Fields res" where
  "argsToFields keyvals = (if length keyvals mod 2 \<noteq> 0 then Inr Map.empty else fields_loop keyvals Map.empty)"

definition NewDefaultLogger :: "('l, 'e, 'x, 'o) Logrus \<Rightarrow> 'l" where
  "NewDefaultLogger L = lrSetLevel L InfoLevel (lrSetOutput L Stdout (lrSetFormatter L (TextFormatter True) (lrNew L)))"

definition NewLogger :: "('l, 'e, 'x, 'o) Logrus \<Rightarrow> LogConfig \<Rightarrow> 'l" where
  "NewLogger L cfg =
     (let logger = lrNew L;
          logger = (if lcFormat cfg = ''text'' then lrSetFormatter L (TextFormatter True) logger
                    else if lcFormat cfg = ''json'' then lrSetFormatter L JSONFormatter logger else logger);
          level = ToLower (lcLevel cfg);
          logger = (if level = ''debug'' then lrSetLevel L DebugLevel logger else if level = ''info'' then lrSetLevel L InfoLevel logger
                    else if level = ''warn'' then lrSetLevel L WarnLevel logger else if level = ''error'' then lrSetLevel L ErrorLevel logger else logger)
      in lrSetOutput L Stdout logger)"

definition SetOutput :: "('l, 'e, 'x, 'o) Logrus \<Rightarrow> LogOutput \<Rightarrow> 'l \<Rightarrow> 'l" where
  "SetOutput L output logger = lrSetOutput L Stdout logger"

definition Logger_Debug :: "('l, 'e, 'x, 'o) Logrus \<Rightarrow> 'l \<Rightarrow> string \<Rightarrow> 'x LogValue list \<Rightarrow> 'o res" where
  "Logger_Debug L l msg keyvals = bindR (argsToFields keyvals) (\<lambda>f. Inr (lrPrint L DebugLevel msg (lrWithFields L f l)))"

definition Logger_Info :: "('l, 'e, 'x, 'o) Logrus \<Rightarrow> 'l \<Rightarrow> string \<Rightarrow> 'x LogValue list \<Rightarrow> 'o res" where
  "Logger_Info L l msg keyvals = bindR (argsToFields keyvals) (\<lambda>f. Inr (lrPrint L InfoLevel msg (lrWithFields L f l)))"

definition Logger_Error :: "('l, 'e, 'x, 'o) Logrus \<Rightarrow> 'l \<Rightarrow> string \<Rightarrow> 'x LogValue list \<Rightarrow> 'o res" where
  "Logger_Error L l msg keyvals = bindR (argsToFields keyvals) (\<lambda>f. Inr (lrPrint L ErrorLevel msg (lrWithFields L f l)))"

definition Logger_With :: "('l, 'e, 'x, 'o) Logrus \<Rightarrow> 'l \<Rightarrow> 'x LogValue list \<Rightarrow> 'e res" where
  "Logger_With L l keyvals = bindR (argsToFields keyvals) (\<lambda>f. Inr (lrWithFields L f l))"

definition entry_Debug :: "('l, 'e, 'x, 'o) Logrus \<Rightarrow> 'e \<Rightarrow> string \<Rightarrow> 'x LogValue list \<Rightarrow> 'o res" where
  "entry_Debug L e msg keyvals = bindR (argsToFields keyvals) (\<lambda>f. Inr (lrPrint L DebugLevel msg (lrEntryWithFields L f e)))"

definition entry_Info :: "('l, 'e, 'x, 'o) Logrus \<Rightarrow> 'e \<Rightarrow> string \<Rightarrow> 'x LogValue list \<Rightarrow> 'o res" where
  "entry_Info L e msg keyvals = bindR (argsToFields keyvals) (\<lambda>f. Inr (lrPrint L InfoLevel msg (lrEntryWithFields L f e)))"

definition entry_Error :: "('l, 'e, 'x, 'o) Logrus \<Rightarrow> 'e \<Rightarrow> string \<Rightarrow> 'x LogValue list \<Rightarrow> 'o res" where
  "entry_Error L e msg keyvals = bindR (argsToFields keyvals) (\<lambda>f. Inr (lrPrint L ErrorLevel msg (lrEntryWithFields L f e)))"

definition entry_With :: "('l, 'e, 'x, 'o) Logrus \<Rightarrow> 'e \<Rightarrow> 'x LogValue list \<Rightarrow> 'e res" where
  "entry_With L e keyvals = bindR (argsToFields keyvals) (\<lambda>f. Inr (lrEntryWithFields L f e))"

section \<open>Properties\<close>

text \<open>Keys and values as a list of pairs.\<close>

fun keyvals_of :: "(string \<times> 'x LogValue) list \<Rightarrow> 'x LogValue list" where
  "keyvals_of [] = []"
| "keyvals_of ((k, v) # ps) = LString k # v # keyvals_of ps"

lemma keyvals_even: "length (keyvals_of ps) mod 2 = 0"
  by (induction ps rule: keyvals_of.induct) (simp_all add: mod_Suc)

lemma fields_loop_pairs: "fields_loop (keyvals_of ps) fs = Inr (fs ++ map_of (rev ps))"
  by (induction ps arbitrary: fs rule: keyvals_of.induct) simp_all

lemma argsToFields_pairs: "argsToFields (keyvals_of ps) = Inr (map_of (rev ps))"
  by (simp add: argsToFields_def keyvals_even fields_loop_pairs)

lemma keyvals_append: "keyvals_of (ps @ qs) = keyvals_of ps @ keyvals_of qs"
  by (induction ps rule: keyvals_of.induct) simp_all

text \<open>
  The documented contract of logrus: the fields of an entry of an entry are added to those that it has, and take precedence.
\<close>

definition logrus_law :: "('l, 'e, 'x, 'o) Logrus \<Rightarrow> bool" where
  "logrus_law L \<longleftrightarrow> (\<forall>f g l. lrEntryWithFields L g (lrWithFields L f l) = lrWithFields L (f ++ g) l)"

text \<open>
  A logger with fields writes what the logger writes with all fields at once: the values of \<open>With\<close> and of the call are joined, later ones win.
\<close>

theorem With_joins_fields:
  assumes "logrus_law L"
  shows "bindR (Logger_With L l (keyvals_of ps)) (\<lambda>e. entry_Info L e msg (keyvals_of qs)) = Logger_Info L l msg (keyvals_of ps @ keyvals_of qs)"
    and "bindR (Logger_With L l (keyvals_of ps)) (\<lambda>e. bindR (entry_With L e (keyvals_of qs)) (\<lambda>e. entry_Error L e msg [])) =
         Logger_Error L l msg (keyvals_of ps @ keyvals_of qs)"
proof -
  have none: "argsToFields [] = Inr (Map.empty :: 'c Fields)" by (simp add: argsToFields_def)
  show "bindR (Logger_With L l (keyvals_of ps)) (\<lambda>e. entry_Info L e msg (keyvals_of qs)) = Logger_Info L l msg (keyvals_of ps @ keyvals_of qs)"
    and "bindR (Logger_With L l (keyvals_of ps)) (\<lambda>e. bindR (entry_With L e (keyvals_of qs)) (\<lambda>e. entry_Error L e msg [])) =
         Logger_Error L l msg (keyvals_of ps @ keyvals_of qs)"
    using assms
    by (simp_all add: Logger_With_def entry_Info_def entry_With_def entry_Error_def Logger_Info_def Logger_Error_def argsToFields_pairs none
        keyvals_append [symmetric] logrus_law_def)
qed

text \<open>A list with an odd number of values loses all its fields, and a key that is not a string ends the program.\<close>

lemma argsToFields_odd: "argsToFields (keyvals_of ps @ [v]) = Inr Map.empty"
  using keyvals_even [of ps] by (simp add: argsToFields_def mod_Suc)

lemma argsToFields_key_panics:
  "\<exists>p. argsToFields (keyvals_of ps @ LOther x # v # keyvals_of qs) = Inl (Panic p)"
proof -
  have "fields_loop (keyvals_of ps @ LOther x # v # keyvals_of qs) f = Inl (Panic ''interface conversion: interface is not string'')" for f
    by (induction ps arbitrary: f rule: keyvals_of.induct) simp_all
  moreover have "length (keyvals_of ps @ LOther x # v # keyvals_of qs) mod 2 = 0"
    using keyvals_even [of ps] keyvals_even [of qs] by (simp add: mod_Suc) presburger
  ultimately show ?thesis by (simp add: argsToFields_def)
qed

text \<open>The writer given to \<open>SetOutput\<close> is ignored.\<close>

lemma SetOutput_ignores: "SetOutput L w l = SetOutput L w' l"
  by (simp add: SetOutput_def)

end
