(* ===== verification/NumberForms.thy ===== *)
theory NumberForms
  imports SdkDec
begin

text \<open>
  The JSON, YAML and Amino forms of integers and decimals (\<open>types/int.go\<close>, \<open>types/dec.go\<close>). \<open>json\<close> and \<open>unjson\<close> are the encoding and
  decoding of a string by encoding/json. \<open>None\<close> is the number whose pointer is nil.
\<close>

section \<open>Model\<close>

definition marshalJSON :: "(string \<Rightarrow> string) \<Rightarrow> int \<Rightarrow> string" where
  "marshalJSON json i = json (show_int i)"

definition unmarshalJSON :: "(string \<Rightarrow> string res) \<Rightarrow> string \<Rightarrow> int res" where
  "unmarshalJSON unjson bz = bindR (unjson bz) unmarshalText"

definition Int_MarshalJSON :: "(string \<Rightarrow> string) \<Rightarrow> int option \<Rightarrow> string" where
  "Int_MarshalJSON json i = marshalJSON json (case i of None \<Rightarrow> 0 | Some x \<Rightarrow> x)"

definition Int_UnmarshalJSON :: "(string \<Rightarrow> string res) \<Rightarrow> string \<Rightarrow> int res" where
  "Int_UnmarshalJSON unjson bz = unmarshalJSON unjson bz"

definition Int_MarshalYAML :: "int \<Rightarrow> string" where
  "Int_MarshalYAML i = Int_String i"

definition Int_MarshalAmino :: "int option \<Rightarrow> string" where
  "Int_MarshalAmino i = Int_Marshal i"

definition Int_UnmarshalAmino :: "int option \<Rightarrow> string \<Rightarrow> (int option) res" where
  "Int_UnmarshalAmino i bz = Int_Unmarshal i bz"

text \<open>The text for a nil decimal, computed once by \<open>init\<close>.\<close>

definition nilJSON :: "(string \<Rightarrow> string) \<Rightarrow> string" where
  "nilJSON json = json (show_int 0)"

definition Dec_MarshalJSON :: "(string \<Rightarrow> string) \<Rightarrow> int option \<Rightarrow> string" where
  "Dec_MarshalJSON json d = (case d of None \<Rightarrow> nilJSON json | Some x \<Rightarrow> json (Dec_String x))"

definition Dec_UnmarshalJSON :: "(string \<Rightarrow> string res) \<Rightarrow> string \<Rightarrow> int res" where
  "Dec_UnmarshalJSON unjson bz = bindR (unjson bz) NewDecFromStr"

definition Dec_MarshalYAML :: "int option \<Rightarrow> string" where
  "Dec_MarshalYAML d = Dec_StringP d"

definition Dec_MarshalAmino :: "int option \<Rightarrow> string" where
  "Dec_MarshalAmino d = Dec_Marshal d"

definition Dec_UnmarshalAmino :: "int option \<Rightarrow> string \<Rightarrow> (int option) res" where
  "Dec_UnmarshalAmino d bz = Dec_Unmarshal d bz"

section \<open>Round trips\<close>

definition number_char :: "char \<Rightarrow> bool" where
  "number_char c \<longleftrightarrow> is_digit c \<or> c = CHR ''-'' \<or> c = CHR ''.''"

text \<open>The contract of encoding/json on the texts of numbers.\<close>

definition json_numbers :: "(string \<Rightarrow> string) \<Rightarrow> (string \<Rightarrow> string res) \<Rightarrow> bool" where
  "json_numbers json unjson \<longleftrightarrow> (\<forall>s. list_all number_char s \<longrightarrow> unjson (json s) = Inr s)"

lemma unmarshalText_show: "valid_Int x \<Longrightarrow> unmarshalText (show_int x) = Inr x"
  by (simp add: unmarshalText_def maxBitLen_check)

lemma show_int_chars: "list_all number_char (show_int x)"
  using show_nat_digits by (auto simp: show_int_def list_all_iff number_char_def)

lemma Dec_String_chars: "list_all number_char (Dec_String d)"
proof -
  have "list_all number_char (dec_text n)" for n
    using dec_text_parts [of n] by (auto simp: list_all_iff number_char_def)
  then show ?thesis by (simp add: Dec_String_text number_char_def)
qed

lemma NewDecFromStr_0: "NewDecFromStr (show_int 0) = Inr 0"
  by code_simp

text \<open>
  Numbers survive JSON. An integer in the range of 255 bits and every decimal are read back from their JSON form, the nil ones as zero; the Amino
  form of an integer is read back as well. What is read as an integer is always in range.
\<close>

theorem number_forms_roundtrip:
  assumes law: "json_numbers json unjson" and i: "\<And>x. i = Some x \<Longrightarrow> valid_Int x"
  shows "Int_UnmarshalJSON unjson (Int_MarshalJSON json i) = Inr (case i of None \<Rightarrow> 0 | Some x \<Rightarrow> x)"
    and "Dec_UnmarshalJSON unjson (Dec_MarshalJSON json d) = Inr (case d of None \<Rightarrow> 0 | Some x \<Rightarrow> x)"
    and "Int_UnmarshalJSON unjson bz = Inr y \<Longrightarrow> valid_Int y"
proof -
  have un: "unjson (json s) = Inr s" if "list_all number_char s" for s
    using law that by (simp add: json_numbers_def)
  show "Int_UnmarshalJSON unjson (Int_MarshalJSON json i) = Inr (case i of None \<Rightarrow> 0 | Some x \<Rightarrow> x)"
    using i by (cases i) (simp_all add: Int_UnmarshalJSON_def unmarshalJSON_def Int_MarshalJSON_def marshalJSON_def un show_int_chars unmarshalText_show)
  show "Dec_UnmarshalJSON unjson (Dec_MarshalJSON json d) = Inr (case d of None \<Rightarrow> 0 | Some x \<Rightarrow> x)"
    by (cases d) (simp_all add: Dec_UnmarshalJSON_def Dec_MarshalJSON_def nilJSON_def un show_int_chars Dec_String_chars NewDecFromStr_String NewDecFromStr_0)
  show "Int_UnmarshalJSON unjson bz = Inr y \<Longrightarrow> valid_Int y"
    by (auto simp: Int_UnmarshalJSON_def unmarshalJSON_def unmarshalText_def maxBitLen_check split: option.splits if_splits)
qed

text \<open>A decimal is read from JSON without the test of its range that the binary form has.\<close>

lemma Dec_UnmarshalJSON_unbounded:
  assumes "json_numbers json unjson"
  shows "Dec_UnmarshalJSON unjson (json (Dec_String (2 ^ 400))) = Inr (2 ^ 400) \<and> \<not> valid_Dec (2 ^ 400)
    \<and> (\<exists>e. Dec_Unmarshal j (Dec_Marshal (Some (2 ^ 400))) = Inl (Err e))"
proof -
  have ne: "show_int x \<noteq> []" for x by (simp add: show_int_def)
  have "unjson (json (Dec_String (2 ^ 400))) = Inr (Dec_String (2 ^ 400))" using assms Dec_String_chars by (simp add: json_numbers_def)
  then have "Dec_UnmarshalJSON unjson (json (Dec_String (2 ^ 400))) = Inr (2 ^ 400)" by (simp only: Dec_UnmarshalJSON_def bindR.simps NewDecFromStr_String)
  moreover have "maxBitLen < BitLen (2 ^ 400)" by (simp add: maxBitLen_check valid_Int_def)
  then have "\<exists>e. Dec_Unmarshal j (Dec_Marshal (Some (2 ^ 400))) = Inl (Err e)" by (simp add: Dec_Unmarshal_def Dec_Marshal_def ne)
  ultimately show ?thesis by (simp add: valid_Dec_def)
qed

end
