(* ===== verification/Factory.thy ===== *)
theory Factory
  imports Client
begin

text \<open>
  The transaction factory as an object (\<open>client/tx/factory.go\<close>): all its fields, its getters and its setters, each of which changes the
  object and returns it, and the chain of calls by which the client fills it (\<open>prepare\<close>, \<open>prepareTemp\<close>). A field that is nil at first is an
  \<open>option\<close>; \<open>'f\<close> is the type of floating point numbers, with its zero, and \<open>'q\<close> that of query functions. A \<open>TxConfig\<close> is given by its sign mode handler.
\<close>

section \<open>Model\<close>

record ('k, 'f, 'q) FactoryObj =
  fo_address :: "string"
  fo_chainID :: "string"
  fo_memo :: "string"
  fo_password :: "string"
  fo_accountNumber :: "64 word"
  fo_sequence :: "64 word"
  fo_gas :: "64 word"
  fo_gasAdjustment :: "'f"
  fo_simulateAndExecute :: "bool"
  fo_fees :: "Coins"
  fo_gasPrices :: "DecCoins"
  fo_mode :: "string"
  fo_signMode :: "32 word"
  fo_signModeHandler :: "SignModeHandlerMap option"
  fo_keyManager :: "'k KeyManager option"
  fo_txConfig :: "SignModeHandlerMap option"
  fo_queryFunc :: "'q option"

definition NewFactory :: "'f \<Rightarrow> ('k, 'f, 'q) FactoryObj" where
  "NewFactory zero =
     \<lparr>fo_address = '''',
      fo_chainID = '''',
      fo_memo = '''',
      fo_password = '''',
      fo_accountNumber = 0,
      fo_sequence = 0,
      fo_gas = 0,
      fo_gasAdjustment = zero,
      fo_simulateAndExecute = False,
      fo_fees = [],
      fo_gasPrices = [],
      fo_mode = '''',
      fo_signMode = SIGN_MODE_UNSPECIFIED,
      fo_signModeHandler = None,
      fo_keyManager = None,
      fo_txConfig = None,
      fo_queryFunc = None\<rparr>"

definition Factory_ChainID :: "('k, 'f, 'q) FactoryObj \<Rightarrow> string" where
  "Factory_ChainID f = fo_chainID f"

definition Factory_Gas :: "('k, 'f, 'q) FactoryObj \<Rightarrow> 64 word" where
  "Factory_Gas f = fo_gas f"

definition Factory_GasAdjustment :: "('k, 'f, 'q) FactoryObj \<Rightarrow> 'f" where
  "Factory_GasAdjustment f = fo_gasAdjustment f"

definition Factory_Fees :: "('k, 'f, 'q) FactoryObj \<Rightarrow> Coins" where
  "Factory_Fees f = fo_fees f"

definition Factory_Sequence :: "('k, 'f, 'q) FactoryObj \<Rightarrow> 64 word" where
  "Factory_Sequence f = fo_sequence f"

definition Factory_Memo :: "('k, 'f, 'q) FactoryObj \<Rightarrow> string" where
  "Factory_Memo f = fo_memo f"

definition Factory_AccountNumber :: "('k, 'f, 'q) FactoryObj \<Rightarrow> 64 word" where
  "Factory_AccountNumber f = fo_accountNumber f"

definition Factory_KeyManager :: "('k, 'f, 'q) FactoryObj \<Rightarrow> 'k KeyManager option" where
  "Factory_KeyManager f = fo_keyManager f"

definition Factory_Mode :: "('k, 'f, 'q) FactoryObj \<Rightarrow> string" where
  "Factory_Mode f = fo_mode f"

definition Factory_SimulateAndExecute :: "('k, 'f, 'q) FactoryObj \<Rightarrow> bool" where
  "Factory_SimulateAndExecute f = fo_simulateAndExecute f"

definition Factory_Password :: "('k, 'f, 'q) FactoryObj \<Rightarrow> string" where
  "Factory_Password f = fo_password f"

definition Factory_Address :: "('k, 'f, 'q) FactoryObj \<Rightarrow> string" where
  "Factory_Address f = fo_address f"

definition WithChainID :: "string \<Rightarrow> ('k, 'f, 'q) FactoryObj \<Rightarrow> ('k, 'f, 'q) FactoryObj" where
  "WithChainID x f = f\<lparr>fo_chainID := x\<rparr>"

definition WithGas :: "64 word \<Rightarrow> ('k, 'f, 'q) FactoryObj \<Rightarrow> ('k, 'f, 'q) FactoryObj" where
  "WithGas x f = f\<lparr>fo_gas := x\<rparr>"

definition WithGasAdjustment :: "'f \<Rightarrow> ('k, 'f, 'q) FactoryObj \<Rightarrow> ('k, 'f, 'q) FactoryObj" where
  "WithGasAdjustment x f = f\<lparr>fo_gasAdjustment := x\<rparr>"

definition WithFee :: "Coins \<Rightarrow> ('k, 'f, 'q) FactoryObj \<Rightarrow> ('k, 'f, 'q) FactoryObj" where
  "WithFee x f = f\<lparr>fo_fees := x\<rparr>"

definition WithSequence :: "64 word \<Rightarrow> ('k, 'f, 'q) FactoryObj \<Rightarrow> ('k, 'f, 'q) FactoryObj" where
  "WithSequence x f = f\<lparr>fo_sequence := x\<rparr>"

definition WithMemo :: "string \<Rightarrow> ('k, 'f, 'q) FactoryObj \<Rightarrow> ('k, 'f, 'q) FactoryObj" where
  "WithMemo x f = f\<lparr>fo_memo := x\<rparr>"

definition WithAccountNumber :: "64 word \<Rightarrow> ('k, 'f, 'q) FactoryObj \<Rightarrow> ('k, 'f, 'q) FactoryObj" where
  "WithAccountNumber x f = f\<lparr>fo_accountNumber := x\<rparr>"

definition WithKeyManager :: "'k KeyManager option \<Rightarrow> ('k, 'f, 'q) FactoryObj \<Rightarrow> ('k, 'f, 'q) FactoryObj" where
  "WithKeyManager x f = f\<lparr>fo_keyManager := x\<rparr>"

definition WithMode :: "string \<Rightarrow> ('k, 'f, 'q) FactoryObj \<Rightarrow> ('k, 'f, 'q) FactoryObj" where
  "WithMode x f = f\<lparr>fo_mode := x\<rparr>"

definition WithSimulateAndExecute :: "bool \<Rightarrow> ('k, 'f, 'q) FactoryObj \<Rightarrow> ('k, 'f, 'q) FactoryObj" where
  "WithSimulateAndExecute x f = f\<lparr>fo_simulateAndExecute := x\<rparr>"

definition WithPassword :: "string \<Rightarrow> ('k, 'f, 'q) FactoryObj \<Rightarrow> ('k, 'f, 'q) FactoryObj" where
  "WithPassword x f = f\<lparr>fo_password := x\<rparr>"

definition WithAddress :: "string \<Rightarrow> ('k, 'f, 'q) FactoryObj \<Rightarrow> ('k, 'f, 'q) FactoryObj" where
  "WithAddress x f = f\<lparr>fo_address := x\<rparr>"

definition WithTxConfig :: "SignModeHandlerMap option \<Rightarrow> ('k, 'f, 'q) FactoryObj \<Rightarrow> ('k, 'f, 'q) FactoryObj" where
  "WithTxConfig x f = f\<lparr>fo_txConfig := x\<rparr>"

definition WithSignModeHandler :: "SignModeHandlerMap option \<Rightarrow> ('k, 'f, 'q) FactoryObj \<Rightarrow> ('k, 'f, 'q) FactoryObj" where
  "WithSignModeHandler x f = f\<lparr>fo_signModeHandler := x\<rparr>"

definition WithQueryFunc :: "'q option \<Rightarrow> ('k, 'f, 'q) FactoryObj \<Rightarrow> ('k, 'f, 'q) FactoryObj" where
  "WithQueryFunc x f = f\<lparr>fo_queryFunc := x\<rparr>"

lemmas factory_setter_defs = WithChainID_def WithGas_def WithGasAdjustment_def WithFee_def WithSequence_def WithMemo_def WithAccountNumber_def WithKeyManager_def WithMode_def WithSimulateAndExecute_def WithPassword_def WithAddress_def WithTxConfig_def WithSignModeHandler_def WithQueryFunc_def

lemmas getter_defs = Factory_ChainID_def Factory_Gas_def Factory_GasAdjustment_def Factory_Fees_def Factory_Sequence_def Factory_Memo_def Factory_AccountNumber_def Factory_KeyManager_def Factory_Mode_def Factory_SimulateAndExecute_def Factory_Password_def Factory_Address_def

section \<open>Getters and setters\<close>

text \<open>The contract of a field with its getter and setter: what was set last is read.\<close>

locale factory_field =
  fixes get :: "'o \<Rightarrow> 'v" and set_to :: "'v \<Rightarrow> 'o \<Rightarrow> 'o"
  assumes get_set: "get (set_to v ob) = v"
    and set_set: "set_to v (set_to w ob) = set_to v ob"
    and set_get: "set_to (get ob) ob = ob"
begin

lemma last_wins: "foldl (\<lambda>ob v. set_to v ob) ob (vs @ [v]) = set_to v ob"
  by (induction vs arbitrary: ob) (simp_all add: set_set)

lemma determined: "set_to v ob = set_to w ob \<longleftrightarrow> v = w"
  by (metis get_set)

end

interpretation f_chainID: factory_field Factory_ChainID WithChainID
  by unfold_locales (simp_all add: Factory_ChainID_def WithChainID_def)

interpretation f_gas: factory_field Factory_Gas WithGas
  by unfold_locales (simp_all add: Factory_Gas_def WithGas_def)

interpretation f_gasAdjustment: factory_field Factory_GasAdjustment WithGasAdjustment
  by unfold_locales (simp_all add: Factory_GasAdjustment_def WithGasAdjustment_def)

interpretation f_fees: factory_field Factory_Fees WithFee
  by unfold_locales (simp_all add: Factory_Fees_def WithFee_def)

interpretation f_sequence: factory_field Factory_Sequence WithSequence
  by unfold_locales (simp_all add: Factory_Sequence_def WithSequence_def)

interpretation f_memo: factory_field Factory_Memo WithMemo
  by unfold_locales (simp_all add: Factory_Memo_def WithMemo_def)

interpretation f_accountNumber: factory_field Factory_AccountNumber WithAccountNumber
  by unfold_locales (simp_all add: Factory_AccountNumber_def WithAccountNumber_def)

interpretation f_keyManager: factory_field Factory_KeyManager WithKeyManager
  by unfold_locales (simp_all add: Factory_KeyManager_def WithKeyManager_def)

interpretation f_mode: factory_field Factory_Mode WithMode
  by unfold_locales (simp_all add: Factory_Mode_def WithMode_def)

interpretation f_simulateAndExecute: factory_field Factory_SimulateAndExecute WithSimulateAndExecute
  by unfold_locales (simp_all add: Factory_SimulateAndExecute_def WithSimulateAndExecute_def)

interpretation f_password: factory_field Factory_Password WithPassword
  by unfold_locales (simp_all add: Factory_Password_def WithPassword_def)

interpretation f_address: factory_field Factory_Address WithAddress
  by unfold_locales (simp_all add: Factory_Address_def WithAddress_def)

text \<open>The factories that a caller can make: there is no setter for the gas prices and none for the sign mode.\<close>

inductive made :: "'f \<Rightarrow> ('k, 'f, 'q) FactoryObj \<Rightarrow> bool" for zero where
  made_new: "made zero (NewFactory zero)"
| made_chainID: "made zero f \<Longrightarrow> made zero (WithChainID xchainID f)"
| made_gas: "made zero f \<Longrightarrow> made zero (WithGas xgas f)"
| made_gasAdjustment: "made zero f \<Longrightarrow> made zero (WithGasAdjustment xgasAdjustment f)"
| made_fees: "made zero f \<Longrightarrow> made zero (WithFee xfees f)"
| made_sequence: "made zero f \<Longrightarrow> made zero (WithSequence xsequence f)"
| made_memo: "made zero f \<Longrightarrow> made zero (WithMemo xmemo f)"
| made_accountNumber: "made zero f \<Longrightarrow> made zero (WithAccountNumber xaccountNumber f)"
| made_keyManager: "made zero f \<Longrightarrow> made zero (WithKeyManager xkeyManager f)"
| made_mode: "made zero f \<Longrightarrow> made zero (WithMode xmode f)"
| made_simulateAndExecute: "made zero f \<Longrightarrow> made zero (WithSimulateAndExecute xsimulateAndExecute f)"
| made_password: "made zero f \<Longrightarrow> made zero (WithPassword xpassword f)"
| made_address: "made zero f \<Longrightarrow> made zero (WithAddress xaddress f)"
| made_txConfig: "made zero f \<Longrightarrow> made zero (WithTxConfig xtxConfig f)"
| made_signModeHandler: "made zero f \<Longrightarrow> made zero (WithSignModeHandler xsignModeHandler f)"
| made_queryFunc: "made zero f \<Longrightarrow> made zero (WithQueryFunc xqueryFunc f)"

lemma made_without_gas_prices: "made zero f \<Longrightarrow> fo_gasPrices f = [] \<and> fo_signMode f = SIGN_MODE_UNSPECIFIED"
  by (induction rule: made.induct) (simp_all add: NewFactory_def factory_setter_defs)

section \<open>The factory of the client\<close>

text \<open>What building and signing read of a factory whose handlers and key manager are set.\<close>

definition as_ctx :: "('k, 'f, 'q) FactoryObj \<Rightarrow> 'k BuildCtx option" where
  "as_ctx f =
     (case (fo_signModeHandler f, fo_txConfig f, fo_keyManager f) of
        (Some h, Some t, Some km) \<Rightarrow>
          Some \<lparr>bfactory = \<lparr>fchainID = fo_chainID f, fmemo = fo_memo f, fpassword = fo_password f, faccountNumber = fo_accountNumber f,
                  fsequence = fo_sequence f, fgas = fo_gas f, ffees = fo_fees f, fgasPrices = fo_gasPrices f, fsignMode = fo_signMode f,
                  fhandler = h, ftxHandler = t, fkeys = km\<rparr>,
                baddress = fo_address f, bmode = fo_mode f, bsimulate = fo_simulateAndExecute f\<rparr>
      | _ \<Rightarrow> None)"

text \<open>The calls of \<open>prepare\<close> and \<open>prepareTemp\<close>, in their order: the configuration, the account, and the options of the transaction.\<close>

definition config_chain :: "('m, 'k, 'c, 'w) Base \<Rightarrow> BaseTx \<Rightarrow> SignModeHandlerMap \<Rightarrow> ('k, 'f, 'q) FactoryObj \<Rightarrow> ('k, 'f, 'q) FactoryObj" where
  "config_chain base baseTx h f =
     WithTxConfig (Some (btxHandler base)) (WithSignModeHandler (Some h) (WithGas (cfgGas base) (WithSimulateAndExecute (Simulate baseTx)
       (WithMode (cfgMode base)
         (WithKeyManager (Some \<lparr>kmFind = (\<lambda>n p. bindR (bkeys base n p) (\<lambda>(k, _). Inr k)), kmSign = bsign base\<rparr>)
           (WithChainID (cfgChainId base) f))))))"

definition account_chain :: "string \<Rightarrow> 64 word \<Rightarrow> 64 word \<Rightarrow> string \<Rightarrow> ('k, 'f, 'q) FactoryObj \<Rightarrow> ('k, 'f, 'q) FactoryObj" where
  "account_chain address accountNumber sequence password f =
     WithPassword password (WithSequence sequence (WithAccountNumber accountNumber (WithAddress address f)))"

definition options_chain :: "BaseTx \<Rightarrow> Coins \<Rightarrow> ('k, 'f, 'q) FactoryObj \<Rightarrow> ('k, 'f, 'q) FactoryObj" where
  "options_chain baseTx fees f =
     (let f = WithFee fees f;
          f = (if 0 < length (Mode baseTx) then WithMode (Mode baseTx) f else f);
          f = (if 0 < Gas baseTx then WithGas (Gas baseTx) f else f)
      in if 0 < length (BMemo baseTx) then WithMemo (BMemo baseTx) f else f)"

lemma made_chains:
  "made zero f \<Longrightarrow> made zero (config_chain base baseTx h f)"
  "made zero f \<Longrightarrow> made zero (account_chain address num seq pw f)"
  "made zero f \<Longrightarrow> made zero (options_chain baseTx fees f)"
  by (simp_all add: config_chain_def account_chain_def options_chain_def Let_def made.intros)

lemma as_ctx_config:
  "MakeSignModeHandler DefaultSignModes = Inr h \<Longrightarrow> start_factory base baseTx = Inr b \<Longrightarrow> as_ctx (config_chain base baseTx h (NewFactory zero)) = Some b"
  by (auto simp: start_factory_def as_ctx_def config_chain_def factory_setter_defs NewFactory_def)

lemma as_ctx_account: "as_ctx f = Some b \<Longrightarrow> as_ctx (account_chain address num seq pw f) = Some (with_account address num seq pw b)"
  by (auto simp: as_ctx_def account_chain_def factory_setter_defs with_account_def split: option.splits)

lemma as_ctx_fee: "as_ctx f = Some b \<Longrightarrow> as_ctx (WithFee x f) = Some (b\<lparr>bfactory := (bfactory b)\<lparr>ffees := x\<rparr>\<rparr>)"
  by (auto simp: as_ctx_def factory_setter_defs split: option.splits)

lemma as_ctx_mode: "as_ctx f = Some b \<Longrightarrow> as_ctx (WithMode x f) = Some (b\<lparr>bmode := x\<rparr>)"
  by (auto simp: as_ctx_def factory_setter_defs split: option.splits)

lemma as_ctx_gas: "as_ctx f = Some b \<Longrightarrow> as_ctx (WithGas g f) = Some (b\<lparr>bfactory := (bfactory b)\<lparr>fgas := g\<rparr>\<rparr>)"
  by (auto simp: as_ctx_def factory_setter_defs split: option.splits)

lemma as_ctx_memo: "as_ctx f = Some b \<Longrightarrow> as_ctx (WithMemo m f) = Some (b\<lparr>bfactory := (bfactory b)\<lparr>fmemo := m\<rparr>\<rparr>)"
  by (auto simp: as_ctx_def factory_setter_defs split: option.splits)

lemmas as_ctx_setters = as_ctx_fee as_ctx_mode as_ctx_gas as_ctx_memo

lemma as_ctx_options: "as_ctx f = Some b \<Longrightarrow> as_ctx (options_chain baseTx fees f) = Some (finish_factory baseTx fees b)"
  unfolding options_chain_def finish_factory_def Let_def
  by (drule as_ctx_fee [of f b fees]) (simp add: as_ctx_setters)

lemma as_ctx_made: "as_ctx f = Some b \<Longrightarrow> made zero f \<Longrightarrow> fgasPrices (bfactory b) = [] \<and> fsignMode (bfactory b) = SIGN_MODE_UNSPECIFIED"
  using made_without_gas_prices [of zero f] by (auto simp: as_ctx_def split: option.splits)


end
