(* ===== verification/KeyForms.thy ===== *)
theory KeyForms
  imports AminoCompat Secp Ed25519 TxBuilder
begin

text \<open>
  The forms of keys: the methods of secp256k1 keys that do not compute on the curve (\<open>crypto/keys/secp256k1/secp256k1.go\<close>) and the ones of
  the build with libsecp256k1 (\<open>secp256k1_cgo.go\<close>), the keys inside a threshold key (\<open>crypto/keys/multisig/multisig.go\<close>), and the
  registrations of the key types with Amino codecs (\<open>crypto/codec/amino.go\<close>, \<open>crypto/keys/multisig/codec.go\<close>, \<open>codec/legacy/codec.go\<close>,
  \<open>client.go\<close>). A key of any kind is its type and its bytes; the Amino library is a parameter.
\<close>

section \<open>Secp256k1 keys\<close>

definition secp_keyType :: string where "secp_keyType = ''secp256k1''"

definition PrivKey_Bytes :: "bytes \<Rightarrow> bytes" where "PrivKey_Bytes key = key"

text \<open>The key derived by btcec, with its compressed form.\<close>

definition PrivKey_PubKey :: "(bytes \<Rightarrow> 'p) \<Rightarrow> ('p \<Rightarrow> bytes) \<Rightarrow> bytes \<Rightarrow> bytes" where
  "PrivKey_PubKey derv compress key = compress (derv key)"

definition PrivKey_Type :: "bytes \<Rightarrow> string" where "PrivKey_Type key = secp_keyType"

definition PrivKey_Equals :: "bytes \<Rightarrow> string \<times> bytes \<Rightarrow> bool" where
  "PrivKey_Equals key other \<longleftrightarrow> PrivKey_Type key = fst other \<and> ConstantTimeCompare (PrivKey_Bytes key) (snd other) = 1"

definition PrivKey_MarshalAmino :: "bytes \<Rightarrow> bytes res" where "PrivKey_MarshalAmino key = Inr key"

definition PrivKey_MarshalAminoJSON :: "bytes \<Rightarrow> bytes res" where "PrivKey_MarshalAminoJSON key = PrivKey_MarshalAmino key"

definition PrivKey_UnmarshalAminoJSON :: "bytes \<Rightarrow> bytes res" where "PrivKey_UnmarshalAminoJSON bz = PrivKey_UnmarshalAmino bz"

text \<open>The reader of the operating system holds the bytes \<open>rand\<close>.\<close>

definition GenPrivKey :: "int \<Rightarrow> bytes \<Rightarrow> (bytes \<times> bytes) res" where "GenPrivKey N rand = genPrivKey N rand"

definition PubKey_Bytes :: "bytes \<Rightarrow> bytes" where "PubKey_Bytes key = key"

definition PubKey_String :: "bytes \<Rightarrow> string" where "PubKey_String key = ''PubKeySecp256k1{'' @ hexUpper key @ ''}''"

definition PubKey_Type :: "bytes \<Rightarrow> string" where "PubKey_Type key = secp_keyType"

definition secp_PubKey_Equals :: "bytes \<Rightarrow> string \<times> bytes \<Rightarrow> bool" where
  "secp_PubKey_Equals key other \<longleftrightarrow> PubKey_Type key = fst other \<and> PubKey_Bytes key = snd other"

definition PubKey_MarshalAmino :: "bytes \<Rightarrow> bytes res" where "PubKey_MarshalAmino key = Inr key"

definition PubKey_MarshalAminoJSON :: "bytes \<Rightarrow> bytes res" where "PubKey_MarshalAminoJSON key = PubKey_MarshalAmino key"

definition PubKey_UnmarshalAminoJSON :: "bytes \<Rightarrow> bytes res" where "PubKey_UnmarshalAminoJSON bz = PubKey_UnmarshalAmino bz"

text \<open>The two methods of the build with the C library; the receiver of the second one is a private key.\<close>

definition cgo_Sign :: "Libsecp \<Rightarrow> (bytes \<Rightarrow> bytes) \<Rightarrow> bytes \<Rightarrow> bytes \<Rightarrow> bytes res" where
  "cgo_Sign C sha key msg = bindR (secp_Sign C (sha msg) key) (\<lambda>rsv. Inr (take (length rsv - 1) rsv))"

definition cgo_VerifySignature :: "Libsecp \<Rightarrow> (bytes \<Rightarrow> bytes) \<Rightarrow> bytes \<Rightarrow> bytes \<Rightarrow> bytes \<Rightarrow> bool" where
  "cgo_VerifySignature C sha key msg sig = secp_VerifySignature C key (sha msg) sig"

section \<open>Threshold keys\<close>

text \<open>The message: the keys are \<open>Any\<close>s. A value of a key that is no protobuf message makes a type assertion panic.\<close>

record 'k LegacyKey =
  lkThreshold :: "32 word"
  lkPubKeys :: "'k Any list"

record 'k KeyProto =
  kpIsMessage :: "'k \<Rightarrow> bool"
  kpIsPubKey :: "'k \<Rightarrow> bool"
  kpName :: "'k \<Rightarrow> string"
  kpMarshal :: "'k \<Rightarrow> bytes res"

fun packPubKeys :: "'k KeyProto \<Rightarrow> 'k list \<Rightarrow> 'k Any list res" where
  "packPubKeys P [] = Inr []"
| "packPubKeys P (k # ks) =
     (if \<not> kpIsMessage P k then Inl (Panic ''interface conversion: missing method ProtoMessage'')
      else bindR (NewAnyWithValue (kpName P) (kpMarshal P) k) (\<lambda>any. bindR (packPubKeys P ks) (\<lambda>anys. Inr (any # anys))))"

definition lk_NewLegacyAminoPubKey :: "'k KeyProto \<Rightarrow> int \<Rightarrow> 'k list \<Rightarrow> 'k LegacyKey res" where
  "lk_NewLegacyAminoPubKey P k pubKeys =
     (if k \<le> 0 then Inl (Panic ''threshold k of n multisignature: k <= 0'')
      else if int (length pubKeys) < k then Inl (Panic ''threshold k of n multisignature: len(pubKeys) < k'')
      else bindR (panic_on_err (packPubKeys P pubKeys)) (\<lambda>anys. Inr \<lparr>lkThreshold = word_of_int k, lkPubKeys = anys\<rparr>))"

fun cached_keys :: "'k KeyProto \<Rightarrow> 'k Any list \<Rightarrow> 'k list res" where
  "cached_keys P [] = Inr []"
| "cached_keys P (any # anys) =
     (case cachedValue any of
        None \<Rightarrow> Inl (Panic ''interface conversion: interface is nil'')
      | Some k \<Rightarrow> if \<not> kpIsPubKey P k then Inl (Panic ''interface conversion: not a PubKey'') else bindR (cached_keys P anys) (\<lambda>ks. Inr (k # ks)))"

definition LegacyKey_GetPubKeys :: "'k KeyProto \<Rightarrow> 'k LegacyKey option \<Rightarrow> 'k list res" where
  "LegacyKey_GetPubKeys P m = (case m of None \<Rightarrow> Inr [] | Some m \<Rightarrow> cached_keys P (lkPubKeys m))"

definition LegacyKey_GetThreshold :: "'k LegacyKey \<Rightarrow> nat" where
  "LegacyKey_GetThreshold m = unat (lkThreshold m)"

definition LegacyKey_Type :: string where
  "LegacyKey_Type = ''PubKeyMultisigThreshold''"

text \<open>\<open>unpack\<close> is the unpacker at the interface of public keys, which sets the cached value.\<close>

fun LegacyKey_UnpackInterfaces :: "('k Any \<Rightarrow> 'k Any res) \<Rightarrow> 'k Any list \<Rightarrow> 'k Any list res" where
  "LegacyKey_UnpackInterfaces unpack [] = Inr []"
| "LegacyKey_UnpackInterfaces unpack (any # anys) =
     bindR (unpack any) (\<lambda>any. bindR (LegacyKey_UnpackInterfaces unpack anys) (\<lambda>anys. Inr (any # anys)))"

text \<open>The address is the hash of the Amino bytes.\<close>

definition LegacyKey_Bytes :: "'v AminoLib \<Rightarrow> 'v obj \<Rightarrow> bytes res" where
  "LegacyKey_Bytes cdc m = fst (la_MustMarshalBinaryBare cdc m)"

definition LegacyKey_Address :: "'v AminoLib \<Rightarrow> (bytes \<Rightarrow> bytes) \<Rightarrow> 'v obj \<Rightarrow> bytes res" where
  "LegacyKey_Address cdc AddressHash m = bindR (LegacyKey_Bytes cdc m) (\<lambda>b. Inr (AddressHash b))"

section \<open>Amino codecs\<close>

datatype AminoIface = AI_TmPubKey | AI_PubKey | AI_TmPrivKey | AI_Msg | AI_Tx | AI_Evidence

datatype AminoType =
    AT_sr25519_PubKey | AT_tmed25519_PubKey | AT_ed25519_PubKey | AT_secp256k1_PubKey | AT_LegacyAminoPubKey
  | AT_sr25519_PrivKey | AT_tmed25519_PrivKey | AT_ed25519_PrivKey | AT_secp256k1_PrivKey | AT_DuplicateVoteEvidence

text \<open>The library keeps a codec \<open>'c\<close>; the names of Tendermint's own key types are parameters.\<close>

record 'c AminoReg =
  arNew :: 'c
  arRegisterInterface :: "AminoIface \<Rightarrow> 'c \<Rightarrow> 'c res"
  arRegisterConcrete :: "AminoType \<Rightarrow> string \<Rightarrow> 'c \<Rightarrow> 'c res"
  arSeal :: "'c \<Rightarrow> 'c res"
  sr25519PubKeyName :: string
  sr25519PrivKeyName :: string
  tmed25519PubKeyName :: string
  tmed25519PrivKeyName :: string

datatype AminoOp = RI AminoIface | RC AminoType string

fun amino_op :: "'c AminoReg \<Rightarrow> 'c \<Rightarrow> AminoOp \<Rightarrow> 'c res" where
  "amino_op A c (RI i) = arRegisterInterface A i c"
| "amino_op A c (RC t name) = arRegisterConcrete A t name c"

definition NewLegacyAmino :: "'c AminoReg \<Rightarrow> 'c" where
  "NewLegacyAmino A = arNew A"

definition Seal :: "'c AminoReg \<Rightarrow> 'c \<Rightarrow> 'c res" where
  "Seal A c = arSeal A c"

definition crypto_ops :: "'c AminoReg \<Rightarrow> AminoOp list" where
  "crypto_ops A =
     [RI AI_TmPubKey, RI AI_PubKey, RC AT_sr25519_PubKey (sr25519PubKeyName A), RC AT_tmed25519_PubKey (tmed25519PubKeyName A),
      RC AT_ed25519_PubKey ''cosmos/PubKeyEd25519'', RC AT_secp256k1_PubKey ''tendermint/PubKeySecp256k1'',
      RC AT_LegacyAminoPubKey ''tendermint/PubKeyMultisigThreshold'', RI AI_TmPrivKey, RC AT_sr25519_PrivKey (sr25519PrivKeyName A),
      RC AT_tmed25519_PrivKey (tmed25519PrivKeyName A), RC AT_ed25519_PrivKey ''cosmos/PrivKeyEd25519'',
      RC AT_secp256k1_PrivKey ''tendermint/PrivKeySecp256k1'']"

definition RegisterCrypto :: "'c AminoReg \<Rightarrow> 'c \<Rightarrow> 'c res" where
  "RegisterCrypto A cdc = foldR (amino_op A) cdc (crypto_ops A)"

definition RegisterEvidences :: "'c AminoReg \<Rightarrow> 'c \<Rightarrow> 'c res" where
  "RegisterEvidences A cdc = foldR (amino_op A) cdc [RI AI_Evidence, RC AT_DuplicateVoteEvidence ''tendermint/DuplicateVoteEvidence'']"

definition RegisterLegacyAminoCodec :: "'c AminoReg \<Rightarrow> 'c \<Rightarrow> 'c res" where
  "RegisterLegacyAminoCodec A cdc = bindR (foldR (amino_op A) cdc [RI AI_Msg, RI AI_Tx]) (RegisterCrypto A)"

text \<open>The initialisations of the packages: the codec of the threshold keys, the global one, those of the modules, sealed or not.\<close>

definition multisig_init :: "'c AminoReg \<Rightarrow> 'c res" where
  "multisig_init A = foldR (amino_op A) (NewLegacyAmino A)
     [RI AI_TmPubKey, RI AI_PubKey, RC AT_ed25519_PubKey ''cosmos/PubKeyEd25519'', RC AT_sr25519_PubKey (sr25519PubKeyName A),
      RC AT_secp256k1_PubKey ''tendermint/PubKeySecp256k1'', RC AT_LegacyAminoPubKey ''tendermint/PubKeyMultisigThreshold'']"

definition legacy_init :: "'c AminoReg \<Rightarrow> 'c res" where
  "legacy_init A = bindR (RegisterCrypto A (NewLegacyAmino A)) (\<lambda>c. bindR (RegisterEvidences A c) (Seal A))"

definition crypto_init :: "'c AminoReg \<Rightarrow> 'c res" where
  "crypto_init A = RegisterCrypto A (NewLegacyAmino A)"

definition module_init :: "'c AminoReg \<Rightarrow> 'c res" where
  "module_init A = bindR (RegisterCrypto A (NewLegacyAmino A)) (Seal A)"

text \<open>The codec of the package writes and reads keys of all kinds.\<close>

definition PubKeyFromBytes :: "'v AminoLib \<Rightarrow> 'v ProtoSide \<Rightarrow> nat \<Rightarrow> bytes \<Rightarrow> 'v obj res" where
  "PubKeyFromBytes amino P n pubKeyBytes = la_UnmarshalBinaryBare amino P n pubKeyBytes"

definition codec_PrivKeyFromBytes :: "'v AminoLib \<Rightarrow> 'v ProtoSide \<Rightarrow> nat \<Rightarrow> bytes \<Rightarrow> 'v obj res" where
  "codec_PrivKeyFromBytes amino P n privKeyBytes = la_UnmarshalBinaryBare amino P n privKeyBytes"

definition MarshalPubkey :: "'v AminoLib \<Rightarrow> 'v obj \<Rightarrow> bytes res \<times> 'v obj" where
  "MarshalPubkey amino key = la_MustMarshalBinaryBare amino key"

definition MarshalPrivKey :: "'v AminoLib \<Rightarrow> 'v obj \<Rightarrow> bytes res \<times> 'v obj" where
  "MarshalPrivKey amino key = la_MustMarshalBinaryBare amino key"

section \<open>Properties\<close>

text \<open>Keys are equal exactly when they have the same type and bytes; a form that is read back has the size of a key.\<close>

lemma secp_Equals: "secp_PubKey_Equals k (t, b) \<longleftrightarrow> t = ''secp256k1'' \<and> b = k" "PrivKey_Equals k (t, b) \<longleftrightarrow> t = ''secp256k1'' \<and> b = k"
  by (auto simp: secp_PubKey_Equals_def PrivKey_Equals_def PubKey_Type_def PrivKey_Type_def PubKey_Bytes_def PrivKey_Bytes_def
      One_nat_def ConstantTimeCompare_eq secp_keyType_def)

lemma secp_amino_roundtrip:
  "length k = PubKeySize \<Longrightarrow> bindR (PubKey_MarshalAminoJSON k) PubKey_UnmarshalAminoJSON = Inr k"
  "length p = PrivKeySize \<Longrightarrow> bindR (PrivKey_MarshalAminoJSON p) PrivKey_UnmarshalAminoJSON = Inr p"
  "PubKey_UnmarshalAminoJSON bz = Inr k \<Longrightarrow> k = bz \<and> length k = PubKeySize"
  by (auto simp: PubKey_MarshalAminoJSON_def PubKey_MarshalAmino_def PubKey_UnmarshalAminoJSON_def PubKey_UnmarshalAmino_def
      PrivKey_MarshalAminoJSON_def PrivKey_MarshalAmino_def PrivKey_UnmarshalAminoJSON_def PrivKey_UnmarshalAmino_def split: if_splits)

text \<open>The keys of a threshold key are those it was made from, and its threshold is within their number.\<close>

lemma packPubKeys_cached:
  "packPubKeys P ks = Inr anys \<Longrightarrow> list_all (kpIsPubKey P) ks \<Longrightarrow> cached_keys P anys = Inr ks"
  by (induction P ks arbitrary: anys rule: packPubKeys.induct) (auto simp: NewAnyWithValue_def split: if_splits)

lemma threshold_key_keys:
  assumes "lk_NewLegacyAminoPubKey P k ks = Inr m" "list_all (kpIsPubKey P) ks" "k < 2 ^ 32"
  shows "LegacyKey_GetPubKeys P (Some m) = Inr ks \<and> int (LegacyKey_GetThreshold m) = k \<and> 0 < LegacyKey_GetThreshold m \<and> LegacyKey_GetThreshold m \<le> length ks"
proof -
  have k: "0 < k" "k \<le> int (length ks)" using assms(1) by (auto simp: lk_NewLegacyAminoPubKey_def split: if_splits)
  then obtain anys where a: "packPubKeys P ks = Inr anys" "m = \<lparr>lkThreshold = word_of_int k, lkPubKeys = anys\<rparr>"
    using assms(1) by (auto simp: lk_NewLegacyAminoPubKey_def panic_on_err_def split: sum.splits failure.splits)
  have "int (LegacyKey_GetThreshold m) = k" using a(2) k(1) assms(3) by (simp add: LegacyKey_GetThreshold_def unsigned_of_int take_bit_int_eq_self)
  then show ?thesis using a k packPubKeys_cached [OF a(1) assms(2)] by (simp add: LegacyKey_GetPubKeys_def)
qed

text \<open>A key that is no protobuf message, such as one of Tendermint's own types, makes the constructor panic.\<close>

lemma packPubKeys_panics: "\<not> kpIsMessage P k \<Longrightarrow> \<exists>p. packPubKeys P (k # ks) = Inl (Panic p)"
  by simp

section \<open>Registrations never conflict\<close>

text \<open>
  The documented contract of the library: a registration fails on a sealed codec and when the interface, the type or the name is taken, and
  otherwise adds its entry. The entries are seen through three functions.
\<close>

definition amino_law :: "'c AminoReg \<Rightarrow> ('c \<Rightarrow> AminoIface set) \<Rightarrow> ('c \<Rightarrow> (AminoType \<times> string) set) \<Rightarrow> ('c \<Rightarrow> bool) \<Rightarrow> bool" where
  "amino_law A ifs cons sealed \<longleftrightarrow>
     ifs (arNew A) = {} \<and> cons (arNew A) = {} \<and> \<not> sealed (arNew A) \<and>
     (\<forall>c i. \<not> sealed c \<and> i \<notin> ifs c \<longrightarrow> (\<exists>c'. arRegisterInterface A i c = Inr c' \<and> ifs c' = insert i (ifs c) \<and> cons c' = cons c \<and> \<not> sealed c')) \<and>
     (\<forall>c t n. \<not> sealed c \<and> t \<notin> fst ` cons c \<and> n \<notin> snd ` cons c \<longrightarrow>
        (\<exists>c'. arRegisterConcrete A t n c = Inr c' \<and> ifs c' = ifs c \<and> cons c' = insert (t, n) (cons c) \<and> \<not> sealed c')) \<and>
     (\<forall>c t n. t \<in> fst ` cons c \<longrightarrow> (\<exists>p. arRegisterConcrete A t n c = Inl (Panic p))) \<and>
     (\<forall>c i. i \<in> ifs c \<longrightarrow> (\<exists>p. arRegisterInterface A i c = Inl (Panic p))) \<and>
     (\<forall>c. \<not> sealed c \<longrightarrow> (\<exists>c'. arSeal A c = Inr c' \<and> ifs c' = ifs c \<and> cons c' = cons c \<and> sealed c'))"

text \<open>The clauses of the contract, one by one.\<close>

lemma law_interface:
  assumes "amino_law A ifs cons sealed" "\<not> sealed c" "i \<notin> ifs c"
  shows "\<exists>c'. arRegisterInterface A i c = Inr c' \<and> ifs c' = insert i (ifs c) \<and> cons c' = cons c \<and> \<not> sealed c'"
proof -
  have "\<forall>c i. \<not> sealed c \<and> i \<notin> ifs c \<longrightarrow> (\<exists>c'. arRegisterInterface A i c = Inr c' \<and> ifs c' = insert i (ifs c) \<and> cons c' = cons c \<and> \<not> sealed c')"
    using assms(1) unfolding amino_law_def by (elim conjE) assumption
  then show ?thesis using assms(2,3) by blast
qed

lemma law_concrete:
  assumes "amino_law A ifs cons sealed" "\<not> sealed c" "t \<notin> fst ` cons c" "n \<notin> snd ` cons c"
  shows "\<exists>c'. arRegisterConcrete A t n c = Inr c' \<and> ifs c' = ifs c \<and> cons c' = insert (t, n) (cons c) \<and> \<not> sealed c'"
proof -
  have "\<forall>c t n. \<not> sealed c \<and> t \<notin> fst ` cons c \<and> n \<notin> snd ` cons c \<longrightarrow>
      (\<exists>c'. arRegisterConcrete A t n c = Inr c' \<and> ifs c' = ifs c \<and> cons c' = insert (t, n) (cons c) \<and> \<not> sealed c')"
    using assms(1) unfolding amino_law_def by (elim conjE) assumption
  then show ?thesis using assms(2-4) by blast
qed

lemma law_seal:
  assumes "amino_law A ifs cons sealed" "\<not> sealed c"
  shows "\<exists>c'. arSeal A c = Inr c' \<and> ifs c' = ifs c \<and> cons c' = cons c \<and> sealed c'"
proof -
  have "\<forall>c. \<not> sealed c \<longrightarrow> (\<exists>c'. arSeal A c = Inr c' \<and> ifs c' = ifs c \<and> cons c' = cons c \<and> sealed c')"
    using assms(1) unfolding amino_law_def by (elim conjE) assumption
  then show ?thesis using assms(2) by blast
qed

lemma law_taken:
  assumes "amino_law A ifs cons sealed" "i \<in> ifs c"
  shows "\<exists>p. arRegisterInterface A i c = Inl (Panic p)"
proof -
  have "\<forall>c i. i \<in> ifs c \<longrightarrow> (\<exists>p. arRegisterInterface A i c = Inl (Panic p))"
    using assms(1) unfolding amino_law_def by (elim conjE) assumption
  then show ?thesis using assms(2) by blast
qed

fun op_ifaces :: "AminoOp list \<Rightarrow> AminoIface list" where
  "op_ifaces [] = []"
| "op_ifaces (RI i # ops) = i # op_ifaces ops"
| "op_ifaces (RC t n # ops) = op_ifaces ops"

fun op_concretes :: "AminoOp list \<Rightarrow> (AminoType \<times> string) list" where
  "op_concretes [] = []"
| "op_concretes (RI i # ops) = op_concretes ops"
| "op_concretes (RC t n # ops) = (t, n) # op_concretes ops"

text \<open>Registrations of different interfaces, types and names, none of them taken, all succeed.\<close>

lemma amino_ops_ok:
  assumes law: "amino_law A ifs cons sealed"
  shows "\<not> sealed c \<Longrightarrow> distinct (op_ifaces ops) \<Longrightarrow> distinct (map fst (op_concretes ops)) \<Longrightarrow> distinct (map snd (op_concretes ops)) \<Longrightarrow>
    set (op_ifaces ops) \<inter> ifs c = {} \<Longrightarrow> fst ` set (op_concretes ops) \<inter> fst ` cons c = {} \<Longrightarrow> snd ` set (op_concretes ops) \<inter> snd ` cons c = {} \<Longrightarrow>
    \<exists>c'. foldR (amino_op A) c ops = Inr c' \<and> ifs c' = ifs c \<union> set (op_ifaces ops) \<and> cons c' = cons c \<union> set (op_concretes ops) \<and> \<not> sealed c'"
proof (induction ops arbitrary: c)
  case (Cons op ops)
  show ?case
  proof (cases op)
    case (RI i)
    then have "i \<notin> ifs c" using Cons.prems(5) by auto
    then obtain c1 where c1: "arRegisterInterface A i c = Inr c1" "ifs c1 = insert i (ifs c)" "cons c1 = cons c" "\<not> sealed c1"
      using law_interface [OF law Cons.prems(1)] by blast
    then have "\<exists>c'. foldR (amino_op A) c1 ops = Inr c' \<and> ifs c' = ifs c1 \<union> set (op_ifaces ops) \<and> cons c' = cons c1 \<union> set (op_concretes ops) \<and> \<not> sealed c'"
      using Cons.prems RI by (intro Cons.IH) auto
    then show ?thesis using c1 RI by auto
  next
    case (RC t n)
    then have "t \<notin> fst ` cons c" "n \<notin> snd ` cons c" using Cons.prems(6,7) by auto
    then obtain c1 where c1: "arRegisterConcrete A t n c = Inr c1" "ifs c1 = ifs c" "cons c1 = insert (t, n) (cons c)" "\<not> sealed c1"
      using law_concrete [OF law Cons.prems(1)] by blast
    then have "\<exists>c'. foldR (amino_op A) c1 ops = Inr c' \<and> ifs c' = ifs c1 \<union> set (op_ifaces ops) \<and> cons c' = cons c1 \<union> set (op_concretes ops) \<and> \<not> sealed c'"
      using Cons.prems RC by (intro Cons.IH) auto
    then show ?thesis using c1 RC by auto
  qed
qed simp

definition key_names :: "'c AminoReg \<Rightarrow> (AminoType \<times> string) set" where
  "key_names A =
     {(AT_sr25519_PubKey, sr25519PubKeyName A), (AT_tmed25519_PubKey, tmed25519PubKeyName A), (AT_ed25519_PubKey, ''cosmos/PubKeyEd25519''),
      (AT_secp256k1_PubKey, ''tendermint/PubKeySecp256k1''), (AT_LegacyAminoPubKey, ''tendermint/PubKeyMultisigThreshold''),
      (AT_sr25519_PrivKey, sr25519PrivKeyName A), (AT_tmed25519_PrivKey, tmed25519PrivKeyName A), (AT_ed25519_PrivKey, ''cosmos/PrivKeyEd25519''),
      (AT_secp256k1_PrivKey, ''tendermint/PrivKeySecp256k1'')}"

text \<open>The names of Tendermint's key types differ from each other and from those of this program.\<close>

definition names_apart :: "'c AminoReg \<Rightarrow> bool" where
  "names_apart A \<longleftrightarrow> distinct [sr25519PubKeyName A, tmed25519PubKeyName A, sr25519PrivKeyName A, tmed25519PrivKeyName A, ''cosmos/PubKeyEd25519'',
     ''tendermint/PubKeySecp256k1'', ''tendermint/PubKeyMultisigThreshold'', ''cosmos/PrivKeyEd25519'', ''tendermint/PrivKeySecp256k1'',
     ''tendermint/DuplicateVoteEvidence'']"

lemma RegisterCrypto_ok:
  assumes law: "amino_law A ifs cons sealed" and names: "names_apart A" and c: "\<not> sealed c" "ifs c \<subseteq> {AI_Msg, AI_Tx}" "cons c = {}"
  shows "\<exists>c'. RegisterCrypto A c = Inr c' \<and> ifs c' = ifs c \<union> {AI_TmPubKey, AI_PubKey, AI_TmPrivKey} \<and> cons c' = key_names A \<and> \<not> sealed c'"
proof -
  have "\<exists>c'. foldR (amino_op A) c (crypto_ops A) = Inr c' \<and> ifs c' = ifs c \<union> set (op_ifaces (crypto_ops A)) \<and>
      cons c' = cons c \<union> set (op_concretes (crypto_ops A)) \<and> \<not> sealed c'"
    by (rule amino_ops_ok [OF law c(1)]) (use c names in \<open>auto simp: crypto_ops_def names_apart_def\<close>)
  moreover have "set (op_ifaces (crypto_ops A)) = {AI_TmPubKey, AI_PubKey, AI_TmPrivKey}" "set (op_concretes (crypto_ops A)) = key_names A"
    by (auto simp: crypto_ops_def key_names_def)
  ultimately show ?thesis using c(3) by (simp add: RegisterCrypto_def)
qed

text \<open>
  Every codec of the program can be initialised: no type and no name is registered twice. The codecs of the modules know the key types and nothing
  else, the one of the client the interfaces of messages and transactions as well, and a second registration of the key types ends the program.
\<close>

theorem amino_codecs_initialised:
  assumes law: "amino_law A ifs cons sealed" and names: "names_apart A"
  shows "\<exists>c. module_init A = Inr c \<and> cons c = key_names A \<and> ifs c = {AI_TmPubKey, AI_PubKey, AI_TmPrivKey} \<and> sealed c"
    and "\<exists>c. RegisterLegacyAminoCodec A (NewLegacyAmino A) = Inr c \<and> cons c = key_names A \<and> {AI_Msg, AI_Tx} \<subseteq> ifs c"
    and "\<exists>c. multisig_init A = Inr c \<and> cons c \<subseteq> key_names A"
    and "\<exists>c p. crypto_init A = Inr c \<and> RegisterCrypto A c = Inl (Panic p)"
proof -
  have new: "\<not> sealed (NewLegacyAmino A)" "ifs (NewLegacyAmino A) = {}" "cons (NewLegacyAmino A) = {}"
    using law by (simp_all add: amino_law_def NewLegacyAmino_def)
  obtain c where c: "RegisterCrypto A (NewLegacyAmino A) = Inr c" "ifs c = {AI_TmPubKey, AI_PubKey, AI_TmPrivKey}" "cons c = key_names A" "\<not> sealed c"
    using RegisterCrypto_ok [OF law names new(1)] new by auto
  obtain cs where "arSeal A c = Inr cs" "ifs cs = ifs c" "cons cs = cons c" "sealed cs" using law_seal [OF law c(4)] by blast
  then show "\<exists>c. module_init A = Inr c \<and> cons c = key_names A \<and> ifs c = {AI_TmPubKey, AI_PubKey, AI_TmPrivKey} \<and> sealed c"
    using c by (simp add: module_init_def Seal_def)
  have "\<exists>c1. foldR (amino_op A) (NewLegacyAmino A) [RI AI_Msg, RI AI_Tx] = Inr c1 \<and> ifs c1 = ifs (NewLegacyAmino A) \<union> set (op_ifaces [RI AI_Msg, RI AI_Tx])
      \<and> cons c1 = cons (NewLegacyAmino A) \<union> set (op_concretes [RI AI_Msg, RI AI_Tx]) \<and> \<not> sealed c1"
    by (rule amino_ops_ok [OF law new(1)]) (simp_all add: new)
  then obtain c1 where c1: "foldR (amino_op A) (NewLegacyAmino A) [RI AI_Msg, RI AI_Tx] = Inr c1" "ifs c1 = {AI_Msg, AI_Tx}" "cons c1 = {}" "\<not> sealed c1"
    using new by auto
  have "\<exists>c2. RegisterCrypto A c1 = Inr c2 \<and> ifs c2 = ifs c1 \<union> {AI_TmPubKey, AI_PubKey, AI_TmPrivKey} \<and> cons c2 = key_names A \<and> \<not> sealed c2"
    by (rule RegisterCrypto_ok [OF law names c1(4)]) (simp_all add: c1)
  then show "\<exists>c. RegisterLegacyAminoCodec A (NewLegacyAmino A) = Inr c \<and> cons c = key_names A \<and> {AI_Msg, AI_Tx} \<subseteq> ifs c"
    using c1(1,2) unfolding RegisterLegacyAminoCodec_def by auto
  let ?ops = "[RI AI_TmPubKey, RI AI_PubKey, RC AT_ed25519_PubKey ''cosmos/PubKeyEd25519'', RC AT_sr25519_PubKey (sr25519PubKeyName A),
      RC AT_secp256k1_PubKey ''tendermint/PubKeySecp256k1'', RC AT_LegacyAminoPubKey ''tendermint/PubKeyMultisigThreshold'']"
  have "\<exists>c'. foldR (amino_op A) (NewLegacyAmino A) ?ops = Inr c' \<and> ifs c' = ifs (NewLegacyAmino A) \<union> set (op_ifaces ?ops) \<and>
      cons c' = cons (NewLegacyAmino A) \<union> set (op_concretes ?ops) \<and> \<not> sealed c'"
    by (rule amino_ops_ok [OF law new(1)]) (use names in \<open>auto simp: new names_apart_def\<close>)
  then show "\<exists>c. multisig_init A = Inr c \<and> cons c \<subseteq> key_names A" unfolding multisig_init_def new by (auto simp: key_names_def)
  obtain p where "arRegisterInterface A AI_TmPubKey c = Inl (Panic p)" using law_taken [OF law, of AI_TmPubKey c] c(2) by auto
  then have "RegisterCrypto A c = Inl (Panic p)" by (simp add: RegisterCrypto_def crypto_ops_def)
  then show "\<exists>c p. crypto_init A = Inr c \<and> RegisterCrypto A c = Inl (Panic p)" using c(1) by (auto simp: crypto_init_def)
qed

text \<open>A key is read back from its Amino bytes, a threshold key with the keys inside it.\<close>

lemma key_bytes_roundtrip:
  assumes "packed_obj P ob" "obj_depth ob \<le> n" "encode_pair (amEncodeBare cdc) (amDecodeBare cdc)"
    "encode_pair (amEncodeLP cdc) (amDecodeLP cdc)" "encode_pair (amEncodeJSON cdc) (amDecodeJSON cdc)"
  shows "\<exists>bz. fst (MarshalPubkey cdc ob) = Inr bz \<and> PubKeyFromBytes cdc P n bz = Inr ob"
    and "\<exists>bz. fst (MarshalPrivKey cdc ob) = Inr bz \<and> codec_PrivKeyFromBytes cdc P n bz = Inr ob"
    and "\<exists>bz. LegacyKey_Bytes cdc ob = Inr bz \<and> LegacyKey_Address cdc h ob = Inr (h bz)"
  using amino_forms [OF assms]
  by (auto simp: MarshalPubkey_def MarshalPrivKey_def PubKeyFromBytes_def codec_PrivKeyFromBytes_def LegacyKey_Bytes_def LegacyKey_Address_def
      la_MustMarshalBinaryBare_def panic_on_err_def)

end
