(* ===== verification/Responses.thy ===== *)
theory Responses
  imports StakingQuery GovQuery Events
begin

text \<open>
  Responses and texts: the rest of \<open>types/result.go\<close> (responses to queries and broadcasts, pages of transactions, logs and the text of a
  response), the binary forms and texts of delegations (\<open>modules/staking/delegation.go\<close>) and the lists of proposals
  (\<open>modules/gov/proposal.go\<close>). YAML, the text of a time and the codec are parameters.
\<close>

section \<open>Results (\<open>types/result.go\<close>)\<close>

record ABCIMessageLog =
  MsgIndex :: "32 word"
  MsgLog :: string
  LogEvents :: "StringEvent list"

definition Result_GetEvents :: "Event list \<Rightarrow> Event list" where
  "Result_GetEvents evs = map (\<lambda>e. e) evs"

definition NewABCIMessageLog :: "32 word \<Rightarrow> string \<Rightarrow> Event list \<Rightarrow> ABCIMessageLog" where
  "NewABCIMessageLog i log evs = \<lparr>MsgIndex = i, MsgLog = log, LogEvents = StringifyEvents (ToABCIEvents evs)\<rparr>"

text \<open>\<open>None\<close> is the nil slice; an encoding that fails gives the empty text.\<close>

definition ABCIMessageLogs_String :: "(ABCIMessageLog list \<Rightarrow> string res) \<Rightarrow> ABCIMessageLog list option \<Rightarrow> string" where
  "ABCIMessageLogs_String marshal logs =
     (case logs of None \<Rightarrow> '''' | Some ls \<Rightarrow> (case marshal ls of Inr raw \<Rightarrow> raw | Inl _ \<Rightarrow> ''''))"

definition ParseABCILogs :: "(string \<Rightarrow> 'l option \<times> string option) \<Rightarrow> string \<Rightarrow> 'l option \<times> string option" where
  "ParseABCILogs unmarshal logs = unmarshal logs"

record ('l, 'v) FullResponse =
  frResponse :: "'l TxResponse"
  frTx :: "'v option"
  frTimestamp :: string

record TmResultTxInfo =
  xHash :: bytes
  xHeight :: int
  xResult :: TxResultInfo

definition NewResponseResultTx ::
  "(string \<Rightarrow> 'l option) \<Rightarrow> TmResultTxInfo option \<Rightarrow> 'v option \<Rightarrow> string \<Rightarrow> ('l, 'v) FullResponse option" where
  "NewResponseResultTx parse ro anyTx timestamp =
     (case ro of
        None \<Rightarrow> None
      | Some res \<Rightarrow>
          Some \<lparr>frResponse = \<lparr>Height = xHeight res, TxHash = hexUpper (xHash res), Codespace = rCodespace (xResult res), Code = rCode (xResult res),
                  RespData = hexUpper (rData (xResult res)), RawLog = rLog (xResult res), Logs = parse (rLog (xResult res)), Info = rInfo (xResult res),
                  RespGasWanted = rGasWanted (xResult res), RespGasUsed = rGasUsed (xResult res)\<rparr>,
                frTx = anyTx, frTimestamp = timestamp\<rparr>)"

record ResultBroadcastTx =
  sCode :: "32 word"
  sData :: bytes
  sLog :: string
  sCodespace :: string
  sHash :: bytes

definition NewResponseFormatBroadcastTx :: "(string \<Rightarrow> 'l option) \<Rightarrow> ResultBroadcastTx option \<Rightarrow> ('l, 'v) FullResponse option" where
  "NewResponseFormatBroadcastTx parse ro =
     (case ro of
        None \<Rightarrow> None
      | Some res \<Rightarrow>
          Some \<lparr>frResponse = \<lparr>Height = 0, TxHash = hexUpper (sHash res), Codespace = sCodespace res, Code = sCode res, RespData = hexUpper (sData res),
                  RawLog = sLog res, Logs = parse (sLog res), Info = '''', RespGasWanted = 0, RespGasUsed = 0\<rparr>,
                frTx = None, frTimestamp = ''''\<rparr>)"

definition text_line :: "bool \<Rightarrow> string \<Rightarrow> string \<Rightarrow> string" where
  "text_line shown name value = (if shown then ''  '' @ name @ '': '' @ value @ [CHR 0x0A] else '''')"

definition TxResponse_String :: "('l \<Rightarrow> string) \<Rightarrow> ('l, 'v) FullResponse \<Rightarrow> string" where
  "TxResponse_String logs fr =
     (let r = frResponse fr in TrimSpace
       (''Response:'' @ [CHR 0x0A] @
        text_line (0 < Height r) ''Height'' (show_int (Height r)) @
        text_line (TxHash r \<noteq> '''') ''TxHash'' (TxHash r) @
        text_line (0 < Code r) ''Code'' (show_nat (unat (Code r))) @
        text_line (RespData r \<noteq> '''') ''Data'' (RespData r) @
        text_line (RawLog r \<noteq> '''') ''Raw Log'' (RawLog r) @
        text_line (Logs r \<noteq> None) ''Logs'' (case Logs r of None \<Rightarrow> '''' | Some l \<Rightarrow> logs l) @
        text_line (Info r \<noteq> '''') ''Info'' (Info r) @
        text_line (RespGasWanted r \<noteq> 0) ''GasWanted'' (show_int (RespGasWanted r)) @
        text_line (RespGasUsed r \<noteq> 0) ''GasUsed'' (show_int (RespGasUsed r)) @
        text_line (Codespace r \<noteq> '''') ''Codespace'' (Codespace r) @
        text_line (frTimestamp fr \<noteq> '''') ''Timestamp'' (frTimestamp fr)))"

record ('l, 'v) SearchTxsResult =
  srTotalCount :: "64 word"
  srCount :: "64 word"
  srPageNumber :: "64 word"
  srPageTotal :: "64 word"
  srLimit :: "64 word"
  srTxs :: "('l, 'v) FullResponse list"

text \<open>\<open>ceilDiv\<close> is the conversion of the rounded quotient of the two floating point numbers.\<close>

definition NewSearchTxsResult ::
  "(64 word \<Rightarrow> 64 word \<Rightarrow> 64 word) \<Rightarrow> 64 word \<Rightarrow> 64 word \<Rightarrow> 64 word \<Rightarrow> 64 word \<Rightarrow> ('l, 'v) FullResponse list \<Rightarrow> ('l, 'v) SearchTxsResult" where
  "NewSearchTxsResult ceilDiv totalCount cnt page limit txs =
     \<lparr>srTotalCount = totalCount, srCount = cnt, srPageNumber = page, srPageTotal = ceilDiv totalCount limit, srLimit = limit, srTxs = txs\<rparr>"

text \<open>The transaction inside a response: \<open>cached\<close> is the cached value of the \<open>Any\<close>, \<open>isTx\<close> the type assertion.\<close>

definition GetTx :: "('v \<Rightarrow> 'x option) \<Rightarrow> ('x \<Rightarrow> bool) \<Rightarrow> ('l, 'v) FullResponse \<Rightarrow> 'x option res" where
  "GetTx cached isTx fr =
     (case frTx fr of
        None \<Rightarrow> Inl (Panic ''nil pointer dereference'')
      | Some any \<Rightarrow> Inr (case cached any of None \<Rightarrow> None | Some v \<Rightarrow> if isTx v then Some v else None))"

definition TxResponse_UnpackInterfaces :: "('v \<Rightarrow> 'v res) \<Rightarrow> ('l, 'v) FullResponse \<Rightarrow> ('l, 'v) FullResponse res" where
  "TxResponse_UnpackInterfaces unpackTx fr =
     (case frTx fr of None \<Rightarrow> Inr fr | Some any \<Rightarrow> bindR (unpackTx any) (\<lambda>any. Inr (fr\<lparr>frTx := Some any\<rparr>)))"

fun unpack_all :: "('v \<Rightarrow> 'v res) \<Rightarrow> ('l, 'v) FullResponse list \<Rightarrow> ('l, 'v) FullResponse list res" where
  "unpack_all unpackTx [] = Inr []"
| "unpack_all unpackTx (r # rs) =
     bindR (TxResponse_UnpackInterfaces unpackTx r) (\<lambda>r. bindR (unpack_all unpackTx rs) (\<lambda>rs. Inr (r # rs)))"

definition SearchTxsResult_UnpackInterfaces :: "('v \<Rightarrow> 'v res) \<Rightarrow> ('l, 'v) SearchTxsResult \<Rightarrow> ('l, 'v) SearchTxsResult res" where
  "SearchTxsResult_UnpackInterfaces unpackTx s = bindR (unpack_all unpackTx (srTxs s)) (\<lambda>txs. Inr (s\<lparr>srTxs := txs\<rparr>))"

section \<open>Delegations (\<open>delegation.go\<close>)\<close>

text \<open>A codec on one type of message: its two functions.\<close>

record 'a BinaryMarshaler =
  bmMarshal :: "'a \<Rightarrow> bytes res"
  bmUnmarshal :: "bytes \<Rightarrow> 'a res"

definition MustMarshalDelegation :: "Delegation BinaryMarshaler \<Rightarrow> Delegation \<Rightarrow> bytes res" where
  "MustMarshalDelegation cdc d = panic_on_err (bmMarshal cdc d)"

definition UnmarshalDelegation :: "Delegation BinaryMarshaler \<Rightarrow> bytes \<Rightarrow> Delegation res" where
  "UnmarshalDelegation cdc value = bmUnmarshal cdc value"

definition MustUnmarshalDelegation :: "Delegation BinaryMarshaler \<Rightarrow> bytes \<Rightarrow> Delegation res" where
  "MustUnmarshalDelegation cdc value = panic_on_err (UnmarshalDelegation cdc value)"

definition MustMarshalUBD :: "UnbondingDelegation BinaryMarshaler \<Rightarrow> UnbondingDelegation \<Rightarrow> bytes res" where
  "MustMarshalUBD cdc ubd = panic_on_err (bmMarshal cdc ubd)"

definition UnmarshalUBD :: "UnbondingDelegation BinaryMarshaler \<Rightarrow> bytes \<Rightarrow> UnbondingDelegation res" where
  "UnmarshalUBD cdc value = bmUnmarshal cdc value"

definition MustUnmarshalUBD :: "UnbondingDelegation BinaryMarshaler \<Rightarrow> bytes \<Rightarrow> UnbondingDelegation res" where
  "MustUnmarshalUBD cdc value = panic_on_err (UnmarshalUBD cdc value)"

definition MustMarshalRED :: "Redelegation BinaryMarshaler \<Rightarrow> Redelegation \<Rightarrow> bytes res" where
  "MustMarshalRED cdc red = panic_on_err (bmMarshal cdc red)"

definition UnmarshalRED :: "Redelegation BinaryMarshaler \<Rightarrow> bytes \<Rightarrow> Redelegation res" where
  "UnmarshalRED cdc value = bmUnmarshal cdc value"

definition MustUnmarshalRED :: "Redelegation BinaryMarshaler \<Rightarrow> bytes \<Rightarrow> Redelegation res" where
  "MustUnmarshalRED cdc value = panic_on_err (UnmarshalRED cdc value)"

definition Delegation_GetShares :: "Delegation \<Rightarrow> int option" where
  "Delegation_GetShares d = dlShares d"

text \<open>Texts: a nil integer is printed as \<open><nil>\<close>; the lists add a line break after every element and cut white space at the ends.\<close>

definition int_text :: "int option \<Rightarrow> string" where
  "int_text i = (case i of None \<Rightarrow> ''<nil>'' | Some x \<Rightarrow> Int_String x)"

definition list_text :: "('a \<Rightarrow> string) \<Rightarrow> 'a list \<Rightarrow> string" where
  "list_text str xs = TrimSpace (foldl (\<lambda>out x. out @ str x @ [CHR 0x0A]) '''' xs)"

definition Delegations_String :: "(Delegation \<Rightarrow> string) \<Rightarrow> Delegation list \<Rightarrow> string" where
  "Delegations_String yaml ds = list_text yaml ds"

definition ubd_entry_text :: "(int \<Rightarrow> string) \<Rightarrow> nat \<times> UnbondingDelegationEntry \<Rightarrow> string" where
  "ubd_entry_text time ie = (case ie of (i, e) \<Rightarrow>
     ''    Unbonding Delegation '' @ show_nat i @ '':'' @ [CHR 0x0A] @
     ''      Creation Height:           '' @ show_int (sint (ueCreationHeight e)) @ [CHR 0x0A] @
     ''      Min time to unbond (unix): '' @ time (ueCompletionTime e) @ [CHR 0x0A] @
     ''      Expected balance:          '' @ int_text (ueBalance e))"

definition UnbondingDelegation_String :: "(int \<Rightarrow> string) \<Rightarrow> UnbondingDelegation \<Rightarrow> string" where
  "UnbondingDelegation_String time ubd =
     foldl (\<lambda>out ie. out @ ubd_entry_text time ie)
       (''Unbonding Delegations between:'' @ [CHR 0x0A] @
        ''  Delegator:                 '' @ ubDelegatorAddress ubd @ [CHR 0x0A] @
        ''  Validator:                 '' @ ubValidatorAddress ubd @ [CHR 0x0A] @ [CHR 0x09] @ ''Entries:'')
       (enumerate 0 (ubEntries ubd))"

definition UnbondingDelegations_String :: "(int \<Rightarrow> string) \<Rightarrow> UnbondingDelegation list \<Rightarrow> string" where
  "UnbondingDelegations_String time ubds = list_text (UnbondingDelegation_String time) ubds"

definition red_entry_text :: "(int \<Rightarrow> string) \<Rightarrow> nat \<times> RedelegationEntry \<Rightarrow> string" where
  "red_entry_text time ie = (case ie of (i, e) \<Rightarrow>
     ''    Redelegation Entry #'' @ show_nat i @ '':'' @ [CHR 0x0A] @
     ''      Creation height:           '' @ show_int (sint (reCreationHeight e)) @ [CHR 0x0A] @
     ''      Min time to unbond (unix): '' @ time (reCompletionTime e) @ [CHR 0x0A] @
     ''      Dest Shares:               '' @ Dec_StringP (reSharesDst e) @ [CHR 0x0A])"

definition TrimRight_nl :: "string \<Rightarrow> string" where
  "TrimRight_nl s = rev (dropWhile (\<lambda>c. c = CHR 0x0A) (rev s))"

definition Redelegation_String :: "(int \<Rightarrow> string) \<Rightarrow> Redelegation \<Rightarrow> string" where
  "Redelegation_String time red =
     TrimRight_nl (foldl (\<lambda>out ie. out @ red_entry_text time ie)
       (''Redelegations between:'' @ [CHR 0x0A] @
        ''  Delegator:                 '' @ rdDelegatorAddress red @ [CHR 0x0A] @
        ''  Source Validator:          '' @ rdValidatorSrcAddress red @ [CHR 0x0A] @
        ''  Destination Validator:     '' @ rdValidatorDstAddress red @ [CHR 0x0A] @
        ''  Entries:'' @ [CHR 0x0A])
       (enumerate 0 (rdEntries red)))"

definition Redelegations_String :: "(int \<Rightarrow> string) \<Rightarrow> Redelegation list \<Rightarrow> string" where
  "Redelegations_String time ds = list_text (Redelegation_String time) ds"

definition DelegationResponse_String :: "(Delegation \<Rightarrow> string) \<Rightarrow> (CoinPB \<Rightarrow> string) \<Rightarrow> DelegationResponse \<Rightarrow> string" where
  "DelegationResponse_String yaml coin d = yaml (drDelegation d) @ [CHR 0x0A] @ ''  Balance:   '' @ coin (drBalance d)"

definition DelegationResponses_String :: "(Delegation \<Rightarrow> string) \<Rightarrow> (CoinPB \<Rightarrow> string) \<Rightarrow> DelegationResponse list \<Rightarrow> string" where
  "DelegationResponses_String yaml coin ds = list_text (DelegationResponse_String yaml coin) ds"

section \<open>Proposals (\<open>proposal.go\<close>)\<close>

text \<open>\<open>eq\<close> is the generated comparison of two proposals. A proposal without content makes \<open>GetContent\<close> panic.\<close>

fun proposals_equal_loop :: "('p \<Rightarrow> 'p \<Rightarrow> bool) \<Rightarrow> 'p list \<Rightarrow> 'p list \<Rightarrow> bool" where
  "proposals_equal_loop eq (p # ps) (q # qs) = (if \<not> eq p q then False else proposals_equal_loop eq ps qs)"
| "proposals_equal_loop eq _ _ = True"

definition Proposals_Equal :: "('p \<Rightarrow> 'p \<Rightarrow> bool) \<Rightarrow> 'p list \<Rightarrow> 'p list \<Rightarrow> bool" where
  "Proposals_Equal eq ps other = (if length ps \<noteq> length other then False else proposals_equal_loop eq ps other)"

definition proposal_line :: "Proposal \<Rightarrow> string res" where
  "proposal_line p =
     bindR (ProposalType p) (\<lambda>ty. bindR (Proposal_GetTitle p) (\<lambda>title.
       Inr (show_nat (unat (ppProposalId p)) @ '' - ('' @ ProposalStatus_name (ppStatus p) @ '') ['' @ ty @ ''] '' @ title @ [CHR 0x0A])))"

definition Proposals_String :: "Proposal list \<Rightarrow> string res" where
  "Proposals_String ps =
     bindR (foldR (\<lambda>out p. bindR (proposal_line p) (\<lambda>l. Inr (out @ l))) (''ID - (Status) [Type] Title'' @ [CHR 0x0A]) ps) (\<lambda>out. Inr (TrimSpace out))"

definition Proposal_UnpackInterfaces :: "(TextProposal option option \<Rightarrow> unit res) \<Rightarrow> Proposal \<Rightarrow> unit res" where
  "Proposal_UnpackInterfaces unpack p = unpack (ppContent p)"

fun Proposals_UnpackInterfaces :: "(TextProposal option option \<Rightarrow> unit res) \<Rightarrow> Proposal list \<Rightarrow> unit res" where
  "Proposals_UnpackInterfaces unpack [] = Inr ()"
| "Proposals_UnpackInterfaces unpack (p # ps) = bindR (Proposal_UnpackInterfaces unpack p) (\<lambda>_. Proposals_UnpackInterfaces unpack ps)"

text \<open>The verb \<open>%s\<close> prints the name of a status, every other verb its last byte.\<close>

definition ProposalStatus_Format :: "char \<Rightarrow> 32 word \<Rightarrow> string" where
  "ProposalStatus_Format verb status = (if verb = CHR ''s'' then ProposalStatus_name status else show_nat (unat (ucast status :: 8 word)))"

section \<open>Properties\<close>

text \<open>A broadcast and a query describe the same execution alike: code, codespace, data and logs are those of the node, and no height means not included.\<close>

lemma responses_agree:
  assumes "NewResponseResultTx parse (Some res) tx ts = Some r1" "NewResponseFormatBroadcastTx parse (Some b) = Some r2"
    "sCode b = rCode (xResult res)" "sCodespace b = rCodespace (xResult res)" "sData b = rData (xResult res)" "sLog b = rLog (xResult res)" "sHash b = xHash res"
  shows "frResponse r2 = (frResponse r1)\<lparr>Height := 0, Info := '''', RespGasWanted := 0, RespGasUsed := 0\<rparr>"
  using assms by (auto simp: NewResponseResultTx_def NewResponseFormatBroadcastTx_def)

text \<open>The response to a broadcast has no transaction, and asking for it ends the program instead of giving none.\<close>

lemma GetTx_of_broadcast_panics:
  "NewResponseFormatBroadcastTx parse (Some b) = Some r \<Longrightarrow> \<exists>p. GetTx cached isTx r = Inl (Panic p)"
  by (auto simp: NewResponseFormatBroadcastTx_def GetTx_def)

text \<open>Every transaction of a page is unpacked, or none: the first error is the result.\<close>

lemma unpack_all_ok:
  "unpack_all u rs = Inr rs' \<longleftrightarrow> list_all2 (\<lambda>r r'. TxResponse_UnpackInterfaces u r = Inr r') rs rs'"
  by (induction u rs arbitrary: rs' rule: unpack_all.induct) (auto simp: list_all2_Cons1)

lemma SearchTxsResult_GetTx:
  assumes "SearchTxsResult_UnpackInterfaces u s = Inr s'" "\<And>any any'. u any = Inr any' \<Longrightarrow> \<exists>v. cached any' = Some v \<and> isTx v"
    "r \<in> set (srTxs s')" "frTx r \<noteq> None"
  shows "\<exists>v. GetTx cached isTx r = Inr (Some v) \<and> isTx v"
proof -
  obtain r0 where r0: "TxResponse_UnpackInterfaces u r0 = Inr r"
    using assms(1,3) by (auto simp: SearchTxsResult_UnpackInterfaces_def unpack_all_ok list_all2_conv_all_nth in_set_conv_nth)
  then obtain any any' where "frTx r = Some any'" "u any = Inr any'" using assms(4) by (cases "frTx r0") (auto simp: TxResponse_UnpackInterfaces_def)
  then show ?thesis using assms(2) by (fastforce simp: GetTx_def)
qed

text \<open>What is stored is read back, whatever the kind of delegation, when the codec reads what it writes; no function panics then.\<close>

definition reads_back :: "'a BinaryMarshaler \<Rightarrow> bool" where
  "reads_back cdc \<longleftrightarrow> (\<forall>x. \<exists>b. bmMarshal cdc x = Inr b \<and> bmUnmarshal cdc b = Inr x)"

locale stored =
  fixes must_marshal :: "'a BinaryMarshaler \<Rightarrow> 'a \<Rightarrow> bytes res" and must_unmarshal :: "'a BinaryMarshaler \<Rightarrow> bytes \<Rightarrow> 'a res"
  assumes marshals: "must_marshal cdc x = panic_on_err (bmMarshal cdc x)"
    and unmarshals: "must_unmarshal cdc b = panic_on_err (bmUnmarshal cdc b)"
begin

lemma stored_roundtrip: "reads_back cdc \<Longrightarrow> bindR (must_marshal cdc x) (must_unmarshal cdc) = Inr x"
  unfolding reads_back_def marshals by (metis bindR.simps(2) panic_on_err_Inr unmarshals)

lemma never_error: "must_unmarshal cdc b \<noteq> Inl (Err e)"
  by (auto simp: unmarshals panic_on_err_def split: sum.splits failure.splits)

end

interpretation stored_delegation: stored MustMarshalDelegation MustUnmarshalDelegation
  by unfold_locales (simp_all add: MustMarshalDelegation_def MustUnmarshalDelegation_def UnmarshalDelegation_def)

interpretation stored_ubd: stored MustMarshalUBD MustUnmarshalUBD
  by unfold_locales (simp_all add: MustMarshalUBD_def MustUnmarshalUBD_def UnmarshalUBD_def)

interpretation stored_red: stored MustMarshalRED MustUnmarshalRED
  by unfold_locales (simp_all add: MustMarshalRED_def MustUnmarshalRED_def UnmarshalRED_def)

text \<open>Lists of proposals are compared element by element, in order.\<close>

lemma Proposals_Equal_iff: "Proposals_Equal eq ps qs \<longleftrightarrow> list_all2 eq ps qs"
proof -
  have "length ps = length qs \<Longrightarrow> proposals_equal_loop eq ps qs = list_all2 eq ps qs"
    by (induction ps qs rule: list_induct2) simp_all
  then show ?thesis by (auto simp: Proposals_Equal_def dest: list_all2_lengthD)
qed

text \<open>The texts of the entries of an unbonding delegation follow each other, and the word before them, without a line break.\<close>

lemma foldl_append: "foldl (\<lambda>out x. out @ f x) acc xs = acc @ concat (map f xs)"
  by (induction xs arbitrary: acc) simp_all

lemma UnbondingDelegation_String_eq:
  "\<exists>h. UnbondingDelegation_String time ubd = h @ ''Entries:'' @ concat (map (ubd_entry_text time) (enumerate 0 (ubEntries ubd)))"
  unfolding UnbondingDelegation_String_def foldl_append
  by (rule exI [of _ "''Unbonding Delegations between:'' @ [CHR 0x0A] @ ''  Delegator:                 '' @ ubDelegatorAddress ubd @ [CHR 0x0A] @
        ''  Validator:                 '' @ ubValidatorAddress ubd @ [CHR 0x0A] @ [CHR 0x09]"]) simp

text \<open>One proposal without content makes the text of the whole list panic.\<close>

lemma Proposals_String_panics:
  "ppContent p = None \<Longrightarrow> \<exists>e. Proposals_String [p] = Inl (Panic e)"
  by (simp add: Proposals_String_def proposal_line_def ProposalType_def Proposal_GetContent_def GetContent_def)

end
