(* ===== verification/Facade.thy ===== *)
theory Facade
  imports Client Address QueryTypes CoinswapQuery
begin

text \<open>
  The outer layer: the transaction configuration with the JSON form of signatures (\<open>types/tx/config.go\<close>, \<open>types/tx/sigs.go\<close>,
  \<open>types/tx/decoder.go\<close>), the methods by which the builder hands on to its transaction (\<open>types/tx/builder.go\<close>), the client for keys
  (\<open>modules/keys/keys.go\<close>), the assembly of the base client (\<open>modules/base_client.go\<close>), the answers of the coinswap module
  (\<open>modules/coinswap/types.go\<close>) and the methods of addresses and hexadecimal texts that are left (\<open>types/address.go\<close>, \<open>types/tm_types.go\<close>).
\<close>

section \<open>Transaction configuration\<close>

text \<open>A transaction is a wrapper of this package or a value of another type.\<close>

datatype ('m, 'k) SdkTx = WrapperTx "('m, 'k) wrapper" | ForeignTx

record ('m, 'k) config =
  cfgHandler :: SignModeHandlerMap
  cfgDecoder :: "bytes \<Rightarrow> ('m, 'k) wrapper res"
  cfgEncoder :: "('m, 'k) wrapper \<Rightarrow> (('m, 'k) wrapper \<times> bytes) res"
  cfgJsonDecoder :: "bytes \<Rightarrow> ('m, 'k) wrapper res"
  cfgJsonEncoder :: "('m, 'k) wrapper \<Rightarrow> bytes res"

text \<open>\<open>fromJSON\<close> is \<open>UnmarshalJSON\<close> of the codec for a transaction.\<close>

definition DefaultJSONTxDecoder :: "(bytes \<Rightarrow> ('m, 'k) Tx res) \<Rightarrow> bytes \<Rightarrow> ('m, 'k) wrapper res" where
  "DefaultJSONTxDecoder fromJSON txBytes =
     bindR (fromJSON txBytes) (\<lambda>theTx. Inr \<lparr>wtx = theTx, bodyBz = [], authInfoBz = [], txBodyHasUnknownNonCriticals = False\<rparr>)"

definition NewTxConfig ::
  "('m, 'k) Codec \<Rightarrow> ('m, 'k) Decoder \<Rightarrow> (bytes \<Rightarrow> ('m, 'k) Tx res) \<Rightarrow> 32 word list \<Rightarrow> ('m, 'k) config res" where
  "NewTxConfig cdc dec fromJSON enabledSignModes =
     bindR (MakeSignModeHandler enabledSignModes) (\<lambda>h.
       Inr \<lparr>cfgHandler = h, cfgDecoder = TxDecoder dec, cfgEncoder = TxEncoder cdc, cfgJsonDecoder = DefaultJSONTxDecoder fromJSON,
            cfgJsonEncoder = JSONTxEncoder cdc\<rparr>)"

definition config_NewTxBuilder :: "('m, 'k) wrapper" where
  "config_NewTxBuilder = newBuilder"

definition WrapTxBuilder :: "('m, 'k) SdkTx \<Rightarrow> ('m, 'k) wrapper res" where
  "WrapTxBuilder newTx = (case newTx of WrapperTx w \<Rightarrow> Inr w | ForeignTx \<Rightarrow> Inl (Err ''expected *tx.wrapper''))"

text \<open>A descriptor of a signature; a nil \<open>Any\<close> is \<open>None\<close>.\<close>

record 'k SignatureDescriptor =
  sdPublicKey :: "'k PubKey Any option"
  sdData :: DescriptorData
  sdSequence :: "64 word"

definition MarshalSignatureJSON :: "('m, 'k) Codec \<Rightarrow> ('k SignatureDescriptor list \<Rightarrow> bytes res) \<Rightarrow> 'k SignatureV2 list \<Rightarrow> bytes res" where
  "MarshalSignatureJSON cdc toJSON sigs =
     bindR (mapR (\<lambda>sig. bindR (PubKeyToAny cdc (SPubKey sig)) (\<lambda>any. bindR (SignatureDataToProto (SData sig)) (\<lambda>d.
        Inr \<lparr>sdPublicKey = Some any, sdData = d, sdSequence = 0\<rparr>))) sigs) toJSON"

definition UnmarshalSignatureJSON :: "(bytes \<Rightarrow> 'k SignatureDescriptor list res) \<Rightarrow> bytes \<Rightarrow> 'k SignatureV2 list res" where
  "UnmarshalSignatureJSON fromJSON bz =
     bindR (fromJSON bz) (mapR (\<lambda>desc.
       case sdPublicKey desc of
         None \<Rightarrow> Inl nil_deref
       | Some any \<Rightarrow> bindR (SignatureDataFromProto (sdData desc)) (\<lambda>d.
           Inr \<lparr>SPubKey = cachedValue any, SData = d, SSequence = sdSequence desc, SSkipSequenceCheck = False\<rparr>)))"

section \<open>The builder as a transaction\<close>

definition w_GetMsgs :: "('m, 'k) wrapper \<Rightarrow> ('m list) res" where
  "w_GetMsgs w = Tx_GetMsgs (wtx w)"

definition w_ValidateBasic :: "('m, 'k) Codec \<Rightarrow> ('m, 'k) wrapper \<Rightarrow> unit res" where
  "w_ValidateBasic cdc w = Tx_ValidateBasic cdc (Some (wtx w))"

definition w_GetSigners :: "('m, 'k) Codec \<Rightarrow> ('m, 'k) wrapper \<Rightarrow> (bytes list) res" where
  "w_GetSigners cdc w = Tx_GetSigners cdc (wtx w)"

definition w_GetSignatures :: "('m, 'k) wrapper \<Rightarrow> bytes list" where
  "w_GetSignatures w = TSignatures (wtx w)"

definition w_GetTx :: "('m, 'k) wrapper \<Rightarrow> ('m, 'k) SdkTx" where
  "w_GetTx w = WrapperTx w"

definition GetExtensionOptions :: "('m, 'k) wrapper \<Rightarrow> 'm Any list res" where
  "GetExtensionOptions w = bindR (body_of w) (\<lambda>b. Inr (ExtensionOptions b))"

definition GetNonCriticalExtensionOptions :: "('m, 'k) wrapper \<Rightarrow> 'm Any list res" where
  "GetNonCriticalExtensionOptions w = bindR (body_of w) (\<lambda>b. Inr (NonCriticalExtensionOptions b))"

definition handler_DefaultMode :: "SignModeHandlerMap \<Rightarrow> 32 word" where
  "handler_DefaultMode h = defaultMode h"

definition handler_Modes :: "SignModeHandlerMap \<Rightarrow> 32 word list" where
  "handler_Modes h = hmodes h"

section \<open>The client for keys\<close>

text \<open>Wrapping keeps the text of an error, so an outcome is the one of the key manager; \<open>s\<close> is the store.\<close>

definition keys_Add ::
  "('p, 'k) KeyLib \<Rightarrow> 's KeyDAO \<Rightarrow> string \<Rightarrow> string res \<Rightarrow> 's \<Rightarrow> string \<Rightarrow> string \<Rightarrow> ('s \<times> string \<times> string) res" where
  "keys_Add lib dao algo newMnemonic s name password = Keys_Insert lib dao algo newMnemonic s name password"

definition keys_Recover :: "('p, 'k) KeyLib \<Rightarrow> 's KeyDAO \<Rightarrow> string \<Rightarrow> 's \<Rightarrow> string \<Rightarrow> string \<Rightarrow> string \<Rightarrow> ('s \<times> string) res" where
  "keys_Recover lib dao algo s name password mnemo = Keys_Recover lib dao algo s name password mnemo ''''"

definition keys_RecoverWithHDPath ::
  "('p, 'k) KeyLib \<Rightarrow> 's KeyDAO \<Rightarrow> string \<Rightarrow> 's \<Rightarrow> string \<Rightarrow> string \<Rightarrow> string \<Rightarrow> string \<Rightarrow> ('s \<times> string) res" where
  "keys_RecoverWithHDPath lib dao algo s name password mnemo hdPath = Keys_Recover lib dao algo s name password mnemo hdPath"

definition keys_Import :: "('p, 'k) KeyLib \<Rightarrow> 's KeyDAO \<Rightarrow> string \<Rightarrow> 's \<Rightarrow> string \<Rightarrow> string \<Rightarrow> string \<Rightarrow> ('s \<times> string) res" where
  "keys_Import lib dao algo s name password privKeyArmor = Keys_Import lib dao algo s name password privKeyArmor"

definition keys_Export :: "('p, 'k) KeyLib \<Rightarrow> 's KeyDAO \<Rightarrow> bytes \<Rightarrow> bytes \<Rightarrow> 's \<Rightarrow> string \<Rightarrow> string \<Rightarrow> string res" where
  "keys_Export lib dao salt nonce s name password = Keys_Export lib dao salt nonce s name password"

definition keys_Delete :: "'s KeyDAO \<Rightarrow> 's \<Rightarrow> string \<Rightarrow> string \<Rightarrow> 's res" where
  "keys_Delete dao s name password = Keys_Delete dao s name password"

definition keys_Show :: "('p, 'k) KeyLib \<Rightarrow> 's KeyDAO \<Rightarrow> 's \<Rightarrow> string \<Rightarrow> string \<Rightarrow> string res" where
  "keys_Show lib dao s name password = bindR (Keys_Find lib dao s name password) (\<lambda>(_, address). Inr (addrString lib address))"

section \<open>The base client\<close>

text \<open>The parts that hold a logger or the cache; connections, decoders and configuration are given by the other theories.\<close>

record ('log, 'c) BaseObj =
  boRpcLogger :: 'log
  boLogger :: 'log
  boAccountLogger :: 'log
  boTokenLogger :: 'log
  boAccountCache :: "'c LRU"
  boTokenCache :: "'c LRU"
  boExpiration :: nat
  boShards :: nat

definition NewBaseClient :: "'log \<Rightarrow> 'c \<Rightarrow> bool \<Rightarrow> 'log option \<Rightarrow> ('log, 'c) BaseObj" where
  "NewBaseClient defaultLogger emptyCache cached logger0 =
     (let logger = (case logger0 of None \<Rightarrow> defaultLogger | Some l \<Rightarrow> l);
          c = NewCache emptyCache cached
      in \<lparr>boRpcLogger = logger, boLogger = logger, boAccountLogger = logger, boTokenLogger = logger, boAccountCache = c, boTokenCache = c,
          boExpiration = cacheExpirePeriod, boShards = 16\<rparr>)"

definition Base_Logger :: "('log, 'c) BaseObj \<Rightarrow> 'log" where
  "Base_Logger base = boLogger base"

definition Base_SetLogger :: "'log \<Rightarrow> ('log, 'c) BaseObj \<Rightarrow> ('log, 'c) BaseObj" where
  "Base_SetLogger logger base = base\<lparr>boLogger := logger\<rparr>"

section \<open>Answers of the coinswap module\<close>

record PoolInfo =
  piId :: "64 word"
  piTypeId :: "32 word"
  piReserveCoinDenoms :: "string list"
  piReserveAccountAddress :: string
  piPoolCoinDenom :: string

definition loadPoolInfo :: "SwapPool \<Rightarrow> PoolInfo" where
  "loadPoolInfo info =
     \<lparr>piId = SwapPool_Id info, piTypeId = SwapPool_TypeId info, piReserveCoinDenoms = SwapPool_ReserveCoinDenoms info,
      piReserveAccountAddress = SwapPool_ReserveAccountAddress info, piPoolCoinDenom = SwapPool_PoolCoinDenom info\<rparr>"

definition loadPools :: "SwapPool list \<Rightarrow> PoolInfo list" where
  "loadPools pools = foldl (\<lambda>ret pool. ret @ [loadPoolInfo pool]) [] pools"

definition QueryLiquidityPoolResponse_Convert :: "QueryLiquidityPoolResponse \<Rightarrow> PoolInfo" where
  "QueryLiquidityPoolResponse_Convert m = loadPoolInfo (QueryLiquidityPoolResponse_Pool m)"

definition QueryLiquidityPoolsResponse_Convert :: "QueryLiquidityPoolsResponse \<Rightarrow> PageResponse option \<times> PoolInfo list" where
  "QueryLiquidityPoolsResponse_Convert m = (QueryLiquidityPoolsResponse_Pagination m, loadPools (QueryLiquidityPoolsResponse_Pools m))"

section \<open>Addresses and hexadecimal texts\<close>

definition ValAddress_Empty :: "bytes \<Rightarrow> bool" where
  "ValAddress_Empty va \<longleftrightarrow> va = []"

definition ValAddress_Equals :: "bytes \<Rightarrow> bytes \<Rightarrow> bool" where
  "ValAddress_Equals va va2 = (if ValAddress_Empty va \<and> ValAddress_Empty va2 then True else va = va2)"

definition ValAddress_Marshal :: "bytes \<Rightarrow> bytes" where
  "ValAddress_Marshal va = va"

definition ValAddress_Unmarshal :: "bytes \<Rightarrow> bytes \<Rightarrow> bytes" where
  "ValAddress_Unmarshal va data = data"

text \<open>The verb \<open>%p\<close> prints a pointer, \<open>ptr\<close>.\<close>

definition ValAddress_Format :: "Bech32 \<Rightarrow> string \<Rightarrow> char \<Rightarrow> bytes \<Rightarrow> string res" where
  "ValAddress_Format b32 ptr verb va =
     (if verb = CHR ''s'' then ValAddress_String b32 va else if verb = CHR ''p'' then Inr ptr else Inr (hexUpper va))"

text \<open>\<open>hex.DecodeString\<close> gives the bytes before the first error with it.\<close>

fun hex_prefix :: "string \<Rightarrow> bytes" where
  "hex_prefix (c # d # cs) =
     (case (fromHexChar c, fromHexChar d) of (Some a, Some b) \<Rightarrow> of_nat (16 * a + b) # hex_prefix cs | _ \<Rightarrow> [])"
| "hex_prefix _ = []"

definition MustHexBytesFrom :: "string \<Rightarrow> bytes" where
  "MustHexBytesFrom hexStr = hex_prefix hexStr"

definition HexBytesFrom :: "string \<Rightarrow> bytes res" where
  "HexBytesFrom hexStr = (case hexDecode hexStr of None \<Rightarrow> Inl (Err ''encoding/hex: invalid'') | Some v \<Rightarrow> Inr v)"

definition HexStringFrom :: "bytes \<Rightarrow> string" where
  "HexStringFrom bz = hexUpper bz"

section \<open>Properties\<close>

text \<open>The JSON form of signatures keeps their keys and data; their sequence numbers are lost.\<close>

lemma FromProto_ToProto:
  "SignatureDataToProto d = Inr x \<Longrightarrow> SignatureDataFromProto x = Inr d"
  "toProto_loop ds = Inr xs \<Longrightarrow> fromProto_loop xs = Inr ds"
  by (induction d and ds arbitrary: x and xs rule: SignatureDataToProto_toProto_loop.induct) auto

lemma signature_json_roundtrip:
  assumes m: "MarshalSignatureJSON cdc toJSON sigs = Inr bz" and law: "\<And>ds b. toJSON ds = Inr b \<Longrightarrow> fromJSON b = Inr ds"
    and ok: "\<forall>s\<in>set sigs. \<not> SSkipSequenceCheck s"
  shows "UnmarshalSignatureJSON fromJSON bz = Inr (map (\<lambda>s. s\<lparr>SSequence := 0\<rparr>) sigs)"
proof -
  let ?f = "\<lambda>sig. bindR (PubKeyToAny cdc (SPubKey sig)) (\<lambda>any. bindR (SignatureDataToProto (SData sig)) (\<lambda>d.
        Inr \<lparr>sdPublicKey = Some any, sdData = d, sdSequence = 0\<rparr>))"
  let ?g = "\<lambda>desc. case sdPublicKey desc of None \<Rightarrow> Inl nil_deref | Some any \<Rightarrow> bindR (SignatureDataFromProto (sdData desc)) (\<lambda>d.
           Inr \<lparr>SPubKey = cachedValue any, SData = d, SSequence = sdSequence desc, SSkipSequenceCheck = False\<rparr>)"
  obtain ds where ds: "mapR ?f sigs = Inr ds" "toJSON ds = Inr bz" using m by (auto simp: MarshalSignatureJSON_def)
  have one: "?g x = Inr (s\<lparr>SSequence := 0\<rparr>)" if "?f s = Inr x" "\<not> SSkipSequenceCheck s" for s x
    using that by (cases "SPubKey s"; cases s) (auto simp: PubKeyToAny_def NewAnyWithValue_def dest!: FromProto_ToProto(1))
  have "mapR ?g ds = Inr (map (\<lambda>s. s\<lparr>SSequence := 0\<rparr>) sigs)" using ds(1) ok
  proof (induction sigs arbitrary: ds)
    case (Cons s sigs)
    then obtain x xs where x: "?f s = Inr x" "mapR ?f sigs = Inr xs" "ds = x # xs" by auto
    then show ?case using one [OF x(1)] Cons.IH [OF x(2)] Cons.prems(2) by simp
  qed simp
  then show ?thesis using law [OF ds(2)] by (simp add: UnmarshalSignatureJSON_def)
qed

text \<open>A configuration reads what it writes: its JSON decoder gives the transaction back, without caches.\<close>

lemma config_json_roundtrip:
  assumes "NewTxConfig cdc dec fromJSON modes = Inr g" "cfgJsonEncoder g w = Inr bz" "fromJSON bz = Inr (wtx w)"
  shows "\<exists>w'. cfgJsonDecoder g bz = Inr w' \<and> wtx w' = wtx w \<and> w_GetSignatures w' = w_GetSignatures w \<and> w_GetMsgs w' = w_GetMsgs w"
  using assms by (auto simp: NewTxConfig_def DefaultJSONTxDecoder_def w_GetSignatures_def w_GetMsgs_def)

lemma WrapTxBuilder_GetTx: "WrapTxBuilder (w_GetTx w) = Inr w"
  by (simp add: WrapTxBuilder_def w_GetTx_def)

text \<open>The address that a new key is announced with is the one that is shown for it later.\<close>

lemma shown_address:
  assumes laws: "lib_laws lib" and r: "keys_RecoverWithHDPath lib MemoryDAO algo s name pw mnemo path = Inr (s', addr)"
  shows "keys_Show lib MemoryDAO s' name pw = Inr addr"
proof -
  obtain raw where raw: "\<not> daoHas MemoryDAO s name" "addr = key_address lib (privOfRaw lib (Generate raw))"
    "daoWrite MemoryDAO s name pw (key_info lib algo name (privOfRaw lib (Generate raw))) = Inr s'"
    using Keys_Recover_writes [OF r [unfolded keys_RecoverWithHDPath_def]] by blast
  note st = memory.stored_key [OF laws TrueI raw(1) TrueI raw(3)]
  show ?thesis using st(1) raw(2) by (simp add: keys_Show_def key_address_def)
qed

text \<open>The account and token queries share one cache. A new logger reaches neither the queries nor the connection, which keep the first one.\<close>

lemma base_client_shares_cache: "boAccountCache (NewBaseClient d e cached l) = boTokenCache (NewBaseClient d e cached l)"
  by (simp add: NewBaseClient_def Let_def)

lemma SetLogger_partial:
  assumes "base = Base_SetLogger l2 (NewBaseClient d e cached (Some l1))"
  shows "Base_Logger base = l2" "boAccountLogger base = l1" "boTokenLogger base = l1" "boRpcLogger base = l1"
  by (simp_all add: assms NewBaseClient_def Base_SetLogger_def Base_Logger_def Let_def)

text \<open>All pools of an answer are converted, in their order, and no field is lost.\<close>

lemma loadPools_map: "loadPools pools = map loadPoolInfo pools"
proof -
  have "foldl (\<lambda>ret pool. ret @ [loadPoolInfo pool]) acc pools = acc @ map loadPoolInfo pools" for acc
    by (induction pools arbitrary: acc) simp_all
  then show ?thesis by (simp add: loadPools_def)
qed

lemma loadPoolInfo_inj: "loadPoolInfo p = loadPoolInfo q \<Longrightarrow> p = q"
  by (cases p; cases q) (simp add: loadPoolInfo_def)

text \<open>Hexadecimal texts are read back. The variant that should insist on it gives, for a text with an error, the bytes before the error.\<close>

lemma hex_prefix_decode: "hexDecode s = Some v \<Longrightarrow> hex_prefix s = v"
  by (induction s arbitrary: v rule: hexDecode.induct) (auto split: option.splits)

lemma hex_texts: "HexBytesFrom (HexStringFrom bz) = Inr bz" "MustHexBytesFrom (HexStringFrom bz) = bz" "MustHexBytesFrom ''0Axyz'' = [10]"
proof -
  show "HexBytesFrom (HexStringFrom bz) = Inr bz" by (simp add: HexBytesFrom_def HexStringFrom_def)
  show "MustHexBytesFrom (HexStringFrom bz) = bz" by (simp add: MustHexBytesFrom_def HexStringFrom_def hex_prefix_decode)
  show "MustHexBytesFrom ''0Axyz'' = [10]" by code_simp
qed

lemma ValAddress_Equals_iff: "ValAddress_Equals a b \<longleftrightarrow> a = b"
  by (auto simp: ValAddress_Equals_def ValAddress_Empty_def)

end
