(* ===== verification/QueryHooks.thy ===== *)
theory QueryHooks
  imports LiquidityService
begin

text \<open>
  The methods of the liquidity queries that callers and the protobuf runtime use (\<open>modules/coinswap/query.pd.go\<close>): the getters, which accept a nil
  message, and the hooks \<open>Reset\<close>, \<open>XXX_Unmarshal\<close>, \<open>XXX_Marshal\<close> and \<open>XXX_Size\<close>. \<open>XXX_Marshal\<close> is given a buffer and uses it up to its capacity; the argument
  \<open>b\<close> is that whole buffer. The table of the runtime that the deterministic form calls is the parameter \<open>info\<close>.
\<close>

section \<open>The hooks\<close>

type_synonym 'm MessageInfo = "bytes \<Rightarrow> 'm \<Rightarrow> bytes res"

text \<open>\<open>MarshalToSizedBuffer\<close> writes towards the start of the buffer, from its end; the caller then takes as many bytes from the start as were written.\<close>

definition sized_marshal :: "('m \<Rightarrow> bytes) \<Rightarrow> bytes \<Rightarrow> 'm \<Rightarrow> bytes res" where
  "sized_marshal enc b m =
     (let n = length (enc m)
      in if length b < n then Inl (Panic ''index out of range'') else Inr (take n (take (length b - n) b @ enc m)))"

definition QueryPoolWithdrawSuccessMsgsRequest_Reset :: "QueryPoolWithdrawSuccessMsgsRequest \<Rightarrow> QueryPoolWithdrawSuccessMsgsRequest" where
  "QueryPoolWithdrawSuccessMsgsRequest_Reset m = QueryPoolWithdrawSuccessMsgsRequest_zero"

definition QueryPoolWithdrawSuccessMsgsRequest_XXX_Unmarshal :: "bytes \<Rightarrow> QueryPoolWithdrawSuccessMsgsRequest \<Rightarrow> QueryPoolWithdrawSuccessMsgsRequest res" where
  "QueryPoolWithdrawSuccessMsgsRequest_XXX_Unmarshal b m = QueryPoolWithdrawSuccessMsgsRequest_Unmarshal b m"

definition QueryPoolWithdrawSuccessMsgsRequest_XXX_Marshal :: "QueryPoolWithdrawSuccessMsgsRequest MessageInfo \<Rightarrow> bytes \<Rightarrow> bool \<Rightarrow> QueryPoolWithdrawSuccessMsgsRequest \<Rightarrow> bytes res" where
  "QueryPoolWithdrawSuccessMsgsRequest_XXX_Marshal info b deterministic m =
     (if deterministic then info b m else sized_marshal QueryPoolWithdrawSuccessMsgsRequest_Marshal b m)"

definition QueryPoolWithdrawSuccessMsgsRequest_XXX_Size :: "QueryPoolWithdrawSuccessMsgsRequest \<Rightarrow> nat" where
  "QueryPoolWithdrawSuccessMsgsRequest_XXX_Size m = QueryPoolWithdrawSuccessMsgsRequest_Size m"

definition QueryPoolWithdrawSuccessMsgsRequest_GetPoolId :: "QueryPoolWithdrawSuccessMsgsRequest option \<Rightarrow> (64 word)" where
  "QueryPoolWithdrawSuccessMsgsRequest_GetPoolId m = (case m of Some m \<Rightarrow> QueryPoolWithdrawSuccessMsgsRequest_PoolId m | None \<Rightarrow> 0)"

definition QueryPoolWithdrawSuccessMsgsRequest_GetWithdrawAddress :: "QueryPoolWithdrawSuccessMsgsRequest option \<Rightarrow> string" where
  "QueryPoolWithdrawSuccessMsgsRequest_GetWithdrawAddress m = (case m of Some m \<Rightarrow> QueryPoolWithdrawSuccessMsgsRequest_WithdrawAddress m | None \<Rightarrow> '''')"

definition QueryPoolWithdrawSuccessMsgsRequest_GetPagination :: "QueryPoolWithdrawSuccessMsgsRequest option \<Rightarrow> (PageRequest option)" where
  "QueryPoolWithdrawSuccessMsgsRequest_GetPagination m = (case m of Some m \<Rightarrow> QueryPoolWithdrawSuccessMsgsRequest_Pagination m | None \<Rightarrow> None)"

definition QueryPoolWithdrawSuccessMsgRequest_Reset :: "QueryPoolWithdrawSuccessMsgRequest \<Rightarrow> QueryPoolWithdrawSuccessMsgRequest" where
  "QueryPoolWithdrawSuccessMsgRequest_Reset m = QueryPoolWithdrawSuccessMsgRequest_zero"

definition QueryPoolWithdrawSuccessMsgRequest_XXX_Unmarshal :: "bytes \<Rightarrow> QueryPoolWithdrawSuccessMsgRequest \<Rightarrow> QueryPoolWithdrawSuccessMsgRequest res" where
  "QueryPoolWithdrawSuccessMsgRequest_XXX_Unmarshal b m = QueryPoolWithdrawSuccessMsgRequest_Unmarshal b m"

definition QueryPoolWithdrawSuccessMsgRequest_XXX_Marshal :: "QueryPoolWithdrawSuccessMsgRequest MessageInfo \<Rightarrow> bytes \<Rightarrow> bool \<Rightarrow> QueryPoolWithdrawSuccessMsgRequest \<Rightarrow> bytes res" where
  "QueryPoolWithdrawSuccessMsgRequest_XXX_Marshal info b deterministic m =
     (if deterministic then info b m else sized_marshal QueryPoolWithdrawSuccessMsgRequest_Marshal b m)"

definition QueryPoolWithdrawSuccessMsgRequest_XXX_Size :: "QueryPoolWithdrawSuccessMsgRequest \<Rightarrow> nat" where
  "QueryPoolWithdrawSuccessMsgRequest_XXX_Size m = QueryPoolWithdrawSuccessMsgRequest_Size m"

definition QueryPoolWithdrawSuccessMsgRequest_GetPoolId :: "QueryPoolWithdrawSuccessMsgRequest option \<Rightarrow> (64 word)" where
  "QueryPoolWithdrawSuccessMsgRequest_GetPoolId m = (case m of Some m \<Rightarrow> QueryPoolWithdrawSuccessMsgRequest_PoolId m | None \<Rightarrow> 0)"

definition QueryPoolWithdrawSuccessMsgRequest_GetMsgIndex :: "QueryPoolWithdrawSuccessMsgRequest option \<Rightarrow> (64 word)" where
  "QueryPoolWithdrawSuccessMsgRequest_GetMsgIndex m = (case m of Some m \<Rightarrow> QueryPoolWithdrawSuccessMsgRequest_MsgIndex m | None \<Rightarrow> 0)"

definition QueryPoolWithdrawSuccessMsgsResponse_Reset :: "QueryPoolWithdrawSuccessMsgsResponse \<Rightarrow> QueryPoolWithdrawSuccessMsgsResponse" where
  "QueryPoolWithdrawSuccessMsgsResponse_Reset m = QueryPoolWithdrawSuccessMsgsResponse_zero"

definition QueryPoolWithdrawSuccessMsgsResponse_XXX_Unmarshal :: "bytes \<Rightarrow> QueryPoolWithdrawSuccessMsgsResponse \<Rightarrow> QueryPoolWithdrawSuccessMsgsResponse res" where
  "QueryPoolWithdrawSuccessMsgsResponse_XXX_Unmarshal b m = QueryPoolWithdrawSuccessMsgsResponse_Unmarshal b m"

definition QueryPoolWithdrawSuccessMsgsResponse_XXX_Marshal :: "QueryPoolWithdrawSuccessMsgsResponse MessageInfo \<Rightarrow> bytes \<Rightarrow> bool \<Rightarrow> QueryPoolWithdrawSuccessMsgsResponse \<Rightarrow> bytes res" where
  "QueryPoolWithdrawSuccessMsgsResponse_XXX_Marshal info b deterministic m =
     (if deterministic then info b m else sized_marshal QueryPoolWithdrawSuccessMsgsResponse_Marshal b m)"

definition QueryPoolWithdrawSuccessMsgsResponse_XXX_Size :: "QueryPoolWithdrawSuccessMsgsResponse \<Rightarrow> nat" where
  "QueryPoolWithdrawSuccessMsgsResponse_XXX_Size m = QueryPoolWithdrawSuccessMsgsResponse_Size m"

definition QueryPoolWithdrawSuccessMsgsResponse_GetWithdraws :: "QueryPoolWithdrawSuccessMsgsResponse option \<Rightarrow> (WithdrawSuccessMsg list)" where
  "QueryPoolWithdrawSuccessMsgsResponse_GetWithdraws m = (case m of Some m \<Rightarrow> QueryPoolWithdrawSuccessMsgsResponse_Withdraws m | None \<Rightarrow> [])"

definition QueryPoolWithdrawSuccessMsgsResponse_GetPagination :: "QueryPoolWithdrawSuccessMsgsResponse option \<Rightarrow> (PageResponse option)" where
  "QueryPoolWithdrawSuccessMsgsResponse_GetPagination m = (case m of Some m \<Rightarrow> QueryPoolWithdrawSuccessMsgsResponse_Pagination m | None \<Rightarrow> None)"

definition QueryPoolWithdrawSuccessMsgResponse_Reset :: "QueryPoolWithdrawSuccessMsgResponse \<Rightarrow> QueryPoolWithdrawSuccessMsgResponse" where
  "QueryPoolWithdrawSuccessMsgResponse_Reset m = QueryPoolWithdrawSuccessMsgResponse_zero"

definition QueryPoolWithdrawSuccessMsgResponse_XXX_Unmarshal :: "bytes \<Rightarrow> QueryPoolWithdrawSuccessMsgResponse \<Rightarrow> QueryPoolWithdrawSuccessMsgResponse res" where
  "QueryPoolWithdrawSuccessMsgResponse_XXX_Unmarshal b m = QueryPoolWithdrawSuccessMsgResponse_Unmarshal b m"

definition QueryPoolWithdrawSuccessMsgResponse_XXX_Marshal :: "QueryPoolWithdrawSuccessMsgResponse MessageInfo \<Rightarrow> bytes \<Rightarrow> bool \<Rightarrow> QueryPoolWithdrawSuccessMsgResponse \<Rightarrow> bytes res" where
  "QueryPoolWithdrawSuccessMsgResponse_XXX_Marshal info b deterministic m =
     (if deterministic then info b m else sized_marshal QueryPoolWithdrawSuccessMsgResponse_Marshal b m)"

definition QueryPoolWithdrawSuccessMsgResponse_XXX_Size :: "QueryPoolWithdrawSuccessMsgResponse \<Rightarrow> nat" where
  "QueryPoolWithdrawSuccessMsgResponse_XXX_Size m = QueryPoolWithdrawSuccessMsgResponse_Size m"

definition QueryPoolWithdrawSuccessMsgResponse_GetWithdraw :: "QueryPoolWithdrawSuccessMsgResponse option \<Rightarrow> WithdrawSuccessMsg" where
  "QueryPoolWithdrawSuccessMsgResponse_GetWithdraw m = (case m of Some m \<Rightarrow> QueryPoolWithdrawSuccessMsgResponse_Withdraw m | None \<Rightarrow> WithdrawSuccessMsg_zero)"

definition QueryPoolSwapSuccessMsgsRequest_Reset :: "QueryPoolSwapSuccessMsgsRequest \<Rightarrow> QueryPoolSwapSuccessMsgsRequest" where
  "QueryPoolSwapSuccessMsgsRequest_Reset m = QueryPoolSwapSuccessMsgsRequest_zero"

definition QueryPoolSwapSuccessMsgsRequest_XXX_Unmarshal :: "bytes \<Rightarrow> QueryPoolSwapSuccessMsgsRequest \<Rightarrow> QueryPoolSwapSuccessMsgsRequest res" where
  "QueryPoolSwapSuccessMsgsRequest_XXX_Unmarshal b m = QueryPoolSwapSuccessMsgsRequest_Unmarshal b m"

definition QueryPoolSwapSuccessMsgsRequest_XXX_Marshal :: "QueryPoolSwapSuccessMsgsRequest MessageInfo \<Rightarrow> bytes \<Rightarrow> bool \<Rightarrow> QueryPoolSwapSuccessMsgsRequest \<Rightarrow> bytes res" where
  "QueryPoolSwapSuccessMsgsRequest_XXX_Marshal info b deterministic m =
     (if deterministic then info b m else sized_marshal QueryPoolSwapSuccessMsgsRequest_Marshal b m)"

definition QueryPoolSwapSuccessMsgsRequest_XXX_Size :: "QueryPoolSwapSuccessMsgsRequest \<Rightarrow> nat" where
  "QueryPoolSwapSuccessMsgsRequest_XXX_Size m = QueryPoolSwapSuccessMsgsRequest_Size m"

definition QueryPoolSwapSuccessMsgsRequest_GetPoolId :: "QueryPoolSwapSuccessMsgsRequest option \<Rightarrow> (64 word)" where
  "QueryPoolSwapSuccessMsgsRequest_GetPoolId m = (case m of Some m \<Rightarrow> QueryPoolSwapSuccessMsgsRequest_PoolId m | None \<Rightarrow> 0)"

definition QueryPoolSwapSuccessMsgsRequest_GetSwapAddress :: "QueryPoolSwapSuccessMsgsRequest option \<Rightarrow> string" where
  "QueryPoolSwapSuccessMsgsRequest_GetSwapAddress m = (case m of Some m \<Rightarrow> QueryPoolSwapSuccessMsgsRequest_SwapAddress m | None \<Rightarrow> '''')"

definition QueryPoolSwapSuccessMsgsRequest_GetPagination :: "QueryPoolSwapSuccessMsgsRequest option \<Rightarrow> (PageRequest option)" where
  "QueryPoolSwapSuccessMsgsRequest_GetPagination m = (case m of Some m \<Rightarrow> QueryPoolSwapSuccessMsgsRequest_Pagination m | None \<Rightarrow> None)"

definition QueryPoolSwapSuccessMsgRequest_Reset :: "QueryPoolSwapSuccessMsgRequest \<Rightarrow> QueryPoolSwapSuccessMsgRequest" where
  "QueryPoolSwapSuccessMsgRequest_Reset m = QueryPoolSwapSuccessMsgRequest_zero"

definition QueryPoolSwapSuccessMsgRequest_XXX_Unmarshal :: "bytes \<Rightarrow> QueryPoolSwapSuccessMsgRequest \<Rightarrow> QueryPoolSwapSuccessMsgRequest res" where
  "QueryPoolSwapSuccessMsgRequest_XXX_Unmarshal b m = QueryPoolSwapSuccessMsgRequest_Unmarshal b m"

definition QueryPoolSwapSuccessMsgRequest_XXX_Marshal :: "QueryPoolSwapSuccessMsgRequest MessageInfo \<Rightarrow> bytes \<Rightarrow> bool \<Rightarrow> QueryPoolSwapSuccessMsgRequest \<Rightarrow> bytes res" where
  "QueryPoolSwapSuccessMsgRequest_XXX_Marshal info b deterministic m =
     (if deterministic then info b m else sized_marshal QueryPoolSwapSuccessMsgRequest_Marshal b m)"

definition QueryPoolSwapSuccessMsgRequest_XXX_Size :: "QueryPoolSwapSuccessMsgRequest \<Rightarrow> nat" where
  "QueryPoolSwapSuccessMsgRequest_XXX_Size m = QueryPoolSwapSuccessMsgRequest_Size m"

definition QueryPoolSwapSuccessMsgRequest_GetPoolId :: "QueryPoolSwapSuccessMsgRequest option \<Rightarrow> (64 word)" where
  "QueryPoolSwapSuccessMsgRequest_GetPoolId m = (case m of Some m \<Rightarrow> QueryPoolSwapSuccessMsgRequest_PoolId m | None \<Rightarrow> 0)"

definition QueryPoolSwapSuccessMsgRequest_GetMsgIndex :: "QueryPoolSwapSuccessMsgRequest option \<Rightarrow> (64 word)" where
  "QueryPoolSwapSuccessMsgRequest_GetMsgIndex m = (case m of Some m \<Rightarrow> QueryPoolSwapSuccessMsgRequest_MsgIndex m | None \<Rightarrow> 0)"

definition QueryPoolSwapSuccessMsgsResponse_Reset :: "QueryPoolSwapSuccessMsgsResponse \<Rightarrow> QueryPoolSwapSuccessMsgsResponse" where
  "QueryPoolSwapSuccessMsgsResponse_Reset m = QueryPoolSwapSuccessMsgsResponse_zero"

definition QueryPoolSwapSuccessMsgsResponse_XXX_Unmarshal :: "bytes \<Rightarrow> QueryPoolSwapSuccessMsgsResponse \<Rightarrow> QueryPoolSwapSuccessMsgsResponse res" where
  "QueryPoolSwapSuccessMsgsResponse_XXX_Unmarshal b m = QueryPoolSwapSuccessMsgsResponse_Unmarshal b m"

definition QueryPoolSwapSuccessMsgsResponse_XXX_Marshal :: "QueryPoolSwapSuccessMsgsResponse MessageInfo \<Rightarrow> bytes \<Rightarrow> bool \<Rightarrow> QueryPoolSwapSuccessMsgsResponse \<Rightarrow> bytes res" where
  "QueryPoolSwapSuccessMsgsResponse_XXX_Marshal info b deterministic m =
     (if deterministic then info b m else sized_marshal QueryPoolSwapSuccessMsgsResponse_Marshal b m)"

definition QueryPoolSwapSuccessMsgsResponse_XXX_Size :: "QueryPoolSwapSuccessMsgsResponse \<Rightarrow> nat" where
  "QueryPoolSwapSuccessMsgsResponse_XXX_Size m = QueryPoolSwapSuccessMsgsResponse_Size m"

definition QueryPoolSwapSuccessMsgsResponse_GetSwaps :: "QueryPoolSwapSuccessMsgsResponse option \<Rightarrow> (SwapSuccessMsg list)" where
  "QueryPoolSwapSuccessMsgsResponse_GetSwaps m = (case m of Some m \<Rightarrow> QueryPoolSwapSuccessMsgsResponse_Swaps m | None \<Rightarrow> [])"

definition QueryPoolSwapSuccessMsgsResponse_GetPagination :: "QueryPoolSwapSuccessMsgsResponse option \<Rightarrow> (PageResponse option)" where
  "QueryPoolSwapSuccessMsgsResponse_GetPagination m = (case m of Some m \<Rightarrow> QueryPoolSwapSuccessMsgsResponse_Pagination m | None \<Rightarrow> None)"

definition QueryPoolSwapSuccessMsgResponse_Reset :: "QueryPoolSwapSuccessMsgResponse \<Rightarrow> QueryPoolSwapSuccessMsgResponse" where
  "QueryPoolSwapSuccessMsgResponse_Reset m = QueryPoolSwapSuccessMsgResponse_zero"

definition QueryPoolSwapSuccessMsgResponse_XXX_Unmarshal :: "bytes \<Rightarrow> QueryPoolSwapSuccessMsgResponse \<Rightarrow> QueryPoolSwapSuccessMsgResponse res" where
  "QueryPoolSwapSuccessMsgResponse_XXX_Unmarshal b m = QueryPoolSwapSuccessMsgResponse_Unmarshal b m"

definition QueryPoolSwapSuccessMsgResponse_XXX_Marshal :: "QueryPoolSwapSuccessMsgResponse MessageInfo \<Rightarrow> bytes \<Rightarrow> bool \<Rightarrow> QueryPoolSwapSuccessMsgResponse \<Rightarrow> bytes res" where
  "QueryPoolSwapSuccessMsgResponse_XXX_Marshal info b deterministic m =
     (if deterministic then info b m else sized_marshal QueryPoolSwapSuccessMsgResponse_Marshal b m)"

definition QueryPoolSwapSuccessMsgResponse_XXX_Size :: "QueryPoolSwapSuccessMsgResponse \<Rightarrow> nat" where
  "QueryPoolSwapSuccessMsgResponse_XXX_Size m = QueryPoolSwapSuccessMsgResponse_Size m"

definition QueryPoolSwapSuccessMsgResponse_GetSwap :: "QueryPoolSwapSuccessMsgResponse option \<Rightarrow> SwapSuccessMsg" where
  "QueryPoolSwapSuccessMsgResponse_GetSwap m = (case m of Some m \<Rightarrow> QueryPoolSwapSuccessMsgResponse_Swap m | None \<Rightarrow> SwapSuccessMsg_zero)"

definition QueryPoolDepositSuccessMsgsRequest_Reset :: "QueryPoolDepositSuccessMsgsRequest \<Rightarrow> QueryPoolDepositSuccessMsgsRequest" where
  "QueryPoolDepositSuccessMsgsRequest_Reset m = QueryPoolDepositSuccessMsgsRequest_zero"

definition QueryPoolDepositSuccessMsgsRequest_XXX_Unmarshal :: "bytes \<Rightarrow> QueryPoolDepositSuccessMsgsRequest \<Rightarrow> QueryPoolDepositSuccessMsgsRequest res" where
  "QueryPoolDepositSuccessMsgsRequest_XXX_Unmarshal b m = QueryPoolDepositSuccessMsgsRequest_Unmarshal b m"

definition QueryPoolDepositSuccessMsgsRequest_XXX_Marshal :: "QueryPoolDepositSuccessMsgsRequest MessageInfo \<Rightarrow> bytes \<Rightarrow> bool \<Rightarrow> QueryPoolDepositSuccessMsgsRequest \<Rightarrow> bytes res" where
  "QueryPoolDepositSuccessMsgsRequest_XXX_Marshal info b deterministic m =
     (if deterministic then info b m else sized_marshal QueryPoolDepositSuccessMsgsRequest_Marshal b m)"

definition QueryPoolDepositSuccessMsgsRequest_XXX_Size :: "QueryPoolDepositSuccessMsgsRequest \<Rightarrow> nat" where
  "QueryPoolDepositSuccessMsgsRequest_XXX_Size m = QueryPoolDepositSuccessMsgsRequest_Size m"

definition QueryPoolDepositSuccessMsgsRequest_GetPoolId :: "QueryPoolDepositSuccessMsgsRequest option \<Rightarrow> (64 word)" where
  "QueryPoolDepositSuccessMsgsRequest_GetPoolId m = (case m of Some m \<Rightarrow> QueryPoolDepositSuccessMsgsRequest_PoolId m | None \<Rightarrow> 0)"

definition QueryPoolDepositSuccessMsgsRequest_GetDepositorAddress :: "QueryPoolDepositSuccessMsgsRequest option \<Rightarrow> string" where
  "QueryPoolDepositSuccessMsgsRequest_GetDepositorAddress m = (case m of Some m \<Rightarrow> QueryPoolDepositSuccessMsgsRequest_DepositorAddress m | None \<Rightarrow> '''')"

definition QueryPoolDepositSuccessMsgsRequest_GetPagination :: "QueryPoolDepositSuccessMsgsRequest option \<Rightarrow> (PageRequest option)" where
  "QueryPoolDepositSuccessMsgsRequest_GetPagination m = (case m of Some m \<Rightarrow> QueryPoolDepositSuccessMsgsRequest_Pagination m | None \<Rightarrow> None)"

definition QueryPoolDepositSuccessMsgRequest_Reset :: "QueryPoolDepositSuccessMsgRequest \<Rightarrow> QueryPoolDepositSuccessMsgRequest" where
  "QueryPoolDepositSuccessMsgRequest_Reset m = QueryPoolDepositSuccessMsgRequest_zero"

definition QueryPoolDepositSuccessMsgRequest_XXX_Unmarshal :: "bytes \<Rightarrow> QueryPoolDepositSuccessMsgRequest \<Rightarrow> QueryPoolDepositSuccessMsgRequest res" where
  "QueryPoolDepositSuccessMsgRequest_XXX_Unmarshal b m = QueryPoolDepositSuccessMsgRequest_Unmarshal b m"

definition QueryPoolDepositSuccessMsgRequest_XXX_Marshal :: "QueryPoolDepositSuccessMsgRequest MessageInfo \<Rightarrow> bytes \<Rightarrow> bool \<Rightarrow> QueryPoolDepositSuccessMsgRequest \<Rightarrow> bytes res" where
  "QueryPoolDepositSuccessMsgRequest_XXX_Marshal info b deterministic m =
     (if deterministic then info b m else sized_marshal QueryPoolDepositSuccessMsgRequest_Marshal b m)"

definition QueryPoolDepositSuccessMsgRequest_XXX_Size :: "QueryPoolDepositSuccessMsgRequest \<Rightarrow> nat" where
  "QueryPoolDepositSuccessMsgRequest_XXX_Size m = QueryPoolDepositSuccessMsgRequest_Size m"

definition QueryPoolDepositSuccessMsgRequest_GetPoolId :: "QueryPoolDepositSuccessMsgRequest option \<Rightarrow> (64 word)" where
  "QueryPoolDepositSuccessMsgRequest_GetPoolId m = (case m of Some m \<Rightarrow> QueryPoolDepositSuccessMsgRequest_PoolId m | None \<Rightarrow> 0)"

definition QueryPoolDepositSuccessMsgRequest_GetMsgIndex :: "QueryPoolDepositSuccessMsgRequest option \<Rightarrow> (64 word)" where
  "QueryPoolDepositSuccessMsgRequest_GetMsgIndex m = (case m of Some m \<Rightarrow> QueryPoolDepositSuccessMsgRequest_MsgIndex m | None \<Rightarrow> 0)"

definition QueryPoolDepositSuccessMsgsResponse_Reset :: "QueryPoolDepositSuccessMsgsResponse \<Rightarrow> QueryPoolDepositSuccessMsgsResponse" where
  "QueryPoolDepositSuccessMsgsResponse_Reset m = QueryPoolDepositSuccessMsgsResponse_zero"

definition QueryPoolDepositSuccessMsgsResponse_XXX_Unmarshal :: "bytes \<Rightarrow> QueryPoolDepositSuccessMsgsResponse \<Rightarrow> QueryPoolDepositSuccessMsgsResponse res" where
  "QueryPoolDepositSuccessMsgsResponse_XXX_Unmarshal b m = QueryPoolDepositSuccessMsgsResponse_Unmarshal b m"

definition QueryPoolDepositSuccessMsgsResponse_XXX_Marshal :: "QueryPoolDepositSuccessMsgsResponse MessageInfo \<Rightarrow> bytes \<Rightarrow> bool \<Rightarrow> QueryPoolDepositSuccessMsgsResponse \<Rightarrow> bytes res" where
  "QueryPoolDepositSuccessMsgsResponse_XXX_Marshal info b deterministic m =
     (if deterministic then info b m else sized_marshal QueryPoolDepositSuccessMsgsResponse_Marshal b m)"

definition QueryPoolDepositSuccessMsgsResponse_XXX_Size :: "QueryPoolDepositSuccessMsgsResponse \<Rightarrow> nat" where
  "QueryPoolDepositSuccessMsgsResponse_XXX_Size m = QueryPoolDepositSuccessMsgsResponse_Size m"

definition QueryPoolDepositSuccessMsgsResponse_GetDeposits :: "QueryPoolDepositSuccessMsgsResponse option \<Rightarrow> (DepositSuccessMsg list)" where
  "QueryPoolDepositSuccessMsgsResponse_GetDeposits m = (case m of Some m \<Rightarrow> QueryPoolDepositSuccessMsgsResponse_Deposits m | None \<Rightarrow> [])"

definition QueryPoolDepositSuccessMsgsResponse_GetPagination :: "QueryPoolDepositSuccessMsgsResponse option \<Rightarrow> (PageResponse option)" where
  "QueryPoolDepositSuccessMsgsResponse_GetPagination m = (case m of Some m \<Rightarrow> QueryPoolDepositSuccessMsgsResponse_Pagination m | None \<Rightarrow> None)"

definition QueryPoolDepositSuccessMsgResponse_Reset :: "QueryPoolDepositSuccessMsgResponse \<Rightarrow> QueryPoolDepositSuccessMsgResponse" where
  "QueryPoolDepositSuccessMsgResponse_Reset m = QueryPoolDepositSuccessMsgResponse_zero"

definition QueryPoolDepositSuccessMsgResponse_XXX_Unmarshal :: "bytes \<Rightarrow> QueryPoolDepositSuccessMsgResponse \<Rightarrow> QueryPoolDepositSuccessMsgResponse res" where
  "QueryPoolDepositSuccessMsgResponse_XXX_Unmarshal b m = QueryPoolDepositSuccessMsgResponse_Unmarshal b m"

definition QueryPoolDepositSuccessMsgResponse_XXX_Marshal :: "QueryPoolDepositSuccessMsgResponse MessageInfo \<Rightarrow> bytes \<Rightarrow> bool \<Rightarrow> QueryPoolDepositSuccessMsgResponse \<Rightarrow> bytes res" where
  "QueryPoolDepositSuccessMsgResponse_XXX_Marshal info b deterministic m =
     (if deterministic then info b m else sized_marshal QueryPoolDepositSuccessMsgResponse_Marshal b m)"

definition QueryPoolDepositSuccessMsgResponse_XXX_Size :: "QueryPoolDepositSuccessMsgResponse \<Rightarrow> nat" where
  "QueryPoolDepositSuccessMsgResponse_XXX_Size m = QueryPoolDepositSuccessMsgResponse_Size m"

definition QueryPoolDepositSuccessMsgResponse_GetDeposit :: "QueryPoolDepositSuccessMsgResponse option \<Rightarrow> DepositSuccessMsg" where
  "QueryPoolDepositSuccessMsgResponse_GetDeposit m = (case m of Some m \<Rightarrow> QueryPoolDepositSuccessMsgResponse_Deposit m | None \<Rightarrow> DepositSuccessMsg_zero)"

definition QueryLiquidityPoolRequest_Reset :: "QueryLiquidityPoolRequest \<Rightarrow> QueryLiquidityPoolRequest" where
  "QueryLiquidityPoolRequest_Reset m = QueryLiquidityPoolRequest_zero"

definition QueryLiquidityPoolRequest_XXX_Unmarshal :: "bytes \<Rightarrow> QueryLiquidityPoolRequest \<Rightarrow> QueryLiquidityPoolRequest res" where
  "QueryLiquidityPoolRequest_XXX_Unmarshal b m = QueryLiquidityPoolRequest_Unmarshal b m"

definition QueryLiquidityPoolRequest_XXX_Marshal :: "QueryLiquidityPoolRequest MessageInfo \<Rightarrow> bytes \<Rightarrow> bool \<Rightarrow> QueryLiquidityPoolRequest \<Rightarrow> bytes res" where
  "QueryLiquidityPoolRequest_XXX_Marshal info b deterministic m =
     (if deterministic then info b m else sized_marshal QueryLiquidityPoolRequest_Marshal b m)"

definition QueryLiquidityPoolRequest_XXX_Size :: "QueryLiquidityPoolRequest \<Rightarrow> nat" where
  "QueryLiquidityPoolRequest_XXX_Size m = QueryLiquidityPoolRequest_Size m"

definition QueryLiquidityPoolRequest_GetPoolId :: "QueryLiquidityPoolRequest option \<Rightarrow> (64 word)" where
  "QueryLiquidityPoolRequest_GetPoolId m = (case m of Some m \<Rightarrow> QueryLiquidityPoolRequest_PoolId m | None \<Rightarrow> 0)"

definition QueryLiquidityPoolResponse_Reset :: "QueryLiquidityPoolResponse \<Rightarrow> QueryLiquidityPoolResponse" where
  "QueryLiquidityPoolResponse_Reset m = QueryLiquidityPoolResponse_zero"

definition QueryLiquidityPoolResponse_XXX_Unmarshal :: "bytes \<Rightarrow> QueryLiquidityPoolResponse \<Rightarrow> QueryLiquidityPoolResponse res" where
  "QueryLiquidityPoolResponse_XXX_Unmarshal b m = QueryLiquidityPoolResponse_Unmarshal b m"

definition QueryLiquidityPoolResponse_XXX_Marshal :: "QueryLiquidityPoolResponse MessageInfo \<Rightarrow> bytes \<Rightarrow> bool \<Rightarrow> QueryLiquidityPoolResponse \<Rightarrow> bytes res" where
  "QueryLiquidityPoolResponse_XXX_Marshal info b deterministic m =
     (if deterministic then info b m else sized_marshal QueryLiquidityPoolResponse_Marshal b m)"

definition QueryLiquidityPoolResponse_XXX_Size :: "QueryLiquidityPoolResponse \<Rightarrow> nat" where
  "QueryLiquidityPoolResponse_XXX_Size m = QueryLiquidityPoolResponse_Size m"

definition QueryLiquidityPoolResponse_GetPool :: "QueryLiquidityPoolResponse option \<Rightarrow> SwapPool" where
  "QueryLiquidityPoolResponse_GetPool m = (case m of Some m \<Rightarrow> QueryLiquidityPoolResponse_Pool m | None \<Rightarrow> SwapPool_zero)"

definition QueryLiquidityPoolByPoolCoinDenomRequest_Reset :: "QueryLiquidityPoolByPoolCoinDenomRequest \<Rightarrow> QueryLiquidityPoolByPoolCoinDenomRequest" where
  "QueryLiquidityPoolByPoolCoinDenomRequest_Reset m = QueryLiquidityPoolByPoolCoinDenomRequest_zero"

definition QueryLiquidityPoolByPoolCoinDenomRequest_XXX_Unmarshal :: "bytes \<Rightarrow> QueryLiquidityPoolByPoolCoinDenomRequest \<Rightarrow> QueryLiquidityPoolByPoolCoinDenomRequest res" where
  "QueryLiquidityPoolByPoolCoinDenomRequest_XXX_Unmarshal b m = QueryLiquidityPoolByPoolCoinDenomRequest_Unmarshal b m"

definition QueryLiquidityPoolByPoolCoinDenomRequest_XXX_Marshal :: "QueryLiquidityPoolByPoolCoinDenomRequest MessageInfo \<Rightarrow> bytes \<Rightarrow> bool \<Rightarrow> QueryLiquidityPoolByPoolCoinDenomRequest \<Rightarrow> bytes res" where
  "QueryLiquidityPoolByPoolCoinDenomRequest_XXX_Marshal info b deterministic m =
     (if deterministic then info b m else sized_marshal QueryLiquidityPoolByPoolCoinDenomRequest_Marshal b m)"

definition QueryLiquidityPoolByPoolCoinDenomRequest_XXX_Size :: "QueryLiquidityPoolByPoolCoinDenomRequest \<Rightarrow> nat" where
  "QueryLiquidityPoolByPoolCoinDenomRequest_XXX_Size m = QueryLiquidityPoolByPoolCoinDenomRequest_Size m"

definition QueryLiquidityPoolByPoolCoinDenomRequest_GetPoolCoinDenom :: "QueryLiquidityPoolByPoolCoinDenomRequest option \<Rightarrow> string" where
  "QueryLiquidityPoolByPoolCoinDenomRequest_GetPoolCoinDenom m = (case m of Some m \<Rightarrow> QueryLiquidityPoolByPoolCoinDenomRequest_PoolCoinDenom m | None \<Rightarrow> '''')"

definition QueryLiquidityPoolByReserveAccRequest_Reset :: "QueryLiquidityPoolByReserveAccRequest \<Rightarrow> QueryLiquidityPoolByReserveAccRequest" where
  "QueryLiquidityPoolByReserveAccRequest_Reset m = QueryLiquidityPoolByReserveAccRequest_zero"

definition QueryLiquidityPoolByReserveAccRequest_XXX_Unmarshal :: "bytes \<Rightarrow> QueryLiquidityPoolByReserveAccRequest \<Rightarrow> QueryLiquidityPoolByReserveAccRequest res" where
  "QueryLiquidityPoolByReserveAccRequest_XXX_Unmarshal b m = QueryLiquidityPoolByReserveAccRequest_Unmarshal b m"

definition QueryLiquidityPoolByReserveAccRequest_XXX_Marshal :: "QueryLiquidityPoolByReserveAccRequest MessageInfo \<Rightarrow> bytes \<Rightarrow> bool \<Rightarrow> QueryLiquidityPoolByReserveAccRequest \<Rightarrow> bytes res" where
  "QueryLiquidityPoolByReserveAccRequest_XXX_Marshal info b deterministic m =
     (if deterministic then info b m else sized_marshal QueryLiquidityPoolByReserveAccRequest_Marshal b m)"

definition QueryLiquidityPoolByReserveAccRequest_XXX_Size :: "QueryLiquidityPoolByReserveAccRequest \<Rightarrow> nat" where
  "QueryLiquidityPoolByReserveAccRequest_XXX_Size m = QueryLiquidityPoolByReserveAccRequest_Size m"

definition QueryLiquidityPoolByReserveAccRequest_GetReserveAcc :: "QueryLiquidityPoolByReserveAccRequest option \<Rightarrow> string" where
  "QueryLiquidityPoolByReserveAccRequest_GetReserveAcc m = (case m of Some m \<Rightarrow> QueryLiquidityPoolByReserveAccRequest_ReserveAcc m | None \<Rightarrow> '''')"

definition QueryLiquidityPoolBatchRequest_Reset :: "QueryLiquidityPoolBatchRequest \<Rightarrow> QueryLiquidityPoolBatchRequest" where
  "QueryLiquidityPoolBatchRequest_Reset m = QueryLiquidityPoolBatchRequest_zero"

definition QueryLiquidityPoolBatchRequest_XXX_Unmarshal :: "bytes \<Rightarrow> QueryLiquidityPoolBatchRequest \<Rightarrow> QueryLiquidityPoolBatchRequest res" where
  "QueryLiquidityPoolBatchRequest_XXX_Unmarshal b m = QueryLiquidityPoolBatchRequest_Unmarshal b m"

definition QueryLiquidityPoolBatchRequest_XXX_Marshal :: "QueryLiquidityPoolBatchRequest MessageInfo \<Rightarrow> bytes \<Rightarrow> bool \<Rightarrow> QueryLiquidityPoolBatchRequest \<Rightarrow> bytes res" where
  "QueryLiquidityPoolBatchRequest_XXX_Marshal info b deterministic m =
     (if deterministic then info b m else sized_marshal QueryLiquidityPoolBatchRequest_Marshal b m)"

definition QueryLiquidityPoolBatchRequest_XXX_Size :: "QueryLiquidityPoolBatchRequest \<Rightarrow> nat" where
  "QueryLiquidityPoolBatchRequest_XXX_Size m = QueryLiquidityPoolBatchRequest_Size m"

definition QueryLiquidityPoolBatchRequest_GetPoolId :: "QueryLiquidityPoolBatchRequest option \<Rightarrow> (64 word)" where
  "QueryLiquidityPoolBatchRequest_GetPoolId m = (case m of Some m \<Rightarrow> QueryLiquidityPoolBatchRequest_PoolId m | None \<Rightarrow> 0)"

definition QueryLiquidityPoolBatchResponse_Reset :: "QueryLiquidityPoolBatchResponse \<Rightarrow> QueryLiquidityPoolBatchResponse" where
  "QueryLiquidityPoolBatchResponse_Reset m = QueryLiquidityPoolBatchResponse_zero"

definition QueryLiquidityPoolBatchResponse_XXX_Unmarshal :: "bytes \<Rightarrow> QueryLiquidityPoolBatchResponse \<Rightarrow> QueryLiquidityPoolBatchResponse res" where
  "QueryLiquidityPoolBatchResponse_XXX_Unmarshal b m = QueryLiquidityPoolBatchResponse_Unmarshal b m"

definition QueryLiquidityPoolBatchResponse_XXX_Marshal :: "QueryLiquidityPoolBatchResponse MessageInfo \<Rightarrow> bytes \<Rightarrow> bool \<Rightarrow> QueryLiquidityPoolBatchResponse \<Rightarrow> bytes res" where
  "QueryLiquidityPoolBatchResponse_XXX_Marshal info b deterministic m =
     (if deterministic then info b m else sized_marshal QueryLiquidityPoolBatchResponse_Marshal b m)"

definition QueryLiquidityPoolBatchResponse_XXX_Size :: "QueryLiquidityPoolBatchResponse \<Rightarrow> nat" where
  "QueryLiquidityPoolBatchResponse_XXX_Size m = QueryLiquidityPoolBatchResponse_Size m"

definition QueryLiquidityPoolBatchResponse_GetBatch :: "QueryLiquidityPoolBatchResponse option \<Rightarrow> PoolBatch" where
  "QueryLiquidityPoolBatchResponse_GetBatch m = (case m of Some m \<Rightarrow> QueryLiquidityPoolBatchResponse_Batch m | None \<Rightarrow> PoolBatch_zero)"

definition QueryLiquidityPoolsRequest_Reset :: "QueryLiquidityPoolsRequest \<Rightarrow> QueryLiquidityPoolsRequest" where
  "QueryLiquidityPoolsRequest_Reset m = QueryLiquidityPoolsRequest_zero"

definition QueryLiquidityPoolsRequest_XXX_Unmarshal :: "bytes \<Rightarrow> QueryLiquidityPoolsRequest \<Rightarrow> QueryLiquidityPoolsRequest res" where
  "QueryLiquidityPoolsRequest_XXX_Unmarshal b m = QueryLiquidityPoolsRequest_Unmarshal b m"

definition QueryLiquidityPoolsRequest_XXX_Marshal :: "QueryLiquidityPoolsRequest MessageInfo \<Rightarrow> bytes \<Rightarrow> bool \<Rightarrow> QueryLiquidityPoolsRequest \<Rightarrow> bytes res" where
  "QueryLiquidityPoolsRequest_XXX_Marshal info b deterministic m =
     (if deterministic then info b m else sized_marshal QueryLiquidityPoolsRequest_Marshal b m)"

definition QueryLiquidityPoolsRequest_XXX_Size :: "QueryLiquidityPoolsRequest \<Rightarrow> nat" where
  "QueryLiquidityPoolsRequest_XXX_Size m = QueryLiquidityPoolsRequest_Size m"

definition QueryLiquidityPoolsRequest_GetPagination :: "QueryLiquidityPoolsRequest option \<Rightarrow> (PageRequest option)" where
  "QueryLiquidityPoolsRequest_GetPagination m = (case m of Some m \<Rightarrow> QueryLiquidityPoolsRequest_Pagination m | None \<Rightarrow> None)"

definition QueryLiquidityPoolsResponse_Reset :: "QueryLiquidityPoolsResponse \<Rightarrow> QueryLiquidityPoolsResponse" where
  "QueryLiquidityPoolsResponse_Reset m = QueryLiquidityPoolsResponse_zero"

definition QueryLiquidityPoolsResponse_XXX_Unmarshal :: "bytes \<Rightarrow> QueryLiquidityPoolsResponse \<Rightarrow> QueryLiquidityPoolsResponse res" where
  "QueryLiquidityPoolsResponse_XXX_Unmarshal b m = QueryLiquidityPoolsResponse_Unmarshal b m"

definition QueryLiquidityPoolsResponse_XXX_Marshal :: "QueryLiquidityPoolsResponse MessageInfo \<Rightarrow> bytes \<Rightarrow> bool \<Rightarrow> QueryLiquidityPoolsResponse \<Rightarrow> bytes res" where
  "QueryLiquidityPoolsResponse_XXX_Marshal info b deterministic m =
     (if deterministic then info b m else sized_marshal QueryLiquidityPoolsResponse_Marshal b m)"

definition QueryLiquidityPoolsResponse_XXX_Size :: "QueryLiquidityPoolsResponse \<Rightarrow> nat" where
  "QueryLiquidityPoolsResponse_XXX_Size m = QueryLiquidityPoolsResponse_Size m"

definition QueryLiquidityPoolsResponse_GetPools :: "QueryLiquidityPoolsResponse option \<Rightarrow> (SwapPool list)" where
  "QueryLiquidityPoolsResponse_GetPools m = (case m of Some m \<Rightarrow> QueryLiquidityPoolsResponse_Pools m | None \<Rightarrow> [])"

definition QueryLiquidityPoolsResponse_GetPagination :: "QueryLiquidityPoolsResponse option \<Rightarrow> (PageResponse option)" where
  "QueryLiquidityPoolsResponse_GetPagination m = (case m of Some m \<Rightarrow> QueryLiquidityPoolsResponse_Pagination m | None \<Rightarrow> None)"

definition QueryParamsRequest_Reset :: "QueryParamsRequest \<Rightarrow> QueryParamsRequest" where
  "QueryParamsRequest_Reset m = QueryParamsRequest_zero"

definition QueryParamsRequest_XXX_Unmarshal :: "bytes \<Rightarrow> QueryParamsRequest \<Rightarrow> QueryParamsRequest res" where
  "QueryParamsRequest_XXX_Unmarshal b m = QueryParamsRequest_Unmarshal b m"

definition QueryParamsRequest_XXX_Marshal :: "QueryParamsRequest MessageInfo \<Rightarrow> bytes \<Rightarrow> bool \<Rightarrow> QueryParamsRequest \<Rightarrow> bytes res" where
  "QueryParamsRequest_XXX_Marshal info b deterministic m =
     (if deterministic then info b m else sized_marshal QueryParamsRequest_Marshal b m)"

definition QueryParamsRequest_XXX_Size :: "QueryParamsRequest \<Rightarrow> nat" where
  "QueryParamsRequest_XXX_Size m = QueryParamsRequest_Size m"

definition QueryParamsResponse_Reset :: "QueryParamsResponse \<Rightarrow> QueryParamsResponse" where
  "QueryParamsResponse_Reset m = QueryParamsResponse_zero"

definition QueryParamsResponse_XXX_Unmarshal :: "bytes \<Rightarrow> QueryParamsResponse \<Rightarrow> QueryParamsResponse res" where
  "QueryParamsResponse_XXX_Unmarshal b m = QueryParamsResponse_Unmarshal b m"

definition QueryParamsResponse_XXX_Marshal :: "QueryParamsResponse MessageInfo \<Rightarrow> bytes \<Rightarrow> bool \<Rightarrow> QueryParamsResponse \<Rightarrow> bytes res" where
  "QueryParamsResponse_XXX_Marshal info b deterministic m =
     (if deterministic then info b m else sized_marshal QueryParamsResponse_Marshal b m)"

definition QueryParamsResponse_XXX_Size :: "QueryParamsResponse \<Rightarrow> nat" where
  "QueryParamsResponse_XXX_Size m = QueryParamsResponse_Size m"

definition QueryParamsResponse_GetParams :: "QueryParamsResponse option \<Rightarrow> SwapParams" where
  "QueryParamsResponse_GetParams m = (case m of Some m \<Rightarrow> QueryParamsResponse_Params m | None \<Rightarrow> SwapParams_zero)"

definition QueryPoolBatchSwapMsgsRequest_Reset :: "QueryPoolBatchSwapMsgsRequest \<Rightarrow> QueryPoolBatchSwapMsgsRequest" where
  "QueryPoolBatchSwapMsgsRequest_Reset m = QueryPoolBatchSwapMsgsRequest_zero"

definition QueryPoolBatchSwapMsgsRequest_XXX_Unmarshal :: "bytes \<Rightarrow> QueryPoolBatchSwapMsgsRequest \<Rightarrow> QueryPoolBatchSwapMsgsRequest res" where
  "QueryPoolBatchSwapMsgsRequest_XXX_Unmarshal b m = QueryPoolBatchSwapMsgsRequest_Unmarshal b m"

definition QueryPoolBatchSwapMsgsRequest_XXX_Marshal :: "QueryPoolBatchSwapMsgsRequest MessageInfo \<Rightarrow> bytes \<Rightarrow> bool \<Rightarrow> QueryPoolBatchSwapMsgsRequest \<Rightarrow> bytes res" where
  "QueryPoolBatchSwapMsgsRequest_XXX_Marshal info b deterministic m =
     (if deterministic then info b m else sized_marshal QueryPoolBatchSwapMsgsRequest_Marshal b m)"

definition QueryPoolBatchSwapMsgsRequest_XXX_Size :: "QueryPoolBatchSwapMsgsRequest \<Rightarrow> nat" where
  "QueryPoolBatchSwapMsgsRequest_XXX_Size m = QueryPoolBatchSwapMsgsRequest_Size m"

definition QueryPoolBatchSwapMsgsRequest_GetPoolId :: "QueryPoolBatchSwapMsgsRequest option \<Rightarrow> (64 word)" where
  "QueryPoolBatchSwapMsgsRequest_GetPoolId m = (case m of Some m \<Rightarrow> QueryPoolBatchSwapMsgsRequest_PoolId m | None \<Rightarrow> 0)"

definition QueryPoolBatchSwapMsgsRequest_GetPagination :: "QueryPoolBatchSwapMsgsRequest option \<Rightarrow> (PageRequest option)" where
  "QueryPoolBatchSwapMsgsRequest_GetPagination m = (case m of Some m \<Rightarrow> QueryPoolBatchSwapMsgsRequest_Pagination m | None \<Rightarrow> None)"

definition QueryPoolBatchSwapMsgRequest_Reset :: "QueryPoolBatchSwapMsgRequest \<Rightarrow> QueryPoolBatchSwapMsgRequest" where
  "QueryPoolBatchSwapMsgRequest_Reset m = QueryPoolBatchSwapMsgRequest_zero"

definition QueryPoolBatchSwapMsgRequest_XXX_Unmarshal :: "bytes \<Rightarrow> QueryPoolBatchSwapMsgRequest \<Rightarrow> QueryPoolBatchSwapMsgRequest res" where
  "QueryPoolBatchSwapMsgRequest_XXX_Unmarshal b m = QueryPoolBatchSwapMsgRequest_Unmarshal b m"

definition QueryPoolBatchSwapMsgRequest_XXX_Marshal :: "QueryPoolBatchSwapMsgRequest MessageInfo \<Rightarrow> bytes \<Rightarrow> bool \<Rightarrow> QueryPoolBatchSwapMsgRequest \<Rightarrow> bytes res" where
  "QueryPoolBatchSwapMsgRequest_XXX_Marshal info b deterministic m =
     (if deterministic then info b m else sized_marshal QueryPoolBatchSwapMsgRequest_Marshal b m)"

definition QueryPoolBatchSwapMsgRequest_XXX_Size :: "QueryPoolBatchSwapMsgRequest \<Rightarrow> nat" where
  "QueryPoolBatchSwapMsgRequest_XXX_Size m = QueryPoolBatchSwapMsgRequest_Size m"

definition QueryPoolBatchSwapMsgRequest_GetPoolId :: "QueryPoolBatchSwapMsgRequest option \<Rightarrow> (64 word)" where
  "QueryPoolBatchSwapMsgRequest_GetPoolId m = (case m of Some m \<Rightarrow> QueryPoolBatchSwapMsgRequest_PoolId m | None \<Rightarrow> 0)"

definition QueryPoolBatchSwapMsgRequest_GetMsgIndex :: "QueryPoolBatchSwapMsgRequest option \<Rightarrow> (64 word)" where
  "QueryPoolBatchSwapMsgRequest_GetMsgIndex m = (case m of Some m \<Rightarrow> QueryPoolBatchSwapMsgRequest_MsgIndex m | None \<Rightarrow> 0)"

definition QueryPoolBatchSwapMsgsResponse_Reset :: "QueryPoolBatchSwapMsgsResponse \<Rightarrow> QueryPoolBatchSwapMsgsResponse" where
  "QueryPoolBatchSwapMsgsResponse_Reset m = QueryPoolBatchSwapMsgsResponse_zero"

definition QueryPoolBatchSwapMsgsResponse_XXX_Unmarshal :: "bytes \<Rightarrow> QueryPoolBatchSwapMsgsResponse \<Rightarrow> QueryPoolBatchSwapMsgsResponse res" where
  "QueryPoolBatchSwapMsgsResponse_XXX_Unmarshal b m = QueryPoolBatchSwapMsgsResponse_Unmarshal b m"

definition QueryPoolBatchSwapMsgsResponse_XXX_Marshal :: "QueryPoolBatchSwapMsgsResponse MessageInfo \<Rightarrow> bytes \<Rightarrow> bool \<Rightarrow> QueryPoolBatchSwapMsgsResponse \<Rightarrow> bytes res" where
  "QueryPoolBatchSwapMsgsResponse_XXX_Marshal info b deterministic m =
     (if deterministic then info b m else sized_marshal QueryPoolBatchSwapMsgsResponse_Marshal b m)"

definition QueryPoolBatchSwapMsgsResponse_XXX_Size :: "QueryPoolBatchSwapMsgsResponse \<Rightarrow> nat" where
  "QueryPoolBatchSwapMsgsResponse_XXX_Size m = QueryPoolBatchSwapMsgsResponse_Size m"

definition QueryPoolBatchSwapMsgsResponse_GetSwaps :: "QueryPoolBatchSwapMsgsResponse option \<Rightarrow> (SwapMsgState list)" where
  "QueryPoolBatchSwapMsgsResponse_GetSwaps m = (case m of Some m \<Rightarrow> QueryPoolBatchSwapMsgsResponse_Swaps m | None \<Rightarrow> [])"

definition QueryPoolBatchSwapMsgsResponse_GetPagination :: "QueryPoolBatchSwapMsgsResponse option \<Rightarrow> (PageResponse option)" where
  "QueryPoolBatchSwapMsgsResponse_GetPagination m = (case m of Some m \<Rightarrow> QueryPoolBatchSwapMsgsResponse_Pagination m | None \<Rightarrow> None)"

definition QueryPoolBatchSwapMsgResponse_Reset :: "QueryPoolBatchSwapMsgResponse \<Rightarrow> QueryPoolBatchSwapMsgResponse" where
  "QueryPoolBatchSwapMsgResponse_Reset m = QueryPoolBatchSwapMsgResponse_zero"

definition QueryPoolBatchSwapMsgResponse_XXX_Unmarshal :: "bytes \<Rightarrow> QueryPoolBatchSwapMsgResponse \<Rightarrow> QueryPoolBatchSwapMsgResponse res" where
  "QueryPoolBatchSwapMsgResponse_XXX_Unmarshal b m = QueryPoolBatchSwapMsgResponse_Unmarshal b m"

definition QueryPoolBatchSwapMsgResponse_XXX_Marshal :: "QueryPoolBatchSwapMsgResponse MessageInfo \<Rightarrow> bytes \<Rightarrow> bool \<Rightarrow> QueryPoolBatchSwapMsgResponse \<Rightarrow> bytes res" where
  "QueryPoolBatchSwapMsgResponse_XXX_Marshal info b deterministic m =
     (if deterministic then info b m else sized_marshal QueryPoolBatchSwapMsgResponse_Marshal b m)"

definition QueryPoolBatchSwapMsgResponse_XXX_Size :: "QueryPoolBatchSwapMsgResponse \<Rightarrow> nat" where
  "QueryPoolBatchSwapMsgResponse_XXX_Size m = QueryPoolBatchSwapMsgResponse_Size m"

definition QueryPoolBatchSwapMsgResponse_GetSwap :: "QueryPoolBatchSwapMsgResponse option \<Rightarrow> SwapMsgState" where
  "QueryPoolBatchSwapMsgResponse_GetSwap m = (case m of Some m \<Rightarrow> QueryPoolBatchSwapMsgResponse_Swap m | None \<Rightarrow> SwapMsgState_zero)"

definition QueryPoolBatchDepositMsgsRequest_Reset :: "QueryPoolBatchDepositMsgsRequest \<Rightarrow> QueryPoolBatchDepositMsgsRequest" where
  "QueryPoolBatchDepositMsgsRequest_Reset m = QueryPoolBatchDepositMsgsRequest_zero"

definition QueryPoolBatchDepositMsgsRequest_XXX_Unmarshal :: "bytes \<Rightarrow> QueryPoolBatchDepositMsgsRequest \<Rightarrow> QueryPoolBatchDepositMsgsRequest res" where
  "QueryPoolBatchDepositMsgsRequest_XXX_Unmarshal b m = QueryPoolBatchDepositMsgsRequest_Unmarshal b m"

definition QueryPoolBatchDepositMsgsRequest_XXX_Marshal :: "QueryPoolBatchDepositMsgsRequest MessageInfo \<Rightarrow> bytes \<Rightarrow> bool \<Rightarrow> QueryPoolBatchDepositMsgsRequest \<Rightarrow> bytes res" where
  "QueryPoolBatchDepositMsgsRequest_XXX_Marshal info b deterministic m =
     (if deterministic then info b m else sized_marshal QueryPoolBatchDepositMsgsRequest_Marshal b m)"

definition QueryPoolBatchDepositMsgsRequest_XXX_Size :: "QueryPoolBatchDepositMsgsRequest \<Rightarrow> nat" where
  "QueryPoolBatchDepositMsgsRequest_XXX_Size m = QueryPoolBatchDepositMsgsRequest_Size m"

definition QueryPoolBatchDepositMsgsRequest_GetPoolId :: "QueryPoolBatchDepositMsgsRequest option \<Rightarrow> (64 word)" where
  "QueryPoolBatchDepositMsgsRequest_GetPoolId m = (case m of Some m \<Rightarrow> QueryPoolBatchDepositMsgsRequest_PoolId m | None \<Rightarrow> 0)"

definition QueryPoolBatchDepositMsgsRequest_GetPagination :: "QueryPoolBatchDepositMsgsRequest option \<Rightarrow> (PageRequest option)" where
  "QueryPoolBatchDepositMsgsRequest_GetPagination m = (case m of Some m \<Rightarrow> QueryPoolBatchDepositMsgsRequest_Pagination m | None \<Rightarrow> None)"

definition QueryPoolBatchDepositMsgRequest_Reset :: "QueryPoolBatchDepositMsgRequest \<Rightarrow> QueryPoolBatchDepositMsgRequest" where
  "QueryPoolBatchDepositMsgRequest_Reset m = QueryPoolBatchDepositMsgRequest_zero"

definition QueryPoolBatchDepositMsgRequest_XXX_Unmarshal :: "bytes \<Rightarrow> QueryPoolBatchDepositMsgRequest \<Rightarrow> QueryPoolBatchDepositMsgRequest res" where
  "QueryPoolBatchDepositMsgRequest_XXX_Unmarshal b m = QueryPoolBatchDepositMsgRequest_Unmarshal b m"

definition QueryPoolBatchDepositMsgRequest_XXX_Marshal :: "QueryPoolBatchDepositMsgRequest MessageInfo \<Rightarrow> bytes \<Rightarrow> bool \<Rightarrow> QueryPoolBatchDepositMsgRequest \<Rightarrow> bytes res" where
  "QueryPoolBatchDepositMsgRequest_XXX_Marshal info b deterministic m =
     (if deterministic then info b m else sized_marshal QueryPoolBatchDepositMsgRequest_Marshal b m)"

definition QueryPoolBatchDepositMsgRequest_XXX_Size :: "QueryPoolBatchDepositMsgRequest \<Rightarrow> nat" where
  "QueryPoolBatchDepositMsgRequest_XXX_Size m = QueryPoolBatchDepositMsgRequest_Size m"

definition QueryPoolBatchDepositMsgRequest_GetPoolId :: "QueryPoolBatchDepositMsgRequest option \<Rightarrow> (64 word)" where
  "QueryPoolBatchDepositMsgRequest_GetPoolId m = (case m of Some m \<Rightarrow> QueryPoolBatchDepositMsgRequest_PoolId m | None \<Rightarrow> 0)"

definition QueryPoolBatchDepositMsgRequest_GetMsgIndex :: "QueryPoolBatchDepositMsgRequest option \<Rightarrow> (64 word)" where
  "QueryPoolBatchDepositMsgRequest_GetMsgIndex m = (case m of Some m \<Rightarrow> QueryPoolBatchDepositMsgRequest_MsgIndex m | None \<Rightarrow> 0)"

definition QueryPoolBatchDepositMsgsResponse_Reset :: "QueryPoolBatchDepositMsgsResponse \<Rightarrow> QueryPoolBatchDepositMsgsResponse" where
  "QueryPoolBatchDepositMsgsResponse_Reset m = QueryPoolBatchDepositMsgsResponse_zero"

definition QueryPoolBatchDepositMsgsResponse_XXX_Unmarshal :: "bytes \<Rightarrow> QueryPoolBatchDepositMsgsResponse \<Rightarrow> QueryPoolBatchDepositMsgsResponse res" where
  "QueryPoolBatchDepositMsgsResponse_XXX_Unmarshal b m = QueryPoolBatchDepositMsgsResponse_Unmarshal b m"

definition QueryPoolBatchDepositMsgsResponse_XXX_Marshal :: "QueryPoolBatchDepositMsgsResponse MessageInfo \<Rightarrow> bytes \<Rightarrow> bool \<Rightarrow> QueryPoolBatchDepositMsgsResponse \<Rightarrow> bytes res" where
  "QueryPoolBatchDepositMsgsResponse_XXX_Marshal info b deterministic m =
     (if deterministic then info b m else sized_marshal QueryPoolBatchDepositMsgsResponse_Marshal b m)"

definition QueryPoolBatchDepositMsgsResponse_XXX_Size :: "QueryPoolBatchDepositMsgsResponse \<Rightarrow> nat" where
  "QueryPoolBatchDepositMsgsResponse_XXX_Size m = QueryPoolBatchDepositMsgsResponse_Size m"

definition QueryPoolBatchDepositMsgsResponse_GetDeposits :: "QueryPoolBatchDepositMsgsResponse option \<Rightarrow> (DepositMsgState list)" where
  "QueryPoolBatchDepositMsgsResponse_GetDeposits m = (case m of Some m \<Rightarrow> QueryPoolBatchDepositMsgsResponse_Deposits m | None \<Rightarrow> [])"

definition QueryPoolBatchDepositMsgsResponse_GetPagination :: "QueryPoolBatchDepositMsgsResponse option \<Rightarrow> (PageResponse option)" where
  "QueryPoolBatchDepositMsgsResponse_GetPagination m = (case m of Some m \<Rightarrow> QueryPoolBatchDepositMsgsResponse_Pagination m | None \<Rightarrow> None)"

definition QueryPoolBatchDepositMsgResponse_Reset :: "QueryPoolBatchDepositMsgResponse \<Rightarrow> QueryPoolBatchDepositMsgResponse" where
  "QueryPoolBatchDepositMsgResponse_Reset m = QueryPoolBatchDepositMsgResponse_zero"

definition QueryPoolBatchDepositMsgResponse_XXX_Unmarshal :: "bytes \<Rightarrow> QueryPoolBatchDepositMsgResponse \<Rightarrow> QueryPoolBatchDepositMsgResponse res" where
  "QueryPoolBatchDepositMsgResponse_XXX_Unmarshal b m = QueryPoolBatchDepositMsgResponse_Unmarshal b m"

definition QueryPoolBatchDepositMsgResponse_XXX_Marshal :: "QueryPoolBatchDepositMsgResponse MessageInfo \<Rightarrow> bytes \<Rightarrow> bool \<Rightarrow> QueryPoolBatchDepositMsgResponse \<Rightarrow> bytes res" where
  "QueryPoolBatchDepositMsgResponse_XXX_Marshal info b deterministic m =
     (if deterministic then info b m else sized_marshal QueryPoolBatchDepositMsgResponse_Marshal b m)"

definition QueryPoolBatchDepositMsgResponse_XXX_Size :: "QueryPoolBatchDepositMsgResponse \<Rightarrow> nat" where
  "QueryPoolBatchDepositMsgResponse_XXX_Size m = QueryPoolBatchDepositMsgResponse_Size m"

definition QueryPoolBatchDepositMsgResponse_GetDeposit :: "QueryPoolBatchDepositMsgResponse option \<Rightarrow> DepositMsgState" where
  "QueryPoolBatchDepositMsgResponse_GetDeposit m = (case m of Some m \<Rightarrow> QueryPoolBatchDepositMsgResponse_Deposit m | None \<Rightarrow> DepositMsgState_zero)"

definition QueryPoolBatchWithdrawMsgsRequest_Reset :: "QueryPoolBatchWithdrawMsgsRequest \<Rightarrow> QueryPoolBatchWithdrawMsgsRequest" where
  "QueryPoolBatchWithdrawMsgsRequest_Reset m = QueryPoolBatchWithdrawMsgsRequest_zero"

definition QueryPoolBatchWithdrawMsgsRequest_XXX_Unmarshal :: "bytes \<Rightarrow> QueryPoolBatchWithdrawMsgsRequest \<Rightarrow> QueryPoolBatchWithdrawMsgsRequest res" where
  "QueryPoolBatchWithdrawMsgsRequest_XXX_Unmarshal b m = QueryPoolBatchWithdrawMsgsRequest_Unmarshal b m"

definition QueryPoolBatchWithdrawMsgsRequest_XXX_Marshal :: "QueryPoolBatchWithdrawMsgsRequest MessageInfo \<Rightarrow> bytes \<Rightarrow> bool \<Rightarrow> QueryPoolBatchWithdrawMsgsRequest \<Rightarrow> bytes res" where
  "QueryPoolBatchWithdrawMsgsRequest_XXX_Marshal info b deterministic m =
     (if deterministic then info b m else sized_marshal QueryPoolBatchWithdrawMsgsRequest_Marshal b m)"

definition QueryPoolBatchWithdrawMsgsRequest_XXX_Size :: "QueryPoolBatchWithdrawMsgsRequest \<Rightarrow> nat" where
  "QueryPoolBatchWithdrawMsgsRequest_XXX_Size m = QueryPoolBatchWithdrawMsgsRequest_Size m"

definition QueryPoolBatchWithdrawMsgsRequest_GetPoolId :: "QueryPoolBatchWithdrawMsgsRequest option \<Rightarrow> (64 word)" where
  "QueryPoolBatchWithdrawMsgsRequest_GetPoolId m = (case m of Some m \<Rightarrow> QueryPoolBatchWithdrawMsgsRequest_PoolId m | None \<Rightarrow> 0)"

definition QueryPoolBatchWithdrawMsgsRequest_GetPagination :: "QueryPoolBatchWithdrawMsgsRequest option \<Rightarrow> (PageRequest option)" where
  "QueryPoolBatchWithdrawMsgsRequest_GetPagination m = (case m of Some m \<Rightarrow> QueryPoolBatchWithdrawMsgsRequest_Pagination m | None \<Rightarrow> None)"

definition QueryPoolBatchWithdrawMsgRequest_Reset :: "QueryPoolBatchWithdrawMsgRequest \<Rightarrow> QueryPoolBatchWithdrawMsgRequest" where
  "QueryPoolBatchWithdrawMsgRequest_Reset m = QueryPoolBatchWithdrawMsgRequest_zero"

definition QueryPoolBatchWithdrawMsgRequest_XXX_Unmarshal :: "bytes \<Rightarrow> QueryPoolBatchWithdrawMsgRequest \<Rightarrow> QueryPoolBatchWithdrawMsgRequest res" where
  "QueryPoolBatchWithdrawMsgRequest_XXX_Unmarshal b m = QueryPoolBatchWithdrawMsgRequest_Unmarshal b m"

definition QueryPoolBatchWithdrawMsgRequest_XXX_Marshal :: "QueryPoolBatchWithdrawMsgRequest MessageInfo \<Rightarrow> bytes \<Rightarrow> bool \<Rightarrow> QueryPoolBatchWithdrawMsgRequest \<Rightarrow> bytes res" where
  "QueryPoolBatchWithdrawMsgRequest_XXX_Marshal info b deterministic m =
     (if deterministic then info b m else sized_marshal QueryPoolBatchWithdrawMsgRequest_Marshal b m)"

definition QueryPoolBatchWithdrawMsgRequest_XXX_Size :: "QueryPoolBatchWithdrawMsgRequest \<Rightarrow> nat" where
  "QueryPoolBatchWithdrawMsgRequest_XXX_Size m = QueryPoolBatchWithdrawMsgRequest_Size m"

definition QueryPoolBatchWithdrawMsgRequest_GetPoolId :: "QueryPoolBatchWithdrawMsgRequest option \<Rightarrow> (64 word)" where
  "QueryPoolBatchWithdrawMsgRequest_GetPoolId m = (case m of Some m \<Rightarrow> QueryPoolBatchWithdrawMsgRequest_PoolId m | None \<Rightarrow> 0)"

definition QueryPoolBatchWithdrawMsgRequest_GetMsgIndex :: "QueryPoolBatchWithdrawMsgRequest option \<Rightarrow> (64 word)" where
  "QueryPoolBatchWithdrawMsgRequest_GetMsgIndex m = (case m of Some m \<Rightarrow> QueryPoolBatchWithdrawMsgRequest_MsgIndex m | None \<Rightarrow> 0)"

definition QueryPoolBatchWithdrawMsgsResponse_Reset :: "QueryPoolBatchWithdrawMsgsResponse \<Rightarrow> QueryPoolBatchWithdrawMsgsResponse" where
  "QueryPoolBatchWithdrawMsgsResponse_Reset m = QueryPoolBatchWithdrawMsgsResponse_zero"

definition QueryPoolBatchWithdrawMsgsResponse_XXX_Unmarshal :: "bytes \<Rightarrow> QueryPoolBatchWithdrawMsgsResponse \<Rightarrow> QueryPoolBatchWithdrawMsgsResponse res" where
  "QueryPoolBatchWithdrawMsgsResponse_XXX_Unmarshal b m = QueryPoolBatchWithdrawMsgsResponse_Unmarshal b m"

definition QueryPoolBatchWithdrawMsgsResponse_XXX_Marshal :: "QueryPoolBatchWithdrawMsgsResponse MessageInfo \<Rightarrow> bytes \<Rightarrow> bool \<Rightarrow> QueryPoolBatchWithdrawMsgsResponse \<Rightarrow> bytes res" where
  "QueryPoolBatchWithdrawMsgsResponse_XXX_Marshal info b deterministic m =
     (if deterministic then info b m else sized_marshal QueryPoolBatchWithdrawMsgsResponse_Marshal b m)"

definition QueryPoolBatchWithdrawMsgsResponse_XXX_Size :: "QueryPoolBatchWithdrawMsgsResponse \<Rightarrow> nat" where
  "QueryPoolBatchWithdrawMsgsResponse_XXX_Size m = QueryPoolBatchWithdrawMsgsResponse_Size m"

definition QueryPoolBatchWithdrawMsgsResponse_GetWithdraws :: "QueryPoolBatchWithdrawMsgsResponse option \<Rightarrow> (WithdrawMsgState list)" where
  "QueryPoolBatchWithdrawMsgsResponse_GetWithdraws m = (case m of Some m \<Rightarrow> QueryPoolBatchWithdrawMsgsResponse_Withdraws m | None \<Rightarrow> [])"

definition QueryPoolBatchWithdrawMsgsResponse_GetPagination :: "QueryPoolBatchWithdrawMsgsResponse option \<Rightarrow> (PageResponse option)" where
  "QueryPoolBatchWithdrawMsgsResponse_GetPagination m = (case m of Some m \<Rightarrow> QueryPoolBatchWithdrawMsgsResponse_Pagination m | None \<Rightarrow> None)"

definition QueryPoolBatchWithdrawMsgResponse_Reset :: "QueryPoolBatchWithdrawMsgResponse \<Rightarrow> QueryPoolBatchWithdrawMsgResponse" where
  "QueryPoolBatchWithdrawMsgResponse_Reset m = QueryPoolBatchWithdrawMsgResponse_zero"

definition QueryPoolBatchWithdrawMsgResponse_XXX_Unmarshal :: "bytes \<Rightarrow> QueryPoolBatchWithdrawMsgResponse \<Rightarrow> QueryPoolBatchWithdrawMsgResponse res" where
  "QueryPoolBatchWithdrawMsgResponse_XXX_Unmarshal b m = QueryPoolBatchWithdrawMsgResponse_Unmarshal b m"

definition QueryPoolBatchWithdrawMsgResponse_XXX_Marshal :: "QueryPoolBatchWithdrawMsgResponse MessageInfo \<Rightarrow> bytes \<Rightarrow> bool \<Rightarrow> QueryPoolBatchWithdrawMsgResponse \<Rightarrow> bytes res" where
  "QueryPoolBatchWithdrawMsgResponse_XXX_Marshal info b deterministic m =
     (if deterministic then info b m else sized_marshal QueryPoolBatchWithdrawMsgResponse_Marshal b m)"

definition QueryPoolBatchWithdrawMsgResponse_XXX_Size :: "QueryPoolBatchWithdrawMsgResponse \<Rightarrow> nat" where
  "QueryPoolBatchWithdrawMsgResponse_XXX_Size m = QueryPoolBatchWithdrawMsgResponse_Size m"

definition QueryPoolBatchWithdrawMsgResponse_GetWithdraw :: "QueryPoolBatchWithdrawMsgResponse option \<Rightarrow> WithdrawMsgState" where
  "QueryPoolBatchWithdrawMsgResponse_GetWithdraw m = (case m of Some m \<Rightarrow> QueryPoolBatchWithdrawMsgResponse_Withdraw m | None \<Rightarrow> WithdrawMsgState_zero)"

section \<open>What the runtime relies on\<close>

text \<open>
  The runtime allocates a buffer of \<open>XXX_Size\<close> bytes, lets \<open>XXX_Marshal\<close> fill it, and reads the bytes with \<open>XXX_Unmarshal\<close> into a message that
  was \<open>Reset\<close>.
\<close>

locale proto_hooks = wire_message enc dec zero ok
  for enc :: "'m \<Rightarrow> bytes" and dec zero ok +
  fixes msgSize xxxSize :: "'m \<Rightarrow> nat" and xxxMarshal :: "'m MessageInfo \<Rightarrow> bytes \<Rightarrow> bool \<Rightarrow> 'm \<Rightarrow> bytes res"
    and xxxUnmarshal :: "bytes \<Rightarrow> 'm \<Rightarrow> 'm res" and reset :: "'m \<Rightarrow> 'm"
  assumes size_exact: "msgSize m = length (enc m)"
    and xxx_size: "xxxSize m = msgSize m"
    and xxx_marshal: "xxxMarshal info b False m = sized_marshal enc b m"
    and xxx_unmarshal: "xxxUnmarshal b m = dec b m"
    and reset: "reset m = zero"
begin

lemma marshals_exactly: "length b = xxxSize m \<Longrightarrow> xxxMarshal info b False m = Inr (enc m)"
  by (simp add: xxx_size size_exact xxx_marshal sized_marshal_def)

lemma small_buffer_panics: "length b < xxxSize m \<Longrightarrow> \<exists>p. xxxMarshal info b False m = Inl (Panic p)"
  by (simp add: xxx_size size_exact xxx_marshal sized_marshal_def)

text \<open>A buffer with more capacity than the message needs gives the bytes that were in the buffer before, and no error.\<close>

lemma large_buffer_stale: "2 * xxxSize m \<le> length b \<Longrightarrow> xxxMarshal info b False m = Inr (take (xxxSize m) b)"
  by (simp add: xxx_size size_exact xxx_marshal sized_marshal_def)

lemma runtime_roundtrip:
  assumes "ok m" "length (enc m) < 2 ^ 63" "length b = xxxSize m"
  shows "bindR (xxxMarshal info b False m) (\<lambda>bz. xxxUnmarshal bz (reset old)) = Inr m"
  using read_back [OF assms(1,2)] by (simp add: marshals_exactly [OF assms(3)] xxx_unmarshal reset)

end

interpretation h_QueryPoolWithdrawSuccessMsgsRequest: proto_hooks QueryPoolWithdrawSuccessMsgsRequest_Marshal QueryPoolWithdrawSuccessMsgsRequest_Unmarshal QueryPoolWithdrawSuccessMsgsRequest_zero "(\<lambda>_. True)"
  QueryPoolWithdrawSuccessMsgsRequest_Size QueryPoolWithdrawSuccessMsgsRequest_XXX_Size QueryPoolWithdrawSuccessMsgsRequest_XXX_Marshal QueryPoolWithdrawSuccessMsgsRequest_XXX_Unmarshal QueryPoolWithdrawSuccessMsgsRequest_Reset
  by unfold_locales (simp_all add: wire_msg wire_size QueryPoolWithdrawSuccessMsgsRequest_XXX_Size_def QueryPoolWithdrawSuccessMsgsRequest_XXX_Marshal_def QueryPoolWithdrawSuccessMsgsRequest_XXX_Unmarshal_def QueryPoolWithdrawSuccessMsgsRequest_Reset_def)

interpretation h_QueryPoolWithdrawSuccessMsgRequest: proto_hooks QueryPoolWithdrawSuccessMsgRequest_Marshal QueryPoolWithdrawSuccessMsgRequest_Unmarshal QueryPoolWithdrawSuccessMsgRequest_zero "(\<lambda>_. True)"
  QueryPoolWithdrawSuccessMsgRequest_Size QueryPoolWithdrawSuccessMsgRequest_XXX_Size QueryPoolWithdrawSuccessMsgRequest_XXX_Marshal QueryPoolWithdrawSuccessMsgRequest_XXX_Unmarshal QueryPoolWithdrawSuccessMsgRequest_Reset
  by unfold_locales (simp_all add: wire_msg wire_size QueryPoolWithdrawSuccessMsgRequest_XXX_Size_def QueryPoolWithdrawSuccessMsgRequest_XXX_Marshal_def QueryPoolWithdrawSuccessMsgRequest_XXX_Unmarshal_def QueryPoolWithdrawSuccessMsgRequest_Reset_def)

interpretation h_QueryPoolWithdrawSuccessMsgsResponse: proto_hooks QueryPoolWithdrawSuccessMsgsResponse_Marshal QueryPoolWithdrawSuccessMsgsResponse_Unmarshal QueryPoolWithdrawSuccessMsgsResponse_zero QueryPoolWithdrawSuccessMsgsResponse_ok
  QueryPoolWithdrawSuccessMsgsResponse_Size QueryPoolWithdrawSuccessMsgsResponse_XXX_Size QueryPoolWithdrawSuccessMsgsResponse_XXX_Marshal QueryPoolWithdrawSuccessMsgsResponse_XXX_Unmarshal QueryPoolWithdrawSuccessMsgsResponse_Reset
  by unfold_locales (simp_all add: wire_msg wire_size QueryPoolWithdrawSuccessMsgsResponse_XXX_Size_def QueryPoolWithdrawSuccessMsgsResponse_XXX_Marshal_def QueryPoolWithdrawSuccessMsgsResponse_XXX_Unmarshal_def QueryPoolWithdrawSuccessMsgsResponse_Reset_def)

interpretation h_QueryPoolWithdrawSuccessMsgResponse: proto_hooks QueryPoolWithdrawSuccessMsgResponse_Marshal QueryPoolWithdrawSuccessMsgResponse_Unmarshal QueryPoolWithdrawSuccessMsgResponse_zero QueryPoolWithdrawSuccessMsgResponse_ok
  QueryPoolWithdrawSuccessMsgResponse_Size QueryPoolWithdrawSuccessMsgResponse_XXX_Size QueryPoolWithdrawSuccessMsgResponse_XXX_Marshal QueryPoolWithdrawSuccessMsgResponse_XXX_Unmarshal QueryPoolWithdrawSuccessMsgResponse_Reset
  by unfold_locales (simp_all add: wire_msg wire_size QueryPoolWithdrawSuccessMsgResponse_XXX_Size_def QueryPoolWithdrawSuccessMsgResponse_XXX_Marshal_def QueryPoolWithdrawSuccessMsgResponse_XXX_Unmarshal_def QueryPoolWithdrawSuccessMsgResponse_Reset_def)

interpretation h_QueryPoolSwapSuccessMsgsRequest: proto_hooks QueryPoolSwapSuccessMsgsRequest_Marshal QueryPoolSwapSuccessMsgsRequest_Unmarshal QueryPoolSwapSuccessMsgsRequest_zero "(\<lambda>_. True)"
  QueryPoolSwapSuccessMsgsRequest_Size QueryPoolSwapSuccessMsgsRequest_XXX_Size QueryPoolSwapSuccessMsgsRequest_XXX_Marshal QueryPoolSwapSuccessMsgsRequest_XXX_Unmarshal QueryPoolSwapSuccessMsgsRequest_Reset
  by unfold_locales (simp_all add: wire_msg wire_size QueryPoolSwapSuccessMsgsRequest_XXX_Size_def QueryPoolSwapSuccessMsgsRequest_XXX_Marshal_def QueryPoolSwapSuccessMsgsRequest_XXX_Unmarshal_def QueryPoolSwapSuccessMsgsRequest_Reset_def)

interpretation h_QueryPoolSwapSuccessMsgRequest: proto_hooks QueryPoolSwapSuccessMsgRequest_Marshal QueryPoolSwapSuccessMsgRequest_Unmarshal QueryPoolSwapSuccessMsgRequest_zero "(\<lambda>_. True)"
  QueryPoolSwapSuccessMsgRequest_Size QueryPoolSwapSuccessMsgRequest_XXX_Size QueryPoolSwapSuccessMsgRequest_XXX_Marshal QueryPoolSwapSuccessMsgRequest_XXX_Unmarshal QueryPoolSwapSuccessMsgRequest_Reset
  by unfold_locales (simp_all add: wire_msg wire_size QueryPoolSwapSuccessMsgRequest_XXX_Size_def QueryPoolSwapSuccessMsgRequest_XXX_Marshal_def QueryPoolSwapSuccessMsgRequest_XXX_Unmarshal_def QueryPoolSwapSuccessMsgRequest_Reset_def)

interpretation h_QueryPoolSwapSuccessMsgsResponse: proto_hooks QueryPoolSwapSuccessMsgsResponse_Marshal QueryPoolSwapSuccessMsgsResponse_Unmarshal QueryPoolSwapSuccessMsgsResponse_zero QueryPoolSwapSuccessMsgsResponse_ok
  QueryPoolSwapSuccessMsgsResponse_Size QueryPoolSwapSuccessMsgsResponse_XXX_Size QueryPoolSwapSuccessMsgsResponse_XXX_Marshal QueryPoolSwapSuccessMsgsResponse_XXX_Unmarshal QueryPoolSwapSuccessMsgsResponse_Reset
  by unfold_locales (simp_all add: wire_msg wire_size QueryPoolSwapSuccessMsgsResponse_XXX_Size_def QueryPoolSwapSuccessMsgsResponse_XXX_Marshal_def QueryPoolSwapSuccessMsgsResponse_XXX_Unmarshal_def QueryPoolSwapSuccessMsgsResponse_Reset_def)

interpretation h_QueryPoolSwapSuccessMsgResponse: proto_hooks QueryPoolSwapSuccessMsgResponse_Marshal QueryPoolSwapSuccessMsgResponse_Unmarshal QueryPoolSwapSuccessMsgResponse_zero QueryPoolSwapSuccessMsgResponse_ok
  QueryPoolSwapSuccessMsgResponse_Size QueryPoolSwapSuccessMsgResponse_XXX_Size QueryPoolSwapSuccessMsgResponse_XXX_Marshal QueryPoolSwapSuccessMsgResponse_XXX_Unmarshal QueryPoolSwapSuccessMsgResponse_Reset
  by unfold_locales (simp_all add: wire_msg wire_size QueryPoolSwapSuccessMsgResponse_XXX_Size_def QueryPoolSwapSuccessMsgResponse_XXX_Marshal_def QueryPoolSwapSuccessMsgResponse_XXX_Unmarshal_def QueryPoolSwapSuccessMsgResponse_Reset_def)

interpretation h_QueryPoolDepositSuccessMsgsRequest: proto_hooks QueryPoolDepositSuccessMsgsRequest_Marshal QueryPoolDepositSuccessMsgsRequest_Unmarshal QueryPoolDepositSuccessMsgsRequest_zero "(\<lambda>_. True)"
  QueryPoolDepositSuccessMsgsRequest_Size QueryPoolDepositSuccessMsgsRequest_XXX_Size QueryPoolDepositSuccessMsgsRequest_XXX_Marshal QueryPoolDepositSuccessMsgsRequest_XXX_Unmarshal QueryPoolDepositSuccessMsgsRequest_Reset
  by unfold_locales (simp_all add: wire_msg wire_size QueryPoolDepositSuccessMsgsRequest_XXX_Size_def QueryPoolDepositSuccessMsgsRequest_XXX_Marshal_def QueryPoolDepositSuccessMsgsRequest_XXX_Unmarshal_def QueryPoolDepositSuccessMsgsRequest_Reset_def)

interpretation h_QueryPoolDepositSuccessMsgRequest: proto_hooks QueryPoolDepositSuccessMsgRequest_Marshal QueryPoolDepositSuccessMsgRequest_Unmarshal QueryPoolDepositSuccessMsgRequest_zero "(\<lambda>_. True)"
  QueryPoolDepositSuccessMsgRequest_Size QueryPoolDepositSuccessMsgRequest_XXX_Size QueryPoolDepositSuccessMsgRequest_XXX_Marshal QueryPoolDepositSuccessMsgRequest_XXX_Unmarshal QueryPoolDepositSuccessMsgRequest_Reset
  by unfold_locales (simp_all add: wire_msg wire_size QueryPoolDepositSuccessMsgRequest_XXX_Size_def QueryPoolDepositSuccessMsgRequest_XXX_Marshal_def QueryPoolDepositSuccessMsgRequest_XXX_Unmarshal_def QueryPoolDepositSuccessMsgRequest_Reset_def)

interpretation h_QueryPoolDepositSuccessMsgsResponse: proto_hooks QueryPoolDepositSuccessMsgsResponse_Marshal QueryPoolDepositSuccessMsgsResponse_Unmarshal QueryPoolDepositSuccessMsgsResponse_zero QueryPoolDepositSuccessMsgsResponse_ok
  QueryPoolDepositSuccessMsgsResponse_Size QueryPoolDepositSuccessMsgsResponse_XXX_Size QueryPoolDepositSuccessMsgsResponse_XXX_Marshal QueryPoolDepositSuccessMsgsResponse_XXX_Unmarshal QueryPoolDepositSuccessMsgsResponse_Reset
  by unfold_locales (simp_all add: wire_msg wire_size QueryPoolDepositSuccessMsgsResponse_XXX_Size_def QueryPoolDepositSuccessMsgsResponse_XXX_Marshal_def QueryPoolDepositSuccessMsgsResponse_XXX_Unmarshal_def QueryPoolDepositSuccessMsgsResponse_Reset_def)

interpretation h_QueryPoolDepositSuccessMsgResponse: proto_hooks QueryPoolDepositSuccessMsgResponse_Marshal QueryPoolDepositSuccessMsgResponse_Unmarshal QueryPoolDepositSuccessMsgResponse_zero QueryPoolDepositSuccessMsgResponse_ok
  QueryPoolDepositSuccessMsgResponse_Size QueryPoolDepositSuccessMsgResponse_XXX_Size QueryPoolDepositSuccessMsgResponse_XXX_Marshal QueryPoolDepositSuccessMsgResponse_XXX_Unmarshal QueryPoolDepositSuccessMsgResponse_Reset
  by unfold_locales (simp_all add: wire_msg wire_size QueryPoolDepositSuccessMsgResponse_XXX_Size_def QueryPoolDepositSuccessMsgResponse_XXX_Marshal_def QueryPoolDepositSuccessMsgResponse_XXX_Unmarshal_def QueryPoolDepositSuccessMsgResponse_Reset_def)

interpretation h_QueryLiquidityPoolRequest: proto_hooks QueryLiquidityPoolRequest_Marshal QueryLiquidityPoolRequest_Unmarshal QueryLiquidityPoolRequest_zero "(\<lambda>_. True)"
  QueryLiquidityPoolRequest_Size QueryLiquidityPoolRequest_XXX_Size QueryLiquidityPoolRequest_XXX_Marshal QueryLiquidityPoolRequest_XXX_Unmarshal QueryLiquidityPoolRequest_Reset
  by unfold_locales (simp_all add: wire_msg wire_size QueryLiquidityPoolRequest_XXX_Size_def QueryLiquidityPoolRequest_XXX_Marshal_def QueryLiquidityPoolRequest_XXX_Unmarshal_def QueryLiquidityPoolRequest_Reset_def)

interpretation h_QueryLiquidityPoolResponse: proto_hooks QueryLiquidityPoolResponse_Marshal QueryLiquidityPoolResponse_Unmarshal QueryLiquidityPoolResponse_zero "(\<lambda>_. True)"
  QueryLiquidityPoolResponse_Size QueryLiquidityPoolResponse_XXX_Size QueryLiquidityPoolResponse_XXX_Marshal QueryLiquidityPoolResponse_XXX_Unmarshal QueryLiquidityPoolResponse_Reset
  by unfold_locales (simp_all add: wire_msg wire_size QueryLiquidityPoolResponse_XXX_Size_def QueryLiquidityPoolResponse_XXX_Marshal_def QueryLiquidityPoolResponse_XXX_Unmarshal_def QueryLiquidityPoolResponse_Reset_def)

interpretation h_QueryLiquidityPoolByPoolCoinDenomRequest: proto_hooks QueryLiquidityPoolByPoolCoinDenomRequest_Marshal QueryLiquidityPoolByPoolCoinDenomRequest_Unmarshal QueryLiquidityPoolByPoolCoinDenomRequest_zero "(\<lambda>_. True)"
  QueryLiquidityPoolByPoolCoinDenomRequest_Size QueryLiquidityPoolByPoolCoinDenomRequest_XXX_Size QueryLiquidityPoolByPoolCoinDenomRequest_XXX_Marshal QueryLiquidityPoolByPoolCoinDenomRequest_XXX_Unmarshal QueryLiquidityPoolByPoolCoinDenomRequest_Reset
  by unfold_locales (simp_all add: wire_msg wire_size QueryLiquidityPoolByPoolCoinDenomRequest_XXX_Size_def QueryLiquidityPoolByPoolCoinDenomRequest_XXX_Marshal_def QueryLiquidityPoolByPoolCoinDenomRequest_XXX_Unmarshal_def QueryLiquidityPoolByPoolCoinDenomRequest_Reset_def)

interpretation h_QueryLiquidityPoolByReserveAccRequest: proto_hooks QueryLiquidityPoolByReserveAccRequest_Marshal QueryLiquidityPoolByReserveAccRequest_Unmarshal QueryLiquidityPoolByReserveAccRequest_zero "(\<lambda>_. True)"
  QueryLiquidityPoolByReserveAccRequest_Size QueryLiquidityPoolByReserveAccRequest_XXX_Size QueryLiquidityPoolByReserveAccRequest_XXX_Marshal QueryLiquidityPoolByReserveAccRequest_XXX_Unmarshal QueryLiquidityPoolByReserveAccRequest_Reset
  by unfold_locales (simp_all add: wire_msg wire_size QueryLiquidityPoolByReserveAccRequest_XXX_Size_def QueryLiquidityPoolByReserveAccRequest_XXX_Marshal_def QueryLiquidityPoolByReserveAccRequest_XXX_Unmarshal_def QueryLiquidityPoolByReserveAccRequest_Reset_def)

interpretation h_QueryLiquidityPoolBatchRequest: proto_hooks QueryLiquidityPoolBatchRequest_Marshal QueryLiquidityPoolBatchRequest_Unmarshal QueryLiquidityPoolBatchRequest_zero "(\<lambda>_. True)"
  QueryLiquidityPoolBatchRequest_Size QueryLiquidityPoolBatchRequest_XXX_Size QueryLiquidityPoolBatchRequest_XXX_Marshal QueryLiquidityPoolBatchRequest_XXX_Unmarshal QueryLiquidityPoolBatchRequest_Reset
  by unfold_locales (simp_all add: wire_msg wire_size QueryLiquidityPoolBatchRequest_XXX_Size_def QueryLiquidityPoolBatchRequest_XXX_Marshal_def QueryLiquidityPoolBatchRequest_XXX_Unmarshal_def QueryLiquidityPoolBatchRequest_Reset_def)

interpretation h_QueryLiquidityPoolBatchResponse: proto_hooks QueryLiquidityPoolBatchResponse_Marshal QueryLiquidityPoolBatchResponse_Unmarshal QueryLiquidityPoolBatchResponse_zero "(\<lambda>_. True)"
  QueryLiquidityPoolBatchResponse_Size QueryLiquidityPoolBatchResponse_XXX_Size QueryLiquidityPoolBatchResponse_XXX_Marshal QueryLiquidityPoolBatchResponse_XXX_Unmarshal QueryLiquidityPoolBatchResponse_Reset
  by unfold_locales (simp_all add: wire_msg wire_size QueryLiquidityPoolBatchResponse_XXX_Size_def QueryLiquidityPoolBatchResponse_XXX_Marshal_def QueryLiquidityPoolBatchResponse_XXX_Unmarshal_def QueryLiquidityPoolBatchResponse_Reset_def)

interpretation h_QueryLiquidityPoolsRequest: proto_hooks QueryLiquidityPoolsRequest_Marshal QueryLiquidityPoolsRequest_Unmarshal QueryLiquidityPoolsRequest_zero "(\<lambda>_. True)"
  QueryLiquidityPoolsRequest_Size QueryLiquidityPoolsRequest_XXX_Size QueryLiquidityPoolsRequest_XXX_Marshal QueryLiquidityPoolsRequest_XXX_Unmarshal QueryLiquidityPoolsRequest_Reset
  by unfold_locales (simp_all add: wire_msg wire_size QueryLiquidityPoolsRequest_XXX_Size_def QueryLiquidityPoolsRequest_XXX_Marshal_def QueryLiquidityPoolsRequest_XXX_Unmarshal_def QueryLiquidityPoolsRequest_Reset_def)

interpretation h_QueryLiquidityPoolsResponse: proto_hooks QueryLiquidityPoolsResponse_Marshal QueryLiquidityPoolsResponse_Unmarshal QueryLiquidityPoolsResponse_zero "(\<lambda>_. True)"
  QueryLiquidityPoolsResponse_Size QueryLiquidityPoolsResponse_XXX_Size QueryLiquidityPoolsResponse_XXX_Marshal QueryLiquidityPoolsResponse_XXX_Unmarshal QueryLiquidityPoolsResponse_Reset
  by unfold_locales (simp_all add: wire_msg wire_size QueryLiquidityPoolsResponse_XXX_Size_def QueryLiquidityPoolsResponse_XXX_Marshal_def QueryLiquidityPoolsResponse_XXX_Unmarshal_def QueryLiquidityPoolsResponse_Reset_def)

interpretation h_QueryParamsRequest: proto_hooks QueryParamsRequest_Marshal QueryParamsRequest_Unmarshal QueryParamsRequest_zero "(\<lambda>_. True)"
  QueryParamsRequest_Size QueryParamsRequest_XXX_Size QueryParamsRequest_XXX_Marshal QueryParamsRequest_XXX_Unmarshal QueryParamsRequest_Reset
  by unfold_locales (simp_all add: wire_msg wire_size QueryParamsRequest_XXX_Size_def QueryParamsRequest_XXX_Marshal_def QueryParamsRequest_XXX_Unmarshal_def QueryParamsRequest_Reset_def)

interpretation h_QueryParamsResponse: proto_hooks QueryParamsResponse_Marshal QueryParamsResponse_Unmarshal QueryParamsResponse_zero QueryParamsResponse_ok
  QueryParamsResponse_Size QueryParamsResponse_XXX_Size QueryParamsResponse_XXX_Marshal QueryParamsResponse_XXX_Unmarshal QueryParamsResponse_Reset
  by unfold_locales (simp_all add: wire_msg wire_size QueryParamsResponse_XXX_Size_def QueryParamsResponse_XXX_Marshal_def QueryParamsResponse_XXX_Unmarshal_def QueryParamsResponse_Reset_def)

interpretation h_QueryPoolBatchSwapMsgsRequest: proto_hooks QueryPoolBatchSwapMsgsRequest_Marshal QueryPoolBatchSwapMsgsRequest_Unmarshal QueryPoolBatchSwapMsgsRequest_zero "(\<lambda>_. True)"
  QueryPoolBatchSwapMsgsRequest_Size QueryPoolBatchSwapMsgsRequest_XXX_Size QueryPoolBatchSwapMsgsRequest_XXX_Marshal QueryPoolBatchSwapMsgsRequest_XXX_Unmarshal QueryPoolBatchSwapMsgsRequest_Reset
  by unfold_locales (simp_all add: wire_msg wire_size QueryPoolBatchSwapMsgsRequest_XXX_Size_def QueryPoolBatchSwapMsgsRequest_XXX_Marshal_def QueryPoolBatchSwapMsgsRequest_XXX_Unmarshal_def QueryPoolBatchSwapMsgsRequest_Reset_def)

interpretation h_QueryPoolBatchSwapMsgRequest: proto_hooks QueryPoolBatchSwapMsgRequest_Marshal QueryPoolBatchSwapMsgRequest_Unmarshal QueryPoolBatchSwapMsgRequest_zero "(\<lambda>_. True)"
  QueryPoolBatchSwapMsgRequest_Size QueryPoolBatchSwapMsgRequest_XXX_Size QueryPoolBatchSwapMsgRequest_XXX_Marshal QueryPoolBatchSwapMsgRequest_XXX_Unmarshal QueryPoolBatchSwapMsgRequest_Reset
  by unfold_locales (simp_all add: wire_msg wire_size QueryPoolBatchSwapMsgRequest_XXX_Size_def QueryPoolBatchSwapMsgRequest_XXX_Marshal_def QueryPoolBatchSwapMsgRequest_XXX_Unmarshal_def QueryPoolBatchSwapMsgRequest_Reset_def)

interpretation h_QueryPoolBatchSwapMsgsResponse: proto_hooks QueryPoolBatchSwapMsgsResponse_Marshal QueryPoolBatchSwapMsgsResponse_Unmarshal QueryPoolBatchSwapMsgsResponse_zero QueryPoolBatchSwapMsgsResponse_ok
  QueryPoolBatchSwapMsgsResponse_Size QueryPoolBatchSwapMsgsResponse_XXX_Size QueryPoolBatchSwapMsgsResponse_XXX_Marshal QueryPoolBatchSwapMsgsResponse_XXX_Unmarshal QueryPoolBatchSwapMsgsResponse_Reset
  by unfold_locales (simp_all add: wire_msg wire_size QueryPoolBatchSwapMsgsResponse_XXX_Size_def QueryPoolBatchSwapMsgsResponse_XXX_Marshal_def QueryPoolBatchSwapMsgsResponse_XXX_Unmarshal_def QueryPoolBatchSwapMsgsResponse_Reset_def)

interpretation h_QueryPoolBatchSwapMsgResponse: proto_hooks QueryPoolBatchSwapMsgResponse_Marshal QueryPoolBatchSwapMsgResponse_Unmarshal QueryPoolBatchSwapMsgResponse_zero QueryPoolBatchSwapMsgResponse_ok
  QueryPoolBatchSwapMsgResponse_Size QueryPoolBatchSwapMsgResponse_XXX_Size QueryPoolBatchSwapMsgResponse_XXX_Marshal QueryPoolBatchSwapMsgResponse_XXX_Unmarshal QueryPoolBatchSwapMsgResponse_Reset
  by unfold_locales (simp_all add: wire_msg wire_size QueryPoolBatchSwapMsgResponse_XXX_Size_def QueryPoolBatchSwapMsgResponse_XXX_Marshal_def QueryPoolBatchSwapMsgResponse_XXX_Unmarshal_def QueryPoolBatchSwapMsgResponse_Reset_def)

interpretation h_QueryPoolBatchDepositMsgsRequest: proto_hooks QueryPoolBatchDepositMsgsRequest_Marshal QueryPoolBatchDepositMsgsRequest_Unmarshal QueryPoolBatchDepositMsgsRequest_zero "(\<lambda>_. True)"
  QueryPoolBatchDepositMsgsRequest_Size QueryPoolBatchDepositMsgsRequest_XXX_Size QueryPoolBatchDepositMsgsRequest_XXX_Marshal QueryPoolBatchDepositMsgsRequest_XXX_Unmarshal QueryPoolBatchDepositMsgsRequest_Reset
  by unfold_locales (simp_all add: wire_msg wire_size QueryPoolBatchDepositMsgsRequest_XXX_Size_def QueryPoolBatchDepositMsgsRequest_XXX_Marshal_def QueryPoolBatchDepositMsgsRequest_XXX_Unmarshal_def QueryPoolBatchDepositMsgsRequest_Reset_def)

interpretation h_QueryPoolBatchDepositMsgRequest: proto_hooks QueryPoolBatchDepositMsgRequest_Marshal QueryPoolBatchDepositMsgRequest_Unmarshal QueryPoolBatchDepositMsgRequest_zero "(\<lambda>_. True)"
  QueryPoolBatchDepositMsgRequest_Size QueryPoolBatchDepositMsgRequest_XXX_Size QueryPoolBatchDepositMsgRequest_XXX_Marshal QueryPoolBatchDepositMsgRequest_XXX_Unmarshal QueryPoolBatchDepositMsgRequest_Reset
  by unfold_locales (simp_all add: wire_msg wire_size QueryPoolBatchDepositMsgRequest_XXX_Size_def QueryPoolBatchDepositMsgRequest_XXX_Marshal_def QueryPoolBatchDepositMsgRequest_XXX_Unmarshal_def QueryPoolBatchDepositMsgRequest_Reset_def)

interpretation h_QueryPoolBatchDepositMsgsResponse: proto_hooks QueryPoolBatchDepositMsgsResponse_Marshal QueryPoolBatchDepositMsgsResponse_Unmarshal QueryPoolBatchDepositMsgsResponse_zero QueryPoolBatchDepositMsgsResponse_ok
  QueryPoolBatchDepositMsgsResponse_Size QueryPoolBatchDepositMsgsResponse_XXX_Size QueryPoolBatchDepositMsgsResponse_XXX_Marshal QueryPoolBatchDepositMsgsResponse_XXX_Unmarshal QueryPoolBatchDepositMsgsResponse_Reset
  by unfold_locales (simp_all add: wire_msg wire_size QueryPoolBatchDepositMsgsResponse_XXX_Size_def QueryPoolBatchDepositMsgsResponse_XXX_Marshal_def QueryPoolBatchDepositMsgsResponse_XXX_Unmarshal_def QueryPoolBatchDepositMsgsResponse_Reset_def)

interpretation h_QueryPoolBatchDepositMsgResponse: proto_hooks QueryPoolBatchDepositMsgResponse_Marshal QueryPoolBatchDepositMsgResponse_Unmarshal QueryPoolBatchDepositMsgResponse_zero QueryPoolBatchDepositMsgResponse_ok
  QueryPoolBatchDepositMsgResponse_Size QueryPoolBatchDepositMsgResponse_XXX_Size QueryPoolBatchDepositMsgResponse_XXX_Marshal QueryPoolBatchDepositMsgResponse_XXX_Unmarshal QueryPoolBatchDepositMsgResponse_Reset
  by unfold_locales (simp_all add: wire_msg wire_size QueryPoolBatchDepositMsgResponse_XXX_Size_def QueryPoolBatchDepositMsgResponse_XXX_Marshal_def QueryPoolBatchDepositMsgResponse_XXX_Unmarshal_def QueryPoolBatchDepositMsgResponse_Reset_def)

interpretation h_QueryPoolBatchWithdrawMsgsRequest: proto_hooks QueryPoolBatchWithdrawMsgsRequest_Marshal QueryPoolBatchWithdrawMsgsRequest_Unmarshal QueryPoolBatchWithdrawMsgsRequest_zero "(\<lambda>_. True)"
  QueryPoolBatchWithdrawMsgsRequest_Size QueryPoolBatchWithdrawMsgsRequest_XXX_Size QueryPoolBatchWithdrawMsgsRequest_XXX_Marshal QueryPoolBatchWithdrawMsgsRequest_XXX_Unmarshal QueryPoolBatchWithdrawMsgsRequest_Reset
  by unfold_locales (simp_all add: wire_msg wire_size QueryPoolBatchWithdrawMsgsRequest_XXX_Size_def QueryPoolBatchWithdrawMsgsRequest_XXX_Marshal_def QueryPoolBatchWithdrawMsgsRequest_XXX_Unmarshal_def QueryPoolBatchWithdrawMsgsRequest_Reset_def)

interpretation h_QueryPoolBatchWithdrawMsgRequest: proto_hooks QueryPoolBatchWithdrawMsgRequest_Marshal QueryPoolBatchWithdrawMsgRequest_Unmarshal QueryPoolBatchWithdrawMsgRequest_zero "(\<lambda>_. True)"
  QueryPoolBatchWithdrawMsgRequest_Size QueryPoolBatchWithdrawMsgRequest_XXX_Size QueryPoolBatchWithdrawMsgRequest_XXX_Marshal QueryPoolBatchWithdrawMsgRequest_XXX_Unmarshal QueryPoolBatchWithdrawMsgRequest_Reset
  by unfold_locales (simp_all add: wire_msg wire_size QueryPoolBatchWithdrawMsgRequest_XXX_Size_def QueryPoolBatchWithdrawMsgRequest_XXX_Marshal_def QueryPoolBatchWithdrawMsgRequest_XXX_Unmarshal_def QueryPoolBatchWithdrawMsgRequest_Reset_def)

interpretation h_QueryPoolBatchWithdrawMsgsResponse: proto_hooks QueryPoolBatchWithdrawMsgsResponse_Marshal QueryPoolBatchWithdrawMsgsResponse_Unmarshal QueryPoolBatchWithdrawMsgsResponse_zero QueryPoolBatchWithdrawMsgsResponse_ok
  QueryPoolBatchWithdrawMsgsResponse_Size QueryPoolBatchWithdrawMsgsResponse_XXX_Size QueryPoolBatchWithdrawMsgsResponse_XXX_Marshal QueryPoolBatchWithdrawMsgsResponse_XXX_Unmarshal QueryPoolBatchWithdrawMsgsResponse_Reset
  by unfold_locales (simp_all add: wire_msg wire_size QueryPoolBatchWithdrawMsgsResponse_XXX_Size_def QueryPoolBatchWithdrawMsgsResponse_XXX_Marshal_def QueryPoolBatchWithdrawMsgsResponse_XXX_Unmarshal_def QueryPoolBatchWithdrawMsgsResponse_Reset_def)

interpretation h_QueryPoolBatchWithdrawMsgResponse: proto_hooks QueryPoolBatchWithdrawMsgResponse_Marshal QueryPoolBatchWithdrawMsgResponse_Unmarshal QueryPoolBatchWithdrawMsgResponse_zero QueryPoolBatchWithdrawMsgResponse_ok
  QueryPoolBatchWithdrawMsgResponse_Size QueryPoolBatchWithdrawMsgResponse_XXX_Size QueryPoolBatchWithdrawMsgResponse_XXX_Marshal QueryPoolBatchWithdrawMsgResponse_XXX_Unmarshal QueryPoolBatchWithdrawMsgResponse_Reset
  by unfold_locales (simp_all add: wire_msg wire_size QueryPoolBatchWithdrawMsgResponse_XXX_Size_def QueryPoolBatchWithdrawMsgResponse_XXX_Marshal_def QueryPoolBatchWithdrawMsgResponse_XXX_Unmarshal_def QueryPoolBatchWithdrawMsgResponse_Reset_def)

text \<open>A getter of a nil message gives what the same getter gives of a message that was reset: no getter panics.\<close>

lemmas query_getter_defs =
  QueryPoolWithdrawSuccessMsgsRequest_GetPoolId_def QueryPoolWithdrawSuccessMsgsRequest_Reset_def QueryPoolWithdrawSuccessMsgsRequest_zero_def
  QueryPoolWithdrawSuccessMsgsRequest_GetWithdrawAddress_def QueryPoolWithdrawSuccessMsgsRequest_Reset_def QueryPoolWithdrawSuccessMsgsRequest_zero_def
  QueryPoolWithdrawSuccessMsgsRequest_GetPagination_def QueryPoolWithdrawSuccessMsgsRequest_Reset_def QueryPoolWithdrawSuccessMsgsRequest_zero_def
  QueryPoolWithdrawSuccessMsgRequest_GetPoolId_def QueryPoolWithdrawSuccessMsgRequest_Reset_def QueryPoolWithdrawSuccessMsgRequest_zero_def
  QueryPoolWithdrawSuccessMsgRequest_GetMsgIndex_def QueryPoolWithdrawSuccessMsgRequest_Reset_def QueryPoolWithdrawSuccessMsgRequest_zero_def
  QueryPoolWithdrawSuccessMsgsResponse_GetWithdraws_def QueryPoolWithdrawSuccessMsgsResponse_Reset_def QueryPoolWithdrawSuccessMsgsResponse_zero_def
  QueryPoolWithdrawSuccessMsgsResponse_GetPagination_def QueryPoolWithdrawSuccessMsgsResponse_Reset_def QueryPoolWithdrawSuccessMsgsResponse_zero_def
  QueryPoolWithdrawSuccessMsgResponse_GetWithdraw_def QueryPoolWithdrawSuccessMsgResponse_Reset_def QueryPoolWithdrawSuccessMsgResponse_zero_def
  QueryPoolSwapSuccessMsgsRequest_GetPoolId_def QueryPoolSwapSuccessMsgsRequest_Reset_def QueryPoolSwapSuccessMsgsRequest_zero_def
  QueryPoolSwapSuccessMsgsRequest_GetSwapAddress_def QueryPoolSwapSuccessMsgsRequest_Reset_def QueryPoolSwapSuccessMsgsRequest_zero_def
  QueryPoolSwapSuccessMsgsRequest_GetPagination_def QueryPoolSwapSuccessMsgsRequest_Reset_def QueryPoolSwapSuccessMsgsRequest_zero_def
  QueryPoolSwapSuccessMsgRequest_GetPoolId_def QueryPoolSwapSuccessMsgRequest_Reset_def QueryPoolSwapSuccessMsgRequest_zero_def
  QueryPoolSwapSuccessMsgRequest_GetMsgIndex_def QueryPoolSwapSuccessMsgRequest_Reset_def QueryPoolSwapSuccessMsgRequest_zero_def
  QueryPoolSwapSuccessMsgsResponse_GetSwaps_def QueryPoolSwapSuccessMsgsResponse_Reset_def QueryPoolSwapSuccessMsgsResponse_zero_def
  QueryPoolSwapSuccessMsgsResponse_GetPagination_def QueryPoolSwapSuccessMsgsResponse_Reset_def QueryPoolSwapSuccessMsgsResponse_zero_def
  QueryPoolSwapSuccessMsgResponse_GetSwap_def QueryPoolSwapSuccessMsgResponse_Reset_def QueryPoolSwapSuccessMsgResponse_zero_def
  QueryPoolDepositSuccessMsgsRequest_GetPoolId_def QueryPoolDepositSuccessMsgsRequest_Reset_def QueryPoolDepositSuccessMsgsRequest_zero_def
  QueryPoolDepositSuccessMsgsRequest_GetDepositorAddress_def QueryPoolDepositSuccessMsgsRequest_Reset_def QueryPoolDepositSuccessMsgsRequest_zero_def
  QueryPoolDepositSuccessMsgsRequest_GetPagination_def QueryPoolDepositSuccessMsgsRequest_Reset_def QueryPoolDepositSuccessMsgsRequest_zero_def
  QueryPoolDepositSuccessMsgRequest_GetPoolId_def QueryPoolDepositSuccessMsgRequest_Reset_def QueryPoolDepositSuccessMsgRequest_zero_def
  QueryPoolDepositSuccessMsgRequest_GetMsgIndex_def QueryPoolDepositSuccessMsgRequest_Reset_def QueryPoolDepositSuccessMsgRequest_zero_def
  QueryPoolDepositSuccessMsgsResponse_GetDeposits_def QueryPoolDepositSuccessMsgsResponse_Reset_def QueryPoolDepositSuccessMsgsResponse_zero_def
  QueryPoolDepositSuccessMsgsResponse_GetPagination_def QueryPoolDepositSuccessMsgsResponse_Reset_def QueryPoolDepositSuccessMsgsResponse_zero_def
  QueryPoolDepositSuccessMsgResponse_GetDeposit_def QueryPoolDepositSuccessMsgResponse_Reset_def QueryPoolDepositSuccessMsgResponse_zero_def
  QueryLiquidityPoolRequest_GetPoolId_def QueryLiquidityPoolRequest_Reset_def QueryLiquidityPoolRequest_zero_def
  QueryLiquidityPoolResponse_GetPool_def QueryLiquidityPoolResponse_Reset_def QueryLiquidityPoolResponse_zero_def
  QueryLiquidityPoolByPoolCoinDenomRequest_GetPoolCoinDenom_def QueryLiquidityPoolByPoolCoinDenomRequest_Reset_def QueryLiquidityPoolByPoolCoinDenomRequest_zero_def
  QueryLiquidityPoolByReserveAccRequest_GetReserveAcc_def QueryLiquidityPoolByReserveAccRequest_Reset_def QueryLiquidityPoolByReserveAccRequest_zero_def
  QueryLiquidityPoolBatchRequest_GetPoolId_def QueryLiquidityPoolBatchRequest_Reset_def QueryLiquidityPoolBatchRequest_zero_def
  QueryLiquidityPoolBatchResponse_GetBatch_def QueryLiquidityPoolBatchResponse_Reset_def QueryLiquidityPoolBatchResponse_zero_def
  QueryLiquidityPoolsRequest_GetPagination_def QueryLiquidityPoolsRequest_Reset_def QueryLiquidityPoolsRequest_zero_def
  QueryLiquidityPoolsResponse_GetPools_def QueryLiquidityPoolsResponse_Reset_def QueryLiquidityPoolsResponse_zero_def
  QueryLiquidityPoolsResponse_GetPagination_def QueryLiquidityPoolsResponse_Reset_def QueryLiquidityPoolsResponse_zero_def
  QueryParamsResponse_GetParams_def QueryParamsResponse_Reset_def QueryParamsResponse_zero_def
  QueryPoolBatchSwapMsgsRequest_GetPoolId_def QueryPoolBatchSwapMsgsRequest_Reset_def QueryPoolBatchSwapMsgsRequest_zero_def
  QueryPoolBatchSwapMsgsRequest_GetPagination_def QueryPoolBatchSwapMsgsRequest_Reset_def QueryPoolBatchSwapMsgsRequest_zero_def
  QueryPoolBatchSwapMsgRequest_GetPoolId_def QueryPoolBatchSwapMsgRequest_Reset_def QueryPoolBatchSwapMsgRequest_zero_def
  QueryPoolBatchSwapMsgRequest_GetMsgIndex_def QueryPoolBatchSwapMsgRequest_Reset_def QueryPoolBatchSwapMsgRequest_zero_def
  QueryPoolBatchSwapMsgsResponse_GetSwaps_def QueryPoolBatchSwapMsgsResponse_Reset_def QueryPoolBatchSwapMsgsResponse_zero_def
  QueryPoolBatchSwapMsgsResponse_GetPagination_def QueryPoolBatchSwapMsgsResponse_Reset_def QueryPoolBatchSwapMsgsResponse_zero_def
  QueryPoolBatchSwapMsgResponse_GetSwap_def QueryPoolBatchSwapMsgResponse_Reset_def QueryPoolBatchSwapMsgResponse_zero_def
  QueryPoolBatchDepositMsgsRequest_GetPoolId_def QueryPoolBatchDepositMsgsRequest_Reset_def QueryPoolBatchDepositMsgsRequest_zero_def
  QueryPoolBatchDepositMsgsRequest_GetPagination_def QueryPoolBatchDepositMsgsRequest_Reset_def QueryPoolBatchDepositMsgsRequest_zero_def
  QueryPoolBatchDepositMsgRequest_GetPoolId_def QueryPoolBatchDepositMsgRequest_Reset_def QueryPoolBatchDepositMsgRequest_zero_def
  QueryPoolBatchDepositMsgRequest_GetMsgIndex_def QueryPoolBatchDepositMsgRequest_Reset_def QueryPoolBatchDepositMsgRequest_zero_def
  QueryPoolBatchDepositMsgsResponse_GetDeposits_def QueryPoolBatchDepositMsgsResponse_Reset_def QueryPoolBatchDepositMsgsResponse_zero_def
  QueryPoolBatchDepositMsgsResponse_GetPagination_def QueryPoolBatchDepositMsgsResponse_Reset_def QueryPoolBatchDepositMsgsResponse_zero_def
  QueryPoolBatchDepositMsgResponse_GetDeposit_def QueryPoolBatchDepositMsgResponse_Reset_def QueryPoolBatchDepositMsgResponse_zero_def
  QueryPoolBatchWithdrawMsgsRequest_GetPoolId_def QueryPoolBatchWithdrawMsgsRequest_Reset_def QueryPoolBatchWithdrawMsgsRequest_zero_def
  QueryPoolBatchWithdrawMsgsRequest_GetPagination_def QueryPoolBatchWithdrawMsgsRequest_Reset_def QueryPoolBatchWithdrawMsgsRequest_zero_def
  QueryPoolBatchWithdrawMsgRequest_GetPoolId_def QueryPoolBatchWithdrawMsgRequest_Reset_def QueryPoolBatchWithdrawMsgRequest_zero_def
  QueryPoolBatchWithdrawMsgRequest_GetMsgIndex_def QueryPoolBatchWithdrawMsgRequest_Reset_def QueryPoolBatchWithdrawMsgRequest_zero_def
  QueryPoolBatchWithdrawMsgsResponse_GetWithdraws_def QueryPoolBatchWithdrawMsgsResponse_Reset_def QueryPoolBatchWithdrawMsgsResponse_zero_def
  QueryPoolBatchWithdrawMsgsResponse_GetPagination_def QueryPoolBatchWithdrawMsgsResponse_Reset_def QueryPoolBatchWithdrawMsgsResponse_zero_def
  QueryPoolBatchWithdrawMsgResponse_GetWithdraw_def QueryPoolBatchWithdrawMsgResponse_Reset_def QueryPoolBatchWithdrawMsgResponse_zero_def

lemma getters_nil:
  "QueryPoolWithdrawSuccessMsgsRequest_GetPoolId None = QueryPoolWithdrawSuccessMsgsRequest_GetPoolId (Some (QueryPoolWithdrawSuccessMsgsRequest_Reset m1))"
  "QueryPoolWithdrawSuccessMsgsRequest_GetWithdrawAddress None = QueryPoolWithdrawSuccessMsgsRequest_GetWithdrawAddress (Some (QueryPoolWithdrawSuccessMsgsRequest_Reset m2))"
  "QueryPoolWithdrawSuccessMsgsRequest_GetPagination None = QueryPoolWithdrawSuccessMsgsRequest_GetPagination (Some (QueryPoolWithdrawSuccessMsgsRequest_Reset m3))"
  "QueryPoolWithdrawSuccessMsgRequest_GetPoolId None = QueryPoolWithdrawSuccessMsgRequest_GetPoolId (Some (QueryPoolWithdrawSuccessMsgRequest_Reset m4))"
  "QueryPoolWithdrawSuccessMsgRequest_GetMsgIndex None = QueryPoolWithdrawSuccessMsgRequest_GetMsgIndex (Some (QueryPoolWithdrawSuccessMsgRequest_Reset m5))"
  "QueryPoolWithdrawSuccessMsgsResponse_GetWithdraws None = QueryPoolWithdrawSuccessMsgsResponse_GetWithdraws (Some (QueryPoolWithdrawSuccessMsgsResponse_Reset m6))"
  "QueryPoolWithdrawSuccessMsgsResponse_GetPagination None = QueryPoolWithdrawSuccessMsgsResponse_GetPagination (Some (QueryPoolWithdrawSuccessMsgsResponse_Reset m7))"
  "QueryPoolWithdrawSuccessMsgResponse_GetWithdraw None = QueryPoolWithdrawSuccessMsgResponse_GetWithdraw (Some (QueryPoolWithdrawSuccessMsgResponse_Reset m8))"
  "QueryPoolSwapSuccessMsgsRequest_GetPoolId None = QueryPoolSwapSuccessMsgsRequest_GetPoolId (Some (QueryPoolSwapSuccessMsgsRequest_Reset m9))"
  "QueryPoolSwapSuccessMsgsRequest_GetSwapAddress None = QueryPoolSwapSuccessMsgsRequest_GetSwapAddress (Some (QueryPoolSwapSuccessMsgsRequest_Reset m10))"
  "QueryPoolSwapSuccessMsgsRequest_GetPagination None = QueryPoolSwapSuccessMsgsRequest_GetPagination (Some (QueryPoolSwapSuccessMsgsRequest_Reset m11))"
  "QueryPoolSwapSuccessMsgRequest_GetPoolId None = QueryPoolSwapSuccessMsgRequest_GetPoolId (Some (QueryPoolSwapSuccessMsgRequest_Reset m12))"
  "QueryPoolSwapSuccessMsgRequest_GetMsgIndex None = QueryPoolSwapSuccessMsgRequest_GetMsgIndex (Some (QueryPoolSwapSuccessMsgRequest_Reset m13))"
  "QueryPoolSwapSuccessMsgsResponse_GetSwaps None = QueryPoolSwapSuccessMsgsResponse_GetSwaps (Some (QueryPoolSwapSuccessMsgsResponse_Reset m14))"
  "QueryPoolSwapSuccessMsgsResponse_GetPagination None = QueryPoolSwapSuccessMsgsResponse_GetPagination (Some (QueryPoolSwapSuccessMsgsResponse_Reset m15))"
  "QueryPoolSwapSuccessMsgResponse_GetSwap None = QueryPoolSwapSuccessMsgResponse_GetSwap (Some (QueryPoolSwapSuccessMsgResponse_Reset m16))"
  "QueryPoolDepositSuccessMsgsRequest_GetPoolId None = QueryPoolDepositSuccessMsgsRequest_GetPoolId (Some (QueryPoolDepositSuccessMsgsRequest_Reset m17))"
  "QueryPoolDepositSuccessMsgsRequest_GetDepositorAddress None = QueryPoolDepositSuccessMsgsRequest_GetDepositorAddress (Some (QueryPoolDepositSuccessMsgsRequest_Reset m18))"
  "QueryPoolDepositSuccessMsgsRequest_GetPagination None = QueryPoolDepositSuccessMsgsRequest_GetPagination (Some (QueryPoolDepositSuccessMsgsRequest_Reset m19))"
  "QueryPoolDepositSuccessMsgRequest_GetPoolId None = QueryPoolDepositSuccessMsgRequest_GetPoolId (Some (QueryPoolDepositSuccessMsgRequest_Reset m20))"
  "QueryPoolDepositSuccessMsgRequest_GetMsgIndex None = QueryPoolDepositSuccessMsgRequest_GetMsgIndex (Some (QueryPoolDepositSuccessMsgRequest_Reset m21))"
  "QueryPoolDepositSuccessMsgsResponse_GetDeposits None = QueryPoolDepositSuccessMsgsResponse_GetDeposits (Some (QueryPoolDepositSuccessMsgsResponse_Reset m22))"
  "QueryPoolDepositSuccessMsgsResponse_GetPagination None = QueryPoolDepositSuccessMsgsResponse_GetPagination (Some (QueryPoolDepositSuccessMsgsResponse_Reset m23))"
  "QueryPoolDepositSuccessMsgResponse_GetDeposit None = QueryPoolDepositSuccessMsgResponse_GetDeposit (Some (QueryPoolDepositSuccessMsgResponse_Reset m24))"
  "QueryLiquidityPoolRequest_GetPoolId None = QueryLiquidityPoolRequest_GetPoolId (Some (QueryLiquidityPoolRequest_Reset m25))"
  "QueryLiquidityPoolResponse_GetPool None = QueryLiquidityPoolResponse_GetPool (Some (QueryLiquidityPoolResponse_Reset m26))"
  "QueryLiquidityPoolByPoolCoinDenomRequest_GetPoolCoinDenom None = QueryLiquidityPoolByPoolCoinDenomRequest_GetPoolCoinDenom (Some (QueryLiquidityPoolByPoolCoinDenomRequest_Reset m27))"
  "QueryLiquidityPoolByReserveAccRequest_GetReserveAcc None = QueryLiquidityPoolByReserveAccRequest_GetReserveAcc (Some (QueryLiquidityPoolByReserveAccRequest_Reset m28))"
  "QueryLiquidityPoolBatchRequest_GetPoolId None = QueryLiquidityPoolBatchRequest_GetPoolId (Some (QueryLiquidityPoolBatchRequest_Reset m29))"
  "QueryLiquidityPoolBatchResponse_GetBatch None = QueryLiquidityPoolBatchResponse_GetBatch (Some (QueryLiquidityPoolBatchResponse_Reset m30))"
  "QueryLiquidityPoolsRequest_GetPagination None = QueryLiquidityPoolsRequest_GetPagination (Some (QueryLiquidityPoolsRequest_Reset m31))"
  "QueryLiquidityPoolsResponse_GetPools None = QueryLiquidityPoolsResponse_GetPools (Some (QueryLiquidityPoolsResponse_Reset m32))"
  "QueryLiquidityPoolsResponse_GetPagination None = QueryLiquidityPoolsResponse_GetPagination (Some (QueryLiquidityPoolsResponse_Reset m33))"
  "QueryParamsResponse_GetParams None = QueryParamsResponse_GetParams (Some (QueryParamsResponse_Reset m34))"
  "QueryPoolBatchSwapMsgsRequest_GetPoolId None = QueryPoolBatchSwapMsgsRequest_GetPoolId (Some (QueryPoolBatchSwapMsgsRequest_Reset m35))"
  "QueryPoolBatchSwapMsgsRequest_GetPagination None = QueryPoolBatchSwapMsgsRequest_GetPagination (Some (QueryPoolBatchSwapMsgsRequest_Reset m36))"
  "QueryPoolBatchSwapMsgRequest_GetPoolId None = QueryPoolBatchSwapMsgRequest_GetPoolId (Some (QueryPoolBatchSwapMsgRequest_Reset m37))"
  "QueryPoolBatchSwapMsgRequest_GetMsgIndex None = QueryPoolBatchSwapMsgRequest_GetMsgIndex (Some (QueryPoolBatchSwapMsgRequest_Reset m38))"
  "QueryPoolBatchSwapMsgsResponse_GetSwaps None = QueryPoolBatchSwapMsgsResponse_GetSwaps (Some (QueryPoolBatchSwapMsgsResponse_Reset m39))"
  "QueryPoolBatchSwapMsgsResponse_GetPagination None = QueryPoolBatchSwapMsgsResponse_GetPagination (Some (QueryPoolBatchSwapMsgsResponse_Reset m40))"
  "QueryPoolBatchSwapMsgResponse_GetSwap None = QueryPoolBatchSwapMsgResponse_GetSwap (Some (QueryPoolBatchSwapMsgResponse_Reset m41))"
  "QueryPoolBatchDepositMsgsRequest_GetPoolId None = QueryPoolBatchDepositMsgsRequest_GetPoolId (Some (QueryPoolBatchDepositMsgsRequest_Reset m42))"
  "QueryPoolBatchDepositMsgsRequest_GetPagination None = QueryPoolBatchDepositMsgsRequest_GetPagination (Some (QueryPoolBatchDepositMsgsRequest_Reset m43))"
  "QueryPoolBatchDepositMsgRequest_GetPoolId None = QueryPoolBatchDepositMsgRequest_GetPoolId (Some (QueryPoolBatchDepositMsgRequest_Reset m44))"
  "QueryPoolBatchDepositMsgRequest_GetMsgIndex None = QueryPoolBatchDepositMsgRequest_GetMsgIndex (Some (QueryPoolBatchDepositMsgRequest_Reset m45))"
  "QueryPoolBatchDepositMsgsResponse_GetDeposits None = QueryPoolBatchDepositMsgsResponse_GetDeposits (Some (QueryPoolBatchDepositMsgsResponse_Reset m46))"
  "QueryPoolBatchDepositMsgsResponse_GetPagination None = QueryPoolBatchDepositMsgsResponse_GetPagination (Some (QueryPoolBatchDepositMsgsResponse_Reset m47))"
  "QueryPoolBatchDepositMsgResponse_GetDeposit None = QueryPoolBatchDepositMsgResponse_GetDeposit (Some (QueryPoolBatchDepositMsgResponse_Reset m48))"
  "QueryPoolBatchWithdrawMsgsRequest_GetPoolId None = QueryPoolBatchWithdrawMsgsRequest_GetPoolId (Some (QueryPoolBatchWithdrawMsgsRequest_Reset m49))"
  "QueryPoolBatchWithdrawMsgsRequest_GetPagination None = QueryPoolBatchWithdrawMsgsRequest_GetPagination (Some (QueryPoolBatchWithdrawMsgsRequest_Reset m50))"
  "QueryPoolBatchWithdrawMsgRequest_GetPoolId None = QueryPoolBatchWithdrawMsgRequest_GetPoolId (Some (QueryPoolBatchWithdrawMsgRequest_Reset m51))"
  "QueryPoolBatchWithdrawMsgRequest_GetMsgIndex None = QueryPoolBatchWithdrawMsgRequest_GetMsgIndex (Some (QueryPoolBatchWithdrawMsgRequest_Reset m52))"
  "QueryPoolBatchWithdrawMsgsResponse_GetWithdraws None = QueryPoolBatchWithdrawMsgsResponse_GetWithdraws (Some (QueryPoolBatchWithdrawMsgsResponse_Reset m53))"
  "QueryPoolBatchWithdrawMsgsResponse_GetPagination None = QueryPoolBatchWithdrawMsgsResponse_GetPagination (Some (QueryPoolBatchWithdrawMsgsResponse_Reset m54))"
  "QueryPoolBatchWithdrawMsgResponse_GetWithdraw None = QueryPoolBatchWithdrawMsgResponse_GetWithdraw (Some (QueryPoolBatchWithdrawMsgResponse_Reset m55))"
  by (simp_all add: query_getter_defs)

end
