(* ===== verification/CodecForms.thy ===== *)
theory CodecForms
  imports Registry AminoCompat
begin

text \<open>
  The rest of the protobuf codec (\<open>codec/proto_codec.go\<close>): the forms that panic instead of returning an error, and the JSON forms. A message is a flat
  value with the \<open>Any\<close>s inside it, as in \<open>AminoCompat\<close>; \<open>isMarshaler\<close> tells which types have the methods of \<open>ProtoMarshaler\<close>, \<open>toStr\<close> and \<open>jm\<close> are
  the library's JSON of an \<open>Any\<close> and of a message, and \<open>fromJSON\<close> its reader.
\<close>

section \<open>The codec\<close>

record ('i, 't) ProtoCodec =
  anyUnpacker :: "('i, 't) interfaceRegistry"

definition NewProtoCodec :: "('i, 't) interfaceRegistry \<Rightarrow> ('i, 't) ProtoCodec" where
  "NewProtoCodec registry = \<lparr>anyUnpacker = registry\<rparr>"

definition MustMarshalBinaryLengthPrefixed :: "('i, 't, 'v) TypeEnv \<Rightarrow> ('v \<Rightarrow> nat) \<Rightarrow> 'v \<Rightarrow> bytes res" where
  "MustMarshalBinaryLengthPrefixed E msgSize x = panic_on_err (MarshalBinaryLengthPrefixed E msgSize x)"

definition MustUnmarshalBinaryBare :: "('i, 't, 'v) TypeEnv \<Rightarrow> ('i, 't) ProtoCodec \<Rightarrow> 't \<Rightarrow> bytes \<Rightarrow> 'v res" where
  "MustUnmarshalBinaryBare E pc typ bz = panic_on_err (UnmarshalBinaryBare E (anyUnpacker pc) typ bz)"

definition MustUnmarshalBinaryLengthPrefixed :: "('i, 't, 'v) TypeEnv \<Rightarrow> ('i, 't) ProtoCodec \<Rightarrow> 't \<Rightarrow> bytes \<Rightarrow> 'v res" where
  "MustUnmarshalBinaryLengthPrefixed E pc typ bz = panic_on_err (UnmarshalBinaryLengthPrefixed E (anyUnpacker pc) typ bz)"

definition pc_MarshalJSON ::
  "('i, 't, 'w obj) TypeEnv \<Rightarrow> ('t \<Rightarrow> bool) \<Rightarrow> ('w anyv \<Rightarrow> bytes res) \<Rightarrow> ('w obj \<Rightarrow> bytes res) \<Rightarrow> 'w obj \<Rightarrow> bytes res \<times> 'w obj" where
  "pc_MarshalJSON E isMarshaler toStr jm x =
     (if \<not> isMarshaler (TypeOf E x) then (Inl (Err ''cannot protobuf JSON encode unsupported type''), x)
      else ProtoMarshalJSON toStr jm x)"

definition pc_MustMarshalJSON ::
  "('i, 't, 'w obj) TypeEnv \<Rightarrow> ('t \<Rightarrow> bool) \<Rightarrow> ('w anyv \<Rightarrow> bytes res) \<Rightarrow> ('w obj \<Rightarrow> bytes res) \<Rightarrow> 'w obj \<Rightarrow> bytes res \<times> 'w obj" where
  "pc_MustMarshalJSON E isMarshaler toStr jm x = map_prod panic_on_err id (pc_MarshalJSON E isMarshaler toStr jm x)"

definition pc_UnmarshalJSON ::
  "('i, 't, 'v) TypeEnv \<Rightarrow> ('t \<Rightarrow> bool) \<Rightarrow> ('t \<Rightarrow> bytes \<Rightarrow> 'v res) \<Rightarrow> ('i, 't) ProtoCodec \<Rightarrow> 't \<Rightarrow> bytes \<Rightarrow> 'v res" where
  "pc_UnmarshalJSON E isMarshaler fromJSON pc typ bz =
     (if \<not> isMarshaler typ then Inl (Err ''cannot protobuf JSON decode unsupported type'')
      else bindR (fromJSON typ bz) (ValueUnpackInterfaces E (anyUnpacker pc)))"

definition pc_MustUnmarshalJSON ::
  "('i, 't, 'v) TypeEnv \<Rightarrow> ('t \<Rightarrow> bool) \<Rightarrow> ('t \<Rightarrow> bytes \<Rightarrow> 'v res) \<Rightarrow> ('i, 't) ProtoCodec \<Rightarrow> 't \<Rightarrow> bytes \<Rightarrow> 'v res" where
  "pc_MustUnmarshalJSON E isMarshaler fromJSON pc typ bz = panic_on_err (pc_UnmarshalJSON E isMarshaler fromJSON pc typ bz)"

definition pc_UnpackAny :: "('i, 't, 'v) TypeEnv \<Rightarrow> ('i, 't) ProtoCodec \<Rightarrow> 'v Any option \<Rightarrow> 'i \<Rightarrow> ('v option \<times> 'v Any option) res" where
  "pc_UnpackAny E pc any iface = UnpackAny E (anyUnpacker pc) any iface"

section \<open>The forms that panic\<close>

text \<open>What a form and its \<open>Must\<close> variant promise together: the same values, and a panic for every error.\<close>

locale must_form =
  fixes plain must :: "'a \<Rightarrow> 'b res"
  assumes must: "must x = panic_on_err (plain x)"
begin

lemma same_value: "must x = Inr y \<longleftrightarrow> plain x = Inr y"
  by (cases "plain x") (auto simp: must panic_on_err_def split: failure.splits)

lemma no_error: "must x \<noteq> Inl (Err e)"
  by (cases "plain x") (auto simp: must panic_on_err_def split: failure.splits)

lemma panics: "plain x = Inl f \<Longrightarrow> \<exists>p. must x = Inl (Panic p)"
  by (cases f) (auto simp: must panic_on_err_def)

end

interpretation mm_bare: must_form "MarshalBinaryBare E" "MustMarshalBinaryBare E" for E
  by unfold_locales (simp add: MustMarshalBinaryBare_def)

interpretation mm_prefixed: must_form "MarshalBinaryLengthPrefixed E sz" "MustMarshalBinaryLengthPrefixed E sz" for E sz
  by unfold_locales (simp add: MustMarshalBinaryLengthPrefixed_def)

interpretation mu_bare: must_form "UnmarshalBinaryBare E (anyUnpacker pc) ty" "MustUnmarshalBinaryBare E pc ty" for E pc ty
  by unfold_locales (simp add: MustUnmarshalBinaryBare_def)

interpretation mu_prefixed: must_form "UnmarshalBinaryLengthPrefixed E (anyUnpacker pc) ty" "MustUnmarshalBinaryLengthPrefixed E pc ty" for E pc ty
  by unfold_locales (simp add: MustUnmarshalBinaryLengthPrefixed_def)

interpretation mu_json: must_form "pc_UnmarshalJSON E ism fromJSON pc ty" "pc_MustUnmarshalJSON E ism fromJSON pc ty" for E ism fromJSON pc ty
  by unfold_locales (simp add: pc_MustUnmarshalJSON_def)

interpretation mm_json: must_form "\<lambda>x. fst (pc_MarshalJSON E ism toStr jm x)" "\<lambda>x. fst (pc_MustMarshalJSON E ism toStr jm x)" for E ism toStr jm
  by unfold_locales (simp add: pc_MustMarshalJSON_def)

section \<open>Properties\<close>

text \<open>
  A message of a type with the methods of \<open>ProtoMarshaler\<close> is read back from its JSON form when the library reads back what it writes and the message
  unpacks to itself; a type without them is refused by both directions with an error.
\<close>

theorem proto_json_roundtrip:
  assumes "isMarshaler (TypeOf E x)" "fst (pc_MarshalJSON E isMarshaler toStr jm x) = Inr bz"
    and lib: "\<And>b. jm (snd (pjson_obj toStr x)) = Inr b \<Longrightarrow> fromJSON (TypeOf E x) b = Inr x"
    and unpack: "ValueUnpackInterfaces E reg x = Inr x"
  shows "pc_UnmarshalJSON E isMarshaler fromJSON (NewProtoCodec reg) (TypeOf E x) bz = Inr x"
proof -
  have "jm (snd (pjson_obj toStr x)) = Inr bz"
    using assms(1,2) by (cases "pjson_obj toStr x") (auto simp: pc_MarshalJSON_def ProtoMarshalJSON_def after_def split: sum.splits)
  then show ?thesis using assms(1) lib unpack by (simp add: pc_UnmarshalJSON_def NewProtoCodec_def)
qed

lemma unsupported_types_refused:
  assumes "\<not> isMarshaler typ"
  shows "TypeOf E x = typ \<Longrightarrow> \<exists>e. pc_MarshalJSON E isMarshaler toStr jm x = (Inl (Err e), x)"
    and "\<exists>e. pc_UnmarshalJSON E isMarshaler fromJSON pc typ bz = Inl (Err e)"
  using assms by (simp_all add: pc_MarshalJSON_def pc_UnmarshalJSON_def)

text \<open>The length prefix may be missing: the empty input has no prefix, but it is read as the empty message, since only a negative count is refused.\<close>

lemma empty_input_accepted: "UnmarshalBinaryLengthPrefixed E reg typ [] = UnmarshalBinaryBare E reg typ []"
  by (simp add: UnmarshalBinaryLengthPrefixed_def Uvarint_def)

end
