(* ===== verification/Segments.thy ===== *)
theory Segments
  imports SdkModules StdTx
begin

text \<open>
  Lists that are cut into batches. \<open>SubArray\<close> (\<open>utils/commom.go\<close>) works on the interface \<open>SplitAble\<close> (\<open>types/module.go\<close>), which messages
  (\<open>types/stdtx.go\<close>) and the receipts of a multi-send (\<open>modules/bank/export.go\<close>) implement. The definition here is the loop over the interface with Go's
  integers and slice bounds; the operations of \<open>Client\<close> and \<open>SdkModules\<close> use \<open>SubArray\<close> on lists, which it refines to. The
  operations on the content of a proposal (\<open>modules/gov/types.go\<close>) follow.
\<close>

section \<open>The interface\<close>

record 's SplitAble =
  Len :: "'s \<Rightarrow> int"
  Sub :: "'s \<Rightarrow> int \<Rightarrow> int \<Rightarrow> 's res"

definition sub_segment :: "'s SplitAble \<Rightarrow> int \<Rightarrow> int \<Rightarrow> 's \<Rightarrow> int \<Rightarrow> 's res" where
  "sub_segment I subLen batch array i =
     (let start = (i - 1) * subLen
      in if i \<noteq> batch then Sub I array start (i * subLen) else Sub I array start (Len I array))"

definition SplitAble_SubArray :: "'s SplitAble \<Rightarrow> int \<Rightarrow> 's \<Rightarrow> 's list res" where
  "SplitAble_SubArray I subLen array =
     (let maxLen = Len I array in
      if maxLen \<le> subLen then Inr [array]
      else if subLen = 0 then Inl (Panic ''integer divide by zero'')
      else
        let batch = maxLen sdiv subLen + (if 0 < maxLen smod subLen then 1 else 0)
        in mapR (sub_segment I subLen batch array) [1..batch])"

record MultiSendRequest =
  Receipts :: "Receipt list"

definition MultiSendRequest_Len :: "MultiSendRequest \<Rightarrow> int" where
  "MultiSendRequest_Len msr = int (length (Receipts msr))"

definition MultiSendRequest_Sub :: "MultiSendRequest \<Rightarrow> int \<Rightarrow> int \<Rightarrow> MultiSendRequest res" where
  "MultiSendRequest_Sub msr b e =
     (if 0 \<le> b \<and> b \<le> e \<and> e \<le> int (length (Receipts msr)) then Inr \<lparr>Receipts = take (nat (e - b)) (drop (nat b) (Receipts msr))\<rparr>
      else Inl (Panic ''slice bounds out of range''))"

section \<open>The content of a proposal\<close>

definition GetInitialDeposit :: "MsgSubmitProposal \<Rightarrow> Coins" where
  "GetInitialDeposit m = spInitialDeposit m"

text \<open>The error of the parser is dropped: a proposer that does not parse is the nil address.\<close>

definition GetProposer :: "Bech32 \<Rightarrow> MsgSubmitProposal \<Rightarrow> bytes res" where
  "GetProposer lib m =
     (case AccAddressFromBech32 lib (spProposer m) of Inr a \<Rightarrow> Inr a | Inl (Err _) \<Rightarrow> Inr [] | Inl (Panic p) \<Rightarrow> Inl (Panic p))"

definition SetContent :: "(TextProposal \<Rightarrow> unit res) \<Rightarrow> TextProposal option \<Rightarrow> MsgSubmitProposal \<Rightarrow> MsgSubmitProposal res" where
  "SetContent pack content m =
     (case content of
        None \<Rightarrow> Inl (Err ''can't proto marshal <nil>'')
      | Some c \<Rightarrow> bindR (pack c) (\<lambda>_. Inr (m\<lparr>spContent := Some (Some c)\<rparr>)))"

section \<open>What a list promises, and what its segments are\<close>

lemma int_sdiv_nat: "int l sdiv int n = int (l div n)"
  by (simp add: signed_divide_int_def sgn_if zdiv_int)

lemma int_smod_nat: "int l smod int n = int (l mod n)"
  by (cases l) (simp_all add: signed_modulo_int_def zmod_int)

lemma batch_start:
  assumes "0 < n"
  shows "((l::nat) div n + (if 0 < l mod n then 1 else 0) - 1) * n \<le> l"
proof -
  have "l div n * n \<le> l" by simp
  moreover have "(l div n - 1) * n \<le> l div n * n" by simp
  ultimately show ?thesis by (cases "0 < l mod n") (auto intro: order_trans)
qed

lemma start_int: "(b - 1) * n \<le> l \<Longrightarrow> 1 \<le> b \<Longrightarrow> (int b - 1) * int n \<le> int l"
  by (cases b) (simp_all flip: of_nat_mult)

locale split_able =
  fixes I :: "'s SplitAble" and items :: "'s \<Rightarrow> 'a list"
  assumes len: "Len I a = int (length (items a))"
    and sub: "0 \<le> b \<Longrightarrow> b \<le> e \<Longrightarrow> e \<le> int (length (items a)) \<Longrightarrow>
      \<exists>a'. Sub I a b e = Inr a' \<and> items a' = take (nat (e - b)) (drop (nat b) (items a))"
begin

lemma segment_of:
  assumes n: "0 < n" and i: "1 \<le> i" "i \<le> batch" and batch: "(batch - 1) * n \<le> int (length (items a))"
  shows "\<exists>s. sub_segment I n batch a i = Inr s \<and>
     items s = (if i \<noteq> batch then take (nat n) (drop (nat ((i - 1) * n)) (items a)) else drop (nat ((i - 1) * n)) (items a))"
proof (cases "i = batch")
  case True
  then show ?thesis using sub [of "(i - 1) * n" "int (length (items a))" a] assms by (simp add: sub_segment_def len nat_diff_distrib)
next
  case False
  have "i * n \<le> (batch - 1) * n" using i False n by (intro mult_right_mono) auto
  then have "i * n \<le> int (length (items a))" using batch by simp
  moreover have "(i - 1) * n \<le> i * n" "0 \<le> (i - 1) * n" "i * n - (i - 1) * n = n" using n i by (auto simp: algebra_simps)
  ultimately show ?thesis using sub [of "(i - 1) * n" "i * n" a] False by (simp add: sub_segment_def)
qed

lemma segments:
  assumes "0 < n" "(batch - 1) * n \<le> int (length (items a))" "list_all (\<lambda>i. 1 \<le> i \<and> i \<le> batch) is"
  shows "\<exists>ss. mapR (sub_segment I n batch a) is = Inr ss \<and>
     map items ss = map (\<lambda>i. if i \<noteq> batch then take (nat n) (drop (nat ((i - 1) * n)) (items a)) else drop (nat ((i - 1) * n)) (items a)) is"
  using assms(3)
proof (induction "is")
  case (Cons i "is")
  then obtain s where "sub_segment I n batch a i = Inr s"
    "items s = (if i \<noteq> batch then take (nat n) (drop (nat ((i - 1) * n)) (items a)) else drop (nat ((i - 1) * n)) (items a))"
    using segment_of [of n i batch a] assms(1,2) by auto
  with Cons show ?case by auto
qed simp

lemma upto_upt: "[1..int b] = map int [1 ..< b + 1]"
  by (rule nth_equalityI) (simp_all del: upt_Suc)

lemma sub_array:
  assumes n: "0 < n"
  shows "\<exists>ss. SplitAble_SubArray I (int n) a = Inr ss \<and> SubArray n (items a) = Inr (map items ss)"
proof (cases "length (items a) \<le> n")
  case False
  let ?l = "length (items a)" and ?b = "length (items a) div n + (if 0 < length (items a) mod n then 1 else 0)"
  have q: "int ?l sdiv int n + (if 0 < int ?l smod int n then 1 else 0) = int ?b"
    by (simp add: int_sdiv_nat int_smod_nat)
  have "(?b - 1) * n \<le> ?l" by (rule batch_start [OF n])
  moreover have "1 \<le> ?b" using False n by (simp add: div_greater_zero_iff Suc_le_eq)
  ultimately have "(int ?b - 1) * int n \<le> int ?l" by (rule start_int)
  then obtain ss where ss: "mapR (sub_segment I (int n) (int ?b) a) [1..int ?b] = Inr ss"
    "map items ss = map (\<lambda>i. if i \<noteq> int ?b then take (nat (int n)) (drop (nat ((i - 1) * int n)) (items a)) else drop (nat ((i - 1) * int n)) (items a)) [1..int ?b]"
    using segments [of "int n" "int ?b" a "[1..int ?b]"] n by (auto simp: list_all_iff)
  have "nat ((int i - 1) * int n) = (i - 1) * n" for i
    by (cases i) (simp_all add: nat_mult_distrib mult_le_0_iff)
  then have "map items ss = map (\<lambda>i. if i \<noteq> ?b then take n (drop ((i - 1) * n) (items a)) else drop ((i - 1) * n) (items a)) [1 ..< ?b + 1]"
    unfolding ss(2) upto_upt by (simp add: comp_def nat_mult_distrib del: upt_Suc)
  then show ?thesis using False n ss(1) q by (simp add: SplitAble_SubArray_def SubArray_def Let_def len del: upt_Suc)
qed (use n in \<open>simp add: SplitAble_SubArray_def SubArray_def len\<close>)

text \<open>Nothing is lost or repeated, and no segment is longer than asked for.\<close>

lemma segments_complete:
  assumes "0 < n" "SplitAble_SubArray I (int n) a = Inr ss"
  shows "concat (map items ss) = items a \<and> (\<forall>s\<in>set ss. length (items s) \<le> n)"
  using sub_array [OF assms(1), of a] assms chunks_props [of n "items a"] by (auto simp: SubArray_chunks)

end

interpretation msgs_split: split_able "\<lparr>Len = Msgs_Len, Sub = Msgs_Sub\<rparr>" "\<lambda>m. m"
  by unfold_locales (simp_all add: Msgs_Len_def Msgs_Sub_def)

interpretation receipts_split: split_able "\<lparr>Len = MultiSendRequest_Len, Sub = MultiSendRequest_Sub\<rparr>" Receipts
  by unfold_locales (simp_all add: MultiSendRequest_Len_def MultiSendRequest_Sub_def)

section \<open>Properties\<close>

text \<open>
  Cutting is the same through the interface and on lists. For every positive length of a batch, cutting messages or receipts through the interface \<open>SplitAble\<close>
  never runs out of the bounds of a slice and gives the segments that cutting the list gives.
\<close>

theorem SubArray_interface_refines:
  assumes "0 < n"
  shows "(\<exists>ss. SplitAble_SubArray \<lparr>Len = Msgs_Len, Sub = Msgs_Sub\<rparr> (int n) msgs = Inr ss \<and> SubArray n msgs = Inr ss) \<and>
         (\<exists>rs. SplitAble_SubArray \<lparr>Len = MultiSendRequest_Len, Sub = MultiSendRequest_Sub\<rparr> (int n) req = Inr rs \<and>
               SubArray n (Receipts req) = Inr (map Receipts rs))"
  using msgs_split.sub_array [OF assms, of msgs] receipts_split.sub_array [OF assms, of req] by simp

text \<open>A batch length of zero or less: zero panics on a non-empty list, and a negative one loses the whole list without an error.\<close>

lemma SubArray_bad_lengths:
  "\<exists>p. SplitAble_SubArray \<lparr>Len = Msgs_Len, Sub = Msgs_Sub\<rparr> 0 (m # ms) = Inl (Panic p)"
  "SplitAble_SubArray \<lparr>Len = Msgs_Len, Sub = Msgs_Sub\<rparr> (- 1) (m # ms) = Inr []"
  by (simp_all add: SplitAble_SubArray_def Msgs_Len_def signed_divide_int_def signed_modulo_int_def)

text \<open>The content that is set is the content that is read, and the constructor is the setter on a message without content.\<close>

lemma SetContent_GetContent: "SetContent pack content m = Inr m' \<Longrightarrow> GetContent (spContent m') = Inr content \<and> spProposer m' = spProposer m"
  by (cases content; cases "pack (the content)") (auto simp: SetContent_def GetContent_def)

lemma NewMsgSubmitProposal_SetContent:
  "NewMsgSubmitProposal lib pack content deposit proposer =
     bindR (AccAddress_String lib proposer) (\<lambda>p. SetContent pack content \<lparr>spContent = None, spInitialDeposit = deposit, spProposer = p\<rparr>)"
  unfolding NewMsgSubmitProposal_def SetContent_def by (rule arg_cong [where f = "bindR _"]) (auto split: option.splits)

end
