(* ===== verification/Spec2Isabelle.thy ===== *)
theory Spec2Isabelle
  imports CoinType HdPath TxBuilder KeyStore Client Address Messages Coinswap SdkModules
    Curve Secp UnknownProto Uuid Registry Events LiquidityService Config StakingQuery GovQuery StdTx Ed25519
    Subscriptions Accounts AminoCompat SignBytes Assembly Logging NumberForms Factory KeyForms Responses Facade
    QueryHooks CodecForms Segments
begin

text \<open>
  Verification of plugchain-sdk-go, a Go client library for a Cosmos chain. An application gives the
  library a configuration and a key store; the library keeps keys, builds and signs transactions,
  sends them to a node, and offers one client per module of the chain (bank, token, nft, gov, staking,
  coinswap).

  \<^bold>\<open>How the parts work together.\<close> A call such as \<open>Send\<close> of \<open>modules/bank/bank.go\<close> looks up the
  sender in the key manager, converts the amounts to the smallest unit of their tokens, builds messages and
  hands them to the base client (\<open>modules/base_client.go\<close>). The base client prepares a factory with the
  account number and sequence of the sender (cached, \<open>modules/account.go\<close>), the factory
  (\<open>client/tx/factory.go\<close>) builds a transaction with the builder (\<open>types/tx/builder.go\<close>), signs the sign
  bytes of the mode, stores the signature and encodes the transaction, and the base client broadcasts it.
  The theories follow that structure; each opens with the files that it models.

  \<^bold>\<open>Conventions.\<close> Every call gives a result of type \<open>'a res\<close>: \<open>Inr\<close> with the value, \<open>Inl (Err _)\<close> for a
  returned error, \<open>Inl (Panic _)\<close> for a panic. Structs are records, interfaces with several implementations
  datatypes, slices lists, maps partial functions, \<open>uint8\<close> to \<open>uint64\<close> words of their width, big integers \<open>int\<close>,
  a pointer that may be nil an \<open>option\<close>. State that a call changes is an argument and part of the result. Definitions have
  the names of the source; a method \<open>m\<close> of a type \<open>T\<close> is \<open>m\<close> or, where the name is used twice, \<open>T_m\<close>.
  Code outside the repository (hashes, HMAC, btcec, libsecp256k1, bcrypt, secretbox, the armor
  format, bip39, bech32, gcache, the protobuf runtime, data base, node) is a record of functions that the
  definitions take, and what a theorem needs of it is a named predicate (\<open>lib_laws\<close>, \<open>db_laws\<close>,
  \<open>gcache_laws\<close>, \<open>wire_law\<close>, \<open>codec_law\<close>, \<open>btcec_law\<close>, \<open>serves\<close> and so on) that its witness proves of a
  concrete instance.

  \<^bold>\<open>The theories.\<close>
  \<^item> \<open>Prelude\<close>, \<open>GoBig\<close>: outcomes, loops that may fail, strings; the used part of \<open>math/big\<close> and \<open>strconv\<close>.
  \<^item> \<open>SdkInt\<close> (\<open>types/int.go\<close>), \<open>SdkDec\<close> (\<open>types/dec.go\<close>): bounded integers and decimals. Results are exact or a
    panic, products are rounded half to even, quotients have the stated error, roots end within the bound on
    iterations, texts and binary forms are read back.
  \<^item> \<open>SdkCoin\<close>, \<open>SdkDecCoin\<close>, \<open>CoinType\<close> (\<open>types/coin.go\<close>, \<open>types/dec_coin.go\<close>, \<open>types/coin_type.go\<close>): coin sets. The merge
    loops compute sums and differences per denomination and keep sets sorted, positive and without repetition; the
    locales \<open>coin_kind\<close> and \<open>findDupDescriptor\<close> carry both kinds of coins. \<open>removeZeroCoins\<close> is modelled on the
    backing array of its slice.
  \<^item> \<open>BitArray\<close>, \<open>Multisig\<close> (\<open>crypto/types\<close>, \<open>crypto/keys/multisig\<close>, \<open>types/tx/signing\<close>): compact bit arrays are bit lists;
    collecting signatures in any order gives a multi-signature that verifies; a multi-signature that verifies has
    enough valid signatures. Locales \<open>bit_vector\<close> and \<open>sparse_store\<close>.
  \<^item> \<open>ProtoWire\<close> (generated codecs): varints, fields, skipping, the messages of transactions, and their round trips.
  \<^item> \<open>HdPath\<close>, \<open>KeyStore\<close>, \<open>Address\<close> (\<open>crypto/hd\<close>, \<open>crypto/key_manager.go\<close>, \<open>crypto/armor.go\<close>, \<open>types/store\<close>,
    \<open>modules/keys.go\<close>, \<open>types/address.go\<close>): derivation along a path gives valid keys; a key exported under a password and
    imported again signs with the same key; addresses round trip for the three prefixes (locale \<open>address_kind\<close>).
  \<^item> \<open>Curve\<close>, \<open>Secp\<close> (\<open>crypto/keys/secp256k1\<close>): the Jacobian formulas compute the chord and tangent rules; point
    encoding is a bijection; generated keys are in range; a signature made by \<open>Sign\<close> verifies and has a low \<open>S\<close>.
  \<^item> \<open>TxBuilder\<close> (\<open>types/tx\<close>, \<open>client/tx/factory.go\<close>): in every state reachable by the setters the cached bytes are those of the
    current transaction (locale \<open>lazy_bytes\<close>); what is sent is what was signed; encoding and decoding are inverse.
  \<^item> \<open>Registry\<close>, \<open>UnknownProto\<close> (\<open>codec\<close>): a registry reachable by any registrations unpacks an \<open>Any\<close> into the type that was
    registered for the interface (locale \<open>registration\<close>); the check for unknown fields decides the inductive
    typing relation \<open>typed\<close> whatever is cached.
  \<^item> \<open>Client\<close>, \<open>Messages\<close>, \<open>Coinswap\<close>, \<open>SdkModules\<close> (\<open>modules\<close>, \<open>utils/cache\<close>): the base client with cache, node and locks, all
    messages with their checks and signers (locale \<open>sdk_msg\<close>), swap prices, and the operations of the module clients.
    A batch is delivered in order with consecutive sequence numbers; the cache is transparent; at most one holder
    has the lock of an account; a valid message has signers; a swap does not lower the product of the reserves.
  \<^item> \<open>WireCodec\<close>, \<open>QueryTypes\<close>, \<open>CoinswapQuery\<close>, \<open>LiquidityService\<close> (\<open>modules/coinswap/query.pd.go\<close> and the generated messages it
    uses): a calculus of round trips with one rule per kind of field, 50 messages with \<open>Marshal\<close>, \<open>Size\<close> and \<open>Unmarshal\<close>, and the query
    service. \<open>Size\<close> is the number of bytes written, every message is read back, and a query through client stub, wire, table and
    handler is the call of the server's method (locales \<open>wire_message\<close> and \<open>unary_call\<close>, one interpretation per method).
    \<open>QueryHooks\<close> has the getters and the hooks of the protobuf runtime (locale \<open>proto_hooks\<close>, one interpretation per message).
  \<^item> \<open>StakingQuery\<close> (\<open>modules/staking\<close>): delegations and their entries, the conversions of the answers and the queries; paging
    through a list loses and repeats nothing (locale \<open>paged_query\<close>).
  \<^item> \<open>GovQuery\<close> (\<open>modules/gov\<close>, \<open>modules/nft\<close>): proposals, the conversions of the answers and the queries; the list queries of gov give
    the first hundred items.
  \<^item> \<open>Accounts\<close>, \<open>StdTx\<close>, \<open>Ed25519\<close> (\<open>modules/auth\<close>, \<open>modules/token\<close>, \<open>types/stdtx.go\<close>, \<open>crypto/keys/ed25519\<close>): accounts as the node sends
    them, which keep their numbers and keys; legacy transactions, which have the signers and pass the check of the protobuf transaction
    with the same messages; generated keys, whose signatures verify.
  \<^item> \<open>Subscriptions\<close> (\<open>modules/tx.go\<close>, \<open>modules/rpc_client.go\<close>, \<open>types/block.go\<close>): a search gives every transaction with the time of its own
    block and asks for each block once; a subscription to transfers calls back for every transfer, and a panic in a handler is fatal.
  \<^item> \<open>Config\<close> (\<open>types/config.go\<close>, \<open>types/errors.go\<close>, \<open>types/utils.go\<close>): a configuration is complete whatever options are given; the codes of
    errors are registered; big-endian numbers are read back.
  \<^item> \<open>Uuid\<close>, \<open>Events\<close> (\<open>utils/uuid\<close>, \<open>types/event.go\<close>, \<open>types/events.go\<close>, \<open>types/result.go\<close>): texts of UUIDs, distinctness of
    time-based UUIDs, grouping of events, query conditions, responses.
  \<^item> \<open>AminoCompat\<close>, \<open>KeyForms\<close> (\<open>codec/types/compat.go\<close>, \<open>codec/amino.go\<close>, \<open>codec/amino_codec.go\<close>, \<open>crypto/codec/amino.go\<close>, the Amino forms of the keys):
    a value with nested \<open>Any\<close>s is packed, encoded by Amino, decoded and unpacked to itself in the three forms (locale \<open>any_wire\<close>, one
    interpretation for the binary and one for the JSON form); the codecs of all packages are initialised without a conflict; keys are read back.
  \<^item> \<open>SignBytes\<close>, \<open>Assembly\<close> (\<open>modules/*/types.go\<close>, \<open>modules/*/codec.go\<close>, \<open>client.go\<close>): routes, types and sign bytes of all messages; the assembly of
    a client registers exactly the types that implement an interface, except the contents of proposals, which therefore do not decode.
  \<^item> \<open>Factory\<close> (\<open>client/tx/factory.go\<close>): the factory as an object with all its setters, each of which changes its own field only (locale
    \<open>factory_field\<close>); the chain of calls in \<open>prepare\<close> builds the context that \<open>Client\<close> works with.
  \<^item> \<open>Facade\<close>, \<open>Responses\<close> (\<open>types/tx/config.go\<close>, \<open>types/tx/sigs.go\<close>, \<open>modules/keys\<close>, \<open>modules/base_client.go\<close>, \<open>types/result.go\<close>,
    \<open>modules/staking/delegation.go\<close>, \<open>modules/gov/proposal.go\<close>): the configuration of transactions, the client for keys, the constructor of the base client,
    answers with their texts, and stored delegations, which are read back (locale \<open>stored\<close>).
  \<^item> \<open>NumberForms\<close>, \<open>Logging\<close> (\<open>types/int.go\<close>, \<open>types/dec.go\<close>, \<open>utils/log\<close>): the JSON, YAML and Amino forms of numbers, which are read back; the logger
    over logrus, whose entries collect the fields of every \<open>With\<close>.
  \<^item> \<open>CodecForms\<close>, \<open>Segments\<close> (\<open>codec/proto_codec.go\<close>, \<open>utils/commom.go\<close>, \<open>modules/bank/export.go\<close>): the JSON forms of the protobuf codec and the forms that
    panic (locale \<open>must_form\<close>); cutting a list into batches through the interface \<open>SplitAble\<close> (locale \<open>split_able\<close>) is cutting the list.

  \<^bold>\<open>Bounds.\<close> Loops are structural or have a proved measure wherever one exists. Four definitions count
  rounds or depth. The decoding loop of \<open>ProtoWire\<close> has \<open>length + 1\<close> rounds: every round reads a byte. The check for unknown
  fields has depth \<open>2 * length + 2\<close>: a nested message is shorter than its field; it is proved never to
  run out. The unpackers of \<open>AminoCompat\<close> follow nested \<open>Any\<close>s to a given depth of the stack, and the round trip holds for every depth that
  reaches the nesting of the value. \<open>ApproxRoot\<close> has the bound on iterations of the source. Key generation reads 32 bytes per attempt from a
  reader of finite length, whose end is the panic of the source. \<open>SendBatch\<close> is a recursion on the messages left
  and the attempts left. \<open>Int\<close> and \<open>Dec\<close> keep the limits of 255 and 315 bits.

  \<^bold>\<open>Concurrency.\<close> The sharded account locks are a step relation over holders; the batch sender is modelled
  as the one holder of its lock, which the exclusion theorem justifies. Locks around caches and the UUID
  generator make each operation one step.

  \<^bold>\<open>Not modelled.\<close> The libraries themselves: JSON, YAML, go-amino, logrus and the protobuf runtime are parameters where the code adds logic around
  them, and the one-line \<open>String\<close> methods that only call the YAML library are left out. Opening of files, connections and web sockets,
  the log lines of the operations, the C sources of libsecp256k1, the descriptors and reflection hooks of the
  generated messages, and the helpers of tests and benchmarks have no logic of their own.
\<close>

end
